(* ===== verification/Prelude.thy ===== *)
theory Prelude
  imports Main "HOL-Library.AList" "HOL-Library.Multiset" "HOL-Library.List_Lexorder"
    "HOL-Library.Char_ord"
begin

text \<open>
  Shared vocabulary of the development.

  \<^item> Go strings are byte strings (\<^typ>\<open>string\<close>); \<open>HOL-Library.List_Lexorder\<close> and
    \<open>HOL-Library.Char_ord\<close> give them the byte-wise lexicographic order of Go's \<open><\<close>.
  \<^item> A Go map is an association list with distinct keys. The order of the list stands for the
    order in which a \<open>range\<close> loop visits the map, which Go leaves unspecified; theorems about code
    that ranges over a map are stated for every such order (invariance under permutation).
  \<^item> A Go \<open>error\<close> is its message together with the classes that \<open>errors.Is\<close>, \<open>k8serr.IsNotFound\<close>,
    \<open>meta.IsNoMatchError\<close> and their kin recognise in its chain. A panic is an error of class
    \<open>Panic\<close>.
  \<^item> A status condition (\<open>common.Condition\<close>) is a record of the fields this code writes.
\<close>

section \<open>Collections of facts\<close>

named_theorems go_map_simps \<open>lookup laws of Go maps modelled as association lists\<close>
named_theorems cond_defs \<open>definitions of status conditions and check results\<close>
named_theorems registry_defs \<open>definitions of the registries and their operations\<close>

section \<open>Errors\<close>

datatype err_kind =
    ErrUnknownNode
  | NotFound
  | NoMatch
  | AlreadyExists
  | Conflict
  | OperatorCRNotFound
  | StopError
  | RequeueAfter int
  | Canceled
  | InvalidAuthenticationConfig
  | AlreadyOwned
  | Panic

datatype go_error = GoError (err_msg: string) (err_kinds: "err_kind list")

text \<open>\<open>errors.Is\<close> and the classifiers of the API machinery.\<close>

definition err_is :: "err_kind \<Rightarrow> go_error \<Rightarrow> bool" where
  "err_is k e \<longleftrightarrow> k \<in> set (err_kinds e)"

text \<open>\<open>fmt.Errorf("...: %w", err)\<close> keeps the chain; \<open>errors.New\<close> starts one.\<close>

definition wrap :: "string \<Rightarrow> go_error \<Rightarrow> go_error" where
  "wrap msg e = GoError (msg @ '': '' @ err_msg e) (err_kinds e)"

definition new_error :: "string \<Rightarrow> go_error" where
  "new_error msg = GoError msg []"

lemma err_is_wrap [simp]: "err_is k (wrap msg e) = err_is k e"
  by (simp add: err_is_def wrap_def)

lemma err_is_new_error [simp]: "\<not> err_is k (new_error msg)"
  by (simp add: err_is_def new_error_def)

lemma err_is_GoError [simp]: "err_is k (GoError m ks) \<longleftrightarrow> k \<in> set ks"
  by (simp add: err_is_def)

section \<open>Status conditions\<close>

text \<open>
  \<open>metav1.ConditionStatus\<close> is a string type in Go, and a status read from a cluster object may hold
  any string, so it stays a string here. The severities are string constants of the framework
  library; \<open>SeverityUnset\<close> is the zero value left by the literals that give no severity, and
  \<open>SeverityOther\<close> any other string a cluster object may carry.
\<close>

abbreviation (input) ConditionTrue :: string where "ConditionTrue \<equiv> ''True''"
abbreviation (input) ConditionFalse :: string where "ConditionFalse \<equiv> ''False''"
abbreviation (input) ConditionUnknown :: string where "ConditionUnknown \<equiv> ''Unknown''"

datatype severity =
    SeverityUnset
  | ConditionSeverityError
  | ConditionSeverityInfo
  | SeverityOther string

record condition =
  cType :: string
  cStatus :: string
  cReason :: string
  cMessage :: string
  cSeverity :: severity

definition cond :: "string \<Rightarrow> string \<Rightarrow> string \<Rightarrow> string \<Rightarrow> condition" where
  "cond ty st rs msg =
     \<lparr>cType = ty, cStatus = st, cReason = rs, cMessage = msg, cSeverity = SeverityUnset\<rparr>"

lemma cond_sel [simp]:
  "cType (cond ty st rs msg) = ty" "cStatus (cond ty st rs msg) = st"
  "cReason (cond ty st rs msg) = rs" "cMessage (cond ty st rs msg) = msg"
  "cSeverity (cond ty st rs msg) = SeverityUnset"
  by (simp_all add: cond_def)

section \<open>Strings\<close>

text \<open>\<open>strings.Join\<close>, \<open>strings.HasPrefix\<close> and decimal formatting (\<open>%d\<close>).\<close>

fun strings_Join :: "string list \<Rightarrow> string \<Rightarrow> string" where
  "strings_Join [] sep = []"
| "strings_Join [x] sep = x"
| "strings_Join (x # y # ys) sep = x @ sep @ strings_Join (y # ys) sep"

fun HasPrefix :: "string \<Rightarrow> string \<Rightarrow> bool" where
  "HasPrefix s [] \<longleftrightarrow> True"
| "HasPrefix [] (p # ps) \<longleftrightarrow> False"
| "HasPrefix (c # s) (p # ps) \<longleftrightarrow> c = p \<and> HasPrefix s ps"

fun fmt_nat :: "nat \<Rightarrow> string" where
  "fmt_nat n = (if n < 10 then [char_of (48 + n)] else fmt_nat (n div 10) @ [char_of (48 + n mod 10)])"

declare fmt_nat.simps [simp del]

definition fmt_int :: "int \<Rightarrow> string" where
  "fmt_int i = (if i < 0 then CHR ''-'' # fmt_nat (nat (- i)) else fmt_nat (nat i))"

text \<open>
  \<open>%q\<close> on ASCII text: quotes, backslashes and control characters are escaped. Bytes of a multi-byte
  character are kept as they are.
\<close>

definition hex_digit :: "nat \<Rightarrow> char" where
  "hex_digit n = (if n < 10 then char_of (48 + n) else char_of (87 + n))"

definition quote_char :: "char \<Rightarrow> string" where
  "quote_char c =
     (let n = of_char c :: nat; esc = (\<lambda>d. [CHR 0x5C, d]) in
      if c = CHR 0x22 \<or> c = CHR 0x5C then esc c
      else if n = 7 then esc (CHR ''a'') else if n = 8 then esc (CHR ''b'')
      else if n = 9 then esc (CHR ''t'') else if n = 10 then esc (CHR ''n'')
      else if n = 11 then esc (CHR ''v'') else if n = 12 then esc (CHR ''f'')
      else if n = 13 then esc (CHR ''r'')
      else if n < 32 \<or> n = 127 then [CHR 0x5C, CHR ''x'', hex_digit (n div 16), hex_digit (n mod 16)]
      else [c])"

definition quoted :: "string \<Rightarrow> string" where
  "quoted s = CHR 0x22 # concat (map quote_char s) @ [CHR 0x22]"

text \<open>An environment variable, or a default when it is unset or empty.\<close>

definition env_GetOrDefault :: "(string \<Rightarrow> string) \<Rightarrow> string \<Rightarrow> string \<Rightarrow> string" where
  "env_GetOrDefault getenv envVar defaultValue = (if getenv envVar \<noteq> '''' then getenv envVar else defaultValue)"

text \<open>\<open>strings.TrimSpace\<close> on ASCII text.\<close>

definition TrimSpace :: "string \<Rightarrow> string" where
  "TrimSpace s =
     (let blank = (\<lambda>c. (of_char c :: nat) \<in> {9, 10, 11, 12, 13, 32}) in rev (dropWhile blank (rev (dropWhile blank s))))"

lemma HasPrefix_append: "HasPrefix s p \<longleftrightarrow> (\<exists>t. s = p @ t)"
  by (induction s p rule: HasPrefix.induct) auto

lemma fmt_nat_not_Nil [simp]: "fmt_nat n \<noteq> []"
  by (subst fmt_nat.simps) simp

section \<open>Cluster objects\<close>

record GVK =
  gvk_Group :: string
  gvk_Version :: string
  gvk_Kind :: string

text \<open>
  A failure reported by the API client. Its classes are those of the API machinery, so it is never
  mistaken for an error of the operator's own.
\<close>

datatype api_kind = ApiNotFound | ApiNoMatch | ApiAlreadyExists | ApiConflict | ApiOther

datatype api_failure = ApiFailure (af_text: string) (af_kind: api_kind)

definition api_error :: "api_failure \<Rightarrow> go_error" where
  "api_error f =
     GoError (af_text f)
       (case af_kind f of ApiNotFound \<Rightarrow> [NotFound] | ApiNoMatch \<Rightarrow> [NoMatch]
        | ApiAlreadyExists \<Rightarrow> [AlreadyExists] | ApiConflict \<Rightarrow> [Conflict] | ApiOther \<Rightarrow> [])"

lemma api_error_known [simp]: "\<not> err_is ErrUnknownNode (api_error f)"
  by (simp add: api_error_def split: api_kind.splits)

text \<open>
  Unstructured objects are read through the accessors of the API machinery, which are parameters:
  \<open>ux_slice\<close> is \<open>unstructured.NestedSlice\<close> along a path (an error, not found, or the entries) and
  \<open>ux_fields\<close> views an entry as a map of strings (\<open>None\<close> when the entry is not a map; a field that is
  missing or not a string reads as the empty string, as the first result of \<open>NestedString\<close> does).
\<close>

record ('o, 'e) accessor =
  ux_slice :: "'o \<Rightarrow> string list \<Rightarrow> go_error + 'e list option"
  ux_fields :: "'e \<Rightarrow> (string \<Rightarrow> string) option"

section \<open>Go maps\<close>

type_synonym ('k, 'v) gomap = "('k \<times> 'v) list"

text \<open>\<open>m[k]\<close> of a missing key is the zero value \<open>z\<close> of the element type.\<close>

definition at_or :: "('k, 'v) gomap \<Rightarrow> 'v \<Rightarrow> 'k \<Rightarrow> 'v" where
  "at_or m z k = (case map_of m k of Some v \<Rightarrow> v | None \<Rightarrow> z)"

text \<open>\<open>maps.Copy(dst, src)\<close>.\<close>

definition maps_Copy :: "('k, 'v) gomap \<Rightarrow> ('k, 'v) gomap \<Rightarrow> ('k, 'v) gomap" where
  "maps_Copy dst src = foldl (\<lambda>m (k, v). AList.update k v m) dst src"

definition gomap_wf :: "('k, 'v) gomap \<Rightarrow> bool" where
  "gomap_wf m \<longleftrightarrow> distinct (map fst m)"

lemma at_or_Nil [simp]: "at_or [] z k = z"
  by (simp add: at_or_def)

lemma map_of_alist_update [go_map_simps]:
  "map_of (AList.update k v m) = (map_of m)(k \<mapsto> v)"
  by (simp add: update_conv')

lemma map_of_alist_delete [go_map_simps]:
  "map_of (AList.delete k m) = (map_of m)(k := None)"
  by (simp add: delete_conv')

lemma at_or_update [go_map_simps]:
  "at_or (AList.update k v m) z k' = (if k' = k then v else at_or m z k')"
  by (simp add: at_or_def update_conv')

lemma set_update_subset: "set (AList.update k v m) \<subseteq> insert (k, v) (set m)"
  by (induction m) auto

lemma update_fresh: "k \<notin> fst ` set m \<Longrightarrow> AList.update k v m = m @ [(k, v)]"
  by (induction m) auto

lemma gomap_wf_Nil [simp]: "gomap_wf []"
  by (simp add: gomap_wf_def)

lemma gomap_wf_update [simp]: "gomap_wf m \<Longrightarrow> gomap_wf (AList.update k v m)"
  by (simp add: gomap_wf_def distinct_update)

lemma gomap_wf_delete [simp]: "gomap_wf m \<Longrightarrow> gomap_wf (AList.delete k m)"
  by (simp add: gomap_wf_def distinct_delete)

lemma gomap_wf_maps_Copy [simp]: "gomap_wf m \<Longrightarrow> gomap_wf (maps_Copy m src)"
  unfolding maps_Copy_def
  by (induction src arbitrary: m) (auto split: prod.splits)

lemma map_of_perm:
  assumes "gomap_wf m" and "mset m = mset m'"
  shows "map_of m = map_of m'"
proof -
  from assms(2) have "mset (map fst m) = mset (map fst m')"
    by (metis mset_map)
  with assms(1) have "distinct (map fst m')"
    by (metis gomap_wf_def mset_eq_imp_distinct_iff)
  moreover from assms(2) have "set m = set m'"
    by (rule mset_eq_setD)
  ultimately show ?thesis
    using assms(1) by (simp add: gomap_wf_def map_of_inject_set)
qed

lemma map_of_maps_Copy [go_map_simps]:
  "gomap_wf src \<Longrightarrow> map_of (maps_Copy dst src) = map_of dst ++ map_of src"
proof -
  have "map_of (maps_Copy dst src) = map_of dst ++ map_of (rev src)"
    unfolding maps_Copy_def
    by (induction src arbitrary: dst)
      (auto simp: update_conv' map_add_def fun_eq_iff split: option.splits)
  moreover assume "gomap_wf src"
  ultimately show ?thesis
    by (simp add: map_of_perm [of src "rev src"])
qed

end
