(* ===== verification/Dag.thy ===== *)
theory Dag
  imports Prelude
begin

text \<open>
  \<open>pkg/controller/dag/dag.go\<close>: runlevels, the generic graph and its resolution into batches, the
  per-runlevel timeout policies, the stuck tracker and the composite readiness checker.

  \<open>Graph[T Node]\<close> is generic in its node type, so the operations take the two methods of the
  \<open>Node\<close> interface (\<open>nm\<close> for \<open>GetName\<close>, \<open>rl\<close> for \<open>GetRunlevel\<close>) as arguments. Durations and
  instants are integers counting nanoseconds.
\<close>

section \<open>Runlevels and nodes\<close>

record Runlevel =
  Order :: int

definition RL :: "int \<Rightarrow> Runlevel" where
  "RL order = \<lparr>Order = order\<rparr>"

text \<open>\<open>%02d\<close>: at least two characters, padded with zeros after the sign.\<close>

definition Runlevel_String :: "Runlevel \<Rightarrow> string" where
  "Runlevel_String r =
     (if 0 \<le> Order r \<and> Order r < 10 then CHR ''0'' # fmt_int (Order r) else fmt_int (Order r))"

section \<open>Graphs\<close>

record 'n Graph =
  g_nodes :: "(string, 'n) gomap"

definition NewGraph :: "'n Graph" where
  "NewGraph = \<lparr>g_nodes = []\<rparr>"

definition graph_Add :: "('n \<Rightarrow> string) \<Rightarrow> 'n \<Rightarrow> 'n Graph \<Rightarrow> 'n Graph" where
  "graph_Add nm node g = g\<lparr>g_nodes := AList.update (nm node) node (g_nodes g)\<rparr>"

definition groupByRunlevel :: "('n \<Rightarrow> Runlevel) \<Rightarrow> 'n Graph \<Rightarrow> (int, 'n list) gomap" where
  "groupByRunlevel rl g =
     foldl (\<lambda>groups node.
         let key = Order (rl node)
         in AList.update key (at_or groups [] key @ [node]) groups)
       [] (map snd (g_nodes g))"

text \<open>
  \<open>sort.Slice\<close> is not stable; \<open>sort_key\<close> applied to the nodes in the unspecified order of the map
  covers every result it may give. The resolution never fails: the error result of the Go
  signature is always \<open>nil\<close>. A nil slice and an empty slice are both \<open>[]\<close>.
\<close>

definition Resolve ::
  "('n \<Rightarrow> string) \<Rightarrow> ('n \<Rightarrow> Runlevel) \<Rightarrow> 'n Graph \<Rightarrow> go_error + 'n list list" where
  "Resolve nm rl g =
     (if g_nodes g = [] then Inr []
      else
        let groups = groupByRunlevel rl g;
            keys = sort (map fst groups)
        in Inr (map (\<lambda>order. sort_key nm (at_or groups [] order)) keys))"

text \<open>The in-place reversal loop \<open>for i, j := 0, len-1; i < j; i, j = i+1, j-1\<close>.\<close>

function swap_loop :: "nat \<Rightarrow> nat \<Rightarrow> 'a list \<Rightarrow> 'a list" where
  "swap_loop i j xs =
     (if i < j then swap_loop (Suc i) (j - 1) (xs[i := xs ! j, j := xs ! i]) else xs)"
  by pat_completeness auto
termination
  by (relation "measure (\<lambda>(i, j, xs). j - i)") auto

declare swap_loop.simps [simp del]

definition reverse_in_place :: "'a list \<Rightarrow> 'a list" where
  "reverse_in_place xs = swap_loop 0 (length xs - 1) xs"

definition ReverseBatches ::
  "('n \<Rightarrow> string) \<Rightarrow> ('n \<Rightarrow> Runlevel) \<Rightarrow> 'n Graph \<Rightarrow> go_error + 'n list list" where
  "ReverseBatches nm rl g =
     (case Resolve nm rl g of
        Inl err \<Rightarrow> Inl err
      | Inr batches \<Rightarrow> Inr (map reverse_in_place (reverse_in_place batches)))"

section \<open>Runlevel policies\<close>

record RunlevelPolicy =
  Timeout :: int

type_synonym policy_overrides = "(int, RunlevelPolicy) gomap"

abbreviation nanosecond :: int where "nanosecond \<equiv> 1"
abbreviation second :: int where "second \<equiv> 1000000000"
abbreviation minute :: int where "minute \<equiv> 60000000000"
abbreviation hour :: int where "hour \<equiv> 3600000000000"

definition DefaultTimeout :: int where
  "DefaultTimeout = 10 * minute"

definition SetRunlevelPolicy :: "int \<Rightarrow> RunlevelPolicy \<Rightarrow> policy_overrides \<Rightarrow> policy_overrides" where
  "SetRunlevelPolicy order policy ovr = AList.update order policy ovr"

definition ClearRunlevelPolicy :: "int \<Rightarrow> policy_overrides \<Rightarrow> policy_overrides" where
  "ClearRunlevelPolicy order ovr = AList.delete order ovr"

definition GetRunlevelPolicy :: "policy_overrides \<Rightarrow> int \<Rightarrow> RunlevelPolicy" where
  "GetRunlevelPolicy ovr order =
     (case map_of ovr order of Some p \<Rightarrow> p | None \<Rightarrow> \<lparr>Timeout = DefaultTimeout\<rparr>)"

text \<open>
  \<open>time.Duration.String\<close> of a whole number of seconds: hours and minutes appear once they are
  nonzero. Go's \<open>%\<close> and \<open>/\<close> truncate towards zero; \<open>d % u == 0\<close> is divisibility for both roundings,
  and \<open>Truncate\<close> rounds towards zero.
\<close>

definition secs_string :: "nat \<Rightarrow> string" where
  "secs_string s =
     (let m = s div 60; h = m div 60 in
      (if m = 0 then '''' else if h = 0 then fmt_nat m @ ''m''
       else fmt_nat h @ ''h'' @ fmt_nat (m mod 60) @ ''m'')
      @ fmt_nat (s mod 60) @ ''s'')"

definition trunc_secs_string :: "int \<Rightarrow> string" where
  "trunc_secs_string d =
     (let s = nat (\<bar>d\<bar> div second) in
      if d < 0 \<and> s \<noteq> 0 then CHR ''-'' # secs_string s else secs_string s)"

definition FormatDuration :: "int \<Rightarrow> string" where
  "FormatDuration d =
     (if d = 0 then ''indefinitely''
      else if d = hour then ''1 hour''
      else if d mod minute = 0 then
        let m = d div minute in
        if m = 1 then ''1 minute'' else fmt_int m @ '' minutes''
      else trunc_secs_string d)"

section \<open>Stuck tracker\<close>

record stuckKey =
  instance_id :: string
  runlevelOrder :: int

record StuckTracker =
  timestamps :: "(stuckKey, int) gomap"

definition NewStuckTracker :: StuckTracker where
  "NewStuckTracker = \<lparr>timestamps = []\<rparr>"

text \<open>
  \<open>Since\<close> reads the wall clock only on the first call for a key; \<open>now\<close> is that reading. The result
  is the recorded instant and the tracker.
\<close>

definition Since :: "int \<Rightarrow> string \<Rightarrow> int \<Rightarrow> StuckTracker \<Rightarrow> int \<times> StuckTracker" where
  "Since now inst ord t =
     (let k = \<lparr>instance_id = inst, runlevelOrder = ord\<rparr> in
      case map_of (timestamps t) k of
        Some ts \<Rightarrow> (ts, t)
      | None \<Rightarrow> (now, t\<lparr>timestamps := AList.update k now (timestamps t)\<rparr>))"

definition Clear :: "string \<Rightarrow> int \<Rightarrow> StuckTracker \<Rightarrow> StuckTracker" where
  "Clear inst ord t =
     t\<lparr>timestamps := AList.delete \<lparr>instance_id = inst, runlevelOrder = ord\<rparr> (timestamps t)\<rparr>"

abbreviation stuck_at :: "StuckTracker \<Rightarrow> string \<Rightarrow> int \<Rightarrow> int option" where
  "stuck_at t inst ord \<equiv> map_of (timestamps t) \<lparr>instance_id = inst, runlevelOrder = ord\<rparr>"

section \<open>Readiness checkers\<close>

type_synonym readiness_checker = "string \<Rightarrow> bool \<times> go_error option"

fun CompositeChecker_IsReady :: "readiness_checker list \<Rightarrow> readiness_checker" where
  "CompositeChecker_IsReady [] name =
     (False, Some (GoError (''no checker recognizes node '' @ quoted name) [ErrUnknownNode]))"
| "CompositeChecker_IsReady (checker # cs) name =
     (case checker name of
        (ready, Some err) \<Rightarrow>
          if err_is ErrUnknownNode err then CompositeChecker_IsReady cs name
          else (False, Some err)
      | (ready, None) \<Rightarrow> (ready, None))"

section \<open>Resolution agrees with its specification\<close>

definition runlevel_batches :: "('n \<Rightarrow> string) \<Rightarrow> ('n \<Rightarrow> Runlevel) \<Rightarrow> 'n list \<Rightarrow> 'n list list" where
  "runlevel_batches nm rl ns =
     map (\<lambda>ord. sort_key nm (filter (\<lambda>n. Order (rl n) = ord) ns))
       (sorted_list_of_set ((\<lambda>n. Order (rl n)) ` set ns))"

definition graph_wf :: "('n \<Rightarrow> string) \<Rightarrow> 'n Graph \<Rightarrow> bool" where
  "graph_wf nm g \<longleftrightarrow> gomap_wf (g_nodes g) \<and> (\<forall>(k, n) \<in> set (g_nodes g). k = nm n)"

abbreviation graph_list :: "'n Graph \<Rightarrow> 'n list" where
  "graph_list g \<equiv> map snd (g_nodes g)"

definition group_step where
  "group_step rl groups node =
     (let key = Order (rl node) in AList.update key (at_or groups [] key @ [node]) groups)"

lemma group_fold:
  "at_or (foldl (group_step rl) G ns) [] k = at_or G [] k @ filter (\<lambda>n. Order (rl n) = k) ns"
  "fst ` set (foldl (group_step rl) G ns) = fst ` set G \<union> (\<lambda>n. Order (rl n)) ` set ns"
  "distinct (map fst G) \<Longrightarrow> distinct (map fst (foldl (group_step rl) G ns))"
  by (induction ns arbitrary: G)
    (auto simp: group_step_def Let_def go_map_simps dom_update distinct_update)

lemma groupByRunlevel_fold: "groupByRunlevel rl g = foldl (group_step rl) [] (graph_list g)"
  by (simp add: groupByRunlevel_def group_step_def [abs_def])

lemma at_or_groupByRunlevel:
  "at_or (groupByRunlevel rl g) [] k = filter (\<lambda>n. Order (rl n) = k) (graph_list g)"
  by (simp add: groupByRunlevel_fold group_fold)

lemma keys_groupByRunlevel:
  "sort (map fst (groupByRunlevel rl g)) =
     sorted_list_of_set ((\<lambda>n. Order (rl n)) ` set (graph_list g))"
proof -
  have "distinct (map fst (groupByRunlevel rl g))"
    by (simp add: groupByRunlevel_fold group_fold)
  moreover have "set (map fst (groupByRunlevel rl g)) = (\<lambda>n. Order (rl n)) ` set (graph_list g)"
    by (simp add: groupByRunlevel_fold group_fold)
  ultimately show ?thesis
    by (metis sorted_list_of_set_sort_remdups distinct_remdups_id)
qed

lemma Resolve_runlevel_batches: "Resolve nm rl g = Inr (runlevel_batches nm rl (graph_list g))"
  by (simp add: Resolve_def runlevel_batches_def at_or_groupByRunlevel keys_groupByRunlevel Let_def)

lemma swap_loop_length [simp]: "length (swap_loop i j xs) = length xs"
  by (induction i j xs rule: swap_loop.induct) (subst swap_loop.simps, simp)

lemma swap_loop_nth:
  assumes "i \<le> length xs" "j < length xs" "k < length xs"
  shows "swap_loop i j xs ! k = (if i \<le> k \<and> k \<le> j then xs ! (i + j - k) else xs ! k)"
  using assms
proof (induction i j xs arbitrary: k rule: swap_loop.induct)
  case (1 i j xs)
  show ?case
  proof (cases "i < j")
    case True
    with "1.prems" have IH: "swap_loop (Suc i) (j - 1) (xs[i := xs ! j, j := xs ! i]) ! k =
        (if Suc i \<le> k \<and> k \<le> j - 1 then xs[i := xs ! j, j := xs ! i] ! (Suc i + (j - 1) - k)
         else xs[i := xs ! j, j := xs ! i] ! k)"
      by (intro "1.IH") auto
    from True have "Suc i + (j - 1) - k = i + j - k" by simp
    with True IH "1.prems" show ?thesis
      by (subst swap_loop.simps) (auto simp: nth_list_update)
  next
    case False
    then have "i \<le> k \<and> k \<le> j \<Longrightarrow> i + j - k = k" by linarith
    with False show ?thesis
      by (subst swap_loop.simps) auto
  qed
qed

lemma reverse_in_place_rev: "reverse_in_place xs = rev xs"
proof (cases "xs = []")
  case True
  then show ?thesis by (simp add: reverse_in_place_def swap_loop.simps)
next
  case False
  then show ?thesis
    by (intro nth_equalityI)
      (auto simp: reverse_in_place_def swap_loop_nth rev_nth less_Suc_eq_le)
qed


section \<open>What a list of batches promises\<close>

definition batches_ok ::
  "('n \<Rightarrow> string) \<Rightarrow> ('n \<Rightarrow> Runlevel) \<Rightarrow> 'n list \<Rightarrow> 'n list list \<Rightarrow> bool" where
  "batches_ok nm rl ns bs \<longleftrightarrow>
     mset (concat bs) = mset ns \<and>
     (\<forall>b \<in> set bs. b \<noteq> [] \<and> sorted (map nm b) \<and> (\<forall>n \<in> set b. Order (rl n) = Order (rl (hd b)))) \<and>
     sorted_wrt (\<lambda>b c. \<forall>m \<in> set b. \<forall>n \<in> set c. Order (rl m) < Order (rl n)) bs"

lemma mset_concat_filter:
  assumes "distinct ks" and "f ` set ns \<subseteq> set ks"
  shows "mset (concat (map (\<lambda>k. sort_key nm (filter (\<lambda>n. f n = k) ns)) ks)) = mset ns"
  using assms
proof (induction ks arbitrary: ns)
  case Nil
  then show ?case by simp
next
  case (Cons k ks)
  let ?rest = "filter (\<lambda>n. f n \<noteq> k) ns"
  from Cons.prems have eq: "filter (\<lambda>n. f n = k') ns = filter (\<lambda>n. f n = k') ?rest" if "k' \<in> set ks" for k'
    using that by (auto intro!: filter_cong)
  have "mset (concat (map (\<lambda>k. sort_key nm (filter (\<lambda>n. f n = k) ns)) ks)) = mset ?rest"
  proof -
    have *: "map (\<lambda>k. sort_key nm (filter (\<lambda>n. f n = k) ns)) ks =
        map (\<lambda>k. sort_key nm (filter (\<lambda>n. f n = k) ?rest)) ks"
      by (rule map_cong [OF refl]) (simp only: eq)
    show ?thesis
      unfolding * using Cons.prems by (intro Cons.IH) auto
  qed
  then show ?case
    by (simp add: multiset_partition [of "mset ns" "\<lambda>n. f n = k", symmetric] mset_filter)
qed

lemma runlevel_batches_ok: "batches_ok nm rl ns (runlevel_batches nm rl ns)"
proof -
  let ?f = "\<lambda>n. Order (rl n)"
  have "mset (concat (runlevel_batches nm rl ns)) = mset ns"
    unfolding runlevel_batches_def by (rule mset_concat_filter) auto
  moreover have "b \<noteq> [] \<and> sorted (map nm b) \<and> (\<forall>n \<in> set b. ?f n = ?f (hd b))"
    if b: "b \<in> set (runlevel_batches nm rl ns)" for b
  proof -
    from b obtain n where n: "n \<in> set ns" "b = sort_key nm (filter (\<lambda>m. ?f m = ?f n) ns)"
      by (auto simp: runlevel_batches_def)
    then have set_b: "set b = {m \<in> set ns. ?f m = ?f n}" by simp
    with n(1) have ne: "b \<noteq> []" by (metis (mono_tags) empty_iff empty_set mem_Collect_eq)
    then have "hd b \<in> set b" by (rule hd_in_set)
    with set_b have "\<forall>m \<in> set b. ?f m = ?f (hd b)" by simp
    moreover from n(2) have "sorted (map nm b)" by simp
    ultimately show ?thesis using ne by blast
  qed
  moreover have "sorted_wrt (\<lambda>b c. \<forall>m \<in> set b. \<forall>n \<in> set c. ?f m < ?f n) (runlevel_batches nm rl ns)"
    unfolding runlevel_batches_def sorted_wrt_map
    using strict_sorted_list_of_set by (rule sorted_wrt_mono_rel [rotated]) simp
  ultimately show ?thesis unfolding batches_ok_def by blast
qed

lemma runlevel_batches_perm:
  assumes "mset ns = mset ns'" and "inj_on nm (set ns)"
  shows "runlevel_batches nm rl ns = runlevel_batches nm rl ns'"
proof -
  from assms(1) have "set ns = set ns'" by (rule mset_eq_setD)
  moreover have "sort_key nm (filter P ns) = sort_key nm (filter P ns')" for P
    using assms by (intro sort_key_eq_sort_key) (auto simp: inj_on_def)
  ultimately show ?thesis by (simp add: runlevel_batches_def)
qed

lemma graph_wf_NewGraph [simp]: "graph_wf nm NewGraph"
  by (simp add: graph_wf_def NewGraph_def)

lemma graph_wf_Add [simp]: "graph_wf nm g \<Longrightarrow> graph_wf nm (graph_Add nm n g)"
  by (auto simp: graph_wf_def graph_Add_def gomap_wf_def distinct_update dest!: subsetD [OF set_update_subset])

lemma graph_wf_inj:
  assumes "graph_wf nm g"
  shows "inj_on nm (set (graph_list g))"
proof -
  have "map nm (graph_list g) = map fst (g_nodes g)"
    using assms by (auto simp: graph_wf_def)
  moreover have "distinct (map fst (g_nodes g))"
    using assms by (simp add: graph_wf_def gomap_wf_def)
  ultimately have "distinct (map nm (graph_list g))"
    by (simp only:)
  then show ?thesis by (simp only: distinct_map)
qed

section \<open>Policies and the stuck tracker\<close>

lemma GetRunlevelPolicy_Set:
  "GetRunlevelPolicy (SetRunlevelPolicy o1 p ovr) o2 = (if o2 = o1 then p else GetRunlevelPolicy ovr o2)"
  by (simp add: GetRunlevelPolicy_def SetRunlevelPolicy_def go_map_simps)

lemma GetRunlevelPolicy_Clear:
  "GetRunlevelPolicy (ClearRunlevelPolicy o1 ovr) o2 =
     (if o2 = o1 then \<lparr>Timeout = DefaultTimeout\<rparr> else GetRunlevelPolicy ovr o2)"
  by (simp add: GetRunlevelPolicy_def ClearRunlevelPolicy_def go_map_simps)

lemma Since_fst: "fst (Since now inst ord t) = (case stuck_at t inst ord of Some ts \<Rightarrow> ts | None \<Rightarrow> now)"
  by (simp add: Since_def Let_def split: option.splits)

lemma Since_snd_same: "stuck_at (snd (Since now inst ord t)) inst ord = Some (fst (Since now inst ord t))"
  by (simp add: Since_def Let_def go_map_simps split: option.splits)

lemma Since_snd_other:
  "(inst', ord') \<noteq> (inst, ord) \<Longrightarrow> stuck_at (snd (Since now inst ord t)) inst' ord' = stuck_at t inst' ord'"
  by (auto simp: Since_def Let_def go_map_simps split: option.splits)

lemma Clear_stuck_at:
  "stuck_at (Clear inst ord t) inst' ord' =
     (if (inst', ord') = (inst, ord) then None else stuck_at t inst' ord')"
  by (auto simp: Clear_def go_map_simps)

section \<open>The contract of a readiness checker\<close>

text \<open>
  What the DAG walk relies on: a checker answers \<open>ErrUnknownNode\<close> exactly for the names it does not
  know, so that the composite can dispatch, and never reports a node ready together with an error.
\<close>

locale readiness =
  fixes is_ready :: readiness_checker and known :: "string set"
  assumes unknown_iff:
      "(\<exists>e. snd (is_ready n) = Some e \<and> err_is ErrUnknownNode e) \<longleftrightarrow> n \<notin> known"
    and error_not_ready: "snd (is_ready n) = Some e \<Longrightarrow> \<not> fst (is_ready n)"
begin

lemma known_error: "n \<in> known \<Longrightarrow> snd (is_ready n) = Some e \<Longrightarrow> \<not> err_is ErrUnknownNode e"
  using unknown_iff by blast

lemma unknown_error: "n \<notin> known \<Longrightarrow> \<exists>e. snd (is_ready n) = Some e \<and> err_is ErrUnknownNode e"
  using unknown_iff by blast

lemma composite_first:
  "CompositeChecker_IsReady (is_ready # cs) n =
     (if n \<in> known then is_ready n else CompositeChecker_IsReady cs n)"
proof (cases "snd (is_ready n)")
  case None
  moreover from None have "n \<in> known" using unknown_error by fastforce
  ultimately show ?thesis by (cases "is_ready n") simp
next
  case (Some e)
  then show ?thesis
    using known_error [of n e] unknown_error [of n] error_not_ready [of n e]
    by (cases "is_ready n") auto
qed

end

text \<open>Two checkers in a row satisfy the same contract for the union of their names.\<close>

locale readiness_pair =
  fst_checker: readiness c1 k1 + snd_checker: readiness c2 k2
  for c1 k1 c2 k2
begin

lemma composite_pair:
  "CompositeChecker_IsReady [c1, c2] n =
     (if n \<in> k1 then c1 n
      else if n \<in> k2 then c2 n
      else (False, Some (GoError (''no checker recognizes node '' @ quoted n) [ErrUnknownNode])))"
  by (simp add: fst_checker.composite_first snd_checker.composite_first
      del: CompositeChecker_IsReady.simps(2))

end

sublocale readiness_pair \<subseteq> both: readiness "CompositeChecker_IsReady [c1, c2]" "k1 \<union> k2"
proof unfold_locales
  fix n
  show "(\<exists>e. snd (CompositeChecker_IsReady [c1, c2] n) = Some e \<and> err_is ErrUnknownNode e) \<longleftrightarrow>
      n \<notin> k1 \<union> k2"
    by (simp add: composite_pair fst_checker.unknown_iff snd_checker.unknown_iff del: CompositeChecker_IsReady.simps)
next
  fix n e
  assume "snd (CompositeChecker_IsReady [c1, c2] n) = Some e"
  then show "\<not> fst (CompositeChecker_IsReady [c1, c2] n)"
    by (auto simp: composite_pair simp del: CompositeChecker_IsReady.simps
        dest: fst_checker.error_not_ready snd_checker.error_not_ready split: if_splits)
qed

section \<open>Properties\<close>

text \<open>Nodes used by the witnesses: a name and a runlevel.\<close>

definition demo_graph :: "(string \<times> int) Graph" where
  "demo_graph = graph_Add fst (''kserve'', 20) (graph_Add fst (''dashboard'', 10)
     (graph_Add fst (''kueue'', 10) NewGraph))"

definition demo_rl :: "string \<times> int \<Rightarrow> Runlevel" where
  "demo_rl n = RL (snd n)"

lemma demo_graph_wf: "graph_wf fst demo_graph"
  by (simp add: demo_graph_def)

text \<open>
  C12. Resolution. Resolving a graph never fails; it puts every node into exactly one batch, gives each
  batch the nodes of one runlevel sorted by name, and lists the batches by strictly ascending
  runlevel. The result does not depend on the order in which the node map is traversed.
\<close>

theorem resolve_into_batches:
  fixes g :: "'n Graph"
  assumes "graph_wf nm g"
  shows "\<exists>bs. batches_ok nm rl (graph_list g) bs \<and>
    (\<forall>g' :: 'n Graph. mset (g_nodes g') = mset (g_nodes g) \<longrightarrow> Resolve nm rl g' = Inr bs)"
proof (intro exI conjI allI impI)
  show "batches_ok nm rl (graph_list g) (runlevel_batches nm rl (graph_list g))"
    by (rule runlevel_batches_ok)
  fix g' :: "'n Graph" assume "mset (g_nodes g') = mset (g_nodes g)"
  then have "mset (graph_list g) = mset (graph_list g')" by (metis mset_map)
  from runlevel_batches_perm [OF this graph_wf_inj [OF assms]]
  show "Resolve nm rl g' = Inr (runlevel_batches nm rl (graph_list g))"
    by (simp add: Resolve_runlevel_batches)
qed

theorem resolve_into_batches_witness:
  "batches_ok fst demo_rl (graph_list demo_graph)
     [[(''dashboard'', 10), (''kueue'', 10)], [(''kserve'', 20)]]"
proof -
  have "Resolve fst demo_rl demo_graph = Inr [[(''dashboard'', 10), (''kueue'', 10)], [(''kserve'', 20)]]"
    by code_simp
  with resolve_into_batches [OF demo_graph_wf, of demo_rl] show ?thesis by auto
qed

text \<open>
  Reverse resolution. The swap loops of \<open>ReverseBatches\<close> give the exact mirror of the resolution:
  the batches by descending runlevel, and the nodes of each batch by descending name.
\<close>

theorem reverse_batches_mirror:
  "ReverseBatches nm rl g = map_sum id (\<lambda>bs. rev (map rev bs)) (Resolve nm rl g)"
  by (simp add: ReverseBatches_def Resolve_runlevel_batches reverse_in_place_rev rev_map)

text \<open>
  A timeout that is a whole number of minutes other than one minute and one hour is printed in
  minutes, so one hour and a half reads \<open>90 minutes\<close>.
\<close>

lemma FormatDuration_minutes:
  assumes "n \<noteq> 0" "n \<noteq> 1" "n \<noteq> 60"
  shows "FormatDuration (n * minute) = fmt_int n @ '' minutes''"
  using assms by (simp add: FormatDuration_def)

lemma FormatDuration_hour_and_half: "FormatDuration (hour + 30 * minute) = ''90 minutes''"
  by code_simp

end
