(* ===== verification/Provision.thy ===== *)
theory Provision
  imports Dag
begin

text \<open>
  \<open>pkg/controller/provision/unified.go\<close> and \<open>runlevel_tracker.go\<close>: the unified registry of
  components and modules with its cache of resolved batches, and the tracker of cleared runlevels.

  The contract every batch registry of the operator keeps (this one, the module registry and the
  component registry) is the locale \<open>batch_registry\<close>: a cache that is either empty or equal to the
  resolution of the registry's present contents. The registry's read/write lock is modelled by the
  atomicity of the two critical sections of \<open>ResolvedBatches\<close>; the step relation \<open>reg_step\<close>
  interleaves them with the mutators of other goroutines.
\<close>

section \<open>The unified registry\<close>

datatype NodeKind = KindComponent | KindModule

record UnifiedNode =
  n_name :: string
  n_kind :: NodeKind
  n_runlevel :: Runlevel
  n_enabled :: bool

record UnifiedRegistry =
  u_nodes :: "(string, UnifiedNode) gomap"
  u_order :: "string list"
  u_resolvedCache :: "UnifiedNode list list"

definition NewRegistry :: UnifiedRegistry where
  "NewRegistry = \<lparr>u_nodes = [], u_order = [], u_resolvedCache = []\<rparr>"

definition zero_node :: UnifiedNode where
  "zero_node = \<lparr>n_name = '''', n_kind = KindComponent, n_runlevel = RL 0, n_enabled = False\<rparr>"

definition unified_Add ::
  "string \<Rightarrow> NodeKind \<Rightarrow> Runlevel \<Rightarrow> UnifiedRegistry \<Rightarrow> UnifiedRegistry" where
  "unified_Add name kind runlevel r =
     (let node = \<lparr>n_name = name, n_kind = kind, n_runlevel = runlevel, n_enabled = True\<rparr> in
      r\<lparr>u_order := (if map_of (u_nodes r) name = None then u_order r @ [name] else u_order r),
        u_nodes := AList.update name node (u_nodes r),
        u_resolvedCache := []\<rparr>)"

definition unified_setEnabledLocked :: "string \<Rightarrow> bool \<Rightarrow> UnifiedRegistry \<Rightarrow> UnifiedRegistry" where
  "unified_setEnabledLocked name enabled r =
     (case map_of (u_nodes r) name of
        Some n \<Rightarrow> r\<lparr>u_nodes := AList.update name (n\<lparr>n_enabled := enabled\<rparr>) (u_nodes r),
                    u_resolvedCache := []\<rparr>
      | None \<Rightarrow> r)"

definition unified_Enable :: "string \<Rightarrow> UnifiedRegistry \<Rightarrow> UnifiedRegistry" where
  "unified_Enable name r = unified_setEnabledLocked name True r"

definition unified_Disable :: "string \<Rightarrow> UnifiedRegistry \<Rightarrow> UnifiedRegistry" where
  "unified_Disable name r = unified_setEnabledLocked name False r"

definition unified_Reset :: "UnifiedRegistry \<Rightarrow> UnifiedRegistry" where
  "unified_Reset r = r\<lparr>u_nodes := [], u_order := [], u_resolvedCache := []\<rparr>"

definition LookupOrder :: "string \<Rightarrow> UnifiedRegistry \<Rightarrow> int \<times> bool" where
  "LookupOrder name r =
     (case map_of (u_nodes r) name of
        None \<Rightarrow> (0, False)
      | Some node \<Rightarrow> (Order (n_runlevel node), True))"

definition InvalidateCache :: "UnifiedRegistry \<Rightarrow> UnifiedRegistry" where
  "InvalidateCache r = r\<lparr>u_resolvedCache := []\<rparr>"

text \<open>The graph-building loop of \<open>ResolvedBatches\<close> and \<open>ReverseBatches\<close>, over \<open>r.order\<close>.\<close>

definition enabled_graph :: "UnifiedRegistry \<Rightarrow> UnifiedNode Graph" where
  "enabled_graph r =
     foldl (\<lambda>g name.
         let n = at_or (u_nodes r) zero_node name in
         if \<not> n_enabled n then g else graph_Add n_name n g)
       NewGraph (u_order r)"

definition full_graph :: "UnifiedRegistry \<Rightarrow> UnifiedNode Graph" where
  "full_graph r =
     foldl (\<lambda>g name. graph_Add n_name (at_or (u_nodes r) zero_node name) g) NewGraph (u_order r)"

text \<open>
  \<open>ResolvedBatches\<close> has two critical sections. The first, under the read lock, returns the cache if
  there is one; the second, under the write lock, checks again, resolves and stores.
\<close>

definition ResolvedBatches_RLock :: "UnifiedRegistry \<Rightarrow> UnifiedNode list list option" where
  "ResolvedBatches_RLock r = (if u_resolvedCache r \<noteq> [] then Some (u_resolvedCache r) else None)"

definition ResolvedBatches_Lock ::
  "UnifiedRegistry \<Rightarrow> (go_error + UnifiedNode list list) \<times> UnifiedRegistry" where
  "ResolvedBatches_Lock r =
     (if u_resolvedCache r \<noteq> [] then (Inr (u_resolvedCache r), r)
      else case Resolve n_name n_runlevel (enabled_graph r) of
        Inl err \<Rightarrow> (Inl err, r)
      | Inr batches \<Rightarrow> (Inr batches, r\<lparr>u_resolvedCache := batches\<rparr>))"

definition ResolvedBatches ::
  "UnifiedRegistry \<Rightarrow> (go_error + UnifiedNode list list) \<times> UnifiedRegistry" where
  "ResolvedBatches r =
     (case ResolvedBatches_RLock r of
        Some batches \<Rightarrow> (Inr batches, r)
      | None \<Rightarrow> ResolvedBatches_Lock r)"

definition unified_ReverseBatches :: "UnifiedRegistry \<Rightarrow> go_error + UnifiedNode list list" where
  "unified_ReverseBatches r = ReverseBatches n_name n_runlevel (enabled_graph r)"

definition ReverseBatchesAll :: "UnifiedRegistry \<Rightarrow> go_error + UnifiedNode list list" where
  "ReverseBatchesAll r = ReverseBatches n_name n_runlevel (full_graph r)"

definition filterBatch :: "UnifiedNode list \<Rightarrow> NodeKind \<Rightarrow> UnifiedNode list" where
  "filterBatch batch kind = filter (\<lambda>n. n_kind n = kind) batch"

definition ComponentsInBatch :: "UnifiedNode list \<Rightarrow> UnifiedNode list" where
  "ComponentsInBatch batch = filterBatch batch KindComponent"

definition ModulesInBatch :: "UnifiedNode list \<Rightarrow> UnifiedNode list" where
  "ModulesInBatch batch = filterBatch batch KindModule"

lemmas unified_mutator_defs [registry_defs] =
  unified_Add_def unified_setEnabledLocked_def unified_Enable_def unified_Disable_def
  unified_Reset_def InvalidateCache_def

section \<open>The runlevel tracker\<close>

record RunlevelTracker =
  rt_version :: string
  rt_clearedUpTo :: int

definition zero_tracker :: RunlevelTracker where
  "zero_tracker = \<lparr>rt_version = '''', rt_clearedUpTo = 0\<rparr>"

definition MarkCleared :: "string \<Rightarrow> int \<Rightarrow> RunlevelTracker \<Rightarrow> RunlevelTracker" where
  "MarkCleared version order t =
     (if rt_version t \<noteq> version then t\<lparr>rt_version := version, rt_clearedUpTo := order\<rparr>
      else if order > rt_clearedUpTo t then t\<lparr>rt_clearedUpTo := order\<rparr>
      else t)"

definition IsCleared :: "string \<Rightarrow> int \<Rightarrow> RunlevelTracker \<Rightarrow> bool" where
  "IsCleared version order t \<longleftrightarrow> rt_version t = version \<and> order \<le> rt_clearedUpTo t"

definition RunlevelTracker_Reset :: "RunlevelTracker \<Rightarrow> RunlevelTracker" where
  "RunlevelTracker_Reset t = t\<lparr>rt_version := '''', rt_clearedUpTo := 0\<rparr>"

lemma IsCleared_MarkCleared_same:
  "IsCleared v ord (MarkCleared v mark t) \<longleftrightarrow> ord \<le> mark \<or> IsCleared v ord t"
  by (auto simp: IsCleared_def MarkCleared_def)

lemma IsCleared_MarkCleared_other:
  "v' \<noteq> v \<Longrightarrow> \<not> IsCleared v' ord (MarkCleared v mark t)"
  by (auto simp: IsCleared_def MarkCleared_def)

lemma IsCleared_downward: "IsCleared v ord t \<Longrightarrow> ord' \<le> ord \<Longrightarrow> IsCleared v ord' t"
  by (simp add: IsCleared_def)

lemma IsCleared_foldl_MarkCleared:
  "IsCleared v ord (foldl (\<lambda>t mark. MarkCleared v mark t) t marks) \<longleftrightarrow>
     (\<exists>mark \<in> set marks. ord \<le> mark) \<or> IsCleared v ord t"
  by (induction marks arbitrary: t) (auto simp: IsCleared_MarkCleared_same)

text \<open>A tracker that was never populated.\<close>

lemma zero_tracker_clears: "IsCleared v ord zero_tracker \<longleftrightarrow> v = '''' \<and> ord \<le> 0"
  by (auto simp: IsCleared_def zero_tracker_def)

section \<open>Well-formed registries\<close>

definition unified_wf :: "UnifiedRegistry \<Rightarrow> bool" where
  "unified_wf r \<longleftrightarrow>
     gomap_wf (u_nodes r) \<and> distinct (u_order r) \<and> set (u_order r) = fst ` set (u_nodes r) \<and>
     (\<forall>(k, n) \<in> set (u_nodes r). n_name n = k)"

definition enabled_nodes :: "UnifiedRegistry \<Rightarrow> UnifiedNode list" where
  "enabled_nodes r = filter n_enabled (map (at_or (u_nodes r) zero_node) (u_order r))"

lemma unified_wf_NewRegistry [simp]: "unified_wf NewRegistry"
  by (simp add: unified_wf_def NewRegistry_def)

lemma wf_node_name:
  assumes "unified_wf r" and "nm \<in> set (u_order r)"
  shows "n_name (at_or (u_nodes r) zero_node nm) = nm"
proof -
  from assms obtain n where "map_of (u_nodes r) nm = Some n"
    by (auto simp: unified_wf_def gomap_wf_def)
  moreover from this have "(nm, n) \<in> set (u_nodes r)" by (rule map_of_SomeD)
  ultimately show ?thesis using assms by (auto simp: unified_wf_def at_or_def)
qed

lemma unified_wf_Add [simp]: "unified_wf r \<Longrightarrow> unified_wf (unified_Add name kind rl r)"
  by (auto simp: unified_wf_def unified_Add_def Let_def dom_update map_of_eq_None_iff
      dest!: subsetD [OF set_update_subset])

lemma unified_wf_setEnabledLocked [simp]:
  "unified_wf r \<Longrightarrow> unified_wf (unified_setEnabledLocked name b r)"
  by (auto simp: unified_wf_def unified_setEnabledLocked_def dom_update
      intro: rev_image_eqI dest!: map_of_SomeD subsetD [OF set_update_subset] split: option.splits)

lemma foldl_graph_Add:
  assumes "distinct (map nm ns)" and "fst ` set (g_nodes g) \<inter> nm ` set ns = {}"
  shows "g_nodes (foldl (\<lambda>g n. graph_Add nm n g) g ns) = g_nodes g @ map (\<lambda>n. (nm n, n)) ns"
  using assms
proof (induction ns arbitrary: g)
  case Nil
  then show ?case by simp
next
  case (Cons n ns)
  then have "nm n \<notin> fst ` set (g_nodes g)" by auto
  then have "g_nodes (graph_Add nm n g) = g_nodes g @ [(nm n, n)]"
    by (simp add: graph_Add_def update_fresh)
  moreover have "fst ` set (g_nodes (graph_Add nm n g)) \<inter> nm ` set ns = {}"
    using Cons.prems calculation by auto
  ultimately show ?case using Cons.IH [of "graph_Add nm n g"] Cons.prems by simp
qed

lemma enabled_graph_foldl:
  "enabled_graph r = foldl (\<lambda>g n. graph_Add n_name n g) NewGraph (enabled_nodes r)"
proof -
  have "foldl (\<lambda>g name. let n = f name in if \<not> n_enabled n then g else graph_Add n_name n g) g ks
      = foldl (\<lambda>g n. graph_Add n_name n g) g (filter n_enabled (map f ks))" for f ks g
    by (induction ks arbitrary: g) (auto simp: Let_def)
  then show ?thesis by (simp add: enabled_graph_def enabled_nodes_def)
qed

lemma map_name_order:
  "unified_wf r \<Longrightarrow> map (n_name \<circ> at_or (u_nodes r) zero_node) (u_order r) = u_order r"
  by (auto intro!: map_idI simp: wf_node_name)

lemma distinct_enabled_names: "unified_wf r \<Longrightarrow> distinct (map n_name (enabled_nodes r))"
  unfolding enabled_nodes_def
  by (rule distinct_map_filter) (simp add: map_name_order, simp add: unified_wf_def)

lemma enabled_graph_list: "unified_wf r \<Longrightarrow> graph_list (enabled_graph r) = enabled_nodes r"
  by (simp add: enabled_graph_foldl foldl_graph_Add distinct_enabled_names NewGraph_def comp_def)

section \<open>The contract of a batch registry\<close>

definition coherent :: "('r \<Rightarrow> 'n list list) \<Rightarrow> ('r \<Rightarrow> 'n list list) \<Rightarrow> 'r \<Rightarrow> bool" where
  "coherent cache fresh r \<longleftrightarrow> cache r = [] \<or> cache r = fresh r"

datatype 'a reg_op = OpAdd 'a | OpSetEnabled string bool | OpResolve

locale batch_registry =
  fixes cache :: "'r \<Rightarrow> 'n list list"
    and fresh :: "'r \<Rightarrow> 'n list list"
    and resolved :: "'r \<Rightarrow> (go_error + 'n list list) \<times> 'r"
    and add :: "'a \<Rightarrow> 'r \<Rightarrow> 'r"
    and set_enabled :: "string \<Rightarrow> bool \<Rightarrow> 'r \<Rightarrow> 'r"
  assumes resolved_hit: "cache r \<noteq> [] \<Longrightarrow> resolved r = (Inr (cache r), r)"
    and resolved_miss: "cache r = [] \<Longrightarrow> fst (resolved r) = Inr (fresh r)"
    and resolved_stores: "cache r = [] \<Longrightarrow> cache (snd (resolved r)) = fresh r"
    and resolved_fresh: "fresh (snd (resolved r)) = fresh r"
    and add_invalidates: "cache (add x r) = []"
    and set_enabled_invalidates: "cache (set_enabled nm b r) = [] \<or> set_enabled nm b r = r"
begin

lemma coherent_resolved:
  assumes "coherent cache fresh r"
  shows "fst (resolved r) = Inr (fresh r)" and "coherent cache fresh (snd (resolved r))"
  using assms
  by (cases "cache r = []"; simp add: coherent_def resolved_hit resolved_miss resolved_stores resolved_fresh)+

fun run_op :: "'a reg_op \<Rightarrow> 'r \<Rightarrow> 'r" where
  "run_op (OpAdd x) r = add x r"
| "run_op (OpSetEnabled nm b) r = set_enabled nm b r"
| "run_op OpResolve r = snd (resolved r)"

lemma coherent_run_op: "coherent cache fresh r \<Longrightarrow> coherent cache fresh (run_op op r)"
proof (cases op)
  case (OpSetEnabled nm b)
  assume "coherent cache fresh r"
  with set_enabled_invalidates [of nm b r] OpSetEnabled show ?thesis
    by (auto simp: coherent_def)
qed (auto simp: coherent_resolved(2), auto simp: coherent_def add_invalidates)

lemma coherent_run: "coherent cache fresh r \<Longrightarrow> coherent cache fresh (fold run_op ops r)"
  by (induction ops arbitrary: r) (auto simp: coherent_run_op)

lemma resolve_after_ops:
  assumes "coherent cache fresh r"
  shows "fst (resolved (fold run_op ops r)) = Inr (fresh (fold run_op ops r))"
  using assms by (intro coherent_resolved(1) coherent_run)

end

text \<open>A registry whose cache may also be dropped from outside.\<close>

locale invalidatable_registry = batch_registry +
  fixes invalidate :: "'a \<Rightarrow> 'a"
  assumes invalidate_clears: "cache (invalidate r) = []"
begin

lemma coherent_invalidate: "coherent cache fresh (invalidate r)"
  by (simp add: coherent_def invalidate_clears)

end

section \<open>The unified registry keeps the contract\<close>

definition unified_fresh :: "UnifiedRegistry \<Rightarrow> UnifiedNode list list" where
  "unified_fresh r = runlevel_batches n_name n_runlevel (graph_list (enabled_graph r))"

lemma unified_fresh_cache [simp]: "unified_fresh (r\<lparr>u_resolvedCache := c\<rparr>) = unified_fresh r"
  by (simp add: unified_fresh_def enabled_graph_def)

lemma unified_fresh_spec:
  "unified_wf r \<Longrightarrow> unified_fresh r = runlevel_batches n_name n_runlevel (enabled_nodes r)"
  by (simp add: unified_fresh_def enabled_graph_list)

lemma ResolvedBatches_Lock_eq:
  "ResolvedBatches_Lock r =
     (if u_resolvedCache r \<noteq> [] then (Inr (u_resolvedCache r), r)
      else (Inr (unified_fresh r), r\<lparr>u_resolvedCache := unified_fresh r\<rparr>))"
  by (simp add: ResolvedBatches_Lock_def Resolve_runlevel_batches unified_fresh_def)

lemma ResolvedBatches_eq: "ResolvedBatches r = ResolvedBatches_Lock r"
  by (simp add: ResolvedBatches_def ResolvedBatches_RLock_def ResolvedBatches_Lock_eq)

interpretation uni: invalidatable_registry u_resolvedCache unified_fresh ResolvedBatches
  "\<lambda>(nm, kd, rl). unified_Add nm kd rl" unified_setEnabledLocked InvalidateCache
  by unfold_locales
    (auto simp: ResolvedBatches_eq ResolvedBatches_Lock_eq registry_defs Let_def split: option.splits)

abbreviation unified_coherent :: "UnifiedRegistry \<Rightarrow> bool" where
  "unified_coherent \<equiv> coherent u_resolvedCache unified_fresh"

lemma unified_coherent_New [simp]: "unified_coherent NewRegistry"
  by (simp add: coherent_def NewRegistry_def)

lemma ResolvedBatches_nonempty:
  assumes "unified_coherent r" and "fst (ResolvedBatches r) = Inr bs" and "b \<in> set bs"
  shows "b \<noteq> []"
  using assms uni.coherent_resolved(1) [OF assms(1)] runlevel_batches_ok
  by (fastforce simp: unified_fresh_def batches_ok_def)

section \<open>Interleaved use of the registry\<close>

text \<open>
  Any number of goroutines call \<open>ResolvedBatches\<close> while others mutate the registry. A caller is idle,
  between the two critical sections (it saw no cache), or has returned.
\<close>

datatype phase = Calling | Missed | Returned "go_error + UnifiedNode list list"

record reg_sys =
  rs_reg :: UnifiedRegistry
  rs_phase :: "nat \<Rightarrow> phase"

inductive reg_step :: "reg_sys \<Rightarrow> reg_sys \<Rightarrow> bool" where
  mut_add: "reg_step s (s\<lparr>rs_reg := unified_Add nm kd rl (rs_reg s)\<rparr>)"
| mut_enabled: "reg_step s (s\<lparr>rs_reg := unified_setEnabledLocked nm b (rs_reg s)\<rparr>)"
| mut_reset: "reg_step s (s\<lparr>rs_reg := unified_Reset (rs_reg s)\<rparr>)"
| mut_invalidate: "reg_step s (s\<lparr>rs_reg := InvalidateCache (rs_reg s)\<rparr>)"
| read_hit: "rs_phase s t = Calling \<Longrightarrow> ResolvedBatches_RLock (rs_reg s) = Some bs \<Longrightarrow>
    reg_step s (s\<lparr>rs_phase := (rs_phase s)(t := Returned (Inr bs))\<rparr>)"
| read_miss: "rs_phase s t = Calling \<Longrightarrow> ResolvedBatches_RLock (rs_reg s) = None \<Longrightarrow>
    reg_step s (s\<lparr>rs_phase := (rs_phase s)(t := Missed)\<rparr>)"
| lock_resolve: "rs_phase s t = Missed \<Longrightarrow> ResolvedBatches_Lock (rs_reg s) = (res, r') \<Longrightarrow>
    reg_step s (s\<lparr>rs_reg := r', rs_phase := (rs_phase s)(t := Returned res)\<rparr>)"

inductive reg_reachable :: "reg_sys \<Rightarrow> bool" where
  start: "reg_reachable \<lparr>rs_reg = NewRegistry, rs_phase = (\<lambda>_. Calling)\<rparr>"
| step: "reg_reachable s \<Longrightarrow> reg_step s s' \<Longrightarrow> reg_reachable s'"

lemma unified_Reset_coherent: "unified_coherent (unified_Reset r)"
  by (simp add: coherent_def unified_Reset_def)

lemma ResolvedBatches_Lock_coherent:
  assumes "unified_coherent r" and "ResolvedBatches_Lock r = (res, r')"
  shows "unified_coherent r'" and "res = Inr (unified_fresh r')"
  using assms by (auto simp: ResolvedBatches_Lock_eq coherent_def split: if_splits)

lemma unified_wf_Reset [simp]: "unified_wf (unified_Reset r)"
  by (simp add: unified_wf_def unified_Reset_def)

lemma unified_wf_cache [simp]: "unified_wf (r\<lparr>u_resolvedCache := c\<rparr>) = unified_wf r"
  by (simp add: unified_wf_def)

lemma unified_wf_Lock: "unified_wf r \<Longrightarrow> ResolvedBatches_Lock r = (res, r') \<Longrightarrow> unified_wf r'"
  by (auto simp: ResolvedBatches_Lock_eq split: if_splits)

lemma reg_step_inv:
  assumes "reg_step s s'" and "unified_coherent (rs_reg s)" and "unified_wf (rs_reg s)"
  shows "unified_coherent (rs_reg s') \<and> unified_wf (rs_reg s')"
  using assms
proof (cases rule: reg_step.cases)
  case (mut_add nm kd rl)
  then show ?thesis using assms uni.coherent_run_op [of "rs_reg s" "OpAdd (nm, kd, rl)"] by simp
next
  case (mut_enabled nm b)
  then show ?thesis using assms uni.coherent_run_op [of "rs_reg s" "OpSetEnabled nm b"] by simp
next
  case mut_invalidate
  then show ?thesis
    using assms uni.coherent_invalidate [of "rs_reg s"] by (simp add: InvalidateCache_def)
next
  case (lock_resolve t res r')
  then show ?thesis
    using assms by (auto dest: ResolvedBatches_Lock_coherent unified_wf_Lock)
qed (use assms in \<open>auto simp: unified_Reset_coherent\<close>)

lemma reg_reachable_inv: "reg_reachable s \<Longrightarrow> unified_coherent (rs_reg s) \<and> unified_wf (rs_reg s)"
  by (induction rule: reg_reachable.induct) (auto dest: reg_step_inv)

lemma reg_step_return:
  assumes "reg_step s s'" and "unified_coherent (rs_reg s)"
    and "rs_phase s t \<noteq> Returned res" and "rs_phase s' t = Returned res"
  shows "res = Inr (unified_fresh (rs_reg s'))"
  using assms
proof (cases rule: reg_step.cases)
  case (read_hit t' bs)
  with assms show ?thesis
    by (auto simp: ResolvedBatches_RLock_def coherent_def split: if_splits)
next
  case (lock_resolve t' res' r')
  with assms show ?thesis
    by (auto dest: ResolvedBatches_Lock_coherent split: if_splits)
qed (use assms in \<open>auto split: if_splits\<close>)

section \<open>Properties\<close>

lemma foldl_full_graph:
  "full_graph r = foldl (\<lambda>g n. graph_Add n_name n g) NewGraph (map (at_or (u_nodes r) zero_node) (u_order r))"
  by (simp add: full_graph_def foldl_map)

lemma full_graph_list:
  "unified_wf r \<Longrightarrow> graph_list (full_graph r) = map (at_or (u_nodes r) zero_node) (u_order r)"
proof -
  assume wf: "unified_wf r"
  then have "distinct (map n_name (map (at_or (u_nodes r) zero_node) (u_order r)))"
    by (simp add: map_name_order) (simp add: unified_wf_def)
  from foldl_graph_Add [OF this, of NewGraph] show ?thesis
    unfolding foldl_full_graph by (simp add: NewGraph_def comp_def)
qed

text \<open>The names a list of batches holds.\<close>

definition batch_names :: "UnifiedNode list list \<Rightarrow> string set" where
  "batch_names bs = n_name ` set (concat bs)"

lemma set_concat_runlevel_batches: "set (concat (runlevel_batches nm rl ns)) = set ns"
  using runlevel_batches_ok [of nm rl ns] unfolding batches_ok_def by (metis mset_eq_setD)

lemma batch_names_fresh:
  assumes "unified_wf r"
  shows "batch_names (unified_fresh r) = {nm. \<exists>n. map_of (u_nodes r) nm = Some n \<and> n_enabled n}"
proof -
  have "batch_names (unified_fresh r) = n_name ` set (enabled_nodes r)"
    by (simp only: batch_names_def unified_fresh_spec [OF assms] set_concat_runlevel_batches)
  also have "\<dots> = {nm \<in> set (u_order r). n_enabled (at_or (u_nodes r) zero_node nm)}"
    using wf_node_name [OF assms] by (force simp: enabled_nodes_def)
  also have "\<dots> = {nm. \<exists>n. map_of (u_nodes r) nm = Some n \<and> n_enabled n}"
  proof -
    have "(nm \<in> set (u_order r) \<and> n_enabled (at_or (u_nodes r) zero_node nm)) =
        (\<exists>n. map_of (u_nodes r) nm = Some n \<and> n_enabled n)" for nm
    proof (cases "map_of (u_nodes r) nm")
      case None
      then show ?thesis by (simp add: at_or_def zero_node_def)
    next
      case (Some n)
      from map_of_SomeD [OF this] have "nm \<in> fst ` set (u_nodes r)" by force
      with assms Some show ?thesis by (simp add: at_or_def unified_wf_def)
    qed
    then show ?thesis by simp
  qed
  finally show ?thesis .
qed

text \<open>Two nodes on two runlevels, for the witnesses.\<close>

definition demo_reg :: UnifiedRegistry where
  "demo_reg =
     unified_Add ''kserve'' KindModule (RL 20) (unified_Add ''kueue'' KindComponent (RL 10) NewRegistry)"

lemma demo_coherent: "unified_coherent demo_reg"
  by (simp add: demo_reg_def coherent_def unified_Add_def Let_def)

lemma demo_wf: "unified_wf demo_reg"
  by (simp add: demo_reg_def)

text \<open>
  Mutators and the resolved batches. Whatever batches were cached before, the resolution after a
  registration contains the new name, after disabling a node no longer contains it, and after enabling
  a known node contains it again; all other names stay.
\<close>

theorem mutators_update_batches:
  assumes "unified_coherent r" and "unified_wf r" and "fst (ResolvedBatches r) = Inr bs"
  shows "(\<exists>bs'. fst (ResolvedBatches (unified_Add nm kd rl r)) = Inr bs' \<and>
      batch_names bs' = insert nm (batch_names bs)) \<and>
    (\<exists>bs'. fst (ResolvedBatches (unified_Disable nm r)) = Inr bs' \<and>
      batch_names bs' = batch_names bs - {nm}) \<and>
    (\<exists>bs'. fst (ResolvedBatches (unified_Enable nm r)) = Inr bs' \<and>
      batch_names bs' = (if snd (LookupOrder nm r) then insert nm (batch_names bs) else batch_names bs))"
proof (intro conjI)
  have bs: "batch_names bs = {nm. \<exists>n. map_of (u_nodes r) nm = Some n \<and> n_enabled n}"
    using uni.coherent_resolved(1) [OF assms(1)] assms(3) batch_names_fresh [OF assms(2)] by simp
  note run = uni.resolve_after_ops [OF assms(1), of "[_]", simplified]
  show "\<exists>bs'. fst (ResolvedBatches (unified_Add nm kd rl r)) = Inr bs' \<and>
      batch_names bs' = insert nm (batch_names bs)"
    using run [of "OpAdd (nm, kd, rl)"] assms(2)
    by (auto simp: batch_names_fresh bs) (auto simp: unified_Add_def Let_def go_map_simps)
  show "\<exists>bs'. fst (ResolvedBatches (unified_Disable nm r)) = Inr bs' \<and>
      batch_names bs' = batch_names bs - {nm}"
    using run [of "OpSetEnabled nm False"] assms(2)
    by (auto simp: batch_names_fresh bs unified_Disable_def)
      (auto simp: unified_setEnabledLocked_def go_map_simps split: option.splits if_splits)
  show "\<exists>bs'. fst (ResolvedBatches (unified_Enable nm r)) = Inr bs' \<and>
      batch_names bs' = (if snd (LookupOrder nm r) then insert nm (batch_names bs) else batch_names bs)"
    using run [of "OpSetEnabled nm True"] assms(2)
    by (auto simp: batch_names_fresh bs unified_Enable_def LookupOrder_def)
      (auto simp: unified_setEnabledLocked_def go_map_simps split: option.splits if_splits)
qed

theorem mutators_update_batches_witness:
  "\<exists>bs'. fst (ResolvedBatches (unified_Disable ''kueue'' demo_reg)) = Inr bs' \<and> batch_names bs' = {''kserve''}"
proof -
  have "fst (ResolvedBatches demo_reg) = Inr (unified_fresh demo_reg)"
    by (rule uni.coherent_resolved(1) [OF demo_coherent])
  moreover have "map n_name (concat (unified_fresh demo_reg)) = [''kueue'', ''kserve'']" by code_simp
  then have "batch_names (unified_fresh demo_reg) = set [''kueue'', ''kserve'']"
    by (metis batch_names_def set_map)
  then have "batch_names (unified_fresh demo_reg) - {''kueue''} = {''kserve''}" by auto
  ultimately show ?thesis
    using mutators_update_batches [OF demo_coherent demo_wf, of _ "''kueue''"] by metis
qed

text \<open>
  C18. Interleaving. However goroutines that register, enable, disable, reset and invalidate interleave
  with any number of callers of \<open>ResolvedBatches\<close>, a call that returns gives the batches of the nodes
  enabled at the moment it returns: no caller ever sees a stale cache or an error.
\<close>

theorem concurrent_reads_are_fresh:
  assumes "reg_reachable s" and "reg_step s s'"
    and "rs_phase s t \<noteq> Returned res" and "rs_phase s' t = Returned res"
  shows "res = Inr (runlevel_batches n_name n_runlevel (enabled_nodes (rs_reg s')))"
proof -
  from reg_reachable_inv [OF assms(1)] have inv: "unified_coherent (rs_reg s)" "unified_wf (rs_reg s)"
    by auto
  from reg_step_inv [OF assms(2) inv] have "unified_wf (rs_reg s')" by simp
  with reg_step_return [OF assms(2) inv(1) assms(3,4)] show ?thesis
    by (simp add: unified_fresh_spec)
qed

theorem concurrent_reads_are_fresh_witness:
  "fst (ResolvedBatches_Lock (unified_Add ''kueue'' KindComponent (RL 10) NewRegistry)) =
     Inr (runlevel_batches n_name n_runlevel (enabled_nodes
       (snd (ResolvedBatches_Lock (unified_Add ''kueue'' KindComponent (RL 10) NewRegistry)))))"
proof -
  let ?r = "unified_Add ''kueue'' KindComponent (RL 10) NewRegistry"
  let ?s0 = "\<lparr>rs_reg = NewRegistry, rs_phase = (\<lambda>_. Calling)\<rparr> :: reg_sys"
  let ?s1 = "?s0\<lparr>rs_phase := (rs_phase ?s0)(0 := Missed)\<rparr>"
  let ?s2 = "?s1\<lparr>rs_reg := unified_Add ''kueue'' KindComponent (RL 10) (rs_reg ?s1)\<rparr>"
  have "reg_reachable ?s1"
    by (rule reg_reachable.step [OF reg_reachable.start], rule read_miss)
      (simp_all add: ResolvedBatches_RLock_def NewRegistry_def)
  then have reach: "reg_reachable ?s2" by (rule reg_reachable.step) (rule mut_add)
  obtain res r' where lock: "ResolvedBatches_Lock ?r = (res, r')" by (cases "ResolvedBatches_Lock ?r")
  have "reg_step ?s2 (?s2\<lparr>rs_reg := r', rs_phase := (rs_phase ?s2)(0 := Returned res)\<rparr>)"
    by (rule lock_resolve) (simp_all add: lock)
  from concurrent_reads_are_fresh [OF reach this, of 0 res] lock show ?thesis by simp
qed

lemma ReverseBatchesAll_eq:
  "unified_wf r \<Longrightarrow> ReverseBatchesAll r =
     Inr (rev (map rev (runlevel_batches n_name n_runlevel (map (at_or (u_nodes r) zero_node) (u_order r)))))"
  by (simp add: ReverseBatchesAll_def ReverseBatches_def Resolve_runlevel_batches reverse_in_place_rev rev_map full_graph_list)

text \<open>
  Teardown order. \<open>ReverseBatches\<close> gives the exact mirror of the provisioning order of the enabled
  nodes; \<open>ReverseBatchesAll\<close> gives the mirror for every registered node, so a
  disabled node is still torn down.
\<close>

theorem teardown_mirrors_provisioning:
  assumes "unified_coherent r" and "unified_wf r"
  shows "unified_ReverseBatches r = map_sum id (\<lambda>bs. rev (map rev bs)) (fst (ResolvedBatches r)) \<and>
    (\<exists>bs. ReverseBatchesAll r = Inr (rev (map rev bs)) \<and> batch_names bs = set (u_order r) \<and>
       batches_ok n_name n_runlevel (map (at_or (u_nodes r) zero_node) (u_order r)) bs)"
proof
  show "unified_ReverseBatches r = map_sum id (\<lambda>bs. rev (map rev bs)) (fst (ResolvedBatches r))"
    by (simp add: unified_ReverseBatches_def ReverseBatches_def Resolve_runlevel_batches
        reverse_in_place_rev rev_map uni.coherent_resolved(1) [OF assms(1)] unified_fresh_def)
  let ?bs = "runlevel_batches n_name n_runlevel (map (at_or (u_nodes r) zero_node) (u_order r))"
  have "ReverseBatchesAll r = Inr (rev (map rev ?bs))"
    by (rule ReverseBatchesAll_eq [OF assms(2)])
  moreover have "batch_names ?bs = set (u_order r)"
    using wf_node_name [OF assms(2)]
    by (force simp: batch_names_def set_concat_runlevel_batches simp del: set_concat)
  ultimately show "\<exists>bs. ReverseBatchesAll r = Inr (rev (map rev bs)) \<and> batch_names bs = set (u_order r) \<and>
       batches_ok n_name n_runlevel (map (at_or (u_nodes r) zero_node) (u_order r)) bs"
    using runlevel_batches_ok by blast
qed

theorem teardown_mirrors_provisioning_witness:
  "unified_ReverseBatches demo_reg = map_sum id (\<lambda>bs. rev (map rev bs)) (fst (ResolvedBatches demo_reg))"
  using teardown_mirrors_provisioning [OF demo_coherent demo_wf] by simp

end
