(* ===== verification/Gating.thy ===== *)
theory Gating
  imports Provision
begin

text \<open>
  \<open>pkg/controller/provision/gating.go\<close>: the walk over the resolved batches with readiness gating
  between runlevels.

  Everything the walk observes outside the process is indexed by an observation counter: the
  \<open>k\<close>-th observation may be a readiness check (\<open>wp_checker k name\<close>) or a reading of the clock
  (\<open>wp_now k\<close>), so the cluster and the clock may change between any two calls. The walk's effects
  are the fields of \<open>walk_state\<close>: the stuck tracker, the runlevel tracker, the conditions written
  (in order), the batches handed to \<open>processBatch\<close> (each with the value of the observation counter
  at that moment) and the caller's state that \<open>processBatch\<close> changes.
\<close>

section \<open>The walk\<close>

abbreviation (input) ConditionTypeProvisioningProgress :: string where
  "ConditionTypeProvisioningProgress \<equiv> ''ProvisioningProgress''"

abbreviation (input) AwaitingReadinessReason :: string where
  "AwaitingReadinessReason \<equiv> ''AwaitingReadiness''"

abbreviation (input) DAGResolutionFailedReason :: string where
  "DAGResolutionFailedReason \<equiv> ''DAGResolutionFailed''"

abbreviation (input) RunlevelTimeoutExceededReason :: string where
  "RunlevelTimeoutExceededReason \<equiv> ''RunlevelTimeoutExceeded''"

record 's walk_params =
  wp_checker :: "nat \<Rightarrow> readiness_checker"
  wp_now :: "nat \<Rightarrow> int"
  wp_instanceID :: string
  wp_version :: string
  wp_dagDisabled :: bool
  wp_policies :: policy_overrides
  wp_processBatch :: "UnifiedNode list \<Rightarrow> 's \<Rightarrow> go_error option \<times> 's"

record 's walk_state =
  ws_calls :: nat
  ws_tracker :: StuckTracker
  ws_runlevels :: RunlevelTracker
  ws_conditions :: "condition list"
  ws_processed :: "(nat \<times> UnifiedNode list) list"
  ws_rr :: 's
  ws_progressBlocked :: bool
  ws_timedOut :: "string list"
  ws_requeueAfter :: int

text \<open>
  The readiness loop over the entries of the prior batches: the names found not ready, and the
  observation counter after the loop. An error of the checker is logged only.
\<close>

fun check_prior ::
  "'s walk_params \<Rightarrow> string list \<Rightarrow> UnifiedNode list \<Rightarrow> nat \<Rightarrow> string list \<times> nat" where
  "check_prior p timedOut [] k = ([], k)"
| "check_prior p timedOut (entry # es) k =
     (if n_name entry \<in> set timedOut then check_prior p timedOut es k
      else
        let (ready, err) = wp_checker p k (n_name entry);
            (rest, k') = check_prior p timedOut es (Suc k)
        in (if ready then rest else n_name entry # rest, k'))"

datatype 's gate_result = Proceed "'s walk_state" | Break "'s walk_state"

definition gate_batch ::
  "'s walk_params \<Rightarrow> UnifiedNode list list \<Rightarrow> UnifiedNode \<Rightarrow> 's walk_state \<Rightarrow> 's gate_result" where
  "gate_batch p prev first s =
     (if prev = [] \<or> wp_dagDisabled p then Proceed s
      else
        let (notReadyInPrev, k) = check_prior p (ws_timedOut s) (concat prev) (ws_calls s) in
        if notReadyInPrev = [] then Proceed (s\<lparr>ws_calls := k\<rparr>)
        else
          let currentOrder = Order (n_runlevel first);
              timeout = Timeout (GetRunlevelPolicy (wp_policies p) currentOrder);
              (stuckSince, tracker) =
                Since (wp_now p k) (wp_instanceID p) currentOrder (ws_tracker s);
              elapsed = wp_now p (Suc k) - stuckSince;
              s1 = s\<lparr>ws_calls := k + 2, ws_tracker := tracker, ws_progressBlocked := True\<rparr>
          in if timeout > 0 \<and> elapsed \<ge> timeout then
               Proceed (s1\<lparr>
                 ws_conditions := ws_conditions s @
                   [cond ConditionTypeProvisioningProgress ConditionFalse RunlevelTimeoutExceededReason
                     (''Timed out after '' @ FormatDuration timeout @ ''; not ready: '' @
                      strings_Join notReadyInPrev '', '')],
                 ws_timedOut := ws_timedOut s @ notReadyInPrev\<rparr>)
             else
               Break (s1\<lparr>
                 ws_conditions := ws_conditions s @
                   [cond ConditionTypeProvisioningProgress ConditionFalse AwaitingReadinessReason
                     (''Waiting up to '' @ FormatDuration timeout @ '' on '' @
                      strings_Join notReadyInPrev '', '')],
                 ws_requeueAfter := timeout - elapsed\<rparr>))"

text \<open>
  The batch loop; \<open>prev\<close> holds \<open>batches[:batchIdx]\<close>. An empty batch would make \<open>batch[0]\<close> panic.
  The batch is handed to \<open>processBatch\<close> after its runlevel is marked cleared, and the stuck
  timestamp of its runlevel is removed only after it was processed without error.
\<close>

definition hand_over :: "'s walk_params \<Rightarrow> UnifiedNode \<Rightarrow> UnifiedNode list \<Rightarrow> 's walk_state \<Rightarrow> 's walk_state" where
  "hand_over p first batch s =
     s\<lparr>ws_runlevels := MarkCleared (wp_version p) (Order (n_runlevel first)) (ws_runlevels s),
       ws_processed := ws_processed s @ [(ws_calls s, batch)]\<rparr>"

definition batch_done ::
  "'s walk_params \<Rightarrow> UnifiedNode list list \<Rightarrow> UnifiedNode \<Rightarrow> 's \<Rightarrow> 's walk_state \<Rightarrow> 's walk_state" where
  "batch_done p prev first rr s =
     s\<lparr>ws_rr := rr,
       ws_tracker :=
         (if prev \<noteq> [] then Clear (wp_instanceID p) (Order (n_runlevel first)) (ws_tracker s)
          else ws_tracker s)\<rparr>"

fun walk_loop ::
  "'s walk_params \<Rightarrow> UnifiedNode list list \<Rightarrow> UnifiedNode list list \<Rightarrow> 's walk_state \<Rightarrow>
     go_error option \<times> 's walk_state" where
  "walk_loop p prev [] s = (None, s)"
| "walk_loop p prev ([] # rest) s = (Some (GoError ''index out of range'' [Panic]), s)"
| "walk_loop p prev ((first # others) # rest) s =
     (case gate_batch p prev first s of
        Break s' \<Rightarrow> (None, s')
      | Proceed s' \<Rightarrow>
          let batch = first # others; s1 = hand_over p first batch s' in
          (case wp_processBatch p batch (ws_rr s1) of
             (Some err, rr) \<Rightarrow> (Some err, s1\<lparr>ws_rr := rr\<rparr>)
           | (None, rr) \<Rightarrow> walk_loop p (prev @ [batch]) rest (batch_done p prev first rr s1)))"

definition walk_start ::
  "StuckTracker \<Rightarrow> RunlevelTracker \<Rightarrow> 's \<Rightarrow> 's walk_state" where
  "walk_start tracker runlevels rr =
     \<lparr>ws_calls = 0, ws_tracker = tracker, ws_runlevels = runlevels, ws_conditions = [],
      ws_processed = [], ws_rr = rr, ws_progressBlocked = False, ws_timedOut = [],
      ws_requeueAfter = 0\<rparr>"

definition WalkBatches ::
  "'s walk_params \<Rightarrow> UnifiedRegistry \<Rightarrow> StuckTracker \<Rightarrow> RunlevelTracker \<Rightarrow> 's \<Rightarrow>
     (int \<times> go_error option) \<times> 's walk_state \<times> UnifiedRegistry" where
  "WalkBatches p reg tracker runlevels rr =
     (let s0 = walk_start tracker runlevels rr in
      case ResolvedBatches reg of
        (Inl err, reg') \<Rightarrow>
          ((0, Some (wrap ''unified DAG resolution failed'' err)),
           s0\<lparr>ws_conditions := [cond ConditionTypeProvisioningProgress ConditionFalse
                DAGResolutionFailedReason (''Unified DAG resolution failed: '' @ err_msg err)]\<rparr>, reg')
      | (Inr batches, reg') \<Rightarrow>
          (case walk_loop p [] batches s0 of
             (Some err, s) \<Rightarrow> ((0, Some err), s, reg')
           | (None, s) \<Rightarrow>
               ((ws_requeueAfter s, None),
                (if ws_progressBlocked s then s
                 else s\<lparr>ws_conditions := ws_conditions s @
                   [cond ConditionTypeProvisioningProgress ConditionTrue '''' '''']\<rparr>), reg')))"

section \<open>One gate\<close>

lemma check_prior_Cons:
  "check_prior p to (e # es) k =
     (if n_name e \<in> set to then check_prior p to es k
      else (if fst (wp_checker p k (n_name e)) then fst (check_prior p to es (Suc k))
            else n_name e # fst (check_prior p to es (Suc k)), snd (check_prior p to es (Suc k))))"
  by (simp add: Let_def split: prod.splits)

declare check_prior.simps(2) [simp del]
declare check_prior_Cons [simp]

lemma check_prior_calls: "k \<le> snd (check_prior p to es k)"
  by (induction es arbitrary: k) (auto intro: Suc_leD)

lemma check_prior_ready:
  assumes "e \<in> set es"
  shows "n_name e \<in> set to \<or> n_name e \<in> set (fst (check_prior p to es k)) \<or>
    (\<exists>j \<ge> k. j < snd (check_prior p to es k) \<and> fst (wp_checker p j (n_name e)))"
  using assms
proof (induction es arbitrary: k)
  case Nil
  then show ?case by simp
next
  case (Cons entry es)
  have "k < snd (check_prior p to es (Suc k))"
    using check_prior_calls [of "Suc k" p to es] by simp
  with Cons show ?case by (fastforce intro: Suc_leD)
qed

lemma check_prior_subset: "set (fst (check_prior p to es k)) \<subseteq> n_name ` set es"
proof (induction es arbitrary: k)
  case (Cons e es)
  then show ?case by (simp add: subset_insertI2)
qed simp

lemma check_prior_not_ready:
  assumes "x \<in> set (fst (check_prior p to es k))"
  shows "x \<notin> set to \<and> (\<exists>j \<ge> k. j < snd (check_prior p to es k) \<and> \<not> fst (wp_checker p j x))"
  using assms
proof (induction es arbitrary: k)
  case Nil
  then show ?case by simp
next
  case (Cons entry es)
  have "k < snd (check_prior p to es (Suc k))"
    using check_prior_calls [of "Suc k" p to es] by simp
  with Cons.IH [of k] Cons.IH [of "Suc k"] Cons.prems show ?case
    by (auto split: if_splits intro: Suc_leD)
qed

definition prior_check :: "'s walk_params \<Rightarrow> UnifiedNode list list \<Rightarrow> 's walk_state \<Rightarrow> string list \<times> nat" where
  "prior_check p prev s = check_prior p (ws_timedOut s) (concat prev) (ws_calls s)"

definition batch_timeout :: "'s walk_params \<Rightarrow> UnifiedNode \<Rightarrow> int" where
  "batch_timeout p first = Timeout (GetRunlevelPolicy (wp_policies p) (Order (n_runlevel first)))"

definition batch_since :: "'s walk_params \<Rightarrow> UnifiedNode list list \<Rightarrow> UnifiedNode \<Rightarrow> 's walk_state \<Rightarrow> int \<times> StuckTracker" where
  "batch_since p prev first s =
     Since (wp_now p (snd (prior_check p prev s))) (wp_instanceID p) (Order (n_runlevel first)) (ws_tracker s)"

definition batch_elapsed :: "'s walk_params \<Rightarrow> UnifiedNode list list \<Rightarrow> UnifiedNode \<Rightarrow> 's walk_state \<Rightarrow> int" where
  "batch_elapsed p prev first s =
     wp_now p (Suc (snd (prior_check p prev s))) - fst (batch_since p prev first s)"

text \<open>The three ways through a gate.\<close>

lemma gate_open: "prev = [] \<or> wp_dagDisabled p \<Longrightarrow> gate_batch p prev first s = Proceed s"
  by (simp add: gate_batch_def)

lemma gate_ready:
  assumes "prev \<noteq> []" "\<not> wp_dagDisabled p" "fst (prior_check p prev s) = []"
  shows "gate_batch p prev first s = Proceed (s\<lparr>ws_calls := snd (prior_check p prev s)\<rparr>)"
  using assms by (simp add: gate_batch_def prior_check_def case_prod_beta)

lemma gate_stuck:
  fixes first :: UnifiedNode
  assumes "prev \<noteq> []" "\<not> wp_dagDisabled p" "fst (prior_check p prev s) \<noteq> []"
  defines "t \<equiv> batch_timeout p first" and "el \<equiv> batch_elapsed p prev first s"
    and "nr \<equiv> fst (prior_check p prev s)"
    and "s1 \<equiv> s\<lparr>ws_calls := snd (prior_check p prev s) + 2,
                ws_tracker := snd (batch_since p prev first s), ws_progressBlocked := True\<rparr>"
  shows "gate_batch p prev first s =
    (if t > 0 \<and> el \<ge> t then
       Proceed (s1\<lparr>ws_conditions := ws_conditions s @
           [cond ConditionTypeProvisioningProgress ConditionFalse RunlevelTimeoutExceededReason
             (''Timed out after '' @ FormatDuration t @ ''; not ready: '' @ strings_Join nr '', '')],
         ws_timedOut := ws_timedOut s @ nr\<rparr>)
     else
       Break (s1\<lparr>ws_conditions := ws_conditions s @
           [cond ConditionTypeProvisioningProgress ConditionFalse AwaitingReadinessReason
             (''Waiting up to '' @ FormatDuration t @ '' on '' @ strings_Join nr '', '')],
         ws_requeueAfter := t - el\<rparr>))"
  using assms(1-3) unfolding t_def el_def nr_def s1_def
  by (simp add: gate_batch_def prior_check_def batch_timeout_def batch_elapsed_def batch_since_def
      Let_def case_prod_beta)

lemma gate_cases [case_names opened ready timeout wait]:
  obtains "prev = [] \<or> wp_dagDisabled p" "gate_batch p prev first s = Proceed s"
  | "prev \<noteq> []" "\<not> wp_dagDisabled p" "fst (prior_check p prev s) = []"
    "gate_batch p prev first s = Proceed (s\<lparr>ws_calls := snd (prior_check p prev s)\<rparr>)"
  | msg where "prev \<noteq> []" "\<not> wp_dagDisabled p" "fst (prior_check p prev s) \<noteq> []"
    "0 < batch_timeout p first" "batch_timeout p first \<le> batch_elapsed p prev first s"
    "gate_batch p prev first s = Proceed (s\<lparr>ws_calls := snd (prior_check p prev s) + 2,
        ws_tracker := snd (batch_since p prev first s), ws_progressBlocked := True,
        ws_conditions := ws_conditions s @
          [cond ConditionTypeProvisioningProgress ConditionFalse RunlevelTimeoutExceededReason msg],
        ws_timedOut := ws_timedOut s @ fst (prior_check p prev s)\<rparr>)"
  | msg where "prev \<noteq> []" "\<not> wp_dagDisabled p" "fst (prior_check p prev s) \<noteq> []"
    "\<not> (0 < batch_timeout p first \<and> batch_timeout p first \<le> batch_elapsed p prev first s)"
    "gate_batch p prev first s = Break (s\<lparr>ws_calls := snd (prior_check p prev s) + 2,
        ws_tracker := snd (batch_since p prev first s), ws_progressBlocked := True,
        ws_conditions := ws_conditions s @
          [cond ConditionTypeProvisioningProgress ConditionFalse AwaitingReadinessReason msg],
        ws_requeueAfter := batch_timeout p first - batch_elapsed p prev first s\<rparr>)"
proof -
  consider "prev = [] \<or> wp_dagDisabled p"
    | "prev \<noteq> []" "\<not> wp_dagDisabled p" "fst (prior_check p prev s) = []"
    | "prev \<noteq> []" "\<not> wp_dagDisabled p" "fst (prior_check p prev s) \<noteq> []"
    by blast
  then show thesis
  proof cases
    case 1
    with gate_open that(1) show thesis by blast
  next
    case 2
    with gate_ready that(2) show thesis by blast
  next
    case 3
    note eq = gate_stuck [OF 3, of first]
    show thesis
    proof (cases "0 < batch_timeout p first \<and> batch_timeout p first \<le> batch_elapsed p prev first s")
      case True
      show thesis
        by (rule that(3) [OF 3 _ _ eq [unfolded if_P [OF True]]]) (use True in auto)
    next
      case False
      show thesis
        by (rule that(4) [OF 3 False eq [unfolded if_not_P [OF False]]])
    qed
  qed
qed


section \<open>The whole walk\<close>

text \<open>
  The wait for a runlevel has lasted its (positive) timeout: the clock is read twice, \<open>k\<close> and \<open>Suc k\<close>; the wait began when the
  tracker says, or at the first reading when it knows nothing.
\<close>

definition expired :: "'s walk_params \<Rightarrow> StuckTracker \<Rightarrow> UnifiedNode \<Rightarrow> nat \<Rightarrow> bool" where
  "expired p tr first k \<longleftrightarrow> 0 < batch_timeout p first \<and>
     batch_timeout p first \<le> wp_now p (Suc k) -
       (case stuck_at tr (wp_instanceID p) (Order (n_runlevel first)) of Some ts \<Rightarrow> ts | None \<Rightarrow> wp_now p k)"

text \<open>
  An entry was given up on by the \<open>i\<close>-th hand-over: between two hand-overs, the second of which is the \<open>j\<close>-th, it was reported not
  ready and then the wait for the runlevel of the \<open>j\<close>-th batch was found expired. The tracker is the one the walk started with.
\<close>

definition given_up :: "'s walk_params \<Rightarrow> StuckTracker \<Rightarrow> (nat \<times> UnifiedNode list) list \<Rightarrow> nat \<Rightarrow> string \<Rightarrow> bool" where
  "given_up p tr ps i x \<longleftrightarrow>
     (\<exists>j l k. 0 < j \<and> j \<le> i \<and> x \<in> n_name ` set (concat (map snd (take j ps))) \<and>
        fst (ps ! (j - 1)) \<le> l \<and> l < k \<and> Suc k < fst (ps ! j) \<and>
        \<not> fst (wp_checker p l x) \<and> expired p tr (hd (snd (ps ! j))) k)"

definition gated_at :: "'s walk_params \<Rightarrow> StuckTracker \<Rightarrow> (nat \<times> UnifiedNode list) list \<Rightarrow> nat \<Rightarrow> bool" where
  "gated_at p tr ps i \<longleftrightarrow>
     (\<forall>e \<in> set (concat (map snd (take i ps))).
        given_up p tr ps i (n_name e) \<or>
        (\<exists>k. fst (ps ! (i - 1)) \<le> k \<and> k < fst (ps ! i) \<and> fst (wp_checker p k (n_name e))))"

definition gated :: "'s walk_params \<Rightarrow> StuckTracker \<Rightarrow> 's walk_state \<Rightarrow> bool" where
  "gated p tr s \<longleftrightarrow> (\<forall>i. 0 < i \<and> i < length (ws_processed s) \<longrightarrow> gated_at p tr (ws_processed s) i)"

text \<open>The names skipped by the readiness loop were all given up on, and runlevels not yet reached have their timestamps still.\<close>

definition excused :: "'s walk_params \<Rightarrow> StuckTracker \<Rightarrow> 's walk_state \<Rightarrow> bool" where
  "excused p tr s \<longleftrightarrow> (\<forall>x \<in> set (ws_timedOut s). ws_processed s \<noteq> [] \<and> given_up p tr (ws_processed s) (length (ws_processed s) - 1) x)"

abbreviation orders :: "UnifiedNode list list \<Rightarrow> int set" where
  "orders bs \<equiv> (\<lambda>b. Order (n_runlevel (hd b))) ` set bs"

definition untouched :: "'s walk_params \<Rightarrow> StuckTracker \<Rightarrow> UnifiedNode list list \<Rightarrow> 's walk_state \<Rightarrow> bool" where
  "untouched p tr prev s \<longleftrightarrow>
     (\<forall>ord. ord \<notin> orders prev \<longrightarrow> stuck_at (ws_tracker s) (wp_instanceID p) ord = stuck_at tr (wp_instanceID p) ord)"

definition walk_wf :: "UnifiedNode list list \<Rightarrow> 's walk_state \<Rightarrow> bool" where
  "walk_wf prev s \<longleftrightarrow> map snd (ws_processed s) = prev \<and>
     (ws_processed s \<noteq> [] \<longrightarrow> fst (last (ws_processed s)) \<le> ws_calls s)"

lemma gate_frame:
  assumes "gate_batch p prev first s = Proceed s'"
  shows "ws_processed s' = ws_processed s" "ws_rr s' = ws_rr s" "ws_runlevels s' = ws_runlevels s"
    "ws_calls s \<le> ws_calls s'" "set (ws_timedOut s) \<subseteq> set (ws_timedOut s')"
    "ws_requeueAfter s' = ws_requeueAfter s"
proof -
  have "ws_calls s \<le> snd (prior_check p prev s)"
    by (simp add: prior_check_def check_prior_calls)
  then have "ws_processed s' = ws_processed s \<and> ws_rr s' = ws_rr s \<and> ws_runlevels s' = ws_runlevels s \<and>
      ws_calls s \<le> ws_calls s' \<and> set (ws_timedOut s) \<subseteq> set (ws_timedOut s') \<and>
      ws_requeueAfter s' = ws_requeueAfter s"
    using assms by (cases p prev first s rule: gate_cases) auto
  then show "ws_processed s' = ws_processed s" "ws_rr s' = ws_rr s" "ws_runlevels s' = ws_runlevels s"
    "ws_calls s \<le> ws_calls s'" "set (ws_timedOut s) \<subseteq> set (ws_timedOut s')"
    "ws_requeueAfter s' = ws_requeueAfter s" by auto
qed

lemma gate_break_frame:
  assumes "gate_batch p prev first s = Break s'"
  shows "ws_processed s' = ws_processed s \<and> ws_rr s' = ws_rr s \<and> ws_runlevels s' = ws_runlevels s \<and>
    ws_timedOut s' = ws_timedOut s \<and> ws_progressBlocked s' \<and>
    ws_requeueAfter s' = batch_timeout p first - batch_elapsed p prev first s \<and>
    ws_tracker s' = snd (batch_since p prev first s) \<and>
    (\<exists>msg. ws_conditions s' = ws_conditions s @
       [cond ConditionTypeProvisioningProgress ConditionFalse AwaitingReadinessReason msg])"
  using assms by (cases p prev first s rule: gate_cases) auto

lemma gate_proceed_ready:
  assumes "gate_batch p prev first s = Proceed s'" and "prev \<noteq> []" and "\<not> wp_dagDisabled p"
    and "e \<in> set (concat prev)"
  shows "n_name e \<in> set (ws_timedOut s') \<or>
    (\<exists>k. ws_calls s \<le> k \<and> k < ws_calls s' \<and> fst (wp_checker p k (n_name e)))"
  using check_prior_ready [OF assms(4), of "ws_timedOut s" p "ws_calls s"] assms(1-3)
  by (cases p prev first s rule: gate_cases)
    (auto simp: prior_check_def dest: less_SucI intro: exI)

lemma gate_gives_up:
  assumes "gate_batch p prev first s = Proceed s'" and "x \<in> set (ws_timedOut s')"
  shows "x \<in> set (ws_timedOut s) \<or> prev \<noteq> [] \<and> x \<in> n_name ` set (concat prev) \<and>
    (\<exists>l k. ws_calls s \<le> l \<and> l < k \<and> Suc k < ws_calls s' \<and> \<not> fst (wp_checker p l x) \<and> expired p (ws_tracker s) first k)"
  using assms(1)
proof (cases p prev first s rule: gate_cases)
  case (timeout msg)
  let ?k = "snd (prior_check p prev s)"
  have exp: "expired p (ws_tracker s) first ?k"
    using timeout by (simp add: expired_def batch_elapsed_def batch_since_def Since_fst)
  consider "x \<in> set (ws_timedOut s)" | "x \<in> set (fst (prior_check p prev s))"
    using assms timeout by auto
  then show ?thesis
  proof cases
    case 2
    have "x \<in> n_name ` set (concat prev)"
      using 2 check_prior_subset [of p "ws_timedOut s" "concat prev" "ws_calls s"] by (auto simp: prior_check_def)
    moreover obtain l where "ws_calls s \<le> l" "l < ?k" "\<not> fst (wp_checker p l x)"
      using check_prior_not_ready 2 unfolding prior_check_def by blast
    moreover have "Suc ?k < ws_calls s'"
      using assms(1) timeout by auto
    ultimately show ?thesis
      using exp timeout(1) by blast
  qed simp
qed (use assms in auto)

lemma given_up_append:
  assumes "given_up p tr ps i x" "i < length ps" "i \<le> i'"
  shows "given_up p tr (ps @ qs) i' x"
proof -
  obtain j l k where j: "0 < j" "j \<le> i" "x \<in> n_name ` set (concat (map snd (take j ps)))" "fst (ps ! (j - 1)) \<le> l" "l < k"
    "Suc k < fst (ps ! j)" "\<not> fst (wp_checker p l x)" "expired p tr (hd (snd (ps ! j))) k"
    using assms(1) unfolding given_up_def by blast
  have at: "(ps @ qs) ! j = ps ! j" "(ps @ qs) ! (j - 1) = ps ! (j - 1)" "take j (ps @ qs) = take j ps"
    using j(1,2) assms(2) by (auto simp add: nth_append)
  have "j \<le> i'"
    using j(2) assms(3) by simp
  with j show ?thesis
    unfolding given_up_def by (intro exI [of _ j] exI [of _ l] exI [of _ k]) (simp only: at simp_thms)
qed

lemma gated_at_append:
  assumes i: "i < length ps" and g: "gated_at p tr ps i"
  shows "gated_at p tr (ps @ qs) i"
proof -
  have at: "(ps @ qs) ! i = ps ! i" "(ps @ qs) ! (i - 1) = ps ! (i - 1)" "take i (ps @ qs) = take i ps"
    using i less_imp_diff_less [OF i, of 1] by (simp_all add: nth_append)
  show ?thesis
    using g given_up_append [OF _ i order_refl, of p tr _ qs] unfolding gated_at_def at by blast
qed

text \<open>One hand-over.\<close>

lemma excused_hand_over:
  assumes ex: "excused p tr s" and wf: "walk_wf prev s" and un: "untouched p tr prev s"
    and gate: "gate_batch p prev first s = Proceed s'" and new: "Order (n_runlevel first) \<notin> orders prev"
    and x: "x \<in> set (ws_timedOut s')"
  shows "given_up p tr (ws_processed s @ [(ws_calls s', first # others)]) (length (ws_processed s)) x"
  using gate_gives_up [OF gate x]
proof
  assume "x \<in> set (ws_timedOut s)"
  then have "ws_processed s \<noteq> []" "given_up p tr (ws_processed s) (length (ws_processed s) - 1) x"
    using ex by (auto simp: excused_def)
  then show ?thesis
    by (intro given_up_append) auto
next
  let ?ps = "ws_processed s" and ?qs = "ws_processed s @ [(ws_calls s', first # others)]"
  assume "prev \<noteq> [] \<and> x \<in> n_name ` set (concat prev) \<and>
    (\<exists>l k. ws_calls s \<le> l \<and> l < k \<and> Suc k < ws_calls s' \<and> \<not> fst (wp_checker p l x) \<and> expired p (ws_tracker s) first k)"
  then obtain l k where g: "prev \<noteq> []" "x \<in> n_name ` set (concat prev)" "ws_calls s \<le> l" "l < k" "Suc k < ws_calls s'"
    "\<not> fst (wp_checker p l x)" "expired p (ws_tracker s) first k"
    by blast
  have prev: "prev = map snd ?ps" and last: "?ps \<noteq> []" "fst (last ?ps) \<le> ws_calls s"
    using wf g(1) by (auto simp: walk_wf_def)
  have "expired p tr first k"
    using g(7) un new by (simp add: expired_def untouched_def)
  moreover have "?qs ! length ?ps = (ws_calls s', first # others)" "?qs ! (length ?ps - 1) = last ?ps"
    using last(1) by (simp_all add: nth_append last_conv_nth)
  ultimately show ?thesis
    unfolding given_up_def using g prev last
    by (intro exI [of _ "length ?ps"] exI [of _ l] exI [of _ k]) auto
qed

lemma gated_process:
  assumes gd: "gated p tr s" and ex: "excused p tr s" and wf: "walk_wf prev s" and un: "untouched p tr prev s" and en: "\<not> wp_dagDisabled p"
    and gate: "gate_batch p prev first s = Proceed s'" and new: "Order (n_runlevel first) \<notin> orders prev"
  shows "gated p tr (hand_over p first (first # others) s')"
proof -
  let ?ps = "ws_processed s" and ?q = "(ws_calls s', first # others)"
  note fr = gate_frame [OF gate]
  have "gated_at p tr (?ps @ [?q]) i" if "0 < i" "i < Suc (length ?ps)" for i
  proof (cases "i < length ?ps")
    case True
    with that gd show ?thesis
      by (auto simp: gated_def intro: gated_at_append)
  next
    case False
    with that have i: "i = length ?ps" and ne: "?ps \<noteq> []" by auto
    from wf have prev: "prev = map snd ?ps" and calls: "fst (last ?ps) \<le> ws_calls s"
      using ne by (auto simp: walk_wf_def)
    have at: "(?ps @ [?q]) ! i = ?q" "(?ps @ [?q]) ! (i - 1) = last ?ps" "take i (?ps @ [?q]) = ?ps"
      using ne i by (simp_all add: nth_append last_conv_nth)
    show ?thesis
      unfolding gated_at_def at
    proof
      fix e assume "e \<in> set (concat (map snd ?ps))"
      then have "n_name e \<in> set (ws_timedOut s') \<or> (\<exists>k. ws_calls s \<le> k \<and> k < ws_calls s' \<and> fst (wp_checker p k (n_name e)))"
        using gate_proceed_ready [OF gate _ en, of e] prev ne by simp
      then show "given_up p tr (?ps @ [?q]) i (n_name e) \<or>
          (\<exists>k. fst (last ?ps) \<le> k \<and> k < fst ?q \<and> fst (wp_checker p k (n_name e)))"
        using excused_hand_over [OF ex wf un gate new] i calls by (auto intro: order_trans)
    qed
  qed
  then show ?thesis by (simp add: gated_def hand_over_def fr(1))
qed

lemma walk_loop_rule [consumes 1, case_names step break finish fail]:
  assumes "P prev s"
    and step: "\<And>prev first others s s' rr. P prev s \<Longrightarrow> gate_batch p prev first s = Proceed s' \<Longrightarrow>
      (first # others) \<in> set bs \<Longrightarrow> wp_processBatch p (first # others) (ws_rr s') = (None, rr) \<Longrightarrow>
      P (prev @ [first # others]) (batch_done p prev first rr (hand_over p first (first # others) s'))"
    and break: "\<And>prev first others s s'. P prev s \<Longrightarrow> gate_batch p prev first s = Break s' \<Longrightarrow>
      (first # others) \<in> set bs \<Longrightarrow> Q None s'"
    and finish: "\<And>prev s. P prev s \<Longrightarrow> Q None s"
    and fail: "\<And>prev first others s s' err rr. P prev s \<Longrightarrow> gate_batch p prev first s = Proceed s' \<Longrightarrow>
      (first # others) \<in> set bs \<Longrightarrow> wp_processBatch p (first # others) (ws_rr s') = (Some err, rr) \<Longrightarrow>
      Q (Some err) (hand_over p first (first # others) s'\<lparr>ws_rr := rr\<rparr>)"
    and ne: "[] \<notin> set bs" and sub: "set rest \<subseteq> set bs"
    and walk: "walk_loop p prev rest s = (err, s')"
  shows "Q err s'"
  using assms(1) sub walk
proof (induction rest arbitrary: prev s)
  case Nil
  then show ?case using finish by auto
next
  case (Cons batch rest)
  with ne obtain first others where b: "batch = first # others" by (cases batch) auto
  with Cons.prems have mem: "first # others \<in> set bs" by simp
  show ?case
  proof (cases "gate_batch p prev first s")
    case (Break s1)
    with Cons.prems b mem break show ?thesis by auto
  next
    case (Proceed s1)
    obtain res rr where pb: "wp_processBatch p (first # others) (ws_rr s1) = (res, rr)"
      by (cases "wp_processBatch p (first # others) (ws_rr s1)")
    then have pb': "wp_processBatch p (first # others) (ws_rr (hand_over p first (first # others) s1)) = (res, rr)"
      by (simp add: hand_over_def)
    show ?thesis
    proof (cases res)
      case None
      have "walk_loop p (prev @ [first # others]) rest
          (batch_done p prev first rr (hand_over p first (first # others) s1)) = (err, s')"
        using Cons.prems(3) b Proceed pb' None by (simp add: Let_def)
      moreover have "P (prev @ [first # others]) (batch_done p prev first rr (hand_over p first (first # others) s1))"
        using step Cons.prems(1) Proceed mem pb None by blast
      ultimately show ?thesis using Cons.IH Cons.prems(2) by simp
    next
      case (Some e)
      then have "err = Some e" "s' = hand_over p first (first # others) s1\<lparr>ws_rr := rr\<rparr>"
        using Cons.prems(3) b Proceed pb' by (auto simp: Let_def)
      then show ?thesis using fail Cons.prems(1) Proceed mem pb Some by blast
    qed
  qed
qed

lemma walk_wf_step:
  assumes "walk_wf prev s" and "gate_batch p prev first s = Proceed s'"
  shows "walk_wf (prev @ [first # others]) (batch_done p prev first rr (hand_over p first (first # others) s'))"
  using assms(1) gate_frame [OF assms(2)] by (simp add: walk_wf_def batch_done_def hand_over_def)

definition walk_inv :: "'s walk_params \<Rightarrow> StuckTracker \<Rightarrow> UnifiedNode list list \<Rightarrow> 's walk_state \<Rightarrow> bool" where
  "walk_inv p tr prev s \<longleftrightarrow> gated p tr s \<and> excused p tr s \<and> walk_wf prev s \<and> untouched p tr prev s"

lemma walk_inv_step:
  assumes inv: "walk_inv p tr prev s" and en: "\<not> wp_dagDisabled p" and gate: "gate_batch p prev first s = Proceed s'"
    and new: "Order (n_runlevel first) \<notin> orders prev"
  shows "walk_inv p tr (prev @ [first # others]) (batch_done p prev first rr (hand_over p first (first # others) s'))"
proof -
  let ?s = "batch_done p prev first rr (hand_over p first (first # others) s')"
  have i: "gated p tr s" "excused p tr s" "walk_wf prev s" "untouched p tr prev s"
    using inv by (simp_all add: walk_inv_def)
  have "gated p tr ?s"
    using gated_process [OF i en gate new, of others] by (simp add: gated_def batch_done_def hand_over_def)
  moreover have "excused p tr ?s"
    using excused_hand_over [OF i(2-4) gate new] gate_frame(1) [OF gate] by (simp add: excused_def batch_done_def hand_over_def)
  moreover have "walk_wf (prev @ [first # others]) ?s"
    by (rule walk_wf_step [OF i(3) gate])
  moreover have "stuck_at (ws_tracker s') (wp_instanceID p) ord = stuck_at (ws_tracker s) (wp_instanceID p) ord"
    if "ord \<noteq> Order (n_runlevel first)" for ord
    using gate that by (cases p prev first s rule: gate_cases) (auto simp: batch_since_def Since_snd_other)
  then have "untouched p tr (prev @ [first # others]) ?s"
    using i(4) by (simp add: untouched_def batch_done_def hand_over_def Clear_stuck_at)
  ultimately show ?thesis
    by (simp add: walk_inv_def)
qed

lemma walk_loop_gated:
  assumes "walk_inv p tr prev s" "\<not> wp_dagDisabled p" "[] \<notin> set rest"
    and "distinct (map (\<lambda>b. Order (n_runlevel (hd b))) (prev @ rest))" and "walk_loop p prev rest s = (err, s')"
  shows "gated p tr s'"
  using assms(1,3-5)
proof (induction rest arbitrary: prev s)
  case Nil
  then show ?case by (simp add: walk_inv_def)
next
  case (Cons batch rest)
  then obtain first others where b: "batch = first # others" by (cases batch) auto
  have new: "Order (n_runlevel first) \<notin> orders prev"
    using Cons.prems(3) b by auto
  show ?case
  proof (cases "gate_batch p prev first s")
    case (Break s1)
    then have "s' = s1"
      using Cons.prems(4) b by simp
    then show ?thesis
      using gate_break_frame [OF Break] Cons.prems(1) by (simp add: walk_inv_def gated_def)
  next
    case (Proceed s1)
    have inv: "gated p tr s" "excused p tr s" "walk_wf prev s" "untouched p tr prev s"
      using Cons.prems(1) by (simp_all add: walk_inv_def)
    obtain res rr where pb: "wp_processBatch p (first # others) (ws_rr s1) = (res, rr)"
      by fastforce
    let ?s2 = "batch_done p prev first rr (hand_over p first (first # others) s1)"
    show ?thesis
    proof (cases res)
      case None
      then have "walk_loop p (prev @ [batch]) rest ?s2 = (err, s')"
        using Cons.prems(4) b Proceed pb by (simp add: hand_over_def Let_def)
      then show ?thesis
        using Cons.IH [of "prev @ [batch]" ?s2] walk_inv_step [OF Cons.prems(1) assms(2) Proceed new, of others rr] Cons.prems(2,3) b
        by simp
    next
      case (Some e)
      then have "s' = (hand_over p first (first # others) s1)\<lparr>ws_rr := rr\<rparr>"
        using Cons.prems(4) b Proceed pb by (simp add: hand_over_def Let_def)
      then show ?thesis
        using gated_process [OF inv assms(2) Proceed new, of others] by (simp add: gated_def)
    qed
  qed
qed

definition stopped :: "'s walk_params \<Rightarrow> UnifiedNode \<Rightarrow> 's walk_state \<Rightarrow> bool" where
  "stopped p first s \<longleftrightarrow> ws_progressBlocked s \<and>
     (\<exists>cs msg. ws_conditions s = cs @
        [cond ConditionTypeProvisioningProgress ConditionFalse AwaitingReadinessReason msg]) \<and>
     (\<exists>ts k. stuck_at (ws_tracker s) (wp_instanceID p) (Order (n_runlevel first)) = Some ts \<and>
        ws_requeueAfter s = batch_timeout p first - (wp_now p k - ts) \<and>
        \<not> (0 < batch_timeout p first \<and> batch_timeout p first \<le> wp_now p k - ts))"

lemma gate_break_stopped:
  assumes "gate_batch p prev first s = Break s'"
  shows "stopped p first s'"
  using assms
proof (cases p prev first s rule: gate_cases)
  case (wait msg)
  have "stuck_at (snd (batch_since p prev first s)) (wp_instanceID p) (Order (n_runlevel first)) =
      Some (fst (batch_since p prev first s))"
    by (simp add: batch_since_def Since_snd_same)
  with wait assms show ?thesis
    by (auto simp: stopped_def batch_elapsed_def)
qed (use assms in auto)

lemma hand_over_sel [simp]:
  "ws_processed (hand_over p first b s) = ws_processed s @ [(ws_calls s, b)]"
  "ws_requeueAfter (hand_over p first b s) = ws_requeueAfter s"
  "ws_rr (hand_over p first b s) = ws_rr s"
  "ws_tracker (hand_over p first b s) = ws_tracker s"
  "ws_progressBlocked (hand_over p first b s) = ws_progressBlocked s"
  "ws_timedOut (hand_over p first b s) = ws_timedOut s"
  "ws_runlevels (hand_over p first b s) =
     MarkCleared (wp_version p) (Order (n_runlevel first)) (ws_runlevels s)"
  by (simp_all add: hand_over_def)

lemma batch_done_sel [simp]:
  "ws_processed (batch_done p prev first rr s) = ws_processed s"
  "ws_requeueAfter (batch_done p prev first rr s) = ws_requeueAfter s"
  "ws_rr (batch_done p prev first rr s) = rr"
  "ws_progressBlocked (batch_done p prev first rr s) = ws_progressBlocked s"
  "ws_timedOut (batch_done p prev first rr s) = ws_timedOut s"
  "ws_runlevels (batch_done p prev first rr s) = ws_runlevels s"
  "ws_tracker (batch_done p prev first rr s) =
     (if prev \<noteq> [] then Clear (wp_instanceID p) (Order (n_runlevel first)) (ws_tracker s) else ws_tracker s)"
  by (simp_all add: batch_done_def)

lemma walk_loop_Cons:
  "walk_loop p prev ((first # others) # rest) s =
     (case gate_batch p prev first s of
        Break s' \<Rightarrow> (None, s')
      | Proceed s' \<Rightarrow>
          (case wp_processBatch p (first # others) (ws_rr s') of
             (Some err, rr) \<Rightarrow> (Some err, hand_over p first (first # others) s'\<lparr>ws_rr := rr\<rparr>)
           | (None, rr) \<Rightarrow> walk_loop p (prev @ [first # others]) rest
               (batch_done p prev first rr (hand_over p first (first # others) s'))))"
  by (simp add: Let_def split: gate_result.splits)

lemma walk_loop_outcome:
  assumes "map snd (ws_processed s) = prev" "[] \<notin> set rest"
    and "walk_loop p prev rest s = (err, s')"
  shows "\<exists>m \<le> length rest. map snd (ws_processed s') = prev @ take m rest \<and>
    (err = None \<longrightarrow> (m = length rest \<and> ws_requeueAfter s' = ws_requeueAfter s) \<or>
       (m < length rest \<and> stopped p (hd (rest ! m)) s'))"
  using assms
proof (induction rest arbitrary: prev s)
  case Nil
  then show ?case by auto
next
  case (Cons batch rest)
  then obtain first others where b: "batch = first # others" by (cases batch) auto
  show ?case
  proof (cases "gate_batch p prev first s")
    case (Break s1)
    with Cons.prems b have "s' = s1" by simp
    with gate_break_frame [OF Break] gate_break_stopped [OF Break] Cons.prems(1) b show ?thesis
      by (intro exI [of _ 0]) simp
  next
    case (Proceed s1)
    note fr = gate_frame [OF this]
    obtain res rr where pb: "wp_processBatch p batch (ws_rr s1) = (res, rr)"
      by (cases "wp_processBatch p batch (ws_rr s1)")
    show ?thesis
    proof (cases res)
      case None
      let ?s2 = "batch_done p prev first rr (hand_over p first batch s1)"
      have w: "walk_loop p (prev @ [batch]) rest ?s2 = (err, s')"
        using Cons.prems(3) b Proceed pb None by (simp only: walk_loop_Cons) simp
      have "map snd (ws_processed ?s2) = prev @ [batch]" "[] \<notin> set rest"
        using Cons.prems fr by simp_all
      from Cons.IH [OF this w] obtain m where "m \<le> length rest"
        "map snd (ws_processed s') = (prev @ [batch]) @ take m rest"
        "err = None \<longrightarrow> (m = length rest \<and> ws_requeueAfter s' = ws_requeueAfter ?s2) \<or>
          (m < length rest \<and> stopped p (hd (rest ! m)) s')" by blast
      then show ?thesis using fr(6) by (intro exI [of _ "Suc m"]) simp
    next
      case (Some e)
      then have "err = Some e" "s' = hand_over p first batch s1\<lparr>ws_rr := rr\<rparr>"
        using Cons.prems(3) b Proceed pb by (simp_all only: walk_loop_Cons) auto
      then show ?thesis using Cons.prems(1) fr by (intro exI [of _ 1]) simp
    qed
  qed
qed

lemma gate_timedOut:
  assumes "gate_batch p prev first s = Proceed s'" and "ws_timedOut s \<noteq> [] \<longrightarrow> ws_progressBlocked s"
  shows "ws_timedOut s' \<noteq> [] \<longrightarrow> ws_progressBlocked s'"
  using assms by (cases p prev first s rule: gate_cases) auto

lemma walk_loop_timedOut:
  assumes "ws_timedOut s \<noteq> [] \<longrightarrow> ws_progressBlocked s" "[] \<notin> set rest"
    and "walk_loop p prev rest s = (err, s')"
  shows "ws_timedOut s' \<noteq> [] \<longrightarrow> ws_progressBlocked s'"
  using assms(1) _ _ _ _ assms(2) subset_refl assms(3)
  by (rule walk_loop_rule [where P = "\<lambda>_ s. ws_timedOut s \<noteq> [] \<longrightarrow> ws_progressBlocked s"
        and Q = "\<lambda>_ s. ws_timedOut s \<noteq> [] \<longrightarrow> ws_progressBlocked s"])
    (auto dest: gate_break_frame gate_timedOut)

definition cleared_by :: "'s walk_params \<Rightarrow> RunlevelTracker \<Rightarrow> 's walk_state \<Rightarrow> bool" where
  "cleared_by p t0 s \<longleftrightarrow>
     (\<forall>ord. IsCleared (wp_version p) ord (ws_runlevels s) \<longleftrightarrow>
        (\<exists>(k, b) \<in> set (ws_processed s). ord \<le> Order (n_runlevel (hd b))) \<or> IsCleared (wp_version p) ord t0)"

lemma cleared_by_hand_over:
  assumes "gate_batch p prev first s = Proceed s'" and "cleared_by p t0 s"
  shows "cleared_by p t0 (hand_over p first (first # others) s')"
  using assms(2) gate_frame [OF assms(1)]
  by (auto simp: cleared_by_def IsCleared_MarkCleared_same)

lemma cleared_by_frame:
  "cleared_by p t0 (batch_done p prev first rr s) = cleared_by p t0 s"
  "cleared_by p t0 (s\<lparr>ws_rr := rr\<rparr>) = cleared_by p t0 s"
  by (simp_all add: cleared_by_def)

lemma cleared_by_break: "gate_batch p prev first s = Break s' \<Longrightarrow> cleared_by p t0 s \<Longrightarrow> cleared_by p t0 s'"
  using gate_break_frame [of p prev first s s'] by (simp add: cleared_by_def)

lemma walk_loop_cleared:
  assumes "cleared_by p t0 s" "[] \<notin> set rest" "walk_loop p prev rest s = (err, s')"
  shows "cleared_by p t0 s'"
  using assms(1) _ _ _ _ assms(2) subset_refl assms(3)
  by (rule walk_loop_rule [where P = "\<lambda>_. cleared_by p t0" and Q = "\<lambda>_. cleared_by p t0"])
    (auto simp: cleared_by_frame intro: cleared_by_hand_over cleared_by_break)

lemma unified_fresh_nonempty: "[] \<notin> set (unified_fresh r)"
  using runlevel_batches_ok unfolding unified_fresh_def batches_ok_def by blast

lemma WalkBatches_loop:
  assumes "unified_coherent reg" and "WalkBatches p reg tr rl rr = ((q, err), s, reg')"
  obtains s1 where "walk_loop p [] (unified_fresh reg) (walk_start tr rl rr) = (err, s1)"
    and "s = s1\<lparr>ws_conditions := ws_conditions s\<rparr>"
    and "q = (if err = None then ws_requeueAfter s1 else 0)"
    and "ws_conditions s = ws_conditions s1 @
      (if err = None \<and> \<not> ws_progressBlocked s1
       then [cond ConditionTypeProvisioningProgress ConditionTrue '''' ''''] else [])"
proof -
  from uni.coherent_resolved(1) [OF assms(1)] obtain reg1 where
    "ResolvedBatches reg = (Inr (unified_fresh reg), reg1)"
    by (cases "ResolvedBatches reg") auto
  then show thesis
    using assms(2) that
    by (cases "walk_loop p [] (unified_fresh reg) (walk_start tr rl rr)")
      (auto simp: WalkBatches_def Let_def split: option.splits if_splits)
qed

lemma walk_start_sel [simp]:
  "ws_processed (walk_start tr rl rr) = []" "ws_timedOut (walk_start tr rl rr) = []"
  "ws_requeueAfter (walk_start tr rl rr) = 0" "\<not> ws_progressBlocked (walk_start tr rl rr)"
  "ws_runlevels (walk_start tr rl rr) = rl" "ws_tracker (walk_start tr rl rr) = tr"
  "ws_rr (walk_start tr rl rr) = rr" "ws_conditions (walk_start tr rl rr) = []"
  by (simp_all add: walk_start_def)

lemma walk_start_inv [simp]:
  "walk_inv p tr [] (walk_start tr rl rr)" "walk_wf [] (walk_start tr rl rr)" "cleared_by p rl (walk_start tr rl rr)"
  by (simp_all add: walk_inv_def gated_def excused_def untouched_def walk_wf_def cleared_by_def)

text \<open>What the loop has recorded while no gate was blocked, and the status of every condition it wrote.\<close>

definition quiet :: "'s walk_state \<Rightarrow> bool" where
  "quiet s \<longleftrightarrow> (\<forall>c \<in> set (ws_conditions s). cStatus c = ConditionFalse) \<and>
     (\<not> ws_progressBlocked s \<longrightarrow> ws_conditions s = [] \<and> ws_timedOut s = [] \<and> ws_requeueAfter s = 0)"

lemma quiet_gate: "gate_batch p prev first s = Proceed s' \<Longrightarrow> quiet s \<Longrightarrow> quiet s'"
  by (cases p prev first s rule: gate_cases) (auto simp: quiet_def cond_defs)

lemma quiet_break: "gate_batch p prev first s = Break s' \<Longrightarrow> quiet s \<Longrightarrow> quiet s'"
  by (cases p prev first s rule: gate_cases) (auto simp: quiet_def cond_defs)

lemma quiet_frame [simp]:
  "quiet (hand_over p first b s) = quiet s" "quiet (batch_done p prev first rr s) = quiet s"
  "quiet (s\<lparr>ws_rr := rr\<rparr>) = quiet s" "quiet (walk_start tr rl rr)"
  by (simp_all add: quiet_def hand_over_def batch_done_def)

lemma walk_loop_quiet:
  assumes "quiet s" "[] \<notin> set rest" "walk_loop p prev rest s = (err, s')"
  shows "quiet s'"
  using assms(1) _ _ _ _ assms(2) subset_refl assms(3)
  by (rule walk_loop_rule [where P = "\<lambda>_. quiet" and Q = "\<lambda>_. quiet"])
    (auto intro: quiet_gate quiet_break)

text \<open>A runlevel whose stuck timestamp is old enough never holds the walk back.\<close>

definition overdue :: "'s walk_params \<Rightarrow> StuckTracker \<Rightarrow> UnifiedNode \<Rightarrow> bool" where
  "overdue p t first \<longleftrightarrow> 0 < batch_timeout p first \<and>
     (\<exists>ts. stuck_at t (wp_instanceID p) (Order (n_runlevel first)) = Some ts \<and>
        (\<forall>k. batch_timeout p first \<le> wp_now p k - ts))"

lemma gate_overdue:
  assumes "overdue p (ws_tracker s) first"
  obtains s' where "gate_batch p prev first s = Proceed s'"
proof (cases p prev first s rule: gate_cases)
  case (wait msg)
  with assms have False
    by (auto simp: overdue_def batch_elapsed_def batch_since_def Since_fst)
  then show thesis ..
qed (use that in auto)

lemma overdue_next:
  assumes "gate_batch p prev first s = Proceed s'" and "overdue p (ws_tracker s) f"
    and "Order (n_runlevel f) \<noteq> Order (n_runlevel first)"
  shows "overdue p (ws_tracker (batch_done p prev first rr (hand_over p first b s'))) f"
proof -
  have "stuck_at (ws_tracker s') (wp_instanceID p) (Order (n_runlevel f)) =
      stuck_at (ws_tracker s) (wp_instanceID p) (Order (n_runlevel f))"
    using assms(1,3)
    by (cases p prev first s rule: gate_cases) (auto simp: batch_since_def Since_snd_other)
  with assms(2,3) show ?thesis by (simp add: overdue_def Clear_stuck_at)
qed

lemma walk_loop_overdue:
  assumes "\<forall>b \<in> set rest. b \<noteq> [] \<and> overdue p (ws_tracker s) (hd b)"
    and "distinct (map (\<lambda>b. Order (n_runlevel (hd b))) rest)"
    and "\<forall>b r. fst (wp_processBatch p b r) = None"
    and "map snd (ws_processed s) = prev"
  shows "\<exists>s'. walk_loop p prev rest s = (None, s') \<and> map snd (ws_processed s') = prev @ rest"
  using assms(1,2,4)
proof (induction rest arbitrary: prev s)
  case Nil
  then show ?case by auto
next
  case (Cons batch rest)
  then obtain first others where b: "batch = first # others" by (cases batch) auto
  from Cons.prems b obtain s1 where g: "gate_batch p prev first s = Proceed s1"
    using gate_overdue [of p s first prev] by auto
  note fr = gate_frame [OF g]
  from assms(3) obtain rr where pb: "wp_processBatch p batch (ws_rr s1) = (None, rr)"
    by (metis prod.collapse)
  let ?s2 = "batch_done p prev first rr (hand_over p first batch s1)"
  have "c \<noteq> [] \<and> overdue p (ws_tracker ?s2) (hd c)" if c: "c \<in> set rest" for c
  proof
    show "c \<noteq> []" using c Cons.prems(1) by simp
    have "Order (n_runlevel (hd c)) \<noteq> Order (n_runlevel first)"
      using c Cons.prems(2) b by (force simp: image_iff)
    with c Cons.prems(1) show "overdue p (ws_tracker ?s2) (hd c)"
      by (intro overdue_next [OF g]) simp_all
  qed
  moreover have "map snd (ws_processed ?s2) = prev @ [batch]" using Cons.prems(3) fr by simp
  ultimately obtain s' where "walk_loop p (prev @ [batch]) rest ?s2 = (None, s')"
    "map snd (ws_processed s') = (prev @ [batch]) @ rest"
    using Cons.IH [of ?s2 "prev @ [batch]"] Cons.prems(2) by auto
  then show ?case using g pb b by (simp only: walk_loop_Cons) simp
qed

lemma batches_ok_orders:
  assumes "batches_ok nm rl ns bs"
  shows "distinct (map (\<lambda>b. Order (rl (hd b))) bs)"
proof -
  have ne: "\<forall>b \<in> set bs. b \<noteq> []"
    and srt: "sorted_wrt (\<lambda>b c. \<forall>m \<in> set b. \<forall>n \<in> set c. Order (rl m) < Order (rl n)) bs"
    using assms by (auto simp: batches_ok_def)
  have "sorted_wrt (\<lambda>b c. Order (rl (hd b)) < Order (rl (hd c))) bs"
    by (rule sorted_wrt_mono_rel [OF _ srt]) (use ne in auto)
  then have "sorted_wrt (<) (map (\<lambda>b. Order (rl (hd b))) bs)" by (simp add: sorted_wrt_map)
  then show ?thesis by (simp add: strict_sorted_iff)
qed

text \<open>The stuck timestamp of a runlevel that was passed is gone.\<close>

definition unstuck :: "'s walk_params \<Rightarrow> UnifiedNode list list \<Rightarrow> 's walk_state \<Rightarrow> bool" where
  "unstuck p prev s \<longleftrightarrow> map snd (ws_processed s) = prev \<and>
     (\<forall>b \<in> set (tl prev). stuck_at (ws_tracker s) (wp_instanceID p) (Order (n_runlevel (hd b))) = None)"

lemma walk_loop_unstuck:
  assumes "unstuck p prev s" "[] \<notin> set rest" "walk_loop p prev rest s = (None, s')"
    and "distinct (map (\<lambda>b. Order (n_runlevel (hd b))) (prev @ rest))"
  shows "unstuck p (map snd (ws_processed s')) s'"
  using assms
proof (induction rest arbitrary: prev s)
  case Nil
  then show ?case by (auto simp: unstuck_def)
next
  case (Cons batch rest)
  then obtain first others where b: "batch = first # others" by (cases batch) auto
  have new: "Order (n_runlevel (hd c)) \<noteq> Order (n_runlevel first)" if "c \<in> set (tl prev)" for c
    using Cons.prems(4) b that list.set_sel(2) [of prev c] by (cases "prev = []") force+
  show ?case
  proof (cases "gate_batch p prev first s")
    case (Break s1)
    with Cons.prems b have "s' = s1" by simp
    with gate_break_frame [OF Break] Cons.prems(1) new show ?thesis
      by (auto simp: unstuck_def batch_since_def Since_snd_other)
  next
    case (Proceed s1)
    note fr = gate_frame [OF this]
    obtain rr where pb: "wp_processBatch p batch (ws_rr s1) = (None, rr)"
      using Cons.prems(3) b Proceed
      by (simp only: walk_loop_Cons) (auto split: option.splits prod.splits)
    let ?s2 = "batch_done p prev first rr (hand_over p first batch s1)"
    have w: "walk_loop p (prev @ [batch]) rest ?s2 = (None, s')"
      using Cons.prems(3) b Proceed pb by (simp only: walk_loop_Cons) simp
    have "stuck_at (ws_tracker s1) (wp_instanceID p) (Order (n_runlevel (hd c))) =
        stuck_at (ws_tracker s) (wp_instanceID p) (Order (n_runlevel (hd c)))" if "c \<in> set (tl prev)" for c
      using Proceed new [OF that]
      by (cases p prev first s rule: gate_cases) (auto simp: batch_since_def Since_snd_other)
    then have "unstuck p (prev @ [batch]) ?s2"
      using Cons.prems(1) fr b by (auto simp: unstuck_def Clear_stuck_at tl_append split: list.splits)
    then show ?thesis using Cons.IH [OF _ _ w] Cons.prems(2,4) by simp
  qed
qed

section \<open>A concrete platform for witnesses\<close>

text \<open>
  \<open>demo_params ready now\<close> walks the two nodes of \<open>demo_reg\<close> with a checker that answers
  \<open>ready\<close> for every name at every observation and a clock that reads \<open>now\<close>.
\<close>

definition demo_params :: "bool \<Rightarrow> int \<Rightarrow> policy_overrides \<Rightarrow> unit walk_params" where
  "demo_params ready now ovr =
     \<lparr>wp_checker = (\<lambda>k n. (ready, None)), wp_now = (\<lambda>k. now), wp_instanceID = ''dsc'',
      wp_version = ''3.0.0'', wp_dagDisabled = False, wp_policies = ovr,
      wp_processBatch = (\<lambda>b u. (None, u))\<rparr>"

definition demo_walk :: "bool \<Rightarrow> int \<Rightarrow> policy_overrides \<Rightarrow> StuckTracker \<Rightarrow> unit walk_state" where
  "demo_walk ready now ovr tr =
     fst (snd (WalkBatches (demo_params ready now ovr) demo_reg tr zero_tracker ()))"

definition demo_result :: "bool \<Rightarrow> int \<Rightarrow> policy_overrides \<Rightarrow> StuckTracker \<Rightarrow> int \<times> go_error option" where
  "demo_result ready now ovr tr =
     fst (WalkBatches (demo_params ready now ovr) demo_reg tr zero_tracker ())"

lemma demo_walk_eq:
  "WalkBatches (demo_params ready now ovr) demo_reg tr zero_tracker () =
     ((fst (demo_result ready now ovr tr), snd (demo_result ready now ovr tr)),
      demo_walk ready now ovr tr,
      snd (snd (WalkBatches (demo_params ready now ovr) demo_reg tr zero_tracker ())))"
  by (simp add: demo_walk_def demo_result_def)

lemma demo_walk_ok:
  "snd (demo_result ready now ovr tr) = None \<Longrightarrow>
   WalkBatches (demo_params ready now ovr) demo_reg tr zero_tracker () =
     ((fst (demo_result ready now ovr tr), None), demo_walk ready now ovr tr,
      snd (snd (WalkBatches (demo_params ready now ovr) demo_reg tr zero_tracker ())))"
  using demo_walk_eq by metis

abbreviation demo_batches :: "UnifiedNode list list" where
  "demo_batches \<equiv> runlevel_batches n_name n_runlevel (enabled_nodes demo_reg)"

section \<open>Properties of the walk\<close>

lemma WalkBatches_gated:
  assumes "unified_coherent reg" "unified_wf reg" and "\<not> wp_dagDisabled p"
    and "WalkBatches p reg tr rl rr = ((q, err), s, reg')"
  shows "gated p tr s"
proof -
  let ?bs = "runlevel_batches n_name n_runlevel (enabled_nodes reg)"
  obtain s1 where w: "walk_loop p [] ?bs (walk_start tr rl rr) = (err, s1)"
    and s: "s = s1\<lparr>ws_conditions := ws_conditions s\<rparr>"
    using WalkBatches_loop [OF assms(1,4)] unfolding unified_fresh_spec [OF assms(2)] by metis
  have ok: "batches_ok n_name n_runlevel (enabled_nodes reg) ?bs" by (rule runlevel_batches_ok)
  have "gated p tr s1"
    by (rule walk_loop_gated [OF _ assms(3) _ _ w]) (use ok batches_ok_orders [OF ok] in \<open>auto simp: batches_ok_def\<close>)
  moreover have "ws_processed s1 = ws_processed s"
    by (subst s) simp
  ultimately show ?thesis by (simp add: gated_def)
qed

lemma WalkBatches_prefix:
  assumes "unified_coherent reg" and "WalkBatches p reg tr rl rr = ((q, err), s, reg')"
  obtains m where "map snd (ws_processed s) = take m (unified_fresh reg)"
proof -
  obtain s1 where w: "walk_loop p [] (unified_fresh reg) (walk_start tr rl rr) = (err, s1)"
    and s: "s = s1\<lparr>ws_conditions := ws_conditions s\<rparr>"
    using WalkBatches_loop [OF assms] by metis
  have "ws_processed s = ws_processed s1" by (subst s) simp
  with walk_loop_outcome [OF _ unified_fresh_nonempty w] that show thesis by auto
qed

text \<open>
  C1. Readiness gating, when it is not switched off. When a batch other than the first is handed to \<open>processBatch\<close>, every entry of
  every earlier batch was reported ready by the checker after the previous batch was handed over and before this one was, or it was
  given up on: in front of this batch or an earlier one it was reported not ready, and then the clock showed that the wait for
  that batch's runlevel had lasted its positive timeout, counted from the timestamp that the tracker held for this runlevel when the walk began
  (from the moment it was first found stuck if there was none).
\<close>

theorem walk_gates_on_prior_readiness:
  assumes "unified_coherent reg" and "unified_wf reg" and "\<not> wp_dagDisabled p"
    and "WalkBatches p reg tr rl rr = ((q, err), s, reg')"
    and "0 < i" and "i < length (ws_processed s)"
    and "e \<in> set (concat (map snd (take i (ws_processed s))))"
  shows "given_up p tr (ws_processed s) i (n_name e) \<or>
    (\<exists>k. fst (ws_processed s ! (i - 1)) \<le> k \<and> k < fst (ws_processed s ! i) \<and>
         fst (wp_checker p k (n_name e)))"
proof -
  have "gated_at p tr (ws_processed s) i"
    using WalkBatches_gated [OF assms(1-4)] assms(5,6) by (simp add: gated_def)
  then show ?thesis using assms(7) unfolding gated_at_def by blast
qed

theorem walk_gates_on_prior_readiness_witness:
  "(\<exists>k. k < fst (ws_processed (demo_walk True 0 [] NewStuckTracker) ! 1) \<and>
      fst (wp_checker (demo_params True 0 []) k ''kueue'')) \<and>
   (\<exists>j l k. j = 1 \<and> l < k \<and> Suc k < fst (ws_processed (demo_walk False (20 * minute) [] (snd (Since 0 ''dsc'' 20 NewStuckTracker))) ! j) \<and>
      expired (demo_params False (20 * minute) []) (snd (Since 0 ''dsc'' 20 NewStuckTracker)) (hd (demo_batches ! j)) k)"
proof
  let ?e = "\<lparr>n_name = ''kueue'', n_kind = KindComponent, n_runlevel = RL 10, n_enabled = True\<rparr>"
  let ?s = "demo_walk True 0 [] NewStuckTracker"
  have "\<not> wp_dagDisabled (demo_params True 0 [])" and "1 < length (ws_processed ?s)"
    and "?e \<in> set (concat (map snd (take 1 (ws_processed ?s))))"
    by code_simp+
  moreover have "\<not> given_up (demo_params True 0 []) NewStuckTracker (ws_processed ?s) 1 ''kueue''"
    by (simp add: given_up_def demo_params_def)
  ultimately show "\<exists>k. k < fst (ws_processed ?s ! 1) \<and> fst (wp_checker (demo_params True 0 []) k ''kueue'')"
    using walk_gates_on_prior_readiness [OF demo_coherent demo_wf _ demo_walk_eq, of True 0 "[]" 1 NewStuckTracker ?e] by auto
  let ?tr = "snd (Since 0 ''dsc'' 20 NewStuckTracker)"
  let ?p = "demo_params False (20 * minute) []" and ?t = "demo_walk False (20 * minute) [] ?tr"
  have "\<not> wp_dagDisabled ?p" and "1 < length (ws_processed ?t)" and "?e \<in> set (concat (map snd (take 1 (ws_processed ?t))))"
    and at: "snd (ws_processed ?t ! 1) = demo_batches ! 1"
    by code_simp+
  moreover have "\<not> fst (wp_checker ?p k n)" for k n
    by (simp add: demo_params_def)
  ultimately have "given_up ?p ?tr (ws_processed ?t) 1 ''kueue''"
    using walk_gates_on_prior_readiness [OF demo_coherent demo_wf _ demo_walk_eq, of False "20 * minute" "[]" 1 ?tr ?e] by auto
  then obtain j l k where j: "0 < j" "j \<le> 1" "l < k" "Suc k < fst (ws_processed ?t ! j)" "expired ?p ?tr (hd (snd (ws_processed ?t ! j))) k"
    unfolding given_up_def by blast
  then have "j = 1"
    by simp
  with j at show "\<exists>j l k. j = 1 \<and> l < k \<and> Suc k < fst (ws_processed ?t ! j) \<and> expired ?p ?tr (hd (demo_batches ! j)) k"
    by auto
qed

text \<open>
  C2. Order of provisioning. The batches handed over are an initial segment of the batches of the
  enabled nodes in ascending runlevel order; a walk that returns without error either hands over all of
  them with nothing to requeue, or stops in front of a runlevel whose timeout has not expired, having
  written \<open>AwaitingReadiness\<close> last.
\<close>

theorem walk_processes_prefix_in_order:
  assumes "unified_coherent reg" and "unified_wf reg"
    and "WalkBatches p reg tr rl rr = ((q, err), s, reg')"
  shows "\<exists>m \<le> length (runlevel_batches n_name n_runlevel (enabled_nodes reg)).
    map snd (ws_processed s) = take m (runlevel_batches n_name n_runlevel (enabled_nodes reg)) \<and>
    (err = None \<longrightarrow>
       (m = length (runlevel_batches n_name n_runlevel (enabled_nodes reg)) \<and> q = 0) \<or>
       (m < length (runlevel_batches n_name n_runlevel (enabled_nodes reg)) \<and>
        stopped p (hd (runlevel_batches n_name n_runlevel (enabled_nodes reg) ! m)) s))"
proof -
  obtain s1 where w: "walk_loop p [] (unified_fresh reg) (walk_start tr rl rr) = (err, s1)"
    and s: "s = s1\<lparr>ws_conditions := ws_conditions s\<rparr>"
    and q: "q = (if err = None then ws_requeueAfter s1 else 0)"
    and c: "ws_conditions s = ws_conditions s1 @
      (if err = None \<and> \<not> ws_progressBlocked s1
       then [cond ConditionTypeProvisioningProgress ConditionTrue '''' ''''] else [])"
    by (rule WalkBatches_loop [OF assms(1,3)])
  have same: "s = s1" if "stopped p f s1" "err = None" for f
  proof -
    from that c have "ws_conditions s = ws_conditions s1" by (auto simp: stopped_def)
    with s show ?thesis by simp
  qed
  have ps: "ws_processed s = ws_processed s1" by (subst s) simp
  from walk_loop_outcome [OF _ unified_fresh_nonempty w] obtain m where
    m: "m \<le> length (unified_fresh reg)" "map snd (ws_processed s1) = take m (unified_fresh reg)"
    "err = None \<longrightarrow> (m = length (unified_fresh reg) \<and> ws_requeueAfter s1 = 0) \<or>
       (m < length (unified_fresh reg) \<and> stopped p (hd (unified_fresh reg ! m)) s1)" by auto
  have "err = None \<longrightarrow> (m = length (unified_fresh reg) \<and> q = 0) \<or>
       (m < length (unified_fresh reg) \<and> stopped p (hd (unified_fresh reg ! m)) s)"
    using m(3) same q by auto
  with m(1,2) ps show ?thesis
    unfolding unified_fresh_spec [OF assms(2)] by auto
qed

theorem walk_processes_prefix_in_order_witness:
  "\<exists>m \<le> length (runlevel_batches n_name n_runlevel (enabled_nodes demo_reg)).
    map snd (ws_processed (demo_walk False 0 [] NewStuckTracker)) =
      take m (runlevel_batches n_name n_runlevel (enabled_nodes demo_reg))"
  using walk_processes_prefix_in_order [OF demo_coherent demo_wf demo_walk_eq] by fast

text \<open>
  C3. \<open>ProvisioningProgress=True\<close> is trustworthy: when the walk writes it, every batch of the enabled
  nodes was handed over, no entry was given up on after a timeout, nothing is to be requeued, and it is
  the only condition of the walk.
\<close>

theorem walk_progress_true:
  assumes "unified_coherent reg" and "unified_wf reg"
    and "WalkBatches p reg tr rl rr = ((q, err), s, reg')"
    and "c \<in> set (ws_conditions s)" and "cStatus c = ConditionTrue"
  shows "err = None \<and> q = 0 \<and> ws_timedOut s = [] \<and> ws_conditions s = [c] \<and>
    map snd (ws_processed s) = runlevel_batches n_name n_runlevel (enabled_nodes reg)"
proof -
  obtain s1 where w: "walk_loop p [] (unified_fresh reg) (walk_start tr rl rr) = (err, s1)"
    and s: "s = s1\<lparr>ws_conditions := ws_conditions s\<rparr>"
    and q: "q = (if err = None then ws_requeueAfter s1 else 0)"
    and c: "ws_conditions s = ws_conditions s1 @
      (if err = None \<and> \<not> ws_progressBlocked s1
       then [cond ConditionTypeProvisioningProgress ConditionTrue '''' ''''] else [])"
    by (rule WalkBatches_loop [OF assms(1,3)])
  have qt: "quiet s1" by (rule walk_loop_quiet [OF _ unified_fresh_nonempty w]) simp
  then have ok: "err = None" "\<not> ws_progressBlocked s1"
    using assms(4,5) c by (auto simp: quiet_def split: if_splits)
  with qt have nil: "ws_conditions s1 = []" "ws_timedOut s1 = []" "ws_requeueAfter s1 = 0"
    by (auto simp: quiet_def)
  have sel: "ws_timedOut s = ws_timedOut s1" "ws_processed s = ws_processed s1" by (subst s, simp)+
  from walk_loop_outcome [OF _ unified_fresh_nonempty w] ok
  have "map snd (ws_processed s1) = unified_fresh reg" by (auto simp: stopped_def)
  with ok nil sel q c assms(4) unified_fresh_spec [OF assms(2)] show ?thesis by simp
qed

theorem walk_progress_true_witness:
  "map snd (ws_processed (demo_walk True 0 [] NewStuckTracker)) =
     runlevel_batches n_name n_runlevel (enabled_nodes demo_reg)"
proof -
  have "cond ConditionTypeProvisioningProgress ConditionTrue '''' '''' \<in>
      set (ws_conditions (demo_walk True 0 [] NewStuckTracker))" by code_simp
  from walk_progress_true [OF demo_coherent demo_wf demo_walk_eq this] show ?thesis
    by (simp add: cond_defs)
qed

text \<open>
  C4. Requeueing of a blocked walk. When the walk stops in front of a runlevel, the delay it returns is
  the runlevel's timeout less the time since the stuck timestamp it keeps. With a positive timeout the
  delay is positive, and at most the timeout when the clock did not run backwards, so the caller
  retries before the timeout; with timeout 0 (block forever) the delay is never positive.
\<close>

theorem walk_blocked_requeue:
  assumes "unified_coherent reg" and "unified_wf reg"
    and "WalkBatches p reg tr rl rr = ((q, None), s, reg')"
    and "map snd (ws_processed s) = take m (runlevel_batches n_name n_runlevel (enabled_nodes reg))"
    and "m < length (runlevel_batches n_name n_runlevel (enabled_nodes reg))"
    and "t = batch_timeout p (hd (runlevel_batches n_name n_runlevel (enabled_nodes reg) ! m))"
  shows "\<exists>ts k. stuck_at (ws_tracker s) (wp_instanceID p)
       (Order (n_runlevel (hd (runlevel_batches n_name n_runlevel (enabled_nodes reg) ! m)))) = Some ts \<and>
     q = t - (wp_now p k - ts) \<and> (0 < t \<longrightarrow> 0 < q) \<and>
     (ts \<le> wp_now p k \<longrightarrow> q \<le> t \<and> (t = 0 \<longrightarrow> q \<le> 0))"
proof -
  obtain s1 where w: "walk_loop p [] (unified_fresh reg) (walk_start tr rl rr) = (None, s1)"
    and s: "s = s1\<lparr>ws_conditions := ws_conditions s\<rparr>" and q: "q = ws_requeueAfter s1"
    using WalkBatches_loop [OF assms(1,3)] by (metis (full_types))
  have sel: "ws_tracker s = ws_tracker s1" "ws_processed s = ws_processed s1" by (subst s, simp)+
  let ?bs = "unified_fresh reg"
  note bs = unified_fresh_spec [OF assms(2), symmetric]
  from walk_loop_outcome [OF _ unified_fresh_nonempty w] obtain m' where
    m': "m' \<le> length ?bs" "map snd (ws_processed s1) = take m' ?bs"
    "m' = length ?bs \<or> m' < length ?bs \<and> stopped p (hd (?bs ! m')) s1" by auto
  have "m' = m"
    using m'(1,2) assms(4,5) sel(2) unfolding bs by (metis length_take min.absorb2 less_imp_le)
  with m'(3) assms(5) have "stopped p (hd (?bs ! m)) s1" unfolding bs by simp
  then show ?thesis
    using sel q assms(6) unfolding bs stopped_def by (force simp: not_less)
qed

theorem walk_blocked_requeue_witness:
  "fst (demo_result False 7 [] NewStuckTracker) > 0 \<and>
   fst (demo_result False 7 [(20, \<lparr>Timeout = 0\<rparr>)] NewStuckTracker) \<le> 0"
proof
  have n: "wp_now (demo_params False 7 ovr) k = 7" "wp_instanceID (demo_params False 7 ovr) = ''dsc''"
    for ovr k by (simp_all add: demo_params_def)
  have pre: "1 < length demo_batches" by code_simp
  have "snd (demo_result False 7 [] NewStuckTracker) = None"
    "map snd (ws_processed (demo_walk False 7 [] NewStuckTracker)) = take 1 demo_batches"
    "batch_timeout (demo_params False 7 []) (hd (demo_batches ! 1)) > 0" by code_simp+
  with walk_blocked_requeue [OF demo_coherent demo_wf demo_walk_ok _ pre refl, of False 7 "[]" NewStuckTracker]
  show "fst (demo_result False 7 [] NewStuckTracker) > 0" by blast
  have "snd (demo_result False 7 [(20, \<lparr>Timeout = 0\<rparr>)] NewStuckTracker) = None"
    "map snd (ws_processed (demo_walk False 7 [(20, \<lparr>Timeout = 0\<rparr>)] NewStuckTracker)) = take 1 demo_batches"
    "batch_timeout (demo_params False 7 [(20, \<lparr>Timeout = 0\<rparr>)]) (hd (demo_batches ! 1)) = 0"
    "stuck_at (ws_tracker (demo_walk False 7 [(20, \<lparr>Timeout = 0\<rparr>)] NewStuckTracker)) ''dsc''
       (Order (n_runlevel (hd (demo_batches ! 1)))) = Some 7" by code_simp+
  with walk_blocked_requeue [OF demo_coherent demo_wf demo_walk_ok _ pre refl,
      of False 7 "[(20, \<lparr>Timeout = 0\<rparr>)]" NewStuckTracker] n
  show "fst (demo_result False 7 [(20, \<lparr>Timeout = 0\<rparr>)] NewStuckTracker) \<le> 0" by auto
qed

lemma WalkBatches_cleared:
  assumes "unified_coherent reg" and "WalkBatches p reg tr rl rr = ((q, err), s, reg')"
  shows "IsCleared (wp_version p) ord (ws_runlevels s) \<longleftrightarrow>
    (\<exists>(k, b) \<in> set (ws_processed s). ord \<le> Order (n_runlevel (hd b))) \<or> IsCleared (wp_version p) ord rl"
proof -
  obtain s1 where w: "walk_loop p [] (unified_fresh reg) (walk_start tr rl rr) = (err, s1)"
    and s: "s = s1\<lparr>ws_conditions := ws_conditions s\<rparr>"
    using WalkBatches_loop [OF assms] by metis
  have "ws_runlevels s = ws_runlevels s1" "ws_processed s = ws_processed s1" by (subst s, simp)+
  moreover have "cleared_by p rl s1"
    by (rule walk_loop_cleared [OF _ unified_fresh_nonempty w]) simp
  ultimately show ?thesis unfolding cleared_by_def by simp
qed

text \<open>
  The runlevel tracker after a walk. For the walk's version a runlevel counts as cleared exactly
  when it is at or below the runlevel of a batch that was handed over, or was cleared before.
\<close>

theorem walk_clears_runlevels:
  assumes "unified_coherent reg" and "WalkBatches p reg tr rl rr = ((q, err), s, reg')"
  shows "IsCleared (wp_version p) ord (ws_runlevels s) \<longleftrightarrow>
    (\<exists>(k, b) \<in> set (ws_processed s). ord \<le> Order (n_runlevel (hd b))) \<or> IsCleared (wp_version p) ord rl"
  using assms by (rule WalkBatches_cleared)

theorem walk_clears_runlevels_witness:
  "IsCleared ''3.0.0'' 10 (ws_runlevels (demo_walk False 0 [] NewStuckTracker)) \<and>
   \<not> IsCleared ''3.0.0'' 20 (ws_runlevels (demo_walk False 0 [] NewStuckTracker))"
proof -
  have "wp_version (demo_params False 0 []) = ''3.0.0''"
    "map (\<lambda>(k, b). Order (n_runlevel (hd b))) (ws_processed (demo_walk False 0 [] NewStuckTracker)) = [10]"
    "\<not> IsCleared ''3.0.0'' 20 zero_tracker"
    by code_simp+
  with walk_clears_runlevels [OF demo_coherent demo_walk_eq, of False 0 "[]" _ NewStuckTracker]
  show ?thesis by (auto simp: case_prod_beta map_eq_Cons_conv)
qed

text \<open>
  C7. Timeouts guarantee progress. When every runlevel but the first has been stuck for at least its
  (positive) timeout and no batch fails to process, one walk hands over every batch, whatever the
  checker answers.
\<close>

theorem walk_overdue_advances:
  assumes "unified_coherent reg" and "unified_wf reg"
    and "\<And>b. b \<in> set (tl (runlevel_batches n_name n_runlevel (enabled_nodes reg))) \<Longrightarrow> overdue p tr (hd b)"
    and "\<And>b r. fst (wp_processBatch p b r) = None"
    and "WalkBatches p reg tr rl rr = ((q, err), s, reg')"
  shows "err = None \<and> q = 0 \<and>
    map snd (ws_processed s) = runlevel_batches n_name n_runlevel (enabled_nodes reg)"
proof -
  let ?bs = "runlevel_batches n_name n_runlevel (enabled_nodes reg)"
  obtain s1 where w: "walk_loop p [] ?bs (walk_start tr rl rr) = (err, s1)"
    and s: "s = s1\<lparr>ws_conditions := ws_conditions s\<rparr>"
    and q: "q = (if err = None then ws_requeueAfter s1 else 0)"
    using WalkBatches_loop [OF assms(1,5)] unfolding unified_fresh_spec [OF assms(2)] by metis
  have sel: "ws_processed s = ws_processed s1" by (subst s) simp
  have ok: "batches_ok n_name n_runlevel (enabled_nodes reg) ?bs" by (rule runlevel_batches_ok)
  have ne: "[] \<notin> set ?bs" using ok by (auto simp: batches_ok_def)
  have all: "err = None \<and> map snd (ws_processed s1) = ?bs"
  proof (cases ?bs)
    case Nil
    with w show ?thesis by auto
  next
    case (Cons b rest)
    with ne obtain first others where b: "b = first # others" by (cases b) auto
    obtain rr' where pb: "wp_processBatch p b rr = (None, rr')"
      using assms(4) [of b rr] by (cases "wp_processBatch p b rr") auto
    let ?s0 = "walk_start tr rl rr :: 'a walk_state"
    let ?s2 = "batch_done p [] first rr' (hand_over p first b ?s0)"
    have "\<exists>s'. walk_loop p [b] rest ?s2 = (None, s') \<and> map snd (ws_processed s') = [b] @ rest"
    proof (rule walk_loop_overdue)
      show "\<forall>b \<in> set rest. b \<noteq> [] \<and> overdue p (ws_tracker ?s2) (hd b)"
        using assms(3) Cons ne by auto
      show "distinct (map (\<lambda>b. Order (n_runlevel (hd b))) rest)"
        using batches_ok_orders [OF ok] Cons by simp
    qed (simp_all add: assms(4))
    moreover have "walk_loop p [] ?bs ?s0 = walk_loop p [b] rest ?s2"
      using Cons b pb by (simp only: walk_loop_Cons) (simp add: gate_open)
    ultimately show ?thesis using w Cons by auto
  qed
  from walk_loop_outcome [OF _ ne w] all obtain m where m: "map snd (ws_processed s1) = take m ?bs"
    "m = length ?bs \<and> ws_requeueAfter s1 = 0 \<or> m < length ?bs" by auto
  have "length (take m ?bs) = length ?bs" using m(1) all by simp
  with m(2) have "ws_requeueAfter s1 = 0" by auto
  with all q sel show ?thesis by simp
qed

theorem walk_overdue_advances_witness:
  "map snd (ws_processed (demo_walk False (20 * minute) [] (snd (Since 0 ''dsc'' 20 NewStuckTracker)))) =
     demo_batches"
proof -
  let ?tr = "snd (Since 0 ''dsc'' 20 NewStuckTracker)"
  have "overdue (demo_params False (20 * minute) []) ?tr (hd b)" if "b \<in> set (tl demo_batches)" for b
  proof -
    have "list_all (\<lambda>b. Order (n_runlevel (hd b)) = 20) (tl demo_batches)"
      "stuck_at ?tr ''dsc'' 20 = Some 0" by code_simp+
    with that have "Order (n_runlevel (hd b)) = 20" "stuck_at ?tr ''dsc'' 20 = Some 0"
      by (auto simp: list_all_iff)
    then show ?thesis
      by (simp add: overdue_def batch_timeout_def demo_params_def GetRunlevelPolicy_def DefaultTimeout_def)
  qed
  moreover have "fst (wp_processBatch (demo_params False (20 * minute) []) b r) = None" for b r
    by (simp add: demo_params_def)
  ultimately show ?thesis
    using walk_overdue_advances [OF demo_coherent demo_wf _ _ demo_walk_eq] by blast
qed

text \<open>
  A runlevel that was passed starts its timeout afresh. After a walk that ends without error the
  stuck tracker holds no timestamp for any batch handed over but the first, also when the batch was
  handed over because its timeout had expired: the next walk that finds a prior entry not ready waits
  the full timeout again.
\<close>

theorem walk_restarts_timeouts:
  assumes "unified_coherent reg" and "unified_wf reg"
    and "WalkBatches p reg tr rl rr = ((q, None), s, reg')"
    and "b \<in> set (tl (map snd (ws_processed s)))"
  shows "stuck_at (ws_tracker s) (wp_instanceID p) (Order (n_runlevel (hd b))) = None"
proof -
  let ?bs = "runlevel_batches n_name n_runlevel (enabled_nodes reg)"
  obtain s1 where w: "walk_loop p [] ?bs (walk_start tr rl rr) = (None, s1)"
    and s: "s = s1\<lparr>ws_conditions := ws_conditions s\<rparr>"
    using WalkBatches_loop [OF assms(1,3)] unfolding unified_fresh_spec [OF assms(2)] by metis
  have sel: "ws_processed s = ws_processed s1" "ws_tracker s = ws_tracker s1" by (subst s, simp)+
  have ok: "batches_ok n_name n_runlevel (enabled_nodes reg) ?bs" by (rule runlevel_batches_ok)
  have "unstuck p (map snd (ws_processed s1)) s1"
    by (rule walk_loop_unstuck [OF _ _ w])
      (use ok batches_ok_orders [OF ok] in \<open>auto simp: unstuck_def batches_ok_def\<close>)
  with assms(4) sel show ?thesis by (simp add: unstuck_def)
qed

theorem walk_restarts_timeouts_witness:
  "stuck_at (ws_tracker (demo_walk False (20 * minute) [] (snd (Since 0 ''dsc'' 20 NewStuckTracker)))) ''dsc'' 20 = None \<and>
   fst (demo_result False (20 * minute) []
     (ws_tracker (demo_walk False (20 * minute) [] (snd (Since 0 ''dsc'' 20 NewStuckTracker))))) = 10 * minute"
proof
  let ?tr = "snd (Since 0 ''dsc'' 20 NewStuckTracker)"
  have ok: "snd (demo_result False (20 * minute) [] ?tr) = None"
    "demo_batches ! 1 \<in> set (tl (map snd (ws_processed (demo_walk False (20 * minute) [] ?tr))))"
    "Order (n_runlevel (hd (demo_batches ! 1))) = 20" by code_simp+
  then show "stuck_at (ws_tracker (demo_walk False (20 * minute) [] ?tr)) ''dsc'' 20 = None"
    using walk_restarts_timeouts [OF demo_coherent demo_wf demo_walk_ok [OF ok(1)] ok(2)]
    by (simp add: demo_params_def)
  show "fst (demo_result False (20 * minute) [] (ws_tracker (demo_walk False (20 * minute) [] ?tr))) = 10 * minute"
    by code_simp
qed

end
