(* ===== verification/Gates.thy ===== *)
theory Gates
  imports Prelude
begin

text \<open>
  \<open>pkg/controller/gates/gates.go\<close> and \<open>pkg/controller/provision/gates_action.go\<close>: the upgrade gates an
  administrator acknowledges in the ConfigMap \<open>odh-upgrade-acks\<close>.

  The Kubernetes client is a parameter: \<open>cm_client\<close> gives the answer to the \<open>k\<close>-th request of a call,
  so answers may change between requests, and a successful \<open>Create\<close> or \<open>Update\<close> also gives the object
  as the server returns it (the Go client decodes the response into its argument). Each operation
  returns its result and the write requests it sent, in order. The YAML decoder, the embedded file
  system and \<open>unstructured.NestedStringMap\<close> are parameters too.
\<close>

section \<open>ConfigMaps and the client\<close>

record configmap =
  cm_name :: string
  cm_namespace :: string
  cm_labels :: "(string, string) gomap"
  cm_annotations :: "(string, string) gomap"
  cm_data :: "(string, string) gomap"

record cm_client =
  cc_get :: "nat \<Rightarrow> string \<Rightarrow> string \<Rightarrow> go_error + configmap"
  cc_create :: "nat \<Rightarrow> configmap \<Rightarrow> go_error + configmap"
  cc_update :: "nat \<Rightarrow> configmap \<Rightarrow> go_error + configmap"
  cc_list :: "nat \<Rightarrow> string \<Rightarrow> (string \<times> string) \<Rightarrow> go_error + configmap list"

datatype cm_write = CreateReq configmap | UpdateReq configmap

abbreviation (input) UpgradeGateLabel :: string where
  "UpgradeGateLabel \<equiv> ''platform.opendatahub.io/upgrade-gate''"

abbreviation (input) AcksConfigMap :: string where
  "AcksConfigMap \<equiv> ''odh-upgrade-acks''"

abbreviation (input) ManagedByAnnotation :: string where
  "ManagedByAnnotation \<equiv> ''platform.opendatahub.io/managed-by''"

section \<open>The gate checker\<close>

record GateChecker =
  gc_client :: cm_client
  gc_namespace :: string

definition NewGateChecker :: "cm_client \<Rightarrow> string \<Rightarrow> GateChecker" where
  "NewGateChecker cli namespace = \<lparr>gc_client = cli, gc_namespace = namespace\<rparr>"

record UnackedGate =
  ug_Key :: string
  ug_Message :: string

definition versionPrefix :: "string \<Rightarrow> string" where
  "versionPrefix version = ''ack-'' @ version @ ''-''"

definition filter_gates :: "(string, string) gomap \<Rightarrow> string \<Rightarrow> (string, string) gomap" where
  "filter_gates gateEntries version = filter (\<lambda>(k, v). HasPrefix k (versionPrefix version)) gateEntries"

definition collectUnacked :: "configmap \<Rightarrow> (string, string) gomap \<Rightarrow> UnackedGate list" where
  "collectUnacked cm filtered =
     sort_key ug_Key
       (map (\<lambda>(key, message). \<lparr>ug_Key = key, ug_Message = message\<rparr>)
         (filter (\<lambda>(key, message). at_or (cm_data cm) '''' key \<noteq> ''true'') filtered))"

text \<open>The merge loop of \<open>EnsureGates\<close>: the new data and the flag \<open>dirty\<close>.\<close>

fun merge_loop :: "(string, string) gomap \<Rightarrow> (string, string) gomap \<times> bool \<Rightarrow> (string, string) gomap \<times> bool" where
  "merge_loop [] (data, dirty) = (data, dirty)"
| "merge_loop ((k, v) # rest) (data, dirty) =
     (if at_or data '''' k = ''true'' then merge_loop rest (data, dirty)
      else if at_or data '''' k \<noteq> v then merge_loop rest (AList.update k v data, True)
      else merge_loop rest (data, dirty))"

definition merge_acks ::
  "GateChecker \<Rightarrow> nat \<Rightarrow> (string, string) gomap \<Rightarrow> configmap \<Rightarrow>
     (go_error + UnackedGate list) \<times> cm_write list" where
  "merge_acks gc k filtered cm =
     (let (data, dirty) = merge_loop filtered (cm_data cm, False);
          cm1 = cm\<lparr>cm_data := data\<rparr> in
      if dirty then
        (case cc_update (gc_client gc) k cm1 of
           Inl err \<Rightarrow> (Inl (wrap (''failed to update '' @ AcksConfigMap @ '' ConfigMap'') err), [UpdateReq cm1])
         | Inr cm2 \<Rightarrow> (Inr (collectUnacked cm2 filtered), [UpdateReq cm1]))
      else (Inr (collectUnacked cm1 filtered), []))"

definition new_acks :: "string \<Rightarrow> (string, string) gomap \<Rightarrow> configmap" where
  "new_acks ns filtered =
     \<lparr>cm_name = AcksConfigMap, cm_namespace = ns, cm_labels = [],
      cm_annotations = [(ManagedByAnnotation, ''opendatahub-operator'')],
      cm_data = maps_Copy [] filtered\<rparr>"

definition EnsureGates ::
  "GateChecker \<Rightarrow> (string, string) gomap \<Rightarrow> string \<Rightarrow>
     (go_error + UnackedGate list) \<times> cm_write list" where
  "EnsureGates gc gateEntries version =
     (if version = '''' then (Inl (new_error ''version must not be empty''), [])
      else
        let filtered = filter_gates gateEntries version in
        if filtered = [] then (Inr [], [])
        else
          case cc_get (gc_client gc) 0 AcksConfigMap (gc_namespace gc) of
            Inr cm \<Rightarrow> merge_acks gc 1 filtered cm
          | Inl err \<Rightarrow>
              if err_is NotFound err then
                let cm = new_acks (gc_namespace gc) filtered in
                case cc_create (gc_client gc) 1 cm of
                  Inr cm' \<Rightarrow> (Inr (collectUnacked cm' filtered), [CreateReq cm])
                | Inl createErr \<Rightarrow>
                    if \<not> err_is AlreadyExists createErr then
                      (Inl (wrap (''failed to create '' @ AcksConfigMap @ '' ConfigMap'') createErr), [CreateReq cm])
                    else
                      (case cc_get (gc_client gc) 2 AcksConfigMap (gc_namespace gc) of
                         Inl err' \<Rightarrow>
                           (Inl (wrap (''failed to get '' @ AcksConfigMap @ '' ConfigMap after race'') err'), [CreateReq cm])
                       | Inr cm' \<Rightarrow>
                           let (res, ws) = merge_acks gc 3 filtered cm' in (res, CreateReq cm # ws))
              else (Inl (wrap (''failed to get '' @ AcksConfigMap @ '' ConfigMap'') err), []))"

definition IsGateConfigMap :: "configmap option \<Rightarrow> bool" where
  "IsGateConfigMap cm =
     (case cm of None \<Rightarrow> False | Some c \<Rightarrow> at_or (cm_labels c) '''' UpgradeGateLabel = ''true'')"

section \<open>Sources of gates\<close>

text \<open>
  The embedded directory: its listing, the contents of each file, and the stream of ConfigMaps the
  decoder yields before \<open>io.EOF\<close> (\<open>None\<close>) or another error.
\<close>

record 'b gate_fs =
  fs_ReadDir :: "go_error + (string \<times> bool) list"
  fs_ReadFile :: "string \<Rightarrow> go_error + 'b"
  fs_decode :: "'b \<Rightarrow> configmap list \<times> go_error option"

definition add_prefixed :: "string \<Rightarrow> (string, string) gomap \<Rightarrow> configmap \<Rightarrow> (string, string) gomap" where
  "add_prefixed prefix result cm =
     foldl (\<lambda>m (k, v). if HasPrefix k prefix then AList.update k v m else m) result (cm_data cm)"

fun load_files ::
  "'b gate_fs \<Rightarrow> string \<Rightarrow> (string \<times> bool) list \<Rightarrow> (string, string) gomap \<Rightarrow>
     go_error + (string, string) gomap" where
  "load_files fs prefix [] result = Inr result"
| "load_files fs prefix ((name, isDir) # entries) result =
     (if isDir then load_files fs prefix entries result
      else
        case fs_ReadFile fs (''resources/'' @ name) of
          Inl err \<Rightarrow> Inl (wrap (''failed to read gate file '' @ name) err)
        | Inr bytes \<Rightarrow>
            (case fs_decode fs bytes of
               (cms, Some err) \<Rightarrow> Inl (wrap (''failed to decode gate file '' @ name) err)
             | (cms, None) \<Rightarrow> load_files fs prefix entries (foldl (add_prefixed prefix) result cms)))"

definition LoadInTreeGates :: "'b gate_fs \<Rightarrow> string \<Rightarrow> go_error + (string, string) gomap" where
  "LoadInTreeGates fs version =
     (case fs_ReadDir fs of
        Inl err \<Rightarrow> Inl (wrap ''failed to read embedded gate resources'' err)
      | Inr entries \<Rightarrow> load_files fs (versionPrefix version) entries [])"

definition DiscoverGates :: "GateChecker \<Rightarrow> go_error + (string, string) gomap" where
  "DiscoverGates gc =
     (case cc_list (gc_client gc) 0 (gc_namespace gc) (UpgradeGateLabel, ''true'') of
        Inl err \<Rightarrow> Inl (wrap ''failed to list gate ConfigMaps'' err)
      | Inr items \<Rightarrow> Inr (foldl (\<lambda>m cm. maps_Copy m (cm_data cm)) [] items))"

section \<open>The actions\<close>

text \<open>A rendered resource: what the code reads of it, and the object itself.\<close>

record 'o resource =
  r_kind :: string
  r_name :: string
  r_labels :: "(string, string) gomap"
  r_object :: 'o

text \<open>
  \<open>rr.Resources\<close> and \<open>rr.GateEntries\<close> (a map that may be nil). \<open>nested\<close> is
  \<open>unstructured.NestedStringMap(res.Object, "data")\<close>: an error, not found, or the map.
\<close>

fun extract_loop ::
  "('o \<Rightarrow> go_error + (string, string) gomap option) \<Rightarrow> 'o resource list \<Rightarrow>
     'o resource list \<times> (string, string) gomap option \<Rightarrow>
     'o resource list \<times> (string, string) gomap option" where
  "extract_loop nested [] (kept, entries) = (kept, entries)"
| "extract_loop nested (res # rest) (kept, entries) =
     (if r_kind res \<noteq> ''ConfigMap'' \<or> at_or (r_labels res) '''' UpgradeGateLabel \<noteq> ''true''
      then extract_loop nested rest (kept @ [res], entries)
      else
        let m = (case entries of None \<Rightarrow> [] | Some m \<Rightarrow> m) in
        case nested (r_object res) of
          Inl err \<Rightarrow> extract_loop nested rest (kept @ [res], Some m)
        | Inr None \<Rightarrow> extract_loop nested rest (kept, Some m)
        | Inr (Some data) \<Rightarrow> extract_loop nested rest (kept, Some (maps_Copy m data)))"

definition ExtractUpgradeGates ::
  "('o \<Rightarrow> go_error + (string, string) gomap option) \<Rightarrow>
     'o resource list \<times> (string, string) gomap option \<Rightarrow>
     'o resource list \<times> (string, string) gomap option" where
  "ExtractUpgradeGates nested rr =
     (let (kept, entries) = extract_loop nested (fst rr) ([], snd rr) in
      (if entries \<noteq> None then kept else fst rr, entries))"

definition CheckUpgradeGatesInNamespace ::
  "'b gate_fs \<Rightarrow> cm_client \<Rightarrow> string \<Rightarrow> string \<Rightarrow> (string, string) gomap \<Rightarrow>
     go_error option \<times> condition list \<times> cm_write list" where
  "CheckUpgradeGatesInNamespace fs cli namespace version chartGates =
     (case LoadInTreeGates fs version of
        Inl err \<Rightarrow> (Some (wrap ''failed to load in-tree gates'' err), [], [])
      | Inr intreeGates \<Rightarrow>
          (case DiscoverGates (NewGateChecker cli namespace) of
             Inl err \<Rightarrow> (Some (wrap ''failed to discover cluster gates'' err), [], [])
           | Inr clusterGates \<Rightarrow>
               let allGates = maps_Copy (maps_Copy (maps_Copy [] intreeGates) clusterGates) chartGates in
               (case EnsureGates (NewGateChecker cli namespace) allGates version of
                  (Inl err, ws) \<Rightarrow> (Some (wrap ''failed to ensure upgrade gates'' err), [], ws)
                | (Inr unacked, ws) \<Rightarrow>
                    if unacked = [] then (None, [], ws)
                    else
                      (Some (GoError
                         (''provisioning blocked: '' @ fmt_nat (length unacked) @
                          '' unacknowledged upgrade gate(s) for version '' @ version) [StopError]),
                       [cond ''ProvisioningProgress'' ConditionFalse ''AdminAckRequired''
                          (''Upgrade gates not acknowledged: '' @ strings_Join (map ug_Key unacked) '', '')],
                       ws))))"

definition CheckUpgradeGates ::
  "'b gate_fs \<Rightarrow> (go_error + string) \<Rightarrow> cm_client \<Rightarrow> string \<Rightarrow> (string, string) gomap \<Rightarrow>
     go_error option \<times> condition list \<times> cm_write list" where
  "CheckUpgradeGates fs operatorNamespace cli version chartGates =
     (case operatorNamespace of
        Inl err \<Rightarrow> (Some (wrap ''cannot check upgrade gates'' err), [], [])
      | Inr ns \<Rightarrow> CheckUpgradeGatesInNamespace fs cli ns version chartGates)"

section \<open>The merge loop\<close>

text \<open>What the acknowledgment data holds for a key once a set of gates was merged into it.\<close>

definition merged_value :: "(string, string) gomap \<Rightarrow> (string, string) gomap \<Rightarrow> string \<Rightarrow> string" where
  "merged_value filtered data k =
     (case map_of filtered k of
        None \<Rightarrow> at_or data '''' k
      | Some v \<Rightarrow> if at_or data '''' k = ''true'' then ''true'' else v)"

definition pending :: "(string, string) gomap \<Rightarrow> (string, string) gomap \<Rightarrow> bool" where
  "pending filtered data \<longleftrightarrow> (\<exists>(k, v) \<in> set filtered. at_or data '''' k \<noteq> ''true'' \<and> at_or data '''' k \<noteq> v)"

lemma merge_loop_value:
  assumes "gomap_wf filtered"
  shows "at_or (fst (merge_loop filtered (data, d))) '''' k = merged_value filtered data k"
  using assms
proof (induction filtered arbitrary: data d k)
  case (Cons e rest)
  obtain k' v where e: "e = (k', v)" by force
  with Cons.prems have new: "map_of rest k' = None" by (simp add: gomap_wf_def map_of_eq_None_iff)
  have "gomap_wf rest" using Cons.prems by (simp add: gomap_wf_def)
  note IH = Cons.IH [OF this]
  show ?case using new by (simp add: e IH merged_value_def go_map_simps split: option.splits)
qed (simp add: merged_value_def)

lemma merge_loop_dirty:
  assumes "gomap_wf filtered"
  shows "snd (merge_loop filtered (data, d)) \<longleftrightarrow> d \<or> pending filtered data"
  using assms
proof (induction filtered arbitrary: data d)
  case (Cons e rest)
  obtain k v where e: "e = (k, v)" by force
  with Cons.prems have new: "k \<notin> fst ` set rest" by (simp add: gomap_wf_def)
  have "gomap_wf rest" using Cons.prems by (simp add: gomap_wf_def)
  note IH = Cons.IH [OF this]
  have "pending rest (AList.update k v data) = pending rest data"
    using new by (force simp: pending_def go_map_simps)
  then show ?case by (simp add: e IH) (auto simp: pending_def)
qed (simp add: pending_def)

lemma merge_loop_clean: "\<not> pending filtered data \<Longrightarrow> merge_loop filtered (data, d) = (data, d)"
  by (induction filtered) (force simp: pending_def)+

lemma gomap_wf_filter: "gomap_wf m \<Longrightarrow> gomap_wf (filter P m)"
  by (simp add: gomap_wf_def distinct_map_filter)

lemma map_of_filter_gates:
  assumes "gomap_wf es"
  shows "map_of (filter_gates es version) k =
    (if HasPrefix k (versionPrefix version) then map_of es k else None)"
proof -
  have "map_of (filter (\<lambda>(k, v). P k) es) k = (if P k then map_of es k else None)" for P
    by (induction es) auto
  then show ?thesis by (simp add: filter_gates_def)
qed

lemma gomap_wf_filter_gates: "gomap_wf es \<Longrightarrow> gomap_wf (filter_gates es version)"
  by (simp add: filter_gates_def gomap_wf_filter)

definition unacked_list :: "(string, string) gomap \<Rightarrow> (string \<Rightarrow> string) \<Rightarrow> UnackedGate list" where
  "unacked_list filtered val =
     sort_key ug_Key
       (map (\<lambda>(key, message). \<lparr>ug_Key = key, ug_Message = message\<rparr>)
         (filter (\<lambda>(key, message). val key \<noteq> ''true'') filtered))"

lemma collectUnacked_list: "collectUnacked cm filtered = unacked_list filtered (at_or (cm_data cm) '''')"
  by (simp add: collectUnacked_def unacked_list_def)

lemma unacked_list_cong:
  "(\<And>k v. (k, v) \<in> set filtered \<Longrightarrow> val k = val' k) \<Longrightarrow> unacked_list filtered val = unacked_list filtered val'"
  unfolding unacked_list_def
  by (rule arg_cong [where f = "\<lambda>xs. sort_key ug_Key (map _ xs)"]) (auto intro!: filter_cong)

lemma unacked_list_set:
  "g \<in> set (unacked_list filtered val) \<longleftrightarrow>
     (ug_Key g, ug_Message g) \<in> set filtered \<and> val (ug_Key g) \<noteq> ''true''"
  by (cases g) (force simp: unacked_list_def)

lemma unacked_list_sorted:
  assumes "gomap_wf filtered"
  shows "sorted (map ug_Key (unacked_list filtered val)) \<and> distinct (map ug_Key (unacked_list filtered val))"
proof
  show "sorted (map ug_Key (unacked_list filtered val))" by (simp add: unacked_list_def)
  have "mset (map ug_Key (unacked_list filtered val)) =
      mset (map fst (filter (\<lambda>(k, m). val k \<noteq> ''true'') filtered))"
    by (simp add: unacked_list_def image_mset.compositionality comp_def case_prod_beta)
  then show "distinct (map ug_Key (unacked_list filtered val))"
    using gomap_wf_filter [OF assms] unfolding gomap_wf_def by (metis mset_eq_imp_distinct_iff)
qed

section \<open>Properties\<close>

text \<open>
  The documented effect of a successful write: the server returns the data it was sent.
\<close>

definition echoes :: "cm_client \<Rightarrow> bool" where
  "echoes cli \<longleftrightarrow>
     (\<forall>k cm cm'. cc_create cli k cm = Inr cm' \<longrightarrow> cm_data cm' = cm_data cm) \<and>
     (\<forall>k cm cm'. cc_update cli k cm = Inr cm' \<longrightarrow> cm_data cm' = cm_data cm)"

text \<open>A client for the witnesses: the ConfigMap exists with the given data and writes succeed.\<close>

definition demo_client :: "(string, string) gomap \<Rightarrow> cm_client" where
  "demo_client data =
     \<lparr>cc_get = (\<lambda>k name ns. Inr \<lparr>cm_name = name, cm_namespace = ns, cm_labels = [], cm_annotations = [], cm_data = data\<rparr>),
      cc_create = (\<lambda>k cm. Inr cm), cc_update = (\<lambda>k cm. Inr cm), cc_list = (\<lambda>k ns l. Inr [])\<rparr>"

definition demo_entries :: "(string, string) gomap" where
  "demo_entries = [(''ack-3.0.0-kueue'', ''migrate kueue''), (''ack-3.0.0-crd'', ''check CRDs''),
     (''ack-2.0.0-old'', ''old'')]"

lemma merge_acks_write:
  assumes "gomap_wf filtered" and "w \<in> set (snd (merge_acks gc k filtered cm))"
  shows "\<exists>cm'. w = UpdateReq cm' \<and> cm' = cm\<lparr>cm_data := cm_data cm'\<rparr> \<and>
    (\<forall>k. at_or (cm_data cm') '''' k = merged_value filtered (cm_data cm) k) \<and> pending filtered (cm_data cm)"
  using assms merge_loop_value [OF assms(1), of "cm_data cm" False]
    merge_loop_dirty [OF assms(1), of "cm_data cm" False]
  by (auto simp: merge_acks_def Let_def split: prod.splits sum.splits if_splits)

text \<open>
  C20. Acknowledgments survive. Every update of the acknowledgment ConfigMap is built from a copy read
  from the cluster and changes nothing but its data; a key that was acknowledged in that copy stays
  acknowledged, a key outside the gates of this version keeps its value, and every other gate of this
  version holds its description.
\<close>

theorem updates_preserve_acks:
  assumes "gomap_wf entries" and "UpdateReq cm' \<in> set (snd (EnsureGates gc entries version))"
  shows "\<exists>k cm. cc_get (gc_client gc) k AcksConfigMap (gc_namespace gc) = Inr cm \<and>
    cm' = cm\<lparr>cm_data := cm_data cm'\<rparr> \<and>
    (\<forall>key. at_or (cm_data cm') '''' key =
       (if at_or (cm_data cm) '''' key = ''true'' then ''true''
        else if HasPrefix key (versionPrefix version) then at_or entries (at_or (cm_data cm) '''' key) key
        else at_or (cm_data cm) '''' key))"
proof -
  let ?f = "filter_gates entries version"
  note wf = gomap_wf_filter_gates [OF assms(1), of version]
  have mv: "merged_value ?f d key = (if at_or d '''' key = ''true'' then ''true''
        else if HasPrefix key (versionPrefix version) then at_or entries (at_or d '''' key) key
        else at_or d '''' key)" for d key
    by (simp add: merged_value_def map_of_filter_gates [OF assms(1)] at_or_def split: option.splits)
  from assms(2) obtain k cm j where "cc_get (gc_client gc) k AcksConfigMap (gc_namespace gc) = Inr cm"
    "UpdateReq cm' \<in> set (snd (merge_acks gc j ?f cm))"
    by (auto simp: EnsureGates_def Let_def case_prod_beta split: if_splits sum.splits)
  with merge_acks_write [OF wf this(2)] show ?thesis by (auto simp: mv)
qed

theorem updates_preserve_acks_witness:
  "\<exists>k cm. cc_get (demo_client [(''ack-3.0.0-kueue'', ''true'')]) k AcksConfigMap ''odh'' = Inr cm \<and>
    at_or (cm_data cm) '''' ''ack-3.0.0-kueue'' = ''true''"
proof -
  let ?gc = "NewGateChecker (demo_client [(''ack-3.0.0-kueue'', ''true'')]) ''odh''"
  let ?cm = "\<lparr>cm_name = ''odh-upgrade-acks'', cm_namespace = ''odh'', cm_labels = [], cm_annotations = [],
     cm_data = [(''ack-3.0.0-kueue'', ''true''), (''ack-3.0.0-crd'', ''check CRDs'')]\<rparr>"
  have "gomap_wf demo_entries" and "snd (EnsureGates ?gc demo_entries ''3.0.0'') = [UpdateReq ?cm]"
    by code_simp+
  moreover have "gc_client ?gc = demo_client [(''ack-3.0.0-kueue'', ''true'')]" "gc_namespace ?gc = ''odh''"
    by (simp_all add: NewGateChecker_def)
  ultimately show ?thesis
    using updates_preserve_acks [of demo_entries ?cm ?gc "''3.0.0''"]
    by (force simp: demo_client_def at_or_def)
qed

text \<open>
  The gates reported. When \<open>EnsureGates\<close> succeeds on an existing ConfigMap it reports, sorted by key
  and without repetition, exactly the gates of this version that are not acknowledged there and whose
  description is not the word \<open>true\<close> itself; it writes exactly when a description is missing or
  outdated, and a second run on the data it leaves writes nothing and reports the same gates.
\<close>

theorem ensure_gates_reports_unacked:
  assumes "gomap_wf entries" and "echoes (gc_client gc)"
    and "cc_get (gc_client gc) 0 AcksConfigMap (gc_namespace gc) = Inr cm"
    and "EnsureGates gc entries version = (Inr us, ws)"
  shows "(\<forall>g. g \<in> set us \<longleftrightarrow> (ug_Key g, ug_Message g) \<in> set (filter_gates entries version) \<and>
            at_or (cm_data cm) '''' (ug_Key g) \<noteq> ''true'' \<and> ug_Message g \<noteq> ''true'') \<and>
    sorted (map ug_Key us) \<and> distinct (map ug_Key us) \<and>
    (ws = [] \<longleftrightarrow> \<not> pending (filter_gates entries version) (cm_data cm)) \<and>
    (\<forall>gc' cm'. gc_namespace gc' = gc_namespace gc \<longrightarrow> ws = [UpdateReq cm'] \<longrightarrow>
       cc_get (gc_client gc') 0 AcksConfigMap (gc_namespace gc') = Inr cm' \<longrightarrow>
       EnsureGates gc' entries version = (Inr us, []))"
proof -
  let ?f = "filter_gates entries version"
  note wf = gomap_wf_filter_gates [OF assms(1), of version]
  obtain data dirty where ml: "merge_loop ?f (cm_data cm, False) = (data, dirty)" by fastforce
  have val: "at_or data '''' k = merged_value ?f (cm_data cm) k" for k
    using merge_loop_value [OF wf, of "cm_data cm" False k] ml by simp
  have dirty: "dirty \<longleftrightarrow> pending ?f (cm_data cm)"
    using merge_loop_dirty [OF wf, of "cm_data cm" False] ml by simp
  have fin: "\<not> pending ?f data"
    using map_of_is_SomeI [of ?f] wf
    by (auto simp: pending_def val merged_value_def gomap_wf_def split: if_splits)
  have us: "us = unacked_list ?f (merged_value ?f (cm_data cm)) \<and>
      ws = (if dirty then [UpdateReq (cm\<lparr>cm_data := data\<rparr>)] else [])"
  proof (cases "?f = []")
    case True
    with assms(3,4) ml show ?thesis
      by (auto simp: EnsureGates_def Let_def unacked_list_def split: if_splits)
  next
    case False
    with assms(3,4) have "merge_acks gc 1 ?f cm = (Inr us, ws)"
      by (auto simp: EnsureGates_def Let_def split: if_splits)
    with assms(2) ml show ?thesis
      by (auto simp: merge_acks_def Let_def collectUnacked_list echoes_def val
          intro!: unacked_list_cong split: if_splits sum.splits)
  qed
  have "EnsureGates gc' entries version = (Inr us, [])"
    if "ws = [UpdateReq cm']" "cc_get (gc_client gc') 0 AcksConfigMap (gc_namespace gc') = Inr cm'" for gc' cm'
  proof -
    have "version \<noteq> ''''" using assms(4) by (auto simp: EnsureGates_def)
    moreover have "cm_data cm' = data" using that us by (auto split: if_splits)
    ultimately show ?thesis
      using that us fin
      by (cases "?f = []")
        (auto simp: EnsureGates_def Let_def merge_acks_def merge_loop_clean collectUnacked_list val
          unacked_list_def pending_def)
  qed
  moreover have "g \<in> set us \<longleftrightarrow> (ug_Key g, ug_Message g) \<in> set ?f \<and>
            at_or (cm_data cm) '''' (ug_Key g) \<noteq> ''true'' \<and> ug_Message g \<noteq> ''true''" for g
    using map_of_is_SomeI [of ?f "ug_Key g" "ug_Message g"] wf us
    by (auto simp: unacked_list_set merged_value_def gomap_wf_def)
  ultimately show ?thesis
    using us unacked_list_sorted [OF wf, of "merged_value ?f (cm_data cm)"] dirty by simp
qed

theorem ensure_gates_reports_unacked_witness:
  "\<not> pending (filter_gates demo_entries ''3.0.0'')
     [(''ack-3.0.0-kueue'', ''true''), (''ack-3.0.0-crd'', ''check CRDs'')]"
proof -
  let ?d = "[(''ack-3.0.0-kueue'', ''true''), (''ack-3.0.0-crd'', ''check CRDs'')]"
  let ?gc = "NewGateChecker (demo_client ?d) ''odh''"
  let ?cm = "\<lparr>cm_name = ''odh-upgrade-acks'', cm_namespace = ''odh'', cm_labels = [], cm_annotations = [],
     cm_data = ?d\<rparr>"
  have "echoes (gc_client ?gc)" by (auto simp: echoes_def NewGateChecker_def demo_client_def)
  moreover have "gomap_wf demo_entries"
    and "EnsureGates ?gc demo_entries ''3.0.0'' = (Inr [\<lparr>ug_Key = ''ack-3.0.0-crd'', ug_Message = ''check CRDs''\<rparr>], [])"
    and "cc_get (gc_client ?gc) 0 AcksConfigMap (gc_namespace ?gc) = Inr ?cm"
    by code_simp+
  ultimately show ?thesis using ensure_gates_reports_unacked [of demo_entries ?gc ?cm "''3.0.0''"] by auto
qed

lemma load_files_wf: "gomap_wf m \<Longrightarrow> load_files fs prefix es m = Inr m' \<Longrightarrow> gomap_wf m'"
proof (induction fs prefix es m rule: load_files.induct)
  case (2 fs prefix name isDir entries result)
  have "gomap_wf (foldl (\<lambda>m (k, v). if P k then AList.update k v m else m) m kvs)" if "gomap_wf m"
    for m P and kvs :: "(string, string) gomap"
    using that by (induction kvs arbitrary: m) auto
  then have "gomap_wf (foldl (add_prefixed prefix) m cms)" if "gomap_wf m" for m cms
    using that by (induction cms arbitrary: m) (auto simp: add_prefixed_def)
  with 2 show ?case by (auto split: if_splits sum.splits option.splits prod.splits)
qed simp

lemma DiscoverGates_wf: "DiscoverGates gc = Inr m \<Longrightarrow> gomap_wf m"
proof -
  have "gomap_wf (foldl (\<lambda>m cm. maps_Copy m (cm_data cm)) m cms)" if "gomap_wf m"
    for m and cms :: "configmap list"
    using that by (induction cms arbitrary: m) auto
  then show "DiscoverGates gc = Inr m \<Longrightarrow> gomap_wf m"
    by (auto simp: DiscoverGates_def split: sum.splits)
qed

lemma EnsureGates_none:
  assumes "gomap_wf entries" and "echoes (gc_client gc)" and "EnsureGates gc entries version = (Inr [], ws)"
    and "HasPrefix key (versionPrefix version)" and "map_of entries key = Some v" and "v \<noteq> ''true''"
  shows "\<exists>k cm. cc_get (gc_client gc) k AcksConfigMap (gc_namespace gc) = Inr cm \<and>
    at_or (cm_data cm) '''' key = ''true''"
proof -
  let ?f = "filter_gates entries version"
  note wf = gomap_wf_filter_gates [OF assms(1), of version]
  have key: "map_of ?f key = Some v" using assms by (simp add: map_of_filter_gates)
  then have mem: "(key, v) \<in> set ?f" by (rule map_of_SomeD)
  have empty: "unacked_list ?f val = [] \<Longrightarrow> val key = ''true''" for val
    using mem unacked_list_set [of "\<lparr>ug_Key = key, ug_Message = v\<rparr>" ?f val] by auto
  have merge: "at_or (cm_data cm) '''' key = ''true''" if "merge_acks gc j ?f cm = (Inr [], ws')" for j cm ws'
  proof -
    obtain data dirty where ml: "merge_loop ?f (cm_data cm, False) = (data, dirty)" by fastforce
    from that ml assms(2) have "unacked_list ?f (at_or data '''') = []"
      by (auto simp: merge_acks_def Let_def collectUnacked_list echoes_def split: if_splits sum.splits)
    from empty [OF this] have "merged_value ?f (cm_data cm) key = ''true''"
      using merge_loop_value [OF wf, of "cm_data cm" False key] ml by simp
    with key assms(6) show ?thesis by (auto simp: merged_value_def split: if_splits)
  qed
  have "unacked_list ?f (at_or (maps_Copy [] ?f) '''') \<noteq> []"
    using empty [of "at_or (maps_Copy [] ?f) ''''"] key assms(6) by (auto simp: at_or_def go_map_simps wf)
  with assms(2,3) mem have "\<exists>k cm j ws'. cc_get (gc_client gc) k AcksConfigMap (gc_namespace gc) = Inr cm \<and>
      merge_acks gc j ?f cm = (Inr [], ws')"
    by (auto simp: EnsureGates_def Let_def collectUnacked_list echoes_def new_acks_def
        split: if_splits sum.splits prod.splits)
  with merge show ?thesis by blast
qed

text \<open>
  C21. Upgrade gates fail closed. When \<open>CheckUpgradeGates\<close> lets provisioning go on, every source of
  gates was read, no condition was written, and each gate of this version (a chart's entry overrides a
  labelled ConfigMap's, which overrides an in-tree one), unless its description is the word \<open>true\<close>, was
  found acknowledged in a copy of the ConfigMap read from the cluster.
\<close>

theorem upgrade_gates_fail_closed:
  assumes "echoes cli" and "gomap_wf chartGates"
    and "CheckUpgradeGates fs opns cli version chartGates = (None, conds, ws)"
  shows "\<exists>ns intree clusterGates. opns = Inr ns \<and> LoadInTreeGates fs version = Inr intree \<and>
    DiscoverGates (NewGateChecker cli ns) = Inr clusterGates \<and> conds = [] \<and>
    (\<forall>key v. HasPrefix key (versionPrefix version) \<longrightarrow>
       (map_of intree ++ map_of clusterGates ++ map_of chartGates) key = Some v \<longrightarrow> v \<noteq> ''true'' \<longrightarrow>
       (\<exists>k cm. cc_get cli k AcksConfigMap ns = Inr cm \<and> at_or (cm_data cm) '''' key = ''true''))"
proof -
  from assms(3) obtain ns intree clusterGates where src: "opns = Inr ns"
    "LoadInTreeGates fs version = Inr intree" "DiscoverGates (NewGateChecker cli ns) = Inr clusterGates"
    "conds = []"
    and ens: "EnsureGates (NewGateChecker cli ns)
      (maps_Copy (maps_Copy (maps_Copy [] intree) clusterGates) chartGates) version = (Inr [], ws)"
    by (auto simp: CheckUpgradeGates_def CheckUpgradeGatesInNamespace_def Let_def
        split: sum.splits prod.splits if_splits)
  let ?all = "maps_Copy (maps_Copy (maps_Copy [] intree) clusterGates) chartGates"
  have wf: "gomap_wf intree" "gomap_wf clusterGates"
    using src load_files_wf [of "[]"] DiscoverGates_wf
    by (auto simp: LoadInTreeGates_def split: sum.splits)
  then have "map_of ?all = map_of intree ++ map_of clusterGates ++ map_of chartGates"
    using assms(2) by (simp add: go_map_simps)
  moreover have "gomap_wf ?all" by simp
  ultimately show ?thesis
    using EnsureGates_none [OF _ _ ens] src assms(1) by (simp add: NewGateChecker_def)
qed

theorem upgrade_gates_fail_closed_witness:
  "\<exists>k cm. cc_get (demo_client [(''ack-3.0.0-crd'', ''true'')]) k AcksConfigMap ''odh'' = Inr cm \<and>
     at_or (cm_data cm) '''' ''ack-3.0.0-crd'' = ''true''"
proof -
  let ?fs = "\<lparr>fs_ReadDir = Inr [], fs_ReadFile = (\<lambda>n. Inr ()), fs_decode = (\<lambda>b. ([], None))\<rparr> :: unit gate_fs"
  let ?cli = "demo_client [(''ack-3.0.0-crd'', ''true'')]" and ?chart = "[(''ack-3.0.0-crd'', ''check CRDs'')]"
  have "CheckUpgradeGates ?fs (Inr ''odh'') ?cli ''3.0.0'' ?chart = (None, [], [])"
    and pre: "HasPrefix ''ack-3.0.0-crd'' (versionPrefix ''3.0.0'')" by code_simp+
  moreover have "echoes ?cli" by (auto simp: echoes_def demo_client_def)
  moreover have "gomap_wf ?chart" by code_simp
  ultimately show ?thesis
    using upgrade_gates_fail_closed [of ?cli ?chart ?fs "Inr ''odh''" "''3.0.0''" "[]" "[]"] by auto
qed

definition is_gate :: "'o resource \<Rightarrow> bool" where
  "is_gate r \<longleftrightarrow> r_kind r = ''ConfigMap'' \<and> at_or (r_labels r) '''' UpgradeGateLabel = ''true''"

definition gate_data ::
  "('o \<Rightarrow> go_error + (string, string) gomap option) \<Rightarrow> 'o resource list \<Rightarrow> (string, string) gomap list" where
  "gate_data nested rs =
     List.map_filter (\<lambda>r. if is_gate r then (case nested (r_object r) of Inr d \<Rightarrow> d | Inl _ \<Rightarrow> None) else None) rs"

lemma extract_loop_spec:
  "extract_loop nested rs (kept, entries) =
     (kept @ filter (\<lambda>r. is_gate r \<longrightarrow> isl (nested (r_object r))) rs,
      if entries = None \<and> (\<forall>r \<in> set rs. \<not> is_gate r) then None
      else Some (foldl maps_Copy (case entries of None \<Rightarrow> [] | Some m \<Rightarrow> m) (gate_data nested rs)))"
proof (induction rs arbitrary: kept entries)
  case (Cons r rs)
  show ?case
  proof (cases "is_gate r")
    case False
    with Cons.IH show ?thesis by (auto simp: is_gate_def gate_data_def List.map_filter_simps)
  next
    case True
    then have g: "\<not> (r_kind r \<noteq> ''ConfigMap'' \<or> at_or (r_labels r) '''' UpgradeGateLabel \<noteq> ''true'')"
      by (simp add: is_gate_def)
    show ?thesis
      using True unfolding extract_loop.simps(2) if_not_P [OF g]
      by (simp add: Cons.IH Let_def gate_data_def List.map_filter_simps split: sum.split option.split)
  qed
qed (auto simp: gate_data_def List.map_filter_simps)

text \<open>
  Gate extraction. The resources left to deploy are, in order, those that are not gate ConfigMaps,
  together with gate ConfigMaps whose data is not a string map; the entries of all other gate ConfigMaps
  are merged, later ones over earlier ones, into the entries the request already had.
\<close>

theorem extract_separates_gates:
  "ExtractUpgradeGates nested (rs, entries) =
     (filter (\<lambda>r. \<not> (is_gate r \<and> \<not> isl (nested (r_object r)))) rs,
      if entries = None \<and> filter is_gate rs = [] then None
      else Some (foldl maps_Copy (case entries of None \<Rightarrow> [] | Some m \<Rightarrow> m) (gate_data nested rs)))"
proof -
  have "filter (\<lambda>r. is_gate r \<longrightarrow> isl (nested (r_object r))) rs = rs" if "\<forall>r \<in> set rs. \<not> is_gate r"
    using that by simp
  then show ?thesis
    by (auto simp: ExtractUpgradeGates_def extract_loop_spec Let_def filter_empty_conv)
qed

end
