(* ===== verification/Monitor.thy ===== *)
theory Monitor
  imports Prelude
begin

text \<open>
  \<open>pkg/controller/monitor\<close>: check results, the check of required APIs by CRD and the health check of an
  external operator's custom resource.

  The cluster is a parameter: \<open>k\<close>-th answer of the API server to the \<open>k\<close>-th read. Of a CRD the code
  reads the versions itself and the conditions through \<open>apihelpers.IsCRDConditionTrue\<close> (a parameter).
  Of an operator CR it reads the name and, through the \<open>unstructured\<close> accessors, the list of status
  conditions: \<open>ca_conditions\<close> is \<open>NestedSlice(cr.Object, "status", "conditions")\<close> (error, not found, or
  the entries) and \<open>ca_fields\<close> views an entry as a map of strings (\<open>None\<close> when it is not a map; a field
  that is missing or not a string reads as the empty string). The error of several reads
  (\<open>multierror\<close>) is an uninterpreted function of the errors.
\<close>

section \<open>Check results\<close>

record CheckResult =
  cr_Pass :: bool
  cr_Message :: string
  cr_Status :: string

definition ConditionStatus :: "CheckResult \<Rightarrow> string" where
  "ConditionStatus r =
     (if cr_Status r = '''' then (if cr_Pass r then ConditionTrue else ConditionFalse)
      else if cr_Status r = ConditionTrue \<and> cr_Pass r then ConditionTrue
      else if cr_Status r = ConditionFalse \<and> \<not> cr_Pass r then ConditionFalse
      else ConditionUnknown)"

definition Passed :: CheckResult where
  "Passed = \<lparr>cr_Pass = True, cr_Message = '''', cr_Status = ConditionTrue\<rparr>"

definition Failed :: "string \<Rightarrow> CheckResult" where
  "Failed msg = \<lparr>cr_Pass = False, cr_Message = msg, cr_Status = ConditionFalse\<rparr>"

definition Indeterminate :: "string \<Rightarrow> CheckResult" where
  "Indeterminate msg = \<lparr>cr_Pass = False, cr_Message = msg, cr_Status = ConditionUnknown\<rparr>"

lemma ConditionStatus_cases [simp]:
  "ConditionStatus Passed = ConditionTrue" "ConditionStatus (Failed m) = ConditionFalse"
  "ConditionStatus (Indeterminate m) = ConditionUnknown"
  by (simp_all add: ConditionStatus_def Passed_def Failed_def Indeterminate_def)

lemma ConditionStatus_range:
  "ConditionStatus r = ConditionTrue \<or> ConditionStatus r = ConditionFalse \<or> ConditionStatus r = ConditionUnknown"
  by (simp add: ConditionStatus_def)

lemma ConditionStatus_True: "ConditionStatus r = ConditionTrue \<Longrightarrow> cr_Pass r"
  by (auto simp: ConditionStatus_def split: if_splits)

lemma Message_sel [simp]:
  "cr_Message (Failed m) = m" "cr_Message (Indeterminate m) = m" "cr_Message Passed = ''''"
  by (simp_all add: Passed_def Failed_def Indeterminate_def)

section \<open>Required APIs\<close>

record RequiredAPI =
  api_CRDName :: string
  api_Version :: string

record 'c crd =
  crd_versions :: "(string \<times> bool) list"
  crd_object :: 'c

record 'c crd_reader =
  cr_get :: "nat \<Rightarrow> string \<Rightarrow> go_error + 'c crd"
  cr_condition :: "'c crd \<Rightarrow> string \<Rightarrow> bool"
  cr_multierror :: "go_error list \<Rightarrow> go_error"

fun servesVersion_loop :: "(string \<times> bool) list \<Rightarrow> string \<Rightarrow> bool" where
  "servesVersion_loop [] version = False"
| "servesVersion_loop ((name, served) # vs) version =
     (if name = version then served else servesVersion_loop vs version)"

definition servesVersion :: "'c crd \<Rightarrow> string \<Rightarrow> bool" where
  "servesVersion crd version = servesVersion_loop (crd_versions crd) version"

definition checkRequiredAPI :: "'c crd_reader \<Rightarrow> nat \<Rightarrow> RequiredAPI \<Rightarrow> go_error + CheckResult" where
  "checkRequiredAPI cli k api =
     (case cr_get cli k (api_CRDName api) of
        Inl err \<Rightarrow>
          if err_is NotFound err then Inr (Failed (api_CRDName api @ '': CRD not found''))
          else Inl (wrap (api_CRDName api @ '': failed to check CRD presence'') err)
      | Inr crd \<Rightarrow>
          if cr_condition cli crd ''Terminating'' then
            Inr (Failed (api_CRDName api @ '': CRD is terminating''))
          else if api_Version api \<noteq> '''' \<and> \<not> servesVersion crd (api_Version api) then
            Inr (Failed (api_CRDName api @ '': CRD does not serve version '' @ api_Version api))
          else if \<not> cr_condition cli crd ''Established'' then
            Inr (Indeterminate (api_CRDName api @ '': CRD is not established''))
          else Inr Passed)"

record api_findings =
  af_unusable :: "string list"
  af_indeterminate :: "string list"
  af_readErrors :: "go_error list"

fun api_loop :: "'c crd_reader \<Rightarrow> nat \<Rightarrow> RequiredAPI list \<Rightarrow> api_findings \<Rightarrow> go_error + api_findings" where
  "api_loop cli k [] f = Inr f"
| "api_loop cli k (api # apis) f =
     (if api_CRDName api = '''' then
        Inl (new_error ''CheckRequiredAPIs: RequiredAPI.CRDName must not be empty'')
      else
        case checkRequiredAPI cli k api of
          Inl err \<Rightarrow> api_loop cli (Suc k) apis (f\<lparr>af_readErrors := af_readErrors f @ [err]\<rparr>)
        | Inr result \<Rightarrow>
            if ConditionStatus result = ConditionFalse then
              api_loop cli (Suc k) apis (f\<lparr>af_unusable := af_unusable f @ [cr_Message result]\<rparr>)
            else if ConditionStatus result = ConditionUnknown then
              api_loop cli (Suc k) apis (f\<lparr>af_indeterminate := af_indeterminate f @ [cr_Message result]\<rparr>)
            else api_loop cli (Suc k) apis f)"

definition CheckRequiredAPIs :: "'c crd_reader \<Rightarrow> RequiredAPI list \<Rightarrow> go_error + CheckResult" where
  "CheckRequiredAPIs cli apis =
     (if apis = [] then Inl (new_error ''CheckRequiredAPIs: called with an empty required API list'')
      else
        case api_loop cli 0 apis \<lparr>af_unusable = [], af_indeterminate = [], af_readErrors = []\<rparr> of
          Inl err \<Rightarrow> Inl err
        | Inr f \<Rightarrow>
            if af_unusable f \<noteq> [] then
              Inr (Failed (strings_Join
                (af_unusable f @ af_indeterminate f @ map err_msg (af_readErrors f)) ''; ''))
            else if af_readErrors f \<noteq> [] then Inl (cr_multierror cli (af_readErrors f))
            else if af_indeterminate f \<noteq> [] then
              Inr (Indeterminate (strings_Join (af_indeterminate f) ''; ''))
            else Inr Passed)"

section \<open>Operator health\<close>

record RequiredCondition =
  rc_Type :: string
  rc_Status :: string

record OperatorConfig =
  OperatorGVK :: GVK
  CRName :: string
  CRNamespace :: string
  Filter :: "(string \<Rightarrow> string \<Rightarrow> bool) option"
  RequiredConditions :: "RequiredCondition list"
  RequireCR :: bool
  NoMatchAsUnknown :: bool

record ('o, 'e) cr_access =
  ca_get :: "GVK \<Rightarrow> string \<Rightarrow> string \<Rightarrow> go_error + 'o"
  ca_list :: "GVK \<Rightarrow> string option \<Rightarrow> go_error + 'o list"
  ca_name :: "'o \<Rightarrow> string"
  ca_conditions :: "'o \<Rightarrow> go_error + 'e list option"
  ca_fields :: "'e \<Rightarrow> (string \<Rightarrow> string) option"

definition getFirstCR :: "('o, 'e) cr_access \<Rightarrow> OperatorConfig \<Rightarrow> go_error + 'o" where
  "getFirstCR cli config =
     (case ca_list cli (OperatorGVK config)
             (if CRNamespace config \<noteq> '''' then Some (CRNamespace config) else None) of
        Inl err \<Rightarrow> Inl err
      | Inr [] \<Rightarrow> Inl (GoError ''operator CR not found'' [OperatorCRNotFound])
      | Inr (item # items) \<Rightarrow> Inr item)"

definition fetchOperatorCR :: "('o, 'e) cr_access \<Rightarrow> OperatorConfig \<Rightarrow> go_error + 'o" where
  "fetchOperatorCR cli config =
     (if CRName config \<noteq> '''' then ca_get cli (OperatorGVK config) (CRName config) (CRNamespace config)
      else getFirstCR cli config)"

definition operatorIdentifier :: "OperatorConfig \<Rightarrow> string" where
  "operatorIdentifier config =
     (let kind = gvk_Kind (OperatorGVK config) in
      if CRName config \<noteq> '''' then
        (if CRNamespace config \<noteq> '''' then kind @ '' '' @ CRNamespace config @ ''/'' @ CRName config
         else kind @ '' '' @ CRName config)
      else kind)"

record crCondition =
  cc_status :: string
  cc_reason :: string
  cc_message :: string

fun read_loop ::
  "('e \<Rightarrow> (string \<Rightarrow> string) option) \<Rightarrow> 'e list \<Rightarrow> (string, crCondition) gomap \<Rightarrow>
     go_error + (string, crCondition) gomap" where
  "read_loop flds [] parsed = Inr parsed"
| "read_loop flds (c # cs) parsed =
     (case flds c of
        None \<Rightarrow> read_loop flds cs parsed
      | Some m \<Rightarrow>
          if m ''type'' = '''' \<or> m ''status'' = '''' then read_loop flds cs parsed
          else if map_of parsed (m ''type'') \<noteq> None then
            Inl (new_error (''duplicate condition type '' @ quoted (m ''type'')))
          else read_loop flds cs
            (AList.update (m ''type'')
              \<lparr>cc_status = m ''status'', cc_reason = m ''reason'', cc_message = m ''message''\<rparr> parsed))"

definition readConditions :: "('o, 'e) cr_access \<Rightarrow> 'o \<Rightarrow> go_error + (string, crCondition) gomap" where
  "readConditions cli cr =
     (case ca_conditions cli cr of
        Inl err \<Rightarrow> Inl err
      | Inr None \<Rightarrow> Inr []
      | Inr (Some conditions) \<Rightarrow> read_loop (ca_fields cli) conditions [])"

definition crPrefix :: "string \<Rightarrow> OperatorConfig \<Rightarrow> string" where
  "crPrefix name config =
     (let ident = (if CRNamespace config \<noteq> '''' then CRNamespace config @ ''/'' @ name else name) in
      if ident = '''' then gvk_Kind (OperatorGVK config)
      else gvk_Kind (OperatorGVK config) @ '' '' @ ident)"

definition conditionDetail :: "string \<Rightarrow> OperatorConfig \<Rightarrow> string \<Rightarrow> crCondition \<Rightarrow> string" where
  "conditionDetail name config condType c =
     crPrefix name config @ '': '' @ condType @ ''='' @ cc_status c
     @ (if cc_reason c \<noteq> '''' then '' ('' @ cc_reason c @ '')'' else '''')
     @ (if cc_message c \<noteq> '''' then '': '' @ cc_message c else '''')"

definition zero_condition :: crCondition where
  "zero_condition = \<lparr>cc_status = '''', cc_reason = '''', cc_message = ''''\<rparr>"

definition collectDegradedConditions ::
  "string \<Rightarrow> OperatorConfig \<Rightarrow> (string, crCondition) gomap \<Rightarrow> string list" where
  "collectDegradedConditions name config conditions =
     (case Filter config of
        None \<Rightarrow> []
      | Some flt \<Rightarrow>
          map (\<lambda>t. conditionDetail name config t (at_or conditions zero_condition t))
            (filter (\<lambda>t. flt t (cc_status (at_or conditions zero_condition t)))
              (sort (map fst conditions))))"

text \<open>The unmet and the indeterminate findings, in the order of the required conditions.\<close>

fun required_loop ::
  "string \<Rightarrow> OperatorConfig \<Rightarrow> (string, crCondition) gomap \<Rightarrow> RequiredCondition list \<Rightarrow>
     string list \<times> string list" where
  "required_loop name config conditions [] = ([], [])"
| "required_loop name config conditions (rc # rcs) =
     (let (unmet, indeterminate) = required_loop name config conditions rcs in
      case map_of conditions (rc_Type rc) of
        None \<Rightarrow>
          (unmet, (crPrefix name config @ '': required condition '' @ rc_Type rc @ '' not found'') # indeterminate)
      | Some c \<Rightarrow>
          if cc_status c \<noteq> ConditionTrue \<and> cc_status c \<noteq> ConditionFalse then
            (unmet, conditionDetail name config (rc_Type rc) c # indeterminate)
          else if cc_status c \<noteq> rc_Status rc then
            ((conditionDetail name config (rc_Type rc) c @ '' (expected '' @ rc_Type rc @ ''='' @ rc_Status rc @ '')'') # unmet,
             indeterminate)
          else (unmet, indeterminate))"

definition evaluateRequiredConditions ::
  "string \<Rightarrow> OperatorConfig \<Rightarrow> (string, crCondition) gomap \<Rightarrow> string list \<times> string list" where
  "evaluateRequiredConditions name config conditions =
     required_loop name config conditions (RequiredConditions config)"

text \<open>The health check once the configuration was validated.\<close>

definition evaluateOperatorCR ::
  "('o, 'e) cr_access \<Rightarrow> OperatorConfig \<Rightarrow> go_error + CheckResult" where
  "evaluateOperatorCR cli config =
     (case fetchOperatorCR cli config of
        Inl err \<Rightarrow>
          if err_is NoMatch err then
            (if NoMatchAsUnknown config then
               Inr (Indeterminate (operatorIdentifier config @ '': operator API not yet available in discovery''))
             else Inr Passed)
          else if err_is NotFound err \<or> err_is OperatorCRNotFound err then
            (if RequireCR config then Inr (Failed (operatorIdentifier config @ '': operator CR not found''))
             else Inr Passed)
          else Inl (wrap (operatorIdentifier config @ '': failed to get operator CR'') err)
      | Inr cr \<Rightarrow>
          (case readConditions cli cr of
             Inl err \<Rightarrow>
               Inr (Indeterminate (operatorIdentifier config @ '': failed to parse status conditions: '' @ err_msg err))
           | Inr conditions \<Rightarrow>
               let degraded = collectDegradedConditions (ca_name cli cr) config conditions;
                   (unmet, indeterminate) = evaluateRequiredConditions (ca_name cli cr) config conditions;
                   failed = degraded @ unmet
               in if failed \<noteq> [] then Inr (Failed (strings_Join (failed @ indeterminate) ''; ''))
                  else if indeterminate \<noteq> [] then Inr (Indeterminate (strings_Join indeterminate ''; ''))
                  else Inr Passed))"

definition CheckOperatorHealth ::
  "('o, 'e) cr_access \<Rightarrow> OperatorConfig \<Rightarrow> go_error + CheckResult" where
  "CheckOperatorHealth cli config =
     (if OperatorGVK config = \<lparr>gvk_Group = '''', gvk_Version = '''', gvk_Kind = ''''\<rparr> then
        Inl (new_error ''CheckOperatorHealth: OperatorGVK must not be empty'')
      else if Filter config = None \<and> RequiredConditions config = [] then
        Inl (new_error ''CheckOperatorHealth: at least one of Filter or RequiredConditions must be set'')
      else if list_ex (\<lambda>rc. rc_Type rc = '''' \<or> rc_Status rc = '''') (RequiredConditions config) then
        Inl (new_error ''CheckOperatorHealth: RequiredCondition Type and Status must not be empty'')
      else evaluateOperatorCR cli config)"

section \<open>Verdicts\<close>

text \<open>The outcome of one API: \<open>None\<close> when its CRD could not be read, else the status of its check.\<close>

definition api_outcome :: "'c crd_reader \<Rightarrow> nat \<times> RequiredAPI \<Rightarrow> string option" where
  "api_outcome cli ia =
     (case checkRequiredAPI cli (fst ia) (snd ia) of Inl err \<Rightarrow> None | Inr r \<Rightarrow> Some (ConditionStatus r))"

definition result_status :: "go_error + CheckResult \<Rightarrow> string option" where
  "result_status res = (case res of Inl err \<Rightarrow> None | Inr r \<Rightarrow> Some (ConditionStatus r))"

lemma result_status_simps [simp]:
  "result_status (Inl e) = None" "result_status (Inr r) = Some (ConditionStatus r)"
  by (simp_all add: result_status_def)

lemma api_loop_spec:
  assumes "\<forall>api \<in> set apis. api_CRDName api \<noteq> ''''"
  shows "\<exists>g. api_loop cli k apis f = Inr g \<and>
    (af_unusable g = [] \<longleftrightarrow> af_unusable f = [] \<and> Some ConditionFalse \<notin> api_outcome cli ` set (List.enumerate k apis)) \<and>
    (af_indeterminate g = [] \<longleftrightarrow> af_indeterminate f = [] \<and> Some ConditionUnknown \<notin> api_outcome cli ` set (List.enumerate k apis)) \<and>
    (af_readErrors g = [] \<longleftrightarrow> af_readErrors f = [] \<and> None \<notin> api_outcome cli ` set (List.enumerate k apis))"
  using assms
proof (induction apis arbitrary: k f)
  case (Cons api apis)
  have IH: "\<exists>g. api_loop cli (Suc k) apis f' = Inr g \<and>
    (af_unusable g = [] \<longleftrightarrow> af_unusable f' = [] \<and> Some ConditionFalse \<notin> api_outcome cli ` set (List.enumerate (Suc k) apis)) \<and>
    (af_indeterminate g = [] \<longleftrightarrow> af_indeterminate f' = [] \<and> Some ConditionUnknown \<notin> api_outcome cli ` set (List.enumerate (Suc k) apis)) \<and>
    (af_readErrors g = [] \<longleftrightarrow> af_readErrors f' = [] \<and> None \<notin> api_outcome cli ` set (List.enumerate (Suc k) apis))" for f'
    using Cons.IH Cons.prems by simp
  show ?case
  proof (cases "checkRequiredAPI cli k api")
    case (Inl err)
    with Cons.prems IH [of "f\<lparr>af_readErrors := af_readErrors f @ [err]\<rparr>"] show ?thesis
      by (simp add: api_outcome_def)
  next
    case (Inr r)
    from ConditionStatus_range [of r] show ?thesis
    proof (elim disjE)
      assume "ConditionStatus r = ConditionTrue"
      with Inr Cons.prems IH [of f] show ?thesis by (simp add: api_outcome_def)
    next
      assume "ConditionStatus r = ConditionFalse"
      with Inr Cons.prems IH [of "f\<lparr>af_unusable := af_unusable f @ [cr_Message r]\<rparr>"] show ?thesis
        by (simp add: api_outcome_def)
    next
      assume "ConditionStatus r = ConditionUnknown"
      with Inr Cons.prems IH [of "f\<lparr>af_indeterminate := af_indeterminate f @ [cr_Message r]\<rparr>"] show ?thesis
        by (simp add: api_outcome_def)
    qed
  qed
qed simp

text \<open>An API is usable when its CRD was read, is not terminating, serves the version and is established.\<close>

definition api_usable :: "'c crd_reader \<Rightarrow> nat \<times> RequiredAPI \<Rightarrow> bool" where
  "api_usable cli ia \<longleftrightarrow> (\<exists>crd. cr_get cli (fst ia) (api_CRDName (snd ia)) = Inr crd \<and>
     \<not> cr_condition cli crd ''Terminating'' \<and> cr_condition cli crd ''Established'' \<and>
     (api_Version (snd ia) = '''' \<or> servesVersion crd (api_Version (snd ia))))"

lemma api_outcome_True: "api_outcome cli ia = Some ConditionTrue \<longleftrightarrow> api_usable cli ia"
  by (auto simp: api_outcome_def api_usable_def checkRequiredAPI_def split: sum.splits if_splits)

lemma api_outcome_range:
  "api_outcome cli ia \<in> {None, Some ConditionTrue, Some ConditionFalse, Some ConditionUnknown}"
  using ConditionStatus_range by (auto simp: api_outcome_def split: sum.splits)

text \<open>
  Required APIs. Definite evidence of an unusable API decides first; otherwise an unreadable CRD
  makes the check fail with an error; otherwise a CRD that is not established makes it \<open>Unknown\<close>; the
  check is \<open>True\<close> only if every API is usable.
\<close>

theorem required_apis_verdict:
  assumes "apis \<noteq> []" and "\<forall>api \<in> set apis. api_CRDName api \<noteq> ''''"
  shows "result_status (CheckRequiredAPIs cli apis) =
      (let os = api_outcome cli ` set (List.enumerate 0 apis) in
       if Some ConditionFalse \<in> os then Some ConditionFalse
       else if None \<in> os then None
       else if Some ConditionUnknown \<in> os then Some ConditionUnknown
       else Some ConditionTrue) \<and>
    (result_status (CheckRequiredAPIs cli apis) = Some ConditionTrue \<longleftrightarrow>
      (\<forall>ia \<in> set (List.enumerate 0 apis). api_usable cli ia))"
proof -
  let ?os = "api_outcome cli ` set (List.enumerate 0 apis)"
  have main: "result_status (CheckRequiredAPIs cli apis) =
       (if Some ConditionFalse \<in> ?os then Some ConditionFalse
       else if None \<in> ?os then None
       else if Some ConditionUnknown \<in> ?os then Some ConditionUnknown
       else Some ConditionTrue)"
    using api_loop_spec [OF assms(2), of cli 0 "\<lparr>af_unusable = [], af_indeterminate = [], af_readErrors = []\<rparr>"]
      assms(1)
    by (elim exE conjE) (simp add: CheckRequiredAPIs_def)
  have "(\<forall>ia \<in> set (List.enumerate 0 apis). api_usable cli ia) \<longleftrightarrow>
      Some ConditionFalse \<notin> ?os \<and> None \<notin> ?os \<and> Some ConditionUnknown \<notin> ?os"
  proof -
    have "api_usable cli ia \<longleftrightarrow> api_outcome cli ia \<notin> {Some ConditionFalse, None, Some ConditionUnknown}" for ia
      using api_outcome_range [of cli ia] api_outcome_True [of cli ia] by auto
    then show ?thesis unfolding image_iff insert_iff by (metis emptyE)
  qed
  with main show ?thesis by (simp add: Let_def)
qed

definition demo_crds :: "unit crd_reader" where
  "demo_crds =
     \<lparr>cr_get = (\<lambda>k n. if n = ''a'' then Inr \<lparr>crd_versions = [(''v1'', True)], crd_object = ()\<rparr>
                 else Inl (GoError ''no'' [NotFound])),
      cr_condition = (\<lambda>c t. t = ''Established''), cr_multierror = hd\<rparr>"

theorem required_apis_verdict_witness:
  "result_status (CheckRequiredAPIs demo_crds [\<lparr>api_CRDName = ''a'', api_Version = ''v1''\<rparr>]) = Some ConditionTrue \<and>
   result_status (CheckRequiredAPIs demo_crds [\<lparr>api_CRDName = ''a'', api_Version = ''v1''\<rparr>,
     \<lparr>api_CRDName = ''b'', api_Version = ''''\<rparr>]) = Some ConditionFalse"
proof -
  let ?a = "\<lparr>api_CRDName = ''a'', api_Version = ''v1''\<rparr>" and ?b = "\<lparr>api_CRDName = ''b'', api_Version = ''''\<rparr>"
  have "api_outcome demo_crds (0, ?a) = Some ConditionTrue" "api_outcome demo_crds (1, ?b) = Some ConditionFalse"
    by code_simp+
  then show ?thesis
    using required_apis_verdict [of "[?a]" demo_crds] required_apis_verdict [of "[?a, ?b]" demo_crds]
    by (simp add: Let_def)
qed

section \<open>Operator health\<close>

lemma required_loop_unmet:
  "fst (required_loop nm cfg cs rcs) = [] \<longleftrightarrow>
     (\<forall>rc \<in> set rcs. \<forall>c. map_of cs (rc_Type rc) = Some c \<longrightarrow>
        cc_status c \<in> {ConditionTrue, ConditionFalse} \<longrightarrow> cc_status c = rc_Status rc)"
  by (induction rcs) (auto simp: Let_def case_prod_beta split: option.splits)

lemma required_loop_indeterminate:
  "snd (required_loop nm cfg cs rcs) = [] \<longleftrightarrow>
     (\<forall>rc \<in> set rcs. \<exists>c. map_of cs (rc_Type rc) = Some c \<and> cc_status c \<in> {ConditionTrue, ConditionFalse})"
  by (induction rcs) (auto simp: Let_def case_prod_beta split: option.splits)

lemma degraded_Nil:
  assumes "gomap_wf cs"
  shows "collectDegradedConditions nm cfg cs = [] \<longleftrightarrow>
     (\<forall>flt t c. Filter cfg = Some flt \<longrightarrow> map_of cs t = Some c \<longrightarrow> \<not> flt t (cc_status c))"
proof (cases "Filter cfg")
  case (Some flt)
  have "(\<forall>t \<in> fst ` set cs. \<not> flt t (cc_status (at_or cs zero_condition t))) \<longleftrightarrow>
      (\<forall>t c. map_of cs t = Some c \<longrightarrow> \<not> flt t (cc_status c))"
    using assms by (force simp: at_or_def gomap_wf_def dest: map_of_SomeD)
  with Some show ?thesis by (simp add: collectDegradedConditions_def filter_empty_conv)
qed (simp add: collectDegradedConditions_def)

lemma read_loop_wf: "gomap_wf m \<Longrightarrow> read_loop flds cs m = Inr m' \<Longrightarrow> gomap_wf m'"
  by (induction flds cs m rule: read_loop.induct) (auto split: option.splits if_splits)

lemma readConditions_wf: "readConditions cli cr = Inr m \<Longrightarrow> gomap_wf m"
  using read_loop_wf [of "[]"] by (auto simp: readConditions_def split: sum.splits option.splits)

definition config_valid :: "OperatorConfig \<Rightarrow> bool" where
  "config_valid config \<longleftrightarrow>
     OperatorGVK config \<noteq> \<lparr>gvk_Group = '''', gvk_Version = '''', gvk_Kind = ''''\<rparr> \<and>
     (Filter config \<noteq> None \<or> RequiredConditions config \<noteq> []) \<and>
     \<not> list_ex (\<lambda>rc. rc_Type rc = '''' \<or> rc_Status rc = '''') (RequiredConditions config)"

lemma CheckOperatorHealth_valid:
  "CheckOperatorHealth cli config = Inr r \<Longrightarrow> config_valid config"
  "config_valid config \<Longrightarrow> CheckOperatorHealth cli config = evaluateOperatorCR cli config"
  by (auto simp: CheckOperatorHealth_def config_valid_def split: if_splits)

text \<open>
  Operator health needs positive evidence. The check of an operator reports \<open>True\<close> exactly when the
  operator is optional and absent, or when its CR was read, no condition matches the filter, and every
  required condition is present with exactly the expected status.
\<close>

theorem operator_health_true:
  assumes "config_valid config"
  shows "result_status (CheckOperatorHealth cli config) = Some ConditionTrue \<longleftrightarrow>
    (case fetchOperatorCR cli config of
       Inl err \<Rightarrow>
         if err_is NoMatch err then \<not> NoMatchAsUnknown config
         else (err_is NotFound err \<or> err_is OperatorCRNotFound err) \<and> \<not> RequireCR config
     | Inr cr \<Rightarrow>
         (\<exists>cs. readConditions cli cr = Inr cs \<and>
            (\<forall>flt t c. Filter config = Some flt \<longrightarrow> map_of cs t = Some c \<longrightarrow> \<not> flt t (cc_status c)) \<and>
            (\<forall>rc \<in> set (RequiredConditions config). \<exists>c. map_of cs (rc_Type rc) = Some c \<and>
               cc_status c = rc_Status rc \<and> cc_status c \<in> {ConditionTrue, ConditionFalse})))"
proof (cases "fetchOperatorCR cli config")
  case (Inl err)
  with assms show ?thesis by (simp add: CheckOperatorHealth_valid(2) evaluateOperatorCR_def)
next
  case (Inr cr)
  show ?thesis
  proof (cases "readConditions cli cr")
    case (Inl err)
    with assms Inr show ?thesis by (simp add: CheckOperatorHealth_valid(2) evaluateOperatorCR_def)
  next
    case cs: (Inr cs)
    have "result_status (CheckOperatorHealth cli config) = Some ConditionTrue \<longleftrightarrow>
        collectDegradedConditions (ca_name cli cr) config cs = [] \<and>
        fst (required_loop (ca_name cli cr) config cs (RequiredConditions config)) = [] \<and>
        snd (required_loop (ca_name cli cr) config cs (RequiredConditions config)) = []"
      using assms Inr cs
      by (simp add: CheckOperatorHealth_valid(2) evaluateOperatorCR_def evaluateRequiredConditions_def
          Let_def case_prod_beta) blast
    also have "\<dots> \<longleftrightarrow>
        (\<forall>flt t c. Filter config = Some flt \<longrightarrow> map_of cs t = Some c \<longrightarrow> \<not> flt t (cc_status c)) \<and>
        (\<forall>rc \<in> set (RequiredConditions config). \<exists>c. map_of cs (rc_Type rc) = Some c \<and>
           cc_status c = rc_Status rc \<and> cc_status c \<in> {ConditionTrue, ConditionFalse})"
      unfolding degraded_Nil [OF readConditions_wf [OF cs]] required_loop_unmet required_loop_indeterminate
      by (rule conj_cong [OF refl]) fastforce
    finally show ?thesis using Inr cs by simp
  qed
qed

text \<open>A reader and a configuration for the witnesses: the CR is the list of its condition entries.\<close>

definition demo_access ::
  "(string \<times> string) list \<Rightarrow> ((string \<times> string) list, string \<times> string) cr_access" where
  "demo_access cs =
     \<lparr>ca_get = (\<lambda>g n ns. Inr cs), ca_list = (\<lambda>g ns. Inr [cs]), ca_name = (\<lambda>x. ''cr''),
      ca_conditions = (\<lambda>x. Inr (Some x)),
      ca_fields = (\<lambda>(t, s). Some (\<lambda>f. if f = ''type'' then t else if f = ''status'' then s else ''''))\<rparr>"

definition demo_config :: OperatorConfig where
  "demo_config =
     \<lparr>OperatorGVK = \<lparr>gvk_Group = ''g'', gvk_Version = ''v1'', gvk_Kind = ''Kueue''\<rparr>, CRName = ''cluster'',
      CRNamespace = '''', Filter = Some (\<lambda>t s. t = ''Degraded'' \<and> s = ''True''),
      RequiredConditions = [\<lparr>rc_Type = ''Available'', rc_Status = ConditionTrue\<rparr>],
      RequireCR = True, NoMatchAsUnknown = False\<rparr>"

theorem operator_health_true_witness:
  "result_status (CheckOperatorHealth (demo_access [(''Degraded'', ''False''), (''Available'', ''True'')]) demo_config)
     = Some ConditionTrue \<and>
   result_status (CheckOperatorHealth (demo_access [(''Degraded'', ''False'')]) demo_config) \<noteq> Some ConditionTrue"
proof -
  have v: "config_valid demo_config" by (simp add: config_valid_def demo_config_def)
  have f: "fetchOperatorCR (demo_access cs) demo_config = Inr cs" for cs
    by (simp add: fetchOperatorCR_def demo_access_def demo_config_def)
  have "readConditions (demo_access [(''Degraded'', ''False''), (''Available'', ''True'')])
      [(''Degraded'', ''False''), (''Available'', ''True'')] =
      Inr [(''Degraded'', \<lparr>cc_status = ''False'', cc_reason = '''', cc_message = ''''\<rparr>),
           (''Available'', \<lparr>cc_status = ''True'', cc_reason = '''', cc_message = ''''\<rparr>)]"
    "readConditions (demo_access [(''Degraded'', ''False'')]) [(''Degraded'', ''False'')] =
      Inr [(''Degraded'', \<lparr>cc_status = ''False'', cc_reason = '''', cc_message = ''''\<rparr>)]"
    by code_simp+
  then show ?thesis
    unfolding operator_health_true [OF v] f by (simp add: demo_config_def)
qed

lemma collectDegraded_perm:
  assumes "gomap_wf cs" and "mset cs = mset cs'"
  shows "collectDegradedConditions nm cfg cs = collectDegradedConditions nm cfg cs'"
proof -
  have "mset (map fst cs) = mset (map fst cs')" using assms(2) by (metis mset_map)
  then have "sort (map fst cs) = sort (map fst cs')" by (metis properties_for_sort sorted_sort mset_sort)
  moreover have "at_or cs zero_condition = at_or cs' zero_condition"
    by (simp add: fun_eq_iff at_or_def map_of_perm [OF assms])
  ultimately show ?thesis unfolding collectDegradedConditions_def by (simp only:)
qed

lemma required_loop_perm:
  "map_of cs = map_of cs' \<Longrightarrow> required_loop nm cfg cs rcs = required_loop nm cfg cs' rcs"
  by (induction rcs) simp_all

text \<open>The parsed entry of a condition, when it carries a type and a status.\<close>

definition entry :: "('e \<Rightarrow> (string \<Rightarrow> string) option) \<Rightarrow> 'e \<Rightarrow> (string \<times> crCondition) option" where
  "entry flds c =
     (case flds c of
        None \<Rightarrow> None
      | Some m \<Rightarrow>
          if m ''type'' = '''' \<or> m ''status'' = '''' then None
          else Some (m ''type'', \<lparr>cc_status = m ''status'', cc_reason = m ''reason'', cc_message = m ''message''\<rparr>))"

lemma read_loop_entries:
  assumes "gomap_wf m"
  shows "(distinct (map fst (m @ List.map_filter (entry flds) cs)) \<longrightarrow>
       read_loop flds cs m = Inr (m @ List.map_filter (entry flds) cs)) \<and>
    (\<not> distinct (map fst (m @ List.map_filter (entry flds) cs)) \<longrightarrow> isl (read_loop flds cs m))"
  using assms
proof (induction cs arbitrary: m)
  case (Cons c cs)
  show ?case
  proof (cases "entry flds c")
    case None
    with Cons show ?thesis
      by (auto simp: entry_def List.map_filter_simps split: option.splits if_splits)
  next
    case (Some e)
    obtain t v where e: "e = (t, v)" by force
    show ?thesis
    proof (cases "t \<in> fst ` set m")
      case True
      with Some e show ?thesis
        by (auto simp: entry_def List.map_filter_simps map_of_eq_None_iff split: option.splits if_splits)
    next
      case False
      then have step: "read_loop flds (c # cs) m = read_loop flds cs (m @ [e])"
        using Some e
        by (auto simp: entry_def map_of_eq_None_iff update_fresh split: option.splits if_splits)
      have "gomap_wf (m @ [e])" using Cons.prems False e by (simp add: gomap_wf_def)
      from Cons.IH [OF this] show ?thesis unfolding step by (simp add: Some List.map_filter_simps)
    qed
  qed
qed (simp add: gomap_wf_def List.map_filter_simps)

text \<open>
  Stable messages. The result of the health check, messages included, does not depend on the order
  in which the operator lists its status conditions, as long as no type is listed twice.
\<close>

theorem operator_health_stable:
  assumes "ca_conditions cli cr = Inr (Some es)" and "ca_conditions cli cr' = Inr (Some es')"
    and "mset es = mset es'" and "ca_name cli cr = ca_name cli cr'"
    and "ca_get cli (OperatorGVK config) (CRName config) (CRNamespace config) = Inr cr"
    and "get' (OperatorGVK config) (CRName config) (CRNamespace config) = Inr cr'"
    and "CRName config \<noteq> ''''" and "readConditions cli cr = Inr cs"
  shows "CheckOperatorHealth (cli\<lparr>ca_get := get'\<rparr>) config = CheckOperatorHealth cli config"
proof -
  let ?p = "List.map_filter (entry (ca_fields cli)) es" and ?p' = "List.map_filter (entry (ca_fields cli)) es'"
  have ms: "mset ?p = mset ?p'"
    using assms(3) by (simp add: List.map_filter_def)
  from read_loop_entries [of "[]" "ca_fields cli" es] assms(1,8)
  have cs: "cs = ?p" "distinct (map fst ?p)"
    by (cases "distinct (map fst ?p)"; simp add: readConditions_def)+
  moreover have "distinct (map fst ?p')" using cs(2) ms by (metis mset_eq_imp_distinct_iff mset_map)
  ultimately have cs': "readConditions (cli\<lparr>ca_get := get'\<rparr>) cr' = Inr ?p'"
    using read_loop_entries [of "[]" "ca_fields cli" es'] assms(2) by (simp add: readConditions_def)
  have wf: "gomap_wf ?p" using cs by (simp add: gomap_wf_def)
  show ?thesis
    unfolding CheckOperatorHealth_def evaluateOperatorCR_def fetchOperatorCR_def evaluateRequiredConditions_def
    using assms(4-8) cs(1) cs' collectDegraded_perm [OF wf ms] required_loop_perm [OF map_of_perm [OF wf ms]]
    by simp
qed

theorem operator_health_stable_witness:
  "CheckOperatorHealth ((demo_access [(''Degraded'', ''True''), (''Available'', ''False'')])
       \<lparr>ca_get := (\<lambda>g n ns. Inr [(''Available'', ''False''), (''Degraded'', ''True'')])\<rparr>) demo_config =
   CheckOperatorHealth (demo_access [(''Degraded'', ''True''), (''Available'', ''False'')]) demo_config"
proof -
  let ?cli = "demo_access [(''Degraded'', ''True''), (''Available'', ''False'')]"
  have "readConditions ?cli [(''Degraded'', ''True''), (''Available'', ''False'')] =
      Inr [(''Degraded'', \<lparr>cc_status = ''True'', cc_reason = '''', cc_message = ''''\<rparr>),
           (''Available'', \<lparr>cc_status = ''False'', cc_reason = '''', cc_message = ''''\<rparr>)]"
    by code_simp
  then show ?thesis
    by (intro operator_health_stable
          [where es = "[(''Degraded'', ''True''), (''Available'', ''False'')]"
             and es' = "[(''Available'', ''False''), (''Degraded'', ''True'')]"])
      (simp_all add: demo_access_def demo_config_def)
qed

end
