(* ===== verification/Precondition.thy ===== *)
theory Precondition
  imports Monitor Gating
begin

text \<open>
  \<open>pkg/controller/precondition\<close>: preconditions with their options, the aggregation of their results into
  one status condition per condition type, and the action that holds a component back until the
  platform orchestrator has cleared its runlevel.

  A check and a skip predicate may read and change anything they are given, so both take and return
  a world \<open>'w\<close> (the reconciliation request and the cluster behind it). The status conditions marked by
  \<open>RunAll\<close> are the list it returns; the order of that list is the unspecified order of the Go map.
\<close>

section \<open>Preconditions and their options\<close>

type_synonym 'w check_func = "'w \<Rightarrow> (go_error + CheckResult) \<times> 'w"
type_synonym 'w skip_func = "'w \<Rightarrow> (go_error + bool) \<times> 'w"

record 'w PreCondition =
  pc_check :: "'w check_func option"
  pc_conditionType :: string
  pc_severity :: severity
  pc_stopReconciliation :: bool
  pc_clusterTypes :: "string list"
  pc_message :: string
  pc_skipFunc :: "'w skip_func option"

type_synonym 'w pc_option = "'w PreCondition \<Rightarrow> 'w PreCondition"

definition WithConditionType :: "string \<Rightarrow> 'w pc_option" where
  "WithConditionType t pc = (if t \<noteq> '''' then pc\<lparr>pc_conditionType := t\<rparr> else pc)"

definition WithSeverity :: "severity \<Rightarrow> 'w pc_option" where
  "WithSeverity s pc = pc\<lparr>pc_severity := s\<rparr>"

definition WithStopReconciliation :: "'w pc_option" where
  "WithStopReconciliation pc = pc\<lparr>pc_stopReconciliation := True\<rparr>"

definition WithClusterTypes :: "string list \<Rightarrow> 'w pc_option" where
  "WithClusterTypes types pc = pc\<lparr>pc_clusterTypes := types\<rparr>"

definition WithMessage :: "string \<Rightarrow> 'w pc_option" where
  "WithMessage msg pc = pc\<lparr>pc_message := msg\<rparr>"

definition WithSkipFunc :: "'w skip_func option \<Rightarrow> 'w pc_option" where
  "WithSkipFunc fn pc = pc\<lparr>pc_skipFunc := fn\<rparr>"

definition newPreCondition :: "'w check_func option \<Rightarrow> 'w pc_option list \<Rightarrow> 'w PreCondition" where
  "newPreCondition check opts =
     foldl (\<lambda>pc opt. opt pc)
       \<lparr>pc_check = check, pc_conditionType = ''DependenciesAvailable'', pc_severity = ConditionSeverityError,
        pc_stopReconciliation = False, pc_clusterTypes = [], pc_message = '''', pc_skipFunc = None\<rparr>
       opts"

definition Custom :: "'w check_func option \<Rightarrow> 'w pc_option list \<Rightarrow> 'w PreCondition" where
  "Custom check opts = newPreCondition check opts"

text \<open>The built-in checks read the cluster, whose state the world determines.\<close>

definition MonitorAPIs ::
  "('w \<Rightarrow> 'c crd_reader) \<Rightarrow> RequiredAPI list \<Rightarrow> 'w pc_option list \<Rightarrow> 'w PreCondition" where
  "MonitorAPIs cluster apis opts =
     newPreCondition (Some (\<lambda>w. (CheckRequiredAPIs (cluster w) apis, w))) opts"

definition MonitorCRDs ::
  "('w \<Rightarrow> 'c crd_reader) \<Rightarrow> string list \<Rightarrow> 'w pc_option list \<Rightarrow> 'w PreCondition" where
  "MonitorCRDs cluster crdNames opts =
     MonitorAPIs cluster (map (\<lambda>name. \<lparr>api_CRDName = name, api_Version = ''''\<rparr>) crdNames) opts"

definition MonitorCRD :: "('w \<Rightarrow> 'c crd_reader) \<Rightarrow> string \<Rightarrow> 'w pc_option list \<Rightarrow> 'w PreCondition" where
  "MonitorCRD cluster crdName opts = MonitorCRDs cluster [crdName] opts"

definition SkipIfCRDAbsent :: "('w \<Rightarrow> 'c crd_reader) \<Rightarrow> string \<Rightarrow> 'w skip_func" where
  "SkipIfCRDAbsent cluster crdName w =
     (case cr_get (cluster w) 0 crdName of
        Inl err \<Rightarrow>
          if err_is NotFound err then (Inr True, w)
          else (Inl (wrap (crdName @ '': failed to check CRD presence'') err), w)
      | Inr crd \<Rightarrow> (Inr False, w))"

definition MonitorOperator ::
  "('w \<Rightarrow> ('o, 'e) cr_access) \<Rightarrow> OperatorConfig \<Rightarrow> 'w pc_option list \<Rightarrow> 'w PreCondition" where
  "MonitorOperator cluster config opts =
     newPreCondition (Some (\<lambda>w. (CheckOperatorHealth (cluster w) config, w))) opts"

section \<open>Aggregation\<close>

record conditionAggregate =
  agg_status :: string
  agg_severity :: severity
  agg_messages :: "string list"
  agg_shouldStop :: bool

type_synonym aggregates = "(string, conditionAggregate) gomap"

definition new_aggregate :: conditionAggregate where
  "new_aggregate =
     \<lparr>agg_status = ConditionTrue, agg_severity = ConditionSeverityInfo, agg_messages = [], agg_shouldStop = False\<rparr>"

definition initAggregate :: "aggregates \<Rightarrow> string \<Rightarrow> aggregates" where
  "initAggregate results ct =
     (if map_of results ct = None then AList.update ct new_aggregate results else results)"

definition agg_record ::
  "string \<Rightarrow> string \<Rightarrow> 'w PreCondition \<Rightarrow> conditionAggregate \<Rightarrow> conditionAggregate" where
  "agg_record s message pc agg =
     agg\<lparr>agg_status :=
           (if s = ConditionFalse then ConditionFalse
            else if s = ConditionUnknown \<and> agg_status agg \<noteq> ConditionFalse then ConditionUnknown
            else agg_status agg),
         agg_messages := agg_messages agg @ [message],
         agg_severity :=
           (if pc_severity pc = ConditionSeverityError then ConditionSeverityError else agg_severity agg),
         agg_shouldStop := (if pc_stopReconciliation pc then True else agg_shouldStop agg)\<rparr>"

text \<open>\<open>initAggregate(results, ct).record(...)\<close> updates the aggregate the map points to.\<close>

definition record_at :: "string \<Rightarrow> string \<Rightarrow> 'w PreCondition \<Rightarrow> aggregates \<Rightarrow> aggregates" where
  "record_at s message pc results =
     (let r = initAggregate results (pc_conditionType pc)
      in AList.update (pc_conditionType pc)
           (agg_record s message pc (at_or r new_aggregate (pc_conditionType pc))) r)"

text \<open>What is left to do for a precondition once its skip predicate was consulted.\<close>

datatype skip_result = RunCheck | SkipIt | SkipError string

definition eval_skip :: "'w PreCondition \<Rightarrow> 'w \<Rightarrow> skip_result \<times> 'w" where
  "eval_skip pc w =
     (case pc_skipFunc pc of
        None \<Rightarrow> (RunCheck, w)
      | Some skipFunc \<Rightarrow>
          (case skipFunc w of
             (Inl skipErr, w') \<Rightarrow> (SkipError (err_msg skipErr), w')
           | (Inr True, w') \<Rightarrow> (SkipIt, w')
           | (Inr False, w') \<Rightarrow> (RunCheck, w')))"

definition run_one :: "string \<Rightarrow> 'w PreCondition \<Rightarrow> aggregates \<times> 'w \<Rightarrow> aggregates \<times> 'w" where
  "run_one clusterType pc st =
     (let (results, w) = st in
      if pc_clusterTypes pc \<noteq> [] \<and> clusterType \<notin> set (pc_clusterTypes pc) then
        (initAggregate results (pc_conditionType pc), w)
      else
        case eval_skip pc w of
          (SkipError msg, w1) \<Rightarrow> (record_at ConditionUnknown msg pc results, w1)
        | (SkipIt, w1) \<Rightarrow> (initAggregate results (pc_conditionType pc), w1)
        | (RunCheck, w1) \<Rightarrow>
            (case pc_check pc of
               None \<Rightarrow> (record_at ConditionUnknown ''precondition check function is nil'' pc results, w1)
             | Some check \<Rightarrow>
                 (case check w1 of
                    (Inl err, w2) \<Rightarrow> (record_at ConditionUnknown (err_msg err) pc results, w2)
                  | (Inr result, w2) \<Rightarrow>
                      if ConditionStatus result \<noteq> ConditionTrue then
                        (record_at (ConditionStatus result)
                           (if pc_message pc \<noteq> '''' then pc_message pc else cr_Message result) pc results, w2)
                      else (initAggregate results (pc_conditionType pc), w2))))"

definition mark_condition :: "string \<times> conditionAggregate \<Rightarrow> condition" where
  "mark_condition ca =
     (let (ct, agg) = ca in
      if agg_status agg \<noteq> ConditionTrue then
        \<lparr>cType = ct, cStatus = agg_status agg, cReason = ''PreConditionFailed'',
         cMessage = strings_Join (agg_messages agg) ''; '', cSeverity = agg_severity agg\<rparr>
      else
        \<lparr>cType = ct, cStatus = agg_status agg, cReason = '''', cMessage = '''', cSeverity = SeverityUnset\<rparr>)"

definition RunAll ::
  "string \<Rightarrow> 'w PreCondition list \<Rightarrow> 'w \<Rightarrow> bool \<times> condition list \<times> 'w" where
  "RunAll clusterType preConditions w =
     (if preConditions = [] then (False, [], w)
      else
        let (results, w') = foldl (\<lambda>st pc. run_one clusterType pc st) ([], w) preConditions
        in (list_ex (\<lambda>(ct, agg). agg_shouldStop agg) results, map mark_condition results, w'))"

section \<open>The runlevel gate of a component\<close>

text \<open>
  \<open>strings.ToLower\<close> on ASCII, which Kubernetes kinds are. The requeue error is the framework library's
  (\<open>NewRequeueAfterError\<close>): it is represented by its class and its delay, not by its text. The result is the error returned (if any),
  the conditions marked and the new value of \<open>rr.SkipDeploy\<close>.
\<close>

definition ToLower :: "string \<Rightarrow> string" where
  "ToLower s = map (\<lambda>c. let n = of_char c :: nat in if 65 \<le> n \<and> n \<le> 90 then char_of (n + 32) else c) s"

abbreviation (input) PlatformReadyConditionType :: string where
  "PlatformReadyConditionType \<equiv> ''PlatformReady''"

definition runlevelGateAction ::
  "bool \<Rightarrow> UnifiedRegistry \<Rightarrow> RunlevelTracker \<Rightarrow> string \<Rightarrow> string \<Rightarrow> bool \<Rightarrow>
     go_error option \<times> condition list \<times> bool" where
  "runlevelGateAction dagDisabled reg tracker kind version skipDeploy =
     (if dagDisabled then (None, [], skipDeploy)
      else
        let (order, found) = LookupOrder (ToLower kind) reg;
            ready = (cond PlatformReadyConditionType ConditionTrue '''' '''')\<lparr>cSeverity := ConditionSeverityInfo\<rparr>
        in if \<not> found then (None, [ready], skipDeploy)
           else if \<not> IsCleared version order tracker then
             (Some (GoError '''' [RequeueAfter (30 * second)]),
              [(cond PlatformReadyConditionType ConditionFalse ''RunlevelNotCleared''
                  (''provisioning order '' @ fmt_int order @ '' not yet reached at version '' @ version @
                   ''; waiting for platform orchestrator''))\<lparr>cSeverity := ConditionSeverityInfo\<rparr>],
              True)
           else (None, [ready], skipDeploy))"

section \<open>What the aggregation computes\<close>

text \<open>
  The outcome of one precondition: \<open>None\<close> when it does not apply, is skipped or holds, otherwise the
  status and the message it contributes.
\<close>

definition pc_outcome :: "string \<Rightarrow> 'w PreCondition \<Rightarrow> 'w \<Rightarrow> (string \<times> string) option \<times> 'w" where
  "pc_outcome clusterType pc w =
     (if pc_clusterTypes pc \<noteq> [] \<and> clusterType \<notin> set (pc_clusterTypes pc) then (None, w)
      else
        case eval_skip pc w of
          (SkipError msg, w1) \<Rightarrow> (Some (ConditionUnknown, msg), w1)
        | (SkipIt, w1) \<Rightarrow> (None, w1)
        | (RunCheck, w1) \<Rightarrow>
            (case pc_check pc of
               None \<Rightarrow> (Some (ConditionUnknown, ''precondition check function is nil''), w1)
             | Some check \<Rightarrow>
                 (case check w1 of
                    (Inl err, w2) \<Rightarrow> (Some (ConditionUnknown, err_msg err), w2)
                  | (Inr result, w2) \<Rightarrow>
                      (if ConditionStatus result \<noteq> ConditionTrue
                       then Some (ConditionStatus result, if pc_message pc \<noteq> '''' then pc_message pc else cr_Message result)
                       else None, w2))))"

fun outcomes ::
  "string \<Rightarrow> 'w PreCondition list \<Rightarrow> 'w \<Rightarrow> ('w PreCondition \<times> (string \<times> string) option) list" where
  "outcomes clusterType [] w = []"
| "outcomes clusterType (pc # pcs) w =
     (pc, fst (pc_outcome clusterType pc w)) # outcomes clusterType pcs (snd (pc_outcome clusterType pc w))"

definition apply_outcome ::
  "aggregates \<Rightarrow> 'w PreCondition \<times> (string \<times> string) option \<Rightarrow> aggregates" where
  "apply_outcome results po =
     (case snd po of
        None \<Rightarrow> initAggregate results (pc_conditionType (fst po))
      | Some (s, m) \<Rightarrow> record_at s m (fst po) results)"

lemma run_one_outcome:
  "run_one clusterType pc (results, w) =
     (apply_outcome results (pc, fst (pc_outcome clusterType pc w)), snd (pc_outcome clusterType pc w))"
  by (simp add: run_one_def pc_outcome_def apply_outcome_def split: prod.splits skip_result.splits
      option.splits sum.splits)

lemma foldl_run_one:
  "fst (foldl (\<lambda>st pc. run_one clusterType pc st) (results, w) pcs) =
     foldl apply_outcome results (outcomes clusterType pcs w)"
  by (induction pcs arbitrary: results w) (simp_all add: run_one_outcome)

lemma outcomes_fst: "map fst (outcomes clusterType pcs w) = pcs"
  by (induction pcs arbitrary: w) simp_all

lemma pc_outcome_status:
  "fst (pc_outcome clusterType pc w) = Some (s, m) \<Longrightarrow> s = ConditionFalse \<or> s = ConditionUnknown"
  using ConditionStatus_range
  by (auto simp: pc_outcome_def split: if_splits prod.splits skip_result.splits option.splits sum.splits)

lemma outcomes_status:
  "(pc, Some (s, m)) \<in> set (outcomes clusterType pcs w) \<Longrightarrow> s = ConditionFalse \<or> s = ConditionUnknown"
  by (induction pcs arbitrary: w) (auto dest: pc_outcome_status [OF sym])

lemma apply_outcome_wf: "gomap_wf r \<Longrightarrow> gomap_wf (apply_outcome r po)"
  by (simp add: apply_outcome_def initAggregate_def record_at_def Let_def split: option.splits)

definition agg_step ::
  "string \<Rightarrow> conditionAggregate \<Rightarrow> 'w PreCondition \<times> (string \<times> string) option \<Rightarrow> conditionAggregate" where
  "agg_step t agg po =
     (case snd po of
        None \<Rightarrow> agg
      | Some (s, m) \<Rightarrow> if pc_conditionType (fst po) = t then agg_record s m (fst po) agg else agg)"

lemma at_or_apply_outcome:
  "at_or (apply_outcome r po) new_aggregate t = agg_step t (at_or r new_aggregate t) po"
  by (auto simp: apply_outcome_def agg_step_def initAggregate_def record_at_def Let_def at_or_def
      map_of_alist_update split: option.splits)

lemma dom_apply_outcome:
  "fst ` set (apply_outcome r po) = insert (pc_conditionType (fst po)) (fst ` set r)"
  by (auto simp: apply_outcome_def initAggregate_def record_at_def Let_def dom_update map_of_eq_None_iff
      split: option.splits)

lemma foldl_apply_outcome:
  "at_or (foldl apply_outcome r os) new_aggregate t = foldl (agg_step t) (at_or r new_aggregate t) os"
  "fst ` set (foldl apply_outcome r os) = (pc_conditionType \<circ> fst) ` set os \<union> fst ` set r"
  "gomap_wf r \<Longrightarrow> gomap_wf (foldl apply_outcome r os)"
  by (induction os arbitrary: r)
    (simp_all add: at_or_apply_outcome dom_apply_outcome apply_outcome_wf, blast?)

definition worst :: "string set \<Rightarrow> string" where
  "worst S = (if ConditionFalse \<in> S then ConditionFalse else if ConditionUnknown \<in> S then ConditionUnknown
     else ConditionTrue)"

text \<open>The precondition \<open>pc\<close> contributed status \<open>s\<close> to the condition type \<open>t\<close>.\<close>

definition fails ::
  "('w PreCondition \<times> (string \<times> string) option) list \<Rightarrow> string \<Rightarrow> 'w PreCondition \<Rightarrow> string \<Rightarrow> bool" where
  "fails os t pc s \<longleftrightarrow> pc_conditionType pc = t \<and> (\<exists>m. (pc, Some (s, m)) \<in> set os)"

lemma fails_Nil [simp]: "\<not> fails [] t pc s"
  by (simp add: fails_def)

lemma fails_Cons:
  "fails (po # os) t pc s \<longleftrightarrow> fails os t pc s \<or> (pc_conditionType pc = t \<and> fst po = pc \<and> (\<exists>m. snd po = Some (s, m)))"
  by (cases po) (auto simp: fails_def)

lemma fails_known:
  assumes "fails (outcomes clusterType pcs w) t pc s"
  shows "t \<in> pc_conditionType ` set pcs"
proof -
  have "fst ` set (outcomes clusterType pcs w) = set pcs" by (metis outcomes_fst set_map)
  moreover from assms have "pc \<in> fst ` set (outcomes clusterType pcs w)" by (force simp: fails_def)
  ultimately show ?thesis using assms by (auto simp: fails_def)
qed

lemma worst_insert:
  assumes "s \<in> {ConditionTrue, ConditionFalse, ConditionUnknown}"
  shows "worst (insert (if x = ConditionFalse then ConditionFalse
      else if x = ConditionUnknown \<and> s \<noteq> ConditionFalse then ConditionUnknown else s) S) = worst (insert s (insert x S))"
proof -
  consider "s = ConditionTrue" | "s = ConditionFalse" | "s = ConditionUnknown" using assms by blast
  then show ?thesis by cases (simp_all add: worst_def)
qed

lemma agg_fold_status:
  assumes "agg_status agg \<in> {ConditionTrue, ConditionFalse, ConditionUnknown}"
  shows "agg_status (foldl (agg_step t) agg os) = worst (insert (agg_status agg) {s. \<exists>pc. fails os t pc s})"
  using assms
proof (induction os arbitrary: agg)
  case Nil
  then show ?case by (auto simp: worst_def)
next
  case (Cons po os)
  obtain pc oc where po: "po = (pc, oc)" by force
  show ?case
  proof (cases "\<exists>s m. oc = Some (s, m) \<and> pc_conditionType pc = t")
    case False
    then have "agg_step t agg po = agg" by (auto simp: po agg_step_def split: option.splits)
    moreover have "(\<exists>pc'. fails (po # os) t pc' s) \<longleftrightarrow> (\<exists>pc'. fails os t pc' s)" for s
      using False by (auto simp: fails_Cons po)
    ultimately show ?thesis using Cons by simp
  next
    case True
    then obtain s m where s: "oc = Some (s, m)" "pc_conditionType pc = t" by blast
    let ?agg = "agg_step t agg po"
    have st: "agg_status ?agg = (if s = ConditionFalse then ConditionFalse
        else if s = ConditionUnknown \<and> agg_status agg \<noteq> ConditionFalse then ConditionUnknown else agg_status agg)"
      using s by (simp add: po agg_step_def agg_record_def)
    then have "agg_status ?agg \<in> {ConditionTrue, ConditionFalse, ConditionUnknown}" using Cons.prems by auto
    from Cons.IH [OF this] st have "agg_status (foldl (agg_step t) agg (po # os)) =
        worst (insert (agg_status agg) (insert s {s. \<exists>pc. fails os t pc s}))"
      by (simp only: foldl_Cons worst_insert [OF Cons.prems])
    moreover have "insert s {s. \<exists>pc. fails os t pc s} = {s. \<exists>pc. fails (po # os) t pc s}"
      using s by (auto simp: fails_Cons po)
    ultimately show ?thesis by simp
  qed
qed

lemma agg_fold_severity:
  "agg_severity (foldl (agg_step t) agg os) =
     (if \<exists>pc s. fails os t pc s \<and> pc_severity pc = ConditionSeverityError then ConditionSeverityError
      else agg_severity agg)"
  "agg_shouldStop (foldl (agg_step t) agg os) \<longleftrightarrow>
     agg_shouldStop agg \<or> (\<exists>pc s. fails os t pc s \<and> pc_stopReconciliation pc)"
  by (induction os arbitrary: agg)
    (auto simp: fails_Cons agg_step_def agg_record_def split: option.splits)

lemma gomap_entry: "gomap_wf m \<Longrightarrow> (k, v) \<in> set m \<Longrightarrow> at_or m z k = v"
  by (simp add: gomap_wf_def at_or_def map_of_is_SomeI)

lemma RunAll_spec:
  assumes "RunAll clusterType pcs w = (stop, conds, w')"
  shows "distinct (map cType conds) \<and> cType ` set conds = pc_conditionType ` set pcs \<and>
    (\<forall>c \<in> set conds.
       cStatus c = worst {s. \<exists>pc. fails (outcomes clusterType pcs w) (cType c) pc s} \<and>
       cSeverity c = (if cStatus c = ConditionTrue then SeverityUnset
         else if \<exists>pc s. fails (outcomes clusterType pcs w) (cType c) pc s \<and> pc_severity pc = ConditionSeverityError
         then ConditionSeverityError else ConditionSeverityInfo)) \<and>
    (stop \<longleftrightarrow> (\<exists>t pc s. fails (outcomes clusterType pcs w) t pc s \<and> pc_stopReconciliation pc))"
proof (cases "pcs = []")
  case True
  with assms show ?thesis by (auto simp: RunAll_def)
next
  case False
  let ?os = "outcomes clusterType pcs w"
  let ?r = "foldl apply_outcome [] ?os"
  have wf: "gomap_wf ?r" by (simp add: foldl_apply_outcome(3))
  have dom: "fst ` set ?r = pc_conditionType ` set pcs"
    using foldl_apply_outcome(2) [of "[]" ?os] outcomes_fst [of clusterType pcs w]
    by (metis (no_types) image_comp image_set sup_bot_right list.set(1) image_empty)
  have out: "stop \<longleftrightarrow> list_ex (\<lambda>(ct, agg). agg_shouldStop agg) ?r" "conds = map mark_condition ?r"
    using assms False foldl_run_one [of clusterType "[]" w pcs] by (auto simp: RunAll_def case_prod_beta)
  have agg: "v = foldl (agg_step k) new_aggregate ?os" if "(k, v) \<in> set ?r" for k v
    using gomap_entry [OF wf that] foldl_apply_outcome(1) [of "[]" ?os k] by simp
  have ty: "map cType conds = map fst ?r" by (simp add: out(2) mark_condition_def Let_def case_prod_beta)
  have new: "agg_status new_aggregate = ConditionTrue" "agg_severity new_aggregate = ConditionSeverityInfo"
    "\<not> agg_shouldStop new_aggregate" by (simp_all add: new_aggregate_def)
  have ins: "worst (insert ConditionTrue S) = worst S" for S by (simp add: worst_def)
  have "cStatus c = worst {s. \<exists>pc. fails ?os (cType c) pc s} \<and>
       cSeverity c = (if cStatus c = ConditionTrue then SeverityUnset
         else if \<exists>pc s. fails ?os (cType c) pc s \<and> pc_severity pc = ConditionSeverityError
         then ConditionSeverityError else ConditionSeverityInfo)" if "c \<in> set conds" for c
  proof -
    from that obtain k v where kv: "(k, v) \<in> set ?r" "c = mark_condition (k, v)" by (auto simp: out(2))
    then have "cType c = k" "cStatus c = agg_status v"
      "cSeverity c = (if agg_status v = ConditionTrue then SeverityUnset else agg_severity v)"
      by (simp_all add: mark_condition_def Let_def)
    then show ?thesis
      using agg_fold_status [of new_aggregate k ?os] agg_fold_severity(1) [of k new_aggregate ?os] agg [OF kv(1)]
      by (simp add: new ins) blast
  qed
  moreover have "stop \<longleftrightarrow> (\<exists>t pc s. fails ?os t pc s \<and> pc_stopReconciliation pc)"
  proof -
    have "agg_shouldStop v \<longleftrightarrow> (\<exists>pc s. fails ?os k pc s \<and> pc_stopReconciliation pc)" if "(k, v) \<in> set ?r" for k v
      using agg [OF that] agg_fold_severity(2) [of k new_aggregate ?os] new(3) by (simp only:) simp
    then have "stop \<longleftrightarrow> (\<exists>kv \<in> set ?r. \<exists>pc s. fails ?os (fst kv) pc s \<and> pc_stopReconciliation pc)"
      unfolding out(1) list_ex_iff by (intro bex_cong) (auto, blast)
    moreover have "\<exists>v. (t, v) \<in> set ?r" if "fails ?os t pc s" for t pc s
      using fails_known [OF that] unfolding dom [symmetric] by force
    ultimately show ?thesis by (metis fst_conv)
  qed
  moreover have "distinct (map cType conds)" using wf by (simp add: ty gomap_wf_def)
  moreover have "cType ` set conds = pc_conditionType ` set pcs" using ty dom by (metis set_map)
  ultimately show ?thesis by blast
qed

section \<open>Properties\<close>

text \<open>
  Aggregation of preconditions. \<open>RunAll\<close> marks exactly one condition for each condition type of the
  preconditions. Its status is the worst contribution to that type (\<open>False\<close> over \<open>Unknown\<close> over \<open>True\<close>), its
  severity is \<open>Error\<close> when a contributing precondition has that severity and \<open>Info\<close> otherwise (unset for
  \<open>True\<close>), and the reconciliation stops exactly when a precondition that asked for it did not hold.
\<close>

theorem run_all_aggregates:
  assumes "RunAll clusterType pcs w = (stop, conds, w')"
  shows "distinct (map cType conds) \<and> cType ` set conds = pc_conditionType ` set pcs \<and>
    (\<forall>c \<in> set conds.
       cStatus c = worst {s. \<exists>pc. fails (outcomes clusterType pcs w) (cType c) pc s} \<and>
       cSeverity c = (if cStatus c = ConditionTrue then SeverityUnset
         else if \<exists>pc s. fails (outcomes clusterType pcs w) (cType c) pc s \<and> pc_severity pc = ConditionSeverityError
         then ConditionSeverityError else ConditionSeverityInfo)) \<and>
    (stop \<longleftrightarrow> (\<exists>t pc s. fails (outcomes clusterType pcs w) t pc s \<and> pc_stopReconciliation pc))"
  using assms by (rule RunAll_spec)

theorem run_all_aggregates_witness:
  "let (stop, conds, w') = RunAll ''OpenShift''
      [Custom (Some (\<lambda>w. (Inr (Failed ''broken''), w))) [WithStopReconciliation],
       MonitorCRD (\<lambda>w :: unit. demo_crds) ''a'' []] ()
   in stop \<and> map cStatus conds = [ConditionFalse] \<and> distinct (map cType conds)"
proof -
  let ?pcs = "[Custom (Some (\<lambda>w. (Inr (Failed ''broken''), w))) [WithStopReconciliation],
       MonitorCRD (\<lambda>w :: unit. demo_crds) ''a'' []]"
  have "RunAll ''OpenShift'' ?pcs () = (True, [\<lparr>cType = ''DependenciesAvailable'', cStatus = ConditionFalse,
      cReason = ''PreConditionFailed'', cMessage = ''broken'', cSeverity = ConditionSeverityError\<rparr>], ())"
    by code_simp
  from this run_all_aggregates [OF this] show ?thesis by simp
qed

lemma pc_outcome_None:
  assumes "fst (pc_outcome clusterType pc w) = None"
  shows "(pc_clusterTypes pc \<noteq> [] \<and> clusterType \<notin> set (pc_clusterTypes pc)) \<or>
    (\<exists>skip. pc_skipFunc pc = Some skip \<and> fst (skip w) = Inr True) \<or>
    (\<exists>check w1 r. pc_check pc = Some check \<and> fst (check w1) = Inr r \<and> ConditionStatus r = ConditionTrue)"
proof (cases "pc_clusterTypes pc \<noteq> [] \<and> clusterType \<notin> set (pc_clusterTypes pc)")
  case False
  obtain k w1 where es: "eval_skip pc w = (k, w1)" by fastforce
  note po = assms [unfolded pc_outcome_def if_not_P [OF False] es]
  show ?thesis
  proof (cases k)
    case RunCheck
    with po obtain check where c: "pc_check pc = Some check" by (auto split: option.splits)
    obtain res w2 where r: "check w1 = (res, w2)" by fastforce
    with RunCheck c po obtain x where "res = Inr x" "ConditionStatus x = ConditionTrue"
      by (cases res) (auto split: if_splits)
    with c r show ?thesis by (metis fst_conv)
  next
    case SkipIt
    with es show ?thesis
      by (auto simp: eval_skip_def split: option.splits prod.splits sum.splits bool.splits)
  next
    case (SkipError msg)
    with po show ?thesis by simp
  qed
qed simp

lemma outcomes_mem: "pc \<in> set pcs \<Longrightarrow> \<exists>w0. (pc, fst (pc_outcome clusterType pc w0)) \<in> set (outcomes clusterType pcs w)"
  by (induction pcs arbitrary: w) fastforce+

text \<open>
  C26. Preconditions never turn missing information into a green light. When \<open>RunAll\<close> marks a condition
  \<open>True\<close>, each precondition of that type does not apply to the cluster, or was skipped by its predicate,
  or has a check that ran without error and reported \<open>True\<close>. So a missing check, and an error of a check
  or of a skip predicate, keep the condition from being \<open>True\<close>.
\<close>

theorem run_all_true_needs_evidence:
  assumes "RunAll clusterType pcs w = (stop, conds, w')" and "c \<in> set conds"
    and "cStatus c = ConditionTrue" and "pc \<in> set pcs" and "pc_conditionType pc = cType c"
  shows "(pc_clusterTypes pc \<noteq> [] \<and> clusterType \<notin> set (pc_clusterTypes pc)) \<or>
    (\<exists>skip w0. pc_skipFunc pc = Some skip \<and> fst (skip w0) = Inr True) \<or>
    (\<exists>check w1 r. pc_check pc = Some check \<and> fst (check w1) = Inr r \<and> ConditionStatus r = ConditionTrue)"
proof -
  let ?os = "outcomes clusterType pcs w"
  from outcomes_mem [OF assms(4)] obtain w0 where mem: "(pc, fst (pc_outcome clusterType pc w0)) \<in> set ?os"
    by blast
  have "worst {s. \<exists>pc. fails ?os (cType c) pc s} = ConditionTrue"
    using RunAll_spec [OF assms(1)] assms(2,3) by metis
  then have none: "\<not> fails ?os (cType c) pc ConditionFalse" "\<not> fails ?os (cType c) pc ConditionUnknown"
    by (auto simp: worst_def split: if_splits)
  have "fst (pc_outcome clusterType pc w0) = None"
  proof (rule ccontr)
    assume "fst (pc_outcome clusterType pc w0) \<noteq> None"
    then obtain s m where s: "fst (pc_outcome clusterType pc w0) = Some (s, m)" by auto
    with mem assms(5) have "fails ?os (cType c) pc s" by (auto simp: fails_def)
    with pc_outcome_status [OF s] none show False by auto
  qed
  from pc_outcome_None [OF this] show ?thesis by blast
qed

theorem run_all_true_needs_evidence_witness:
  "fst (CheckRequiredAPIs demo_crds [\<lparr>api_CRDName = ''a'', api_Version = ''''\<rparr>], ()) = Inr Passed \<and>
   (\<exists>check w1 r. pc_check (MonitorCRD (\<lambda>w :: unit. demo_crds) ''a'' []) = Some check \<and>
      fst (check w1) = Inr r \<and> ConditionStatus r = ConditionTrue)"
proof -
  let ?pc = "MonitorCRD (\<lambda>w :: unit. demo_crds) ''a'' []"
  let ?c = "\<lparr>cType = ''DependenciesAvailable'', cStatus = ConditionTrue, cReason = '''', cMessage = '''',
     cSeverity = SeverityUnset\<rparr>"
  have run: "RunAll ''OpenShift'' [?pc] () = (False, [?c], ())" by code_simp
  have sel: "pc_conditionType ?pc = ''DependenciesAvailable''" "pc_clusterTypes ?pc = []" "pc_skipFunc ?pc = None"
    by (simp_all add: MonitorCRD_def MonitorCRDs_def MonitorAPIs_def newPreCondition_def)
  have "CheckRequiredAPIs demo_crds [\<lparr>api_CRDName = ''a'', api_Version = ''''\<rparr>] = Inr Passed" by code_simp
  with run_all_true_needs_evidence [OF run, of ?c ?pc] sel show ?thesis by auto
qed

text \<open>
  The runlevel gate follows the walk. After a walk over the registry, the gate of a component that
  was not already told to skip skips its deployment exactly when the component is registered, its
  runlevel is above that of every batch the walk handed over, and it was not cleared before for this
  version; the gate then asks for a requeue in thirty seconds, and otherwise returns no error.
\<close>

theorem runlevel_gate_follows_walk:
  assumes "unified_coherent reg" and "WalkBatches p reg tr rl rr = ((q, err), s, reg')"
    and "runlevelGateAction False reg' (ws_runlevels s) kind (wp_version p) False = (gerr, conds, skip)"
  shows "(skip \<longleftrightarrow> (\<exists>node. map_of (u_nodes reg) (ToLower kind) = Some node \<and>
       (\<forall>(k, b) \<in> set (ws_processed s). Order (n_runlevel (hd b)) < Order (n_runlevel node)) \<and>
       \<not> IsCleared (wp_version p) (Order (n_runlevel node)) rl)) \<and>
    (if skip then \<exists>e. gerr = Some e \<and> err_is (RequeueAfter (30 * second)) e else gerr = None) \<and>
    map cStatus conds = [if skip then ConditionFalse else ConditionTrue]"
proof -
  have nodes: "u_nodes reg' = u_nodes reg"
    using assms(1,2) by (auto simp: WalkBatches_def ResolvedBatches_eq ResolvedBatches_Lock_eq Let_def
        split: if_splits option.splits prod.splits)
  have "IsCleared (wp_version p) ord (ws_runlevels s) \<longleftrightarrow>
      (\<exists>(k, b) \<in> set (ws_processed s). ord \<le> Order (n_runlevel (hd b))) \<or> IsCleared (wp_version p) ord rl" for ord
    by (rule WalkBatches_cleared [OF assms(1,2)])
  then have "IsCleared (wp_version p) ord (ws_runlevels s) \<longleftrightarrow>
      \<not> (\<forall>(k, b) \<in> set (ws_processed s). Order (n_runlevel (hd b)) < ord) \<or> IsCleared (wp_version p) ord rl" for ord
    by (auto simp: not_less case_prod_beta)
  with assms(3) show ?thesis
    by (auto simp: runlevelGateAction_def LookupOrder_def nodes Let_def split: option.splits if_splits)
qed

theorem runlevel_gate_follows_walk_witness:
  "snd (snd (runlevelGateAction False demo_reg (ws_runlevels (demo_walk False 0 [] NewStuckTracker)) ''Kserve'' ''3.0.0'' False))"
proof -
  let ?s = "demo_walk False 0 [] NewStuckTracker"
  let ?reg = "snd (snd (WalkBatches (demo_params False 0 []) demo_reg NewStuckTracker zero_tracker ()))"
  let ?g = "runlevelGateAction False ?reg (ws_runlevels ?s) ''Kserve'' (wp_version (demo_params False 0 [])) False"
  have eq: "?g = runlevelGateAction False demo_reg (ws_runlevels ?s) ''Kserve'' ''3.0.0'' False"
    by code_simp
  have g: "?g = (fst ?g, fst (snd ?g), snd (snd ?g))" by simp
  have "map_of (u_nodes demo_reg) (ToLower ''Kserve'') =
      Some \<lparr>n_name = ''kserve'', n_kind = KindModule, n_runlevel = RL 20, n_enabled = True\<rparr>"
    "list_all (\<lambda>(k, b). Order (n_runlevel (hd b)) < Order (RL 20)) (ws_processed ?s)"
    "\<not> IsCleared (wp_version (demo_params False 0 [])) (Order (RL 20)) zero_tracker" by code_simp+
  then have "snd (snd ?g)"
    using runlevel_gate_follows_walk [OF demo_coherent demo_walk_eq g] by (auto simp: list_all_iff)
  then show ?thesis unfolding eq .
qed

end
