(* ===== verification/Registry_Common.thy ===== *)
theory Registry_Common
  imports Provision
begin

text \<open>
  What the component registry and the module registry have in common: the loop that builds the graph of
  the enabled entries in insertion order, and the loops that visit handlers and collect their errors.

  A \<open>multierror.Error\<close> is the list of the errors appended to it; \<open>multierror.Append\<close> drops a nil error
  and \<open>ErrorOrNil\<close> is nil exactly when the list is empty.
\<close>

section \<open>Visiting handlers\<close>

fun visit :: "('h \<Rightarrow> 's \<Rightarrow> go_error option \<times> 's) \<Rightarrow> 'h list \<Rightarrow> 's \<Rightarrow> go_error list \<times> 's" where
  "visit f [] s = ([], s)"
| "visit f (h # hs) s =
     (let (err, s1) = f h s; (errs, s2) = visit f hs s1
      in (case err of None \<Rightarrow> errs | Some e \<Rightarrow> e # errs, s2))"

lemma visit_append:
  "visit f (xs @ ys) s =
     (let (es, s1) = visit f xs s; (es', s2) = visit f ys s1 in (es @ es', s2))"
  by (induction xs arbitrary: s) (simp_all add: Let_def case_prod_beta split: option.splits)

lemma visit_no_error: "visit (\<lambda>h s. (None, g h s)) hs s = ([], foldl (\<lambda>s h. g h s) s hs)"
  by (induction hs arbitrary: s) simp_all

section \<open>The graph of the enabled entries\<close>

definition registry_wf :: "('e \<Rightarrow> string) \<Rightarrow> (string, 'e) gomap \<Rightarrow> string list \<Rightarrow> bool" where
  "registry_wf nm entries order \<longleftrightarrow>
     gomap_wf entries \<and> distinct order \<and> set order = fst ` set entries \<and> (\<forall>(k, e) \<in> set entries. nm e = k)"

definition enabled_list :: "('e \<Rightarrow> bool) \<Rightarrow> (string, 'e) gomap \<Rightarrow> string list \<Rightarrow> 'e list" where
  "enabled_list en entries order =
     List.map_filter (\<lambda>name. case map_of entries name of None \<Rightarrow> None | Some e \<Rightarrow> if en e then Some e else None) order"

definition graph_loop ::
  "('e \<Rightarrow> string) \<Rightarrow> ('e \<Rightarrow> bool) \<Rightarrow> (string, 'e) gomap \<Rightarrow> string list \<Rightarrow> 'e Graph" where
  "graph_loop nm en entries order =
     foldl (\<lambda>g name. case map_of entries name of None \<Rightarrow> g | Some e \<Rightarrow> if \<not> en e then g else graph_Add nm e g)
       NewGraph order"

lemma registry_wf_name:
  "registry_wf nm entries order \<Longrightarrow> map_of entries k = Some e \<Longrightarrow> nm e = k"
  by (auto simp: registry_wf_def dest!: map_of_SomeD)

lemma graph_loop_foldl:
  "foldl (\<lambda>g name. case map_of entries name of None \<Rightarrow> g | Some e \<Rightarrow> if \<not> en e then g else graph_Add nm e g) g order =
     foldl (\<lambda>g e. graph_Add nm e g) g (enabled_list en entries order)"
  by (induction order arbitrary: g)
    (auto simp: enabled_list_def List.map_filter_simps split: option.splits)

lemma enabled_list_names:
  assumes "registry_wf nm entries order"
  shows "distinct (map nm (enabled_list en entries names)) \<longleftrightarrow>
    distinct (filter (\<lambda>n. \<exists>e. map_of entries n = Some e \<and> en e) names)"
proof -
  have "map nm (enabled_list en entries names) = filter (\<lambda>n. \<exists>e. map_of entries n = Some e \<and> en e) names"
    using registry_wf_name [OF assms]
    by (induction names) (auto simp: enabled_list_def List.map_filter_simps split: option.splits)
  then show ?thesis by simp
qed

lemma graph_loop_list:
  assumes "registry_wf nm entries order"
  shows "graph_list (graph_loop nm en entries order) = enabled_list en entries order"
proof -
  have "distinct (map nm (enabled_list en entries order))"
    using assms by (simp add: enabled_list_names [OF assms]) (simp add: registry_wf_def)
  from foldl_graph_Add [OF this, of NewGraph] show ?thesis
    by (simp add: graph_loop_def graph_loop_foldl NewGraph_def comp_def)
qed

lemma set_enabled_list:
  assumes "registry_wf nm entries order"
  shows "set (enabled_list en entries order) = {e. \<exists>k. (k, e) \<in> set entries \<and> en e}"
proof -
  have "e \<in> set (enabled_list en entries order) \<longleftrightarrow> (\<exists>k. map_of entries k = Some e \<and> en e)" for e
  proof
    assume "e \<in> set (enabled_list en entries order)"
    then show "\<exists>k. map_of entries k = Some e \<and> en e"
      by (auto simp: enabled_list_def List.map_filter_def split: option.splits if_splits)
  next
    assume "\<exists>k. map_of entries k = Some e \<and> en e"
    then obtain k where k: "map_of entries k = Some e" "en e" by blast
    from map_of_SomeD [OF k(1)] have "k \<in> fst ` set entries" by force
    then have "k \<in> set order" using assms by (simp add: registry_wf_def)
    with k show "e \<in> set (enabled_list en entries order)"
      by (force simp: enabled_list_def List.map_filter_def)
  qed
  moreover have "map_of entries k = Some e \<longleftrightarrow> (k, e) \<in> set entries" for k e
    using assms by (simp add: registry_wf_def gomap_wf_def)
  ultimately show ?thesis by auto
qed

lemma registry_wf_add:
  assumes "registry_wf nm entries order" and "nm e = k"
  shows "registry_wf nm (AList.update k e entries) (if map_of entries k = None then order @ [k] else order)"
  using assms by (auto simp: registry_wf_def dom_update map_of_eq_None_iff dest!: subsetD [OF set_update_subset])

lemma registry_wf_update:
  assumes "registry_wf nm entries order" and "map_of entries k \<noteq> None" and "nm e = k"
  shows "registry_wf nm (AList.update k e entries) order"
  using registry_wf_add [OF assms(1,3)] assms(2) by simp

end
