(* ===== verification/Component_Registry.thy ===== *)
theory Component_Registry
  imports Registry_Common
begin

text \<open>
  \<open>internal/controller/components/registry\<close>: the registry of the in-tree components and the readiness
  checker the DAG walk uses for them.

  Every mutator also drops the cache of the unified registry (\<open>provision.InvalidateCache\<close>), so the state
  is the registry together with the unified registry. Of a handler the registry uses the name, the
  GVK and the predicate that decides from the DataScienceCluster (\<open>'d\<close>) whether it is enabled.
\<close>

section \<open>The registry\<close>

record 'd ComponentHandler =
  ch_GetName :: string
  ch_GroupVersionKind :: GVK
  ch_IsEnabled :: "'d \<Rightarrow> bool"

record 'd HandlerEntry =
  he_handler :: "'d ComponentHandler"
  he_enabled :: bool
  he_runlevel :: Runlevel

record 'd comp_registry =
  c_entries :: "(string, 'd HandlerEntry) gomap"
  c_order :: "string list"
  c_resolvedCache :: "'d HandlerEntry list list"

text \<open>The fields of \<open>HandlerEntry\<close> are not exported, so \<open>WithRunlevel\<close> is the only registration option.\<close>

datatype comp_option = comp_WithRunlevel Runlevel

fun apply_comp_option :: "comp_option \<Rightarrow> 'd HandlerEntry \<Rightarrow> 'd HandlerEntry" where
  "apply_comp_option (comp_WithRunlevel level) e = e\<lparr>he_runlevel := level\<rparr>"

definition he_name :: "'d HandlerEntry \<Rightarrow> string" where
  "he_name e = ch_GetName (he_handler e)"

type_synonym 'd comp_state = "'d comp_registry \<times> UnifiedRegistry"

definition empty_comp_registry :: "'d comp_registry" where
  "empty_comp_registry = \<lparr>c_entries = [], c_order = [], c_resolvedCache = []\<rparr>"

definition comp_Add :: "'d ComponentHandler \<Rightarrow> comp_option list \<Rightarrow> 'd comp_state \<Rightarrow> 'd comp_state" where
  "comp_Add ch opts st =
     (let (r, u) = st;
          name = ch_GetName ch;
          e = foldl (\<lambda>e opt. apply_comp_option opt e)
                \<lparr>he_handler = ch, he_enabled = True, he_runlevel = RL 99\<rparr> opts
      in (r\<lparr>c_order := (if map_of (c_entries r) name = None then c_order r @ [name] else c_order r),
            c_entries := AList.update name e (c_entries r),
            c_resolvedCache := []\<rparr>,
          InvalidateCache u))"

definition comp_setEnabledLocked :: "string \<Rightarrow> bool \<Rightarrow> 'd comp_state \<Rightarrow> 'd comp_state" where
  "comp_setEnabledLocked name enabled st =
     (let (r, u) = st in
      case map_of (c_entries r) name of
        Some e \<Rightarrow>
          (r\<lparr>c_entries := AList.update name (e\<lparr>he_enabled := enabled\<rparr>) (c_entries r), c_resolvedCache := []\<rparr>,
           InvalidateCache u)
      | None \<Rightarrow> (r, u))"

definition comp_Enable :: "string \<Rightarrow> 'd comp_state \<Rightarrow> 'd comp_state" where
  "comp_Enable name st = comp_setEnabledLocked name True st"

definition comp_Disable :: "string \<Rightarrow> 'd comp_state \<Rightarrow> 'd comp_state" where
  "comp_Disable name st = comp_setEnabledLocked name False st"

definition comp_IsEnabled :: "string \<Rightarrow> 'd comp_registry \<Rightarrow> bool" where
  "comp_IsEnabled name r = (case map_of (c_entries r) name of None \<Rightarrow> False | Some e \<Rightarrow> he_enabled e)"

definition comp_sortedNames :: "'d comp_registry \<Rightarrow> string list" where
  "comp_sortedNames r = sort (map fst (c_entries r))"

definition comp_graph :: "'d comp_registry \<Rightarrow> 'd HandlerEntry Graph" where
  "comp_graph r =
     foldl (\<lambda>g name.
         case map_of (c_entries r) name of
           None \<Rightarrow> g
         | Some e \<Rightarrow> if \<not> he_enabled e then g else graph_Add he_name e g)
       NewGraph (c_order r)"

definition comp_resolvedBatchesLocked ::
  "'d comp_registry \<Rightarrow> (go_error + 'd HandlerEntry list list) \<times> 'd comp_registry" where
  "comp_resolvedBatchesLocked r =
     (if c_resolvedCache r \<noteq> [] then (Inr (c_resolvedCache r), r)
      else case Resolve he_name he_runlevel (comp_graph r) of
        Inl err \<Rightarrow> (Inl err, r)
      | Inr batches \<Rightarrow> (Inr batches, r\<lparr>c_resolvedCache := batches\<rparr>))"

definition comp_ResolvedBatches ::
  "'d comp_state \<Rightarrow> (go_error + 'd HandlerEntry list list) \<times> 'd comp_state" where
  "comp_ResolvedBatches st =
     (let (r, u) = st in
      if c_resolvedCache r \<noteq> [] then (Inr (c_resolvedCache r), (r, u))
      else let (res, r') = comp_resolvedBatchesLocked r in (res, (r', u)))"

definition comp_ReverseBatches :: "'d comp_registry \<Rightarrow> go_error + 'd HandlerEntry list list" where
  "comp_ReverseBatches r = ReverseBatches he_name he_runlevel (comp_graph r)"

text \<open>
  \<open>ForEach\<close> takes the resolver as an argument: the Go variable \<open>resolveBatches\<close> holds it, and its value
  is \<open>resolvedBatchesLocked\<close> outside the tests of the fallback.
\<close>

definition comp_ForEach ::
  "('d comp_registry \<Rightarrow> (go_error + 'd HandlerEntry list list) \<times> 'd comp_registry) \<Rightarrow>
     ('d ComponentHandler \<Rightarrow> 's \<Rightarrow> go_error option \<times> 's) \<Rightarrow> 'd comp_registry \<Rightarrow> 's \<Rightarrow>
     go_error list \<times> 's \<times> 'd comp_registry" where
  "comp_ForEach resolveBatches f r s =
     (case resolveBatches r of
        (Inl resolveErr, r') \<Rightarrow>
          let hs = List.map_filter (\<lambda>name. case map_of (c_entries r') name of
                     None \<Rightarrow> None | Some e \<Rightarrow> if he_enabled e then Some (he_handler e) else None)
                   (comp_sortedNames r');
              (errs, s') = visit f hs s
          in (errs, s', r')
      | (Inr batches, r') \<Rightarrow>
          let (errs, s') = visit (\<lambda>e. f (he_handler e)) (concat batches) s in (errs, s', r'))"

definition comp_ForAll ::
  "('d ComponentHandler \<Rightarrow> bool \<Rightarrow> 's \<Rightarrow> go_error option \<times> 's) \<Rightarrow> 'd comp_registry \<Rightarrow> 's \<Rightarrow>
     go_error list \<times> 's" where
  "comp_ForAll f r s =
     visit (\<lambda>e. f (he_handler e) (he_enabled e))
       (List.map_filter (map_of (c_entries r)) (comp_sortedNames r)) s"

definition comp_Lookup :: "string \<Rightarrow> 'd comp_registry \<Rightarrow> 'd ComponentHandler option" where
  "comp_Lookup name r = map_option he_handler (map_of (c_entries r) name)"

definition AnyComponentEnabled :: "'d comp_registry \<Rightarrow> 'd \<Rightarrow> bool" where
  "AnyComponentEnabled r dsc \<longleftrightarrow>
     list_ex (\<lambda>(name, e). he_enabled e \<and> ch_IsEnabled (he_handler e) dsc) (c_entries r)"

definition IsComponentEnabled :: "string \<Rightarrow> 'd comp_registry \<Rightarrow> 'd \<Rightarrow> bool" where
  "IsComponentEnabled componentName r dsc =
     (case map_of (c_entries r) componentName of
        None \<Rightarrow> False
      | Some e \<Rightarrow> he_enabled e \<and> ch_IsEnabled (he_handler e) dsc)"

definition comp_HasEntries :: "'d comp_registry \<Rightarrow> bool" where
  "comp_HasEntries r \<longleftrightarrow> c_entries r \<noteq> []"

lemmas comp_mutator_defs [registry_defs] =
  comp_Add_def comp_setEnabledLocked_def comp_Enable_def comp_Disable_def

section \<open>Readiness of components\<close>

text \<open>
  The cluster: \<open>list\<close> is the client's list of the CRs of a kind, and \<open>ux\<close> the accessors of unstructured
  objects.
\<close>

fun release_loop :: "('o, 'e) accessor \<Rightarrow> 'e list \<Rightarrow> string" where
  "release_loop ux [] = ''''"
| "release_loop ux (item # items) =
     (case ux_fields ux item of
        None \<Rightarrow> release_loop ux items
      | Some entry \<Rightarrow>
          if entry ''name'' = ''platform'' then entry ''version'' else release_loop ux items)"

definition extractPlatformReleaseVersion :: "('o, 'e) accessor \<Rightarrow> 'o \<Rightarrow> string" where
  "extractPlatformReleaseVersion ux obj =
     (case ux_slice ux obj [''status'', ''releases''] of
        Inr (Some releases) \<Rightarrow> release_loop ux releases
      | _ \<Rightarrow> '''')"

fun ready_loop :: "('o, 'e) accessor \<Rightarrow> 'e list \<Rightarrow> bool" where
  "ready_loop ux [] = False"
| "ready_loop ux (c # cs) =
     (case ux_fields ux c of
        None \<Rightarrow> ready_loop ux cs
      | Some m \<Rightarrow> if m ''type'' = ''Ready'' \<and> m ''status'' = ConditionTrue then True else ready_loop ux cs)"

definition isUnstructuredReady :: "('o, 'e) accessor \<Rightarrow> 'o \<Rightarrow> bool" where
  "isUnstructuredReady ux obj =
     (case ux_slice ux obj [''status'', ''conditions''] of
        Inr (Some conditions) \<Rightarrow> ready_loop ux conditions
      | _ \<Rightarrow> False)"

record ('d, 'o, 'e) ComponentReadinessChecker =
  crc_registry :: "'d comp_registry"
  crc_list :: "GVK \<Rightarrow> api_failure + 'o list"
  crc_access :: "('o, 'e) accessor"
  crc_targetVersion :: string

definition component_IsReady :: "('d, 'o, 'e) ComponentReadinessChecker \<Rightarrow> readiness_checker" where
  "component_IsReady c name =
     (case comp_Lookup name (crc_registry c) of
        None \<Rightarrow>
          (False, Some (GoError (''component '' @ quoted name @ '': unknown node'') [ErrUnknownNode]))
      | Some handler \<Rightarrow>
          (case crc_list c (ch_GroupVersionKind handler) of
             Inl f \<Rightarrow>
               if err_is NotFound (api_error f) then (True, None)
               else (False, Some (wrap (''component '' @ quoted name @ '': failed to list CRs'') (api_error f)))
           | Inr [] \<Rightarrow> (True, None)
           | Inr (obj # objs) \<Rightarrow>
               if crc_targetVersion c \<noteq> '''' then
                 let rv = extractPlatformReleaseVersion (crc_access c) obj
                 in (rv = '''' \<or> rv = crc_targetVersion c, None)
               else (isUnstructuredReady (crc_access c) obj, None)))"

section \<open>The registry keeps the contracts\<close>

definition comp_wf :: "'d comp_registry \<Rightarrow> bool" where
  "comp_wf r \<longleftrightarrow> registry_wf he_name (c_entries r) (c_order r)"

definition comp_fresh :: "'d comp_state \<Rightarrow> 'd HandlerEntry list list" where
  "comp_fresh st = runlevel_batches he_name he_runlevel (graph_list (comp_graph (fst st)))"

definition comp_enabled :: "'d comp_registry \<Rightarrow> 'd HandlerEntry list" where
  "comp_enabled r = enabled_list he_enabled (c_entries r) (c_order r)"

lemma comp_graph_loop: "comp_graph r = graph_loop he_name he_enabled (c_entries r) (c_order r)"
  by (simp add: comp_graph_def graph_loop_def)

lemma comp_graph_cache [simp]: "comp_graph (r\<lparr>c_resolvedCache := c\<rparr>) = comp_graph r"
  by (simp add: comp_graph_def)

lemma comp_fresh_spec:
  "comp_wf r \<Longrightarrow> comp_fresh (r, u) = runlevel_batches he_name he_runlevel (comp_enabled r)"
  by (simp add: comp_fresh_def comp_graph_loop comp_enabled_def comp_wf_def graph_loop_list)

lemma comp_option_handler [simp]: "he_handler (apply_comp_option opt e) = he_handler e"
  by (cases opt) simp

lemma foldl_comp_option_handler:
  "he_handler (foldl (\<lambda>e opt. apply_comp_option opt e) e opts) = he_handler e"
  by (induction opts arbitrary: e) simp_all

lemma comp_wf_empty [simp]: "comp_wf empty_comp_registry"
  by (simp add: comp_wf_def registry_wf_def empty_comp_registry_def)

lemma comp_wf_Add: "comp_wf (fst st) \<Longrightarrow> comp_wf (fst (comp_Add ch opts st))"
  unfolding comp_wf_def comp_Add_def
  by (cases st) (simp add: Let_def registry_wf_add foldl_comp_option_handler he_name_def)

lemma comp_wf_setEnabledLocked:
  assumes "comp_wf (fst st)"
  shows "comp_wf (fst (comp_setEnabledLocked name b st))"
proof (cases "map_of (c_entries (fst st)) name")
  case None
  with assms show ?thesis by (simp add: comp_setEnabledLocked_def case_prod_beta)
next
  case (Some e)
  note wf = assms [unfolded comp_wf_def]
  from registry_wf_name [OF wf Some] have "he_name (e\<lparr>he_enabled := b\<rparr>) = name" by (simp add: he_name_def)
  from registry_wf_update [OF wf _ this] Some show ?thesis
    by (simp add: comp_wf_def comp_setEnabledLocked_def case_prod_beta)
qed

interpretation comp: batch_registry "\<lambda>st. c_resolvedCache (fst st)" comp_fresh comp_ResolvedBatches
  "\<lambda>(ch, opts). comp_Add ch opts" comp_setEnabledLocked
  by unfold_locales
    (auto simp: comp_ResolvedBatches_def comp_resolvedBatchesLocked_def comp_fresh_def
      Resolve_runlevel_batches registry_defs Let_def split: option.splits prod.splits)

abbreviation comp_coherent :: "'d comp_state \<Rightarrow> bool" where
  "comp_coherent \<equiv> coherent (\<lambda>st. c_resolvedCache (fst st)) comp_fresh"

lemma comp_names: "comp_Lookup name r = None \<longleftrightarrow> name \<notin> fst ` set (c_entries r)"
  by (simp add: comp_Lookup_def map_of_eq_None_iff)

interpretation comp_ready: readiness "component_IsReady c" "fst ` set (c_entries (crc_registry c))" for c
proof unfold_locales
  fix n
  show "(\<exists>e. snd (component_IsReady c n) = Some e \<and> err_is ErrUnknownNode e) \<longleftrightarrow>
      n \<notin> fst ` set (c_entries (crc_registry c))"
    unfolding comp_names [symmetric]
    by (auto simp: component_IsReady_def Let_def split: option.splits sum.splits list.splits)
next
  fix n e
  assume "snd (component_IsReady c n) = Some e"
  then show "\<not> fst (component_IsReady c n)"
    by (auto simp: component_IsReady_def Let_def split: option.splits sum.splits list.splits if_splits)
qed

section \<open>Properties\<close>

lemma visit_map: "visit (\<lambda>e. f (g e)) es s = visit f (map g es) s"
  by (induction es arbitrary: s) (simp_all add: Let_def)

lemma set_sortedNames: "set (comp_sortedNames r) = fst ` set (c_entries r)"
  by (simp add: comp_sortedNames_def)

lemma enabled_list_perm:
  assumes "mset ns = mset ns'"
  shows "mset (enabled_list en entries ns) = mset (enabled_list en entries ns')"
  using assms by (simp add: enabled_list_def List.map_filter_def)

text \<open>
  Iteration over the components. \<open>ForEach\<close> applies its function exactly once to the handler of each
  enabled entry and to no other, collecting the errors in the order of the calls; the handlers come by
  runlevel and name, and when the resolver fails by name alone.
\<close>

theorem component_for_each_visits_enabled:
  assumes "comp_wf r" and "comp_coherent (r, u)"
    and "resolver = comp_resolvedBatchesLocked \<or> (\<exists>err. resolver = (\<lambda>r. (Inl err, r)))"
    and "comp_ForEach resolver f r s = (errs, s', r')"
  shows "\<exists>es. (errs, s') = visit f (map he_handler es) s \<and> mset es = mset (comp_enabled r) \<and>
    (if resolver r = (Inr (comp_fresh (r, u)), snd (resolver r)) then es = concat (comp_fresh (r, u))
     else sorted (map he_name es))"
  using assms(3)
proof
  assume res: "resolver = comp_resolvedBatchesLocked"
  have "fst (comp_resolvedBatchesLocked r) = Inr (comp_fresh (r, u))"
    using assms(2) by (auto simp: comp_resolvedBatchesLocked_def coherent_def comp_fresh_def Resolve_runlevel_batches)
  then have eq: "resolver r = (Inr (comp_fresh (r, u)), snd (resolver r))"
    by (simp add: res prod_eq_iff)
  then have "(errs, s') = visit f (map he_handler (concat (comp_fresh (r, u)))) s"
    using assms(4) by (cases "resolver r") (auto simp: comp_ForEach_def visit_map split: prod.splits)
  moreover have "mset (concat (comp_fresh (r, u))) = mset (comp_enabled r)"
    using runlevel_batches_ok [of he_name he_runlevel "comp_enabled r"]
    by (simp add: comp_fresh_spec [OF assms(1)] batches_ok_def)
  ultimately show ?thesis using eq by auto
next
  assume "\<exists>err. resolver = (\<lambda>r. (Inl err, r))"
  then obtain err where res: "resolver = (\<lambda>r. (Inl err, r))" by blast
  let ?es = "enabled_list he_enabled (c_entries r) (comp_sortedNames r)"
  note wf = assms(1) [unfolded comp_wf_def]
  have "List.map_filter (\<lambda>name. case map_of (c_entries r) name of
      None \<Rightarrow> None | Some e \<Rightarrow> if he_enabled e then Some (he_handler e) else None) ns =
      map he_handler (enabled_list he_enabled (c_entries r) ns)" for ns
    by (induction ns) (auto simp: enabled_list_def List.map_filter_simps split: option.splits)
  then have "(errs, s') = visit f (map he_handler ?es) s"
    using assms(4) by (auto simp: comp_ForEach_def res Let_def split: prod.splits)
  moreover have "mset (comp_sortedNames r) = mset (c_order r)"
  proof -
    have "distinct (map fst (c_entries r))" "distinct (c_order r)" "set (c_order r) = set (map fst (c_entries r))"
      using wf by (simp_all add: registry_wf_def gomap_wf_def)
    then have "mset (map fst (c_entries r)) = mset (c_order r)" by (metis set_eq_iff_mset_eq_distinct)
    then show ?thesis by (simp add: comp_sortedNames_def)
  qed
  then have "mset ?es = mset (comp_enabled r)" unfolding comp_enabled_def by (rule enabled_list_perm)
  moreover have "map he_name (enabled_list he_enabled (c_entries r) ns) =
      filter (\<lambda>n. \<exists>e. map_of (c_entries r) n = Some e \<and> he_enabled e) ns" for ns
    using registry_wf_name [OF wf]
    by (induction ns) (auto simp: enabled_list_def List.map_filter_simps split: option.splits)
  then have "sorted (map he_name ?es)" by (simp add: comp_sortedNames_def sorted_filter [of id, simplified])
  ultimately show ?thesis by (auto simp: res)
qed

definition demo_component :: "string \<Rightarrow> unit ComponentHandler" where
  "demo_component name =
     \<lparr>ch_GetName = name, ch_GroupVersionKind = \<lparr>gvk_Group = ''g'', gvk_Version = ''v1'', gvk_Kind = name\<rparr>,
      ch_IsEnabled = (\<lambda>_. True)\<rparr>"

definition demo_comp :: "unit comp_state" where
  "demo_comp =
     comp_Disable ''ray'' (comp_Add (demo_component ''ray'') []
       (comp_Add (demo_component ''kserve'') [comp_WithRunlevel (RL 20)]
         (comp_Add (demo_component ''kueue'') [comp_WithRunlevel (RL 10)] (empty_comp_registry, NewRegistry))))"

lemma demo_comp_wf: "comp_wf (fst demo_comp)"
  by (simp add: demo_comp_def comp_Disable_def comp_wf_setEnabledLocked comp_wf_Add)

lemma demo_comp_coherent: "comp_coherent demo_comp"
proof -
  have "comp_coherent (empty_comp_registry :: unit comp_registry, NewRegistry)"
    by (simp add: coherent_def empty_comp_registry_def)
  from comp.coherent_run [OF this, of "[OpAdd (demo_component ''kueue'', [comp_WithRunlevel (RL 10)]),
      OpAdd (demo_component ''kserve'', [comp_WithRunlevel (RL 20)]), OpAdd (demo_component ''ray'', []),
      OpSetEnabled ''ray'' False]"]
  show ?thesis by (simp add: demo_comp_def comp_Disable_def)
qed

theorem component_for_each_visits_enabled_witness:
  "fst (snd (comp_ForEach comp_resolvedBatchesLocked (\<lambda>h s. (None, s @ [ch_GetName h])) (fst demo_comp) [])) =
     [''kueue'', ''kserve'']"
proof -
  let ?f = "\<lambda>(h :: unit ComponentHandler) s. (None, s @ [ch_GetName h])"
  let ?w = "comp_ForEach comp_resolvedBatchesLocked ?f (fst demo_comp) []"
  have eq: "?w = (fst ?w, fst (snd ?w), snd (snd ?w))" by simp
  have co: "comp_coherent (fst demo_comp, snd demo_comp)" using demo_comp_coherent by simp
  have res: "comp_resolvedBatchesLocked (fst demo_comp) =
      (Inr (comp_fresh (fst demo_comp, snd demo_comp)), snd (comp_resolvedBatchesLocked (fst demo_comp)))"
    by code_simp
  have "(fst ?w, fst (snd ?w)) = visit ?f (map he_handler (concat (comp_fresh (fst demo_comp, snd demo_comp)))) []"
    using component_for_each_visits_enabled [OF demo_comp_wf co disjI1 [OF refl] eq]
    unfolding if_P [OF res] by blast
  then have "fst (snd ?w) = snd (visit ?f (map he_handler (concat (comp_fresh (fst demo_comp, snd demo_comp)))) [])"
    by (metis snd_conv)
  also have "\<dots> = [''kueue'', ''kserve'']" by code_simp
  finally show ?thesis .
qed

end
