(* ===== verification/Module_Types.thy ===== *)
theory Module_Types
  imports Registry_Common
begin

text \<open>
  \<open>internal/controller/modules/types.go\<close> and the data of \<open>pkg/controller/types/types.go\<close>: what a module
  handler offers, and the records the module controller passes around.

  A handler is a record of its methods. A method that talks to the cluster takes the number of the
  observation, so that two calls may see different clusters; its errors are failures of the API
  client (or of reading the object, class \<open>ApiOther\<close>). The optional interfaces a handler may implement
  (\<open>ContainerNamer\<close>, \<open>ReadyConditionTyper\<close>, ...) are fields of option type. \<open>'m\<close> stands for the
  \<open>PlatformModules\<close> struct and \<open>'x\<close> for the \<open>DSCContext\<close>. A method that writes the status of the
  DataScienceCluster takes the context that holds it and returns it updated (or the panic of a
  reflective write).
\<close>

section \<open>Status of a module\<close>

datatype CRState = CRStateAbsent | CRStateAlive | CRStateDeleting

record ComponentRelease =
  rel_Name :: string
  rel_Version :: string
  rel_RepoURL :: string

record ModuleStatus =
  ms_Conditions :: "condition list"
  ms_ObservedGeneration :: int
  ms_Generation :: int
  ms_ReleaseVersion :: string
  ms_Releases :: "ComponentRelease list"

section \<open>The DataScienceCluster\<close>

text \<open>
  \<open>dsc.Status.Components\<close> is accessed by reflection: a named field may be absent, its \<open>ManagementState\<close>
  may be absent, a string or of another kind, and it may embed a pointer to a struct with \<open>Releases\<close>
  that is nil or set. \<open>'s\<close> stands for the spec of the DataScienceCluster, \<open>'i\<close> for the part of the
  DSCInitialization's spec that only handlers read.
\<close>

datatype state_field = NoStateField | StateString string | StateOtherKind

datatype releases_field = NoReleasesField | NilReleases | Releases "ComponentRelease list"

record component_field =
  cf_ManagementState :: state_field
  cf_Releases :: releases_field

type_synonym components_status = "(string, component_field) gomap"

record 's DataScienceCluster =
  dsc_Spec :: 's
  dsc_Components :: components_status

record 'i DSCInitialization =
  di_ApplicationsNamespace :: string
  di_MonitoringNamespace :: string
  di_Spec :: 'i

record ('s, 'i) DSCContext =
  dx_DSC :: "'s DataScienceCluster option"
  dx_DSCI :: "'i DSCInitialization option"

record 'x SubmoduleCondition =
  sm_SourceConditionType :: string
  sm_DSCConditionType :: string
  sm_StatusFieldName :: string
  sm_IsEnabled :: "('x \<Rightarrow> bool) option"

section \<open>Manifests and the platform\<close>

text \<open>A Helm value: the code only ever sets strings, other values come from the configuration.\<close>

datatype helm_value = HString string | HOther string

record HelmChartInfo =
  hc_Chart :: string
  hc_ReleaseName :: string
  hc_ReleaseNamespace :: string
  hc_Values :: "(string, helm_value) gomap"

record ManifestInfo =
  mi_Path :: string
  mi_ContextDir :: string
  mi_SourcePath :: string
  mi_Namespace :: string

record OperatorManifests =
  om_HelmCharts :: "HelmChartInfo list"
  om_Manifests :: "ManifestInfo list"

record 'm PlatformContext =
  px_ApplicationsNamespace :: string
  px_MonitoringNamespace :: string
  px_OTelOperatorNamespace :: string
  px_ReleaseName :: string
  px_ReleaseVersion :: string
  px_Modules :: 'm
  px_ChartsBasePath :: string
  px_ManifestsBasePath :: string

section \<open>Environment injection\<close>

record ModuleImages =
  im_DeploymentName :: string
  im_ContainerName :: string
  im_ControllerImage :: string
  im_InitContainerName :: string
  im_Images :: "string list"
  im_ExtraEnv :: "(string, string) gomap"

record ModuleEnvInjection =
  mei_PerModuleImages :: "ModuleImages list"
  mei_ApplicationsNamespace :: string
  mei_MonitoringNamespace :: string
  mei_PlatformType :: string

section \<open>Handlers and registration\<close>

record ('m, 'x) ModuleHandler =
  mh_GetName :: string
  mh_IsEnabled :: "'m \<Rightarrow> bool"
  mh_GetGVK :: GVK
  mh_GetOperatorManifests :: "'m PlatformContext \<Rightarrow> OperatorManifests"
  mh_PopulatePlatformModule :: "'x \<Rightarrow> 'm \<Rightarrow> 'm"
  mh_GetRelatedImages :: "string list"
  mh_GetModuleStatus :: "nat \<Rightarrow> api_failure + ModuleStatus"
  mh_GetModuleCRState :: "nat \<Rightarrow> CRState \<times> api_failure option"
  mh_DeleteModuleCR :: "nat \<Rightarrow> go_error option"
  mh_DeleteOperatorResources :: "nat \<Rightarrow> 'm PlatformContext \<Rightarrow> go_error option"
  mh_WriteDSCComponentStatus :: "'x \<Rightarrow> bool \<Rightarrow> ComponentRelease list \<Rightarrow> go_error + 'x"
  mh_WriteLegacyStatusFields :: "('x \<Rightarrow> bool \<Rightarrow> go_error option \<times> 'x) option"
  mh_ReadyConditionType :: "string option"
  mh_ContainerName :: "string option"
  mh_ControllerImage :: "string option"
  mh_InitContainerName :: "string option"
  mh_DeploymentName :: "string option"
  mh_SubmoduleConditions :: "'x SubmoduleCondition list option"
  mh_ExtraEnv :: "(string, string) gomap option"

datatype ConfigSource = ConfigFromDSC | ConfigFromDSCI

record ('m, 'x) registryEntry =
  re_handler :: "('m, 'x) ModuleHandler"
  re_enabled :: bool
  re_runlevel :: Runlevel
  re_configSource :: ConfigSource

text \<open>The fields of \<open>registryEntry\<close> are not exported: these are all the registration options there are.\<close>

datatype mod_option = mod_WithRunlevel Runlevel | mod_WithConfigSource ConfigSource

fun apply_mod_option :: "mod_option \<Rightarrow> ('m, 'x) registryEntry \<Rightarrow> ('m, 'x) registryEntry" where
  "apply_mod_option (mod_WithRunlevel level) e = e\<lparr>re_runlevel := level\<rparr>"
| "apply_mod_option (mod_WithConfigSource source) e = e\<lparr>re_configSource := source\<rparr>"

lemma mod_option_handler [simp]: "re_handler (apply_mod_option opt e) = re_handler e"
  by (cases opt) simp_all

end
