(* ===== verification/Module_Registry.thy ===== *)
theory Module_Registry
  imports Module_Types
begin

text \<open>
  \<open>internal/controller/modules/registry.go\<close> and \<open>readiness.go\<close>: the registry of modules and the readiness
  checker the DAG walk uses for them. As for components, the mutators also drop the cache of the
  unified registry, so the state is the pair of both registries.
\<close>

section \<open>The registry\<close>

record ('m, 'x) mod_registry =
  m_entries :: "(string, ('m, 'x) registryEntry) gomap"
  m_order :: "string list"
  m_resolvedCache :: "('m, 'x) registryEntry list list"

type_synonym ('m, 'x) mod_state = "('m, 'x) mod_registry \<times> UnifiedRegistry"

definition re_name :: "('m, 'x) registryEntry \<Rightarrow> string" where
  "re_name e = mh_GetName (re_handler e)"

definition empty_mod_registry :: "('m, 'x) mod_registry" where
  "empty_mod_registry = \<lparr>m_entries = [], m_order = [], m_resolvedCache = []\<rparr>"

definition mod_Add :: "('m, 'x) ModuleHandler \<Rightarrow> mod_option list \<Rightarrow> ('m, 'x) mod_state \<Rightarrow> ('m, 'x) mod_state" where
  "mod_Add handler opts st =
     (let (r, u) = st;
          name = mh_GetName handler;
          e = foldl (\<lambda>e opt. apply_mod_option opt e)
                \<lparr>re_handler = handler, re_enabled = True, re_runlevel = RL 99, re_configSource = ConfigFromDSC\<rparr> opts
      in (r\<lparr>m_order := (if map_of (m_entries r) name = None then m_order r @ [name] else m_order r),
            m_entries := AList.update name e (m_entries r),
            m_resolvedCache := []\<rparr>,
          InvalidateCache u))"

definition mod_setEnabledLocked :: "string \<Rightarrow> bool \<Rightarrow> ('m, 'x) mod_state \<Rightarrow> ('m, 'x) mod_state" where
  "mod_setEnabledLocked name enabled st =
     (let (r, u) = st in
      case map_of (m_entries r) name of
        Some e \<Rightarrow>
          (r\<lparr>m_entries := AList.update name (e\<lparr>re_enabled := enabled\<rparr>) (m_entries r), m_resolvedCache := []\<rparr>,
           InvalidateCache u)
      | None \<Rightarrow> (r, u))"

definition mod_Enable :: "string \<Rightarrow> ('m, 'x) mod_state \<Rightarrow> ('m, 'x) mod_state" where
  "mod_Enable name st = mod_setEnabledLocked name True st"

definition mod_Disable :: "string \<Rightarrow> ('m, 'x) mod_state \<Rightarrow> ('m, 'x) mod_state" where
  "mod_Disable name st = mod_setEnabledLocked name False st"

definition mod_IsEnabled :: "string \<Rightarrow> ('m, 'x) mod_registry \<Rightarrow> bool" where
  "mod_IsEnabled name r = (case map_of (m_entries r) name of None \<Rightarrow> False | Some e \<Rightarrow> re_enabled e)"

definition mod_sortedNames :: "('m, 'x) mod_registry \<Rightarrow> string list" where
  "mod_sortedNames r = sort (map fst (m_entries r))"

text \<open>The entries the iterators visit, in the order of their names.\<close>

definition mod_sorted_entries :: "('m, 'x) mod_registry \<Rightarrow> ('m, 'x) registryEntry list" where
  "mod_sorted_entries r = List.map_filter (map_of (m_entries r)) (mod_sortedNames r)"

definition mod_ForEach ::
  "(('m, 'x) ModuleHandler \<Rightarrow> 's \<Rightarrow> go_error option \<times> 's) \<Rightarrow> ('m, 'x) mod_registry \<Rightarrow> 's \<Rightarrow> go_error list \<times> 's" where
  "mod_ForEach f r s = visit (\<lambda>e. f (re_handler e)) (filter re_enabled (mod_sorted_entries r)) s"

definition mod_ForEachEnabled ::
  "(('m, 'x) ModuleHandler \<Rightarrow> 's \<Rightarrow> 's) \<Rightarrow> ('m, 'x) mod_registry \<Rightarrow> 's \<Rightarrow> 's" where
  "mod_ForEachEnabled f r s = foldl (\<lambda>s e. f (re_handler e) s) s (filter re_enabled (mod_sorted_entries r))"

definition mod_ForAll ::
  "(('m, 'x) ModuleHandler \<Rightarrow> bool \<Rightarrow> 's \<Rightarrow> go_error option \<times> 's) \<Rightarrow> ('m, 'x) mod_registry \<Rightarrow> 's \<Rightarrow>
     go_error list \<times> 's" where
  "mod_ForAll f r s = visit (\<lambda>e. f (re_handler e) (re_enabled e)) (mod_sorted_entries r) s"

definition mod_ForConfigSource ::
  "ConfigSource \<Rightarrow> (('m, 'x) ModuleHandler \<Rightarrow> bool \<Rightarrow> 's \<Rightarrow> go_error option \<times> 's) \<Rightarrow> ('m, 'x) mod_registry \<Rightarrow> 's \<Rightarrow>
     go_error list \<times> 's" where
  "mod_ForConfigSource source f r s =
     visit (\<lambda>e. f (re_handler e) (re_enabled e))
       (filter (\<lambda>e. re_configSource e = source) (mod_sorted_entries r)) s"

definition IsModuleEnabled :: "string \<Rightarrow> ('m, 'x) mod_registry \<Rightarrow> 'm \<Rightarrow> bool" where
  "IsModuleEnabled moduleName r modules =
     (case map_of (m_entries r) moduleName of
        None \<Rightarrow> False
      | Some e \<Rightarrow> re_enabled e \<and> mh_IsEnabled (re_handler e) modules)"

definition mod_graph :: "('m, 'x) mod_registry \<Rightarrow> ('m, 'x) registryEntry Graph" where
  "mod_graph r =
     foldl (\<lambda>g name.
         case map_of (m_entries r) name of
           None \<Rightarrow> g
         | Some e \<Rightarrow> if \<not> re_enabled e then g else graph_Add re_name e g)
       NewGraph (m_order r)"

definition mod_ResolvedBatches ::
  "('m, 'x) mod_state \<Rightarrow> (go_error + ('m, 'x) registryEntry list list) \<times> ('m, 'x) mod_state" where
  "mod_ResolvedBatches st =
     (let (r, u) = st in
      if m_resolvedCache r \<noteq> [] then (Inr (m_resolvedCache r), (r, u))
      else
        case Resolve re_name re_runlevel (mod_graph r) of
          Inl err \<Rightarrow> (Inl err, (r, u))
        | Inr batches \<Rightarrow> (Inr batches, (r\<lparr>m_resolvedCache := batches\<rparr>, u)))"

definition mod_ReverseBatches :: "('m, 'x) mod_registry \<Rightarrow> go_error + ('m, 'x) registryEntry list list" where
  "mod_ReverseBatches r = ReverseBatches re_name re_runlevel (mod_graph r)"

definition mod_Lookup :: "string \<Rightarrow> ('m, 'x) mod_registry \<Rightarrow> ('m, 'x) ModuleHandler option" where
  "mod_Lookup name r = map_option re_handler (map_of (m_entries r) name)"

definition mod_HasEntries :: "('m, 'x) mod_registry \<Rightarrow> bool" where
  "mod_HasEntries r \<longleftrightarrow> m_entries r \<noteq> []"

definition AnyEnabled :: "('m, 'x) mod_registry \<Rightarrow> 'm \<Rightarrow> bool" where
  "AnyEnabled r modules \<longleftrightarrow>
     list_ex (\<lambda>(name, e). re_enabled e \<and> mh_IsEnabled (re_handler e) modules) (m_entries r)"

lemmas mod_mutator_defs [registry_defs] =
  mod_Add_def mod_setEnabledLocked_def mod_Enable_def mod_Disable_def

section \<open>Readiness of modules\<close>

text \<open>\<open>mrc_modules\<close> is a pointer that may be nil.\<close>

record ('m, 'x) ModuleReadinessChecker =
  mrc_registry :: "('m, 'x) mod_registry"
  mrc_platformVersion :: string
  mrc_modules :: "'m option"

definition mod_NewReadinessChecker ::
  "('m, 'x) mod_registry \<Rightarrow> string \<Rightarrow>
     (('m, 'x) ModuleReadinessChecker \<Rightarrow> ('m, 'x) ModuleReadinessChecker) list \<Rightarrow> ('m, 'x) ModuleReadinessChecker" where
  "mod_NewReadinessChecker reg platformVersion opts =
     foldl (\<lambda>m opt. opt m)
       \<lparr>mrc_registry = reg, mrc_platformVersion = platformVersion, mrc_modules = None\<rparr> opts"

definition WithPlatformModules :: "'m option \<Rightarrow> ('m, 'x) ModuleReadinessChecker \<Rightarrow> ('m, 'x) ModuleReadinessChecker" where
  "WithPlatformModules pm m = m\<lparr>mrc_modules := pm\<rparr>"

fun ready_condition :: "condition list \<Rightarrow> bool" where
  "ready_condition [] = False"
| "ready_condition (c # cs) = (if cType c = ''Ready'' then cStatus c = ConditionTrue else ready_condition cs)"

definition module_IsReady :: "('m, 'x) ModuleReadinessChecker \<Rightarrow> nat \<Rightarrow> readiness_checker" where
  "module_IsReady m k name =
     (case mod_Lookup name (mrc_registry m) of
        None \<Rightarrow> (False, Some (GoError (''module '' @ quoted name @ '': unknown node'') [ErrUnknownNode]))
      | Some handler \<Rightarrow>
          if \<not> mod_IsEnabled name (mrc_registry m) then (True, None)
          else if (case mrc_modules m of None \<Rightarrow> False | Some pm \<Rightarrow> \<not> mh_IsEnabled handler pm) then (True, None)
          else
            case mh_GetModuleStatus handler k of
              Inl f \<Rightarrow> (False, Some (api_error f))
            | Inr moduleStatus \<Rightarrow>
                if mrc_platformVersion m \<noteq> '''' then
                  let rv = ms_ReleaseVersion moduleStatus
                  in (rv = '''' \<or> rv = mrc_platformVersion m, None)
                else (ready_condition (ms_Conditions moduleStatus), None))"

section \<open>The registry keeps the contracts\<close>

definition mod_wf :: "('m, 'x) mod_registry \<Rightarrow> bool" where
  "mod_wf r \<longleftrightarrow> registry_wf re_name (m_entries r) (m_order r)"

definition mod_fresh :: "('m, 'x) mod_state \<Rightarrow> ('m, 'x) registryEntry list list" where
  "mod_fresh st = runlevel_batches re_name re_runlevel (graph_list (mod_graph (fst st)))"

lemma mod_graph_cache [simp]: "mod_graph (r\<lparr>m_resolvedCache := c\<rparr>) = mod_graph r"
  by (simp add: mod_graph_def)

lemma mod_graph_loop: "mod_graph r = graph_loop re_name re_enabled (m_entries r) (m_order r)"
  by (simp add: mod_graph_def graph_loop_def)

lemma foldl_mod_option_handler:
  "re_handler (foldl (\<lambda>e opt. apply_mod_option opt e) e opts) = re_handler e"
  by (induction opts arbitrary: e) simp_all

lemma mod_wf_empty [simp]: "mod_wf empty_mod_registry"
  by (simp add: mod_wf_def registry_wf_def empty_mod_registry_def)

lemma mod_wf_Add: "mod_wf (fst st) \<Longrightarrow> mod_wf (fst (mod_Add h opts st))"
  unfolding mod_wf_def mod_Add_def
  by (cases st) (simp add: Let_def registry_wf_add foldl_mod_option_handler re_name_def)

lemma mod_wf_setEnabledLocked:
  assumes "mod_wf (fst st)"
  shows "mod_wf (fst (mod_setEnabledLocked name b st))"
proof (cases "map_of (m_entries (fst st)) name")
  case None
  with assms show ?thesis by (simp add: mod_setEnabledLocked_def case_prod_beta)
next
  case (Some e)
  note wf = assms [unfolded mod_wf_def]
  from registry_wf_name [OF wf Some] have "re_name (e\<lparr>re_enabled := b\<rparr>) = name" by (simp add: re_name_def)
  from registry_wf_update [OF wf _ this] Some show ?thesis
    by (simp add: mod_wf_def mod_setEnabledLocked_def case_prod_beta)
qed

interpretation modules: batch_registry "\<lambda>st. m_resolvedCache (fst st)" mod_fresh mod_ResolvedBatches
  "\<lambda>(h, opts). mod_Add h opts" mod_setEnabledLocked
  by unfold_locales
    (auto simp: mod_ResolvedBatches_def mod_fresh_def Resolve_runlevel_batches registry_defs Let_def
      split: option.splits prod.splits)

lemma mod_names: "mod_Lookup name r = None \<longleftrightarrow> name \<notin> fst ` set (m_entries r)"
  by (simp add: mod_Lookup_def map_of_eq_None_iff)

interpretation mod_ready: readiness "module_IsReady m k" "fst ` set (m_entries (mrc_registry m))" for m k
proof unfold_locales
  fix n
  show "(\<exists>e. snd (module_IsReady m k n) = Some e \<and> err_is ErrUnknownNode e) \<longleftrightarrow>
      n \<notin> fst ` set (m_entries (mrc_registry m))"
    unfolding mod_names [symmetric]
    by (auto simp: module_IsReady_def Let_def split: option.splits sum.splits)
next
  fix n e
  assume "snd (module_IsReady m k n) = Some e"
  then show "\<not> fst (module_IsReady m k n)"
    by (auto simp: module_IsReady_def Let_def split: option.splits sum.splits if_splits)
qed

lemma mod_sorted_entries_set:
  assumes "mod_wf r"
  shows "set (mod_sorted_entries r) = snd ` set (m_entries r)" "distinct (map re_name (mod_sorted_entries r))"
    "map re_name (mod_sorted_entries r) = mod_sortedNames r"
proof -
  note wf = assms [unfolded mod_wf_def]
  have keys: "\<forall>n \<in> set (mod_sortedNames r). map_of (m_entries r) n \<noteq> None"
    by (simp add: mod_sortedNames_def map_of_eq_None_iff)
  have "map re_name (List.map_filter (map_of (m_entries r)) ns) = ns"
    if "\<forall>n \<in> set ns. map_of (m_entries r) n \<noteq> None" for ns
    using that registry_wf_name [OF wf] by (induction ns) (auto simp: List.map_filter_simps)
  with keys show names: "map re_name (mod_sorted_entries r) = mod_sortedNames r"
    unfolding mod_sorted_entries_def by blast
  then show "distinct (map re_name (mod_sorted_entries r))"
    using wf by (simp add: mod_sortedNames_def registry_wf_def gomap_wf_def)
  have "e \<in> set (mod_sorted_entries r) \<longleftrightarrow> e \<in> snd ` set (m_entries r)" for e
  proof -
    have "e \<in> set (mod_sorted_entries r) \<longleftrightarrow> (\<exists>n \<in> fst ` set (m_entries r). map_of (m_entries r) n = Some e)"
      unfolding mod_sorted_entries_def mod_sortedNames_def List.map_filter_def
      by (simp add: image_iff) (metis option.sel)
    also have "\<dots> \<longleftrightarrow> (\<exists>n. map_of (m_entries r) n = Some e)"
      by (metis domI dom_map_of_conv_image_fst)
    also have "\<dots> \<longleftrightarrow> (\<exists>n. (n, e) \<in> set (m_entries r))"
      using wf by (simp add: registry_wf_def gomap_wf_def)
    also have "\<dots> \<longleftrightarrow> e \<in> snd ` set (m_entries r)" by force
    finally show ?thesis .
  qed
  then show "set (mod_sorted_entries r) = snd ` set (m_entries r)" by blast
qed

lemma mod_Lookup_entry:
  assumes "mod_wf r"
  shows "mod_Lookup n r = Some h \<longleftrightarrow> (\<exists>e \<in> set (mod_sorted_entries r). re_handler e = h \<and> mh_GetName h = n)"
proof -
  note wf = assms [unfolded mod_wf_def]
  have m: "map_of (m_entries r) k = Some e \<longleftrightarrow> (k, e) \<in> set (m_entries r)" for k e
    using wf by (simp add: registry_wf_def gomap_wf_def)
  have nm: "mh_GetName (re_handler e) = k" if "(k, e) \<in> set (m_entries r)" for k e
    using registry_wf_name [OF wf] that m by (simp add: re_name_def)
  have "mod_Lookup n r = Some h \<longleftrightarrow> (\<exists>e. (n, e) \<in> set (m_entries r) \<and> re_handler e = h)"
    by (auto simp: mod_Lookup_def m)
  also have "\<dots> \<longleftrightarrow> (\<exists>e \<in> snd ` set (m_entries r). re_handler e = h \<and> mh_GetName h = n)"
    using nm by force
  finally show ?thesis by (simp only: mod_sorted_entries_set(1) [OF assms])
qed

end
