(* ===== verification/Startup.thy ===== *)
theory Startup
  imports Component_Registry Module_Registry Gating
begin

text \<open>
  \<open>registerComponents\<close> and \<open>registerModules\<close> of \<open>cmd/main.go\<close>: the population of the three registries at
  startup under the suppression flags; and the composite readiness checker over both registries
  (\<open>pkg/controller/provision/readiness.go\<close>).
\<close>

section \<open>Registration\<close>

record ('d, 'm, 'x) system =
  sys_comp :: "'d comp_registry"
  sys_mod :: "('m, 'x) mod_registry"
  sys_uni :: UnifiedRegistry

definition empty_system :: "('d, 'm, 'x) system" where
  "empty_system = \<lparr>sys_comp = empty_comp_registry, sys_mod = empty_mod_registry, sys_uni = NewRegistry\<rparr>"

definition register_component ::
  "(string \<Rightarrow> bool) \<Rightarrow> (string, Runlevel) gomap \<Rightarrow> string \<times> 'd ComponentHandler \<Rightarrow>
     ('d, 'm, 'x) system \<Rightarrow> ('d, 'm, 'x) system" where
  "register_component IsEnabled componentRunlevels nh s =
     (let (name, handler) = nh;
          rl = (case map_of componentRunlevels name of Some r \<Rightarrow> r | None \<Rightarrow> RL 99);
          (c, u) = comp_Add handler [comp_WithRunlevel rl] (sys_comp s, sys_uni s);
          u = unified_Add name KindComponent rl u
      in if \<not> IsEnabled name then
           let (c, u) = comp_Disable name (c, u) in s\<lparr>sys_comp := c, sys_uni := unified_Disable name u\<rparr>
         else s\<lparr>sys_comp := c, sys_uni := u\<rparr>)"

definition registerComponents ::
  "(string \<Rightarrow> bool) \<Rightarrow> (string, Runlevel) gomap \<Rightarrow> (string, 'd ComponentHandler) gomap \<Rightarrow>
     ('d, 'm, 'x) system \<Rightarrow> ('d, 'm, 'x) system" where
  "registerComponents IsEnabled componentRunlevels existingComponents s =
     foldl (\<lambda>s nh. register_component IsEnabled componentRunlevels nh s) s existingComponents"

record ('m, 'x) Registration =
  rg_Handler :: "('m, 'x) ModuleHandler"
  rg_Runlevel :: Runlevel
  rg_ConfigSource :: ConfigSource

definition register_module ::
  "(string \<Rightarrow> bool) \<Rightarrow> ('m, 'x) Registration \<Rightarrow> ('d, 'm, 'x) system \<Rightarrow> ('d, 'm, 'x) system" where
  "register_module IsEnabled registration s =
     (let name = mh_GetName (rg_Handler registration);
          opts = [mod_WithRunlevel (rg_Runlevel registration), mod_WithConfigSource (rg_ConfigSource registration)];
          (m, u) = mod_Add (rg_Handler registration) opts (sys_mod s, sys_uni s);
          u = unified_Add name KindModule (rg_Runlevel registration) u
      in if \<not> IsEnabled name then
           let (m, u) = mod_Disable name (m, u) in s\<lparr>sys_mod := m, sys_uni := unified_Disable name u\<rparr>
         else s\<lparr>sys_mod := m, sys_uni := u\<rparr>)"

definition registerModules ::
  "(string \<Rightarrow> bool) \<Rightarrow> ('m, 'x) Registration list \<Rightarrow> ('d, 'm, 'x) system \<Rightarrow> ('d, 'm, 'x) system" where
  "registerModules IsEnabled registrations s =
     foldl (\<lambda>s registration. register_module IsEnabled registration s) s registrations"

text \<open>\<open>flags.IsComponentEnabled\<close> and \<open>flags.IsModuleEnabled\<close>: \<open>GetBool\<close> is viper's lookup.\<close>

definition flags_IsComponentEnabled :: "(string \<Rightarrow> bool) \<Rightarrow> string \<Rightarrow> bool" where
  "flags_IsComponentEnabled GetBool name = (\<not> GetBool (''disable-'' @ name @ ''-component''))"

definition flags_IsModuleEnabled :: "(string \<Rightarrow> bool) \<Rightarrow> string \<Rightarrow> bool" where
  "flags_IsModuleEnabled GetBool name = (\<not> GetBool (''disable-'' @ name @ ''-module''))"

definition startup ::
  "(string \<Rightarrow> bool) \<Rightarrow> (string, Runlevel) gomap \<Rightarrow> (string, 'd ComponentHandler) gomap \<Rightarrow>
     ('m, 'x) Registration list \<Rightarrow> ('d, 'm, 'x) system" where
  "startup GetBool componentRunlevels existingComponents registrations =
     registerModules (flags_IsModuleEnabled GetBool) registrations
       (registerComponents (flags_IsComponentEnabled GetBool) componentRunlevels existingComponents empty_system)"

section \<open>The registries stay in step\<close>

text \<open>The unified node a name has according to the module registry and the component registry.\<close>

definition node_of :: "('d, 'm, 'x) system \<Rightarrow> string \<Rightarrow> UnifiedNode option" where
  "node_of s name =
     (case map_of (m_entries (sys_mod s)) name of
        Some e \<Rightarrow> Some \<lparr>n_name = name, n_kind = KindModule, n_runlevel = re_runlevel e, n_enabled = re_enabled e\<rparr>
      | None \<Rightarrow>
          map_option (\<lambda>e. \<lparr>n_name = name, n_kind = KindComponent, n_runlevel = he_runlevel e, n_enabled = he_enabled e\<rparr>)
            (map_of (c_entries (sys_comp s)) name))"

definition in_step :: "('d, 'm, 'x) system \<Rightarrow> bool" where
  "in_step s \<longleftrightarrow>
     (\<forall>name. map_of (u_nodes (sys_uni s)) name = node_of s name) \<and>
     unified_wf (sys_uni s) \<and> unified_coherent (sys_uni s) \<and>
     comp_wf (sys_comp s) \<and> c_resolvedCache (sys_comp s) = [] \<and>
     mod_wf (sys_mod s) \<and> m_resolvedCache (sys_mod s) = []"

lemma in_step_empty: "in_step empty_system"
  by (simp add: in_step_def empty_system_def node_of_def NewRegistry_def empty_comp_registry_def
      empty_mod_registry_def coherent_def unified_wf_def comp_wf_def mod_wf_def registry_wf_def)

lemma unified_wf_Invalidate [simp]: "unified_wf (InvalidateCache u) = unified_wf u"
  by (simp add: InvalidateCache_def)

lemma u_nodes_ops [simp]:
  "u_nodes (InvalidateCache u) = u_nodes u"
  "map_of (u_nodes (unified_Add nm kd rl u)) =
     (map_of (u_nodes u))(nm \<mapsto> \<lparr>n_name = nm, n_kind = kd, n_runlevel = rl, n_enabled = True\<rparr>)"
  by (simp_all add: InvalidateCache_def unified_Add_def Let_def go_map_simps)

lemma u_nodes_Disable:
  "map_of (u_nodes (unified_Disable nm u)) =
     (case map_of (u_nodes u) nm of None \<Rightarrow> map_of (u_nodes u)
      | Some n \<Rightarrow> (map_of (u_nodes u))(nm \<mapsto> n\<lparr>n_enabled := False\<rparr>))"
  by (simp add: unified_Disable_def unified_setEnabledLocked_def go_map_simps split: option.splits)

lemma cache_ops [simp]:
  "u_resolvedCache (unified_Add nm kd rl u) = []" "u_resolvedCache (InvalidateCache u) = []"
  by (simp_all add: unified_Add_def InvalidateCache_def Let_def)

lemma unified_Disable_cache: "u_resolvedCache u = [] \<Longrightarrow> u_resolvedCache (unified_Disable nm u) = []"
  by (simp add: unified_Disable_def unified_setEnabledLocked_def split: option.splits)

lemma unified_wf_Disable [simp]: "unified_wf u \<Longrightarrow> unified_wf (unified_Disable nm u)"
  by (simp add: unified_Disable_def)

lemma no_cache_coherent: "u_resolvedCache u = [] \<Longrightarrow> unified_coherent u"
  by (simp add: coherent_def)

lemma c_entries_ops:
  "map_of (c_entries (fst (comp_Add ch [comp_WithRunlevel rl] (c, u)))) =
     (map_of (c_entries c))(ch_GetName ch \<mapsto> \<lparr>he_handler = ch, he_enabled = True, he_runlevel = rl\<rparr>)"
  "snd (comp_Add ch opts (c, u)) = InvalidateCache u"
  "c_resolvedCache (fst (comp_Add ch opts (c, u))) = []"
  by (simp_all add: comp_Add_def Let_def go_map_simps)

lemma comp_Disable_known:
  assumes "map_of (c_entries c) nm = Some e"
  shows "map_of (c_entries (fst (comp_Disable nm (c, u)))) = (map_of (c_entries c))(nm \<mapsto> e\<lparr>he_enabled := False\<rparr>)"
    "snd (comp_Disable nm (c, u)) = InvalidateCache u" "c_resolvedCache (fst (comp_Disable nm (c, u))) = []"
  using assms by (simp_all add: comp_Disable_def comp_setEnabledLocked_def go_map_simps)

lemma m_entries_ops:
  "map_of (m_entries (fst (mod_Add h [mod_WithRunlevel rl, mod_WithConfigSource src] (m, u)))) =
     (map_of (m_entries m))(mh_GetName h \<mapsto>
        \<lparr>re_handler = h, re_enabled = True, re_runlevel = rl, re_configSource = src\<rparr>)"
  "snd (mod_Add h opts (m, u)) = InvalidateCache u"
  "m_resolvedCache (fst (mod_Add h opts (m, u))) = []"
  by (simp_all add: mod_Add_def Let_def go_map_simps)

lemma mod_Disable_known:
  assumes "map_of (m_entries m) nm = Some e"
  shows "map_of (m_entries (fst (mod_Disable nm (m, u)))) = (map_of (m_entries m))(nm \<mapsto> e\<lparr>re_enabled := False\<rparr>)"
    "snd (mod_Disable nm (m, u)) = InvalidateCache u" "m_resolvedCache (fst (mod_Disable nm (m, u))) = []"
  using assms by (simp_all add: mod_Disable_def mod_setEnabledLocked_def go_map_simps)

lemma in_step_register_component:
  assumes "in_step s" and "ch_GetName h = name" and "m_entries (sys_mod s) = []"
  shows "in_step (register_component en rls (name, h) s) \<and>
    m_entries (sys_mod (register_component en rls (name, h) s)) = []"
proof -
  define rl where "rl = (case map_of rls name of Some r \<Rightarrow> r | None \<Rightarrow> RL 99)"
  define c where "c = fst (comp_Add h [comp_WithRunlevel rl] (sys_comp s, sys_uni s))"
  define u where "u = unified_Add name KindComponent rl (InvalidateCache (sys_uni s))"
  have add: "comp_Add h [comp_WithRunlevel rl] (sys_comp s, sys_uni s) = (c, InvalidateCache (sys_uni s))"
    by (simp add: c_def prod_eq_iff c_entries_ops(2))
  have c: "map_of (c_entries c) = (map_of (c_entries (sys_comp s)))(name \<mapsto>
      \<lparr>he_handler = h, he_enabled = True, he_runlevel = rl\<rparr>)" "c_resolvedCache c = []" "comp_wf c"
    using assms comp_wf_Add [of "(sys_comp s, sys_uni s)" h "[comp_WithRunlevel rl]"]
    by (simp_all add: c_def c_entries_ops in_step_def)
  have u: "map_of (u_nodes u) = (map_of (u_nodes (sys_uni s)))(name \<mapsto>
      \<lparr>n_name = name, n_kind = KindComponent, n_runlevel = rl, n_enabled = True\<rparr>)" "u_resolvedCache u = []" "unified_wf u"
    using assms(1) by (simp_all add: u_def in_step_def)
  show ?thesis
  proof (cases "en name")
    case True
    then have "register_component en rls (name, h) s = s\<lparr>sys_comp := c, sys_uni := u\<rparr>"
      by (simp add: register_component_def add rl_def [symmetric] u_def)
    with assms c u show ?thesis by (simp add: in_step_def node_of_def no_cache_coherent)
  next
    case False
    have known: "map_of (c_entries c) name = Some \<lparr>he_handler = h, he_enabled = True, he_runlevel = rl\<rparr>"
      by (simp add: c(1))
    let ?c = "fst (comp_Disable name (c, u))"
    have "register_component en rls (name, h) s = s\<lparr>sys_comp := ?c, sys_uni := unified_Disable name (InvalidateCache u)\<rparr>"
      using False comp_Disable_known(2) [OF known, of u]
      by (simp add: register_component_def add rl_def [symmetric] u_def [symmetric] case_prod_beta)
    moreover have "comp_wf ?c"
      using comp_wf_setEnabledLocked [of "(c, u)" name False] c(3) by (simp add: comp_Disable_def)
    ultimately show ?thesis
      using assms c u comp_Disable_known [OF known, of u]
      by (simp add: in_step_def node_of_def no_cache_coherent unified_Disable_cache u_nodes_Disable)
  qed
qed

lemma in_step_register_module:
  assumes "in_step s"
  shows "in_step (register_module en rg s)"
proof -
  let ?name = "mh_GetName (rg_Handler rg)"
  let ?e = "\<lparr>re_handler = rg_Handler rg, re_enabled = True, re_runlevel = rg_Runlevel rg, re_configSource = rg_ConfigSource rg\<rparr>"
  let ?opts = "[mod_WithRunlevel (rg_Runlevel rg), mod_WithConfigSource (rg_ConfigSource rg)]"
  define m where "m = fst (mod_Add (rg_Handler rg) ?opts (sys_mod s, sys_uni s))"
  define u where "u = unified_Add ?name KindModule (rg_Runlevel rg) (InvalidateCache (sys_uni s))"
  have add: "mod_Add (rg_Handler rg) ?opts (sys_mod s, sys_uni s) = (m, InvalidateCache (sys_uni s))"
    by (simp add: m_def prod_eq_iff m_entries_ops(2))
  have m: "map_of (m_entries m) = (map_of (m_entries (sys_mod s)))(?name \<mapsto> ?e)" "m_resolvedCache m = []" "mod_wf m"
    using assms mod_wf_Add [of "(sys_mod s, sys_uni s)" "rg_Handler rg" ?opts]
    by (simp_all add: m_def m_entries_ops in_step_def)
  have u: "map_of (u_nodes u) = (map_of (u_nodes (sys_uni s)))(?name \<mapsto>
      \<lparr>n_name = ?name, n_kind = KindModule, n_runlevel = rg_Runlevel rg, n_enabled = True\<rparr>)" "u_resolvedCache u = []" "unified_wf u"
    using assms by (simp_all add: u_def in_step_def)
  show ?thesis
  proof (cases "en ?name")
    case True
    then have "register_module en rg s = s\<lparr>sys_mod := m, sys_uni := u\<rparr>"
      by (simp add: register_module_def add u_def Let_def)
    with assms m u show ?thesis
      by (simp add: in_step_def node_of_def no_cache_coherent split: option.split)
  next
    case False
    have known: "map_of (m_entries m) ?name = Some ?e" by (simp add: m(1))
    let ?m = "fst (mod_Disable ?name (m, u))"
    have "register_module en rg s = s\<lparr>sys_mod := ?m, sys_uni := unified_Disable ?name (InvalidateCache u)\<rparr>"
      using False mod_Disable_known(2) [OF known, of u]
      by (simp add: register_module_def add u_def [symmetric] Let_def case_prod_beta)
    moreover have "mod_wf ?m"
      using mod_wf_setEnabledLocked [of "(m, u)" ?name False] m(3) by (simp add: mod_Disable_def)
    ultimately show ?thesis
      using assms m u mod_Disable_known [OF known, of u]
      by (simp add: in_step_def node_of_def no_cache_coherent unified_Disable_cache u_nodes_Disable
          split: option.split)
  qed
qed

lemma in_step_startup:
  assumes "\<forall>(name, h) \<in> set comps. ch_GetName h = name"
  shows "in_step (startup GetBool rls comps rgs)"
proof -
  have "in_step (registerComponents en rls comps s) \<and> m_entries (sys_mod (registerComponents en rls comps s)) = []"
    if "in_step s" "m_entries (sys_mod s) = []" for en and s :: "('a, 'b, 'c) system"
    using assms that unfolding registerComponents_def
  proof (induction comps arbitrary: s)
    case (Cons nh comps)
    obtain name h where nh: "nh = (name, h)" by force
    with Cons.prems have "in_step (register_component en rls nh s) \<and> m_entries (sys_mod (register_component en rls nh s)) = []"
      by (simp add: in_step_register_component)
    with Cons show ?case by simp
  qed simp
  moreover have "m_entries (sys_mod (empty_system :: ('a, 'b, 'c) system)) = []"
    by (simp add: empty_system_def empty_mod_registry_def)
  moreover have "in_step (registerModules en rgs s)" if "in_step s" for en and s :: "('a, 'b, 'c) system"
    using that unfolding registerModules_def
    by (induction rgs arbitrary: s) (simp_all add: in_step_register_module)
  ultimately show ?thesis unfolding startup_def using in_step_empty by blast
qed

lemma batch_node_enabled:
  assumes "in_step s" and "n \<in> set (concat (unified_fresh (sys_uni s)))"
  shows "case n_kind n of
      KindModule \<Rightarrow> mod_IsEnabled (n_name n) (sys_mod s) \<and> mod_Lookup (n_name n) (sys_mod s) \<noteq> None
    | KindComponent \<Rightarrow> comp_IsEnabled (n_name n) (sys_comp s) \<and> comp_Lookup (n_name n) (sys_comp s) \<noteq> None"
proof -
  from assms(1) have wf: "unified_wf (sys_uni s)" by (simp add: in_step_def)
  from assms(2) have "n \<in> set (enabled_nodes (sys_uni s))"
    by (simp only: unified_fresh_spec [OF wf] set_concat_runlevel_batches)
  then obtain nm where nm: "nm \<in> set (u_order (sys_uni s))" "n = at_or (u_nodes (sys_uni s)) zero_node nm"
    and en: "n_enabled n" by (auto simp: enabled_nodes_def)
  then have "map_of (u_nodes (sys_uni s)) nm = Some n"
    by (auto simp: at_or_def zero_node_def split: option.splits)
  with assms(1) have "node_of s nm = Some n" by (simp add: in_step_def)
  with en show ?thesis
    by (auto simp: node_of_def mod_IsEnabled_def mod_Lookup_def comp_IsEnabled_def comp_Lookup_def
        split: option.splits)
qed

section \<open>The composite checker\<close>

definition NewCompositeChecker :: "readiness_checker list \<Rightarrow> readiness_checker" where
  "NewCompositeChecker checkers = CompositeChecker_IsReady checkers"

interpretation platform_ready: readiness_pair
  "component_IsReady c" "fst ` set (c_entries (crc_registry c))"
  "module_IsReady m k" "fst ` set (m_entries (mrc_registry m))" for c m k
  by unfold_locales

section \<open>Properties\<close>

definition demo_module :: "string \<Rightarrow> string \<Rightarrow> (unit, unit) ModuleHandler" where
  "demo_module name rv =
     \<lparr>mh_GetName = name, mh_IsEnabled = (\<lambda>_. True),
      mh_GetGVK = \<lparr>gvk_Group = ''components'', gvk_Version = ''v1'', gvk_Kind = name\<rparr>,
      mh_GetOperatorManifests = (\<lambda>_. \<lparr>om_HelmCharts = [], om_Manifests = []\<rparr>),
      mh_PopulatePlatformModule = (\<lambda>_ m. m), mh_GetRelatedImages = [],
      mh_GetModuleStatus = (\<lambda>_. Inr \<lparr>ms_Conditions = [], ms_ObservedGeneration = 0, ms_Generation = 0,
         ms_ReleaseVersion = rv, ms_Releases = []\<rparr>),
      mh_GetModuleCRState = (\<lambda>_. (CRStateAlive, None)), mh_DeleteModuleCR = (\<lambda>_. None),
      mh_DeleteOperatorResources = (\<lambda>_ _. None),
      mh_WriteDSCComponentStatus = (\<lambda>x _ _. Inr x), mh_WriteLegacyStatusFields = None, mh_ReadyConditionType = None, mh_ContainerName = None,
      mh_ControllerImage = None, mh_InitContainerName = None, mh_DeploymentName = None,
      mh_SubmoduleConditions = None, mh_ExtraEnv = None\<rparr>"

definition demo_registrations :: "(unit, unit) Registration list" where
  "demo_registrations =
     [\<lparr>rg_Handler = demo_module ''kserve'' ''2.0.0'', rg_Runlevel = RL 20, rg_ConfigSource = ConfigFromDSC\<rparr>,
      \<lparr>rg_Handler = demo_module ''trainer'' '''', rg_Runlevel = RL 33, rg_ConfigSource = ConfigFromDSC\<rparr>]"

definition demo_system :: "(unit, unit, unit) system" where
  "demo_system =
     startup (\<lambda>flag. flag = ''disable-kueue-component'') [(''kueue'', RL 31)] [(''kueue'', demo_component ''kueue'')]
       demo_registrations"

text \<open>
  C28. Startup keeps the three registries in step. After the registration of components and modules
  under any suppression flags, a name has a node in the unified registry exactly when one of the two
  other registries has it, with the same runlevel and enablement; every node of a batch that the walk
  is given belongs to an enabled handler of the registry its kind names.
\<close>

theorem startup_registries_agree:
  fixes s :: "('d, 'm, 'x) system"
  assumes "\<And>name h. (name, h) \<in> set comps \<Longrightarrow> ch_GetName h = name"
    and "s = startup GetBool rls comps rgs"
  shows "(\<forall>name. map_of (u_nodes (sys_uni s)) name = node_of s name) \<and>
    unified_wf (sys_uni s) \<and> unified_coherent (sys_uni s) \<and> comp_wf (sys_comp s) \<and> mod_wf (sys_mod s) \<and>
    (\<forall>n \<in> set (concat (unified_fresh (sys_uni s))).
       (case n_kind n of
          KindModule \<Rightarrow> mod_IsEnabled (n_name n) (sys_mod s) \<and> mod_Lookup (n_name n) (sys_mod s) \<noteq> None
        | KindComponent \<Rightarrow> comp_IsEnabled (n_name n) (sys_comp s) \<and> comp_Lookup (n_name n) (sys_comp s) \<noteq> None))"
proof -
  have st: "in_step s" using in_step_startup [of comps GetBool rls rgs] assms by auto
  note batch_node_enabled [OF st]
  with st show ?thesis by (simp add: in_step_def)
qed

theorem startup_registries_agree_witness:
  "map_of (u_nodes (sys_uni demo_system)) ''kueue'' =
     Some \<lparr>n_name = ''kueue'', n_kind = KindComponent, n_runlevel = RL 31, n_enabled = False\<rparr>"
proof -
  have "map_of (u_nodes (sys_uni demo_system)) ''kueue'' = node_of demo_system ''kueue''"
    using startup_registries_agree [of "[(''kueue'', demo_component ''kueue'')]" demo_system]
    by (auto simp: demo_system_def demo_component_def)
  also have "\<dots> = Some \<lparr>n_name = ''kueue'', n_kind = KindComponent, n_runlevel = RL 31, n_enabled = False\<rparr>"
    by code_simp
  finally show ?thesis .
qed

text \<open>
  Dispatch of the composite checker. The checker over both registries asks the component checker for
  the names of the component registry, the module checker for the remaining names of the module
  registry, and answers \<open>ErrUnknownNode\<close> exactly for the names neither registry has; a node reported
  ready never comes with an error.
\<close>

theorem composite_checker_dispatches:
  "NewCompositeChecker [component_IsReady c, module_IsReady m k] n =
     (if n \<in> fst ` set (c_entries (crc_registry c)) then component_IsReady c n
      else if n \<in> fst ` set (m_entries (mrc_registry m)) then module_IsReady m k n
      else (False, Some (GoError (''no checker recognizes node '' @ quoted n) [ErrUnknownNode]))) \<and>
   \<not> (fst (NewCompositeChecker [component_IsReady c, module_IsReady m k] n) \<and>
      snd (NewCompositeChecker [component_IsReady c, module_IsReady m k] n) \<noteq> None)"
  using platform_ready.composite_pair [of c m k n] platform_ready.both.error_not_ready [of c m k n]
  unfolding NewCompositeChecker_def by blast

text \<open>
  C29. Upgrade ordering, when gating is not switched off. As long as a module still reports a platform release other than the target
  version (or its status cannot be read), a walk hands over no batch beyond the module's own, unless a
  runlevel that waited for the module had been waiting for its positive timeout, as the clock and the tracker that the walk started with show.
\<close>

theorem upgrade_holds_back_later_runlevels:
  assumes "unified_coherent reg" and "unified_wf reg" and "\<not> wp_dagDisabled p"
    and "wp_checker p = (\<lambda>k. NewCompositeChecker [component_IsReady (c k), module_IsReady m k])"
    and "WalkBatches p reg tr rl rr = ((q, err), s, reg')"
    and "i < length (runlevel_batches n_name n_runlevel (enabled_nodes reg))"
    and "e \<in> set (runlevel_batches n_name n_runlevel (enabled_nodes reg) ! i)"
    and "\<And>k. n_name e \<notin> fst ` set (c_entries (crc_registry (c k)))"
    and "mod_Lookup (n_name e) (mrc_registry m) = Some h" and "mod_IsEnabled (n_name e) (mrc_registry m)"
    and "\<And>pm. mrc_modules m = Some pm \<Longrightarrow> mh_IsEnabled h pm"
    and "mrc_platformVersion m \<noteq> ''''"
    and "\<And>k st. mh_GetModuleStatus h k = Inr st \<Longrightarrow>
      ms_ReleaseVersion st \<noteq> '''' \<and> ms_ReleaseVersion st \<noteq> mrc_platformVersion m"
  shows "length (ws_processed s) \<le> Suc i \<or> given_up p tr (ws_processed s) (Suc i) (n_name e)"
proof (rule ccontr)
  assume neg: "\<not> (length (ws_processed s) \<le> Suc i \<or> given_up p tr (ws_processed s) (Suc i) (n_name e))"
  let ?bs = "unified_fresh reg" and ?ps = "ws_processed s"
  note bs = unified_fresh_spec [OF assms(2)]
  obtain j where j: "map snd ?ps = take j ?bs" using WalkBatches_prefix [OF assms(1,5)] .
  have len: "length ?ps = min j (length ?bs)" using arg_cong [OF j, of length] by simp
  with neg have "i < length ?ps" "i < j" by auto
  then have "snd (?ps ! i) = ?bs ! i" using j by (metis nth_map nth_take)
  then have "e \<in> set (snd (?ps ! i))" using assms(7) bs by simp
  moreover have "?ps ! i \<in> set (take (Suc i) ?ps)" using \<open>i < length ?ps\<close> by (simp add: take_Suc_conv_app_nth)
  ultimately have mem: "e \<in> set (concat (map snd (take (Suc i) ?ps)))" by auto
  have "gated_at p tr ?ps (Suc i)"
    using WalkBatches_gated [OF assms(1-3,5)] neg by (simp add: gated_def)
  with mem neg obtain k where k: "fst (wp_checker p k (n_name e))" unfolding gated_at_def by blast
  have "n_name e \<in> fst ` set (m_entries (mrc_registry m))"
    using assms(9) mod_names [of "n_name e" "mrc_registry m"] by simp
  then have "wp_checker p k (n_name e) = module_IsReady m k (n_name e)"
    using platform_ready.composite_pair [of "c k" m k "n_name e"] assms(4,8)
    by (simp add: NewCompositeChecker_def del: CompositeChecker_IsReady.simps)
  moreover have "\<not> fst (module_IsReady m k (n_name e))"
    using assms(9-13) by (auto simp: module_IsReady_def Let_def split: option.splits sum.splits)
  ultimately show False using k by simp
qed

definition demo_checker :: "(unit, unit, unit) ComponentReadinessChecker" where
  "demo_checker =
     \<lparr>crc_registry = sys_comp demo_system, crc_list = (\<lambda>_. Inr []),
      crc_access = \<lparr>ux_slice = (\<lambda>_ _. Inr None), ux_fields = (\<lambda>_. None)\<rparr>, crc_targetVersion = ''3.0.0''\<rparr>"

definition demo_upgrade :: "unit walk_params" where
  "demo_upgrade =
     \<lparr>wp_checker = (\<lambda>k. NewCompositeChecker
        [component_IsReady demo_checker,
         module_IsReady (mod_NewReadinessChecker (sys_mod demo_system) ''3.0.0'' []) k]),
      wp_now = (\<lambda>k. 0), wp_instanceID = ''platform'', wp_version = ''3.0.0'', wp_dagDisabled = False,
      wp_policies = [], wp_processBatch = (\<lambda>b u. (None, u))\<rparr>"

theorem upgrade_holds_back_later_runlevels_witness:
  "length (ws_processed (fst (snd (WalkBatches demo_upgrade (sys_uni demo_system) NewStuckTracker zero_tracker ())))) \<le> 1"
proof -
  let ?w = "WalkBatches demo_upgrade (sys_uni demo_system) NewStuckTracker zero_tracker ()"
  let ?e = "\<lparr>n_name = ''kserve'', n_kind = KindModule, n_runlevel = RL 20, n_enabled = True\<rparr>"
  let ?bs = "runlevel_batches n_name n_runlevel (enabled_nodes (sys_uni demo_system))"
  let ?m = "mod_NewReadinessChecker (sys_mod demo_system) ''3.0.0'' []"
  have st: "unified_coherent (sys_uni demo_system)" "unified_wf (sys_uni demo_system)"
  proof -
    have "in_step demo_system"
      unfolding demo_system_def by (rule in_step_startup) (simp add: demo_component_def)
    then show "unified_coherent (sys_uni demo_system)" "unified_wf (sys_uni demo_system)"
      by (simp_all add: in_step_def)
  qed
  have w: "?w = ((fst (fst ?w), snd (fst ?w)), fst (snd ?w), snd (snd ?w))" by simp
  have bs: "0 < length ?bs" "?e \<in> set (?bs ! 0)" "\<not> wp_dagDisabled demo_upgrade" by code_simp+
  have "\<not> expired demo_upgrade NewStuckTracker f k" for f k
    by (auto simp: expired_def demo_upgrade_def NewStuckTracker_def)
  then have waits: "\<not> given_up demo_upgrade NewStuckTracker ps j x" for ps j x
    by (simp add: given_up_def)
  have names: "''kserve'' \<notin> fst ` set (c_entries (sys_comp demo_system))" by code_simp
  have m: "mrc_registry ?m = sys_mod demo_system" "mrc_modules ?m = None" "mrc_platformVersion ?m = ''3.0.0''"
    by (simp_all add: mod_NewReadinessChecker_def)
  have look: "mod_IsEnabled ''kserve'' (sys_mod demo_system)"
    "map_option mh_GetName (mod_Lookup ''kserve'' (sys_mod demo_system)) = Some ''kserve''" by code_simp+
  then obtain h where h: "mod_Lookup ''kserve'' (sys_mod demo_system) = Some h" by auto
  have "map_option (\<lambda>h. mh_GetModuleStatus h k) (mod_Lookup ''kserve'' (sys_mod demo_system)) =
      Some (Inr \<lparr>ms_Conditions = [], ms_ObservedGeneration = 0, ms_Generation = 0, ms_ReleaseVersion = ''2.0.0'', ms_Releases = []\<rparr>)" for k
    by (simp add: demo_system_def startup_def registerModules_def register_module_def demo_registrations_def
        mod_Lookup_def mod_Add_def mod_Disable_def mod_setEnabledLocked_def registerComponents_def
        register_component_def empty_system_def empty_mod_registry_def flags_IsModuleEnabled_def Let_def
        demo_module_def case_prod_beta)
  with h have status: "mh_GetModuleStatus h k = Inr \<lparr>ms_Conditions = [], ms_ObservedGeneration = 0, ms_Generation = 0,
      ms_ReleaseVersion = ''2.0.0'', ms_Releases = []\<rparr>" for k by auto
  have "length (ws_processed (fst (snd ?w))) \<le> Suc 0 \<or> given_up demo_upgrade NewStuckTracker (ws_processed (fst (snd ?w))) (Suc 0) (n_name ?e)"
    by (rule upgrade_holds_back_later_runlevels [OF st bs(3) _ w bs(1,2), where m = ?m and h = h and c = "\<lambda>k. demo_checker"])
      (use names in \<open>simp_all add: demo_upgrade_def demo_checker_def m h look status\<close>)
  with waits show ?thesis by simp
qed

end
