(* ===== verification/Module_Base.thy ===== *)
theory Module_Base
  imports Module_Types Component_Registry "HOL-Library.Sublist"
begin

text \<open>
  \<open>internal/controller/modules/base.go\<close>: the declarative configuration of a module and the default
  implementations of the handler methods built on it.

  Parameters: the client's \<open>Get\<close> and \<open>Delete\<close>, the accessors of unstructured objects, the metadata the
  framework reads from an object (generation, deletion timestamp), and the Helm and Kustomize
  renderers. The conversion of a severity string to the framework's type is a parameter as well. The
  fields \<open>observedGeneration\<close> and \<open>lastTransitionTime\<close> of a parsed condition, which nothing here reads,
  are left out.
\<close>

section \<open>Paths\<close>

text \<open>\<open>filepath.Join\<close> of two elements, with the lexical cleaning of \<open>filepath.Clean\<close>.\<close>

fun split_slash :: "string \<Rightarrow> string list" where
  "split_slash [] = [[]]"
| "split_slash (c # cs) =
     (if c = CHR 0x2F then [] # split_slash cs
      else case split_slash cs of [] \<Rightarrow> [[c]] | s # ss \<Rightarrow> (c # s) # ss)"

fun clean_loop :: "bool \<Rightarrow> string list \<Rightarrow> string list \<Rightarrow> string list" where
  "clean_loop rooted [] out = out"
| "clean_loop rooted (e # es) out =
     (if e = '''' \<or> e = ''.'' then clean_loop rooted es out
      else if e = ''..'' then
        (if out \<noteq> [] \<and> last out \<noteq> ''..'' then clean_loop rooted es (butlast out)
         else if rooted then clean_loop rooted es out
         else clean_loop rooted es (out @ [e]))
      else clean_loop rooted es (out @ [e]))"

definition filepath_Clean :: "string \<Rightarrow> string" where
  "filepath_Clean p =
     (let rooted = (p \<noteq> [] \<and> hd p = CHR 0x2F);
          body = strings_Join (clean_loop rooted (split_slash p) []) ''/''
      in if rooted then CHR 0x2F # body else if body = [] then ''.'' else body)"

definition filepath_Join :: "string \<Rightarrow> string \<Rightarrow> string" where
  "filepath_Join a b =
     (let es = filter (\<lambda>e. e \<noteq> []) [a, b] in if es = [] then [] else filepath_Clean (strings_Join es ''/''))"

section \<open>Configuration\<close>

record 'x ModuleConfig =
  cfg_Name :: string
  cfg_GVK :: GVK
  cfg_CRName :: string
  cfg_ReleaseName :: string
  cfg_ChartDir :: string
  cfg_Values :: "(string, helm_value) gomap"
  cfg_NamespaceValueKey :: string
  cfg_ManifestDir :: string
  cfg_ContextDir :: string
  cfg_SourcePath :: string
  cfg_SourcePathByPlatform :: "(string, string) gomap"
  cfg_Namespace :: string
  cfg_ContainerName :: string
  cfg_DeploymentName :: string
  cfg_ControllerImage :: string
  cfg_InitContainerName :: string
  cfg_RelatedImages :: "string list"
  cfg_SubmoduleConditions :: "'x SubmoduleCondition list"
  cfg_ExtraEnv :: "(string, string) gomap"

definition base_GetReadyConditionType :: "'x ModuleConfig \<Rightarrow> string" where
  "base_GetReadyConditionType cfg = gvk_Kind (cfg_GVK cfg) @ ''Ready''"

definition base_GetContainerName :: "'x ModuleConfig \<Rightarrow> string" where
  "base_GetContainerName cfg = (if cfg_ContainerName cfg \<noteq> '''' then cfg_ContainerName cfg else ''manager'')"

definition base_GetExtraEnv :: "'x ModuleConfig \<Rightarrow> (string, string) gomap" where
  "base_GetExtraEnv cfg = (if cfg_ExtraEnv cfg = [] then [] else maps_Copy [] (cfg_ExtraEnv cfg))"

definition base_GetOperatorManifests :: "'x ModuleConfig \<Rightarrow> 'm PlatformContext option \<Rightarrow> OperatorManifests" where
  "base_GetOperatorManifests cfg platform =
     \<lparr>om_HelmCharts =
        (case platform of
           None \<Rightarrow> []
         | Some px \<Rightarrow>
             if cfg_ChartDir cfg \<noteq> '''' then
               let vals = maps_Copy [] (cfg_Values cfg);
                   vals = (if cfg_NamespaceValueKey cfg \<noteq> '''' \<and> px_ApplicationsNamespace px \<noteq> ''''
                           then AList.update (cfg_NamespaceValueKey cfg) (HString (px_ApplicationsNamespace px)) vals
                           else vals)
               in [\<lparr>hc_Chart = filepath_Join (px_ChartsBasePath px) (cfg_ChartDir cfg),
                    hc_ReleaseName = cfg_ReleaseName cfg,
                    hc_ReleaseNamespace = px_ApplicationsNamespace px, hc_Values = vals\<rparr>]
             else []),
      om_Manifests =
        (if cfg_ManifestDir cfg \<noteq> '''' then
           [\<lparr>mi_Path =
               (case platform of
                  Some px \<Rightarrow>
                    if px_ManifestsBasePath px \<noteq> '''' then filepath_Join (px_ManifestsBasePath px) (cfg_ManifestDir cfg)
                    else cfg_ManifestDir cfg
                | None \<Rightarrow> cfg_ManifestDir cfg),
             mi_ContextDir = cfg_ContextDir cfg,
             mi_SourcePath =
               (case platform of
                  Some px \<Rightarrow> at_or (cfg_SourcePathByPlatform cfg) (cfg_SourcePath cfg) (px_ReleaseName px)
                | None \<Rightarrow> cfg_SourcePath cfg),
             mi_Namespace = cfg_Namespace cfg\<rparr>]
         else [])\<rparr>"

section \<open>The typed status field of a module\<close>

definition setReleasesOnDSCField :: "releases_field \<Rightarrow> ComponentRelease list \<Rightarrow> releases_field" where
  "setReleasesOnDSCField field releases =
     (case field of
        NoReleasesField \<Rightarrow> NoReleasesField
      | NilReleases \<Rightarrow> if releases = [] then NilReleases else Releases releases
      | Releases _ \<Rightarrow> Releases releases)"

definition setDSCComponentField ::
  "'s DataScienceCluster option \<Rightarrow> string \<Rightarrow> bool \<Rightarrow> ComponentRelease list \<Rightarrow> go_error + 's DataScienceCluster option" where
  "setDSCComponentField dsc fieldName enabled releases =
     (case dsc of
        None \<Rightarrow> Inr None
      | Some d \<Rightarrow>
          if fieldName = '''' then Inr dsc
          else
            case map_of (dsc_Components d) fieldName of
              None \<Rightarrow> Inr dsc
            | Some field \<Rightarrow>
                let ms = (if enabled then ''Managed'' else ''Removed'');
                    upd = (\<lambda>state. Inr (Some (d\<lparr>dsc_Components := AList.update fieldName
                      (field\<lparr>cf_ManagementState := state,
                             cf_Releases := setReleasesOnDSCField (cf_Releases field) releases\<rparr>) (dsc_Components d)\<rparr>)))
                in (case cf_ManagementState field of
                      NoStateField \<Rightarrow> upd NoStateField
                    | StateString _ \<Rightarrow> upd (StateString ms)
                    | StateOtherKind \<Rightarrow> Inl (GoError (''setDSCComponentField: field '' @ fieldName @ ''.ManagementState'') [Panic])))"

definition base_WriteDSCComponentStatus ::
  "('s, 'i) DSCContext ModuleConfig \<Rightarrow> ('s, 'i) DSCContext \<Rightarrow> bool \<Rightarrow> ComponentRelease list \<Rightarrow>
     go_error + ('s, 'i) DSCContext" where
  "base_WriteDSCComponentStatus cfg x enabled releases =
     map_sum id (\<lambda>d. x\<lparr>dx_DSC := d\<rparr>)
       (setDSCComponentField (dx_DSC x) (gvk_Kind (cfg_GVK cfg)) enabled releases)"

section \<open>Reading the module CR\<close>

record ('o, 'e) cr_reader =
  rd_get :: "nat \<Rightarrow> GVK \<Rightarrow> string \<Rightarrow> api_failure + 'o"
  rd_access :: "('o, 'e) accessor"
  rd_generation :: "'o \<Rightarrow> int"
  rd_observedGeneration :: "'o \<Rightarrow> int"
  rd_deletionTimestamp :: "'o \<Rightarrow> bool"
  rd_severity :: "string \<Rightarrow> severity"

definition parse_condition :: "(string \<Rightarrow> severity) \<Rightarrow> (string \<Rightarrow> string) \<Rightarrow> condition option" where
  "parse_condition sev cm =
     (if cm ''type'' = '''' \<or> cm ''status'' = '''' then None
      else Some \<lparr>cType = cm ''type'', cStatus = cm ''status'', cReason = cm ''reason'', cMessage = cm ''message'',
                 cSeverity = sev (cm ''severity'')\<rparr>)"

definition ParseConditions :: "('o, 'e) cr_reader \<Rightarrow> 'o \<Rightarrow> api_failure + condition list" where
  "ParseConditions rd u =
     (case ux_slice (rd_access rd) u [''status'', ''conditions''] of
        Inl err \<Rightarrow> Inl (ApiFailure (err_msg err) ApiOther)
      | Inr None \<Rightarrow> Inr []
      | Inr (Some raws) \<Rightarrow>
          Inr (List.map_filter (\<lambda>raw. case ux_fields (rd_access rd) raw of
                 None \<Rightarrow> None | Some cm \<Rightarrow> parse_condition (rd_severity rd) cm) raws))"

definition extractReleases :: "('o, 'e) accessor \<Rightarrow> 'o \<Rightarrow> ComponentRelease list" where
  "extractReleases ux u =
     (case ux_slice ux u [''status'', ''releases''] of
        Inr (Some items) \<Rightarrow>
          List.map_filter (\<lambda>item. case ux_fields ux item of
              None \<Rightarrow> None
            | Some entry \<Rightarrow>
                if entry ''name'' = '''' then None
                else Some \<lparr>rel_Name = entry ''name'', rel_Version = entry ''version'', rel_RepoURL = entry ''repoUrl''\<rparr>) items
      | _ \<Rightarrow> [])"

fun platformReleaseVersion :: "ComponentRelease list \<Rightarrow> string" where
  "platformReleaseVersion [] = ''''"
| "platformReleaseVersion (r # rs) = (if rel_Name r = ''platform'' then rel_Version r else platformReleaseVersion rs)"

definition base_GetModuleStatus :: "('o, 'e) cr_reader \<Rightarrow> 'x ModuleConfig \<Rightarrow> nat \<Rightarrow> api_failure + ModuleStatus" where
  "base_GetModuleStatus rd cfg k =
     (case rd_get rd k (cfg_GVK cfg) (cfg_CRName cfg) of
        Inl err \<Rightarrow> Inl err
      | Inr u \<Rightarrow>
          (case ParseConditions rd u of
             Inl err \<Rightarrow> Inl err
           | Inr conditions \<Rightarrow>
               let releases = extractReleases (rd_access rd) u in
               Inr \<lparr>ms_Conditions = conditions, ms_ObservedGeneration = rd_observedGeneration rd u,
                    ms_Generation = rd_generation rd u, ms_ReleaseVersion = platformReleaseVersion releases,
                    ms_Releases = releases\<rparr>))"

definition absent :: "api_failure \<Rightarrow> bool" where
  "absent f \<longleftrightarrow> err_is NotFound (api_error f) \<or> err_is NoMatch (api_error f)"

definition base_GetModuleCRState ::
  "('o, 'e) cr_reader \<Rightarrow> 'x ModuleConfig \<Rightarrow> nat \<Rightarrow> CRState \<times> api_failure option" where
  "base_GetModuleCRState rd cfg k =
     (case rd_get rd k (cfg_GVK cfg) (cfg_CRName cfg) of
        Inl err \<Rightarrow> if absent err then (CRStateAbsent, None) else (CRStateAbsent, Some err)
      | Inr u \<Rightarrow> if rd_deletionTimestamp rd u then (CRStateDeleting, None) else (CRStateAlive, None))"

section \<open>Deleting a module\<close>

definition base_DeleteModuleCR :: "(nat \<Rightarrow> GVK \<Rightarrow> string \<Rightarrow> api_failure option) \<Rightarrow> 'x ModuleConfig \<Rightarrow> nat \<Rightarrow> go_error option" where
  "base_DeleteModuleCR del cfg k =
     (case del k (cfg_GVK cfg) (cfg_CRName cfg) of
        None \<Rightarrow> None
      | Some err \<Rightarrow>
          if absent err then None
          else Some (wrap (''deleting module CR '' @ gvk_Kind (cfg_GVK cfg) @ ''/'' @ cfg_CRName cfg) (api_error err)))"

record rendered =
  rs_gvk :: GVK
  rs_name :: string
  rs_namespace :: string

definition CustomResourceDefinition_gvk :: GVK where
  "CustomResourceDefinition_gvk =
     \<lparr>gvk_Group = ''apiextensions.k8s.io'', gvk_Version = ''v1'', gvk_Kind = ''CustomResourceDefinition''\<rparr>"

text \<open>
  The deletion loop returns its error and the resources for which a delete request was sent, in order.
  \<open>del\<close> answers the \<open>k\<close>-th request.
\<close>

fun deleteRenderedResources ::
  "(nat \<Rightarrow> rendered \<Rightarrow> api_failure option) \<Rightarrow> (rendered \<Rightarrow> go_error + bool) option \<Rightarrow> string \<Rightarrow> nat \<Rightarrow>
     rendered list \<Rightarrow> go_error option \<times> rendered list" where
  "deleteRenderedResources del filt name k [] = (None, [])"
| "deleteRenderedResources del filt name k (res # rest) =
     (if rs_gvk res = CustomResourceDefinition_gvk then deleteRenderedResources del filt name k rest
      else if gvk_Kind (rs_gvk res) = ''Namespace'' then deleteRenderedResources del filt name k rest
      else
        case (case filt of None \<Rightarrow> Inr True | Some f \<Rightarrow> f res) of
          Inl err \<Rightarrow>
            (Some (wrap (''evaluating delete filter for '' @ gvk_Kind (rs_gvk res) @ '' '' @ rs_namespace res @
               ''/'' @ rs_name res) err), [])
        | Inr False \<Rightarrow> deleteRenderedResources del filt name k rest
        | Inr True \<Rightarrow>
            (case del k res of
               Some err \<Rightarrow>
                 if \<not> absent err then
                   (Some (wrap (''deleting '' @ gvk_Kind (rs_gvk res) @ '' '' @ rs_namespace res @ ''/'' @ rs_name res @
                      '' for module '' @ name) (api_error err)), [res])
                 else let (e, ds) = deleteRenderedResources del filt name (Suc k) rest in (e, res # ds)
             | None \<Rightarrow> let (e, ds) = deleteRenderedResources del filt name (Suc k) rest in (e, res # ds)))"

record renderers =
  rn_helm_New :: "HelmChartInfo \<Rightarrow> go_error option"
  rn_helm_Process :: "HelmChartInfo \<Rightarrow> go_error + rendered list"
  rn_kustomize :: "ManifestInfo \<Rightarrow> string option \<Rightarrow> go_error + rendered list"

fun delete_charts ::
  "renderers \<Rightarrow> (nat \<Rightarrow> rendered \<Rightarrow> api_failure option) \<Rightarrow> (rendered \<Rightarrow> go_error + bool) option \<Rightarrow> string \<Rightarrow> nat \<Rightarrow>
     HelmChartInfo list \<Rightarrow> go_error option \<times> rendered list" where
  "delete_charts rn del filt name k [] = (None, [])"
| "delete_charts rn del filt name k (chart # charts) =
     (case rn_helm_New rn chart of
        Some err \<Rightarrow> (Some (wrap (''creating helm renderer for '' @ name) err), [])
      | None \<Rightarrow>
          (case rn_helm_Process rn chart of
             Inl err \<Rightarrow> (Some (wrap (''rendering chart for '' @ name) err), [])
           | Inr resources \<Rightarrow>
               (case deleteRenderedResources del filt name k resources of
                  (Some err, ds) \<Rightarrow> (Some err, ds)
                | (None, ds) \<Rightarrow>
                    let (e, ds') = delete_charts rn del filt name (k + length ds) charts in (e, ds @ ds'))))"

definition kustomize_namespace :: "'m PlatformContext option \<Rightarrow> ManifestInfo \<Rightarrow> string option" where
  "kustomize_namespace platform manifest =
     (let ns = (case platform of None \<Rightarrow> '''' | Some px \<Rightarrow> px_ApplicationsNamespace px);
          ns = (if mi_Namespace manifest \<noteq> '''' then mi_Namespace manifest else ns)
      in if ns \<noteq> '''' then Some ns else None)"

fun delete_manifests ::
  "renderers \<Rightarrow> (nat \<Rightarrow> rendered \<Rightarrow> api_failure option) \<Rightarrow> (rendered \<Rightarrow> go_error + bool) option \<Rightarrow> string \<Rightarrow> nat \<Rightarrow>
     'm PlatformContext option \<Rightarrow> ManifestInfo list \<Rightarrow> go_error option \<times> rendered list" where
  "delete_manifests rn del filt name k platform [] = (None, [])"
| "delete_manifests rn del filt name k platform (manifest # manifests) =
     (case rn_kustomize rn manifest (kustomize_namespace platform manifest) of
        Inl err \<Rightarrow> (Some (wrap (''rendering kustomize manifests for '' @ name) err), [])
      | Inr resources \<Rightarrow>
          (case deleteRenderedResources del filt name k resources of
             (Some err, ds) \<Rightarrow> (Some err, ds)
           | (None, ds) \<Rightarrow>
               let (e, ds') = delete_manifests rn del filt name (k + length ds) platform manifests in (e, ds @ ds')))"

definition DeleteOperatorManifests ::
  "renderers \<Rightarrow> (nat \<Rightarrow> rendered \<Rightarrow> api_failure option) \<Rightarrow> (rendered \<Rightarrow> go_error + bool) option \<Rightarrow> 'x ModuleConfig \<Rightarrow>
     'm PlatformContext option \<Rightarrow> OperatorManifests \<Rightarrow> go_error option \<times> rendered list" where
  "DeleteOperatorManifests rn del filt cfg platform manifests =
     (case delete_charts rn del filt (cfg_Name cfg) 0 (om_HelmCharts manifests) of
        (Some err, ds) \<Rightarrow> (Some err, ds)
      | (None, ds) \<Rightarrow>
          let (e, ds') = delete_manifests rn del filt (cfg_Name cfg) (length ds) platform (om_Manifests manifests)
          in (e, ds @ ds'))"

definition base_DeleteOperatorResources ::
  "renderers \<Rightarrow> (nat \<Rightarrow> rendered \<Rightarrow> api_failure option) \<Rightarrow> 'x ModuleConfig \<Rightarrow> 'm PlatformContext option \<Rightarrow>
     go_error option \<times> rendered list" where
  "base_DeleteOperatorResources rn del cfg platform =
     DeleteOperatorManifests rn del None cfg platform (base_GetOperatorManifests cfg platform)"

text \<open>
  The handler a module gets by embedding \<open>BaseHandler\<close> and implementing \<open>IsEnabled\<close> (and possibly
  \<open>PopulatePlatformModule\<close>).
\<close>

definition base_handler ::
  "('o, 'e) cr_reader \<Rightarrow> (nat \<Rightarrow> GVK \<Rightarrow> string \<Rightarrow> api_failure option) \<Rightarrow> renderers \<Rightarrow>
     (nat \<Rightarrow> nat \<Rightarrow> rendered \<Rightarrow> api_failure option) \<Rightarrow> ('m \<Rightarrow> bool) \<Rightarrow>
     (('s, 'i) DSCContext \<Rightarrow> 'm \<Rightarrow> 'm) \<Rightarrow> ('s, 'i) DSCContext ModuleConfig \<Rightarrow> ('m, ('s, 'i) DSCContext) ModuleHandler" where
  "base_handler rd del rn delres isEnabled populate cfg =
     \<lparr>mh_GetName = cfg_Name cfg, mh_IsEnabled = isEnabled, mh_GetGVK = cfg_GVK cfg,
      mh_GetOperatorManifests = (\<lambda>px. base_GetOperatorManifests cfg (Some px)),
      mh_PopulatePlatformModule = populate, mh_GetRelatedImages = cfg_RelatedImages cfg,
      mh_GetModuleStatus = base_GetModuleStatus rd cfg, mh_GetModuleCRState = base_GetModuleCRState rd cfg,
      mh_DeleteModuleCR = base_DeleteModuleCR del cfg,
      mh_DeleteOperatorResources = (\<lambda>k px. fst (base_DeleteOperatorResources rn (delres k) cfg (Some px))),
      mh_WriteDSCComponentStatus = base_WriteDSCComponentStatus cfg, mh_WriteLegacyStatusFields = None,
      mh_ReadyConditionType = Some (base_GetReadyConditionType cfg),
      mh_ContainerName = Some (base_GetContainerName cfg), mh_ControllerImage = Some (cfg_ControllerImage cfg),
      mh_InitContainerName = Some (cfg_InitContainerName cfg), mh_DeploymentName = Some (cfg_DeploymentName cfg),
      mh_SubmoduleConditions = Some (cfg_SubmoduleConditions cfg), mh_ExtraEnv = Some (base_GetExtraEnv cfg)\<rparr>"

section \<open>Properties\<close>

text \<open>What the cleanup of a module may delete.\<close>

definition deletable :: "(rendered \<Rightarrow> go_error + bool) option \<Rightarrow> rendered \<Rightarrow> bool" where
  "deletable filt r \<longleftrightarrow> rs_gvk r \<noteq> CustomResourceDefinition_gvk \<and> gvk_Kind (rs_gvk r) \<noteq> ''Namespace'' \<and>
     (case filt of None \<Rightarrow> True | Some f \<Rightarrow> f r = Inr True)"

definition chart_resources :: "renderers \<Rightarrow> HelmChartInfo \<Rightarrow> rendered list" where
  "chart_resources rn c = (case rn_helm_Process rn c of Inl _ \<Rightarrow> [] | Inr rs \<Rightarrow> rs)"

definition manifest_resources :: "renderers \<Rightarrow> 'm PlatformContext option \<Rightarrow> ManifestInfo \<Rightarrow> rendered list" where
  "manifest_resources rn px m = (case rn_kustomize rn m (kustomize_namespace px m) of Inl _ \<Rightarrow> [] | Inr rs \<Rightarrow> rs)"

lemma deleteRendered_spec:
  assumes "deleteRenderedResources del filt name k rs = (e, ds)"
  shows "prefix ds (filter (deletable filt) rs) \<and> (e = None \<longrightarrow> ds = filter (deletable filt) rs)"
  using assms
proof (induction rs arbitrary: k ds e)
  case Nil
  then show ?case by simp
next
  case (Cons r rs)
  show ?case
  proof (cases "rs_gvk r = CustomResourceDefinition_gvk \<or> gvk_Kind (rs_gvk r) = ''Namespace''")
    case True
    then have "deleteRenderedResources del filt name k rs = (e, ds)" "\<not> deletable filt r"
      using Cons.prems by (auto simp: deletable_def split: if_splits)
    with Cons.IH show ?thesis by simp
  next
    case False
    note F = False
    define verdict where "verdict = (case filt of None \<Rightarrow> Inr True | Some f \<Rightarrow> f r)"
    have d: "deletable filt r \<longleftrightarrow> verdict = Inr True"
      using False by (auto simp: deletable_def verdict_def split: option.splits)
    show ?thesis
    proof (cases verdict)
      case (Inl err)
      with Cons.prems F have "ds = []" "e \<noteq> None" by (auto simp: verdict_def [symmetric])
      then show ?thesis by auto
    next
      case (Inr b)
      show ?thesis
      proof (cases b)
        case False
        with Cons F Inr d show ?thesis by (simp add: verdict_def [symmetric])
      next
        case True
        obtain e' ds' where rec: "deleteRenderedResources del filt name (Suc k) rs = (e', ds')" by fastforce
        from Cons.IH [OF rec] Cons.prems F Inr True d rec show ?thesis
          by (auto simp: verdict_def [symmetric] split: option.splits if_splits)
      qed
    qed
  qed
qed

lemma delete_charts_spec:
  assumes "delete_charts rn del filt name k charts = (e, ds)"
  shows "prefix ds (filter (deletable filt) (concat (map (chart_resources rn) charts))) \<and>
    (e = None \<longrightarrow> ds = filter (deletable filt) (concat (map (chart_resources rn) charts)))"
  using assms
proof (induction charts arbitrary: k ds e)
  case (Cons c cs)
  show ?case
  proof (cases "rn_helm_New rn c = None \<and> (\<exists>rs. rn_helm_Process rn c = Inr rs)")
    case False
    with Cons.prems show ?thesis by (auto split: option.splits sum.splits)
  next
    case True
    then obtain rs where rs: "rn_helm_New rn c = None" "rn_helm_Process rn c = Inr rs" by blast
    obtain e1 ds1 where del: "deleteRenderedResources del filt name k rs = (e1, ds1)" by fastforce
    note sp = deleteRendered_spec [OF del]
    obtain e2 ds2 where rec: "delete_charts rn del filt name (k + length ds1) cs = (e2, ds2)" by fastforce
    note IH = Cons.IH [OF rec]
    show ?thesis
    proof (cases e1)
      case None
      with Cons.prems rs del rec have "e = e2" "ds = ds1 @ ds2" by auto
      with sp IH None rs(2) show ?thesis by (auto simp: chart_resources_def)
    next
      case (Some err)
      with Cons.prems rs del have "e = Some err" "ds = ds1" by auto
      with sp rs(2) show ?thesis by (auto simp: chart_resources_def intro: prefix_prefix)
    qed
  qed
qed simp

lemma delete_manifests_spec:
  assumes "delete_manifests rn del filt name k px ms = (e, ds)"
  shows "prefix ds (filter (deletable filt) (concat (map (manifest_resources rn px) ms))) \<and>
    (e = None \<longrightarrow> ds = filter (deletable filt) (concat (map (manifest_resources rn px) ms)))"
  using assms
proof (induction ms arbitrary: k ds e)
  case (Cons m ms)
  show ?case
  proof (cases "rn_kustomize rn m (kustomize_namespace px m)")
    case (Inl err)
    with Cons.prems show ?thesis by auto
  next
    case (Inr rs)
    obtain e1 ds1 where del: "deleteRenderedResources del filt name k rs = (e1, ds1)" by fastforce
    note sp = deleteRendered_spec [OF del]
    obtain e2 ds2 where rec: "delete_manifests rn del filt name (k + length ds1) px ms = (e2, ds2)" by fastforce
    note IH = Cons.IH [OF rec]
    show ?thesis
    proof (cases e1)
      case None
      with Cons.prems Inr del rec have "e = e2" "ds = ds1 @ ds2" by auto
      with sp IH None Inr show ?thesis by (auto simp: manifest_resources_def)
    next
      case (Some err)
      with Cons.prems Inr del have "e = Some err" "ds = ds1" by auto
      with sp Inr show ?thesis by (auto simp: manifest_resources_def intro: prefix_prefix)
    qed
  qed
qed simp

text \<open>
  Scope of a module's cleanup. The delete requests sent when a module's operator is removed go, in
  order, to resources rendered from its charts and manifests, never to a CustomResourceDefinition, a
  Namespace or a resource the filter withholds; when the cleanup succeeds every other rendered resource
  was requested.
\<close>

theorem cleanup_scope:
  assumes "DeleteOperatorManifests rn del filt cfg px ms = (e, ds)"
  shows "prefix ds (filter (deletable filt)
      (concat (map (chart_resources rn) (om_HelmCharts ms)) @ concat (map (manifest_resources rn px) (om_Manifests ms)))) \<and>
    (e = None \<longrightarrow> ds = filter (deletable filt)
      (concat (map (chart_resources rn) (om_HelmCharts ms)) @ concat (map (manifest_resources rn px) (om_Manifests ms))))"
proof -
  obtain e1 ds1 where c: "delete_charts rn del filt (cfg_Name cfg) 0 (om_HelmCharts ms) = (e1, ds1)" by fastforce
  obtain e2 ds2 where m: "delete_manifests rn del filt (cfg_Name cfg) (length ds1) px (om_Manifests ms) = (e2, ds2)"
    by fastforce
  note sc = delete_charts_spec [OF c] and sm = delete_manifests_spec [OF m]
  show ?thesis
  proof (cases e1)
    case None
    with assms c m have "e = e2" "ds = ds1 @ ds2" by (auto simp: DeleteOperatorManifests_def)
    with None sc sm show ?thesis by auto
  next
    case (Some err)
    with assms c have "e = Some err" "ds = ds1" by (auto simp: DeleteOperatorManifests_def)
    with sc show ?thesis by (auto intro: prefix_prefix)
  qed
qed

definition demo_rendered :: "string \<Rightarrow> string \<Rightarrow> string \<Rightarrow> rendered" where
  "demo_rendered grp kind name =
     \<lparr>rs_gvk = \<lparr>gvk_Group = grp, gvk_Version = ''v1'', gvk_Kind = kind\<rparr>, rs_name = name, rs_namespace = ''odh''\<rparr>"

definition demo_module_config :: "unit ModuleConfig" where
  "demo_module_config =
     \<lparr>cfg_Name = ''trainer'', cfg_GVK = \<lparr>gvk_Group = ''components'', gvk_Version = ''v1'', gvk_Kind = ''Trainer''\<rparr>,
      cfg_CRName = ''default-trainer'', cfg_ReleaseName = ''trainer-operator'', cfg_ChartDir = ''trainer'',
      cfg_Values = [], cfg_NamespaceValueKey = ''namespace'', cfg_ManifestDir = '''', cfg_ContextDir = '''',
      cfg_SourcePath = '''', cfg_SourcePathByPlatform = [], cfg_Namespace = '''', cfg_ContainerName = '''',
      cfg_DeploymentName = '''', cfg_ControllerImage = '''', cfg_InitContainerName = '''', cfg_RelatedImages = [],
      cfg_SubmoduleConditions = [], cfg_ExtraEnv = []\<rparr>"

definition demo_renderers :: renderers where
  "demo_renderers =
     \<lparr>rn_helm_New = (\<lambda>_. None),
      rn_helm_Process = (\<lambda>_. Inr [demo_rendered ''apps'' ''Deployment'' ''op'',
        demo_rendered ''apiextensions.k8s.io'' ''CustomResourceDefinition'' ''crd'', demo_rendered '''' ''Namespace'' ''ns'']),
      rn_kustomize = (\<lambda>_ _. Inr [])\<rparr>"

definition demo_manifests :: OperatorManifests where
  "demo_manifests =
     \<lparr>om_HelmCharts = [\<lparr>hc_Chart = ''c'', hc_ReleaseName = ''r'', hc_ReleaseNamespace = ''odh'', hc_Values = []\<rparr>],
      om_Manifests = []\<rparr>"

theorem cleanup_scope_witness:
  "snd (DeleteOperatorManifests demo_renderers (\<lambda>_ _. None) None demo_module_config
     (None :: unit PlatformContext option) demo_manifests) = [demo_rendered ''apps'' ''Deployment'' ''op'']"
proof -
  let ?d = "DeleteOperatorManifests demo_renderers (\<lambda>_ _. None) None demo_module_config
     (None :: unit PlatformContext option) demo_manifests"
  have ok: "fst ?d = None" by code_simp
  have "?d = (fst ?d, snd ?d)" by simp
  from cleanup_scope [OF this] ok have "snd ?d = filter (deletable None)
      (concat (map (chart_resources demo_renderers) (om_HelmCharts demo_manifests)) @
       concat (map (manifest_resources demo_renderers (None :: unit PlatformContext option)) (om_Manifests demo_manifests)))"
    by blast
  also have "\<dots> = [demo_rendered ''apps'' ''Deployment'' ''op'']" by code_simp
  finally show ?thesis .
qed

text \<open>
  One notion of release. The platform release a module CR reports, computed from the parsed list of
  releases, is the one the component readiness checker extracts from an object directly.
\<close>

theorem module_release_agrees_with_component_release:
  "platformReleaseVersion (extractReleases ux u) = extractPlatformReleaseVersion ux u"
proof -
  let ?rel = "\<lambda>item. case ux_fields ux item of
      None \<Rightarrow> None
    | Some entry \<Rightarrow> if entry ''name'' = '''' then None
        else Some \<lparr>rel_Name = entry ''name'', rel_Version = entry ''version'', rel_RepoURL = entry ''repoUrl''\<rparr>"
  have "platformReleaseVersion (List.map_filter ?rel items) = release_loop ux items" for items
    by (induction items) (auto simp: List.map_filter_simps split: option.splits)
  then show ?thesis
    by (simp add: extractReleases_def extractPlatformReleaseVersion_def split: sum.splits option.splits)
qed

end
