(* ===== verification/Platform.thy ===== *)
theory Platform
  imports Module_Registry Module_Base
begin

text \<open>
  How the DSC and DSCI controllers project module enablement into the shared Platform CR, and how the
  platform controller reads it back: \<open>NewPlatformCR\<close> to \<open>buildPlatformContext\<close> of
  \<open>modules_controller_actions.go\<close>, \<open>otel_namespace.go\<close>, the \<open>PlatformModules\<close> struct of
  \<open>api/config/v1alpha2/platform_types.go\<close> and the namespace lookups of \<open>pkg/cluster/resources.go\<close>.

  \<open>PlatformModules\<close> is the list of its fields in declaration order with their management states; the
  code reads and writes it field by field and, in two loops, by reflection over all fields (each of
  which is a struct with a settable string \<open>ManagementState\<close>). A field whose state is the empty string
  is absent from the serialised object (\<open>omitempty\<close>).
\<close>

section \<open>The Platform CR\<close>

type_synonym PlatformModules = "(string, string) gomap"

definition platform_fields :: "string list" where
  "platform_fields =
     [''AIPipelines'', ''AIGateway'', ''MLflowOperator'', ''Monitoring'', ''MCPLifecycleOperator'',
      ''DatabaseService'', ''Kserve'', ''Trainer'', ''Workbenches'', ''OGX'', ''Data'', ''Dashboard'',
      ''SparkOperator'', ''Ray'', ''TrustyAI'', ''AIHub'']"

definition zero_PlatformModules :: PlatformModules where
  "zero_PlatformModules = map (\<lambda>f. (f, '''')) platform_fields"

record Platform =
  pf_APIVersion :: string
  pf_Kind :: string
  pf_Name :: string
  pf_Modules :: PlatformModules

type_synonym ('s, 'i) handler = "(PlatformModules, ('s, 'i) DSCContext) ModuleHandler"
type_synonym ('s, 'i) module_reg = "(PlatformModules, ('s, 'i) DSCContext) mod_registry"

definition forceManagementStateRemoved :: "PlatformModules \<Rightarrow> PlatformModules" where
  "forceManagementStateRemoved pm = map (\<lambda>(f, ms). (f, if ms \<noteq> '''' then ''Removed'' else ms)) pm"

definition normalizePlatformModules :: "PlatformModules \<Rightarrow> PlatformModules" where
  "normalizePlatformModules pm = map (\<lambda>(f, ms). (f, if ms = '''' then ''Removed'' else ms)) pm"

definition BuildPlatformModules :: "('s, 'i) module_reg \<Rightarrow> ('s, 'i) DSCContext \<Rightarrow> PlatformModules" where
  "BuildPlatformModules reg dscCtx =
     normalizePlatformModules
       (snd (mod_ForAll (\<lambda>handler _ pm. (None, mh_PopulatePlatformModule handler dscCtx pm)) reg zero_PlatformModules))"

definition BuildPlatformModulesForSource ::
  "('s, 'i) module_reg \<Rightarrow> ('s, 'i) DSCContext \<Rightarrow> ConfigSource \<Rightarrow> PlatformModules" where
  "BuildPlatformModulesForSource reg dscCtx source =
     snd (mod_ForConfigSource source (\<lambda>handler _ pm. (None, mh_PopulatePlatformModule handler dscCtx pm)) reg
            zero_PlatformModules)"

definition NewPlatformCR :: "('s, 'i) module_reg \<Rightarrow> ('s, 'i) DSCContext \<Rightarrow> ConfigSource \<Rightarrow> Platform" where
  "NewPlatformCR reg dscCtx source =
     \<lparr>pf_APIVersion = ''config.opendatahub.io/v1alpha2'', pf_Kind = ''Platform'', pf_Name = ''default'',
      pf_Modules = BuildPlatformModulesForSource reg dscCtx source\<rparr>"

definition NewPlatformCRRemovedForSource ::
  "('s, 'i) module_reg \<Rightarrow> ('s, 'i) DSCContext \<Rightarrow> ConfigSource \<Rightarrow> Platform" where
  "NewPlatformCRRemovedForSource reg dscCtx source =
     (let platform = NewPlatformCR reg dscCtx source
      in platform\<lparr>pf_Modules := forceManagementStateRemoved (pf_Modules platform)\<rparr>)"

section \<open>The owner reference on the shared Platform CR\<close>

text \<open>
  \<open>retry.RetryOnConflict\<close> calls its function until it returns no Conflict error or the steps of the
  backoff are used up (\<open>retry.DefaultRetry\<close> has five), and returns the last error. The function gets
  the number of the attempt. \<open>SetOwnerReference\<close> and the client are parameters; the result lists the
  owner references of every update sent.
\<close>

fun RetryOnConflict :: "nat \<Rightarrow> nat \<Rightarrow> (nat \<Rightarrow> go_error option \<times> 'u list) \<Rightarrow> go_error option \<times> 'u list" where
  "RetryOnConflict 0 k f = (None, [])"
| "RetryOnConflict (Suc steps) k f =
     (case f k of
        (None, us) \<Rightarrow> (None, us)
      | (Some err, us) \<Rightarrow>
          if \<not> err_is Conflict err \<or> steps = 0 then (Some err, us)
          else let (e, us') = RetryOnConflict steps (Suc k) f in (e, us @ us'))"

record 'r platform_meta =
  pm_deletionTimestamp :: bool
  pm_ownerReferences :: "'r list"

record 'r owner_client =
  oc_get :: "nat \<Rightarrow> api_failure + 'r platform_meta"
  oc_update :: "nat \<Rightarrow> 'r list \<Rightarrow> api_failure option"
  oc_SetOwnerReference :: "'r list \<Rightarrow> go_error + 'r list"

definition ensure_attempt :: "'r owner_client \<Rightarrow> nat \<Rightarrow> go_error option \<times> 'r list list" where
  "ensure_attempt c k =
     (case oc_get c k of
        Inl err \<Rightarrow> (Some (api_error err), [])
      | Inr platform \<Rightarrow>
          if pm_deletionTimestamp platform then (None, [])
          else
            case oc_SetOwnerReference c (pm_ownerReferences platform) of
              Inl err \<Rightarrow> (Some (wrap ''failed to merge Platform owner reference'' err), [])
            | Inr refs \<Rightarrow>
                if refs = pm_ownerReferences platform then (None, [])
                else (map_option api_error (oc_update c k refs), [refs]))"

definition EnsurePlatformOwnerReference :: "'r owner_client \<Rightarrow> go_error option \<times> 'r list list" where
  "EnsurePlatformOwnerReference c = RetryOnConflict 5 0 (ensure_attempt c)"

section \<open>The namespace of the OpenTelemetry operator\<close>

record webhook_rule =
  wr_APIGroups :: "string list"
  wr_Resources :: "string list"

record webhook_service =
  svc_Namespace :: string
  svc_Name :: string

record webhook =
  wh_Service :: "webhook_service option"
  wh_Rules :: "webhook_rule list"

definition isOTelCollectorWebhook :: "webhook \<Rightarrow> bool" where
  "isOTelCollectorWebhook wh =
     (case wh_Service wh of
        None \<Rightarrow> False
      | Some service \<Rightarrow>
          if svc_Namespace service = '''' \<or> svc_Name service \<noteq> ''opentelemetry-operator-webhook-service'' then False
          else list_ex (\<lambda>rule.
            (''opentelemetry.io'' \<in> set (wr_APIGroups rule) \<or> ''*'' \<in> set (wr_APIGroups rule)) \<and>
            (''opentelemetrycollectors'' \<in> set (wr_Resources rule) \<or> ''*'' \<in> set (wr_Resources rule))) (wh_Rules wh))"

definition isOTelCollectorWebhookConfiguration :: "webhook list option \<Rightarrow> bool" where
  "isOTelCollectorWebhookConfiguration obj =
     (case obj of None \<Rightarrow> False | Some webhooks \<Rightarrow> list_ex isOTelCollectorWebhook webhooks)"

definition otel_namespaces :: "webhook list list \<Rightarrow> string list" where
  "otel_namespaces configurations =
     foldl (\<lambda>nss wh.
         if \<not> isOTelCollectorWebhook wh then nss
         else case wh_Service wh of
             None \<Rightarrow> nss
           | Some service \<Rightarrow> if svc_Namespace service \<in> set nss then nss else nss @ [svc_Namespace service])
       [] (concat configurations)"

definition resolveOTelOperatorNamespace :: "api_failure + webhook list list \<Rightarrow> go_error + string" where
  "resolveOTelOperatorNamespace listed =
     (case listed of
        Inl err \<Rightarrow> Inl (wrap ''listing validating webhooks'' (api_error err))
      | Inr configurations \<Rightarrow>
          (case otel_namespaces configurations of
             [] \<Rightarrow> Inr ''''
           | [namespace] \<Rightarrow> Inr namespace
           | nss \<Rightarrow> Inl (new_error (''collector admission webhooks target multiple namespaces: '' @
               strings_Join (sort nss) '', ''))))"

section \<open>The platform context\<close>

text \<open>
  What \<open>buildPlatformContext\<close> reads: the configured applications namespace, the DSCInitialization list
  at each of its reads, and the webhook configurations.
\<close>

record 'i platform_reads =
  pr_RHAIApplicationsNamespace :: string
  pr_DSCIs :: "nat \<Rightarrow> api_failure + 'i DSCInitialization list"
  pr_webhooks :: "api_failure + webhook list list"

definition DSCInitialization_gvk :: GVK where
  "DSCInitialization_gvk =
     \<lparr>gvk_Group = ''dscinitialization.opendatahub.io'', gvk_Version = ''v2'', gvk_Kind = ''DSCInitialization''\<rparr>"

definition gvk_String :: "GVK \<Rightarrow> string" where
  "gvk_String g = gvk_Group g @ ''/'' @ gvk_Version g @ '', Kind='' @ gvk_Kind g"

definition GetDSCI :: "api_failure + 'i DSCInitialization list \<Rightarrow> go_error + 'i DSCInitialization" where
  "GetDSCI listed =
     (case listed of
        Inl err \<Rightarrow> Inl (wrap (''failed to list resources of type '' @ gvk_String DSCInitialization_gvk) (api_error err))
      | Inr [dsci] \<Rightarrow> Inr dsci
      | Inr [] \<Rightarrow> Inl (GoError (''dscinitializations.dscinitialization.opendatahub.io '' @ quoted '''' @ '' not found'') [NotFound])
      | Inr items \<Rightarrow> Inl (new_error (''failed to get a valid '' @ gvk_String DSCInitialization_gvk @
            '' instance, expected to find 1 instance, found '' @ fmt_nat (length items))))"

definition ApplicationNamespace :: "string \<Rightarrow> api_failure + 'i DSCInitialization list \<Rightarrow> go_error + string" where
  "ApplicationNamespace ns listed =
     (if ns \<noteq> '''' then Inr ns
      else
        case GetDSCI listed of
          Inl err \<Rightarrow> Inl (wrap ''failed to get DSCInitialization'' err)
        | Inr dsci \<Rightarrow> Inr (di_ApplicationsNamespace dsci))"

definition MonitoringNamespace :: "api_failure + 'i DSCInitialization list \<Rightarrow> go_error + string" where
  "MonitoringNamespace listed =
     (case GetDSCI listed of
        Inl err \<Rightarrow>
          if err_is NotFound err then Inl (wrap ''MonitoringNamespace not available, DSCI not found'' err)
          else Inl (wrap ''failed to get DSCInitialization'' err)
      | Inr dsci \<Rightarrow> Inr (di_MonitoringNamespace dsci))"

datatype 's rr_instance = PlatformInstance Platform | DSCInstance "'s DataScienceCluster" | OtherInstance string

record 's ReconciliationRequest =
  rr_Instance :: "'s rr_instance"
  rr_UID :: string
  rr_ReleaseName :: string
  rr_ReleaseVersion :: string
  rr_ChartsBasePath :: string
  rr_ManifestsBasePath :: string
  rr_HelmCharts :: "HelmChartInfo list"
  rr_Manifests :: "ManifestInfo list"
  rr_ModuleEnvInjection :: "ModuleEnvInjection option"
  rr_GateEntries :: "(string, string) gomap"
  rr_Conditions :: "condition list"

definition modulesFromInstance :: "('s, 'i) module_reg \<Rightarrow> 's ReconciliationRequest \<Rightarrow> go_error + PlatformModules" where
  "modulesFromInstance reg rr =
     (case rr_Instance rr of
        PlatformInstance p \<Rightarrow> Inr (pf_Modules p)
      | DSCInstance dsc \<Rightarrow> Inr (BuildPlatformModulesForSource reg \<lparr>dx_DSC = Some dsc, dx_DSCI = None\<rparr> ConfigFromDSC)
      | OtherInstance ty \<Rightarrow> Inl (new_error (''cannot derive PlatformModules from instance type '' @ ty)))"

definition buildPlatformContext ::
  "('s, 'i) module_reg \<Rightarrow> 'i platform_reads \<Rightarrow> 's ReconciliationRequest \<Rightarrow> go_error + PlatformModules PlatformContext" where
  "buildPlatformContext reg rd rr =
     (case ApplicationNamespace (pr_RHAIApplicationsNamespace rd) (pr_DSCIs rd 0) of
        Inl err \<Rightarrow> Inl (wrap ''failed to resolve application namespace'' err)
      | Inr appNS \<Rightarrow>
          let monitoringNS = (case MonitoringNamespace (pr_DSCIs rd 1) of Inl _ \<Rightarrow> '''' | Inr ns \<Rightarrow> ns) in
          (case modulesFromInstance reg rr of
             Inl err \<Rightarrow> Inl err
           | Inr modules \<Rightarrow>
               (case (if at_or modules '''' ''Monitoring'' = ''Managed'' then resolveOTelOperatorNamespace (pr_webhooks rd)
                      else Inr '''') of
                  Inl err \<Rightarrow> Inl (wrap ''failed to resolve OpenTelemetry Operator namespace'' err)
                | Inr otelNS \<Rightarrow>
                    Inr \<lparr>px_ApplicationsNamespace = appNS, px_MonitoringNamespace = monitoringNS,
                         px_OTelOperatorNamespace = otelNS, px_ReleaseName = rr_ReleaseName rr,
                         px_ReleaseVersion = rr_ReleaseVersion rr, px_Modules = modules,
                         px_ChartsBasePath = rr_ChartsBasePath rr, px_ManifestsBasePath = rr_ManifestsBasePath rr\<rparr>)))"

section \<open>Properties\<close>

lemma at_or_forceManagementStateRemoved:
  "at_or (forceManagementStateRemoved pm) '''' f = (if at_or pm '''' f \<noteq> '''' then ''Removed'' else '''')"
  unfolding forceManagementStateRemoved_def at_or_def
  by (induction pm) (auto split: option.splits)

lemma populate_other_fields:
  assumes "\<And>e pm. e \<in> set es \<Longrightarrow> map_of (mh_PopulatePlatformModule (re_handler e) x pm) f = map_of pm f"
  shows "map_of (foldl (\<lambda>pm e. mh_PopulatePlatformModule (re_handler e) x pm) pm es) f = map_of pm f"
  using assms by (induction es arbitrary: pm) simp_all

lemma at_or_zero_PlatformModules [simp]: "at_or zero_PlatformModules '''' f = ''''"
proof -
  have "at_or (map (\<lambda>f. (f, '''')) fs) '''' f = ''''" for fs
    by (induction fs) (auto simp: at_or_def)
  then show ?thesis by (simp add: zero_PlatformModules_def)
qed

lemma source_unset:
  assumes "\<And>e x pm. e \<in> set (mod_sorted_entries reg) \<Longrightarrow> re_configSource e = source \<Longrightarrow>
      map_of (mh_PopulatePlatformModule (re_handler e) x pm) f = map_of pm f"
  shows "at_or (BuildPlatformModulesForSource reg x source) '''' f = ''''"
proof -
  let ?es = "filter (\<lambda>e. re_configSource e = source) (mod_sorted_entries reg)"
  have "map_of (foldl (\<lambda>pm e. mh_PopulatePlatformModule (re_handler e) x pm) zero_PlatformModules ?es) f =
      map_of zero_PlatformModules f"
    by (rule populate_other_fields) (use assms in auto)
  then have "at_or (BuildPlatformModulesForSource reg x source) '''' f = at_or zero_PlatformModules '''' f"
    by (simp add: BuildPlatformModulesForSource_def mod_ForConfigSource_def visit_no_error at_or_def)
  then show ?thesis by simp
qed

text \<open>
  Field ownership of the shared Platform CR. When every handler populates only its own field and no
  field belongs to modules of both configuration sources, the object one controller applies leaves
  unset every field the other controller's object sets, and the object applied on deletion says
  \<open>Removed\<close> for exactly the fields the source owns and leaves the others unset.
\<close>

theorem platform_sources_disjoint:
  assumes "\<And>e x pm f. e \<in> set (mod_sorted_entries reg) \<Longrightarrow> f \<noteq> fld e \<Longrightarrow>
      map_of (mh_PopulatePlatformModule (re_handler e) x pm) f = map_of pm f"
    and "\<And>e e'. e \<in> set (mod_sorted_entries reg) \<Longrightarrow> e' \<in> set (mod_sorted_entries reg) \<Longrightarrow>
      re_configSource e \<noteq> re_configSource e' \<Longrightarrow> fld e \<noteq> fld e'"
    and "source \<noteq> source'"
  shows "(at_or (pf_Modules (NewPlatformCR reg x source)) '''' f = '''' \<or>
      at_or (pf_Modules (NewPlatformCR reg x' source')) '''' f = '''') \<and>
    at_or (pf_Modules (NewPlatformCRRemovedForSource reg x source)) '''' f =
      (if at_or (pf_Modules (NewPlatformCR reg x source)) '''' f = '''' then '''' else ''Removed'')"
proof -
  have "at_or (BuildPlatformModulesForSource reg x source) '''' f = '''' \<or>
      at_or (BuildPlatformModulesForSource reg x' source') '''' f = ''''"
  proof (cases "\<exists>e \<in> set (mod_sorted_entries reg). re_configSource e = source \<and> fld e = f")
    case True
    with assms(2,3) have "\<forall>e' \<in> set (mod_sorted_entries reg). re_configSource e' = source' \<longrightarrow> fld e' \<noteq> f" by metis
    with source_unset [of reg source' f x'] assms(1) show ?thesis by metis
  next
    case False
    with source_unset [of reg source f x] assms(1) show ?thesis by metis
  qed
  then show ?thesis
    by (simp add: NewPlatformCR_def NewPlatformCRRemovedForSource_def Let_def at_or_forceManagementStateRemoved)
qed

text \<open>The set of namespaces the active collector webhooks point to.\<close>

definition collector_namespaces :: "webhook list list \<Rightarrow> string set" where
  "collector_namespaces cfgs =
     {svc_Namespace service | service wh. wh \<in> set (concat cfgs) \<and> isOTelCollectorWebhook wh \<and> wh_Service wh = Some service}"

lemma otel_namespaces_spec:
  "distinct (otel_namespaces cfgs) \<and> set (otel_namespaces cfgs) = collector_namespaces cfgs"
proof -
  let ?step = "\<lambda>nss wh. if \<not> isOTelCollectorWebhook wh then nss
      else case wh_Service wh of None \<Rightarrow> nss
        | Some service \<Rightarrow> if svc_Namespace service \<in> set nss then nss else nss @ [svc_Namespace service]"
  have "distinct (foldl ?step nss whs) \<and> set (foldl ?step nss whs) = set nss \<union> collector_namespaces [whs]"
    if "distinct nss" for nss whs
    using that
  proof (induction whs arbitrary: nss)
    case Nil
    then show ?case by (simp add: collector_namespaces_def)
  next
    case (Cons wh whs)
    have d: "distinct (?step nss wh)" using Cons.prems by (simp split: option.split)
    have "set (?step nss wh) \<union> collector_namespaces [whs] = set nss \<union> collector_namespaces [wh # whs]"
      by (auto simp: collector_namespaces_def split: option.splits)
    with Cons.IH [OF d] show ?case by simp
  qed
  from this [of "[]" "concat cfgs"] show ?thesis
    by (simp add: otel_namespaces_def collector_namespaces_def)
qed

text \<open>
  The OpenTelemetry operator's namespace. The lookup answers a namespace exactly when it is the only
  one that active collector webhooks point to, the empty string exactly when there is none, and an
  error otherwise; no webhook with an empty namespace counts.
\<close>

theorem otel_namespace_unambiguous:
  "(resolveOTelOperatorNamespace (Inr cfgs) = Inr ns) \<longleftrightarrow>
     (if ns = '''' then collector_namespaces cfgs = {} else collector_namespaces cfgs = {ns})"
proof -
  have ne: "'''' \<notin> collector_namespaces cfgs"
    by (auto simp: collector_namespaces_def isOTelCollectorWebhook_def)
  note sp = otel_namespaces_spec [of cfgs]
  consider "otel_namespaces cfgs = []" | n where "otel_namespaces cfgs = [n]"
    | a b rest where "otel_namespaces cfgs = a # b # rest" by (metis list.exhaust)
  then show ?thesis
  proof cases
    case 1
    with sp show ?thesis by (auto simp: resolveOTelOperatorNamespace_def)
  next
    case 2
    with sp have "collector_namespaces cfgs = {n}" by simp
    with 2 ne show ?thesis by (auto simp: resolveOTelOperatorNamespace_def)
  next
    case 3
    with sp have "collector_namespaces cfgs = insert a (insert b (set rest))" "a \<noteq> b" by auto
    with 3 show ?thesis by (auto simp: resolveOTelOperatorNamespace_def)
  qed
qed

lemma RetryOnConflict_updates:
  assumes "RetryOnConflict steps k f = (e, us)" and "\<forall>k. length (snd (f k)) \<le> 1"
  shows "length us \<le> steps \<and> (\<forall>u \<in> set us. \<exists>k e' us'. f k = (e', us') \<and> u \<in> set us') \<and>
    (e = None \<and> 0 < steps \<longrightarrow> (\<exists>k us'. f k = (None, us') \<and> (us' = [] \<or> us \<noteq> [] \<and> last us = last us')))"
  using assms(1)
proof (induction steps arbitrary: k e us)
  case (Suc steps)
  obtain e1 us1 where f: "f k = (e1, us1)" by fastforce
  with assms(2) have l: "length us1 \<le> 1" by (metis snd_conv)
  obtain e2 us2 where rec: "RetryOnConflict steps (Suc k) f = (e2, us2)" by fastforce
  note IH = Suc.IH [OF rec]
  show ?case
  proof (cases "\<exists>err. e1 = Some err \<and> err_is Conflict err \<and> steps \<noteq> 0")
    case True
    with Suc.prems f rec have eq: "e = e2" "us = us1 @ us2" by auto
    have "\<forall>u \<in> set us. \<exists>k e' us'. f k = (e', us') \<and> u \<in> set us'" using IH f eq(2) by auto
    moreover have "e = None \<longrightarrow> (\<exists>k us'. f k = (None, us') \<and> (us' = [] \<or> us \<noteq> [] \<and> last us = last us'))"
      using IH True eq by (cases "us2 = []") (auto simp: last_append)
    ultimately show ?thesis using IH l eq(2) by simp
  next
    case False
    with Suc.prems f have eq: "e = e1" "us = us1" by (auto split: option.splits if_splits)
    with f l show ?thesis by auto
  qed
qed simp

text \<open>
  What \<open>SetOwnerReference\<close> documents: it adds the reference to this owner, or updates the one there is
  (\<open>own\<close> recognises it), and keeps the others.
\<close>

definition merges_owner :: "('r \<Rightarrow> bool) \<Rightarrow> ('r list \<Rightarrow> go_error + 'r list) \<Rightarrow> bool" where
  "merges_owner own f \<longleftrightarrow>
     (\<forall>refs refs'. f refs = Inr refs' \<longrightarrow> (\<forall>r \<in> set refs. \<not> own r \<longrightarrow> r \<in> set refs') \<and> (\<exists>r \<in> set refs'. own r))"

lemma ensure_attempt_cases:
  assumes "merges_owner own (oc_SetOwnerReference c)"
    and "ensure_attempt c k = (e, us)"
  shows "length us \<le> 1"
    and "u \<in> set us \<Longrightarrow> \<exists>m. oc_get c k = Inr m \<and> \<not> pm_deletionTimestamp m \<and>
      (\<forall>r \<in> set (pm_ownerReferences m). \<not> own r \<longrightarrow> r \<in> set u) \<and> (\<exists>r \<in> set u. own r)"
    and "e = None \<Longrightarrow> \<exists>m. oc_get c k = Inr m \<and>
      (pm_deletionTimestamp m \<or> (\<exists>r \<in> set (pm_ownerReferences m). own r) \<or> (\<exists>u. us = [u] \<and> oc_update c k u = None))"
  using assms(2) unfolding ensure_attempt_def
  by (auto split: sum.splits if_splits dest: assms(1) [unfolded merges_owner_def, rule_format])

text \<open>
  Merging the owner reference. Every update sent for the shared Platform CR carries all references
  to other owners that the object just read had, plus one to this owner, and none is sent for an
  object being deleted; at most five updates are sent; success means that the Platform is being
  deleted, already had the reference, or that the last update was accepted.
\<close>

theorem owner_reference_merge:
  assumes "merges_owner own (oc_SetOwnerReference c)"
    and "EnsurePlatformOwnerReference c = (e, us)"
  shows "length us \<le> 5 \<and>
    (\<forall>u \<in> set us. \<exists>k m. oc_get c k = Inr m \<and> \<not> pm_deletionTimestamp m \<and>
       (\<forall>r \<in> set (pm_ownerReferences m). \<not> own r \<longrightarrow> r \<in> set u) \<and> (\<exists>r \<in> set u. own r)) \<and>
    (e = None \<longrightarrow> (\<exists>k m. oc_get c k = Inr m \<and>
       (pm_deletionTimestamp m \<or> (\<exists>r \<in> set (pm_ownerReferences m). own r) \<or>
        us \<noteq> [] \<and> oc_update c k (last us) = None)))"
proof -
  note at = ensure_attempt_cases [OF assms(1)]
  have one: "\<forall>k. length (snd (ensure_attempt c k)) \<le> 1" using at(1) by (metis surjective_pairing)
  note rt = RetryOnConflict_updates [OF assms(2) [unfolded EnsurePlatformOwnerReference_def] one]
  from rt have "length us \<le> 5" by blast
  moreover have "\<forall>u \<in> set us. \<exists>k m. oc_get c k = Inr m \<and> \<not> pm_deletionTimestamp m \<and>
       (\<forall>r \<in> set (pm_ownerReferences m). \<not> own r \<longrightarrow> r \<in> set u) \<and> (\<exists>r \<in> set u. own r)"
    using rt at(2) by metis
  moreover have "\<exists>k m. oc_get c k = Inr m \<and>
      (pm_deletionTimestamp m \<or> (\<exists>r \<in> set (pm_ownerReferences m). own r) \<or>
       us \<noteq> [] \<and> oc_update c k (last us) = None)" if "e = None"
  proof -
    from rt that obtain k us' where k: "ensure_attempt c k = (None, us')"
      "us' = [] \<or> us \<noteq> [] \<and> last us = last us'" by auto
    from at(3) [OF k(1) refl] k(2) show ?thesis by fastforce
  qed
  ultimately show ?thesis by blast
qed

definition demo_owner_client :: "string owner_client" where
  "demo_owner_client =
     \<lparr>oc_get = (\<lambda>k. Inr \<lparr>pm_deletionTimestamp = False, pm_ownerReferences = [''dsci'']\<rparr>),
      oc_update = (\<lambda>k refs. if k = 0 then Some (ApiFailure ''conflict'' ApiConflict) else None),
      oc_SetOwnerReference = (\<lambda>refs. Inr (if ''dsc'' \<in> set refs then refs else refs @ [''dsc'']))\<rparr>"

theorem owner_reference_merge_witness:
  "length (snd (EnsurePlatformOwnerReference demo_owner_client)) = 2 \<and>
   ''dsc'' \<in> set (last (snd (EnsurePlatformOwnerReference demo_owner_client)))"
proof -
  let ?e = "EnsurePlatformOwnerReference demo_owner_client"
  have "merges_owner (\<lambda>r. r = ''dsc'') (oc_SetOwnerReference demo_owner_client)"
    by (auto simp: merges_owner_def demo_owner_client_def split: if_splits)
  from owner_reference_merge [OF this, of "fst ?e" "snd ?e"] have "\<forall>u \<in> set (snd ?e). ''dsc'' \<in> set u" by auto
  moreover have two: "length (snd ?e) = 2" by code_simp
  then have "last (snd ?e) \<in> set (snd ?e)" by (metis last_in_set length_0_conv zero_neq_numeral)
  ultimately show ?thesis using two by blast
qed

definition demo_populating :: "string \<Rightarrow> (PlatformModules, (unit, unit) DSCContext) ModuleHandler" where
  "demo_populating fld =
     \<lparr>mh_GetName = fld, mh_IsEnabled = (\<lambda>pm. at_or pm '''' fld = ''Managed''),
      mh_GetGVK = \<lparr>gvk_Group = ''components'', gvk_Version = ''v1'', gvk_Kind = fld\<rparr>,
      mh_GetOperatorManifests = (\<lambda>_. \<lparr>om_HelmCharts = [\<lparr>hc_Chart = fld, hc_ReleaseName = fld,
        hc_ReleaseNamespace = ''odh'', hc_Values = []\<rparr>], om_Manifests = []\<rparr>),
      mh_PopulatePlatformModule = (\<lambda>_ pm. AList.update fld ''Managed'' pm), mh_GetRelatedImages = [],
      mh_GetModuleStatus = (\<lambda>_. Inr \<lparr>ms_Conditions = [cond ''Ready'' ''True'' '''' ''''], ms_ObservedGeneration = 1,
        ms_Generation = 1, ms_ReleaseVersion = '''', ms_Releases = []\<rparr>),
      mh_GetModuleCRState = (\<lambda>_. (CRStateAlive, None)), mh_DeleteModuleCR = (\<lambda>_. None),
      mh_DeleteOperatorResources = (\<lambda>_ _. None), mh_WriteDSCComponentStatus = (\<lambda>x _ _. Inr x),
      mh_WriteLegacyStatusFields = None, mh_ReadyConditionType = None, mh_ContainerName = None,
      mh_ControllerImage = None, mh_InitContainerName = None, mh_DeploymentName = None,
      mh_SubmoduleConditions = None, mh_ExtraEnv = None\<rparr>"

definition demo_platform_reg :: "(unit, unit) module_reg" where
  "demo_platform_reg =
     fst (mod_Add (demo_populating ''Monitoring'') [mod_WithConfigSource ConfigFromDSCI]
       (mod_Add (demo_populating ''Kserve'') [] (empty_mod_registry, NewRegistry)))"

lemma demo_platform_entries:
  "mod_sorted_entries demo_platform_reg =
     [\<lparr>re_handler = demo_populating ''Kserve'', re_enabled = True, re_runlevel = RL 99, re_configSource = ConfigFromDSC\<rparr>,
      \<lparr>re_handler = demo_populating ''Monitoring'', re_enabled = True, re_runlevel = RL 99, re_configSource = ConfigFromDSCI\<rparr>]"
proof -
  have n: "mh_GetName (demo_populating f) = f" for f by (simp add: demo_populating_def)
  have s: "sort [''Kserve'', ''Monitoring''] = [''Kserve'', ''Monitoring'']" by code_simp
  have "m_entries demo_platform_reg =
     [(''Kserve'', \<lparr>re_handler = demo_populating ''Kserve'', re_enabled = True, re_runlevel = RL 99, re_configSource = ConfigFromDSC\<rparr>),
      (''Monitoring'', \<lparr>re_handler = demo_populating ''Monitoring'', re_enabled = True, re_runlevel = RL 99, re_configSource = ConfigFromDSCI\<rparr>)]"
    by (simp add: demo_platform_reg_def mod_Add_def Let_def n empty_mod_registry_def)
  with s show ?thesis by (simp add: mod_sorted_entries_def mod_sortedNames_def List.map_filter_simps del: sort_key_simps)
qed

theorem platform_sources_disjoint_witness:
  "at_or (pf_Modules (NewPlatformCR demo_platform_reg \<lparr>dx_DSC = None, dx_DSCI = None\<rparr> ConfigFromDSC)) '''' ''Monitoring'' = '''' \<or>
   at_or (pf_Modules (NewPlatformCR demo_platform_reg \<lparr>dx_DSC = None, dx_DSCI = None\<rparr> ConfigFromDSCI)) '''' ''Monitoring'' = ''''"
proof -
  have own: "map_of (mh_PopulatePlatformModule (re_handler e) x pm) f = map_of pm f"
    if "e \<in> set (mod_sorted_entries demo_platform_reg)" "f \<noteq> re_name e" for e x pm f
    using that unfolding demo_platform_entries
    by (auto simp: re_name_def demo_populating_def update_conv')
  have dis: "re_name e \<noteq> re_name e'"
    if "e \<in> set (mod_sorted_entries demo_platform_reg)" "e' \<in> set (mod_sorted_entries demo_platform_reg)"
      "re_configSource e \<noteq> re_configSource e'" for e e'
    using that unfolding demo_platform_entries by (auto simp: re_name_def demo_populating_def)
  have "ConfigFromDSC \<noteq> ConfigFromDSCI" by simp
  from platform_sources_disjoint [where fld = re_name, OF own dis this] show ?thesis by blast
qed

end
