(* ===== verification/Module_Lifecycle.thy ===== *)
theory Module_Lifecycle
  imports Platform Startup Gates
begin

text \<open>
  The actions of the platform controller that run a module's lifecycle (\<open>modules_controller_actions.go\<close>):
  the cleanup of disabled modules, the finalizer that holds the Platform CR until every module CR is
  gone, provisioning along the unified DAG, and the upgrade gate check in front of the deployment.

  Each action takes the registry and the request and returns its errors with the updated state. An
  action that visits handlers through the registry's iterators returns the list of errors that
  \<open>multierror\<close> collects (empty for nil). Calls to the cluster are numbered: \<open>GetModuleCRState handler k\<close>
  is what the \<open>k\<close>-th call sees.
\<close>

section \<open>Environment injection\<close>

definition containerNameFor :: "('s, 'i) handler \<Rightarrow> string" where
  "containerNameFor h = (case mh_ContainerName h of Some n \<Rightarrow> n | None \<Rightarrow> ''manager'')"

definition readyConditionTypeFor :: "('s, 'i) handler \<Rightarrow> string" where
  "readyConditionTypeFor h = (case mh_ReadyConditionType h of Some ty \<Rightarrow> ty | None \<Rightarrow> gvk_Kind (mh_GetGVK h) @ ''Ready'')"

definition controllerImageFor :: "('s, 'i) handler \<Rightarrow> string" where
  "controllerImageFor h = (case mh_ControllerImage h of Some im \<Rightarrow> im | None \<Rightarrow> '''')"

definition initContainerNameFor :: "('s, 'i) handler \<Rightarrow> string" where
  "initContainerNameFor h = (case mh_InitContainerName h of Some n \<Rightarrow> n | None \<Rightarrow> '''')"

definition extraEnvFor :: "('s, 'i) handler \<Rightarrow> (string, string) gomap" where
  "extraEnvFor h = (case mh_ExtraEnv h of Some env \<Rightarrow> env | None \<Rightarrow> [])"

fun first_release :: "HelmChartInfo list \<Rightarrow> string option" where
  "first_release [] = None"
| "first_release (chart # charts) =
     (if hc_ReleaseName chart \<noteq> '''' then Some (hc_ReleaseName chart) else first_release charts)"

definition deploymentNameFor :: "('s, 'i) handler \<Rightarrow> OperatorManifests \<Rightarrow> string" where
  "deploymentNameFor h manifests =
     (case mh_DeploymentName h of
        Some (c # cs) \<Rightarrow> c # cs
      | _ \<Rightarrow> (case first_release (om_HelmCharts manifests) of Some n \<Rightarrow> n | None \<Rightarrow> mh_GetName h))"

definition moduleImagesFor :: "('s, 'i) handler \<Rightarrow> OperatorManifests \<Rightarrow> ModuleImages" where
  "moduleImagesFor h manifests =
     \<lparr>im_DeploymentName = deploymentNameFor h manifests, im_ContainerName = containerNameFor h,
      im_ControllerImage = controllerImageFor h, im_InitContainerName = initContainerNameFor h,
      im_Images = mh_GetRelatedImages h, im_ExtraEnv = extraEnvFor h\<rparr>"

definition appendModuleEnvInjection ::
  "string \<Rightarrow> string \<Rightarrow> string \<Rightarrow> ModuleImages \<Rightarrow> 's ReconciliationRequest \<Rightarrow> 's ReconciliationRequest" where
  "appendModuleEnvInjection applicationsNamespace monitoringNamespace platformType moduleImages rr =
     (let mei = (case rr_ModuleEnvInjection rr of
            None \<Rightarrow> \<lparr>mei_PerModuleImages = [], mei_ApplicationsNamespace = applicationsNamespace,
                     mei_MonitoringNamespace = monitoringNamespace, mei_PlatformType = platformType\<rparr>
          | Some mei \<Rightarrow>
              if mei_ApplicationsNamespace mei = '''' then mei\<lparr>mei_ApplicationsNamespace := applicationsNamespace\<rparr> else mei);
          mei = (if mei_MonitoringNamespace mei = '''' then mei\<lparr>mei_MonitoringNamespace := monitoringNamespace\<rparr> else mei);
          mei = (if mei_PlatformType mei = '''' then mei\<lparr>mei_PlatformType := platformType\<rparr> else mei)
      in rr\<lparr>rr_ModuleEnvInjection := Some (mei\<lparr>mei_PerModuleImages := mei_PerModuleImages mei @ [moduleImages]\<rparr>)\<rparr>)"

text \<open>The block that \<open>cleanupDisabledModules\<close> and \<open>provisionModules\<close> share.\<close>

definition appendOperatorManifests ::
  "PlatformModules PlatformContext \<Rightarrow> ('s, 'i) handler \<Rightarrow> 's ReconciliationRequest \<Rightarrow> 's ReconciliationRequest" where
  "appendOperatorManifests px handler rr =
     (let operatorManifests = mh_GetOperatorManifests handler px;
          rr = appendModuleEnvInjection (px_ApplicationsNamespace px) (px_MonitoringNamespace px) (px_ReleaseName px)
                 (moduleImagesFor handler operatorManifests) rr
      in rr\<lparr>rr_HelmCharts := rr_HelmCharts rr @ om_HelmCharts operatorManifests,
            rr_Manifests := rr_Manifests rr @ om_Manifests operatorManifests\<rparr>)"

section \<open>Cleanup of disabled modules\<close>

text \<open>
  The state of the cleanup: the number of cluster calls made, the request, and the names of the modules
  whose \<open>DeleteOperatorResources\<close> was called.
\<close>

record 's cleanup_state =
  cl_calls :: nat
  cl_rr :: "'s ReconciliationRequest"
  cl_deleted :: "string list"

definition cleanupOne ::
  "('s, 'i) module_reg \<Rightarrow> PlatformModules PlatformContext \<Rightarrow> ('s, 'i) handler \<Rightarrow> 's cleanup_state \<Rightarrow>
     go_error option \<times> 's cleanup_state" where
  "cleanupOne reg px handler st =
     (if mh_IsEnabled handler (px_Modules px) \<and> mod_IsEnabled (mh_GetName handler) reg then (None, st)
      else
        case mh_GetModuleCRState handler (cl_calls st) of
          (crState, Some err) \<Rightarrow> (Some (api_error err), st\<lparr>cl_calls := cl_calls st + 1\<rparr>)
        | (CRStateAbsent, None) \<Rightarrow>
            (mh_DeleteOperatorResources handler (cl_calls st + 1) px,
             st\<lparr>cl_calls := cl_calls st + 2, cl_deleted := cl_deleted st @ [mh_GetName handler]\<rparr>)
        | (CRStateAlive, None) \<Rightarrow>
            (None, st\<lparr>cl_calls := cl_calls st + 1, cl_rr := appendOperatorManifests px handler (cl_rr st)\<rparr>)
        | (CRStateDeleting, None) \<Rightarrow>
            (None, st\<lparr>cl_calls := cl_calls st + 1, cl_rr := appendOperatorManifests px handler (cl_rr st)\<rparr>))"

fun cleanup_entries ::
  "('s, 'i) module_reg \<Rightarrow> PlatformModules PlatformContext \<Rightarrow> UnifiedNode list \<Rightarrow> 's cleanup_state \<Rightarrow>
     go_error option \<times> 's cleanup_state" where
  "cleanup_entries reg px [] st = (None, st)"
| "cleanup_entries reg px (entry # es) st =
     (case mod_Lookup (n_name entry) reg of
        None \<Rightarrow> cleanup_entries reg px es st
      | Some handler \<Rightarrow>
          (case cleanupOne reg px handler st of
             (Some err, st') \<Rightarrow> (Some err, st')
           | (None, st') \<Rightarrow> cleanup_entries reg px es st'))"

text \<open>\<open>reverseBatchesAll\<close> is the package-level variable the action calls.\<close>

definition cleanupDisabledModules ::
  "('s, 'i) module_reg \<Rightarrow> 'i platform_reads \<Rightarrow> (go_error + UnifiedNode list list) \<Rightarrow> 's ReconciliationRequest \<Rightarrow>
     go_error list \<times> 's cleanup_state" where
  "cleanupDisabledModules reg rd reverseBatchesAll rr =
     (let st = \<lparr>cl_calls = 0, cl_rr = rr, cl_deleted = []\<rparr> in
      if \<not> mod_HasEntries reg then ([], st)
      else
        case buildPlatformContext reg rd rr of
          Inl err \<Rightarrow> ([err], st)
        | Inr px \<Rightarrow>
            (case reverseBatchesAll of
               Inl err \<Rightarrow> mod_ForAll (\<lambda>handler _. cleanupOne reg px handler) reg st
             | Inr reverseBatches \<Rightarrow>
                 (case cleanup_entries reg px (concat (map ModulesInBatch reverseBatches)) st of
                    (None, st') \<Rightarrow> ([], st')
                  | (Some err, st') \<Rightarrow> ([err], st'))))"

section \<open>The Platform finalizer\<close>

record finalizer_state =
  fz_calls :: nat
  fz_pending :: "string list"
  fz_deleted :: "string list"

definition finalize_one :: "('s, 'i) handler \<Rightarrow> finalizer_state \<Rightarrow> go_error option \<times> finalizer_state" where
  "finalize_one handler st =
     (let name = mh_GetName handler; k = fz_calls st in
      case mh_GetModuleCRState handler k of
        (state, Some stateErr) \<Rightarrow>
          (Some (wrap (''getting module CR state for '' @ name) (api_error stateErr)), st\<lparr>fz_calls := k + 1\<rparr>)
      | (CRStateAbsent, None) \<Rightarrow> (None, st\<lparr>fz_calls := k + 1\<rparr>)
      | (CRStateAlive, None) \<Rightarrow>
          (case mh_DeleteModuleCR handler (k + 1) of
             Some delErr \<Rightarrow>
               (Some (wrap (''deleting module CR '' @ name) delErr),
                st\<lparr>fz_calls := k + 2, fz_deleted := fz_deleted st @ [name]\<rparr>)
           | None \<Rightarrow>
               (None, st\<lparr>fz_calls := k + 2, fz_deleted := fz_deleted st @ [name], fz_pending := fz_pending st @ [name]\<rparr>))
      | (CRStateDeleting, None) \<Rightarrow> (None, st\<lparr>fz_calls := k + 1, fz_pending := fz_pending st @ [name]\<rparr>))"

definition waitForModuleCRDeletion :: "('s, 'i) module_reg \<Rightarrow> go_error list \<times> finalizer_state" where
  "waitForModuleCRDeletion reg =
     (let st = \<lparr>fz_calls = 0, fz_pending = [], fz_deleted = []\<rparr> in
      if \<not> mod_HasEntries reg then ([], st)
      else
        let (errs, st') = mod_ForAll (\<lambda>handler _. finalize_one handler) reg st in
        if errs \<noteq> [] then (errs, st')
        else if fz_pending st' \<noteq> [] then
          ([new_error (''waiting for module CRs to be deleted: '' @ strings_Join (fz_pending st') '', '')], st')
        else ([], st'))"

section \<open>Provisioning\<close>

text \<open>
  What the walk of \<open>provisionModules\<close> is given besides the module registry: the component registry with
  the list calls of its readiness checker, the clock, the DAG switch and the runlevel policies.
\<close>

record ('d, 'o, 'e) walk_env =
  we_components :: "'d comp_registry"
  we_list :: "nat \<Rightarrow> GVK \<Rightarrow> api_failure + 'o list"
  we_access :: "('o, 'e) accessor"
  we_now :: "nat \<Rightarrow> int"
  we_dagDisabled :: bool
  we_policies :: policy_overrides

definition provision_entry ::
  "('s, 'i) module_reg \<Rightarrow> PlatformModules PlatformContext \<Rightarrow> 's ReconciliationRequest \<Rightarrow> UnifiedNode \<Rightarrow> 's ReconciliationRequest" where
  "provision_entry reg px rr entry =
     (case mod_Lookup (n_name entry) reg of
        None \<Rightarrow> rr
      | Some handler \<Rightarrow>
          if \<not> mh_IsEnabled handler (px_Modules px) then rr else appendOperatorManifests px handler rr)"

definition provision_params ::
  "('d, 'o, 'e) walk_env \<Rightarrow> ('s, 'i) module_reg \<Rightarrow> PlatformModules PlatformContext \<Rightarrow> 's ReconciliationRequest \<Rightarrow>
     's ReconciliationRequest walk_params" where
  "provision_params env reg px rr =
     \<lparr>wp_checker = (\<lambda>k. NewCompositeChecker
        [component_IsReady \<lparr>crc_registry = we_components env, crc_list = we_list env k, crc_access = we_access env,
           crc_targetVersion = rr_ReleaseVersion rr\<rparr>,
         module_IsReady (mod_NewReadinessChecker reg (rr_ReleaseVersion rr) [WithPlatformModules (Some (px_Modules px))]) k]),
      wp_now = we_now env, wp_instanceID = rr_UID rr, wp_version = rr_ReleaseVersion rr,
      wp_dagDisabled = we_dagDisabled env, wp_policies = we_policies env,
      wp_processBatch = (\<lambda>batch rr. (None, foldl (provision_entry reg px) rr (ModulesInBatch batch)))\<rparr>"

definition provisionModules ::
  "('d, 'o, 'e) walk_env \<Rightarrow> ('s, 'i) module_reg \<Rightarrow> 'i platform_reads \<Rightarrow> UnifiedRegistry \<Rightarrow> StuckTracker \<Rightarrow>
     RunlevelTracker \<Rightarrow> 's ReconciliationRequest \<Rightarrow>
     go_error option \<times> 's ReconciliationRequest walk_state \<times> UnifiedRegistry" where
  "provisionModules env reg rd uni tracker runlevels rr =
     (if \<not> mod_HasEntries reg then (None, walk_start tracker runlevels rr, uni)
      else
        case buildPlatformContext reg rd rr of
          Inl err \<Rightarrow> (Some err, walk_start tracker runlevels rr, uni)
        | Inr px \<Rightarrow>
            (case WalkBatches (provision_params env reg px rr) uni tracker runlevels rr of
               ((requeueAfter, Some walkErr), s, uni') \<Rightarrow> (Some walkErr, s, uni')
             | ((requeueAfter, None), s, uni') \<Rightarrow>
                 (if requeueAfter > 0 then Some (GoError '''' [RequeueAfter requeueAfter]) else None, s, uni')))"

section \<open>The upgrade gate\<close>

definition modules_checkUpgradeGates ::
  "'b gate_fs \<Rightarrow> (go_error + string) \<Rightarrow> cm_client \<Rightarrow> ('s, 'i) module_reg \<Rightarrow> 'i platform_reads \<Rightarrow>
     's ReconciliationRequest \<Rightarrow> go_error option \<times> condition list \<times> cm_write list" where
  "modules_checkUpgradeGates fs operatorNamespace cli reg rd rr =
     (if \<not> mod_HasEntries reg then (None, [], [])
      else
        case buildPlatformContext reg rd rr of
          Inl err \<Rightarrow> (Some err, [], [])
        | Inr px \<Rightarrow>
            if \<not> AnyEnabled reg (px_Modules px) then (None, [], [])
            else CheckUpgradeGates fs operatorNamespace cli (rr_ReleaseVersion rr) (rr_GateEntries rr))"

section \<open>What the finalizer observes\<close>

lemma finalize_one_step:
  assumes "finalize_one h st = (err, st')"
  obtains s er where "mh_GetModuleCRState h (fz_calls st) = (s, er)"
    "fz_pending st' = fz_pending st @ (if err = None \<and> s \<noteq> CRStateAbsent then [mh_GetName h] else [])"
    "fz_deleted st' = fz_deleted st @ (if er = None \<and> s = CRStateAlive then [mh_GetName h] else [])"
    "err = None \<longleftrightarrow> er = None \<and> (s = CRStateAlive \<longrightarrow> mh_DeleteModuleCR h (fz_calls st + 1) = None)"
    "\<forall>x. err = Some x \<and> err_is StopError x \<longrightarrow> (\<exists>k y. mh_DeleteModuleCR h k = Some y \<and> err_is StopError y)"
proof (cases "mh_GetModuleCRState h (fz_calls st)")
  case (Pair s er)
  have nostop: "\<not> err_is StopError (api_error f)" for f by (simp add: api_error_def split: api_kind.splits)
  show thesis
    by (rule that [of s er])
      (use Pair assms nostop in \<open>auto simp: finalize_one_def Let_def split: option.splits CRState.splits intro: exI [of _ "Suc (fz_calls st)"]\<close>)
qed

lemma finalize_visit:
  assumes "visit (\<lambda>e. finalize_one (re_handler e)) es st = (errs, st')"
  shows "\<exists>ps ds. fz_pending st' = fz_pending st @ ps \<and> fz_deleted st' = fz_deleted st @ ds \<and>
    (errs = [] \<and> ps = [] \<longrightarrow> (\<forall>e \<in> set es. \<exists>k. mh_GetModuleCRState (re_handler e) k = (CRStateAbsent, None))) \<and>
    ((\<forall>e \<in> set es. \<forall>k. mh_GetModuleCRState (re_handler e) k = (CRStateAbsent, None)) \<longrightarrow> errs = [] \<and> ps = []) \<and>
    (\<forall>n \<in> set ds. \<exists>e \<in> set es. mh_GetName (re_handler e) = n \<and> (\<exists>k. mh_GetModuleCRState (re_handler e) k = (CRStateAlive, None))) \<and>
    (\<forall>e \<in> set es. (\<forall>k. mh_GetModuleCRState (re_handler e) k = (CRStateAlive, None)) \<longrightarrow> mh_GetName (re_handler e) \<in> set ds) \<and>
    (\<forall>x \<in> set errs. err_is StopError x \<longrightarrow>
       (\<exists>e \<in> set es. \<exists>k y. mh_DeleteModuleCR (re_handler e) k = Some y \<and> err_is StopError y))"
  using assms
proof (induction es arbitrary: st errs st')
  case Nil
  then show ?case by simp
next
  case (Cons e es)
  obtain err st1 where f: "finalize_one (re_handler e) st = (err, st1)" by fastforce
  obtain errs2 where rec: "visit (\<lambda>e. finalize_one (re_handler e)) es st1 = (errs2, st')"
    and errs: "errs = (case err of None \<Rightarrow> errs2 | Some x \<Rightarrow> x # errs2)"
    using Cons.prems f by (auto simp: Let_def split: prod.splits)
  from f obtain s er where st: "mh_GetModuleCRState (re_handler e) (fz_calls st) = (s, er)"
    "fz_pending st1 = fz_pending st @ (if err = None \<and> s \<noteq> CRStateAbsent then [mh_GetName (re_handler e)] else [])"
    "fz_deleted st1 = fz_deleted st @ (if er = None \<and> s = CRStateAlive then [mh_GetName (re_handler e)] else [])"
    "err = None \<longleftrightarrow> er = None \<and> (s = CRStateAlive \<longrightarrow> mh_DeleteModuleCR (re_handler e) (fz_calls st + 1) = None)"
    "\<forall>x. err = Some x \<and> err_is StopError x \<longrightarrow> (\<exists>k y. mh_DeleteModuleCR (re_handler e) k = Some y \<and> err_is StopError y)"
    by (rule finalize_one_step)
  from Cons.IH [OF rec] obtain ps ds where IH: "fz_pending st' = fz_pending st1 @ ps" "fz_deleted st' = fz_deleted st1 @ ds"
    "errs2 = [] \<and> ps = [] \<longrightarrow> (\<forall>e \<in> set es. \<exists>k. mh_GetModuleCRState (re_handler e) k = (CRStateAbsent, None))"
    "(\<forall>e \<in> set es. \<forall>k. mh_GetModuleCRState (re_handler e) k = (CRStateAbsent, None)) \<longrightarrow> errs2 = [] \<and> ps = []"
    "\<forall>n \<in> set ds. \<exists>e \<in> set es. mh_GetName (re_handler e) = n \<and> (\<exists>k. mh_GetModuleCRState (re_handler e) k = (CRStateAlive, None))"
    "\<forall>e \<in> set es. (\<forall>k. mh_GetModuleCRState (re_handler e) k = (CRStateAlive, None)) \<longrightarrow> mh_GetName (re_handler e) \<in> set ds"
    "\<forall>x \<in> set errs2. err_is StopError x \<longrightarrow>
       (\<exists>e \<in> set es. \<exists>k y. mh_DeleteModuleCR (re_handler e) k = Some y \<and> err_is StopError y)" by blast
  let ?p = "if err = None \<and> s \<noteq> CRStateAbsent then [mh_GetName (re_handler e)] else []"
  let ?d = "if er = None \<and> s = CRStateAlive then [mh_GetName (re_handler e)] else []"
  show ?case
  proof (rule exI [of _ "?p @ ps"], rule exI [of _ "?d @ ds"], intro conjI impI)
    show "fz_pending st' = fz_pending st @ ?p @ ps" "fz_deleted st' = fz_deleted st @ ?d @ ds"
      using IH(1,2) st(2,3) by simp_all
    show "\<forall>e \<in> set (e # es). \<exists>k. mh_GetModuleCRState (re_handler e) k = (CRStateAbsent, None)"
      if "errs = [] \<and> ?p @ ps = []"
      using that errs st(1,4) IH(3) by (auto split: option.splits if_splits)
    assume "\<forall>e \<in> set (e # es). \<forall>k. mh_GetModuleCRState (re_handler e) k = (CRStateAbsent, None)"
    then show "errs = []" "?p @ ps = []" using errs st(1,4) IH(4) by auto
  next
    show "\<forall>n \<in> set (?d @ ds). \<exists>e' \<in> set (e # es). mh_GetName (re_handler e') = n \<and>
        (\<exists>k. mh_GetModuleCRState (re_handler e') k = (CRStateAlive, None))"
      using st(1) IH(5) by auto
    show "\<forall>e' \<in> set (e # es). (\<forall>k. mh_GetModuleCRState (re_handler e') k = (CRStateAlive, None)) \<longrightarrow>
        mh_GetName (re_handler e') \<in> set (?d @ ds)"
      using st(1) IH(6) by auto
    show "\<forall>x \<in> set errs. err_is StopError x \<longrightarrow>
       (\<exists>e' \<in> set (e # es). \<exists>k y. mh_DeleteModuleCR (re_handler e') k = Some y \<and> err_is StopError y)"
      using errs st(5) IH(7) by (auto split: option.splits)
  qed
qed

section \<open>What the cleanup does\<close>

definition provisionable :: "('s, 'i) module_reg \<Rightarrow> PlatformModules \<Rightarrow> ('s, 'i) handler \<Rightarrow> bool" where
  "provisionable reg pm h \<longleftrightarrow> mh_IsEnabled h pm \<and> mod_IsEnabled (mh_GetName h) reg"

definition kept :: "PlatformModules PlatformContext \<Rightarrow> ('s, 'i) handler \<Rightarrow> 's ReconciliationRequest \<Rightarrow> bool" where
  "kept px h rr \<longleftrightarrow> set (om_HelmCharts (mh_GetOperatorManifests h px)) \<subseteq> set (rr_HelmCharts rr) \<and>
     set (om_Manifests (mh_GetOperatorManifests h px)) \<subseteq> set (rr_Manifests rr)"

definition rr_grows :: "'s ReconciliationRequest \<Rightarrow> 's ReconciliationRequest \<Rightarrow> bool" where
  "rr_grows rr rr' \<longleftrightarrow> set (rr_HelmCharts rr) \<subseteq> set (rr_HelmCharts rr') \<and> set (rr_Manifests rr) \<subseteq> set (rr_Manifests rr') \<and>
     rr_Instance rr' = rr_Instance rr"

lemma rr_grows_trans: "rr_grows a b \<Longrightarrow> rr_grows b c \<Longrightarrow> rr_grows a c"
  by (auto simp: rr_grows_def)

lemma kept_grows: "kept px h rr \<Longrightarrow> rr_grows rr rr' \<Longrightarrow> kept px h rr'"
  unfolding kept_def rr_grows_def by blast

lemma appendModuleEnvInjection_sel [simp]:
  "rr_HelmCharts (appendModuleEnvInjection a m t im rr) = rr_HelmCharts rr"
  "rr_Manifests (appendModuleEnvInjection a m t im rr) = rr_Manifests rr"
  "rr_Instance (appendModuleEnvInjection a m t im rr) = rr_Instance rr"
  by (simp_all add: appendModuleEnvInjection_def Let_def)

lemma appendOperatorManifests_sel [simp]:
  "rr_HelmCharts (appendOperatorManifests px h rr) = rr_HelmCharts rr @ om_HelmCharts (mh_GetOperatorManifests h px)"
  "rr_Manifests (appendOperatorManifests px h rr) = rr_Manifests rr @ om_Manifests (mh_GetOperatorManifests h px)"
  "rr_Instance (appendOperatorManifests px h rr) = rr_Instance rr"
  by (simp_all add: appendOperatorManifests_def Let_def)

text \<open>The contract of one cleanup pass over the handlers \<open>hs\<close>.\<close>

definition cleanup_ok ::
  "('s, 'i) module_reg \<Rightarrow> PlatformModules PlatformContext \<Rightarrow> ('s, 'i) handler list \<Rightarrow> bool \<Rightarrow>
     's cleanup_state \<Rightarrow> 's cleanup_state \<Rightarrow> bool" where
  "cleanup_ok reg px hs ok st st' \<longleftrightarrow>
     rr_grows (cl_rr st) (cl_rr st') \<and>
     (\<exists>ds. cl_deleted st' = cl_deleted st @ ds \<and>
        (\<forall>n \<in> set ds. \<exists>h \<in> set hs. mh_GetName h = n \<and> \<not> provisionable reg (px_Modules px) h \<and>
           (\<exists>k. mh_GetModuleCRState h k = (CRStateAbsent, None))) \<and>
        (ok \<longrightarrow> (\<forall>h \<in> set hs. \<not> provisionable reg (px_Modules px) h \<longrightarrow>
           ((\<forall>k. fst (mh_GetModuleCRState h k) \<noteq> CRStateAbsent) \<longrightarrow> kept px h (cl_rr st')) \<and>
           ((\<forall>k. mh_GetModuleCRState h k = (CRStateAbsent, None)) \<longrightarrow> mh_GetName h \<in> set ds))))"

lemma cleanup_ok_Nil [simp]: "cleanup_ok reg px [] ok st st"
  by (simp add: cleanup_ok_def rr_grows_def)

lemma cleanup_ok_Cons:
  assumes "cleanup_ok reg px [h] ok1 st st1" and "cleanup_ok reg px hs ok st1 st'" and "ok \<longrightarrow> ok1"
  shows "cleanup_ok reg px (h # hs) ok st st'"
proof -
  from assms(1) obtain d1 where d1: "cl_deleted st1 = cl_deleted st @ d1" "rr_grows (cl_rr st) (cl_rr st1)"
    "\<forall>n \<in> set d1. mh_GetName h = n \<and> \<not> provisionable reg (px_Modules px) h \<and> (\<exists>k. mh_GetModuleCRState h k = (CRStateAbsent, None))"
    "ok1 \<longrightarrow> \<not> provisionable reg (px_Modules px) h \<longrightarrow>
           ((\<forall>k. fst (mh_GetModuleCRState h k) \<noteq> CRStateAbsent) \<longrightarrow> kept px h (cl_rr st1)) \<and>
           ((\<forall>k. mh_GetModuleCRState h k = (CRStateAbsent, None)) \<longrightarrow> mh_GetName h \<in> set d1)"
    unfolding cleanup_ok_def by auto
  from assms(2) obtain d2 where d2: "cl_deleted st' = cl_deleted st1 @ d2" "rr_grows (cl_rr st1) (cl_rr st')"
    "\<forall>n \<in> set d2. \<exists>h \<in> set hs. mh_GetName h = n \<and> \<not> provisionable reg (px_Modules px) h \<and>
           (\<exists>k. mh_GetModuleCRState h k = (CRStateAbsent, None))"
    "ok \<longrightarrow> (\<forall>h \<in> set hs. \<not> provisionable reg (px_Modules px) h \<longrightarrow>
           ((\<forall>k. fst (mh_GetModuleCRState h k) \<noteq> CRStateAbsent) \<longrightarrow> kept px h (cl_rr st')) \<and>
           ((\<forall>k. mh_GetModuleCRState h k = (CRStateAbsent, None)) \<longrightarrow> mh_GetName h \<in> set d2))"
    unfolding cleanup_ok_def by auto
  have "kept px h (cl_rr st')" if "kept px h (cl_rr st1)" using kept_grows [OF that d2(2)] .
  then show ?thesis
    unfolding cleanup_ok_def using d1 d2 assms(3) rr_grows_trans [OF d1(2) d2(2)]
    by (intro conjI exI [of _ "d1 @ d2"]) auto
qed

lemma cleanup_ok_fail:
  assumes "cleanup_ok reg px hs ok st st'" and "set hs \<subseteq> set hs'"
  shows "cleanup_ok reg px hs' False st st'"
proof -
  from assms(1) obtain ds where "rr_grows (cl_rr st) (cl_rr st')" "cl_deleted st' = cl_deleted st @ ds"
    "\<forall>n \<in> set ds. \<exists>h \<in> set hs. mh_GetName h = n \<and> \<not> provisionable reg (px_Modules px) h \<and>
       (\<exists>k. mh_GetModuleCRState h k = (CRStateAbsent, None))"
    unfolding cleanup_ok_def by blast
  moreover from this(3) assms(2) have "\<forall>n \<in> set ds. \<exists>h \<in> set hs'. mh_GetName h = n \<and>
       \<not> provisionable reg (px_Modules px) h \<and> (\<exists>k. mh_GetModuleCRState h k = (CRStateAbsent, None))" by blast
  ultimately show ?thesis unfolding cleanup_ok_def by blast
qed

lemma cleanupOne_ok:
  assumes "cleanupOne reg px h st = (err, st')"
  shows "cleanup_ok reg px [h] (err = None) st st'"
proof (cases "provisionable reg (px_Modules px) h")
  case True
  with assms have "st' = st" by (simp add: cleanupOne_def provisionable_def)
  with True show ?thesis by (simp add: cleanup_ok_def rr_grows_def)
next
  case False
  obtain s er where g: "mh_GetModuleCRState h (cl_calls st) = (s, er)" by fastforce
  have F: "\<not> (mh_IsEnabled h (px_Modules px) \<and> mod_IsEnabled (mh_GetName h) reg)"
    using False by (simp add: provisionable_def)
  have gk: "\<exists>k. mh_GetModuleCRState h k = (CRStateAbsent, None)" if "s = CRStateAbsent" "er = None"
    using g that by metis
  have abs: "s = CRStateAbsent \<and> er = None" if "\<forall>k. mh_GetModuleCRState h k = (CRStateAbsent, None)"
    using that g by auto
  have ex: "s \<noteq> CRStateAbsent" if "\<forall>k. fst (mh_GetModuleCRState h k) \<noteq> CRStateAbsent"
    using that g by (metis fst_conv)
  show ?thesis
  proof (cases er)
    case (Some f)
    with assms F g have "err = Some (api_error f)" "st' = st\<lparr>cl_calls := cl_calls st + 1\<rparr>"
      by (cases s; simp add: cleanupOne_def)+
    then show ?thesis by (simp add: cleanup_ok_def rr_grows_def)
  next
    case None
    show ?thesis
    proof (cases "s = CRStateAbsent")
      case True
      with assms F g None have "cl_rr st' = cl_rr st" "cl_deleted st' = cl_deleted st @ [mh_GetName h]"
        by (auto simp: cleanupOne_def)
      with False gk True None ex show ?thesis by (auto simp: cleanup_ok_def rr_grows_def)
    next
      case nab: False
      with assms F g None have "cl_rr st' = appendOperatorManifests px h (cl_rr st)" "cl_deleted st' = cl_deleted st"
        by (cases s; auto simp: cleanupOne_def)+
      with nab abs show ?thesis by (auto simp: cleanup_ok_def rr_grows_def kept_def)
    qed
  qed
qed

lemma cleanup_entries_ok:
  assumes "cleanup_entries reg px ns st = (err, st')"
  shows "cleanup_ok reg px (List.map_filter (\<lambda>n. mod_Lookup (n_name n) reg) ns) (err = None) st st'"
  using assms
proof (induction ns arbitrary: st)
  case Nil
  then show ?case by (simp add: List.map_filter_simps)
next
  case (Cons n ns)
  show ?case
  proof (cases "mod_Lookup (n_name n) reg")
    case None
    with Cons show ?thesis by (simp add: List.map_filter_simps)
  next
    case (Some h)
    obtain e1 st1 where one: "cleanupOne reg px h st = (e1, st1)" by fastforce
    note ok1 = cleanupOne_ok [OF one]
    show ?thesis
    proof (cases e1)
      case None
      with Cons Some one have "cleanup_ok reg px (List.map_filter (\<lambda>n. mod_Lookup (n_name n) reg) ns) (err = None) st1 st'"
        by simp
      from cleanup_ok_Cons [OF ok1 this] None Some show ?thesis by (simp add: List.map_filter_simps)
    next
      case (Some e)
      with Cons.prems \<open>mod_Lookup (n_name n) reg = Some h\<close> one have "err = Some e" "st' = st1" by auto
      moreover have "cleanup_ok reg px (h # hs) False st st1" for hs
        by (rule cleanup_ok_fail [OF ok1]) simp
      ultimately show ?thesis using \<open>mod_Lookup (n_name n) reg = Some h\<close> by (simp add: List.map_filter_simps)
    qed
  qed
qed

lemma cleanup_visit_ok:
  assumes "visit (\<lambda>e. cleanupOne reg px (re_handler e)) es st = (errs, st')"
  shows "cleanup_ok reg px (map re_handler es) (errs = []) st st'"
  using assms
proof (induction es arbitrary: st errs)
  case (Cons e es)
  obtain e1 st1 where one: "cleanupOne reg px (re_handler e) st = (e1, st1)" by fastforce
  obtain es2 where rec: "visit (\<lambda>e. cleanupOne reg px (re_handler e)) es st1 = (es2, st')"
    and errs: "errs = (case e1 of None \<Rightarrow> es2 | Some x \<Rightarrow> x # es2)"
    using Cons.prems one by (auto simp: Let_def split: prod.splits)
  have "cleanup_ok reg px (map re_handler es) (errs = []) st1 st'"
  proof (cases e1)
    case None
    with errs have "(errs = []) = (es2 = [])" by simp
    with Cons.IH [OF rec] show ?thesis by (simp only:)
  next
    case (Some x)
    with errs have "(errs = []) = False" by simp
    with cleanup_ok_fail [OF Cons.IH [OF rec] order_refl] show ?thesis by (simp only:)
  qed
  moreover have "errs = [] \<longrightarrow> e1 = None" using errs by (cases e1) simp_all
  ultimately show ?case using cleanup_ok_Cons [OF cleanupOne_ok [OF one]] by (simp only: list.map)
qed simp

lemma cleanup_covers_modules:
  assumes "in_step s" and "ReverseBatchesAll (sys_uni s) = Inr bs"
  shows "set (List.map_filter (\<lambda>n. mod_Lookup (n_name n) (sys_mod s)) (concat (map ModulesInBatch bs))) =
    {h. \<exists>n. mod_Lookup n (sys_mod s) = Some h}"
proof -
  from assms(1) have wf: "unified_wf (sys_uni s)" and nodes: "\<And>n. map_of (u_nodes (sys_uni s)) n = node_of s n"
    by (auto simp: in_step_def)
  let ?all = "map (at_or (u_nodes (sys_uni s)) zero_node) (u_order (sys_uni s))"
  have "set (concat (rev (map rev xs))) = set (concat xs)" for xs :: "UnifiedNode list list" by auto
  moreover have "bs = rev (map rev (runlevel_batches n_name n_runlevel ?all))"
    using assms(2) by (simp add: ReverseBatchesAll_eq [OF wf])
  ultimately have "set (concat bs) = set ?all" by (simp only: set_concat_runlevel_batches)
  then have mods: "set (concat (map ModulesInBatch bs)) = {n \<in> set ?all. n_kind n = KindModule}"
    by (auto simp: ModulesInBatch_def filterBatch_def)
  have "h \<in> (\<lambda>n. the (mod_Lookup (n_name n) (sys_mod s))) ` {n \<in> set ?all. n_kind n = KindModule \<and> mod_Lookup (n_name n) (sys_mod s) \<noteq> None}"
    if h: "mod_Lookup nm (sys_mod s) = Some h" for nm h
  proof -
    from h obtain e where "map_of (m_entries (sys_mod s)) nm = Some e" by (auto simp: mod_Lookup_def)
    then obtain nd where nd: "map_of (u_nodes (sys_uni s)) nm = Some nd" "n_kind nd = KindModule" "n_name nd = nm"
      by (auto simp: nodes node_of_def)
    then have "nm \<in> set (u_order (sys_uni s))"
      using wf by (metis domI dom_map_of_conv_image_fst unified_wf_def)
    moreover have "at_or (u_nodes (sys_uni s)) zero_node nm = nd" using nd(1) by (simp add: at_or_def)
    ultimately have "nd \<in> set ?all" by auto
    with nd h show ?thesis by force
  qed
  with mods show ?thesis by (fastforce simp: List.map_filter_def image_iff)
qed

lemma cleanup_pass:
  assumes "in_step s" and "rb = ReverseBatchesAll (sys_uni s) \<or> (\<exists>e. rb = Inl e)"
    and "buildPlatformContext (sys_mod s) rd rr = Inr px" and "mod_HasEntries (sys_mod s)"
    and "cleanupDisabledModules (sys_mod s) rd rb rr = (errs, st)"
  obtains hs where "cleanup_ok (sys_mod s) px hs (errs = []) \<lparr>cl_calls = 0, cl_rr = rr, cl_deleted = []\<rparr> st"
    and "set hs = {h. \<exists>n. mod_Lookup n (sys_mod s) = Some h}"
proof -
  let ?st0 = "\<lparr>cl_calls = 0, cl_rr = rr, cl_deleted = []\<rparr>"
  from assms(1) have wf: "mod_wf (sys_mod s)" by (simp add: in_step_def)
  show thesis
  proof (cases rb)
    case (Inl e)
    with assms(3-5) have "visit (\<lambda>e. cleanupOne (sys_mod s) px (re_handler e)) (mod_sorted_entries (sys_mod s)) ?st0 = (errs, st)"
      by (simp add: cleanupDisabledModules_def mod_ForAll_def Let_def)
    moreover have "set (map re_handler (mod_sorted_entries (sys_mod s))) = {h. \<exists>n. mod_Lookup n (sys_mod s) = Some h}"
      by (auto simp: mod_Lookup_entry [OF wf])
    ultimately show thesis using that cleanup_visit_ok by metis
  next
    case (Inr bs)
    with assms(2) have rb: "ReverseBatchesAll (sys_uni s) = Inr bs" by auto
    obtain e st1 where ce: "cleanup_entries (sys_mod s) px (concat (map ModulesInBatch bs)) ?st0 = (e, st1)" by fastforce
    with assms(3-5) Inr have "st1 = st" "(errs = []) = (e = None)"
      by (auto simp: cleanupDisabledModules_def Let_def split: option.splits)
    with cleanup_entries_ok [OF ce] that cleanup_covers_modules [OF assms(1) rb] show thesis by simp
  qed
qed

text \<open>
  C38. Cleanup follows the module CR. Operator resources are deleted only for modules that are not
  provisioned and whose CR was observed absent. When the cleanup succeeds, a module that is not
  provisioned keeps all its charts and manifests in the request as long as its CR is there (alive or
  being deleted), so its operator can process finalizers, and has its operator resources deleted
  when the CR is gone, whether the reverse order was resolved or the alphabetical fallback was used.
\<close>

theorem cleanup_follows_module_cr:
  assumes "in_step s" and "rb = ReverseBatchesAll (sys_uni s) \<or> (\<exists>e. rb = Inl e)"
    and "buildPlatformContext (sys_mod s) rd rr = Inr px"
    and "cleanupDisabledModules (sys_mod s) rd rb rr = (errs, st)"
  shows "(\<forall>n \<in> set (cl_deleted st). \<exists>h. mod_Lookup n (sys_mod s) = Some h \<and>
      \<not> provisionable (sys_mod s) (px_Modules px) h \<and> (\<exists>k. mh_GetModuleCRState h k = (CRStateAbsent, None))) \<and>
    (errs = [] \<longrightarrow> (\<forall>n h. mod_Lookup n (sys_mod s) = Some h \<and> \<not> provisionable (sys_mod s) (px_Modules px) h \<longrightarrow>
      ((\<forall>k. fst (mh_GetModuleCRState h k) \<noteq> CRStateAbsent) \<longrightarrow> kept px h (cl_rr st)) \<and>
      ((\<forall>k. mh_GetModuleCRState h k = (CRStateAbsent, None)) \<longrightarrow> n \<in> set (cl_deleted st))))"
proof (cases "mod_HasEntries (sys_mod s)")
  case False
  with assms(4) have "mod_Lookup n (sys_mod s) = None" "cl_deleted st = []" for n
    by (auto simp: cleanupDisabledModules_def mod_HasEntries_def mod_Lookup_def Let_def)
  then show ?thesis by simp
next
  case True
  let ?st0 = "\<lparr>cl_calls = 0, cl_rr = rr, cl_deleted = []\<rparr>"
  from assms(1) have wf: "mod_wf (sys_mod s)" by (simp add: in_step_def)
  obtain hs where ok: "cleanup_ok (sys_mod s) px hs (errs = []) ?st0 st"
    and hs: "set hs = {h. \<exists>n. mod_Lookup n (sys_mod s) = Some h}"
    by (rule cleanup_pass [OF assms(1-3) True assms(4)])
  have nm: "mh_GetName h = n" if "mod_Lookup n (sys_mod s) = Some h" for n h
    using that mod_Lookup_entry [OF wf] by blast
  then have lk: "mod_Lookup (mh_GetName h) (sys_mod s) = Some h" if "h \<in> set hs" for h
    using that hs by auto
  show ?thesis
    using ok lk nm hs unfolding cleanup_ok_def by (auto 0 4)
qed

text \<open>
  C39. The Platform CR waits for the modules. The finalizer returns without error only if every
  registered module's CR was observed absent, and does so when all of them stay absent. It requests
  the deletion of exactly CRs it observed alive, and none of its errors is a stop error (which would
  end the finalizer) unless a handler's own deletion returns one.
\<close>

theorem finalizer_holds_platform:
  assumes "mod_wf reg" and "waitForModuleCRDeletion reg = (errs, st)"
    and "\<forall>n h k e. mod_Lookup n reg = Some h \<and> mh_DeleteModuleCR h k = Some e \<longrightarrow> \<not> err_is StopError e"
  shows "(errs = [] \<longrightarrow> (\<forall>n h. mod_Lookup n reg = Some h \<longrightarrow> (\<exists>k. mh_GetModuleCRState h k = (CRStateAbsent, None)))) \<and>
    ((\<forall>n h k. mod_Lookup n reg = Some h \<longrightarrow> mh_GetModuleCRState h k = (CRStateAbsent, None)) \<longrightarrow> errs = []) \<and>
    (\<forall>n \<in> set (fz_deleted st). \<exists>h k. mod_Lookup n reg = Some h \<and> mh_GetModuleCRState h k = (CRStateAlive, None)) \<and>
    (\<forall>n h. mod_Lookup n reg = Some h \<and> (\<forall>k. mh_GetModuleCRState h k = (CRStateAlive, None)) \<longrightarrow> n \<in> set (fz_deleted st)) \<and>
    (\<forall>e \<in> set errs. \<not> err_is StopError e)"
proof (cases "mod_HasEntries reg")
  case False
  then have "mod_Lookup n reg = None" for n by (simp add: mod_HasEntries_def mod_Lookup_def)
  with False assms(2) show ?thesis by (auto simp: waitForModuleCRDeletion_def Let_def)
next
  case True
  let ?st0 = "\<lparr>fz_calls = 0, fz_pending = [], fz_deleted = []\<rparr>" and ?es = "mod_sorted_entries reg"
  obtain errs1 st1 where v: "visit (\<lambda>e. finalize_one (re_handler e)) ?es ?st0 = (errs1, st1)" by fastforce
  with True assms(2) have st: "st = st1" and
    errs: "errs = (if errs1 \<noteq> [] then errs1 else if fz_pending st1 \<noteq> [] then
       [new_error (''waiting for module CRs to be deleted: '' @ strings_Join (fz_pending st1) '', '')] else [])"
    by (auto simp: waitForModuleCRDeletion_def mod_ForAll_def Let_def split: if_splits)
  note fv = finalize_visit [OF v]
  have ex: "(\<exists>n. mod_Lookup n reg = Some h) \<longleftrightarrow> (\<exists>e \<in> set ?es. re_handler e = h)" for h
    using mod_Lookup_entry [OF assms(1)] by blast
  have lk: "mod_Lookup n reg = Some h \<longleftrightarrow> (\<exists>e \<in> set ?es. re_handler e = h) \<and> mh_GetName h = n" for n h
    using mod_Lookup_entry [OF assms(1)] by blast
  have nostop: "\<forall>e \<in> set ?es. \<forall>k y. mh_DeleteModuleCR (re_handler e) k = Some y \<longrightarrow> \<not> err_is StopError y"
    using assms(3) lk by blast
  have "errs = [] \<longleftrightarrow> errs1 = [] \<and> fz_pending st1 = []" using errs by simp
  moreover have "\<forall>e \<in> set errs. \<not> err_is StopError e" using fv nostop errs by (auto split: if_splits)
  ultimately show ?thesis using fv lk unfolding st by (auto 0 4)
qed

section \<open>A concrete platform for witnesses\<close>

definition demo_lifecycle :: "(unit, PlatformModules, (unit, unit) DSCContext) system" where
  "demo_lifecycle =
     startup (\<lambda>_. False) [] []
       [\<lparr>rg_Handler = demo_populating ''Kserve'', rg_Runlevel = RL 20, rg_ConfigSource = ConfigFromDSC\<rparr>,
        \<lparr>rg_Handler = demo_populating ''Ray'', rg_Runlevel = RL 30, rg_ConfigSource = ConfigFromDSC\<rparr>]"

definition demo_reads :: "unit platform_reads" where
  "demo_reads = \<lparr>pr_RHAIApplicationsNamespace = ''odh'', pr_DSCIs = (\<lambda>_. Inr []), pr_webhooks = Inr []\<rparr>"

definition demo_rr :: "PlatformModules \<Rightarrow> unit ReconciliationRequest" where
  "demo_rr pm =
     \<lparr>rr_Instance = PlatformInstance \<lparr>pf_APIVersion = ''config.opendatahub.io/v1alpha2'', pf_Kind = ''Platform'',
        pf_Name = ''default'', pf_Modules = pm\<rparr>,
      rr_UID = ''uid'', rr_ReleaseName = ''Open Data Hub'', rr_ReleaseVersion = ''3.0.0'', rr_ChartsBasePath = ''/charts'',
      rr_ManifestsBasePath = '''', rr_HelmCharts = [], rr_Manifests = [], rr_ModuleEnvInjection = None,
      rr_GateEntries = [], rr_Conditions = []\<rparr>"

definition demo_px :: "PlatformModules \<Rightarrow> PlatformModules PlatformContext" where
  "demo_px pm =
     \<lparr>px_ApplicationsNamespace = ''odh'', px_MonitoringNamespace = '''', px_OTelOperatorNamespace = '''',
      px_ReleaseName = ''Open Data Hub'', px_ReleaseVersion = ''3.0.0'', px_Modules = pm,
      px_ChartsBasePath = ''/charts'', px_ManifestsBasePath = ''''\<rparr>"

lemma demo_lifecycle_in_step: "in_step demo_lifecycle"
  unfolding demo_lifecycle_def by (rule in_step_startup) simp

lemma demo_context:
  "at_or pm '''' ''Monitoring'' \<noteq> ''Managed'' \<Longrightarrow> buildPlatformContext reg demo_reads (demo_rr pm) = Inr (demo_px pm)"
  by (simp add: buildPlatformContext_def demo_reads_def ApplicationNamespace_def MonitoringNamespace_def GetDSCI_def
      modulesFromInstance_def demo_rr_def demo_px_def)

lemma demo_lookup:
  "mod_Lookup ''Kserve'' (sys_mod demo_lifecycle) = Some (demo_populating ''Kserve'')"
  "mod_Lookup ''Ray'' (sys_mod demo_lifecycle) = Some (demo_populating ''Ray'')"
proof -
  have n: "mh_GetName (demo_populating f) = f" for f by (simp add: demo_populating_def)
  show "mod_Lookup ''Kserve'' (sys_mod demo_lifecycle) = Some (demo_populating ''Kserve'')"
    "mod_Lookup ''Ray'' (sys_mod demo_lifecycle) = Some (demo_populating ''Ray'')"
    by (simp_all add: demo_lifecycle_def startup_def registerModules_def register_module_def mod_Lookup_def mod_Add_def
        registerComponents_def empty_system_def empty_mod_registry_def flags_IsModuleEnabled_def Let_def n)
qed

theorem cleanup_follows_module_cr_witness:
  "fst (cleanupDisabledModules (sys_mod demo_lifecycle) demo_reads (ReverseBatchesAll (sys_uni demo_lifecycle)) (demo_rr [])) = [] \<and>
   kept (demo_px []) (demo_populating ''Kserve'')
     (cl_rr (snd (cleanupDisabledModules (sys_mod demo_lifecycle) demo_reads (ReverseBatchesAll (sys_uni demo_lifecycle)) (demo_rr []))))"
proof -
  let ?c = "cleanupDisabledModules (sys_mod demo_lifecycle) demo_reads (ReverseBatchesAll (sys_uni demo_lifecycle)) (demo_rr [])"
  have ok: "fst ?c = []" by code_simp
  have "\<not> provisionable (sys_mod demo_lifecycle) (px_Modules (demo_px [])) (demo_populating ''Kserve'')"
    by (simp add: provisionable_def demo_populating_def demo_px_def)
  moreover have "\<forall>k. fst (mh_GetModuleCRState (demo_populating ''Kserve'') k) \<noteq> CRStateAbsent"
    by (simp add: demo_populating_def)
  moreover have "?c = (fst ?c, snd ?c)" by simp
  ultimately show ?thesis
    using cleanup_follows_module_cr [OF demo_lifecycle_in_step _ demo_context, of "ReverseBatchesAll (sys_uni demo_lifecycle)" "[]" "fst ?c" "snd ?c"]
      ok demo_lookup(1) by auto
qed

theorem finalizer_holds_platform_witness:
  "fst (waitForModuleCRDeletion (sys_mod demo_lifecycle)) \<noteq> [] \<and>
   ''Kserve'' \<in> set (fz_deleted (snd (waitForModuleCRDeletion (sys_mod demo_lifecycle))))"
proof -
  let ?w = "waitForModuleCRDeletion (sys_mod demo_lifecycle)"
  have wf: "mod_wf (sys_mod demo_lifecycle)" using demo_lifecycle_in_step by (simp add: in_step_def)
  have names: "mod_Lookup n (sys_mod demo_lifecycle) = Some h \<Longrightarrow> n = ''Kserve'' \<or> n = ''Ray''" for n h
  proof -
    have "fst ` set (m_entries (sys_mod demo_lifecycle)) = {''Kserve'', ''Ray''}" by code_simp
    then show "mod_Lookup n (sys_mod demo_lifecycle) = Some h \<Longrightarrow> n = ''Kserve'' \<or> n = ''Ray''"
      using mod_names [of n "sys_mod demo_lifecycle"] by auto
  qed
  have "mh_DeleteModuleCR h k = None" if "mod_Lookup n (sys_mod demo_lifecycle) = Some h" for n h k
    using names [OF that] that demo_lookup by (auto simp: demo_populating_def)
  then have "\<forall>n h k e. mod_Lookup n (sys_mod demo_lifecycle) = Some h \<and> mh_DeleteModuleCR h k = Some e \<longrightarrow> \<not> err_is StopError e"
    by fastforce
  from finalizer_holds_platform [OF wf _ this, of "fst ?w" "snd ?w"]
  have "(fst ?w = [] \<longrightarrow> (\<exists>k. mh_GetModuleCRState (demo_populating ''Kserve'') k = (CRStateAbsent, None))) \<and>
      ((\<forall>k. mh_GetModuleCRState (demo_populating ''Kserve'') k = (CRStateAlive, None)) \<longrightarrow> ''Kserve'' \<in> set (fz_deleted (snd ?w)))"
    using demo_lookup(1) by auto
  then show ?thesis by (simp add: demo_populating_def)
qed

section \<open>What provisioning adds\<close>

lemma WalkBatches_folds:
  assumes "unified_coherent reg" and "\<And>b rr. wp_processBatch p b rr = (None, g b rr)"
    and "WalkBatches p reg tr rl rr = ((q, err), s, reg')"
  shows "err = None \<and> ws_rr s = foldl (\<lambda>rr b. g b rr) rr (map snd (ws_processed s))"
proof -
  obtain s1 where w: "walk_loop p [] (unified_fresh reg) (walk_start tr rl rr) = (err, s1)"
    and s: "s = s1\<lparr>ws_conditions := ws_conditions s\<rparr>"
    using WalkBatches_loop [OF assms(1,3)] by metis
  let ?inv = "\<lambda>s. ws_rr s = foldl (\<lambda>rr b. g b rr) rr (map snd (ws_processed s))"
  have "?inv (walk_start tr rl rr)" by simp
  then have "err = None \<and> ?inv s1"
  proof (rule walk_loop_rule [where P = "\<lambda>_. ?inv" and Q = "\<lambda>err s. err = None \<and> ?inv s", OF _ _ _ _ _ unified_fresh_nonempty order_refl w])
    show "?inv (batch_done p prev first r (hand_over p first (first # others) s'))"
      if "?inv s" "gate_batch p prev first s = Proceed s'" "wp_processBatch p (first # others) (ws_rr s') = (None, r)"
      for prev first others s s' r
      using that gate_frame [OF that(2)] assms(2) by (simp add: batch_done_def hand_over_def)
  qed (use assms(2) gate_break_frame in \<open>fastforce+\<close>)
  moreover have "ws_rr s = ws_rr s1" "ws_processed s = ws_processed s1" by (subst s, simp)+
  ultimately show ?thesis by simp
qed

text \<open>The handlers that the batches handed over give to provisioning, in order.\<close>

definition provisioned ::
  "('s, 'i) module_reg \<Rightarrow> PlatformModules \<Rightarrow> UnifiedNode list list \<Rightarrow> ('s, 'i) handler list" where
  "provisioned reg pm batches =
     filter (\<lambda>h. mh_IsEnabled h pm)
       (List.map_filter (\<lambda>n. mod_Lookup (n_name n) reg) (concat (map ModulesInBatch batches)))"

lemma provision_foldl:
  "foldl (provision_entry reg px) rr ns =
     foldl (\<lambda>rr h. appendOperatorManifests px h rr) rr
       (filter (\<lambda>h. mh_IsEnabled h (px_Modules px)) (List.map_filter (\<lambda>n. mod_Lookup (n_name n) reg) ns))"
  by (induction ns arbitrary: rr) (auto simp: provision_entry_def List.map_filter_simps split: option.splits)

lemma append_foldl:
  "rr_HelmCharts (foldl (\<lambda>rr h. appendOperatorManifests px h rr) rr hs) =
     rr_HelmCharts rr @ concat (map (\<lambda>h. om_HelmCharts (mh_GetOperatorManifests h px)) hs) \<and>
   rr_Manifests (foldl (\<lambda>rr h. appendOperatorManifests px h rr) rr hs) =
     rr_Manifests rr @ concat (map (\<lambda>h. om_Manifests (mh_GetOperatorManifests h px)) hs)"
  by (induction hs arbitrary: rr) simp_all

text \<open>
  Provisioning adds exactly what it hands over. The charts and manifests the action appends to the
  request are those of the enabled modules of the batches handed over, in the order of the batches;
  the action fails only with a request to requeue after a positive delay.
\<close>

theorem provision_adds_handed_over_modules:
  assumes "unified_coherent uni" and "mod_HasEntries reg" and "buildPlatformContext reg rd rr = Inr px"
    and "provisionModules env reg rd uni tr rl rr = (err, s, uni')"
  shows "rr_HelmCharts (ws_rr s) = rr_HelmCharts rr @ concat (map (\<lambda>h. om_HelmCharts (mh_GetOperatorManifests h px))
      (provisioned reg (px_Modules px) (map snd (ws_processed s)))) \<and>
    rr_Manifests (ws_rr s) = rr_Manifests rr @ concat (map (\<lambda>h. om_Manifests (mh_GetOperatorManifests h px))
      (provisioned reg (px_Modules px) (map snd (ws_processed s)))) \<and>
    (err = None \<or> (\<exists>q > 0. err = Some (GoError '''' [RequeueAfter q])))"
proof -
  let ?p = "provision_params env reg px rr"
  let ?g = "\<lambda>batch rr. foldl (provision_entry reg px) rr (ModulesInBatch batch)"
  obtain q werr where w: "WalkBatches ?p uni tr rl rr = ((q, werr), s, uni')"
    using assms(2-4) by (auto simp: provisionModules_def split: option.splits prod.splits)
  have "wp_processBatch ?p b rr = (None, ?g b rr)" for b rr by (simp add: provision_params_def)
  from WalkBatches_folds [OF assms(1) this w] have werr: "werr = None"
    and rr: "ws_rr s = foldl (\<lambda>rr b. ?g b rr) rr (map snd (ws_processed s))" by auto
  have "foldl (\<lambda>rr b. ?g b rr) r bs = foldl (provision_entry reg px) r (concat (map ModulesInBatch bs))" for r bs
    by (induction bs arbitrary: r) simp_all
  with rr have "ws_rr s = foldl (\<lambda>rr h. appendOperatorManifests px h rr) rr (provisioned reg (px_Modules px) (map snd (ws_processed s)))"
    by (simp add: provision_foldl provisioned_def)
  moreover have "err = (if q > 0 then Some (GoError '''' [RequeueAfter q]) else None)"
    using assms(2-4) w werr by (simp add: provisionModules_def)
  ultimately show ?thesis using append_foldl [of px rr] by auto
qed

text \<open>
  No module is torn down and provisioned at once. In a reconcile that runs the cleanup and then the
  provisioning on its result, no module whose operator resources the cleanup deleted is among those
  provisioned.
\<close>

theorem cleanup_and_provision_disjoint:
  assumes "in_step s" and "rb = ReverseBatchesAll (sys_uni s) \<or> (\<exists>e. rb = Inl e)"
    and "buildPlatformContext (sys_mod s) rd rr = Inr px"
    and "cleanupDisabledModules (sys_mod s) rd rb rr = (errs, st)"
    and "buildPlatformContext (sys_mod s) rd' (cl_rr st) = Inr px'"
    and "provisionModules env (sys_mod s) rd' (sys_uni s) tr rl (cl_rr st) = (err, w, uni')"
  shows "set (cl_deleted st) \<inter> mh_GetName ` set (provisioned (sys_mod s) (px_Modules px') (map snd (ws_processed w))) = {}"
proof (cases "mod_HasEntries (sys_mod s)")
  case False
  with assms(4) show ?thesis by (auto simp: cleanupDisabledModules_def Let_def)
next
  case True
  from assms(1) have wf: "mod_wf (sys_mod s)" and coh: "unified_coherent (sys_uni s)" by (auto simp: in_step_def)
  obtain hs where ok: "cleanup_ok (sys_mod s) px hs (errs = []) \<lparr>cl_calls = 0, cl_rr = rr, cl_deleted = []\<rparr> st"
    and hs: "set hs = {h. \<exists>n. mod_Lookup n (sys_mod s) = Some h}"
    by (rule cleanup_pass [OF assms(1-3) True assms(4)])
  have same: "px_Modules px' = px_Modules px"
  proof -
    have m: "modulesFromInstance reg r = Inr (px_Modules p)" if "buildPlatformContext reg x r = Inr p"
      for reg :: "('b, 'c) module_reg" and x r p
      using that by (auto simp: buildPlatformContext_def Let_def split: sum.splits if_splits)
    have "rr_Instance (cl_rr st) = rr_Instance rr" using ok by (simp add: cleanup_ok_def rr_grows_def)
    with m [OF assms(3)] m [OF assms(5)] show ?thesis by (simp add: modulesFromInstance_def)
  qed
  obtain q werr where w: "WalkBatches (provision_params env (sys_mod s) px' (cl_rr st)) (sys_uni s) tr rl (cl_rr st) = ((q, werr), w, uni')"
    using assms(5,6) True by (auto simp: provisionModules_def split: option.splits prod.splits)
  have "provisionable (sys_mod s) (px_Modules px) h \<and> mod_Lookup (mh_GetName h) (sys_mod s) = Some h"
    if "h \<in> set (provisioned (sys_mod s) (px_Modules px') (map snd (ws_processed w)))" for h
  proof -
    from that obtain n where n: "n \<in> set (concat (map snd (ws_processed w)))" "n_kind n = KindModule"
      "mod_Lookup (n_name n) (sys_mod s) = Some h" and en: "mh_IsEnabled h (px_Modules px')"
      by (fastforce simp: provisioned_def List.map_filter_def ModulesInBatch_def filterBatch_def)
    obtain m where "map snd (ws_processed w) = take m (unified_fresh (sys_uni s))"
      by (rule WalkBatches_prefix [OF coh w])
    with n(1) have "n \<in> set (concat (unified_fresh (sys_uni s)))" by (auto dest: in_set_takeD)
    from batch_node_enabled [OF assms(1) this] n(2) have "mod_IsEnabled (n_name n) (sys_mod s)" by simp
    moreover have "mh_GetName h = n_name n" using n(3) mod_Lookup_entry [OF wf] by blast
    ultimately show ?thesis using en same n(3) by (simp add: provisionable_def)
  qed
  moreover have "\<exists>h. mod_Lookup n (sys_mod s) = Some h \<and> \<not> provisionable (sys_mod s) (px_Modules px) h"
    if n: "n \<in> set (cl_deleted st)" for n
  proof -
    from ok n obtain h where "h \<in> set hs" "mh_GetName h = n" "\<not> provisionable (sys_mod s) (px_Modules px) h"
      unfolding cleanup_ok_def by auto
    with hs mod_Lookup_entry [OF wf] show ?thesis by auto
  qed
  ultimately show ?thesis by fastforce
qed

definition demo_walk_env :: "(unit, unit, unit) walk_env" where
  "demo_walk_env =
     \<lparr>we_components = empty_comp_registry, we_list = (\<lambda>_ _. Inr []),
      we_access = \<lparr>ux_slice = (\<lambda>_ _. Inr None), ux_fields = (\<lambda>_. None)\<rparr>,
      we_now = (\<lambda>_. 0), we_dagDisabled = False, we_policies = []\<rparr>"

text \<open>Kserve is managed and Ray is not: the cleanup keeps Ray's operator, provisioning adds Kserve's.\<close>

definition demo_modules :: PlatformModules where
  "demo_modules = [(''Kserve'', ''Managed'')]"

definition demo_provision ::
  "unit ReconciliationRequest \<Rightarrow> go_error option \<times> unit ReconciliationRequest walk_state \<times> UnifiedRegistry" where
  "demo_provision rr =
     provisionModules demo_walk_env (sys_mod demo_lifecycle) demo_reads (sys_uni demo_lifecycle) NewStuckTracker zero_tracker rr"

theorem provision_adds_handed_over_modules_witness:
  "map hc_ReleaseName (rr_HelmCharts (ws_rr (fst (snd (demo_provision (demo_rr demo_modules)))))) = [''Kserve'']"
proof -
  let ?r = "demo_provision (demo_rr demo_modules)"
  let ?bs = "map snd (ws_processed (fst (snd ?r)))"
  have coh: "unified_coherent (sys_uni demo_lifecycle)" using demo_lifecycle_in_step by (simp add: in_step_def)
  have ne: "mod_HasEntries (sys_mod demo_lifecycle)" by code_simp
  have px: "buildPlatformContext (sys_mod demo_lifecycle) demo_reads (demo_rr demo_modules) = Inr (demo_px demo_modules)"
    by (rule demo_context) (simp add: demo_modules_def at_or_def)
  have r: "provisionModules demo_walk_env (sys_mod demo_lifecycle) demo_reads (sys_uni demo_lifecycle) NewStuckTracker
      zero_tracker (demo_rr demo_modules) = (fst ?r, fst (snd ?r), snd (snd ?r))" by (simp add: demo_provision_def)
  let ?hs = "provisioned (sys_mod demo_lifecycle) (px_Modules (demo_px demo_modules)) ?bs"
  have "rr_HelmCharts (ws_rr (fst (snd ?r))) = rr_HelmCharts (demo_rr demo_modules) @
      concat (map (\<lambda>h. om_HelmCharts (mh_GetOperatorManifests h (demo_px demo_modules))) ?hs)"
    using provision_adds_handed_over_modules [OF coh ne px r] by (rule conjunct1)
  moreover have "map hc_ReleaseName (rr_HelmCharts (demo_rr demo_modules) @
      concat (map (\<lambda>h. om_HelmCharts (mh_GetOperatorManifests h (demo_px demo_modules))) ?hs)) = [''Kserve'']"
    by code_simp
  ultimately show ?thesis by (simp only:)
qed

theorem cleanup_and_provision_disjoint_witness:
  "''Ray'' \<notin> set (cl_deleted (snd (cleanupDisabledModules (sys_mod demo_lifecycle) demo_reads
     (ReverseBatchesAll (sys_uni demo_lifecycle)) (demo_rr [(''Ray'', ''Managed'')]))))"
proof -
  let ?c = "cleanupDisabledModules (sys_mod demo_lifecycle) demo_reads (ReverseBatchesAll (sys_uni demo_lifecycle))
     (demo_rr [(''Ray'', ''Managed'')])"
  let ?px = "demo_px [(''Ray'', ''Managed'')]"
  let ?p = "demo_provision (cl_rr (snd ?c))"
  have px: "buildPlatformContext (sys_mod demo_lifecycle) demo_reads (demo_rr [(''Ray'', ''Managed'')]) = Inr ?px"
    by (rule demo_context) (simp add: at_or_def)
  have c: "?c = (fst ?c, snd ?c)" by simp
  have px': "buildPlatformContext (sys_mod demo_lifecycle) demo_reads (cl_rr (snd ?c)) = Inr ?px" by code_simp
  have p: "provisionModules demo_walk_env (sys_mod demo_lifecycle) demo_reads (sys_uni demo_lifecycle) NewStuckTracker
      zero_tracker (cl_rr (snd ?c)) = (fst ?p, fst (snd ?p), snd (snd ?p))" by (simp add: demo_provision_def)
  have "mh_GetName ` set (provisioned (sys_mod demo_lifecycle) (px_Modules ?px) (map snd (ws_processed (fst (snd ?p))))) = {''Ray''}"
    by code_simp
  with cleanup_and_provision_disjoint [OF demo_lifecycle_in_step disjI1 [OF refl] px c px' p] show ?thesis by simp
qed

end
