(* ===== verification/Module_Status.thy ===== *)
theory Module_Status
  imports Module_Lifecycle
begin

text \<open>
  The status of the modules on the DataScienceCluster and on the Platform CR
  (\<open>modules_controller_actions.go\<close>): the evaluation of the module CRs, the aggregate \<open>ModulesReady\<close>, the
  per-module conditions and the mirrored submodule conditions.

  The conditions written through the manager are collected in order. \<open>MarkTrue\<close> writes a condition with
  empty reason and message.
\<close>

section \<open>Evaluation\<close>

record ('s, 'i) perModuleResult =
  pmr_handler :: "('s, 'i) handler"
  pmr_condition :: condition
  pmr_enabled :: bool
  pmr_ready :: bool
  pmr_degraded :: bool
  pmr_moduleStatus :: "ModuleStatus option"
  pmr_submodules :: "('s, 'i) DSCContext SubmoduleCondition list"

record ('s, 'i) modulesEvaluation =
  ev_perModule :: "('s, 'i) perModuleResult list"
  ev_notReady :: "string list"
  ev_degraded :: "string list"
  ev_crdAbsent :: "string list"
  ev_pendingCleanup :: "string list"
  ev_enabledCount :: nat

definition empty_evaluation :: "('s, 'i) modulesEvaluation" where
  "empty_evaluation =
     \<lparr>ev_perModule = [], ev_notReady = [], ev_degraded = [], ev_crdAbsent = [], ev_pendingCleanup = [], ev_enabledCount = 0\<rparr>"

definition submoduleConditionsFor :: "('s, 'i) handler \<Rightarrow> ('s, 'i) DSCContext SubmoduleCondition list" where
  "submoduleConditionsFor h = (case mh_SubmoduleConditions h of Some sms \<Rightarrow> sms | None \<Rightarrow> [])"

text \<open>The loop over the conditions of the module CR: \<open>ready\<close>, \<open>degraded\<close> and the Ready condition found last.\<close>

fun scan_conditions :: "condition list \<Rightarrow> bool \<times> bool \<times> condition option \<Rightarrow> bool \<times> bool \<times> condition option" where
  "scan_conditions [] acc = acc"
| "scan_conditions (c # cs) (ready, degraded, readyCond) =
     scan_conditions cs
       (if cType c = ''Ready'' then (cStatus c = ConditionTrue, degraded, Some c)
        else if cType c = ''Degraded'' then (ready, cStatus c = ConditionTrue, readyCond)
        else (ready, degraded, readyCond))"

definition stale :: "ModuleStatus \<Rightarrow> bool" where
  "stale ms \<longleftrightarrow> ms_ObservedGeneration ms > 0 \<and> ms_ObservedGeneration ms < ms_Generation ms"

definition disabled_result :: "('s, 'i) handler \<Rightarrow> ('s, 'i) perModuleResult" where
  "disabled_result handler =
     \<lparr>pmr_handler = handler,
      pmr_condition = (cond (readyConditionTypeFor handler) ConditionFalse ''Removed''
        ''Module ManagementState is set to Removed'')\<lparr>cSeverity := ConditionSeverityInfo\<rparr>,
      pmr_enabled = False, pmr_ready = False, pmr_degraded = False, pmr_moduleStatus = None,
      pmr_submodules = submoduleConditionsFor handler\<rparr>"

definition failed_result :: "('s, 'i) handler \<Rightarrow> string \<Rightarrow> ('s, 'i) perModuleResult" where
  "failed_result handler message =
     \<lparr>pmr_handler = handler,
      pmr_condition = cond (readyConditionTypeFor handler) ConditionFalse ''NotReady'' message,
      pmr_enabled = True, pmr_ready = False, pmr_degraded = False, pmr_moduleStatus = None,
      pmr_submodules = submoduleConditionsFor handler\<rparr>"

definition reported_condition :: "string \<Rightarrow> CRState \<Rightarrow> condition option \<Rightarrow> condition" where
  "reported_condition condType crState readyCond =
     (if crState = CRStateDeleting then cond condType ConditionFalse ''Deleting'' ''Component CR is being deleted''
      else
        case readyCond of
          Some rc \<Rightarrow> cond condType (cStatus rc) (cReason rc) (cMessage rc)
        | None \<Rightarrow> cond condType ConditionFalse ''NotReady'' ''Module has not reported a Ready condition yet'')"

definition evaluate_module ::
  "(('s, 'i) handler \<Rightarrow> bool) \<Rightarrow> ('s, 'i) handler \<Rightarrow> nat \<times> ('s, 'i) modulesEvaluation \<Rightarrow> nat \<times> ('s, 'i) modulesEvaluation" where
  "evaluate_module isEnabled handler st =
     (let (k, eval) = st; name = mh_GetName handler in
      if \<not> isEnabled handler then
        let eval = eval\<lparr>ev_perModule := ev_perModule eval @ [disabled_result handler]\<rparr> in
        (Suc k,
         case mh_GetModuleCRState handler k of
           (crState, crErr) \<Rightarrow>
             if crErr \<noteq> None \<or> crState \<noteq> CRStateAbsent
             then eval\<lparr>ev_pendingCleanup := ev_pendingCleanup eval @ [name]\<rparr> else eval)
      else
        let eval = eval\<lparr>ev_enabledCount := ev_enabledCount eval + 1\<rparr> in
        case mh_GetModuleStatus handler k of
          Inl err \<Rightarrow>
            (Suc k, eval\<lparr>ev_notReady := ev_notReady eval @ [name],
               ev_crdAbsent := (if err_is NoMatch (api_error err) then ev_crdAbsent eval @ [name] else ev_crdAbsent eval),
               ev_perModule := ev_perModule eval @ [failed_result handler (''Failed to get module status: '' @ af_text err)]\<rparr>)
        | Inr moduleStatus \<Rightarrow>
            if stale moduleStatus then
              (Suc k, eval\<lparr>ev_notReady := ev_notReady eval @ [name @ '' (stale)''],
                 ev_perModule := ev_perModule eval @
                   [failed_result handler ''Module status is stale (observedGeneration < generation)'']\<rparr>)
            else
              let (ready, degraded, readyCond) = scan_conditions (ms_Conditions moduleStatus) (False, False, None);
                  crState = fst (mh_GetModuleCRState handler (Suc k));
                  result = \<lparr>pmr_handler = handler,
                    pmr_condition = reported_condition (readyConditionTypeFor handler) crState readyCond,
                    pmr_enabled = True, pmr_ready = ready, pmr_degraded = degraded,
                    pmr_moduleStatus = Some moduleStatus, pmr_submodules = submoduleConditionsFor handler\<rparr>
              in (k + 2, eval\<lparr>ev_perModule := ev_perModule eval @ [result],
                    ev_notReady := (if \<not> ready then ev_notReady eval @ [name] else ev_notReady eval),
                    ev_degraded := (if ready \<and> degraded then ev_degraded eval @ [name] else ev_degraded eval)\<rparr>))"

text \<open>The callback never fails, so the iterators return no error.\<close>

definition evaluateModulesStatus ::
  "('s, 'i) module_reg \<Rightarrow> (('s, 'i) handler \<Rightarrow> bool) \<Rightarrow> ConfigSource option \<Rightarrow> nat \<Rightarrow> go_error list \<times> nat \<times> ('s, 'i) modulesEvaluation" where
  "evaluateModulesStatus reg isEnabled source k =
     (if \<not> mod_HasEntries reg then ([], k, empty_evaluation)
      else
        let f = (\<lambda>handler _ st. (None, evaluate_module isEnabled handler st)) in
        case source of
          None \<Rightarrow> mod_ForAll f reg (k, empty_evaluation)
        | Some src \<Rightarrow> mod_ForConfigSource src f reg (k, empty_evaluation))"

section \<open>The aggregate condition\<close>

definition writeAggregateCondition :: "('s, 'i) modulesEvaluation \<Rightarrow> condition" where
  "writeAggregateCondition e =
     (let cleanupSuffix = (if ev_pendingCleanup e \<noteq> []
            then ''; pending deletion: '' @ strings_Join (ev_pendingCleanup e) '', '' else '''')
      in if ev_notReady e \<noteq> [] then
           let msg = ''Some modules are not ready: '' @ strings_Join (ev_notReady e) '', '';
               msg = (if ev_degraded e \<noteq> [] then msg @ ''; degraded: '' @ strings_Join (ev_degraded e) '', '' else msg)
           in cond ''ModulesReady'' ConditionFalse ''NotReady'' (msg @ cleanupSuffix)
         else if ev_degraded e \<noteq> [] then
           cond ''ModulesReady'' ConditionFalse ''Degraded''
             (''Some modules are degraded: '' @ strings_Join (ev_degraded e) '', '' @ cleanupSuffix)
         else if ev_pendingCleanup e \<noteq> [] then
           (cond ''ModulesReady'' ConditionTrue ''Removed''
              (''Modules pending deletion: '' @ strings_Join (ev_pendingCleanup e) '', ''))\<lparr>cSeverity := ConditionSeverityInfo\<rparr>
         else if ev_enabledCount e = 0 then
           (cond ''ModulesReady'' ConditionTrue ''NoManagedModules''
              ''All registered modules have ManagementState Removed or are not configured'')\<lparr>cSeverity := ConditionSeverityInfo\<rparr>
         else cond ''ModulesReady'' ConditionTrue '''' '''')"

definition computeModulesStatusAggregate ::
  "('s, 'i) module_reg \<Rightarrow> 's ReconciliationRequest \<Rightarrow> go_error list \<times> 's ReconciliationRequest" where
  "computeModulesStatusAggregate reg rr =
     (case rr_Instance rr of
        PlatformInstance p \<Rightarrow>
          (case evaluateModulesStatus reg (\<lambda>h. mh_IsEnabled h (pf_Modules p)) None 0 of
             ([], _, eval) \<Rightarrow> ([], rr\<lparr>rr_Conditions := rr_Conditions rr @ [writeAggregateCondition eval]\<rparr>)
           | (errs, _) \<Rightarrow> (errs, rr))
      | DSCInstance _ \<Rightarrow> ([new_error ''computeModulesStatusAggregate requires Platform instance, got *v3.DataScienceCluster''], rr)
      | OtherInstance ty \<Rightarrow> ([new_error (''computeModulesStatusAggregate requires Platform instance, got '' @ ty)], rr))"

definition updateModuleStatus ::
  "('s, 'i) module_reg \<Rightarrow> 's ReconciliationRequest \<Rightarrow> go_error list \<times> 's ReconciliationRequest" where
  "updateModuleStatus reg rr = computeModulesStatusAggregate reg rr"

section \<open>Submodules\<close>

definition sub_enabled :: "'x SubmoduleCondition \<Rightarrow> 'x \<Rightarrow> bool" where
  "sub_enabled sm x = (case sm_IsEnabled sm of None \<Rightarrow> True | Some f \<Rightarrow> f x)"

definition writeSubmoduleComponentStatus ::
  "('s, 'i) DSCContext \<Rightarrow> ('s, 'i) DSCContext SubmoduleCondition \<Rightarrow> bool \<Rightarrow> go_error + ('s, 'i) DSCContext" where
  "writeSubmoduleComponentStatus x sm enabled =
     map_sum id (\<lambda>d. x\<lparr>dx_DSC := d\<rparr>) (setDSCComponentField (dx_DSC x) (sm_StatusFieldName sm) enabled [])"

definition removed_submodule :: "string \<Rightarrow> condition" where
  "removed_submodule ty =
     (cond ty ConditionFalse ''Removed'' ''Submodule ManagementState is set to Removed'')\<lparr>cSeverity := ConditionSeverityInfo\<rparr>"

text \<open>\<open>condByType\<close>: a later condition of a type replaces an earlier one.\<close>

definition condByType :: "condition list \<Rightarrow> (string, condition) gomap" where
  "condByType cs = foldl (\<lambda>m c. AList.update (cType c) c m) [] cs"

definition mirrored_condition :: "(string, condition) gomap \<Rightarrow> 'x SubmoduleCondition \<Rightarrow> condition" where
  "mirrored_condition byType sm =
     (case map_of byType (sm_SourceConditionType sm) of
        None \<Rightarrow> cond (sm_DSCConditionType sm) ConditionFalse ''AwaitingReadiness''
          ''Submodule is enabled (Managed) but the module operator has not reported its status yet''
      | Some source \<Rightarrow>
          \<lparr>cType = sm_DSCConditionType sm, cStatus = cStatus source, cReason = cReason source,
           cMessage = cMessage source, cSeverity = cSeverity source\<rparr>)"

fun submodule_loop ::
  "(('s, 'i) DSCContext SubmoduleCondition \<Rightarrow> ('s, 'i) DSCContext \<Rightarrow> bool) \<Rightarrow>
     (('s, 'i) DSCContext SubmoduleCondition \<Rightarrow> condition) \<Rightarrow> ('s, 'i) DSCContext SubmoduleCondition list \<Rightarrow>
     ('s, 'i) DSCContext \<Rightarrow> go_error option \<times> condition list \<times> ('s, 'i) DSCContext" where
  "submodule_loop enabled reported [] x = (None, [], x)"
| "submodule_loop enabled reported (sm # sms) x =
     (let subEnabled = enabled sm x in
      case writeSubmoduleComponentStatus x sm subEnabled of
        Inl panic \<Rightarrow> (Some panic, [], x)
      | Inr x' \<Rightarrow>
          let c = (if \<not> subEnabled then removed_submodule (sm_DSCConditionType sm) else reported sm);
              (e, cs, x'') = submodule_loop enabled reported sms x'
          in (e, c # cs, x''))"

definition mirrorSubmoduleConditions ::
  "('s, 'i) DSCContext \<Rightarrow> ModuleStatus \<Rightarrow> ('s, 'i) DSCContext SubmoduleCondition list \<Rightarrow>
     go_error option \<times> condition list \<times> ('s, 'i) DSCContext" where
  "mirrorSubmoduleConditions x moduleStatus submodules =
     submodule_loop sub_enabled (mirrored_condition (condByType (ms_Conditions moduleStatus))) submodules x"

definition setSubmodulesFallback ::
  "('s, 'i) DSCContext \<Rightarrow> ('s, 'i) DSCContext SubmoduleCondition list \<Rightarrow> bool \<Rightarrow> string \<Rightarrow> string \<Rightarrow>
     go_error option \<times> condition list \<times> ('s, 'i) DSCContext" where
  "setSubmodulesFallback x submodules parentDisabled enabledReason enabledMessage =
     submodule_loop (\<lambda>sm x. \<not> parentDisabled \<and> sub_enabled sm x)
       (\<lambda>sm. cond (sm_DSCConditionType sm) ConditionFalse enabledReason enabledMessage) submodules x"

section \<open>The detailed status\<close>

text \<open>An error of the legacy writer is logged only, but its writes stay.\<close>

definition writeDSCLegacyStatusFields ::
  "('s, 'i) handler \<Rightarrow> bool \<Rightarrow> ('s, 'i) DSCContext \<Rightarrow> go_error option \<times> ('s, 'i) DSCContext" where
  "writeDSCLegacyStatusFields handler enabled x =
     (if dx_DSC x = None then (None, x)
      else case mh_WriteLegacyStatusFields handler of None \<Rightarrow> (None, x) | Some writer \<Rightarrow> writer x enabled)"

definition write_submodules ::
  "('s, 'i) perModuleResult \<Rightarrow> ('s, 'i) DSCContext \<Rightarrow> go_error option \<times> condition list \<times> ('s, 'i) DSCContext" where
  "write_submodules r x =
     (if pmr_submodules r = [] then (None, [], x)
      else
        case pmr_moduleStatus r of
          Some ms \<Rightarrow> mirrorSubmoduleConditions x ms (pmr_submodules r)
        | None \<Rightarrow> setSubmodulesFallback x (pmr_submodules r) (\<not> pmr_enabled r) (cReason (pmr_condition r)) (cMessage (pmr_condition r)))"

definition write_result ::
  "('s, 'i) perModuleResult \<Rightarrow> ('s, 'i) DSCContext \<Rightarrow> go_error option \<times> condition list \<times> ('s, 'i) DSCContext" where
  "write_result r x =
     (let releases = (case pmr_moduleStatus r of Some ms \<Rightarrow> ms_Releases ms | None \<Rightarrow> []) in
      case mh_WriteDSCComponentStatus (pmr_handler r) x (pmr_enabled r) releases of
        Inl panic \<Rightarrow> (Some panic, [pmr_condition r], x)
      | Inr x1 \<Rightarrow>
          let (_, x2) = writeDSCLegacyStatusFields (pmr_handler r) (pmr_enabled r) x1;
              (e, cs, x3) = write_submodules r x2
          in (e, pmr_condition r # cs, x3))"

fun write_results ::
  "('s, 'i) perModuleResult list \<Rightarrow> ('s, 'i) DSCContext \<Rightarrow> go_error option \<times> condition list \<times> ('s, 'i) DSCContext" where
  "write_results [] x = (None, [], x)"
| "write_results (r # rs) x =
     (case write_result r x of
        (Some panic, cs, x') \<Rightarrow> (Some panic, cs, x')
      | (None, cs, x') \<Rightarrow> let (e, cs', x'') = write_results rs x' in (e, cs @ cs', x''))"

definition ComputeModulesStatusDetailed ::
  "('s, 'i) module_reg \<Rightarrow> 's ReconciliationRequest \<Rightarrow>
     go_error list \<times> 's ReconciliationRequest \<times> 's DataScienceCluster option" where
  "ComputeModulesStatusDetailed reg rr =
     (case rr_Instance rr of
        DSCInstance dsc \<Rightarrow>
          let dscCtx = \<lparr>dx_DSC = Some dsc, dx_DSCI = None\<rparr>;
              pm = BuildPlatformModulesForSource reg dscCtx ConfigFromDSC
          in (case evaluateModulesStatus reg (\<lambda>h. mh_IsEnabled h pm) (Some ConfigFromDSC) 0 of
                ([], _, eval) \<Rightarrow>
                  (case write_results (ev_perModule eval) dscCtx of
                     (Some panic, cs, x) \<Rightarrow> ([panic], rr\<lparr>rr_Conditions := rr_Conditions rr @ cs\<rparr>, dx_DSC x)
                   | (None, cs, x) \<Rightarrow>
                       (if ev_crdAbsent eval \<noteq> [] then [GoError '''' [RequeueAfter (30 * second)]] else [],
                        rr\<lparr>rr_Conditions := rr_Conditions rr @ cs @ [writeAggregateCondition eval]\<rparr>, dx_DSC x))
              | (errs, _) \<Rightarrow> (errs, rr, Some dsc))
      | PlatformInstance _ \<Rightarrow> ([new_error ''ComputeModulesStatusDetailed requires DataScienceCluster instance, got *v1alpha2.Platform''], rr, None)
      | OtherInstance ty \<Rightarrow> ([new_error (''ComputeModulesStatusDetailed requires DataScienceCluster instance, got '' @ ty)], rr, None))"

section \<open>What the evaluation computes\<close>

text \<open>The status of the last condition of a type.\<close>

definition last_condition :: "string \<Rightarrow> condition list \<Rightarrow> condition option" where
  "last_condition ty cs = find (\<lambda>c. cType c = ty) (rev cs)"

definition last_true :: "string \<Rightarrow> condition list \<Rightarrow> bool" where
  "last_true ty cs \<longleftrightarrow> (\<exists>c. last_condition ty cs = Some c \<and> cStatus c = ConditionTrue)"

lemma find_append: "find P (xs @ ys) = (case find P xs of None \<Rightarrow> find P ys | Some x \<Rightarrow> Some x)"
  by (induction xs) auto

lemma last_condition_Cons:
  "last_condition ty (c # cs) =
     (case last_condition ty cs of None \<Rightarrow> if cType c = ty then Some c else None | Some d \<Rightarrow> Some d)"
  by (simp add: last_condition_def find_append split: option.split)

lemma scan_conditions_spec:
  "scan_conditions cs (rd, dg, rc) =
     ((case last_condition ''Ready'' cs of None \<Rightarrow> rd | Some c \<Rightarrow> cStatus c = ConditionTrue),
      (case last_condition ''Degraded'' cs of None \<Rightarrow> dg | Some c \<Rightarrow> cStatus c = ConditionTrue),
      (case last_condition ''Ready'' cs of None \<Rightarrow> rc | Some c \<Rightarrow> Some c))"
proof (induction cs arbitrary: rd dg rc)
  case Nil
  then show ?case by (simp add: last_condition_def)
next
  case (Cons c cs)
  then show ?case by (simp add: last_condition_Cons split: option.split)
qed

lemma scan_conditions_start:
  "scan_conditions cs (False, False, None) = (last_true ''Ready'' cs, last_true ''Degraded'' cs, last_condition ''Ready'' cs)"
  by (simp add: scan_conditions_spec last_true_def split: option.split)

text \<open>What a result says about its handler, and what the lists of the evaluation say about the results.\<close>

definition result_ok :: "(('s, 'i) handler \<Rightarrow> bool) \<Rightarrow> ('s, 'i) perModuleResult \<Rightarrow> bool" where
  "result_ok isEnabled r \<longleftrightarrow>
     pmr_enabled r = isEnabled (pmr_handler r) \<and> cType (pmr_condition r) = readyConditionTypeFor (pmr_handler r) \<and>
     (pmr_ready r \<longleftrightarrow> (\<exists>ms. pmr_moduleStatus r = Some ms \<and> last_true ''Ready'' (ms_Conditions ms))) \<and>
     (pmr_degraded r \<longleftrightarrow> (\<exists>ms. pmr_moduleStatus r = Some ms \<and> last_true ''Degraded'' (ms_Conditions ms))) \<and>
     (case pmr_moduleStatus r of
        Some ms \<Rightarrow> pmr_enabled r \<and> (\<exists>k. mh_GetModuleStatus (pmr_handler r) k = Inr ms \<and> \<not> stale ms)
      | None \<Rightarrow> pmr_enabled r \<longrightarrow> (\<exists>k. \<forall>ms. mh_GetModuleStatus (pmr_handler r) k = Inr ms \<longrightarrow> stale ms)) \<and>
     (cStatus (pmr_condition r) = ConditionTrue \<longrightarrow>
        pmr_ready r \<and> (\<exists>k. fst (mh_GetModuleCRState (pmr_handler r) k) \<noteq> CRStateDeleting))"

definition evaluation_ok :: "(('s, 'i) handler \<Rightarrow> bool) \<Rightarrow> ('s, 'i) handler list \<Rightarrow> ('s, 'i) modulesEvaluation \<Rightarrow> bool" where
  "evaluation_ok isEnabled hs ev \<longleftrightarrow>
     map pmr_handler (ev_perModule ev) = hs \<and> (\<forall>r \<in> set (ev_perModule ev). result_ok isEnabled r) \<and>
     (ev_notReady ev = [] \<longleftrightarrow> (\<forall>r \<in> set (ev_perModule ev). pmr_enabled r \<longrightarrow> pmr_ready r)) \<and>
     (ev_degraded ev = [] \<longleftrightarrow> (\<forall>r \<in> set (ev_perModule ev). \<not> (pmr_ready r \<and> pmr_degraded r))) \<and>
     ev_enabledCount ev = length (filter pmr_enabled (ev_perModule ev))"

lemma evaluation_ok_empty [simp]: "evaluation_ok isEnabled [] empty_evaluation"
  by (simp add: evaluation_ok_def empty_evaluation_def)

lemma disabled_result_ok: "\<not> isEnabled h \<Longrightarrow> result_ok isEnabled (disabled_result h)"
  by (simp add: result_ok_def disabled_result_def)

lemma failed_result_ok:
  "isEnabled h \<Longrightarrow> \<forall>ms. mh_GetModuleStatus h k = Inr ms \<longrightarrow> stale ms \<Longrightarrow> result_ok isEnabled (failed_result h msg)"
  by (auto simp: result_ok_def failed_result_def)

lemma reported_result_ok:
  assumes "isEnabled h" and "mh_GetModuleStatus h k = Inr ms" and "\<not> stale ms"
  shows "result_ok isEnabled
    \<lparr>pmr_handler = h,
     pmr_condition = reported_condition (readyConditionTypeFor h) (fst (mh_GetModuleCRState h j)) (last_condition ''Ready'' (ms_Conditions ms)),
     pmr_enabled = True, pmr_ready = last_true ''Ready'' (ms_Conditions ms),
     pmr_degraded = last_true ''Degraded'' (ms_Conditions ms), pmr_moduleStatus = Some ms, pmr_submodules = sms\<rparr>"
  using assms by (auto simp: result_ok_def reported_condition_def last_true_def split: option.splits)

lemma evaluate_module_ok:
  assumes "evaluation_ok isEnabled hs ev" and "evaluate_module isEnabled h (k, ev) = (k', ev')"
  shows "evaluation_ok isEnabled (hs @ [h]) ev'"
proof (cases "isEnabled h")
  case False
  with assms(2) have ev': "ev_perModule ev' = ev_perModule ev @ [disabled_result h]" "ev_notReady ev' = ev_notReady ev"
    "ev_degraded ev' = ev_degraded ev" "ev_enabledCount ev' = ev_enabledCount ev"
    by (auto simp: evaluate_module_def Let_def split: prod.splits if_splits)
  have sel: "pmr_handler (disabled_result h) = h" "\<not> pmr_enabled (disabled_result h)" "\<not> pmr_ready (disabled_result h)"
    by (simp_all add: disabled_result_def)
  show ?thesis
    using assms(1) disabled_result_ok [of isEnabled h, OF False] by (simp add: evaluation_ok_def ev' sel)
next
  case True
  show ?thesis
  proof (cases "\<exists>ms. mh_GetModuleStatus h k = Inr ms \<and> \<not> stale ms")
    case False
    have "\<exists>nm msg. ev_perModule ev' = ev_perModule ev @ [failed_result h msg] \<and> ev_notReady ev' = ev_notReady ev @ [nm] \<and>
      ev_degraded ev' = ev_degraded ev \<and> ev_enabledCount ev' = Suc (ev_enabledCount ev)"
      using False True assms(2) by (auto simp: evaluate_module_def Let_def split: sum.splits)
    then obtain nm msg where ev': "ev_perModule ev' = ev_perModule ev @ [failed_result h msg]"
      "ev_notReady ev' = ev_notReady ev @ [nm]" "ev_degraded ev' = ev_degraded ev"
      "ev_enabledCount ev' = Suc (ev_enabledCount ev)" by blast
    have sel: "pmr_handler (failed_result h msg) = h" "pmr_enabled (failed_result h msg)" "\<not> pmr_ready (failed_result h msg)"
      by (simp_all add: failed_result_def)
    have "result_ok isEnabled (failed_result h msg)" using failed_result_ok True False by blast
    then show ?thesis using assms(1) by (simp add: evaluation_ok_def ev' sel)
  next
    case nst: True
    then obtain ms where ms: "mh_GetModuleStatus h k = Inr ms" "\<not> stale ms" by blast
    define r where "r = \<lparr>pmr_handler = h,
     pmr_condition = reported_condition (readyConditionTypeFor h) (fst (mh_GetModuleCRState h (Suc k))) (last_condition ''Ready'' (ms_Conditions ms)),
     pmr_enabled = True, pmr_ready = last_true ''Ready'' (ms_Conditions ms),
     pmr_degraded = last_true ''Degraded'' (ms_Conditions ms), pmr_moduleStatus = Some ms, pmr_submodules = submoduleConditionsFor h\<rparr>"
    have ev': "ev_perModule ev' = ev_perModule ev @ [r]"
      "ev_notReady ev' = (if pmr_ready r then ev_notReady ev else ev_notReady ev @ [mh_GetName h])"
      "ev_degraded ev' = (if pmr_ready r \<and> pmr_degraded r then ev_degraded ev @ [mh_GetName h] else ev_degraded ev)"
      "ev_enabledCount ev' = Suc (ev_enabledCount ev)"
      using True ms assms(2) by (auto simp: evaluate_module_def Let_def scan_conditions_start r_def)
    have "result_ok isEnabled r" unfolding r_def by (rule reported_result_ok [of isEnabled h, OF True ms])
    moreover have "pmr_handler r = h" "pmr_enabled r" by (simp_all add: r_def)
    ultimately show ?thesis using assms(1) by (auto simp: evaluation_ok_def ev')
  qed
qed

lemma evaluate_foldl_ok:
  assumes "evaluation_ok isEnabled hs ev"
  shows "evaluation_ok isEnabled (hs @ map re_handler es)
    (snd (foldl (\<lambda>st e. evaluate_module isEnabled (re_handler e) st) (k, ev) es))"
  using assms
proof (induction es arbitrary: hs k ev)
  case (Cons e es)
  obtain k1 ev1 where one: "evaluate_module isEnabled (re_handler e) (k, ev) = (k1, ev1)" by fastforce
  from Cons.IH [OF evaluate_module_ok [OF Cons.prems one], of k1] show ?case by (simp add: one)
qed simp

text \<open>The handlers an evaluation visits.\<close>

definition visited :: "('s, 'i) module_reg \<Rightarrow> ConfigSource option \<Rightarrow> ('s, 'i) handler list" where
  "visited reg source = map re_handler
     (filter (\<lambda>e. case source of None \<Rightarrow> True | Some src \<Rightarrow> re_configSource e = src) (mod_sorted_entries reg))"

lemma evaluateModulesStatus_ok:
  assumes "evaluateModulesStatus reg isEnabled source k = (errs, k', ev)"
  shows "errs = [] \<and> evaluation_ok isEnabled (visited reg source) ev"
proof (cases "mod_HasEntries reg")
  case False
  then have "mod_sorted_entries reg = []"
    by (simp add: mod_HasEntries_def mod_sorted_entries_def mod_sortedNames_def List.map_filter_simps)
  with False assms show ?thesis by (simp add: evaluateModulesStatus_def visited_def)
next
  case True
  let ?es = "filter (\<lambda>e. case source of None \<Rightarrow> True | Some src \<Rightarrow> re_configSource e = src) (mod_sorted_entries reg)"
  have "(errs, k', ev) = visit (\<lambda>e st. (None, evaluate_module isEnabled (re_handler e) st)) ?es (k, empty_evaluation)"
    using assms True
    by (cases source) (simp_all add: evaluateModulesStatus_def mod_ForAll_def mod_ForConfigSource_def)
  then have "errs = []" "ev = snd (foldl (\<lambda>st e. evaluate_module isEnabled (re_handler e) st) (k, empty_evaluation) ?es)"
    by (simp_all add: visit_no_error) (metis snd_conv)
  with evaluate_foldl_ok [of isEnabled "[]" empty_evaluation ?es k] show ?thesis by (simp add: visited_def)
qed

lemma aggregate_true:
  "cType (writeAggregateCondition ev) = ''ModulesReady'' \<and>
   (cStatus (writeAggregateCondition ev) = ConditionTrue \<longleftrightarrow> ev_notReady ev = [] \<and> ev_degraded ev = [])"
  by (simp add: writeAggregateCondition_def Let_def)

definition healthy_at :: "('s, 'i) handler \<Rightarrow> nat \<Rightarrow> bool" where
  "healthy_at h k \<longleftrightarrow> (\<exists>ms. mh_GetModuleStatus h k = Inr ms \<and> \<not> stale ms \<and>
     last_true ''Ready'' (ms_Conditions ms) \<and> \<not> last_true ''Degraded'' (ms_Conditions ms))"

lemma result_healthy:
  assumes "result_ok isEnabled r" and "pmr_enabled r"
  shows "if pmr_ready r \<and> \<not> pmr_degraded r then \<exists>k. healthy_at (pmr_handler r) k
    else \<exists>k. \<not> healthy_at (pmr_handler r) k"
proof (cases "pmr_moduleStatus r")
  case None
  with assms obtain k where "\<forall>ms. mh_GetModuleStatus (pmr_handler r) k = Inr ms \<longrightarrow> stale ms"
    by (auto simp: result_ok_def)
  with None assms(1) show ?thesis by (auto simp: result_ok_def healthy_at_def)
next
  case (Some ms)
  with assms(1) obtain k where "mh_GetModuleStatus (pmr_handler r) k = Inr ms" "\<not> stale ms"
    by (auto simp: result_ok_def)
  then have "healthy_at (pmr_handler r) k \<longleftrightarrow> last_true ''Ready'' (ms_Conditions ms) \<and> \<not> last_true ''Degraded'' (ms_Conditions ms)"
    by (simp add: healthy_at_def)
  moreover have "pmr_ready r \<longleftrightarrow> last_true ''Ready'' (ms_Conditions ms)" "pmr_degraded r \<longleftrightarrow> last_true ''Degraded'' (ms_Conditions ms)"
    using Some assms(1) by (simp_all add: result_ok_def)
  ultimately show ?thesis by auto
qed

lemma result_enabled:
  "result_ok isEnabled r \<Longrightarrow> pmr_enabled r = isEnabled (pmr_handler r) \<and> (pmr_ready r \<longrightarrow> pmr_enabled r)"
  unfolding result_ok_def by (elim conjE, intro conjI impI) (simp_all, force)

lemma result_true:
  assumes "result_ok isEnabled r" and "cStatus (pmr_condition r) = ConditionTrue"
  shows "isEnabled (pmr_handler r) \<and>
    (\<exists>k ms. mh_GetModuleStatus (pmr_handler r) k = Inr ms \<and> \<not> stale ms \<and> last_true ''Ready'' (ms_Conditions ms)) \<and>
    (\<exists>k. fst (mh_GetModuleCRState (pmr_handler r) k) \<noteq> CRStateDeleting)"
proof (cases "pmr_moduleStatus r")
  case None
  with assms show ?thesis by (auto simp: result_ok_def)
next
  case (Some ms)
  with assms show ?thesis by (auto simp: result_ok_def)
qed

lemma aggregate_healthy:
  assumes "evaluation_ok isEnabled hs ev"
  shows "if cStatus (writeAggregateCondition ev) = ConditionTrue
    then \<forall>h \<in> set hs. isEnabled h \<longrightarrow> (\<exists>k. healthy_at h k)
    else \<exists>h \<in> set hs. isEnabled h \<and> (\<exists>k. \<not> healthy_at h k)"
proof -
  let ?rs = "ev_perModule ev"
  from assms have hs: "set hs = pmr_handler ` set ?rs" and ok: "\<forall>r \<in> set ?rs. result_ok isEnabled r"
    and nr: "ev_notReady ev = [] \<longleftrightarrow> (\<forall>r \<in> set ?rs. pmr_enabled r \<longrightarrow> pmr_ready r)"
    and dg: "ev_degraded ev = [] \<longleftrightarrow> (\<forall>r \<in> set ?rs. \<not> (pmr_ready r \<and> pmr_degraded r))"
    unfolding evaluation_ok_def by auto
  have en: "\<forall>r \<in> set ?rs. pmr_enabled r = isEnabled (pmr_handler r) \<and> (pmr_ready r \<longrightarrow> pmr_enabled r)"
    using ok result_enabled by blast
  show ?thesis
  proof (cases "cStatus (writeAggregateCondition ev) = ConditionTrue")
    case True
    have "\<exists>k. healthy_at h k" if h: "h \<in> set hs" "isEnabled h" for h
    proof -
      from h(1) hs obtain r where r: "r \<in> set ?rs" "h = pmr_handler r" by blast
      have "pmr_enabled r" using en r h(2) by simp
      moreover from this have "pmr_ready r \<and> \<not> pmr_degraded r" using aggregate_true [of ev] True nr dg r(1) by simp
      ultimately show ?thesis using result_healthy [of isEnabled r] ok r by simp
    qed
    with True show ?thesis by simp
  next
    case False
    then obtain r where r: "r \<in> set ?rs" "pmr_enabled r" "\<not> (pmr_ready r \<and> \<not> pmr_degraded r)"
      using aggregate_true [of ev] nr dg en by blast
    then have "\<exists>k. \<not> healthy_at (pmr_handler r) k" using result_healthy [of isEnabled r] ok by auto
    moreover have "pmr_handler r \<in> set hs" "isEnabled (pmr_handler r)" using hs en r by auto
    ultimately show ?thesis using False by auto
  qed
qed

lemma visited_lookup:
  "mod_wf reg \<Longrightarrow> h \<in> set (visited reg None) \<longleftrightarrow> (\<exists>n. mod_Lookup n reg = Some h)"
  by (auto simp: visited_def mod_Lookup_entry)

section \<open>Properties\<close>

text \<open>
  C40. \<open>ModulesReady\<close> on the Platform CR. The aggregate status writes exactly one condition and never fails
  on a Platform instance. It is \<open>True\<close> only if every registered module the Platform enables was observed
  with a fresh status (an \<open>observedGeneration\<close> of 0, not reported, counts as fresh) that is Ready and not Degraded (the last condition
  of a type counts); otherwise some enabled module was observed without one.
\<close>

theorem modules_ready_reflects_modules:
  assumes "mod_wf reg" and "rr_Instance rr = PlatformInstance p"
    and "computeModulesStatusAggregate reg rr = (errs, rr')"
  shows "errs = [] \<and> (\<exists>c. rr_Conditions rr' = rr_Conditions rr @ [c] \<and> cType c = ''ModulesReady'' \<and>
    (if cStatus c = ''True''
     then \<forall>n h. mod_Lookup n reg = Some h \<and> mh_IsEnabled h (pf_Modules p) \<longrightarrow> (\<exists>k. healthy_at h k)
     else \<exists>n h. mod_Lookup n reg = Some h \<and> mh_IsEnabled h (pf_Modules p) \<and> (\<exists>k. \<not> healthy_at h k)))"
proof -
  obtain es k ev where ev: "evaluateModulesStatus reg (\<lambda>h. mh_IsEnabled h (pf_Modules p)) None 0 = (es, k, ev)"
    by (metis surj_pair)
  from evaluateModulesStatus_ok [OF ev] have es: "es = []"
    and ok: "evaluation_ok (\<lambda>h. mh_IsEnabled h (pf_Modules p)) (visited reg None) ev" by auto
  from assms(2,3) ev es have "errs = []" "rr_Conditions rr' = rr_Conditions rr @ [writeAggregateCondition ev]"
    by (auto simp: computeModulesStatusAggregate_def)
  moreover have "if cStatus (writeAggregateCondition ev) = ''True''
     then \<forall>n h. mod_Lookup n reg = Some h \<and> mh_IsEnabled h (pf_Modules p) \<longrightarrow> (\<exists>k. healthy_at h k)
     else \<exists>n h. mod_Lookup n reg = Some h \<and> mh_IsEnabled h (pf_Modules p) \<and> (\<exists>k. \<not> healthy_at h k)"
    using aggregate_healthy [OF ok] visited_lookup [OF assms(1)]
    by (cases "cStatus (writeAggregateCondition ev) = ''True''") (simp_all, blast+)
  ultimately show ?thesis using aggregate_true [of ev] by blast
qed

lemma write_results_conditions:
  "write_results rs x = (None, cs, x') \<Longrightarrow> \<forall>r \<in> set rs. pmr_condition r \<in> set cs"
proof (induction rs arbitrary: x cs)
  case (Cons r rs)
  obtain e1 cs1 x1 where w: "write_result r x = (e1, cs1, x1)" by (metis surj_pair)
  obtain e2 cs2 x2 where rec: "write_results rs x1 = (e2, cs2, x2)" by (metis surj_pair)
  have "pmr_condition r \<in> set cs1"
    using w by (auto simp: write_result_def Let_def split: sum.splits prod.splits)
  moreover from Cons.prems w rec have "e1 = None" "e2 = None" "x2 = x'" "cs = cs1 @ cs2"
    by (cases e1; simp)+
  ultimately show ?case using Cons.IH [of x1 cs2] rec by auto
qed simp

text \<open>
  Per-module conditions on the DataScienceCluster. Unless a status write panics, the detailed status
  writes for every module configured from the DataScienceCluster a condition of the module's own type,
  and one that is \<open>True\<close> only if the module is enabled, was observed with a fresh Ready status and its CR
  was observed not being deleted. The action then either succeeds or asks to be requeued after 30 seconds.
\<close>

theorem detailed_status_sound:
  assumes "rr_Instance rr = DSCInstance dsc"
    and "ComputeModulesStatusDetailed reg rr = (errs, rr', dsc')"
    and "snd (snd (evaluateModulesStatus reg (\<lambda>h. mh_IsEnabled h
          (BuildPlatformModulesForSource reg \<lparr>dx_DSC = Some dsc, dx_DSCI = None\<rparr> ConfigFromDSC)) (Some ConfigFromDSC) 0)) = ev"
    and "fst (write_results (ev_perModule ev) \<lparr>dx_DSC = Some dsc, dx_DSCI = None\<rparr>) = None"
  shows "(errs = [] \<or> errs = [GoError '''' [RequeueAfter (30 * second)]]) \<and>
    (\<exists>cs. rr_Conditions rr' = rr_Conditions rr @ cs \<and>
      (\<forall>e \<in> set (mod_sorted_entries reg). re_configSource e = ConfigFromDSC \<longrightarrow>
        (\<exists>c \<in> set cs. cType c = readyConditionTypeFor (re_handler e) \<and>
          (cStatus c = ''True'' \<longrightarrow>
             mh_IsEnabled (re_handler e) (BuildPlatformModulesForSource reg \<lparr>dx_DSC = Some dsc, dx_DSCI = None\<rparr> ConfigFromDSC) \<and>
             (\<exists>k ms. mh_GetModuleStatus (re_handler e) k = Inr ms \<and> \<not> stale ms \<and> last_true ''Ready'' (ms_Conditions ms)) \<and>
             (\<exists>k. fst (mh_GetModuleCRState (re_handler e) k) \<noteq> CRStateDeleting)))))"
proof -
  define pm where "pm = BuildPlatformModulesForSource reg \<lparr>dx_DSC = Some dsc, dx_DSCI = None\<rparr> ConfigFromDSC"
  let ?x = "\<lparr>dx_DSC = Some dsc, dx_DSCI = None\<rparr>"
  obtain es k where ev: "evaluateModulesStatus reg (\<lambda>h. mh_IsEnabled h pm) (Some ConfigFromDSC) 0 = (es, k, ev)"
    using assms(3) unfolding pm_def [symmetric] by (metis prod.collapse)
  from evaluateModulesStatus_ok [OF ev] have es: "es = []"
    and ok: "evaluation_ok (\<lambda>h. mh_IsEnabled h pm) (visited reg (Some ConfigFromDSC)) ev" by auto
  obtain cs x' where w: "write_results (ev_perModule ev) ?x = (None, cs, x')" using assms(4) by (metis prod.collapse)
  have out: "errs = [] \<or> errs = [GoError '''' [RequeueAfter (30 * second)]]"
    "rr_Conditions rr' = rr_Conditions rr @ (cs @ [writeAggregateCondition ev])"
    using assms(1,2) ev es w unfolding ComputeModulesStatusDetailed_def pm_def [symmetric]
    by (auto simp: Let_def pm_def [symmetric] split: if_splits)
  have "\<exists>c \<in> set cs. cType c = readyConditionTypeFor (re_handler e) \<and>
      (cStatus c = ''True'' \<longrightarrow> mh_IsEnabled (re_handler e) pm \<and>
         (\<exists>k ms. mh_GetModuleStatus (re_handler e) k = Inr ms \<and> \<not> stale ms \<and> last_true ''Ready'' (ms_Conditions ms)) \<and>
         (\<exists>k. fst (mh_GetModuleCRState (re_handler e) k) \<noteq> CRStateDeleting))"
    if e: "e \<in> set (mod_sorted_entries reg)" "re_configSource e = ConfigFromDSC" for e
  proof -
    have "re_handler e \<in> set (map pmr_handler (ev_perModule ev))"
      using e ok by (auto simp: evaluation_ok_def visited_def)
    then obtain r where r: "r \<in> set (ev_perModule ev)" "pmr_handler r = re_handler e" by auto
    with ok have rok: "result_ok (\<lambda>h. mh_IsEnabled h pm) r" by (auto simp: evaluation_ok_def)
    have "pmr_condition r \<in> set cs" using write_results_conditions [OF w] r(1) by blast
    moreover have "cType (pmr_condition r) = readyConditionTypeFor (re_handler e)"
      using rok r(2) by (simp add: result_ok_def)
    moreover note result_true [OF rok, unfolded r(2)]
    ultimately show ?thesis by blast
  qed
  with out show ?thesis unfolding pm_def by fastforce
qed

theorem modules_ready_reflects_modules_witness:
  "\<exists>k. healthy_at (demo_populating ''Kserve'') k"
proof -
  let ?c = "computeModulesStatusAggregate (sys_mod demo_lifecycle) (demo_rr demo_modules)"
  let ?p = "\<lparr>pf_APIVersion = ''config.opendatahub.io/v1alpha2'', pf_Kind = ''Platform'', pf_Name = ''default'', pf_Modules = demo_modules\<rparr>"
  have wf: "mod_wf (sys_mod demo_lifecycle)" using demo_lifecycle_in_step by (simp add: in_step_def)
  have inst: "rr_Instance (demo_rr demo_modules) = PlatformInstance ?p" by (simp add: demo_rr_def)
  have "?c = (fst ?c, snd ?c)" by simp
  note P = modules_ready_reflects_modules [OF wf inst this]
  have st: "map cStatus (rr_Conditions (snd ?c)) = [''True'']" "rr_Conditions (demo_rr demo_modules) = []" by code_simp+
  from P st obtain c where "rr_Conditions (snd ?c) = [c]" "cStatus c = ''True''"
    and all: "\<forall>n h. mod_Lookup n (sys_mod demo_lifecycle) = Some h \<and> mh_IsEnabled h (pf_Modules ?p) \<longrightarrow> (\<exists>k. healthy_at h k)"
    by auto
  moreover have "mh_IsEnabled (demo_populating ''Kserve'') (pf_Modules ?p)"
    by (simp add: demo_populating_def demo_modules_def at_or_def)
  ultimately show ?thesis using demo_lookup(1) by blast
qed

definition demo_dsc_rr :: "unit ReconciliationRequest" where
  "demo_dsc_rr = (demo_rr [])\<lparr>rr_Instance := DSCInstance \<lparr>dsc_Spec = (), dsc_Components = []\<rparr>\<rparr>"

theorem detailed_status_sound_witness:
  "fst (ComputeModulesStatusDetailed (sys_mod demo_lifecycle) demo_dsc_rr) = [] \<and>
   (\<exists>c \<in> set (rr_Conditions (fst (snd (ComputeModulesStatusDetailed (sys_mod demo_lifecycle) demo_dsc_rr)))). cType c = ''KserveReady'')"
proof -
  let ?c = "ComputeModulesStatusDetailed (sys_mod demo_lifecycle) demo_dsc_rr"
  let ?x = "\<lparr>dx_DSC = Some \<lparr>dsc_Spec = (), dsc_Components = []\<rparr>, dx_DSCI = None :: unit DSCInitialization option\<rparr>"
  let ?ev = "snd (snd (evaluateModulesStatus (sys_mod demo_lifecycle) (\<lambda>h. mh_IsEnabled h
          (BuildPlatformModulesForSource (sys_mod demo_lifecycle) ?x ConfigFromDSC)) (Some ConfigFromDSC) 0))"
  have inst: "rr_Instance demo_dsc_rr = DSCInstance \<lparr>dsc_Spec = (), dsc_Components = []\<rparr>" by (simp add: demo_dsc_rr_def)
  have c: "?c = (fst ?c, fst (snd ?c), snd (snd ?c))" by simp
  have np: "fst (write_results (ev_perModule ?ev) ?x) = None" by code_simp
  have first: "fst ?c = []" "rr_Conditions demo_dsc_rr = []" by code_simp+
  from demo_lookup(1) obtain e where e: "e \<in> set (mod_sorted_entries (sys_mod demo_lifecycle))" "re_handler e = demo_populating ''Kserve''"
    using mod_Lookup_entry [of "sys_mod demo_lifecycle"] demo_lifecycle_in_step by (auto simp: in_step_def)
  have "map re_configSource (mod_sorted_entries (sys_mod demo_lifecycle)) = [ConfigFromDSC, ConfigFromDSC]" by code_simp
  then have "re_configSource ` set (mod_sorted_entries (sys_mod demo_lifecycle)) = {ConfigFromDSC}"
    by (metis empty_set list.set_map list.simps(15) insert_absorb2)
  with e(1) have src: "re_configSource e = ConfigFromDSC" by blast
  have ty: "readyConditionTypeFor (re_handler e) = ''KserveReady''"
    by (simp add: e(2) readyConditionTypeFor_def demo_populating_def)
  show ?thesis
    using detailed_status_sound [OF inst c refl np] e(1) src ty first by fastforce
qed

section \<open>Mirrored submodules\<close>

text \<open>The part of a context that status writes leave alone, and the state they write.\<close>

definition same_spec :: "('s, 'i) DSCContext \<Rightarrow> ('s, 'i) DSCContext \<Rightarrow> bool" where
  "same_spec x x' \<longleftrightarrow> dx_DSCI x' = dx_DSCI x \<and> map_option dsc_Spec (dx_DSC x') = map_option dsc_Spec (dx_DSC x)"

definition reads_spec :: "('s, 'i) DSCContext SubmoduleCondition \<Rightarrow> bool" where
  "reads_spec sm \<longleftrightarrow> (\<forall>f x x'. sm_IsEnabled sm = Some f \<and> same_spec x x' \<longrightarrow> f x' = f x)"

definition management_state :: "('s, 'i) DSCContext \<Rightarrow> string \<Rightarrow> state_field option" where
  "management_state x f = (case dx_DSC x of None \<Rightarrow> None
     | Some d \<Rightarrow> map_option cf_ManagementState (map_of (dsc_Components d) f))"

lemma same_spec_trans: "same_spec a b \<Longrightarrow> same_spec b c \<Longrightarrow> same_spec a c"
  by (simp add: same_spec_def)

lemma sub_enabled_same: "reads_spec sm \<Longrightarrow> same_spec x x' \<Longrightarrow> sub_enabled sm x' = sub_enabled sm x"
  by (auto simp: reads_spec_def sub_enabled_def split: option.splits)

lemma write_submodule_frame:
  assumes "writeSubmoduleComponentStatus x sm en = Inr x'"
  shows "same_spec x x'"
    and "f \<noteq> sm_StatusFieldName sm \<Longrightarrow> management_state x' f = management_state x f"
    and "management_state x (sm_StatusFieldName sm) = Some (StateString s) \<Longrightarrow> sm_StatusFieldName sm \<noteq> '''' \<Longrightarrow>
      management_state x' (sm_StatusFieldName sm) = Some (StateString (if en then ''Managed'' else ''Removed''))"
  using assms
  by (auto simp: writeSubmoduleComponentStatus_def setDSCComponentField_def same_spec_def management_state_def
      map_of_alist_update Let_def split: option.splits if_splits state_field.splits)

lemma last_condition_snoc:
  "last_condition ty (cs @ [c]) = (if cType c = ty then Some c else last_condition ty cs)"
  by (simp add: last_condition_def)

lemma map_of_condByType: "map_of (condByType cs) ty = last_condition ty cs"
proof (induction cs rule: rev_induct)
  case Nil
  then show ?case by (simp add: condByType_def last_condition_def)
next
  case (snoc c cs)
  then show ?case by (auto simp: condByType_def last_condition_snoc map_of_alist_update)
qed

lemma submodule_loop_spec:
  assumes "submodule_loop en rep sms x = (None, cs, x')"
    and "\<And>sm x x'. sm \<in> set sms \<Longrightarrow> same_spec x x' \<Longrightarrow> en sm x' = en sm x"
  shows "cs = map (\<lambda>sm. if en sm x then rep sm else removed_submodule (sm_DSCConditionType sm)) sms \<and> same_spec x x' \<and>
    (\<forall>f. f \<notin> sm_StatusFieldName ` set sms \<longrightarrow> management_state x' f = management_state x f) \<and>
    (distinct (map sm_StatusFieldName sms) \<longrightarrow> (\<forall>sm \<in> set sms. \<forall>s. sm_StatusFieldName sm \<noteq> '''' \<and>
       management_state x (sm_StatusFieldName sm) = Some (StateString s) \<longrightarrow>
       management_state x' (sm_StatusFieldName sm) = Some (StateString (if en sm x then ''Managed'' else ''Removed''))))"
  using assms
proof (induction sms arbitrary: x cs)
  case Nil
  then show ?case by (simp add: same_spec_def)
next
  case (Cons sm sms)
  from Cons.prems(1) obtain x1 where w: "writeSubmoduleComponentStatus x sm (en sm x) = Inr x1"
    by (auto simp: Let_def split: sum.splits)
  obtain e2 cs2 x2 where rec: "submodule_loop en rep sms x1 = (e2, cs2, x2)" by (metis surj_pair)
  from Cons.prems(1) w rec have out: "e2 = None" "x2 = x'"
    "cs = (if en sm x then rep sm else removed_submodule (sm_DSCConditionType sm)) # cs2"
    by (auto simp: Let_def)
  note fr = write_submodule_frame [OF w]
  have same: "en sm' x1 = en sm' x" if "sm' \<in> set sms" for sm' using Cons.prems(2) that fr(1) by simp
  from Cons.IH [of x1 cs2] rec out Cons.prems(2) have
    IH: "cs2 = map (\<lambda>sm. if en sm x1 then rep sm else removed_submodule (sm_DSCConditionType sm)) sms" "same_spec x1 x'"
      "\<forall>f. f \<notin> sm_StatusFieldName ` set sms \<longrightarrow> management_state x' f = management_state x1 f"
      "distinct (map sm_StatusFieldName sms) \<longrightarrow> (\<forall>sm \<in> set sms. \<forall>s. sm_StatusFieldName sm \<noteq> '''' \<and>
         management_state x1 (sm_StatusFieldName sm) = Some (StateString s) \<longrightarrow>
         management_state x' (sm_StatusFieldName sm) = Some (StateString (if en sm x1 then ''Managed'' else ''Removed'')))"
    by auto
  have "same_spec x x'" using same_spec_trans fr(1) IH(2) by blast
  moreover have "cs = map (\<lambda>sm. if en sm x then rep sm else removed_submodule (sm_DSCConditionType sm)) (sm # sms)"
    using out(3) IH(1) same by simp
  moreover have "management_state x' f = management_state x f" if "f \<notin> sm_StatusFieldName ` set (sm # sms)" for f
    using that IH(3) fr(2) by simp
  moreover have "management_state x' (sm_StatusFieldName t) = Some (StateString (if en t x then ''Managed'' else ''Removed''))"
    if d: "distinct (map sm_StatusFieldName (sm # sms))" and t: "t \<in> set (sm # sms)" "sm_StatusFieldName t \<noteq> ''''"
      "management_state x (sm_StatusFieldName t) = Some (StateString s)" for t s
  proof (cases "t \<in> set sms")
    case True
    with d have "sm_StatusFieldName t \<noteq> sm_StatusFieldName sm" by (auto simp: image_iff)
    with fr(2) t(3) have "management_state x1 (sm_StatusFieldName t) = Some (StateString s)" by simp
    with IH(4) d True t(2) same show ?thesis by fastforce
  next
    case False
    with t have "t = sm" by simp
    with d IH(3) fr(3) t show ?thesis by auto
  qed
  ultimately show ?case by blast
qed

text \<open>
  Mirroring of submodules. For submodules whose enablement depends on the spec only, mirroring writes
  one condition per submodule in order: \<open>Removed\<close> when it is disabled, otherwise the last condition of
  the source type in the module's status with its status, reason, message and severity, or
  \<open>AwaitingReadiness\<close> when there is none. It changes nothing of the DataScienceCluster but the status
  fields of the submodules, whose management states say which are enabled.
\<close>

theorem submodules_mirrored:
  assumes "\<forall>sm \<in> set sms. reads_spec sm" and "mirrorSubmoduleConditions x ms sms = (None, cs, x')"
  shows "cs = map (\<lambda>sm.
      if sub_enabled sm x then
        (case last_condition (sm_SourceConditionType sm) (ms_Conditions ms) of
           None \<Rightarrow> cond (sm_DSCConditionType sm) ''False'' ''AwaitingReadiness''
             ''Submodule is enabled (Managed) but the module operator has not reported its status yet''
         | Some c \<Rightarrow> c\<lparr>cType := sm_DSCConditionType sm\<rparr>)
      else removed_submodule (sm_DSCConditionType sm)) sms \<and>
    same_spec x x' \<and>
    (\<forall>f. f \<notin> sm_StatusFieldName ` set sms \<longrightarrow> management_state x' f = management_state x f) \<and>
    (distinct (map sm_StatusFieldName sms) \<longrightarrow> (\<forall>sm \<in> set sms. \<forall>s. sm_StatusFieldName sm \<noteq> '''' \<and>
       management_state x (sm_StatusFieldName sm) = Some (StateString s) \<longrightarrow>
       management_state x' (sm_StatusFieldName sm) = Some (StateString (if sub_enabled sm x then ''Managed'' else ''Removed''))))"
proof -
  have rep: "mirrored_condition (condByType (ms_Conditions ms)) sm =
      (case last_condition (sm_SourceConditionType sm) (ms_Conditions ms) of
         None \<Rightarrow> cond (sm_DSCConditionType sm) ''False'' ''AwaitingReadiness''
           ''Submodule is enabled (Managed) but the module operator has not reported its status yet''
       | Some c \<Rightarrow> c\<lparr>cType := sm_DSCConditionType sm\<rparr>)" for sm :: "('a, 'b) DSCContext SubmoduleCondition"
    by (simp add: mirrored_condition_def map_of_condByType split: option.split)
  show ?thesis
    unfolding rep [symmetric]
    by (rule submodule_loop_spec [OF assms(2) [unfolded mirrorSubmoduleConditions_def]])
      (use assms(1) sub_enabled_same in blast)
qed

definition demo_submodule :: "(unit, unit) DSCContext SubmoduleCondition" where
  "demo_submodule =
     \<lparr>sm_SourceConditionType = ''MaaSReady'', sm_DSCConditionType = ''ModelsAsServiceReady'',
      sm_StatusFieldName = ''ModelsAsService'', sm_IsEnabled = None\<rparr>"

definition demo_module_status :: ModuleStatus where
  "demo_module_status =
     \<lparr>ms_Conditions = [cond ''MaaSReady'' ''False'' ''Starting'' '''', cond ''MaaSReady'' ''True'' ''Up'' ''''],
      ms_ObservedGeneration = 1, ms_Generation = 1, ms_ReleaseVersion = '''', ms_Releases = []\<rparr>"

definition demo_dsc_ctx :: "(unit, unit) DSCContext" where
  "demo_dsc_ctx =
     \<lparr>dx_DSC = Some \<lparr>dsc_Spec = (),
        dsc_Components = [(''ModelsAsService'', \<lparr>cf_ManagementState = StateString '''', cf_Releases = NilReleases\<rparr>)]\<rparr>,
      dx_DSCI = None\<rparr>"

theorem submodules_mirrored_witness:
  "fst (snd (mirrorSubmoduleConditions demo_dsc_ctx demo_module_status [demo_submodule])) =
     [cond ''ModelsAsServiceReady'' ''True'' ''Up'' '''']"
proof -
  let ?m = "mirrorSubmoduleConditions demo_dsc_ctx demo_module_status [demo_submodule]"
  have rs: "\<forall>sm \<in> set [demo_submodule]. reads_spec sm" by (simp add: reads_spec_def demo_submodule_def)
  have "fst ?m = None" by code_simp
  then have m: "?m = (None, fst (snd ?m), snd (snd ?m))" by (metis prod.collapse)
  note P = submodules_mirrored [OF rs m, THEN conjunct1]
  show ?thesis
    by (subst P) (simp add: demo_submodule_def demo_module_status_def sub_enabled_def last_condition_def cond_def)
qed

end
