(* ===== verification/DSC_Conditions.thy ===== *)
theory DSC_Conditions
  imports Module_Types
begin

text \<open>
  \<open>withConditionTypeMapping\<close> of \<open>api/datasciencecluster/v2/datasciencecluster_conversion.go\<close>: renaming the types
  of the status conditions when a DataScienceCluster changes version. The loop keeps the index of each
  type it has emitted; the lemmas show that the result has one condition per type, which one it is, and
  that a renaming without clashes is a map.

  Conditions carry the remaining fields of \<open>common.Condition\<close> in the record extension. A nil slice is
  \<open>None\<close>.
\<close>

section \<open>Condition types\<close>

text \<open>
  The second loop of \<open>withConditionTypeMapping\<close>: the conditions collected so far and the index of each
  type among them.
\<close>

definition mapped_types :: "(string, string) gomap \<Rightarrow> 'z condition_scheme list \<Rightarrow> string list" where
  "mapped_types mappings cs = List.map_filter (\<lambda>c. map_of mappings (cType c)) cs"

definition cmap_step ::
  "(string, string) gomap \<Rightarrow> string list \<Rightarrow> 'z condition_scheme list \<times> (string, nat) gomap \<Rightarrow> 'z condition_scheme \<Rightarrow>
     'z condition_scheme list \<times> (string, nat) gomap" where
  "cmap_step mappings mappedTypes st condition =
     (let (conditions, indexes) = st;
          (condition, mapped) = (case map_of mappings (cType condition) of
             Some target \<Rightarrow> (condition\<lparr>cType := target\<rparr>, True) | None \<Rightarrow> (condition, False))
      in if \<not> mapped \<and> cType condition \<in> set mappedTypes then (conditions, indexes)
         else
           case map_of indexes (cType condition) of
             Some index \<Rightarrow> (if mapped then conditions[index := condition] else conditions, indexes)
           | None \<Rightarrow> (conditions @ [condition], AList.update (cType condition) (length conditions) indexes))"

definition withConditionTypeMapping ::
  "'z condition_scheme list option \<Rightarrow> (string, string) gomap \<Rightarrow> 'z condition_scheme list option" where
  "withConditionTypeMapping conditions mappings =
     map_option (\<lambda>cs. fst (foldl (cmap_step mappings (mapped_types mappings cs)) ([], []) cs)) conditions"

section \<open>Lemmas: condition types\<close>

definition crename :: "(string, string) gomap \<Rightarrow> 'z condition_scheme \<Rightarrow> 'z condition_scheme" where
  "crename mappings c = (case map_of mappings (cType c) of Some target \<Rightarrow> c\<lparr>cType := target\<rparr> | None \<Rightarrow> c)"

definition is_mapped :: "(string, string) gomap \<Rightarrow> 'z condition_scheme \<Rightarrow> bool" where
  "is_mapped mappings c \<longleftrightarrow> map_of mappings (cType c) \<noteq> None"

text \<open>The index map holds the position of each type among the conditions collected so far.\<close>

definition cmap_inv :: "'z condition_scheme list \<times> (string, nat) gomap \<Rightarrow> bool" where
  "cmap_inv st \<longleftrightarrow>
     distinct (map cType (fst st)) \<and>
     (\<forall>t i. map_of (snd st) t = Some i \<longleftrightarrow> i < length (fst st) \<and> cType (fst st ! i) = t)"

lemma cmap_step_alt:
  "cmap_step m ts (cs, ix) c =
     (if \<not> is_mapped m c \<and> cType c \<in> set ts then (cs, ix)
      else case map_of ix (cType (crename m c)) of
             Some i \<Rightarrow> (if is_mapped m c then cs[i := crename m c] else cs, ix)
           | None \<Rightarrow> (cs @ [crename m c], AList.update (cType (crename m c)) (length cs) ix))"
  by (simp add: cmap_step_def is_mapped_def crename_def split: option.split)

lemma mapped_types_set: "t \<in> set (mapped_types m cs) \<longleftrightarrow> (\<exists>c \<in> set cs. is_mapped m c \<and> cType (crename m c) = t)"
  by (induction cs) (auto simp: mapped_types_def List.map_filter_def is_mapped_def crename_def split: option.splits)

lemma cmap_inv_lookup:
  assumes "cmap_inv (cs, ix)"
  shows "map_of ix t = None \<longleftrightarrow> t \<notin> cType ` set cs"
proof -
  have "map_of ix t = None \<longleftrightarrow> (\<forall>i. map_of ix t \<noteq> Some i)"
    by auto
  also have "\<dots> \<longleftrightarrow> (\<forall>i < length cs. cType (cs ! i) \<noteq> t)"
    using assms by (simp add: cmap_inv_def)
  also have "\<dots> \<longleftrightarrow> (\<forall>c \<in> set cs. cType c \<noteq> t)"
    by (simp add: all_set_conv_all_nth)
  finally show ?thesis
    by auto
qed

lemma cmap_inv_step:
  assumes "cmap_inv st"
  shows "cmap_inv (cmap_step m ts st c)"
proof (cases st)
  case (Pair cs ix)
  let ?t = "cType (crename m c)"
  have inv: "cmap_inv (cs, ix)"
    using assms Pair by simp
  show ?thesis
  proof (cases "map_of ix ?t")
    case None
    then have fresh: "?t \<notin> cType ` set cs"
      using cmap_inv_lookup [OF inv] by blast
    then have "\<forall>i < length cs. cType (cs ! i) \<noteq> ?t"
      by (metis image_eqI nth_mem)
    with fresh have "cmap_inv (cs @ [crename m c], AList.update ?t (length cs) ix)"
      using inv by (auto simp: cmap_inv_def update_conv' nth_append less_Suc_eq)
    then show ?thesis
      using inv None by (simp add: Pair cmap_step_alt)
  next
    case (Some i)
    then have "i < length cs" "cType (cs ! i) = ?t"
      using inv by (simp_all add: cmap_inv_def)
    moreover from this have "map cType (cs[i := crename m c]) = map cType cs"
      by (metis list_update_id map_update nth_map)
    ultimately have "cmap_inv (cs[i := crename m c], ix)"
      using inv by (auto simp: cmap_inv_def nth_list_update)
    then show ?thesis
      using inv Some by (simp add: Pair cmap_step_alt)
  qed
qed

lemma cmap_inv_foldl: "cmap_inv st \<Longrightarrow> cmap_inv (foldl (cmap_step m ts) st cs)"
  by (induction cs arbitrary: st) (simp_all add: cmap_inv_step)

lemma cmap_inv_Nil [simp]: "cmap_inv ([], [])"
  by (simp add: cmap_inv_def)

text \<open>What one step does to the condition of a given type.\<close>

definition cfind :: "string \<Rightarrow> 'z condition_scheme list \<Rightarrow> 'z condition_scheme option" where
  "cfind t cs = List.find (\<lambda>c. cType c = t) cs"

lemma cfind_Nil [simp]: "cfind t [] = None"
  by (simp add: cfind_def)

lemma cfind_Cons [simp]: "cfind t (c # cs) = (if cType c = t then Some c else cfind t cs)"
  by (simp add: cfind_def)

lemma cfind_append: "cfind t (xs @ ys) = (case cfind t xs of Some c \<Rightarrow> Some c | None \<Rightarrow> cfind t ys)"
  by (induction xs) simp_all

lemma cfind_None: "cfind t cs = None \<longleftrightarrow> t \<notin> cType ` set cs"
  by (auto simp: cfind_def find_None_iff)

lemma cfind_nth:
  assumes "distinct (map cType cs)" "i < length cs"
  shows "cfind (cType (cs ! i)) cs = Some (cs ! i)"
  using assms by (auto simp: cfind_def find_Some_iff nth_eq_iff_index_eq distinct_conv_nth intro!: exI [of _ i])

lemma cfind_update:
  assumes "distinct (map cType cs)" "i < length cs" "cType (cs ! i) = cType c"
  shows "cfind t (cs[i := c]) = (if t = cType c then Some c else cfind t cs)"
  using assms
proof (induction cs arbitrary: i)
  case (Cons a cs)
  show ?case
  proof (cases i)
    case (Suc j)
    then have "cs ! j \<in> set cs" "cType (cs ! j) = cType c"
      using Cons.prems by simp_all
    then have "cType a \<noteq> cType c"
      using Cons.prems(1) by (metis distinct.simps(2) image_eqI list.set_map list.simps(9))
    then show ?thesis
      using Suc Cons by auto
  qed (use Cons.prems in auto)
qed simp

lemma cfind_step:
  assumes "cmap_inv st"
  shows "cfind t (fst (cmap_step m ts st c)) =
    (if cType (crename m c) = t \<and> (is_mapped m c \<or> t \<notin> set ts \<and> cfind t (fst st) = None)
     then Some (crename m c) else cfind t (fst st))"
proof (cases st)
  case (Pair cs ix)
  have inv: "cmap_inv (cs, ix)" and d: "distinct (map cType cs)"
    using assms Pair by (simp_all add: cmap_inv_def)
  have un: "cType (crename m c) = cType c" if "\<not> is_mapped m c"
    using that by (simp add: is_mapped_def crename_def)
  show ?thesis
  proof (cases "map_of ix (cType (crename m c))")
    case None
    then have "cfind (cType (crename m c)) cs = None"
      using cmap_inv_lookup [OF inv] cfind_None by blast
    then have "cfind t (cs @ [crename m c]) = (if cType (crename m c) = t then Some (crename m c) else cfind t cs)"
      by (auto simp: cfind_append split: option.split)
    then show ?thesis
      using None un \<open>cfind (cType (crename m c)) cs = None\<close>
      by (cases "is_mapped m c"; cases "cType (crename m c) = t") (simp_all add: Pair cmap_step_alt)
  next
    case (Some i)
    then have i: "i < length cs" "cType (cs ! i) = cType (crename m c)"
      using inv by (simp_all add: cmap_inv_def)
    then have "cfind (cType (crename m c)) cs \<noteq> None"
      by (metis cfind_nth [OF d] option.distinct(1))
    then show ?thesis
      using Some un i
      by (cases "is_mapped m c"; cases "cType (crename m c) = t") (simp_all add: Pair cmap_step_alt cfind_update [OF d])
  qed
qed

definition with_types :: "(string, string) gomap \<Rightarrow> 'z condition_scheme list \<Rightarrow> 'z condition_scheme list" where
  "with_types m cs = fst (foldl (cmap_step m (mapped_types m cs)) ([], []) cs)"

lemma withConditionTypeMapping_alt: "withConditionTypeMapping conditions m = map_option (with_types m) conditions"
  by (cases conditions) (simp_all add: withConditionTypeMapping_def with_types_def)

lemma with_types_distinct: "distinct (map cType (with_types m cs))"
  using cmap_inv_foldl [OF cmap_inv_Nil, of m "mapped_types m cs" cs] by (simp add: cmap_inv_def with_types_def)

text \<open>The last condition mapped to a type wins; a type nothing is mapped to keeps its first condition.\<close>

lemma cfind_foldl_mapped:
  assumes "cmap_inv st"
  shows "t \<in> set ts \<Longrightarrow> cfind t (fst (foldl (cmap_step m ts) st cs)) =
    (case cfind t (rev (map (crename m) (filter (is_mapped m) cs))) of Some c \<Rightarrow> Some c | None \<Rightarrow> cfind t (fst st))"
  using assms
proof (induction cs arbitrary: st)
  case Nil
  then show ?case by simp
next
  case (Cons c cs)
  then show ?case
    by (auto simp add: cmap_inv_step cfind_step cfind_append split: option.splits)
qed

lemma cfind_foldl_plain:
  assumes "cmap_inv st" "\<forall>c \<in> set cs. is_mapped m c \<longrightarrow> cType (crename m c) \<noteq> t"
  shows "t \<notin> set ts \<Longrightarrow> cfind t (fst (foldl (cmap_step m ts) st cs)) =
    (case cfind t (fst st) of Some c \<Rightarrow> Some c | None \<Rightarrow> cfind t (filter (\<lambda>c. \<not> is_mapped m c) cs))"
  using assms
proof (induction cs arbitrary: st)
  case Nil
  then show ?case by (simp split: option.splits)
next
  case (Cons c cs)
  have "crename m c = c" if "\<not> is_mapped m c"
    using that by (simp add: is_mapped_def crename_def)
  with Cons show ?case
    by (auto simp add: cmap_inv_step cfind_step split: option.splits)
qed

lemma with_types_cfind:
  "cfind t (with_types m cs) =
     (if t \<in> set (mapped_types m cs)
      then cfind t (rev (map (crename m) (filter (is_mapped m) cs)))
      else cfind t (filter (\<lambda>c. \<not> is_mapped m c) cs))"
proof (cases "t \<in> set (mapped_types m cs)")
  case True
  then show ?thesis
    using cfind_foldl_mapped [OF cmap_inv_Nil True, of m cs]
    by (simp add: with_types_def split: option.splits)
next
  case False
  then have "\<forall>c \<in> set cs. is_mapped m c \<longrightarrow> cType (crename m c) \<noteq> t"
    by (simp add: mapped_types_set)
  with False show ?thesis
    using cfind_foldl_plain [OF cmap_inv_Nil _ False, of cs m]
    by (simp add: with_types_def)
qed

lemma with_types_set: "cType ` set (with_types m cs) = cType ` set (map (crename m) cs)"
proof -
  have "t \<in> cType ` set (with_types m cs) \<longleftrightarrow> t \<in> cType ` set (map (crename m) cs)" for t
  proof -
    have un: "cType (crename m c) = cType c" if "\<not> is_mapped m c" for c :: "'a condition_scheme"
      using that by (simp add: is_mapped_def crename_def)
    have "t \<in> cType ` set (with_types m cs) \<longleftrightarrow> cfind t (with_types m cs) \<noteq> None"
      by (simp add: cfind_None)
    also have "\<dots> \<longleftrightarrow> t \<in> set (mapped_types m cs) \<or> (\<exists>c \<in> set cs. \<not> is_mapped m c \<and> cType c = t)"
      unfolding with_types_cfind
      by (cases "t \<in> set (mapped_types m cs)") (auto simp: mapped_types_set cfind_None simp del: not_None_eq)
    also have "\<dots> \<longleftrightarrow> t \<in> cType ` set (map (crename m) cs)"
      by (simp add: mapped_types_set image_iff) (metis un)
    finally show ?thesis .
  qed
  then show ?thesis by blast
qed

lemma foldl_no_clash:
  assumes "cmap_inv st"
    "distinct (map cType (fst st) @ map cType (map (crename m) cs))"
    "\<forall>c \<in> set cs. \<not> is_mapped m c \<longrightarrow> cType c \<notin> set ts"
  shows "fst (foldl (cmap_step m ts) st cs) = fst st @ map (crename m) cs"
  using assms
proof (induction cs arbitrary: st)
  case Nil
  then show ?case by simp
next
  case (Cons c cs)
  have "map_of (snd st) (cType (crename m c)) = None"
    using Cons.prems(2) cmap_inv_lookup [of "fst st" "snd st" "cType (crename m c)"] Cons.prems(1) by auto
  then have step: "fst (cmap_step m ts st c) = fst st @ [crename m c]"
    using Cons.prems(3) cmap_step_alt [of m ts "fst st" "snd st" c] by auto
  have "fst (foldl (cmap_step m ts) (cmap_step m ts st c) cs) = fst (cmap_step m ts st c) @ map (crename m) cs"
    using Cons.prems by (intro Cons.IH) (auto simp: cmap_inv_step step)
  then show ?case
    by (simp add: step)
qed

lemma with_types_no_clash:
  assumes "distinct (map cType (map (crename m) cs))"
  shows "with_types m cs = map (crename m) cs"
proof -
  have "cType c \<notin> set (mapped_types m cs)" if "c \<in> set cs" "\<not> is_mapped m c" for c
  proof
    assume "cType c \<in> set (mapped_types m cs)"
    then obtain c' where "c' \<in> set cs" "is_mapped m c'" "cType (crename m c') = cType c"
      by (auto simp: mapped_types_set)
    moreover have "cType (crename m c) = cType c"
      using that(2) by (simp add: is_mapped_def crename_def)
    ultimately have "c' = c"
      using assms that(1) by (auto simp: distinct_map inj_on_def)
    then show False
      using \<open>is_mapped m c'\<close> that(2) by simp
  qed
  then show ?thesis
    using foldl_no_clash [of "([], [])" m cs "mapped_types m cs"] assms by (simp add: with_types_def)
qed


section \<open>Properties\<close>

text \<open>
  Renaming condition types keeps the status well-formed whatever conditions it held: the result has
  exactly one condition for each renamed type; where some condition was renamed to the type, the last
  such condition is kept (even against one that already had the type), otherwise the first condition of
  that type is kept unchanged.
\<close>

theorem condition_mapping:
  "\<exists>rs. withConditionTypeMapping (Some cs) m = Some rs \<and>
     distinct (map cType rs) \<and> set (map cType rs) = set (map (cType \<circ> crename m) cs) \<and>
     (\<forall>t. cfind t rs =
        (if \<exists>c \<in> set cs. is_mapped m c \<and> cType (crename m c) = t
         then cfind t (rev (map (crename m) (filter (is_mapped m) cs)))
         else cfind t (filter (\<lambda>c. \<not> is_mapped m c) cs)))"
  using with_types_distinct [of m cs] with_types_set [of m cs]
  by (simp add: withConditionTypeMapping_alt with_types_cfind mapped_types_set image_comp)

end
