(* ===== verification/DSC_Conversion.thy ===== *)
theory DSC_Conversion
  imports DSC_Conditions Module_Base
begin

text \<open>
  \<open>api/datasciencecluster/v2/datasciencecluster_conversion.go\<close> and \<open>v3/maas_conversion.go\<close>: the conversion of
  the DataScienceCluster between the served version v2 and the stored version v3.

  The components and status fields that both versions declare with one Go type are copied; their
  content is opaque (the type variable \<open>'c\<close>), as are the object metadata other than annotations and
  the other fields of the common status. A nil map or slice is \<open>None\<close>. JSON encoding and decoding of
  the KServe marker are parameters.
\<close>

section \<open>Condition types\<close>

definition v2_to_v3_types :: "(string, string) gomap" where
  "v2_to_v3_types =
     [(''ModelRegistryReady'', ''AIHubReady''), (''FeastOperatorReady'', ''DataReady''),
      (''MaaSConsumerPortalAvailable'', ''MaaSPortalAvailable'')]"

definition v3_to_v2_types :: "(string, string) gomap" where
  "v3_to_v2_types =
     [(''AIHubReady'', ''ModelRegistryReady''), (''DataReady'', ''FeastOperatorReady''),
      (''MaaSPortalAvailable'', ''MaaSConsumerPortalAvailable'')]"

section \<open>Specs\<close>

record DSCDashboard = d3_Standard :: string  d3_MaaSPortal :: string
record DSCDashboardV2 = d2_ManagementState :: string  d2_MaaSConsumerPortal :: string

record ConfidentialContainersConfig =
  cc_LUKSResourceID :: string
  cc_InitData :: string

record NimSpec = nim_ManagementState :: string  nim_AirGapped :: bool

record 'c DSCKserve =
  k3_ManagementState :: string
  k3_RawDeploymentServiceConfig :: 'c
  k3_OAuthProxy :: 'c
  k3_NIM :: NimSpec
  k3_EnableTLS :: 'c
  k3_EnableDashboards :: 'c
  k3_ModelCache :: 'c
  k3_ModelExpress :: string
  k3_ConfidentialContainers :: "ConfidentialContainersConfig option"
  k3_AuditLoggingProfile :: string

record 'c DSCKserveV2 =
  k2_ManagementState :: string
  k2_RawDeploymentServiceConfig :: 'c
  k2_OAuthProxy :: 'c
  k2_NIM :: NimSpec
  k2_EnableTLS :: 'c
  k2_EnableDashboards :: 'c
  k2_ModelCache :: 'c
  k2_WVA :: string
  k2_ModelsAsService :: string

record 'c DSCKueue = kq_ManagementState :: string  kq_Common :: 'c

record 'c DSCAIGateway =
  ag_ManagementState :: string
  ag_ModelsAsAService :: string
  ag_BatchGateway :: 'c
  ag_AIGrid :: 'c

record DSCModelRegistry = mr_ManagementState :: string  mr_RegistriesNamespace :: string
record DSCAIHub = ah_ManagementState :: string  ah_InstancesNamespace :: string
record DSCFeastOperator = fo_ManagementState :: string  fo_DataRegistry :: string
record DSCData = da_FeatureStore :: string  da_DataRegistry :: string

record 'c ComponentsV3 =
  c3_Dashboard :: DSCDashboard
  c3_Workbenches :: 'c
  c3_AIPipelines :: 'c
  c3_Kserve :: "'c DSCKserve"
  c3_Kueue :: "'c DSCKueue"
  c3_Ray :: 'c
  c3_TrustyAI :: 'c
  c3_AIHub :: DSCAIHub
  c3_Data :: DSCData
  c3_OGX :: 'c
  c3_MLflowOperator :: 'c
  c3_Trainer :: 'c
  c3_SparkOperator :: 'c
  c3_AIGateway :: "'c DSCAIGateway"
  c3_MCPLifecycleOperator :: 'c
  c3_DatabaseService :: 'c

record 'c ComponentsV2 =
  c2_Dashboard :: DSCDashboardV2
  c2_Workbenches :: 'c
  c2_AIPipelines :: 'c
  c2_Kserve :: "'c DSCKserveV2"
  c2_Kueue :: "'c DSCKueue"
  c2_Ray :: 'c
  c2_TrustyAI :: 'c
  c2_ModelRegistry :: DSCModelRegistry
  c2_TrainingOperator :: string
  c2_FeastOperator :: DSCFeastOperator
  c2_LlamaStackOperator :: string
  c2_OGX :: 'c
  c2_MLflowOperator :: 'c
  c2_Trainer :: 'c
  c2_SparkOperator :: 'c
  c2_AIGateway :: "'c DSCAIGateway"
  c2_MCPLifecycleOperator :: 'c
  c2_DatabaseService :: 'c

section \<open>Statuses\<close>

text \<open>The statuses of AI Hub and Data embed a pointer to their common status.\<close>

record 'c ns_common_status = ns_Namespace :: string  ns_Releases :: 'c
record 'c DSCAIHubStatus = ahs_ManagementState :: string  ahs_Common :: "'c ns_common_status option"
record 'c DSCModelRegistryStatus = mrs_ManagementState :: string  mrs_Common :: "'c ns_common_status option"
record 'c DSCDataStatus = das_ManagementState :: string  das_Releases :: "'c option"
record 'c DSCFeastOperatorStatus = fos_ManagementState :: string  fos_Releases :: "'c option"

record 'c ComponentsStatusV3 =
  s3_Dashboard :: 'c
  s3_MaaSPortal :: 'c
  s3_Workbenches :: 'c
  s3_WorkbenchesV2 :: 'c
  s3_AIPipelines :: 'c
  s3_Kserve :: 'c
  s3_Kueue :: 'c
  s3_Ray :: 'c
  s3_TrustyAI :: 'c
  s3_AIHub :: "'c DSCAIHubStatus"
  s3_Data :: "'c DSCDataStatus"
  s3_OGX :: 'c
  s3_MLflowOperator :: 'c
  s3_Trainer :: 'c
  s3_SparkOperator :: 'c
  s3_AIGateway :: 'c
  s3_ModelsAsAService :: 'c
  s3_BatchGateway :: 'c
  s3_AIGrid :: 'c
  s3_MCPLifecycleOperator :: 'c
  s3_DatabaseService :: 'c

record 'c ComponentsStatusV2 =
  s2_Dashboard :: 'c
  s2_MaaSConsumerPortal :: 'c
  s2_Workbenches :: 'c
  s2_WorkbenchesV2 :: 'c
  s2_AIPipelines :: 'c
  s2_Kserve :: 'c
  s2_Kueue :: 'c
  s2_Ray :: 'c
  s2_TrustyAI :: 'c
  s2_ModelRegistry :: "'c DSCModelRegistryStatus"
  s2_TrainingOperator :: string
  s2_FeastOperator :: "'c DSCFeastOperatorStatus"
  s2_LlamaStackOperator :: string
  s2_OGX :: 'c
  s2_MLflowOperator :: 'c
  s2_Trainer :: 'c
  s2_SparkOperator :: 'c
  s2_AIGateway :: 'c
  s2_ModelsAsAService :: 'c
  s2_BatchGateway :: 'c
  s2_AIGrid :: 'c
  s2_MCPLifecycleOperator :: 'c
  s2_DatabaseService :: 'c

record ('c, 'z) DscV3 =
  v3_meta :: 'c
  v3_Annotations :: "(string, string) gomap option"
  v3_Components :: "'c ComponentsV3"
  v3_commonStatus :: 'c
  v3_Conditions :: "'z condition_scheme list option"
  v3_RelatedObjects :: 'c
  v3_ErrorMessage :: 'c
  v3_ComponentsStatus :: "'c ComponentsStatusV3"
  v3_Release :: 'c

record ('c, 'z) DscV2 =
  v2_meta :: 'c
  v2_Annotations :: "(string, string) gomap option"
  v2_Components :: "'c ComponentsV2"
  v2_commonStatus :: 'c
  v2_Conditions :: "'z condition_scheme list option"
  v2_RelatedObjects :: 'c
  v2_ErrorMessage :: 'c
  v2_ComponentsStatus :: "'c ComponentsStatusV2"
  v2_Release :: 'c

section \<open>Renamed components\<close>

definition modelRegistryToAIHub :: "DSCModelRegistry \<Rightarrow> DSCAIHub" where
  "modelRegistryToAIHub src = \<lparr>ah_ManagementState = mr_ManagementState src, ah_InstancesNamespace = mr_RegistriesNamespace src\<rparr>"

definition aiHubToModelRegistry :: "DSCAIHub \<Rightarrow> DSCModelRegistry" where
  "aiHubToModelRegistry src = \<lparr>mr_ManagementState = ah_ManagementState src, mr_RegistriesNamespace = ah_InstancesNamespace src\<rparr>"

definition modelRegistryStatusToAIHub :: "'c DSCModelRegistryStatus \<Rightarrow> 'c DSCAIHubStatus" where
  "modelRegistryStatusToAIHub src =
     \<lparr>ahs_ManagementState = mrs_ManagementState src,
      ahs_Common = map_option (\<lambda>c. \<lparr>ns_Namespace = ns_Namespace c, ns_Releases = ns_Releases c\<rparr>) (mrs_Common src)\<rparr>"

definition aiHubStatusToModelRegistry :: "'c DSCAIHubStatus \<Rightarrow> 'c DSCModelRegistryStatus" where
  "aiHubStatusToModelRegistry src =
     \<lparr>mrs_ManagementState = ahs_ManagementState src,
      mrs_Common = map_option (\<lambda>c. \<lparr>ns_Namespace = ns_Namespace c, ns_Releases = ns_Releases c\<rparr>) (ahs_Common src)\<rparr>"

definition feastOperatorStatusToData :: "'c DSCFeastOperatorStatus \<Rightarrow> 'c DSCDataStatus" where
  "feastOperatorStatusToData src = \<lparr>das_ManagementState = fos_ManagementState src, das_Releases = fos_Releases src\<rparr>"

definition dataStatusToFeastOperator :: "'c DSCDataStatus \<Rightarrow> 'c DSCFeastOperatorStatus" where
  "dataStatusToFeastOperator src = \<lparr>fos_ManagementState = das_ManagementState src, fos_Releases = das_Releases src\<rparr>"

definition dashboardV2ToV3 :: "DSCDashboardV2 \<Rightarrow> DSCDashboard" where
  "dashboardV2ToV3 src = \<lparr>d3_Standard = d2_ManagementState src, d3_MaaSPortal = d2_MaaSConsumerPortal src\<rparr>"

definition dashboardV3ToV2 :: "DSCDashboard \<Rightarrow> DSCDashboardV2" where
  "dashboardV3ToV2 src = \<lparr>d2_ManagementState = d3_Standard src, d2_MaaSConsumerPortal = d3_MaaSPortal src\<rparr>"

section \<open>Markers\<close>

definition ModelExpressV3StateAnnotation :: string where
  "ModelExpressV3StateAnnotation = ''conversion.opendatahub.io/modelexpress-v3-state''"

definition KserveV3StateAnnotation :: string where
  "KserveV3StateAnnotation = ''conversion.opendatahub.io/kserve-v3-state''"

definition MaaSV2StateAnnotation :: string where
  "MaaSV2StateAnnotation = ''conversion.opendatahub.io/maas-v2-state''"

abbreviation (input) modelExpressManaged :: string where "modelExpressManaged \<equiv> ''managed''"
abbreviation (input) legacyMaaSManaged :: string where "legacyMaaSManaged \<equiv> ''legacy-managed''"

record kserveV3State =
  ks_ConfidentialContainers :: "ConfidentialContainersConfig option"
  ks_AuditLoggingProfile :: string

subsection \<open>Lengths in code points\<close>

text \<open>
  \<open>utf8.RuneCountInString\<close>: a well-formed UTF-8 sequence counts one, and so does every byte that starts
  none.
\<close>

definition in_range :: "nat \<Rightarrow> nat \<Rightarrow> char \<Rightarrow> bool" where
  "in_range lo hi c \<longleftrightarrow> lo \<le> of_char c \<and> of_char c \<le> hi"

definition tail_ok :: "nat \<Rightarrow> nat \<Rightarrow> nat \<Rightarrow> string \<Rightarrow> bool" where
  "tail_ok n lo hi cs \<longleftrightarrow>
     n \<le> length cs \<and> in_range lo hi (cs ! 0) \<and> list_all (in_range 0x80 0xBF) (take (n - 1) (drop 1 cs))"

definition rune_tail :: "char \<Rightarrow> string \<Rightarrow> nat" where
  "rune_tail c cs =
     (let n = (if in_range 0xC2 0xDF c then 1 else if in_range 0xE0 0xEF c then 2
               else if in_range 0xF0 0xF4 c then 3 else 0);
          lo = (if of_char c = (0xE0 :: nat) then 0xA0 else if of_char c = (0xF0 :: nat) then 0x90 else 0x80);
          hi = (if of_char c = (0xED :: nat) then 0x9F else if of_char c = (0xF4 :: nat) then 0x8F else 0xBF)
      in if n > 0 \<and> tail_ok n lo hi cs then n else 0)"

function RuneCountInString :: "string \<Rightarrow> nat" where
  "RuneCountInString [] = 0"
| "RuneCountInString (c # cs) = Suc (RuneCountInString (drop (rune_tail c cs) cs))"
  by pat_completeness auto
termination
  by (relation "measure length") (auto simp: le_imp_less_Suc)

subsection \<open>Validation of the KServe marker\<close>

definition luksResourceIDMaxLength :: nat where "luksResourceIDMaxLength = 2048"
definition initDataMaxLength :: nat where "initDataMaxLength = 8192"

text \<open>
  The regular expression \<open>^kbs:///[^/\s?#]+/[^/\s?#]+/[^/\s?#]+$\<close>. The excluded characters are ASCII, so
  matching bytes and matching code points agree.
\<close>

definition luks_char :: "char \<Rightarrow> bool" where
  "luks_char c \<longleftrightarrow> c \<notin> {CHR 0x2F, CHR 0x09, CHR 0x0A, CHR 0x0C, CHR 0x0D, CHR 0x20, CHR 0x3F, CHR 0x23}"

definition luks_segment :: "string \<Rightarrow> bool" where
  "luks_segment s \<longleftrightarrow> s \<noteq> [] \<and> list_all luks_char s"

definition luksResourceIDPattern :: "string \<Rightarrow> bool" where
  "luksResourceIDPattern s \<longleftrightarrow>
     HasPrefix s ''kbs:///'' \<and>
     (let segs = split_slash (drop 7 s) in length segs = 3 \<and> list_all luks_segment segs)"

definition validate_cc :: "ConfidentialContainersConfig \<Rightarrow> go_error option" where
  "validate_cc cc =
     (if RuneCountInString (cc_LUKSResourceID cc) > luksResourceIDMaxLength then
        Some (new_error (''luksResourceId exceeds '' @ fmt_nat luksResourceIDMaxLength @ '' characters''))
      else if \<not> luksResourceIDPattern (cc_LUKSResourceID cc) then
        Some (new_error (''invalid luksResourceId '' @ quoted (cc_LUKSResourceID cc)))
      else if list_ex (\<lambda>segment. segment = ''.'' \<or> segment = ''..'') (split_slash (cc_LUKSResourceID cc)) then
        Some (new_error (''luksResourceId '' @ quoted (cc_LUKSResourceID cc) @ '' must not contain '' @
          quoted ''.'' @ '' or '' @ quoted ''..'' @ '' path segments''))
      else if RuneCountInString (cc_InitData cc) > initDataMaxLength then
        Some (new_error (''initData exceeds '' @ fmt_nat initDataMaxLength @ '' characters''))
      else None)"

definition validate :: "kserveV3State \<Rightarrow> go_error option" where
  "validate s =
     (if ks_ConfidentialContainers s = None \<and> ks_AuditLoggingProfile s = '''' then
        Some (new_error ''carries no settings'')
      else if ks_AuditLoggingProfile s \<notin> {'''', ''Removed'', ''Metadata''} then
        Some (new_error (''invalid auditLoggingProfile '' @ quoted (ks_AuditLoggingProfile s)))
      else case ks_ConfidentialContainers s of None \<Rightarrow> None | Some cc \<Rightarrow> validate_cc cc)"

subsection \<open>Provenance of the MaaS selection\<close>

text \<open>Reads and writes of an annotation map that may be nil.\<close>

definition ann :: "(string, string) gomap option \<Rightarrow> string \<Rightarrow> string option" where
  "ann a k = (case a of None \<Rightarrow> None | Some m \<Rightarrow> map_of m k)"

definition ann_delete :: "string \<Rightarrow> (string, string) gomap option \<Rightarrow> (string, string) gomap option" where
  "ann_delete k a = map_option (AList.delete k) a"

definition ann_set :: "string \<Rightarrow> string \<Rightarrow> (string, string) gomap option \<Rightarrow> (string, string) gomap option" where
  "ann_set k v a = Some (AList.update k v (case a of None \<Rightarrow> [] | Some m \<Rightarrow> m))"

definition nil_if_empty :: "(string, string) gomap option \<Rightarrow> (string, string) gomap option" where
  "nil_if_empty a = (if a = Some [] then None else a)"

definition PreserveMaaSV2State :: "string \<Rightarrow> string \<Rightarrow> ('c, 'z) DscV3 \<Rightarrow> ('c, 'z) DscV3" where
  "PreserveMaaSV2State canonical legacy dsc =
     (let a = ann_delete MaaSV2StateAnnotation (v3_Annotations dsc) in
      dsc\<lparr>v3_Annotations :=
        (if canonical = ''Managed'' \<or> legacy \<noteq> ''Managed'' then a
         else ann_set MaaSV2StateAnnotation legacyMaaSManaged a)\<rparr>)"

definition ReadMaaSV2State :: "('c, 'z) DscV3 \<Rightarrow> go_error + bool" where
  "ReadMaaSV2State dsc =
     (case ann (v3_Annotations dsc) MaaSV2StateAnnotation of
        None \<Rightarrow> Inr False
      | Some v \<Rightarrow> if v \<noteq> legacyMaaSManaged then Inl (new_error (''invalid MaaS v2 provenance marker '' @ quoted v))
                  else Inr True)"

definition maas_state :: "('c, 'z) DscV3 \<Rightarrow> string" where
  "maas_state dsc = ag_ModelsAsAService (c3_AIGateway (v3_Components dsc))"

definition AdmitMaaSV2State :: "('c, 'z) DscV3 option \<Rightarrow> ('c, 'z) DscV3 \<Rightarrow> go_error + ('c, 'z) DscV3" where
  "AdmitMaaSV2State old dsc =
     (case old of
        None \<Rightarrow> Inr (PreserveMaaSV2State (maas_state dsc) ''Removed'' dsc)
      | Some old \<Rightarrow>
          case ReadMaaSV2State old of
            Inl err \<Rightarrow> Inl err
          | Inr managed \<Rightarrow>
              if managed \<and> maas_state old = maas_state dsc
              then Inr (PreserveMaaSV2State ''Removed'' ''Managed'' dsc)
              else Inr (PreserveMaaSV2State (maas_state dsc) ''Removed'' dsc))"

section \<open>From v2 to v3\<close>

definition kserveV2ToV3 :: "'c DSCKserveV2 \<Rightarrow> 'c DSCKserve" where
  "kserveV2ToV3 k =
     \<lparr>k3_ManagementState = k2_ManagementState k,
      k3_RawDeploymentServiceConfig = k2_RawDeploymentServiceConfig k,
      k3_OAuthProxy = k2_OAuthProxy k, k3_NIM = k2_NIM k, k3_EnableTLS = k2_EnableTLS k,
      k3_EnableDashboards = k2_EnableDashboards k, k3_ModelCache = k2_ModelCache k,
      k3_ModelExpress = '''', k3_ConfidentialContainers = None, k3_AuditLoggingProfile = ''''\<rparr>"

definition componentsV2ToV3 :: "'c ComponentsV2 \<Rightarrow> 'c ComponentsV3" where
  "componentsV2ToV3 c =
     \<lparr>c3_Dashboard = dashboardV2ToV3 (c2_Dashboard c), c3_Workbenches = c2_Workbenches c,
      c3_AIPipelines = c2_AIPipelines c, c3_Kserve = kserveV2ToV3 (c2_Kserve c), c3_Kueue = c2_Kueue c,
      c3_Ray = c2_Ray c, c3_TrustyAI = c2_TrustyAI c, c3_AIHub = modelRegistryToAIHub (c2_ModelRegistry c),
      c3_Data = \<lparr>da_FeatureStore = fo_ManagementState (c2_FeastOperator c),
                 da_DataRegistry = fo_DataRegistry (c2_FeastOperator c)\<rparr>,
      c3_OGX = c2_OGX c, c3_MLflowOperator = c2_MLflowOperator c, c3_Trainer = c2_Trainer c,
      c3_SparkOperator = c2_SparkOperator c, c3_AIGateway = c2_AIGateway c,
      c3_MCPLifecycleOperator = c2_MCPLifecycleOperator c, c3_DatabaseService = c2_DatabaseService c\<rparr>"

definition statusV2ToV3 :: "'c ComponentsStatusV2 \<Rightarrow> 'c ComponentsStatusV3" where
  "statusV2ToV3 s =
     \<lparr>s3_Dashboard = s2_Dashboard s, s3_MaaSPortal = s2_MaaSConsumerPortal s,
      s3_Workbenches = s2_Workbenches s, s3_WorkbenchesV2 = s2_WorkbenchesV2 s,
      s3_AIPipelines = s2_AIPipelines s, s3_Kserve = s2_Kserve s, s3_Kueue = s2_Kueue s, s3_Ray = s2_Ray s,
      s3_TrustyAI = s2_TrustyAI s, s3_AIHub = modelRegistryStatusToAIHub (s2_ModelRegistry s),
      s3_Data = feastOperatorStatusToData (s2_FeastOperator s), s3_OGX = s2_OGX s,
      s3_MLflowOperator = s2_MLflowOperator s, s3_Trainer = s2_Trainer s, s3_SparkOperator = s2_SparkOperator s,
      s3_AIGateway = s2_AIGateway s, s3_ModelsAsAService = s2_ModelsAsAService s,
      s3_BatchGateway = s2_BatchGateway s, s3_AIGrid = s2_AIGrid s,
      s3_MCPLifecycleOperator = s2_MCPLifecycleOperator s, s3_DatabaseService = s2_DatabaseService s\<rparr>"

definition map_components :: "('c ComponentsV3 \<Rightarrow> 'c ComponentsV3) \<Rightarrow> ('c, 'z) DscV3 \<Rightarrow> ('c, 'z) DscV3" where
  "map_components f d = d\<lparr>v3_Components := f (v3_Components d)\<rparr>"

text \<open>The selection of Models as a Service, canonical in \<open>aigateway\<close> and legacy in \<open>kserve\<close>.\<close>

definition legacy_effective :: "'c ComponentsV2 \<Rightarrow> bool" where
  "legacy_effective c \<longleftrightarrow>
     k2_ManagementState (c2_Kserve c) = ''Managed'' \<and> k2_ModelsAsService (c2_Kserve c) = ''Managed''"

definition select_maas :: "'c ComponentsV2 \<Rightarrow> 'c ComponentsV3 \<Rightarrow> 'c ComponentsV3" where
  "select_maas src c =
     (let ag = c3_AIGateway c;
          ag = ag\<lparr>ag_ModelsAsAService :=
                 (if ag_ModelsAsAService (c2_AIGateway src) = ''Managed'' \<or> legacy_effective src
                  then ''Managed'' else ''Removed'')\<rparr>;
          ag = (if ag_ManagementState (c2_AIGateway src) \<noteq> '''' then
                  ag\<lparr>ag_ManagementState := ag_ManagementState (c2_AIGateway src)\<rparr>
                else if legacy_effective src then ag\<lparr>ag_ManagementState := ''Managed''\<rparr>
                else ag)
      in c\<lparr>c3_AIGateway := ag\<rparr>)"

definition restore_modelexpress :: "('c, 'z) DscV3 \<Rightarrow> go_error + ('c, 'z) DscV3" where
  "restore_modelexpress dst =
     (case ann (v3_Annotations dst) ModelExpressV3StateAnnotation of
        None \<Rightarrow> Inr dst
      | Some v \<Rightarrow>
          if v \<noteq> modelExpressManaged then Inl (new_error (''invalid ModelExpress v3 state marker '' @ quoted v))
          else
            let dst = map_components (\<lambda>c. c\<lparr>c3_Kserve := (c3_Kserve c)\<lparr>k3_ModelExpress := ''Managed''\<rparr>\<rparr>) dst
            in Inr (dst\<lparr>v3_Annotations :=
                 nil_if_empty (ann_delete ModelExpressV3StateAnnotation (v3_Annotations dst))\<rparr>))"

definition restore_kserve ::
  "(string \<Rightarrow> go_error + kserveV3State) \<Rightarrow> ('c, 'z) DscV3 \<Rightarrow> go_error + ('c, 'z) DscV3" where
  "restore_kserve unmarshal dst =
     (case ann (v3_Annotations dst) KserveV3StateAnnotation of
        None \<Rightarrow> Inr dst
      | Some v \<Rightarrow>
          case unmarshal v of
            Inl err \<Rightarrow> Inl (wrap ''invalid KServe v3 state marker'' err)
          | Inr state \<Rightarrow>
              case validate state of
                Some err \<Rightarrow> Inl (wrap ''invalid KServe v3 state marker'' err)
              | None \<Rightarrow>
                  let dst = map_components (\<lambda>c. c\<lparr>c3_Kserve := (c3_Kserve c)
                              \<lparr>k3_ConfidentialContainers := ks_ConfidentialContainers state,
                               k3_AuditLoggingProfile := ks_AuditLoggingProfile state\<rparr>\<rparr>) dst
                  in Inr (dst\<lparr>v3_Annotations :=
                       nil_if_empty (ann_delete KserveV3StateAnnotation (v3_Annotations dst))\<rparr>))"

definition ConvertTo ::
  "(string \<Rightarrow> go_error + kserveV3State) \<Rightarrow> ('c, 'z) DscV2 \<Rightarrow> go_error + ('c, 'z) DscV3" where
  "ConvertTo unmarshal src =
     (let dst =
        \<lparr>v3_meta = v2_meta src, v3_Annotations = v2_Annotations src,
         v3_Components = select_maas (v2_Components src) (componentsV2ToV3 (v2_Components src)),
         v3_commonStatus = v2_commonStatus src,
         v3_Conditions = withConditionTypeMapping (v2_Conditions src) v2_to_v3_types,
         v3_RelatedObjects = v2_RelatedObjects src, v3_ErrorMessage = v2_ErrorMessage src,
         v3_ComponentsStatus = statusV2ToV3 (v2_ComponentsStatus src), v3_Release = v2_Release src\<rparr>;
        dst = PreserveMaaSV2State (ag_ModelsAsAService (c2_AIGateway (v2_Components src)))
                (k2_ModelsAsService (c2_Kserve (v2_Components src))) dst
      in case restore_modelexpress dst of
           Inl err \<Rightarrow> Inl err
         | Inr dst \<Rightarrow> restore_kserve unmarshal dst)"

section \<open>From v3 to v2\<close>

definition kserveV3ToV2 :: "'c DSCKserve \<Rightarrow> 'c DSCKserveV2" where
  "kserveV3ToV2 k =
     \<lparr>k2_ManagementState = k3_ManagementState k,
      k2_RawDeploymentServiceConfig = k3_RawDeploymentServiceConfig k,
      k2_OAuthProxy = k3_OAuthProxy k, k2_NIM = k3_NIM k, k2_EnableTLS = k3_EnableTLS k,
      k2_EnableDashboards = k3_EnableDashboards k, k2_ModelCache = k3_ModelCache k,
      k2_WVA = ''Removed'', k2_ModelsAsService = ''Removed''\<rparr>"

definition componentsV3ToV2 :: "'c ComponentsV3 \<Rightarrow> 'c ComponentsV2" where
  "componentsV3ToV2 c =
     \<lparr>c2_Dashboard = dashboardV3ToV2 (c3_Dashboard c), c2_Workbenches = c3_Workbenches c,
      c2_AIPipelines = c3_AIPipelines c, c2_Kserve = kserveV3ToV2 (c3_Kserve c), c2_Kueue = c3_Kueue c,
      c2_Ray = c3_Ray c, c2_TrustyAI = c3_TrustyAI c, c2_ModelRegistry = aiHubToModelRegistry (c3_AIHub c),
      c2_TrainingOperator = ''Removed'',
      c2_FeastOperator = \<lparr>fo_ManagementState = da_FeatureStore (c3_Data c), fo_DataRegistry = da_DataRegistry (c3_Data c)\<rparr>,
      c2_LlamaStackOperator = ''Removed'', c2_OGX = c3_OGX c, c2_MLflowOperator = c3_MLflowOperator c,
      c2_Trainer = c3_Trainer c, c2_SparkOperator = c3_SparkOperator c, c2_AIGateway = c3_AIGateway c,
      c2_MCPLifecycleOperator = c3_MCPLifecycleOperator c, c2_DatabaseService = c3_DatabaseService c\<rparr>"

definition statusV3ToV2 :: "'c ComponentsStatusV3 \<Rightarrow> 'c ComponentsStatusV2" where
  "statusV3ToV2 s =
     \<lparr>s2_Dashboard = s3_Dashboard s, s2_MaaSConsumerPortal = s3_MaaSPortal s,
      s2_Workbenches = s3_Workbenches s, s2_WorkbenchesV2 = s3_WorkbenchesV2 s,
      s2_AIPipelines = s3_AIPipelines s, s2_Kserve = s3_Kserve s, s2_Kueue = s3_Kueue s, s2_Ray = s3_Ray s,
      s2_TrustyAI = s3_TrustyAI s, s2_ModelRegistry = aiHubStatusToModelRegistry (s3_AIHub s),
      s2_TrainingOperator = ''Removed'', s2_FeastOperator = dataStatusToFeastOperator (s3_Data s),
      s2_LlamaStackOperator = ''Removed'', s2_OGX = s3_OGX s,
      s2_MLflowOperator = s3_MLflowOperator s, s2_Trainer = s3_Trainer s, s2_SparkOperator = s3_SparkOperator s,
      s2_AIGateway = s3_AIGateway s, s2_ModelsAsAService = s3_ModelsAsAService s,
      s2_BatchGateway = s3_BatchGateway s, s2_AIGrid = s3_AIGrid s,
      s2_MCPLifecycleOperator = s3_MCPLifecycleOperator s, s2_DatabaseService = s3_DatabaseService s\<rparr>"

definition legacy_view :: "'c ComponentsV2 \<Rightarrow> 'c ComponentsV2" where
  "legacy_view c =
     c\<lparr>c2_Kserve := (c2_Kserve c)\<lparr>k2_ModelsAsService := ''Managed''\<rparr>,
       c2_AIGateway := (c2_AIGateway c)\<lparr>ag_ModelsAsAService := ''Removed''\<rparr>\<rparr>"

definition kserve_state :: "'c DSCKserve \<Rightarrow> kserveV3State" where
  "kserve_state k =
     \<lparr>ks_ConfidentialContainers = k3_ConfidentialContainers k,
      ks_AuditLoggingProfile =
        (if k3_AuditLoggingProfile k \<noteq> '''' \<and> k3_AuditLoggingProfile k \<noteq> ''Removed''
         then k3_AuditLoggingProfile k else '''')\<rparr>"

definition carries_settings :: "kserveV3State \<Rightarrow> bool" where
  "carries_settings s \<longleftrightarrow> ks_ConfidentialContainers s \<noteq> None \<or> ks_AuditLoggingProfile s \<noteq> ''''"

definition marker_annotations ::
  "(kserveV3State \<Rightarrow> go_error + string) \<Rightarrow> 'c DSCKserve \<Rightarrow> (string, string) gomap option \<Rightarrow>
     go_error + (string, string) gomap option" where
  "marker_annotations marshal k a =
     (let a = ann_delete ModelExpressV3StateAnnotation (ann_delete MaaSV2StateAnnotation a);
          a = (if k3_ModelExpress k = ''Managed'' then ann_set ModelExpressV3StateAnnotation modelExpressManaged a else a);
          a = ann_delete KserveV3StateAnnotation a;
          state = kserve_state k
      in if carries_settings state then
           (case marshal state of
              Inl err \<Rightarrow> Inl (wrap ''encode KServe v3 state marker'' err)
            | Inr encoded \<Rightarrow> Inr (nil_if_empty (ann_set KserveV3StateAnnotation encoded a)))
         else Inr (nil_if_empty a))"

definition ConvertFrom ::
  "(kserveV3State \<Rightarrow> go_error + string) \<Rightarrow> ('c, 'z) DscV3 \<Rightarrow> go_error + ('c, 'z) DscV2" where
  "ConvertFrom marshal src =
     (let components = componentsV3ToV2 (v3_Components src) in
      case ReadMaaSV2State src of
        Inl err \<Rightarrow> Inl err
      | Inr legacyManaged \<Rightarrow>
          case marker_annotations marshal (c3_Kserve (v3_Components src)) (v3_Annotations src) of
            Inl err \<Rightarrow> Inl err
          | Inr annotations \<Rightarrow> Inr
              \<lparr>v2_meta = v3_meta src, v2_Annotations = annotations,
               v2_Components = (if legacyManaged then legacy_view components else components),
               v2_commonStatus = v3_commonStatus src,
               v2_Conditions = withConditionTypeMapping (v3_Conditions src) v3_to_v2_types,
               v2_RelatedObjects = v3_RelatedObjects src, v2_ErrorMessage = v3_ErrorMessage src,
               v2_ComponentsStatus = statusV3ToV2 (v3_ComponentsStatus src), v2_Release = v3_Release src\<rparr>)"

section \<open>Lemmas: round trip\<close>

lemma ann_simps [simp]:
  "ann (ann_delete k a) = (ann a)(k := None)"
  "ann (ann_set k v a) = (ann a)(k \<mapsto> v)"
  "ann (nil_if_empty a) = ann a"
  "ann None = Map.empty"
  by (cases a; simp add: ann_def ann_delete_def ann_set_def nil_if_empty_def fun_eq_iff go_map_simps)+

lemma markers_distinct [simp]:
  "ModelExpressV3StateAnnotation \<noteq> KserveV3StateAnnotation" "KserveV3StateAnnotation \<noteq> ModelExpressV3StateAnnotation"
  "ModelExpressV3StateAnnotation \<noteq> MaaSV2StateAnnotation" "MaaSV2StateAnnotation \<noteq> ModelExpressV3StateAnnotation"
  "KserveV3StateAnnotation \<noteq> MaaSV2StateAnnotation" "MaaSV2StateAnnotation \<noteq> KserveV3StateAnnotation"
  by (simp_all add: ModelExpressV3StateAnnotation_def KserveV3StateAnnotation_def MaaSV2StateAnnotation_def)

definition wf_conditions :: "'z condition_scheme list option \<Rightarrow> bool" where
  "wf_conditions conditions \<longleftrightarrow>
     (case conditions of None \<Rightarrow> True
      | Some cs \<Rightarrow> distinct (map cType cs) \<and> list_all (\<lambda>c. map_of v2_to_v3_types (cType c) = None) cs)"

definition wf_markers :: "('c, 'z) DscV3 \<Rightarrow> bool" where
  "wf_markers d \<longleftrightarrow>
     ann (v3_Annotations d) ModelExpressV3StateAnnotation = None \<and>
     ann (v3_Annotations d) KserveV3StateAnnotation = None \<and>
     ann (v3_Annotations d) MaaSV2StateAnnotation \<in> {None, Some legacyMaaSManaged}"

definition wf_maas :: "('c, 'z) DscV3 \<Rightarrow> bool" where
  "wf_maas d \<longleftrightarrow>
     maas_state d \<in> {''Managed'', ''Removed''} \<and>
     (ann (v3_Annotations d) MaaSV2StateAnnotation \<noteq> None \<longrightarrow>
        (maas_state d = ''Managed'' \<longleftrightarrow> k3_ManagementState (c3_Kserve (v3_Components d)) = ''Managed'') \<and>
        (maas_state d = ''Managed'' \<longrightarrow> ag_ManagementState (c3_AIGateway (v3_Components d)) \<noteq> ''''))"

definition wf_kserve :: "'c DSCKserve \<Rightarrow> bool" where
  "wf_kserve k \<longleftrightarrow> carries_settings (kserve_state k) \<longrightarrow> validate (kserve_state k) = None"

definition wf_v3 :: "('c, 'z) DscV3 \<Rightarrow> bool" where
  "wf_v3 d \<longleftrightarrow> wf_markers d \<and> wf_maas d \<and> wf_kserve (c3_Kserve (v3_Components d)) \<and> wf_conditions (v3_Conditions d)"

text \<open>A default spelled out (\<open>Removed\<close>) comes back as the empty string.\<close>

definition norm_kserve :: "'c DSCKserve \<Rightarrow> 'c DSCKserve" where
  "norm_kserve k =
     k\<lparr>k3_ModelExpress := (if k3_ModelExpress k = ''Managed'' then ''Managed'' else ''''),
       k3_AuditLoggingProfile := ks_AuditLoggingProfile (kserve_state k)\<rparr>"

definition norm_v3 :: "('c, 'z) DscV3 \<Rightarrow> ('c, 'z) DscV3" where
  "norm_v3 = map_components (\<lambda>c. c\<lparr>c3_Kserve := norm_kserve (c3_Kserve c)\<rparr>)"

definition same_v3 :: "('c, 'z) DscV3 \<Rightarrow> ('c, 'z) DscV3 \<Rightarrow> bool" where
  "same_v3 d d' \<longleftrightarrow> ann (v3_Annotations d) = ann (v3_Annotations d') \<and> d\<lparr>v3_Annotations := None\<rparr> = d'\<lparr>v3_Annotations := None\<rparr>"

definition codec_ok ::
  "(kserveV3State \<Rightarrow> go_error + string) \<Rightarrow> (string \<Rightarrow> go_error + kserveV3State) \<Rightarrow> kserveV3State \<Rightarrow> bool" where
  "codec_ok marshal unmarshal s \<longleftrightarrow> (\<exists>v. marshal s = Inr v \<and> unmarshal v = Inr s)"

subsection \<open>Conditions\<close>

lemma crename_back:
  assumes "map_of v2_to_v3_types (cType c) = None"
  shows "crename v2_to_v3_types (crename v3_to_v2_types c) = c"
  using assms by (auto simp: crename_def v2_to_v3_types_def v3_to_v2_types_def split: if_splits)

lemma v3_to_v2_inj:
  assumes "map_of v2_to_v3_types (cType c) = None" "map_of v2_to_v3_types (cType c') = None"
    and "cType (crename v3_to_v2_types c) = cType (crename v3_to_v2_types c')"
  shows "cType c = cType c'"
  using assms by (auto simp: crename_def v2_to_v3_types_def v3_to_v2_types_def split: if_splits)

lemma conditions_roundtrip:
  assumes "wf_conditions conditions"
  shows "withConditionTypeMapping (withConditionTypeMapping conditions v3_to_v2_types) v2_to_v3_types = conditions"
proof (cases conditions)
  case (Some cs)
  let ?f = "crename v3_to_v2_types :: 'a condition_scheme \<Rightarrow> _" and ?g = "crename v2_to_v3_types"
  have d: "distinct (map cType cs)" and n: "\<forall>c \<in> set cs. map_of v2_to_v3_types (cType c) = None"
    using assms Some by (simp_all add: wf_conditions_def list_all_iff)
  have "distinct (map cType (map ?f cs))"
    using d n by (induction cs) (auto simp: image_iff, metis v3_to_v2_inj)
  then have f: "with_types v3_to_v2_types cs = map ?f cs"
    by (rule with_types_no_clash)
  have gf: "map ?g (map ?f cs) = cs"
    using n by (simp add: crename_back map_idI)
  then have "with_types v2_to_v3_types (map ?f cs) = cs"
    using d by (simp add: with_types_no_clash)
  then show ?thesis
    by (simp add: Some withConditionTypeMapping_alt f)
qed (simp add: withConditionTypeMapping_def)

lemma crename_no_v2: "map_of v2_to_v3_types (cType (crename v2_to_v3_types c)) = None"
  by (auto simp: crename_def v2_to_v3_types_def)

lemma wf_conditions_ConvertTo: "wf_conditions (withConditionTypeMapping conditions v2_to_v3_types)"
proof (cases conditions)
  case (Some cs)
  have "map_of v2_to_v3_types (cType c) = None" if "c \<in> set (with_types v2_to_v3_types cs)" for c
  proof -
    have "cType c \<in> cType ` set (map (crename v2_to_v3_types) cs)"
      using that with_types_set [of v2_to_v3_types cs] by blast
    then show ?thesis
      using crename_no_v2 by auto
  qed
  then show ?thesis
    by (simp add: Some withConditionTypeMapping_alt wf_conditions_def with_types_distinct list_all_iff)
qed (simp add: withConditionTypeMapping_def wf_conditions_def)

subsection \<open>Components\<close>

lemma renaming_roundtrip [simp]:
  "dashboardV2ToV3 (dashboardV3ToV2 d) = d"
  "modelRegistryToAIHub (aiHubToModelRegistry h) = h"
  "feastOperatorStatusToData (dataStatusToFeastOperator ds) = ds"
  by (simp_all add: dashboardV2ToV3_def dashboardV3ToV2_def modelRegistryToAIHub_def aiHubToModelRegistry_def
      feastOperatorStatusToData_def dataStatusToFeastOperator_def)

lemma aihub_status_roundtrip [simp]: "modelRegistryStatusToAIHub (aiHubStatusToModelRegistry hs) = hs"
  by (cases hs; cases "ahs_Common hs") (simp_all add: modelRegistryStatusToAIHub_def aiHubStatusToModelRegistry_def)

lemma status_roundtrip [simp]: "statusV2ToV3 (statusV3ToV2 s) = s"
  by (rule ComponentsStatusV3.equality) (simp_all add: statusV2ToV3_def statusV3ToV2_def)

definition v2_view :: "bool \<Rightarrow> 'c ComponentsV3 \<Rightarrow> 'c ComponentsV2" where
  "v2_view legacy c = (if legacy then legacy_view (componentsV3ToV2 c) else componentsV3ToV2 c)"

lemmas component_defs = kserveV2ToV3_def kserveV3ToV2_def componentsV2ToV3_def componentsV3ToV2_def
  v2_view_def legacy_view_def

lemma kserve_roundtrip [simp]:
  "kserveV2ToV3 (kserveV3ToV2 k\<lparr>k2_ModelsAsService := s\<rparr>) =
     k\<lparr>k3_ModelExpress := '''', k3_ConfidentialContainers := None, k3_AuditLoggingProfile := ''''\<rparr>"
  "kserveV2ToV3 (kserveV3ToV2 k) =
     k\<lparr>k3_ModelExpress := '''', k3_ConfidentialContainers := None, k3_AuditLoggingProfile := ''''\<rparr>"
  by (simp_all add: kserveV2ToV3_def kserveV3ToV2_def)

lemma view_roundtrip:
  "componentsV2ToV3 (v2_view legacy c) =
    c\<lparr>c3_Kserve := (c3_Kserve c)\<lparr>k3_ModelExpress := '''', k3_ConfidentialContainers := None, k3_AuditLoggingProfile := ''''\<rparr>,
      c3_AIGateway := c2_AIGateway (v2_view legacy c)\<rparr>"
  by (rule ComponentsV3.equality) (simp_all add: v2_view_def legacy_view_def componentsV2ToV3_def componentsV3ToV2_def)

lemma components_roundtrip:
  assumes "ag_ModelsAsAService (c3_AIGateway c) \<in> {''Managed'', ''Removed''}"
    and "legacy \<Longrightarrow> (ag_ModelsAsAService (c3_AIGateway c) = ''Managed'') = (k3_ManagementState (c3_Kserve c) = ''Managed'')"
    and "legacy \<Longrightarrow> ag_ModelsAsAService (c3_AIGateway c) = ''Managed'' \<Longrightarrow> ag_ManagementState (c3_AIGateway c) \<noteq> ''''"
  shows "select_maas (v2_view legacy c) (componentsV2ToV3 (v2_view legacy c)) =
    c\<lparr>c3_Kserve := (c3_Kserve c)\<lparr>k3_ModelExpress := '''', k3_ConfidentialContainers := None, k3_AuditLoggingProfile := ''''\<rparr>\<rparr>"
proof -
  have sel: "c2_AIGateway (v2_view legacy c) =
      (if legacy then (c3_AIGateway c)\<lparr>ag_ModelsAsAService := ''Removed''\<rparr> else c3_AIGateway c)"
    "legacy_effective (v2_view legacy c) \<longleftrightarrow> legacy \<and> k3_ManagementState (c3_Kserve c) = ''Managed''"
    by (simp_all add: v2_view_def legacy_view_def legacy_effective_def componentsV3ToV2_def kserveV3ToV2_def)
  show ?thesis
    using assms by (intro ComponentsV3.equality DSCAIGateway.equality) (auto simp: select_maas_def view_roundtrip sel Let_def)
qed

subsection \<open>Markers\<close>

lemma marker_annotations_ok:
  assumes "codec_ok marshal unmarshal (kserve_state k) \<or> \<not> carries_settings (kserve_state k)"
  shows "\<exists>a' v. marker_annotations marshal k a = Inr a' \<and> (carries_settings (kserve_state k) \<longrightarrow> unmarshal v = Inr (kserve_state k)) \<and>
    ann a' = (ann a)(MaaSV2StateAnnotation := None,
      ModelExpressV3StateAnnotation := (if k3_ModelExpress k = ''Managed'' then Some modelExpressManaged else None),
      KserveV3StateAnnotation := (if carries_settings (kserve_state k) then Some v else None))"
  using assms by (auto simp: marker_annotations_def codec_ok_def Let_def fun_eq_iff)

lemma restore_modelexpress_ok:
  assumes "ann (v3_Annotations d) ModelExpressV3StateAnnotation \<in> {None, Some modelExpressManaged}"
  shows "\<exists>d'. restore_modelexpress d = Inr d' \<and>
    ann (v3_Annotations d') = (ann (v3_Annotations d))(ModelExpressV3StateAnnotation := None) \<and>
    d'\<lparr>v3_Annotations := None\<rparr> =
      (if ann (v3_Annotations d) ModelExpressV3StateAnnotation = None then d
       else map_components (\<lambda>c. c\<lparr>c3_Kserve := (c3_Kserve c)\<lparr>k3_ModelExpress := ''Managed''\<rparr>\<rparr>) d)\<lparr>v3_Annotations := None\<rparr>"
  using assms by (auto simp: restore_modelexpress_def Let_def map_components_def)

lemma restore_kserve_ok:
  assumes "ann (v3_Annotations d) KserveV3StateAnnotation = None \<or>
    (\<exists>v. ann (v3_Annotations d) KserveV3StateAnnotation = Some v \<and> unmarshal v = Inr s \<and> validate s = None)"
  shows "\<exists>d'. restore_kserve unmarshal d = Inr d' \<and>
    ann (v3_Annotations d') = (ann (v3_Annotations d))(KserveV3StateAnnotation := None) \<and>
    d'\<lparr>v3_Annotations := None\<rparr> =
      (if ann (v3_Annotations d) KserveV3StateAnnotation = None then d
       else map_components (\<lambda>c. c\<lparr>c3_Kserve := (c3_Kserve c)\<lparr>k3_ConfidentialContainers := ks_ConfidentialContainers s,
               k3_AuditLoggingProfile := ks_AuditLoggingProfile s\<rparr>\<rparr>) d)\<lparr>v3_Annotations := None\<rparr>"
  using assms by (auto simp: restore_kserve_def Let_def map_components_def)

lemma v2_legacy_fields [simp]:
  "ag_ModelsAsAService (c2_AIGateway (v2_view legacy c)) = (if legacy then ''Removed'' else ag_ModelsAsAService (c3_AIGateway c))"
  "k2_ModelsAsService (c2_Kserve (v2_view legacy c)) = (if legacy then ''Managed'' else ''Removed'')"
  by (simp_all add: v2_view_def legacy_view_def componentsV3ToV2_def kserveV3ToV2_def)

lemma ReadMaaSV2State_wf:
  "wf_markers d \<Longrightarrow> ReadMaaSV2State d = Inr (ann (v3_Annotations d) MaaSV2StateAnnotation \<noteq> None)"
  by (auto simp: wf_markers_def ReadMaaSV2State_def split: option.split)

text \<open>The v2 view of a v3 object with annotations \<open>a\<close>, and the v3 object it converts to before the markers are read.\<close>

definition has_legacy :: "('c, 'z) DscV3 \<Rightarrow> bool" where
  "has_legacy d \<longleftrightarrow> ann (v3_Annotations d) MaaSV2StateAnnotation \<noteq> None"

definition view_of :: "(string, string) gomap option \<Rightarrow> ('c, 'z) DscV3 \<Rightarrow> ('c, 'z) DscV2" where
  "view_of a d =
     \<lparr>v2_meta = v3_meta d, v2_Annotations = a, v2_Components = v2_view (has_legacy d) (v3_Components d),
      v2_commonStatus = v3_commonStatus d,
      v2_Conditions = withConditionTypeMapping (v3_Conditions d) v3_to_v2_types,
      v2_RelatedObjects = v3_RelatedObjects d, v2_ErrorMessage = v3_ErrorMessage d,
      v2_ComponentsStatus = statusV3ToV2 (v3_ComponentsStatus d), v2_Release = v3_Release d\<rparr>"

definition plain_kserve :: "'c DSCKserve \<Rightarrow> 'c DSCKserve" where
  "plain_kserve k = k\<lparr>k3_ModelExpress := '''', k3_ConfidentialContainers := None, k3_AuditLoggingProfile := ''''\<rparr>"

definition plain_v3 :: "(string, string) gomap option \<Rightarrow> ('c, 'z) DscV3 \<Rightarrow> ('c, 'z) DscV3" where
  "plain_v3 a d =
     (if has_legacy d then PreserveMaaSV2State ''Removed'' ''Managed'' else PreserveMaaSV2State (maas_state d) ''Removed'')
       (map_components (\<lambda>c. c\<lparr>c3_Kserve := plain_kserve (c3_Kserve c)\<rparr>) (d\<lparr>v3_Annotations := a\<rparr>))"

lemma ConvertFrom_view:
  assumes "wf_markers d" "marker_annotations marshal (c3_Kserve (v3_Components d)) (v3_Annotations d) = Inr a"
  shows "ConvertFrom marshal d = Inr (view_of a d)"
  using assms by (simp add: ConvertFrom_def ReadMaaSV2State_wf view_of_def v2_view_def has_legacy_def)

lemma ConvertTo_view:
  assumes "wf_v3 d"
  shows "ConvertTo unmarshal (view_of a d) =
    (case restore_modelexpress (plain_v3 a d) of Inl err \<Rightarrow> Inl err | Inr dst \<Rightarrow> restore_kserve unmarshal dst)"
proof -
  let ?v = "v2_view (has_legacy d) (v3_Components d)"
  have comps: "select_maas ?v (componentsV2ToV3 ?v) =
      (v3_Components d)\<lparr>c3_Kserve := plain_kserve (c3_Kserve (v3_Components d))\<rparr>"
    using assms unfolding plain_kserve_def
    by (intro components_roundtrip) (auto simp: wf_v3_def wf_maas_def maas_state_def has_legacy_def)
  have conds: "withConditionTypeMapping (withConditionTypeMapping (v3_Conditions d) v3_to_v2_types) v2_to_v3_types = v3_Conditions d"
    using assms by (simp add: wf_v3_def conditions_roundtrip)
  have dst: "\<lparr>v3_meta = v2_meta (view_of a d), v3_Annotations = v2_Annotations (view_of a d),
         v3_Components = select_maas (v2_Components (view_of a d)) (componentsV2ToV3 (v2_Components (view_of a d))),
         v3_commonStatus = v2_commonStatus (view_of a d),
         v3_Conditions = withConditionTypeMapping (v2_Conditions (view_of a d)) v2_to_v3_types,
         v3_RelatedObjects = v2_RelatedObjects (view_of a d), v3_ErrorMessage = v2_ErrorMessage (view_of a d),
         v3_ComponentsStatus = statusV2ToV3 (v2_ComponentsStatus (view_of a d)), v3_Release = v2_Release (view_of a d)\<rparr>
      = map_components (\<lambda>c. c\<lparr>c3_Kserve := plain_kserve (c3_Kserve c)\<rparr>) (d\<lparr>v3_Annotations := a\<rparr>)"
    by (rule DscV3.equality) (simp_all add: view_of_def comps conds map_components_def)
  have args: "v2_Components (view_of a d) = ?v"
    by (simp add: view_of_def)
  have "plain_v3 a d = PreserveMaaSV2State (ag_ModelsAsAService (c2_AIGateway ?v)) (k2_ModelsAsService (c2_Kserve ?v))
      (map_components (\<lambda>c. c\<lparr>c3_Kserve := plain_kserve (c3_Kserve c)\<rparr>) (d\<lparr>v3_Annotations := a\<rparr>))"
    by (simp add: plain_v3_def maas_state_def)
  then show ?thesis
    unfolding ConvertTo_def Let_def dst by (simp add: args)
qed

lemma plain_v3_fields:
  "ann (v3_Annotations (plain_v3 a d)) = (ann a)(MaaSV2StateAnnotation := (if has_legacy d then Some legacyMaaSManaged else None))"
  "(plain_v3 a d)\<lparr>v3_Annotations := None\<rparr> =
     map_components (\<lambda>c. c\<lparr>c3_Kserve := plain_kserve (c3_Kserve c)\<rparr>) (d\<lparr>v3_Annotations := None\<rparr>)"
  by (auto simp: plain_v3_def PreserveMaaSV2State_def Let_def map_components_def)

text \<open>Reading the markers back after writing them.\<close>

definition restore :: "(string \<Rightarrow> go_error + kserveV3State) \<Rightarrow> ('c, 'z) DscV3 \<Rightarrow> go_error + ('c, 'z) DscV3" where
  "restore unmarshal d = (case restore_modelexpress d of Inl err \<Rightarrow> Inl err | Inr dst \<Rightarrow> restore_kserve unmarshal dst)"

lemma map_components_strip:
  assumes "d'\<lparr>v3_Annotations := None\<rparr> = d\<lparr>v3_Annotations := None\<rparr>"
  shows "(map_components f d')\<lparr>v3_Annotations := None\<rparr> = map_components f (d\<lparr>v3_Annotations := None\<rparr>)"
proof -
  have "(map_components f d')\<lparr>v3_Annotations := None\<rparr> = map_components f (d'\<lparr>v3_Annotations := None\<rparr>)"
    by (simp add: map_components_def)
  then show ?thesis
    by (simp only: assms)
qed

lemma restore_ok:
  assumes me: "ann (v3_Annotations d) ModelExpressV3StateAnnotation = (if me then Some modelExpressManaged else None)"
    and ks: "ann (v3_Annotations d) KserveV3StateAnnotation = (if cs then Some v else None)"
    and dec: "cs \<longrightarrow> unmarshal v = Inr s \<and> validate s = None"
  shows "\<exists>d'. restore unmarshal d = Inr d' \<and>
    ann (v3_Annotations d') = (ann (v3_Annotations d))(ModelExpressV3StateAnnotation := None, KserveV3StateAnnotation := None) \<and>
    d'\<lparr>v3_Annotations := None\<rparr> = map_components (\<lambda>c. c\<lparr>c3_Kserve :=
       (let k = (if me then (c3_Kserve c)\<lparr>k3_ModelExpress := ''Managed''\<rparr> else c3_Kserve c) in
        if cs then k\<lparr>k3_ConfidentialContainers := ks_ConfidentialContainers s,
                    k3_AuditLoggingProfile := ks_AuditLoggingProfile s\<rparr> else k)\<rparr>) (d\<lparr>v3_Annotations := None\<rparr>)"
  using assms
  by (cases me; cases cs)
    (simp_all add: restore_def restore_modelexpress_def restore_kserve_def map_components_def Let_def fun_eq_iff)

lemma roundtrip:
  assumes wf: "wf_v3 d"
    and codec: "carries_settings (kserve_state (c3_Kserve (v3_Components d))) \<longrightarrow>
      codec_ok marshal unmarshal (kserve_state (c3_Kserve (v3_Components d)))"
  shows "\<exists>v d'. ConvertFrom marshal d = Inr v \<and> ConvertTo unmarshal v = Inr d' \<and> same_v3 d' (norm_v3 d)"
proof -
  let ?A = "ann (v3_Annotations d)" and ?k = "c3_Kserve (v3_Components d)"
  let ?s = "kserve_state ?k"
  obtain a v where m: "marker_annotations marshal ?k (v3_Annotations d) = Inr a"
    and dec: "carries_settings ?s \<longrightarrow> unmarshal v = Inr ?s"
    and a: "ann a = ?A(MaaSV2StateAnnotation := None,
      ModelExpressV3StateAnnotation := (if k3_ModelExpress ?k = ''Managed'' then Some modelExpressManaged else None),
      KserveV3StateAnnotation := (if carries_settings ?s then Some v else None))"
    using marker_annotations_ok [of marshal unmarshal ?k "v3_Annotations d"] codec by blast
  have "\<exists>d'. restore unmarshal (plain_v3 a d) = Inr d' \<and>
    ann (v3_Annotations d') = (ann (v3_Annotations (plain_v3 a d)))(ModelExpressV3StateAnnotation := None, KserveV3StateAnnotation := None) \<and>
    d'\<lparr>v3_Annotations := None\<rparr> = map_components (\<lambda>c. c\<lparr>c3_Kserve :=
       (let k = (if k3_ModelExpress ?k = ''Managed'' then (c3_Kserve c)\<lparr>k3_ModelExpress := ''Managed''\<rparr> else c3_Kserve c) in
        if carries_settings ?s then k\<lparr>k3_ConfidentialContainers := ks_ConfidentialContainers ?s,
                    k3_AuditLoggingProfile := ks_AuditLoggingProfile ?s\<rparr> else k)\<rparr>) ((plain_v3 a d)\<lparr>v3_Annotations := None\<rparr>)"
    using dec wf by (intro restore_ok [where v = v]) (auto simp: plain_v3_fields a wf_v3_def wf_kserve_def)
  then obtain d' where d': "restore unmarshal (plain_v3 a d) = Inr d'"
    and A': "ann (v3_Annotations d') = (ann (v3_Annotations (plain_v3 a d)))(ModelExpressV3StateAnnotation := None, KserveV3StateAnnotation := None)"
    and D': "d'\<lparr>v3_Annotations := None\<rparr> = map_components (\<lambda>c. c\<lparr>c3_Kserve :=
       (let k = (if k3_ModelExpress ?k = ''Managed'' then (c3_Kserve c)\<lparr>k3_ModelExpress := ''Managed''\<rparr> else c3_Kserve c) in
        if carries_settings ?s then k\<lparr>k3_ConfidentialContainers := ks_ConfidentialContainers ?s,
                    k3_AuditLoggingProfile := ks_AuditLoggingProfile ?s\<rparr> else k)\<rparr>) ((plain_v3 a d)\<lparr>v3_Annotations := None\<rparr>)"
    by blast
  have "ann (v3_Annotations d') = ?A"
    using wf by (auto simp: A' plain_v3_fields a has_legacy_def wf_v3_def wf_markers_def fun_eq_iff)
  moreover have "d'\<lparr>v3_Annotations := None\<rparr> = (norm_v3 d)\<lparr>v3_Annotations := None\<rparr>"
    by (auto simp: D' plain_v3_fields norm_v3_def map_components_def norm_kserve_def plain_kserve_def kserve_state_def
        carries_settings_def Let_def)
  ultimately have "same_v3 d' (norm_v3 d)"
    by (simp add: same_v3_def norm_v3_def map_components_def)
  moreover have "ConvertTo unmarshal (view_of a d) = Inr d'"
    using ConvertTo_view [OF wf] d' by (simp add: restore_def)
  moreover have "ConvertFrom marshal d = Inr (view_of a d)"
    using wf m by (intro ConvertFrom_view) (simp_all add: wf_v3_def)
  ultimately show ?thesis by blast
qed

text \<open>Conversion to v3 only yields well-formed objects.\<close>

lemma restore_fields:
  assumes "restore unmarshal d = Inr d'"
  shows "ann (v3_Annotations d') = (ann (v3_Annotations d))(ModelExpressV3StateAnnotation := None, KserveV3StateAnnotation := None)"
    and "v3_Conditions d' = v3_Conditions d" and "c3_AIGateway (v3_Components d') = c3_AIGateway (v3_Components d)"
    and "k3_ManagementState (c3_Kserve (v3_Components d')) = k3_ManagementState (c3_Kserve (v3_Components d))"
  using assms
  by (auto simp: restore_def restore_modelexpress_def restore_kserve_def map_components_def Let_def fun_eq_iff
      split: option.splits sum.splits if_splits)

lemma validate_wf_kserve:
  assumes "validate s = None"
  shows "wf_kserve (k\<lparr>k3_ConfidentialContainers := ks_ConfidentialContainers s, k3_AuditLoggingProfile := ks_AuditLoggingProfile s\<rparr>)"
  using assms by (auto simp: wf_kserve_def kserve_state_def validate_def carries_settings_def split: if_splits)

lemma restore_wf_kserve:
  assumes "restore unmarshal d = Inr d'" "wf_kserve (c3_Kserve (v3_Components d))"
  shows "wf_kserve (c3_Kserve (v3_Components d'))"
proof -
  have me: "wf_kserve (k\<lparr>k3_ModelExpress := s\<rparr>) = wf_kserve k" for k :: "'a DSCKserve" and s
    by (simp add: wf_kserve_def kserve_state_def)
  show ?thesis
    using assms validate_wf_kserve
    by (auto simp: restore_def restore_modelexpress_def restore_kserve_def map_components_def Let_def me
        split: option.splits sum.splits if_splits)
qed

lemma ConvertTo_wf:
  assumes "ConvertTo unmarshal v = Inr d"
  shows "wf_v3 d"
proof -
  let ?c = "v2_Components v"
  define b where "b =
        \<lparr>v3_meta = v2_meta v, v3_Annotations = v2_Annotations v,
         v3_Components = select_maas ?c (componentsV2ToV3 ?c),
         v3_commonStatus = v2_commonStatus v,
         v3_Conditions = withConditionTypeMapping (v2_Conditions v) v2_to_v3_types,
         v3_RelatedObjects = v2_RelatedObjects v, v3_ErrorMessage = v2_ErrorMessage v,
         v3_ComponentsStatus = statusV2ToV3 (v2_ComponentsStatus v), v3_Release = v2_Release v\<rparr>"
  define p where "p = PreserveMaaSV2State (ag_ModelsAsAService (c2_AIGateway ?c)) (k2_ModelsAsService (c2_Kserve ?c)) b"
  have r: "restore unmarshal p = Inr d"
    using assms by (simp add: ConvertTo_def Let_def restore_def p_def b_def)
  have A: "ann (v3_Annotations p) MaaSV2StateAnnotation =
      (if ag_ModelsAsAService (c2_AIGateway ?c) = ''Managed'' \<or> k2_ModelsAsService (c2_Kserve ?c) \<noteq> ''Managed'' then None
       else Some legacyMaaSManaged)"
    by (simp add: p_def PreserveMaaSV2State_def Let_def)
  have C: "v3_Components p = select_maas ?c (componentsV2ToV3 ?c)" "v3_Conditions p = v3_Conditions b"
    by (simp_all add: p_def b_def PreserveMaaSV2State_def Let_def)
  have "wf_maas p"
    unfolding wf_maas_def A maas_state_def C
    by (simp add: select_maas_def legacy_effective_def componentsV2ToV3_def kserveV2ToV3_def Let_def)
  then have "wf_maas d"
    by (simp add: wf_maas_def maas_state_def restore_fields [OF r])
  moreover have "wf_markers d"
    by (simp add: wf_markers_def restore_fields [OF r] A)
  moreover have "wf_kserve (c3_Kserve (v3_Components d))"
    by (rule restore_wf_kserve [OF r])
      (simp add: C select_maas_def componentsV2ToV3_def kserveV2ToV3_def Let_def wf_kserve_def kserve_state_def carries_settings_def)
  moreover have "wf_conditions (v3_Conditions d)"
    by (simp add: restore_fields [OF r] C b_def wf_conditions_ConvertTo)
  ultimately show ?thesis
    by (simp add: wf_v3_def)
qed

subsection \<open>The declarative form of the validation\<close>

lemma split_slash_Cons: "\<exists>x xs. split_slash s = x # xs"
  by (induction s) (auto split: list.splits)

lemma split_slash_join: "strings_Join (split_slash s) ''/'' = s"
proof (induction s)
  case (Cons c s)
  obtain x xs where "split_slash s = x # xs"
    using split_slash_Cons by blast
  with Cons show ?case
    by (cases xs) auto
qed simp

lemma split_slash_free: "x \<in> set (split_slash s) \<Longrightarrow> CHR 0x2F \<notin> set x"
proof (induction s arbitrary: x)
  case (Cons c s)
  obtain y ys where "split_slash s = y # ys"
    using split_slash_Cons by blast
  with Cons show ?case
    by (auto split: if_splits)
qed simp

lemma split_slash_append: "CHR 0x2F \<notin> set x \<Longrightarrow> split_slash (x @ CHR 0x2F # s) = x # split_slash s"
  by (induction x) auto

lemma split_slash_plain: "CHR 0x2F \<notin> set x \<Longrightarrow> split_slash x = [x]"
  by (induction x) auto

lemma luks_segment_slash: "luks_segment x \<Longrightarrow> CHR 0x2F \<notin> set x"
  by (auto simp: luks_segment_def luks_char_def list_all_iff)

lemma luksResourceIDPattern_iff:
  "luksResourceIDPattern s \<longleftrightarrow>
     (\<exists>a b c. s = ''kbs:///'' @ a @ ''/'' @ b @ ''/'' @ c \<and> luks_segment a \<and> luks_segment b \<and> luks_segment c)"
  (is "?l \<longleftrightarrow> ?r")
proof
  assume ?l
  then obtain t where t: "s = ''kbs:///'' @ t" "length (split_slash t) = 3" "list_all luks_segment (split_slash t)"
    by (auto simp: luksResourceIDPattern_def HasPrefix_append Let_def)
  then obtain a b c where abc: "split_slash t = [a, b, c]"
    by (auto simp: eval_nat_numeral length_Suc_conv)
  then have "t = a @ ''/'' @ b @ ''/'' @ c"
    using split_slash_join [of t] by simp
  with t abc show ?r by auto
next
  assume ?r
  then obtain a b c where s: "s = ''kbs:///'' @ a @ ''/'' @ b @ ''/'' @ c"
    and seg: "luks_segment a" "luks_segment b" "luks_segment c" by blast
  then have "split_slash (a @ ''/'' @ b @ ''/'' @ c) = [a, b, c]"
    by (simp add: split_slash_append split_slash_plain luks_segment_slash)
  then show ?l
    using s seg by (simp add: luksResourceIDPattern_def HasPrefix_append)
qed

definition valid_luks :: "string \<Rightarrow> bool" where
  "valid_luks s \<longleftrightarrow> RuneCountInString s \<le> 2048 \<and>
     (\<exists>a b c. s = ''kbs:///'' @ a @ ''/'' @ b @ ''/'' @ c \<and>
        (\<forall>x \<in> {a, b, c}. luks_segment x \<and> x \<noteq> ''.'' \<and> x \<noteq> ''..''))"

lemma validate_cc_None_iff:
  "validate_cc cc = None \<longleftrightarrow> valid_luks (cc_LUKSResourceID cc) \<and> RuneCountInString (cc_InitData cc) \<le> 8192"
proof -
  have split: "split_slash (''kbs:///'' @ a @ ''/'' @ b @ ''/'' @ c) = [''kbs:'', '''', '''', a, b, c]"
    if "luks_segment a" "luks_segment b" "luks_segment c" for a b c
    using that by (simp add: split_slash_append split_slash_plain luks_segment_slash)
  have "valid_luks s \<longleftrightarrow> RuneCountInString s \<le> 2048 \<and> luksResourceIDPattern s \<and>
      \<not> list_ex (\<lambda>x. x = ''.'' \<or> x = ''..'') (split_slash s)" for s
  proof (cases "luksResourceIDPattern s")
    case True
    then obtain a b c where s: "s = ''kbs:///'' @ a @ ''/'' @ b @ ''/'' @ c"
      and seg: "luks_segment a" "luks_segment b" "luks_segment c"
      by (auto simp: luksResourceIDPattern_iff)
    have "\<not> list_ex (\<lambda>x. x = ''.'' \<or> x = ''..'') (split_slash s) \<longleftrightarrow> (\<forall>x \<in> {a, b, c}. x \<noteq> ''.'' \<and> x \<noteq> ''..'')"
      unfolding s split [OF seg] by auto
    moreover have "a' = a \<and> b' = b \<and> c' = c"
      if "s = ''kbs:///'' @ a' @ ''/'' @ b' @ ''/'' @ c'" "luks_segment a'" "luks_segment b'" "luks_segment c'" for a' b' c'
      using split [OF seg] split [OF that(2-4)] s that(1) by (metis list.inject)
    ultimately show ?thesis
      using True s seg unfolding valid_luks_def by blast
  next
    case False
    then show ?thesis
      unfolding valid_luks_def luksResourceIDPattern_iff by blast
  qed
  then show ?thesis
    by (auto simp: validate_cc_def luksResourceIDMaxLength_def initDataMaxLength_def)
qed

definition valid_settings :: "kserveV3State \<Rightarrow> bool" where
  "valid_settings s \<longleftrightarrow> carries_settings s \<and> ks_AuditLoggingProfile s \<in> {'''', ''Removed'', ''Metadata''} \<and>
     (case ks_ConfidentialContainers s of None \<Rightarrow> True
      | Some cc \<Rightarrow> valid_luks (cc_LUKSResourceID cc) \<and> RuneCountInString (cc_InitData cc) \<le> 8192)"

lemma validate_None_iff: "validate s = None \<longleftrightarrow> valid_settings s"
  by (auto simp: validate_def valid_settings_def carries_settings_def validate_cc_None_iff split: option.splits)

lemma RuneCountInString_le: "RuneCountInString s \<le> length s"
  by (induction s rule: RuneCountInString.induct) (auto intro: le_trans)

lemma ConvertTo_failures:
  "(\<exists>e. ConvertTo unmarshal v = Inl e) \<longleftrightarrow>
     (\<exists>x. ann (v2_Annotations v) ModelExpressV3StateAnnotation = Some x \<and> x \<noteq> modelExpressManaged) \<or>
     (\<exists>x. ann (v2_Annotations v) KserveV3StateAnnotation = Some x \<and>
        (case unmarshal x of Inl _ \<Rightarrow> True | Inr s \<Rightarrow> \<not> valid_settings s))"
proof -
  have restore: "(\<exists>e. restore unmarshal d = Inl e) \<longleftrightarrow>
     (\<exists>x. ann (v3_Annotations d) ModelExpressV3StateAnnotation = Some x \<and> x \<noteq> modelExpressManaged) \<or>
     (\<exists>x. ann (v3_Annotations d) KserveV3StateAnnotation = Some x \<and>
        (case unmarshal x of Inl _ \<Rightarrow> True | Inr s \<Rightarrow> \<not> valid_settings s))" for d :: "('a, 'b) DscV3"
    by (auto simp: restore_def restore_modelexpress_def restore_kserve_def map_components_def Let_def
        validate_None_iff [symmetric] split: option.splits sum.splits)
  have preserve: "ann (v3_Annotations (PreserveMaaSV2State c l d)) k = ann (v3_Annotations d) k"
    if "k \<noteq> MaaSV2StateAnnotation" for c l k and d :: "('a, 'b) DscV3"
    using that by (simp add: PreserveMaaSV2State_def Let_def)
  show ?thesis
    unfolding ConvertTo_def Let_def restore_def [symmetric] restore by (simp add: preserve)
qed

lemma AdmitMaaSV2State_spec:
  "AdmitMaaSV2State old dsc = Inr d \<Longrightarrow>
    has_legacy d = (\<exists>p. old = Some p \<and> has_legacy p \<and> maas_state p = maas_state dsc)"
  by (auto simp: AdmitMaaSV2State_def ReadMaaSV2State_def has_legacy_def PreserveMaaSV2State_def Let_def
      split: option.splits if_splits sum.splits)

theorem legacy_marker_outlives_kserve:
  assumes "wf_markers old" "has_legacy old" "maas_state dsc = maas_state old"
    and "k3_ManagementState (c3_Kserve (v3_Components dsc)) \<noteq> ''Managed''"
  shows "\<exists>d. AdmitMaaSV2State (Some old) dsc = Inr d \<and> maas_state d = maas_state old \<and>
    (\<forall>v d'. ConvertFrom marshal d = Inr v \<longrightarrow> ConvertTo unmarshal v = Inr d' \<longrightarrow> maas_state d' = ''Removed'')"
proof -
  define d where "d = PreserveMaaSV2State ''Removed'' ''Managed'' dsc"
  have adm: "AdmitMaaSV2State (Some old) dsc = Inr d"
    using assms by (simp add: AdmitMaaSV2State_def ReadMaaSV2State_wf has_legacy_def d_def)
  have comp: "v3_Components d = v3_Components dsc" and leg: "ReadMaaSV2State d = Inr True"
    by (simp_all add: d_def PreserveMaaSV2State_def ReadMaaSV2State_def Let_def)
  have "maas_state d' = ''Removed''" if "ConvertFrom marshal d = Inr v" "ConvertTo unmarshal v = Inr d'" for v d'
  proof -
    have v: "v2_Components v = v2_view True (v3_Components d)"
      using that(1) by (auto simp: ConvertFrom_def leg v2_view_def Let_def split: sum.splits)
    define c where "c = v2_Components v"
    have "\<exists>p. restore unmarshal p = Inr d' \<and> v3_Components p = select_maas c (componentsV2ToV3 c)"
      using that(2) unfolding ConvertTo_def Let_def restore_def [symmetric] c_def
      by (intro exI conjI, assumption) (simp add: PreserveMaaSV2State_def Let_def)
    then have "c3_AIGateway (v3_Components d') = c3_AIGateway (select_maas c (componentsV2ToV3 c))"
      using restore_fields(3) by metis
    then show ?thesis
      using assms(4)
      by (simp add: maas_state_def select_maas_def Let_def c_def v comp legacy_effective_def)
         (simp add: v2_view_def legacy_view_def componentsV3ToV2_def kserveV3ToV2_def)
  qed
  then show ?thesis
    using adm assms(3) comp by (auto simp: maas_state_def)
qed


section \<open>Properties\<close>

text \<open>
  C11. An object stored through the v2 API is well-formed: it carries no conversion-owned marker but a valid
  MaaS provenance, which agrees with the KServe and MaaS states it stands for; its confidential-serving
  settings satisfy the constraints of the v3 schema, although they arrive in an annotation that the v2
  schema does not check; and its conditions have distinct v3 types.
\<close>

theorem ConvertTo_wellformed:
  "ConvertTo unmarshal v = Inr d \<Longrightarrow> wf_v3 d"
  by (rule ConvertTo_wf)

text \<open>
  C5. Reading a well-formed v3 object through the v2 API and writing it back unchanged restores it, up to the
  spelling of two defaults, although v2 has no field for the ModelExpress, confidential-container and
  audit-logging settings and splits the MaaS selection over two fields. The JSON codec is assumed to decode
  what it encoded for the settings at hand.
\<close>

theorem v3_survives_v2_rewrite:
  assumes "wf_v3 d"
    and "carries_settings (kserve_state (c3_Kserve (v3_Components d))) \<longrightarrow>
      codec_ok marshal unmarshal (kserve_state (c3_Kserve (v3_Components d)))"
  shows "\<exists>v d'. ConvertFrom marshal d = Inr v \<and> ConvertTo unmarshal v = Inr d' \<and> same_v3 d' (norm_v3 d)"
  using assms by (rule roundtrip)

text \<open>
  C19. A v2 object is rejected exactly when it carries a ModelExpress marker of an unknown value, or a KServe
  marker that does not decode or whose settings break a constraint of the v3 schema: no settings at all,
  an unknown audit profile, a resource identifier that is not \<open>kbs:///a/b/c\<close> with three non-empty
  segments free of white space, \<open>?\<close> and \<open>#\<close>, other than \<open>.\<close> and \<open>..\<close>, or a text too long in code points.
\<close>

theorem ConvertTo_fails_iff:
  "(\<exists>e. ConvertTo unmarshal v = Inl e) \<longleftrightarrow>
     (\<exists>x. ann (v2_Annotations v) ModelExpressV3StateAnnotation = Some x \<and> x \<noteq> modelExpressManaged) \<or>
     (\<exists>x. ann (v2_Annotations v) KserveV3StateAnnotation = Some x \<and>
        (case unmarshal x of Inl _ \<Rightarrow> True | Inr s \<Rightarrow> \<not> valid_settings s))"
  by (rule ConvertTo_failures)

section \<open>Witnesses\<close>

definition example_v3 :: "(unit, unit) DscV3" where
  "example_v3 =
     \<lparr>v3_meta = (), v3_Annotations = Some [(MaaSV2StateAnnotation, legacyMaaSManaged), (''team'', ''a'')],
      v3_Components =
        \<lparr>c3_Dashboard = \<lparr>d3_Standard = ''Managed'', d3_MaaSPortal = ''''\<rparr>, c3_Workbenches = (), c3_AIPipelines = (),
         c3_Kserve =
           \<lparr>k3_ManagementState = ''Managed'', k3_RawDeploymentServiceConfig = (), k3_OAuthProxy = (),
            k3_NIM = \<lparr>nim_ManagementState = ''Managed'', nim_AirGapped = False\<rparr>, k3_EnableTLS = (),
            k3_EnableDashboards = (), k3_ModelCache = (), k3_ModelExpress = ''Managed'',
            k3_ConfidentialContainers = None, k3_AuditLoggingProfile = ''Metadata''\<rparr>,
         c3_Kueue = \<lparr>kq_ManagementState = ''Removed'', kq_Common = ()\<rparr>, c3_Ray = (), c3_TrustyAI = (),
         c3_AIHub = \<lparr>ah_ManagementState = ''Managed'', ah_InstancesNamespace = ''models''\<rparr>,
         c3_Data = \<lparr>da_FeatureStore = ''Removed'', da_DataRegistry = ''''\<rparr>, c3_OGX = (), c3_MLflowOperator = (),
         c3_Trainer = (), c3_SparkOperator = (),
         c3_AIGateway =
           \<lparr>ag_ManagementState = ''Managed'', ag_ModelsAsAService = ''Managed'', ag_BatchGateway = (), ag_AIGrid = ()\<rparr>,
         c3_MCPLifecycleOperator = (), c3_DatabaseService = ()\<rparr>,
      v3_commonStatus = (),
      v3_Conditions = Some [cond ''AIHubReady'' ''True'' '''' ''''],
      v3_RelatedObjects = (), v3_ErrorMessage = (),
      v3_ComponentsStatus =
        \<lparr>s3_Dashboard = (), s3_MaaSPortal = (), s3_Workbenches = (), s3_WorkbenchesV2 = (), s3_AIPipelines = (),
         s3_Kserve = (), s3_Kueue = (), s3_Ray = (), s3_TrustyAI = (),
         s3_AIHub = \<lparr>ahs_ManagementState = ''Managed'', ahs_Common = None\<rparr>,
         s3_Data = \<lparr>das_ManagementState = ''Removed'', das_Releases = None\<rparr>,
         s3_OGX = (), s3_MLflowOperator = (), s3_Trainer = (), s3_SparkOperator = (), s3_AIGateway = (),
         s3_ModelsAsAService = (), s3_BatchGateway = (), s3_AIGrid = (), s3_MCPLifecycleOperator = (),
         s3_DatabaseService = ()\<rparr>,
      v3_Release = ()\<rparr>"

definition example_marshal :: "kserveV3State \<Rightarrow> go_error + string" where
  "example_marshal s = Inr (ks_AuditLoggingProfile s)"

definition example_unmarshal :: "string \<Rightarrow> go_error + kserveV3State" where
  "example_unmarshal x = Inr \<lparr>ks_ConfidentialContainers = None, ks_AuditLoggingProfile = x\<rparr>"

lemma example_v3_wf:
  "wf_v3 example_v3"
  "codec_ok example_marshal example_unmarshal (kserve_state (c3_Kserve (v3_Components example_v3)))"
  by (simp_all add: wf_v3_def wf_markers_def wf_maas_def wf_kserve_def wf_conditions_def example_v3_def ann_def
      ModelExpressV3StateAnnotation_def KserveV3StateAnnotation_def MaaSV2StateAnnotation_def maas_state_def
      carries_settings_def kserve_state_def validate_def v2_to_v3_types_def
      codec_ok_def example_marshal_def example_unmarshal_def)

theorem v3_survives_v2_rewrite_witness:
  "\<exists>v d'. ConvertFrom example_marshal example_v3 = Inr v \<and> ConvertTo example_unmarshal v = Inr d' \<and>
     same_v3 d' (norm_v3 example_v3)"
  by (rule v3_survives_v2_rewrite) (simp_all add: example_v3_wf)

definition example_v2 :: "(unit, unit) DscV2" where
  "example_v2 = view_of (Some [(KserveV3StateAnnotation, ''Metadata'')]) example_v3"

lemma example_v2_converts: "ConvertTo example_unmarshal example_v2 = Inr (projr (ConvertTo example_unmarshal example_v2))"
  by (simp add: ConvertTo_view [OF example_v3_wf(1)] example_v2_def restore_modelexpress_def restore_kserve_def
      plain_v3_fields ann_def validate_def example_unmarshal_def Let_def)

theorem ConvertTo_wellformed_witness:
  "wf_v3 (projr (ConvertTo example_unmarshal example_v2))"
  by (rule ConvertTo_wellformed [OF example_v2_converts])

end
