(* ===== verification/Admission.thy ===== *)
theory Admission
  imports DSC_Conversion
begin

text \<open>
  The admission webhooks of the DataScienceCluster and the DSCInitialization
  (\<open>internal/webhook/datasciencecluster\<close>, \<open>internal/webhook/dscinitialization\<close>), of deprecated API types
  (\<open>internal/webhook/deprecation\<close>), the shared checks of \<open>pkg/webhook/utils.go\<close> and the validation of a
  custom CA bundle (\<open>pkg/cluster/cert.go\<close>).

  The API client and the decoder of the admission library are parameters: the number of objects of a
  kind (or the failure to list them), and the decoding of a raw object \<open>'r\<close>. So are \<open>pem.Decode\<close> (the
  type and bytes of the first block with the rest of the input) and \<open>x509.ParseCertificate\<close>.
\<close>

section \<open>Requests and responses\<close>

record response =
  rs_Allowed :: bool
  rs_Code :: nat
  rs_Message :: string
  rs_Warnings :: "string list"

definition admission_Allowed :: "string \<Rightarrow> response" where
  "admission_Allowed msg = \<lparr>rs_Allowed = True, rs_Code = 200, rs_Message = msg, rs_Warnings = []\<rparr>"

definition admission_Denied :: "string \<Rightarrow> response" where
  "admission_Denied msg = \<lparr>rs_Allowed = False, rs_Code = 403, rs_Message = msg, rs_Warnings = []\<rparr>"

definition admission_Errored :: "nat \<Rightarrow> go_error \<Rightarrow> response" where
  "admission_Errored code err = \<lparr>rs_Allowed = False, rs_Code = code, rs_Message = err_msg err, rs_Warnings = []\<rparr>"

abbreviation (input) StatusBadRequest :: nat where "StatusBadRequest \<equiv> 400"

text \<open>\<open>rq_OldObject\<close> is \<open>None\<close> when the request carries no old object.\<close>

record 'r request =
  rq_Kind :: GVK
  rq_Operation :: string
  rq_Object :: 'r
  rq_OldObject :: "'r option"

definition GroupVersionKind_String :: "GVK \<Rightarrow> string" where
  "GroupVersionKind_String g = gvk_Group g @ ''/'' @ gvk_Version g @ '', Kind='' @ gvk_Kind g"

definition DataScienceClusterV2 :: GVK where
  "DataScienceClusterV2 =
     \<lparr>gvk_Group = ''datasciencecluster.opendatahub.io'', gvk_Version = ''v2'', gvk_Kind = ''DataScienceCluster''\<rparr>"

definition DataScienceClusterV3 :: GVK where
  "DataScienceClusterV3 =
     \<lparr>gvk_Group = ''datasciencecluster.opendatahub.io'', gvk_Version = ''v3'', gvk_Kind = ''DataScienceCluster''\<rparr>"

definition DSCInitializationGVK :: GVK where
  "DSCInitializationGVK =
     \<lparr>gvk_Group = ''dscinitialization.opendatahub.io'', gvk_Version = ''v2'', gvk_Kind = ''DSCInitialization''\<rparr>"

section \<open>Shared checks\<close>

type_synonym lister = "GVK \<Rightarrow> api_failure + nat"

definition CountObjects :: "lister \<Rightarrow> GVK \<Rightarrow> go_error + nat" where
  "CountObjects cli g = map_sum api_error id (cli g)"

definition DenyCountGtZero :: "lister \<Rightarrow> GVK \<Rightarrow> string \<Rightarrow> response" where
  "DenyCountGtZero cli g denyMessage =
     (case CountObjects cli g of
        Inl err \<Rightarrow> admission_Errored StatusBadRequest err
      | Inr n \<Rightarrow> if n > 0 then admission_Denied denyMessage else admission_Allowed [])"

definition ValidateSingletonCreation :: "lister \<Rightarrow> 'r request \<Rightarrow> GVK \<Rightarrow> response" where
  "ValidateSingletonCreation cli req expectedKind =
     (if gvk_Kind (rq_Kind req) \<noteq> gvk_Kind expectedKind \<or> gvk_Group (rq_Kind req) \<noteq> gvk_Group expectedKind then
        admission_Errored StatusBadRequest
          (new_error (''unexpected kind: '' @ gvk_Kind (rq_Kind req) @ '', group: '' @ gvk_Group (rq_Kind req)))
      else
        DenyCountGtZero cli
          \<lparr>gvk_Group = gvk_Group (rq_Kind req), gvk_Version = gvk_Version expectedKind, gvk_Kind = gvk_Kind (rq_Kind req)\<rparr>
          (''Only one instance of '' @ gvk_Kind (rq_Kind req) @ '' object is allowed''))"

text \<open>\<open>validate\<close> of both DataScienceCluster validators: the checks in order, stopping at the first refusal.\<close>

fun validate_loop :: "(lister \<Rightarrow> 'r request \<Rightarrow> response) list \<Rightarrow> string list \<Rightarrow> string \<Rightarrow> lister \<Rightarrow> 'r request \<Rightarrow> response" where
  "validate_loop [] warnings allowedMessage cli req = (admission_Allowed allowedMessage)\<lparr>rs_Warnings := warnings\<rparr>"
| "validate_loop (check # checks) warnings allowedMessage cli req =
     (let resp = check cli req in
      if \<not> rs_Allowed resp then resp
      else validate_loop checks (warnings @ rs_Warnings resp) allowedMessage cli req)"

definition validate_checks ::
  "(lister \<Rightarrow> 'r request \<Rightarrow> response) list \<Rightarrow> string \<Rightarrow> lister \<Rightarrow> 'r request \<Rightarrow> response" where
  "validate_checks checks allowedMessage cli req = validate_loop checks [] allowedMessage cli req"

section \<open>DataScienceCluster v2\<close>

definition DeprecatedWVAWarning :: string where
  "DeprecatedWVAWarning = ''spec.components.kserve.wva is deprecated and WVA is no longer supported; '' @
     ''set it to Removed or remove the field. The operator treats WVA as Removed.''"

definition WVAUnsupportedResponse :: "string \<Rightarrow> response" where
  "WVAUnsupportedResponse state =
     (if state = ''Managed'' then
        admission_Denied ''spec.components.kserve.wva is no longer supported; set managementState to Removed or remove the field''
      else (admission_Allowed [])\<lparr>rs_Warnings := if state \<noteq> '''' then [DeprecatedWVAWarning] else []\<rparr>)"

type_synonym ('r, 'd) decoder = "'r \<Rightarrow> go_error + 'd"

definition denyMultipleDscV2 :: "lister \<Rightarrow> 'r request \<Rightarrow> response" where
  "denyMultipleDscV2 cli req = ValidateSingletonCreation cli req DataScienceClusterV2"

definition denyKueueManagedStateV2 :: "('r, ('c, 'z) DscV2) decoder \<Rightarrow> lister \<Rightarrow> 'r request \<Rightarrow> response" where
  "denyKueueManagedStateV2 decode cli req =
     (case decode (rq_Object req) of
        Inl err \<Rightarrow> admission_Errored StatusBadRequest err
      | Inr dsc \<Rightarrow>
          if kq_ManagementState (c2_Kueue (v2_Components dsc)) = ''Managed''
          then admission_Denied ''Managed is no longer supported as a managementState''
          else admission_Allowed [])"

definition denyUnsupportedWVA :: "('r, ('c, 'z) DscV2) decoder \<Rightarrow> lister \<Rightarrow> 'r request \<Rightarrow> response" where
  "denyUnsupportedWVA decode cli req =
     (case decode (rq_Object req) of
        Inl err \<Rightarrow> admission_Errored StatusBadRequest err
      | Inr dsc \<Rightarrow> WVAUnsupportedResponse (k2_WVA (c2_Kserve (v2_Components dsc))))"

text \<open>The table of retired components: whether the new and the old object manage each, and the message.\<close>

definition training_message :: string where
  "training_message = ''TrainingOperator v1 is obsolete in RHOAI 3.6. Set managementState to Removed, '' @
     ''then delete the TrainingOperator CR to clean up. Use Trainer v2 instead.''"

definition llamastack_message :: string where
  "llamastack_message = ''LlamaStackOperator has been replaced by OGX. Set managementState to Removed.''"

definition retiredComponents :: "('c, 'z) DscV2 \<Rightarrow> (bool \<times> string) list" where
  "retiredComponents dsc =
     [(c2_TrainingOperator (v2_Components dsc) = ''Managed'', training_message),
      (c2_LlamaStackOperator (v2_Components dsc) = ''Managed'', llamastack_message)]"

definition first_denied :: "(bool \<times> string) list \<Rightarrow> response" where
  "first_denied xs = (case List.find fst xs of Some (_, msg) \<Rightarrow> admission_Denied msg | None \<Rightarrow> admission_Allowed [])"

definition denyRetiredOperatorManagedState :: "('r, ('c, 'z) DscV2) decoder \<Rightarrow> lister \<Rightarrow> 'r request \<Rightarrow> response" where
  "denyRetiredOperatorManagedState decode cli req =
     (case decode (rq_Object req) of
        Inl err \<Rightarrow> admission_Errored StatusBadRequest (wrap ''decode new DSC'' err)
      | Inr dsc \<Rightarrow>
          let retired = retiredComponents dsc in
          if rq_Operation req = ''CREATE'' then first_denied retired
          else if \<not> list_ex fst retired then admission_Allowed []
          else
            case rq_OldObject req of
              None \<Rightarrow> admission_Errored StatusBadRequest (new_error ''old DSC object is required for update validation'')
            | Some raw \<Rightarrow>
                case decode raw of
                  Inl err \<Rightarrow> admission_Errored StatusBadRequest (wrap ''decode old DSC'' err)
                | Inr old \<Rightarrow>
                    first_denied (map2 (\<lambda>(new, msg) (was, _). (new \<and> \<not> was, msg)) retired (retiredComponents old)))"

definition HandleV2 :: "('r, ('c, 'z) DscV2) decoder \<Rightarrow> lister \<Rightarrow> 'r request \<Rightarrow> response" where
  "HandleV2 decode cli req =
     (if rq_Kind req \<noteq> DataScienceClusterV2 then
        admission_Errored StatusBadRequest
          (new_error (''unexpected gvk: '' @ GroupVersionKind_String (rq_Kind req) @ ''; expecting: '' @ GroupVersionKind_String DataScienceClusterV2))
      else
        let allowMessage = ''Operation '' @ rq_Operation req @ '' on '' @ gvk_Kind (rq_Kind req) @ '' v2 allowed'';
            checks = [denyKueueManagedStateV2 decode, denyRetiredOperatorManagedState decode, denyUnsupportedWVA decode]
        in if rq_Operation req = ''CREATE'' then validate_checks (denyMultipleDscV2 # checks) allowMessage cli req
           else if rq_Operation req = ''UPDATE'' then validate_checks checks allowMessage cli req
           else admission_Allowed allowMessage)"

text \<open>A constant of the build tag.\<close>

definition DefaultModelRegistriesNamespace :: "bool \<Rightarrow> string" where
  "DefaultModelRegistriesNamespace rhoai = (if rhoai then ''rhoai-model-registries'' else ''odh-model-registries'')"

definition defaultNIM :: "string \<Rightarrow> NimSpec \<Rightarrow> NimSpec" where
  "defaultNIM kserve nim =
     (if kserve = ''Managed'' \<and> nim_ManagementState nim = '''' then nim\<lparr>nim_ManagementState := ''Managed''\<rparr> else nim)"

definition applyDefaultsV2 :: "bool \<Rightarrow> ('c, 'z) DscV2 \<Rightarrow> ('c, 'z) DscV2" where
  "applyDefaultsV2 rhoai dsc =
     (let c = v2_Components dsc; mr = c2_ModelRegistry c; k = c2_Kserve c;
          mr = (if mr_ManagementState mr = ''Managed'' \<and> mr_RegistriesNamespace mr = ''''
                then mr\<lparr>mr_RegistriesNamespace := DefaultModelRegistriesNamespace rhoai\<rparr> else mr);
          k = k\<lparr>k2_NIM := defaultNIM (k2_ManagementState k) (k2_NIM k)\<rparr>
      in dsc\<lparr>v2_Components := c\<lparr>c2_ModelRegistry := mr, c2_Kserve := k\<rparr>\<rparr>)"

section \<open>DataScienceCluster v3\<close>

definition denyMultipleDscV3 :: "lister \<Rightarrow> 'r request \<Rightarrow> response" where
  "denyMultipleDscV3 cli req = ValidateSingletonCreation cli req DataScienceClusterV3"

definition denyKueueManagedStateV3 :: "('r, ('c, 'z) DscV3) decoder \<Rightarrow> lister \<Rightarrow> 'r request \<Rightarrow> response" where
  "denyKueueManagedStateV3 decode cli req =
     (case decode (rq_Object req) of
        Inl err \<Rightarrow> admission_Errored StatusBadRequest err
      | Inr dsc \<Rightarrow>
          if kq_ManagementState (c3_Kueue (v3_Components dsc)) = ''Managed''
          then admission_Denied ''Managed is no longer supported as a managementState''
          else admission_Allowed [])"

definition HandleV3 :: "('r, ('c, 'z) DscV3) decoder \<Rightarrow> lister \<Rightarrow> 'r request \<Rightarrow> response" where
  "HandleV3 decode cli req =
     (if rq_Kind req \<noteq> DataScienceClusterV3 then
        admission_Errored StatusBadRequest
          (new_error (''unexpected gvk: '' @ GroupVersionKind_String (rq_Kind req) @ ''; expecting: '' @ GroupVersionKind_String DataScienceClusterV3))
      else
        let allowMessage = ''Operation '' @ rq_Operation req @ '' on '' @ gvk_Kind (rq_Kind req) @ '' v3 allowed''
        in if rq_Operation req = ''CREATE'' then
             validate_checks [denyKueueManagedStateV3 decode, denyMultipleDscV3] allowMessage cli req
           else if rq_Operation req = ''UPDATE'' then
             validate_checks [denyKueueManagedStateV3 decode] allowMessage cli req
           else admission_Allowed allowMessage)"

definition applyDefaultsV3 :: "bool \<Rightarrow> ('c, 'z) DscV3 \<Rightarrow> ('c, 'z) DscV3" where
  "applyDefaultsV3 rhoai dsc =
     (let c = v3_Components dsc; ah = c3_AIHub c; k = c3_Kserve c;
          ah = (if ah_ManagementState ah = ''Managed'' \<and> ah_InstancesNamespace ah = ''''
                then ah\<lparr>ah_InstancesNamespace := DefaultModelRegistriesNamespace rhoai\<rparr> else ah);
          k = k\<lparr>k3_NIM := defaultNIM (k3_ManagementState k) (k3_NIM k)\<rparr>
      in dsc\<lparr>v3_Components := c\<lparr>c3_AIHub := ah, c3_Kserve := k\<rparr>\<rparr>)"

text \<open>
  \<open>Default\<close> with the admission request of the context, if it has one: the operation and the decoding of
  the old object.
\<close>

definition DefaultV3 :: "bool \<Rightarrow> (string \<times> (go_error + ('c, 'z) DscV3)) option \<Rightarrow> ('c, 'z) DscV3 \<Rightarrow> go_error + ('c, 'z) DscV3" where
  "DefaultV3 rhoai request dsc =
     (let dsc = applyDefaultsV3 rhoai dsc; admit = (\<lambda>old. map_sum (wrap ''admit DSC MaaS compatibility'') id (AdmitMaaSV2State old dsc)) in
      case request of
        None \<Rightarrow> AdmitMaaSV2State None dsc
      | Some (operation, oldObject) \<Rightarrow>
          if operation = ''UPDATE'' then
            (case oldObject of
               Inl err \<Rightarrow> Inl (wrap ''decode old DSC for MaaS compatibility'' err)
             | Inr old \<Rightarrow> admit (Some old))
          else admit None)"

section \<open>DSCInitialization\<close>

type_synonym pem_decoder = "string \<Rightarrow> (string \<times> string \<times> string) option"

text \<open>
  \<open>len(strings.TrimSpace(s)) > 0\<close> is false exactly for a text of white space, in the sense of
  \<open>unicode.IsSpace\<close>, here on its UTF-8 encoding.
\<close>

fun only_space :: "string \<Rightarrow> bool" where
  "only_space [] \<longleftrightarrow> True"
| "only_space (c # cs) \<longleftrightarrow>
     (if of_char c \<in> {9 :: nat, 10, 11, 12, 13, 32} then only_space cs
      else case cs of
             [] \<Rightarrow> False
           | d # ds \<Rightarrow>
               if of_char c = (0xC2 :: nat) \<and> of_char d \<in> {0x85 :: nat, 0xA0} then only_space ds
               else case ds of
                      [] \<Rightarrow> False
                    | e # es \<Rightarrow>
                        (of_char c = (0xE1 :: nat) \<and> of_char d = (0x9A :: nat) \<and> of_char e = (0x80 :: nat) \<or>
                         of_char c = (0xE2 :: nat) \<and> of_char d = (0x80 :: nat) \<and>
                           (in_range 0x80 0x8A e \<or> of_char e \<in> {0xA8 :: nat, 0xA9, 0xAF}) \<or>
                         of_char c = (0xE2 :: nat) \<and> of_char d = (0x81 :: nat) \<and> of_char e = (0x9F :: nat) \<or>
                         of_char c = (0xE3 :: nat) \<and> of_char d = (0x80 :: nat) \<and> of_char e = (0x80 :: nat)) \<and> only_space es)"

text \<open>The loop over the PEM blocks; \<open>None\<close> when it does not end. Its result is an error, or none.\<close>

partial_function (option) bundle_loop ::
  "pem_decoder \<Rightarrow> (string \<Rightarrow> go_error option) \<Rightarrow> nat \<Rightarrow> string \<Rightarrow> go_error option option" where
  [code]: "bundle_loop pem_Decode ParseCertificate blockCount rest =
     (case pem_Decode rest of
        None \<Rightarrow>
          if blockCount = 0 then Some (Some (new_error ''no valid PEM blocks found in customCABundle''))
          else if \<not> only_space rest then
            Some (Some (new_error (''trailing non-PEM data after '' @ fmt_nat blockCount @ '' valid certificate block(s)'')))
          else Some None
      | Some (ty, bytes, rest') \<Rightarrow>
          if ty \<noteq> ''CERTIFICATE'' then
            Some (Some (new_error (''PEM block '' @ fmt_nat (Suc blockCount) @ '' has type '' @ quoted ty @ '', expected CERTIFICATE'')))
          else
            case ParseCertificate bytes of
              Some err \<Rightarrow> Some (Some (wrap (''PEM block '' @ fmt_nat (Suc blockCount) @ '' is not a valid certificate'') err))
            | None \<Rightarrow> bundle_loop pem_Decode ParseCertificate (Suc blockCount) rest')"

definition ValidateCustomCABundle ::
  "pem_decoder \<Rightarrow> (string \<Rightarrow> go_error option) \<Rightarrow> string \<Rightarrow> go_error option option" where
  "ValidateCustomCABundle pem_Decode ParseCertificate pemData =
     (if pemData = [] then Some None else bundle_loop pem_Decode ParseCertificate 0 pemData)"

record TrustedCABundleSpec = tb_ManagementState :: string  tb_CustomCABundle :: string

text \<open>The DSCInitialization as its validators see it: \<open>spec.trustedCABundle\<close>. The two API versions differ in their messages.\<close>

definition validateSpec ::
  "('r, TrustedCABundleSpec option) decoder \<Rightarrow> (string \<Rightarrow> go_error option option) \<Rightarrow> 'r request \<Rightarrow> string \<Rightarrow> response option" where
  "validateSpec decode validateBundle req allowMessage =
     (case decode (rq_Object req) of
        Inl err \<Rightarrow> Some (admission_Errored StatusBadRequest err)
      | Inr None \<Rightarrow> Some (admission_Allowed allowMessage)
      | Inr (Some tb) \<Rightarrow>
          if tb_ManagementState tb = ''Managed'' \<and> tb_CustomCABundle tb \<noteq> [] then
            map_option (\<lambda>res. case res of
                Some err \<Rightarrow> admission_Denied (''invalid customCABundle: '' @ err_msg err)
              | None \<Rightarrow> admission_Allowed allowMessage) (validateBundle (tb_CustomCABundle tb))
          else Some (admission_Allowed allowMessage))"

definition HandleDSCI ::
  "string \<Rightarrow> ('r, TrustedCABundleSpec option) decoder \<Rightarrow> (string \<Rightarrow> go_error option option) \<Rightarrow> lister \<Rightarrow> 'r request \<Rightarrow> response option" where
  "HandleDSCI version decode validateBundle cli req =
     (let allowMessage = ''Operation '' @ rq_Operation req @ '' on '' @ gvk_Kind (rq_Kind req) @ '' '' @ version @ '' allowed'' in
      if rq_Operation req = ''CREATE'' then
        (let resp = ValidateSingletonCreation cli req DSCInitializationGVK in
         if \<not> rs_Allowed resp then Some resp else validateSpec decode validateBundle req allowMessage)
      else if rq_Operation req = ''UPDATE'' then validateSpec decode validateBundle req allowMessage
      else if rq_Operation req = ''DELETE'' then
        (let resp = DenyCountGtZero cli DataScienceClusterV3
               (''Cannot delete DSCInitialization '' @ version @ '' object when DataScienceCluster object still exists'') in
         if \<not> rs_Allowed resp then Some resp else Some (admission_Allowed allowMessage))
      else Some (admission_Allowed allowMessage))"

section \<open>Deprecated types\<close>

record TypeMap = tm_DeprecatedGVK :: GVK  tm_ReplacementGVK :: GVK

definition isExpectedKind :: "TypeMap \<Rightarrow> GVK \<Rightarrow> bool" where
  "isExpectedKind v kind \<longleftrightarrow>
     gvk_Group kind = gvk_Group (tm_DeprecatedGVK v) \<and> gvk_Version kind = gvk_Version (tm_DeprecatedGVK v) \<and>
     gvk_Kind kind = gvk_Kind (tm_DeprecatedGVK v)"

definition HandleDeprecated :: "TypeMap \<Rightarrow> 'r request \<Rightarrow> response" where
  "HandleDeprecated v req =
     (if \<not> isExpectedKind v (rq_Kind req) then
        admission_Errored StatusBadRequest (new_error (''unexpected kind: '' @ GroupVersionKind_String (rq_Kind req)))
      else if rq_Operation req = ''CREATE'' \<or> rq_Operation req = ''UPDATE'' then
        admission_Denied (gvk_Group (tm_DeprecatedGVK v) @ ''/'' @ gvk_Kind (tm_DeprecatedGVK v) @
          '' is not supported, please use '' @ gvk_Group (tm_ReplacementGVK v) @ ''/'' @ gvk_Kind (tm_ReplacementGVK v))
      else admission_Allowed (''Operation '' @ rq_Operation req @ '' on '' @ GroupVersionKind_String (rq_Kind req) @ '' allowed''))"

section \<open>Lemmas: validators\<close>

lemma admission_allowed [simp]:
  "rs_Allowed (admission_Allowed m)" "\<not> rs_Allowed (admission_Denied m)" "\<not> rs_Allowed (admission_Errored c e)"
  by (simp_all add: admission_Allowed_def admission_Denied_def admission_Errored_def)

lemma validate_loop_allowed:
  "rs_Allowed (validate_loop checks ws msg cli req) \<longleftrightarrow> list_all (\<lambda>check. rs_Allowed (check cli req)) checks"
  by (induction checks arbitrary: ws) (simp_all add: Let_def)

lemma validate_checks_allowed:
  "rs_Allowed (validate_checks checks msg cli req) \<longleftrightarrow> list_all (\<lambda>check. rs_Allowed (check cli req)) checks"
  by (simp add: validate_checks_def validate_loop_allowed)

lemma DenyCountGtZero_allowed: "rs_Allowed (DenyCountGtZero cli g msg) \<longleftrightarrow> cli g = Inr 0"
  by (cases "cli g") (simp_all add: DenyCountGtZero_def CountObjects_def)

lemma ValidateSingletonCreation_allowed:
  "rs_Allowed (ValidateSingletonCreation cli req g) \<longleftrightarrow>
     gvk_Kind (rq_Kind req) = gvk_Kind g \<and> gvk_Group (rq_Kind req) = gvk_Group g \<and> cli g = Inr 0"
  by (cases g) (auto simp: ValidateSingletonCreation_def DenyCountGtZero_allowed)

definition retired_managed :: "('c, 'z) DscV2 \<Rightarrow> bool" where
  "retired_managed dsc \<longleftrightarrow>
     c2_TrainingOperator (v2_Components dsc) = ''Managed'' \<or> c2_LlamaStackOperator (v2_Components dsc) = ''Managed''"

definition newly_retired :: "('c, 'z) DscV2 \<Rightarrow> ('c, 'z) DscV2 \<Rightarrow> bool" where
  "newly_retired old dsc \<longleftrightarrow>
     c2_TrainingOperator (v2_Components dsc) = ''Managed'' \<and> c2_TrainingOperator (v2_Components old) \<noteq> ''Managed'' \<or>
     c2_LlamaStackOperator (v2_Components dsc) = ''Managed'' \<and> c2_LlamaStackOperator (v2_Components old) \<noteq> ''Managed''"

lemma denyRetired_allowed:
  "rs_Allowed (denyRetiredOperatorManagedState decode cli req) \<longleftrightarrow>
     (\<exists>dsc. decode (rq_Object req) = Inr dsc \<and>
        (\<not> retired_managed dsc \<or>
         rq_Operation req \<noteq> ''CREATE'' \<and> (\<exists>raw old. rq_OldObject req = Some raw \<and> decode raw = Inr old \<and> \<not> newly_retired old dsc)))"
  by (auto simp: denyRetiredOperatorManagedState_def retiredComponents_def first_denied_def retired_managed_def
      newly_retired_def Let_def split: sum.splits option.splits if_splits)

lemma denyKueueV2_allowed:
  "rs_Allowed (denyKueueManagedStateV2 decode cli req) \<longleftrightarrow>
     (\<exists>dsc. decode (rq_Object req) = Inr dsc \<and> kq_ManagementState (c2_Kueue (v2_Components dsc)) \<noteq> ''Managed'')"
  by (auto simp: denyKueueManagedStateV2_def split: sum.splits)

lemma denyUnsupportedWVA_allowed:
  "rs_Allowed (denyUnsupportedWVA decode cli req) \<longleftrightarrow>
     (\<exists>dsc. decode (rq_Object req) = Inr dsc \<and> k2_WVA (c2_Kserve (v2_Components dsc)) \<noteq> ''Managed'')"
  by (auto simp: denyUnsupportedWVA_def WVAUnsupportedResponse_def split: sum.splits)

definition supported_v2 :: "('c, 'z) DscV2 \<Rightarrow> bool" where
  "supported_v2 dsc \<longleftrightarrow>
     kq_ManagementState (c2_Kueue (v2_Components dsc)) \<noteq> ''Managed'' \<and> k2_WVA (c2_Kserve (v2_Components dsc)) \<noteq> ''Managed''"

lemma HandleV2_create:
  assumes "rq_Operation req = ''CREATE''"
  shows "rs_Allowed (HandleV2 decode cli req) \<longleftrightarrow>
    rq_Kind req = DataScienceClusterV2 \<and> cli DataScienceClusterV2 = Inr 0 \<and>
    (\<exists>dsc. decode (rq_Object req) = Inr dsc \<and> supported_v2 dsc \<and> \<not> retired_managed dsc)"
  using assms
  by (auto simp: HandleV2_def validate_checks_allowed denyMultipleDscV2_def ValidateSingletonCreation_allowed
      denyKueueV2_allowed denyRetired_allowed denyUnsupportedWVA_allowed supported_v2_def Let_def)

lemma HandleV2_update:
  assumes "rq_Operation req = ''UPDATE''"
  shows "rs_Allowed (HandleV2 decode cli req) \<longleftrightarrow>
    rq_Kind req = DataScienceClusterV2 \<and>
    (\<exists>dsc. decode (rq_Object req) = Inr dsc \<and> supported_v2 dsc \<and>
       (\<not> retired_managed dsc \<or> (\<exists>raw old. rq_OldObject req = Some raw \<and> decode raw = Inr old \<and> \<not> newly_retired old dsc)))"
  using assms
  by (auto simp: HandleV2_def validate_checks_allowed denyKueueV2_allowed denyRetired_allowed
      denyUnsupportedWVA_allowed supported_v2_def Let_def)

lemma v2_view_retired:
  "c2_TrainingOperator (v2_view legacy c) = ''Removed''" "c2_LlamaStackOperator (v2_view legacy c) = ''Removed''"
  by (simp_all add: v2_view_def legacy_view_def componentsV3ToV2_def)

lemma ConvertFrom_retired: "ConvertFrom marshal d = Inr v \<Longrightarrow> \<not> retired_managed v"
  by (auto simp: ConvertFrom_def retired_managed_def v2_view_def [symmetric] v2_view_retired Let_def split: sum.splits)

section \<open>Lemmas: defaulting\<close>

lemma select_maas_defaults:
  fixes c :: "'c ComponentsV2"
  assumes "c' = c\<lparr>c2_ModelRegistry := mr, c2_Kserve := (c2_Kserve c)\<lparr>k2_NIM := nim\<rparr>\<rparr>"
  shows "select_maas c' (componentsV2ToV3 c') =
    (select_maas c (componentsV2ToV3 c))\<lparr>c3_AIHub := modelRegistryToAIHub mr,
       c3_Kserve := (kserveV2ToV3 (c2_Kserve c))\<lparr>k3_NIM := nim\<rparr>\<rparr>"
  by (simp add: assms select_maas_def legacy_effective_def componentsV2ToV3_def kserveV2ToV3_def Let_def)

definition set_defaults :: "DSCAIHub \<Rightarrow> NimSpec \<Rightarrow> 'c ComponentsV3 \<Rightarrow> 'c ComponentsV3" where
  "set_defaults ah nim c = c\<lparr>c3_AIHub := ah, c3_Kserve := (c3_Kserve c)\<lparr>k3_NIM := nim\<rparr>\<rparr>"

lemma restore_set_defaults:
  "restore unmarshal (map_components (set_defaults ah nim) d) = map_sum id (map_components (set_defaults ah nim)) (restore unmarshal d)"
  by (simp add: restore_def restore_modelexpress_def restore_kserve_def map_components_def set_defaults_def Let_def
      split: option.split sum.split)

lemma applyDefaultsV3_set:
  "applyDefaultsV3 rhoai d = map_components
     (set_defaults
        (let ah = c3_AIHub (v3_Components d) in
         if ah_ManagementState ah = ''Managed'' \<and> ah_InstancesNamespace ah = ''''
         then ah\<lparr>ah_InstancesNamespace := DefaultModelRegistriesNamespace rhoai\<rparr> else ah)
        (defaultNIM (k3_ManagementState (c3_Kserve (v3_Components d))) (k3_NIM (c3_Kserve (v3_Components d))))) d"
  by (simp add: applyDefaultsV3_def map_components_def set_defaults_def Let_def)

lemma restore_inputs:
  assumes "restore unmarshal d = Inr d'"
  shows "c3_AIHub (v3_Components d') = c3_AIHub (v3_Components d)"
    and "k3_NIM (c3_Kserve (v3_Components d')) = k3_NIM (c3_Kserve (v3_Components d))"
  using assms
  by (auto simp: restore_def restore_modelexpress_def restore_kserve_def map_components_def Let_def
      split: option.splits sum.splits if_splits)

lemma restore_applyDefaultsV3:
  "restore unmarshal (applyDefaultsV3 rhoai d) = map_sum id (applyDefaultsV3 rhoai) (restore unmarshal d)"
proof (cases "restore unmarshal d")
  case (Inr d')
  then show ?thesis
    unfolding applyDefaultsV3_set restore_set_defaults
    by (simp add: applyDefaultsV3_set restore_inputs [OF Inr] restore_fields(4) [OF Inr])
qed (simp add: applyDefaultsV3_set restore_set_defaults)

definition pre_v3 :: "('c, 'z) DscV2 \<Rightarrow> ('c, 'z) DscV3" where
  "pre_v3 src =
     PreserveMaaSV2State (ag_ModelsAsAService (c2_AIGateway (v2_Components src)))
       (k2_ModelsAsService (c2_Kserve (v2_Components src)))
       \<lparr>v3_meta = v2_meta src, v3_Annotations = v2_Annotations src,
        v3_Components = select_maas (v2_Components src) (componentsV2ToV3 (v2_Components src)),
        v3_commonStatus = v2_commonStatus src,
        v3_Conditions = withConditionTypeMapping (v2_Conditions src) v2_to_v3_types,
        v3_RelatedObjects = v2_RelatedObjects src, v3_ErrorMessage = v2_ErrorMessage src,
        v3_ComponentsStatus = statusV2ToV3 (v2_ComponentsStatus src), v3_Release = v2_Release src\<rparr>"

lemma ConvertTo_restore: "ConvertTo unmarshal v = restore unmarshal (pre_v3 v)"
  by (simp add: ConvertTo_def pre_v3_def restore_def Let_def)

lemma pre_v3_defaults: "pre_v3 (applyDefaultsV2 rhoai v) = applyDefaultsV3 rhoai (pre_v3 v)"
proof -
  let ?c = "v2_Components v"
  let ?mr = "let mr = c2_ModelRegistry ?c in
      if mr_ManagementState mr = ''Managed'' \<and> mr_RegistriesNamespace mr = ''''
      then mr\<lparr>mr_RegistriesNamespace := DefaultModelRegistriesNamespace rhoai\<rparr> else mr"
  let ?nim = "defaultNIM (k2_ManagementState (c2_Kserve ?c)) (k2_NIM (c2_Kserve ?c))"
  have d: "applyDefaultsV2 rhoai v = v\<lparr>v2_Components := ?c\<lparr>c2_ModelRegistry := ?mr, c2_Kserve := (c2_Kserve ?c)\<lparr>k2_NIM := ?nim\<rparr>\<rparr>\<rparr>"
    by (simp add: applyDefaultsV2_def Let_def)
  show ?thesis
    unfolding d applyDefaultsV3_set
    by (simp add: pre_v3_def PreserveMaaSV2State_def map_components_def set_defaults_def select_maas_defaults [OF refl])
      (simp add: select_maas_def componentsV2ToV3_def kserveV2ToV3_def modelRegistryToAIHub_def Let_def)
qed

section \<open>Lemmas: CA bundles\<close>

text \<open>The blocks a text holds, with what follows the last.\<close>

inductive pem_blocks :: "pem_decoder \<Rightarrow> string \<Rightarrow> (string \<times> string) list \<Rightarrow> string \<Rightarrow> bool" for pem_Decode where
  no_block: "pem_Decode s = None \<Longrightarrow> pem_blocks pem_Decode s [] s"
| more: "pem_Decode s = Some (ty, bytes, s') \<Longrightarrow> pem_blocks pem_Decode s' bs rest \<Longrightarrow>
    pem_blocks pem_Decode s ((ty, bytes) # bs) rest"

inductive_cases pem_blocksE: "pem_blocks pem_Decode s bs rest"

definition consumes :: "pem_decoder \<Rightarrow> bool" where
  "consumes pem_Decode \<longleftrightarrow> (\<forall>s ty bytes s'. pem_Decode s = Some (ty, bytes, s') \<longrightarrow> length s' < length s)"

lemma bundle_loop_spec:
  assumes "consumes pem_Decode"
  shows "\<exists>res. bundle_loop pem_Decode ParseCertificate n s = Some res \<and>
    (res = None \<longleftrightarrow> (\<exists>bs rest. pem_blocks pem_Decode s bs rest \<and> n + length bs \<noteq> 0 \<and> only_space rest \<and>
       list_all (\<lambda>(ty, bytes). ty = ''CERTIFICATE'' \<and> ParseCertificate bytes = None) bs))"
proof (induction "length s" arbitrary: s n rule: less_induct)
  case less
  show ?case
  proof (cases "pem_Decode s")
    case None
    then have "pem_blocks pem_Decode s bs rest \<longleftrightarrow> bs = [] \<and> rest = s" for bs rest
      by (auto elim: pem_blocksE intro: pem_blocks.intros)
    then show ?thesis
      by (simp add: bundle_loop.simps None)
  next
    case (Some b)
    obtain ty bytes s' where b: "b = (ty, bytes, s')" by (cases b)
    have blocks: "pem_blocks pem_Decode s bs rest \<longleftrightarrow> (\<exists>bs'. bs = (ty, bytes) # bs' \<and> pem_blocks pem_Decode s' bs' rest)" for bs rest
      using Some b by (auto elim: pem_blocksE intro: pem_blocks.intros)
    have "length s' < length s"
      using assms Some b by (auto simp: consumes_def)
    from less.hyps [OF this, of "Suc n"] obtain res where
      res: "bundle_loop pem_Decode ParseCertificate (Suc n) s' = Some res"
      and iff: "res = None \<longleftrightarrow> (\<exists>bs rest. pem_blocks pem_Decode s' bs rest \<and> only_space rest \<and>
        list_all (\<lambda>(ty, bytes). ty = ''CERTIFICATE'' \<and> ParseCertificate bytes = None) bs)"
      by auto
    have "(\<exists>bs rest. pem_blocks pem_Decode s bs rest \<and> n + length bs \<noteq> 0 \<and> only_space rest \<and>
         list_all (\<lambda>(ty, bytes). ty = ''CERTIFICATE'' \<and> ParseCertificate bytes = None) bs) \<longleftrightarrow>
      ty = ''CERTIFICATE'' \<and> ParseCertificate bytes = None \<and> res = None"
      unfolding iff blocks by fastforce
    then show ?thesis
      by (simp add: bundle_loop.simps [of _ _ n s] Some b res split: option.split)
  qed
qed

section \<open>Properties\<close>

text \<open>
  A DataScienceCluster can be created through the v2 API exactly when none exists yet, the request is for
  that kind and decodes, and it asks for nothing that is no longer supported: no managed Kueue, WVA,
  TrainingOperator or LlamaStackOperator.
\<close>

theorem v2_create_admission:
  assumes "rq_Operation req = ''CREATE''"
  shows "rs_Allowed (HandleV2 decode cli req) \<longleftrightarrow>
    rq_Kind req = DataScienceClusterV2 \<and> cli DataScienceClusterV2 = Inr 0 \<and>
    (\<exists>dsc. decode (rq_Object req) = Inr dsc \<and> supported_v2 dsc \<and> \<not> retired_managed dsc)"
  using assms by (rule HandleV2_create)

text \<open>
  C22. On an update of a cluster stored as v3, where the old object of the request is the v2 view of the stored
  one, no retired component can be managed: the exception for a component that already was managed never
  applies, because the view of a stored v3 object shows it as removed.
\<close>

theorem v2_update_of_stored_v3:
  assumes "rq_Operation req = ''UPDATE''" "rq_OldObject req = Some raw"
    and "decode raw = Inr old" "ConvertFrom marshal stored = Inr old"
  shows "rs_Allowed (HandleV2 decode cli req) \<longleftrightarrow>
    rq_Kind req = DataScienceClusterV2 \<and>
    (\<exists>dsc. decode (rq_Object req) = Inr dsc \<and> supported_v2 dsc \<and> \<not> retired_managed dsc)"
  using HandleV2_update [OF assms(1), of decode cli] ConvertFrom_retired [OF assms(4)] assms(2,3)
  by (auto simp: newly_retired_def retired_managed_def)

text \<open>
  C25. Defaulting commutes with conversion: defaulting a v2 object and converting it gives what converting it
  and defaulting the v3 object gives, errors included.
\<close>

theorem defaulting_commutes_with_conversion:
  "ConvertTo unmarshal (applyDefaultsV2 rhoai v) = map_sum id (applyDefaultsV3 rhoai) (ConvertTo unmarshal v)"
  by (simp add: ConvertTo_restore pre_v3_defaults restore_applyDefaultsV3)

text \<open>
  C27. The validation of a custom CA bundle ends on every input, provided each decoded PEM block consumes part
  of it, and accepts exactly the empty bundle and a sequence of at least one PEM block, each a certificate
  that parses, followed by nothing but white space.
\<close>

theorem ca_bundle_validation:
  assumes "consumes pem_Decode"
  shows "\<exists>res. ValidateCustomCABundle pem_Decode ParseCertificate s = Some res \<and>
    (res = None \<longleftrightarrow> s = [] \<or> (\<exists>bs rest. pem_blocks pem_Decode s bs rest \<and> bs \<noteq> [] \<and> only_space rest \<and>
       list_all (\<lambda>(ty, bytes). ty = ''CERTIFICATE'' \<and> ParseCertificate bytes = None) bs))"
  using bundle_loop_spec [OF assms, of ParseCertificate 0 s] by (auto simp: ValidateCustomCABundle_def)

section \<open>Witnesses\<close>

definition example_request :: "string \<Rightarrow> (unit, unit) DscV2 request" where
  "example_request operation =
     \<lparr>rq_Kind = DataScienceClusterV2, rq_Operation = operation, rq_Object = view_of None example_v3,
      rq_OldObject = None\<rparr>"

text \<open>A decoder of one-character blocks.\<close>

definition example_pem :: pem_decoder where
  "example_pem s = (case s of [] \<Rightarrow> None | c # cs \<Rightarrow> if c = CHR ''C'' then Some (''CERTIFICATE'', [c], cs) else None)"

lemma example_pem_consumes: "consumes example_pem"
  by (auto simp: consumes_def example_pem_def split: list.splits if_splits)

theorem ca_bundle_validation_witness:
  "\<exists>res. ValidateCustomCABundle example_pem (\<lambda>_. None) ''CC'' = Some res \<and>
    (res = None \<longleftrightarrow> ''CC'' = [] \<or> (\<exists>bs rest. pem_blocks example_pem ''CC'' bs rest \<and> bs \<noteq> [] \<and> only_space rest \<and>
       list_all (\<lambda>(ty, bytes). ty = ''CERTIFICATE'' \<and> (\<lambda>_. None :: go_error option) bytes = None) bs))"
  by (rule ca_bundle_validation [OF example_pem_consumes, of "\<lambda>_. None"])

lemma example_supported: "supported_v2 (view_of a example_v3)" "\<not> retired_managed (view_of a example_v3)"
  by (simp_all add: supported_v2_def retired_managed_def view_of_def v2_view_def legacy_view_def componentsV3ToV2_def
      kserveV3ToV2_def example_v3_def)

theorem v2_create_admission_witness:
  "rs_Allowed (HandleV2 Inr (\<lambda>_. Inr 0) (example_request ''CREATE''))"
  using v2_create_admission [of "example_request ''CREATE''" Inr "\<lambda>_. Inr 0"] example_supported
  by (simp add: example_request_def)

lemma example_view: "ConvertFrom example_marshal example_v3 = Inr (projr (ConvertFrom example_marshal example_v3))"
  by (simp add: ConvertFrom_def ReadMaaSV2State_def marker_annotations_def example_v3_def ann_def MaaSV2StateAnnotation_def
      example_marshal_def carries_settings_def kserve_state_def Let_def)

definition example_update :: "(unit, unit) DscV2 request" where
  "example_update =
     \<lparr>rq_Kind = DataScienceClusterV2, rq_Operation = ''UPDATE'', rq_Object = view_of None example_v3,
      rq_OldObject = Some (projr (ConvertFrom example_marshal example_v3))\<rparr>"

theorem v2_update_of_stored_v3_witness:
  "rs_Allowed (HandleV2 Inr (\<lambda>_. Inr 1) example_update)"
  using v2_update_of_stored_v3 [OF _ _ _ example_view, where req = example_update and decode = Inr and cli = "\<lambda>_. Inr 1"]
    example_supported
  by (simp add: example_update_def)

end
