(* ===== verification/Gateway_Validation.thy ===== *)
theory Gateway_Validation
  imports Admission
begin

text \<open>
  The admission of a GatewayConfig: \<open>internal/webhook/gateway/validating.go\<close>, \<open>pkg/gatewayconfig/validation.go\<close>
  and the validation of additional ingresses in \<open>api/services/v1alpha1/gateway_types.go\<close>.

  The name checks of the API machinery (\<open>IsDNS1123Subdomain\<close>, \<open>IsDNS1035Label\<close>, \<open>IsQualifiedName\<close>,
  \<open>IsValidLabelValue\<close>, each a list of complaints), \<open>strings.ToLower\<close> and the decoder are parameters. The
  records hold the fields that the validation and the gateway controller read.
\<close>

section \<open>Data\<close>

record OIDCIdentity =
  oi_ClientID :: string
  oi_SecretName :: string
  oi_SecretKey :: string
  oi_SecretNamespace :: string

record OIDCConfig = OIDCIdentity +
  oc_IssuerURL :: string
  oc_Scope :: string
  oc_PassAccessToken :: bool
  oc_SkipClaimsFromProfileURL :: bool

record AdditionalIngress =
  ai_Name :: string
  ai_Hostname :: string
  ai_IngressControllerName :: string
  ai_RouteLabels :: "(string, string) gomap"
  ai_OIDC :: "OIDCIdentity option"
  ai_MaxReplicas :: "int option"

record IssuerRef =
  is_Name :: string
  is_Kind :: string

record CertificateSpec =
  ct_SecretName :: string
  ct_Type :: string
  ct_IssuerRef :: "IssuerRef option"

record TokenReviewConfig =
  tr_QPS :: "int option"
  tr_Burst :: "int option"
  tr_CacheTTL :: "int option"

text \<open>
  The fields of the spec that the operator reads. \<open>gs_OCPRoute\<close> is the server timeout of the section when it is present,
  and \<open>gs_NetworkPolicy\<close> whether the ignored section is present. Durations are nanoseconds.
\<close>

record GatewayConfigSpec =
  gs_IngressMode :: string
  gs_OCPRoute :: "string option"
  gs_OIDC :: "OIDCConfig option"
  gs_Certificate :: "CertificateSpec option"
  gs_Domain :: string
  gs_Subdomain :: string
  gs_CookieExpire :: int
  gs_CookieRefresh :: int
  gs_AuthTimeout :: string
  gs_AuthProxyTimeout :: int
  gs_AuthProxyMaxReplicas :: "int option"
  gs_NetworkPolicy :: bool
  gs_ProviderCASecretName :: string
  gs_VerifyProviderCertificate :: "bool option"
  gs_EnableK8sTokenValidation :: "bool option"
  gs_TokenReview :: "TokenReviewConfig option"
  gs_AdditionalIngresses :: "AdditionalIngress list"

record name_checks =
  vc_IsDNS1123Subdomain :: "string \<Rightarrow> string list"
  vc_IsDNS1035Label :: "string \<Rightarrow> string list"
  vc_IsQualifiedName :: "string \<Rightarrow> string list"
  vc_IsValidLabelValue :: "string \<Rightarrow> string list"
  vc_ToLower :: "string \<Rightarrow> string"

section \<open>Validation of the ingress definitions\<close>

definition TrimSuffix_dot :: "string \<Rightarrow> string" where
  "TrimSuffix_dot s = (if s \<noteq> [] \<and> last s = CHR 0x2E then butlast s else s)"

definition reserved_label :: "string \<Rightarrow> bool" where
  "reserved_label key \<longleftrightarrow> key = ''app.kubernetes.io/part-of'' \<or> key = ''platform.opendatahub.io/part-of''"

fun label_error :: "name_checks \<Rightarrow> string \<Rightarrow> (string, string) gomap \<Rightarrow> go_error option" where
  "label_error vc name [] = None"
| "label_error vc name ((key, value) # rest) =
     (if vc_IsQualifiedName vc key \<noteq> [] then
        Some (new_error (''additional ingress '' @ quoted name @ '' has invalid route label key '' @ quoted key @ '': '' @ hd (vc_IsQualifiedName vc key)))
      else if reserved_label key then
        Some (new_error (''additional ingress '' @ quoted name @ '' uses reserved route label key '' @ quoted key))
      else if vc_IsValidLabelValue vc value \<noteq> [] then
        Some (new_error (''additional ingress '' @ quoted name @ '' has invalid route label value for '' @ quoted key @ '': '' @ hd (vc_IsValidLabelValue vc value)))
      else label_error vc name rest)"

text \<open>\<open>maps.Equal\<close>.\<close>

definition maps_Equal :: "(string, string) gomap \<Rightarrow> (string, string) gomap \<Rightarrow> bool" where
  "maps_Equal m1 m2 \<longleftrightarrow> length m1 = length m2 \<and> list_all (\<lambda>(k, v). map_of m2 k = Some v) m1"

fun Validate_loop :: "name_checks \<Rightarrow> AdditionalIngress list \<Rightarrow> (string, string) gomap \<Rightarrow> AdditionalIngress list \<Rightarrow> go_error option" where
  "Validate_loop vc prev seenHostnames [] = None"
| "Validate_loop vc prev seenHostnames (ing # rest) =
     (if vc_IsDNS1123Subdomain vc (ai_Hostname ing) \<noteq> [] then
        Some (new_error (''additional ingress '' @ quoted (ai_Name ing) @ '' has invalid hostname '' @ quoted (ai_Hostname ing) @ '': '' @
          hd (vc_IsDNS1123Subdomain vc (ai_Hostname ing))))
      else
        let hostname = vc_ToLower vc (TrimSuffix_dot (ai_Hostname ing)) in
        case map_of seenHostnames hostname of
          Some existingName \<Rightarrow>
            Some (new_error (''additional ingress '' @ quoted (ai_Name ing) @ '' hostname '' @ quoted (ai_Hostname ing) @
              '' conflicts with '' @ quoted existingName))
        | None \<Rightarrow>
            if vc_IsDNS1035Label vc (ai_IngressControllerName ing) \<noteq> [] then
              Some (new_error (''additional ingress '' @ quoted (ai_Name ing) @ '' has invalid IngressController name '' @
                quoted (ai_IngressControllerName ing) @ '': '' @ hd (vc_IsDNS1035Label vc (ai_IngressControllerName ing))))
            else if ai_RouteLabels ing = [] then
              Some (new_error (''additional ingress '' @ quoted (ai_Name ing) @ '' must define route labels''))
            else
              case label_error vc (ai_Name ing) (ai_RouteLabels ing) of
                Some err \<Rightarrow> Some err
              | None \<Rightarrow>
                  case List.find (\<lambda>sibling. maps_Equal (ai_RouteLabels ing) (ai_RouteLabels sibling)) prev of
                    Some sibling \<Rightarrow>
                      Some (new_error (''additional ingress '' @ quoted (ai_Name ing) @ '' route labels conflict with '' @ quoted (ai_Name sibling)))
                  | None \<Rightarrow> Validate_loop vc (prev @ [ing]) (AList.update hostname (ai_Name ing) seenHostnames) rest)"

definition Validate :: "name_checks \<Rightarrow> AdditionalIngress list \<Rightarrow> string \<Rightarrow> go_error option" where
  "Validate vc ingresses ingressMode =
     (if ingresses \<noteq> [] \<and> ingressMode \<noteq> '''' \<and> ingressMode \<noteq> ''OcpRoute'' then
        Some (new_error ''additional ingresses require OcpRoute ingress mode'')
      else Validate_loop vc [] [] ingresses)"

definition ValidateAdditionalIngresses :: "name_checks \<Rightarrow> GatewayConfigSpec \<Rightarrow> go_error option" where
  "ValidateAdditionalIngresses vc s = Validate vc (gs_AdditionalIngresses s) (gs_IngressMode s)"

section \<open>Messages\<close>

definition KubernetesValidationErrors :: "GatewayConfigSpec \<Rightarrow> string list" where
  "KubernetesValidationErrors s =
     (if map_option ct_Type (gs_Certificate s) = Some ''OpenshiftDefaultIngress''
      then [''certificate.type OpenshiftDefaultIngress is not supported on Kubernetes clusters; use SelfSigned or Provided''] else []) @
     (if gs_IngressMode s = ''OcpRoute''
      then [''ingressMode OcpRoute is not supported on Kubernetes clusters; use LoadBalancer''] else []) @
     (if gs_AdditionalIngresses s \<noteq> [] \<and> gs_IngressMode s = ''''
      then [''additional ingresses require an explicit ingress mode on Kubernetes; received ingressMode='' @ quoted ''''] else [])"

definition appendDuplicate :: "string list \<Rightarrow> (string, string) gomap \<Rightarrow> string \<Rightarrow> string \<Rightarrow> string list \<times> (string, string) gomap" where
  "appendDuplicate messages seen key path =
     (case map_of seen key of
        None \<Rightarrow> (messages, AList.update key path seen)
      | Some previous \<Rightarrow> (messages @ [path @ '' duplicates '' @ previous], seen))"

definition oidcSecretReferenceKey :: "string \<Rightarrow> string \<Rightarrow> string \<Rightarrow> string" where
  "oidcSecretReferenceKey name namespace defaultNamespace =
     (if namespace = '''' then defaultNamespace else namespace) @ ''/'' @ name"

definition canonicalLabelsKey :: "(string, string) gomap \<Rightarrow> string" where
  "canonicalLabelsKey labels =
     concat (map (\<lambda>key. key @ ''='' @ at_or labels '''' key @ [CHR 0x00]) (sort (map fst labels)))"

definition validateOIDCIdentity ::
  "string \<Rightarrow> nat \<Rightarrow> OIDCIdentity \<Rightarrow> (string, string) gomap \<Rightarrow> (string, string) gomap \<Rightarrow>
     string list \<times> (string, string) gomap \<times> (string, string) gomap" where
  "validateOIDCIdentity defaultNs index oidc seenClientIDs seenSecretRefs =
     (let path = ''spec.additionalIngresses['' @ fmt_nat index @ ''].auth.oidc'';
          (messages, seenClientIDs) = appendDuplicate [] seenClientIDs (oi_ClientID oidc) (path @ ''.clientID'');
          (messages, seenSecretRefs) = appendDuplicate messages seenSecretRefs
             (oidcSecretReferenceKey (oi_SecretName oidc) (oi_SecretNamespace oidc) defaultNs) (path @ ''.clientSecretRef'')
      in (messages, seenClientIDs, seenSecretRefs))"

record validation_state =
  vs_messages :: "string list"
  vs_seenFields :: "(string, string) gomap"
  vs_seenClientIDs :: "(string, string) gomap"
  vs_seenSecretRefs :: "(string, string) gomap"

definition validate_ingress :: "GatewayConfigSpec \<Rightarrow> string \<Rightarrow> nat \<Rightarrow> AdditionalIngress \<Rightarrow> validation_state \<Rightarrow> validation_state" where
  "validate_ingress gs defaultNs index ing st =
     (let path = ''spec.additionalIngresses['' @ fmt_nat index @ '']'';
          (messages, seen) = appendDuplicate (vs_messages st) (vs_seenFields st) (''name:'' @ ai_Name ing) (path @ ''.name'');
          (messages, seen) = appendDuplicate messages seen (''hostname:'' @ ai_Hostname ing) (path @ ''.hostname'');
          (messages, seen) = appendDuplicate messages seen (''routeLabels:'' @ canonicalLabelsKey (ai_RouteLabels ing)) (path @ ''.routeLabels'')
      in case ai_OIDC ing of
           None \<Rightarrow>
             st\<lparr>vs_seenFields := seen,
                vs_messages := messages @ (if gs_OIDC gs \<noteq> None then [path @ ''.auth.oidc is required when spec.oidc is configured''] else [])\<rparr>
         | Some oidc \<Rightarrow>
             let messages = messages @ (if gs_OIDC gs = None then [path @ ''.auth.oidc requires spec.oidc''] else []);
                 (more, clientIDs, secretRefs) = validateOIDCIdentity defaultNs index oidc (vs_seenClientIDs st) (vs_seenSecretRefs st)
             in \<lparr>vs_messages = messages @ more, vs_seenFields = seen, vs_seenClientIDs = clientIDs, vs_seenSecretRefs = secretRefs\<rparr>)"

fun validate_ingresses :: "GatewayConfigSpec \<Rightarrow> string \<Rightarrow> nat \<Rightarrow> AdditionalIngress list \<Rightarrow> validation_state \<Rightarrow> validation_state" where
  "validate_ingresses gs defaultNs index [] st = st"
| "validate_ingresses gs defaultNs index (ing # rest) st =
     validate_ingresses gs defaultNs (Suc index) rest (validate_ingress gs defaultNs index ing st)"

definition initial_state :: "name_checks \<Rightarrow> GatewayConfigSpec \<Rightarrow> string \<Rightarrow> validation_state" where
  "initial_state vc gs defaultNs =
     \<lparr>vs_messages = (case ValidateAdditionalIngresses vc gs of Some err \<Rightarrow> [err_msg err] | None \<Rightarrow> []),
      vs_seenFields = [],
      vs_seenClientIDs = (case gs_OIDC gs of None \<Rightarrow> [] | Some oidc \<Rightarrow> [(oi_ClientID oidc, ''spec.oidc'')]),
      vs_seenSecretRefs = (case gs_OIDC gs of None \<Rightarrow> []
        | Some oidc \<Rightarrow> [(oidcSecretReferenceKey (oi_SecretName oidc) (oi_SecretNamespace oidc) defaultNs, ''spec.oidc'')])\<rparr>"

definition AdditionalIngressValidationErrors :: "name_checks \<Rightarrow> GatewayConfigSpec \<Rightarrow> string \<Rightarrow> string list" where
  "AdditionalIngressValidationErrors vc gs defaultNs =
     (if gs_AdditionalIngresses gs = [] then []
      else vs_messages (validate_ingresses gs defaultNs 0 (gs_AdditionalIngresses gs) (initial_state vc gs defaultNs)))"

section \<open>The webhook\<close>

definition GatewayConfigGVK :: GVK where
  "GatewayConfigGVK =
     \<lparr>gvk_Group = ''services.platform.opendatahub.io'', gvk_Version = ''v1alpha1'', gvk_Kind = ''GatewayConfig''\<rparr>"

definition HandleGateway ::
  "name_checks \<Rightarrow> bool \<Rightarrow> string \<Rightarrow> ('r, GatewayConfigSpec) decoder option \<Rightarrow> 'r request \<Rightarrow> response" where
  "HandleGateway vc kubernetes gatewayNamespace decoder req =
     (case decoder of
        None \<Rightarrow> admission_Errored 500 (new_error ''webhook decoder not initialized'')
      | Some decode \<Rightarrow>
          if rq_Kind req \<noteq> GatewayConfigGVK then
            admission_Errored StatusBadRequest
              (new_error (''unexpected gvk: '' @ GroupVersionKind_String (rq_Kind req) @ ''; expecting: '' @ GroupVersionKind_String GatewayConfigGVK))
          else if rq_Operation req \<noteq> ''CREATE'' \<and> rq_Operation req \<noteq> ''UPDATE'' then
            admission_Allowed (''Operation '' @ rq_Operation req @ '' on '' @ gvk_Kind (rq_Kind req) @ '' allowed'')
          else
            case decode (rq_Object req) of
              Inl err \<Rightarrow> admission_Errored StatusBadRequest (wrap ''failed to decode GatewayConfig'' err)
            | Inr gs \<Rightarrow>
                let messages = (if kubernetes then KubernetesValidationErrors gs else []) @
                               AdditionalIngressValidationErrors vc gs gatewayNamespace
                in if messages \<noteq> [] then admission_Denied (strings_Join messages ''; '')
                   else admission_Allowed ''GatewayConfig values are valid'')"

section \<open>Lemmas: canonical label keys\<close>

lemma separated_inject:
  assumes "c \<notin> set a" "c \<notin> set b" "a @ c # x = b @ c # y"
  shows "a = b \<and> x = y"
  using assms
proof (induction a arbitrary: b)
  case Nil
  then show ?case by (cases b) auto
next
  case (Cons z a)
  then show ?case by (cases b) auto
qed

definition encode_pairs :: "(string \<times> string) list \<Rightarrow> string" where
  "encode_pairs ps = concat (map (\<lambda>(k, v). k @ ''='' @ v @ [CHR 0x00]) ps)"

definition clean_pair :: "string \<times> string \<Rightarrow> bool" where
  "clean_pair p \<longleftrightarrow> CHR 0x3D \<notin> set (fst p) \<and> CHR 0x00 \<notin> set (snd p)"

lemma encode_pairs_inject:
  "list_all clean_pair ps \<Longrightarrow> list_all clean_pair qs \<Longrightarrow> encode_pairs ps = encode_pairs qs \<Longrightarrow> ps = qs"
proof (induction ps arbitrary: qs)
  case Nil
  then show ?case by (cases qs) (auto simp: encode_pairs_def)
next
  case (Cons p ps)
  then obtain q qs' where qs: "qs = q # qs'"
    by (cases qs) (auto simp: encode_pairs_def case_prod_beta)
  have eq: "fst p @ CHR 0x3D # (snd p @ CHR 0x00 # encode_pairs ps) = fst q @ CHR 0x3D # (snd q @ CHR 0x00 # encode_pairs qs')"
    using Cons.prems(3) by (simp add: qs encode_pairs_def case_prod_beta)
  have clean: "clean_pair p" "clean_pair q"
    using Cons.prems by (simp_all add: qs)
  have first: "fst p = fst q \<and> snd p @ CHR 0x00 # encode_pairs ps = snd q @ CHR 0x00 # encode_pairs qs'"
    using clean by (intro separated_inject [OF _ _ eq]) (simp_all add: clean_pair_def)
  then have "snd p = snd q \<and> encode_pairs ps = encode_pairs qs'"
    using clean by (intro separated_inject [of "CHR 0x00"]) (auto simp: clean_pair_def)
  with first Cons show ?case
    by (simp add: qs prod_eq_iff)
qed

lemma canonicalLabelsKey_encode:
  "canonicalLabelsKey labels = encode_pairs (map (\<lambda>k. (k, at_or labels '''' k)) (sort (map fst labels)))"
  by (simp add: canonicalLabelsKey_def encode_pairs_def comp_def)

definition clean_labels :: "(string, string) gomap \<Rightarrow> bool" where
  "clean_labels m \<longleftrightarrow> gomap_wf m \<and> list_all clean_pair m"

lemma clean_labels_at:
  assumes "clean_labels m" "k \<in> set (map fst m)"
  shows "clean_pair (k, at_or m '''' k)"
proof -
  obtain v where "map_of m k = Some v" "(k, v) \<in> set m"
    using assms(2) by (metis map_of_SomeD map_of_eq_None_iff not_None_eq list.set_map)
  with assms(1) show ?thesis
    by (auto simp: clean_labels_def list_all_iff at_or_def)
qed

lemma canonicalLabelsKey_inject:
  assumes "clean_labels m1" "clean_labels m2"
  shows "canonicalLabelsKey m1 = canonicalLabelsKey m2 \<longleftrightarrow> map_of m1 = map_of m2"
proof
  assume "canonicalLabelsKey m1 = canonicalLabelsKey m2"
  then have pairs: "map (\<lambda>k. (k, at_or m1 '''' k)) (sort (map fst m1)) = map (\<lambda>k. (k, at_or m2 '''' k)) (sort (map fst m2))"
    unfolding canonicalLabelsKey_encode
    by (intro encode_pairs_inject) (use assms clean_labels_at in \<open>auto simp: list_all_iff\<close>)
  then have keys: "sort (map fst m1) = sort (map fst m2)"
    by (auto dest: arg_cong [where f = "map fst"] simp: comp_def)
  have same: "fst ` set m1 = fst ` set m2"
    using arg_cong [OF keys, of set] by simp
  have vals: "at_or m1 '''' k = at_or m2 '''' k" if "k \<in> fst ` set m1" for k
    using pairs that unfolding keys [symmetric] by (auto simp: map_eq_conv)
  show "map_of m1 = map_of m2"
  proof
    fix k
    show "map_of m1 k = map_of m2 k"
      using vals [of k] same map_of_eq_None_iff [of m1 k] map_of_eq_None_iff [of m2 k]
      by (cases "map_of m1 k"; cases "map_of m2 k") (auto simp: at_or_def)
  qed
next
  assume eq: "map_of m1 = map_of m2"
  then have "set (map fst m1) = set (map fst m2)"
    by (metis dom_map_of_conv_image_fst list.set_map)
  then have "sort (map fst m1) = sort (map fst m2)"
    using assms by (intro sorted_distinct_set_unique) (simp_all add: clean_labels_def gomap_wf_def)
  with eq show "canonicalLabelsKey m1 = canonicalLabelsKey m2"
    by (simp add: canonicalLabelsKey_def at_or_def)
qed

section \<open>Lemmas: duplicates\<close>

lemma appendDuplicate_spec:
  "fst (appendDuplicate messages seen key path) = [] \<longleftrightarrow> messages = [] \<and> key \<notin> fst ` set seen"
  "fst ` set (snd (appendDuplicate messages seen key path)) = insert key (fst ` set seen)"
proof -
  have dom: "map_of seen key = None \<longleftrightarrow> key \<notin> fst ` set seen"
    by (rule map_of_eq_None_iff)
  show "fst (appendDuplicate messages seen key path) = [] \<longleftrightarrow> messages = [] \<and> key \<notin> fst ` set seen"
    using dom by (cases "map_of seen key") (simp_all add: appendDuplicate_def)
  show "fst ` set (snd (appendDuplicate messages seen key path)) = insert key (fst ` set seen)"
    using dom by (cases "map_of seen key")
      (auto simp: appendDuplicate_def dom_map_of_conv_image_fst [symmetric] update_conv')
qed

definition field_keys :: "AdditionalIngress \<Rightarrow> string list" where
  "field_keys ing = [''name:'' @ ai_Name ing, ''hostname:'' @ ai_Hostname ing, ''routeLabels:'' @ canonicalLabelsKey (ai_RouteLabels ing)]"

definition secret_key :: "string \<Rightarrow> OIDCIdentity \<Rightarrow> string" where
  "secret_key defaultNs oidc = oidcSecretReferenceKey (oi_SecretName oidc) (oi_SecretNamespace oidc) defaultNs"

lemma truncate_identity [simp]:
  "oi_ClientID (OIDCIdentity.truncate oidc) = oi_ClientID oidc"
  "secret_key ns (OIDCIdentity.truncate oidc) = oidcSecretReferenceKey (oi_SecretName oidc) (oi_SecretNamespace oidc) ns"
  by (simp_all add: OIDCIdentity.defs secret_key_def)

definition oidcs :: "AdditionalIngress list \<Rightarrow> OIDCIdentity list" where
  "oidcs ings = List.map_filter ai_OIDC ings"

lemma oidcs_simps [simp]:
  "oidcs [] = []" "oidcs (ing # ings) = (case ai_OIDC ing of None \<Rightarrow> oidcs ings | Some x \<Rightarrow> x # oidcs ings)"
  by (simp_all add: oidcs_def List.map_filter_def split: option.split)

abbreviation keys_of :: "(string, string) gomap \<Rightarrow> string set" where
  "keys_of m \<equiv> fst ` set m"

definition no_clash :: "'a list \<Rightarrow> 'a set \<Rightarrow> bool" where
  "no_clash xs seen \<longleftrightarrow> distinct xs \<and> set xs \<inter> seen = {}"

lemma no_clash_simps [simp]: "no_clash [] seen" "no_clash [x] seen \<longleftrightarrow> x \<notin> seen"
  by (simp_all add: no_clash_def)

lemma no_clash_append: "no_clash (xs @ ys) seen \<longleftrightarrow> no_clash xs seen \<and> no_clash ys (set xs \<union> seen)"
  by (auto simp: no_clash_def)

lemma validate_ingress_spec:
  fixes gs defaultNs index ing st
  defines "st' \<equiv> validate_ingress gs defaultNs index ing st"
  shows "vs_messages st' = [] \<longleftrightarrow>
      vs_messages st = [] \<and> no_clash (field_keys ing) (keys_of (vs_seenFields st)) \<and> (ai_OIDC ing = None) = (gs_OIDC gs = None) \<and>
      no_clash (map oi_ClientID (oidcs [ing])) (keys_of (vs_seenClientIDs st)) \<and>
      no_clash (map (secret_key defaultNs) (oidcs [ing])) (keys_of (vs_seenSecretRefs st))" (is ?messages)
    and "keys_of (vs_seenFields st') = set (field_keys ing) \<union> keys_of (vs_seenFields st)" (is ?seen)
    and "keys_of (vs_seenClientIDs st') = set (map oi_ClientID (oidcs [ing])) \<union> keys_of (vs_seenClientIDs st)" (is ?clients)
    and "keys_of (vs_seenSecretRefs st') = set (map (secret_key defaultNs) (oidcs [ing])) \<union> keys_of (vs_seenSecretRefs st)" (is ?secrets)
proof -
  have seen: "no_clash (field_keys ing) s \<longleftrightarrow> ''name:'' @ ai_Name ing \<notin> s \<and> ''hostname:'' @ ai_Hostname ing \<notin> s \<and>
      ''routeLabels:'' @ canonicalLabelsKey (ai_RouteLabels ing) \<notin> s" for s
    by (auto simp: no_clash_def field_keys_def)
  show ?messages
    by (cases "ai_OIDC ing")
      (auto simp: seen st'_def validate_ingress_def validateOIDCIdentity_def case_prod_beta Let_def appendDuplicate_spec
        secret_key_def)
  show ?seen ?clients ?secrets
    by (auto simp: st'_def validate_ingress_def validateOIDCIdentity_def case_prod_beta Let_def appendDuplicate_spec
        field_keys_def secret_key_def split: option.splits)
qed

lemma validate_ingresses_spec:
  "vs_messages (validate_ingresses gs defaultNs index ings st) = [] \<longleftrightarrow>
     vs_messages st = [] \<and> no_clash (concat (map field_keys ings)) (keys_of (vs_seenFields st)) \<and>
     list_all (\<lambda>ing. (ai_OIDC ing = None) = (gs_OIDC gs = None)) ings \<and>
     no_clash (map oi_ClientID (oidcs ings)) (keys_of (vs_seenClientIDs st)) \<and>
     no_clash (map (secret_key defaultNs) (oidcs ings)) (keys_of (vs_seenSecretRefs st))"
proof (induction ings arbitrary: index st)
  case Nil
  show ?case by (simp add: no_clash_def)
next
  case (Cons ing ings)
  have split: "oidcs (ing # ings) = oidcs [ing] @ oidcs ings"
    by (simp split: option.split)
  show ?case
    unfolding split map_append concat.simps list.map no_clash_append list.pred_inject(2) validate_ingresses.simps Cons.IH
      validate_ingress_spec
    by blast
qed

lemma distinct_field_keys:
  "no_clash (concat (map field_keys ings)) {} \<longleftrightarrow>
     distinct (map ai_Name ings) \<and> distinct (map ai_Hostname ings) \<and> distinct (map (canonicalLabelsKey \<circ> ai_RouteLabels) ings)"
  by (induction ings) (auto simp: no_clash_def field_keys_def)

lemma distinct_label_keys:
  assumes "list_all (\<lambda>ing. clean_labels (ai_RouteLabels ing)) ings"
  shows "distinct (map (canonicalLabelsKey \<circ> ai_RouteLabels) ings) \<longleftrightarrow> distinct (map (map_of \<circ> ai_RouteLabels) ings)"
  using assms
proof (induction ings)
  case (Cons ing ings)
  have "canonicalLabelsKey (ai_RouteLabels ing) = canonicalLabelsKey (ai_RouteLabels x) \<longleftrightarrow>
      map_of (ai_RouteLabels ing) = map_of (ai_RouteLabels x)" if "x \<in> set ings" for x
    using Cons.prems that by (intro canonicalLabelsKey_inject) (simp_all add: list_all_iff)
  with Cons show ?case
    by (auto simp: image_iff)
qed simp

text \<open>What an admitted list of additional ingresses satisfies.\<close>

definition ingresses_ok :: "GatewayConfigSpec \<Rightarrow> string \<Rightarrow> bool" where
  "ingresses_ok gs defaultNs \<longleftrightarrow>
     (let ings = gs_AdditionalIngresses gs;
          identities = (case gs_OIDC gs of None \<Rightarrow> oidcs ings | Some oidc \<Rightarrow> OIDCIdentity.truncate oidc # oidcs ings) in
      (distinct (map ai_Name ings) \<and> distinct (map ai_Hostname ings) \<and> distinct (map (map_of \<circ> ai_RouteLabels) ings)) \<and>
      list_all (\<lambda>ing. (ai_OIDC ing = None) = (gs_OIDC gs = None)) ings \<and>
      distinct (map oi_ClientID identities) \<and> distinct (map (secret_key defaultNs) identities))"

lemma AdditionalIngress_no_errors:
  assumes "list_all (\<lambda>ing. clean_labels (ai_RouteLabels ing)) (gs_AdditionalIngresses gs)"
    and "gs_AdditionalIngresses gs \<noteq> []"
  shows "AdditionalIngressValidationErrors vc gs defaultNs = [] \<longleftrightarrow>
    ValidateAdditionalIngresses vc gs = None \<and> ingresses_ok gs defaultNs"
proof -
  have "AdditionalIngressValidationErrors vc gs defaultNs = [] \<longleftrightarrow>
      vs_messages (validate_ingresses gs defaultNs 0 (gs_AdditionalIngresses gs) (initial_state vc gs defaultNs)) = []"
    using assms(2) by (simp add: AdditionalIngressValidationErrors_def)
  also have "\<dots> \<longleftrightarrow> ValidateAdditionalIngresses vc gs = None \<and> ingresses_ok gs defaultNs"
    unfolding validate_ingresses_spec ingresses_ok_def Let_def distinct_label_keys [OF assms(1), symmetric]
      distinct_field_keys [symmetric]
    by (cases "gs_OIDC gs"; cases "ValidateAdditionalIngresses vc gs")
      (auto simp: initial_state_def no_clash_def)
  finally show ?thesis .
qed

section \<open>Properties\<close>

text \<open>
  C31. A GatewayConfig with additional ingresses is admitted on OpenShift exactly when its ingresses are each
  valid and nothing collides: distinct names and host names, no two with the same route labels (compared
  as maps, although the code compares a canonical string), client identities on all of them or none as
  the default gateway has one or not, and all client IDs and effective secret references distinct,
  including the default gateway's. Label keys without \<open>=\<close> and values without a NUL are assumed, as the
  schema of labels guarantees.
\<close>

theorem gateway_admission:
  assumes "rq_Kind req = GatewayConfigGVK" "rq_Operation req \<in> {''CREATE'', ''UPDATE''}"
    and "decode (rq_Object req) = Inr gs"
    and "list_all (\<lambda>ing. clean_labels (ai_RouteLabels ing)) (gs_AdditionalIngresses gs)"
    and "gs_AdditionalIngresses gs \<noteq> []"
  shows "rs_Allowed (HandleGateway vc False ns (Some decode) req) \<longleftrightarrow>
    ValidateAdditionalIngresses vc gs = None \<and> ingresses_ok gs ns"
proof -
  have "rs_Allowed (HandleGateway vc False ns (Some decode) req) \<longleftrightarrow> AdditionalIngressValidationErrors vc gs ns = []"
    using assms(1-3) by (auto simp: HandleGateway_def Let_def split: if_splits)
  then show ?thesis
    using AdditionalIngress_no_errors [OF assms(4,5)] by simp
qed

text \<open>
  On Kubernetes no GatewayConfig with additional ingresses is admitted: every ingress mode is refused by one
  of the two validations.
\<close>

lemma kubernetes_admits_no_additional_ingress:
  assumes "rq_Kind req = GatewayConfigGVK" "rq_Operation req \<in> {''CREATE'', ''UPDATE''}"
    and "decode (rq_Object req) = Inr gs" "rs_Allowed (HandleGateway vc True ns (Some decode) req)"
  shows "gs_AdditionalIngresses gs = []"
proof (rule ccontr)
  assume ings: "gs_AdditionalIngresses gs \<noteq> []"
  have none: "KubernetesValidationErrors gs = []" "AdditionalIngressValidationErrors vc gs ns = []"
    using assms by (auto simp: HandleGateway_def Let_def split: if_splits)
  from none(1) ings have "gs_IngressMode gs \<noteq> ''OcpRoute''" "gs_IngressMode gs \<noteq> ''''"
    by (auto simp: KubernetesValidationErrors_def split: if_splits)
  then have "ValidateAdditionalIngresses vc gs \<noteq> None"
    using ings by (simp add: ValidateAdditionalIngresses_def Validate_def)
  then show False
    using none(2) ings by (auto simp: AdditionalIngressValidationErrors_def validate_ingresses_spec initial_state_def)
qed

section \<open>Witness\<close>

definition example_checks :: name_checks where
  "example_checks =
     \<lparr>vc_IsDNS1123Subdomain = (\<lambda>_. []), vc_IsDNS1035Label = (\<lambda>_. []), vc_IsQualifiedName = (\<lambda>_. []),
      vc_IsValidLabelValue = (\<lambda>_. []), vc_ToLower = id\<rparr>"

definition example_gateway :: GatewayConfigSpec where
  "example_gateway =
     \<lparr>gs_IngressMode = ''OcpRoute'', gs_OCPRoute = None, gs_OIDC = None, gs_Certificate = None, gs_Domain = '''', gs_Subdomain = '''',
      gs_CookieExpire = 0, gs_CookieRefresh = 0, gs_AuthTimeout = '''', gs_AuthProxyTimeout = 0,
      gs_AuthProxyMaxReplicas = None, gs_NetworkPolicy = False, gs_ProviderCASecretName = '''',
      gs_VerifyProviderCertificate = None, gs_EnableK8sTokenValidation = None, gs_TokenReview = None,
      gs_AdditionalIngresses =
        [\<lparr>ai_Name = ''a'', ai_Hostname = ''a.example'', ai_IngressControllerName = ''shard'',
          ai_RouteLabels = [(''shard'', ''a'')], ai_OIDC = None, ai_MaxReplicas = None\<rparr>,
         \<lparr>ai_Name = ''b'', ai_Hostname = ''b.example'', ai_IngressControllerName = ''shard'',
          ai_RouteLabels = [(''shard'', ''b'')], ai_OIDC = None, ai_MaxReplicas = None\<rparr>]\<rparr>"

definition example_gateway_request :: "GatewayConfigSpec request" where
  "example_gateway_request =
     \<lparr>rq_Kind = GatewayConfigGVK, rq_Operation = ''CREATE'', rq_Object = example_gateway, rq_OldObject = None\<rparr>"

lemma example_gateway_valid:
  "ValidateAdditionalIngresses example_checks example_gateway = None" "ingresses_ok example_gateway ns"
  "list_all (\<lambda>ing. clean_labels (ai_RouteLabels ing)) (gs_AdditionalIngresses example_gateway)"
  by (simp_all add: ValidateAdditionalIngresses_def Validate_def example_gateway_def example_checks_def TrimSuffix_dot_def
      reserved_label_def maps_Equal_def Let_def ingresses_ok_def clean_labels_def gomap_wf_def clean_pair_def fun_eq_iff)

theorem gateway_admission_witness:
  "rs_Allowed (HandleGateway example_checks False ''openshift-ingress'' (Some Inr) example_gateway_request)"
  using gateway_admission [of example_gateway_request Inr example_gateway example_checks "''openshift-ingress''"]
    example_gateway_valid
  by (simp add: example_gateway_request_def) (simp add: example_gateway_def)

end
