(* ===== verification/Failure_Classifier.thy ===== *)
theory Failure_Classifier
  imports Prelude
begin

text \<open>
  \<open>pkg/failureclassifier\<close> and the report types of \<open>pkg/clusterhealth/types.go\<close>: classifying a failure from
  a report on the cluster.

  \<open>strings.ToLower\<close> maps every Unicode letter and is the parameter \<open>ToLower\<close>; the clock is read as the
  constant \<open>now\<close>, in nanoseconds. The zero \<open>time.Time\<close> is \<open>None\<close>. The maps by namespace are association
  lists, whose order stands for the unspecified order of iteration. The records hold the fields of the
  report that the classifier reads.
\<close>

section \<open>The report\<close>

record ContainerInfo =
  ci_Name :: string
  ci_Waiting :: string
  ci_Terminated :: string

record PodInfo =
  po_Name :: string
  po_Phase :: string
  po_CreatedAt :: "int option"
  po_Containers :: "ContainerInfo list"

record DeploymentInfo =
  dp_Namespace :: string
  dp_Name :: string
  dp_Ready :: int
  dp_Replicas :: int
  dp_CreatedAt :: "int option"

record EventInfo =
  ev_Kind :: string
  ev_Name :: string
  ev_Reason :: string
  ev_Message :: string
  ev_LastTime :: "int option"

record ResourceQuotaInfo =
  qt_Namespace :: string
  qt_Name :: string
  qt_Exceeded :: "string list"

record NodeInfo =
  nd_Name :: string
  nd_UnhealthyReason :: string

record OperatorSection =
  op_Deployment :: "DeploymentInfo option"
  op_Pods :: "PodInfo list"

record 'd SectionResult =
  sec_Error :: string
  sec_Data :: 'd

record Report =
  r_Nodes :: "NodeInfo list SectionResult"
  r_Deployments :: "(string, DeploymentInfo list) gomap SectionResult"
  r_Pods :: "(string, PodInfo list) gomap SectionResult"
  r_Events :: "EventInfo list SectionResult"
  r_Quotas :: "(string, ResourceQuotaInfo list) gomap SectionResult"
  r_Operator :: "OperatorSection SectionResult"
  r_DSCI :: "string SectionResult"
  r_DSC :: "string SectionResult"

definition Healthy :: "Report \<Rightarrow> bool" where
  "Healthy r \<longleftrightarrow>
     sec_Error (r_Nodes r) = '''' \<and> sec_Error (r_Deployments r) = '''' \<and> sec_Error (r_Pods r) = '''' \<and>
     sec_Error (r_Events r) = '''' \<and> sec_Error (r_Quotas r) = '''' \<and> sec_Error (r_Operator r) = '''' \<and>
     sec_Error (r_DSCI r) = '''' \<and> sec_Error (r_DSC r) = ''''"

section \<open>Classifications and patterns\<close>

record FailureClassification =
  fc_Category :: string
  fc_Subcategory :: string
  fc_ErrorCode :: nat
  fc_Evidence :: "string list"
  fc_Confidence :: string

definition infra :: "string \<Rightarrow> nat \<Rightarrow> string list \<Rightarrow> string \<Rightarrow> FailureClassification" where
  "infra subcategory code evidence confidence =
     \<lparr>fc_Category = ''infrastructure'', fc_Subcategory = subcategory, fc_ErrorCode = code,
      fc_Evidence = evidence, fc_Confidence = confidence\<rparr>"

abbreviation (input) CodeImagePull :: nat where "CodeImagePull \<equiv> 1001"
abbreviation (input) CodePodStartup :: nat where "CodePodStartup \<equiv> 1002"
abbreviation (input) CodeNetwork :: nat where "CodeNetwork \<equiv> 1003"
abbreviation (input) CodeQuotaOOM :: nat where "CodeQuotaOOM \<equiv> 1004"
abbreviation (input) CodeNodePressure :: nat where "CodeNodePressure \<equiv> 1005"
abbreviation (input) CodeStorage :: nat where "CodeStorage \<equiv> 1006"
abbreviation (input) CodeContainerOOM :: nat where "CodeContainerOOM \<equiv> 1007"
abbreviation (input) CodeOperator :: nat where "CodeOperator \<equiv> 1008"
abbreviation (input) CodeDSCI :: nat where "CodeDSCI \<equiv> 1009"
abbreviation (input) CodeDSC :: nat where "CodeDSC \<equiv> 1010"
abbreviation (input) CodeRBAC :: nat where "CodeRBAC \<equiv> 1011"
abbreviation (input) CodeDNS :: nat where "CodeDNS \<equiv> 1012"
abbreviation (input) CodeTimeout :: nat where "CodeTimeout \<equiv> 1013"
abbreviation (input) CodeProbeFailure :: nat where "CodeProbeFailure \<equiv> 1014"
abbreviation (input) CodeInvalidFlags :: nat where "CodeInvalidFlags \<equiv> 1015"
abbreviation (input) CodeContainerExit :: nat where "CodeContainerExit \<equiv> 1016"
abbreviation (input) CodeInfraUnknown :: nat where "CodeInfraUnknown \<equiv> 1099"
abbreviation (input) CodeNoSignal :: nat where "CodeNoSignal \<equiv> 3001"
abbreviation (input) CodeUnclassifiable :: nat where "CodeUnclassifiable \<equiv> 3000"

record classificationPattern =
  pt_pattern :: string
  pt_subcategory :: string
  pt_errorCode :: nat

definition waitingPatterns :: "classificationPattern list" where
  "waitingPatterns =
     [\<lparr>pt_pattern = ''ImagePullBackOff'', pt_subcategory = ''image-pull'', pt_errorCode = CodeImagePull\<rparr>,
      \<lparr>pt_pattern = ''ErrImagePull'', pt_subcategory = ''image-pull'', pt_errorCode = CodeImagePull\<rparr>,
      \<lparr>pt_pattern = ''InvalidImageName'', pt_subcategory = ''image-pull'', pt_errorCode = CodeImagePull\<rparr>,
      \<lparr>pt_pattern = ''CrashLoopBackOff'', pt_subcategory = ''pod-startup'', pt_errorCode = CodePodStartup\<rparr>,
      \<lparr>pt_pattern = ''CreateContainerConfigError'', pt_subcategory = ''pod-startup'', pt_errorCode = CodePodStartup\<rparr>,
      \<lparr>pt_pattern = ''CreateContainerError'', pt_subcategory = ''pod-startup'', pt_errorCode = CodePodStartup\<rparr>]"

definition terminatedPatterns :: "classificationPattern list" where
  "terminatedPatterns =
     [\<lparr>pt_pattern = ''OOMKilled'', pt_subcategory = ''container-oom'', pt_errorCode = CodeContainerOOM\<rparr>,
      \<lparr>pt_pattern = ''(exit 2)'', pt_subcategory = ''invalid-cli-flags'', pt_errorCode = CodeInvalidFlags\<rparr>,
      \<lparr>pt_pattern = ''(exit 137)'', pt_subcategory = ''container-exit'', pt_errorCode = CodeContainerExit\<rparr>,
      \<lparr>pt_pattern = ''(exit 143)'', pt_subcategory = ''container-exit'', pt_errorCode = CodeContainerExit\<rparr>]"

definition networkEventReasons :: "string list" where "networkEventReasons = [''NetworkNotReady'']"
definition networkMessagePatterns :: "string list" where "networkMessagePatterns = [''network not ready'']"

definition storageEventReasons :: "string list" where
  "storageEventReasons = [''FailedAttachVolume'', ''FailedMount'', ''ProvisioningFailed'']"

definition storageMessagePatterns :: "string list" where
  "storageMessagePatterns =
     [''persistentvolumeclaim'', ''pvc not found'', ''failed to attach volume'', ''failed to mount volume'',
      ''no persistent volumes available'']"

definition rbacMessagePatterns :: "string list" where
  "rbacMessagePatterns = [''is forbidden'', ''access denied'', ''does not have permission'']"

definition imagePullEventPatterns :: "string list" where
  "imagePullEventPatterns =
     [''unauthorized: authentication'', ''failed to pull image'', ''failed to pull and unpack image'']"

definition dnsMessagePatterns :: "string list" where
  "dnsMessagePatterns =
     [''no such host'', ''failed to resolve'', ''dns resolution failed'', ''name or service not known'',
      ''temporary failure in name resolution'']"

definition timeoutMessagePatterns :: "string list" where
  "timeoutMessagePatterns =
     [''context deadline exceeded'', ''deadline exceeded'', ''timed out waiting'', ''operation timed out'']"

definition probeEventReasons :: "string list" where "probeEventReasons = [''Unhealthy'']"

definition probeMessagePatterns :: "string list" where
  "probeMessagePatterns = [''liveness probe failed'', ''readiness probe failed'', ''startup probe failed'']"

text \<open>\<open>strings.Contains\<close>.\<close>

fun strings_Contains :: "string \<Rightarrow> string \<Rightarrow> bool" where
  "strings_Contains [] p \<longleftrightarrow> p = []"
| "strings_Contains (c # s) p \<longleftrightarrow> HasPrefix (c # s) p \<or> strings_Contains s p"

definition matchesPattern :: "(string \<Rightarrow> string) \<Rightarrow> string \<Rightarrow> classificationPattern list \<Rightarrow> classificationPattern option" where
  "matchesPattern ToLower txt patterns =
     (if txt = [] then None
      else List.find (\<lambda>p. strings_Contains (ToLower txt) (ToLower (pt_pattern p))) patterns)"

definition containsAnyPattern :: "(string \<Rightarrow> string) \<Rightarrow> string \<Rightarrow> string list \<Rightarrow> bool" where
  "containsAnyPattern ToLower txt patterns \<longleftrightarrow> txt \<noteq> [] \<and> list_ex (strings_Contains (ToLower txt)) patterns"

definition isSuccessfulTermination :: "string \<Rightarrow> bool" where
  "isSuccessfulTermination terminated \<longleftrightarrow> strings_Contains terminated ''(exit 0)''"

definition isGracefulTermination :: "string \<Rightarrow> bool" where
  "isGracefulTermination terminated \<longleftrightarrow> HasPrefix terminated ''Completed ''"

section \<open>Durations\<close>

definition second :: int where "second = 1000000000"
definition PendingThreshold :: int where "PendingThreshold = 60 * second"
definition EventAgeThreshold :: int where "EventAgeThreshold = 5 * 60 * second"

text \<open>\<open>Duration.Truncate(time.Second).String()\<close> of a positive duration of a second or more.\<close>

definition fmt_seconds :: "int \<Rightarrow> string" where
  "fmt_seconds d =
     (let s = nat (d div second); h = s div 3600; m = (s div 60) mod 60 in
      (if h > 0 then fmt_nat h @ ''h'' else []) @ (if h > 0 \<or> m > 0 then fmt_nat m @ ''m'' else []) @ fmt_nat (s mod 60) @ ''s'')"

section \<open>Pods\<close>

text \<open>What one container adds: a classification that ends the scan, or evidence of distress.\<close>

definition add_distress :: "string \<Rightarrow> nat \<Rightarrow> string \<Rightarrow> FailureClassification option \<Rightarrow> FailureClassification option" where
  "add_distress subcategory code evidence distress =
     Some (let d = (case distress of None \<Rightarrow> infra subcategory code [] ''low'' | Some d \<Rightarrow> d)
           in d\<lparr>fc_Evidence := fc_Evidence d @ [evidence]\<rparr>)"

definition classify_container ::
  "(string \<Rightarrow> string) \<Rightarrow> string \<Rightarrow> ContainerInfo \<Rightarrow> FailureClassification option \<Rightarrow>
     FailureClassification + FailureClassification option" where
  "classify_container ToLower pod c distress =
     (let container = pod @ ''/'' @ ci_Name c in
      case matchesPattern ToLower (ci_Waiting c) waitingPatterns of
        Some m \<Rightarrow> Inl (infra (pt_subcategory m) (pt_errorCode m) [''container '' @ container @ '' waiting: '' @ ci_Waiting c] ''medium'')
      | None \<Rightarrow>
          case (if isGracefulTermination (ci_Terminated c) then None
                else matchesPattern ToLower (ci_Terminated c) terminatedPatterns) of
            Some m \<Rightarrow> Inl (infra (pt_subcategory m) (pt_errorCode m) [''container '' @ container @ '' terminated: '' @ ci_Terminated c] ''medium'')
          | None \<Rightarrow>
              let evidence =
                (if ci_Waiting c \<noteq> [] then ''container '' @ container @ '' in unrecognized waiting state: '' @ ci_Waiting c
                 else if ci_Terminated c \<noteq> [] \<and> \<not> isSuccessfulTermination (ci_Terminated c) \<and> \<not> isGracefulTermination (ci_Terminated c)
                 then ''container '' @ container @ '' terminated: '' @ ci_Terminated c
                 else [])
              in Inr (if evidence \<noteq> [] then add_distress ''cluster-distress'' CodeInfraUnknown evidence distress else distress))"

fun classify_containers ::
  "(string \<Rightarrow> string) \<Rightarrow> string \<Rightarrow> ContainerInfo list \<Rightarrow> FailureClassification option \<Rightarrow>
     FailureClassification + FailureClassification option" where
  "classify_containers ToLower pod [] distress = Inr distress"
| "classify_containers ToLower pod (c # cs) distress =
     (case classify_container ToLower pod c distress of
        Inl fc \<Rightarrow> Inl fc | Inr distress \<Rightarrow> classify_containers ToLower pod cs distress)"

definition stuck_pending :: "int \<Rightarrow> PodInfo \<Rightarrow> int option" where
  "stuck_pending now pod =
     (case po_CreatedAt pod of
        None \<Rightarrow> None
      | Some t \<Rightarrow> if po_Phase pod = ''Pending'' \<and> now - t > PendingThreshold then Some (now - t) else None)"

fun classify_pods ::
  "(string \<Rightarrow> string) \<Rightarrow> int \<Rightarrow> PodInfo list \<Rightarrow> FailureClassification option \<Rightarrow>
     FailureClassification + FailureClassification option" where
  "classify_pods ToLower now [] distress = Inr distress"
| "classify_pods ToLower now (pod # pods) distress =
     (case classify_containers ToLower (po_Name pod) (po_Containers pod) distress of
        Inl fc \<Rightarrow> Inl fc
      | Inr distress \<Rightarrow>
          case stuck_pending now pod of
            Some d \<Rightarrow> Inl (infra ''pod-startup'' CodePodStartup [''pod '' @ po_Name pod @ '' stuck in Pending for '' @ fmt_seconds d] ''high'')
          | None \<Rightarrow> classify_pods ToLower now pods distress)"

definition classifyFromPods ::
  "(string \<Rightarrow> string) \<Rightarrow> int \<Rightarrow> Report \<Rightarrow> FailureClassification option \<times> FailureClassification option" where
  "classifyFromPods ToLower now r =
     (case classify_pods ToLower now (concat (map snd (sec_Data (r_Pods r)))) None of
        Inl fc \<Rightarrow> (Some fc, None) | Inr distress \<Rightarrow> (None, distress))"

section \<open>Events, quotas and nodes\<close>

definition event_rule :: "(string \<Rightarrow> string) \<Rightarrow> EventInfo \<Rightarrow> (string \<times> nat) option" where
  "event_rule ToLower e =
     (let has = containsAnyPattern ToLower (ev_Message e); reason = (\<lambda>rs. ev_Reason e \<in> set rs) in
      if has imagePullEventPatterns then Some (''image-pull'', CodeImagePull)
      else if reason networkEventReasons \<or> has networkMessagePatterns then Some (''network'', CodeNetwork)
      else if reason storageEventReasons \<or> has storageMessagePatterns then Some (''storage'', CodeStorage)
      else if reason probeEventReasons \<or> has probeMessagePatterns then Some (''probe-failure'', CodeProbeFailure)
      else if has rbacMessagePatterns then Some (''rbac'', CodeRBAC)
      else if has dnsMessagePatterns then Some (''dns'', CodeDNS)
      else if has timeoutMessagePatterns then Some (''timeout'', CodeTimeout)
      else None)"

definition old_event :: "int \<Rightarrow> EventInfo \<Rightarrow> bool" where
  "old_event now e \<longleftrightarrow> (case ev_LastTime e of None \<Rightarrow> False | Some t \<Rightarrow> now - t > EventAgeThreshold)"

fun classify_events :: "(string \<Rightarrow> string) \<Rightarrow> int \<Rightarrow> EventInfo list \<Rightarrow> FailureClassification option" where
  "classify_events ToLower now [] = None"
| "classify_events ToLower now (e # es) =
     (if old_event now e then classify_events ToLower now es
      else case event_rule ToLower e of
             Some (sub, code) \<Rightarrow> Some (infra sub code
               [''event '' @ ev_Kind e @ ''/'' @ ev_Name e @ '': '' @ ev_Reason e @ '' - '' @ ev_Message e] ''medium'')
           | None \<Rightarrow> classify_events ToLower now es)"

definition classifyFromEvents :: "(string \<Rightarrow> string) \<Rightarrow> int \<Rightarrow> Report \<Rightarrow> FailureClassification option" where
  "classifyFromEvents ToLower now r = classify_events ToLower now (sec_Data (r_Events r))"

definition classifyFromQuotas :: "Report \<Rightarrow> FailureClassification option" where
  "classifyFromQuotas r =
     map_option (\<lambda>q. infra ''quota-oom'' CodeQuotaOOM
         [''quota '' @ qt_Namespace q @ ''/'' @ qt_Name q @ '' exceeded: ['' @ strings_Join (qt_Exceeded q) '' '' @ '']''] ''high'')
       (List.find (\<lambda>q. qt_Exceeded q \<noteq> []) (concat (map snd (sec_Data (r_Quotas r)))))"

definition classifyFromNodes :: "Report \<Rightarrow> FailureClassification option" where
  "classifyFromNodes r =
     map_option (\<lambda>n. infra ''node-pressure'' CodeNodePressure [''node '' @ nd_Name n @ '': '' @ nd_UnhealthyReason n] ''high'')
       (List.find (\<lambda>n. nd_UnhealthyReason n \<noteq> []) (sec_Data (r_Nodes r)))"

section \<open>The operator\<close>

abbreviation (input) operator_high :: "string \<Rightarrow> FailureClassification" where
  "operator_high evidence \<equiv> infra ''operator'' CodeOperator [evidence] ''high''"

definition operator_container ::
  "(string \<Rightarrow> string) \<Rightarrow> string \<Rightarrow> ContainerInfo \<Rightarrow> FailureClassification option \<Rightarrow>
     FailureClassification + FailureClassification option" where
  "operator_container ToLower pod c distress =
     (let container = pod @ ''/'' @ ci_Name c in
      if matchesPattern ToLower (ci_Waiting c) waitingPatterns \<noteq> None then
        Inl (operator_high (''operator container '' @ container @ '' waiting: '' @ ci_Waiting c))
      else if matchesPattern ToLower (ci_Terminated c) terminatedPatterns \<noteq> None then
        Inl (operator_high (''operator container '' @ container @ '' terminated: '' @ ci_Terminated c))
      else
        let distress = (if ci_Waiting c \<noteq> [] then add_distress ''operator'' CodeOperator
               (''operator container '' @ container @ '' in unrecognized waiting state: '' @ ci_Waiting c) distress else distress);
            distress = (if ci_Terminated c \<noteq> [] \<and> \<not> isSuccessfulTermination (ci_Terminated c) then add_distress ''operator'' CodeOperator
               (''operator container '' @ container @ '' terminated: '' @ ci_Terminated c) distress else distress)
        in Inr distress)"

fun operator_containers ::
  "(string \<Rightarrow> string) \<Rightarrow> string \<Rightarrow> ContainerInfo list \<Rightarrow> FailureClassification option \<Rightarrow>
     FailureClassification + FailureClassification option" where
  "operator_containers ToLower pod [] distress = Inr distress"
| "operator_containers ToLower pod (c # cs) distress =
     (case operator_container ToLower pod c distress of
        Inl fc \<Rightarrow> Inl fc | Inr distress \<Rightarrow> operator_containers ToLower pod cs distress)"

fun operator_pods ::
  "(string \<Rightarrow> string) \<Rightarrow> PodInfo list \<Rightarrow> FailureClassification option \<Rightarrow>
     FailureClassification + FailureClassification option" where
  "operator_pods ToLower [] distress = Inr distress"
| "operator_pods ToLower (pod # pods) distress =
     (if po_Phase pod \<noteq> ''Running'' \<and> po_Phase pod \<noteq> ''Succeeded'' then
        Inl (operator_high (''operator pod '' @ po_Name pod @ '' in phase '' @ po_Phase pod))
      else case operator_containers ToLower (po_Name pod) (po_Containers pod) distress of
             Inl fc \<Rightarrow> Inl fc | Inr distress \<Rightarrow> operator_pods ToLower pods distress)"

definition operator_deployment :: "DeploymentInfo \<Rightarrow> FailureClassification option" where
  "operator_deployment d =
     (if dp_Replicas d = 0 then Some (operator_high (''operator deployment '' @ dp_Name d @ '' scaled to 0 replicas''))
      else if dp_Ready d < dp_Replicas d then
        Some (operator_high (''operator deployment '' @ dp_Name d @ '' not ready: '' @ fmt_int (dp_Ready d) @ ''/'' @
          fmt_int (dp_Replicas d) @ '' replicas''))
      else None)"

definition classifyFromOperator ::
  "(string \<Rightarrow> string) \<Rightarrow> Report \<Rightarrow> FailureClassification option \<times> FailureClassification option" where
  "classifyFromOperator ToLower r =
     (let section = sec_Data (r_Operator r) in
      case Option.bind (op_Deployment section) operator_deployment of
        Some fc \<Rightarrow> (Some fc, None)
      | None \<Rightarrow>
          case operator_pods ToLower (op_Pods section) None of
            Inl fc \<Rightarrow> (Some fc, None) | Inr distress \<Rightarrow> (None, distress))"

section \<open>The DSCI, the DSC and deployments\<close>

definition classifyFromCRConditions :: "string \<Rightarrow> string \<Rightarrow> string SectionResult \<Rightarrow> nat \<Rightarrow> FailureClassification option" where
  "classifyFromCRConditions name lower section code =
     (if sec_Error section = [] \<or> sec_Data section = [] then None
      else Some (infra (lower @ ''-unhealthy'') code [name @ '' '' @ sec_Data section @ '' unhealthy: '' @ sec_Error section] ''medium''))"

definition classifyFromDSCI :: "Report \<Rightarrow> FailureClassification option" where
  "classifyFromDSCI r = classifyFromCRConditions ''DSCI'' ''dsci'' (r_DSCI r) CodeDSCI"

definition classifyFromDSC :: "Report \<Rightarrow> FailureClassification option" where
  "classifyFromDSC r = classifyFromCRConditions ''DSC'' ''dsc'' (r_DSC r) CodeDSC"

definition unready_deployment :: "int \<Rightarrow> DeploymentInfo \<Rightarrow> bool" where
  "unready_deployment now d \<longleftrightarrow>
     dp_Ready d < dp_Replicas d \<and>
     \<not> (case dp_CreatedAt d of None \<Rightarrow> False | Some t \<Rightarrow> now - t < PendingThreshold)"

definition classifyClusterDistress ::
  "int \<Rightarrow> Report \<Rightarrow> FailureClassification option \<Rightarrow> FailureClassification option \<Rightarrow> FailureClassification option" where
  "classifyClusterDistress now r podDistress operatorDistress =
     (if podDistress \<noteq> None then podDistress
      else if operatorDistress \<noteq> None then operatorDistress
      else
        map_option (\<lambda>d. infra ''cluster-distress'' CodeInfraUnknown
            [''deployment '' @ dp_Namespace d @ ''/'' @ dp_Name d @ '' not ready: '' @ fmt_int (dp_Ready d) @ ''/'' @
             fmt_int (dp_Replicas d) @ '' replicas''] ''low'')
          (List.find (unready_deployment now) (concat (map snd (sec_Data (r_Deployments r))))))"

definition unknown :: FailureClassification where
  "unknown =
     \<lparr>fc_Category = ''unknown'', fc_Subcategory = ''unclassifiable'', fc_ErrorCode = CodeUnclassifiable,
      fc_Evidence = [''no matching classification rule''], fc_Confidence = ''low''\<rparr>"

definition no_signal :: FailureClassification where
  "no_signal =
     \<lparr>fc_Category = ''unknown'', fc_Subcategory = ''no-signal'', fc_ErrorCode = CodeNoSignal,
      fc_Evidence = [''all sections collected; no infrastructure pattern matched''], fc_Confidence = ''low''\<rparr>"

text \<open>The first of several results that is not nil.\<close>

fun first_match :: "'a option list \<Rightarrow> 'a option" where
  "first_match [] = None"
| "first_match (None # xs) = first_match xs"
| "first_match (Some x # xs) = Some x"

definition Classify :: "(string \<Rightarrow> string) \<Rightarrow> int \<Rightarrow> Report option \<Rightarrow> FailureClassification" where
  "Classify ToLower now report =
     (case report of
        None \<Rightarrow> unknown
      | Some r \<Rightarrow>
          let (specific, podDistress) = classifyFromPods ToLower now r in
          case specific of
            Some fc \<Rightarrow> fc
          | None \<Rightarrow>
              case first_match [classifyFromEvents ToLower now r, classifyFromQuotas r, classifyFromNodes r] of
                Some fc \<Rightarrow> fc
              | None \<Rightarrow>
                  let (specificOperator, operatorDistress) = classifyFromOperator ToLower r in
                  case specificOperator of
                    Some fc \<Rightarrow> fc
                  | None \<Rightarrow>
                      case first_match [classifyFromDSCI r, classifyFromDSC r, classifyClusterDistress now r podDistress operatorDistress] of
                        Some fc \<Rightarrow> fc
                      | None \<Rightarrow> if Healthy r then no_signal else unknown)"

section \<open>Lemmas: what the scans find\<close>

definition container_fails :: "(string \<Rightarrow> string) \<Rightarrow> ContainerInfo \<Rightarrow> bool" where
  "container_fails ToLower c \<longleftrightarrow>
     matchesPattern ToLower (ci_Waiting c) waitingPatterns \<noteq> None \<or>
     \<not> isGracefulTermination (ci_Terminated c) \<and> matchesPattern ToLower (ci_Terminated c) terminatedPatterns \<noteq> None"

definition container_distress :: "ContainerInfo \<Rightarrow> bool" where
  "container_distress c \<longleftrightarrow>
     ci_Waiting c \<noteq> [] \<or>
     ci_Terminated c \<noteq> [] \<and> \<not> isSuccessfulTermination (ci_Terminated c) \<and> \<not> isGracefulTermination (ci_Terminated c)"

definition well_classified :: "FailureClassification \<Rightarrow> bool" where
  "well_classified fc \<longleftrightarrow> fc_Category fc = ''infrastructure'' \<and> 1000 \<le> fc_ErrorCode fc \<and> fc_ErrorCode fc < 2000 \<and> fc_Evidence fc \<noteq> []"

lemma well_classified_infra [simp]:
  "well_classified (infra s c ev conf) \<longleftrightarrow> 1000 \<le> c \<and> c < 2000 \<and> ev \<noteq> []"
  by (simp add: well_classified_def infra_def)

lemma find_pattern_code:
  "List.find P waitingPatterns = Some m \<Longrightarrow> 1000 \<le> pt_errorCode m \<and> pt_errorCode m < 2000"
  "List.find P terminatedPatterns = Some m \<Longrightarrow> 1000 \<le> pt_errorCode m \<and> pt_errorCode m < 2000"
  by (auto simp: waitingPatterns_def terminatedPatterns_def split: if_splits)

lemma matchesPattern_code:
  "matchesPattern ToLower t waitingPatterns = Some m \<Longrightarrow> 1000 \<le> pt_errorCode m \<and> pt_errorCode m < 2000"
  "matchesPattern ToLower t terminatedPatterns = Some m \<Longrightarrow> 1000 \<le> pt_errorCode m \<and> pt_errorCode m < 2000"
  unfolding matchesPattern_def using find_pattern_code by (auto split: if_splits)

definition good_distress :: "FailureClassification option \<Rightarrow> bool" where
  "good_distress d \<longleftrightarrow> (case d of None \<Rightarrow> True | Some fc \<Rightarrow> well_classified fc)"

lemma add_distress_good [simp]:
  "good_distress d \<Longrightarrow> 1000 \<le> code \<Longrightarrow> code < 2000 \<Longrightarrow> good_distress (add_distress s code ev d)"
  "\<exists>fc. add_distress s code ev d = Some fc"
  by (simp_all add: good_distress_def add_distress_def well_classified_def infra_def split: option.splits)

text \<open>The outcome of a scan: a classification, or the distress collected.\<close>

definition scan_ok ::
  "bool \<Rightarrow> bool \<Rightarrow> FailureClassification option \<Rightarrow> FailureClassification + FailureClassification option \<Rightarrow> bool" where
  "scan_ok fails distressed d res \<longleftrightarrow>
     (case res of
        Inl fc \<Rightarrow> fails \<and> (good_distress d \<longrightarrow> well_classified fc)
      | Inr d' \<Rightarrow> \<not> fails \<and> (d' \<noteq> None \<longleftrightarrow> d \<noteq> None \<or> distressed) \<and> (good_distress d \<longrightarrow> good_distress d'))"

lemma classify_container_scan:
  "scan_ok (container_fails ToLower c) (container_distress c) d (classify_container ToLower pod c d)"
  using matchesPattern_code
  by (auto simp: scan_ok_def classify_container_def container_fails_def container_distress_def Let_def split: option.splits)

lemma scan_ok_bind:
  assumes "scan_ok f1 d1 d r1" and "\<And>d'. scan_ok f2 d2 d' (g d')"
  shows "scan_ok (f1 \<or> f2) (d1 \<or> d2) d (case r1 of Inl fc \<Rightarrow> Inl fc | Inr d' \<Rightarrow> g d')"
proof (cases r1)
  case (Inr d')
  with assms(1) assms(2) [of d'] show ?thesis
    by (auto simp: scan_ok_def split: sum.splits)
qed (use assms(1) in \<open>simp add: scan_ok_def\<close>)

lemma scan_ok_done: "scan_ok False False d (Inr d)"
  by (simp add: scan_ok_def)

lemma classify_containers_scan:
  "scan_ok (\<exists>c \<in> set cs. container_fails ToLower c) (\<exists>c \<in> set cs. container_distress c) d (classify_containers ToLower pod cs d)"
proof (induction cs arbitrary: d)
  case (Cons c cs)
  show ?case
    using scan_ok_bind [OF classify_container_scan Cons.IH] by simp
qed (simp add: scan_ok_done)

definition pod_fails :: "(string \<Rightarrow> string) \<Rightarrow> int \<Rightarrow> PodInfo \<Rightarrow> bool" where
  "pod_fails ToLower now pod \<longleftrightarrow> (\<exists>c \<in> set (po_Containers pod). container_fails ToLower c) \<or> stuck_pending now pod \<noteq> None"

definition pod_distress :: "PodInfo \<Rightarrow> bool" where
  "pod_distress pod \<longleftrightarrow> (\<exists>c \<in> set (po_Containers pod). container_distress c)"

lemma classify_pods_scan:
  "scan_ok (\<exists>p \<in> set pods. pod_fails ToLower now p) (\<exists>p \<in> set pods. pod_distress p) d (classify_pods ToLower now pods d)"
proof (induction pods arbitrary: d)
  case (Cons p pods)
  have "scan_ok (stuck_pending now p \<noteq> None \<or> (\<exists>p \<in> set pods. pod_fails ToLower now p)) (\<exists>p \<in> set pods. pod_distress p) d'
     (case stuck_pending now p of
        Some t \<Rightarrow> Inl (infra ''pod-startup'' CodePodStartup [''pod '' @ po_Name p @ '' stuck in Pending for '' @ fmt_seconds t] ''high'')
      | None \<Rightarrow> classify_pods ToLower now pods d')" for d'
    using Cons.IH [of d'] by (cases "stuck_pending now p") (simp_all add: scan_ok_def)
  from scan_ok_bind [OF classify_containers_scan this] show ?case
    by (simp add: pod_fails_def pod_distress_def disj_assoc)
qed (simp add: scan_ok_done)

definition operator_fails :: "(string \<Rightarrow> string) \<Rightarrow> ContainerInfo \<Rightarrow> bool" where
  "operator_fails ToLower c \<longleftrightarrow>
     matchesPattern ToLower (ci_Waiting c) waitingPatterns \<noteq> None \<or>
     matchesPattern ToLower (ci_Terminated c) terminatedPatterns \<noteq> None"

definition operator_distress :: "ContainerInfo \<Rightarrow> bool" where
  "operator_distress c \<longleftrightarrow>
     ci_Waiting c \<noteq> [] \<or> ci_Terminated c \<noteq> [] \<and> \<not> isSuccessfulTermination (ci_Terminated c)"

lemma operator_container_scan:
  "scan_ok (operator_fails ToLower c) (operator_distress c) d (operator_container ToLower pod c d)"
  by (auto simp: scan_ok_def operator_container_def operator_fails_def operator_distress_def Let_def)

lemma operator_containers_scan:
  "scan_ok (\<exists>c \<in> set cs. operator_fails ToLower c) (\<exists>c \<in> set cs. operator_distress c) d (operator_containers ToLower pod cs d)"
proof (induction cs arbitrary: d)
  case (Cons c cs)
  show ?case
    using scan_ok_bind [OF operator_container_scan Cons.IH] by simp
qed (simp add: scan_ok_done)

definition bad_phase :: "PodInfo \<Rightarrow> bool" where
  "bad_phase pod \<longleftrightarrow> po_Phase pod \<noteq> ''Running'' \<and> po_Phase pod \<noteq> ''Succeeded''"

definition operator_pod_fails :: "(string \<Rightarrow> string) \<Rightarrow> PodInfo \<Rightarrow> bool" where
  "operator_pod_fails ToLower pod \<longleftrightarrow> bad_phase pod \<or> (\<exists>c \<in> set (po_Containers pod). operator_fails ToLower c)"

definition operator_pod_distress :: "PodInfo \<Rightarrow> bool" where
  "operator_pod_distress pod \<longleftrightarrow> (\<exists>c \<in> set (po_Containers pod). operator_distress c)"

lemma operator_pods_scan:
  "scan_ok (\<exists>p \<in> set pods. operator_pod_fails ToLower p) (\<exists>p \<in> set pods. operator_pod_distress p) d (operator_pods ToLower pods d)"
proof (induction pods arbitrary: d)
  case (Cons p pods)
  show ?case
  proof (cases "bad_phase p")
    case True
    then show ?thesis
      by (simp add: scan_ok_def operator_pod_fails_def) (simp add: bad_phase_def)
  next
    case False
    then show ?thesis
      using scan_ok_bind [OF operator_containers_scan Cons.IH, of "po_Containers p" ToLower d]
      by (auto simp: operator_pod_fails_def operator_pod_distress_def bad_phase_def)
  qed
qed (simp add: scan_ok_done)

lemma event_rule_code: "event_rule ToLower e = Some (s, code) \<Longrightarrow> 1000 \<le> code \<and> code < 2000"
  by (auto simp: event_rule_def Let_def split: if_splits)

definition event_signal :: "(string \<Rightarrow> string) \<Rightarrow> int \<Rightarrow> EventInfo \<Rightarrow> bool" where
  "event_signal ToLower now e \<longleftrightarrow> \<not> old_event now e \<and> event_rule ToLower e \<noteq> None"

lemma classify_events_scan:
  "classify_events ToLower now es \<noteq> None \<longleftrightarrow> (\<exists>e \<in> set es. event_signal ToLower now e)"
  "classify_events ToLower now es = Some fc \<Longrightarrow> well_classified fc"
  by (induction es) (auto simp: event_signal_def dest: event_rule_code split: if_splits option.splits)

section \<open>Lemmas: the verdict\<close>

definition all_entries :: "('k, 'v list) gomap \<Rightarrow> 'v set" where
  "all_entries m = (\<Union>(k, vs) \<in> set m. set vs)"

lemma all_entries_concat: "set (concat (map snd m)) = all_entries m"
  by (auto simp: all_entries_def)

definition infrastructure_signal :: "(string \<Rightarrow> string) \<Rightarrow> int \<Rightarrow> Report \<Rightarrow> bool" where
  "infrastructure_signal ToLower now r \<longleftrightarrow>
     (\<exists>p \<in> all_entries (sec_Data (r_Pods r)). pod_fails ToLower now p \<or> pod_distress p) \<or>
     (\<exists>e \<in> set (sec_Data (r_Events r)). event_signal ToLower now e) \<or>
     (\<exists>q \<in> all_entries (sec_Data (r_Quotas r)). qt_Exceeded q \<noteq> []) \<or>
     (\<exists>n \<in> set (sec_Data (r_Nodes r)). nd_UnhealthyReason n \<noteq> []) \<or>
     (\<exists>d. op_Deployment (sec_Data (r_Operator r)) = Some d \<and> (dp_Replicas d = 0 \<or> dp_Ready d < dp_Replicas d)) \<or>
     (\<exists>p \<in> set (op_Pods (sec_Data (r_Operator r))). operator_pod_fails ToLower p \<or> operator_pod_distress p) \<or>
     (sec_Error (r_DSCI r) \<noteq> [] \<and> sec_Data (r_DSCI r) \<noteq> []) \<or> (sec_Error (r_DSC r) \<noteq> [] \<and> sec_Data (r_DSC r) \<noteq> []) \<or>
     (\<exists>d \<in> all_entries (sec_Data (r_Deployments r)). unready_deployment now d)"

definition sound :: "bool \<Rightarrow> FailureClassification option \<Rightarrow> bool" where
  "sound p res \<longleftrightarrow> (res \<noteq> None \<longleftrightarrow> p) \<and> good_distress res"

lemma sound_find:
  assumes "\<And>x. well_classified (f x)"
  shows "sound (\<exists>x \<in> set xs. P x) (map_option f (List.find P xs))"
proof (cases "List.find P xs")
  case None
  then show ?thesis
    by (simp add: sound_def good_distress_def) (simp add: find_None_iff)
next
  case (Some x)
  then have "x \<in> set xs" "P x"
    by (auto simp: find_Some_iff)
  with Some assms show ?thesis
    by (auto simp: sound_def good_distress_def)
qed

lemma sound_quotas: "sound (\<exists>q \<in> all_entries (sec_Data (r_Quotas r)). qt_Exceeded q \<noteq> []) (classifyFromQuotas r)"
  unfolding classifyFromQuotas_def all_entries_concat [symmetric] by (rule sound_find) simp

lemma sound_nodes: "sound (\<exists>n \<in> set (sec_Data (r_Nodes r)). nd_UnhealthyReason n \<noteq> []) (classifyFromNodes r)"
  unfolding classifyFromNodes_def by (rule sound_find) simp

lemma sound_events: "sound (\<exists>e \<in> set (sec_Data (r_Events r)). event_signal ToLower now e) (classifyFromEvents ToLower now r)"
  using classify_events_scan [of ToLower now "sec_Data (r_Events r)"]
  by (auto simp: sound_def classifyFromEvents_def good_distress_def split: option.splits)

lemma sound_conditions:
  "sound (sec_Error (r_DSCI r) \<noteq> [] \<and> sec_Data (r_DSCI r) \<noteq> []) (classifyFromDSCI r)"
  "sound (sec_Error (r_DSC r) \<noteq> [] \<and> sec_Data (r_DSC r) \<noteq> []) (classifyFromDSC r)"
  by (auto simp: sound_def classifyFromDSCI_def classifyFromDSC_def classifyFromCRConditions_def good_distress_def)

lemma classifyFromPods_spec:
  defines "pods r \<equiv> all_entries (sec_Data (r_Pods r))"
  shows "sound (\<exists>p \<in> pods r. pod_fails ToLower now p) (fst (classifyFromPods ToLower now r))"
    and "fst (classifyFromPods ToLower now r) = None \<Longrightarrow> sound (\<exists>p \<in> pods r. pod_distress p) (snd (classifyFromPods ToLower now r))"
  using classify_pods_scan [of "concat (map snd (sec_Data (r_Pods r)))" ToLower now None]
  unfolding all_entries_concat pods_def
  by (auto simp: scan_ok_def sound_def classifyFromPods_def good_distress_def split: sum.splits)

lemma operator_deployment_sound:
  "sound (\<exists>d. dep = Some d \<and> (dp_Replicas d = 0 \<or> dp_Ready d < dp_Replicas d)) (Option.bind dep operator_deployment)"
  by (cases dep) (auto simp: sound_def operator_deployment_def good_distress_def)

lemma classifyFromOperator_spec:
  fixes r :: Report
  defines "sec \<equiv> sec_Data (r_Operator r)"
  shows "sound ((\<exists>d. op_Deployment sec = Some d \<and> (dp_Replicas d = 0 \<or> dp_Ready d < dp_Replicas d)) \<or>
        (\<exists>p \<in> set (op_Pods sec). operator_pod_fails ToLower p)) (fst (classifyFromOperator ToLower r))"
    and "fst (classifyFromOperator ToLower r) = None \<Longrightarrow>
      sound (\<exists>p \<in> set (op_Pods sec). operator_pod_distress p) (snd (classifyFromOperator ToLower r))"
  using operator_deployment_sound [of "op_Deployment sec"] operator_pods_scan [of "op_Pods sec" ToLower None]
  by (auto simp: scan_ok_def sound_def classifyFromOperator_def good_distress_def Let_def sec_def split: sum.splits option.splits)

lemma sound_deployments:
  "sound (\<exists>d \<in> all_entries (sec_Data (r_Deployments r)). unready_deployment now d) (classifyClusterDistress now r None None)"
  unfolding classifyClusterDistress_def all_entries_concat [symmetric] if_not_P not_not simp_thms if_False
  by (rule sound_find) simp

lemma classifyClusterDistress_sound:
  assumes "sound p podDistress" "sound q operatorDistress"
  shows "sound (p \<or> q \<or> (\<exists>d \<in> all_entries (sec_Data (r_Deployments r)). unready_deployment now d))
    (classifyClusterDistress now r podDistress operatorDistress)"
proof (cases "podDistress = None \<and> operatorDistress = None")
  case True
  with assms sound_deployments [of r now] show ?thesis
    by (auto simp: sound_def)
next
  case False
  with assms show ?thesis
    by (auto simp: sound_def classifyClusterDistress_def)
qed

lemma sound_first:
  assumes "sound p x" "sound q (first_match xs)"
  shows "sound (p \<or> q) (first_match (x # xs))"
  using assms by (cases x) (auto simp: sound_def)

lemma sound_single: "sound p x \<Longrightarrow> sound p (first_match [x])"
  by (cases x) simp_all

text \<open>The classification found, if any: the same cascade without its two fallbacks.\<close>

definition classified :: "(string \<Rightarrow> string) \<Rightarrow> int \<Rightarrow> Report \<Rightarrow> FailureClassification option" where
  "classified ToLower now r =
     (case fst (classifyFromPods ToLower now r) of
        Some fc \<Rightarrow> Some fc
      | None \<Rightarrow>
          case first_match [classifyFromEvents ToLower now r, classifyFromQuotas r, classifyFromNodes r] of
            Some fc \<Rightarrow> Some fc
          | None \<Rightarrow>
              case fst (classifyFromOperator ToLower r) of
                Some fc \<Rightarrow> Some fc
              | None \<Rightarrow> first_match [classifyFromDSCI r, classifyFromDSC r,
                  classifyClusterDistress now r (snd (classifyFromPods ToLower now r)) (snd (classifyFromOperator ToLower r))])"

lemma Classify_classified:
  "Classify ToLower now (Some r) =
     (case classified ToLower now r of Some fc \<Rightarrow> fc | None \<Rightarrow> if Healthy r then no_signal else unknown)"
  by (simp add: Classify_def classified_def case_prod_beta Let_def split: option.split)

lemma sound_case:
  assumes "sound p x" and "x = None \<Longrightarrow> sound q y"
  shows "sound (p \<or> q) (case x of Some fc \<Rightarrow> Some fc | None \<Rightarrow> y)"
  using assms by (cases x) (auto simp: sound_def)

lemma classified_sound: "sound (infrastructure_signal ToLower now r) (classified ToLower now r)"
proof -
  note pods = classifyFromPods_spec [where ToLower = ToLower and now = now and r = r]
  note op = classifyFromOperator_spec [where ToLower = ToLower and r = r]
  note first = sound_first [OF sound_events [of r ToLower now] sound_first [OF sound_quotas [of r] sound_single [OF sound_nodes [of r]]]]
  note distress = classifyClusterDistress_sound [OF pods(2) op(2), of r now]
  note last = sound_first [OF sound_conditions(1) [of r] sound_first [OF sound_conditions(2) [of r] sound_single [OF distress]]]
  note all = sound_case [OF pods(1) sound_case [OF first sound_case [OF op(1) last]]]
  have "sound p x \<Longrightarrow> p = q \<Longrightarrow> sound q x" for p q x
    by simp
  from this [OF all] show ?thesis
    unfolding classified_def by (rule meta_mp) (auto simp only: infrastructure_signal_def)
qed

section \<open>Lemmas: the signals spelled out\<close>

text \<open>
  A container is in trouble when it waits, or when it terminated with another reason than \<open>Completed\<close> and either without the exit
  code 0 or with one of four marks. The text of a termination is \<open>Reason (exit Code): Message\<close>.
\<close>

definition troubled_container :: "(string \<Rightarrow> string) \<Rightarrow> ContainerInfo \<Rightarrow> bool" where
  "troubled_container ToLower c \<longleftrightarrow>
     ci_Waiting c \<noteq> '''' \<or>
     ci_Terminated c \<noteq> '''' \<and> \<not> HasPrefix (ci_Terminated c) ''Completed '' \<and>
     (\<not> strings_Contains (ci_Terminated c) ''(exit 0)'' \<or>
      (\<exists>w \<in> {''OOMKilled'', ''(exit 2)'', ''(exit 137)'', ''(exit 143)''}. strings_Contains (ToLower (ci_Terminated c)) (ToLower w)))"

definition troubled_event :: "(string \<Rightarrow> string) \<Rightarrow> int \<Rightarrow> EventInfo \<Rightarrow> bool" where
  "troubled_event ToLower now e \<longleftrightarrow>
     (\<forall>t. ev_LastTime e = Some t \<longrightarrow> now - t \<le> 5 * 60 * 1000000000) \<and>
     (ev_Reason e \<in> {''NetworkNotReady'', ''FailedAttachVolume'', ''FailedMount'', ''ProvisioningFailed'', ''Unhealthy''} \<or>
      ev_Message e \<noteq> '''' \<and>
      (\<exists>w \<in> {''unauthorized: authentication'', ''failed to pull image'', ''failed to pull and unpack image'', ''network not ready'',
            ''persistentvolumeclaim'', ''pvc not found'', ''failed to attach volume'', ''failed to mount volume'', ''no persistent volumes available'',
            ''liveness probe failed'', ''readiness probe failed'', ''startup probe failed'', ''is forbidden'', ''access denied'', ''does not have permission'',
            ''no such host'', ''failed to resolve'', ''dns resolution failed'', ''name or service not known'', ''temporary failure in name resolution'',
            ''context deadline exceeded'', ''deadline exceeded'', ''timed out waiting'', ''operation timed out''}.
          strings_Contains (ToLower (ev_Message e)) w))"

definition infrastructure_trouble :: "(string \<Rightarrow> string) \<Rightarrow> int \<Rightarrow> Report \<Rightarrow> bool" where
  "infrastructure_trouble ToLower now r \<longleftrightarrow>
     (\<exists>p \<in> all_entries (sec_Data (r_Pods r)).
        (\<exists>c \<in> set (po_Containers p). troubled_container ToLower c) \<or>
        po_Phase p = ''Pending'' \<and> (\<exists>t. po_CreatedAt p = Some t \<and> now - t > 60 * 1000000000)) \<or>
     (\<exists>e \<in> set (sec_Data (r_Events r)). troubled_event ToLower now e) \<or>
     (\<exists>q \<in> all_entries (sec_Data (r_Quotas r)). qt_Exceeded q \<noteq> []) \<or>
     (\<exists>n \<in> set (sec_Data (r_Nodes r)). nd_UnhealthyReason n \<noteq> '''') \<or>
     (\<exists>d. op_Deployment (sec_Data (r_Operator r)) = Some d \<and> (dp_Replicas d = 0 \<or> dp_Ready d < dp_Replicas d)) \<or>
     (\<exists>p \<in> set (op_Pods (sec_Data (r_Operator r))).
        po_Phase p \<notin> {''Running'', ''Succeeded''} \<or> (\<exists>c \<in> set (po_Containers p). troubled_container ToLower c)) \<or>
     sec_Error (r_DSCI r) \<noteq> '''' \<and> sec_Data (r_DSCI r) \<noteq> '''' \<or> sec_Error (r_DSC r) \<noteq> '''' \<and> sec_Data (r_DSC r) \<noteq> '''' \<or>
     (\<exists>d \<in> all_entries (sec_Data (r_Deployments r)).
        dp_Ready d < dp_Replicas d \<and> (\<forall>t. dp_CreatedAt d = Some t \<longrightarrow> 60 * 1000000000 \<le> now - t))"

lemma unready_trouble:
  "unready_deployment now d \<longleftrightarrow>
     dp_Ready d < dp_Replicas d \<and> (\<forall>t. dp_CreatedAt d = Some t \<longrightarrow> 60 * 1000000000 \<le> now - t)"
  by (auto simp: unready_deployment_def PendingThreshold_def second_def split: option.splits)

lemma terminated_mark:
  "matchesPattern ToLower t terminatedPatterns \<noteq> None \<longleftrightarrow>
     t \<noteq> '''' \<and> (\<exists>w \<in> {''OOMKilled'', ''(exit 2)'', ''(exit 137)'', ''(exit 143)''}. strings_Contains (ToLower t) (ToLower w))"
  by (simp add: matchesPattern_def terminatedPatterns_def)

lemma waiting_mark: "matchesPattern ToLower t waitingPatterns \<noteq> None \<Longrightarrow> t \<noteq> ''''"
  by (auto simp: matchesPattern_def)

lemma container_trouble: "container_fails ToLower c \<or> container_distress c \<longleftrightarrow> troubled_container ToLower c"
  using waiting_mark [of ToLower "ci_Waiting c"] terminated_mark [of ToLower "ci_Terminated c"]
  by (auto simp only: container_fails_def container_distress_def troubled_container_def isGracefulTermination_def isSuccessfulTermination_def)

lemma operator_trouble:
  assumes "\<not> HasPrefix (ci_Terminated c) ''Completed ''"
  shows "operator_fails ToLower c \<or> operator_distress c \<longleftrightarrow> troubled_container ToLower c"
  using waiting_mark [of ToLower "ci_Waiting c"] terminated_mark [of ToLower "ci_Terminated c"] assms
  by (auto simp only: operator_fails_def operator_distress_def troubled_container_def isSuccessfulTermination_def)

lemma event_trouble: "event_signal ToLower now e \<longleftrightarrow> troubled_event ToLower now e"
proof -
  have old: "\<not> old_event now e \<longleftrightarrow> (\<forall>t. ev_LastTime e = Some t \<longrightarrow> now - t \<le> 5 * 60 * 1000000000)"
    by (auto simp: old_event_def EventAgeThreshold_def second_def split: option.splits)
  show ?thesis
    unfolding event_signal_def old troubled_event_def
    by (auto simp: event_rule_def containsAnyPattern_def Let_def imagePullEventPatterns_def networkEventReasons_def networkMessagePatterns_def
        storageEventReasons_def storageMessagePatterns_def probeEventReasons_def probeMessagePatterns_def rbacMessagePatterns_def
        dnsMessagePatterns_def timeoutMessagePatterns_def)
qed

lemma pod_trouble:
  "pod_fails ToLower now p \<or> pod_distress p \<longleftrightarrow>
     (\<exists>c \<in> set (po_Containers p). troubled_container ToLower c) \<or>
     po_Phase p = ''Pending'' \<and> (\<exists>t. po_CreatedAt p = Some t \<and> now - t > 60 * 1000000000)"
proof -
  have "stuck_pending now p \<noteq> None \<longleftrightarrow> po_Phase p = ''Pending'' \<and> (\<exists>t. po_CreatedAt p = Some t \<and> now - t > 60 * 1000000000)"
    by (auto simp: stuck_pending_def PendingThreshold_def second_def split: option.splits)
  then show ?thesis
    unfolding pod_fails_def pod_distress_def container_trouble [symmetric] by blast
qed

lemma operator_pod_trouble:
  assumes "\<forall>c \<in> set (po_Containers p). \<not> HasPrefix (ci_Terminated c) ''Completed ''"
  shows "operator_pod_fails ToLower p \<or> operator_pod_distress p \<longleftrightarrow>
    po_Phase p \<notin> {''Running'', ''Succeeded''} \<or> (\<exists>c \<in> set (po_Containers p). troubled_container ToLower c)"
proof -
  have "bad_phase p \<longleftrightarrow> po_Phase p \<notin> {''Running'', ''Succeeded''}"
    by (simp add: bad_phase_def)
  moreover have "(\<exists>c \<in> set (po_Containers p). operator_fails ToLower c \<or> operator_distress c) \<longleftrightarrow>
      (\<exists>c \<in> set (po_Containers p). troubled_container ToLower c)"
    using assms operator_trouble by blast
  ultimately show ?thesis
    unfolding operator_pod_fails_def operator_pod_distress_def by blast
qed

lemma signal_trouble:
  assumes "\<forall>p \<in> set (op_Pods (sec_Data (r_Operator r))). \<forall>c \<in> set (po_Containers p). \<not> HasPrefix (ci_Terminated c) ''Completed ''"
  shows "infrastructure_signal ToLower now r \<longleftrightarrow> infrastructure_trouble ToLower now r"
proof -
  have "(\<exists>p \<in> set (op_Pods (sec_Data (r_Operator r))). operator_pod_fails ToLower p \<or> operator_pod_distress p) \<longleftrightarrow>
      (\<exists>p \<in> set (op_Pods (sec_Data (r_Operator r))).
        po_Phase p \<notin> {''Running'', ''Succeeded''} \<or> (\<exists>c \<in> set (po_Containers p). troubled_container ToLower c))"
    using assms operator_pod_trouble by blast
  then show ?thesis
    unfolding infrastructure_signal_def infrastructure_trouble_def pod_trouble event_trouble unready_trouble by blast
qed

section \<open>Properties\<close>

text \<open>
  C30. For a report in which no container of the operator's own pods terminated with the reason \<open>Completed\<close>, the classifier blames the
  infrastructure exactly when the report shows trouble: a container that waits or terminated abnormally and not gracefully, a pod pending
  for more than a minute, an event of the last five minutes with one of the listed reasons or words, an exceeded quota, an unhealthy node, an
  operator that is scaled down, unready or has a troubled pod, an unhealthy DSCI or DSC, or a deployment that should be ready.
  The verdict therefore does not depend on the order in which namespaces are visited, and every verdict
  comes with evidence and a code in the range of its category: 1000 to 1999 for infrastructure, 3000 and
  up otherwise. The test itself is never blamed. (On a gracefully terminated operator container the code departs from its
  comments; such reports are excluded.)
\<close>

theorem classification_verdict:
  assumes "\<forall>p \<in> set (op_Pods (sec_Data (r_Operator r))). \<forall>c \<in> set (po_Containers p). \<not> HasPrefix (ci_Terminated c) ''Completed ''"
  shows "\<exists>fc. Classify ToLower now (Some r) = fc \<and> fc_Evidence fc \<noteq> [] \<and>
     (if infrastructure_trouble ToLower now r
      then fc_Category fc = ''infrastructure'' \<and> 1000 \<le> fc_ErrorCode fc \<and> fc_ErrorCode fc < 2000
      else fc_Category fc = ''unknown'' \<and> 3000 \<le> fc_ErrorCode fc)"
  using classified_sound [of ToLower now r] unfolding signal_trouble [OF assms]
  by (auto simp: Classify_classified sound_def good_distress_def well_classified_def no_signal_def unknown_def
      split: option.splits)

text \<open>
  A component pod whose container was shut down gracefully beside a running operator is no trouble; when the same container was killed
  with exit code 137, the infrastructure is blamed.
\<close>

definition sample_report :: "string \<Rightarrow> Report" where
  "sample_report terminated =
     \<lparr>r_Nodes = \<lparr>sec_Error = '''', sec_Data = [\<lparr>nd_Name = ''n'', nd_UnhealthyReason = ''''\<rparr>]\<rparr>,
      r_Deployments = \<lparr>sec_Error = '''', sec_Data = []\<rparr>,
      r_Pods = \<lparr>sec_Error = '''', sec_Data = [(''ns'', [\<lparr>po_Name = ''p'', po_Phase = ''Running'', po_CreatedAt = Some 0,
        po_Containers = [\<lparr>ci_Name = ''c'', ci_Waiting = '''', ci_Terminated = terminated\<rparr>]\<rparr>])]\<rparr>,
      r_Events = \<lparr>sec_Error = '''', sec_Data = []\<rparr>,
      r_Quotas = \<lparr>sec_Error = '''', sec_Data = []\<rparr>,
      r_Operator = \<lparr>sec_Error = '''', sec_Data = \<lparr>
        op_Deployment = Some \<lparr>dp_Namespace = ''o'', dp_Name = ''d'', dp_Ready = 1, dp_Replicas = 1, dp_CreatedAt = Some 0\<rparr>,
        op_Pods = [\<lparr>po_Name = ''o'', po_Phase = ''Running'', po_CreatedAt = Some 0,
          po_Containers = [\<lparr>ci_Name = ''c'', ci_Waiting = '''', ci_Terminated = ''''\<rparr>]\<rparr>]\<rparr>\<rparr>,
      r_DSCI = \<lparr>sec_Error = '''', sec_Data = ''x''\<rparr>, r_DSC = \<lparr>sec_Error = '''', sec_Data = ''x''\<rparr>\<rparr>"

lemma sample_report_operator:
  "\<forall>p \<in> set (op_Pods (sec_Data (r_Operator (sample_report t)))). \<forall>c \<in> set (po_Containers p). \<not> HasPrefix (ci_Terminated c) ''Completed ''"
  by (simp add: sample_report_def)

lemma sample_report_trouble:
  "infrastructure_trouble (\<lambda>s. s) now (sample_report t) \<longleftrightarrow>
     troubled_container (\<lambda>s. s) \<lparr>ci_Name = ''c'', ci_Waiting = '''', ci_Terminated = t\<rparr>"
  by (simp add: infrastructure_trouble_def sample_report_def all_entries_def troubled_container_def)

theorem classification_verdict_witness:
  "fc_Category (Classify (\<lambda>s. s) 0 (Some (sample_report ''Completed (exit 143)''))) = ''unknown'' \<and>
   fc_Category (Classify (\<lambda>s. s) 0 (Some (sample_report ''Error (exit 137)''))) = ''infrastructure''"
proof
  have "\<not> infrastructure_trouble (\<lambda>s. s) 0 (sample_report ''Completed (exit 143)'')"
    by (simp add: sample_report_trouble troubled_container_def)
  then show "fc_Category (Classify (\<lambda>s. s) 0 (Some (sample_report ''Completed (exit 143)''))) = ''unknown''"
    using classification_verdict [OF sample_report_operator, of "\<lambda>s. s" 0 "''Completed (exit 143)''"] by simp
  have "infrastructure_trouble (\<lambda>s. s) 0 (sample_report ''Error (exit 137)'')"
    by (simp add: sample_report_trouble troubled_container_def)
  then show "fc_Category (Classify (\<lambda>s. s) 0 (Some (sample_report ''Error (exit 137)''))) = ''infrastructure''"
    using classification_verdict [OF sample_report_operator, of "\<lambda>s. s" 0 "''Error (exit 137)''"] by simp
qed

text \<open>
  A container that Kubernetes reports as \<open>Completed\<close> adds nothing to the verdict from pods, whatever its
  exit code; in the operator's own pods the same container is a failure when its exit code is 2, 137 or
  143, and distress otherwise.
\<close>

lemma graceful_container_ignored:
  assumes "isGracefulTermination (ci_Terminated c)" "ci_Waiting c = []"
  shows "\<not> container_fails ToLower c \<and> \<not> container_distress c"
    and "\<not> isSuccessfulTermination (ci_Terminated c) \<Longrightarrow> operator_distress c"
  using assms
  by (auto simp: container_fails_def container_distress_def operator_distress_def matchesPattern_def isGracefulTermination_def)


end
