(* ===== verification/Unstructured.thy ===== *)
theory Unstructured
  imports Prelude
begin

text \<open>
  Workload objects as the mutating webhooks see them. The content of an \<open>unstructured.Unstructured\<close> is
  Go's \<open>map[string]any\<close>: a tree of maps, lists, strings and other scalars (\<open>jval\<close>).

  The helpers that read and write nested fields belong to the API machinery and to the platform utilities, so
  they are parameters (\<open>unstructured_api\<close>). What the operator relies on in them is \<open>api_laws\<close>: their
  documented behaviour on a tree, stated with the three functions \<open>lookup\<close>, \<open>store\<close> and \<open>erase\<close> on paths. A write fails
  exactly when its path runs through a value that is not a map. Nothing is assumed of a read whose path runs
  through such a value or ends in a value of another type.
\<close>

section \<open>Trees\<close>

datatype jval =
    JString string
  | JList "jval list"
  | JMap "(string \<times> jval) list"
  | JOther string

type_synonym jmap = "(string, jval) gomap"

definition fields_of :: "jval \<Rightarrow> jmap" where
  "fields_of e = (case e of JMap m \<Rightarrow> m | _ \<Rightarrow> [])"

text \<open>\<open>s, _ := m[k].(string)\<close>, and the name of an entry that is a map with a string \<open>name\<close>.\<close>

definition string_field :: "jmap \<Rightarrow> string \<Rightarrow> string" where
  "string_field m k = (case map_of m k of Some (JString s) \<Rightarrow> s | _ \<Rightarrow> '''')"

definition entry_name :: "jval \<Rightarrow> string option" where
  "entry_name e = (case e of JMap m \<Rightarrow> (case map_of m ''name'' of Some (JString n) \<Rightarrow> Some n | _ \<Rightarrow> None) | _ \<Rightarrow> None)"

lemma entry_name_fields: "entry_name e = Some n \<longleftrightarrow> map_of (fields_of e) ''name'' = Some (JString n)"
  by (auto simp: entry_name_def fields_of_def split: jval.splits option.splits)

section \<open>Results that may be errors\<close>

text \<open>\<open>x, err := f(); if err != nil { return err }\<close>, and the same with the error wrapped.\<close>

definition and_then :: "'e + 'a \<Rightarrow> ('a \<Rightarrow> 'e + 'b) \<Rightarrow> 'e + 'b" where
  "and_then x f = (case x of Inl e \<Rightarrow> Inl e | Inr a \<Rightarrow> f a)"

definition context_err :: "string \<Rightarrow> go_error + 'a \<Rightarrow> go_error + 'a" where
  "context_err msg = map_sum (wrap msg) id"

lemma and_then_simps [simp]: "and_then (Inl e) f = Inl e" "and_then (Inr a) f = f a"
  by (simp_all add: and_then_def)

lemma and_then_Inr: "and_then x f = Inr b \<longleftrightarrow> (\<exists>a. x = Inr a \<and> f a = Inr b)"
  by (cases x) simp_all

lemma context_err_simps [simp]: "context_err msg (Inr a) = Inr a" "context_err msg x = Inr a \<longleftrightarrow> x = Inr a"
  by (simp_all add: context_err_def, cases x) simp_all

section \<open>Paths\<close>

datatype found = Absent | Broken | Value jval

fun lookup :: "jmap \<Rightarrow> string list \<Rightarrow> found" where
  "lookup m [] = Value (JMap m)"
| "lookup m (k # ks) =
     (case map_of m k of
        None \<Rightarrow> Absent
      | Some v \<Rightarrow> if ks = [] then Value v else case v of JMap m' \<Rightarrow> lookup m' ks | _ \<Rightarrow> Broken)"

fun store :: "jmap \<Rightarrow> string list \<Rightarrow> jval \<Rightarrow> jmap option" where
  "store m [] v = None"
| "store m (k # ks) v =
     (if ks = [] then Some (AList.update k v m)
      else
        case map_of m k of
          None \<Rightarrow> map_option (\<lambda>m'. AList.update k (JMap m') m) (store [] ks v)
        | Some (JMap m') \<Rightarrow> map_option (\<lambda>m'. AList.update k (JMap m') m) (store m' ks v)
        | Some _ \<Rightarrow> None)"

fun erase :: "jmap \<Rightarrow> string list \<Rightarrow> jmap" where
  "erase m [] = m"
| "erase m (k # ks) =
     (if ks = [] then AList.delete k m
      else case map_of m k of Some (JMap m') \<Rightarrow> AList.update k (JMap (erase m' ks)) m | _ \<Rightarrow> m)"

text \<open>Two paths are independent when neither runs through the other.\<close>

definition independent :: "string list \<Rightarrow> string list \<Rightarrow> bool" where
  "independent p q \<longleftrightarrow> take (length q) p \<noteq> q \<and> take (length p) q \<noteq> p"

lemma independent_Cons [simp]:
  "independent (k # ks) (l # ls) \<longleftrightarrow> k \<noteq> l \<or> independent ks ls"
  "\<not> independent [] q" "\<not> independent p []"
  by (auto simp: independent_def)

lemma lookup_store: "store m p v = Some m' \<Longrightarrow> lookup m' p = Value v"
proof (induction m p v arbitrary: m' rule: store.induct)
  case (2 m k ks v)
  then show ?case
    by (cases "ks = []") (auto simp: go_map_simps split: option.splits jval.splits)
qed simp

lemma lookup_Nil_map [simp]: "ks \<noteq> [] \<Longrightarrow> lookup [] ks = Absent"
  by (cases ks) simp_all

lemma lookup_store_independent:
  "store m p v = Some m' \<Longrightarrow> independent p q \<Longrightarrow> lookup m' q = lookup m q"
proof (induction m p v arbitrary: m' q rule: store.induct)
  case (2 m k ks v)
  obtain l ls where q: "q = l # ls"
    using 2(4) by (cases q) auto
  show ?case
  proof (cases "ks = [] \<or> l \<noteq> k")
    case True
    then show ?thesis
      using 2(3,4) q by (auto simp: go_map_simps split: option.splits jval.splits if_splits)
  next
    case False
    then have ind: "independent ks ls" "ls \<noteq> []" "ks \<noteq> []"
      using 2(4) q by auto
    show ?thesis
    proof (cases "map_of m k")
      case None
      then obtain m1 where m1: "store [] ks v = Some m1" "m' = AList.update k (JMap m1) m"
        using 2(3) ind(3) by auto
      have "lookup m1 ls = lookup [] ls"
        using 2(1) None ind m1(1) by blast
      then show ?thesis
        using False q None ind m1(2) by (simp add: go_map_simps)
    next
      case (Some x)
      then obtain m0 m1 where m1: "x = JMap m0" "store m0 ks v = Some m1" "m' = AList.update k (JMap m1) m"
        using 2(3) ind(3) by (auto split: jval.splits)
      have "lookup m1 ls = lookup m0 ls"
        using 2(2) Some m1(1,2) ind by blast
      then show ?thesis
        using False q Some ind m1(1,3) by (simp add: go_map_simps)
    qed
  qed
qed simp

lemma lookup_erase: "p \<noteq> [] \<Longrightarrow> lookup m p \<noteq> Broken \<Longrightarrow> lookup (erase m p) p = Absent"
proof (induction m p rule: erase.induct)
  case (2 m k ks)
  then show ?case
    by (cases "ks = []") (auto simp: go_map_simps split: option.splits jval.splits)
qed simp

lemma lookup_erase_independent: "independent p q \<Longrightarrow> lookup (erase m p) q = lookup m q"
proof (induction m p arbitrary: q rule: erase.induct)
  case (2 m k ks)
  obtain l ls where q: "q = l # ls"
    using 2(2) by (cases q) auto
  show ?case
  proof (cases "ks = [] \<or> l \<noteq> k")
    case True
    then show ?thesis
      using 2(2) q by (auto simp: go_map_simps split: option.splits jval.splits)
  next
    case False
    then have "independent ks ls" "ls \<noteq> []" "ks \<noteq> []" "l = k"
      using 2(2) q by auto
    then show ?thesis
      using 2(1) q by (cases "map_of m k"; simp) (auto simp: go_map_simps split: jval.splits)
  qed
qed simp

lemma store_other: "store m (k # ks) v = Some m' \<Longrightarrow> l \<noteq> k \<Longrightarrow> map_of m' l = map_of m l"
  by (auto simp: go_map_simps split: if_splits option.splits jval.splits)

lemma erase_other: "l \<noteq> k \<Longrightarrow> map_of (erase m (k # ks)) l = map_of m l"
  by (auto simp: go_map_simps split: option.splits jval.splits)

text \<open>A path that can be read without running into another value can be written.\<close>

lemma store_total: "p \<noteq> [] \<Longrightarrow> lookup m p \<noteq> Broken \<Longrightarrow> \<exists>m'. store m p v = Some m'"
proof (induction m p v rule: store.induct)
  case (2 m k ks v)
  show ?case
  proof (cases "ks = []")
    case False
    then have "\<exists>m'. store [] ks v = Some m'" if "map_of m k = None"
      using 2(1) that by simp
    moreover have "\<exists>m'. store m0 ks v = Some m'" if "map_of m k = Some (JMap m0)" for m0
      using 2(2) that False 2(4) by simp
    ultimately show ?thesis
      using False 2(4) by (auto split: option.splits jval.splits)
  qed simp
qed simp

section \<open>The helpers\<close>

record unstructured_api =
  ua_NestedSlice :: "jmap \<Rightarrow> string list \<Rightarrow> go_error + jval list option"
  ua_NestedMap :: "jmap \<Rightarrow> string list \<Rightarrow> go_error + jmap option"
  ua_NestedStringMap :: "jmap \<Rightarrow> string list \<Rightarrow> go_error + (string, string) gomap option"
  ua_NestedString :: "jmap \<Rightarrow> string list \<Rightarrow> go_error + string option"
  ua_SetNestedSlice :: "jmap \<Rightarrow> jval list \<Rightarrow> string list \<Rightarrow> go_error + jmap"
  ua_SetNestedMap :: "jmap \<Rightarrow> jmap \<Rightarrow> string list \<Rightarrow> go_error + jmap"
  ua_SetNestedStringMap :: "jmap \<Rightarrow> (string, string) gomap \<Rightarrow> string list \<Rightarrow> go_error + jmap"
  ua_SetNestedField :: "jmap \<Rightarrow> string \<Rightarrow> string list \<Rightarrow> go_error + jmap"
  ua_RemoveNestedField :: "jmap \<Rightarrow> string list \<Rightarrow> jmap"
  ua_GetKind :: "jmap \<Rightarrow> string"
  ua_GetName :: "jmap \<Rightarrow> string"
  ua_GetNamespace :: "jmap \<Rightarrow> string"
  ua_Deleting :: "jmap \<Rightarrow> bool"
  ua_GetAnnotation :: "jmap \<Rightarrow> string \<Rightarrow> string"
  ua_SetAnnotation :: "jmap \<Rightarrow> string \<Rightarrow> string \<Rightarrow> jmap"
  ua_RemoveAnnotation :: "jmap \<Rightarrow> string \<Rightarrow> jmap"
  ua_GetLabel :: "jmap \<Rightarrow> string \<Rightarrow> string"
  ua_SetLabel :: "jmap \<Rightarrow> string \<Rightarrow> string \<Rightarrow> jmap"
  ua_RemoveLabel :: "jmap \<Rightarrow> string \<Rightarrow> jmap"

text \<open>A map of strings as a tree, and back.\<close>

definition string_map :: "(string, string) gomap \<Rightarrow> jmap" where
  "string_map d = map (\<lambda>(k, v). (k, JString v)) d"

definition reads :: "jmap \<Rightarrow> string list \<Rightarrow> ('a \<Rightarrow> jval) \<Rightarrow> go_error + 'a option \<Rightarrow> bool" where
  "reads m p emb r \<longleftrightarrow> (lookup m p = Absent \<longrightarrow> r = Inr None) \<and> (\<forall>x. lookup m p = Value (emb x) \<longrightarrow> r = Inr (Some x))"

definition writes :: "jmap \<Rightarrow> string list \<Rightarrow> jval \<Rightarrow> go_error + jmap \<Rightarrow> bool" where
  "writes m p v r \<longleftrightarrow> (case store m p v of Some m' \<Rightarrow> r = Inr m' | None \<Rightarrow> isl r)"

definition field_laws :: "unstructured_api \<Rightarrow> bool" where
  "field_laws a \<longleftrightarrow>
     (\<forall>m p. reads m p JList (ua_NestedSlice a m p) \<and> reads m p JMap (ua_NestedMap a m p) \<and>
        reads m p (\<lambda>d. JMap (string_map d)) (ua_NestedStringMap a m p) \<and> reads m p JString (ua_NestedString a m p) \<and>
        ua_RemoveNestedField a m p = erase m p) \<and>
     (\<forall>m p xs. writes m p (JList xs) (ua_SetNestedSlice a m xs p)) \<and>
     (\<forall>m p x. writes m p (JMap x) (ua_SetNestedMap a m x p)) \<and>
     (\<forall>m p d. writes m p (JMap (string_map d)) (ua_SetNestedStringMap a m d p)) \<and>
     (\<forall>m p s. writes m p (JString s) (ua_SetNestedField a m s p))"

text \<open>Kind, name, annotations and labels live outside \<open>spec\<close>, annotations and labels in \<open>metadata\<close>.\<close>

definition same_identity :: "unstructured_api \<Rightarrow> jmap \<Rightarrow> jmap \<Rightarrow> bool" where
  "same_identity a m m' \<longleftrightarrow>
     ua_GetKind a m' = ua_GetKind a m \<and> ua_GetName a m' = ua_GetName a m \<and> ua_GetNamespace a m' = ua_GetNamespace a m"

definition meta_laws :: "unstructured_api \<Rightarrow> bool" where
  "meta_laws a \<longleftrightarrow>
     (\<forall>m m'. (\<forall>k. k = ''spec'' \<or> map_of m' k = map_of m k) \<longrightarrow>
        same_identity a m m' \<and> ua_GetAnnotation a m' = ua_GetAnnotation a m \<and> ua_GetLabel a m' = ua_GetLabel a m) \<and>
     (\<forall>m k v. map_of (ua_SetAnnotation a m k v) ''spec'' = map_of m ''spec'' \<and> same_identity a m (ua_SetAnnotation a m k v) \<and>
        ua_GetAnnotation a (ua_SetAnnotation a m k v) = (ua_GetAnnotation a m)(k := v) \<and> ua_GetLabel a (ua_SetAnnotation a m k v) = ua_GetLabel a m) \<and>
     (\<forall>m k. map_of (ua_RemoveAnnotation a m k) ''spec'' = map_of m ''spec'' \<and> same_identity a m (ua_RemoveAnnotation a m k) \<and>
        ua_GetAnnotation a (ua_RemoveAnnotation a m k) = (ua_GetAnnotation a m)(k := '''') \<and> ua_GetLabel a (ua_RemoveAnnotation a m k) = ua_GetLabel a m) \<and>
     (\<forall>m k v. map_of (ua_SetLabel a m k v) ''spec'' = map_of m ''spec'' \<and> same_identity a m (ua_SetLabel a m k v) \<and>
        ua_GetLabel a (ua_SetLabel a m k v) = (ua_GetLabel a m)(k := v) \<and> ua_GetAnnotation a (ua_SetLabel a m k v) = ua_GetAnnotation a m) \<and>
     (\<forall>m k. map_of (ua_RemoveLabel a m k) ''spec'' = map_of m ''spec'' \<and> same_identity a m (ua_RemoveLabel a m k) \<and>
        ua_GetLabel a (ua_RemoveLabel a m k) = (ua_GetLabel a m)(k := '''') \<and> ua_GetAnnotation a (ua_RemoveLabel a m k) = ua_GetAnnotation a m)"

definition api_laws :: "unstructured_api \<Rightarrow> bool" where
  "api_laws a \<longleftrightarrow> field_laws a \<and> meta_laws a"

section \<open>Shared helpers of the webhooks\<close>

text \<open>\<open>pkg/webhook/utils.go\<close>.\<close>

definition GetOrCreateNestedMap :: "unstructured_api \<Rightarrow> jmap \<Rightarrow> string \<Rightarrow> go_error + jmap" where
  "GetOrCreateNestedMap a obj field =
     and_then (context_err (''failed to get nested map for field '' @ field) (ua_NestedMap a obj [field]))
       (\<lambda>nested. Inr (case nested of None \<Rightarrow> [] | Some m \<Rightarrow> m))"

definition GetOrCreateNestedSlice :: "unstructured_api \<Rightarrow> jmap \<Rightarrow> string list \<Rightarrow> go_error + jval list" where
  "GetOrCreateNestedSlice a obj path =
     and_then (context_err (''failed to get nested slice for path ['' @ strings_Join path '' '' @ '']'') (ua_NestedSlice a obj path))
       (\<lambda>nested. Inr (case nested of None \<Rightarrow> [] | Some xs \<Rightarrow> xs))"

text \<open>The webhooks call it with a string, a map or a list; the type of another value is only named in the error.\<close>

definition SetNestedValue :: "unstructured_api \<Rightarrow> jmap \<Rightarrow> jval \<Rightarrow> string list \<Rightarrow> go_error + jmap" where
  "SetNestedValue a obj value path =
     (case value of
        JString v \<Rightarrow> ua_SetNestedField a obj v path
      | JMap v \<Rightarrow> ua_SetNestedMap a obj v path
      | JList v \<Rightarrow> ua_SetNestedSlice a obj v path
      | JOther t \<Rightarrow> Inl (new_error (''unsupported value type '' @ t @ '' for SetNestedValue'')))"

section \<open>What the laws give\<close>

lemma string_map_inj [simp]: "string_map d = string_map d' \<longleftrightarrow> d = d'"
proof
  assume "string_map d = string_map d'"
  moreover have "inj (\<lambda>(k :: string, v). (k, JString v))"
    by (auto intro: injI)
  ultimately show "d = d'"
    by (simp add: string_map_def inj_map_eq_map)
qed simp

lemma map_of_string_map: "map_of (string_map d) k = map_option JString (map_of d k)"
  by (induction d) (auto simp: string_map_def)

lemma reads_simps:
  assumes "field_laws a"
  shows "lookup m p = Absent \<Longrightarrow> ua_NestedSlice a m p = Inr None" "lookup m p = Value (JList xs) \<Longrightarrow> ua_NestedSlice a m p = Inr (Some xs)"
    and "lookup m p = Absent \<Longrightarrow> ua_NestedMap a m p = Inr None" "lookup m p = Value (JMap x) \<Longrightarrow> ua_NestedMap a m p = Inr (Some x)"
    and "lookup m p = Absent \<Longrightarrow> ua_NestedStringMap a m p = Inr None"
    and "lookup m p = Value (JMap (string_map d)) \<Longrightarrow> ua_NestedStringMap a m p = Inr (Some d)"
    and "lookup m p = Absent \<Longrightarrow> ua_NestedString a m p = Inr None" "lookup m p = Value (JString s) \<Longrightarrow> ua_NestedString a m p = Inr (Some s)"
    and "ua_RemoveNestedField a m p = erase m p"
  using assms by (simp_all add: field_laws_def reads_def)

lemma writes_Inr:
  assumes "field_laws a"
  shows "ua_SetNestedSlice a m xs p = Inr m' \<longleftrightarrow> store m p (JList xs) = Some m'"
    and "ua_SetNestedMap a m x p = Inr m' \<longleftrightarrow> store m p (JMap x) = Some m'"
    and "ua_SetNestedStringMap a m d p = Inr m' \<longleftrightarrow> store m p (JMap (string_map d)) = Some m'"
    and "ua_SetNestedField a m s p = Inr m' \<longleftrightarrow> store m p (JString s) = Some m'"
proof -
  have "(r = Inr m') = (store m p v = Some m')" if "writes m p v r" for v r
    using that by (cases r) (auto simp: writes_def split: option.splits)
  with assms show "ua_SetNestedSlice a m xs p = Inr m' \<longleftrightarrow> store m p (JList xs) = Some m'"
    "ua_SetNestedMap a m x p = Inr m' \<longleftrightarrow> store m p (JMap x) = Some m'"
    "ua_SetNestedStringMap a m d p = Inr m' \<longleftrightarrow> store m p (JMap (string_map d)) = Some m'"
    "ua_SetNestedField a m s p = Inr m' \<longleftrightarrow> store m p (JString s) = Some m'"
    by (simp_all add: field_laws_def)
qed

lemma SetNestedValue_Inr:
  assumes "field_laws a" "\<forall>t. v \<noteq> JOther t"
  shows "SetNestedValue a m v p = Inr m' \<longleftrightarrow> store m p v = Some m'"
  using assms(2) writes_Inr [OF assms(1)] by (cases v) (simp_all add: SetNestedValue_def)

section \<open>A reference implementation\<close>

text \<open>The laws can hold: helpers that do exactly what is documented.\<close>

definition read_at :: "jmap \<Rightarrow> string list \<Rightarrow> (jval \<Rightarrow> 'a option) \<Rightarrow> go_error + 'a option" where
  "read_at m p proj =
     (case lookup m p of Absent \<Rightarrow> Inr None | Broken \<Rightarrow> Inl (new_error ''accessor error'')
      | Value v \<Rightarrow> (case proj v of None \<Rightarrow> Inl (new_error ''accessor error'') | Some x \<Rightarrow> Inr (Some x)))"

definition write_at :: "jmap \<Rightarrow> string list \<Rightarrow> jval \<Rightarrow> go_error + jmap" where
  "write_at m p v = (case store m p v of None \<Rightarrow> Inl (new_error ''value cannot be set'') | Some m' \<Rightarrow> Inr m')"

definition meta_map :: "jmap \<Rightarrow> string \<Rightarrow> jmap" where
  "meta_map m sec = (case lookup m [''metadata'', sec] of Value (JMap x) \<Rightarrow> x | _ \<Rightarrow> [])"

definition meta_at :: "jmap \<Rightarrow> jmap" where
  "meta_at m = (case map_of m ''metadata'' of Some (JMap x) \<Rightarrow> x | _ \<Rightarrow> [])"

definition set_meta :: "jmap \<Rightarrow> string \<Rightarrow> jmap \<Rightarrow> jmap" where
  "set_meta m sec x = AList.update ''metadata'' (JMap (AList.update sec (JMap x) (meta_at m))) m"

definition tree_api :: unstructured_api where
  "tree_api =
     \<lparr>ua_NestedSlice = (\<lambda>m p. read_at m p (\<lambda>v. case v of JList xs \<Rightarrow> Some xs | _ \<Rightarrow> None)),
      ua_NestedMap = (\<lambda>m p. read_at m p (\<lambda>v. case v of JMap x \<Rightarrow> Some x | _ \<Rightarrow> None)),
      ua_NestedStringMap = (\<lambda>m p. read_at m p (\<lambda>v. case v of JMap x \<Rightarrow>
        those (map (\<lambda>(k, v). case v of JString s \<Rightarrow> Some (k, s) | _ \<Rightarrow> None) x) | _ \<Rightarrow> None)),
      ua_NestedString = (\<lambda>m p. read_at m p (\<lambda>v. case v of JString s \<Rightarrow> Some s | _ \<Rightarrow> None)),
      ua_SetNestedSlice = (\<lambda>m xs p. write_at m p (JList xs)), ua_SetNestedMap = (\<lambda>m x p. write_at m p (JMap x)),
      ua_SetNestedStringMap = (\<lambda>m d p. write_at m p (JMap (string_map d))), ua_SetNestedField = (\<lambda>m s p. write_at m p (JString s)),
      ua_RemoveNestedField = erase, ua_GetKind = (\<lambda>m. string_field m ''kind''),
      ua_GetName = (\<lambda>m. string_field (meta_at m) ''name''), ua_GetNamespace = (\<lambda>m. string_field (meta_at m) ''namespace''),
      ua_Deleting = (\<lambda>m. string_field (meta_at m) ''deletionTimestamp'' \<noteq> ''''),
      ua_GetAnnotation = (\<lambda>m k. string_field (meta_map m ''annotations'') k),
      ua_SetAnnotation = (\<lambda>m k v. set_meta m ''annotations'' (AList.update k (JString v) (meta_map m ''annotations''))),
      ua_RemoveAnnotation = (\<lambda>m k. set_meta m ''annotations'' (AList.delete k (meta_map m ''annotations''))),
      ua_GetLabel = (\<lambda>m k. string_field (meta_map m ''labels'') k),
      ua_SetLabel = (\<lambda>m k v. set_meta m ''labels'' (AList.update k (JString v) (meta_map m ''labels''))),
      ua_RemoveLabel = (\<lambda>m k. set_meta m ''labels'' (AList.delete k (meta_map m ''labels'')))\<rparr>"

lemma those_string_map:
  "those (map (\<lambda>(k, v). case v of JString s \<Rightarrow> Some (k, s) | _ \<Rightarrow> None) (string_map d)) = Some d"
  by (induction d) (auto simp: string_map_def)

lemma tree_api_fields: "field_laws tree_api"
  by (simp add: field_laws_def reads_def writes_def tree_api_def read_at_def write_at_def those_string_map split: option.split)

lemma set_meta_simps:
  "map_of (set_meta m sec x) k = (if k = ''metadata'' then Some (JMap (AList.update sec (JMap x) (meta_at m))) else map_of m k)"
  "meta_at (set_meta m sec x) = AList.update sec (JMap x) (meta_at m)"
  "meta_map (set_meta m sec x) sec' = (if sec' = sec then x else meta_map m sec')"
  by (auto simp: set_meta_def meta_at_def meta_map_def go_map_simps split: option.splits jval.splits)

lemma string_field_simps:
  "string_field (AList.update k v m) l = (if l = k then (case v of JString s \<Rightarrow> s | _ \<Rightarrow> '''') else string_field m l)"
  "string_field (AList.delete k m) l = (if l = k then '''' else string_field m l)"
  by (auto simp: string_field_def go_map_simps)

lemma tree_api_outside_spec:
  assumes "\<forall>k. k = ''spec'' \<or> map_of m' k = map_of m k"
  shows "same_identity tree_api m m'" "ua_GetAnnotation tree_api m' = ua_GetAnnotation tree_api m"
    "ua_GetLabel tree_api m' = ua_GetLabel tree_api m"
proof -
  have at: "map_of m' ''metadata'' = map_of m ''metadata''" "map_of m' ''kind'' = map_of m ''kind''"
    using spec [OF assms, of "''metadata''"] spec [OF assms, of "''kind''"] by simp_all
  then have "meta_at m' = meta_at m" "meta_map m' sec = meta_map m sec" for sec
    by (simp_all add: meta_at_def meta_map_def)
  with at show "same_identity tree_api m m'" "ua_GetAnnotation tree_api m' = ua_GetAnnotation tree_api m"
    "ua_GetLabel tree_api m' = ua_GetLabel tree_api m"
    by (simp_all add: same_identity_def tree_api_def string_field_def)
qed

lemma tree_api_set_meta:
  assumes "sec = ''annotations'' \<or> sec = ''labels''"
  shows "map_of (set_meta m sec x) ''spec'' = map_of m ''spec'' \<and> same_identity tree_api m (set_meta m sec x)"
proof -
  have "string_field (set_meta m sec x) ''kind'' = string_field m ''kind''"
    by (simp add: string_field_def set_meta_simps)
  with assms show ?thesis
    by (elim disjE) (simp_all add: same_identity_def tree_api_def set_meta_simps string_field_simps)
qed

lemma tree_api_meta: "meta_laws tree_api"
  unfolding meta_laws_def
proof (intro conjI allI impI)
  fix m m' :: jmap and k v :: string
  show "map_of (ua_SetAnnotation tree_api m k v) ''spec'' = map_of m ''spec''" "same_identity tree_api m (ua_SetAnnotation tree_api m k v)"
    "map_of (ua_RemoveAnnotation tree_api m k) ''spec'' = map_of m ''spec''" "same_identity tree_api m (ua_RemoveAnnotation tree_api m k)"
    "map_of (ua_SetLabel tree_api m k v) ''spec'' = map_of m ''spec''" "same_identity tree_api m (ua_SetLabel tree_api m k v)"
    "map_of (ua_RemoveLabel tree_api m k) ''spec'' = map_of m ''spec''" "same_identity tree_api m (ua_RemoveLabel tree_api m k)"
    using tree_api_set_meta by (simp_all add: tree_api_def)
  show "ua_GetAnnotation tree_api (ua_SetAnnotation tree_api m k v) = (ua_GetAnnotation tree_api m)(k := v)"
    "ua_GetAnnotation tree_api (ua_RemoveAnnotation tree_api m k) = (ua_GetAnnotation tree_api m)(k := '''')"
    "ua_GetAnnotation tree_api (ua_SetLabel tree_api m k v) = ua_GetAnnotation tree_api m"
    "ua_GetAnnotation tree_api (ua_RemoveLabel tree_api m k) = ua_GetAnnotation tree_api m"
    "ua_GetLabel tree_api (ua_SetLabel tree_api m k v) = (ua_GetLabel tree_api m)(k := v)"
    "ua_GetLabel tree_api (ua_RemoveLabel tree_api m k) = (ua_GetLabel tree_api m)(k := '''')"
    "ua_GetLabel tree_api (ua_SetAnnotation tree_api m k v) = ua_GetLabel tree_api m"
    "ua_GetLabel tree_api (ua_RemoveAnnotation tree_api m k) = ua_GetLabel tree_api m"
    by (simp_all add: tree_api_def set_meta_simps string_field_simps fun_eq_iff)
qed (rule tree_api_outside_spec; assumption)+

lemma tree_api_laws: "api_laws tree_api"
  by (simp add: api_laws_def tree_api_fields tree_api_meta)

end
