(* ===== verification/Module_Resources.thy ===== *)
theory Module_Resources
  imports Module_Lifecycle Unstructured
begin

text \<open>
  What the platform controller does to the rendered resources of the modules before they are deployed:
  \<open>modules_controller_actions_inject_env.go\<close> (images and environment of the operator Deployments) and
  \<open>modules_controller_actions_platform_config.go\<close> (the platform ConfigMap of each module).

  A rendered resource is an object of type \<open>'o\<close>, seen through the accessors of the API machinery, which are
  parameters (\<open>object_ops\<close>): \<open>NestedSlice\<close> and \<open>NestedStringMap\<close> (an error, absent, or a copy of the value),
  their setters, the names, and the conversion of a ConfigMap to an object. \<open>getenv\<close> is \<open>os.Getenv\<close>. A
  value inside an object is a \<open>jval\<close> (theory \<open>Unstructured\<close>).
\<close>

record 'o object_ops =
  ob_GVK :: "'o \<Rightarrow> GVK"
  ob_GetKind :: "'o \<Rightarrow> string"
  ob_GetName :: "'o \<Rightarrow> string"
  ob_NestedSlice :: "'o \<Rightarrow> string list \<Rightarrow> go_error + jval list option"
  ob_SetNestedSlice :: "'o \<Rightarrow> jval list \<Rightarrow> string list \<Rightarrow> go_error + 'o"
  ob_NestedStringMap :: "'o \<Rightarrow> string list \<Rightarrow> go_error + (string, string) gomap option"
  ob_SetNestedStringMap :: "'o \<Rightarrow> (string, string) gomap \<Rightarrow> string list \<Rightarrow> go_error + 'o"

section \<open>Environment variables\<close>

fun setOrOverrideEnv :: "jval list \<Rightarrow> string \<Rightarrow> string \<Rightarrow> jval list \<times> bool" where
  "setOrOverrideEnv [] name value = ([JMap [(''name'', JString name), (''value'', JString value)]], True)"
| "setOrOverrideEnv (e # es) name value =
     (if entry_name e = Some name then
        (if map_of (fields_of e) ''value'' = Some (JString value) \<and> map_of (fields_of e) ''valueFrom'' = None
         then (e # es, False)
         else (JMap (AList.delete ''valueFrom'' (AList.update ''value'' (JString value) (fields_of e))) # es, True))
      else let (es', changed) = setOrOverrideEnv es name value in (e # es', changed))"

definition set_env :: "jval list \<times> nat \<Rightarrow> string \<times> string \<Rightarrow> jval list \<times> nat" where
  "set_env st nv =
     (let (env, changed) = setOrOverrideEnv (fst st) (fst nv) (snd nv)
      in (env, if changed then snd st + 1 else snd st))"

definition findNamedContainer :: "jval list \<Rightarrow> string \<Rightarrow> nat option" where
  "findNamedContainer containers targetName =
     List.find (\<lambda>i. entry_name (containers ! i) = Some targetName) [0..<length containers]"

text \<open>The variables set on a module's container, in order: images, extra variables, then the platform's.\<close>

definition wanted_env :: "(string \<Rightarrow> string) \<Rightarrow> ModuleEnvInjection \<Rightarrow> ModuleImages \<Rightarrow> (string \<times> string) list" where
  "wanted_env getenv injection mi =
     filter (\<lambda>(_, v). v \<noteq> '''') (map (\<lambda>n. (n, getenv n)) (im_Images mi)) @
     im_ExtraEnv mi @
     (if mei_ApplicationsNamespace injection \<noteq> '''' then [(''APPLICATIONS_NAMESPACE'', mei_ApplicationsNamespace injection)] else []) @
     (if mei_MonitoringNamespace injection \<noteq> '''' then [(''MONITORING_NAMESPACE'', mei_MonitoringNamespace injection)] else []) @
     (if mei_PlatformType injection \<noteq> '''' then [(''ODH_MODULE_OPERATOR_PLATFORM_TYPE'', mei_PlatformType injection)] else [])"

definition init_path :: "string list" where "init_path = [''spec'', ''template'', ''spec'', ''initContainers'']"
definition containers_path :: "string list" where "containers_path = [''spec'', ''template'', ''spec'', ''containers'']"

definition set_field :: "string \<Rightarrow> jval \<Rightarrow> jval \<Rightarrow> jval" where
  "set_field k v e = JMap (AList.update k v (fields_of e))"

definition injectInitContainerImage ::
  "'o object_ops \<Rightarrow> 'o \<Rightarrow> string \<Rightarrow> string \<Rightarrow> string \<Rightarrow> go_error + nat \<times> 'o" where
  "injectInitContainerImage ops obj initContainerName img deployName =
     (if initContainerName = '''' then Inr (0, obj)
      else
        case ob_NestedSlice ops obj init_path of
          Inl err \<Rightarrow> Inl err
        | Inr None \<Rightarrow> Inr (0, obj)
        | Inr (Some initContainers) \<Rightarrow>
            if initContainers = [] then Inr (0, obj)
            else
              case findNamedContainer initContainers initContainerName of
                None \<Rightarrow> Inl (new_error (''init container '' @ quoted initContainerName @ '' not found in Deployment '' @ deployName))
              | Some idx \<Rightarrow>
                  map_sum id (Pair 1)
                    (ob_SetNestedSlice ops obj (initContainers[idx := set_field ''image'' (JString img) (initContainers ! idx)]) init_path))"

definition existing_env :: "jval \<Rightarrow> jval list" where
  "existing_env container = (case map_of (fields_of container) ''env'' of Some (JList env) \<Rightarrow> env | _ \<Rightarrow> [])"

text \<open>The controller image, on the container and on the init container; the number of changes so far.\<close>

definition inject_image ::
  "(string \<Rightarrow> string) \<Rightarrow> 'o object_ops \<Rightarrow> string \<Rightarrow> ModuleImages \<Rightarrow> 'o \<Rightarrow> jval \<Rightarrow> nat \<Rightarrow> go_error + 'o \<times> jval \<times> nat" where
  "inject_image getenv ops deployName mi obj container injected =
     (let img = (if im_ControllerImage mi \<noteq> '''' then getenv (im_ControllerImage mi) else '''') in
      if img = '''' then Inr (obj, container, injected)
      else
        case injectInitContainerImage ops obj (im_InitContainerName mi) img deployName of
          Inl err \<Rightarrow> Inl err
        | Inr (n, obj') \<Rightarrow> Inr (obj', set_field ''image'' (JString img) container, injected + 1 + n))"

text \<open>
  The body of the loop over the modules' images. A container found by name is a map, so the type
  assertion on it holds. The state is the object, its containers and the number of changes.
\<close>

definition inject_one ::
  "(string \<Rightarrow> string) \<Rightarrow> 'o object_ops \<Rightarrow> ModuleEnvInjection \<Rightarrow> string \<Rightarrow> ModuleImages \<Rightarrow> 'o \<times> jval list \<times> nat \<Rightarrow>
     go_error + 'o \<times> jval list \<times> nat" where
  "inject_one getenv ops injection deployName mi st =
     (let (obj, containers, injected) = st;
          targetName = (if im_ContainerName mi = '''' then ''manager'' else im_ContainerName mi) in
      if im_DeploymentName mi \<noteq> deployName then Inr st
      else
        case findNamedContainer containers targetName of
          None \<Rightarrow> Inr st
        | Some idx \<Rightarrow>
            case inject_image getenv ops deployName mi obj (containers ! idx) injected of
              Inl err \<Rightarrow> Inl err
            | Inr (obj, container, injected) \<Rightarrow>
                let (env, injected) = foldl set_env (existing_env container, injected) (wanted_env getenv injection mi)
                in Inr (obj, containers[idx := set_field ''env'' (JList env) container], injected))"

fun inject_all ::
  "(string \<Rightarrow> string) \<Rightarrow> 'o object_ops \<Rightarrow> ModuleEnvInjection \<Rightarrow> string \<Rightarrow> ModuleImages list \<Rightarrow> 'o \<times> jval list \<times> nat \<Rightarrow>
     go_error + 'o \<times> jval list \<times> nat" where
  "inject_all getenv ops injection deployName [] st = Inr st"
| "inject_all getenv ops injection deployName (mi # mis) st =
     (case inject_one getenv ops injection deployName mi st of Inl err \<Rightarrow> Inl err | Inr st \<Rightarrow> inject_all getenv ops injection deployName mis st)"

definition injectEnvVarsIntoDeployment ::
  "(string \<Rightarrow> string) \<Rightarrow> 'o object_ops \<Rightarrow> ModuleEnvInjection \<Rightarrow> 'o \<Rightarrow> go_error + 'o" where
  "injectEnvVarsIntoDeployment getenv ops injection obj =
     (case ob_NestedSlice ops obj containers_path of
        Inl err \<Rightarrow> Inl err
      | Inr found \<Rightarrow>
          let containers = (case found of None \<Rightarrow> [] | Some cs \<Rightarrow> cs) in
          if containers = [] then Inl (new_error (''deployment '' @ ob_GetName ops obj @ '' has no containers''))
          else
            case inject_all getenv ops injection (ob_GetName ops obj) (mei_PerModuleImages injection) (obj, containers, 0) of
              Inl err \<Rightarrow> Inl err
            | Inr (obj', containers', injected) \<Rightarrow>
                if injected = 0 then Inr obj' else ob_SetNestedSlice ops obj' containers' containers_path)"

definition Deployment_gvk :: GVK where
  "Deployment_gvk = \<lparr>gvk_Group = ''apps'', gvk_Version = ''v1'', gvk_Kind = ''Deployment''\<rparr>"

text \<open>An error ends the reconciliation, so what a failed injection did to its object is not kept.\<close>

fun inject_resources ::
  "(string \<Rightarrow> string) \<Rightarrow> 'o object_ops \<Rightarrow> ModuleEnvInjection \<Rightarrow> 'o list \<Rightarrow> go_error option \<times> 'o list" where
  "inject_resources getenv ops injection [] = (None, [])"
| "inject_resources getenv ops injection (obj # objs) =
     (if ob_GVK ops obj \<noteq> Deployment_gvk then
        (let (err, objs') = inject_resources getenv ops injection objs in (err, obj # objs'))
      else
        case injectEnvVarsIntoDeployment getenv ops injection obj of
          Inl err \<Rightarrow> (Some err, obj # objs)
        | Inr obj' \<Rightarrow> let (err, objs') = inject_resources getenv ops injection objs in (err, obj' # objs'))"

definition injectModuleEnv ::
  "(string \<Rightarrow> string) \<Rightarrow> 'o object_ops \<Rightarrow> ModuleEnvInjection option \<Rightarrow> 'o list \<Rightarrow> go_error option \<times> 'o list" where
  "injectModuleEnv getenv ops injection resources =
     (case injection of None \<Rightarrow> (None, resources) | Some injection \<Rightarrow> inject_resources getenv ops injection resources)"

section \<open>Platform ConfigMaps\<close>

definition platformManagedCertManagerKeys :: "string list" where
  "platformManagedCertManagerKeys =
     [''CERT_MANAGER_ISSUER_REF_NAME'', ''CERT_MANAGER_ISSUER_REF_KIND'', ''CERT_MANAGER_CA_SECRET_NAME'',
      ''CERT_MANAGER_CA_SECRET_NAMESPACE'', ''CERT_MANAGER_ISTIO_CA_CERT_PATH'']"

definition PlatformConfigName :: "string \<Rightarrow> string" where
  "PlatformConfigName moduleName = ''odh-'' @ moduleName @ ''-config''"

text \<open>The parameters taken from \<open>certmanager.DefaultBootstrapConfig\<close>.\<close>

definition buildCertManagerConfigParams :: "(string \<Rightarrow> string) \<Rightarrow> (string, string) gomap" where
  "buildCertManagerConfigParams getenv =
     [(''CERT_MANAGER_ISSUER_REF_NAME'', env_GetOrDefault getenv ''RHAI_ISSUER_REF_NAME'' ''opendatahub-ca-issuer''),
      (''CERT_MANAGER_ISSUER_REF_KIND'', env_GetOrDefault getenv ''RHAI_ISSUER_REF_KIND'' ''ClusterIssuer''),
      (''CERT_MANAGER_CA_SECRET_NAME'', env_GetOrDefault getenv ''RHAI_CA_SECRET_NAME'' ''opendatahub-ca''),
      (''CERT_MANAGER_CA_SECRET_NAMESPACE'', env_GetOrDefault getenv ''RHAI_CA_SECRET_NAMESPACE'' ''cert-manager'')] @
     (if getenv ''RHAI_ISTIO_CA_CERTIFICATE_PATH'' \<noteq> ''''
      then [(''CERT_MANAGER_ISTIO_CA_CERT_PATH'', getenv ''RHAI_ISTIO_CA_CERTIFICATE_PATH'')] else [])"

definition platform_data :: "string \<Rightarrow> (string, string) gomap \<Rightarrow> (string, string) gomap" where
  "platform_data platformVersion extraParams = maps_Copy [(''platformVersion'', platformVersion)] extraParams"

definition merged_data :: "string \<Rightarrow> (string, string) gomap \<Rightarrow> (string, string) gomap \<Rightarrow> (string, string) gomap" where
  "merged_data platformVersion extraParams data =
     maps_Copy (AList.update ''platformVersion'' platformVersion
       (foldl (\<lambda>d k. AList.delete k d) data platformManagedCertManagerKeys)) extraParams"

text \<open>The errors of the accessor and of the setter are ignored.\<close>

definition mergePlatformKeys :: "'o object_ops \<Rightarrow> 'o \<Rightarrow> string \<Rightarrow> (string, string) gomap \<Rightarrow> 'o" where
  "mergePlatformKeys ops u platformVersion extraParams =
     (let data = (case ob_NestedStringMap ops u [''data''] of Inr (Some d) \<Rightarrow> d | _ \<Rightarrow> []) in
      case ob_SetNestedStringMap ops u (merged_data platformVersion extraParams data) [''data''] of
        Inl _ \<Rightarrow> u | Inr u' \<Rightarrow> u')"

definition indexConfigMapsByName :: "'o object_ops \<Rightarrow> 'o list \<Rightarrow> (string, nat) gomap" where
  "indexConfigMapsByName ops resources =
     foldl (\<lambda>idx i. if ob_GetKind ops (resources ! i) = ''ConfigMap''
                    then AList.update (ob_GetName ops (resources ! i)) i idx else idx) [] [0..<length resources]"

text \<open>
  \<open>convert\<close> is \<open>toUnstructured\<close> on the ConfigMap of a name, namespace and data.
\<close>

definition config_one ::
  "'o object_ops \<Rightarrow> (string \<Rightarrow> string \<Rightarrow> (string, string) gomap \<Rightarrow> go_error + 'o) \<Rightarrow> PlatformModules PlatformContext \<Rightarrow>
     string \<Rightarrow> (string, string) gomap \<Rightarrow> (string, nat) gomap \<Rightarrow> ('s, 'i) handler \<Rightarrow> 'o list \<Rightarrow> go_error option \<times> 'o list" where
  "config_one ops convert px platformVersion extraParams existingCMs handler resources =
     (if \<not> mh_IsEnabled handler (px_Modules px) then (None, resources)
      else
        let name = mh_GetName handler; cmName = PlatformConfigName name in
        case map_of existingCMs cmName of
          Some idx \<Rightarrow> (None, resources[idx := mergePlatformKeys ops (resources ! idx) platformVersion extraParams])
        | None \<Rightarrow>
            case convert cmName (px_ApplicationsNamespace px) (platform_data platformVersion extraParams) of
              Inl err \<Rightarrow> (Some (wrap (''converting platform config ConfigMap for '' @ name) err), resources)
            | Inr u \<Rightarrow> (None, resources @ [u]))"

definition injectPlatformConfig ::
  "(string \<Rightarrow> string) \<Rightarrow> 'o object_ops \<Rightarrow> (string \<Rightarrow> string \<Rightarrow> (string, string) gomap \<Rightarrow> go_error + 'o) \<Rightarrow> ('s, 'i) module_reg \<Rightarrow>
     'i platform_reads \<Rightarrow> 's ReconciliationRequest \<Rightarrow> 'o list \<Rightarrow> go_error list \<times> 'o list" where
  "injectPlatformConfig getenv ops convert reg rd rr resources =
     (if \<not> mod_HasEntries reg then ([], resources)
      else
        case buildPlatformContext reg rd rr of
          Inl err \<Rightarrow> ([err], resources)
        | Inr px \<Rightarrow>
            let extraParams = (if rr_ReleaseName rr = ''XKS'' then buildCertManagerConfigParams getenv else []);
                existingCMs = indexConfigMapsByName ops resources
            in mod_ForEach (config_one ops convert px (rr_ReleaseVersion rr) extraParams existingCMs) reg resources)"

section \<open>Lemmas: environment variables\<close>

text \<open>The literal value of a variable: that of the first entry of its name.\<close>

definition entry_literal :: "jval \<Rightarrow> string option" where
  "entry_literal e =
     (case map_of (fields_of e) ''value'' of
        Some (JString v) \<Rightarrow> if map_of (fields_of e) ''valueFrom'' = None then Some v else None | _ \<Rightarrow> None)"

definition env_value :: "jval list \<Rightarrow> string \<Rightarrow> string option" where
  "env_value env n = Option.bind (List.find (\<lambda>e. entry_name e = Some n) env) entry_literal"

lemma env_value_simps [simp]:
  "env_value [] n = None"
  "env_value (e # env) n = (if entry_name e = Some n then entry_literal e else env_value env n)"
  by (simp_all add: env_value_def)

lemma entry_literal_Some:
  "entry_literal e = Some v \<longleftrightarrow> map_of (fields_of e) ''value'' = Some (JString v) \<and> map_of (fields_of e) ''valueFrom'' = None"
  by (simp add: entry_literal_def split: option.split jval.split)

lemma override_entry:
  fixes e :: jval and v :: string
  defines "e' \<equiv> JMap (AList.delete ''valueFrom'' (AList.update ''value'' (JString v) (fields_of e)))"
  shows "entry_literal e' = Some v" and "entry_name e' = Some k \<longleftrightarrow> entry_name e = Some k"
  by (simp_all add: entry_literal_Some entry_name_fields) (simp_all add: e'_def fields_of_def go_map_simps)

lemma setOrOverrideEnv_value:
  "env_value (fst (setOrOverrideEnv env n v)) m = (if m = n then Some v else env_value env m)"
proof (induction env)
  case Nil
  show ?case by (simp add: entry_literal_Some entry_name_fields) (simp add: fields_of_def)
next
  case (Cons e env)
  show ?case
  proof (cases "entry_name e = Some n")
    case True
    then show ?thesis
      using override_entry [of v e] by (auto simp: entry_literal_Some [symmetric])
  next
    case False
    with Cons show ?thesis
      by (auto simp: case_prod_beta Let_def)
  qed
qed

lemma setOrOverrideEnv_unchanged: "\<not> snd (setOrOverrideEnv env n v) \<Longrightarrow> fst (setOrOverrideEnv env n v) = env"
  by (induction env) (auto simp: case_prod_beta Let_def split: if_splits)

lemma setOrOverrideEnv_again:
  "env_value env n = Some v \<Longrightarrow> setOrOverrideEnv env n v = (env, False)"
  by (induction env) (auto simp: entry_literal_Some split: if_splits)

lemma set_env_fields:
  "env_value (fst (set_env st nv)) m = (if m = fst nv then Some (snd nv) else env_value (fst st) m)"
  "snd st \<le> snd (set_env st nv)"
  "snd (set_env st nv) = snd st \<Longrightarrow> fst (set_env st nv) = fst st"
  using setOrOverrideEnv_unchanged [of "fst st" "fst nv" "snd nv"]
  by (auto simp: set_env_def setOrOverrideEnv_value case_prod_beta Let_def split: if_splits)

lemma fold_set_env_value:
  "env_value (fst (foldl set_env st ws)) m = (case map_of (rev ws) m of Some v \<Rightarrow> Some v | None \<Rightarrow> env_value (fst st) m)"
  by (induction ws arbitrary: st) (auto simp: set_env_fields map_add_def split: option.splits)

lemma fold_set_env_le: "snd st \<le> snd (foldl set_env st ws)"
proof (induction ws arbitrary: st)
  case (Cons w ws)
  show ?case
    using le_trans [OF set_env_fields(2) Cons.IH] by simp
qed simp

lemma fold_set_env_unchanged: "snd (foldl set_env st ws) = snd st \<Longrightarrow> fst (foldl set_env st ws) = fst st"
proof (induction ws arbitrary: st)
  case (Cons w ws)
  have "snd (foldl set_env (set_env st w) ws) = snd st"
    using Cons.prems by simp
  then have "snd (set_env st w) = snd st" "snd (foldl set_env (set_env st w) ws) = snd (set_env st w)"
    using set_env_fields(2) [of st w] fold_set_env_le [of "set_env st w" ws] by simp_all
  with Cons.IH [of "set_env st w"] set_env_fields(3) [of st w] show ?case
    by simp
qed simp

lemma findNamedContainer_Some:
  assumes "findNamedContainer cs n = Some i"
  shows "i < length cs \<and> entry_name (cs ! i) = Some n"
  using assms by (auto simp: findNamedContainer_def find_Some_iff)

lemma set_field_fields [simp]:
  "fields_of (set_field k v e) = AList.update k v (fields_of e)"
  "existing_env (set_field ''env'' (JList env) e) = env"
  "existing_env (set_field ''image'' v e) = existing_env e"
  by (simp_all add: set_field_def fields_of_def existing_env_def go_map_simps)

text \<open>What the code relies on in the accessors of the API machinery.\<close>

definition slice_laws :: "'o object_ops \<Rightarrow> bool" where
  "slice_laws ops \<longleftrightarrow>
     (\<forall>u xs p u'. ob_SetNestedSlice ops u xs p = Inr u' \<longrightarrow>
        (\<forall>q \<in> {init_path, containers_path}. ob_NestedSlice ops u' q = (if q = p then Inr (Some xs) else ob_NestedSlice ops u q)))"

lemma containers_not_init [simp]: "containers_path \<noteq> init_path" "init_path \<noteq> containers_path"
  by (simp_all add: containers_path_def init_path_def)

lemma injectInit_keeps_containers:
  assumes "slice_laws ops" "injectInitContainerImage ops obj n img d = Inr (k, obj')"
  shows "ob_NestedSlice ops obj' containers_path = ob_NestedSlice ops obj containers_path"
  using assms(2)
  by (auto simp: injectInitContainerImage_def map_sum_def split: if_splits sum.splits option.splits)
    (use assms(1) in \<open>auto simp: slice_laws_def\<close>)

lemma inject_image_spec:
  assumes "slice_laws ops" "inject_image getenv ops d mi obj c k = Inr (obj', c', k')"
  defines "img \<equiv> getenv (im_ControllerImage mi)"
  shows "ob_NestedSlice ops obj' containers_path = ob_NestedSlice ops obj containers_path"
    and "existing_env c' = existing_env c" and "k \<le> k'"
    and "im_ControllerImage mi \<noteq> '''' \<Longrightarrow> img \<noteq> '''' \<Longrightarrow> k < k' \<and> map_of (fields_of c') ''image'' = Some (JString img)"
  using assms(2) injectInit_keeps_containers [OF assms(1)]
  by (auto simp: inject_image_def img_def Let_def go_map_simps split: if_splits sum.splits prod.splits)

lemma inject_one_spec:
  assumes laws: "slice_laws ops"
    and step: "inject_one getenv ops injection d mi (obj, cs, k) = Inr (obj', cs', k')"
    and name: "im_DeploymentName mi = d"
    and idx: "findNamedContainer cs (if im_ContainerName mi = '''' then ''manager'' else im_ContainerName mi) = Some i"
  shows "ob_NestedSlice ops obj' containers_path = ob_NestedSlice ops obj containers_path"
    and "length cs' = length cs" and "\<forall>j. j \<noteq> i \<longrightarrow> cs' ! j = cs ! j"
    and "env_value (existing_env (cs' ! i)) n =
      (case map_of (rev (wanted_env getenv injection mi)) n of Some v \<Rightarrow> Some v | None \<Rightarrow> env_value (existing_env (cs ! i)) n)"
    and "im_ControllerImage mi \<noteq> '''' \<Longrightarrow> getenv (im_ControllerImage mi) \<noteq> '''' \<Longrightarrow>
      map_of (fields_of (cs' ! i)) ''image'' = Some (JString (getenv (im_ControllerImage mi)))"
    and "k' = k \<Longrightarrow> existing_env (cs' ! i) = existing_env (cs ! i) \<and> (im_ControllerImage mi = '''' \<or> getenv (im_ControllerImage mi) = '''')"
proof -
  let ?ws = "wanted_env getenv injection mi"
  have i: "i < length cs"
    using findNamedContainer_Some [OF idx] by simp
  obtain c1 k1 where mid: "inject_image getenv ops d mi obj (cs ! i) k = Inr (obj', c1, k1)"
    and cs': "cs' = cs[i := set_field ''env'' (JList (fst (foldl set_env (existing_env c1, k1) ?ws))) c1]"
    and k': "k' = snd (foldl set_env (existing_env c1, k1) ?ws)"
    using step name idx by (auto simp: inject_one_def Let_def case_prod_beta split: sum.splits)
  note image = inject_image_spec [OF laws mid]
  show "ob_NestedSlice ops obj' containers_path = ob_NestedSlice ops obj containers_path"
    by (rule image)
  show "length cs' = length cs" "\<forall>j. j \<noteq> i \<longrightarrow> cs' ! j = cs ! j"
    by (simp_all add: cs')
  show "env_value (existing_env (cs' ! i)) n = (case map_of (rev ?ws) n of Some v \<Rightarrow> Some v | None \<Rightarrow> env_value (existing_env (cs ! i)) n)"
    using i by (simp add: cs' fold_set_env_value image(2) split: option.split)
  show "map_of (fields_of (cs' ! i)) ''image'' = Some (JString (getenv (im_ControllerImage mi)))"
    if "im_ControllerImage mi \<noteq> ''''" "getenv (im_ControllerImage mi) \<noteq> ''''"
    using image(4) [OF that] i by (simp add: cs' go_map_simps)
  show "existing_env (cs' ! i) = existing_env (cs ! i) \<and> (im_ControllerImage mi = '''' \<or> getenv (im_ControllerImage mi) = '''')"
    if "k' = k"
  proof -
    have "k1 = k" "snd (foldl set_env (existing_env c1, k1) ?ws) = k1"
      using that k' fold_set_env_le [of "(existing_env c1, k1)" ?ws] image(3) by simp_all
    then show ?thesis
      using fold_set_env_unchanged [of "(existing_env c1, k1)" ?ws] image(2,4) i by (auto simp: cs')
  qed
qed

lemma inject_one_skip: "im_DeploymentName mi \<noteq> d \<Longrightarrow> inject_one getenv ops injection d mi st = Inr st"
  by (simp add: inject_one_def case_prod_beta Let_def)

lemma inject_all_skip:
  "inject_all getenv ops injection d mis st = inject_all getenv ops injection d (filter (\<lambda>mi. im_DeploymentName mi = d) mis) st"
  by (induction mis arbitrary: st) (auto simp: inject_one_skip split: sum.split)

section \<open>Properties: environment\<close>

text \<open>
  Injection into the Deployment of one module. If it succeeds and the module's container is there, the
  container ends up with the module's controller image (when one is configured and set) and with every
  wanted variable at its literal value: the related images that are set, the module's extra variables
  and the platform's namespaces and type, a later one winning over an earlier one of the same name. Every
  other variable keeps its value and every other container is untouched.
\<close>

theorem module_deployment_injected:
  assumes "slice_laws ops"
    and "filter (\<lambda>mi. im_DeploymentName mi = ob_GetName ops obj) (mei_PerModuleImages injection) = [mi]"
    and "ob_NestedSlice ops obj containers_path = Inr (Some cs)"
    and "findNamedContainer cs (if im_ContainerName mi = '''' then ''manager'' else im_ContainerName mi) = Some i"
    and "injectEnvVarsIntoDeployment getenv ops injection obj = Inr obj'"
  shows "\<exists>cs'. ob_NestedSlice ops obj' containers_path = Inr (Some cs') \<and> length cs' = length cs \<and>
    (\<forall>j. j \<noteq> i \<longrightarrow> cs' ! j = cs ! j) \<and>
    (\<forall>n. env_value (existing_env (cs' ! i)) n =
       (case map_of (rev (wanted_env getenv injection mi)) n of Some v \<Rightarrow> Some v | None \<Rightarrow> env_value (existing_env (cs ! i)) n)) \<and>
    (im_ControllerImage mi = '''' \<or> getenv (im_ControllerImage mi) = '''' \<or>
       map_of (fields_of (cs' ! i)) ''image'' = Some (JString (getenv (im_ControllerImage mi))))"
proof -
  have cs: "cs \<noteq> []"
    using findNamedContainer_Some [OF assms(4)] by auto
  have all: "inject_all getenv ops injection (ob_GetName ops obj) (mei_PerModuleImages injection) (obj, cs, 0) =
      inject_one getenv ops injection (ob_GetName ops obj) mi (obj, cs, 0)"
    unfolding inject_all_skip [of _ _ _ _ "mei_PerModuleImages injection"] assms(2) by (simp split: sum.split)
  let ?one = "inject_one getenv ops injection (ob_GetName ops obj) mi (obj, cs, 0)"
  have run: "(case ?one of Inl err \<Rightarrow> Inl err
      | Inr (o1, cs1, k1) \<Rightarrow> if k1 = 0 then Inr o1 else ob_SetNestedSlice ops o1 cs1 containers_path) = Inr obj'"
    using assms(5) unfolding injectEnvVarsIntoDeployment_def assms(3) Let_def sum.case option.case if_not_P [OF cs] all .
  then obtain o1 cs1 k1 where step: "?one = Inr (o1, cs1, k1)"
    by (cases ?one) auto
  then have res: "Inr obj' = (if k1 = 0 then Inr o1 else ob_SetNestedSlice ops o1 cs1 containers_path)"
    using run by simp
  have "mi \<in> set (filter (\<lambda>mi. im_DeploymentName mi = ob_GetName ops obj) (mei_PerModuleImages injection))"
    unfolding assms(2) by simp
  then have name: "im_DeploymentName mi = ob_GetName ops obj"
    by simp
  note spec = inject_one_spec [OF assms(1) step name assms(4)]
  show ?thesis
  proof (cases "k1 = 0")
    case True
    then have "obj' = o1" "existing_env (cs1 ! i) = existing_env (cs ! i)" "im_ControllerImage mi = '''' \<or> getenv (im_ControllerImage mi) = ''''"
      using res spec(6) by auto
    then show ?thesis
      using spec(1) spec(4) assms(3) by (intro exI [of _ cs]) auto
  next
    case False
    then have "ob_NestedSlice ops obj' containers_path = Inr (Some cs1)"
      using res assms(1) by (auto simp: slice_laws_def split: if_splits)
    then show ?thesis
      using spec(2-5) by (intro exI [of _ cs1]) auto
  qed
qed

text \<open>A Deployment that belongs to no module keeps its containers.\<close>

lemma foreign_deployment_untouched:
  assumes "\<forall>mi \<in> set (mei_PerModuleImages injection). im_DeploymentName mi \<noteq> ob_GetName ops obj"
    and "injectEnvVarsIntoDeployment getenv ops injection obj = Inr obj'"
  shows "obj' = obj"
proof -
  have "filter (\<lambda>mi. im_DeploymentName mi = ob_GetName ops obj) (mei_PerModuleImages injection) = []"
    using assms(1) by (auto simp: filter_empty_conv)
  then show ?thesis
    using assms(2) unfolding injectEnvVarsIntoDeployment_def inject_all_skip [of _ _ _ _ "mei_PerModuleImages injection"]
    by (auto simp: Let_def split: sum.splits if_splits)
qed

section \<open>Lemmas: platform ConfigMaps\<close>

text \<open>
  A visit without errors establishes for every handler what its own call establishes, provided no later
  call breaks it.
\<close>

lemma visit_establishes:
  assumes "visit f hs s = ([], s')" "Inv s"
    and "\<And>h s. Inv s \<Longrightarrow> Inv (snd (f h s))"
    and "\<And>h s. Inv s \<Longrightarrow> fst (f h s) = None \<Longrightarrow> P h (snd (f h s))"
    and "\<And>h h' s. Inv s \<Longrightarrow> P h s \<Longrightarrow> P h (snd (f h' s))"
  shows "Inv s' \<and> (\<forall>h \<in> set hs. P h s') \<and> (\<forall>h. P h s \<longrightarrow> P h s')"
  using assms(1,2)
proof (induction hs arbitrary: s)
  case (Cons h hs)
  obtain s1 where step: "f h s = (None, s1)" and rest: "visit f hs s1 = ([], s')"
    using Cons.prems(1) by (auto simp: Let_def split: prod.splits option.splits)
  have "Inv s1" "P h s1" "P h' s \<Longrightarrow> P h' s1" for h'
    using assms(3-5) [OF Cons.prems(2)] step by (metis fst_conv snd_conv)+
  with Cons.IH [OF rest] show ?case
    by auto
qed simp

text \<open>
  What the code relies on in the API machinery: writing \<open>data\<close>, a field of the object itself, succeeds,
  is read back, and leaves kind and name alone; a converted ConfigMap has the name and data given.
\<close>

definition string_map_laws ::
  "'o object_ops \<Rightarrow> (string \<Rightarrow> string \<Rightarrow> (string, string) gomap \<Rightarrow> go_error + 'o) \<Rightarrow> bool" where
  "string_map_laws ops convert \<longleftrightarrow>
     (\<forall>u d. \<exists>u'. ob_SetNestedStringMap ops u d [''data''] = Inr u' \<and> ob_NestedStringMap ops u' [''data''] = Inr (Some d) \<and>
        ob_GetKind ops u' = ob_GetKind ops u \<and> ob_GetName ops u' = ob_GetName ops u) \<and>
     (\<forall>n ns d u. convert n ns d = Inr u \<longrightarrow> ob_GetKind ops u = ''ConfigMap'' \<and> ob_GetName ops u = n \<and>
        ob_NestedStringMap ops u [''data''] = Inr (Some d))"

text \<open>The data has the platform version, and of the cert-manager keys exactly the parameters.\<close>

definition platform_keys :: "string \<Rightarrow> (string, string) gomap \<Rightarrow> (string, string) gomap \<Rightarrow> bool" where
  "platform_keys ver extra d \<longleftrightarrow>
     map_of d ''platformVersion'' = Some ver \<and> (\<forall>k \<in> set platformManagedCertManagerKeys. map_of d k = map_of extra k)"

definition platform_config_of :: "'o object_ops \<Rightarrow> string \<Rightarrow> (string, string) gomap \<Rightarrow> string \<Rightarrow> 'o \<Rightarrow> bool" where
  "platform_config_of ops ver extra n u \<longleftrightarrow>
     ob_GetKind ops u = ''ConfigMap'' \<and> ob_GetName ops u = PlatformConfigName n \<and>
     (\<exists>d. ob_NestedStringMap ops u [''data''] = Inr (Some d) \<and> platform_keys ver extra d)"

definition cert_params :: "(string, string) gomap \<Rightarrow> bool" where
  "cert_params extra \<longleftrightarrow> gomap_wf extra \<and> set (map fst extra) \<subseteq> set platformManagedCertManagerKeys"

lemma buildCertManagerConfigParams_keys: "cert_params (buildCertManagerConfigParams getenv)"
  by (simp add: cert_params_def gomap_wf_def buildCertManagerConfigParams_def platformManagedCertManagerKeys_def)

lemma map_of_foldl_delete:
  "map_of (foldl (\<lambda>d k. AList.delete k d) m ks) k = (if k \<in> set ks then None else map_of m k)"
  by (induction ks arbitrary: m) (auto simp: go_map_simps)

lemma merged_data_lookup:
  assumes "cert_params extra"
  shows "map_of (merged_data ver extra d) k =
    (if k = ''platformVersion'' then Some ver
     else if k \<in> set platformManagedCertManagerKeys then map_of extra k else map_of d k)"
proof -
  have own: "''platformVersion'' \<notin> set platformManagedCertManagerKeys"
    by (simp add: platformManagedCertManagerKeys_def)
  moreover have "map_of extra k = None" if "k \<notin> set platformManagedCertManagerKeys" for k
    using assms that by (auto simp: cert_params_def map_of_eq_None_iff)
  ultimately show ?thesis
    using assms by (auto simp: merged_data_def cert_params_def go_map_simps map_of_foldl_delete map_add_def split: option.split)
qed

lemma platform_keys_data:
  assumes "cert_params extra"
  shows "platform_keys ver extra (merged_data ver extra d)" and "platform_keys ver extra (platform_data ver extra)"
proof -
  show "platform_keys ver extra (merged_data ver extra d)"
    using assms by (auto simp: platform_keys_def merged_data_lookup platformManagedCertManagerKeys_def)
  have "map_of (platform_data ver extra) k = map_of (merged_data ver extra []) k" for k
    using assms by (simp add: platform_data_def merged_data_def cert_params_def go_map_simps platformManagedCertManagerKeys_def)
  then show "platform_keys ver extra (platform_data ver extra)"
    using \<open>platform_keys ver extra (merged_data ver extra d)\<close> assms
    by (auto simp: platform_keys_def merged_data_lookup platformManagedCertManagerKeys_def)
qed

lemma mergePlatformKeys_spec:
  fixes ver :: string
  assumes "string_map_laws ops convert" "cert_params extra"
  defines "u' \<equiv> \<lambda>u. mergePlatformKeys ops u ver extra"
  shows "ob_GetKind ops (u' u) = ob_GetKind ops u" and "ob_GetName ops (u' u) = ob_GetName ops u"
    and "\<exists>d. ob_NestedStringMap ops (u' u) [''data''] = Inr (Some d) \<and> platform_keys ver extra d"
    and "ob_NestedStringMap ops u [''data''] = Inr (Some d0) \<Longrightarrow>
      ob_NestedStringMap ops (u' u) [''data''] = Inr (Some (merged_data ver extra d0))"
proof -
  define data where "data = (case ob_NestedStringMap ops u [''data''] of Inr (Some d) \<Rightarrow> d | _ \<Rightarrow> [])"
  obtain v where v: "ob_SetNestedStringMap ops u (merged_data ver extra data) [''data''] = Inr v"
    "ob_NestedStringMap ops v [''data''] = Inr (Some (merged_data ver extra data))"
    "ob_GetKind ops v = ob_GetKind ops u" "ob_GetName ops v = ob_GetName ops u"
    using assms(1) unfolding string_map_laws_def by metis
  have "u' u = v"
    by (simp add: u'_def mergePlatformKeys_def data_def [symmetric] v(1))
  with v platform_keys_data(1) [OF assms(2)]
  show "ob_GetKind ops (u' u) = ob_GetKind ops u" "ob_GetName ops (u' u) = ob_GetName ops u"
    "\<exists>d. ob_NestedStringMap ops (u' u) [''data''] = Inr (Some d) \<and> platform_keys ver extra d"
    "ob_NestedStringMap ops u [''data''] = Inr (Some d0) \<Longrightarrow>
      ob_NestedStringMap ops (u' u) [''data''] = Inr (Some (merged_data ver extra d0))"
    by (simp_all add: data_def)
qed

text \<open>The index of a name points at a ConfigMap of that name.\<close>

lemma indexConfigMapsByName_sound:
  assumes "map_of (indexConfigMapsByName ops rs) n = Some i"
  shows "i < length rs \<and> ob_GetKind ops (rs ! i) = ''ConfigMap'' \<and> ob_GetName ops (rs ! i) = n"
proof -
  let ?step = "\<lambda>idx i. if ob_GetKind ops (rs ! i) = ''ConfigMap'' then AList.update (ob_GetName ops (rs ! i)) i idx else idx"
  define ok where "ok idx \<longleftrightarrow> (\<forall>n i. map_of idx n = Some i \<longrightarrow>
    i < length rs \<and> ob_GetKind ops (rs ! i) = ''ConfigMap'' \<and> ob_GetName ops (rs ! i) = n)" for idx
  have "ok (?step idx i)" if "ok idx" "i < length rs" for idx i
    using that unfolding ok_def by (simp add: go_map_simps)
  then have "ok (foldl ?step idx is)" if "ok idx" "set is \<subseteq> {..<length rs}" for idx "is"
    using that by (induction "is" arbitrary: idx) (simp_all del: if_split)
  moreover have "ok []" "set [0..<length rs] \<subseteq> {..<length rs}"
    by (auto simp: ok_def)
  ultimately have "ok (indexConfigMapsByName ops rs)"
    unfolding indexConfigMapsByName_def by blast
  then show ?thesis
    using assms by (simp add: ok_def)
qed

text \<open>
  What the visit keeps of the resources it started from: kinds, names, and every key of a ConfigMap that is
  not the platform's.
\<close>

definition keeps_resources :: "'o object_ops \<Rightarrow> 'o list \<Rightarrow> 'o list \<Rightarrow> bool" where
  "keeps_resources ops rs rs' \<longleftrightarrow> length rs \<le> length rs' \<and>
     (\<forall>i < length rs. ob_GetKind ops (rs' ! i) = ob_GetKind ops (rs ! i) \<and> ob_GetName ops (rs' ! i) = ob_GetName ops (rs ! i) \<and>
        (\<forall>d. ob_NestedStringMap ops (rs ! i) [''data''] = Inr (Some d) \<longrightarrow>
           (\<exists>d'. ob_NestedStringMap ops (rs' ! i) [''data''] = Inr (Some d') \<and>
              (\<forall>k. k = ''platformVersion'' \<or> k \<in> set platformManagedCertManagerKeys \<or> map_of d' k = map_of d k))))"

lemma keeps_resources_refl: "keeps_resources ops rs rs"
  by (simp add: keeps_resources_def)

lemma keeps_resources_append: "keeps_resources ops rs rs' \<Longrightarrow> keeps_resources ops rs (rs' @ us)"
  by (simp add: keeps_resources_def nth_append)

lemma keeps_resources_merge:
  assumes laws: "string_map_laws ops convert" "cert_params extra" and keeps: "keeps_resources ops rs rs'"
  shows "keeps_resources ops rs (rs'[j := mergePlatformKeys ops (rs' ! j) ver extra])"
  unfolding keeps_resources_def
proof (intro conjI allI impI)
  let ?rs = "rs'[j := mergePlatformKeys ops (rs' ! j) ver extra]"
  note spec = mergePlatformKeys_spec [OF laws]
  note keep = keeps [unfolded keeps_resources_def]
  show "length rs \<le> length ?rs"
    using keep by simp
  fix i assume i: "i < length rs"
  have at: "?rs ! i = (if i = j then mergePlatformKeys ops (rs' ! j) ver extra else rs' ! i)"
    using keep i by (auto simp: nth_list_update)
  show "ob_GetKind ops (?rs ! i) = ob_GetKind ops (rs ! i)" "ob_GetName ops (?rs ! i) = ob_GetName ops (rs ! i)"
    unfolding at using keep i spec(1,2) by (auto split: if_split)
  fix d assume "ob_NestedStringMap ops (rs ! i) [''data''] = Inr (Some d)"
  then obtain d' where d': "ob_NestedStringMap ops (rs' ! i) [''data''] = Inr (Some d')"
    "\<forall>k. k = ''platformVersion'' \<or> k \<in> set platformManagedCertManagerKeys \<or> map_of d' k = map_of d k"
    using keep i by blast
  show "\<exists>d'. ob_NestedStringMap ops (?rs ! i) [''data''] = Inr (Some d') \<and>
      (\<forall>k. k = ''platformVersion'' \<or> k \<in> set platformManagedCertManagerKeys \<or> map_of d' k = map_of d k)"
  proof (cases "i = j")
    case True
    then have "ob_NestedStringMap ops (?rs ! i) [''data''] = Inr (Some (merged_data ver extra d'))"
      using at spec(4) [OF d'(1)] by simp
    then show ?thesis
      using d'(2) merged_data_lookup [OF laws(2)] by auto
  next
    case False
    with d' at show ?thesis by auto
  qed
qed

definition has_platform_config :: "'o object_ops \<Rightarrow> string \<Rightarrow> (string, string) gomap \<Rightarrow> string \<Rightarrow> 'o list \<Rightarrow> bool" where
  "has_platform_config ops ver extra n rs \<longleftrightarrow> (\<exists>i < length rs. platform_config_of ops ver extra n (rs ! i))"

lemma has_platform_config_append: "has_platform_config ops ver extra n rs \<Longrightarrow> has_platform_config ops ver extra n (rs @ us)"
  unfolding has_platform_config_def by (metis length_append nth_append trans_less_add1)

lemma has_platform_config_merge:
  assumes laws: "string_map_laws ops convert" "cert_params extra" and "has_platform_config ops ver extra n rs"
  shows "has_platform_config ops ver extra n (rs[j := mergePlatformKeys ops (rs ! j) ver extra])"
proof -
  obtain i where i: "i < length rs" "platform_config_of ops ver extra n (rs ! i)"
    using assms(3) by (auto simp: has_platform_config_def)
  then have "platform_config_of ops ver extra n (rs[j := mergePlatformKeys ops (rs ! j) ver extra] ! i)"
    using mergePlatformKeys_spec(1-3) [OF laws, of "rs ! j" ver] by (cases "i = j") (simp_all add: platform_config_of_def)
  with i(1) show ?thesis
    by (auto simp: has_platform_config_def)
qed

lemma config_one_cases:
  assumes "config_one ops convert px ver extra idx h rs = (err, rs')"
  obtains (disabled) "\<not> mh_IsEnabled h (px_Modules px)" "rs' = rs"
  | (merged) i where "map_of idx (PlatformConfigName (mh_GetName h)) = Some i" "err = None"
      "rs' = rs[i := mergePlatformKeys ops (rs ! i) ver extra]"
  | (failed) "rs' = rs" "err \<noteq> None"
  | (created) u where "convert (PlatformConfigName (mh_GetName h)) (px_ApplicationsNamespace px) (platform_data ver extra) = Inr u"
      "err = None" "rs' = rs @ [u]"
  using assms by (auto simp: config_one_def Let_def split: if_splits option.splits sum.splits)

lemma config_one_spec:
  assumes laws: "string_map_laws ops convert" "cert_params extra" and keeps: "keeps_resources ops rs rs'"
    and step: "config_one ops convert px ver extra (indexConfigMapsByName ops rs) h rs' = (err, rs'')"
  shows "keeps_resources ops rs rs''"
    and "err = None \<Longrightarrow> mh_IsEnabled h (px_Modules px) \<Longrightarrow> has_platform_config ops ver extra (mh_GetName h) rs''"
    and "has_platform_config ops ver extra n rs' \<Longrightarrow> has_platform_config ops ver extra n rs''"
proof -
  show "keeps_resources ops rs rs''"
    using step keeps keeps_resources_append keeps_resources_merge [OF laws keeps] by (cases rule: config_one_cases) simp_all
  show "has_platform_config ops ver extra n rs''" if "has_platform_config ops ver extra n rs'"
    using step that has_platform_config_append has_platform_config_merge [OF laws that] by (cases rule: config_one_cases) simp_all
  show "has_platform_config ops ver extra (mh_GetName h) rs''" if "err = None" "mh_IsEnabled h (px_Modules px)"
    using step
  proof (cases rule: config_one_cases)
    case (merged i)
    have at: "i < length rs'" "ob_GetKind ops (rs' ! i) = ''ConfigMap''" "ob_GetName ops (rs' ! i) = PlatformConfigName (mh_GetName h)"
      using indexConfigMapsByName_sound [OF merged(1)] keeps by (auto simp: keeps_resources_def)
    then have "platform_config_of ops ver extra (mh_GetName h) (rs'' ! i)"
      using merged(3) mergePlatformKeys_spec(1-3) [OF laws, of "rs' ! i" ver] by (simp add: platform_config_of_def)
    with at(1) merged(3) show ?thesis
      by (auto simp: has_platform_config_def)
  next
    case (created u)
    then have "platform_config_of ops ver extra (mh_GetName h) u"
      using laws(1) platform_keys_data(2) [OF laws(2)] by (auto simp: platform_config_of_def string_map_laws_def)
    then show ?thesis
      using created(3) by (auto simp: has_platform_config_def intro!: exI [of _ "length rs'"])
  qed (use that in auto)
qed

text \<open>
  The platform ConfigMaps. If the action reports no error, every module that is registered, not suppressed and
  enabled has a ConfigMap \<open>odh-<module>-config\<close> among the resources, with the platform version
  and, of the cert-manager keys, exactly the parameters of this platform: all of them on XKS, none elsewhere,
  even if the chart shipped some. The resources that were there keep their kind and name, and their
  ConfigMaps every key that is not the platform's.
\<close>

theorem platform_config_provided:
  assumes "string_map_laws ops convert" "mod_HasEntries reg"
    and "buildPlatformContext reg rd rr = Inr px"
    and "injectPlatformConfig getenv ops convert reg rd rr rs = ([], rs')"
  shows "keeps_resources ops rs rs' \<and>
    (\<forall>e \<in> set (filter re_enabled (mod_sorted_entries reg)). mh_IsEnabled (re_handler e) (px_Modules px) \<longrightarrow>
       has_platform_config ops (rr_ReleaseVersion rr)
         (if rr_ReleaseName rr = ''XKS'' then buildCertManagerConfigParams getenv else []) (mh_GetName (re_handler e)) rs')"
proof -
  let ?extra = "if rr_ReleaseName rr = ''XKS'' then buildCertManagerConfigParams getenv else []"
  let ?f = "\<lambda>e. config_one ops convert px (rr_ReleaseVersion rr) ?extra (indexConfigMapsByName ops rs) (re_handler e)"
  let ?P = "\<lambda>e rs. mh_IsEnabled (re_handler e) (px_Modules px) \<longrightarrow>
    has_platform_config ops (rr_ReleaseVersion rr) ?extra (mh_GetName (re_handler e)) rs"
  have extra: "cert_params ?extra"
    using buildCertManagerConfigParams_keys [of getenv] by (simp add: cert_params_def gomap_wf_def)
  note spec = config_one_spec [OF assms(1) extra _ surjective_pairing]
  have "visit ?f (filter re_enabled (mod_sorted_entries reg)) rs = ([], rs')"
    using assms(2-4) by (simp add: injectPlatformConfig_def mod_ForEach_def)
  from visit_establishes [where Inv = "keeps_resources ops rs" and P = ?P, OF this keeps_resources_refl] spec
  show ?thesis by blast
qed

section \<open>Objects for witnesses\<close>

record demo_object =
  do_kind :: string
  do_name :: string
  do_init :: "jval list option"
  do_containers :: "jval list option"
  do_data :: "(string, string) gomap option"

definition demo_ops :: "demo_object object_ops" where
  "demo_ops =
     \<lparr>ob_GVK = (\<lambda>u. \<lparr>gvk_Group = ''apps'', gvk_Version = ''v1'', gvk_Kind = do_kind u\<rparr>),
      ob_GetKind = do_kind, ob_GetName = do_name,
      ob_NestedSlice = (\<lambda>u p. Inr (if p = init_path then do_init u else if p = containers_path then do_containers u else None)),
      ob_SetNestedSlice = (\<lambda>u xs p. Inr (if p = init_path then u\<lparr>do_init := Some xs\<rparr>
        else if p = containers_path then u\<lparr>do_containers := Some xs\<rparr> else u)),
      ob_NestedStringMap = (\<lambda>u p. Inr (if p = [''data''] then do_data u else None)),
      ob_SetNestedStringMap = (\<lambda>u d p. Inr (if p = [''data''] then u\<lparr>do_data := Some d\<rparr> else u))\<rparr>"

definition demo_convert :: "string \<Rightarrow> string \<Rightarrow> (string, string) gomap \<Rightarrow> go_error + demo_object" where
  "demo_convert n ns d =
     Inr \<lparr>do_kind = ''ConfigMap'', do_name = n, do_init = None, do_containers = None, do_data = Some d\<rparr>"

lemma demo_laws: "slice_laws demo_ops" "string_map_laws demo_ops demo_convert"
  by (auto simp: slice_laws_def string_map_laws_def demo_ops_def demo_convert_def)

definition demo_deployment :: demo_object where
  "demo_deployment =
     \<lparr>do_kind = ''Deployment'', do_name = ''kserve'', do_init = None,
      do_containers = Some [JMap [(''name'', JString ''proxy'')],
        JMap [(''name'', JString ''manager''), (''image'', JString ''old''),
          (''env'', JList [JMap [(''name'', JString ''RELATED_IMAGE''), (''valueFrom'', JOther ''ref'')]])]],
      do_data = None\<rparr>"

definition demo_injection :: ModuleEnvInjection where
  "demo_injection =
     \<lparr>mei_PerModuleImages =
        [\<lparr>im_DeploymentName = ''ray'', im_ContainerName = '''', im_ControllerImage = '''', im_InitContainerName = '''',
          im_Images = [], im_ExtraEnv = []\<rparr>,
         \<lparr>im_DeploymentName = ''kserve'', im_ContainerName = '''', im_ControllerImage = ''CONTROLLER'', im_InitContainerName = '''',
          im_Images = [''RELATED_IMAGE''], im_ExtraEnv = []\<rparr>],
      mei_ApplicationsNamespace = ''odh'', mei_MonitoringNamespace = '''', mei_PlatformType = ''''\<rparr>"

theorem module_deployment_injected_witness:
  "\<exists>obj' cs'. injectEnvVarsIntoDeployment (\<lambda>n. n @ ''-new'') demo_ops demo_injection demo_deployment = Inr obj' \<and>
     do_containers obj' = Some cs' \<and> length cs' = 2 \<and>
     env_value (existing_env (cs' ! 1)) ''RELATED_IMAGE'' = Some ''RELATED_IMAGE-new'' \<and>
     map_of (fields_of (cs' ! 1)) ''image'' = Some (JString ''CONTROLLER-new'')"
proof -
  let ?getenv = "\<lambda>n. n @ ''-new''"
  let ?cs = "the (do_containers demo_deployment)"
  let ?mi = "mei_PerModuleImages demo_injection ! 1"
  let ?res = "injectEnvVarsIntoDeployment ?getenv demo_ops demo_injection demo_deployment"
  have "isl ?res = False" by code_simp
  then obtain obj' where res: "?res = Inr obj'" by (cases ?res) auto
  have "filter (\<lambda>mi. im_DeploymentName mi = ob_GetName demo_ops demo_deployment) (mei_PerModuleImages demo_injection) = [?mi]"
    by code_simp
  moreover have "ob_NestedSlice demo_ops demo_deployment containers_path = Inr (Some ?cs)" by code_simp
  moreover have "findNamedContainer ?cs (if im_ContainerName ?mi = '''' then ''manager'' else im_ContainerName ?mi) = Some 1"
    by code_simp
  ultimately obtain cs' where cs': "ob_NestedSlice demo_ops obj' containers_path = Inr (Some cs')" "length cs' = length ?cs"
    and env: "env_value (existing_env (cs' ! 1)) ''RELATED_IMAGE'' =
      (case map_of (rev (wanted_env ?getenv demo_injection ?mi)) ''RELATED_IMAGE'' of Some v \<Rightarrow> Some v
       | None \<Rightarrow> env_value (existing_env (?cs ! 1)) ''RELATED_IMAGE'')"
    and img: "im_ControllerImage ?mi = '''' \<or> ?getenv (im_ControllerImage ?mi) = '''' \<or>
      map_of (fields_of (cs' ! 1)) ''image'' = Some (JString (?getenv (im_ControllerImage ?mi)))"
    using module_deployment_injected [OF demo_laws(1) _ _ _ res] by metis
  have "do_containers obj' = Some cs'"
    using cs'(1) by (simp add: demo_ops_def)
  moreover have "length ?cs = 2" "im_ControllerImage ?mi = ''CONTROLLER''"
    "map_of (rev (wanted_env ?getenv demo_injection ?mi)) ''RELATED_IMAGE'' = Some ''RELATED_IMAGE-new''"
    by code_simp+
  ultimately show ?thesis
    using res cs'(2) env img by auto
qed

definition demo_config_map :: demo_object where
  "demo_config_map =
     \<lparr>do_kind = ''ConfigMap'', do_name = ''odh-Kserve-config'', do_init = None, do_containers = None,
      do_data = Some [(''CERT_MANAGER_ISSUER_REF_NAME'', ''stale''), (''own'', ''kept'')]\<rparr>"

theorem platform_config_provided_witness:
  "fst (injectPlatformConfig (\<lambda>_. '''') demo_ops demo_convert (sys_mod demo_lifecycle) demo_reads (demo_rr [(''Kserve'', ''Managed'')]) [demo_config_map]) = [] \<and>
   has_platform_config demo_ops ''3.0.0'' [] ''Kserve''
     (snd (injectPlatformConfig (\<lambda>_. '''') demo_ops demo_convert (sys_mod demo_lifecycle) demo_reads (demo_rr [(''Kserve'', ''Managed'')]) [demo_config_map]))"
proof -
  let ?i = "injectPlatformConfig (\<lambda>_. '''') demo_ops demo_convert (sys_mod demo_lifecycle) demo_reads (demo_rr [(''Kserve'', ''Managed'')]) [demo_config_map]"
  have ok: "fst ?i = []" and has: "mod_HasEntries (sys_mod demo_lifecycle)" by code_simp+
  have entry: "\<exists>e \<in> set (filter re_enabled (mod_sorted_entries (sys_mod demo_lifecycle))). re_handler e = demo_populating ''Kserve''"
  proof -
    have wf: "mod_wf (sys_mod demo_lifecycle)"
      using demo_lifecycle_in_step by (simp add: in_step_def)
    have "list_all (\<lambda>ne. re_enabled (snd ne)) (m_entries (sys_mod demo_lifecycle))"
      by code_simp
    then show ?thesis
      using demo_lookup(1) mod_sorted_entries_set(1) [OF wf] mod_Lookup_entry [OF wf] by (fastforce simp: list_all_iff)
  qed
  have run: "?i = ([], snd ?i)"
    using ok by (metis prod.collapse)
  have "buildPlatformContext (sys_mod demo_lifecycle) demo_reads (demo_rr [(''Kserve'', ''Managed'')]) = Inr (demo_px [(''Kserve'', ''Managed'')])"
    by (rule demo_context) (simp add: at_or_def)
  from platform_config_provided [OF demo_laws(2) has this run] entry
  have "has_platform_config demo_ops ''3.0.0'' [] ''Kserve'' (snd ?i)"
    by (auto simp: demo_rr_def demo_px_def demo_populating_def at_or_def)
  with ok show ?thesis by simp
qed

end
