(* ===== verification/Webhook_Common.thy ===== *)
theory Webhook_Common
  imports Admission Unstructured
begin

text \<open>
  Requests and responses of the mutating webhooks. Raw objects are strings; a patch response stands for
  \<open>admission.PatchResponseFromRaw\<close> on the raw object of the request and the marshalled object given, with the
  response's warnings. Its patch is computed by the controller runtime.
\<close>

record web_request =
  wq_Kind :: GVK
  wq_Operation :: string
  wq_Namespace :: string
  wq_Object :: "string option"
  wq_OldObject :: "string option"
  wq_DryRun :: "bool option"

datatype web_response = Plain response | Patch jmap "string list"

definition web_allowed :: "web_response \<Rightarrow> bool" where
  "web_allowed r = (case r of Plain p \<Rightarrow> rs_Allowed p | Patch _ _ \<Rightarrow> True)"

definition web_Allowed :: "string \<Rightarrow> web_response" where
  "web_Allowed msg = Plain (admission_Allowed msg)"

definition web_Errored :: "nat \<Rightarrow> go_error \<Rightarrow> web_response" where
  "web_Errored code err = Plain (admission_Errored code err)"

abbreviation (input) StatusInternalServerError :: nat where "StatusInternalServerError \<equiv> 500"

definition apos :: "string \<Rightarrow> string" where
  "apos s = CHR 0x27 # s @ [CHR 0x27]"

text \<open>\<open>DecodeUnstructured\<close>, on a decoder that is there.\<close>

definition DecodeUnstructured :: "(string option \<Rightarrow> go_error + jmap) \<Rightarrow> web_request \<Rightarrow> go_error + jmap" where
  "DecodeUnstructured decode req = context_err ''failed to decode object'' (decode (wq_Object req))"

lemma web_allowed_simps [simp]:
  "web_allowed (web_Allowed msg)" "\<not> web_allowed (web_Errored code err)" "web_allowed (Patch obj ws)"
  "web_allowed (Plain p) = rs_Allowed p" "web_Allowed msg \<noteq> Patch obj ws" "web_Errored code err \<noteq> Patch obj ws"
  by (simp_all add: web_allowed_def web_Allowed_def web_Errored_def admission_Allowed_def admission_Errored_def)

section \<open>The laws as an interface\<close>

text \<open>What the webhooks prove about objects under \<open>api_laws\<close>, once for all of them.\<close>

locale workload_api =
  fixes a :: unstructured_api
  assumes laws: "api_laws a"
begin

lemmas nested_reads = reads_simps [OF conjunct1 [OF laws [unfolded api_laws_def]]]
lemmas nested_writes = writes_Inr [OF conjunct1 [OF laws [unfolded api_laws_def]]]
lemmas set_value = SetNestedValue_Inr [OF conjunct1 [OF laws [unfolded api_laws_def]]]

lemma outside_spec:
  assumes "\<And>k. k \<noteq> ''spec'' \<Longrightarrow> map_of m' k = map_of m k"
  shows "same_identity a m m'" "ua_GetAnnotation a m' = ua_GetAnnotation a m" "ua_GetLabel a m' = ua_GetLabel a m"
proof -
  have same: "\<forall>k. k = ''spec'' \<or> map_of m' k = map_of m k"
    using assms by blast
  note law = conjunct1 [OF conjunct2 [OF laws [unfolded api_laws_def], unfolded meta_laws_def], rule_format, OF same [rule_format]]
  show "same_identity a m m'" "ua_GetAnnotation a m' = ua_GetAnnotation a m" "ua_GetLabel a m' = ua_GetLabel a m"
    using law by blast+
qed

lemma store_spec_meta:
  assumes "store m (''spec'' # ks) v = Some m'"
  shows "same_identity a m m'" "ua_GetAnnotation a m' = ua_GetAnnotation a m" "ua_GetLabel a m' = ua_GetLabel a m"
  using outside_spec [of m' m] store_other [OF assms] by blast+

lemma erase_spec_meta:
  "same_identity a m (erase m (''spec'' # ks))" "ua_GetAnnotation a (erase m (''spec'' # ks)) = ua_GetAnnotation a m"
  "ua_GetLabel a (erase m (''spec'' # ks)) = ua_GetLabel a m"
  using outside_spec [of "erase m (''spec'' # ks)" m] erase_other by blast+

lemma lookup_spec_cong: "map_of m' ''spec'' = map_of m ''spec'' \<Longrightarrow> lookup m' (''spec'' # ks) = lookup m (''spec'' # ks)"
  by simp

lemma metadata_ops:
  "lookup (ua_SetAnnotation a m k v) (''spec'' # ks) = lookup m (''spec'' # ks)" "same_identity a m (ua_SetAnnotation a m k v)"
  "lookup (ua_RemoveAnnotation a m k) (''spec'' # ks) = lookup m (''spec'' # ks)" "same_identity a m (ua_RemoveAnnotation a m k)"
  "lookup (ua_SetLabel a m k v) (''spec'' # ks) = lookup m (''spec'' # ks)" "same_identity a m (ua_SetLabel a m k v)"
  "lookup (ua_RemoveLabel a m k) (''spec'' # ks) = lookup m (''spec'' # ks)" "same_identity a m (ua_RemoveLabel a m k)"
  "ua_GetAnnotation a (ua_SetAnnotation a m k v) = (ua_GetAnnotation a m)(k := v)"
  "ua_GetAnnotation a (ua_RemoveAnnotation a m k) = (ua_GetAnnotation a m)(k := '''')"
  "ua_GetAnnotation a (ua_SetLabel a m k v) = ua_GetAnnotation a m" "ua_GetAnnotation a (ua_RemoveLabel a m k) = ua_GetAnnotation a m"
  "ua_GetLabel a (ua_SetLabel a m k v) = (ua_GetLabel a m)(k := v)"
  "ua_GetLabel a (ua_RemoveLabel a m k) = (ua_GetLabel a m)(k := '''')"
  "ua_GetLabel a (ua_SetAnnotation a m k v) = ua_GetLabel a m" "ua_GetLabel a (ua_RemoveAnnotation a m k) = ua_GetLabel a m"
proof -
  note l = conjunct2 [OF laws [unfolded api_laws_def], unfolded meta_laws_def]
  show "lookup (ua_SetAnnotation a m k v) (''spec'' # ks) = lookup m (''spec'' # ks)"
    "lookup (ua_RemoveAnnotation a m k) (''spec'' # ks) = lookup m (''spec'' # ks)"
    "lookup (ua_SetLabel a m k v) (''spec'' # ks) = lookup m (''spec'' # ks)"
    "lookup (ua_RemoveLabel a m k) (''spec'' # ks) = lookup m (''spec'' # ks)"
    by (rule lookup_spec_cong, use l in blast)+
qed (use laws in \<open>simp_all add: api_laws_def meta_laws_def\<close>)

end

interpretation tree: workload_api tree_api
  by unfold_locales (rule tree_api_laws)

end
