(* ===== verification/Hardware_Profile.thy ===== *)
theory Hardware_Profile
  imports Webhook_Common
begin

text \<open>
  The hardware profile webhook (\<open>internal/webhook/hardwareprofile/mutating.go\<close>): it applies a
  HardwareProfile named by an annotation to an InferenceService or LLMInferenceService at admission, and takes
  the profile's scheduling settings out again when the annotation goes.

  Parameters (\<open>hwp_env\<close>): the client's read of a profile, whether the client can write events, the
  decoder, the JSON codec, the quantity library and the conversion of a toleration to a tree; the
  field helpers are the \<open>unstructured_api\<close> of theory \<open>Unstructured\<close>. The webhook returns its response and the
  events it tries to create (their creation cannot fail the request). A patch response is the object it
  is computed from, with its warnings. The webhook exists in builds without the tag \<open>nowebhook\<close>.
\<close>

section \<open>Profiles and workloads\<close>

datatype IntOrString = IntVal int | StrVal string | InvalidType int

record HardwareIdentifier =
  hi_Identifier :: string
  hi_DefaultCount :: IntOrString

record Toleration =
  tol_Key :: string
  tol_Operator :: string
  tol_Value :: string
  tol_Effect :: string
  tol_TolerationSeconds :: "int option"

record NodeSchedulingSpec =
  ns_NodeSelector :: "(string, string) gomap"
  ns_Tolerations :: "Toleration list"

record SchedulingSpec =
  ss_Kueue :: "string option"
  ss_Node :: "NodeSchedulingSpec option"

record HardwareProfile =
  hwp_Name :: string
  hwp_Identifiers :: "HardwareIdentifier list"
  hwp_SchedulingSpec :: "SchedulingSpec option"

record WorkloadConfig =
  wc_ContainersPath :: "string list"
  wc_NodeSelectorPath :: "string list"
  wc_TolerationsPath :: "string list"

definition HardwareProfileNameAnnotation :: string where
  "HardwareProfileNameAnnotation = ''opendatahub.io/hardware-profile-name''"

definition HardwareProfileNamespaceAnnotation :: string where
  "HardwareProfileNamespaceAnnotation = ''opendatahub.io/hardware-profile-namespace''"

definition KueueQueueNameLabel :: string where
  "KueueQueueNameLabel = ''kueue.x-k8s.io/queue-name''"

definition GetWorkloadConfig :: "string \<Rightarrow> go_error + WorkloadConfig" where
  "GetWorkloadConfig kind =
     (if kind = ''InferenceService'' then
        Inr \<lparr>wc_ContainersPath = [''spec'', ''predictor'', ''model''], wc_NodeSelectorPath = [''spec'', ''predictor'', ''nodeSelector''],
             wc_TolerationsPath = [''spec'', ''predictor'', ''tolerations'']\<rparr>
      else if kind = ''LLMInferenceService'' then
        Inr \<lparr>wc_ContainersPath = [''spec'', ''template'', ''containers''], wc_NodeSelectorPath = [''spec'', ''template'', ''nodeSelector''],
             wc_TolerationsPath = [''spec'', ''template'', ''tolerations'']\<rparr>
      else Inl (new_error (''unsupported workload kind: '' @ kind)))"

definition serving_gvk :: "string \<Rightarrow> string \<Rightarrow> GVK" where
  "serving_gvk version kind = \<lparr>gvk_Group = ''serving.kserve.io'', gvk_Version = version, gvk_Kind = kind\<rparr>"

definition Injector_isExpectedKind :: "GVK \<Rightarrow> bool" where
  "Injector_isExpectedKind kind \<longleftrightarrow>
     kind \<in> set [serving_gvk ''v1beta1'' ''InferenceService'', serving_gvk ''v1alpha1'' ''LLMInferenceService'',
                serving_gvk ''v1alpha2'' ''LLMInferenceService'']"

record hwp_env =
  he_Get :: "string \<Rightarrow> string \<Rightarrow> api_failure + HardwareProfile"
  he_Decoder :: "(string option \<Rightarrow> go_error + jmap) option"
  he_Unmarshal :: "string \<Rightarrow> go_error + jmap"
  he_Marshal :: "jmap \<Rightarrow> go_error + string"
  he_CanWriteEvents :: bool
  he_NewQuantity_String :: "int \<Rightarrow> string"
  he_ParseQuantity_String :: "string \<Rightarrow> go_error + string"
  he_ToUnstructured :: "Toleration \<Rightarrow> go_error + jmap"
  he_fmt_v :: "jval \<Rightarrow> string"

record event =
  ev_Name :: string
  ev_Namespace :: string
  ev_InvolvedName :: string
  ev_InvolvedKind :: string
  ev_Reason :: string
  ev_Message :: string

definition hwp_Allowed :: "string \<Rightarrow> web_response \<times> event list" where
  "hwp_Allowed msg = (web_Allowed msg, [])"

definition hwp_Errored :: "nat \<Rightarrow> go_error \<Rightarrow> web_response \<times> event list" where
  "hwp_Errored code err = (web_Errored code err, [])"

section \<open>Container names\<close>

datatype validation_error =
    NoMatchingContainerError (nm_Kind: string) (nm_Name: string) (nm_Namespace: string) (nm_ExpectedName: string)
  | OtherError go_error

definition validation_Error :: "validation_error \<Rightarrow> string" where
  "validation_Error e =
     (case e of
        NoMatchingContainerError kind name ns expected \<Rightarrow>
          ''no matching main container found in '' @ kind @ '' '' @ apos (ns @ ''/'' @ name) @ '': expected container name '' @ apos expected
      | OtherError err \<Rightarrow> err_msg err)"

definition validateContainerNames :: "unstructured_api \<Rightarrow> jmap \<Rightarrow> validation_error option" where
  "validateContainerNames a obj =
     (case GetWorkloadConfig (ua_GetKind a obj) of
        Inl err \<Rightarrow> Some (OtherError err)
      | Inr config \<Rightarrow>
          if ua_GetKind a obj = ''InferenceService'' then None
          else
            case ua_NestedSlice a obj (wc_ContainersPath config) of
              Inl err \<Rightarrow> Some (OtherError (wrap ''failed to access containers'' err))
            | Inr None \<Rightarrow> None
            | Inr (Some containers) \<Rightarrow>
                if containers = [] then None
                else if ua_GetKind a obj = ''LLMInferenceService'' then
                  (if list_ex (\<lambda>c. entry_name c = Some ''main'') containers then None
                   else Some (NoMatchingContainerError (ua_GetKind a obj) (ua_GetName a obj) (ua_GetNamespace a obj) ''main''))
                else None)"

definition emit_event :: "hwp_env \<Rightarrow> unstructured_api \<Rightarrow> jmap \<Rightarrow> string \<Rightarrow> string \<Rightarrow> string \<Rightarrow> event list" where
  "emit_event env a obj sfx reason msg =
     (if he_CanWriteEvents env then
        [\<lparr>ev_Name = ua_GetName a obj @ ''.'' @ sfx, ev_Namespace = ua_GetNamespace a obj, ev_InvolvedName = ua_GetName a obj,
          ev_InvolvedKind = ua_GetKind a obj, ev_Reason = reason, ev_Message = msg\<rparr>]
      else [])"

definition emitContainerNameWarningEvent :: "hwp_env \<Rightarrow> unstructured_api \<Rightarrow> jmap \<Rightarrow> validation_error \<Rightarrow> string \<Rightarrow> event list" where
  "emitContainerNameWarningEvent env a obj err hwpName =
     emit_event env a obj ''hwp-container-name-mismatch'' ''ContainerNameMismatch''
       (''Hardware profile '' @ apos hwpName @ '' settings not applied to this workload: '' @ validation_Error err @
        ''. Rename container to '' @ apos (nm_ExpectedName err) @ '' to enable hardware profile injection.'')"

definition emitValidationErrorEvent :: "hwp_env \<Rightarrow> unstructured_api \<Rightarrow> jmap \<Rightarrow> validation_error \<Rightarrow> string \<Rightarrow> event list" where
  "emitValidationErrorEvent env a obj err hwpName =
     emit_event env a obj ''hwp-validation-error'' ''ValidationError''
       (''Hardware profile '' @ apos hwpName @ '' was not applied due to validation error: '' @ validation_Error err @
        ''. Check your workload structure.'')"

text \<open>The tail both branches share: admit the object, with a warning even when it cannot be marshalled.\<close>

definition admit_with_warning :: "hwp_env \<Rightarrow> jmap \<Rightarrow> string \<Rightarrow> web_response" where
  "admit_with_warning env obj warningMsg =
     (case he_Marshal env obj of
        Inl _ \<Rightarrow> Plain ((admission_Allowed ''Admitted but marshal failed after validation'')
          \<lparr>rs_Warnings := [warningMsg, ''Internal error: failed to marshal object'']\<rparr>)
      | Inr _ \<Rightarrow> Patch obj [warningMsg])"

definition skip_profile :: "hwp_env \<Rightarrow> unstructured_api \<Rightarrow> jmap \<Rightarrow> HardwareProfile \<Rightarrow> validation_error \<Rightarrow> web_response \<times> event list" where
  "skip_profile env a obj hwp err =
     (case err of
        NoMatchingContainerError _ _ _ expected \<Rightarrow>
          (admit_with_warning env obj
             (''Hardware profile '' @ apos (hwp_Name hwp) @ '' was not applied: '' @ validation_Error err @
              ''. To use this hardware profile, rename your container to '' @ apos expected @
              ''. All hardware profile settings (identifiers, scheduling, etc.) are skipped.''),
           emitContainerNameWarningEvent env a obj err (hwp_Name hwp))
      | OtherError _ \<Rightarrow>
          (admit_with_warning env obj
             (''Hardware profile '' @ apos (hwp_Name hwp) @ '' was not applied due to validation error: '' @ validation_Error err @
              ''. All hardware profile settings are skipped. Please check your workload structure.''),
           emitValidationErrorEvent env a obj err (hwp_Name hwp)))"

section \<open>Resource requirements\<close>

definition convertIntOrStringToQuantity :: "hwp_env \<Rightarrow> IntOrString \<Rightarrow> go_error + string" where
  "convertIntOrStringToQuantity env value =
     (case value of
        IntVal i \<Rightarrow> Inr (he_NewQuantity_String env i)
      | StrVal s \<Rightarrow> he_ParseQuantity_String env s
      | InvalidType t \<Rightarrow> Inl (new_error (''invalid IntOrString type: '' @ fmt_int t)))"

text \<open>The value extractor the webhook passes is the default count, always applied.\<close>

fun applyIdentifiersToRequests :: "hwp_env \<Rightarrow> jmap \<Rightarrow> HardwareIdentifier list \<Rightarrow> go_error + jmap" where
  "applyIdentifiersToRequests env requests [] = Inr requests"
| "applyIdentifiersToRequests env requests (identifier # ids) =
     (if map_of requests (hi_Identifier identifier) \<noteq> None then applyIdentifiersToRequests env requests ids
      else
        and_then (context_err (''failed to convert resource quantity for '' @ hi_Identifier identifier)
            (convertIntOrStringToQuantity env (hi_DefaultCount identifier)))
          (\<lambda>quantity. applyIdentifiersToRequests env (AList.update (hi_Identifier identifier) (JString quantity) requests) ids))"

fun applyIdentifiersToLimits :: "jmap \<Rightarrow> jmap \<Rightarrow> HardwareIdentifier list \<Rightarrow> jmap" where
  "applyIdentifiersToLimits requests limits [] = limits"
| "applyIdentifiersToLimits requests limits (identifier # ids) =
     (if map_of limits (hi_Identifier identifier) \<noteq> None then applyIdentifiersToLimits requests limits ids
      else
        case map_of requests (hi_Identifier identifier) of
          None \<Rightarrow> applyIdentifiersToLimits requests limits ids
        | Some requestValue \<Rightarrow> applyIdentifiersToLimits requests (AList.update (hi_Identifier identifier) requestValue limits) ids)"

definition applyIdentifiersToContainer ::
  "hwp_env \<Rightarrow> unstructured_api \<Rightarrow> jval \<Rightarrow> HardwareIdentifier list \<Rightarrow> go_error + jval" where
  "applyIdentifiersToContainer env a container identifiers =
     (case container of
        JMap containerMap \<Rightarrow>
          and_then (GetOrCreateNestedMap a containerMap ''resources'') (\<lambda>resourcesMap.
          and_then (GetOrCreateNestedMap a resourcesMap ''requests'') (\<lambda>requests.
          and_then (applyIdentifiersToRequests env requests identifiers) (\<lambda>requests.
          and_then (GetOrCreateNestedMap a resourcesMap ''limits'') (\<lambda>limits.
            let limits = applyIdentifiersToLimits requests limits identifiers;
                resourcesMap = AList.update ''limits'' (JMap limits) (AList.update ''requests'' (JMap requests) resourcesMap)
            in Inr (JMap (AList.update ''resources'' (JMap resourcesMap) containerMap))))))
      | _ \<Rightarrow> Inl (new_error ''container is not a map[string]interface{}''))"

text \<open>For an InferenceService the model stands for the container.\<close>

definition applyResourceRequirementsToInferenceServiceModel ::
  "hwp_env \<Rightarrow> unstructured_api \<Rightarrow> jmap \<Rightarrow> HardwareProfile \<Rightarrow> string list \<Rightarrow> go_error + jmap" where
  "applyResourceRequirementsToInferenceServiceModel env a obj hwp modelPath =
     and_then (context_err ''failed to get model'' (ua_NestedMap a obj modelPath)) (\<lambda>found.
       case found of
         None \<Rightarrow> Inr obj
       | Some model \<Rightarrow>
           and_then (context_err ''failed to apply resources to model'' (applyIdentifiersToContainer env a (JMap model) (hwp_Identifiers hwp)))
             (\<lambda>model. ua_SetNestedMap a obj (fields_of model) modelPath))"

text \<open>\<open>None\<close> is Go's nil slice: no container list to choose from.\<close>

definition llmInferenceServiceMainContainerIndices :: "unstructured_api \<Rightarrow> jmap \<Rightarrow> string list \<Rightarrow> nat list option" where
  "llmInferenceServiceMainContainerIndices a obj containersPath =
     (case ua_NestedSlice a obj containersPath of
        Inr (Some containers) \<Rightarrow>
          if containers = [] then None
          else Some (case List.find (\<lambda>idx. entry_name (containers ! idx) = Some ''main'') [0..<length containers] of
            None \<Rightarrow> [] | Some idx \<Rightarrow> [idx])
      | _ \<Rightarrow> None)"

fun apply_to_containers ::
  "hwp_env \<Rightarrow> unstructured_api \<Rightarrow> HardwareIdentifier list \<Rightarrow> nat list \<Rightarrow> nat \<Rightarrow> jval list \<Rightarrow> go_error + jval list" where
  "apply_to_containers env a identifiers applySet idx [] = Inr []"
| "apply_to_containers env a identifiers applySet idx (container # cs) =
     (if idx \<notin> set applySet then and_then (apply_to_containers env a identifiers applySet (idx + 1) cs) (\<lambda>cs. Inr (container # cs))
      else
        and_then (context_err (''failed to apply resources to container '' @ fmt_nat idx) (applyIdentifiersToContainer env a container identifiers))
          (\<lambda>container. and_then (apply_to_containers env a identifiers applySet (idx + 1) cs) (\<lambda>cs. Inr (container # cs))))"

definition applyResourceRequirementsToContainers ::
  "hwp_env \<Rightarrow> unstructured_api \<Rightarrow> jmap \<Rightarrow> HardwareProfile \<Rightarrow> string list \<Rightarrow> nat list option \<Rightarrow> go_error + jmap" where
  "applyResourceRequirementsToContainers env a obj hwp containersPath mainContainerIndices =
     and_then (context_err ''failed to get containers'' (ua_NestedSlice a obj containersPath)) (\<lambda>found.
       let existing = (case found of None \<Rightarrow> [] | Some cs \<Rightarrow> cs) in
       if existing = [] \<and> ua_GetKind a obj \<noteq> ''LLMInferenceService'' then Inr obj
       else
         let containers = (if existing = [] then [JMap [(''name'', JString ''main'')]] else existing) in
         if mainContainerIndices = Some [] then Inr obj
         else
           let indicesToApply = (case mainContainerIndices of None \<Rightarrow> [0..<length containers] | Some is \<Rightarrow> is);
               applySet = filter (\<lambda>idx. idx < length containers) indicesToApply
           in and_then (apply_to_containers env a (hwp_Identifiers hwp) applySet 0 containers)
                (\<lambda>containers. ua_SetNestedSlice a obj containers containersPath))"

definition applyResourceRequirementsToWorkload ::
  "hwp_env \<Rightarrow> unstructured_api \<Rightarrow> jmap \<Rightarrow> HardwareProfile \<Rightarrow> go_error + jmap" where
  "applyResourceRequirementsToWorkload env a obj hwp =
     and_then (GetWorkloadConfig (ua_GetKind a obj)) (\<lambda>config.
       if ua_GetKind a obj = ''InferenceService''
       then applyResourceRequirementsToInferenceServiceModel env a obj hwp (wc_ContainersPath config)
       else if ua_GetKind a obj = ''LLMInferenceService''
       then applyResourceRequirementsToContainers env a obj hwp (wc_ContainersPath config)
              (llmInferenceServiceMainContainerIndices a obj (wc_ContainersPath config))
       else Inl (new_error (''unsupported workload kind: '' @ ua_GetKind a obj)))"

section \<open>Scheduling\<close>

definition TolerationKey :: "hwp_env \<Rightarrow> jmap \<Rightarrow> string" where
  "TolerationKey env tol =
     string_field tol ''key'' @ '':'' @ string_field tol ''operator'' @ '':'' @ string_field tol ''value'' @ '':'' @
     string_field tol ''effect'' @ '':'' @ (case map_of tol ''tolerationSeconds'' of None \<Rightarrow> '''' | Some v \<Rightarrow> he_fmt_v env v)"

definition tolerationKeyFromCoreV1 :: "Toleration \<Rightarrow> string" where
  "tolerationKeyFromCoreV1 tol =
     tol_Key tol @ '':'' @ tol_Operator tol @ '':'' @ tol_Value tol @ '':'' @ tol_Effect tol @ '':'' @
     (case tol_TolerationSeconds tol of None \<Rightarrow> '''' | Some s \<Rightarrow> fmt_int s)"

text \<open>Entries that are maps and whose key is not among \<open>keys\<close>.\<close>

definition tolerations_except :: "hwp_env \<Rightarrow> string list \<Rightarrow> jval list \<Rightarrow> jval list" where
  "tolerations_except env keys tols =
     filter (\<lambda>t. case t of JMap m \<Rightarrow> TolerationKey env m \<notin> set keys | _ \<Rightarrow> False) tols"

definition mergeNodeSelector ::
  "unstructured_api \<Rightarrow> jmap \<Rightarrow> string list \<Rightarrow> (string, string) gomap \<Rightarrow> string \<Rightarrow> go_error + (string, string) gomap \<times> string list" where
  "mergeNodeSelector a obj path hwpNodeSelector hwpName =
     and_then (context_err ''failed to get existing nodeSelector'' (ua_NestedStringMap a obj path)) (\<lambda>found.
       let existing = (case found of None \<Rightarrow> [] | Some d \<Rightarrow> d);
           warnings = List.map_filter (\<lambda>(k, v).
             case map_of existing k of
               Some ev \<Rightarrow> if ev \<noteq> v then Some (''nodeSelector key '' @ apos k @ '' has value '' @ apos ev @
                 '' which will be overwritten by HardwareProfile '' @ apos hwpName @ '' which has value '' @ apos v) else None
             | None \<Rightarrow> None) hwpNodeSelector
       in Inr (maps_Copy (maps_Copy [] existing) hwpNodeSelector, warnings))"

definition map_keys :: "hwp_env \<Rightarrow> jval list \<Rightarrow> string list" where
  "map_keys env tols = List.map_filter (\<lambda>t. case t of JMap m \<Rightarrow> Some (TolerationKey env m) | _ \<Rightarrow> None) tols"

definition mergeTolerations :: "hwp_env \<Rightarrow> unstructured_api \<Rightarrow> jmap \<Rightarrow> string list \<Rightarrow> jval list \<Rightarrow> go_error + jval list" where
  "mergeTolerations env a obj path hwpTolerations =
     and_then (context_err ''failed to get existing tolerations'' (ua_NestedSlice a obj path)) (\<lambda>found.
       Inr (hwpTolerations @ tolerations_except env (map_keys env hwpTolerations) (case found of None \<Rightarrow> [] | Some ts \<Rightarrow> ts)))"

fun convert_tolerations :: "hwp_env \<Rightarrow> Toleration list \<Rightarrow> go_error + jval list" where
  "convert_tolerations env [] = Inr []"
| "convert_tolerations env (t # ts) =
     and_then (context_err ''failed to convert tolerations to unstructured'' (he_ToUnstructured env t))
       (\<lambda>m. and_then (convert_tolerations env ts) (\<lambda>ms. Inr (JMap m # ms)))"

definition apply_node_selector ::
  "unstructured_api \<Rightarrow> jmap \<Rightarrow> NodeSchedulingSpec \<Rightarrow> string list \<Rightarrow> bool \<Rightarrow> string \<Rightarrow> go_error + jmap \<times> string list" where
  "apply_node_selector a obj nodeSpec path profileChanged hwpName =
     (if ns_NodeSelector nodeSpec = [] then Inr (obj, [])
      else if profileChanged then
        and_then (context_err ''failed to set nodeSelector'' (ua_SetNestedStringMap a obj (ns_NodeSelector nodeSpec) path)) (\<lambda>obj. Inr (obj, []))
      else
        and_then (context_err ''failed to merge nodeSelector'' (mergeNodeSelector a obj path (ns_NodeSelector nodeSpec) hwpName)) (\<lambda>(merged, ws).
        and_then (context_err ''failed to set merged nodeSelector'' (ua_SetNestedStringMap a obj merged path)) (\<lambda>obj. Inr (obj, ws))))"

definition apply_tolerations ::
  "hwp_env \<Rightarrow> unstructured_api \<Rightarrow> jmap \<Rightarrow> NodeSchedulingSpec \<Rightarrow> string list \<Rightarrow> bool \<Rightarrow> go_error + jmap" where
  "apply_tolerations env a obj nodeSpec path profileChanged =
     (if ns_Tolerations nodeSpec = [] then Inr obj
      else
        and_then (convert_tolerations env (ns_Tolerations nodeSpec)) (\<lambda>hwpTolerations.
          if profileChanged then context_err ''failed to set tolerations'' (ua_SetNestedSlice a obj hwpTolerations path)
          else
            and_then (context_err ''failed to merge tolerations'' (mergeTolerations env a obj path hwpTolerations))
              (\<lambda>merged. context_err ''failed to set merged tolerations'' (ua_SetNestedSlice a obj merged path))))"

definition applyNodeSchedulingConfiguration ::
  "hwp_env \<Rightarrow> unstructured_api \<Rightarrow> jmap \<Rightarrow> NodeSchedulingSpec \<Rightarrow> bool \<Rightarrow> string \<Rightarrow> go_error + jmap \<times> string list" where
  "applyNodeSchedulingConfiguration env a obj nodeSpec profileChanged hwpName =
     (case GetWorkloadConfig (ua_GetKind a obj) of
        Inl _ \<Rightarrow> Inl (new_error (''unsupported workload kind for node scheduling: '' @ ua_GetKind a obj))
      | Inr config \<Rightarrow>
          and_then (apply_node_selector a obj nodeSpec (wc_NodeSelectorPath config) profileChanged hwpName) (\<lambda>(obj, ws).
          and_then (apply_tolerations env a obj nodeSpec (wc_TolerationsPath config) profileChanged) (\<lambda>obj. Inr (obj, ws))))"

text \<open>The profile's queue, when it names one.\<close>

definition local_queue :: "SchedulingSpec option \<Rightarrow> string" where
  "local_queue spec = (case spec of None \<Rightarrow> '''' | Some s \<Rightarrow> (case ss_Kueue s of None \<Rightarrow> '''' | Some q \<Rightarrow> q))"

definition clear_scheduling :: "unstructured_api \<Rightarrow> jmap \<Rightarrow> go_error + jmap" where
  "clear_scheduling a obj =
     (let obj = ua_RemoveLabel a obj KueueQueueNameLabel in
      case GetWorkloadConfig (ua_GetKind a obj) of
        Inl err \<Rightarrow> Inl (wrap (''failed to clear scheduling fields - unsupported workload kind: '' @ ua_GetKind a obj) err)
      | Inr config \<Rightarrow> Inr (ua_RemoveNestedField a (ua_RemoveNestedField a obj (wc_NodeSelectorPath config)) (wc_TolerationsPath config)))"

definition apply_scheduling ::
  "hwp_env \<Rightarrow> unstructured_api \<Rightarrow> jmap \<Rightarrow> HardwareProfile \<Rightarrow> bool \<Rightarrow> go_error + jmap \<times> string list" where
  "apply_scheduling env a obj hwp profileChanged =
     (let queue = local_queue (hwp_SchedulingSpec hwp) in
      if queue \<noteq> '''' then
        let existing = ua_GetLabel a obj KueueQueueNameLabel;
            warnings = (if \<not> profileChanged \<and> existing \<noteq> '''' \<and> existing \<noteq> queue then
              [''label '' @ apos KueueQueueNameLabel @ '' has value '' @ apos existing @ '' which will be overwritten by HardwareProfile '' @
               apos (hwp_Name hwp) @ '' which has value '' @ apos queue] else [])
        in Inr (ua_SetLabel a obj KueueQueueNameLabel queue, warnings)
      else
        case Option.bind (hwp_SchedulingSpec hwp) ss_Node of
          None \<Rightarrow> Inr (obj, [])
        | Some node \<Rightarrow>
            context_err ''failed to apply node scheduling configuration''
              (applyNodeSchedulingConfiguration env a obj node profileChanged (hwp_Name hwp)))"

definition applyHardwareProfileToWorkload ::
  "hwp_env \<Rightarrow> unstructured_api \<Rightarrow> jmap \<Rightarrow> HardwareProfile \<Rightarrow> bool \<Rightarrow> go_error + jmap \<times> string list" where
  "applyHardwareProfileToWorkload env a obj hwp profileChanged =
     and_then (if profileChanged then clear_scheduling a obj else Inr obj) (\<lambda>obj.
     and_then (if hwp_Identifiers hwp = [] then Inr obj
               else context_err ''failed to apply resource requirements'' (applyResourceRequirementsToWorkload env a obj hwp)) (\<lambda>obj.
       apply_scheduling env a obj hwp profileChanged))"

section \<open>Removal\<close>

definition removeHWPTolerations :: "hwp_env \<Rightarrow> unstructured_api \<Rightarrow> jmap \<Rightarrow> string list \<Rightarrow> Toleration list \<Rightarrow> go_error + jmap" where
  "removeHWPTolerations env a obj path hwpTolerations =
     and_then (ua_NestedSlice a obj path) (\<lambda>found.
       case found of
         None \<Rightarrow> Inr obj
       | Some existing \<Rightarrow>
           if existing = [] then Inr obj
           else
             let remaining = tolerations_except env (map tolerationKeyFromCoreV1 hwpTolerations) existing in
             if remaining = [] then Inr (ua_RemoveNestedField a obj path) else ua_SetNestedSlice a obj remaining path)"

definition removeHWPNodeSelector :: "unstructured_api \<Rightarrow> jmap \<Rightarrow> string list \<Rightarrow> (string, string) gomap \<Rightarrow> go_error + jmap" where
  "removeHWPNodeSelector a obj path hwpNodeSelector =
     and_then (ua_NestedStringMap a obj path) (\<lambda>found.
       case found of
         None \<Rightarrow> Inr obj
       | Some existing \<Rightarrow>
           if existing = [] then Inr obj
           else
             let remaining = foldl (\<lambda>d (k, v). if map_of d k = Some v then AList.delete k d else d) existing hwpNodeSelector in
             if remaining = [] then Inr (ua_RemoveNestedField a obj path) else ua_SetNestedStringMap a obj remaining path)"

definition removeHWPSettings :: "hwp_env \<Rightarrow> unstructured_api \<Rightarrow> jmap \<Rightarrow> HardwareProfile \<Rightarrow> go_error + jmap" where
  "removeHWPSettings env a obj hwp =
     and_then (GetWorkloadConfig (ua_GetKind a obj)) (\<lambda>config.
     and_then
       (case Option.bind (hwp_SchedulingSpec hwp) ss_Node of
          None \<Rightarrow> Inr obj
        | Some node \<Rightarrow>
            and_then (if ns_Tolerations node = [] then Inr obj
                      else context_err ''failed to remove HWP tolerations'' (removeHWPTolerations env a obj (wc_TolerationsPath config) (ns_Tolerations node)))
              (\<lambda>obj. if ns_NodeSelector node = [] then Inr obj
                     else context_err ''failed to remove HWP nodeSelector''
                            (removeHWPNodeSelector a obj (wc_NodeSelectorPath config) (ns_NodeSelector node))))
       (\<lambda>obj. Inr (if local_queue (hwp_SchedulingSpec hwp) \<noteq> '''' then ua_RemoveLabel a obj KueueQueueNameLabel else obj)))"

section \<open>The webhook\<close>

text \<open>The profile an object names: its annotation, and the namespace it defaults to.\<close>

definition profile_namespace :: "unstructured_api \<Rightarrow> jmap \<Rightarrow> string" where
  "profile_namespace a obj =
     (let ns = ua_GetAnnotation a obj HardwareProfileNamespaceAnnotation in if ns = '''' then ua_GetNamespace a obj else ns)"

definition detectProfileChange :: "hwp_env \<Rightarrow> unstructured_api \<Rightarrow> web_request \<Rightarrow> string \<Rightarrow> string \<Rightarrow> bool" where
  "detectProfileChange env a req newProfileName newProfileNamespace =
     (if wq_Operation req = ''CREATE'' then False
      else
        case wq_OldObject req of
          None \<Rightarrow> True
        | Some raw \<Rightarrow>
            (case he_Unmarshal env raw of
               Inl _ \<Rightarrow> True
             | Inr oldObj \<Rightarrow>
                 let oldProfileName = ua_GetAnnotation a oldObj HardwareProfileNameAnnotation in
                 if oldProfileName = '''' then False
                 else oldProfileName \<noteq> newProfileName \<or> profile_namespace a oldObj \<noteq> newProfileNamespace))"

definition handleHWPRemoval :: "hwp_env \<Rightarrow> unstructured_api \<Rightarrow> web_request \<Rightarrow> jmap \<Rightarrow> web_response option" where
  "handleHWPRemoval env a req obj =
     (case Option.bind (wq_OldObject req) (\<lambda>raw. case he_Unmarshal env raw of Inl _ \<Rightarrow> None | Inr oldObj \<Rightarrow> Some oldObj) of
        None \<Rightarrow> None
      | Some oldObj \<Rightarrow>
          let oldProfileName = ua_GetAnnotation a oldObj HardwareProfileNameAnnotation in
          if oldProfileName = '''' then None
          else
            case he_Get env (profile_namespace a oldObj) oldProfileName of
              Inl _ \<Rightarrow>
                let obj = ua_RemoveAnnotation a obj HardwareProfileNamespaceAnnotation in
                (case he_Marshal env obj of Inl _ \<Rightarrow> None | Inr _ \<Rightarrow> Some (Patch obj []))
            | Inr oldHWP \<Rightarrow>
                (case removeHWPSettings env a obj oldHWP of
                   Inl err \<Rightarrow> Some (web_Errored StatusInternalServerError err)
                 | Inr obj \<Rightarrow>
                     let obj = ua_RemoveAnnotation a obj HardwareProfileNamespaceAnnotation in
                     (case he_Marshal env obj of
                        Inl err \<Rightarrow> Some (web_Errored StatusInternalServerError err) | Inr _ \<Rightarrow> Some (Patch obj []))))"

definition apply_and_respond ::
  "hwp_env \<Rightarrow> unstructured_api \<Rightarrow> jmap \<Rightarrow> HardwareProfile \<Rightarrow> bool \<Rightarrow> web_response \<times> event list" where
  "apply_and_respond env a obj hwp profileChanged =
     (case applyHardwareProfileToWorkload env a obj hwp profileChanged of
        Inl err \<Rightarrow> hwp_Errored StatusInternalServerError err
      | Inr (obj, warnings) \<Rightarrow>
          (case he_Marshal env obj of Inl err \<Rightarrow> hwp_Errored StatusInternalServerError err | Inr _ \<Rightarrow> (Patch obj warnings, [])))"

definition annotate_namespace :: "unstructured_api \<Rightarrow> jmap \<Rightarrow> string \<Rightarrow> jmap" where
  "annotate_namespace a obj profileNamespace =
     (if ua_GetAnnotation a obj HardwareProfileNamespaceAnnotation = ''''
      then ua_SetAnnotation a obj HardwareProfileNamespaceAnnotation profileNamespace else obj)"

definition performHardwareProfileInjection ::
  "hwp_env \<Rightarrow> unstructured_api \<Rightarrow> web_request \<Rightarrow> jmap \<Rightarrow> web_response \<times> event list" where
  "performHardwareProfileInjection env a req obj =
     (let profileName = ua_GetAnnotation a obj HardwareProfileNameAnnotation; profileNamespace = profile_namespace a obj in
      if profileName = '''' then
        (case (if wq_Operation req = ''UPDATE'' then handleHWPRemoval env a req obj else None) of
           Some resp \<Rightarrow> (resp, []) | None \<Rightarrow> hwp_Allowed ''No hardware profile annotation found'')
      else if profileNamespace = '''' then
        hwp_Errored StatusBadRequest (new_error ''unable to determine hardware profile namespace'')
      else
        case he_Get env profileNamespace profileName of
          Inl failure \<Rightarrow>
            if err_is NotFound (api_error failure) then
              hwp_Errored StatusBadRequest
                (new_error (''hardware profile '' @ apos profileName @ '' not found in namespace '' @ apos profileNamespace))
            else
              hwp_Errored StatusInternalServerError
                (wrap (''failed to get hardware profile '' @ apos profileName @ '' from namespace '' @ apos profileNamespace) (api_error failure))
        | Inr hwp \<Rightarrow>
            let obj = annotate_namespace a obj profileNamespace in
            (case validateContainerNames a obj of
               Some err \<Rightarrow> skip_profile env a obj hwp err
             | None \<Rightarrow> apply_and_respond env a obj hwp (detectProfileChange env a req profileName profileNamespace)))"

definition Injector_Handle :: "hwp_env \<Rightarrow> unstructured_api \<Rightarrow> web_request \<Rightarrow> web_response \<times> event list" where
  "Injector_Handle env a req =
     (case he_Decoder env of
        None \<Rightarrow> hwp_Errored StatusInternalServerError (new_error ''webhook decoder not initialized'')
      | Some decode \<Rightarrow>
          if \<not> Injector_isExpectedKind (wq_Kind req) then
            hwp_Errored StatusBadRequest (new_error (''unexpected kind: '' @ gvk_Kind (wq_Kind req)))
          else
            case DecodeUnstructured decode req of
              Inl err \<Rightarrow> hwp_Errored StatusInternalServerError err
            | Inr obj \<Rightarrow>
                if ua_Deleting a obj then hwp_Allowed ''Object marked for deletion, skipping hardware profile injection''
                else if wq_Operation req = ''CREATE'' \<or> wq_Operation req = ''UPDATE''
                then performHardwareProfileInjection env a req obj
                else hwp_Allowed (''Operation '' @ wq_Operation req @ '' on '' @ gvk_Kind (wq_Kind req) @ '' allowed''))"

section \<open>The scheduling settings, abstractly\<close>

text \<open>
  What a profile is about: the node selector as a map, the tolerations in order, and the queue. Applying a profile merges its
  settings into those of the workload, or into none when the workload switches profiles; removing it takes them out.
\<close>

record sched =
  sc_Selector :: "string \<Rightarrow> string option"
  sc_Tolerations :: "jval list"
  sc_Queue :: string

definition no_sched :: sched where
  "no_sched = \<lparr>sc_Selector = Map.empty, sc_Tolerations = [], sc_Queue = ''''\<rparr>"

definition hwp_node :: "HardwareProfile \<Rightarrow> NodeSchedulingSpec" where
  "hwp_node hwp = (case Option.bind (hwp_SchedulingSpec hwp) ss_Node of
     None \<Rightarrow> \<lparr>ns_NodeSelector = [], ns_Tolerations = []\<rparr> | Some node \<Rightarrow> node)"

definition hwp_keys :: "HardwareProfile \<Rightarrow> string list" where
  "hwp_keys hwp = map tolerationKeyFromCoreV1 (ns_Tolerations (hwp_node hwp))"

definition converted :: "hwp_env \<Rightarrow> Toleration \<Rightarrow> jval" where
  "converted env t = (case he_ToUnstructured env t of Inr m \<Rightarrow> JMap m | Inl _ \<Rightarrow> JOther '''')"

definition merge_sched :: "hwp_env \<Rightarrow> HardwareProfile \<Rightarrow> sched \<Rightarrow> sched" where
  "merge_sched env hwp s =
     (let queue = local_queue (hwp_SchedulingSpec hwp); node = hwp_node hwp in
      if queue \<noteq> '''' then s\<lparr>sc_Queue := queue\<rparr>
      else
        s\<lparr>sc_Selector := sc_Selector s ++ map_of (ns_NodeSelector node),
          sc_Tolerations := (if ns_Tolerations node = [] then sc_Tolerations s
            else map (converted env) (ns_Tolerations node) @ tolerations_except env (hwp_keys hwp) (sc_Tolerations s))\<rparr>)"

definition apply_sched :: "hwp_env \<Rightarrow> HardwareProfile \<Rightarrow> bool \<Rightarrow> sched \<Rightarrow> sched" where
  "apply_sched env hwp profileChanged s = merge_sched env hwp (if profileChanged then no_sched else s)"

definition drop_matching :: "(string \<Rightarrow> string option) \<Rightarrow> (string \<Rightarrow> string option) \<Rightarrow> string \<Rightarrow> string option" where
  "drop_matching m h k = (if m k = h k then None else m k)"

definition remove_sched :: "hwp_env \<Rightarrow> HardwareProfile \<Rightarrow> sched \<Rightarrow> sched" where
  "remove_sched env hwp s =
     s\<lparr>sc_Selector := drop_matching (sc_Selector s) (map_of (ns_NodeSelector (hwp_node hwp))),
       sc_Tolerations := (if hwp_keys hwp = [] then sc_Tolerations s else tolerations_except env (hwp_keys hwp) (sc_Tolerations s)),
       sc_Queue := (if local_queue (hwp_SchedulingSpec hwp) \<noteq> '''' then '''' else sc_Queue s)\<rparr>"

text \<open>The settings of an object whose fields have the types of the API, at the paths of its kind.\<close>

definition selector_at :: "found \<Rightarrow> string \<Rightarrow> string option" where
  "selector_at f k = (case f of Value (JMap m) \<Rightarrow> (case map_of m k of Some (JString s) \<Rightarrow> Some s | _ \<Rightarrow> None) | _ \<Rightarrow> None)"

definition list_at :: "found \<Rightarrow> jval list" where
  "list_at f = (case f of Value (JList xs) \<Rightarrow> xs | _ \<Rightarrow> [])"

definition sched_of :: "unstructured_api \<Rightarrow> WorkloadConfig \<Rightarrow> jmap \<Rightarrow> sched" where
  "sched_of a cfg obj =
     \<lparr>sc_Selector = selector_at (lookup obj (wc_NodeSelectorPath cfg)), sc_Tolerations = list_at (lookup obj (wc_TolerationsPath cfg)),
      sc_Queue = ua_GetLabel a obj KueueQueueNameLabel\<rparr>"

definition typed_sched :: "WorkloadConfig \<Rightarrow> jmap \<Rightarrow> bool" where
  "typed_sched cfg obj \<longleftrightarrow>
     (lookup obj (wc_NodeSelectorPath cfg) = Absent \<or>
        (\<exists>d. gomap_wf d \<and> lookup obj (wc_NodeSelectorPath cfg) = Value (JMap (string_map d)))) \<and>
     (lookup obj (wc_TolerationsPath cfg) = Absent \<or> (\<exists>ts. lookup obj (wc_TolerationsPath cfg) = Value (JList ts)))"

text \<open>What the code relies on in the conversion of a toleration and in \<open>fmt.Sprintf("%v")\<close> of a number.\<close>

definition toleration_laws :: "hwp_env \<Rightarrow> bool" where
  "toleration_laws env \<longleftrightarrow>
     (\<forall>t. \<exists>m. he_ToUnstructured env t = Inr m \<and> string_field m ''key'' = tol_Key t \<and> string_field m ''operator'' = tol_Operator t \<and>
        string_field m ''value'' = tol_Value t \<and> string_field m ''effect'' = tol_Effect t \<and>
        map_of m ''tolerationSeconds'' = map_option (\<lambda>s. JOther (fmt_int s)) (tol_TolerationSeconds t)) \<and>
     (\<forall>s. he_fmt_v env (JOther s) = s)"

lemma converted_key:
  assumes "toleration_laws env"
  shows "\<exists>m. he_ToUnstructured env t = Inr m \<and> converted env t = JMap m \<and> TolerationKey env m = tolerationKeyFromCoreV1 t"
proof -
  obtain m where m: "he_ToUnstructured env t = Inr m" "string_field m ''key'' = tol_Key t" "string_field m ''operator'' = tol_Operator t"
    "string_field m ''value'' = tol_Value t" "string_field m ''effect'' = tol_Effect t"
    "map_of m ''tolerationSeconds'' = map_option (\<lambda>s. JOther (fmt_int s)) (tol_TolerationSeconds t)"
    using assms by (auto simp: toleration_laws_def)
  then have "TolerationKey env m = tolerationKeyFromCoreV1 t"
    using assms by (simp add: TolerationKey_def tolerationKeyFromCoreV1_def toleration_laws_def split: option.split)
  with m(1) show ?thesis by (simp add: converted_def)
qed

lemma convert_tolerations_Inr: "toleration_laws env \<Longrightarrow> convert_tolerations env ts = Inr (map (converted env) ts)"
proof (induction ts)
  case (Cons t ts)
  then show ?case using converted_key [OF Cons.prems, of t] by auto
qed simp

lemma map_keys_converted: "toleration_laws env \<Longrightarrow> map_keys env (map (converted env) ts) = map tolerationKeyFromCoreV1 ts"
proof (induction ts)
  case (Cons t ts)
  then show ?case using converted_key [OF Cons.prems, of t] by (auto simp: map_keys_def List.map_filter_simps)
qed (simp add: map_keys_def List.map_filter_simps)

lemma tolerations_except_append [simp]:
  "tolerations_except env ks (xs @ ys) = tolerations_except env ks xs @ tolerations_except env ks ys"
  "tolerations_except env ks [] = []"
  by (simp_all add: tolerations_except_def)

lemma tolerations_except_twice [simp]: "tolerations_except env ks (tolerations_except env ks xs) = tolerations_except env ks xs"
  by (simp add: tolerations_except_def)


lemma selector_at_simps [simp]:
  "selector_at Absent = Map.empty" "selector_at (Value (JMap (string_map d))) = map_of d" "list_at Absent = []" "list_at (Value (JList xs)) = xs"
  by (auto simp: selector_at_def list_at_def map_of_string_map fun_eq_iff split: option.split)

text \<open>The paths of a kind are under \<open>spec\<close> and independent of each other.\<close>

lemma config_paths:
  assumes "GetWorkloadConfig kind = Inr cfg"
  obtains c n t where "wc_ContainersPath cfg = ''spec'' # c" "wc_NodeSelectorPath cfg = ''spec'' # n" "wc_TolerationsPath cfg = ''spec'' # t"
    "independent (''spec'' # c) (''spec'' # n)" "independent (''spec'' # c) (''spec'' # t)"
    "independent (''spec'' # n) (''spec'' # t)" "independent (''spec'' # t) (''spec'' # n)"
  using assms by (auto simp: GetWorkloadConfig_def split: if_splits)

section \<open>The webhook implements the abstract operations\<close>

lemma sched_update_same:
  "sc_Tolerations s = ts \<Longrightarrow> s\<lparr>sc_Tolerations := ts\<rparr> = s" "sc_Selector s = m \<Longrightarrow> s\<lparr>sc_Selector := m\<rparr> = s" "sc_Queue s = q \<Longrightarrow> s\<lparr>sc_Queue := q\<rparr> = s"
  by auto

lemma map_of_drop_pairs:
  "gomap_wf hs \<Longrightarrow> map_of (foldl (\<lambda>d (k, v). if map_of d k = Some v then AList.delete k d else d) d hs) k =
     (if map_of d k = map_of hs k then None else map_of d k)"
proof (induction hs arbitrary: d)
  case (Cons h hs)
  obtain k0 v0 where h: "h = (k0, v0)" by fastforce
  with Cons.prems have "gomap_wf hs" "map_of hs k0 = None"
    by (auto simp: gomap_wf_def map_of_eq_None_iff)
  with Cons.IH h show ?case
    by (auto simp: go_map_simps)
qed simp

lemma gomap_wf_drop_pairs:
  "gomap_wf d \<Longrightarrow> gomap_wf (foldl (\<lambda>d (k, v). if map_of d k = Some v then AList.delete k d else d) d hs)"
  by (induction hs arbitrary: d) auto

lemma typed_storable:
  assumes "GetWorkloadConfig kind = Inr cfg" "typed_sched cfg obj"
  shows "\<exists>obj'. store obj (wc_NodeSelectorPath cfg) v = Some obj'" "\<exists>obj'. store obj (wc_TolerationsPath cfg) v = Some obj'"
proof -
  obtain n t where "wc_NodeSelectorPath cfg = ''spec'' # n" "wc_TolerationsPath cfg = ''spec'' # t"
    by (rule config_paths [OF assms(1)])
  moreover have "lookup obj (wc_NodeSelectorPath cfg) \<noteq> Broken" "lookup obj (wc_TolerationsPath cfg) \<noteq> Broken"
    using assms(2) unfolding typed_sched_def by (metis found.distinct)+
  ultimately show "\<exists>obj'. store obj (wc_NodeSelectorPath cfg) v = Some obj'" "\<exists>obj'. store obj (wc_TolerationsPath cfg) v = Some obj'"
    by (metis list.distinct(1) store_total)+
qed

lemma removeHWPSettings_node:
  "removeHWPSettings env a obj hwp =
     and_then (GetWorkloadConfig (ua_GetKind a obj)) (\<lambda>config.
     and_then (and_then (if ns_Tolerations (hwp_node hwp) = [] then Inr obj
         else context_err ''failed to remove HWP tolerations'' (removeHWPTolerations env a obj (wc_TolerationsPath config) (ns_Tolerations (hwp_node hwp))))
       (\<lambda>obj. if ns_NodeSelector (hwp_node hwp) = [] then Inr obj
         else context_err ''failed to remove HWP nodeSelector'' (removeHWPNodeSelector a obj (wc_NodeSelectorPath config) (ns_NodeSelector (hwp_node hwp)))))
     (\<lambda>obj. Inr (if local_queue (hwp_SchedulingSpec hwp) \<noteq> '''' then ua_RemoveLabel a obj KueueQueueNameLabel else obj)))"
  by (cases "Option.bind (hwp_SchedulingSpec hwp) ss_Node") (simp_all add: removeHWPSettings_def hwp_node_def cong: if_cong)

lemma typed_sched_cong:
  "lookup obj' (wc_NodeSelectorPath cfg) = lookup obj (wc_NodeSelectorPath cfg) \<Longrightarrow>
   lookup obj' (wc_TolerationsPath cfg) = lookup obj (wc_TolerationsPath cfg) \<Longrightarrow> typed_sched cfg obj' = typed_sched cfg obj"
  by (simp add: typed_sched_def)

context workload_api
begin

text \<open>One step of the webhook: the settings it leaves, given that it keeps the kind.\<close>

definition step :: "WorkloadConfig \<Rightarrow> jmap \<Rightarrow> jmap \<Rightarrow> sched \<Rightarrow> bool" where
  "step cfg obj obj' s \<longleftrightarrow> ua_GetKind a obj' = ua_GetKind a obj \<and> typed_sched cfg obj' \<and> sched_of a cfg obj' = s"

lemma step_same: "typed_sched cfg obj \<Longrightarrow> step cfg obj obj (sched_of a cfg obj)"
  by (simp add: step_def)

lemma store_elsewhere:
  assumes "GetWorkloadConfig kind = Inr cfg" "typed_sched cfg obj" "store obj (wc_ContainersPath cfg) v = Some obj'"
  shows "step cfg obj obj' (sched_of a cfg obj)"
proof -
  obtain c n t where p: "wc_ContainersPath cfg = ''spec'' # c" "wc_NodeSelectorPath cfg = ''spec'' # n" "wc_TolerationsPath cfg = ''spec'' # t"
    "independent (''spec'' # c) (''spec'' # n)" "independent (''spec'' # c) (''spec'' # t)"
    by (rule config_paths [OF assms(1)])
  note st = assms(3) [unfolded p(1)]
  have "lookup obj' (wc_NodeSelectorPath cfg) = lookup obj (wc_NodeSelectorPath cfg)"
    "lookup obj' (wc_TolerationsPath cfg) = lookup obj (wc_TolerationsPath cfg)"
    unfolding p(2,3) by (rule lookup_store_independent [OF st p(4)], rule lookup_store_independent [OF st p(5)])
  with store_spec_meta [OF st] assms(2) show ?thesis
    unfolding step_def typed_sched_def sched_of_def same_identity_def by metis
qed

lemma selector_stored:
  assumes "GetWorkloadConfig kind = Inr cfg" "typed_sched cfg obj" "gomap_wf d"
    and "store obj (wc_NodeSelectorPath cfg) (JMap (string_map d)) = Some obj'"
  shows "step cfg obj obj' ((sched_of a cfg obj)\<lparr>sc_Selector := map_of d\<rparr>)"
proof -
  obtain c n t where p: "wc_NodeSelectorPath cfg = ''spec'' # n" "wc_TolerationsPath cfg = ''spec'' # t"
    "independent (''spec'' # n) (''spec'' # t)"
    by (rule config_paths [OF assms(1)])
  note st = assms(4) [unfolded p(1)]
  have "lookup obj' (wc_NodeSelectorPath cfg) = Value (JMap (string_map d))"
    "lookup obj' (wc_TolerationsPath cfg) = lookup obj (wc_TolerationsPath cfg)"
    unfolding p(1,2) by (rule lookup_store [OF st], rule lookup_store_independent [OF st p(3)])
  then show ?thesis
    using store_spec_meta [OF st] assms(2,3) by (auto simp: step_def typed_sched_def sched_of_def same_identity_def)
qed

lemma tolerations_stored:
  assumes "GetWorkloadConfig kind = Inr cfg" "typed_sched cfg obj" "store obj (wc_TolerationsPath cfg) (JList ts) = Some obj'"
  shows "step cfg obj obj' ((sched_of a cfg obj)\<lparr>sc_Tolerations := ts\<rparr>)"
proof -
  obtain c n t where p: "wc_NodeSelectorPath cfg = ''spec'' # n" "wc_TolerationsPath cfg = ''spec'' # t"
    "independent (''spec'' # t) (''spec'' # n)"
    by (rule config_paths [OF assms(1)])
  note st = assms(3) [unfolded p(2)]
  have "lookup obj' (wc_TolerationsPath cfg) = Value (JList ts)"
    "lookup obj' (wc_NodeSelectorPath cfg) = lookup obj (wc_NodeSelectorPath cfg)"
    unfolding p(1,2) by (rule lookup_store [OF st], rule lookup_store_independent [OF st p(3)])
  then show ?thesis
    using store_spec_meta [OF st] assms(2) by (auto simp: step_def typed_sched_def sched_of_def same_identity_def)
qed

lemma fields_erased:
  assumes "GetWorkloadConfig kind = Inr cfg" "typed_sched cfg obj"
  shows "step cfg obj (erase obj (wc_NodeSelectorPath cfg)) ((sched_of a cfg obj)\<lparr>sc_Selector := Map.empty\<rparr>)"
    and "step cfg obj (erase obj (wc_TolerationsPath cfg)) ((sched_of a cfg obj)\<lparr>sc_Tolerations := []\<rparr>)"
proof -
  obtain c n t where p: "wc_NodeSelectorPath cfg = ''spec'' # n" "wc_TolerationsPath cfg = ''spec'' # t"
    "independent (''spec'' # n) (''spec'' # t)" "independent (''spec'' # t) (''spec'' # n)"
    by (rule config_paths [OF assms(1)])
  have "lookup obj (''spec'' # n) \<noteq> Broken" "lookup obj (''spec'' # t) \<noteq> Broken"
    using assms(2) by (auto simp: typed_sched_def p simp del: lookup.simps)
  then have gone: "lookup (erase obj (''spec'' # n)) (''spec'' # n) = Absent" "lookup (erase obj (''spec'' # t)) (''spec'' # t) = Absent"
    "lookup (erase obj (''spec'' # n)) (''spec'' # t) = lookup obj (''spec'' # t)"
    "lookup (erase obj (''spec'' # t)) (''spec'' # n) = lookup obj (''spec'' # n)"
    using lookup_erase [of "''spec'' # n" obj] lookup_erase [of "''spec'' # t" obj]
      lookup_erase_independent [OF p(3)] lookup_erase_independent [OF p(4)] by (auto simp del: lookup.simps erase.simps)
  then show "step cfg obj (erase obj (wc_NodeSelectorPath cfg)) ((sched_of a cfg obj)\<lparr>sc_Selector := Map.empty\<rparr>)"
    "step cfg obj (erase obj (wc_TolerationsPath cfg)) ((sched_of a cfg obj)\<lparr>sc_Tolerations := []\<rparr>)"
    using erase_spec_meta [of obj n] erase_spec_meta [of obj t] assms(2)
    by (simp_all add: step_def typed_sched_def sched_of_def same_identity_def p del: lookup.simps erase.simps)
qed

end

context workload_api
begin

lemma step_trans:
  "step cfg obj obj1 s1 \<Longrightarrow> step cfg obj1 obj2 s2 \<Longrightarrow> step cfg obj obj2 s2"
  by (simp add: step_def)

lemma stepD: "step cfg obj obj' s \<Longrightarrow> typed_sched cfg obj' \<and> sched_of a cfg obj' = s \<and> ua_GetKind a obj' = ua_GetKind a obj"
  by (simp add: step_def)

lemma typed_reads:
  assumes "typed_sched cfg obj"
  obtains d ts where "gomap_wf d" "ua_NestedStringMap a obj (wc_NodeSelectorPath cfg) = Inr None \<and> d = [] \<or>
      ua_NestedStringMap a obj (wc_NodeSelectorPath cfg) = Inr (Some d)"
    and "ua_NestedSlice a obj (wc_TolerationsPath cfg) = Inr None \<and> ts = [] \<or> ua_NestedSlice a obj (wc_TolerationsPath cfg) = Inr (Some ts)"
    and "sc_Selector (sched_of a cfg obj) = map_of d" "sc_Tolerations (sched_of a cfg obj) = ts"
proof -
  obtain d where "gomap_wf d" "ua_NestedStringMap a obj (wc_NodeSelectorPath cfg) = Inr None \<and> d = [] \<or>
      ua_NestedStringMap a obj (wc_NodeSelectorPath cfg) = Inr (Some d)" "sc_Selector (sched_of a cfg obj) = map_of d"
    using assms nested_reads(5) [of obj "wc_NodeSelectorPath cfg"] nested_reads(6) [of obj "wc_NodeSelectorPath cfg"] gomap_wf_Nil
    by (fastforce simp: typed_sched_def sched_of_def)
  moreover obtain ts where "ua_NestedSlice a obj (wc_TolerationsPath cfg) = Inr None \<and> ts = [] \<or>
      ua_NestedSlice a obj (wc_TolerationsPath cfg) = Inr (Some ts)" "sc_Tolerations (sched_of a cfg obj) = ts"
    using assms nested_reads(1) [of obj "wc_TolerationsPath cfg"] nested_reads(2) [of obj "wc_TolerationsPath cfg"]
    by (fastforce simp: typed_sched_def sched_of_def)
  ultimately show thesis
    using that by blast
qed

lemma label_steps:
  assumes "typed_sched cfg obj" "GetWorkloadConfig kind = Inr cfg"
  shows "step cfg obj (ua_SetLabel a obj KueueQueueNameLabel q) ((sched_of a cfg obj)\<lparr>sc_Queue := q\<rparr>)"
    and "step cfg obj (ua_RemoveLabel a obj KueueQueueNameLabel) ((sched_of a cfg obj)\<lparr>sc_Queue := ''''\<rparr>)"
proof -
  obtain n t where p: "wc_NodeSelectorPath cfg = ''spec'' # n" "wc_TolerationsPath cfg = ''spec'' # t"
    by (rule config_paths [OF assms(2)])
  show "step cfg obj (ua_SetLabel a obj KueueQueueNameLabel q) ((sched_of a cfg obj)\<lparr>sc_Queue := q\<rparr>)"
    "step cfg obj (ua_RemoveLabel a obj KueueQueueNameLabel) ((sched_of a cfg obj)\<lparr>sc_Queue := ''''\<rparr>)"
    using assms(1) metadata_ops
    by (simp_all add: step_def typed_sched_def sched_of_def p same_identity_def del: lookup.simps)
qed

lemma clear_scheduling_step:
  assumes "GetWorkloadConfig (ua_GetKind a obj) = Inr cfg" "typed_sched cfg obj" "clear_scheduling a obj = Inr obj'"
  shows "step cfg obj obj' no_sched"
proof -
  let ?l = "ua_RemoveLabel a obj KueueQueueNameLabel"
  let ?n = "erase ?l (wc_NodeSelectorPath cfg)"
  note l = label_steps(2) [OF assms(2,1)]
  note n = fields_erased(1) [OF assms(1) conjunct1 [OF stepD [OF l]]]
  note t = fields_erased(2) [OF assms(1) conjunct1 [OF stepD [OF n]]]
  have "obj' = erase ?n (wc_TolerationsPath cfg)"
    using assms(1,3) stepD [OF l] nested_reads(9) by (simp add: clear_scheduling_def)
  moreover have "(sched_of a cfg ?n)\<lparr>sc_Tolerations := []\<rparr> = no_sched"
    using stepD [OF l] stepD [OF n] by (simp add: no_sched_def)
  ultimately show ?thesis
    using step_trans [OF l step_trans [OF n t]] by simp
qed

lemma resources_step:
  assumes "GetWorkloadConfig (ua_GetKind a obj) = Inr cfg" "typed_sched cfg obj"
    and "applyResourceRequirementsToWorkload env a obj hwp = Inr obj'"
  shows "step cfg obj obj' (sched_of a cfg obj)"
proof -
  have "obj' = obj \<or> (\<exists>v. store obj (wc_ContainersPath cfg) v = Some obj')"
    using assms(1,3)
    by (auto simp: applyResourceRequirementsToWorkload_def applyResourceRequirementsToInferenceServiceModel_def
        applyResourceRequirementsToContainers_def and_then_Inr nested_writes Let_def split: if_splits option.splits)
  then show ?thesis
    using step_same [OF assms(2)] store_elsewhere [OF assms(1,2)] by auto
qed

lemma apply_node_selector_step:
  assumes "GetWorkloadConfig kind = Inr cfg" "typed_sched cfg obj" "gomap_wf (ns_NodeSelector node)"
    and "apply_node_selector a obj node (wc_NodeSelectorPath cfg) changed nm = Inr (obj', ws)"
    and "changed \<Longrightarrow> sc_Selector (sched_of a cfg obj) = Map.empty"
  shows "step cfg obj obj' ((sched_of a cfg obj)\<lparr>sc_Selector := sc_Selector (sched_of a cfg obj) ++ map_of (ns_NodeSelector node)\<rparr>)"
proof (cases "ns_NodeSelector node = []")
  case True
  then show ?thesis
    using assms(4) step_same [OF assms(2)] by (simp add: apply_node_selector_def)
next
  case False
  obtain d ts where d: "gomap_wf d" "ua_NestedStringMap a obj (wc_NodeSelectorPath cfg) = Inr None \<and> d = [] \<or>
      ua_NestedStringMap a obj (wc_NodeSelectorPath cfg) = Inr (Some d)" "sc_Selector (sched_of a cfg obj) = map_of d"
    by (rule typed_reads [OF assms(2)])
  define m where "m = (if changed then ns_NodeSelector node else maps_Copy (maps_Copy [] d) (ns_NodeSelector node))"
  have "store obj (wc_NodeSelectorPath cfg) (JMap (string_map m)) = Some obj'"
    using assms(4) False d(2) unfolding m_def
    by (auto simp: apply_node_selector_def mergeNodeSelector_def and_then_Inr nested_writes Let_def split: if_splits)
  moreover have "gomap_wf m" "map_of m = sc_Selector (sched_of a cfg obj) ++ map_of (ns_NodeSelector node)"
    using assms(3,5) d(1,3) by (auto simp: m_def go_map_simps)
  ultimately show ?thesis
    using selector_stored [OF assms(1,2)] by metis
qed

lemma apply_tolerations_step:
  assumes "GetWorkloadConfig kind = Inr cfg" "typed_sched cfg obj" "toleration_laws env"
    and "apply_tolerations env a obj node (wc_TolerationsPath cfg) changed = Inr obj'"
    and "changed \<Longrightarrow> sc_Tolerations (sched_of a cfg obj) = []"
  shows "step cfg obj obj' ((sched_of a cfg obj)\<lparr>sc_Tolerations := (if ns_Tolerations node = [] then sc_Tolerations (sched_of a cfg obj)
    else map (converted env) (ns_Tolerations node) @
      tolerations_except env (map tolerationKeyFromCoreV1 (ns_Tolerations node)) (sc_Tolerations (sched_of a cfg obj)))\<rparr>)"
proof (cases "ns_Tolerations node = []")
  case True
  then show ?thesis
    using assms(4) step_same [OF assms(2)] by (simp add: apply_tolerations_def)
next
  case False
  let ?hw = "map (converted env) (ns_Tolerations node)"
  obtain d ts where ts: "ua_NestedSlice a obj (wc_TolerationsPath cfg) = Inr None \<and> ts = [] \<or>
      ua_NestedSlice a obj (wc_TolerationsPath cfg) = Inr (Some ts)" "sc_Tolerations (sched_of a cfg obj) = ts"
    by (rule typed_reads [OF assms(2)])
  have "store obj (wc_TolerationsPath cfg)
      (JList (?hw @ tolerations_except env (map tolerationKeyFromCoreV1 (ns_Tolerations node)) ts)) = Some obj'"
    using assms(4,5) False ts
    by (auto simp: apply_tolerations_def mergeTolerations_def and_then_Inr nested_writes convert_tolerations_Inr [OF assms(3)]
        map_keys_converted [OF assms(3)] split: if_splits)
  from tolerations_stored [OF assms(1,2) this] False ts(2) show ?thesis
    by simp
qed

end

context workload_api
begin

lemma apply_scheduling_step:
  assumes cfg: "GetWorkloadConfig (ua_GetKind a obj) = Inr cfg" and typed: "typed_sched cfg obj" and env: "toleration_laws env"
    and wf: "gomap_wf (ns_NodeSelector (hwp_node hwp))" and run: "apply_scheduling env a obj hwp changed = Inr (obj', ws)"
    and cleared: "changed \<Longrightarrow> sched_of a cfg obj = no_sched"
  shows "step cfg obj obj' (merge_sched env hwp (sched_of a cfg obj))"
proof -
  consider (queue) "local_queue (hwp_SchedulingSpec hwp) \<noteq> ''''"
    | (none) "local_queue (hwp_SchedulingSpec hwp) = ''''" "Option.bind (hwp_SchedulingSpec hwp) ss_Node = None"
    | (node) node where "local_queue (hwp_SchedulingSpec hwp) = ''''" "Option.bind (hwp_SchedulingSpec hwp) ss_Node = Some node"
    by fastforce
  then show ?thesis
  proof cases
    case queue
    then show ?thesis
      using run label_steps(1) [OF typed cfg] by (auto simp: apply_scheduling_def merge_sched_def Let_def)
  next
    case none
    then show ?thesis
      using run step_same [OF typed] by (auto simp: apply_scheduling_def merge_sched_def Let_def hwp_node_def)
  next
    case node
    then have hn: "hwp_node hwp = node" by (simp add: hwp_node_def)
    obtain obj1 where sel: "apply_node_selector a obj node (wc_NodeSelectorPath cfg) changed (hwp_Name hwp) = Inr (obj1, ws)"
      and tol: "apply_tolerations env a obj1 node (wc_TolerationsPath cfg) changed = Inr obj'"
      using run node cfg by (auto simp: apply_scheduling_def Let_def applyNodeSchedulingConfiguration_def and_then_Inr)
    have "step cfg obj obj1 ((sched_of a cfg obj)\<lparr>sc_Selector := sc_Selector (sched_of a cfg obj) ++ map_of (ns_NodeSelector node)\<rparr>)"
      using cleared by (intro apply_node_selector_step [OF cfg typed wf [unfolded hn] sel]) (simp add: no_sched_def)
    note s1 = this stepD [OF this]
    have "changed \<Longrightarrow> sc_Tolerations (sched_of a cfg obj1) = []"
      using cleared s1(2) by (simp add: no_sched_def)
    note s2 = apply_tolerations_step [OF cfg conjunct1 [OF s1(2)] env tol this]
    from step_trans [OF s1(1) s2] show ?thesis
      using s1(2) node hn by (simp add: merge_sched_def Let_def hwp_keys_def sched_update_same split: if_splits)
  qed
qed

lemma apply_step:
  assumes cfg: "GetWorkloadConfig (ua_GetKind a obj) = Inr cfg" and typed: "typed_sched cfg obj" and env: "toleration_laws env"
    and wf: "gomap_wf (ns_NodeSelector (hwp_node hwp))" and run: "applyHardwareProfileToWorkload env a obj hwp changed = Inr (obj', ws)"
  shows "step cfg obj obj' (apply_sched env hwp changed (sched_of a cfg obj))"
proof -
  let ?s0 = "if changed then no_sched else sched_of a cfg obj"
  obtain obj1 obj2 where r: "(if changed then clear_scheduling a obj else Inr obj) = Inr obj1"
    "hwp_Identifiers hwp = [] \<and> obj2 = obj1 \<or> applyResourceRequirementsToWorkload env a obj1 hwp = Inr obj2"
    "apply_scheduling env a obj2 hwp changed = Inr (obj', ws)"
    using run by (auto simp: applyHardwareProfileToWorkload_def and_then_Inr split: if_splits)
  have s1: "step cfg obj obj1 ?s0"
    using r(1) clear_scheduling_step [OF cfg typed] step_same [OF typed] by (auto split: if_splits)
  note d1 = stepD [OF s1]
  have s2: "step cfg obj1 obj2 ?s0"
    using r(2) resources_step [of obj1 cfg env hwp obj2] step_same [of cfg obj1] d1 cfg by metis
  note d2 = stepD [OF s2]
  have "step cfg obj2 obj' (merge_sched env hwp ?s0)"
    using apply_scheduling_step [of obj2 cfg env hwp changed obj' ws] r(3) d1 d2 cfg env wf by (auto split: if_splits)
  from step_trans [OF s1 step_trans [OF s2 this]] show ?thesis
    by (simp add: apply_sched_def)
qed

lemma remove_tolerations_step:
  assumes cfg: "GetWorkloadConfig kind = Inr cfg" and typed: "typed_sched cfg obj"
  shows "\<exists>obj'. removeHWPTolerations env a obj (wc_TolerationsPath cfg) hs = Inr obj' \<and>
    step cfg obj obj' ((sched_of a cfg obj)\<lparr>sc_Tolerations := tolerations_except env (map tolerationKeyFromCoreV1 hs) (sc_Tolerations (sched_of a cfg obj))\<rparr>)"
proof -
  obtain d ts where ts: "ua_NestedSlice a obj (wc_TolerationsPath cfg) = Inr None \<and> ts = [] \<or>
      ua_NestedSlice a obj (wc_TolerationsPath cfg) = Inr (Some ts)" "sc_Tolerations (sched_of a cfg obj) = ts"
    by (rule typed_reads [OF typed])
  let ?r = "tolerations_except env (map tolerationKeyFromCoreV1 hs) ts"
  have same: "step cfg obj obj ((sched_of a cfg obj)\<lparr>sc_Tolerations := []\<rparr>)" if "ts = []"
    using step_same [OF typed] that ts(2) by (simp add: sched_update_same)
  obtain obj' where st: "store obj (wc_TolerationsPath cfg) (JList ?r) = Some obj'"
    using typed_storable(2) [OF cfg typed] by blast
  consider "ts = []" | "ts \<noteq> []" "?r = []" | "ts \<noteq> []" "?r \<noteq> []" by blast
  then show ?thesis
  proof cases
    case 1
    with ts same show ?thesis by (auto simp: removeHWPTolerations_def)
  next
    case 2
    with ts fields_erased(2) [OF cfg typed] nested_reads(9) show ?thesis by (auto simp: removeHWPTolerations_def)
  next
    case 3
    with ts have "removeHWPTolerations env a obj (wc_TolerationsPath cfg) hs = Inr obj'"
      using st by (simp add: removeHWPTolerations_def nested_writes(1))
    with tolerations_stored [OF cfg typed st] ts(2) show ?thesis by simp
  qed
qed

lemma remove_selector_step:
  assumes cfg: "GetWorkloadConfig kind = Inr cfg" and typed: "typed_sched cfg obj" and wf: "gomap_wf hs"
  shows "\<exists>obj'. removeHWPNodeSelector a obj (wc_NodeSelectorPath cfg) hs = Inr obj' \<and>
    step cfg obj obj' ((sched_of a cfg obj)\<lparr>sc_Selector := drop_matching (sc_Selector (sched_of a cfg obj)) (map_of hs)\<rparr>)"
proof -
  obtain d ts where d: "gomap_wf d" "ua_NestedStringMap a obj (wc_NodeSelectorPath cfg) = Inr None \<and> d = [] \<or>
      ua_NestedStringMap a obj (wc_NodeSelectorPath cfg) = Inr (Some d)" "sc_Selector (sched_of a cfg obj) = map_of d"
    by (rule typed_reads [OF typed])
  define r where "r = foldl (\<lambda>d (k, v). if map_of d k = Some v then AList.delete k d else d) d hs"
  have r: "gomap_wf r" "map_of r = drop_matching (map_of d) (map_of hs)"
    using gomap_wf_drop_pairs [OF d(1)] map_of_drop_pairs [OF wf] by (simp_all add: r_def fun_eq_iff drop_matching_def)
  have same: "step cfg obj obj ((sched_of a cfg obj)\<lparr>sc_Selector := map_of r\<rparr>)" if "d = []"
  proof -
    have "map_of r = Map.empty" using that r(2) by (simp add: fun_eq_iff drop_matching_def)
    then show ?thesis using step_same [OF typed] that d(3) by (simp add: sched_update_same)
  qed
  obtain obj' where st: "store obj (wc_NodeSelectorPath cfg) (JMap (string_map r)) = Some obj'"
    using typed_storable(1) [OF cfg typed] by blast
  have "\<exists>obj'. removeHWPNodeSelector a obj (wc_NodeSelectorPath cfg) hs = Inr obj' \<and> step cfg obj obj' ((sched_of a cfg obj)\<lparr>sc_Selector := map_of r\<rparr>)"
  proof -
    consider "d = []" | "d \<noteq> []" "r = []" | "d \<noteq> []" "r \<noteq> []" by blast
    then show ?thesis
    proof cases
      case 1
      with d(2) same show ?thesis by (auto simp: removeHWPNodeSelector_def)
    next
      case 2
      with d(2) have "removeHWPNodeSelector a obj (wc_NodeSelectorPath cfg) hs = Inr (erase obj (wc_NodeSelectorPath cfg))"
        by (simp add: removeHWPNodeSelector_def Let_def r_def [symmetric] nested_reads(9))
      with fields_erased(1) [OF cfg typed] 2(2) show ?thesis by simp
    next
      case 3
      with d(2) have "removeHWPNodeSelector a obj (wc_NodeSelectorPath cfg) hs = Inr obj'"
        using st by (simp add: removeHWPNodeSelector_def Let_def r_def [symmetric] nested_writes(3))
      with selector_stored [OF cfg typed r(1) st] show ?thesis by simp
    qed
  qed
  then show ?thesis
    unfolding r(2) d(3) .
qed

lemma remove_step:
  assumes cfg: "GetWorkloadConfig (ua_GetKind a obj) = Inr cfg" and typed: "typed_sched cfg obj"
    and wf: "gomap_wf (ns_NodeSelector (hwp_node hwp))"
  shows "\<exists>obj'. removeHWPSettings env a obj hwp = Inr obj' \<and> step cfg obj obj' (remove_sched env hwp (sched_of a cfg obj))"
proof -
  let ?s = "sched_of a cfg obj"
  let ?hs = "ns_NodeSelector (hwp_node hwp)"
  let ?s1 = "?s\<lparr>sc_Tolerations := (if hwp_keys hwp = [] then sc_Tolerations ?s else tolerations_except env (hwp_keys hwp) (sc_Tolerations ?s))\<rparr>"
  let ?s2 = "?s1\<lparr>sc_Selector := drop_matching (sc_Selector ?s) (map_of ?hs)\<rparr>"
  obtain obj1 where r1: "(if ns_Tolerations (hwp_node hwp) = [] then Inr obj else context_err ''failed to remove HWP tolerations''
      (removeHWPTolerations env a obj (wc_TolerationsPath cfg) (ns_Tolerations (hwp_node hwp)))) = Inr obj1" "step cfg obj obj1 ?s1"
    using remove_tolerations_step [OF cfg typed, of env "ns_Tolerations (hwp_node hwp)"] step_same [OF typed]
    by (cases "ns_Tolerations (hwp_node hwp) = []") (auto simp: hwp_keys_def sched_update_same)
  note d1 = stepD [OF r1(2)]
  have empty: "drop_matching m Map.empty = m" for m
    by (simp add: drop_matching_def fun_eq_iff)
  obtain obj2 where r2: "(if ?hs = [] then Inr obj1 else context_err ''failed to remove HWP nodeSelector''
      (removeHWPNodeSelector a obj1 (wc_NodeSelectorPath cfg) ?hs)) = Inr obj2" "step cfg obj1 obj2 ?s2"
  proof -
    have sel: "sc_Selector (sched_of a cfg obj1) = sc_Selector ?s"
      using d1 by simp
    show thesis
      using that remove_selector_step [OF cfg conjunct1 [OF d1] wf, unfolded sel] step_same [OF conjunct1 [OF d1]] d1
      by (cases "?hs = []") (auto simp: sched_update_same empty)
  qed
  note d2 = stepD [OF r2(2)]
  have run: "removeHWPSettings env a obj hwp = Inr (if local_queue (hwp_SchedulingSpec hwp) \<noteq> '''' then ua_RemoveLabel a obj2 KueueQueueNameLabel else obj2)"
    unfolding removeHWPSettings_node cfg and_then_simps r1(1) r2(1) ..
  have "step cfg obj2 (ua_RemoveLabel a obj2 KueueQueueNameLabel) (?s2\<lparr>sc_Queue := ''''\<rparr>)" "step cfg obj2 obj2 ?s2"
    using label_steps(2) [OF conjunct1 [OF d2] cfg] step_same [OF conjunct1 [OF d2]] d2 by simp_all
  moreover have "remove_sched env hwp ?s = (if local_queue (hwp_SchedulingSpec hwp) \<noteq> '''' then ?s2\<lparr>sc_Queue := ''''\<rparr> else ?s2)"
    by (rule sched.equality) (simp_all add: remove_sched_def)
  ultimately show ?thesis
    using step_trans [OF r1(2) step_trans [OF r2(2)]] run by (cases "local_queue (hwp_SchedulingSpec hwp) = ''''") simp_all
qed

end

section \<open>Properties\<close>

text \<open>
  C6. Applying and removing a hardware profile are the abstract operations on the scheduling settings. On a workload of a known kind
  whose node selector and tolerations are absent or of their API type, a successful application leaves the settings that
  merging the profile into the old ones gives, or into none when the workload switches profiles; removal always succeeds
  and takes out exactly the profile's settings. The kind stays, and the fields keep their types.
\<close>

theorem profile_refines_scheduling:
  assumes "api_laws a" "toleration_laws env" "gomap_wf (ns_NodeSelector (hwp_node hwp))"
    and "GetWorkloadConfig (ua_GetKind a obj) = Inr cfg" "typed_sched cfg obj"
  shows "(\<forall>obj' ws. applyHardwareProfileToWorkload env a obj hwp changed = Inr (obj', ws) \<longrightarrow>
      sched_of a cfg obj' = apply_sched env hwp changed (sched_of a cfg obj) \<and> typed_sched cfg obj' \<and> ua_GetKind a obj' = ua_GetKind a obj) \<and>
    (\<exists>obj'. removeHWPSettings env a obj hwp = Inr obj' \<and>
      sched_of a cfg obj' = remove_sched env hwp (sched_of a cfg obj) \<and> typed_sched cfg obj' \<and> ua_GetKind a obj' = ua_GetKind a obj)"
proof -
  note api = workload_api.intro [OF assms(1)]
  show ?thesis
    using workload_api.apply_step [OF api assms(4,5,2,3)] workload_api.remove_step [OF api assms(4,5,3)] workload_api.stepD [OF api] by metis
qed




text \<open>The webhook as far as the profile: everything before the container names are checked.\<close>

definition reaches_profile :: "hwp_env \<Rightarrow> unstructured_api \<Rightarrow> web_request \<Rightarrow> jmap \<Rightarrow> HardwareProfile \<Rightarrow> bool" where
  "reaches_profile env a req obj hwp \<longleftrightarrow>
     (\<exists>decode. he_Decoder env = Some decode \<and> DecodeUnstructured decode req = Inr obj) \<and> Injector_isExpectedKind (wq_Kind req) \<and> \<not> ua_Deleting a obj \<and>
     (wq_Operation req = ''CREATE'' \<or> wq_Operation req = ''UPDATE'') \<and> ua_GetAnnotation a obj HardwareProfileNameAnnotation \<noteq> '''' \<and>
     profile_namespace a obj \<noteq> '''' \<and> he_Get env (profile_namespace a obj) (ua_GetAnnotation a obj HardwareProfileNameAnnotation) = Inr hwp"

lemma reaches_profile_Handle:
  assumes "reaches_profile env a req obj hwp"
  shows "Injector_Handle env a req =
    (let obj' = annotate_namespace a obj (profile_namespace a obj) in
     case validateContainerNames a obj' of
       Some err \<Rightarrow> skip_profile env a obj' hwp err
     | None \<Rightarrow> apply_and_respond env a obj' hwp
         (detectProfileChange env a req (ua_GetAnnotation a obj HardwareProfileNameAnnotation) (profile_namespace a obj)))"
proof -
  obtain decode where "he_Decoder env = Some decode" "DecodeUnstructured decode req = Inr obj"
    using assms by (auto simp: reaches_profile_def)
  then show ?thesis
    using assms by (auto simp: reaches_profile_def Injector_Handle_def performHardwareProfileInjection_def Let_def)
qed

lemma skip_profile_admits: "\<exists>w. fst (skip_profile env a obj hwp err) = admit_with_warning env obj w"
  unfolding skip_profile_def by (cases err; simp only: validation_error.case fst_conv; blast)

lemma annotate_namespace_frame:
  assumes "api_laws a"
  shows "lookup (annotate_namespace a obj ns) (''spec'' # p) = lookup obj (''spec'' # p)"
    "ua_GetLabel a (annotate_namespace a obj ns) = ua_GetLabel a obj" "same_identity a obj (annotate_namespace a obj ns)"
  using workload_api.metadata_ops [OF workload_api.intro [OF assms]]
  by (simp_all add: annotate_namespace_def same_identity_def del: lookup.simps)

text \<open>
  A container name never blocks admission. When the profile is there and the container names do not fit, or cannot be
  read, the request is allowed with a warning, whatever the marshalling and the event creation do, and the object keeps
  its whole \<open>spec\<close> and its labels.
\<close>

theorem container_names_never_block:
  assumes "api_laws a" "reaches_profile env a req obj hwp"
    and "validateContainerNames a (annotate_namespace a obj (profile_namespace a obj)) = Some err"
  shows "case fst (Injector_Handle env a req) of
      Plain resp \<Rightarrow> rs_Allowed resp \<and> rs_Warnings resp \<noteq> []
    | Patch obj' ws \<Rightarrow> ws \<noteq> [] \<and> (\<forall>p. lookup obj' (''spec'' # p) = lookup obj (''spec'' # p)) \<and> ua_GetLabel a obj' = ua_GetLabel a obj"
proof -
  let ?obj = "annotate_namespace a obj (profile_namespace a obj)"
  have "fst (Injector_Handle env a req) = fst (skip_profile env a ?obj hwp err)"
    by (simp only: reaches_profile_Handle [OF assms(2)] Let_def assms(3) option.case)
  then obtain w where "fst (Injector_Handle env a req) = admit_with_warning env ?obj w"
    using skip_profile_admits by metis
  then show ?thesis
    using annotate_namespace_frame [OF assms(1)]
    by (simp add: admit_with_warning_def admission_Allowed_def split: sum.split del: lookup.simps)
qed

section \<open>Resource requirements\<close>

text \<open>The quantity an identifier asks for.\<close>

definition wanted_quantity :: "hwp_env \<Rightarrow> HardwareIdentifier list \<Rightarrow> string \<Rightarrow> jval option" where
  "wanted_quantity env ids k =
     Option.bind (List.find (\<lambda>i. hi_Identifier i = k) ids)
       (\<lambda>i. case convertIntOrStringToQuantity env (hi_DefaultCount i) of Inr q \<Rightarrow> Some (JString q) | Inl _ \<Rightarrow> None)"

lemma requests_applied:
  "applyIdentifiersToRequests env requests ids = Inr requests' \<Longrightarrow>
   map_of requests' k = (case map_of requests k of Some v \<Rightarrow> Some v | None \<Rightarrow> wanted_quantity env ids k)"
proof (induction env requests ids rule: applyIdentifiersToRequests.induct)
  case (2 env requests i ids)
  show ?case
  proof (cases "map_of requests (hi_Identifier i)")
    case None
    with 2(3) obtain q where q: "convertIntOrStringToQuantity env (hi_DefaultCount i) = Inr q"
      "applyIdentifiersToRequests env (AList.update (hi_Identifier i) (JString q) requests) ids = Inr requests'"
      by (auto simp: and_then_Inr)
    have "map_of requests' k = (case map_of (AList.update (hi_Identifier i) (JString q) requests) k of Some v \<Rightarrow> Some v
        | None \<Rightarrow> wanted_quantity env ids k)"
      using 2(2) None q(2) by simp
    then show ?thesis
      using None q(1) by (auto simp: go_map_simps wanted_quantity_def split: option.split)
  next
    case (Some v)
    then have "map_of requests' k = (case map_of requests k of Some v \<Rightarrow> Some v | None \<Rightarrow> wanted_quantity env ids k)"
      using 2(1,3) by simp
    with Some show ?thesis
      by (auto simp: wanted_quantity_def split: option.split)
  qed
qed (simp add: wanted_quantity_def split: option.split)

lemma limits_applied:
  "map_of (applyIdentifiersToLimits requests limits ids) k =
     (case map_of limits k of Some v \<Rightarrow> Some v | None \<Rightarrow> if k \<in> hi_Identifier ` set ids then map_of requests k else None)"
  by (induction requests limits ids rule: applyIdentifiersToLimits.induct) (auto simp: go_map_simps split: option.splits)

text \<open>A section of a container: a map, or absent and then empty.\<close>

definition section_of :: "jmap \<Rightarrow> string list \<Rightarrow> jmap option" where
  "section_of c p = (case lookup c p of Absent \<Rightarrow> Some [] | Value (JMap m) \<Rightarrow> Some m | _ \<Rightarrow> None)"

lemma GetOrCreateNestedMap_section:
  assumes "field_laws a" "section_of c [k] = Some m"
  shows "GetOrCreateNestedMap a c k = Inr m"
  using assms reads_simps(3,4) [OF assms(1), of c "[k]"]
  by (auto simp: section_of_def GetOrCreateNestedMap_def split: found.splits jval.splits)

text \<open>
  Resource requirements. On a container whose resources are absent or maps, a successful application leaves requests with every
  value they had and, for an identifier they lacked, the default count of the profile; limits keep what they had and get
  the request for every other identifier of the profile. Nothing else of the container changes.
\<close>

theorem identifiers_applied:
  assumes "api_laws a" "section_of c [''resources''] = Some res"
    and "section_of res [''requests''] = Some requests" "section_of res [''limits''] = Some limits"
    and "applyIdentifiersToContainer env a (JMap c) ids = Inr c'"
  shows "\<exists>requests' limits'. section_of (fields_of c') [''resources'', ''requests''] = Some requests' \<and>
    section_of (fields_of c') [''resources'', ''limits''] = Some limits' \<and>
    (\<forall>k. map_of requests' k = (case map_of requests k of Some v \<Rightarrow> Some v | None \<Rightarrow> wanted_quantity env ids k)) \<and>
    (\<forall>k. map_of limits' k = (case map_of limits k of Some v \<Rightarrow> Some v
       | None \<Rightarrow> if k \<in> hi_Identifier ` set ids then map_of requests' k else None)) \<and>
    (\<forall>k. k = ''resources'' \<or> map_of (fields_of c') k = map_of c k) \<and>
    (\<forall>k. k \<in> {''requests'', ''limits''} \<or> lookup (fields_of c') [''resources'', k] = lookup [(''resources'', JMap res)] [''resources'', k])"
proof -
  have law: "field_laws a" using assms(1) by (simp add: api_laws_def)
  obtain requests' where r: "applyIdentifiersToRequests env requests ids = Inr requests'"
    and c': "c' = JMap (AList.update ''resources'' (JMap (AList.update ''limits'' (JMap (applyIdentifiersToLimits requests' limits ids))
      (AList.update ''requests'' (JMap requests') res))) c)"
    using assms(5) GetOrCreateNestedMap_section [OF law assms(2)] GetOrCreateNestedMap_section [OF law assms(3)]
      GetOrCreateNestedMap_section [OF law assms(4)] by (auto simp: applyIdentifiersToContainer_def and_then_Inr Let_def)
  show ?thesis
  proof (intro exI conjI allI)
    fix k
    show "section_of (fields_of c') [''resources'', ''requests''] = Some requests'"
      "section_of (fields_of c') [''resources'', ''limits''] = Some (applyIdentifiersToLimits requests' limits ids)"
      by (simp_all add: c' fields_of_def section_of_def go_map_simps)
    show "map_of requests' k = (case map_of requests k of Some v \<Rightarrow> Some v | None \<Rightarrow> wanted_quantity env ids k)"
      by (rule requests_applied [OF r])
    show "map_of (applyIdentifiersToLimits requests' limits ids) k = (case map_of limits k of Some v \<Rightarrow> Some v
       | None \<Rightarrow> if k \<in> hi_Identifier ` set ids then map_of requests' k else None)"
      by (rule limits_applied)
    show "k = ''resources'' \<or> map_of (fields_of c') k = map_of c k"
      by (simp add: c' fields_of_def go_map_simps)
    show "k \<in> {''requests'', ''limits''} \<or> lookup (fields_of c') [''resources'', k] = lookup [(''resources'', JMap res)] [''resources'', k]"
      by (simp add: c' fields_of_def go_map_simps)
  qed
qed

section \<open>A workload for the witnesses\<close>

definition demo_convert_toleration :: "Toleration \<Rightarrow> go_error + jmap" where
  "demo_convert_toleration t =
     Inr ([(''key'', JString (tol_Key t)), (''operator'', JString (tol_Operator t)), (''value'', JString (tol_Value t)),
           (''effect'', JString (tol_Effect t))] @
          (case tol_TolerationSeconds t of None \<Rightarrow> [] | Some s \<Rightarrow> [(''tolerationSeconds'', JOther (fmt_int s))]))"

definition demo_profile :: HardwareProfile where
  "demo_profile =
     \<lparr>hwp_Name = ''gpu'', hwp_Identifiers = [\<lparr>hi_Identifier = ''nvidia.com/gpu'', hi_DefaultCount = StrVal ''1''\<rparr>],
      hwp_SchedulingSpec = Some \<lparr>ss_Kueue = None, ss_Node = Some \<lparr>ns_NodeSelector = [(''gpu'', ''true'')],
        ns_Tolerations = [\<lparr>tol_Key = ''gpu'', tol_Operator = ''Exists'', tol_Value = '''', tol_Effect = ''NoSchedule'', tol_TolerationSeconds = None\<rparr>]\<rparr>\<rparr>\<rparr>"

definition demo_hwp_env :: "jmap \<Rightarrow> hwp_env" where
  "demo_hwp_env obj =
     \<lparr>he_Get = (\<lambda>_ _. Inr demo_profile), he_Decoder = Some (\<lambda>_. Inr obj), he_Unmarshal = (\<lambda>_. Inr obj), he_Marshal = (\<lambda>_. Inr ''''),
      he_CanWriteEvents = True, he_NewQuantity_String = fmt_int, he_ParseQuantity_String = Inr, he_ToUnstructured = demo_convert_toleration,
      he_fmt_v = (\<lambda>v. case v of JOther s \<Rightarrow> s | _ \<Rightarrow> '''')\<rparr>"

definition demo_meta :: jval where
  "demo_meta = JMap [(''name'', JString ''m''), (''namespace'', JString ''ns''),
     (''annotations'', JMap [(HardwareProfileNameAnnotation, JString ''gpu'')])]"

definition demo_isvc :: jmap where
  "demo_isvc =
     [(''kind'', JString ''InferenceService''), (''metadata'', demo_meta),
      (''spec'', JMap [(''predictor'', JMap [(''model'', JMap []), (''nodeSelector'', JMap [(''zone'', JString ''a'')]),
        (''tolerations'', JList [JMap [(''key'', JString ''own'')]])])])]"

definition demo_llm :: jmap where
  "demo_llm =
     [(''kind'', JString ''LLMInferenceService''), (''metadata'', demo_meta),
      (''spec'', JMap [(''template'', JMap [(''containers'', JList [JMap [(''name'', JString ''server'')]])])])]"

definition demo_cfg :: WorkloadConfig where
  "demo_cfg = \<lparr>wc_ContainersPath = [''spec'', ''predictor'', ''model''], wc_NodeSelectorPath = [''spec'', ''predictor'', ''nodeSelector''],
     wc_TolerationsPath = [''spec'', ''predictor'', ''tolerations'']\<rparr>"

lemma demo_toleration_laws: "toleration_laws (demo_hwp_env obj)"
  by (auto simp: toleration_laws_def demo_hwp_env_def demo_convert_toleration_def string_field_def split: option.split)

lemma demo_isvc_typed:
  "GetWorkloadConfig (ua_GetKind tree_api demo_isvc) = Inr demo_cfg" "typed_sched demo_cfg demo_isvc"
  "gomap_wf (ns_NodeSelector (hwp_node demo_profile))"
proof -
  show "GetWorkloadConfig (ua_GetKind tree_api demo_isvc) = Inr demo_cfg" by code_simp
  have "lookup demo_isvc (wc_NodeSelectorPath demo_cfg) = Value (JMap (string_map [(''zone'', ''a'')]))"
    "lookup demo_isvc (wc_TolerationsPath demo_cfg) = Value (JList [JMap [(''key'', JString ''own'')]])"
    by code_simp+
  then show "typed_sched demo_cfg demo_isvc"
    unfolding typed_sched_def by (intro conjI disjI2 exI) (auto simp: gomap_wf_def)
  show "gomap_wf (ns_NodeSelector (hwp_node demo_profile))"
    by (simp add: gomap_wf_def hwp_node_def demo_profile_def)
qed

theorem profile_refines_scheduling_witness:
  "\<exists>obj'. removeHWPSettings (demo_hwp_env demo_isvc) tree_api demo_isvc demo_profile = Inr obj' \<and>
     sched_of tree_api demo_cfg obj' = remove_sched (demo_hwp_env demo_isvc) demo_profile (sched_of tree_api demo_cfg demo_isvc)"
  using profile_refines_scheduling [OF tree_api_laws demo_toleration_laws demo_isvc_typed(3,1,2), of demo_isvc] by blast


definition demo_hwp_request :: web_request where
  "demo_hwp_request =
     \<lparr>wq_Kind = serving_gvk ''v1alpha1'' ''LLMInferenceService'', wq_Operation = ''CREATE'', wq_Namespace = ''ns'', wq_Object = Some '''',
      wq_OldObject = None, wq_DryRun = None\<rparr>"

theorem container_names_never_block_witness:
  "case fst (Injector_Handle (demo_hwp_env demo_llm) tree_api demo_hwp_request) of
     Plain resp \<Rightarrow> rs_Allowed resp \<and> rs_Warnings resp \<noteq> []
   | Patch obj' ws \<Rightarrow> ws \<noteq> [] \<and> (\<forall>p. lookup obj' (''spec'' # p) = lookup demo_llm (''spec'' # p)) \<and>
       ua_GetLabel tree_api obj' = ua_GetLabel tree_api demo_llm"
proof (rule container_names_never_block [OF tree_api_laws])
  have "profile_namespace tree_api demo_llm = ''ns''" "ua_GetAnnotation tree_api demo_llm HardwareProfileNameAnnotation = ''gpu''"
    "\<not> ua_Deleting tree_api demo_llm" "Injector_isExpectedKind (wq_Kind demo_hwp_request)"
    by code_simp+
  then show "reaches_profile (demo_hwp_env demo_llm) tree_api demo_hwp_request demo_llm demo_profile"
    by (auto simp: reaches_profile_def demo_hwp_env_def DecodeUnstructured_def demo_hwp_request_def)
  show "validateContainerNames tree_api (annotate_namespace tree_api demo_llm (profile_namespace tree_api demo_llm)) =
      Some (NoMatchingContainerError ''LLMInferenceService'' ''m'' ''ns'' ''main'')"
    by code_simp
qed

theorem identifiers_applied_witness:
  "\<exists>requests' limits'. section_of (fields_of (projr (applyIdentifiersToContainer (demo_hwp_env []) tree_api (JMap []) (hwp_Identifiers demo_profile))))
       [''resources'', ''limits''] = Some limits' \<and>
     map_of limits' ''nvidia.com/gpu'' = map_of requests' ''nvidia.com/gpu'' \<and> map_of requests' ''nvidia.com/gpu'' = Some (JString ''1'')"
proof -
  let ?run = "applyIdentifiersToContainer (demo_hwp_env []) tree_api (JMap []) (hwp_Identifiers demo_profile)"
  have "\<not> isl ?run" by code_simp
  then have run: "?run = Inr (projr ?run)" by (cases ?run) auto
  have "section_of [] p = Some []" if "p \<noteq> []" for p
    using that by (simp add: section_of_def)
  then have empty: "section_of [] [''resources''] = Some []" "section_of [] [''requests''] = Some []" "section_of [] [''limits''] = Some []"
    by simp_all
  have wanted: "wanted_quantity (demo_hwp_env []) (hwp_Identifiers demo_profile) ''nvidia.com/gpu'' = Some (JString ''1'')"
    "''nvidia.com/gpu'' \<in> hi_Identifier ` set (hwp_Identifiers demo_profile)"
    by code_simp+
  from identifiers_applied [OF tree_api_laws empty run] obtain requests' limits' where
    "section_of (fields_of (projr ?run)) [''resources'', ''limits''] = Some limits'"
    "\<forall>k. map_of requests' k = (case map_of [] k of Some v \<Rightarrow> Some v | None \<Rightarrow> wanted_quantity (demo_hwp_env []) (hwp_Identifiers demo_profile) k)"
    "\<forall>k. map_of limits' k = (case map_of [] k of Some v \<Rightarrow> Some v
       | None \<Rightarrow> if k \<in> hi_Identifier ` set (hwp_Identifiers demo_profile) then map_of requests' k else None)"
    by (elim exE conjE)
  then show ?thesis
    using wanted by (intro exI [of _ requests'] exI [of _ limits']) simp
qed

end
