(* ===== verification/Serving_Connection.thy ===== *)
theory Serving_Connection
  imports Webhook_Common
begin

text \<open>
  The connection webhooks of serving workloads (\<open>internal/webhook/serving\<close>) and the connection helpers of
  \<open>pkg/webhook/utils.go\<close>. The annotation \<open>opendatahub.io/connections\<close> names a secret; depending on the type the secret declares,
  the webhook injects a pull secret (OCI), a storage location (URI) or a service account with a storage location (S3) into an
  InferenceService or LLMInferenceService, and takes it out again when the annotation goes or changes.

  Parameters (\<open>serving_env\<close>): whether client, reader and decoder are set up, the decoder, the reads of secrets (metadata once for the new
  and once for the old object, then the data), the creation of a ServiceAccount, and the JSON codec. The handlers return the response and
  the ServiceAccounts they create. The two \<open>Handle\<close> methods are the same code around different injections and cleanups, so they share one
  definition here.
\<close>

section \<open>Connections\<close>

record ConnectionInfo =
  ci_SecretName :: string
  ci_Type :: string
  ci_Path :: string

definition no_connection :: ConnectionInfo where
  "no_connection = \<lparr>ci_SecretName = '''', ci_Type = '''', ci_Path = ''''\<rparr>"

datatype ConnectionAction = ConnectionActionInject | ConnectionActionRemove | ConnectionActionReplace | ConnectionActionNone

definition IsSecretEmpty :: "ConnectionInfo \<Rightarrow> bool" where
  "IsSecretEmpty ci \<longleftrightarrow> ci_SecretName ci = ''''"

abbreviation (input) ConnectionTypeProtocolURI :: string where "ConnectionTypeProtocolURI \<equiv> ''uri''"
abbreviation (input) ConnectionTypeProtocolS3 :: string where "ConnectionTypeProtocolS3 \<equiv> ''s3''"
abbreviation (input) ConnectionTypeProtocolOCI :: string where "ConnectionTypeProtocolOCI \<equiv> ''oci''"
abbreviation (input) ConnectionTypeRefURI :: string where "ConnectionTypeRefURI \<equiv> ''uri-v1''"
abbreviation (input) ConnectionTypeRefS3 :: string where "ConnectionTypeRefS3 \<equiv> ''s3''"
abbreviation (input) ConnectionTypeRefOCI :: string where "ConnectionTypeRefOCI \<equiv> ''oci-v1''"

definition is_OCI :: "string \<Rightarrow> bool" where "is_OCI t \<longleftrightarrow> t = ConnectionTypeProtocolOCI \<or> t = ConnectionTypeRefOCI"
definition is_URI :: "string \<Rightarrow> bool" where "is_URI t \<longleftrightarrow> t = ConnectionTypeProtocolURI \<or> t = ConnectionTypeRefURI"
definition is_S3 :: "string \<Rightarrow> bool" where "is_S3 t \<longleftrightarrow> t = ConnectionTypeProtocolS3 \<or> t = ConnectionTypeRefS3"

abbreviation (input) Connection_annotation :: string where "Connection_annotation \<equiv> ''opendatahub.io/connections''"
abbreviation (input) ConnectionTypeProtocol_annotation :: string where
  "ConnectionTypeProtocol_annotation \<equiv> ''opendatahub.io/connection-type-protocol''"
abbreviation (input) ConnectionTypeRef_annotation :: string where "ConnectionTypeRef_annotation \<equiv> ''opendatahub.io/connection-type-ref''"
abbreviation (input) ConnectionPath_annotation :: string where "ConnectionPath_annotation \<equiv> ''opendatahub.io/connection-path''"

record secret_meta =
  sm_SecretName :: string
  sm_Annotations :: "(string, string) gomap"

record serving_env =
  se_HasClient :: bool
  se_HasAPIReader :: bool
  se_Decoder :: "(string option \<Rightarrow> go_error + jmap) option"
  se_NewSecretMeta :: "string \<Rightarrow> string \<Rightarrow> api_failure + secret_meta"
  se_OldSecretMeta :: "string \<Rightarrow> string \<Rightarrow> api_failure + secret_meta"
  se_SecretData :: "string \<Rightarrow> string \<Rightarrow> api_failure + (string, string) gomap"
  se_Create :: "string \<Rightarrow> string \<Rightarrow> api_failure option"
  se_Marshal :: "jmap \<Rightarrow> go_error + string"

type_synonym type_map = "(string, string list) gomap"

definition allowedTypes :: type_map where
  "allowedTypes =
     [(ConnectionTypeProtocol_annotation, [ConnectionTypeProtocolURI, ConnectionTypeProtocolS3, ConnectionTypeProtocolOCI]),
      (ConnectionTypeRef_annotation, [ConnectionTypeRefURI, ConnectionTypeRefS3, ConnectionTypeRefOCI])]"

definition ValidateInferenceServiceConnectionType :: "secret_meta \<Rightarrow> type_map \<Rightarrow> string \<times> bool" where
  "ValidateInferenceServiceConnectionType meta types =
     (let protocol = at_or (sm_Annotations meta) '''' ConnectionTypeProtocol_annotation;
          ref = at_or (sm_Annotations meta) '''' ConnectionTypeRef_annotation in
      if protocol \<noteq> '''' then (protocol, protocol \<in> set (at_or types [] ConnectionTypeProtocol_annotation))
      else if ref \<noteq> '''' then (ref, ref \<in> set (at_or types [] ConnectionTypeRef_annotation))
      else ('''', False))"

definition ValidateServingConnectionAnnotation ::
  "serving_env \<Rightarrow> unstructured_api \<Rightarrow> jmap \<Rightarrow> web_request \<Rightarrow> type_map \<Rightarrow> response \<times> ConnectionInfo" where
  "ValidateServingConnectionAnnotation env a obj req types =
     (let annotationValue = ua_GetAnnotation a obj Connection_annotation in
      if annotationValue = '''' then
        (admission_Allowed (''Annotation '' @ apos Connection_annotation @ '' not present or empty value''), no_connection)
      else
        case se_NewSecretMeta env annotationValue (wq_Namespace req) of
          Inl failure \<Rightarrow>
            if err_is NotFound (api_error failure) then
              (admission_Denied (''Secret '' @ apos annotationValue @ '' referenced in annotation '' @ apos Connection_annotation @
                 '' not found in namespace '' @ apos (wq_Namespace req)), no_connection)
            else (admission_Errored StatusInternalServerError (wrap ''failed to validate secret'' (api_error failure)), no_connection)
        | Inr secretMeta \<Rightarrow>
            let (connectionType, isValidType) = ValidateInferenceServiceConnectionType secretMeta types in
            if connectionType = '''' then
              (admission_Allowed (''Secret '' @ apos annotationValue @ '' does not have '' @ apos ConnectionTypeProtocol_annotation @
                 '' or '' @ apos ConnectionTypeRef_annotation @ '' annotation''), no_connection)
            else if \<not> isValidType then
              (admission_Allowed (''Annotation '' @ apos Connection_annotation @ '' validation on secret '' @ apos annotationValue @
                 '' with unknown type '' @ apos connectionType @ '' in namespace '' @ apos (wq_Namespace req)), no_connection)
            else
              (admission_Allowed ''Connection annotation validation passed'',
               \<lparr>ci_SecretName = sm_SecretName secretMeta, ci_Type = connectionType, ci_Path = ua_GetAnnotation a obj ConnectionPath_annotation\<rparr>))"

definition GetOldConnectionInfo ::
  "serving_env \<Rightarrow> unstructured_api \<Rightarrow> (string option \<Rightarrow> go_error + jmap) \<Rightarrow> web_request \<Rightarrow> go_error + ConnectionInfo" where
  "GetOldConnectionInfo env a decode req =
     and_then (context_err ''failed to decode old object'' (decode (wq_OldObject req))) (\<lambda>oldObj.
       let name = ua_GetAnnotation a oldObj Connection_annotation; path = ua_GetAnnotation a oldObj ConnectionPath_annotation in
       if name = '''' then Inr no_connection
       else
         case se_OldSecretMeta env name (wq_Namespace req) of
           Inl failure \<Rightarrow>
             if err_is NotFound (api_error failure) then Inr \<lparr>ci_SecretName = name, ci_Type = '''', ci_Path = path\<rparr>
             else Inl (wrap ''failed to get old secret metadata'' (api_error failure))
         | Inr meta \<Rightarrow>
             let protocol = at_or (sm_Annotations meta) '''' ConnectionTypeProtocol_annotation in
             Inr \<lparr>ci_SecretName = name,
                  ci_Type = (if protocol = '''' then at_or (sm_Annotations meta) '''' ConnectionTypeRef_annotation else protocol),
                  ci_Path = path\<rparr>)"

definition DetermineConnectionChangeAction :: "ConnectionInfo \<Rightarrow> ConnectionInfo \<Rightarrow> ConnectionAction" where
  "DetermineConnectionChangeAction oldConn newConn =
     (if \<not> IsSecretEmpty oldConn \<and> IsSecretEmpty newConn then ConnectionActionRemove
      else if IsSecretEmpty oldConn \<and> IsSecretEmpty newConn then ConnectionActionNone
      else if IsSecretEmpty oldConn \<and> \<not> IsSecretEmpty newConn then ConnectionActionInject
      else if ci_Type oldConn \<noteq> ci_Type newConn \<or> ci_SecretName oldConn \<noteq> ci_SecretName newConn then ConnectionActionReplace
      else if is_S3 (ci_Type newConn) \<and> ci_Path oldConn \<noteq> ci_Path newConn then ConnectionActionReplace
      else ConnectionActionNone)"

section \<open>Injected fields\<close>

text \<open>A ServiceAccount created for a secret: its name, its namespace and the secret it links.\<close>

record service_account =
  sa_Name :: string
  sa_Namespace :: string
  sa_Secret :: string

definition CreateSA :: "serving_env \<Rightarrow> string \<Rightarrow> string \<Rightarrow> go_error option \<times> service_account list" where
  "CreateSA env secretName namespace =
     (let sa = \<lparr>sa_Name = secretName @ ''-sa'', sa_Namespace = namespace, sa_Secret = secretName\<rparr> in
      case se_Create env (sa_Name sa) namespace of
        Some failure \<Rightarrow>
          (if err_is AlreadyExists (api_error failure) then None
           else Some (wrap ''failed to create ServiceAccount'' (api_error failure)), [])
      | None \<Rightarrow> (None, [sa]))"

definition ServiceAccountCreation :: "serving_env \<Rightarrow> string \<Rightarrow> string \<Rightarrow> string \<Rightarrow> bool \<Rightarrow> go_error option \<times> service_account list" where
  "ServiceAccountCreation env secretName connectionType namespace isDryRun =
     (if is_S3 connectionType \<and> \<not> isDryRun then CreateSA env secretName namespace else (None, []))"

definition InjectServiceAccountName :: "unstructured_api \<Rightarrow> jmap \<Rightarrow> string list \<Rightarrow> string \<Rightarrow> go_error + jmap" where
  "InjectServiceAccountName a obj path saName =
     and_then (context_err (''failed to get serviceAccountName from path ['' @ strings_Join path '' '' @ '']'') (ua_NestedString a obj path)) (\<lambda>current.
       if current = None \<or> current = Some '''' then SetNestedValue a obj (JString saName) path else Inr obj)"

definition RemoveServiceAccountName :: "unstructured_api \<Rightarrow> jmap \<Rightarrow> string list \<Rightarrow> string \<Rightarrow> go_error + jmap" where
  "RemoveServiceAccountName a obj path injectedSAName =
     and_then (context_err (''failed to get serviceAccountName from path ['' @ strings_Join path '' '' @ '']'') (ua_NestedString a obj path)) (\<lambda>current.
       if current = None \<or> current = Some '''' then Inr obj
       else if current \<noteq> Some injectedSAName then Inr obj
       else Inr (ua_RemoveNestedField a obj path))"

text \<open>An entry of \<open>imagePullSecrets\<close> with a name field, and whether that is the given string.\<close>

definition has_name :: "jval \<Rightarrow> bool" where
  "has_name e = (case e of JMap m \<Rightarrow> map_of m ''name'' \<noteq> None | _ \<Rightarrow> False)"

definition InjectOCIImagePullSecrets :: "unstructured_api \<Rightarrow> jmap \<Rightarrow> string list \<Rightarrow> string \<Rightarrow> go_error + jmap" where
  "InjectOCIImagePullSecrets a obj path secretName =
     and_then (context_err ''failed to get path'' (GetOrCreateNestedSlice a obj path)) (\<lambda>imagePullSecrets.
       if list_ex (\<lambda>e. entry_name e = Some secretName) imagePullSecrets then Inr obj
       else SetNestedValue a obj (JList (imagePullSecrets @ [JMap [(''name'', JString secretName)]])) path)"

definition CleanupOCIImagePullSecrets :: "unstructured_api \<Rightarrow> jmap \<Rightarrow> string list \<Rightarrow> string \<Rightarrow> go_error + jmap" where
  "CleanupOCIImagePullSecrets a obj path secretName =
     (if secretName = '''' then Inr obj
      else
        and_then (context_err ''failed to get imagePullSecrets'' (ua_NestedSlice a obj path)) (\<lambda>found.
          case found of
            None \<Rightarrow> Inr obj
          | Some imagePullSecrets \<Rightarrow>
              let remained = filter (\<lambda>e. has_name e \<and> entry_name e \<noteq> Some secretName) imagePullSecrets in
              if remained = [] then Inr (ua_RemoveNestedField a obj path)
              else context_err ''failed to set filtered imagePullSecrets'' (ua_SetNestedSlice a obj remained path)))"

definition get_secret :: "serving_env \<Rightarrow> string \<Rightarrow> string \<Rightarrow> go_error + (string, string) gomap" where
  "get_secret env secretName namespace =
     context_err (''failed to get secret '' @ secretName) (map_sum api_error id (se_SecretData env secretName namespace))"

definition GetURIValue :: "serving_env \<Rightarrow> string \<Rightarrow> string \<Rightarrow> go_error + string" where
  "GetURIValue env secretName namespace =
     and_then (get_secret env secretName namespace) (\<lambda>data.
       case map_of data ''https-host'' of
         Some uriHost \<Rightarrow> Inr uriHost
       | None \<Rightarrow>
           (case map_of data ''URI'' of
              Some uriHost \<Rightarrow> Inr uriHost
            | None \<Rightarrow> Inl (new_error (''secret does not contain either '' @ apos ''https-host'' @ '' or '' @ apos ''URI'' @ '' data key''))))"

definition BuildS3URI :: "serving_env \<Rightarrow> ConnectionInfo \<Rightarrow> string \<Rightarrow> go_error + string" where
  "BuildS3URI env connInfo namespace =
     and_then (get_secret env (ci_SecretName connInfo) namespace) (\<lambda>data.
       case map_of data ''AWS_S3_BUCKET'' of
         None \<Rightarrow> Inl (new_error (''secret does not contain '' @ apos ''AWS_S3_BUCKET'' @ '' data key''))
       | Some bucketName \<Rightarrow>
           if bucketName = '''' then
             Inl (new_error (''secret '' @ apos ''AWS_S3_BUCKET'' @ '' data key is empty, cannot use it for s3:// to get model''))
           else if ci_Path connInfo = '''' then Inl (new_error ''connection info does not have path'')
           else Inr (''s3://'' @ bucketName @ ''/'' @ ci_Path connInfo))"

section \<open>InferenceService\<close>

definition isvc_ModelPath :: "string list" where "isvc_ModelPath = [''spec'', ''predictor'', ''model'']"
definition isvc_ImagePullSecretPath :: "string list" where "isvc_ImagePullSecretPath = [''spec'', ''predictor'', ''imagePullSecrets'']"
definition isvc_StorageUriPath :: "string list" where "isvc_StorageUriPath = [''spec'', ''predictor'', ''model'', ''storageUri'']"
definition isvc_ServiceAccountNamePath :: "string list" where
  "isvc_ServiceAccountNamePath = [''spec'', ''predictor'', ''serviceAccountName'']"

definition delete_from_model :: "unstructured_api \<Rightarrow> jmap \<Rightarrow> string \<Rightarrow> go_error + jmap" where
  "delete_from_model a obj field =
     and_then (context_err ''failed to get .spec.predictor.model'' (ua_NestedMap a obj isvc_ModelPath)) (\<lambda>found.
       case found of
         None \<Rightarrow> Inr obj
       | Some model \<Rightarrow> SetNestedValue a obj (JMap (AList.delete field model)) isvc_ModelPath)"

definition cleanupURIStorageUri :: "unstructured_api \<Rightarrow> jmap \<Rightarrow> go_error + jmap" where
  "cleanupURIStorageUri a obj = delete_from_model a obj ''storageUri''"

definition cleanupS3StorageKey :: "unstructured_api \<Rightarrow> jmap \<Rightarrow> go_error + jmap" where
  "cleanupS3StorageKey a obj = delete_from_model a obj ''storage''"

definition injectURIStorageUri :: "serving_env \<Rightarrow> unstructured_api \<Rightarrow> jmap \<Rightarrow> string \<Rightarrow> string \<Rightarrow> go_error + jmap" where
  "injectURIStorageUri env a obj secretName namespace =
     and_then (context_err ''failed to get URI value'' (GetURIValue env secretName namespace)) (\<lambda>uriValue.
       if uriValue = '''' then Inl (new_error (''no connection type URI value found for secret '' @ secretName))
       else context_err ''failed to set .spec.predictor.model.storageUri'' (SetNestedValue a obj (JString uriValue) isvc_StorageUriPath))"

definition storage_path :: "jmap \<Rightarrow> ConnectionInfo \<Rightarrow> string \<Rightarrow> jmap" where
  "storage_path storageMap connInfo oldSpecPath =
     (if map_of storageMap ''path'' \<noteq> None \<and> map_of storageMap ''path'' \<noteq> Some (JString '''') then storageMap
      else if ci_Path connInfo \<noteq> '''' then AList.update ''path'' (JString (ci_Path connInfo)) storageMap
      else if oldSpecPath \<noteq> '''' then AList.update ''path'' (JString oldSpecPath) storageMap
      else storageMap)"

definition injectS3StorageKeyPath :: "unstructured_api \<Rightarrow> jmap \<Rightarrow> ConnectionInfo \<Rightarrow> string \<Rightarrow> go_error + jmap" where
  "injectS3StorageKeyPath a obj connInfo oldSpecPath =
     and_then (context_err ''failed to get .spec.predictor.model'' (ua_NestedMap a obj isvc_ModelPath)) (\<lambda>found.
       case found of
         None \<Rightarrow> Inl (new_error ''not found .spec.predictor.model in resource'')
       | Some model \<Rightarrow>
           and_then (context_err ''failed to get or create nested map for storage'' (GetOrCreateNestedMap a model ''storage'')) (\<lambda>storageMap.
             let storageMap = storage_path (AList.update ''key'' (JString (ci_SecretName connInfo)) storageMap) connInfo oldSpecPath
             in context_err ''failed to set .spec.predictor.model storage''
                  (SetNestedValue a obj (JMap (AList.update ''storage'' (JMap storageMap) model)) isvc_ModelPath)))"

definition old_storage_path :: "unstructured_api \<Rightarrow> (string option \<Rightarrow> go_error + jmap) \<Rightarrow> web_request \<Rightarrow> string" where
  "old_storage_path a decode req =
     (if wq_Operation req = ''UPDATE'' \<and> wq_OldObject req \<noteq> None then
        case decode (wq_OldObject req) of
          Inl _ \<Rightarrow> ''''
        | Inr oldObj \<Rightarrow>
            (case ua_NestedString a oldObj [''spec'', ''predictor'', ''model'', ''storage'', ''path''] of Inr (Some p) \<Rightarrow> p | _ \<Rightarrow> '''')
      else '''')"

type_synonym injection =
  "serving_env \<Rightarrow> unstructured_api \<Rightarrow> (string option \<Rightarrow> go_error + jmap) \<Rightarrow> web_request \<Rightarrow> jmap \<Rightarrow> ConnectionInfo \<Rightarrow> go_error + bool \<times> jmap"
type_synonym cleanup = "unstructured_api \<Rightarrow> jmap \<Rightarrow> ConnectionInfo \<Rightarrow> go_error + bool \<times> jmap"

definition isvc_performConnectionInjection :: injection where
  "isvc_performConnectionInjection env a decode req obj connInfo =
     (if is_OCI (ci_Type connInfo) then
        and_then (context_err ''failed to inject OCI .spec.predictor.imagePullSecrets''
            (InjectOCIImagePullSecrets a obj isvc_ImagePullSecretPath (ci_SecretName connInfo))) (\<lambda>obj. Inr (True, obj))
      else if is_URI (ci_Type connInfo) then
        and_then (context_err ''failed to inject host to .spec.predictor.model.storageUri''
            (injectURIStorageUri env a obj (ci_SecretName connInfo) (wq_Namespace req))) (\<lambda>obj. Inr (True, obj))
      else if is_S3 (ci_Type connInfo) then
        and_then (context_err ''failed to inject .spec.predictor.serviceAccountName''
            (InjectServiceAccountName a obj isvc_ServiceAccountNamePath (ci_SecretName connInfo @ ''-sa''))) (\<lambda>obj.
        and_then (context_err ''failed to inject S3 .spec.predictor.model.storage''
            (injectS3StorageKeyPath a obj connInfo (old_storage_path a decode req))) (\<lambda>obj. Inr (True, obj)))
      else Inr (False, obj))"

definition isvc_performConnectionCleanup :: cleanup where
  "isvc_performConnectionCleanup a obj connInfo =
     (let oci = (\<lambda>obj. context_err ''failed to cleanup OCI .spec.predictor.imagePullSecrets''
                        (CleanupOCIImagePullSecrets a obj isvc_ImagePullSecretPath (ci_SecretName connInfo)));
          uri = (\<lambda>obj. context_err ''failed to cleanup URI .spec.predictor.model.storageUri'' (cleanupURIStorageUri a obj));
          sa = (\<lambda>obj. context_err ''failed to cleanup .spec.predictor.serviceAccountName''
                       (RemoveServiceAccountName a obj isvc_ServiceAccountNamePath (ci_SecretName connInfo @ ''-sa'')));
          s3 = (\<lambda>obj. context_err ''failed to cleanup S3 .spec.predictor.model.storage'' (cleanupS3StorageKey a obj));
          finish = (\<lambda>obj. Inr (True, obj)) in
      if ci_Type connInfo = '''' then
        and_then (if ci_SecretName connInfo \<noteq> '''' then oci obj else Inr (ua_RemoveNestedField a obj isvc_ImagePullSecretPath)) (\<lambda>obj.
        and_then (uri obj) (\<lambda>obj. and_then (sa obj) (\<lambda>obj. and_then (s3 obj) finish)))
      else if is_OCI (ci_Type connInfo) then and_then (oci obj) finish
      else if is_URI (ci_Type connInfo) then and_then (uri obj) finish
      else if is_S3 (ci_Type connInfo) then and_then (sa obj) (\<lambda>obj. and_then (s3 obj) finish)
      else Inr (False, obj))"

section \<open>LLMInferenceService\<close>

definition llm_UriPath :: "string list" where "llm_UriPath = [''spec'', ''model'', ''uri'']"
definition llm_ImagePullSecretPath :: "string list" where "llm_ImagePullSecretPath = [''spec'', ''template'', ''imagePullSecrets'']"
definition llm_ServiceAccountNamePath :: "string list" where "llm_ServiceAccountNamePath = [''spec'', ''template'', ''serviceAccountName'']"

definition injectModelUri :: "unstructured_api \<Rightarrow> jmap \<Rightarrow> string \<Rightarrow> go_error + jmap" where
  "injectModelUri a obj uriValue =
     (case ua_NestedMap a obj [''spec''] of
        Inl err \<Rightarrow> Inl (wrap ''failed to get .spec'' err)
      | Inr None \<Rightarrow> Inl (new_error ''failed to get .spec: %!w(<nil>)'')
      | Inr (Some spec) \<Rightarrow>
          and_then (context_err ''failed to get or create .spec.model'' (GetOrCreateNestedMap a spec ''model'')) (\<lambda>model.
            context_err ''failed to set .spec''
              (SetNestedValue a obj (JMap (AList.update ''model'' (JMap (AList.update ''uri'' (JString uriValue) model)) spec)) [''spec''])))"

definition hasLLMISVCUri :: "unstructured_api \<Rightarrow> jmap \<Rightarrow> bool" where
  "hasLLMISVCUri a obj = (case ua_NestedString a obj llm_UriPath of Inr (Some _) \<Rightarrow> True | _ \<Rightarrow> False)"

definition cleanupModelUri :: "unstructured_api \<Rightarrow> jmap \<Rightarrow> go_error + bool \<times> jmap" where
  "cleanupModelUri a obj =
     and_then (context_err ''failed to get .spec.model'' (ua_NestedMap a obj [''spec'', ''model''])) (\<lambda>found.
       Inr (case found of None \<Rightarrow> (False, obj) | Some _ \<Rightarrow> (True, ua_RemoveNestedField a obj [''spec'', ''model''])))"

definition llm_performConnectionInjection :: injection where
  "llm_performConnectionInjection env a decode req obj connInfo =
     (let inject = (\<lambda>obj uriValue. and_then (context_err ''failed to inject .spec.model.uri'' (injectModelUri a obj uriValue)) (\<lambda>obj. Inr (True, obj))) in
      if is_URI (ci_Type connInfo) then
        and_then (context_err (''failed to get URI value from secret '' @ ci_SecretName connInfo)
            (GetURIValue env (ci_SecretName connInfo) (wq_Namespace req)))
          (\<lambda>uriValue. if uriValue = '''' then Inr (False, obj) else inject obj uriValue)
      else if is_OCI (ci_Type connInfo) then
        and_then (context_err ''failed to inject OCI .spec.template.imagePullSecrets''
            (InjectOCIImagePullSecrets a obj llm_ImagePullSecretPath (ci_SecretName connInfo))) (\<lambda>obj. Inr (True, obj))
      else if is_S3 (ci_Type connInfo) then
        and_then (context_err ''failed to inject .spec.template.serviceAccountName''
            (InjectServiceAccountName a obj llm_ServiceAccountNamePath (ci_SecretName connInfo @ ''-sa''))) (\<lambda>obj.
        and_then (context_err ''failed to build S3 URI'' (BuildS3URI env connInfo (wq_Namespace req))) (inject obj))
      else Inr (False, obj))"

definition llm_cleanup_by_type :: cleanup where
  "llm_cleanup_by_type a obj connInfo =
     (let oci = (\<lambda>obj. context_err ''failed to cleanup OCI .spec.template.imagePullSecrets''
                        (CleanupOCIImagePullSecrets a obj llm_ImagePullSecretPath (ci_SecretName connInfo)));
          sa = (\<lambda>obj. context_err ''failed to cleanup .spec.template.serviceAccountName''
                       (RemoveServiceAccountName a obj llm_ServiceAccountNamePath (ci_SecretName connInfo @ ''-sa'')));
          finish = (\<lambda>obj. Inr (True, obj)) in
      if ci_Type connInfo = '''' then
        and_then (if ci_SecretName connInfo \<noteq> '''' then oci obj else Inr (ua_RemoveNestedField a obj llm_ImagePullSecretPath))
          (\<lambda>obj. and_then (sa obj) finish)
      else if is_S3 (ci_Type connInfo) then and_then (sa obj) finish
      else if is_OCI (ci_Type connInfo) then
        (if ci_SecretName connInfo \<noteq> '''' then and_then (oci obj) finish else Inr (False, obj))
      else Inr (False, obj))"

definition llm_performConnectionCleanup :: cleanup where
  "llm_performConnectionCleanup a obj connInfo =
     and_then (llm_cleanup_by_type a obj connInfo) (\<lambda>(cleanupPerformed, obj).
       if hasLLMISVCUri a obj then
         and_then (context_err ''failed to cleanup URI .spec.model.uri'' (cleanupModelUri a obj)) (\<lambda>(_, obj). Inr (True, obj))
       else Inr (cleanupPerformed, obj))"

section \<open>The handlers\<close>

definition WebhookPrecheck :: "serving_env \<Rightarrow> web_request \<Rightarrow> web_response option" where
  "WebhookPrecheck env req =
     (if wq_Object req = None then Some (web_Errored StatusBadRequest (new_error ''request object is nil''))
      else if \<not> se_HasClient env then Some (web_Errored StatusInternalServerError (new_error ''webhook client not initialized''))
      else if \<not> se_HasAPIReader env then Some (web_Errored StatusInternalServerError (new_error ''webhook APIReader not initialized''))
      else if se_Decoder env = None then Some (web_Errored StatusInternalServerError (new_error ''webhook decoder not initialized''))
      else None)"

definition CreatePatchResponse :: "serving_env \<Rightarrow> jmap \<Rightarrow> web_response" where
  "CreatePatchResponse env obj =
     (case se_Marshal env obj of Inl err \<Rightarrow> web_Errored StatusInternalServerError err | Inr _ \<Rightarrow> Patch obj [])"

text \<open>The branches of \<open>Handle\<close>: inject, remove, replace. \<open>performed\<close> is the object and whether it was changed so far.\<close>

definition where_suffix :: "web_request \<Rightarrow> string" where
  "where_suffix req = gvk_Kind (wq_Kind req) @ '' in namespace '' @ wq_Namespace req"

definition inject_connection ::
  "injection \<Rightarrow> serving_env \<Rightarrow> unstructured_api \<Rightarrow> (string option \<Rightarrow> go_error + jmap) \<Rightarrow> web_request \<Rightarrow> bool \<times> jmap \<Rightarrow> ConnectionInfo \<Rightarrow> string \<Rightarrow>
     web_response \<times> service_account list" where
  "inject_connection perform env a decode req performed newConn nothing =
     (let isDryRun = (wq_DryRun req = Some True);
          (err, sas) = ServiceAccountCreation env (ci_SecretName newConn) (ci_Type newConn) (wq_Namespace req) isDryRun in
      case err of
        Some err \<Rightarrow> (web_Errored StatusInternalServerError err, sas)
      | None \<Rightarrow>
          (case perform env a decode req (snd performed) newConn of
             Inl err \<Rightarrow> (web_Errored StatusInternalServerError err, sas)
           | Inr (injectionPerformed, obj) \<Rightarrow>
               (if fst performed \<or> injectionPerformed then CreatePatchResponse env obj else web_Allowed (nothing @ where_suffix req), sas)))"

definition run_action ::
  "injection \<Rightarrow> cleanup \<Rightarrow> serving_env \<Rightarrow> unstructured_api \<Rightarrow> (string option \<Rightarrow> go_error + jmap) \<Rightarrow> web_request \<Rightarrow> jmap \<Rightarrow>
     ConnectionInfo \<Rightarrow> ConnectionInfo \<Rightarrow> ConnectionAction \<Rightarrow> web_response \<times> service_account list" where
  "run_action perform cleanup env a decode req obj oldConn newConn action =
     (case action of
        ConnectionActionInject \<Rightarrow> inject_connection perform env a decode req (False, obj) newConn ''No connection injection performed for ''
      | ConnectionActionRemove \<Rightarrow>
          (case cleanup a obj oldConn of
             Inl err \<Rightarrow> (web_Errored StatusInternalServerError err, [])
           | Inr (cleanupPerformed, obj) \<Rightarrow>
               (if cleanupPerformed then CreatePatchResponse env obj
                else web_Allowed (''Connection cleanup not needed for '' @ where_suffix req), []))
      | ConnectionActionReplace \<Rightarrow>
          (case cleanup a obj oldConn of
             Inl err \<Rightarrow> (web_Errored StatusInternalServerError err, [])
           | Inr performed \<Rightarrow> inject_connection perform env a decode req performed newConn ''No connection changes performed for '')
      | ConnectionActionNone \<Rightarrow> (web_Allowed (''No connection change needed for '' @ where_suffix req), []))"

definition old_and_action ::
  "serving_env \<Rightarrow> unstructured_api \<Rightarrow> (string option \<Rightarrow> go_error + jmap) \<Rightarrow> web_request \<Rightarrow> ConnectionInfo \<Rightarrow> go_error + ConnectionInfo \<times> ConnectionAction" where
  "old_and_action env a decode req newConn =
     (if wq_Operation req = ''UPDATE''
      then and_then (GetOldConnectionInfo env a decode req) (\<lambda>oldConn. Inr (oldConn, DetermineConnectionChangeAction oldConn newConn))
      else Inr (no_connection, ConnectionActionInject))"

definition connection_Handle ::
  "injection \<Rightarrow> cleanup \<Rightarrow> serving_env \<Rightarrow> unstructured_api \<Rightarrow> web_request \<Rightarrow> web_response \<times> service_account list" where
  "connection_Handle perform cleanup env a req =
     (case (WebhookPrecheck env req, se_Decoder env) of
        (Some resp, _) \<Rightarrow> (resp, [])
      | (None, None) \<Rightarrow> (web_Errored StatusInternalServerError (new_error ''webhook decoder not initialized''), [])
      | (None, Some decode) \<Rightarrow>
          (case DecodeUnstructured decode req of
             Inl err \<Rightarrow> (web_Errored StatusInternalServerError err, [])
           | Inr obj \<Rightarrow>
               if ua_Deleting a obj then (web_Allowed ''Object marked for deletion, skipping connection logic'', [])
               else if wq_Operation req \<noteq> ''CREATE'' \<and> wq_Operation req \<noteq> ''UPDATE'' then
                 (web_Allowed (''Operation '' @ wq_Operation req @ '' on '' @ gvk_Kind (wq_Kind req) @ '' allowed in namespace '' @ wq_Namespace req), [])
               else
                 let (validationResp, newConn) = ValidateServingConnectionAnnotation env a obj req allowedTypes in
                 if \<not> rs_Allowed validationResp then (Plain validationResp, [])
                 else
                   case old_and_action env a decode req newConn of
                     Inl err \<Rightarrow> (web_Errored StatusInternalServerError err, [])
                   | Inr (oldConn, action) \<Rightarrow> run_action perform cleanup env a decode req obj oldConn newConn action))"

definition ISVC_Handle :: "serving_env \<Rightarrow> unstructured_api \<Rightarrow> web_request \<Rightarrow> web_response \<times> service_account list" where
  "ISVC_Handle = connection_Handle isvc_performConnectionInjection isvc_performConnectionCleanup"

definition LLMISVC_Handle :: "serving_env \<Rightarrow> unstructured_api \<Rightarrow> web_request \<Rightarrow> web_response \<times> service_account list" where
  "LLMISVC_Handle = connection_Handle llm_performConnectionInjection llm_performConnectionCleanup"

section \<open>Who creates ServiceAccounts\<close>

text \<open>The connection a validated object asks for.\<close>

definition wants_s3 :: "serving_env \<Rightarrow> unstructured_api \<Rightarrow> web_request \<Rightarrow> string \<Rightarrow> bool" where
  "wants_s3 env a req secretName \<longleftrightarrow>
     (\<exists>decode obj meta. se_Decoder env = Some decode \<and> DecodeUnstructured decode req = Inr obj \<and> \<not> ua_Deleting a obj \<and>
        ua_GetAnnotation a obj Connection_annotation \<noteq> '''' \<and>
        se_NewSecretMeta env (ua_GetAnnotation a obj Connection_annotation) (wq_Namespace req) = Inr meta \<and>
        sm_SecretName meta = secretName \<and> is_S3 (fst (ValidateInferenceServiceConnectionType meta allowedTypes)))"

lemma ValidateServingConnectionAnnotation_secret:
  assumes "ValidateServingConnectionAnnotation env a obj req types = (resp, conn)" "ci_Type conn \<noteq> ''''"
  shows "\<exists>meta. ua_GetAnnotation a obj Connection_annotation \<noteq> '''' \<and>
    se_NewSecretMeta env (ua_GetAnnotation a obj Connection_annotation) (wq_Namespace req) = Inr meta \<and>
    ci_SecretName conn = sm_SecretName meta \<and> ci_Type conn = fst (ValidateInferenceServiceConnectionType meta types)"
  using assms
  by (auto simp: ValidateServingConnectionAnnotation_def Let_def no_connection_def split: if_splits sum.splits prod.splits)

lemma inject_connection_accounts:
  assumes "sa \<in> set (snd (inject_connection perform env a decode req performed newConn msg))"
  shows "is_S3 (ci_Type newConn) \<and> wq_DryRun req \<noteq> Some True \<and>
    sa = \<lparr>sa_Name = ci_SecretName newConn @ ''-sa'', sa_Namespace = wq_Namespace req, sa_Secret = ci_SecretName newConn\<rparr>"
  using assms
  by (auto simp: inject_connection_def ServiceAccountCreation_def CreateSA_def Let_def split: if_splits option.splits sum.splits prod.splits)

text \<open>A handler that patches or creates something has run an action.\<close>

lemma connection_Handle_action:
  assumes "snd (connection_Handle perform cleanup env a req) \<noteq> [] \<or> (\<exists>obj' ws. fst (connection_Handle perform cleanup env a req) = Patch obj' ws)"
  obtains decode obj resp newConn oldConn action where "se_Decoder env = Some decode" "DecodeUnstructured decode req = Inr obj" "\<not> ua_Deleting a obj"
    "wq_Operation req = ''CREATE'' \<or> wq_Operation req = ''UPDATE''"
    "ValidateServingConnectionAnnotation env a obj req allowedTypes = (resp, newConn)"
    "old_and_action env a decode req newConn = Inr (oldConn, action)"
    "connection_Handle perform cleanup env a req = run_action perform cleanup env a decode req obj oldConn newConn action"
proof -
  have pre: "WebhookPrecheck env req = None"
  proof (rule ccontr)
    assume "WebhookPrecheck env req \<noteq> None"
    then show False
      using assms by (auto simp: connection_Handle_def WebhookPrecheck_def split: if_splits)
  qed
  obtain decode where dec: "se_Decoder env = Some decode"
    using assms pre by (cases "se_Decoder env") (auto simp: connection_Handle_def)
  obtain obj where obj: "DecodeUnstructured decode req = Inr obj"
    using assms pre dec by (cases "DecodeUnstructured decode req") (auto simp: connection_Handle_def)
  obtain resp newConn where val: "ValidateServingConnectionAnnotation env a obj req allowedTypes = (resp, newConn)"
    by fastforce
  have guards: "\<not> ua_Deleting a obj" "wq_Operation req = ''CREATE'' \<or> wq_Operation req = ''UPDATE''" "rs_Allowed resp"
    using assms pre dec obj val by (auto simp: connection_Handle_def split: if_splits)
  obtain oldConn action where act: "old_and_action env a decode req newConn = Inr (oldConn, action)"
    using assms pre dec obj val guards by (cases "old_and_action env a decode req newConn") (auto simp: connection_Handle_def)
  have "connection_Handle perform cleanup env a req = run_action perform cleanup env a decode req obj oldConn newConn action"
    using pre dec obj val guards act by (auto simp: connection_Handle_def)
  with that dec obj guards val act show thesis by blast
qed

lemma run_action_accounts:
  assumes "sa \<in> set (snd (run_action perform cleanup env a decode req obj oldConn newConn action))"
  shows "\<exists>performed msg. sa \<in> set (snd (inject_connection perform env a decode req performed newConn msg))"
  using assms by (auto simp: run_action_def split: ConnectionAction.splits sum.splits)

text \<open>
  ServiceAccounts. Whichever of the two webhooks handles the request, it creates a ServiceAccount only on creation or update of an object that is
  not being deleted, whose connection annotation names an existing secret of an allowed type S3, and never in a dry run; the account is the one of that
  secret, in the namespace of the request.
\<close>

theorem service_accounts_only_for_s3:
  assumes "sa \<in> set (snd (ISVC_Handle env a req)) \<union> set (snd (LLMISVC_Handle env a req))"
  shows "wants_s3 env a req (sa_Secret sa) \<and> wq_DryRun req \<noteq> Some True \<and> (wq_Operation req = ''CREATE'' \<or> wq_Operation req = ''UPDATE'') \<and>
    sa_Name sa = sa_Secret sa @ ''-sa'' \<and> sa_Namespace sa = wq_Namespace req"
proof -
  obtain perform cleanup where "sa \<in> set (snd (connection_Handle perform cleanup env a req))"
    using assms by (auto simp: ISVC_Handle_def LLMISVC_Handle_def)
  note sa = this
  then have created: "snd (connection_Handle perform cleanup env a req) \<noteq> []"
    by auto
  obtain decode obj resp newConn oldConn action where h: "se_Decoder env = Some decode" "DecodeUnstructured decode req = Inr obj" "\<not> ua_Deleting a obj"
    "wq_Operation req = ''CREATE'' \<or> wq_Operation req = ''UPDATE''"
    "ValidateServingConnectionAnnotation env a obj req allowedTypes = (resp, newConn)"
    "connection_Handle perform cleanup env a req = run_action perform cleanup env a decode req obj oldConn newConn action"
    by (rule connection_Handle_action [OF disjI1 [OF created]])
  obtain performed msg where inj: "sa \<in> set (snd (inject_connection perform env a decode req performed newConn msg))"
    using run_action_accounts [OF sa [unfolded h(6)]] by blast
  note acc = inject_connection_accounts [OF inj]
  then have "ci_Type newConn \<noteq> ''''"
    by (auto simp: is_S3_def)
  from ValidateServingConnectionAnnotation_secret [OF h(5) this] acc h(1-4) show ?thesis
    unfolding wants_s3_def by auto
qed

section \<open>What a connection leaves alone\<close>

context workload_api
begin

lemma set_value_keeps:
  assumes "SetNestedValue a obj v q = Inr obj'" "\<forall>t. v \<noteq> JOther t" "independent q p"
  shows "lookup obj' p = lookup obj p"
  using lookup_store_independent assms set_value by blast

lemma pull_secrets_keep:
  assumes "independent q p"
  shows "InjectOCIImagePullSecrets a obj q n = Inr obj' \<Longrightarrow> lookup obj' p = lookup obj p"
    and "CleanupOCIImagePullSecrets a obj q n = Inr obj' \<Longrightarrow> lookup obj' p = lookup obj p"
proof -
  assume "InjectOCIImagePullSecrets a obj q n = Inr obj'"
  then show "lookup obj' p = lookup obj p"
    using set_value_keeps [OF _ _ assms] by (auto simp: InjectOCIImagePullSecrets_def and_then_Inr split: if_splits)
next
  assume "CleanupOCIImagePullSecrets a obj q n = Inr obj'"
  then show "lookup obj' p = lookup obj p"
    using lookup_erase_independent [OF assms] lookup_store_independent [OF _ assms]
    by (auto simp: CleanupOCIImagePullSecrets_def and_then_Inr nested_reads(9) nested_writes(1) Let_def split: if_splits option.splits)
qed

lemma model_keeps:
  assumes "independent isvc_ModelPath p"
  shows "delete_from_model a obj f = Inr obj' \<Longrightarrow> lookup obj' p = lookup obj p"
    and "injectS3StorageKeyPath a obj conn old = Inr obj' \<Longrightarrow> lookup obj' p = lookup obj p"
  using set_value_keeps [OF _ _ assms]
  by (auto simp: delete_from_model_def injectS3StorageKeyPath_def and_then_Inr Let_def split: option.splits)

lemma account_kept:
  assumes "lookup obj p = Value (JString u)" "u \<noteq> ''''"
  shows "InjectServiceAccountName a obj p n = Inr obj' \<Longrightarrow> obj' = obj"
    and "u \<noteq> n \<Longrightarrow> RemoveServiceAccountName a obj p n = Inr obj' \<Longrightarrow> obj' = obj"
  using assms nested_reads(8) [OF assms(1)] by (auto simp: InjectServiceAccountName_def RemoveServiceAccountName_def split: if_splits)

lemma isvc_paths: "independent isvc_ModelPath isvc_ServiceAccountNamePath" "independent isvc_ImagePullSecretPath isvc_ServiceAccountNamePath"
  "independent isvc_StorageUriPath isvc_ServiceAccountNamePath"
  by (simp_all add: isvc_ModelPath_def isvc_ServiceAccountNamePath_def isvc_ImagePullSecretPath_def isvc_StorageUriPath_def)

lemma isvc_injection_keeps_account:
  assumes acc: "lookup obj isvc_ServiceAccountNamePath = Value (JString u)" "u \<noteq> ''''"
    and run: "isvc_performConnectionInjection env a decode req obj conn = Inr (b, obj')"
  shows "lookup obj' isvc_ServiceAccountNamePath = Value (JString u)"
proof -
  consider "is_OCI (ci_Type conn)" | "is_URI (ci_Type conn)" "\<not> is_OCI (ci_Type conn)"
    | "is_S3 (ci_Type conn)" "\<not> is_OCI (ci_Type conn)" "\<not> is_URI (ci_Type conn)"
    | "\<not> is_OCI (ci_Type conn)" "\<not> is_URI (ci_Type conn)" "\<not> is_S3 (ci_Type conn)" by blast
  then show ?thesis
  proof cases
    case 1
    then show ?thesis
      using run acc pull_secrets_keep(1) [OF isvc_paths(2)] by (auto simp: isvc_performConnectionInjection_def and_then_Inr)
  next
    case 2
    then show ?thesis
      using run acc set_value_keeps [OF _ _ isvc_paths(3)]
      by (auto simp: isvc_performConnectionInjection_def injectURIStorageUri_def and_then_Inr split: if_splits)
  next
    case 3
    then obtain obj1 where "InjectServiceAccountName a obj isvc_ServiceAccountNamePath (ci_SecretName conn @ ''-sa'') = Inr obj1"
      and s3: "injectS3StorageKeyPath a obj1 conn (old_storage_path a decode req) = Inr obj'"
      using run by (auto simp: isvc_performConnectionInjection_def and_then_Inr)
    then have "obj1 = obj"
      using account_kept(1) [OF acc] by blast
    then show ?thesis
      using model_keeps(2) [OF isvc_paths(1) s3] acc(1) by simp
  next
    case 4
    then show ?thesis
      using run acc by (auto simp: isvc_performConnectionInjection_def)
  qed
qed

lemma isvc_cleanup_keeps_account:
  assumes acc: "lookup obj isvc_ServiceAccountNamePath = Value (JString u)" "u \<noteq> ''''" "u \<noteq> ci_SecretName conn @ ''-sa''"
    and run: "isvc_performConnectionCleanup a obj conn = Inr (b, obj')"
  shows "lookup obj' isvc_ServiceAccountNamePath = Value (JString u)"
proof -
  let ?kept = "\<lambda>obj. lookup obj isvc_ServiceAccountNamePath = Value (JString u)"
  have oci: "CleanupOCIImagePullSecrets a o1 isvc_ImagePullSecretPath n = Inr o2 \<Longrightarrow> ?kept o1 \<Longrightarrow> ?kept o2" for o1 o2 n
    using pull_secrets_keep(2) [OF isvc_paths(2)] by simp
  have del: "delete_from_model a o1 f = Inr o2 \<Longrightarrow> ?kept o1 \<Longrightarrow> ?kept o2" for o1 o2 f
    using model_keeps(1) [OF isvc_paths(1)] by simp
  have sa: "RemoveServiceAccountName a o1 isvc_ServiceAccountNamePath (ci_SecretName conn @ ''-sa'') = Inr o2 \<Longrightarrow> ?kept o1 \<Longrightarrow> ?kept o2" for o1 o2
    using account_kept(2) [OF _ acc(2,3)] by blast
  have rm: "?kept o1 \<Longrightarrow> ?kept (ua_RemoveNestedField a o1 isvc_ImagePullSecretPath)" for o1
    using lookup_erase_independent [OF isvc_paths(2)] by (simp add: nested_reads(9))
  show ?thesis
    using run acc(1) oci del sa rm
    by (auto simp: isvc_performConnectionCleanup_def and_then_Inr Let_def cleanupURIStorageUri_def cleanupS3StorageKey_def split: if_splits)
qed

lemma llm_paths: "independent llm_ImagePullSecretPath llm_ServiceAccountNamePath" "independent [''spec'', ''model''] llm_ServiceAccountNamePath"
  by (simp_all add: llm_ServiceAccountNamePath_def llm_ImagePullSecretPath_def)

lemma injectModelUri_keeps:
  assumes "lookup obj llm_ServiceAccountNamePath = Value v" "injectModelUri a obj uri = Inr obj'"
  shows "lookup obj' llm_ServiceAccountNamePath = Value v"
proof -
  obtain spec where spec: "lookup obj [''spec''] = Value (JMap spec)" "lookup spec [''template'', ''serviceAccountName''] = Value v"
    using assms(1) by (auto simp: llm_ServiceAccountNamePath_def split: option.splits jval.splits)
  then obtain m where "store obj [''spec''] (JMap (AList.update ''model'' m spec)) = Some obj'"
    using assms(2) nested_reads(4) [OF spec(1)] set_value by (auto simp: injectModelUri_def and_then_Inr)
  then have "map_of obj' ''spec'' = Some (JMap (AList.update ''model'' m spec))"
    by (auto simp: go_map_simps)
  moreover have "lookup (AList.update ''model'' m spec) [''template'', ''serviceAccountName''] = Value v"
    using spec(2) by (simp add: go_map_simps)
  ultimately show ?thesis
    by (simp add: llm_ServiceAccountNamePath_def)
qed

lemma llm_injection_keeps_account:
  assumes acc: "lookup obj llm_ServiceAccountNamePath = Value (JString u)" "u \<noteq> ''''"
    and run: "llm_performConnectionInjection env a decode req obj conn = Inr (b, obj')"
  shows "lookup obj' llm_ServiceAccountNamePath = Value (JString u)"
proof -
  consider "is_URI (ci_Type conn)" | "is_OCI (ci_Type conn)" "\<not> is_URI (ci_Type conn)"
    | "is_S3 (ci_Type conn)" "\<not> is_OCI (ci_Type conn)" "\<not> is_URI (ci_Type conn)"
    | "\<not> is_OCI (ci_Type conn)" "\<not> is_URI (ci_Type conn)" "\<not> is_S3 (ci_Type conn)" by blast
  then show ?thesis
  proof cases
    case 1
    then show ?thesis
      using run acc injectModelUri_keeps [OF acc(1)] by (auto simp: llm_performConnectionInjection_def and_then_Inr Let_def split: if_splits)
  next
    case 2
    then show ?thesis
      using run acc pull_secrets_keep(1) [OF llm_paths(1)] by (auto simp: llm_performConnectionInjection_def and_then_Inr Let_def)
  next
    case 3
    then obtain obj1 uri where "InjectServiceAccountName a obj llm_ServiceAccountNamePath (ci_SecretName conn @ ''-sa'') = Inr obj1"
      and uri: "injectModelUri a obj1 uri = Inr obj'"
      using run by (auto simp: llm_performConnectionInjection_def and_then_Inr Let_def)
    then have "obj1 = obj"
      using account_kept(1) [OF acc] by blast
    then show ?thesis
      using injectModelUri_keeps [OF acc(1)] uri by simp
  next
    case 4
    then show ?thesis
      using run acc by (auto simp: llm_performConnectionInjection_def Let_def)
  qed
qed

lemma llm_cleanup_keeps_account:
  assumes acc: "lookup obj llm_ServiceAccountNamePath = Value (JString u)" "u \<noteq> ''''" "u \<noteq> ci_SecretName conn @ ''-sa''"
    and run: "llm_performConnectionCleanup a obj conn = Inr (b, obj')"
  shows "lookup obj' llm_ServiceAccountNamePath = Value (JString u)"
proof -
  let ?kept = "\<lambda>obj. lookup obj llm_ServiceAccountNamePath = Value (JString u)"
  have oci: "CleanupOCIImagePullSecrets a o1 llm_ImagePullSecretPath n = Inr o2 \<Longrightarrow> ?kept o1 \<Longrightarrow> ?kept o2" for o1 o2 n
    using pull_secrets_keep(2) [OF llm_paths(1)] by simp
  have sa: "RemoveServiceAccountName a o1 llm_ServiceAccountNamePath (ci_SecretName conn @ ''-sa'') = Inr o2 \<Longrightarrow> ?kept o1 \<Longrightarrow> ?kept o2" for o1 o2
    using account_kept(2) [OF _ acc(2,3)] by blast
  have rm: "?kept o1 \<Longrightarrow> ?kept (ua_RemoveNestedField a o1 llm_ImagePullSecretPath)" "?kept o1 \<Longrightarrow> ?kept (ua_RemoveNestedField a o1 [''spec'', ''model''])" for o1
    using lookup_erase_independent [OF llm_paths(1)] lookup_erase_independent [OF llm_paths(2)] by (simp_all add: nested_reads(9))
  have model: "cleanupModelUri a o1 = Inr (b, o2) \<Longrightarrow> ?kept o1 \<Longrightarrow> ?kept o2" for o1 o2 b
    using rm(2) by (auto simp: cleanupModelUri_def and_then_Inr split: option.splits)
  obtain b1 obj1 where by_type: "llm_cleanup_by_type a obj conn = Inr (b1, obj1)"
    and rest: "obj' = obj1 \<or> (\<exists>b2. cleanupModelUri a obj1 = Inr (b2, obj'))"
    using run by (auto simp: llm_performConnectionCleanup_def and_then_Inr split: if_splits)
  have "?kept obj1"
    using by_type acc(1) oci sa rm(1) by (auto simp: llm_cleanup_by_type_def and_then_Inr Let_def split: if_splits)
  then show ?thesis
    using rest model by blast
qed

end

lemma inject_connection_patch:
  assumes "fst (inject_connection perform env a decode req performed newConn msg) = Patch obj' ws"
  shows "\<exists>b. perform env a decode req (snd performed) newConn = Inr (b, obj')"
  using assms
  by (auto simp: inject_connection_def CreatePatchResponse_def Let_def split: option.splits sum.splits prod.splits if_splits)

lemma run_action_keeps:
  assumes "fst (run_action perform cleanup env a decode req obj oldConn newConn action) = Patch obj' ws" "K obj"
    and inject: "\<And>o1 b o2. K o1 \<Longrightarrow> perform env a decode req o1 newConn = Inr (b, o2) \<Longrightarrow> K o2"
    and cleanup: "\<And>o1 b o2. action \<noteq> ConnectionActionInject \<Longrightarrow> action \<noteq> ConnectionActionNone \<Longrightarrow> K o1 \<Longrightarrow> cleanup a o1 oldConn = Inr (b, o2) \<Longrightarrow> K o2"
  shows "K obj'"
proof (cases action)
  case ConnectionActionInject
  then show ?thesis
    using inject [OF assms(2)] inject_connection_patch [OF assms(1) [unfolded run_action_def ConnectionActionInject ConnectionAction.case]] by auto
next
  case ConnectionActionRemove
  then obtain b obj1 where "cleanup a obj oldConn = Inr (b, obj1)" "obj' = obj1"
    using assms(1) by (auto simp: run_action_def CreatePatchResponse_def split: sum.splits if_splits)
  then show ?thesis
    using cleanup assms(2) ConnectionActionRemove by blast
next
  case ConnectionActionReplace
  then obtain b obj1 msg where "cleanup a obj oldConn = Inr (b, obj1)"
    "fst (inject_connection perform env a decode req (b, obj1) newConn msg) = Patch obj' ws"
    using assms(1) by (auto simp: run_action_def split: sum.splits)
  then show ?thesis
    using cleanup inject assms(2) inject_connection_patch ConnectionActionReplace by (metis ConnectionAction.distinct snd_conv)
next
  case ConnectionActionNone
  then show ?thesis
    using assms(1) by (simp add: run_action_def)
qed

lemma old_connection_name:
  assumes "old_and_action env a decode req newConn = Inr (oldConn, action)" "action \<noteq> ConnectionActionInject" "action \<noteq> ConnectionActionNone"
  shows "\<exists>oldObj. decode (wq_OldObject req) = Inr oldObj \<and> ci_SecretName oldConn = ua_GetAnnotation a oldObj Connection_annotation"
proof -
  have old: "GetOldConnectionInfo env a decode req = Inr oldConn" "\<not> IsSecretEmpty oldConn"
    using assms by (auto simp: old_and_action_def and_then_Inr DetermineConnectionChangeAction_def split: if_splits)
  then show ?thesis
    by (auto simp: GetOldConnectionInfo_def and_then_Inr Let_def IsSecretEmpty_def no_connection_def split: if_splits sum.splits)
qed

lemma handle_keeps:
  assumes "se_Decoder env = Some decode" "DecodeUnstructured decode req = Inr obj" "K obj"
    and run: "fst (connection_Handle perform cleanup env a req) = Patch obj' ws"
    and inject: "\<And>conn o1 b o2. K o1 \<Longrightarrow> perform env a decode req o1 conn = Inr (b, o2) \<Longrightarrow> K o2"
    and cleanup: "\<And>conn oldObj o1 b o2. decode (wq_OldObject req) = Inr oldObj \<Longrightarrow> ci_SecretName conn = ua_GetAnnotation a oldObj Connection_annotation \<Longrightarrow>
      K o1 \<Longrightarrow> cleanup a o1 conn = Inr (b, o2) \<Longrightarrow> K o2"
  shows "K obj'"
proof -
  have patched: "\<exists>obj' ws. fst (connection_Handle perform cleanup env a req) = Patch obj' ws"
    using run by blast
  obtain decode' obj'' resp newConn oldConn action where h: "se_Decoder env = Some decode'" "DecodeUnstructured decode' req = Inr obj''"
    "old_and_action env a decode' req newConn = Inr (oldConn, action)"
    "connection_Handle perform cleanup env a req = run_action perform cleanup env a decode' req obj'' oldConn newConn action"
    by (rule connection_Handle_action [OF disjI2 [OF patched]])
  then have same: "decode' = decode" "obj'' = obj"
    using assms(1,2) by auto
  show ?thesis
  proof (rule run_action_keeps [where K = K, OF run [unfolded h(4) same] assms(3) inject])
    show "K o2" if "action \<noteq> ConnectionActionInject" "action \<noteq> ConnectionActionNone" "K o1" "cleanup a o1 oldConn = Inr (b, o2)" for o1 b o2
      using old_connection_name [OF h(3) that(1,2)] cleanup that(3,4) same by blast
  qed
qed

text \<open>
  C33. A ServiceAccount the user chose stays. If the submitted object names a ServiceAccount, and its name is not \<open>c-sa\<close> for the connection \<open>c\<close> that the
  stored object names (that name is taken for the operator's own), the patch of either webhook leaves it in place, whether a connection is
  injected, replaced or removed.
\<close>

theorem user_service_account_kept:
  assumes "api_laws a" "se_Decoder env = Some decode" "DecodeUnstructured decode req = Inr obj" "u \<noteq> ''''"
    and "\<And>oldObj. decode (wq_OldObject req) = Inr oldObj \<Longrightarrow> u \<noteq> ua_GetAnnotation a oldObj Connection_annotation @ ''-sa''"
  shows "(lookup obj isvc_ServiceAccountNamePath = Value (JString u) \<and> fst (ISVC_Handle env a req) = Patch obj' ws \<longrightarrow>
      lookup obj' isvc_ServiceAccountNamePath = Value (JString u)) \<and>
    (lookup obj llm_ServiceAccountNamePath = Value (JString u) \<and> fst (LLMISVC_Handle env a req) = Patch obj' ws \<longrightarrow>
      lookup obj' llm_ServiceAccountNamePath = Value (JString u))"
proof -
  note api = workload_api.intro [OF assms(1)]
  show ?thesis
  proof (intro conjI impI; elim conjE)
    assume here: "lookup obj isvc_ServiceAccountNamePath = Value (JString u)" and run: "fst (ISVC_Handle env a req) = Patch obj' ws"
    show "lookup obj' isvc_ServiceAccountNamePath = Value (JString u)"
      by (rule handle_keeps [where K = "\<lambda>m. lookup m isvc_ServiceAccountNamePath = Value (JString u)", OF assms(2,3) here run [unfolded ISVC_Handle_def]])
        (use workload_api.isvc_injection_keeps_account [OF api _ assms(4)] workload_api.isvc_cleanup_keeps_account [OF api _ assms(4)] assms(5) in metis)+
  next
    assume here: "lookup obj llm_ServiceAccountNamePath = Value (JString u)" and run: "fst (LLMISVC_Handle env a req) = Patch obj' ws"
    show "lookup obj' llm_ServiceAccountNamePath = Value (JString u)"
      by (rule handle_keeps [where K = "\<lambda>m. lookup m llm_ServiceAccountNamePath = Value (JString u)", OF assms(2,3) here run [unfolded LLMISVC_Handle_def]])
        (use workload_api.llm_injection_keeps_account [OF api _ assms(4)] workload_api.llm_cleanup_keeps_account [OF api _ assms(4)] assms(5) in metis)+
  qed
qed

section \<open>Replaced connections\<close>

context workload_api
begin

lemma model_deleted:
  assumes "lookup obj isvc_ModelPath = Value (JMap model)" "delete_from_model a obj f = Inr obj'"
  shows "lookup obj' isvc_ModelPath = Value (JMap (AList.delete f model))"
  using assms nested_reads(4) [OF assms(1)] set_value lookup_store by (auto simp: delete_from_model_def)

lemma storage_injected:
  assumes "lookup obj isvc_ModelPath = Value (JMap model)" "map_of model ''storage'' = None \<and> st = [] \<or> map_of model ''storage'' = Some (JMap st)"
    and "injectS3StorageKeyPath a obj conn old = Inr obj'"
  shows "lookup obj' (isvc_ModelPath @ [''storage'']) =
    Value (JMap (storage_path (AList.update ''key'' (JString (ci_SecretName conn)) st) conn old))"
proof -
  have "GetOrCreateNestedMap a model ''storage'' = Inr st"
    using assms(2) nested_reads(3,4) [of model "[''storage'']"] by (auto simp: GetOrCreateNestedMap_def)
  then have "store obj isvc_ModelPath (JMap (AList.update ''storage''
      (JMap (storage_path (AList.update ''key'' (JString (ci_SecretName conn)) st) conn old)) model)) = Some obj'"
    using assms(3) nested_reads(4) [OF assms(1)] set_value by (auto simp: injectS3StorageKeyPath_def and_then_Inr Let_def)
  from lookup_store [OF this] show ?thesis
    by (auto simp: isvc_ModelPath_def go_map_simps split: option.splits jval.splits)
qed

lemma account_keeps_model:
  "InjectServiceAccountName a obj isvc_ServiceAccountNamePath n = Inr obj' \<Longrightarrow> lookup obj' isvc_ModelPath = lookup obj isvc_ModelPath"
  "RemoveServiceAccountName a obj isvc_ServiceAccountNamePath n = Inr obj' \<Longrightarrow> lookup obj' isvc_ModelPath = lookup obj isvc_ModelPath"
proof -
  have ind: "independent isvc_ServiceAccountNamePath isvc_ModelPath"
    by (simp add: isvc_ModelPath_def isvc_ServiceAccountNamePath_def)
  show "InjectServiceAccountName a obj isvc_ServiceAccountNamePath n = Inr obj' \<Longrightarrow> lookup obj' isvc_ModelPath = lookup obj isvc_ModelPath"
    using set_value_keeps [OF _ _ ind] by (auto simp: InjectServiceAccountName_def and_then_Inr split: if_splits)
  show "RemoveServiceAccountName a obj isvc_ServiceAccountNamePath n = Inr obj' \<Longrightarrow> lookup obj' isvc_ModelPath = lookup obj isvc_ModelPath"
    using lookup_erase_independent [OF ind] by (auto simp: RemoveServiceAccountName_def and_then_Inr nested_reads(9) split: if_splits)
qed

end

text \<open>The storage section an S3 connection leaves, from the one it finds.\<close>

definition storage_after :: "jmap \<Rightarrow> ConnectionInfo \<Rightarrow> string \<Rightarrow> jmap" where
  "storage_after st conn old = storage_path (AList.update ''key'' (JString (ci_SecretName conn)) st) conn old"

lemma storage_after_path:
  "map_of (storage_after st conn old) ''key'' = Some (JString (ci_SecretName conn))"
  "map_of (storage_after st conn old) ''path'' =
     (if map_of st ''path'' \<notin> {None, Some (JString '''')} then map_of st ''path''
      else if ci_Path conn \<noteq> '''' then Some (JString (ci_Path conn)) else if old \<noteq> '''' then Some (JString old) else map_of st ''path'')"
  by (auto simp: storage_after_def storage_path_def go_map_simps)

text \<open>
  The storage of an S3 connection on an InferenceService. A first injection keeps the path the user submits, then takes the one of the annotation,
  then the path of the old object, in that order, as the code's comment says. When the connection is replaced the cleanup comes first and deletes the
  submitted storage section: the result is the one of an empty section, so a path submitted together with a new secret is lost.
\<close>

theorem isvc_s3_storage:
  assumes "api_laws a" "is_S3 (ci_Type new)" "lookup obj isvc_ModelPath = Value (JMap model)"
    and "map_of model ''storage'' = None \<and> st = [] \<or> map_of model ''storage'' = Some (JMap st)"
  shows "(\<forall>b obj'. isvc_performConnectionInjection env a decode req obj new = Inr (b, obj') \<longrightarrow>
      lookup obj' (isvc_ModelPath @ [''storage'']) = Value (JMap (storage_after st new (old_storage_path a decode req)))) \<and>
    (\<forall>c obj1 b obj'. is_S3 (ci_Type oldConn) \<and> isvc_performConnectionCleanup a obj oldConn = Inr (c, obj1) \<and>
      isvc_performConnectionInjection env a decode req obj1 new = Inr (b, obj') \<longrightarrow>
      lookup obj' (isvc_ModelPath @ [''storage'']) = Value (JMap (storage_after [] new (old_storage_path a decode req))))"
proof -
  note api = workload_api.intro [OF assms(1)]
  have s3: "\<not> is_OCI t" "\<not> is_URI t" "t \<noteq> ''''" if "is_S3 t" for t
    using that by (auto simp: is_S3_def is_OCI_def is_URI_def)
  have inject: "lookup o2 (isvc_ModelPath @ [''storage'']) = Value (JMap (storage_after st (new) (old_storage_path a decode req)))"
    if h: "lookup o1 isvc_ModelPath = Value (JMap model)" "map_of model ''storage'' = None \<and> st = [] \<or> map_of model ''storage'' = Some (JMap st)"
      "isvc_performConnectionInjection env a decode req o1 new = Inr (b, o2)" for o1 o2 b model st
  proof -
    obtain o3 where o3: "InjectServiceAccountName a o1 isvc_ServiceAccountNamePath (ci_SecretName new @ ''-sa'') = Inr o3"
      "injectS3StorageKeyPath a o3 new (old_storage_path a decode req) = Inr o2"
      using h(3) s3(1,2) [OF assms(2)] assms(2) by (auto simp: isvc_performConnectionInjection_def and_then_Inr)
    have "lookup o3 isvc_ModelPath = Value (JMap model)"
      using workload_api.account_keeps_model(1) [OF api o3(1)] h(1) by simp
    from workload_api.storage_injected [OF api this h(2) o3(2)] show ?thesis
      by (simp add: storage_after_def)
  qed
  have cleaned: "lookup o2 isvc_ModelPath = Value (JMap (AList.delete ''storage'' model))"
    if h: "is_S3 (ci_Type oldConn)" "isvc_performConnectionCleanup a obj oldConn = Inr (c, o2)" for c o2
  proof -
    obtain o1 where o1: "RemoveServiceAccountName a obj isvc_ServiceAccountNamePath (ci_SecretName oldConn @ ''-sa'') = Inr o1"
      "delete_from_model a o1 ''storage'' = Inr o2"
      using h(2) s3 [OF h(1)] h(1) by (auto simp: isvc_performConnectionCleanup_def and_then_Inr Let_def cleanupS3StorageKey_def)
    show ?thesis
      using workload_api.model_deleted [OF api _ o1(2)] workload_api.account_keeps_model(2) [OF api o1(1)] assms(3) by simp
  qed
  show ?thesis
    using inject [OF assms(3,4)] inject [OF cleaned, of _ _ "[]"] by (auto simp: go_map_simps)
qed

text \<open>
  Rotating the secret of an OCI connection on an LLMInferenceService. The cleanup of the old secret removes \<open>spec.model\<close> whenever the submitted object has a
  model URI, and the injection of the new secret sets only the pull secret: the user's model, which no OCI connection ever injects, is
  gone from the patched object.
\<close>

theorem llm_oci_rotation_drops_model:
  assumes "api_laws a" "is_OCI (ci_Type oldConn)" "is_OCI (ci_Type newConn)" "lookup obj llm_UriPath = Value (JString uri)"
    and "llm_performConnectionCleanup a obj oldConn = Inr (c, obj1)" "llm_performConnectionInjection env a decode req obj1 newConn = Inr (b, obj')"
  shows "lookup obj' [''spec'', ''model''] = Absent"
proof -
  note api = workload_api.intro [OF assms(1)]
  have paths: "independent llm_ImagePullSecretPath llm_UriPath" "independent llm_ImagePullSecretPath [''spec'', ''model'']"
    by (simp_all add: llm_ImagePullSecretPath_def llm_UriPath_def)
  have oci: "\<not> is_S3 t" "\<not> is_URI t" "t \<noteq> ''''" if "is_OCI t" for t
    using that by (auto simp: is_S3_def is_OCI_def is_URI_def)
  obtain c1 o1 where by_type: "llm_cleanup_by_type a obj oldConn = Inr (c1, o1)"
    and rest: "(if hasLLMISVCUri a o1 then and_then (context_err ''failed to cleanup URI .spec.model.uri'' (cleanupModelUri a o1)) (\<lambda>(_, obj). Inr (True, obj))
      else Inr (c1, o1)) = Inr (c, obj1)"
    using assms(5) by (auto simp: llm_performConnectionCleanup_def and_then_Inr)
  have uri: "lookup o1 llm_UriPath = Value (JString uri)"
    using by_type oci [OF assms(2)] assms(2,4) workload_api.pull_secrets_keep(2) [OF api paths(1)]
    by (auto simp: llm_cleanup_by_type_def and_then_Inr Let_def split: if_splits)
  then obtain m where model: "lookup o1 [''spec'', ''model''] = Value (JMap m)"
    by (auto simp: llm_UriPath_def split: option.splits jval.splits)
  have "obj1 = erase o1 [''spec'', ''model'']"
    using rest workload_api.nested_reads(8) [OF api uri] workload_api.nested_reads(4) [OF api model] workload_api.nested_reads(9) [OF api]
    by (simp add: hasLLMISVCUri_def cleanupModelUri_def)
  then have "lookup obj1 [''spec'', ''model''] = Absent"
    using lookup_erase [of "[''spec'', ''model'']" o1] model by simp
  moreover have "InjectOCIImagePullSecrets a obj1 llm_ImagePullSecretPath (ci_SecretName newConn) = Inr obj'"
    using assms(3,6) oci [OF assms(3)] by (auto simp: llm_performConnectionInjection_def and_then_Inr Let_def)
  ultimately show ?thesis
    using workload_api.pull_secrets_keep(1) [OF api paths(2)] by simp
qed

section \<open>A workload for the witnesses\<close>

text \<open>The secret \<open>s3-new\<close> declares S3, every other secret an OCI registry.\<close>

definition demo_secret_meta :: "string \<Rightarrow> string \<Rightarrow> api_failure + secret_meta" where
  "demo_secret_meta name ns =
     Inr \<lparr>sm_SecretName = name,
          sm_Annotations = [(ConnectionTypeProtocol_annotation, if name = ''s3-new'' then ConnectionTypeProtocolS3 else ConnectionTypeProtocolOCI)]\<rparr>"

definition demo_serving_env :: "jmap \<Rightarrow> jmap \<Rightarrow> serving_env" where
  "demo_serving_env old new =
     \<lparr>se_HasClient = True, se_HasAPIReader = True,
      se_Decoder = Some (\<lambda>raw. if raw = Some ''new'' then Inr new else if raw = Some ''old'' then Inr old else Inl (new_error ''no object'')),
      se_NewSecretMeta = demo_secret_meta, se_OldSecretMeta = demo_secret_meta, se_SecretData = (\<lambda>_ _. Inr [(''AWS_S3_BUCKET'', ''models'')]),
      se_Create = (\<lambda>_ _. None), se_Marshal = (\<lambda>_. Inr '''')\<rparr>"

definition demo_object :: "string \<Rightarrow> jmap \<Rightarrow> jmap" where
  "demo_object connection spec =
     [(''metadata'', JMap [(''name'', JString ''m''), (''annotations'', JMap [(Connection_annotation, JString connection)])]), (''spec'', JMap spec)]"

definition demo_predictor :: "jmap \<Rightarrow> jmap" where
  "demo_predictor storage = [(''predictor'', JMap [(''serviceAccountName'', JString ''mine''), (''model'', JMap [(''storage'', JMap storage)])])]"

definition demo_serving_request :: web_request where
  "demo_serving_request =
     \<lparr>wq_Kind = \<lparr>gvk_Group = ''serving.kserve.io'', gvk_Version = ''v1beta1'', gvk_Kind = ''InferenceService''\<rparr>, wq_Operation = ''UPDATE'', wq_Namespace = ''ns'', wq_Object = Some ''new'',
      wq_OldObject = Some ''old'', wq_DryRun = None\<rparr>"

abbreviation (input) demo_old :: jmap where "demo_old \<equiv> demo_object '''' (demo_predictor [])"
abbreviation (input) demo_new :: jmap where "demo_new \<equiv> demo_object ''s3-new'' (demo_predictor [(''path'', JString ''mine'')])"
abbreviation (input) demo_unbound :: "string \<Rightarrow> jmap" where
  "demo_unbound connection \<equiv> demo_object connection (demo_predictor [(''path'', JString ''mine''), (''key'', JString ''s3-new'')])"

theorem service_accounts_only_for_s3_witness:
  "\<exists>sa. set (snd (ISVC_Handle (demo_serving_env demo_old demo_new) tree_api demo_serving_request)) = {sa} \<and> sa_Name sa = ''s3-new-sa'' \<and>
     wants_s3 (demo_serving_env demo_old demo_new) tree_api demo_serving_request (sa_Secret sa) \<and> sa_Namespace sa = ''ns''"
proof -
  let ?sa = "\<lparr>sa_Name = ''s3-new-sa'', sa_Namespace = ''ns'', sa_Secret = ''s3-new''\<rparr>"
  have run: "snd (ISVC_Handle (demo_serving_env demo_old demo_new) tree_api demo_serving_request) = [?sa]"
    by code_simp
  then show ?thesis
    using service_accounts_only_for_s3 [of ?sa "demo_serving_env demo_old demo_new" tree_api demo_serving_request] by auto
qed

theorem user_service_account_kept_witness:
  "\<exists>injected replaced removed.
     fst (ISVC_Handle (demo_serving_env demo_old demo_new) tree_api demo_serving_request) = Patch injected [] \<and>
     lookup injected isvc_ServiceAccountNamePath = Value (JString ''mine'') \<and>
     fst (ISVC_Handle (demo_serving_env demo_new (demo_unbound ''oci'')) tree_api demo_serving_request) = Patch replaced [] \<and>
     lookup replaced isvc_ServiceAccountNamePath = Value (JString ''mine'') \<and>
     fst (ISVC_Handle (demo_serving_env demo_new (demo_unbound '''')) tree_api demo_serving_request) = Patch removed [] \<and>
     lookup removed isvc_ServiceAccountNamePath = Value (JString ''mine'')"
proof -
  have kept: "\<exists>obj'. fst (ISVC_Handle (demo_serving_env old new) tree_api demo_serving_request) = Patch obj' [] \<and>
      lookup obj' isvc_ServiceAccountNamePath = Value (JString ''mine'')"
    if ok: "case fst (ISVC_Handle (demo_serving_env old new) tree_api demo_serving_request) of Patch _ ws \<Rightarrow> ws = [] | _ \<Rightarrow> False"
      and user: "lookup new isvc_ServiceAccountNamePath = Value (JString ''mine'')"
      "''mine'' \<noteq> ua_GetAnnotation tree_api old Connection_annotation @ ''-sa''" for old new
  proof -
    obtain obj' where run: "fst (ISVC_Handle (demo_serving_env old new) tree_api demo_serving_request) = Patch obj' []"
      using ok by (auto split: web_response.splits)
    have dec: "DecodeUnstructured (the (se_Decoder (demo_serving_env old new))) demo_serving_request = Inr new"
        "se_Decoder (demo_serving_env old new) = Some (the (se_Decoder (demo_serving_env old new)))"
        "the (se_Decoder (demo_serving_env old new)) (wq_OldObject demo_serving_request) = Inr old"
      by (simp_all add: DecodeUnstructured_def demo_serving_env_def demo_serving_request_def)
    then show ?thesis
      using user_service_account_kept [OF tree_api_laws dec(2,1), of "''mine''" obj' "[]"] run user by auto
  qed
  have inject: "case fst (ISVC_Handle (demo_serving_env demo_old demo_new) tree_api demo_serving_request) of Patch _ ws \<Rightarrow> ws = [] | _ \<Rightarrow> False"
    and replace: "case fst (ISVC_Handle (demo_serving_env demo_new (demo_unbound ''oci'')) tree_api demo_serving_request) of
      Patch _ ws \<Rightarrow> ws = [] | _ \<Rightarrow> False"
    and remove: "case fst (ISVC_Handle (demo_serving_env demo_new (demo_unbound '''')) tree_api demo_serving_request) of
      Patch _ ws \<Rightarrow> ws = [] | _ \<Rightarrow> False"
    by code_simp+
  have "lookup demo_new isvc_ServiceAccountNamePath = Value (JString ''mine'')"
    and "lookup (demo_unbound c) isvc_ServiceAccountNamePath = Value (JString ''mine'')"
    and "''mine'' \<noteq> ua_GetAnnotation tree_api demo_old Connection_annotation @ ''-sa''"
    and "''mine'' \<noteq> ua_GetAnnotation tree_api demo_new Connection_annotation @ ''-sa''" for c
    by code_simp+
  with kept [OF inject] kept [OF replace] kept [OF remove] show ?thesis
    by blast
qed

theorem isvc_s3_storage_witness:
  "\<exists>obj'. isvc_performConnectionInjection (demo_serving_env demo_old demo_new) tree_api (the (se_Decoder (demo_serving_env demo_old demo_new)))
       demo_serving_request demo_new \<lparr>ci_SecretName = ''s3-new'', ci_Type = ''s3'', ci_Path = ''annotated''\<rparr> = Inr (True, obj') \<and>
     lookup obj' (isvc_ModelPath @ [''storage'']) = Value (JMap [(''path'', JString ''mine''), (''key'', JString ''s3-new'')])"
proof -
  let ?env = "demo_serving_env demo_old demo_new" and ?new = "\<lparr>ci_SecretName = ''s3-new'', ci_Type = ''s3'', ci_Path = ''annotated''\<rparr>"
  let ?run = "isvc_performConnectionInjection ?env tree_api (the (se_Decoder ?env)) demo_serving_request demo_new ?new"
  have "(case ?run of Inr (b, _) \<Rightarrow> b | Inl _ \<Rightarrow> False)"
    by code_simp
  then obtain obj' where run: "?run = Inr (True, obj')"
    by (auto split: sum.splits)
  let ?storage = "[(''path'', JString ''mine'')]"
  have hyps: "is_S3 (ci_Type ?new)" "lookup demo_new isvc_ModelPath = Value (JMap [(''storage'', JMap ?storage)])"
    "storage_after ?storage ?new (old_storage_path tree_api (the (se_Decoder ?env)) demo_serving_request) =
       [(''path'', JString ''mine''), (''key'', JString ''s3-new'')]"
    by code_simp+
  have st: "map_of [(''storage'', JMap ?storage)] ''storage'' = None \<and> ?storage = [] \<or> map_of [(''storage'', JMap ?storage)] ''storage'' = Some (JMap ?storage)"
    by simp
  show ?thesis
    using run conjunct1 [OF isvc_s3_storage [OF tree_api_laws hyps(1,2) st], rule_format, OF run] unfolding hyps(3) by blast
qed

theorem llm_oci_rotation_drops_model_witness:
  "\<exists>obj' obj1. llm_performConnectionCleanup tree_api (demo_object ''oci-b'' [(''model'', JMap [(''uri'', JString ''oci://m'')])])
       \<lparr>ci_SecretName = ''oci-a'', ci_Type = ''oci'', ci_Path = ''''\<rparr> = Inr (True, obj1) \<and>
     llm_performConnectionInjection (demo_serving_env [] []) tree_api (\<lambda>_. Inr []) demo_serving_request obj1
       \<lparr>ci_SecretName = ''oci-b'', ci_Type = ''oci'', ci_Path = ''''\<rparr> = Inr (True, obj') \<and> lookup obj' [''spec'', ''model''] = Absent"
proof -
  let ?obj = "demo_object ''oci-b'' [(''model'', JMap [(''uri'', JString ''oci://m'')])]"
  let ?old = "\<lparr>ci_SecretName = ''oci-a'', ci_Type = ''oci'', ci_Path = ''''\<rparr>" and ?new = "\<lparr>ci_SecretName = ''oci-b'', ci_Type = ''oci'', ci_Path = ''''\<rparr>"
  let ?obj1 = "demo_object ''oci-b'' []"
  let ?run = "llm_performConnectionInjection (demo_serving_env [] []) tree_api (\<lambda>_. Inr []) demo_serving_request ?obj1 ?new"
  have hyps: "is_OCI (ci_Type ?old)" "is_OCI (ci_Type ?new)" "lookup ?obj llm_UriPath = Value (JString ''oci://m'')"
    "llm_performConnectionCleanup tree_api ?obj ?old = Inr (True, ?obj1)"
    by code_simp+
  have "(case ?run of Inr (b, _) \<Rightarrow> b | Inl _ \<Rightarrow> False)"
    by code_simp
  then obtain obj' where run: "?run = Inr (True, obj')"
    by (auto split: sum.splits)
  then show ?thesis
    using llm_oci_rotation_drops_model [OF tree_api_laws hyps run] hyps(4) by blast
qed

end
