(* ===== verification/Storage_Migration.thy ===== *)
theory Storage_Migration
  imports Unstructured
begin

text \<open>
  Storage version migration (\<open>pkg/storagemigration\<close>, started by \<open>pkg/bootstrap\<close>). For each of the operator's CRDs the leader asks the cluster's migration
  controller to rewrite the stored objects, waits for it, prunes \<open>status.storedVersions\<close> of the CRD and deletes the request.

  Parameters (\<open>migration_env\<close>): the answers of the API server in the order the code asks for them, so that the cluster may change between
  two calls (the CRD is read twice, the request at creation and once per poll); the state of the context; the poll loop of the API machinery, of which
  \<open>poll_laws\<close> gives the documented behaviour; SHA-256, of which nothing is assumed. The conditions of a request are the result of the
  machinery's converter on the object. A step returns its error and the writes it sends to the API server, in order, whether they succeed or not.
\<close>

section \<open>Custom resource definitions\<close>

record crd_version =
  cv_Name :: string
  cv_Served :: bool
  cv_Storage :: bool

record CRD =
  crd_Name :: string
  crd_UID :: string
  crd_ResourceVersion :: string
  crd_Deleting :: bool
  crd_Generation :: int
  crd_Group :: string
  crd_Plural :: string
  crd_Versions :: "crd_version list"
  crd_StoredVersions :: "string list"

text \<open>The two loops of \<open>storageVersion\<close>.\<close>

fun storage_loop :: "crd_version list \<Rightarrow> string \<Rightarrow> string option" where
  "storage_loop [] storage = Some storage"
| "storage_loop (v # vs) storage =
     (if \<not> cv_Storage v then storage_loop vs storage
      else if storage \<noteq> '''' \<or> cv_Name v = '''' \<or> \<not> cv_Served v then None
      else storage_loop vs (cv_Name v))"

fun history_loop :: "string list \<Rightarrow> string list \<Rightarrow> bool" where
  "history_loop [] seen = True"
| "history_loop (v # vs) seen = (v \<noteq> '''' \<and> v \<notin> set seen \<and> history_loop vs (v # seen))"

definition storageVersion :: "CRD option \<Rightarrow> go_error + string" where
  "storageVersion crd =
     (case crd of
        None \<Rightarrow> Inl (new_error ''CRD is nil'')
      | Some crd \<Rightarrow>
          if crd_UID crd = '''' \<or> crd_ResourceVersion crd = '''' then Inl (new_error ''CRD has no usable UID or resourceVersion'')
          else if crd_Deleting crd then Inl (new_error ''CRD is deleting'')
          else if crd_Group crd = '''' \<or> crd_Plural crd = '''' \<or> crd_Name crd \<noteq> crd_Plural crd @ ''.'' @ crd_Group crd then
            Inl (new_error ''CRD has invalid group/resource identity'')
          else
            case storage_loop (crd_Versions crd) '''' of
              None \<Rightarrow> Inl (new_error ''CRD must have exactly one nonempty served storage version'')
            | Some storage \<Rightarrow>
                if storage = '''' \<or> storage \<notin> set (crd_StoredVersions crd) then
                  Inl (new_error ''CRD storage history must contain its storage version'')
                else if \<not> history_loop (crd_StoredVersions crd) [] then
                  Inl (new_error ''CRD storage history has empty or duplicate versions'')
                else Inr storage)"

section \<open>Migration requests\<close>

record GVR =
  gvr_Group :: string
  gvr_Version :: string
  gvr_Resource :: string

definition GroupVersion :: "GVR \<Rightarrow> string" where
  "GroupVersion api = gvr_Group api @ ''/'' @ gvr_Version api"

definition requestKind :: string where "requestKind = ''StorageVersionMigration''"
definition annotationPrefix :: string where "annotationPrefix = ''storage-migration.opendatahub.io/''"

definition migrationAPIs :: "GVR list" where
  "migrationAPIs =
     [\<lparr>gvr_Group = ''storagemigration.k8s.io'', gvr_Version = ''v1'', gvr_Resource = ''storageversionmigrations''\<rparr>,
      \<lparr>gvr_Group = ''storagemigration.k8s.io'', gvr_Version = ''v1beta1'', gvr_Resource = ''storageversionmigrations''\<rparr>,
      \<lparr>gvr_Group = ''storagemigration.k8s.io'', gvr_Version = ''v1alpha1'', gvr_Resource = ''storageversionmigrations''\<rparr>,
      \<lparr>gvr_Group = ''migration.k8s.io'', gvr_Version = ''v1alpha1'', gvr_Resource = ''storageversionmigrations''\<rparr>]"

record migration_request =
  rq_Name :: string
  rq_UID :: string
  rq_Deleting :: bool
  rq_Kind :: string
  rq_APIVersion :: string
  rq_Labels :: "(string, string) gomap"
  rq_Annotations :: "(string, string) gomap"
  rq_Spec :: "jval option"
  rq_Conditions :: "go_error + condition list"

record api_resource =
  ar_Name :: string
  ar_Namespaced :: bool
  ar_Kind :: string

record api_resources =
  arl_GroupVersion :: string
  arl_APIResources :: "api_resource list"

record migration_env =
  me_HasRecorder :: bool
  me_HasConfig :: bool
  me_DefinitionsErr :: "go_error option"
  me_RequestsErr :: "go_error option"
  me_DiscoveryErr :: "go_error option"
  me_CtxErr :: "go_error option"
  me_GetCRD :: "string \<Rightarrow> go_error + CRD option"
  me_ServerResources :: "string \<Rightarrow> go_error + api_resources option"
  me_Sha256_hex20 :: "string \<Rightarrow> string"
  me_ToUnstructuredErr :: "go_error option"
  me_Create :: "GVR \<Rightarrow> migration_request \<Rightarrow> go_error + migration_request option"
  me_GetExisting :: "GVR \<Rightarrow> string \<Rightarrow> go_error + migration_request option"
  me_GetAtPoll :: "GVR \<Rightarrow> string \<Rightarrow> nat \<Rightarrow> go_error + migration_request option"
  me_PollUntilContextCancel :: "(nat \<Rightarrow> go_error + bool) \<Rightarrow> go_error option"
  me_CtxErrAfterPoll :: "go_error option"
  me_RereadCRD :: "string \<Rightarrow> go_error + CRD option"
  me_MarshalErr :: "go_error option"
  me_Patch :: "string \<Rightarrow> string \<Rightarrow> string list \<Rightarrow> go_error option"
  me_Delete :: "GVR \<Rightarrow> string \<Rightarrow> string \<Rightarrow> go_error option"

text \<open>Writes: a created request; a merge patch of the CRD's status guarded by a resource version; a deletion guarded by a UID.\<close>

datatype api_write =
    CreateRequest GVR migration_request
  | PatchStoredVersions string string "string list"
  | DeleteRequest GVR string string

text \<open>\<open>reflect.DeepEqual\<close> on decoded JSON: the order of a map's keys does not matter.\<close>

lemma size_zip_left [termination_simp]: "(x, y) \<in> set (zip xs ys) \<Longrightarrow> size x < Suc (size_list size xs)"
  by (auto dest!: set_zip_leftD intro: le_imp_less_Suc size_list_estimation' [OF _ order_refl])

fun DeepEqual :: "jval \<Rightarrow> jval \<Rightarrow> bool" where
  "DeepEqual (JString s) (JString t) \<longleftrightarrow> s = t"
| "DeepEqual (JOther s) (JOther t) \<longleftrightarrow> s = t"
| "DeepEqual (JList xs) (JList ys) \<longleftrightarrow> length xs = length ys \<and> (\<forall>(x, y) \<in> set (zip xs ys). DeepEqual x y)"
| "DeepEqual (JMap m) (JMap m') \<longleftrightarrow>
     length m = length m' \<and> (\<forall>(k, v) \<in> set m. case map_of m' k of None \<Rightarrow> False | Some v' \<Rightarrow> DeepEqual v v')"
| "DeepEqual _ _ \<longleftrightarrow> False"

definition spec_equal :: "jval option \<Rightarrow> jval option \<Rightarrow> bool" where
  "spec_equal a b = (case (a, b) of (Some x, Some y) \<Rightarrow> DeepEqual x y | (None, None) \<Rightarrow> True | _ \<Rightarrow> False)"

fun find_api :: "api_resources \<Rightarrow> GVR \<Rightarrow> api_resource list \<Rightarrow> (go_error + GVR) option" where
  "find_api resources api [] = None"
| "find_api resources api (r # rs) =
     (if ar_Name r \<noteq> gvr_Resource api then find_api resources api rs
      else Some
        (if ar_Namespaced r then Inl (new_error (''migration API '' @ GroupVersion api @ '' must be cluster-scoped''))
         else if ar_Kind r \<noteq> requestKind then
           Inl (new_error (''unexpected migration kind '' @ quoted (ar_Kind r) @ '' for '' @ GroupVersion api))
         else if arl_GroupVersion resources \<noteq> GroupVersion api then
           Inl (new_error (''unexpected discovery version '' @ quoted (arl_GroupVersion resources) @ '' for '' @ GroupVersion api))
         else Inr api))"

fun discover_loop :: "migration_env \<Rightarrow> GVR list \<Rightarrow> go_error + GVR" where
  "discover_loop env [] = Inl (new_error
     ''no supported StorageVersionMigration API; enable the cluster storage migration API and controller before restarting the operator'')"
| "discover_loop env (api # apis) =
     (case me_ServerResources env (GroupVersion api) of
        Inl err \<Rightarrow> if err_is NotFound err then discover_loop env apis else Inl (wrap (''discovering '' @ GroupVersion api) err)
      | Inr None \<Rightarrow> Inl (new_error (''empty discovery response for '' @ GroupVersion api))
      | Inr (Some resources) \<Rightarrow>
          (case find_api resources api (arl_APIResources resources) of Some r \<Rightarrow> r | None \<Rightarrow> discover_loop env apis))"

definition discoverMigrationAPI :: "migration_env \<Rightarrow> go_error + GVR" where
  "discoverMigrationAPI env = discover_loop env migrationAPIs"

definition request_resource :: "CRD \<Rightarrow> string \<Rightarrow> GVR \<Rightarrow> jmap" where
  "request_resource crd storage api =
     [(''group'', JString (crd_Group crd)), (''resource'', JString (crd_Plural crd))] @
     (if gvr_Version api = ''v1alpha1'' then [(''version'', JString storage)] else [])"

definition newRequest :: "migration_env \<Rightarrow> CRD \<Rightarrow> string \<Rightarrow> GVR \<Rightarrow> go_error + migration_request" where
  "newRequest env crd storage api =
     (let identity = crd_Name crd @ ''/'' @ crd_UID crd @ ''/'' @ fmt_int (crd_Generation crd) @ ''/'' @ storage in
      case me_ToUnstructuredErr env of
        Some err \<Rightarrow> Inl (wrap ''converting migration request'' err)
      | None \<Rightarrow>
          Inr \<lparr>rq_Name = ''odh-storage-'' @ me_Sha256_hex20 env identity, rq_UID = '''', rq_Deleting = False, rq_Kind = requestKind,
               rq_APIVersion = GroupVersion api, rq_Labels = [(''app.kubernetes.io/managed-by'', ''opendatahub-operator'')],
               rq_Annotations = [(annotationPrefix @ ''crd-uid'', crd_UID crd),
                 (annotationPrefix @ ''crd-generation'', fmt_int (crd_Generation crd)), (annotationPrefix @ ''storage-version'', storage)],
               rq_Spec = Some (JMap [(''resource'', JMap (request_resource crd storage api))]), rq_Conditions = Inr []\<rparr>)"

definition createOrGetMigrationRequest :: "migration_env \<Rightarrow> GVR \<Rightarrow> migration_request \<Rightarrow> go_error + migration_request option" where
  "createOrGetMigrationRequest env api expected =
     context_err (''creating/resuming '' @ rq_APIVersion expected @ '' request '' @ rq_Name expected)
       (case me_Create env api expected of
          Inl err \<Rightarrow> if err_is AlreadyExists err then me_GetExisting env api (rq_Name expected) else Inl err
        | Inr request \<Rightarrow> Inr request)"

definition validateRequest :: "migration_request option \<Rightarrow> migration_request \<Rightarrow> go_error + migration_request" where
  "validateRequest request expected =
     (case request of
        None \<Rightarrow> Inl (new_error ''migration request is nil'')
      | Some request \<Rightarrow>
          let fail = (\<lambda>msg. Inl (new_error (''migration request '' @ rq_Name request @ msg))) in
          if rq_UID expected \<noteq> '''' \<and> rq_UID request \<noteq> rq_UID expected then fail '' was replaced''
          else if rq_UID request = '''' \<or> rq_Deleting request then fail '' has no usable identity or is deleting''
          else if rq_Name request \<noteq> rq_Name expected \<or> rq_Kind request \<noteq> requestKind \<or> rq_APIVersion request \<noteq> rq_APIVersion expected then
            fail '' has unexpected identity''
          else if at_or (rq_Labels request) '''' ''app.kubernetes.io/managed-by'' \<noteq> ''opendatahub-operator'' then
            fail '' is not owned by this operator''
          else
            case find (\<lambda>(key, value). at_or (rq_Annotations request) '''' key \<noteq> value) (rq_Annotations expected) of
              Some (key, _) \<Rightarrow> fail ('' has mismatched '' @ key @ ''; review it before retrying'')
            | None \<Rightarrow> if \<not> spec_equal (rq_Spec request) (rq_Spec expected) then fail '' has unexpected spec'' else Inr request)"

fun conditions_loop :: "string \<Rightarrow> condition list \<Rightarrow> bool \<Rightarrow> go_error + bool" where
  "conditions_loop name [] complete = Inr complete"
| "conditions_loop name (c # cs) complete =
     (if cStatus c = ConditionFalse \<or> cStatus c = ConditionUnknown then conditions_loop name cs complete
      else if cStatus c = ConditionTrue then
        (if cType c = ''Failed'' then
           Inl (new_error (''migration request '' @ name @ '' failed: '' @ cReason c @ '': '' @ cMessage c @
             ''; review and manually delete the failed request before restarting the operator''))
         else conditions_loop name cs (complete \<or> cType c = ''Succeeded''))
      else Inl (new_error ''invalid migration condition status''))"

definition requestSucceeded :: "migration_request \<Rightarrow> go_error + bool" where
  "requestSucceeded request =
     and_then (context_err ''decoding migration conditions'' (rq_Conditions request)) (\<lambda>conditions. conditions_loop (rq_Name request) conditions False)"

section \<open>The steps\<close>

definition migration_validate :: "migration_env \<Rightarrow> string \<Rightarrow> (go_error + string option) \<times> CRD option" where
  "migration_validate env crdName =
     (case me_GetCRD env crdName of
        Inl err \<Rightarrow> (if err_is NotFound err then Inr None else Inl (wrap ''reading CRD'' err), None)
      | Inr crd \<Rightarrow>
          (and_then (storageVersion crd) (\<lambda>storage.
             Inr (if map_option crd_StoredVersions crd = Some [storage] then None else Some storage)), crd))"

definition pruneStorageHistory :: "migration_env \<Rightarrow> CRD \<Rightarrow> string \<Rightarrow> go_error option \<times> api_write list" where
  "pruneStorageHistory env original storage =
     (case me_RereadCRD env (crd_Name original) of
        Inl err \<Rightarrow> (Some (wrap ''rereading CRD'' err), [])
      | Inr current \<Rightarrow>
          (case (storageVersion current, current) of
             (Inl err, _) \<Rightarrow> (Some err, [])
           | (Inr _, None) \<Rightarrow> (Some (new_error ''CRD is nil''), [])
           | (Inr currentStorage, Some current) \<Rightarrow>
               if crd_UID current \<noteq> crd_UID original \<or> currentStorage \<noteq> storage then
                 (Some (new_error ''CRD identity or storage configuration changed during migration''), [])
               else if crd_Generation current \<noteq> crd_Generation original then (Some (new_error ''CRD generation changed during migration''), [])
               else if crd_StoredVersions current = [storage] then (None, [])
               else
                 case me_MarshalErr env of
                   Some err \<Rightarrow> (Some (wrap ''encoding storage history patch'' err), [])
                 | None \<Rightarrow>
                     (map_option (wrap ''patching CRD storage history'') (me_Patch env (crd_Name current) (crd_ResourceVersion current) [storage]),
                      [PatchStoredVersions (crd_Name current) (crd_ResourceVersion current) [storage]])))"

text \<open>The body of the poll loop, on the \<open>i\<close>-th call.\<close>

definition poll_request :: "migration_env \<Rightarrow> GVR \<Rightarrow> migration_request \<Rightarrow> nat \<Rightarrow> go_error + bool" where
  "poll_request env api expected i =
     and_then (context_err ''reading migration request'' (me_GetAtPoll env api (rq_Name expected) i)) (\<lambda>current.
     and_then (validateRequest current expected) requestSucceeded)"

definition wait_and_prune :: "migration_env \<Rightarrow> CRD \<Rightarrow> string \<Rightarrow> GVR \<Rightarrow> migration_request \<Rightarrow> migration_request \<Rightarrow> go_error option \<times> api_write list" where
  "wait_and_prune env crd storage api expected request =
     (case me_PollUntilContextCancel env (poll_request env api (expected\<lparr>rq_UID := rq_UID request\<rparr>)) of
        Some err \<Rightarrow> (Some (wrap (''waiting for '' @ GroupVersion api @ '' request '' @ rq_Name expected @ '' (retained for diagnosis)'') err), [])
      | None \<Rightarrow>
          (case me_CtxErrAfterPoll env of
             Some err \<Rightarrow> (Some err, [])
           | None \<Rightarrow>
               let (err, sent) = pruneStorageHistory env crd storage in
               (map_option (wrap (''pruning storage history (request '' @ rq_Name request @ '' retained)'')) err, sent)))"

definition migration_run :: "migration_env \<Rightarrow> CRD \<Rightarrow> string \<Rightarrow> GVR \<Rightarrow> (go_error + migration_request) \<times> api_write list" where
  "migration_run env crd storage api =
     (case newRequest env crd storage api of
        Inl err \<Rightarrow> (Inl err, [])
      | Inr expected \<Rightarrow>
          (case and_then (createOrGetMigrationRequest env api expected) (\<lambda>request.
                and_then (validateRequest request expected) (\<lambda>request.
                and_then (requestSucceeded request) (\<lambda>_. Inr request))) of
             Inl err \<Rightarrow> (Inl err, [CreateRequest api expected])
           | Inr request \<Rightarrow>
               let (err, sent) = wait_and_prune env crd storage api expected request in
               (case err of Some err \<Rightarrow> Inl err | None \<Rightarrow> Inr request, CreateRequest api expected # sent)))"

definition migration_cleanup :: "migration_env \<Rightarrow> GVR \<Rightarrow> migration_request \<Rightarrow> go_error option \<times> api_write list" where
  "migration_cleanup env api request =
     (case me_Delete env api (rq_Name request) (rq_UID request) of
        None \<Rightarrow> None
      | Some err \<Rightarrow>
          if err_is NotFound err then None
          else Some (wrap (''storage history pruned, but deleting '' @ GroupVersion api @ '' request '' @ rq_Name request @ '' failed'') err),
      [DeleteRequest api (rq_Name request) (rq_UID request)])"

section \<open>Events\<close>

record migrationEvent =
  mv_reason :: string
  mv_action :: string
  mv_eventType :: string
  mv_err :: "go_error option"
  mv_message :: string

record recorded_event =
  re_UID :: string
  re_Type :: string
  re_Reason :: string
  re_Action :: string
  re_Message :: string

abbreviation (input) EventTypeNormal :: string where "EventTypeNormal \<equiv> ''Normal''"
abbreviation (input) EventTypeWarning :: string where "EventTypeWarning \<equiv> ''Warning''"

definition migration_event :: "CRD option \<Rightarrow> migrationEvent \<Rightarrow> recorded_event" where
  "migration_event crd e =
     \<lparr>re_UID = (case crd of None \<Rightarrow> '''' | Some c \<Rightarrow> crd_UID c),
      re_Type = (if mv_eventType e \<noteq> '''' then mv_eventType e else if mv_err e \<noteq> None then EventTypeWarning else EventTypeNormal),
      re_Reason = mv_reason e, re_Action = mv_action e,
      re_Message = (case mv_err e of Some err \<Rightarrow> if mv_message e = '''' then err_msg err else mv_message e | None \<Rightarrow> mv_message e)\<rparr>"

abbreviation (input) EventActionValidate :: string where "EventActionValidate \<equiv> ''ValidateStorageVersion''"
abbreviation (input) discoverAction :: string where "discoverAction \<equiv> ''DiscoverStorageVersion''"
abbreviation (input) runAction :: string where "runAction \<equiv> ''MigrateStorageVersion''"
abbreviation (input) cleanupAction :: string where "cleanupAction \<equiv> ''CleanupStorageVersionMigration''"
abbreviation (input) EventReasonNotNeeded :: string where "EventReasonNotNeeded \<equiv> ''StorageVersionMigrationNotNeeded''"
abbreviation (input) validatedReason :: string where "validatedReason \<equiv> ''StorageVersionMigrationValidated''"
abbreviation (input) discoveredReason :: string where "discoveredReason \<equiv> ''StorageVersionMigrationDiscovered''"
abbreviation (input) succeededReason :: string where "succeededReason \<equiv> ''StorageVersionMigrationSucceeded''"
abbreviation (input) cleanedUpReason :: string where "cleanedUpReason \<equiv> ''StorageVersionMigrationCleanedUp''"
abbreviation (input) failedReason :: string where "failedReason \<equiv> ''StorageVersionMigrationFailed''"

definition told :: "CRD option \<Rightarrow> string \<Rightarrow> string \<Rightarrow> string \<Rightarrow> recorded_event" where
  "told crd reason action msg = migration_event crd \<lparr>mv_reason = reason, mv_action = action, mv_eventType = '''', mv_err = None, mv_message = msg\<rparr>"

text \<open>What \<open>execute\<close> does with the error of a step: cancellation is passed on in silence, anything else is wrapped and reported.\<close>

definition step_failed :: "string \<Rightarrow> CRD option \<Rightarrow> string \<Rightarrow> go_error \<Rightarrow> go_error \<times> recorded_event list" where
  "step_failed crdName crd action err =
     (if err_is Canceled err then (err, [])
      else
        let err = wrap (action @ '' for CRD '' @ crdName) err in
        (err, [migration_event crd \<lparr>mv_reason = failedReason, mv_action = action, mv_eventType = '''', mv_err = Some err, mv_message = ''''\<rparr>]))"

record migration_outcome =
  mo_err :: "go_error option"
  mo_events :: "recorded_event list"
  mo_writes :: "api_write list"

definition stopped :: "go_error \<times> recorded_event list \<Rightarrow> recorded_event list \<Rightarrow> api_write list \<Rightarrow> migration_outcome" where
  "stopped failure events sent = \<lparr>mo_err = Some (fst failure), mo_events = events @ snd failure, mo_writes = sent\<rparr>"

definition execute_migration :: "migration_env \<Rightarrow> string \<Rightarrow> CRD \<Rightarrow> string \<Rightarrow> migration_outcome" where
  "execute_migration env crdName crd storage =
     (let m_crd = Some crd;
          validated = told m_crd validatedReason EventActionValidate (''CRD '' @ crdName @ '' requires storage migration to '' @ storage) in
      case discoverMigrationAPI env of
        Inl err \<Rightarrow> stopped (step_failed crdName m_crd discoverAction err) [validated] []
      | Inr api \<Rightarrow>
          let discovered = told m_crd discoveredReason discoverAction (''Selected '' @ GroupVersion api @ '' for CRD '' @ crdName @ '' storage migration'') in
          case migration_run env crd storage api of
            (Inl err, sent) \<Rightarrow> stopped (step_failed crdName m_crd runAction err) [validated, discovered] sent
          | (Inr request, sent) \<Rightarrow>
              let succeeded = told m_crd succeededReason runAction
                    (''Request '' @ rq_Name request @ '' succeeded; CRD '' @ crdName @ '' storage history now contains only '' @ storage);
                  (err, deletions) = migration_cleanup env api request in
              case err of
                Some err \<Rightarrow> stopped (step_failed crdName m_crd cleanupAction err) [validated, discovered, succeeded] (sent @ deletions)
              | None \<Rightarrow>
                  \<lparr>mo_err = None,
                   mo_events = [validated, discovered, succeeded, told m_crd cleanedUpReason cleanupAction
                     (''Successful migration request '' @ rq_Name request @ '' for CRD '' @ crdName @ '' is no longer present'')],
                   mo_writes = sent @ deletions\<rparr>)"

definition execute :: "migration_env \<Rightarrow> string \<Rightarrow> migration_outcome" where
  "execute env crdName =
     (case me_CtxErr env of
        Some err \<Rightarrow> stopped (step_failed crdName None EventActionValidate err) [] []
      | None \<Rightarrow>
          (case migration_validate env crdName of
             (Inl err, m_crd) \<Rightarrow> stopped (step_failed crdName m_crd EventActionValidate err) [] []
           | (Inr (Some storage), Some crd) \<Rightarrow> execute_migration env crdName crd storage
           | (Inr _, m_crd) \<Rightarrow>
               \<lparr>mo_err = None,
                mo_events = [told m_crd EventReasonNotNeeded EventActionValidate (''CRD '' @ crdName @ '' does not need storage migration'')],
                mo_writes = []\<rparr>))"

definition Migrate :: "migration_env \<Rightarrow> string \<Rightarrow> migration_outcome" where
  "Migrate env crdName =
     (let fail = (\<lambda>err. \<lparr>mo_err = Some err, mo_events = [], mo_writes = []\<rparr>) in
      if \<not> me_HasRecorder env then fail (new_error ''migration event recorder is nil'')
      else if \<not> me_HasConfig env then fail (new_error ''kubernetes REST config is nil'')
      else
        case (me_DefinitionsErr env, me_RequestsErr env, me_DiscoveryErr env) of
          (Some err, _, _) \<Rightarrow> fail (wrap ''constructing CRD client'' err)
        | (None, Some err, _) \<Rightarrow> fail (wrap ''constructing migration client'' err)
        | (None, None, Some err) \<Rightarrow> fail (wrap ''constructing discovery client'' err)
        | (None, None, None) \<Rightarrow> execute env crdName)"

text \<open>The start-up task of one CRD: its error for the manager, and the error it logs. \<open>ctxDone\<close>: the manager is shutting down.\<close>

definition migration_runnable :: "bool \<Rightarrow> migration_outcome \<Rightarrow> go_error option \<times> go_error list" where
  "migration_runnable ctxDone outcome =
     (None, case mo_err outcome of None \<Rightarrow> [] | Some err \<Rightarrow> if ctxDone then [] else [err])"

definition migratedCRDs :: "string list" where
  "migratedCRDs = [''datascienceclusters.datasciencecluster.opendatahub.io'', ''dscinitializations.dscinitialization.opendatahub.io'',
     ''platforms.config.opendatahub.io'']"

text \<open>Registration: \<open>add\<close> is the manager's answer to adding a CRD's task; the result lists the joined errors.\<close>

definition RunStorageVersionMigration :: "(string \<Rightarrow> go_error option) \<Rightarrow> go_error list" where
  "RunStorageVersionMigration add =
     List.map_filter (\<lambda>crdName. map_option (wrap (''registering storage version migration for CRD '' @ crdName)) (add crdName)) migratedCRDs"

section \<open>Validation\<close>

lemma find_case_Inr:
  "(case find P xs of Some (k, _) \<Rightarrow> Inl (f k) | None \<Rightarrow> R) = Inr x \<longleftrightarrow> (\<forall>y \<in> set xs. \<not> P y) \<and> R = Inr x"
proof (cases "find P xs")
  case None
  then show ?thesis
    using find_None_iff [of P xs] by auto
next
  case (Some y)
  then have "y \<in> set xs" "P y"
    by (auto simp: find_Some_iff)
  with Some show ?thesis
    by (cases y) auto
qed

lemma validateRequest_Inr:
  "validateRequest r expected = Inr x \<longleftrightarrow>
     r = Some x \<and> (rq_UID expected = '''' \<or> rq_UID x = rq_UID expected) \<and> rq_UID x \<noteq> '''' \<and> \<not> rq_Deleting x \<and>
     rq_Name x = rq_Name expected \<and> rq_Kind x = requestKind \<and> rq_APIVersion x = rq_APIVersion expected \<and>
     at_or (rq_Labels x) '''' ''app.kubernetes.io/managed-by'' = ''opendatahub-operator'' \<and>
     (\<forall>(k, v) \<in> set (rq_Annotations expected). at_or (rq_Annotations x) '''' k = v) \<and> spec_equal (rq_Spec x) (rq_Spec expected)"
  by (cases r) (auto simp: validateRequest_def Let_def find_case_Inr)

lemma storage_loop_set: "storage_loop vs s = Some t \<Longrightarrow> s \<noteq> '''' \<Longrightarrow> t = s \<and> filter cv_Storage vs = []"
  by (induction vs) (auto split: if_splits)

lemma storage_loop_start:
  "storage_loop vs '''' = Some t \<Longrightarrow> t \<noteq> '''' \<Longrightarrow> \<exists>v. filter cv_Storage vs = [v] \<and> cv_Served v \<and> cv_Name v = t"
  by (induction vs) (auto split: if_splits dest: storage_loop_set)

lemma history_loop_iff: "history_loop vs seen \<longleftrightarrow> '''' \<notin> set vs \<and> distinct vs \<and> set vs \<inter> set seen = {}"
  by (induction vs seen rule: history_loop.induct) auto

text \<open>What a storage version that was accepted says of the CRD.\<close>

lemma storageVersion_Inr:
  assumes "storageVersion crd = Inr storage"
  obtains c v where "crd = Some c" "crd_UID c \<noteq> ''''" "crd_ResourceVersion c \<noteq> ''''" "\<not> crd_Deleting c" "filter cv_Storage (crd_Versions c) = [v]"
    "cv_Served v" "cv_Name v = storage" "storage \<noteq> ''''" "storage \<in> set (crd_StoredVersions c)" "distinct (crd_StoredVersions c)"
  using assms
  by (auto simp: storageVersion_def history_loop_iff split: option.splits if_splits dest!: storage_loop_start)

text \<open>The conditions of a request that count as success.\<close>

definition migration_done :: "migration_request \<Rightarrow> bool" where
  "migration_done r =
     (case rq_Conditions r of
        Inl _ \<Rightarrow> False
      | Inr cs \<Rightarrow> list_ex (\<lambda>c. cType c = ''Succeeded'' \<and> cStatus c = ConditionTrue) cs \<and> \<not> list_ex (\<lambda>c. cType c = ''Failed'' \<and> cStatus c = ConditionTrue) cs)"

lemma conditions_loop_Inr:
  "conditions_loop n cs b = Inr d \<Longrightarrow>
     (d \<longleftrightarrow> b \<or> list_ex (\<lambda>c. cType c = ''Succeeded'' \<and> cStatus c = ConditionTrue) cs) \<and> \<not> list_ex (\<lambda>c. cType c = ''Failed'' \<and> cStatus c = ConditionTrue) cs"
  by (induction n cs b rule: conditions_loop.induct) (auto split: if_splits)

lemma requestSucceeded_done: "requestSucceeded r = Inr True \<Longrightarrow> migration_done r"
  by (auto simp: requestSucceeded_def and_then_Inr migration_done_def dest: conditions_loop_Inr)

section \<open>What is written, and when\<close>

text \<open>The documented behaviour of the poll loop: it succeeds with the first call that reports completion, and calls at least \<open>ticks\<close> times before giving up.\<close>

definition poll_laws :: "((nat \<Rightarrow> go_error + bool) \<Rightarrow> go_error option) \<Rightarrow> nat \<Rightarrow> bool" where
  "poll_laws poll ticks \<longleftrightarrow>
     (\<forall>f. (poll f = None \<longrightarrow> (\<exists>i. f i = Inr True \<and> (\<forall>j<i. f j = Inr False))) \<and>
        (\<forall>i<ticks. f i = Inr True \<longrightarrow> (\<forall>j<i. f j = Inr False) \<longrightarrow> poll f = None))"

definition request_for :: "CRD \<Rightarrow> string \<Rightarrow> GVR \<Rightarrow> migration_request \<Rightarrow> bool" where
  "request_for crd storage api r \<longleftrightarrow>
     rq_UID r \<noteq> '''' \<and> \<not> rq_Deleting r \<and> rq_Kind r = requestKind \<and> rq_APIVersion r = GroupVersion api \<and>
     at_or (rq_Labels r) '''' ''app.kubernetes.io/managed-by'' = ''opendatahub-operator'' \<and>
     at_or (rq_Annotations r) '''' (annotationPrefix @ ''crd-uid'') = crd_UID crd \<and>
     at_or (rq_Annotations r) '''' (annotationPrefix @ ''crd-generation'') = fmt_int (crd_Generation crd) \<and>
     at_or (rq_Annotations r) '''' (annotationPrefix @ ''storage-version'') = storage \<and>
     spec_equal (rq_Spec r) (Some (JMap [(''resource'', JMap (request_resource crd storage api))]))"

lemma request_for_expected:
  "newRequest env crd storage api = Inr expected \<Longrightarrow> validateRequest r (expected\<lparr>rq_UID := u\<rparr>) = Inr x \<Longrightarrow> request_for crd storage api x"
  by (auto simp: newRequest_def validateRequest_Inr request_for_def Let_def split: option.splits)

lemma poll_finished:
  assumes "poll_laws (me_PollUntilContextCancel env) ticks" "newRequest env crd storage api = Inr expected"
    and "me_PollUntilContextCancel env (poll_request env api (expected\<lparr>rq_UID := u\<rparr>)) = None"
  shows "\<exists>i r. me_GetAtPoll env api (rq_Name expected) i = Inr (Some r) \<and> rq_Name r = rq_Name expected \<and> request_for crd storage api r \<and> migration_done r"
proof -
  obtain i where "poll_request env api (expected\<lparr>rq_UID := u\<rparr>) i = Inr True"
    using assms(1) [unfolded poll_laws_def, rule_format, THEN conjunct1] assms(3) by blast
  then obtain r where r: "me_GetAtPoll env api (rq_Name expected) i = Inr r" "and_then (validateRequest r (expected\<lparr>rq_UID := u\<rparr>)) requestSucceeded = Inr True"
    by (auto simp: poll_request_def and_then_Inr)
  then obtain x where x: "validateRequest r (expected\<lparr>rq_UID := u\<rparr>) = Inr x" "requestSucceeded x = Inr True"
    by (auto simp: and_then_Inr)
  then have "r = Some x" "rq_Name x = rq_Name expected"
    by (simp_all add: validateRequest_Inr)
  with r(1) request_for_expected [OF assms(2) x(1)] requestSucceeded_done [OF x(2)] show ?thesis
    by blast
qed

text \<open>The guards of the patch, and what the history is when pruning ends without an error.\<close>

definition same_generation :: "CRD \<Rightarrow> CRD \<Rightarrow> string \<Rightarrow> bool" where
  "same_generation crd cur storage \<longleftrightarrow>
     storageVersion (Some cur) = Inr storage \<and> crd_UID cur = crd_UID crd \<and> crd_Generation cur = crd_Generation crd"

lemma pruneStorageHistory_write:
  "w \<in> set (snd (pruneStorageHistory env crd storage)) \<Longrightarrow>
     \<exists>cur. me_RereadCRD env (crd_Name crd) = Inr (Some cur) \<and> same_generation crd cur storage \<and>
       w = PatchStoredVersions (crd_Name cur) (crd_ResourceVersion cur) [storage]"
  by (auto simp: pruneStorageHistory_def same_generation_def split: sum.splits option.splits if_splits)

lemma pruneStorageHistory_ok:
  "fst (pruneStorageHistory env crd storage) = None \<Longrightarrow>
     \<exists>cur. me_RereadCRD env (crd_Name crd) = Inr (Some cur) \<and> same_generation crd cur storage \<and>
       (crd_StoredVersions cur = [storage] \<or> me_Patch env (crd_Name cur) (crd_ResourceVersion cur) [storage] = None)"
  by (auto simp: pruneStorageHistory_def same_generation_def split: sum.splits option.splits if_splits)

text \<open>Of the writes of one migration, the patch comes from pruning after a finished poll, and the deletion after pruning succeeded.\<close>

lemma migration_run_cases:
  assumes "migration_run env crd storage api = (res, sent)"
  obtains (early) err where "res = Inl err" "\<forall>w \<in> set sent. \<exists>r. w = CreateRequest api r"
  | (pruned) expected request err rest where "newRequest env crd storage api = Inr expected" "request_for crd storage api request"
      "me_PollUntilContextCancel env (poll_request env api (expected\<lparr>rq_UID := rq_UID request\<rparr>)) = None"
      "pruneStorageHistory env crd storage = (err, rest)" "sent = CreateRequest api expected # rest"
      "res = (case err of None \<Rightarrow> Inr request | Some e \<Rightarrow> Inl (wrap (''pruning storage history (request '' @ rq_Name request @ '' retained)'') e))"
proof (cases "newRequest env crd storage api")
  case (Inl err)
  show ?thesis
    by (rule early [of err]) (use assms Inl in \<open>auto simp: migration_run_def\<close>)
next
  case (Inr expected)
  let ?ready = "and_then (createOrGetMigrationRequest env api expected) (\<lambda>request.
    and_then (validateRequest request expected) (\<lambda>request. and_then (requestSucceeded request) (\<lambda>_. Inr request)))"
  show ?thesis
  proof (cases ?ready)
    case (Inl err)
    show ?thesis
      by (rule early [of err]) (use assms Inr Inl in \<open>auto simp: migration_run_def\<close>)
  next
    case ready: (Inr request)
    then obtain r where "validateRequest r expected = Inr request"
      by (auto simp: and_then_Inr)
    moreover have "expected\<lparr>rq_UID := ''''\<rparr> = expected"
      using Inr by (auto simp: newRequest_def Let_def split: option.splits)
    ultimately have good: "request_for crd storage api request"
      using request_for_expected [OF Inr, of r "''''" request] by simp
    obtain err rest where prune: "pruneStorageHistory env crd storage = (err, rest)" by fastforce
    show ?thesis
    proof (cases "me_PollUntilContextCancel env (poll_request env api (expected\<lparr>rq_UID := rq_UID request\<rparr>)) = None \<and> me_CtxErrAfterPoll env = None")
      case True
      with assms Inr ready prune have "sent = CreateRequest api expected # rest"
        "res = (case err of None \<Rightarrow> Inr request | Some e \<Rightarrow> Inl (wrap (''pruning storage history (request '' @ rq_Name request @ '' retained)'') e))"
        by (auto simp: migration_run_def wait_and_prune_def split: option.splits)
      then show ?thesis
        by (rule pruned [OF Inr good conjunct1 [OF True] prune])
    next
      case False
      with assms Inr ready early show ?thesis
        by (auto simp: migration_run_def wait_and_prune_def Let_def split: option.splits prod.splits)
    qed
  qed
qed

lemma execute_writes:
  assumes "w \<in> set (mo_writes (execute env crdName))"
  obtains crd storage api res sent where "me_GetCRD env crdName = Inr (Some crd)" "storageVersion (Some crd) = Inr storage"
    "crd_StoredVersions crd \<noteq> [storage]" "discoverMigrationAPI env = Inr api" "migration_run env crd storage api = (res, sent)"
    "w \<in> set sent \<or> (\<exists>request. res = Inr request \<and> w = DeleteRequest api (rq_Name request) (rq_UID request))"
proof -
  obtain storage crd where v: "migration_validate env crdName = (Inr (Some storage), Some crd)"
    and w: "w \<in> set (mo_writes (execute_migration env crdName crd storage))"
    using assms by (auto simp: execute_def stopped_def split: option.splits sum.splits prod.splits)
  obtain api where api: "discoverMigrationAPI env = Inr api"
    using w by (auto simp: execute_migration_def stopped_def Let_def split: sum.splits)
  obtain res sent where run: "migration_run env crd storage api = (res, sent)" by fastforce
  have "w \<in> set sent \<or> (\<exists>request. res = Inr request \<and> w = DeleteRequest api (rq_Name request) (rq_UID request))"
    using w api run
    by (cases res) (auto simp: execute_migration_def stopped_def migration_cleanup_def Let_def split: option.splits)
  moreover have "me_GetCRD env crdName = Inr (Some crd)" "storageVersion (Some crd) = Inr storage" "crd_StoredVersions crd \<noteq> [storage]"
    using v by (auto simp: migration_validate_def and_then_Inr split: sum.splits if_splits)
  ultimately show thesis
    using that api run by blast
qed

text \<open>
  C34. The storage history of a CRD is pruned only after its objects were migrated. A patch of \<open>storedVersions\<close> is sent only when some poll saw a request of the operator
  for this CRD, at this UID, generation and storage version, with \<open>Succeeded\<close> and without \<open>Failed\<close>, and the CRD read again afterwards still has
  the same UID, generation and storage version; the patch leaves just that version and is bound to the resource version read last.
\<close>

theorem history_pruned_after_migration:
  assumes "poll_laws (me_PollUntilContextCancel env) ticks"
    and "PatchStoredVersions name rv versions \<in> set (mo_writes (execute env crdName))"
  shows "\<exists>crd cur storage api request i. me_GetCRD env crdName = Inr (Some crd) \<and> storageVersion (Some crd) = Inr storage \<and>
    me_GetAtPoll env api (rq_Name request) i = Inr (Some request) \<and> request_for crd storage api request \<and> migration_done request \<and>
    me_RereadCRD env (crd_Name crd) = Inr (Some cur) \<and> same_generation crd cur storage \<and>
    name = crd_Name cur \<and> rv = crd_ResourceVersion cur \<and> versions = [storage]"
proof -
  obtain crd storage api res sent where h: "me_GetCRD env crdName = Inr (Some crd)" "storageVersion (Some crd) = Inr storage"
    "migration_run env crd storage api = (res, sent)"
    "PatchStoredVersions name rv versions \<in> set sent \<or> (\<exists>r. res = Inr r \<and> PatchStoredVersions name rv versions = DeleteRequest api (rq_Name r) (rq_UID r))"
    by (rule execute_writes [OF assms(2)])
  from h(3) show ?thesis
  proof (cases rule: migration_run_cases)
    case early
    with h(4) show ?thesis by auto
  next
    case (pruned expected request err rest)
    then have "PatchStoredVersions name rv versions \<in> set (snd (pruneStorageHistory env crd storage))"
      using h(4) by auto
    from pruneStorageHistory_write [OF this] poll_finished [OF assms(1) pruned(1,3)] h(1,2) show ?thesis
      by (metis api_write.inject(2))
  qed
qed

text \<open>
  A migration request is kept until the storage history is clean. It is deleted, by the UID the operator validated, only when the CRD read after the migration lists
  just its storage version or the API server accepted the patch that makes it so. A failure on the way leaves the request in place.
\<close>

theorem requests_deleted_after_pruning:
  assumes "DeleteRequest api name uid \<in> set (mo_writes (execute env crdName))"
  shows "\<exists>crd cur storage request. me_GetCRD env crdName = Inr (Some crd) \<and> request_for crd storage api request \<and> name = rq_Name request \<and> uid = rq_UID request \<and>
    me_RereadCRD env (crd_Name crd) = Inr (Some cur) \<and> same_generation crd cur storage \<and>
    (crd_StoredVersions cur = [storage] \<or> me_Patch env (crd_Name cur) (crd_ResourceVersion cur) [storage] = None)"
proof -
  obtain crd storage api' res sent where h: "me_GetCRD env crdName = Inr (Some crd)" "migration_run env crd storage api' = (res, sent)"
    "DeleteRequest api name uid \<in> set sent \<or> (\<exists>request. res = Inr request \<and> DeleteRequest api name uid = DeleteRequest api' (rq_Name request) (rq_UID request))"
    by (rule execute_writes [OF assms])
  from h(2) show ?thesis
  proof (cases rule: migration_run_cases)
    case early
    with h(3) show ?thesis by auto
  next
    case (pruned expected request err rest)
    have "DeleteRequest api name uid \<notin> set sent"
      using pruned(4,5) pruneStorageHistory_write [of "DeleteRequest api name uid" env crd storage] by auto
    with h(3) pruned(6) have "err = None" "api = api'" "name = rq_Name request" "uid = rq_UID request"
      by (auto split: option.splits)
    with pruneStorageHistory_ok [of env crd storage] pruned(2,4) h(1) show ?thesis
      by auto
  qed
qed

definition reports_once :: "migration_outcome \<Rightarrow> bool" where
  "reports_once out =
     (case mo_err out of
        None \<Rightarrow> list_all (\<lambda>e. re_Type e = EventTypeNormal) (mo_events out)
      | Some err \<Rightarrow>
          if err_is Canceled err then list_all (\<lambda>e. re_Type e = EventTypeNormal) (mo_events out)
          else mo_events out \<noteq> [] \<and> list_all (\<lambda>e. re_Type e = EventTypeNormal) (butlast (mo_events out)) \<and>
            re_Type (last (mo_events out)) = EventTypeWarning \<and> re_Reason (last (mo_events out)) = failedReason \<and>
            re_Message (last (mo_events out)) = err_msg err)"

lemma told_Normal [simp]: "re_Type (told crd reason action msg) = EventTypeNormal"
  by (simp add: told_def migration_event_def)

lemma reports_once_stopped:
  "list_all (\<lambda>e. re_Type e = EventTypeNormal) evs \<Longrightarrow> reports_once (stopped (step_failed crdName crd action err) evs sent)"
  by (simp add: reports_once_def stopped_def step_failed_def migration_event_def Let_def)

lemma reports_once_ok:
  "list_all (\<lambda>e. re_Type e = EventTypeNormal) evs \<Longrightarrow> reports_once \<lparr>mo_err = None, mo_events = evs, mo_writes = sent\<rparr>"
  by (simp add: reports_once_def)

lemma reports_once_migration: "reports_once (execute_migration env crdName crd storage)"
proof (cases "discoverMigrationAPI env")
  case (Inl err)
  then show ?thesis
    by (simp add: execute_migration_def Let_def reports_once_stopped)
next
  case (Inr api)
  obtain res sent where run: "migration_run env crd storage api = (res, sent)" by fastforce
  show ?thesis
  proof (cases res)
    case (Inl err)
    with Inr run show ?thesis
      by (simp add: execute_migration_def Let_def reports_once_stopped)
  next
    case done': (Inr request)
    obtain err dels where cl: "migration_cleanup env api request = (err, dels)" by fastforce
    show ?thesis
      by (cases err) (use Inr run done' cl in \<open>simp_all add: execute_migration_def Let_def reports_once_stopped reports_once_ok\<close>)
  qed
qed

text \<open>
  C36. Failures are reported once, cancellation is not reported. Without an error all events are normal ones. With an error, the events are the normal ones of the completed steps
  followed by one warning that carries the error's message, except that a cancelled context leaves no warning at all.
\<close>

theorem migration_reports_failures: "reports_once (execute env crdName)"
proof (cases "me_CtxErr env")
  case (Some err)
  then show ?thesis
    by (simp add: execute_def reports_once_stopped)
next
  case None
  obtain res crd where v: "migration_validate env crdName = (res, crd)" by fastforce
  show ?thesis
  proof (cases res)
    case (Inl err)
    with None v show ?thesis
      by (simp add: execute_def reports_once_stopped)
  next
    case (Inr needed)
    with None v show ?thesis
      by (cases needed; cases crd) (simp_all add: execute_def reports_once_ok reports_once_migration)
  qed
qed

section \<open>Completion\<close>

text \<open>
  What the cluster has to do for a migration to end. A CRD that can be migrated: a live object with an identity and exactly one storage version, which is served and in
  its history.
\<close>

definition migratable :: "CRD \<Rightarrow> string \<Rightarrow> bool" where
  "migratable crd storage \<longleftrightarrow>
     crd_UID crd \<noteq> '''' \<and> crd_ResourceVersion crd \<noteq> '''' \<and> \<not> crd_Deleting crd \<and> crd_Group crd \<noteq> '''' \<and> crd_Plural crd \<noteq> '''' \<and>
     crd_Name crd = crd_Plural crd @ ''.'' @ crd_Group crd \<and>
     (\<exists>v. filter cv_Storage (crd_Versions crd) = [v] \<and> cv_Served v \<and> cv_Name v = storage) \<and> storage \<noteq> '''' \<and>
     storage \<in> set (crd_StoredVersions crd) \<and> '''' \<notin> set (crd_StoredVersions crd) \<and> distinct (crd_StoredVersions crd)"

lemma storage_loop_none: "filter cv_Storage vs = [] \<Longrightarrow> storage_loop vs s = Some s"
  by (induction vs) (auto split: if_splits)

lemma storage_loop_one: "filter cv_Storage vs = [v] \<Longrightarrow> cv_Served v \<Longrightarrow> cv_Name v \<noteq> '''' \<Longrightarrow> storage_loop vs '''' = Some (cv_Name v)"
  by (induction vs) (auto simp: storage_loop_none split: if_splits)

lemma migratable_storage: "migratable crd storage \<Longrightarrow> storageVersion (Some crd) = Inr storage"
  by (auto simp: migratable_def storageVersion_def storage_loop_one history_loop_iff)

text \<open>
  A migration API the cluster serves: every resource of that name is a cluster-scoped \<open>StorageVersionMigration\<close>. One it does not serve: its version is not found, or
  lacks the resource.
\<close>

definition served :: "migration_env \<Rightarrow> GVR \<Rightarrow> bool" where
  "served env api \<longleftrightarrow>
     (\<exists>rs. me_ServerResources env (GroupVersion api) = Inr (Some rs) \<and> arl_GroupVersion rs = GroupVersion api \<and>
        (\<exists>r \<in> set (arl_APIResources rs). ar_Name r = gvr_Resource api) \<and>
        (\<forall>r \<in> set (arl_APIResources rs). ar_Name r = gvr_Resource api \<longrightarrow> \<not> ar_Namespaced r \<and> ar_Kind r = ''StorageVersionMigration''))"

definition unserved :: "migration_env \<Rightarrow> GVR \<Rightarrow> bool" where
  "unserved env api \<longleftrightarrow>
     (\<exists>err. me_ServerResources env (GroupVersion api) = Inl err \<and> err_is NotFound err) \<or>
     (\<exists>rs. me_ServerResources env (GroupVersion api) = Inr (Some rs) \<and> (\<forall>r \<in> set (arl_APIResources rs). ar_Name r \<noteq> gvr_Resource api))"

lemma find_api_none: "(\<forall>r \<in> set rs. ar_Name r \<noteq> gvr_Resource api) \<Longrightarrow> find_api resources api rs = None"
  by (induction rs) auto

lemma find_api_served:
  "arl_GroupVersion resources = GroupVersion api \<Longrightarrow> r \<in> set rs \<Longrightarrow> ar_Name r = gvr_Resource api \<Longrightarrow>
     (\<And>r. r \<in> set rs \<Longrightarrow> ar_Name r = gvr_Resource api \<Longrightarrow> \<not> ar_Namespaced r \<and> ar_Kind r = requestKind) \<Longrightarrow>
     find_api resources api rs = Some (Inr api)"
  by (induction rs) auto

lemma discover_loop_served:
  "k < length apis \<Longrightarrow> served env (apis ! k) \<Longrightarrow> (\<And>j. j < k \<Longrightarrow> unserved env (apis ! j)) \<Longrightarrow> discover_loop env apis = Inr (apis ! k)"
proof (induction apis arbitrary: k)
  case (Cons api apis)
  show ?case
  proof (cases k)
    case 0
    then obtain rs where rs: "me_ServerResources env (GroupVersion api) = Inr (Some rs)" "find_api rs api (arl_APIResources rs) = Some (Inr api)"
      using Cons.prems(2) find_api_served unfolding served_def requestKind_def by (metis nth_Cons_0)
    with 0 show ?thesis by simp
  next
    case (Suc m)
    then have "discover_loop env apis = Inr (apis ! m)"
      using Cons.IH [of m] Cons.prems(1,2) Cons.prems(3) [of "Suc j" for j] by simp
    then show ?thesis
      using Cons.prems(3) [of 0] Suc by (auto simp: unserved_def find_api_none)
  qed
qed simp

text \<open>
  The request of the operator, as the cluster shows it: \<open>seen 0\<close> when it is created or found, \<open>seen (Suc i)\<close> at the \<open>i\<close>-th poll. It stays the same object and
  never reports a failure; its conditions may be pending, False or Unknown meanwhile.
\<close>

definition request_name :: "migration_env \<Rightarrow> CRD \<Rightarrow> string \<Rightarrow> string" where
  "request_name env crd storage =
     ''odh-storage-'' @ me_Sha256_hex20 env (crd_Name crd @ ''/'' @ crd_UID crd @ ''/'' @ fmt_int (crd_Generation crd) @ ''/'' @ storage)"

definition steady :: "CRD \<Rightarrow> string \<Rightarrow> GVR \<Rightarrow> string \<Rightarrow> string \<Rightarrow> migration_request \<Rightarrow> bool" where
  "steady crd storage api name uid r \<longleftrightarrow>
     request_for crd storage api r \<and> rq_Name r = name \<and> rq_UID r = uid \<and>
     (\<exists>cs. rq_Conditions r = Inr cs \<and> (\<forall>c \<in> set cs. cStatus c \<in> {ConditionTrue, ConditionFalse, ConditionUnknown} \<and>
        (cType c = ''Failed'' \<longrightarrow> cStatus c \<noteq> ConditionTrue)))"

definition shows_request :: "migration_env \<Rightarrow> GVR \<Rightarrow> string \<Rightarrow> (nat \<Rightarrow> migration_request) \<Rightarrow> bool" where
  "shows_request env api name seen \<longleftrightarrow>
     (\<forall>r. rq_Name r = name \<longrightarrow> me_Create env api r = Inr (Some (seen 0)) \<or>
        (\<exists>err. me_Create env api r = Inl err \<and> err_is AlreadyExists err \<and> me_GetExisting env api name = Inr (Some (seen 0)))) \<and>
     (\<forall>i. me_GetAtPoll env api name i = Inr (Some (seen (Suc i))))"

lemma conditions_loop_steady:
  "\<forall>c \<in> set cs. cStatus c \<in> {ConditionTrue, ConditionFalse, ConditionUnknown} \<and> (cType c = ''Failed'' \<longrightarrow> cStatus c \<noteq> ConditionTrue) \<Longrightarrow>
     conditions_loop n cs b = Inr (b \<or> list_ex (\<lambda>c. cType c = ''Succeeded'' \<and> cStatus c = ConditionTrue) cs)"
  by (induction n cs b rule: conditions_loop.induct) auto

lemma steady_succeeded:
  assumes "steady crd storage api name uid r"
  shows "requestSucceeded r = Inr (migration_done r)"
proof -
  obtain cs where cs: "rq_Conditions r = Inr cs"
    and ok: "\<forall>c \<in> set cs. cStatus c \<in> {ConditionTrue, ConditionFalse, ConditionUnknown} \<and> (cType c = ''Failed'' \<longrightarrow> cStatus c \<noteq> ConditionTrue)"
    using assms by (auto simp: steady_def)
  then have "\<not> list_ex (\<lambda>c. cType c = ''Failed'' \<and> cStatus c = ConditionTrue) cs"
    by (auto simp: list_ex_iff)
  with cs conditions_loop_steady [OF ok, of "rq_Name r" False] show ?thesis
    by (simp add: requestSucceeded_def migration_done_def)
qed

lemma steady_valid:
  assumes "newRequest env crd storage api = Inr expected" "steady crd storage api (request_name env crd storage) uid r" "u = '''' \<or> u = uid"
  shows "validateRequest (Some r) (expected\<lparr>rq_UID := u\<rparr>) = Inr r"
  using assms
  by (auto simp: newRequest_def steady_def validateRequest_Inr request_for_def request_name_def Let_def split: option.splits)

lemma migration_run_steady:
  assumes "poll_laws (me_PollUntilContextCancel env) ticks" "me_CtxErrAfterPoll env = None" "me_ToUnstructuredErr env = None"
    and "shows_request env api (request_name env crd storage) seen"
    and "\<And>i. steady crd storage api (request_name env crd storage) uid (seen i)" "n < ticks" "migration_done (seen (Suc n))"
    and "pruneStorageHistory env crd storage = (None, sent)"
  shows "\<exists>expected. newRequest env crd storage api = Inr expected \<and> migration_run env crd storage api = (Inr (seen 0), CreateRequest api expected # sent)"
proof -
  obtain expected where e: "newRequest env crd storage api = Inr expected"
    using assms(3) by (simp add: newRequest_def Let_def)
  have name: "rq_Name expected = request_name env crd storage" "rq_UID expected = ''''"
    using e by (auto simp: newRequest_def request_name_def Let_def split: option.splits)
  have uid: "rq_UID (seen i) = uid" for i
    using assms(5) by (simp add: steady_def)
  have "validateRequest (Some (seen 0)) (expected\<lparr>rq_UID := ''''\<rparr>) = Inr (seen 0)"
    by (rule steady_valid [OF e assms(5)]) simp
  moreover have "expected\<lparr>rq_UID := ''''\<rparr> = expected"
    using name by simp
  moreover have "createOrGetMigrationRequest env api expected = Inr (Some (seen 0))"
    using assms(4) name(1) by (fastforce simp: shows_request_def createOrGetMigrationRequest_def)
  ultimately have ready: "and_then (createOrGetMigrationRequest env api expected) (\<lambda>request.
      and_then (validateRequest request expected) (\<lambda>request. and_then (requestSucceeded request) (\<lambda>_. Inr request))) = Inr (seen 0)"
    by (simp add: steady_succeeded [OF assms(5)])
  define f where "f = poll_request env api (expected\<lparr>rq_UID := uid\<rparr>)"
  have f: "f i = Inr (migration_done (seen (Suc i)))" for i
    using assms(4) name(1) steady_valid [OF e assms(5) disjI2 [OF refl], of "Suc i"] steady_succeeded [OF assms(5)]
    by (simp add: f_def poll_request_def shows_request_def)
  define m where "m = (LEAST i. migration_done (seen (Suc i)))"
  have "migration_done (seen (Suc m))" "m \<le> n" "\<And>j. j < m \<Longrightarrow> \<not> migration_done (seen (Suc j))"
    unfolding m_def using assms(7) LeastI not_less_Least Least_le by metis+
  then have m: "m < ticks" "f m = Inr True" "\<forall>j<m. f j = Inr False"
    using assms(6) f by auto
  have "me_PollUntilContextCancel env f = None"
    by (rule assms(1) [unfolded poll_laws_def, rule_format, THEN conjunct2, rule_format, of m]) (use m in simp_all)
  then have "wait_and_prune env crd storage api expected (seen 0) = (None, sent)"
    using assms(2,8) uid by (simp add: wait_and_prune_def f_def)
  then show ?thesis
    using e ready by (simp add: migration_run_def)
qed

text \<open>
  C35. A migration the cluster carries out ends. Let the CRD be migratable and its history list another version; let the cluster serve one of the four migration APIs and none of
  the preferred ones before it; let it create the operator's request, or hold it already, and show it at every poll as the same object without a failure, its conditions
  true, false or unknown; and let one of the polls the context leaves time for see it succeeded. If the CRD is then still migratable at the same UID and generation, and the patch
  and the deletion are accepted (a request already gone counts as deleted), the attempt ends without an error, has pruned the history and deleted the request, and reports
  its four steps in order.
\<close>

theorem migration_completes:
  assumes "poll_laws (me_PollUntilContextCancel env) ticks" "me_CtxErr env = None" "me_CtxErrAfterPoll env = None"
    and "me_ToUnstructuredErr env = None" "me_MarshalErr env = None"
    and "me_GetCRD env crdName = Inr (Some crd)" "migratable crd storage" "crd_StoredVersions crd \<noteq> [storage]"
    and "k < length migrationAPIs" "served env (migrationAPIs ! k)" "\<And>j. j < k \<Longrightarrow> unserved env (migrationAPIs ! j)"
    and "shows_request env (migrationAPIs ! k) (request_name env crd storage) seen"
    and "\<And>i. steady crd storage (migrationAPIs ! k) (request_name env crd storage) uid (seen i)"
    and "n < ticks" "migration_done (seen (Suc n))"
    and "me_RereadCRD env (crd_Name crd) = Inr (Some cur)" "migratable cur storage" "crd_UID cur = crd_UID crd" "crd_Generation cur = crd_Generation crd"
    and "me_Patch env (crd_Name cur) (crd_ResourceVersion cur) [storage] = None"
    and "\<And>err. me_Delete env (migrationAPIs ! k) (request_name env crd storage) uid = Some err \<Longrightarrow> err_is NotFound err"
  shows "mo_err (execute env crdName) = None \<and>
    map re_Reason (mo_events (execute env crdName)) = [validatedReason, discoveredReason, succeededReason, cleanedUpReason] \<and>
    (\<exists>expected. mo_writes (execute env crdName) =
       CreateRequest (migrationAPIs ! k) expected #
       (if crd_StoredVersions cur = [storage] then [] else [PatchStoredVersions (crd_Name cur) (crd_ResourceVersion cur) [storage]]) @
       [DeleteRequest (migrationAPIs ! k) (request_name env crd storage) uid])"
proof -
  let ?api = "migrationAPIs ! k"
  have prune: "pruneStorageHistory env crd storage =
      (None, if crd_StoredVersions cur = [storage] then [] else [PatchStoredVersions (crd_Name cur) (crd_ResourceVersion cur) [storage]])"
    using assms(5,16,18-20) migratable_storage [OF assms(17)] by (simp add: pruneStorageHistory_def)
  obtain expected where run: "migration_run env crd storage ?api = (Inr (seen 0), CreateRequest ?api expected #
      (if crd_StoredVersions cur = [storage] then [] else [PatchStoredVersions (crd_Name cur) (crd_ResourceVersion cur) [storage]]))"
    using migration_run_steady [OF assms(1,3,4,12,13,14,15) prune] by blast
  have "rq_Name (seen 0) = request_name env crd storage" "rq_UID (seen 0) = uid"
    using assms(13) [of 0] by (simp_all add: steady_def)
  then have clean: "migration_cleanup env ?api (seen 0) = (None, [DeleteRequest ?api (request_name env crd storage) uid])"
    using assms(21) by (simp add: migration_cleanup_def split: option.splits)
  have "discoverMigrationAPI env = Inr ?api"
    unfolding discoverMigrationAPI_def by (rule discover_loop_served [OF assms(9-11)])
  moreover have "migration_validate env crdName = (Inr (Some storage), Some crd)"
    using assms(6,8) migratable_storage [OF assms(7)] by (simp add: migration_validate_def)
  ultimately show ?thesis
    using assms(2) run clean by (simp add: execute_def execute_migration_def told_def migration_event_def Let_def)
qed

section \<open>A cluster for the witnesses\<close>

fun poll_upto :: "nat \<Rightarrow> nat \<Rightarrow> (nat \<Rightarrow> go_error + bool) \<Rightarrow> go_error option" where
  "poll_upto 0 i f = Some (new_error ''context deadline exceeded'')"
| "poll_upto (Suc n) i f = (case f i of Inl err \<Rightarrow> Some err | Inr finished \<Rightarrow> if finished then None else poll_upto n (Suc i) f)"

lemma poll_upto_sound: "poll_upto n k f = None \<Longrightarrow> \<exists>i\<ge>k. f i = Inr True \<and> (\<forall>j. k \<le> j \<longrightarrow> j < i \<longrightarrow> f j = Inr False)"
proof (induction n k f rule: poll_upto.induct)
  case (2 n k f)
  show ?case
  proof (cases "f k = Inr True")
    case True
    then show ?thesis by auto
  next
    case False
    with 2(2) have fk: "f k = Inr False" "poll_upto n (Suc k) f = None"
      by (auto split: sum.splits if_splits)
    with 2(1) obtain i where "i \<ge> Suc k" "f i = Inr True" "\<forall>j. Suc k \<le> j \<longrightarrow> j < i \<longrightarrow> f j = Inr False"
      by blast
    with fk(1) show ?thesis
      by (intro exI [of _ i]) (metis Suc_leD Suc_leI le_neq_implies_less)
  qed
qed simp

lemma poll_upto_complete:
  "k \<le> i \<Longrightarrow> i < k + n \<Longrightarrow> f i = Inr True \<Longrightarrow> (\<And>j. k \<le> j \<Longrightarrow> j < i \<Longrightarrow> f j = Inr False) \<Longrightarrow> poll_upto n k f = None"
proof (induction n k f rule: poll_upto.induct)
  case (2 n k f)
  then show ?case by (cases "i = k") auto
qed simp

lemma poll_upto_laws: "poll_laws (poll_upto n 0) n"
  unfolding poll_laws_def using poll_upto_sound [of n 0] poll_upto_complete [of 0 _ n] by auto

definition demo_crd :: CRD where
  "demo_crd =
     \<lparr>crd_Name = ''widgets.example.test'', crd_UID = ''u1'', crd_ResourceVersion = ''7'', crd_Deleting = False, crd_Generation = 3,
      crd_Group = ''example.test'', crd_Plural = ''widgets'',
      crd_Versions = [\<lparr>cv_Name = ''v1'', cv_Served = True, cv_Storage = False\<rparr>, \<lparr>cv_Name = ''v2'', cv_Served = True, cv_Storage = True\<rparr>],
      crd_StoredVersions = [''v1'', ''v2'']\<rparr>"

definition demo_create :: "GVR \<Rightarrow> migration_request \<Rightarrow> go_error + migration_request option" where
  "demo_create api r = Inr (Some (r\<lparr>rq_UID := ''r1''\<rparr>))"

definition demo_api :: GVR where
  "demo_api = \<lparr>gvr_Group = ''storagemigration.k8s.io'', gvr_Version = ''v1'', gvr_Resource = ''storageversionmigrations''\<rparr>"

definition demo_expected :: migration_request where
  "demo_expected =
     \<lparr>rq_Name = ''odh-storage-00'', rq_UID = '''', rq_Deleting = False, rq_Kind = requestKind, rq_APIVersion = GroupVersion demo_api,
      rq_Labels = [(''app.kubernetes.io/managed-by'', ''opendatahub-operator'')],
      rq_Annotations = [(annotationPrefix @ ''crd-uid'', ''u1''), (annotationPrefix @ ''crd-generation'', ''3''), (annotationPrefix @ ''storage-version'', ''v2'')],
      rq_Spec = Some (JMap [(''resource'', JMap [(''group'', JString ''example.test''), (''resource'', JString ''widgets'')])]), rq_Conditions = Inr []\<rparr>"

text \<open>The first poll sees a running request, later ones a finished one.\<close>

definition demo_migration_env :: migration_env where
  "demo_migration_env =
     \<lparr>me_HasRecorder = True, me_HasConfig = True, me_DefinitionsErr = None, me_RequestsErr = None, me_DiscoveryErr = None, me_CtxErr = None,
      me_GetCRD = (\<lambda>_. Inr (Some demo_crd)),
      me_ServerResources = (\<lambda>gv. Inr (Some \<lparr>arl_GroupVersion = gv,
        arl_APIResources = [\<lparr>ar_Name = ''storageversionmigrations'', ar_Namespaced = False, ar_Kind = requestKind\<rparr>]\<rparr>)),
      me_Sha256_hex20 = (\<lambda>_. ''00''), me_ToUnstructuredErr = None, me_Create = demo_create, me_GetExisting = (\<lambda>_ _. Inr None),
      me_GetAtPoll = (\<lambda>_ _ i. Inr (Some (demo_expected\<lparr>rq_UID := ''r1'', rq_Conditions := Inr [cond (if i = 0 then ''Running'' else ''Succeeded'') ''True'' '''' '''']\<rparr>))),
      me_PollUntilContextCancel = poll_upto 5 0, me_CtxErrAfterPoll = None, me_RereadCRD = (\<lambda>_. Inr (Some demo_crd)), me_MarshalErr = None,
      me_Patch = (\<lambda>_ _ _. None), me_Delete = (\<lambda>_ _ _. None)\<rparr>"

lemma demo_migration_writes:
  "mo_writes (execute demo_migration_env ''widgets.example.test'') =
     [CreateRequest demo_api demo_expected, PatchStoredVersions ''widgets.example.test'' ''7'' [''v2''], DeleteRequest demo_api ''odh-storage-00'' ''r1'']"
  by code_simp

theorem history_pruned_after_migration_witness:
  "\<exists>crd cur request. migration_done request \<and> same_generation crd cur ''v2'' \<and> crd_ResourceVersion cur = ''7'' \<and>
     PatchStoredVersions (crd_Name cur) ''7'' [''v2''] \<in> set (mo_writes (execute demo_migration_env ''widgets.example.test''))"
proof -
  have laws: "poll_laws (me_PollUntilContextCancel demo_migration_env) 5"
    using poll_upto_laws by (simp add: demo_migration_env_def)
  have sent: "PatchStoredVersions ''widgets.example.test'' ''7'' [''v2''] \<in> set (mo_writes (execute demo_migration_env ''widgets.example.test''))"
    by (simp add: demo_migration_writes)
  from history_pruned_after_migration [OF laws this] sent show ?thesis
    by (elim exE conjE) (metis list.inject)
qed

theorem requests_deleted_after_pruning_witness:
  "\<exists>crd cur request. request_for crd ''v2'' demo_api request \<and> rq_UID request = ''r1'' \<and> same_generation crd cur ''v2''"
proof -
  have "DeleteRequest demo_api ''odh-storage-00'' ''r1'' \<in> set (mo_writes (execute demo_migration_env ''widgets.example.test''))"
    by (simp add: demo_migration_writes)
  from requests_deleted_after_pruning [OF this] obtain crd cur storage request where
    h: "me_GetCRD demo_migration_env ''widgets.example.test'' = Inr (Some crd)" "request_for crd storage demo_api request" "''r1'' = rq_UID request"
      "me_RereadCRD demo_migration_env (crd_Name crd) = Inr (Some cur)" "same_generation crd cur storage"
    by blast
  have "storageVersion (Some demo_crd) = Inr ''v2''"
    by code_simp
  moreover have "cur = demo_crd"
    using h(4) by (simp add: demo_migration_env_def)
  ultimately have "storage = ''v2''"
    using h(5) by (simp add: same_generation_def)
  with h show ?thesis
    by metis
qed

text \<open>
  A cluster without the two newer migration APIs (the first version is not found, the second lacks the resource), which holds the request already; it is shown
  with an unknown condition at first, and as succeeded at the second poll.
\<close>

definition demo_seen :: "nat \<Rightarrow> migration_request" where
  "demo_seen i =
     demo_expected\<lparr>rq_UID := ''r1'', rq_APIVersion := ''storagemigration.k8s.io/v1alpha1'',
       rq_Spec := Some (JMap [(''resource'', JMap [(''group'', JString ''example.test''), (''resource'', JString ''widgets''), (''version'', JString ''v2'')])]),
       rq_Conditions := Inr (if i < 2 then [cond ''Running'' ''Unknown'' '''' '''', cond ''Failed'' ''False'' '''' '''']
         else [cond ''Running'' ''False'' '''' '''', cond ''Succeeded'' ''True'' '''' ''''])\<rparr>"

definition demo_resumed_env :: migration_env where
  "demo_resumed_env =
     demo_migration_env\<lparr>
       me_ServerResources := (\<lambda>gv.
         if gv = ''storagemigration.k8s.io/v1'' then Inl (GoError ''not found'' [NotFound])
         else if gv = ''storagemigration.k8s.io/v1beta1'' then Inr (Some \<lparr>arl_GroupVersion = gv, arl_APIResources = []\<rparr>)
         else Inr (Some \<lparr>arl_GroupVersion = gv,
           arl_APIResources = [\<lparr>ar_Name = ''storageversionmigrations'', ar_Namespaced = False, ar_Kind = ''StorageVersionMigration''\<rparr>]\<rparr>)),
       me_Create := (\<lambda>_ _. Inl (GoError ''exists'' [AlreadyExists])), me_GetExisting := (\<lambda>_ _. Inr (Some (demo_seen 0))),
       me_GetAtPoll := (\<lambda>_ _ i. Inr (Some (demo_seen (Suc i)))), me_Delete := (\<lambda>_ _ _. Some (GoError ''gone'' [NotFound]))\<rparr>"

lemma demo_generation: "fmt_int 3 = ''3''"
  by code_simp

lemma demo_resumed_request:
  "request_for demo_crd ''v2'' (migrationAPIs ! 2) (demo_seen i)" "rq_Name (demo_seen i) = ''odh-storage-00''" "rq_UID (demo_seen i) = ''r1''"
  "rq_Conditions (demo_seen i) = Inr (if i < 2 then [cond ''Running'' ''Unknown'' '''' '''', cond ''Failed'' ''False'' '''' '''']
     else [cond ''Running'' ''False'' '''' '''', cond ''Succeeded'' ''True'' '''' ''''])"
  by (simp_all add: request_for_def demo_seen_def demo_expected_def migrationAPIs_def GroupVersion_def request_resource_def demo_crd_def
      requestKind_def annotationPrefix_def spec_equal_def at_or_def demo_generation)

theorem migration_completes_witness:
  "mo_err (execute demo_resumed_env ''widgets.example.test'') = None \<and>
     map re_Reason (mo_events (execute demo_resumed_env ''widgets.example.test'')) =
       [validatedReason, discoveredReason, succeededReason, cleanedUpReason] \<and>
     PatchStoredVersions ''widgets.example.test'' ''7'' [''v2''] \<in> set (mo_writes (execute demo_resumed_env ''widgets.example.test''))"
proof -
  let ?env = demo_resumed_env and ?api = "migrationAPIs ! 2"
  have laws: "poll_laws (me_PollUntilContextCancel ?env) 5"
    using poll_upto_laws by (simp add: demo_resumed_env_def demo_migration_env_def)
  have easy: "me_CtxErr ?env = None" "me_CtxErrAfterPoll ?env = None" "me_ToUnstructuredErr ?env = None" "me_MarshalErr ?env = None"
    "me_GetCRD ?env ''widgets.example.test'' = Inr (Some demo_crd)" "me_RereadCRD ?env (crd_Name demo_crd) = Inr (Some demo_crd)"
    "me_Patch ?env (crd_Name demo_crd) (crd_ResourceVersion demo_crd) [''v2''] = None" "request_name ?env demo_crd ''v2'' = ''odh-storage-00''"
    by (simp_all add: demo_resumed_env_def demo_migration_env_def request_name_def)
  have crd: "migratable demo_crd ''v2''" "crd_StoredVersions demo_crd \<noteq> [''v2'']"
    by (simp_all add: migratable_def demo_crd_def)
  have apis: "2 < length migrationAPIs" "served ?env ?api" "\<And>j. j < 2 \<Longrightarrow> unserved ?env (migrationAPIs ! j)"
    by (auto simp: migrationAPIs_def served_def unserved_def demo_resumed_env_def GroupVersion_def less_Suc_eq numeral_2_eq_2)
  have shown: "shows_request ?env ?api (request_name ?env demo_crd ''v2'') demo_seen"
    by (simp add: shows_request_def demo_resumed_env_def)
  have same: "steady demo_crd ''v2'' ?api (request_name ?env demo_crd ''v2'') ''r1'' (demo_seen i)" for i
    by (simp add: steady_def demo_resumed_request easy(8))
  have fin: "migration_done (demo_seen (Suc 1))"
    by (simp add: migration_done_def demo_resumed_request)
  have gone: "err_is NotFound err" if "me_Delete ?env ?api (request_name ?env demo_crd ''v2'') ''r1'' = Some err" for err
    using that by (auto simp: demo_resumed_env_def)
  have "mo_err (execute ?env ''widgets.example.test'') = None \<and>
    map re_Reason (mo_events (execute ?env ''widgets.example.test'')) = [validatedReason, discoveredReason, succeededReason, cleanedUpReason] \<and>
    (\<exists>expected. mo_writes (execute ?env ''widgets.example.test'') = CreateRequest ?api expected #
       (if crd_StoredVersions demo_crd = [''v2''] then [] else [PatchStoredVersions (crd_Name demo_crd) (crd_ResourceVersion demo_crd) [''v2'']]) @
       [DeleteRequest ?api (request_name ?env demo_crd ''v2'') ''r1''])"
    by (rule migration_completes [OF laws easy(1-5) crd apis shown same _ fin easy(6) crd(1) refl refl easy(7) gone]) simp_all
  with crd(2) show ?thesis
    by (auto simp: demo_crd_def)
qed

end
