(* ===== verification/DSC_Controller.thy ===== *)
theory DSC_Controller
  imports Module_Lifecycle Module_Status
begin

text \<open>
  The actions of the DataScienceCluster controller (\<open>internal/controller/datasciencecluster\<close>): preconditions, the Platform CR it applies and takes back on
  deletion, the cleanup of disabled components and module CRs, the provisioning of component and module CRs, and the component status.

  Parameters (\<open>dsc_env\<close>): the lists and deletions of the API client, and the methods \<open>NewCRObject\<close>, \<open>UpdateDSCStatus\<close> and \<open>BuildModuleCR\<close> that handlers
  implement. \<open>UpdateDSCStatus\<close> writes into the DataScienceCluster and the conditions, so it takes and returns both. \<open>'c\<close> stands for component CRs,
  \<open>'o\<close> for resources of the request, \<open>'g\<close> for the GatewayConfig. The labels and annotations of the Platform CR are left out.
\<close>

section \<open>Enabled modules\<close>

text \<open>\<open>moduleJSONName\<close> on the fields of \<open>PlatformModules\<close>: the tag before its first comma.\<close>

definition moduleJSONName :: "string \<Rightarrow> string option" where
  "moduleJSONName =
     map_of [(''AIPipelines'', ''aipipelines''), (''AIGateway'', ''aigateway''), (''MLflowOperator'', ''mlflowoperator''), (''Monitoring'', ''monitoring''),
       (''MCPLifecycleOperator'', ''mcplifecycleoperator''), (''DatabaseService'', ''databaseservice''), (''Kserve'', ''kserve''), (''Trainer'', ''trainer''),
       (''Workbenches'', ''workbenches''), (''OGX'', ''ogx''), (''Data'', ''data''), (''Dashboard'', ''dashboard''), (''SparkOperator'', ''sparkoperator''),
       (''Ray'', ''ray''), (''TrustyAI'', ''trustyai''), (''AIHub'', ''aihub'')]"

definition ModuleNames :: "string list" where
  "ModuleNames = sort (List.map_filter moduleJSONName platform_fields)"

definition EnabledModules :: "PlatformModules \<Rightarrow> string list" where
  "EnabledModules pm = sort (List.map_filter (\<lambda>(f, ms). if ms \<noteq> ''Managed'' then None else moduleJSONName f) pm)"

section \<open>The controller's environment\<close>

definition errors_Join :: "go_error list \<Rightarrow> go_error option" where
  "errors_Join errs = (if errs = [] then None else Some (GoError (strings_Join (map err_msg errs) [CHR 0x0A]) (concat (map err_kinds errs))))"

record owned_object =
  oo_Name :: string
  oo_OwnerUIDs :: "string list"

text \<open>What \<open>NewCRObject\<close> may return besides an error: nil, a value that is no \<open>client.Object\<close> (with its type), an object.\<close>

datatype 'c new_cr = NilCR | NotAnObject string | CRObject 'c

type_synonym 's comp_handler = "'s DataScienceCluster ComponentHandler"

record ('s, 'i, 'c, 'o, 'g) dsc_env =
  de_ApplicationsNamespace :: string
  de_DSCIs :: "api_failure + 'i DSCInitialization list"
  de_DSCs :: "api_failure + 's DataScienceCluster list"
  de_Ready :: "condition option"
  de_List :: "GVK \<Rightarrow> api_failure + owned_object list"
  de_Delete :: "GVK \<Rightarrow> string \<Rightarrow> api_failure option"
  de_Apply :: "Platform \<Rightarrow> go_error option"
  de_NewCRObject :: "'s comp_handler \<Rightarrow> go_error + 'c new_cr"
  de_AddResources :: "'c \<Rightarrow> go_error + 'o"
  de_UpdateDSCStatus :: "'s comp_handler \<Rightarrow> 's DataScienceCluster \<times> condition list \<Rightarrow>
    (string \<times> go_error option) \<times> 's DataScienceCluster \<times> condition list"
  de_GatewayConfig :: "api_failure + 'g"
  de_BuildModuleCR :: "('s, 'i) handler \<Rightarrow> 's DataScienceCluster \<Rightarrow> string \<Rightarrow> 'g \<Rightarrow> go_error + 'o option"

text \<open>The request with the resources the actions add to it.\<close>

record ('s, 'o) dsc_request =
  dq_rr :: "'s ReconciliationRequest"
  dq_Generated :: bool
  dq_Resources :: "'o list"
  dq_Release :: "string \<times> string"
  dq_StatusRelease :: "string \<times> string"

text \<open>The error of a failed type assertion on the instance, without the printed instance.\<close>

definition not_a_dsc :: go_error where
  "not_a_dsc = new_error ''resource instance is not a dscApi.DataScienceCluster''"

definition instance_of :: "('s, 'o) dsc_request \<Rightarrow> 's DataScienceCluster option" where
  "instance_of dq = (case rr_Instance (dq_rr dq) of DSCInstance dsc \<Rightarrow> Some dsc | _ \<Rightarrow> None)"

definition add_condition :: "condition \<Rightarrow> ('s, 'o) dsc_request \<Rightarrow> ('s, 'o) dsc_request" where
  "add_condition c dq = dq\<lparr>dq_rr := (dq_rr dq)\<lparr>rr_Conditions := rr_Conditions (dq_rr dq) @ [c]\<rparr>\<rparr>"

section \<open>Preconditions\<close>

definition DataScienceCluster_gvk :: GVK where
  "DataScienceCluster_gvk =
     \<lparr>gvk_Group = ''datasciencecluster.opendatahub.io'', gvk_Version = ''v3'', gvk_Kind = ''DataScienceCluster''\<rparr>"

definition GetDSC :: "api_failure + 's DataScienceCluster list \<Rightarrow> go_error + 's DataScienceCluster" where
  "GetDSC listed =
     (case listed of
        Inl err \<Rightarrow> Inl (wrap (''failed to list resources of type '' @ gvk_String DataScienceCluster_gvk) (api_error err))
      | Inr [dsc] \<Rightarrow> Inr dsc
      | Inr [] \<Rightarrow> Inl (GoError (''datascienceclusters.datasciencecluster.opendatahub.io '' @ quoted '''' @ '' not found'') [NotFound])
      | Inr items \<Rightarrow> Inl (new_error (''failed to get a valid '' @ gvk_String DataScienceCluster_gvk @
            '' instance, expected to find 1 instance, found '' @ fmt_nat (length items))))"

definition UninstallInProgressReason :: string where "UninstallInProgressReason = ''UninstallInProgress''"
definition UninstallInProgressMessage :: string where "UninstallInProgressMessage = ''Operator uninstall is in progress''"

definition checkPreConditions :: "('s, 'i, 'c, 'o, 'g) dsc_env \<Rightarrow> ('s, 'o) dsc_request \<Rightarrow> go_error option \<times> ('s, 'o) dsc_request" where
  "checkPreConditions env dq =
     (case (GetDSCI (de_DSCIs env), GetDSC (de_DSCs env)) of
        (Inl err, _) \<Rightarrow> (Some (GoError (''failed to get a valid DataScienceCluster instance, '' @ err_msg err) (err_kinds err)), dq)
      | (Inr _, Inl err) \<Rightarrow> (Some (GoError (''failed to get a valid DSCInitialization instance, '' @ err_msg err) (err_kinds err)), dq)
      | (Inr _, Inr _) \<Rightarrow>
          if instance_of dq = None then (Some not_a_dsc, dq)
          else
            case de_Ready env of
              None \<Rightarrow> (None, dq)
            | Some ready \<Rightarrow>
                if cStatus ready = ConditionFalse \<and> cReason ready = UninstallInProgressReason then
                  (Some (GoError UninstallInProgressMessage [StopError, RequeueAfter (30 * second)]),
                   add_condition (cond ''ComponentsReady'' ConditionFalse UninstallInProgressReason UninstallInProgressMessage) dq)
                else (None, dq))"

section \<open>The Platform CR\<close>

definition buildDSCContext :: "'s DataScienceCluster \<Rightarrow> ('s, 'i) DSCContext" where
  "buildDSCContext dsc = \<lparr>dx_DSC = Some dsc, dx_DSCI = None\<rparr>"

text \<open>Both return the objects they apply; \<open>syncPlatformCR\<close> also the owner references it writes.\<close>

definition syncPlatformCR ::
  "('s, 'i) module_reg \<Rightarrow> ('s, 'i, 'c, 'o, 'g) dsc_env \<Rightarrow> 'r owner_client \<Rightarrow> ('s, 'o) dsc_request \<Rightarrow>
     go_error option \<times> Platform list \<times> 'r list list" where
  "syncPlatformCR reg env oc dq =
     (case instance_of dq of
        None \<Rightarrow> (Some not_a_dsc, [], [])
      | Some dsc \<Rightarrow>
          let platform = NewPlatformCR reg (buildDSCContext dsc) ConfigFromDSC in
          case de_Apply env platform of
            Some err \<Rightarrow> (Some (wrap ''failed to apply Platform CR'' err), [platform], [])
          | None \<Rightarrow>
              let (err, updates) = EnsurePlatformOwnerReference oc in
              (map_option (wrap ''failed to update Platform owner reference'') err, [platform], updates))"

definition disableDSCModulesOnDelete ::
  "('s, 'i) module_reg \<Rightarrow> ('s, 'i, 'c, 'o, 'g) dsc_env \<Rightarrow> ('s, 'o) dsc_request \<Rightarrow> go_error option \<times> Platform list" where
  "disableDSCModulesOnDelete reg env dq =
     (case instance_of dq of
        None \<Rightarrow> (Some not_a_dsc, [])
      | Some dsc \<Rightarrow>
          let platform = NewPlatformCRRemovedForSource reg (buildDSCContext dsc) ConfigFromDSC in
          (map_option (wrap ''failed to mark DSC modules Removed on Platform'') (de_Apply env platform), [platform]))"

section \<open>Cleanup of components\<close>

definition isOwnedBy :: "owned_object \<Rightarrow> string \<Rightarrow> bool" where
  "isOwnedBy obj uid \<longleftrightarrow> uid \<in> set (oo_OwnerUIDs obj)"

definition IgnoreNotFound :: "api_failure option \<Rightarrow> go_error option" where
  "IgnoreNotFound r = (case r of None \<Rightarrow> None | Some f \<Rightarrow> if err_is NotFound (api_error f) then None else Some (api_error f))"

definition deleteComponentCR ::
  "('s, 'i, 'c, 'o, 'g) dsc_env \<Rightarrow> 's comp_handler \<Rightarrow> string \<Rightarrow> go_error option \<times> (GVK \<times> string) list" where
  "deleteComponentCR env ch uid =
     (let componentGVK = ch_GroupVersionKind ch in
      case de_List env componentGVK of
        Inl f \<Rightarrow> (if err_is NotFound (api_error f) \<or> err_is NoMatch (api_error f) then None else Some (api_error f), [])
      | Inr items \<Rightarrow>
          let owned = filter (\<lambda>obj. isOwnedBy obj uid) items in
          (errors_Join (List.map_filter (\<lambda>obj. IgnoreNotFound (de_Delete env componentGVK (oo_Name obj))) owned),
           map (\<lambda>obj. (componentGVK, oo_Name obj)) owned))"

definition cleanup_component ::
  "'s DataScienceCluster comp_registry \<Rightarrow> ('s, 'i, 'c, 'o, 'g) dsc_env \<Rightarrow> 's DataScienceCluster \<Rightarrow> string \<Rightarrow> UnifiedNode \<Rightarrow>
     (GVK \<times> string) list \<Rightarrow> go_error option \<times> (GVK \<times> string) list" where
  "cleanup_component reg env dsc uid entry deleted =
     (case comp_Lookup (n_name entry) reg of
        None \<Rightarrow> (None, deleted)
      | Some ch \<Rightarrow>
          if ch_IsEnabled ch dsc then (None, deleted)
          else let (err, ds) = deleteComponentCR env ch uid in (err, deleted @ ds))"

definition cleanupDisabledComponentsWith ::
  "'s DataScienceCluster comp_registry \<Rightarrow> (go_error + UnifiedNode list list) \<Rightarrow> ('s, 'i, 'c, 'o, 'g) dsc_env \<Rightarrow> ('s, 'o) dsc_request \<Rightarrow>
     go_error option \<times> (GVK \<times> string) list" where
  "cleanupDisabledComponentsWith reg reverseBatchesAll env dq =
     (case instance_of dq of
        None \<Rightarrow> (Some not_a_dsc, [])
      | Some dsc \<Rightarrow>
          (case reverseBatchesAll of
             Inl err \<Rightarrow> (Some (wrap ''DAG reverse resolution failed during component cleanup'' err), [])
           | Inr reverseBatches \<Rightarrow>
               let (errs, deleted) = visit (cleanup_component reg env dsc (rr_UID (dq_rr dq))) (concat (map ComponentsInBatch reverseBatches)) [] in
               (errors_Join errs, deleted)))"

section \<open>Cleanup of module CRs\<close>

text \<open>State: the number of calls made and the names of the modules whose CR was deleted.\<close>

definition delete_module_cr :: "('s, 'i) handler \<Rightarrow> nat \<times> string list \<Rightarrow> go_error option \<times> nat \<times> string list" where
  "delete_module_cr h st = (mh_DeleteModuleCR h (fst st), (fst st + 1, snd st @ [mh_GetName h]))"

definition cleanup_module_entry ::
  "('s, 'i) module_reg \<Rightarrow> string list \<Rightarrow> string list \<Rightarrow> UnifiedNode \<Rightarrow> nat \<times> string list \<Rightarrow> go_error option \<times> nat \<times> string list" where
  "cleanup_module_entry reg dscOwned enabled entry st =
     (case mod_Lookup (n_name entry) reg of
        None \<Rightarrow> (None, st)
      | Some h \<Rightarrow>
          if mh_GetName h \<notin> set dscOwned then (None, st)
          else if mh_GetName h \<in> set enabled then (None, st)
          else delete_module_cr h st)"

text \<open>
  \<open>defaultReg\<close> is the process-wide registry, which \<open>BuildPlatformModulesForSource\<close> reads whichever registry is cleaned up; the controller passes that one.
\<close>

definition cleanupDisabledModuleCRsWith ::
  "('s, 'i) module_reg \<Rightarrow> ('s, 'i) module_reg \<Rightarrow> (go_error + UnifiedNode list list) \<Rightarrow> ('s, 'o) dsc_request \<Rightarrow> go_error list \<times> nat \<times> string list" where
  "cleanupDisabledModuleCRsWith defaultReg reg reverseBatchesAll dq =
     (case instance_of dq of
        None \<Rightarrow> ([not_a_dsc], (0, []))
      | Some dsc \<Rightarrow>
          if \<not> mod_HasEntries reg then ([], (0, []))
          else
            let enabled = EnabledModules (BuildPlatformModulesForSource defaultReg (buildDSCContext dsc) ConfigFromDSC);
                dscOwned = snd (mod_ForConfigSource ConfigFromDSC (\<lambda>h _ s. (None, s @ [mh_GetName h])) reg [])
            in case reverseBatchesAll of
                 Inl err \<Rightarrow>
                   mod_ForConfigSource ConfigFromDSC (\<lambda>h _ st. if mh_GetName h \<notin> set enabled then delete_module_cr h st else (None, st)) reg (0, [])
               | Inr reverseBatches \<Rightarrow>
                   visit (cleanup_module_entry reg dscOwned enabled) (concat (map ModulesInBatch reverseBatches)) (0, []))"

section \<open>Provisioning\<close>

text \<open>State of the loop: the resources and the names of the components that failed.\<close>

definition provision_component ::
  "('s, 'i, 'c, 'o, 'g) dsc_env \<Rightarrow> 's DataScienceCluster \<Rightarrow> 's comp_handler \<Rightarrow> 'o list \<times> string list \<Rightarrow> go_error option \<times> 'o list \<times> string list" where
  "provision_component env dsc ch st =
     (let fail = (None, (fst st, snd st @ [ch_GetName ch])) in
      if \<not> ch_IsEnabled ch dsc then (None, st)
      else
        case de_NewCRObject env ch of
          Inl err \<Rightarrow> fail
        | Inr NilCR \<Rightarrow> (None, st)
        | Inr (NotAnObject ty) \<Rightarrow> fail
        | Inr (CRObject obj) \<Rightarrow>
            (case de_AddResources env obj of Inl err \<Rightarrow> fail | Inr res \<Rightarrow> (None, (fst st @ [res], snd st))))"

definition provisionComponentsWith ::
  "'s DataScienceCluster comp_registry \<Rightarrow> ('s, 'i, 'c, 'o, 'g) dsc_env \<Rightarrow> ('s, 'o) dsc_request \<Rightarrow> go_error list \<times> ('s, 'o) dsc_request" where
  "provisionComponentsWith reg env dq =
     (case instance_of dq of
        None \<Rightarrow> ([not_a_dsc], dq)
      | Some dsc \<Rightarrow>
          let (errs, (res, failed), _) = comp_ForEach comp_resolvedBatchesLocked (provision_component env dsc) reg (dq_Resources dq, []);
              dq = dq\<lparr>dq_Generated := True, dq_Resources := res\<rparr> in
          if errs \<noteq> [] then (errs, dq)
          else if failed \<noteq> [] then
            ([new_error (''provisioning failed for components: '' @ strings_Join failed '', '')],
             add_condition (cond ''ComponentsReady'' ConditionFalse ''ProvisioningFailed'' (''Provisioning failed for: '' @ strings_Join failed '', '')) dq)
          else ([], dq))"

definition provision_module_cr ::
  "('s, 'i, 'c, 'o, 'g) dsc_env \<Rightarrow> 's DataScienceCluster \<Rightarrow> string list \<Rightarrow> string \<Rightarrow> 'g \<Rightarrow> ('s, 'i) handler \<Rightarrow> 'o list \<Rightarrow> go_error option \<times> 'o list" where
  "provision_module_cr env dsc enabled appNS gatewayConfig h res =
     (if mh_GetName h \<notin> set enabled then (None, res)
      else
        case de_BuildModuleCR env h dsc appNS gatewayConfig of
          Inl err \<Rightarrow> (Some (wrap (''BuildModuleCR failed for module '' @ mh_GetName h) err), res)
        | Inr None \<Rightarrow> (None, res)
        | Inr (Some moduleCR) \<Rightarrow> (None, res @ [moduleCR]))"

definition provisionModuleCRsWith ::
  "('s, 'i) module_reg \<Rightarrow> ('s, 'i, 'c, 'o, 'g) dsc_env \<Rightarrow> ('s, 'o) dsc_request \<Rightarrow> go_error list \<times> ('s, 'o) dsc_request" where
  "provisionModuleCRsWith reg env dq =
     (case instance_of dq of
        None \<Rightarrow> ([not_a_dsc], dq)
      | Some dsc \<Rightarrow>
          if \<not> mod_HasEntries reg then ([], dq)
          else
            let pm = snd (mod_ForConfigSource ConfigFromDSC (\<lambda>h _ pm. (None, mh_PopulatePlatformModule h (buildDSCContext dsc) pm)) reg zero_PlatformModules);
                enabled = EnabledModules pm
            in case ApplicationNamespace (de_ApplicationsNamespace env) (de_DSCIs env) of
                 Inl err \<Rightarrow> ([wrap ''failed to resolve application namespace'' err], dq)
               | Inr appNS \<Rightarrow>
                   (case de_GatewayConfig env of
                      Inl f \<Rightarrow> ([wrap ''get GatewayConfig for module CRs'' (wrap ''get GatewayConfig'' (api_error f))], dq)
                    | Inr gatewayConfig \<Rightarrow>
                        let (errs, res) = mod_ForConfigSource ConfigFromDSC
                              (\<lambda>h _. provision_module_cr env dsc enabled appNS gatewayConfig h) reg (dq_Resources dq)
                        in (errs, dq\<lparr>dq_Resources := res\<rparr>)))"

section \<open>Status\<close>

record 's components_status_state =
  cs_dsc :: "'s DataScienceCluster"
  cs_conditions :: "condition list"
  cs_notReady :: "string list"
  cs_managed :: nat

definition component_status ::
  "('s, 'i, 'c, 'o, 'g) dsc_env \<Rightarrow> 's comp_handler \<Rightarrow> 's components_status_state \<Rightarrow> go_error option \<times> 's components_status_state" where
  "component_status env ch st =
     (case de_UpdateDSCStatus env ch (cs_dsc st, cs_conditions st) of
        ((cs, err), dsc, conds) \<Rightarrow>
          let st = st\<lparr>cs_dsc := dsc, cs_conditions := conds\<rparr>;
              notReady = st\<lparr>cs_notReady := cs_notReady st @ [ch_GetName ch]\<rparr>;
              enabled = ch_IsEnabled ch dsc in
          case err of
            Some err \<Rightarrow> (Some err, notReady)
          | None \<Rightarrow>
              if \<not> enabled \<and> cs \<noteq> ConditionFalse then (None, st)
              else
                let count' = (if enabled then Suc else id) in
                (None, (if cs \<noteq> ConditionTrue then notReady else st)\<lparr>cs_managed := count' (cs_managed st)\<rparr>))"

definition components_ready_condition :: "'s components_status_state \<Rightarrow> condition" where
  "components_ready_condition st =
     (if cs_notReady st \<noteq> [] then
        cond ''ComponentsReady'' ConditionFalse ''NotReady'' (''Some components are not ready: '' @ strings_Join (cs_notReady st) '', '')
      else if cs_managed st = 0 then
        (cond ''ComponentsReady'' ConditionTrue ''NoManagedComponents''
          ''All registered components have ManagementState Removed or are not configured'')\<lparr>cSeverity := ConditionSeverityInfo\<rparr>
      else cond ''ComponentsReady'' ConditionTrue '''' '''')"

definition computeComponentsStatus ::
  "'s DataScienceCluster comp_registry \<Rightarrow> ('s, 'i, 'c, 'o, 'g) dsc_env \<Rightarrow> ('s, 'o) dsc_request \<Rightarrow> go_error list \<times> ('s, 'o) dsc_request" where
  "computeComponentsStatus reg env dq =
     (case instance_of dq of
        None \<Rightarrow> ([new_error ''failed to convert to DataScienceCluster''], dq)
      | Some dsc \<Rightarrow>
          let (errs, st, _) = comp_ForEach comp_resolvedBatchesLocked (component_status env) reg
                \<lparr>cs_dsc = dsc, cs_conditions = rr_Conditions (dq_rr dq), cs_notReady = [], cs_managed = 0\<rparr>
          in (errs, dq\<lparr>dq_rr := (dq_rr dq)\<lparr>rr_Instance := DSCInstance (cs_dsc st),
                rr_Conditions := cs_conditions st @ [components_ready_condition st]\<rparr>\<rparr>))"

definition updateStatus ::
  "'s DataScienceCluster comp_registry \<Rightarrow> ('s, 'i) module_reg \<Rightarrow> ('s, 'i, 'c, 'o, 'g) dsc_env \<Rightarrow> ('s, 'o) dsc_request \<Rightarrow>
     go_error list \<times> ('s, 'o) dsc_request" where
  "updateStatus creg mreg env dq =
     (if instance_of dq = None then ([not_a_dsc], dq)
      else
        case computeComponentsStatus creg env (dq\<lparr>dq_StatusRelease := dq_Release dq\<rparr>) of
          ([], dq) \<Rightarrow>
            (case ComputeModulesStatusDetailed mreg (dq_rr dq) of
               (errs, rr, dsc) \<Rightarrow>
                 (errs, dq\<lparr>dq_rr := (case dsc of None \<Rightarrow> rr | Some d \<Rightarrow> rr\<lparr>rr_Instance := DSCInstance d\<rparr>)\<rparr>))
        | (errs, dq) \<Rightarrow> (errs, dq))"

section \<open>What is cleaned up\<close>

lemma reverse_batch_nodes:
  assumes "in_step s" "ReverseBatchesAll (sys_uni s) = Inr bs"
  shows "set (concat bs) = {nd. map_of (u_nodes (sys_uni s)) (n_name nd) = Some nd}"
proof -
  have wf: "unified_wf (sys_uni s)"
    using assms(1) by (simp add: in_step_def)
  let ?all = "map (at_or (u_nodes (sys_uni s)) zero_node) (u_order (sys_uni s))"
  have "set (concat (rev (map rev xs))) = set (concat xs)" for xs :: "UnifiedNode list list" by auto
  moreover have "bs = rev (map rev (runlevel_batches n_name n_runlevel ?all))"
    using assms(2) by (simp add: ReverseBatchesAll_eq [OF wf])
  ultimately have "set (concat bs) = set ?all" by (simp only: set_concat_runlevel_batches)
  also have "\<dots> = {nd. map_of (u_nodes (sys_uni s)) (n_name nd) = Some nd}"
  proof (intro set_eqI iffI)
    fix nd assume "nd \<in> set ?all"
    then obtain n where n: "n \<in> set (u_order (sys_uni s))" "nd = at_or (u_nodes (sys_uni s)) zero_node n" by auto
    then obtain nd' where "map_of (u_nodes (sys_uni s)) n = Some nd'"
      using wf by (metis domD dom_map_of_conv_image_fst unified_wf_def)
    with n(2) wf_node_name [OF wf n(1)] show "nd \<in> {nd. map_of (u_nodes (sys_uni s)) (n_name nd) = Some nd}"
      by (simp add: at_or_def)
  next
    fix nd assume "nd \<in> {nd. map_of (u_nodes (sys_uni s)) (n_name nd) = Some nd}"
    then have nd: "map_of (u_nodes (sys_uni s)) (n_name nd) = Some nd" by simp
    then have "n_name nd \<in> set (u_order (sys_uni s))"
      using wf by (metis domI dom_map_of_conv_image_fst unified_wf_def)
    with nd show "nd \<in> set ?all" by (force simp: at_or_def)
  qed
  finally show ?thesis .
qed

lemma node_of_name: "node_of s n = Some nd \<Longrightarrow> n_name nd = n"
  by (auto simp: node_of_def split: option.splits)

lemma component_node:
  "(\<exists>nd. node_of s n = Some nd \<and> n_kind nd = KindComponent) \<longleftrightarrow> comp_Lookup n (sys_comp s) \<noteq> None \<and> mod_Lookup n (sys_mod s) = None"
  by (auto simp: node_of_def comp_Lookup_def mod_Lookup_def split: option.splits)

text \<open>The components a cleanup visits: those whose name no module has taken over.\<close>

lemma cleanup_covers_components:
  assumes "in_step s" "ReverseBatchesAll (sys_uni s) = Inr bs"
  shows "n_name ` set (concat (map ComponentsInBatch bs)) = {n. comp_Lookup n (sys_comp s) \<noteq> None \<and> mod_Lookup n (sys_mod s) = None}"
proof -
  have nodes: "map_of (u_nodes (sys_uni s)) n = node_of s n" for n
    using assms(1) by (simp add: in_step_def)
  have "set (concat (map ComponentsInBatch bs)) = {nd \<in> set (concat bs). n_kind nd = KindComponent}"
    by (auto simp: ComponentsInBatch_def filterBatch_def)
  also have "\<dots> = {nd. node_of s (n_name nd) = Some nd \<and> n_kind nd = KindComponent}"
    using reverse_batch_nodes [OF assms] nodes by auto
  finally have "n \<in> n_name ` set (concat (map ComponentsInBatch bs)) \<longleftrightarrow> (\<exists>nd. node_of s n = Some nd \<and> n_kind nd = KindComponent)" for n
    by (auto simp: image_iff dest: node_of_name)
  then show ?thesis
    by (simp only: set_eq_iff mem_Collect_eq component_node) blast
qed

definition disabled_entry_deletes ::
  "'s DataScienceCluster comp_registry \<Rightarrow> ('s, 'i, 'c, 'o, 'g) dsc_env \<Rightarrow> 's DataScienceCluster \<Rightarrow> string \<Rightarrow> string \<Rightarrow> (GVK \<times> string) list" where
  "disabled_entry_deletes reg env dsc uid n =
     (case comp_Lookup n reg of
        None \<Rightarrow> []
      | Some ch \<Rightarrow> if ch_IsEnabled ch dsc then [] else snd (deleteComponentCR env ch uid))"

lemma disabled_entry_deletes_iff:
  "(g, name) \<in> set (disabled_entry_deletes reg env dsc uid n) \<longleftrightarrow>
     (\<exists>ch items obj. comp_Lookup n reg = Some ch \<and> \<not> ch_IsEnabled ch dsc \<and> g = ch_GroupVersionKind ch \<and> de_List env g = Inr items \<and>
        obj \<in> set items \<and> isOwnedBy obj uid \<and> name = oo_Name obj)"
proof (cases "comp_Lookup n reg")
  case (Some ch)
  then show ?thesis
    by (cases "de_List env (ch_GroupVersionKind ch)") (auto simp: disabled_entry_deletes_def deleteComponentCR_def Let_def)
qed (simp add: disabled_entry_deletes_def)

lemma cleanup_components_visit:
  "snd (visit (cleanup_component reg env dsc uid) es ds) = ds @ concat (map (\<lambda>e. disabled_entry_deletes reg env dsc uid (n_name e)) es)"
  by (induction es arbitrary: ds)
    (simp_all add: cleanup_component_def disabled_entry_deletes_def Let_def case_prod_beta split: option.splits)

text \<open>
  Component cleanup removes exactly the orphans. In one pass, the controller deletes the CRs that are owned by this DataScienceCluster and belong to a registered component
  the DataScienceCluster does not enable, whether or not an earlier deletion failed, and no others: CRs of enabled components and CRs with another owner stay. Components switched off by
  the operator's flags are covered too.
\<close>

theorem component_cleanup_exact:
  assumes "in_step s" "instance_of dq = Some dsc"
    and "cleanupDisabledComponentsWith (sys_comp s) (ReverseBatchesAll (sys_uni s)) env dq = (err, deleted)"
  shows "set deleted =
    {(g, name). \<exists>n ch items obj. comp_Lookup n (sys_comp s) = Some ch \<and> mod_Lookup n (sys_mod s) = None \<and> \<not> ch_IsEnabled ch dsc \<and>
       g = ch_GroupVersionKind ch \<and> de_List env g = Inr items \<and> obj \<in> set items \<and> isOwnedBy obj (rr_UID (dq_rr dq)) \<and> name = oo_Name obj}"
proof -
  have "unified_wf (sys_uni s)"
    using assms(1) by (simp add: in_step_def)
  then obtain bs where bs: "ReverseBatchesAll (sys_uni s) = Inr bs"
    by (simp add: ReverseBatchesAll_eq)
  let ?del = "disabled_entry_deletes (sys_comp s) env dsc (rr_UID (dq_rr dq))"
  have "deleted = concat (map (\<lambda>e. ?del (n_name e)) (concat (map ComponentsInBatch bs)))"
    using assms(2,3) bs cleanup_components_visit [of "sys_comp s" env dsc "rr_UID (dq_rr dq)" "concat (map ComponentsInBatch bs)" "[]"]
    by (simp add: cleanupDisabledComponentsWith_def split: prod.splits)
  then have "set deleted = (\<Union>n \<in> n_name ` set (concat (map ComponentsInBatch bs)). set (?del n))"
    by auto
  also have "\<dots> = (\<Union>n \<in> {n. comp_Lookup n (sys_comp s) \<noteq> None \<and> mod_Lookup n (sys_mod s) = None}. set (?del n))"
    by (simp only: cleanup_covers_components [OF assms(1) bs])
  finally have "p \<in> set deleted \<longleftrightarrow> (\<exists>n. comp_Lookup n (sys_comp s) \<noteq> None \<and> mod_Lookup n (sys_mod s) = None \<and> p \<in> set (?del n))" for p
    by simp
  then show ?thesis
    by (intro set_eqI) (clarsimp simp: disabled_entry_deletes_iff, blast)
qed

section \<open>Module CRs\<close>

definition dsc_modules :: "('s, 'i) module_reg \<Rightarrow> ('s, 'i) handler list" where
  "dsc_modules reg = map re_handler (filter (\<lambda>e. re_configSource e = ConfigFromDSC) (mod_sorted_entries reg))"

lemma ForConfigSource_DSC:
  "mod_ForConfigSource ConfigFromDSC (\<lambda>h _. f h) reg st = visit f (dsc_modules reg) st"
  by (simp add: mod_ForConfigSource_def dsc_modules_def visit_map)

lemma dsc_owned: "snd (mod_ForConfigSource ConfigFromDSC (\<lambda>h _ s. (None, s @ [mh_GetName h])) reg []) = map mh_GetName (dsc_modules reg)"
proof -
  have "foldl (\<lambda>s h. s @ [mh_GetName h]) ns hs = ns @ map mh_GetName hs" for ns and hs :: "('a, 'b) handler list"
    by (induction hs arbitrary: ns) simp_all
  then show ?thesis
    by (simp add: ForConfigSource_DSC visit_no_error)
qed

lemma dsc_modules_registered:
  assumes "mod_wf reg"
  shows "h \<in> set (dsc_modules reg) \<longleftrightarrow> (\<exists>e. map_of (m_entries reg) (mh_GetName h) = Some e \<and> re_handler e = h \<and> re_configSource e = ConfigFromDSC)"
proof -
  have names: "map_of (m_entries reg) n = Some e \<Longrightarrow> mh_GetName (re_handler e) = n" for n e
    using registry_wf_name [OF assms [unfolded mod_wf_def]] by (simp add: re_name_def)
  have "set (mod_sorted_entries reg) = {e. \<exists>n. map_of (m_entries reg) n = Some e}"
    by (auto simp: mod_sorted_entries_def mod_sortedNames_def List.map_filter_def image_iff intro: map_of_SomeD) (metis fst_conv map_of_SomeD option.sel)
  then show ?thesis
    using names by (auto simp: dsc_modules_def)
qed

lemma dsc_module_Lookup:
  assumes "mod_wf reg" "h \<in> set (dsc_modules reg)"
  shows "mod_Lookup (mh_GetName h) reg = Some h"
proof -
  obtain e where "map_of (m_entries reg) (mh_GetName h) = Some e" "re_handler e = h"
    using dsc_modules_registered [OF assms(1)] assms(2) by blast
  then show ?thesis
    by (simp add: mod_Lookup_def)
qed

lemma dsc_modules_lookup:
  assumes "mod_wf reg"
  shows "(\<exists>n. mod_Lookup n reg = Some h) \<and> mh_GetName h \<in> set (map mh_GetName (dsc_modules reg)) \<longleftrightarrow> h \<in> set (dsc_modules reg)"
proof
  assume "h \<in> set (dsc_modules reg)"
  then show "(\<exists>n. mod_Lookup n reg = Some h) \<and> mh_GetName h \<in> set (map mh_GetName (dsc_modules reg))"
    using dsc_module_Lookup [OF assms] by (metis image_eqI set_map)
next
  assume "(\<exists>n. mod_Lookup n reg = Some h) \<and> mh_GetName h \<in> set (map mh_GetName (dsc_modules reg))"
  then obtain n h' where h: "mod_Lookup n reg = Some h" "h' \<in> set (dsc_modules reg)" "mh_GetName h = mh_GetName h'" by auto
  have "Some h = mod_Lookup (mh_GetName h) reg"
    using mod_Lookup_entry [OF assms] h(1) by metis
  also have "\<dots> = mod_Lookup (mh_GetName h') reg"
    by (simp only: h(3))
  also have "\<dots> = Some h'"
    by (rule dsc_module_Lookup [OF assms h(2)])
  finally have "h = h'"
    by (rule option.inject [THEN iffD1])
  then show "h \<in> set (dsc_modules reg)"
    using h(2) by (rule ssubst)
qed

lemma set_map_filter: "set (List.map_filter g xs) = {y. \<exists>x \<in> set xs. g x = Some y}"
  by (induction xs) (auto simp: List.map_filter_simps split: option.splits)

text \<open>A visit that deletes some of the CRs it sees.\<close>

lemma delete_visit:
  assumes "\<And>x st. f x st = (case g x of None \<Rightarrow> (None, st) | Some h \<Rightarrow> delete_module_cr h st)"
  shows "snd (snd (visit f xs st)) = snd st @ map mh_GetName (List.map_filter g xs)"
  by (induction xs arbitrary: st) (simp_all add: assms delete_module_cr_def List.map_filter_simps Let_def case_prod_beta split: option.splits)

lemma cleanup_module_names:
  assumes "in_step s" "rb = ReverseBatchesAll (sys_uni s) \<or> (\<exists>e. rb = Inl e)" "instance_of dq = Some dsc" "mod_HasEntries (sys_mod s)"
    and "enabled = EnabledModules (BuildPlatformModulesForSource (sys_mod s) (buildDSCContext dsc) ConfigFromDSC)"
  shows "set (snd (snd (cleanupDisabledModuleCRsWith (sys_mod s) (sys_mod s) rb dq))) = mh_GetName ` {h \<in> set (dsc_modules (sys_mod s)). mh_GetName h \<notin> set enabled}"
proof -
  have wf: "mod_wf (sys_mod s)" "unified_wf (sys_uni s)"
    using assms(1) by (simp_all add: in_step_def)
  show ?thesis
  proof (cases rb)
    case (Inl e)
    let ?g = "\<lambda>h. if mh_GetName h \<notin> set enabled then Some h else None"
    have visited: "snd (snd (visit (\<lambda>h st. if mh_GetName h \<notin> set enabled then delete_module_cr h st else (None, st)) hs (0, []))) =
        map mh_GetName (List.map_filter ?g hs)" for hs :: "('b, 'c) handler list"
      by (subst delete_visit [of _ ?g]) simp_all
    have "snd (snd (cleanupDisabledModuleCRsWith (sys_mod s) (sys_mod s) rb dq)) = map mh_GetName (List.map_filter ?g (dsc_modules (sys_mod s)))"
      using assms(3-5) Inl visited by (simp add: cleanupDisabledModuleCRsWith_def ForConfigSource_DSC)
    then show ?thesis
      by (auto simp: List.map_filter_def)
  next
    case (Inr bs)
    then have bs: "ReverseBatchesAll (sys_uni s) = Inr bs"
      using assms(2) by auto
    let ?owned = "map mh_GetName (dsc_modules (sys_mod s))"
    let ?g = "\<lambda>e. case mod_Lookup (n_name e) (sys_mod s) of None \<Rightarrow> None
      | Some h \<Rightarrow> if mh_GetName h \<in> set ?owned \<and> mh_GetName h \<notin> set enabled then Some h else None"
    have picks: "?g e = Some h \<longleftrightarrow> mod_Lookup (n_name e) (sys_mod s) = Some h \<and> mh_GetName h \<in> set ?owned \<and> mh_GetName h \<notin> set enabled" for e h
      by (auto split: option.splits)
    have visited: "snd (snd (visit (cleanup_module_entry (sys_mod s) ?owned enabled) es (0, []))) = map mh_GetName (List.map_filter ?g es)" for es
      by (subst delete_visit [of _ ?g]) (auto simp: cleanup_module_entry_def split: option.splits)
    have "snd (snd (cleanupDisabledModuleCRsWith (sys_mod s) (sys_mod s) rb dq)) = map mh_GetName (List.map_filter ?g (concat (map ModulesInBatch bs)))"
      using assms(3-5) Inr visited by (simp add: cleanupDisabledModuleCRsWith_def dsc_owned)
    moreover have "h \<in> set (List.map_filter ?g (concat (map ModulesInBatch bs))) \<longleftrightarrow> h \<in> set (dsc_modules (sys_mod s)) \<and> mh_GetName h \<notin> set enabled" for h
    proof -
      have "h \<in> set (List.map_filter ?g (concat (map ModulesInBatch bs))) \<longleftrightarrow>
          h \<in> set (List.map_filter (\<lambda>e. mod_Lookup (n_name e) (sys_mod s)) (concat (map ModulesInBatch bs))) \<and> mh_GetName h \<in> set ?owned \<and> mh_GetName h \<notin> set enabled"
        unfolding set_map_filter picks by blast
      then show ?thesis
        unfolding cleanup_covers_modules [OF assms(1) bs] mem_Collect_eq using dsc_modules_lookup [OF wf(1), of h] by blast
    qed
    then have "set (List.map_filter ?g (concat (map ModulesInBatch bs))) = {h \<in> set (dsc_modules (sys_mod s)). mh_GetName h \<notin> set enabled}"
      by blast
    ultimately show ?thesis
      by (simp only: set_map)
  qed
qed

text \<open>The CRs the modules of a list contribute.\<close>

lemma provision_modules_visit:
  "snd (visit (provision_module_cr env dsc enabled appNS gw) hs res) =
     res @ List.map_filter (\<lambda>h. case de_BuildModuleCR env h dsc appNS gw of Inr r \<Rightarrow> r | Inl _ \<Rightarrow> None) (filter (\<lambda>h. mh_GetName h \<in> set enabled) hs)"
  "fst (visit (provision_module_cr env dsc enabled appNS gw) hs res) = [] \<longleftrightarrow>
     (\<forall>h \<in> set hs. mh_GetName h \<in> set enabled \<longrightarrow> \<not> isl (de_BuildModuleCR env h dsc appNS gw))"
  by (induction hs arbitrary: res)
    (simp_all add: provision_module_cr_def List.map_filter_simps Let_def case_prod_beta split: option.splits sum.splits)

text \<open>
  C37. Every module the DataScienceCluster configures is on one side. With the registries in step, one pass of the controller deletes the module CR of exactly the registered
  DSC-configured modules the DataScienceCluster does not manage, in whichever order, and adds to the request the CRs that exactly the managed ones among them build. Modules configured by the
  DSCInitialization are on neither side. The registry is the process-wide one, as in the controller's calls, and the namespace and the GatewayConfig can be read.
\<close>

theorem module_crs_follow_dsc:
  assumes "in_step s" "rb = ReverseBatchesAll (sys_uni s) \<or> (\<exists>e. rb = Inl e)" "instance_of dq = Some dsc"
    and "ApplicationNamespace (de_ApplicationsNamespace env) (de_DSCIs env) = Inr appNS" "de_GatewayConfig env = Inr gw"
    and "enabled = EnabledModules (BuildPlatformModulesForSource (sys_mod s) (buildDSCContext dsc) ConfigFromDSC)"
  shows "set (snd (snd (cleanupDisabledModuleCRsWith (sys_mod s) (sys_mod s) rb dq))) =
      {n. \<exists>e. map_of (m_entries (sys_mod s)) n = Some e \<and> re_configSource e = ConfigFromDSC \<and> n \<notin> set enabled} \<and>
    (\<exists>hs. dq_Resources (snd (provisionModuleCRsWith (sys_mod s) env dq)) =
        dq_Resources dq @ List.map_filter (\<lambda>h. case de_BuildModuleCR env h dsc appNS gw of Inr r \<Rightarrow> r | Inl _ \<Rightarrow> None) hs \<and>
      mh_GetName ` set hs = {n. \<exists>e. map_of (m_entries (sys_mod s)) n = Some e \<and> re_configSource e = ConfigFromDSC \<and> n \<in> set enabled} \<and>
      (fst (provisionModuleCRsWith (sys_mod s) env dq) = [] \<longleftrightarrow> (\<forall>h \<in> set hs. \<not> isl (de_BuildModuleCR env h dsc appNS gw))))"
proof -
  have wf: "mod_wf (sys_mod s)"
    using assms(1) by (simp add: in_step_def)
  have names: "mh_GetName ` {h \<in> set (dsc_modules (sys_mod s)). P (mh_GetName h)} =
      {n. \<exists>e. map_of (m_entries (sys_mod s)) n = Some e \<and> re_configSource e = ConfigFromDSC \<and> P n}" for P
    using registry_wf_name [OF wf [unfolded mod_wf_def]] by (auto simp: dsc_modules_registered [OF wf] re_name_def image_iff)
  show ?thesis
  proof (cases "mod_HasEntries (sys_mod s)")
    case False
    then have "m_entries (sys_mod s) = []"
      by (simp add: mod_HasEntries_def)
    with False assms(3) show ?thesis
      by (intro conjI exI [of _ "[]"]) (simp_all add: cleanupDisabledModuleCRsWith_def provisionModuleCRsWith_def List.map_filter_simps)
  next
    case True
    let ?hs = "filter (\<lambda>h. mh_GetName h \<in> set enabled) (dsc_modules (sys_mod s))"
    have "provisionModuleCRsWith (sys_mod s) env dq =
        (let (errs, res) = visit (provision_module_cr env dsc enabled appNS gw) (dsc_modules (sys_mod s)) (dq_Resources dq)
         in (errs, dq\<lparr>dq_Resources := res\<rparr>))"
      using True assms(3-6) by (simp add: provisionModuleCRsWith_def BuildPlatformModulesForSource_def ForConfigSource_DSC)
    then have "dq_Resources (snd (provisionModuleCRsWith (sys_mod s) env dq)) =
        dq_Resources dq @ List.map_filter (\<lambda>h. case de_BuildModuleCR env h dsc appNS gw of Inr r \<Rightarrow> r | Inl _ \<Rightarrow> None) ?hs \<and>
      (fst (provisionModuleCRsWith (sys_mod s) env dq) = [] \<longleftrightarrow> (\<forall>h \<in> set ?hs. \<not> isl (de_BuildModuleCR env h dsc appNS gw)))"
      using provision_modules_visit [of env dsc enabled appNS gw "dsc_modules (sys_mod s)" "dq_Resources dq"] by (auto simp: case_prod_beta)
    moreover have "mh_GetName ` set ?hs = {n. \<exists>e. map_of (m_entries (sys_mod s)) n = Some e \<and> re_configSource e = ConfigFromDSC \<and> n \<in> set enabled}"
      using names [of "\<lambda>n. n \<in> set enabled"] by simp
    moreover have "set (snd (snd (cleanupDisabledModuleCRsWith (sys_mod s) (sys_mod s) rb dq))) =
        {n. \<exists>e. map_of (m_entries (sys_mod s)) n = Some e \<and> re_configSource e = ConfigFromDSC \<and> n \<notin> set enabled}"
      unfolding cleanup_module_names [OF assms(1-3) True assms(6)] by (rule names)
    ultimately show ?thesis
      by (intro conjI exI [of _ ?hs]) simp_all
  qed
qed

section \<open>Components\<close>

text \<open>What a component contributes: nothing, a failure, or a resource.\<close>

definition component_cr :: "('s, 'i, 'c, 'o, 'g) dsc_env \<Rightarrow> 's DataScienceCluster \<Rightarrow> 's comp_handler \<Rightarrow> unit + 'o option" where
  "component_cr env dsc ch =
     (if \<not> ch_IsEnabled ch dsc then Inr None
      else
        case de_NewCRObject env ch of
          Inr NilCR \<Rightarrow> Inr None
        | Inr (CRObject obj) \<Rightarrow> (case de_AddResources env obj of Inr res \<Rightarrow> Inr (Some res) | Inl _ \<Rightarrow> Inl ())
        | _ \<Rightarrow> Inl ())"

lemma provision_component_cr:
  "provision_component env dsc ch st =
     (None, case component_cr env dsc ch of Inl _ \<Rightarrow> (fst st, snd st @ [ch_GetName ch]) | Inr None \<Rightarrow> st | Inr (Some r) \<Rightarrow> (fst st @ [r], snd st))"
  by (simp add: provision_component_def component_cr_def Let_def split: sum.splits new_cr.splits)

lemma provision_components_visit:
  "visit (provision_component env dsc) hs st =
     ([], (fst st @ List.map_filter (\<lambda>ch. case component_cr env dsc ch of Inr r \<Rightarrow> r | Inl _ \<Rightarrow> None) hs,
       snd st @ map ch_GetName (filter (\<lambda>ch. isl (component_cr env dsc ch)) hs)))"
  by (induction hs arbitrary: st)
    (simp_all add: provision_component_cr List.map_filter_simps split: sum.splits option.splits)

lemma comp_enabled_entry:
  assumes "comp_wf r"
  shows "e \<in> set (comp_enabled r) \<longleftrightarrow> map_of (c_entries r) (he_name e) = Some e \<and> he_enabled e"
proof -
  have wf: "registry_wf he_name (c_entries r) (c_order r)"
    using assms by (simp add: comp_wf_def)
  have "n \<in> set (c_order r)" if "map_of (c_entries r) n = Some e" for n
  proof -
    have "n \<in> fst ` set (c_entries r)"
      using imageI [OF map_of_SomeD [OF that], of fst] by simp
    then show ?thesis
      using wf by (simp add: registry_wf_def)
  qed
  moreover have "he_name e = n" if "map_of (c_entries r) n = Some e" for n
    using registry_wf_name [OF wf that] .
  moreover have "(case map_of (c_entries r) n of None \<Rightarrow> None | Some e \<Rightarrow> if he_enabled e then Some e else None) = Some e \<longleftrightarrow>
      map_of (c_entries r) n = Some e \<and> he_enabled e" for n
    by (auto split: option.splits)
  ultimately show ?thesis
    unfolding comp_enabled_def enabled_list_def set_map_filter mem_Collect_eq Bex_def by blast
qed

lemma switched_on:
  assumes "in_step s"
  shows "he_handler ` set (comp_enabled (sys_comp s)) = {ch. \<exists>e. map_of (c_entries (sys_comp s)) (ch_GetName ch) = Some e \<and> he_enabled e \<and> he_handler e = ch}"
proof -
  have wf: "comp_wf (sys_comp s)"
    using assms by (simp add: in_step_def)
  show ?thesis
    by (rule set_eqI) (simp only: image_iff mem_Collect_eq Bex_def comp_enabled_entry [OF wf] he_name_def, blast)
qed

lemma in_step_ForEach:
  assumes "in_step s" "comp_ForEach comp_resolvedBatchesLocked f (sys_comp s) st = (errs, st', r')"
  shows "\<exists>es. (errs, st') = visit f (map he_handler es) st \<and> mset es = mset (comp_enabled (sys_comp s)) \<and> es = concat (comp_fresh (sys_comp s, sys_uni s))"
proof -
  have wf: "comp_wf (sys_comp s)" "comp_coherent (sys_comp s, sys_uni s)"
    using assms(1) by (simp_all add: in_step_def coherent_def)
  have "fst (comp_resolvedBatchesLocked (sys_comp s)) = Inr (comp_fresh (sys_comp s, sys_uni s))"
    using wf(2) by (auto simp: comp_resolvedBatchesLocked_def coherent_def comp_fresh_def Resolve_runlevel_batches)
  then have "comp_resolvedBatchesLocked (sys_comp s) = (Inr (comp_fresh (sys_comp s, sys_uni s)), snd (comp_resolvedBatchesLocked (sys_comp s)))"
    by (simp add: prod_eq_iff)
  with component_for_each_visits_enabled [OF wf disjI1 [OF refl] assms(2)] show ?thesis
    by (metis (lifting))
qed

text \<open>
  Component provisioning. The controller adds to the request the CRs of exactly the components that are registered, not switched off by a flag and enabled in the DataScienceCluster,
  in the order of their runlevels and names, and goes on after a component that fails. It returns an error exactly when some component failed, and then \<open>ComponentsReady\<close> is false and
  names all of them.
\<close>

theorem components_provisioned:
  assumes "in_step s" "instance_of dq = Some dsc" "provisionComponentsWith (sys_comp s) env dq = (errs, dq')"
    and "hs = map he_handler (concat (comp_fresh (sys_comp s, sys_uni s)))"
  shows "dq_Resources dq' = dq_Resources dq @ List.map_filter (\<lambda>ch. case component_cr env dsc ch of Inr r \<Rightarrow> r | Inl _ \<Rightarrow> None) hs \<and>
    set hs = {ch. \<exists>e. map_of (c_entries (sys_comp s)) (ch_GetName ch) = Some e \<and> he_enabled e \<and> he_handler e = ch} \<and>
    (errs = [] \<longleftrightarrow> (\<forall>ch \<in> set hs. \<not> isl (component_cr env dsc ch))) \<and>
    (errs \<noteq> [] \<longrightarrow> last (rr_Conditions (dq_rr dq')) = cond ''ComponentsReady'' ConditionFalse ''ProvisioningFailed''
       (''Provisioning failed for: '' @ strings_Join (map ch_GetName (filter (\<lambda>ch. isl (component_cr env dsc ch)) hs)) '', ''))"
proof -
  obtain es st r' where each: "comp_ForEach comp_resolvedBatchesLocked (provision_component env dsc) (sys_comp s) (dq_Resources dq, []) = (es, st, r')"
    by (metis prod_cases3)
  from in_step_ForEach [OF assms(1) each] assms(4) have run: "es = []"
    "st = (dq_Resources dq @ List.map_filter (\<lambda>ch. case component_cr env dsc ch of Inr r \<Rightarrow> r | Inl _ \<Rightarrow> None) hs,
       map ch_GetName (filter (\<lambda>ch. isl (component_cr env dsc ch)) hs))"
    and ms: "mset (concat (comp_fresh (sys_comp s, sys_uni s))) = mset (comp_enabled (sys_comp s))"
    by (auto simp: provision_components_visit)
  have set: "set hs = {ch. \<exists>e. map_of (c_entries (sys_comp s)) (ch_GetName ch) = Some e \<and> he_enabled e \<and> he_handler e = ch}"
    using assms(4) mset_eq_setD [OF ms] switched_on [OF assms(1)] by simp
  have "filter (\<lambda>ch. isl (component_cr env dsc ch)) hs = [] \<longleftrightarrow> (\<forall>ch \<in> set hs. \<not> isl (component_cr env dsc ch))"
    by (simp add: filter_empty_conv)
  moreover have "(errs, dq') = (let dq = dq\<lparr>dq_Generated := True, dq_Resources := fst st\<rparr> in
      if snd st \<noteq> [] then
        ([new_error (''provisioning failed for components: '' @ strings_Join (snd st) '', '')],
         add_condition (cond ''ComponentsReady'' ConditionFalse ''ProvisioningFailed'' (''Provisioning failed for: '' @ strings_Join (snd st) '', '')) dq)
      else ([], dq))"
    using assms(2,3) each run(1) by (simp add: provisionComponentsWith_def case_prod_beta)
  then have "dq_Resources dq' = fst st" "errs = [] \<longleftrightarrow> snd st = []"
    "errs \<noteq> [] \<longrightarrow> last (rr_Conditions (dq_rr dq')) =
       cond ''ComponentsReady'' ConditionFalse ''ProvisioningFailed'' (''Provisioning failed for: '' @ strings_Join (snd st) '', '')"
    by (cases "snd st = []"; simp add: add_condition_def)+
  ultimately show ?thesis
    using set by (simp add: run(2))
qed

section \<open>Component status\<close>

text \<open>The outcome of one status update that keeps the components ready.\<close>

definition status_fine :: "('s, 'i, 'c, 'o, 'g) dsc_env \<Rightarrow> 's comp_handler \<Rightarrow> 's DataScienceCluster \<times> condition list \<Rightarrow> bool" where
  "status_fine env ch x =
     (case de_UpdateDSCStatus env ch x of
        ((cs, err), dsc, _) \<Rightarrow> err = None \<and> (if ch_IsEnabled ch dsc then cs = ConditionTrue else cs \<noteq> ConditionFalse))"

lemma component_status_fine:
  assumes "component_status env ch st = (err, st')"
  shows "cs_notReady st' = cs_notReady st @ (if status_fine env ch (cs_dsc st, cs_conditions st) then [] else [ch_GetName ch])"
  using assms
  by (auto simp: component_status_def status_fine_def Let_def split: prod.splits option.splits if_splits)

lemma component_status_visit:
  assumes "visit (component_status env) hs st = (errs, st')" "cs_notReady st = []"
  shows "(cs_notReady st' = [] \<longrightarrow> (\<forall>ch \<in> set hs. \<exists>x. status_fine env ch x)) \<and>
    (cs_notReady st' \<noteq> [] \<longrightarrow> (\<exists>ch \<in> set hs. \<exists>x. \<not> status_fine env ch x))"
proof -
  have grows: "\<exists>ns. cs_notReady (snd (visit (component_status env) hs st)) = cs_notReady st @ ns \<and>
      (ns = [] \<longrightarrow> (\<forall>ch \<in> set hs. \<exists>x. status_fine env ch x)) \<and> (ns \<noteq> [] \<longrightarrow> (\<exists>ch \<in> set hs. \<exists>x. \<not> status_fine env ch x))" for hs st
  proof (induction hs arbitrary: st)
    case (Cons ch hs)
    obtain err st1 where one: "component_status env ch st = (err, st1)" by fastforce
    from Cons [of st1] obtain ns where ns: "cs_notReady (snd (visit (component_status env) hs st1)) = cs_notReady st1 @ ns"
      "ns = [] \<longrightarrow> (\<forall>ch \<in> set hs. \<exists>x. status_fine env ch x)" "ns \<noteq> [] \<longrightarrow> (\<exists>ch \<in> set hs. \<exists>x. \<not> status_fine env ch x)" by blast
    have "cs_notReady (snd (visit (component_status env) (ch # hs) st)) =
        cs_notReady st @ (if status_fine env ch (cs_dsc st, cs_conditions st) then [] else [ch_GetName ch]) @ ns"
      using ns(1) component_status_fine [OF one] one by (simp add: Let_def case_prod_beta)
    with ns(2,3) show ?case
      by (cases "status_fine env ch (cs_dsc st, cs_conditions st)") auto
  qed simp
  from grows [of hs st] assms show ?thesis by auto
qed

text \<open>
  \<open>ComponentsReady\<close> is honest. After a status update it is the last condition written; it is true only if for each component that is not switched off by a flag an update without
  error was seen, with status true where the DataScienceCluster enables the component and not false where it does not, and if it is not true some component's update was not like that.
  Components switched off by a flag do not count.
\<close>

theorem components_ready_reflects_components:
  assumes "in_step s" "instance_of dq = Some dsc" "computeComponentsStatus (sys_comp s) env dq = (errs, dq')"
    and "enabled = {ch. \<exists>e. map_of (c_entries (sys_comp s)) (ch_GetName ch) = Some e \<and> he_enabled e \<and> he_handler e = ch}"
  shows "\<exists>c. last (rr_Conditions (dq_rr dq')) = c \<and> cType c = ''ComponentsReady'' \<and>
    (cStatus c = ConditionTrue \<longrightarrow> (\<forall>ch \<in> enabled. \<exists>x. status_fine env ch x)) \<and>
    (cStatus c \<noteq> ConditionTrue \<longrightarrow> (\<exists>ch \<in> enabled. \<exists>x. \<not> status_fine env ch x))"
proof -
  let ?st = "\<lparr>cs_dsc = dsc, cs_conditions = rr_Conditions (dq_rr dq), cs_notReady = [], cs_managed = 0\<rparr>"
  obtain es st r' where each: "comp_ForEach comp_resolvedBatchesLocked (component_status env) (sys_comp s) ?st = (es, st, r')"
    by (metis prod_cases3)
  from in_step_ForEach [OF assms(1) each] obtain hs where run: "visit (component_status env) (map he_handler hs) ?st = (es, st)"
    and ms: "mset hs = mset (comp_enabled (sys_comp s))" by metis
  have en: "set (map he_handler hs) = enabled"
    using mset_eq_setD [OF ms] switched_on [OF assms(1)] assms(4) by simp
  have "(cs_notReady st = [] \<longrightarrow> (\<forall>ch \<in> enabled. \<exists>x. status_fine env ch x)) \<and>
      (cs_notReady st \<noteq> [] \<longrightarrow> (\<exists>ch \<in> enabled. \<exists>x. \<not> status_fine env ch x))"
    using component_status_visit [OF run] unfolding en by simp
  moreover have "last (rr_Conditions (dq_rr dq')) = components_ready_condition st"
    using assms(2,3) each by (auto simp: computeComponentsStatus_def)
  moreover have "cType (components_ready_condition st) = ''ComponentsReady''" "cStatus (components_ready_condition st) = ConditionTrue \<longleftrightarrow> cs_notReady st = []"
    by (simp_all add: components_ready_condition_def)
  ultimately show ?thesis by simp
qed

section \<open>A cluster for the witnesses\<close>

definition demo_dsc :: "unit DataScienceCluster" where
  "demo_dsc = \<lparr>dsc_Spec = (), dsc_Components = []\<rparr>"

definition demo_dsc_component :: "string \<Rightarrow> bool \<Rightarrow> unit comp_handler" where
  "demo_dsc_component name enabled =
     \<lparr>ch_GetName = name, ch_GroupVersionKind = \<lparr>gvk_Group = ''components'', gvk_Version = ''v1'', gvk_Kind = name\<rparr>, ch_IsEnabled = (\<lambda>_. enabled)\<rparr>"

definition demo_dsc_module :: "string \<Rightarrow> string \<Rightarrow> string \<Rightarrow> (unit, unit) handler" where
  "demo_dsc_module name fld ms = (demo_populating fld)\<lparr>mh_GetName := name, mh_PopulatePlatformModule := (\<lambda>_ pm. AList.update fld ms pm)\<rparr>"

definition demo_dsc_system :: "(unit DataScienceCluster, PlatformModules, (unit, unit) DSCContext) system" where
  "demo_dsc_system =
     startup (\<lambda>_. False) [(''kueue'', RL 31)] [(''kueue'', demo_dsc_component ''kueue'' False), (''feast'', demo_dsc_component ''feast'' True)]
       [\<lparr>rg_Handler = demo_dsc_module ''kserve'' ''Kserve'' ''Managed'', rg_Runlevel = RL 20, rg_ConfigSource = ConfigFromDSC\<rparr>,
        \<lparr>rg_Handler = demo_dsc_module ''trainer'' ''Trainer'' ''Removed'', rg_Runlevel = RL 33, rg_ConfigSource = ConfigFromDSC\<rparr>,
        \<lparr>rg_Handler = demo_dsc_module ''monitoring'' ''Monitoring'' ''Managed'', rg_Runlevel = RL 10, rg_ConfigSource = ConfigFromDSCI\<rparr>]"

definition demo_dsc_env :: "(unit, unit, string, string, unit) dsc_env" where
  "demo_dsc_env =
     \<lparr>de_ApplicationsNamespace = ''odh'', de_DSCIs = Inr [], de_DSCs = Inr [demo_dsc], de_Ready = None,
      de_List = (\<lambda>g. Inr [\<lparr>oo_Name = ''default'', oo_OwnerUIDs = [''uid'']\<rparr>, \<lparr>oo_Name = ''foreign'', oo_OwnerUIDs = [''other'']\<rparr>]),
      de_Delete = (\<lambda>_ _. None), de_Apply = (\<lambda>_. None), de_NewCRObject = (\<lambda>ch. Inr (CRObject (ch_GetName ch))), de_AddResources = Inr,
      de_UpdateDSCStatus = (\<lambda>_ x. ((''True'', None), x)), de_GatewayConfig = Inr (), de_BuildModuleCR = (\<lambda>h _ _ _. Inr (Some (mh_GetName h)))\<rparr>"

definition demo_dsc_request :: "(unit, string) dsc_request" where
  "demo_dsc_request = \<lparr>dq_rr = (demo_rr [])\<lparr>rr_Instance := DSCInstance demo_dsc\<rparr>, dq_Generated = False, dq_Resources = [], dq_Release = (''Open Data Hub'', ''3.0.0''),
     dq_StatusRelease = ('''', '''')\<rparr>"

lemma demo_dsc_in_step: "in_step demo_dsc_system"
  unfolding demo_dsc_system_def by (rule in_step_startup) (simp add: demo_dsc_component_def)

lemma demo_dsc_instance: "instance_of demo_dsc_request = Some demo_dsc"
  by (simp add: instance_of_def demo_dsc_request_def)

theorem component_cleanup_exact_witness:
  "snd (cleanupDisabledComponentsWith (sys_comp demo_dsc_system) (ReverseBatchesAll (sys_uni demo_dsc_system)) demo_dsc_env demo_dsc_request) =
     [(\<lparr>gvk_Group = ''components'', gvk_Version = ''v1'', gvk_Kind = ''kueue''\<rparr>, ''default'')] \<and>
   (\<exists>n ch. comp_Lookup n (sys_comp demo_dsc_system) = Some ch \<and> \<not> ch_IsEnabled ch demo_dsc \<and> gvk_Kind (ch_GroupVersionKind ch) = ''kueue'')"
proof -
  let ?run = "cleanupDisabledComponentsWith (sys_comp demo_dsc_system) (ReverseBatchesAll (sys_uni demo_dsc_system)) demo_dsc_env demo_dsc_request"
  let ?kueue = "\<lparr>gvk_Group = ''components'', gvk_Version = ''v1'', gvk_Kind = ''kueue''\<rparr>"
  have run: "snd ?run = [(?kueue, ''default'')]"
    by code_simp
  then have "(?kueue, ''default'') \<in> set (snd ?run)"
    by simp
  then obtain n ch where "comp_Lookup n (sys_comp demo_dsc_system) = Some ch" "\<not> ch_IsEnabled ch demo_dsc" "?kueue = ch_GroupVersionKind ch"
    unfolding component_cleanup_exact [OF demo_dsc_in_step demo_dsc_instance prod.collapse [symmetric]] by blast
  then have "gvk_Kind (ch_GroupVersionKind ch) = ''kueue''"
    by (metis GVK.select_convs(3))
  with run show ?thesis
    using \<open>comp_Lookup n _ = Some ch\<close> \<open>\<not> ch_IsEnabled ch demo_dsc\<close> by blast
qed

theorem module_crs_follow_dsc_witness:
  "{n. \<exists>e. map_of (m_entries (sys_mod demo_dsc_system)) n = Some e \<and> re_configSource e = ConfigFromDSC \<and>
       n \<notin> set (EnabledModules (BuildPlatformModulesForSource (sys_mod demo_dsc_system) (buildDSCContext demo_dsc) ConfigFromDSC))} = {''trainer''} \<and>
   dq_Resources (snd (provisionModuleCRsWith (sys_mod demo_dsc_system) demo_dsc_env demo_dsc_request)) = [''kserve'']"
proof -
  have env: "ApplicationNamespace (de_ApplicationsNamespace demo_dsc_env) (de_DSCIs demo_dsc_env) = Inr ''odh''" "de_GatewayConfig demo_dsc_env = Inr ()"
    by (simp_all add: ApplicationNamespace_def demo_dsc_env_def)
  have "snd (snd (cleanupDisabledModuleCRsWith (sys_mod demo_dsc_system) (sys_mod demo_dsc_system) (ReverseBatchesAll (sys_uni demo_dsc_system)) demo_dsc_request)) = [''trainer'']"
    "dq_Resources (snd (provisionModuleCRsWith (sys_mod demo_dsc_system) demo_dsc_env demo_dsc_request)) = [''kserve'']"
    by code_simp+
  then show ?thesis
    using module_crs_follow_dsc [OF demo_dsc_in_step disjI1 [OF refl] demo_dsc_instance env refl] by simp
qed

theorem components_provisioned_witness:
  "\<exists>hs. map ch_GetName hs = [''kueue'', ''feast''] \<and>
     dq_Resources (snd (provisionComponentsWith (sys_comp demo_dsc_system) demo_dsc_env demo_dsc_request)) =
       List.map_filter (\<lambda>ch. case component_cr demo_dsc_env demo_dsc ch of Inr r \<Rightarrow> r | Inl _ \<Rightarrow> None) hs \<and>
     dq_Resources (snd (provisionComponentsWith (sys_comp demo_dsc_system) demo_dsc_env demo_dsc_request)) = [''feast'']"
proof -
  let ?hs = "map he_handler (concat (comp_fresh (sys_comp demo_dsc_system, sys_uni demo_dsc_system)))"
  have "map ch_GetName ?hs = [''kueue'', ''feast'']"
    "dq_Resources (snd (provisionComponentsWith (sys_comp demo_dsc_system) demo_dsc_env demo_dsc_request)) = [''feast'']"
    "dq_Resources demo_dsc_request = []"
    by code_simp+
  then show ?thesis
    using components_provisioned [OF demo_dsc_in_step demo_dsc_instance prod.collapse [symmetric] refl, of demo_dsc_env]
    by (intro exI [of _ ?hs]) simp
qed

theorem components_ready_reflects_components_witness:
  "\<exists>c ch. last (rr_Conditions (dq_rr (snd (computeComponentsStatus (sys_comp demo_dsc_system) demo_dsc_env demo_dsc_request)))) = c \<and>
     cStatus c = ConditionTrue \<and> ch_GetName ch = ''feast'' \<and> (\<exists>x. status_fine demo_dsc_env ch x)"
proof -
  let ?run = "computeComponentsStatus (sys_comp demo_dsc_system) demo_dsc_env demo_dsc_request"
  have true: "cStatus (last (rr_Conditions (dq_rr (snd ?run)))) = ConditionTrue"
    by code_simp
  have "case map_of (c_entries (sys_comp demo_dsc_system)) ''feast'' of
      Some e \<Rightarrow> he_enabled e \<and> ch_GetName (he_handler e) = ''feast'' | None \<Rightarrow> False"
    by code_simp
  then obtain e where e: "map_of (c_entries (sys_comp demo_dsc_system)) ''feast'' = Some e" "he_enabled e" "ch_GetName (he_handler e) = ''feast''"
    by (auto split: option.splits)
  from components_ready_reflects_components [OF demo_dsc_in_step demo_dsc_instance prod.collapse [symmetric] refl, of demo_dsc_env] true
  have "\<exists>x. status_fine demo_dsc_env ch x"
    if "\<exists>e. map_of (c_entries (sys_comp demo_dsc_system)) (ch_GetName ch) = Some e \<and> he_enabled e \<and> he_handler e = ch" for ch
    using that by blast
  with e true show ?thesis
    by metis
qed

end
