(* ===== verification/Kube_Client.thy ===== *)
theory Kube_Client
  imports Module_Base Precondition
begin

text \<open>
  Code that reads, deletes and patches objects one after the other while the cluster changes underneath.
  The cluster is a world \<open>'w\<close> and the API client a parameter: each call sees the world, answers, and leaves another one, so
  that two reads of the same object may differ and anything may happen between two calls. Every call is also written to
  a trace, which theorems about the order of reads and deletes speak of.
\<close>

section \<open>Objects\<close>

record owner_ref =
  ow_UID :: string
  ow_APIVersion :: string
  ow_Kind :: string

record k8s_object =
  ko_GVK :: GVK
  ko_Namespace :: string
  ko_Name :: string
  ko_Annotations :: "(string, string) gomap"
  ko_Labels :: "(string, string) gomap"
  ko_Owners :: "owner_ref list"
  ko_Deleting :: bool

text \<open>\<open>resources.GetAnnotation\<close>, \<open>GroupVersion.String\<close>.\<close>

definition annotation_of :: "k8s_object \<Rightarrow> string \<Rightarrow> string" where
  "annotation_of u key = at_or (ko_Annotations u) '''' key"

definition GroupVersion_String :: "GVK \<Rightarrow> string" where
  "GroupVersion_String g = (if gvk_Group g = '''' then gvk_Version g else gvk_Group g @ ''/'' @ gvk_Version g)"

definition owned_by_uid :: "string \<Rightarrow> k8s_object \<Rightarrow> bool" where
  "owned_by_uid uid u \<longleftrightarrow> list_ex (\<lambda>ref. ow_UID ref = uid) (ko_Owners u)"

definition NormalizePartOfValue :: "string \<Rightarrow> string" where
  "NormalizePartOfValue value = ToLower (TrimSpace value)"

section \<open>The client\<close>

record 'w kube_client =
  kc_Get :: "GVK \<Rightarrow> string \<Rightarrow> string \<Rightarrow> 'w \<Rightarrow> (api_failure + k8s_object) \<times> 'w"
  kc_Delete :: "k8s_object \<Rightarrow> string \<Rightarrow> 'w \<Rightarrow> api_failure option \<times> 'w"
  kc_Patch :: "k8s_object \<Rightarrow> string \<Rightarrow> 'w \<Rightarrow> api_failure option \<times> 'w"

datatype kube_event =
    Fetched GVK string string "api_failure + k8s_object"
  | Deletion k8s_object string "api_failure option"
  | Patch k8s_object string "api_failure option"

record 'w kube =
  ku_World :: 'w
  ku_Trace :: "kube_event list"

definition kube_Get :: "'w kube_client \<Rightarrow> GVK \<Rightarrow> string \<Rightarrow> string \<Rightarrow> 'w kube \<Rightarrow> (api_failure + k8s_object) \<times> 'w kube" where
  "kube_Get cli g ns n k =
     (case kc_Get cli g ns n (ku_World k) of
        (ans, w) \<Rightarrow> (ans, \<lparr>ku_World = w, ku_Trace = ku_Trace k @ [Fetched g ns n ans]\<rparr>))"

definition kube_Delete :: "'w kube_client \<Rightarrow> k8s_object \<Rightarrow> string \<Rightarrow> 'w kube \<Rightarrow> api_failure option \<times> 'w kube" where
  "kube_Delete cli u propagation k =
     (case kc_Delete cli u propagation (ku_World k) of
        (ans, w) \<Rightarrow> (ans, \<lparr>ku_World = w, ku_Trace = ku_Trace k @ [Deletion u propagation ans]\<rparr>))"

definition kube_Patch :: "'w kube_client \<Rightarrow> k8s_object \<Rightarrow> string \<Rightarrow> 'w kube \<Rightarrow> api_failure option \<times> 'w kube" where
  "kube_Patch cli u patch k =
     (case kc_Patch cli u patch (ku_World k) of
        (ans, w) \<Rightarrow> (ans, \<lparr>ku_World = w, ku_Trace = ku_Trace k @ [Patch u patch ans]\<rparr>))"

abbreviation Foreground :: string where "Foreground \<equiv> ''Foreground''"

text \<open>
  What the API promises of a read: the object it returns is of the kind asked for.
\<close>

definition get_keeps_kind :: "'w kube_client \<Rightarrow> bool" where
  "get_keeps_kind cli \<longleftrightarrow>
     (\<forall>g ns n w u. fst (kc_Get cli g ns n w) = Inr u \<longrightarrow> gvk_Kind (ko_GVK u) = gvk_Kind g)"

section \<open>Traces\<close>

text \<open>An extended trace: the calls since \<open>k\<close>.\<close>

definition calls_since :: "'w kube \<Rightarrow> 'w kube \<Rightarrow> kube_event list \<Rightarrow> bool" where
  "calls_since k k' evs \<longleftrightarrow> ku_Trace k' = ku_Trace k @ evs"

lemma calls_since_refl [intro]: "calls_since k k []"
  by (simp add: calls_since_def)

lemma calls_since_trans: "calls_since k k' es \<Longrightarrow> calls_since k' k'' es' \<Longrightarrow> calls_since k k'' (es @ es')"
  by (simp add: calls_since_def)

lemma calls_since_unique: "calls_since k k' es \<Longrightarrow> calls_since k k' es' \<Longrightarrow> es = es'"
  by (simp add: calls_since_def)

lemma kube_Get_calls: "kube_Get cli g ns n k = (ans, k') \<Longrightarrow> calls_since k k' [Fetched g ns n ans]"
  by (auto simp: kube_Get_def calls_since_def split: prod.splits)

lemma kube_Get_answer: "kube_Get cli g ns n k = (ans, k') \<Longrightarrow> ans = fst (kc_Get cli g ns n (ku_World k))"
  by (auto simp: kube_Get_def split: prod.splits)

lemma kube_Get_kind:
  "get_keeps_kind cli \<Longrightarrow> kube_Get cli g ns n k = (Inr u, k') \<Longrightarrow> gvk_Kind (ko_GVK u) = gvk_Kind g"
  by (metis get_keeps_kind_def kube_Get_answer)

lemma kube_Delete_calls: "kube_Delete cli u p k = (ans, k') \<Longrightarrow> calls_since k k' [Deletion u p ans]"
  by (auto simp: kube_Delete_def calls_since_def split: prod.splits)

lemma kube_Delete_answer: "kube_Delete cli u p k = (ans, k') \<Longrightarrow> ans = fst (kc_Delete cli u p (ku_World k))"
  by (auto simp: kube_Delete_def split: prod.splits)

text \<open>An answer that says the object is gone, or belongs to somebody else.\<close>

definition gone_or_foreign :: "string \<Rightarrow> api_failure + k8s_object \<Rightarrow> bool" where
  "gone_or_foreign uid ans = (case ans of Inl err \<Rightarrow> absent err | Inr live \<Rightarrow> \<not> owned_by_uid uid live)"

text \<open>A plain store of objects, as an instance of the client for examples: nothing else changes it.\<close>

definition object_store :: "k8s_object list kube_client" where
  "object_store =
     \<lparr>kc_Get = (\<lambda>g ns n w.
        (case find (\<lambda>u. ko_GVK u = g \<and> ko_Namespace u = ns \<and> ko_Name u = n) w of
           Some u \<Rightarrow> Inr u | None \<Rightarrow> Inl (ApiFailure ''not found'' ApiNotFound), w)),
      kc_Delete = (\<lambda>u p w. (None, filter (\<lambda>v. \<not> (ko_GVK v = ko_GVK u \<and> ko_Namespace v = ko_Namespace u \<and> ko_Name v = ko_Name u)) w)),
      kc_Patch = (\<lambda>u p w. (None, w))\<rparr>"

end
