(* ===== verification/Cloud_Charts.thy ===== *)
theory Cloud_Charts
  imports Kube_Client
begin

text \<open>
  The charts of the cloud manager (\<open>internal/controller/cloudmanager/common\<close>, types of
  \<open>api/cloudmanager/common\<close>). A dependency that is not managed is taken away in two phases: while its operator's custom
  resource still belongs to this engine the chart stays, without that resource (cleaning); once the resource is gone or somebody
  else's, the chart is excluded and its objects are deleted.

  The hooks of a chart are values of a datatype, run by \<open>Cloud_Manager\<close>. The error of \<open>meta.Accessor\<close> on the owner is left
  out: the owner is an object of the API and has metadata.
\<close>

section \<open>Dependencies\<close>

abbreviation (input) Managed :: string where "Managed \<equiv> ''Managed''"
abbreviation (input) Unmanaged :: string where "Unmanaged \<equiv> ''Unmanaged''"

record CertManagerDependency =
  cmd_ManagementPolicy :: string

record LWSDependency =
  lws_ManagementPolicy :: string
  lws_Namespace :: string

record SailOperatorDependency =
  sail_ManagementPolicy :: string
  sail_Namespace :: string

record GatewayAPIDependency =
  gwa_ManagementPolicy :: string

record RHCLDependency =
  rhcl_ManagementPolicy :: string
  rhcl_OperatorNamespace :: string
  rhcl_OperandNamespace :: string

record Dependencies =
  CertManager :: CertManagerDependency
  LWS :: LWSDependency
  SailOperator :: SailOperatorDependency
  GatewayAPI :: GatewayAPIDependency
  RHCL :: RHCLDependency

definition LWS_GetNamespace :: "LWSDependency \<Rightarrow> string" where
  "LWS_GetNamespace d = (if lws_Namespace d \<noteq> '''' then lws_Namespace d else ''openshift-lws-operator'')"

definition Sail_GetNamespace :: "SailOperatorDependency \<Rightarrow> string" where
  "Sail_GetNamespace d = (if sail_Namespace d \<noteq> '''' then sail_Namespace d else ''istio-system'')"

definition GetOperatorNamespace :: "RHCLDependency \<Rightarrow> string" where
  "GetOperatorNamespace d = (if rhcl_OperatorNamespace d \<noteq> '''' then rhcl_OperatorNamespace d else ''kuadrant-operators'')"

definition GetOperandNamespace :: "RHCLDependency \<Rightarrow> string" where
  "GetOperandNamespace d = (if rhcl_OperandNamespace d \<noteq> '''' then rhcl_OperandNamespace d else ''kuadrant-system'')"

section \<open>Operator CRs and owners\<close>

record OperatorCR =
  ocr_GVK :: GVK
  ocr_Name :: string
  ocr_Namespace :: string

definition LWSOperatorCR :: OperatorCR where
  "LWSOperatorCR =
     \<lparr>ocr_GVK = \<lparr>gvk_Group = ''operator.openshift.io'', gvk_Version = ''v1'', gvk_Kind = ''LeaderWorkerSetOperator''\<rparr>,
      ocr_Name = ''cluster'', ocr_Namespace = ''''\<rparr>"

definition SailOperatorCR :: OperatorCR where
  "SailOperatorCR =
     \<lparr>ocr_GVK = \<lparr>gvk_Group = ''sailoperator.io'', gvk_Version = ''v1'', gvk_Kind = ''Istio''\<rparr>,
      ocr_Name = ''default'', ocr_Namespace = ''''\<rparr>"

definition NewRHCLOperatorCR :: "string \<Rightarrow> OperatorCR" where
  "NewRHCLOperatorCR operandNamespace =
     \<lparr>ocr_GVK = \<lparr>gvk_Group = ''kuadrant.io'', gvk_Version = ''v1beta1'', gvk_Kind = ''Kuadrant''\<rparr>,
      ocr_Name = ''kuadrant'', ocr_Namespace = operandNamespace\<rparr>"

text \<open>The engine instance; \<open>en_Dependencies\<close> is \<open>None\<close> when it is no \<open>KubernetesEngineInstance\<close>.\<close>

record engine =
  en_GVK :: GVK
  en_UID :: string
  en_Generation :: int
  en_Dependencies :: "Dependencies option"

definition engine_ref :: "engine \<Rightarrow> owner_ref \<Rightarrow> bool" where
  "engine_ref owner ref \<longleftrightarrow>
     ow_UID ref = en_UID owner \<and> en_UID owner \<noteq> '''' \<and>
     ow_APIVersion ref = GroupVersion_String (en_GVK owner) \<and> ow_Kind ref = gvk_Kind (en_GVK owner)"

definition operatorCROwnedBy :: "'w kube_client \<Rightarrow> OperatorCR \<Rightarrow> engine \<Rightarrow> 'w kube \<Rightarrow> (go_error + bool) \<times> 'w kube" where
  "operatorCROwnedBy cli cr owner k =
     (case kube_Get cli (ocr_GVK cr) (ocr_Namespace cr) (ocr_Name cr) k of
        (Inl err, k) \<Rightarrow> (if absent err then Inr False else Inl (api_error err), k)
      | (Inr live, k) \<Rightarrow> (Inr (list_ex (engine_ref owner) (ko_Owners live)), k))"

section \<open>Chart definitions\<close>

datatype chartState = chartManaged | chartCleaning | chartExcluded

datatype hook = SkipCRDIfPresent string | AnnotateIstioWebhooksHook

record cloud_chart =
  ch_Source :: HelmChartInfo
  ch_PreApply :: "hook option list"
  ch_PostApply :: "hook option list"

record monitorConfig =
  mc_ConditionType :: string
  mc_HasDeployments :: bool
  mc_Namespace :: string
  mc_RequireCR :: bool

record chartDef =
  cd_policy :: "Dependencies \<Rightarrow> string"
  cd_stateCR :: "OperatorCR option"
  cd_chart :: cloud_chart
  cd_monitor :: monitorConfig
  cd_operatorCR :: "OperatorCR option"

text \<open>\<open>makeStateFn\<close> on the policy and the CR that a definition closes over.\<close>

definition stateFn :: "'w kube_client \<Rightarrow> Dependencies \<Rightarrow> engine \<Rightarrow> chartDef \<Rightarrow> 'w kube \<Rightarrow> (go_error + chartState) \<times> 'w kube" where
  "stateFn cli d owner def k =
     (if cd_policy def d \<noteq> Unmanaged then (Inr chartManaged, k)
      else
        case cd_stateCR def of
          None \<Rightarrow> (Inr chartExcluded, k)
        | Some cr \<Rightarrow>
            (case operatorCROwnedBy cli cr owner k of
               (Inl err, k) \<Rightarrow> (Inl err, k)
             | (Inr owned, k) \<Rightarrow> (Inr (if owned then chartCleaning else chartExcluded), k)))"

definition ServiceMonitorCRDName :: string where
  "ServiceMonitorCRDName = ''servicemonitors.monitoring.coreos.com''"

definition chart_source :: "string \<Rightarrow> string \<Rightarrow> (string, helm_value) gomap \<Rightarrow> HelmChartInfo" where
  "chart_source chartsPath name values =
     \<lparr>hc_Chart = filepath_Join chartsPath name, hc_ReleaseName = name, hc_ReleaseNamespace = '''', hc_Values = values\<rparr>"

definition allChartDefs :: "Dependencies \<Rightarrow> string \<Rightarrow> chartDef list" where
  "allChartDefs deps chartsPath =
     (let rhclOperatorCR = NewRHCLOperatorCR (GetOperandNamespace (RHCL deps)) in
      [\<lparr>cd_policy = (\<lambda>d. gwa_ManagementPolicy (GatewayAPI d)), cd_stateCR = None,
         cd_chart = \<lparr>ch_Source = chart_source chartsPath ''gateway-api'' [], ch_PreApply = [], ch_PostApply = []\<rparr>,
         cd_monitor = \<lparr>mc_ConditionType = ''GatewayAPIReady'', mc_HasDeployments = False, mc_Namespace = '''', mc_RequireCR = False\<rparr>,
         cd_operatorCR = None\<rparr>,
       \<lparr>cd_policy = (\<lambda>d. lws_ManagementPolicy (LWS d)), cd_stateCR = Some LWSOperatorCR,
         cd_chart = \<lparr>ch_Source = chart_source chartsPath ''lws-operator'' [(''namespace'', HString (LWS_GetNamespace (LWS deps)))],
           ch_PreApply = [Some (SkipCRDIfPresent ServiceMonitorCRDName)], ch_PostApply = []\<rparr>,
         cd_monitor = \<lparr>mc_ConditionType = ''LWSReady'', mc_HasDeployments = True, mc_Namespace = LWS_GetNamespace (LWS deps),
           mc_RequireCR = False\<rparr>,
         cd_operatorCR = Some LWSOperatorCR\<rparr>,
       \<lparr>cd_policy = (\<lambda>d. sail_ManagementPolicy (SailOperator d)), cd_stateCR = Some SailOperatorCR,
         cd_chart = \<lparr>ch_Source = chart_source chartsPath ''sail-operator''
             [(''namespace'', HString (Sail_GetNamespace (SailOperator deps)))],
           ch_PreApply = [], ch_PostApply = [Some AnnotateIstioWebhooksHook]\<rparr>,
         cd_monitor = \<lparr>mc_ConditionType = ''SailOperatorReady'', mc_HasDeployments = True,
           mc_Namespace = Sail_GetNamespace (SailOperator deps), mc_RequireCR = False\<rparr>,
         cd_operatorCR = Some SailOperatorCR\<rparr>,
       \<lparr>cd_policy = (\<lambda>d. if rhcl_ManagementPolicy (RHCL d) = Managed then Managed else Unmanaged),
         cd_stateCR = Some rhclOperatorCR,
         cd_chart = \<lparr>ch_Source = chart_source chartsPath ''rhcl-operator''
             [(''operatorNamespace'', HString (GetOperatorNamespace (RHCL deps))),
              (''operandNamespace'', HString (GetOperandNamespace (RHCL deps)))],
           ch_PreApply = [], ch_PostApply = []\<rparr>,
         cd_monitor = \<lparr>mc_ConditionType = ''RHCLReady'', mc_HasDeployments = True,
           mc_Namespace = GetOperatorNamespace (RHCL deps), mc_RequireCR = True\<rparr>,
         cd_operatorCR = Some rhclOperatorCR\<rparr>])"

record DependencyMonitorConfig =
  dm_ReleaseName :: string
  dm_ConditionType :: string
  dm_HasDeployments :: bool
  dm_Policy :: string
  dm_Namespace :: string
  dm_OperatorCR :: "OperatorCR option"
  dm_RequireCR :: bool

record BuildResult =
  br_Charts :: "cloud_chart list"
  br_FilterCRs :: "OperatorCR list"
  br_CleanupCharts :: "cloud_chart list"
  br_MonitorConfigs :: "DependencyMonitorConfig list"

definition empty_result :: BuildResult where
  "empty_result = \<lparr>br_Charts = [], br_FilterCRs = [], br_CleanupCharts = [], br_MonitorConfigs = []\<rparr>"

definition add_chart :: "chartDef \<Rightarrow> chartState \<Rightarrow> BuildResult \<Rightarrow> BuildResult" where
  "add_chart def state r =
     (let crs = (case cd_operatorCR def of None \<Rightarrow> [] | Some cr \<Rightarrow> [cr]);
          policy = (if state = chartManaged then Managed else Unmanaged);
          r = (case state of
                 chartManaged \<Rightarrow> r\<lparr>br_Charts := br_Charts r @ [cd_chart def]\<rparr>
               | chartCleaning \<Rightarrow> r\<lparr>br_Charts := br_Charts r @ [cd_chart def], br_FilterCRs := br_FilterCRs r @ crs\<rparr>
               | chartExcluded \<Rightarrow>
                   if cd_operatorCR def \<noteq> None then r\<lparr>br_CleanupCharts := br_CleanupCharts r @ [cd_chart def]\<rparr> else r)
      in r\<lparr>br_MonitorConfigs := br_MonitorConfigs r @
             [\<lparr>dm_ReleaseName = hc_ReleaseName (ch_Source (cd_chart def)), dm_ConditionType = mc_ConditionType (cd_monitor def),
               dm_HasDeployments = mc_HasDeployments (cd_monitor def), dm_Policy = policy,
               dm_Namespace = mc_Namespace (cd_monitor def), dm_OperatorCR = cd_operatorCR def,
               dm_RequireCR = mc_RequireCR (cd_monitor def)\<rparr>]\<rparr>)"

fun build_loop ::
  "'w kube_client \<Rightarrow> Dependencies \<Rightarrow> engine \<Rightarrow> chartDef list \<Rightarrow> BuildResult \<Rightarrow> 'w kube \<Rightarrow> (go_error + BuildResult) \<times> 'w kube" where
  "build_loop cli deps owner [] r k = (Inr r, k)"
| "build_loop cli deps owner (def # defs) r k =
     (case stateFn cli deps owner def k of
        (Inl err, k) \<Rightarrow> (Inl err, k)
      | (Inr state, k) \<Rightarrow> build_loop cli deps owner defs (add_chart def state r) k)"

definition BuildHelmCharts ::
  "'w kube_client \<Rightarrow> Dependencies \<Rightarrow> string \<Rightarrow> engine \<Rightarrow> 'w kube \<Rightarrow> (go_error + BuildResult) \<times> 'w kube" where
  "BuildHelmCharts cli deps chartsPath owner k =
     build_loop cli deps owner (allChartDefs deps chartsPath) empty_result k"

section \<open>Charts follow the policy and what was seen of the operator's CR\<close>

text \<open>The answer to the read of an operator CR shows that the CR is gone or does not belong to this engine.\<close>

definition released :: "engine \<Rightarrow> api_failure + k8s_object \<Rightarrow> bool" where
  "released owner ans = (case ans of Inl err \<Rightarrow> absent err | Inr live \<Rightarrow> \<not> list_ex (engine_ref owner) (ko_Owners live))"

text \<open>
  Why a dependency is in a state, given the calls made: managed exactly if its policy is not \<open>Unmanaged\<close>; cleaning only if its CR was
  read and belongs to this engine; excluded only if it has no CR or the CR was read as released.
\<close>

definition state_justified :: "Dependencies \<Rightarrow> engine \<Rightarrow> kube_event list \<Rightarrow> chartDef \<Rightarrow> chartState \<Rightarrow> bool" where
  "state_justified deps owner evs def state =
     (case state of
        chartManaged \<Rightarrow> cd_policy def deps \<noteq> Unmanaged
      | chartCleaning \<Rightarrow> cd_policy def deps = Unmanaged \<and>
          (\<exists>cr live. cd_stateCR def = Some cr \<and> list_ex (engine_ref owner) (ko_Owners live) \<and>
             Fetched (ocr_GVK cr) (ocr_Namespace cr) (ocr_Name cr) (Inr live) \<in> set evs)
      | chartExcluded \<Rightarrow> cd_policy def deps = Unmanaged \<and>
          (case cd_stateCR def of None \<Rightarrow> True
           | Some cr \<Rightarrow> \<exists>ans. released owner ans \<and> Fetched (ocr_GVK cr) (ocr_Namespace cr) (ocr_Name cr) ans \<in> set evs))"

lemma state_justified_mono:
  "state_justified deps owner evs def state \<Longrightarrow> set evs \<subseteq> set evs' \<Longrightarrow> state_justified deps owner evs' def state"
  by (cases state; cases "cd_stateCR def"; simp add: state_justified_def; blast)

lemma stateFn_justified:
  assumes "stateFn cli deps owner def k = (Inr state, k')"
  obtains evs where "calls_since k k' evs" and "state_justified deps owner evs def state"
proof (cases "cd_policy def deps \<noteq> Unmanaged \<or> cd_stateCR def = None")
  case True
  with assms have "calls_since k k' []" "state_justified deps owner [] def state"
    by (auto simp: stateFn_def state_justified_def split: if_splits)
  then show ?thesis by (rule that)
next
  case False
  then obtain cr where cr: "cd_stateCR def = Some cr" and pol: "cd_policy def deps = Unmanaged"
    by auto
  obtain ans k'' where get: "kube_Get cli (ocr_GVK cr) (ocr_Namespace cr) (ocr_Name cr) k = (ans, k'')"
    by (cases "kube_Get cli (ocr_GVK cr) (ocr_Namespace cr) (ocr_Name cr) k")
  have "k' = k''" and "state_justified deps owner [Fetched (ocr_GVK cr) (ocr_Namespace cr) (ocr_Name cr) ans] def state"
    using assms cr pol get
    by (auto simp: stateFn_def operatorCROwnedBy_def state_justified_def released_def split: sum.splits if_splits)
  with kube_Get_calls [OF get] show ?thesis
    using that by blast
qed

lemma build_loop_states:
  assumes "build_loop cli deps owner defs r k = (Inr r', k')"
  shows "\<exists>states evs. calls_since k k' evs \<and> list_all2 (state_justified deps owner evs) defs states \<and>
    r' = foldl (\<lambda>r (def, s). add_chart def s r) r (zip defs states)"
  using assms
proof (induction defs arbitrary: r k)
  case Nil
  then show ?case by (auto intro!: exI [of _ "[]"])
next
  case (Cons def defs)
  from Cons.prems obtain state k1 where st: "stateFn cli deps owner def k = (Inr state, k1)"
    and rest: "build_loop cli deps owner defs (add_chart def state r) k1 = (Inr r', k')"
    by (auto split: prod.splits sum.splits)
  from stateFn_justified [OF st] obtain es where es: "calls_since k k1 es" "state_justified deps owner es def state" .
  from Cons.IH [OF rest] obtain states es' where es': "calls_since k1 k' es'"
    "list_all2 (state_justified deps owner es') defs states"
    "r' = foldl (\<lambda>r (def, s). add_chart def s r) (add_chart def state r) (zip defs states)"
    by blast
  have "list_all2 (state_justified deps owner (es @ es')) (def # defs) (state # states)"
    using state_justified_mono [OF es(2)] list.rel_mono_strong [OF es'(2)] state_justified_mono by fastforce
  moreover have "calls_since k k' (es @ es')"
    using es(1) es'(1) by (rule calls_since_trans)
  ultimately show ?case
    using es'(3) by (intro exI [of _ "state # states"] exI [of _ "es @ es'"]) simp
qed

lemma foldl_add_chart:
  "br_Charts (foldl (\<lambda>r (def, s). add_chart def s r) r zs) =
     br_Charts r @ [cd_chart def. (def, s) \<leftarrow> zs, s \<noteq> chartExcluded]"
  "br_CleanupCharts (foldl (\<lambda>r (def, s). add_chart def s r) r zs) =
     br_CleanupCharts r @ [cd_chart def. (def, s) \<leftarrow> zs, s = chartExcluded \<and> cd_operatorCR def \<noteq> None]"
  "br_FilterCRs (foldl (\<lambda>r (def, s). add_chart def s r) r zs) =
     br_FilterCRs r @ [cr. (def, s) \<leftarrow> zs, s = chartCleaning, cr \<leftarrow> (case cd_operatorCR def of None \<Rightarrow> [] | Some cr \<Rightarrow> [cr])]"
  "map (\<lambda>c. (dm_ConditionType c, dm_Policy c)) (br_MonitorConfigs (foldl (\<lambda>r (def, s). add_chart def s r) r zs)) =
     map (\<lambda>c. (dm_ConditionType c, dm_Policy c)) (br_MonitorConfigs r) @
     [(mc_ConditionType (cd_monitor def), if s = chartManaged then Managed else Unmanaged). (def, s) \<leftarrow> zs]"
  by (induction zs arbitrary: r) (auto simp: add_chart_def Let_def split: chartState.splits option.splits)

text \<open>
  Charts follow the policy. When the charts of an engine are built, every dependency gets one state, which its policy and the
  read of its operator's CR justify: managed unless the policy is \<open>Unmanaged\<close>, cleaning only while the CR belongs to this engine, excluded
  only when it was read as gone or foreign. The charts to deploy are those not excluded, the CRs held back those of dependencies that are
  cleaning, the charts to delete those of excluded dependencies with a CR; every dependency is monitored, as managed exactly in the first
  state.
\<close>

theorem charts_follow_policy:
  assumes "BuildHelmCharts cli deps chartsPath owner k = (Inr r, k')"
  shows "\<exists>states evs. ku_Trace k' = ku_Trace k @ evs \<and>
    list_all2 (state_justified deps owner evs) (allChartDefs deps chartsPath) states \<and>
    (let zs = zip (allChartDefs deps chartsPath) states in
       br_Charts r = [cd_chart def. (def, s) \<leftarrow> zs, s \<noteq> chartExcluded] \<and>
       br_CleanupCharts r = [cd_chart def. (def, s) \<leftarrow> zs, s = chartExcluded \<and> cd_operatorCR def \<noteq> None] \<and>
       br_FilterCRs r = [cr. (def, s) \<leftarrow> zs, s = chartCleaning, cr \<leftarrow> (case cd_operatorCR def of None \<Rightarrow> [] | Some cr \<Rightarrow> [cr])] \<and>
       map (\<lambda>c. (dm_ConditionType c, dm_Policy c)) (br_MonitorConfigs r) =
         [(mc_ConditionType (cd_monitor def), if s = chartManaged then Managed else Unmanaged). (def, s) \<leftarrow> zs])"
proof -
  from build_loop_states [OF assms [unfolded BuildHelmCharts_def]] obtain states evs where
    "calls_since k k' evs" "list_all2 (state_justified deps owner evs) (allChartDefs deps chartsPath) states"
    and r: "r = foldl (\<lambda>r (def, s). add_chart def s r) empty_result (zip (allChartDefs deps chartsPath) states)"
    by blast
  then show ?thesis
    by (intro exI [of _ states] exI [of _ evs])
      (simp only: r foldl_add_chart Let_def empty_result_def calls_since_def BuildResult.simps append_Nil list.map HOL.simp_thms)
qed

section \<open>An engine\<close>

definition demo_deps :: Dependencies where
  "demo_deps =
     \<lparr>CertManager = \<lparr>cmd_ManagementPolicy = ''''\<rparr>,
      LWS = \<lparr>lws_ManagementPolicy = ''Managed'', lws_Namespace = ''lws''\<rparr>,
      SailOperator = \<lparr>sail_ManagementPolicy = ''Unmanaged'', sail_Namespace = ''''\<rparr>,
      GatewayAPI = \<lparr>gwa_ManagementPolicy = ''Managed''\<rparr>,
      RHCL = \<lparr>rhcl_ManagementPolicy = '''', rhcl_OperatorNamespace = '''', rhcl_OperandNamespace = ''''\<rparr>\<rparr>"

definition demo_engine :: engine where
  "demo_engine =
     \<lparr>en_GVK = \<lparr>gvk_Group = ''infrastructure.opendatahub.io'', gvk_Version = ''v1alpha1'', gvk_Kind = ''AWSKubernetesEngine''\<rparr>,
      en_UID = ''u1'', en_Generation = 2, en_Dependencies = Some demo_deps\<rparr>"

definition demo_object :: "string \<Rightarrow> string \<Rightarrow> string \<Rightarrow> string \<Rightarrow> string \<Rightarrow> k8s_object" where
  "demo_object grp ver kind ns name =
     \<lparr>ko_GVK = \<lparr>gvk_Group = grp, gvk_Version = ver, gvk_Kind = kind\<rparr>, ko_Namespace = ns, ko_Name = name,
      ko_Annotations = [], ko_Labels = [],
      ko_Owners = [\<lparr>ow_UID = ''u1'', ow_APIVersion = ''infrastructure.opendatahub.io/v1alpha1'', ow_Kind = ''AWSKubernetesEngine''\<rparr>],
      ko_Deleting = False\<rparr>"

definition demo_build :: "(go_error + BuildResult) \<times> k8s_object list kube" where
  "demo_build = BuildHelmCharts object_store demo_deps ''/charts'' demo_engine
     \<lparr>ku_World = [demo_object ''sailoperator.io'' ''v1'' ''Istio'' '''' ''default''], ku_Trace = []\<rparr>"

lemma demo_build_ok: "\<exists>r k. demo_build = (Inr r, k) \<and>
  map (hc_ReleaseName \<circ> ch_Source) (br_Charts r) = [''gateway-api'', ''lws-operator'', ''sail-operator''] \<and>
  map (hc_ReleaseName \<circ> ch_Source) (br_CleanupCharts r) = [''rhcl-operator''] \<and> br_FilterCRs r = [SailOperatorCR]"
  by (simp add: demo_build_def BuildHelmCharts_def allChartDefs_def demo_deps_def stateFn_def add_chart_def empty_result_def
      operatorCROwnedBy_def kube_Get_def object_store_def demo_object_def SailOperatorCR_def NewRHCLOperatorCR_def chart_source_def
      absent_def api_error_def engine_ref_def demo_engine_def GroupVersion_String_def Let_def)

theorem charts_follow_policy_witness:
  "\<exists>r k' states evs. demo_build = (Inr r, k') \<and> ku_Trace k' = evs \<and> br_FilterCRs r = [SailOperatorCR] \<and>
    list_all2 (state_justified demo_deps demo_engine evs) (allChartDefs demo_deps ''/charts'') states \<and>
    br_CleanupCharts r = [cd_chart def. (def, s) \<leftarrow> zip (allChartDefs demo_deps ''/charts'') states, s = chartExcluded \<and> cd_operatorCR def \<noteq> None]"
proof -
  from demo_build_ok obtain r k' where r: "demo_build = (Inr r, k')" "br_FilterCRs r = [SailOperatorCR]" by blast
  from charts_follow_policy [OF r(1) [unfolded demo_build_def]] r show ?thesis
    by (auto simp: Let_def)
qed

end
