(* ===== verification/Cloud_Manager.thy ===== *)
theory Cloud_Manager
  imports Cloud_Charts Precondition
begin

text \<open>
  The actions of the cloud manager (\<open>pkg/controller/cloudmanager\<close>) and the cleanup finalizer (\<open>pkg/controller/actions/cleanup\<close>): render
  and deploy the charts of the engine, delete the objects of excluded charts in two passes, report the health of the dependencies, and
  decide what the garbage collector may delete.

  The map of instances whose second pass was put off is part of the request (\<open>cq_Deferred\<close>); the code keeps it in a package variable. The
  renderers, the deploy and the deployment status actions, and the condition manager belong to the framework and are parameters. An action
  that collects errors returns their list; the error that asks for a later run is represented by its class and delay.
\<close>

section \<open>Environment and request\<close>

record 'm condition_ops =
  co_Mark :: "condition \<Rightarrow> 'm \<Rightarrow> 'm"
  co_GetCondition :: "string \<Rightarrow> 'm \<Rightarrow> condition option"

record ('w, 'm) cm_request =
  cq_Kube :: "'w kube"
  cq_Deferred :: "string set"
  cq_Generated :: bool
  cq_ChartsBasePath :: string
  cq_HelmCharts :: "cloud_chart list"
  cq_Resources :: "k8s_object list"
  cq_Conditions :: 'm

type_synonym ('w, 'm) cm_action = "('w, 'm) cm_request \<Rightarrow> go_error option \<times> ('w, 'm) cm_request"

record ('w, 'm, 'o, 'e) cm_env =
  ce_Instance :: engine
  ce_Client :: "'w kube_client"
  ce_DefaultUnremovables :: "GVK list"
  ce_helm_New :: "HelmChartInfo list \<Rightarrow> go_error option"
  ce_helm_Process :: "HelmChartInfo list \<Rightarrow> go_error + k8s_object list"
  ce_helmRender :: "('w, 'm) cm_action"
  ce_deployAction :: "('w, 'm) cm_action"
  ce_deployments :: "string \<Rightarrow> string \<Rightarrow> string \<Rightarrow> ('w, 'm) cm_action"
  ce_Conditions :: "'m condition_ops"
  ce_Access :: "'w \<Rightarrow> ('o, 'e) cr_access"

abbreviation ce_UID :: "('w, 'm, 'o, 'e) cm_env \<Rightarrow> string" where
  "ce_UID env \<equiv> en_UID (ce_Instance env)"

section \<open>Deferred cleanup of access control\<close>

definition markAccessControlCleanupDeferred :: "('w, 'm, 'o, 'e) cm_env \<Rightarrow> ('w, 'm) cm_request \<Rightarrow> ('w, 'm) cm_request" where
  "markAccessControlCleanupDeferred env q = q\<lparr>cq_Deferred := insert (ce_UID env) (cq_Deferred q)\<rparr>"

definition clearAccessControlCleanupDeferred :: "('w, 'm, 'o, 'e) cm_env \<Rightarrow> ('w, 'm) cm_request \<Rightarrow> ('w, 'm) cm_request" where
  "clearAccessControlCleanupDeferred env q = q\<lparr>cq_Deferred := cq_Deferred q - {ce_UID env}\<rparr>"

definition isAccessControlCleanupDeferred :: "('w, 'm, 'o, 'e) cm_env \<Rightarrow> ('w, 'm) cm_request \<Rightarrow> bool" where
  "isAccessControlCleanupDeferred env q \<longleftrightarrow> ce_UID env \<in> cq_Deferred q"

definition isAccessControlKind :: "string \<Rightarrow> bool" where
  "isAccessControlKind kind \<longleftrightarrow>
     kind \<in> set [''ServiceAccount'', ''Role'', ''RoleBinding'', ''ClusterRole'', ''ClusterRoleBinding'']"

definition isWorkloadKind :: "string \<Rightarrow> bool" where
  "isWorkloadKind kind \<longleftrightarrow> kind \<in> set [''Deployment'', ''StatefulSet'', ''DaemonSet'', ''ReplicaSet'']"

abbreviation kind_of :: "k8s_object \<Rightarrow> string" where
  "kind_of u \<equiv> gvk_Kind (ko_GVK u)"

section \<open>Deleting the objects of excluded charts\<close>

definition getOwnedLive ::
  "('w, 'm, 'o, 'e) cm_env \<Rightarrow> k8s_object \<Rightarrow> 'w kube \<Rightarrow> (api_failure + (k8s_object \<times> bool) option) \<times> 'w kube" where
  "getOwnedLive env desired k =
     (case kube_Get (ce_Client env) (ko_GVK desired) (ko_Namespace desired) (ko_Name desired) k of
        (Inl err, k) \<Rightarrow> (if absent err then Inr None else Inl err, k)
      | (Inr live, k) \<Rightarrow> (Inr (Some (live, owned_by_uid (ce_UID env) live)), k))"

definition object_error :: "string \<Rightarrow> k8s_object \<Rightarrow> api_failure \<Rightarrow> go_error" where
  "object_error what u err = wrap (what @ '' failed for '' @ ko_Namespace u @ ''/'' @ ko_Name u) (api_error err)"

definition deleteOwnedResource ::
  "('w, 'm, 'o, 'e) cm_env \<Rightarrow> GVK list \<Rightarrow> k8s_object \<Rightarrow> 'w kube \<Rightarrow> go_error option \<times> 'w kube" where
  "deleteOwnedResource env unremovables desired k =
     (if ko_GVK desired \<in> set unremovables then (None, k)
      else
        case getOwnedLive env desired k of
          (Inl err, k) \<Rightarrow> (Some (object_error ''cleanup get'' desired err), k)
        | (Inr None, k) \<Rightarrow> (None, k)
        | (Inr (Some (live, owned)), k) \<Rightarrow>
            if \<not> owned then (None, k)
            else
              case kube_Delete (ce_Client env) live Foreground k of
                (None, k) \<Rightarrow> (None, k)
              | (Some err, k) \<Rightarrow>
                  (if err_is NotFound (api_error err) then None else Some (object_error ''cleanup delete'' live err), k))"

text \<open>One pass over the rendered objects, for those selected.\<close>

fun delete_pass ::
  "('w, 'm, 'o, 'e) cm_env \<Rightarrow> GVK list \<Rightarrow> (k8s_object \<Rightarrow> bool) \<Rightarrow> k8s_object list \<Rightarrow> 'w kube \<Rightarrow> go_error list \<times> 'w kube" where
  "delete_pass env unremovables sel [] k = ([], k)"
| "delete_pass env unremovables sel (u # us) k =
     (if \<not> sel u then delete_pass env unremovables sel us k
      else
        let (e, k) = deleteOwnedResource env unremovables u k;
            (es, k) = delete_pass env unremovables sel us k
        in ((case e of None \<Rightarrow> es | Some err \<Rightarrow> err # es), k))"

fun ownedWorkloadExists ::
  "('w, 'm, 'o, 'e) cm_env \<Rightarrow> GVK list \<Rightarrow> k8s_object list \<Rightarrow> 'w kube \<Rightarrow> bool \<times> go_error list \<times> 'w kube" where
  "ownedWorkloadExists env unremovables [] k = (False, [], k)"
| "ownedWorkloadExists env unremovables (u # us) k =
     (if \<not> isWorkloadKind (kind_of u) then ownedWorkloadExists env unremovables us k
      else if ko_GVK u \<in> set unremovables then ownedWorkloadExists env unremovables us k
      else
        case getOwnedLive env u k of
          (Inl err, k) \<Rightarrow> (True, [object_error ''cleanup get'' u err], k)
        | (Inr None, k) \<Rightarrow> ownedWorkloadExists env unremovables us k
        | (Inr (Some (live, owned)), k) \<Rightarrow>
            if \<not> owned then ownedWorkloadExists env unremovables us k else (True, [], k))"

definition Namespace_gvk :: GVK where
  "Namespace_gvk = \<lparr>gvk_Group = '''', gvk_Version = ''v1'', gvk_Kind = ''Namespace''\<rparr>"

definition unremovableGVKs :: "GVK list" where
  "unremovableGVKs = [Namespace_gvk]"

definition cleanup_unremovables :: "('w, 'm, 'o, 'e) cm_env \<Rightarrow> GVK list" where
  "cleanup_unremovables env = ce_DefaultUnremovables env @ unremovableGVKs"

definition accessControlCleanupRequeueAfter :: int where
  "accessControlCleanupRequeueAfter = 5 * second"

text \<open>Pass A, the gate, and pass B.\<close>

definition cleanup_resources ::
  "('w, 'm, 'o, 'e) cm_env \<Rightarrow> k8s_object list \<Rightarrow> ('w, 'm) cm_request \<Rightarrow> go_error list \<times> ('w, 'm) cm_request" where
  "cleanup_resources env resources q =
     (let unremovables = cleanup_unremovables env;
          (errs, k) = delete_pass env unremovables (\<lambda>u. \<not> isAccessControlKind (kind_of u)) resources (cq_Kube q);
          (workloadsRemain, gateErrs, k) = ownedWorkloadExists env unremovables resources k;
          errs = errs @ gateErrs;
          q = q\<lparr>cq_Kube := k\<rparr>
      in if workloadsRemain then
           (if errs \<noteq> [] then errs else [GoError '''' [RequeueAfter accessControlCleanupRequeueAfter]],
            markAccessControlCleanupDeferred env q)
         else
           let q = (if list_ex (\<lambda>u. isAccessControlKind (kind_of u)) resources then markAccessControlCleanupDeferred env q else q);
               (errsB, k) = delete_pass env unremovables (\<lambda>u. isAccessControlKind (kind_of u)) resources (cq_Kube q);
               errs = errs @ errsB;
               q = q\<lparr>cq_Kube := k\<rparr>
           in if errs \<noteq> [] then (errs, q) else ([], clearAccessControlCleanupDeferred env q))"

definition render_charts :: "('w, 'm, 'o, 'e) cm_env \<Rightarrow> cloud_chart list \<Rightarrow> go_error + k8s_object list" where
  "render_charts env charts =
     (let sources = map ch_Source charts in
      case ce_helm_New env sources of
        Some err \<Rightarrow> Inl (wrap ''cleanup chart render failed'' err)
      | None \<Rightarrow>
          (case ce_helm_Process env sources of
             Inl err \<Rightarrow> Inl (wrap ''cleanup chart render failed'' err)
           | Inr resources \<Rightarrow> Inr resources))"

definition cleanupExcludedCharts ::
  "('w, 'm, 'o, 'e) cm_env \<Rightarrow> cloud_chart list \<Rightarrow> ('w, 'm) cm_request \<Rightarrow> go_error list \<times> ('w, 'm) cm_request" where
  "cleanupExcludedCharts env charts q =
     (if charts = [] then ([], clearAccessControlCleanupDeferred env q)
      else if \<not> cq_Generated q \<and> \<not> isAccessControlCleanupDeferred env q then ([], q)
      else
        case render_charts env charts of
          Inl err \<Rightarrow> ([err], q)
        | Inr resources \<Rightarrow> cleanup_resources env resources q)"

section \<open>What the garbage collector may delete\<close>

record ProtectedObject =
  po_Group :: string
  po_Kind :: string
  po_Name :: string
  po_Namespace :: string

text \<open>\<open>strconv.ParseInt(s, 10, 64)\<close>: an optional sign and digits, in the range of 64 bits.\<close>

fun digits :: "string \<Rightarrow> int \<Rightarrow> int option" where
  "digits [] acc = Some acc"
| "digits (c # cs) acc =
     (let n = of_char c :: nat in if 48 \<le> n \<and> n \<le> 57 then digits cs (10 * acc + int (n - 48)) else None)"

definition ParseInt :: "string \<Rightarrow> int option" where
  "ParseInt s =
     (let (neg, body) = (case s of [] \<Rightarrow> (False, []) | c # cs \<Rightarrow> if c = CHR ''-'' then (True, cs) else if c = CHR ''+'' then (False, cs) else (False, s))
      in if body = [] then None
         else
           case digits body 0 of
             None \<Rightarrow> None
           | Some n \<Rightarrow> let v = (if neg then - n else n) in if - (2 ^ 63) \<le> v \<and> v < 2 ^ 63 then Some v else None)"

abbreviation (input) ODHInfrastructurePrefix :: string where "ODHInfrastructurePrefix \<equiv> ''infrastructure.opendatahub.io''"
abbreviation (input) ODHPlatformPrefix :: string where "ODHPlatformPrefix \<equiv> ''platform.opendatahub.io''"

text \<open>The suffixes of the annotations are constants of the framework, arguments here.\<close>

record annotation_names =
  SuffixInstanceUID :: string
  SuffixInstanceGeneration :: string

definition instance_annotation :: "k8s_object \<Rightarrow> string \<Rightarrow> string" where
  "instance_annotation u sfx =
     (let v = annotation_of u (ODHInfrastructurePrefix @ sfx) in
      if v = '''' then annotation_of u (ODHPlatformPrefix @ sfx) else v)"

definition isStaleOrOrphaned :: "annotation_names \<Rightarrow> engine \<Rightarrow> k8s_object \<Rightarrow> bool" where
  "isStaleOrOrphaned names owner u =
     (let iUID = instance_annotation u (SuffixInstanceUID names);
          iGeneration = instance_annotation u (SuffixInstanceGeneration names)
      in if iUID = '''' \<or> iGeneration = '''' then False
         else if iUID \<noteq> en_UID owner then True
         else
           case ParseInt iGeneration of
             None \<Rightarrow> False
           | Some g \<Rightarrow> en_Generation owner \<noteq> g)"

definition newGCPredicate ::
  "annotation_names \<Rightarrow> ('w, 'm, 'o, 'e) cm_env \<Rightarrow> ProtectedObject list \<Rightarrow> ('w, 'm) cm_request \<Rightarrow> k8s_object \<Rightarrow> bool" where
  "newGCPredicate names env protected q u =
     (let key = \<lparr>po_Group = gvk_Group (ko_GVK u), po_Kind = kind_of u, po_Name = ko_Name u, po_Namespace = ko_Namespace u\<rparr> in
      if key \<in> set protected then False
      else if \<not> isStaleOrOrphaned names (ce_Instance env) u then False
      else if isAccessControlKind (kind_of u) \<and> isAccessControlCleanupDeferred env q then False
      else True)"

text \<open>The garbage collection action as the arguments the framework gets: namespace, label value, predicate, unremovable kinds.\<close>

fun protected_error :: "nat \<Rightarrow> ProtectedObject list \<Rightarrow> go_error option" where
  "protected_error i [] = None"
| "protected_error i (po # pos) =
     (if po_Kind po = '''' \<or> po_Name po = '''' then
        Some (new_error (''NewGCAction: protectedObjects['' @ fmt_nat i @ ''] requires both Kind and Name''))
      else protected_error (Suc i) pos)"

definition NewGCAction ::
  "annotation_names \<Rightarrow> ('w, 'm, 'o, 'e) cm_env \<Rightarrow> string \<Rightarrow> string \<Rightarrow> ProtectedObject list \<Rightarrow>
     go_error + string \<times> string \<times> (('w, 'm) cm_request \<Rightarrow> k8s_object \<Rightarrow> bool) \<times> GVK list" where
  "NewGCAction names env resourceID operatorNamespace protected =
     (let resourceID = NormalizePartOfValue resourceID in
      if resourceID = '''' then Inl (new_error ''NewGCAction: resourceID is required'')
      else if operatorNamespace = '''' then Inl (new_error ''NewGCAction: operatorNamespace is required'')
      else
        case protected_error 0 protected of
          Some err \<Rightarrow> Inl err
        | None \<Rightarrow> Inr (operatorNamespace, resourceID, newGCPredicate names env protected, unremovableGVKs))"

section \<open>Hooks\<close>

definition skip_crd_if_present :: "('w, 'm, 'o, 'e) cm_env \<Rightarrow> string \<Rightarrow> ('w, 'm) cm_action" where
  "skip_crd_if_present env crdName q =
     (case kube_Get (ce_Client env) CustomResourceDefinition_gvk '''' crdName (cq_Kube q) of
        (Inl err, k) \<Rightarrow>
          (if err_is NotFound (api_error err) then None else Some (wrap (''failed to check CRD '' @ crdName) (api_error err)),
           q\<lparr>cq_Kube := k\<rparr>)
      | (Inr crd, k) \<Rightarrow>
          if map_of (ko_Labels crd) (ODHInfrastructurePrefix @ ''/part-of'') \<noteq> None then (None, q\<lparr>cq_Kube := k\<rparr>)
          else
            (None, q\<lparr>cq_Kube := k,
               cq_Resources := filter (\<lambda>u. \<not> (kind_of u = ''CustomResourceDefinition'' \<and> ko_Name u = crdName)) (cq_Resources q)\<rparr>))"

definition webhook_config :: "string \<Rightarrow> GVK" where
  "webhook_config kind = \<lparr>gvk_Group = ''admissionregistration.k8s.io'', gvk_Version = ''v1'', gvk_Kind = kind\<rparr>"

definition ensureSailOperatorIgnoreAnnotation ::
  "('w, 'm, 'o, 'e) cm_env \<Rightarrow> string \<Rightarrow> GVK \<Rightarrow> 'w kube \<Rightarrow> go_error option \<times> 'w kube" where
  "ensureSailOperatorIgnoreAnnotation env name g k =
     (case kube_Get (ce_Client env) g '''' name k of
        (Inl err, k) \<Rightarrow> (if err_is NotFound (api_error err) then None else Some (api_error err), k)
      | (Inr live, k) \<Rightarrow>
          if annotation_of live ''sailoperator.io/ignore'' = ''true'' then (None, k)
          else
            (case kube_Patch (ce_Client env) live ''metadata.annotations: sailoperator.io/ignore=true'' k of
               (ans, k) \<Rightarrow> (map_option api_error ans, k)))"

definition annotate_istio_webhooks :: "('w, 'm, 'o, 'e) cm_env \<Rightarrow> ('w, 'm) cm_action" where
  "annotate_istio_webhooks env q =
     (let (hookErr, k) = ensureSailOperatorIgnoreAnnotation env ''istio-sidecar-injector'' (webhook_config ''MutatingWebhookConfiguration'') (cq_Kube q);
          (err, k) = ensureSailOperatorIgnoreAnnotation env ''istio-validator-istio-system'' (webhook_config ''ValidatingWebhookConfiguration'') k
      in (if hookErr = None then err else hookErr, q\<lparr>cq_Kube := k\<rparr>))"

definition run_hook :: "('w, 'm, 'o, 'e) cm_env \<Rightarrow> hook \<Rightarrow> ('w, 'm) cm_action" where
  "run_hook env h = (case h of SkipCRDIfPresent name \<Rightarrow> skip_crd_if_present env name | AnnotateIstioWebhooksHook \<Rightarrow> annotate_istio_webhooks env)"

fun run_hook_list :: "('w, 'm, 'o, 'e) cm_env \<Rightarrow> string \<Rightarrow> hook option list \<Rightarrow> ('w, 'm) cm_action" where
  "run_hook_list env release [] q = (None, q)"
| "run_hook_list env release (None # hs) q = run_hook_list env release hs q"
| "run_hook_list env release (Some h # hs) q =
     (case run_hook env h q of
        (Some err, q) \<Rightarrow> (Some (wrap (''hook '' @ quoted release @ '' failed'') err), q)
      | (None, q) \<Rightarrow> run_hook_list env release hs q)"

fun run_chart_hooks :: "('w, 'm, 'o, 'e) cm_env \<Rightarrow> (cloud_chart \<Rightarrow> hook option list) \<Rightarrow> cloud_chart list \<Rightarrow> ('w, 'm) cm_action" where
  "run_chart_hooks env getHooks [] q = (None, q)"
| "run_chart_hooks env getHooks (c # cs) q =
     (case run_hook_list env (hc_ReleaseName (ch_Source c)) (getHooks c) q of
        (Some err, q) \<Rightarrow> (Some err, q)
      | (None, q) \<Rightarrow> run_chart_hooks env getHooks cs q)"

definition runHooks :: "('w, 'm, 'o, 'e) cm_env \<Rightarrow> (cloud_chart \<Rightarrow> hook option list) \<Rightarrow> ('w, 'm) cm_action" where
  "runHooks env getHooks q = run_chart_hooks env getHooks (cq_HelmCharts q) q"

section \<open>Health of the dependencies\<close>

definition defaultDegradedConditionFilter :: "string \<Rightarrow> string \<Rightarrow> bool" where
  "defaultDegradedConditionFilter condType condStatus \<longleftrightarrow>
     (condType = ''Degraded'' \<and> condStatus = ConditionTrue) \<or>
     ((condType = ''Available'' \<or> condType = ''Ready'') \<and> condStatus = ConditionFalse)"

definition cm_mark :: "('w, 'm, 'o, 'e) cm_env \<Rightarrow> condition \<Rightarrow> ('w, 'm) cm_request \<Rightarrow> ('w, 'm) cm_request" where
  "cm_mark env c q = q\<lparr>cq_Conditions := co_Mark (ce_Conditions env) c (cq_Conditions q)\<rparr>"

definition cm_condition :: "('w, 'm, 'o, 'e) cm_env \<Rightarrow> string \<Rightarrow> ('w, 'm) cm_request \<Rightarrow> condition option" where
  "cm_condition env ty q = co_GetCondition (ce_Conditions env) ty (cq_Conditions q)"

definition health_config :: "DependencyMonitorConfig \<Rightarrow> OperatorCR \<Rightarrow> OperatorConfig" where
  "health_config cfg cr =
     \<lparr>OperatorGVK = ocr_GVK cr, CRName = ocr_Name cr, CRNamespace = ocr_Namespace cr,
      Filter = Some defaultDegradedConditionFilter, RequiredConditions = [], RequireCR = dm_RequireCR cfg,
      NoMatchAsUnknown = False\<rparr>"

text \<open>Tier 1, the deployments of the operator, and tier 2, the health its custom resource reports.\<close>

definition check_deployments :: "('w, 'm, 'o, 'e) cm_env \<Rightarrow> string \<Rightarrow> DependencyMonitorConfig \<Rightarrow> ('w, 'm) cm_action" where
  "check_deployments env resourceID cfg q =
     (if dm_HasDeployments cfg then
        case ce_deployments env (dm_ConditionType cfg) (dm_Namespace cfg) resourceID q of
          (Some err, q) \<Rightarrow> (Some (wrap (''deployment check for '' @ dm_ReleaseName cfg @ '' failed'') err), q)
        | (None, q) \<Rightarrow> (None, q)
      else (None, q))"

definition check_operator_cr :: "('w, 'm, 'o, 'e) cm_env \<Rightarrow> DependencyMonitorConfig \<Rightarrow> ('w, 'm) cm_action" where
  "check_operator_cr env cfg q =
     (case dm_OperatorCR cfg of
        None \<Rightarrow> (None, q)
      | Some cr \<Rightarrow>
          if \<not> (case cm_condition env (dm_ConditionType cfg) q of None \<Rightarrow> True | Some c \<Rightarrow> cStatus c \<noteq> ConditionFalse) then (None, q)
          else
            case CheckOperatorHealth (ce_Access env (ku_World (cq_Kube q))) (health_config cfg cr) of
              Inl err \<Rightarrow> (Some (wrap (''operator CR check for '' @ dm_ReleaseName cfg @ '' failed'') err), q)
            | Inr result \<Rightarrow>
                let resultStatus = ConditionStatus result in
                if resultStatus \<noteq> ConditionTrue then
                  (None, cm_mark env
                     (cond (dm_ConditionType cfg) resultStatus
                        (if resultStatus = ConditionUnknown then ''DependencyHealthUnknown'' else ''DependencyDegraded'') (cr_Message result)) q)
                else (None, q))"

definition monitor_dependency :: "('w, 'm, 'o, 'e) cm_env \<Rightarrow> string \<Rightarrow> DependencyMonitorConfig \<Rightarrow> ('w, 'm) cm_action" where
  "monitor_dependency env resourceID cfg q =
     (if dm_Policy cfg = Unmanaged then (None, cm_mark env (cond (dm_ConditionType cfg) ConditionTrue ''Unmanaged'' '''') q)
      else
        case check_deployments env resourceID cfg q of
          (Some err, q) \<Rightarrow> (Some err, q)
        | (None, q) \<Rightarrow>
            (case check_operator_cr env cfg q of
               (Some err, q) \<Rightarrow> (Some err, q)
             | (None, q) \<Rightarrow>
                 (None, if \<not> dm_HasDeployments cfg \<and> dm_OperatorCR cfg = None
                        then cm_mark env (cond (dm_ConditionType cfg) ConditionTrue '''' '''') q else q)))"

fun monitorDependencies :: "('w, 'm, 'o, 'e) cm_env \<Rightarrow> string \<Rightarrow> DependencyMonitorConfig list \<Rightarrow> ('w, 'm) cm_action" where
  "monitorDependencies env resourceID [] q = (None, q)"
| "monitorDependencies env resourceID (cfg # cfgs) q =
     (case monitor_dependency env resourceID cfg q of
        (Some err, q) \<Rightarrow> (Some err, q)
      | (None, q) \<Rightarrow> monitorDependencies env resourceID cfgs q)"

definition dependency_ready :: "('w, 'm, 'o, 'e) cm_env \<Rightarrow> ('w, 'm) cm_request \<Rightarrow> DependencyMonitorConfig \<Rightarrow> bool" where
  "dependency_ready env q cfg =
     (case cm_condition env (dm_ConditionType cfg) q of None \<Rightarrow> False | Some c \<Rightarrow> cStatus c = ConditionTrue)"

definition summarizeDependencyStatus ::
  "('w, 'm, 'o, 'e) cm_env \<Rightarrow> DependencyMonitorConfig list \<Rightarrow> ('w, 'm) cm_request \<Rightarrow> ('w, 'm) cm_request" where
  "summarizeDependencyStatus env cfgs q =
     (let notReady = map dm_ReleaseName (filter (\<lambda>cfg. \<not> dependency_ready env q cfg) cfgs) in
      if notReady \<noteq> [] then
        cm_mark env ((cond ''DependenciesReady'' ConditionFalse ''NotReady''
          (''Dependencies not ready: '' @ strings_Join notReady '', ''))\<lparr>cSeverity := ConditionSeverityError\<rparr>) q
      else cm_mark env (cond ''DependenciesReady'' ConditionTrue '''' '''') q)"

section \<open>The combined action\<close>

definition buildCharts ::
  "('w, 'm, 'o, 'e) cm_env \<Rightarrow> ('w, 'm) cm_request \<Rightarrow> (go_error + BuildResult) \<times> ('w, 'm) cm_request" where
  "buildCharts env q =
     (if cq_ChartsBasePath q = '''' then (Inl (new_error ''ChartsBasePath must not be empty''), q)
      else
        case en_Dependencies (ce_Instance env) of
          None \<Rightarrow> (Inl (new_error ''instance does not implement KubernetesEngineInstance''), q)
        | Some deps \<Rightarrow>
            (case BuildHelmCharts (ce_Client env) deps (cq_ChartsBasePath q) (ce_Instance env) (cq_Kube q) of
               (r, k) \<Rightarrow> (r, q\<lparr>cq_Kube := k\<rparr>)))"

definition filterCRs :: "k8s_object list \<Rightarrow> OperatorCR list \<Rightarrow> k8s_object list" where
  "filterCRs resources crs =
     (if crs = [] then resources
      else
        let exact = map (\<lambda>cr. (ocr_GVK cr, ocr_Namespace cr, ocr_Name cr)) (filter (\<lambda>cr. ocr_Namespace cr \<noteq> '''') crs);
            clusterScoped = map (\<lambda>cr. (ocr_GVK cr, ocr_Name cr)) (filter (\<lambda>cr. ocr_Namespace cr = '''') crs)
        in filter (\<lambda>res. (ko_GVK res, ko_Namespace res, ko_Name res) \<notin> set exact \<and> (ko_GVK res, ko_Name res) \<notin> set clusterScoped) resources)"

text \<open>The steps after the build, in order; the first error ends the action. An error list is the error it makes up.\<close>

definition reconcile_steps ::
  "('w, 'm, 'o, 'e) cm_env \<Rightarrow> string \<Rightarrow> BuildResult \<Rightarrow> ('w, 'm) cm_request \<Rightarrow> go_error list \<times> ('w, 'm) cm_request" where
  "reconcile_steps env resourceID result q =
     (case ce_helmRender env (q\<lparr>cq_HelmCharts := cq_HelmCharts q @ br_Charts result\<rparr>) of
        (Some err, q) \<Rightarrow> ([wrap ''helm render failed'' err], q)
      | (None, q) \<Rightarrow>
     (case runHooks env ch_PreApply (q\<lparr>cq_Resources := filterCRs (cq_Resources q) (br_FilterCRs result)\<rparr>) of
        (Some err, q) \<Rightarrow> ([err], q)
      | (None, q) \<Rightarrow>
     (case ce_deployAction env q of
        (Some err, q) \<Rightarrow> ([wrap ''deploy failed'' err], q)
      | (None, q) \<Rightarrow>
     (case runHooks env ch_PostApply q of
        (Some err, q) \<Rightarrow> ([err], q)
      | (None, q) \<Rightarrow>
     (case cleanupExcludedCharts env (br_CleanupCharts result) q of
        (err # errs, q) \<Rightarrow> (err # errs, q)
      | ([], q) \<Rightarrow>
     (case monitorDependencies env resourceID (br_MonitorConfigs result) q of
        (Some err, q) \<Rightarrow> ([err], q)
      | (None, q) \<Rightarrow> ([], summarizeDependencyStatus env (br_MonitorConfigs result) q)))))))"

definition NewReconcileAction ::
  "('w, 'm, 'o, 'e) cm_env \<Rightarrow> string \<Rightarrow>
     (('w, 'm) cm_request \<Rightarrow> (go_error + BuildResult) \<times> ('w, 'm) cm_request) \<Rightarrow>
     go_error + (('w, 'm) cm_request \<Rightarrow> go_error list \<times> ('w, 'm) cm_request)" where
  "NewReconcileAction env resourceID buildChartsFn =
     (let resourceID = NormalizePartOfValue resourceID in
      if resourceID = '''' then Inl (new_error ''resourceID is required'')
      else
        Inr (\<lambda>q. case buildChartsFn q of
                    (Inl err, q) \<Rightarrow> ([err], q)
                  | (Inr result, q) \<Rightarrow> reconcile_steps env resourceID result q))"

section \<open>The finalizer\<close>

record Target =
  tg_GVK :: GVK
  tg_Name :: string
  tg_Namespace :: string
  tg_DeletePropagation :: string

definition getCR :: "('w, 'm, 'o, 'e) cm_env \<Rightarrow> Target \<Rightarrow> 'w kube \<Rightarrow> (go_error + k8s_object option) \<times> 'w kube" where
  "getCR env target k =
     (case kube_Get (ce_Client env) (tg_GVK target) (tg_Namespace target) (tg_Name target) k of
        (Inl err, k) \<Rightarrow> (if absent err then Inr None else Inl (api_error err), k)
      | (Inr live, k) \<Rightarrow> (Inr (Some live), k))"

definition DeleteAndWait :: "('w, 'm, 'o, 'e) cm_env \<Rightarrow> Target \<Rightarrow> k8s_object \<Rightarrow> 'w kube \<Rightarrow> go_error option \<times> 'w kube" where
  "DeleteAndWait env target live k =
     (let propagation = (if tg_DeletePropagation target = '''' then Foreground else tg_DeletePropagation target);
          waiting = new_error (''waiting for '' @ gvk_Kind (tg_GVK target) @ ''/'' @ tg_Name target @ '' to be fully deleted'')
      in if \<not> owned_by_uid (ce_UID env) live then (None, k)
         else if ko_Deleting live then (Some waiting, k)
         else
           case kube_Delete (ce_Client env) live propagation k of
             (None, k) \<Rightarrow> (Some waiting, k)
           | (Some err, k) \<Rightarrow> (Some (if err_is NotFound (api_error err) then waiting else api_error err), k))"

definition finalize_target :: "('w, 'm, 'o, 'e) cm_env \<Rightarrow> Target \<Rightarrow> 'w kube \<Rightarrow> go_error option \<times> 'w kube" where
  "finalize_target env target k =
     (case getCR env target k of
        (Inl err, k) \<Rightarrow> (Some err, k)
      | (Inr None, k) \<Rightarrow> (None, k)
      | (Inr (Some live), k) \<Rightarrow> DeleteAndWait env target live k)"

fun NewFinalizer :: "('w, 'm, 'o, 'e) cm_env \<Rightarrow> Target list \<Rightarrow> 'w kube \<Rightarrow> go_error option \<times> 'w kube" where
  "NewFinalizer env [] k = (None, k)"
| "NewFinalizer env (target # targets) k =
     (case finalize_target env target k of
        (Some err, k) \<Rightarrow> (Some err, k)
      | (None, k) \<Rightarrow> NewFinalizer env targets k)"

definition IstioCleanupTarget :: Target where
  "IstioCleanupTarget =
     \<lparr>tg_GVK = ocr_GVK SailOperatorCR, tg_Name = ocr_Name SailOperatorCR, tg_Namespace = '''', tg_DeletePropagation = ''''\<rparr>"

definition FinalizerCleanupTargets :: "Target list" where
  "FinalizerCleanupTargets = [IstioCleanupTarget]"

section \<open>The calls of a cleanup\<close>

text \<open>
  Calls in which an object is only deleted right after it was read, with an owner reference to \<open>uid\<close>, under the name of an object that
  satisfies \<open>P\<close>.
\<close>

inductive delete_trace :: "string \<Rightarrow> (k8s_object \<Rightarrow> bool) \<Rightarrow> kube_event list \<Rightarrow> bool" for uid P where
  dt_Nil: "delete_trace uid P []"
| dt_read: "P r \<Longrightarrow> delete_trace uid P evs \<Longrightarrow> delete_trace uid P (Fetched (ko_GVK r) (ko_Namespace r) (ko_Name r) ans # evs)"
| dt_delete: "P r \<Longrightarrow> owned_by_uid uid u \<Longrightarrow> delete_trace uid P evs \<Longrightarrow>
    delete_trace uid P (Fetched (ko_GVK r) (ko_Namespace r) (ko_Name r) (Inr u) # Deletion u Foreground e # evs)"

lemma delete_trace_append: "delete_trace uid P es \<Longrightarrow> delete_trace uid P es' \<Longrightarrow> delete_trace uid P (es @ es')"
  by (induction rule: delete_trace.induct) (auto intro: delete_trace.intros)

lemma delete_trace_mono: "delete_trace uid P es \<Longrightarrow> (\<And>r. P r \<Longrightarrow> Q r) \<Longrightarrow> delete_trace uid Q es"
  by (induction rule: delete_trace.induct) (auto intro: delete_trace.intros)

lemma delete_trace_nth:
  assumes "delete_trace uid P evs" and "i < length evs" and "evs ! i = Deletion u p e"
  shows "0 < i \<and> owned_by_uid uid u \<and>
    (\<exists>r. P r \<and> evs ! (i - 1) = Fetched (ko_GVK r) (ko_Namespace r) (ko_Name r) (Inr u))"
  using assms
proof (induction arbitrary: i rule: delete_trace.induct)
  case dt_Nil
  then show ?case by simp
next
  case (dt_read r evs ans)
  then obtain j where "i = Suc j" by (cases i) auto
  with dt_read.IH [of j] dt_read.prems show ?case by (auto simp: nth_Cons')
next
  case (dt_delete r v evs e')
  then consider "i = Suc 0" | j where "i = Suc (Suc j)" by (metis kube_event.distinct(1) nth_Cons_0 not0_implies_Suc)
  then show ?case
  proof cases
    case 1
    with dt_delete show ?thesis by auto
  next
    case 2
    with dt_delete.IH [of j] dt_delete.prems show ?thesis by (auto simp: nth_Cons')
  qed
qed

text \<open>The deleted objects have the kind of the objects they were read for.\<close>

definition fetched_kinds :: "kube_event list \<Rightarrow> bool" where
  "fetched_kinds evs \<longleftrightarrow> (\<forall>g ns n u. Fetched g ns n (Inr u) \<in> set evs \<longrightarrow> gvk_Kind (ko_GVK u) = gvk_Kind g)"

lemma delete_trace_kinds:
  assumes "delete_trace uid (\<lambda>r. P (kind_of r)) evs" and "fetched_kinds evs" and "Deletion u p e \<in> set evs"
  shows "P (kind_of u)"
proof -
  from assms(3) obtain i where i: "i < length evs" "evs ! i = Deletion u p e"
    by (auto simp: in_set_conv_nth)
  from delete_trace_nth [OF assms(1) i] obtain r where r: "P (kind_of r)"
    "evs ! (i - 1) = Fetched (ko_GVK r) (ko_Namespace r) (ko_Name r) (Inr u)"
    by blast
  with i have "Fetched (ko_GVK r) (ko_Namespace r) (ko_Name r) (Inr u) \<in> set evs"
    by (metis less_imp_diff_less nth_mem)
  with assms(2) have "kind_of u = kind_of r"
    unfolding fetched_kinds_def by blast
  with r(1) show ?thesis by simp
qed

lemma getOwnedLive_calls:
  assumes "getOwnedLive env u k = (r, k')"
  obtains ans where "calls_since k k' [Fetched (ko_GVK u) (ko_Namespace u) (ko_Name u) ans]"
    and "ans = fst (kc_Get (ce_Client env) (ko_GVK u) (ko_Namespace u) (ko_Name u) (ku_World k))"
    and "r = (case ans of Inl err \<Rightarrow> if absent err then Inr None else Inl err
              | Inr live \<Rightarrow> Inr (Some (live, owned_by_uid (ce_UID env) live)))"
proof -
  obtain ans k'' where get: "kube_Get (ce_Client env) (ko_GVK u) (ko_Namespace u) (ko_Name u) k = (ans, k'')"
    by (cases "kube_Get (ce_Client env) (ko_GVK u) (ko_Namespace u) (ko_Name u) k")
  with assms have "k' = k''" and "r = (case ans of Inl err \<Rightarrow> if absent err then Inr None else Inl err
              | Inr live \<Rightarrow> Inr (Some (live, owned_by_uid (ce_UID env) live)))"
    by (auto simp: getOwnedLive_def split: sum.splits)
  with that kube_Get_calls [OF get] kube_Get_answer [OF get] show ?thesis by blast
qed

lemma fetched_kinds_Nil [simp]: "fetched_kinds []"
  by (simp add: fetched_kinds_def)

lemma fetched_kinds_append [simp]: "fetched_kinds (es @ es') \<longleftrightarrow> fetched_kinds es \<and> fetched_kinds es'"
  by (auto simp: fetched_kinds_def)

text \<open>What one deletion does: the calls, and whether it ends without an error.\<close>

lemma deleteOwnedResource_calls:
  assumes "deleteOwnedResource env unremovables u k = (err, k')"
  shows "\<exists>evs. calls_since k k' evs \<and> delete_trace (ce_UID env) (\<lambda>r. r = u \<and> ko_GVK u \<notin> set unremovables) evs \<and>
    (get_keeps_kind (ce_Client env) \<longrightarrow> fetched_kinds evs)"
proof (cases "ko_GVK u \<in> set unremovables")
  case True
  with assms have "k' = k" by (simp add: deleteOwnedResource_def)
  then show ?thesis by (auto intro!: exI [of _ "[]"] dt_Nil)
next
  case False
  obtain r k1 where g: "getOwnedLive env u k = (r, k1)"
    by (cases "getOwnedLive env u k")
  let ?P = "\<lambda>r. r = u \<and> ko_GVK u \<notin> set unremovables"
  from getOwnedLive_calls [OF g] obtain ans where ans: "calls_since k k1 [Fetched (ko_GVK u) (ko_Namespace u) (ko_Name u) ans]"
    "ans = fst (kc_Get (ce_Client env) (ko_GVK u) (ko_Namespace u) (ko_Name u) (ku_World k))"
    "r = (case ans of Inl err \<Rightarrow> if absent err then Inr None else Inl err
              | Inr live \<Rightarrow> Inr (Some (live, owned_by_uid (ce_UID env) live)))" .
  let ?f = "Fetched (ko_GVK u) (ko_Namespace u) (ko_Name u) ans"
  have kinds: "get_keeps_kind (ce_Client env) \<longrightarrow> fetched_kinds [?f]"
    using ans(2) by (auto simp: fetched_kinds_def get_keeps_kind_def)
  show ?thesis
  proof (cases "\<exists>live. ans = Inr live \<and> owned_by_uid (ce_UID env) live")
    case True
    then obtain live where live: "ans = Inr live" "owned_by_uid (ce_UID env) live" by blast
    obtain e k2 where d: "kube_Delete (ce_Client env) live Foreground k1 = (e, k2)"
      by (cases "kube_Delete (ce_Client env) live Foreground k1")
    with assms False g ans(3) live have "k' = k2"
      by (auto simp: deleteOwnedResource_def split: option.splits)
    moreover have "delete_trace (ce_UID env) ?P ([?f] @ [Deletion live Foreground e])"
      using False live dt_delete [of ?P u "ce_UID env" live "[]" e, OF _ _ dt_Nil] by simp
    moreover have "get_keeps_kind (ce_Client env) \<longrightarrow> fetched_kinds ([?f] @ [Deletion live Foreground e])"
      using kinds by (simp add: fetched_kinds_def)
    ultimately show ?thesis
      using calls_since_trans [OF ans(1) kube_Delete_calls [OF d]] by blast
  next
    case not_owned: False
    with assms False g ans(3) have "k' = k1"
      by (auto simp: deleteOwnedResource_def split: sum.splits if_splits)
    moreover have "delete_trace (ce_UID env) ?P [?f]"
      using False by (auto intro!: delete_trace.intros)
    ultimately show ?thesis
      using ans(1) kinds by blast
  qed
qed

lemma delete_pass_calls:
  assumes "delete_pass env unremovables sel us k = (errs, k')"
  shows "\<exists>evs. calls_since k k' evs \<and>
    delete_trace (ce_UID env) (\<lambda>r. r \<in> set us \<and> sel r \<and> ko_GVK r \<notin> set unremovables) evs \<and>
    (get_keeps_kind (ce_Client env) \<longrightarrow> fetched_kinds evs)"
  using assms
proof (induction us arbitrary: k errs)
  case Nil
  then show ?case by (auto intro!: exI [of _ "[]"] dt_Nil)
next
  case (Cons u us)
  let ?P = "\<lambda>us r. r \<in> set us \<and> sel r \<and> ko_GVK r \<notin> set unremovables"
  show ?case
  proof (cases "sel u")
    case False
    with Cons.prems Cons.IH [of k errs] obtain evs where "calls_since k k' evs" "delete_trace (ce_UID env) (?P us) evs"
      "get_keeps_kind (ce_Client env) \<longrightarrow> fetched_kinds evs"
      by auto
    then show ?thesis by (auto elim: delete_trace_mono)
  next
    case True
    with Cons.prems obtain e k1 es where d: "deleteOwnedResource env unremovables u k = (e, k1)"
      and rest: "delete_pass env unremovables sel us k1 = (es, k')"
      by (auto split: prod.splits)
    from deleteOwnedResource_calls [OF d] obtain evs1 where evs1: "calls_since k k1 evs1"
      "delete_trace (ce_UID env) (\<lambda>r. r = u \<and> ko_GVK u \<notin> set unremovables) evs1"
      "get_keeps_kind (ce_Client env) \<longrightarrow> fetched_kinds evs1"
      by blast
    from Cons.IH [OF rest] obtain evs2 where evs2: "calls_since k1 k' evs2" "delete_trace (ce_UID env) (?P us) evs2"
      "get_keeps_kind (ce_Client env) \<longrightarrow> fetched_kinds evs2"
      by blast
    have "delete_trace (ce_UID env) (?P (u # us)) (evs1 @ evs2)"
      using True by (auto intro: delete_trace_append delete_trace_mono [OF evs1(2)] delete_trace_mono [OF evs2(2)])
    with calls_since_trans [OF evs1(1) evs2(1)] evs1(3) evs2(3) show ?thesis
      by (auto intro!: exI [of _ "evs1 @ evs2"])
  qed
qed

text \<open>The gate only reads, and opens when every workload was read as gone or foreign.\<close>

definition gate_seen_clear :: "('w, 'm, 'o, 'e) cm_env \<Rightarrow> k8s_object list \<Rightarrow> kube_event list \<Rightarrow> bool" where
  "gate_seen_clear env us evs \<longleftrightarrow>
     (\<forall>u \<in> set us. isWorkloadKind (kind_of u) \<and> ko_GVK u \<notin> set (cleanup_unremovables env) \<longrightarrow>
        (\<exists>ans. Fetched (ko_GVK u) (ko_Namespace u) (ko_Name u) ans \<in> set evs \<and> gone_or_foreign (ce_UID env) ans))"

definition only_reads :: "kube_event list \<Rightarrow> bool" where
  "only_reads evs \<longleftrightarrow> (\<forall>ev \<in> set evs. case ev of Fetched _ _ _ _ \<Rightarrow> True | _ \<Rightarrow> False)"

lemma only_reads_append: "only_reads [] " "only_reads (es @ es') \<longleftrightarrow> only_reads es \<and> only_reads es'"
  by (auto simp: only_reads_def)

lemma gate_seen_clear_mono:
  "gate_seen_clear env us evs \<Longrightarrow> set evs \<subseteq> set evs' \<Longrightarrow> gate_seen_clear env us evs'"
  unfolding gate_seen_clear_def by blast

lemma ownedWorkloadExists_calls:
  assumes "ownedWorkloadExists env (cleanup_unremovables env) us k = (remain, errs, k')"
  shows "\<exists>evs. calls_since k k' evs \<and> only_reads evs \<and>
    delete_trace (ce_UID env) (\<lambda>r. r \<in> set us \<and> ko_GVK r \<notin> set (cleanup_unremovables env)) evs \<and>
    (\<not> remain \<longrightarrow> errs = [] \<and> gate_seen_clear env us evs) \<and>
    (errs \<noteq> [] \<longrightarrow> remain)"
  using assms
proof (induction us arbitrary: k)
  case Nil
  then show ?case by (auto intro!: exI [of _ "[]"] dt_Nil simp: gate_seen_clear_def only_reads_def)
next
  case (Cons u us)
  show ?case
  proof (cases "isWorkloadKind (kind_of u) \<and> ko_GVK u \<notin> set (cleanup_unremovables env)")
    case False
    with Cons.prems have "ownedWorkloadExists env (cleanup_unremovables env) us k = (remain, errs, k')"
      by (simp split: if_splits)
    from Cons.IH [OF this] False show ?thesis
      by (auto simp: gate_seen_clear_def elim: delete_trace_mono)
  next
    case True
    obtain r k1 where g: "getOwnedLive env u k = (r, k1)"
      by (cases "getOwnedLive env u k")
    from getOwnedLive_calls [OF g] obtain ans where ans: "calls_since k k1 [Fetched (ko_GVK u) (ko_Namespace u) (ko_Name u) ans]"
      "r = (case ans of Inl err \<Rightarrow> if absent err then Inr None else Inl err
              | Inr live \<Rightarrow> Inr (Some (live, owned_by_uid (ce_UID env) live)))" .
    let ?f = "Fetched (ko_GVK u) (ko_Namespace u) (ko_Name u) ans"
    show ?thesis
    proof (cases "gone_or_foreign (ce_UID env) ans")
      case False
      with Cons.prems True g ans(2) have "remain" "k' = k1"
        by (auto simp: gone_or_foreign_def split: sum.splits if_splits)
      moreover have "delete_trace (ce_UID env) (\<lambda>r. r \<in> set (u # us) \<and> ko_GVK r \<notin> set (cleanup_unremovables env)) [?f]"
        using True by (auto intro!: delete_trace.intros)
      ultimately show ?thesis
        using ans(1) by (auto intro!: exI [of _ "[?f]"] simp: only_reads_def)
    next
      case gone: True
      with Cons.prems True g ans(2) have "ownedWorkloadExists env (cleanup_unremovables env) us k1 = (remain, errs, k')"
        by (auto simp: gone_or_foreign_def split: sum.splits if_splits)
      from Cons.IH [OF this] obtain evs where evs: "calls_since k1 k' evs" "only_reads evs"
        and trace: "delete_trace (ce_UID env) (\<lambda>r. r \<in> set us \<and> ko_GVK r \<notin> set (cleanup_unremovables env)) evs"
        and clear:
        "\<not> remain \<longrightarrow> errs = [] \<and> gate_seen_clear env us evs" "errs \<noteq> [] \<longrightarrow> remain"
        by blast
      have "gate_seen_clear env us evs \<Longrightarrow> gate_seen_clear env (u # us) (?f # evs)"
        using gone unfolding gate_seen_clear_def by auto
      with clear have "(\<not> remain \<longrightarrow> errs = [] \<and> gate_seen_clear env (u # us) (?f # evs)) \<and> (errs \<noteq> [] \<longrightarrow> remain)"
        by blast
      moreover have "delete_trace (ce_UID env) (\<lambda>r. r \<in> set (u # us) \<and> ko_GVK r \<notin> set (cleanup_unremovables env)) (?f # evs)"
        using True by (auto intro!: dt_read delete_trace_mono [OF trace])
      moreover have "only_reads (?f # evs)" using evs(2) by (simp add: only_reads_def)
      moreover have "calls_since k k' (?f # evs)" using calls_since_trans [OF ans(1) evs(1)] by simp
      ultimately show ?thesis by blast
    qed
  qed
qed

lemma only_reads_deletes_nothing: "only_reads evs \<Longrightarrow> Deletion u p e \<notin> set evs"
  by (fastforce simp: only_reads_def)

text \<open>The three phases of a run: pass A, the gate, and pass B when the gate is open.\<close>

definition phase_A :: "('w, 'm, 'o, 'e) cm_env \<Rightarrow> k8s_object list \<Rightarrow> k8s_object \<Rightarrow> bool" where
  "phase_A env us r \<longleftrightarrow> r \<in> set us \<and> \<not> isAccessControlKind (kind_of r) \<and> ko_GVK r \<notin> set (cleanup_unremovables env)"

definition phase_B :: "('w, 'm, 'o, 'e) cm_env \<Rightarrow> k8s_object list \<Rightarrow> k8s_object \<Rightarrow> bool" where
  "phase_B env us r \<longleftrightarrow> r \<in> set us \<and> isAccessControlKind (kind_of r) \<and> ko_GVK r \<notin> set (cleanup_unremovables env)"

lemma cleanup_phases:
  assumes "cleanup_resources env us q = (errs, q')"
  obtains passA gate passB where "ku_Trace (cq_Kube q') = ku_Trace (cq_Kube q) @ passA @ gate @ passB"
    and "delete_trace (ce_UID env) (phase_A env us) passA" and "only_reads gate"
    and "delete_trace (ce_UID env) (\<lambda>r. r \<in> set us \<and> ko_GVK r \<notin> set (cleanup_unremovables env)) gate"
    and "delete_trace (ce_UID env) (phase_B env us) passB"
    and "passB \<noteq> [] \<longrightarrow> gate_seen_clear env us gate"
    and "get_keeps_kind (ce_Client env) \<longrightarrow> fetched_kinds passA \<and> fetched_kinds passB"
proof -
  let ?un = "cleanup_unremovables env"
  obtain errsA kA where A: "delete_pass env ?un (\<lambda>u. \<not> isAccessControlKind (kind_of u)) us (cq_Kube q) = (errsA, kA)"
    by (meson surj_pair)
  obtain remain errsG kG where G: "ownedWorkloadExists env ?un us kA = (remain, errsG, kG)"
    by (meson prod_cases3)
  obtain errsB kB where B: "delete_pass env ?un (\<lambda>u. isAccessControlKind (kind_of u)) us kG = (errsB, kB)"
    by (meson surj_pair)
  from delete_pass_calls [OF A] obtain passA where passA: "calls_since (cq_Kube q) kA passA"
    "delete_trace (ce_UID env) (phase_A env us) passA" "get_keeps_kind (ce_Client env) \<longrightarrow> fetched_kinds passA"
    by (auto simp: phase_A_def [abs_def])
  from ownedWorkloadExists_calls [OF G] obtain gate where gate: "calls_since kA kG gate" "only_reads gate"
    "delete_trace (ce_UID env) (\<lambda>r. r \<in> set us \<and> ko_GVK r \<notin> set (cleanup_unremovables env)) gate"
    "\<not> remain \<longrightarrow> errsG = [] \<and> gate_seen_clear env us gate"
    by blast
  from delete_pass_calls [OF B] obtain passB where passB: "calls_since kG kB passB"
    "delete_trace (ce_UID env) (phase_B env us) passB" "get_keeps_kind (ce_Client env) \<longrightarrow> fetched_kinds passB"
    by (auto simp: phase_B_def [abs_def])
  show ?thesis
  proof (cases remain)
    case True
    with assms A G have "cq_Kube q' = kG"
      by (auto simp: cleanup_resources_def markAccessControlCleanupDeferred_def)
    with passA gate show ?thesis
      by (intro that [of passA gate "[]"]) (auto simp: calls_since_def intro: dt_Nil)
  next
    case False
    with assms A G B have "cq_Kube q' = kB"
      by (auto simp: cleanup_resources_def markAccessControlCleanupDeferred_def clearAccessControlCleanupDeferred_def
          Let_def split: if_splits)
    with False passA gate passB show ?thesis
      by (intro that [of passA gate passB]) (auto simp: calls_since_def)
  qed
qed

text \<open>
  Every deletion of a run is of an object that the call before has read, under the name of an object of the excluded charts whose kind may
  be removed, with an owner reference to the engine.
\<close>

definition deletes_only_owned :: "('w, 'm, 'o, 'e) cm_env \<Rightarrow> k8s_object list \<Rightarrow> kube_event list \<Rightarrow> bool" where
  "deletes_only_owned env us evs \<longleftrightarrow>
     (\<forall>i u p e. i < length evs \<and> evs ! i = Deletion u p e \<longrightarrow>
        0 < i \<and> owned_by_uid (ce_UID env) u \<and>
        (\<exists>r \<in> set us. ko_GVK r \<notin> set (cleanup_unremovables env) \<and>
           evs ! (i - 1) = Fetched (ko_GVK r) (ko_Namespace r) (ko_Name r) (Inr u)))"

definition access_control_deleted :: "kube_event list \<Rightarrow> bool" where
  "access_control_deleted evs \<longleftrightarrow> (\<exists>u p e. Deletion u p e \<in> set evs \<and> isAccessControlKind (kind_of u))"

lemma delete_trace_owned:
  assumes "delete_trace (ce_UID env) (\<lambda>r. r \<in> set us \<and> ko_GVK r \<notin> set (cleanup_unremovables env)) evs"
  shows "deletes_only_owned env us evs"
  using delete_trace_nth [OF assms] unfolding deletes_only_owned_def by blast

text \<open>
  C8. Access control outlives the workloads. Whatever the cluster does between the calls, a cleanup of excluded charts deletes only
  objects of those charts, right after reading them with an owner reference to this engine, and never one of a kind that must not be
  removed. If it deletes a service account or a role, then after every other deletion and before the first of these it has read each workload of
  the charts and found it gone or not the engine's.
\<close>

theorem access_control_outlives_workloads:
  assumes "get_keeps_kind (ce_Client env)" and "cleanupExcludedCharts env charts q = (errs, q')"
  shows "\<exists>evs. ku_Trace (cq_Kube q') = ku_Trace (cq_Kube q) @ evs \<and>
    (evs = [] \<or>
     (\<exists>us passA gate passB. render_charts env charts = Inr us \<and> evs = passA @ gate @ passB \<and>
        deletes_only_owned env us evs \<and> only_reads gate \<and> \<not> access_control_deleted passA \<and>
        (passB \<noteq> [] \<longrightarrow> gate_seen_clear env us gate) \<and>
        (\<forall>u p e. Deletion u p e \<in> set passB \<longrightarrow> isAccessControlKind (kind_of u))))"
proof (cases "\<exists>us. render_charts env charts = Inr us \<and> cleanup_resources env us q = (errs, q')")
  case False
  with assms(2) have "cq_Kube q' = cq_Kube q"
    by (auto simp: cleanupExcludedCharts_def clearAccessControlCleanupDeferred_def split: if_splits sum.splits)
  then show ?thesis by simp
next
  case True
  then obtain us where us: "render_charts env charts = Inr us" "cleanup_resources env us q = (errs, q')" by blast
  let ?R = "\<lambda>r. r \<in> set us \<and> ko_GVK r \<notin> set (cleanup_unremovables env)"
  from cleanup_phases [OF us(2)] obtain passA gate passB where
    trace: "ku_Trace (cq_Kube q') = ku_Trace (cq_Kube q) @ passA @ gate @ passB"
    and A: "delete_trace (ce_UID env) (phase_A env us) passA" and G: "only_reads gate" "delete_trace (ce_UID env) ?R gate"
    and B: "delete_trace (ce_UID env) (phase_B env us) passB"
    and clear: "passB \<noteq> [] \<longrightarrow> gate_seen_clear env us gate"
    and kinds: "get_keeps_kind (ce_Client env) \<longrightarrow> fetched_kinds passA \<and> fetched_kinds passB" .
  have "delete_trace (ce_UID env) ?R (passA @ gate @ passB)"
    by (intro delete_trace_append delete_trace_mono [OF A] delete_trace_mono [OF B] G(2)) (auto simp: phase_A_def phase_B_def)
  then have owned: "deletes_only_owned env us (passA @ gate @ passB)"
    by (rule delete_trace_owned)
  have "delete_trace (ce_UID env) (\<lambda>r. \<not> isAccessControlKind (kind_of r)) passA"
    by (rule delete_trace_mono [OF A]) (simp add: phase_A_def)
  with kinds assms(1) have notA: "\<not> access_control_deleted passA"
    using delete_trace_kinds [where P = "\<lambda>k. \<not> isAccessControlKind k"] unfolding access_control_deleted_def by blast
  have "delete_trace (ce_UID env) (\<lambda>r. isAccessControlKind (kind_of r)) passB"
    by (rule delete_trace_mono [OF B]) (simp add: phase_B_def)
  with kinds assms(1) have onlyB: "\<forall>u p e. Deletion u p e \<in> set passB \<longrightarrow> isAccessControlKind (kind_of u)"
    using delete_trace_kinds [where P = isAccessControlKind] by blast
  show ?thesis
    using trace us(1) owned G(1) notA clear onlyB by blast
qed

section \<open>The deferred pass protects access control from the garbage collector\<close>




section \<open>A cleanup completes\<close>

text \<open>
  A cluster that cooperates: reads fail only because there is nothing to read, no workload of the engine is left, and deletions fail only
  because the object is gone already.
\<close>

definition cooperative :: "('w, 'm, 'o, 'e) cm_env \<Rightarrow> bool" where
  "cooperative env \<longleftrightarrow>
     (\<forall>g ns n w err. fst (kc_Get (ce_Client env) g ns n w) = Inl err \<longrightarrow> absent err) \<and>
     (\<forall>g ns n w u. isWorkloadKind (gvk_Kind g) \<and> fst (kc_Get (ce_Client env) g ns n w) = Inr u \<longrightarrow> \<not> owned_by_uid (ce_UID env) u) \<and>
     (\<forall>u p w err. fst (kc_Delete (ce_Client env) u p w) = Some err \<longrightarrow> err_is NotFound (api_error err))"

text \<open>The object was read, and deleted if the engine owned it.\<close>

definition disposed :: "('w, 'm, 'o, 'e) cm_env \<Rightarrow> k8s_object \<Rightarrow> kube_event list \<Rightarrow> bool" where
  "disposed env u evs \<longleftrightarrow>
     (\<exists>ans. Fetched (ko_GVK u) (ko_Namespace u) (ko_Name u) ans \<in> set evs \<and>
        (\<forall>live. ans = Inr live \<and> owned_by_uid (ce_UID env) live \<longrightarrow> (\<exists>e. Deletion live Foreground e \<in> set evs)))"

lemma disposed_mono: "disposed env u evs \<Longrightarrow> set evs \<subseteq> set evs' \<Longrightarrow> disposed env u evs'"
  unfolding disposed_def by blast

lemma deleteOwnedResource_succeeds:
  assumes "cooperative env" and "deleteOwnedResource env un u k = (err, k')"
  shows "err = None \<and> (\<exists>evs. calls_since k k' evs \<and> (ko_GVK u \<notin> set un \<longrightarrow> disposed env u evs))"
proof (cases "ko_GVK u \<in> set un")
  case True
  with assms(2) show ?thesis by (auto simp: deleteOwnedResource_def)
next
  case False
  obtain r k1 where g: "getOwnedLive env u k = (r, k1)"
    by (cases "getOwnedLive env u k")
  from getOwnedLive_calls [OF g] obtain ans where ans: "calls_since k k1 [Fetched (ko_GVK u) (ko_Namespace u) (ko_Name u) ans]"
    "ans = fst (kc_Get (ce_Client env) (ko_GVK u) (ko_Namespace u) (ko_Name u) (ku_World k))"
    "r = (case ans of Inl err \<Rightarrow> if absent err then Inr None else Inl err
              | Inr live \<Rightarrow> Inr (Some (live, owned_by_uid (ce_UID env) live)))" .
  let ?f = "Fetched (ko_GVK u) (ko_Namespace u) (ko_Name u) ans"
  from ans(2) assms(1) have answered: "\<And>err. ans = Inl err \<Longrightarrow> absent err"
    unfolding cooperative_def by metis
  show ?thesis
  proof (cases "\<exists>live. ans = Inr live \<and> owned_by_uid (ce_UID env) live")
    case True
    then obtain live where live: "ans = Inr live" "owned_by_uid (ce_UID env) live" by blast
    obtain e k2 where d: "kube_Delete (ce_Client env) live Foreground k1 = (e, k2)"
      by (cases "kube_Delete (ce_Client env) live Foreground k1")
    have "e = Some er \<Longrightarrow> err_is NotFound (api_error er)" for er
      using kube_Delete_answer [OF d] assms(1) unfolding cooperative_def by metis
    with assms(2) False g ans(3) live d have "err = None" "k' = k2"
      by (auto simp: deleteOwnedResource_def split: option.splits)
    moreover have "disposed env u ([?f] @ [Deletion live Foreground e])"
      using live by (auto simp: disposed_def)
    ultimately show ?thesis
      using calls_since_trans [OF ans(1) kube_Delete_calls [OF d]] by blast
  next
    case not_owned: False
    with assms(2) False g ans(3) answered have "err = None" "k' = k1"
      by (auto simp: deleteOwnedResource_def split: sum.splits if_splits)
    moreover have "disposed env u [?f]"
      using not_owned by (auto simp: disposed_def)
    ultimately show ?thesis using ans(1) by blast
  qed
qed

lemma delete_pass_succeeds:
  assumes "cooperative env" and "delete_pass env un sel us k = (errs, k')"
  shows "errs = [] \<and> (\<exists>evs. calls_since k k' evs \<and> (\<forall>u \<in> set us. sel u \<and> ko_GVK u \<notin> set un \<longrightarrow> disposed env u evs))"
  using assms(2)
proof (induction us arbitrary: k errs)
  case Nil
  then show ?case by auto
next
  case (Cons u us)
  show ?case
  proof (cases "sel u")
    case False
    with Cons.prems have "delete_pass env un sel us k = (errs, k')" by simp
    from Cons.IH [OF this] False show ?thesis by auto
  next
    case True
    with Cons.prems obtain e k1 es where d: "deleteOwnedResource env un u k = (e, k1)"
      and rest: "delete_pass env un sel us k1 = (es, k')" and errs: "errs = (case e of None \<Rightarrow> es | Some err \<Rightarrow> err # es)"
      by (auto split: prod.splits)
    from deleteOwnedResource_succeeds [OF assms(1) d] obtain evs1 where evs1: "e = None" "calls_since k k1 evs1"
      "ko_GVK u \<notin> set un \<longrightarrow> disposed env u evs1"
      by blast
    from Cons.IH [OF rest] obtain evs2 where evs2: "es = []" "calls_since k1 k' evs2"
      "\<forall>u \<in> set us. sel u \<and> ko_GVK u \<notin> set un \<longrightarrow> disposed env u evs2"
      by blast
    have "\<forall>v \<in> set (u # us). sel v \<and> ko_GVK v \<notin> set un \<longrightarrow> disposed env v (evs1 @ evs2)"
      using evs1(3) evs2(3) by (auto intro: disposed_mono)
    with calls_since_trans [OF evs1(2) evs2(2)] evs1(1) evs2(1) errs show ?thesis by auto
  qed
qed

lemma gate_opens: "cooperative env \<Longrightarrow> \<exists>k'. ownedWorkloadExists env un us k = (False, [], k')"
proof (induction us arbitrary: k)
  case (Cons u us)
  obtain r k1 where g: "getOwnedLive env u k = (r, k1)"
    by (cases "getOwnedLive env u k")
  from getOwnedLive_calls [OF g] obtain ans where
    ans: "ans = fst (kc_Get (ce_Client env) (ko_GVK u) (ko_Namespace u) (ko_Name u) (ku_World k))"
    and r: "r = (case ans of Inl err \<Rightarrow> if absent err then Inr None else Inl err
              | Inr live \<Rightarrow> Inr (Some (live, owned_by_uid (ce_UID env) live)))" .
  have "\<And>err. ans = Inl err \<Longrightarrow> absent err"
    and "\<And>live. isWorkloadKind (kind_of u) \<Longrightarrow> ans = Inr live \<Longrightarrow> \<not> owned_by_uid (ce_UID env) live"
    using Cons.prems ans unfolding cooperative_def by metis+
  with r have "isWorkloadKind (kind_of u) \<Longrightarrow> r = Inr None \<or> (\<exists>live. r = Inr (Some (live, False)))"
    by (cases ans) simp_all
  with g Cons.IH [OF Cons.prems] show ?case by auto
qed simp

text \<open>
  C10. A cleanup completes. On a cluster that cooperates, a run over excluded charts that can be rendered, started by a change or by a deferred
  pass, returns no error, takes the mark back, and has read every object of the charts that may be removed and deleted those the engine owned.
\<close>

theorem cleanup_completes:
  assumes "cooperative env" and "charts \<noteq> []" and "render_charts env charts = Inr us"
    and "cq_Generated q \<or> isAccessControlCleanupDeferred env q" and "cleanupExcludedCharts env charts q = (errs, q')"
  shows "errs = [] \<and> \<not> isAccessControlCleanupDeferred env q' \<and>
    (\<exists>evs. ku_Trace (cq_Kube q') = ku_Trace (cq_Kube q) @ evs \<and>
       (\<forall>u \<in> set us. ko_GVK u \<notin> set (cleanup_unremovables env) \<longrightarrow> disposed env u evs))"
proof -
  let ?un = "cleanup_unremovables env"
  obtain errsA kA where A: "delete_pass env ?un (\<lambda>u. \<not> isAccessControlKind (kind_of u)) us (cq_Kube q) = (errsA, kA)"
    by (meson surj_pair)
  obtain kG where G: "ownedWorkloadExists env ?un us kA = (False, [], kG)"
    using gate_opens [OF assms(1)] by blast
  obtain errsB kB where B: "delete_pass env ?un (\<lambda>u. isAccessControlKind (kind_of u)) us kG = (errsB, kB)"
    by (meson surj_pair)
  from delete_pass_succeeds [OF assms(1) A] obtain passA where passA: "errsA = []" "calls_since (cq_Kube q) kA passA"
    "\<forall>u \<in> set us. \<not> isAccessControlKind (kind_of u) \<and> ko_GVK u \<notin> set ?un \<longrightarrow> disposed env u passA" by blast
  from ownedWorkloadExists_calls [OF G] obtain gate where gate: "calls_since kA kG gate" by blast
  from delete_pass_succeeds [OF assms(1) B] obtain passB where passB: "errsB = []" "calls_since kG kB passB"
    "\<forall>u \<in> set us. isAccessControlKind (kind_of u) \<and> ko_GVK u \<notin> set ?un \<longrightarrow> disposed env u passB" by blast
  from assms(2-5) have "cleanup_resources env us q = (errs, q')"
    by (auto simp: cleanupExcludedCharts_def)
  with A G B passA(1) passB(1) have "errs = [] \<and> cq_Kube q' = kB \<and> cq_Deferred q' = cq_Deferred q - {ce_UID env}"
    by (auto simp: cleanup_resources_def markAccessControlCleanupDeferred_def clearAccessControlCleanupDeferred_def Let_def split: if_splits)
  moreover have "disposed env u (passA @ gate @ passB)" if "u \<in> set us" "ko_GVK u \<notin> set ?un" for u
    using that passA(3) passB(3) by (cases "isAccessControlKind (kind_of u)") (auto intro: disposed_mono)
  ultimately show ?thesis
    using calls_since_trans [OF passA(2) calls_since_trans [OF gate passB(2)]]
    by (auto simp: isAccessControlCleanupDeferred_def calls_since_def)
qed

section \<open>The finalizer waits\<close>

lemma finalize_target_calls:
  assumes "finalize_target env target k = (None, k')"
  shows "\<exists>ans. calls_since k k' [Fetched (tg_GVK target) (tg_Namespace target) (tg_Name target) ans] \<and> gone_or_foreign (ce_UID env) ans"
proof -
  obtain ans k1 where get: "kube_Get (ce_Client env) (tg_GVK target) (tg_Namespace target) (tg_Name target) k = (ans, k1)"
    by (meson surj_pair)
  with assms have "k' = k1 \<and> gone_or_foreign (ce_UID env) ans"
    by (auto simp: finalize_target_def getCR_def DeleteAndWait_def gone_or_foreign_def Let_def
        split: sum.splits if_splits prod.splits option.splits)
  with kube_Get_calls [OF get] show ?thesis by blast
qed

text \<open>
  The finalizer lets the engine go only after every dependency CR was read as gone or somebody else's, in a run that deletes nothing.
\<close>

theorem finalizer_waits_for_dependencies:
  assumes "NewFinalizer env targets k = (None, k')"
  shows "\<exists>evs. ku_Trace k' = ku_Trace k @ evs \<and> only_reads evs \<and>
    (\<forall>t \<in> set targets. \<exists>ans. Fetched (tg_GVK t) (tg_Namespace t) (tg_Name t) ans \<in> set evs \<and> gone_or_foreign (ce_UID env) ans)"
  using assms
proof (induction targets arbitrary: k)
  case Nil
  then show ?case by (simp add: only_reads_def)
next
  case (Cons t ts)
  then obtain k1 where t: "finalize_target env t k = (None, k1)" and rest: "NewFinalizer env ts k1 = (None, k')"
    by (auto split: prod.splits option.splits)
  from finalize_target_calls [OF t] Cons.IH [OF rest] show ?case
    by (force simp: calls_since_def only_reads_def)
qed

section \<open>Dependencies are reported ready only on evidence\<close>

text \<open>
  What the framework documents of its condition manager: a mark sets the status of its type, and changes no other type than the
  aggregate \<open>Ready\<close>. The deployment status action marks the type it is given.
\<close>

definition condition_laws :: "('w, 'm, 'o, 'e) cm_env \<Rightarrow> bool" where
  "condition_laws env \<longleftrightarrow>
     (\<forall>c m. \<exists>c'. co_GetCondition (ce_Conditions env) (cType c) (co_Mark (ce_Conditions env) c m) = Some c' \<and> cStatus c' = cStatus c) \<and>
     (\<forall>c m ty. ty \<noteq> cType c \<and> ty \<noteq> ''Ready'' \<longrightarrow>
        co_GetCondition (ce_Conditions env) ty (co_Mark (ce_Conditions env) c m) = co_GetCondition (ce_Conditions env) ty m) \<and>
     (\<forall>ty ct ns resourceID q err q'. ce_deployments env ct ns resourceID q = (err, q') \<and> ty \<noteq> ct \<and> ty \<noteq> ''Ready'' \<longrightarrow>
        cm_condition env ty q' = cm_condition env ty q)"

lemma cm_mark_same:
  "condition_laws env \<Longrightarrow> \<exists>c'. cm_condition env (cType c) (cm_mark env c q) = Some c' \<and> cStatus c' = cStatus c"
  by (simp add: condition_laws_def cm_condition_def cm_mark_def)

lemma cm_mark_other:
  "condition_laws env \<Longrightarrow> ty \<noteq> cType c \<Longrightarrow> ty \<noteq> ''Ready'' \<Longrightarrow> cm_condition env ty (cm_mark env c q) = cm_condition env ty q"
  by (simp add: condition_laws_def cm_condition_def cm_mark_def)

lemma dependency_ready_mark:
  assumes "condition_laws env" and "dependency_ready env (cm_mark env c q) cfg" and "cType c = dm_ConditionType cfg"
  shows "cStatus c = ConditionTrue"
  using cm_mark_same [OF assms(1), of c q] assms(2,3) by (auto simp: dependency_ready_def)

text \<open>The evidence for a managed dependency: its deployments were found ready, and its operator's CR healthy.\<close>

definition dependency_evidence :: "('w, 'm, 'o, 'e) cm_env \<Rightarrow> string \<Rightarrow> DependencyMonitorConfig \<Rightarrow> bool" where
  "dependency_evidence env resourceID cfg \<longleftrightarrow>
     (dm_HasDeployments cfg \<longrightarrow>
        (\<exists>q q'. ce_deployments env (dm_ConditionType cfg) (dm_Namespace cfg) resourceID q = (None, q') \<and> dependency_ready env q' cfg)) \<and>
     (\<forall>cr. dm_OperatorCR cfg = Some cr \<longrightarrow>
        (\<exists>w result. CheckOperatorHealth (ce_Access env w) (health_config cfg cr) = Inr result \<and> ConditionStatus result = ConditionTrue))"

lemma check_deployments_other:
  assumes "condition_laws env" and "check_deployments env resourceID cfg q = (err, q')"
    and "ty \<noteq> dm_ConditionType cfg" and "ty \<noteq> ''Ready''"
  shows "cm_condition env ty q' = cm_condition env ty q"
proof (cases "dm_HasDeployments cfg")
  case True
  obtain e q1 where d: "ce_deployments env (dm_ConditionType cfg) (dm_Namespace cfg) resourceID q = (e, q1)"
    by (meson surj_pair)
  with True assms(2) have "q' = q1" by (auto simp: check_deployments_def split: option.splits)
  with d assms show ?thesis unfolding condition_laws_def by blast
next
  case False
  with assms(2) show ?thesis by (simp add: check_deployments_def)
qed

lemma check_operator_cr_other:
  assumes "condition_laws env" and "check_operator_cr env cfg q = (err, q')"
    and "ty \<noteq> dm_ConditionType cfg" and "ty \<noteq> ''Ready''"
  shows "cm_condition env ty q' = cm_condition env ty q"
  using assms by (auto simp: check_operator_cr_def Let_def cm_mark_other split: option.splits sum.splits if_splits)

lemma monitor_dependency_other:
  assumes "condition_laws env" and "monitor_dependency env resourceID cfg q = (None, q')"
    and "ty \<noteq> dm_ConditionType cfg" and "ty \<noteq> ''Ready''"
  shows "cm_condition env ty q' = cm_condition env ty q"
proof (cases "dm_Policy cfg = Unmanaged")
  case True
  with assms show ?thesis by (auto simp: monitor_dependency_def cm_mark_other)
next
  case False
  with assms(2) obtain q1 q2 where q1: "check_deployments env resourceID cfg q = (None, q1)" and q2: "check_operator_cr env cfg q1 = (None, q2)"
    and q': "q' = (if \<not> dm_HasDeployments cfg \<and> dm_OperatorCR cfg = None then cm_mark env (cond (dm_ConditionType cfg) ConditionTrue '''' '''') q2 else q2)"
    by (auto simp: monitor_dependency_def split: prod.splits option.splits)
  have "cm_condition env ty q' = cm_condition env ty q2"
    using assms q' by (simp add: cm_mark_other)
  with check_deployments_other [OF assms(1) q1 assms(3,4)] check_operator_cr_other [OF assms(1) q2 assms(3,4)] show ?thesis
    by simp
qed

lemma check_operator_cr_ready:
  assumes "condition_laws env" and "check_operator_cr env cfg q = (None, q')" and "dependency_ready env q' cfg"
  shows "q' = q \<and> (\<forall>cr. dm_OperatorCR cfg = Some cr \<longrightarrow>
    (\<exists>w result. CheckOperatorHealth (ce_Access env w) (health_config cfg cr) = Inr result \<and> ConditionStatus result = ConditionTrue))"
proof (cases "dm_OperatorCR cfg")
  case None
  with assms(2) show ?thesis by (simp add: check_operator_cr_def)
next
  case (Some cr)
  show ?thesis
  proof (cases "case cm_condition env (dm_ConditionType cfg) q of None \<Rightarrow> True | Some c \<Rightarrow> cStatus c \<noteq> ConditionFalse")
    case False
    with Some assms(2) have "q' = q" by (simp add: check_operator_cr_def)
    with False assms(3) show ?thesis by (auto simp: dependency_ready_def split: option.splits)
  next
    case True
    with Some assms(2) obtain result where res: "CheckOperatorHealth (ce_Access env (ku_World (cq_Kube q))) (health_config cfg cr) = Inr result"
      by (auto simp: check_operator_cr_def split: sum.splits)
    have "ConditionStatus result = ConditionTrue"
    proof (rule ccontr)
      assume bad: "ConditionStatus result \<noteq> ConditionTrue"
      with Some True res assms(2) obtain reason where
        "q' = cm_mark env (cond (dm_ConditionType cfg) (ConditionStatus result) reason (cr_Message result)) q"
        by (auto simp: check_operator_cr_def Let_def)
      with dependency_ready_mark [OF assms(1)] assms(3) have "ConditionStatus result = ConditionTrue"
        by fastforce
      with bad show False ..
    qed
    with Some True res assms(2) show ?thesis by (auto simp: check_operator_cr_def)
  qed
qed

lemma monitor_dependency_evidence:
  assumes "condition_laws env" and "monitor_dependency env resourceID cfg q = (None, q')"
    and "dependency_ready env q' cfg" and "dm_Policy cfg \<noteq> Unmanaged"
  shows "dependency_evidence env resourceID cfg"
proof -
  from assms(2,4) obtain q1 q2 where q1: "check_deployments env resourceID cfg q = (None, q1)" and q2: "check_operator_cr env cfg q1 = (None, q2)"
    and q': "q' = (if \<not> dm_HasDeployments cfg \<and> dm_OperatorCR cfg = None then cm_mark env (cond (dm_ConditionType cfg) ConditionTrue '''' '''') q2 else q2)"
    by (auto simp: monitor_dependency_def split: prod.splits option.splits)
  show ?thesis
  proof (cases "\<not> dm_HasDeployments cfg \<and> dm_OperatorCR cfg = None")
    case True
    then show ?thesis by (simp add: dependency_evidence_def)
  next
    case False
    with q' assms(3) have "dependency_ready env q2 cfg" by auto
    note cr = check_operator_cr_ready [OF assms(1) q2 this]
    with \<open>dependency_ready env q2 cfg\<close> have "dependency_ready env q1 cfg" by simp
    moreover have "ce_deployments env (dm_ConditionType cfg) (dm_Namespace cfg) resourceID q = (None, q1)" if "dm_HasDeployments cfg"
      using q1 that by (auto simp: check_deployments_def split: prod.splits option.splits)
    ultimately show ?thesis using cr unfolding dependency_evidence_def by blast
  qed
qed

lemma monitorDependencies_evidence:
  assumes "condition_laws env" and "monitorDependencies env resourceID cfgs q = (None, q')"
    and "distinct (map dm_ConditionType cfgs)" and "''Ready'' \<notin> set (map dm_ConditionType cfgs)"
  shows "(\<forall>ty. ty \<notin> set (map dm_ConditionType cfgs) \<and> ty \<noteq> ''Ready'' \<longrightarrow> cm_condition env ty q' = cm_condition env ty q) \<and>
    (\<forall>cfg \<in> set cfgs. dependency_ready env q' cfg \<and> dm_Policy cfg \<noteq> Unmanaged \<longrightarrow> dependency_evidence env resourceID cfg)"
  using assms(2-)
proof (induction cfgs arbitrary: q)
  case (Cons cfg cfgs)
  then obtain q1 where q1: "monitor_dependency env resourceID cfg q = (None, q1)"
    and rest: "monitorDependencies env resourceID cfgs q1 = (None, q')"
    by (auto split: prod.splits option.splits)
  from Cons.prems have "distinct (map dm_ConditionType cfgs)" "''Ready'' \<notin> set (map dm_ConditionType cfgs)"
    and ct: "dm_ConditionType cfg \<notin> set (map dm_ConditionType cfgs)" "dm_ConditionType cfg \<noteq> ''Ready''"
    by auto
  note IH = Cons.IH [OF rest this(1,2)]
  from IH ct have "cm_condition env (dm_ConditionType cfg) q' = cm_condition env (dm_ConditionType cfg) q1" by blast
  then have "dependency_ready env q' cfg = dependency_ready env q1 cfg" by (simp add: dependency_ready_def)
  with monitor_dependency_evidence [OF assms(1) q1] monitor_dependency_other [OF assms(1) q1] IH show ?case by simp
qed simp

lemma monitored_condition_types:
  assumes "BuildHelmCharts cli deps chartsPath owner k = (Inr r, k')"
  shows "map dm_ConditionType (br_MonitorConfigs r) = [''GatewayAPIReady'', ''LWSReady'', ''SailOperatorReady'', ''RHCLReady'']"
proof -
  from build_loop_states [OF assms [unfolded BuildHelmCharts_def]] obtain states evs where
    len: "length states = length (allChartDefs deps chartsPath)"
    and r: "r = foldl (\<lambda>r (def, s). add_chart def s r) empty_result (zip (allChartDefs deps chartsPath) states)"
    by (auto dest: list_all2_lengthD)
  have "map dm_ConditionType (br_MonitorConfigs r) = map fst (map (\<lambda>c. (dm_ConditionType c, dm_Policy c)) (br_MonitorConfigs r))"
    by simp
  also have "\<dots> = map (\<lambda>(def, s). mc_ConditionType (cd_monitor def)) (zip (allChartDefs deps chartsPath) states)"
    unfolding r foldl_add_chart(4) by (simp add: empty_result_def split_def comp_def)
  also have "\<dots> = map (\<lambda>def. mc_ConditionType (cd_monitor def)) (map fst (zip (allChartDefs deps chartsPath) states))"
    by (simp add: split_def comp_def)
  also have "\<dots> = map (\<lambda>def. mc_ConditionType (cd_monitor def)) (allChartDefs deps chartsPath)"
    using len by simp
  finally show ?thesis by (simp add: allChartDefs_def Let_def)
qed

lemma summary_condition:
  assumes "condition_laws env"
  shows "\<exists>c. cm_condition env ''DependenciesReady'' (summarizeDependencyStatus env cfgs q) = Some c \<and>
    (cStatus c = ConditionTrue \<longleftrightarrow> (\<forall>cfg \<in> set cfgs. dependency_ready env q cfg))"
proof (cases "\<forall>cfg \<in> set cfgs. dependency_ready env q cfg")
  case True
  then have "summarizeDependencyStatus env cfgs q = cm_mark env (cond ''DependenciesReady'' ConditionTrue '''' '''') q"
    by (auto simp: summarizeDependencyStatus_def Let_def filter_empty_conv)
  with True cm_mark_same [OF assms, of "cond ''DependenciesReady'' ConditionTrue '''' ''''" q] show ?thesis by auto
next
  case False
  define c where "c = (cond ''DependenciesReady'' ConditionFalse ''NotReady''
    (''Dependencies not ready: '' @ strings_Join (map dm_ReleaseName (filter (\<lambda>cfg. \<not> dependency_ready env q cfg) cfgs)) '', ''))
      \<lparr>cSeverity := ConditionSeverityError\<rparr>"
  have c: "cType c = ''DependenciesReady''" "cStatus c = ConditionFalse"
    by (simp_all add: c_def)
  have "summarizeDependencyStatus env cfgs q = cm_mark env c q"
    using False by (auto simp: summarizeDependencyStatus_def Let_def c_def filter_empty_conv)
  with False cm_mark_same [OF assms, of c q] c show ?thesis by auto
qed

lemma summary_other:
  "condition_laws env \<Longrightarrow> ty \<noteq> ''DependenciesReady'' \<Longrightarrow> ty \<noteq> ''Ready'' \<Longrightarrow>
    cm_condition env ty (summarizeDependencyStatus env cfgs q) = cm_condition env ty q"
  by (simp add: summarizeDependencyStatus_def Let_def cm_mark_other)

text \<open>
  Ready dependencies. When the combined action of the cloud manager ends without an error, it has set \<open>DependenciesReady\<close>: true exactly
  when the conditions of all four dependencies are, and then each managed dependency had its deployments found ready and its operator's CR
  healthy in this run.
\<close>

theorem dependencies_ready_needs_evidence:
  assumes "condition_laws env" and "NewReconcileAction env resourceID (buildCharts env) = Inr act" and "act q = ([], q')"
  shows "\<exists>result q1 c. buildCharts env q = (Inr result, q1) \<and>
    map dm_ConditionType (br_MonitorConfigs result) = [''GatewayAPIReady'', ''LWSReady'', ''SailOperatorReady'', ''RHCLReady''] \<and>
    cm_condition env ''DependenciesReady'' q' = Some c \<and>
    (cStatus c = ConditionTrue \<longleftrightarrow> (\<forall>cfg \<in> set (br_MonitorConfigs result). dependency_ready env q' cfg)) \<and>
    (cStatus c = ConditionTrue \<longrightarrow>
       (\<forall>cfg \<in> set (br_MonitorConfigs result). dm_Policy cfg \<noteq> Unmanaged \<longrightarrow>
          dependency_evidence env (NormalizePartOfValue resourceID) cfg))"
proof -
  let ?id = "NormalizePartOfValue resourceID"
  from assms(2) have act: "act = (\<lambda>q. case buildCharts env q of (Inl err, q) \<Rightarrow> ([err], q)
      | (Inr result, q) \<Rightarrow> reconcile_steps env ?id result q)"
    by (auto simp: NewReconcileAction_def Let_def split: if_splits)
  with assms(3) obtain result q1 where b: "buildCharts env q = (Inr result, q1)"
    and steps: "reconcile_steps env ?id result q1 = ([], q')"
    by (auto split: prod.splits sum.splits)
  let ?cfgs = "br_MonitorConfigs result"
  from steps obtain q5 q6 where m: "monitorDependencies env ?id ?cfgs q5 = (None, q6)"
    and q': "q' = summarizeDependencyStatus env ?cfgs q6"
    by (auto simp: reconcile_steps_def split: prod.splits option.splits list.splits)
  from b have types: "map dm_ConditionType ?cfgs = [''GatewayAPIReady'', ''LWSReady'', ''SailOperatorReady'', ''RHCLReady'']"
    by (auto simp: buildCharts_def split: if_splits option.splits prod.splits intro: monitored_condition_types)
  from monitorDependencies_evidence [OF assms(1) m] types
  have ev: "\<forall>cfg \<in> set ?cfgs. dependency_ready env q6 cfg \<and> dm_Policy cfg \<noteq> Unmanaged \<longrightarrow> dependency_evidence env ?id cfg"
    by simp
  have same: "dependency_ready env q' cfg = dependency_ready env q6 cfg" if "cfg \<in> set ?cfgs" for cfg
  proof -
    from that have "dm_ConditionType cfg \<in> set (map dm_ConditionType ?cfgs)" by simp
    with types have "dm_ConditionType cfg \<noteq> ''DependenciesReady''" "dm_ConditionType cfg \<noteq> ''Ready''" by auto
    with q' show ?thesis by (simp add: dependency_ready_def summary_other [OF assms(1)])
  qed
  from summary_condition [OF assms(1), of ?cfgs q6] q' obtain c where
    "cm_condition env ''DependenciesReady'' q' = Some c" "cStatus c = ConditionTrue \<longleftrightarrow> (\<forall>cfg \<in> set ?cfgs. dependency_ready env q6 cfg)"
    by blast
  with b types ev same show ?thesis
    by (intro exI [of _ result] exI [of _ q1] exI [of _ c]) auto
qed

section \<open>A run of the cloud manager\<close>

definition demo_marks :: "condition list condition_ops" where
  "demo_marks = \<lparr>co_Mark = (\<lambda>c m. c # m), co_GetCondition = (\<lambda>ty m. find (\<lambda>c. cType c = ty) m)\<rparr>"

definition demo_workload :: k8s_object where
  "demo_workload = demo_object ''apps'' ''v1'' ''Deployment'' ''ns'' ''operator''"

definition demo_account :: k8s_object where
  "demo_account = demo_object '''' ''v1'' ''ServiceAccount'' ''ns'' ''operator''"

definition demo_health :: "unit \<Rightarrow> (unit, unit) cr_access" where
  "demo_health w = \<lparr>ca_get = (\<lambda>g n ns. Inr ()), ca_list = (\<lambda>g ns. Inr []), ca_name = (\<lambda>u. ''cluster''),
     ca_conditions = (\<lambda>u. Inr None), ca_fields = (\<lambda>u. None)\<rparr>"

definition demo_cm_env :: "'w kube_client \<Rightarrow> ('w, condition list, unit, unit) cm_env" where
  "demo_cm_env cli =
     \<lparr>ce_Instance = demo_engine, ce_Client = cli, ce_DefaultUnremovables = [], ce_helm_New = (\<lambda>cs. None),
      ce_helm_Process = (\<lambda>cs. Inr [demo_workload, demo_account]),
      ce_helmRender = (\<lambda>q. (None, q)), ce_deployAction = (\<lambda>q. (None, q)),
      ce_deployments = (\<lambda>ct ns i q. (None, q\<lparr>cq_Conditions := cond ct ConditionTrue '''' '''' # cq_Conditions q\<rparr>)),
      ce_Conditions = demo_marks, ce_Access = (\<lambda>w. demo_health ())\<rparr>"

definition demo_charts :: "cloud_chart list" where
  "demo_charts = [\<lparr>ch_Source = chart_source ''/charts'' ''rhcl-operator'' [], ch_PreApply = [], ch_PostApply = []\<rparr>]"

definition demo_cm_request :: "'w \<Rightarrow> ('w, condition list) cm_request" where
  "demo_cm_request w =
     \<lparr>cq_Kube = \<lparr>ku_World = w, ku_Trace = []\<rparr>, cq_Deferred = {}, cq_Generated = True, cq_ChartsBasePath = ''/charts'',
      cq_HelmCharts = [], cq_Resources = [], cq_Conditions = []\<rparr>"


definition account_store :: "unit kube_client" where
  "account_store =
     \<lparr>kc_Get = (\<lambda>g ns n w. (if g = ko_GVK demo_account then Inr demo_account else Inl (ApiFailure ''not found'' ApiNotFound), w)),
      kc_Delete = (\<lambda>u p w. (None, w)), kc_Patch = (\<lambda>u p w. (None, w))\<rparr>"

lemma object_store_kinds: "get_keeps_kind object_store"
  by (auto simp: get_keeps_kind_def object_store_def find_Some_iff split: option.splits)

lemmas demo_run_defs = cleanupExcludedCharts_def render_charts_def demo_cm_env_def demo_charts_def demo_cm_request_def
  cleanup_resources_def cleanup_unremovables_def unremovableGVKs_def Namespace_gvk_def deleteOwnedResource_def getOwnedLive_def
  kube_Get_def kube_Delete_def demo_workload_def demo_account_def demo_object_def demo_engine_def
  isAccessControlKind_def isWorkloadKind_def owned_by_uid_def absent_def api_error_def
  markAccessControlCleanupDeferred_def clearAccessControlCleanupDeferred_def accessControlCleanupRequeueAfter_def Let_def

definition demo_cleanup :: "go_error list \<times> (k8s_object list, condition list) cm_request" where
  "demo_cleanup = cleanupExcludedCharts (demo_cm_env object_store) demo_charts (demo_cm_request [demo_workload, demo_account])"

lemma demo_cleanup_trace: "\<exists>errs q'. demo_cleanup = (errs, q') \<and>
  ku_Trace (cq_Kube q') =
    [Fetched (ko_GVK demo_workload) ''ns'' ''operator'' (Inr demo_workload), Deletion demo_workload Foreground None,
     Fetched (ko_GVK demo_workload) ''ns'' ''operator'' (Inl (ApiFailure ''not found'' ApiNotFound)),
     Fetched (ko_GVK demo_account) ''ns'' ''operator'' (Inr demo_account), Deletion demo_account Foreground None]"
  by (simp add: demo_cleanup_def demo_run_defs object_store_def)

theorem access_control_outlives_workloads_witness:
  "\<exists>errs q' passA gate passB. demo_cleanup = (errs, q') \<and> access_control_deleted (ku_Trace (cq_Kube q')) \<and>
    ku_Trace (cq_Kube q') = passA @ gate @ passB \<and> \<not> access_control_deleted passA \<and> only_reads gate \<and>
    deletes_only_owned (demo_cm_env object_store) [demo_workload, demo_account] (passA @ gate @ passB)"
proof -
  let ?env = "demo_cm_env object_store"
  from demo_cleanup_trace obtain errs q' where run: "demo_cleanup = (errs, q')"
    and trace: "Deletion demo_account Foreground None \<in> set (ku_Trace (cq_Kube q'))" by auto
  have kinds: "get_keeps_kind (ce_Client ?env)" by (simp add: demo_cm_env_def object_store_kinds)
  have us: "render_charts ?env demo_charts = Inr [demo_workload, demo_account]"
    by (simp add: render_charts_def demo_cm_env_def)
  have start: "ku_Trace (cq_Kube (demo_cm_request [demo_workload, demo_account])) = []" by (simp add: demo_cm_request_def)
  have deleted: "access_control_deleted (ku_Trace (cq_Kube q'))"
    using trace unfolding access_control_deleted_def by (force simp: demo_account_def demo_object_def isAccessControlKind_def)
  from access_control_outlives_workloads [OF kinds run [unfolded demo_cleanup_def]] show ?thesis
  proof (elim exE disjE conjE)
    fix evs assume "ku_Trace (cq_Kube q') = ku_Trace (cq_Kube (demo_cm_request [demo_workload, demo_account])) @ evs" "evs = []"
    with start trace show ?thesis by simp
  next
    fix evs us' passA gate passB
    assume "ku_Trace (cq_Kube q') = ku_Trace (cq_Kube (demo_cm_request [demo_workload, demo_account])) @ evs"
      and "render_charts ?env demo_charts = Inr us'" and "evs = passA @ gate @ passB" and "deletes_only_owned ?env us' evs"
      and "only_reads gate" and "\<not> access_control_deleted passA"
    with us start run deleted show ?thesis
      by (intro exI [of _ errs] exI [of _ q'] exI [of _ passA] exI [of _ gate] exI [of _ passB]) simp
  qed
qed




theorem cleanup_completes_witness:
  "fst (cleanupExcludedCharts (demo_cm_env account_store) demo_charts (demo_cm_request ())) = [] \<and>
   (\<exists>evs. ku_Trace (cq_Kube (snd (cleanupExcludedCharts (demo_cm_env account_store) demo_charts (demo_cm_request ())))) = evs \<and>
      disposed (demo_cm_env account_store) demo_account evs)"
proof -
  let ?env = "demo_cm_env account_store"
  obtain errs q' where run: "cleanupExcludedCharts ?env demo_charts (demo_cm_request ()) = (errs, q')" by (meson surj_pair)
  have coop: "cooperative ?env"
    by (auto simp: cooperative_def demo_cm_env_def account_store_def absent_def api_error_def demo_account_def demo_object_def
        isWorkloadKind_def split: if_splits)
  have us: "render_charts ?env demo_charts = Inr [demo_workload, demo_account]"
    by (simp add: render_charts_def demo_cm_env_def)
  have "demo_charts \<noteq> []" "cq_Generated (demo_cm_request ()) \<or> isAccessControlCleanupDeferred ?env (demo_cm_request ())"
    "ko_GVK demo_account \<notin> set (cleanup_unremovables ?env)" "ku_Trace (cq_Kube (demo_cm_request ())) = []"
    by (simp_all add: demo_charts_def demo_cm_request_def demo_account_def demo_object_def cleanup_unremovables_def demo_cm_env_def
        unremovableGVKs_def Namespace_gvk_def)
  with cleanup_completes [OF coop _ us _ run] run show ?thesis by simp
qed

theorem finalizer_waits_for_dependencies_witness:
  "\<exists>k'. NewFinalizer (demo_cm_env account_store) FinalizerCleanupTargets \<lparr>ku_World = (), ku_Trace = []\<rparr> = (None, k') \<and>
    only_reads (ku_Trace k')"
proof -
  have "\<exists>k'. NewFinalizer (demo_cm_env account_store) FinalizerCleanupTargets \<lparr>ku_World = (), ku_Trace = []\<rparr> = (None, k')"
    by (simp add: FinalizerCleanupTargets_def IstioCleanupTarget_def finalize_target_def getCR_def kube_Get_def demo_cm_env_def
        account_store_def demo_account_def demo_object_def SailOperatorCR_def absent_def api_error_def)
  then show ?thesis using finalizer_waits_for_dependencies by fastforce
qed

definition demo_ready_request :: "(unit, condition list) cm_request" where
  "demo_ready_request = (demo_cm_request ())\<lparr>cq_Generated := False\<rparr>"

definition demo_action :: "(unit, condition list) cm_request \<Rightarrow> go_error list \<times> (unit, condition list) cm_request" where
  "demo_action q =
     (case buildCharts (demo_cm_env account_store) q of
        (Inl err, q) \<Rightarrow> ([err], q)
      | (Inr result, q) \<Rightarrow> reconcile_steps (demo_cm_env account_store) ''aws'' result q)"

lemma demo_condition_laws: "condition_laws (demo_cm_env cli)"
  by (auto simp: condition_laws_def demo_cm_env_def demo_marks_def cm_condition_def)

lemma normalized_aws: "NormalizePartOfValue '' AWS'' = ''aws''"
  by code_simp

lemma demo_action_new: "NewReconcileAction (demo_cm_env account_store) '' AWS'' (buildCharts (demo_cm_env account_store)) = Inr demo_action"
  by (simp add: NewReconcileAction_def normalized_aws demo_action_def [abs_def])

lemma demo_action_result:
  "fst (demo_action demo_ready_request) = []"
  "cm_condition (demo_cm_env account_store) ''DependenciesReady'' (snd (demo_action demo_ready_request)) =
     Some (cond ''DependenciesReady'' ConditionTrue '''' '''')"
  by code_simp+

theorem dependencies_ready_needs_evidence_witness:
  "\<exists>result q1 cfg. buildCharts (demo_cm_env account_store) demo_ready_request = (Inr result, q1) \<and>
    cfg \<in> set (br_MonitorConfigs result) \<and> dm_ConditionType cfg = ''LWSReady'' \<and>
    dependency_ready (demo_cm_env account_store) (snd (demo_action demo_ready_request)) cfg"
proof -
  obtain q' where run: "demo_action demo_ready_request = ([], q')"
    using demo_action_result(1) by (metis fst_conv surj_pair)
  from demo_action_result(2) run have c: "cm_condition (demo_cm_env account_store) ''DependenciesReady'' q' =
      Some (cond ''DependenciesReady'' ConditionTrue '''' '''')" by simp
  from dependencies_ready_needs_evidence [OF demo_condition_laws demo_action_new run] c
  obtain result q1 where r: "buildCharts (demo_cm_env account_store) demo_ready_request = (Inr result, q1)"
    "map dm_ConditionType (br_MonitorConfigs result) = [''GatewayAPIReady'', ''LWSReady'', ''SailOperatorReady'', ''RHCLReady'']"
    "\<forall>cfg \<in> set (br_MonitorConfigs result). dependency_ready (demo_cm_env account_store) q' cfg"
    by auto
  have "''LWSReady'' \<in> set (map dm_ConditionType (br_MonitorConfigs result))"
    unfolding r(2) by simp
  then obtain cfg where "cfg \<in> set (br_MonitorConfigs result)" "dm_ConditionType cfg = ''LWSReady''"
    by auto
  with r(1,3) run show ?thesis
    by (intro exI [of _ result] exI [of _ q1] exI [of _ cfg]) simp
qed

end
