(* ===== verification/Gateway_Status.thy ===== *)
theory Gateway_Status
  imports Gateway_Validation Kube_Client
begin

text \<open>
  The readiness of additional ingresses (\<open>internal/controller/services/gateway\<close>: \<open>gateway_ingress_status.go\<close>,
  \<open>gateway_auth_readiness.go\<close>, and the targets and results of \<open>gateway_auth_targets.go\<close>). Each additional ingress of a
  GatewayConfig has a Gateway, a bridge Route and an auth proxy; their conditions are kept per ingress, aggregated into its
  \<open>Ready\<close> condition, and from there into the condition \<open>AdditionalGatewaysReady\<close> of the GatewayConfig.

  The functions on lists of conditions (\<open>SetStatusCondition\<close>, \<open>FindStatusCondition\<close>) and the condition manager come from the
  controller framework and are parameters. What the API server answers is a record of observations, one answer for each position
  in the list of ingresses. \<open>k8s\<close> says whether the cluster is plain Kubernetes rather than OpenShift. The
  results of authentication live in the extensions of the request, a map by Gateway name.
\<close>

section \<open>Names\<close>

definition GetGatewayNamespace :: "bool \<Rightarrow> string" where
  "GetGatewayNamespace k8s = (if k8s then ''rh-ai-gateway'' else ''openshift-ingress'')"

definition GetDefaultGatewayName :: "bool \<Rightarrow> string" where
  "GetDefaultGatewayName k8s = (if k8s then ''rh-ai-gateway'' else ''data-science-gateway'')"

definition GatewayClassName :: string where
  "GatewayClassName = ''data-science-gateway-class''"

definition GetGatewayServiceFullName :: "string \<Rightarrow> string" where
  "GetGatewayServiceFullName gatewayName = gatewayName @ ''-'' @ GatewayClassName"

definition additionalGatewayInfrastructureConfigMapName :: "string \<Rightarrow> string" where
  "additionalGatewayInfrastructureConfigMapName ingressName = ingressName @ ''-config''"

definition additionalGatewayServiceTLSSecretName :: "string \<Rightarrow> string" where
  "additionalGatewayServiceTLSSecretName ingressName = ingressName @ ''-service-tls''"

definition additionalGatewayEnvoyFilterName :: "string \<Rightarrow> string" where
  "additionalGatewayEnvoyFilterName ingressName = ingressName @ ''-authn''"

abbreviation (input) KubeAuthProxyName :: string where "KubeAuthProxyName \<equiv> ''kube-auth-proxy''"
abbreviation (input) AuthClientID :: string where "AuthClientID \<equiv> ''data-science''"
abbreviation (input) OAuthCallbackRouteName :: string where "OAuthCallbackRouteName \<equiv> ''oauth-callback-route''"
abbreviation (input) AuthProxyCookieName :: string where "AuthProxyCookieName \<equiv> ''_oauth2_proxy''"

abbreviation (input) AdditionalGatewaysReady :: string where "AdditionalGatewaysReady \<equiv> ''AdditionalGatewaysReady''"
abbreviation (input) GatewayReady :: string where "GatewayReady \<equiv> ''GatewayReady''"
abbreviation (input) RouteAdmitted :: string where "RouteAdmitted \<equiv> ''RouteAdmitted''"
abbreviation (input) AuthenticationReady :: string where "AuthenticationReady \<equiv> ''AuthenticationReady''"
abbreviation (input) IngressReady :: string where "IngressReady \<equiv> ''Ready''"
abbreviation (input) ReconciliationPending :: string where "ReconciliationPending \<equiv> ''ReconciliationPending''"

section \<open>Conditions and configuration\<close>

text \<open>\<open>common.Condition\<close> with the two fields that matter here. A zero time is \<open>None\<close>.\<close>

record gen_condition = condition +
  cObservedGeneration :: int
  cLastTransitionTime :: "int option"

definition gen_cond :: "string \<Rightarrow> string \<Rightarrow> int \<Rightarrow> string \<Rightarrow> string \<Rightarrow> gen_condition" where
  "gen_cond ty st gen rs msg =
     \<lparr>cType = ty, cStatus = st, cReason = rs, cMessage = msg, cSeverity = SeverityUnset,
      cObservedGeneration = gen, cLastTransitionTime = None\<rparr>"

record condition_list_ops =
  cl_Set :: "gen_condition \<Rightarrow> gen_condition list \<Rightarrow> gen_condition list"
  cl_Find :: "gen_condition list \<Rightarrow> string \<Rightarrow> gen_condition option"

record 'm gateway_marks =
  gm_Mark :: "gen_condition \<Rightarrow> 'm \<Rightarrow> 'm"
  gm_GetCondition :: "string \<Rightarrow> 'm \<Rightarrow> gen_condition option"

record GatewayReference =
  gref_Name :: string
  gref_Namespace :: string

record AdditionalIngressStatus =
  as_Name :: string
  as_Hostname :: string
  as_GatewayRef :: GatewayReference
  as_Conditions :: "gen_condition list"

record GatewayConfig =
  gw_Name :: string
  gw_UID :: string
  gw_Generation :: int
  gw_Annotations :: "(string, string) gomap"
  gw_Spec :: GatewayConfigSpec
  gw_Domain :: string
  gw_AdditionalIngresses :: "AdditionalIngressStatus list"

section \<open>Targets and results of authentication\<close>

record authProxyTarget =
  pt_IngressName :: string
  pt_GatewayName :: string
  pt_Hostname :: string
  pt_ProxyName :: string
  pt_SecretName :: string
  pt_TLSName :: string
  pt_ClientID :: string
  pt_CallbackName :: string
  pt_FilterName :: string
  pt_DestinationRuleName :: string
  pt_CookieName :: string
  pt_MaxReplicas :: int
  pt_OIDC :: "OIDCConfig option"

definition isDefault :: "authProxyTarget \<Rightarrow> bool" where
  "isDefault t \<longleftrightarrow> pt_IngressName t = ''''"

definition getGatewayAuthProxyMaxReplicas :: "GatewayConfig \<Rightarrow> int" where
  "getGatewayAuthProxyMaxReplicas config =
     (case gs_AuthProxyMaxReplicas (gw_Spec config) of Some n \<Rightarrow> n | None \<Rightarrow> 10)"

definition defaultAuthProxyTarget :: "bool \<Rightarrow> string \<Rightarrow> GatewayConfig \<Rightarrow> authProxyTarget" where
  "defaultAuthProxyTarget k8s hostname config =
     \<lparr>pt_IngressName = '''', pt_GatewayName = GetDefaultGatewayName k8s, pt_Hostname = hostname,
      pt_ProxyName = KubeAuthProxyName, pt_SecretName = ''kube-auth-proxy-creds'', pt_TLSName = ''kube-auth-proxy-tls'',
      pt_ClientID = AuthClientID, pt_CallbackName = OAuthCallbackRouteName, pt_FilterName = ''data-science-authn-filter'',
      pt_DestinationRuleName = ''data-science-tls-rule'', pt_CookieName = AuthProxyCookieName,
      pt_MaxReplicas = getGatewayAuthProxyMaxReplicas config, pt_OIDC = gs_OIDC (gw_Spec config)\<rparr>"

definition additionalAuthProxyTarget :: "AdditionalIngress \<Rightarrow> GatewayConfig \<Rightarrow> authProxyTarget" where
  "additionalAuthProxyTarget ing config =
     \<lparr>pt_IngressName = ai_Name ing, pt_GatewayName = ai_Name ing, pt_Hostname = ai_Hostname ing,
      pt_ProxyName = KubeAuthProxyName @ ''-'' @ ai_Name ing, pt_SecretName = ai_Name ing @ ''-auth-creds'',
      pt_TLSName = ai_Name ing @ ''-auth-tls'', pt_ClientID = AuthClientID @ ''-'' @ ai_Name ing,
      pt_CallbackName = OAuthCallbackRouteName @ ''-'' @ ai_Name ing,
      pt_FilterName = additionalGatewayEnvoyFilterName (ai_Name ing),
      pt_DestinationRuleName = ai_Name ing @ ''-auth-destination'',
      pt_CookieName = AuthProxyCookieName @ ''_'' @ map (\<lambda>c. if c = CHR ''-'' then CHR ''_'' else c) (ai_Name ing),
      pt_MaxReplicas = (case ai_MaxReplicas ing of Some n \<Rightarrow> n | None \<Rightarrow> 10),
      pt_OIDC =
        (case (ai_OIDC ing, gs_OIDC (gw_Spec config)) of
           (Some own, Some shared) \<Rightarrow>
             Some (shared\<lparr>oi_ClientID := oi_ClientID own, oi_SecretName := oi_SecretName own,
                          oi_SecretKey := oi_SecretKey own, oi_SecretNamespace := oi_SecretNamespace own\<rparr>)
         | _ \<Rightarrow> None)\<rparr>"

record authProxyResult =
  ar_Target :: authProxyTarget
  ar_Condition :: gen_condition

definition failedPreparation :: "authProxyResult \<Rightarrow> bool" where
  "failedPreparation r \<longleftrightarrow>
     cStatus (ar_Condition r) = ConditionFalse \<and> cReason (ar_Condition r) = ''AuthenticationUnavailable''"

section \<open>The request\<close>

text \<open>
  The instance is \<open>None\<close> when it is of another type than GatewayConfig. Resources and templates are the ones collected for
  rendering and deployment.
\<close>

type_synonym auth_state = "(string, authProxyResult) gomap"

record 'm gateway_request =
  gq_Instance :: "GatewayConfig option"
  gq_AuthState :: auth_state
  gq_Conditions :: 'm

definition validateGatewayConfig :: "('m, 'z) gateway_request_scheme \<Rightarrow> go_error + GatewayConfig" where
  "validateGatewayConfig rr =
     (case gq_Instance rr of
        None \<Rightarrow> Inl (new_error ''instance is not of type *services.GatewayConfig'')
      | Some config \<Rightarrow> Inr config)"

definition auth_result :: "int \<Rightarrow> authProxyTarget \<Rightarrow> string \<Rightarrow> string \<Rightarrow> string \<Rightarrow> authProxyResult" where
  "auth_result gen target state reason message =
     \<lparr>ar_Target = target, ar_Condition = gen_cond AuthenticationReady state gen reason message\<rparr>"

definition recordAuthResult :: "int \<Rightarrow> authProxyTarget \<Rightarrow> string \<Rightarrow> string \<Rightarrow> string \<Rightarrow> auth_state \<Rightarrow> auth_state" where
  "recordAuthResult gen target state reason message =
     AList.update (pt_GatewayName target) (auth_result gen target state reason message)"

section \<open>What is read\<close>

record controller_ref =
  cr_UID :: string
  cr_Name :: string
  cr_Kind :: string

definition isOwnedByGatewayConfig :: "controller_ref option \<Rightarrow> GatewayConfig \<Rightarrow> bool" where
  "isOwnedByGatewayConfig controller config =
     (case controller of
        None \<Rightarrow> False
      | Some c \<Rightarrow> cr_UID c = gw_UID config \<and> cr_Name c = gw_Name config \<and> cr_Kind c = ''GatewayConfig'')"

text \<open>
  A Gateway: its controller, its status conditions (type and status), its listeners (name and host name), and whether its infrastructure refers to
  parameters.
\<close>

record gateway_view =
  gv_Controller :: "controller_ref option"
  gv_Conditions :: "(string \<times> string) list"
  gv_Listeners :: "(string \<times> string option) list"
  gv_ParametersRef :: bool

definition isGatewayReady :: "gateway_view \<Rightarrow> bool" where
  "isGatewayReady gateway \<longleftrightarrow> list_ex (\<lambda>(ty, st). ty = ''Accepted'' \<and> st = ConditionTrue) (gv_Conditions gateway)"

datatype int_or_string = IntPort int | StringPort string

record route_condition =
  rc_Type :: string
  rc_Status :: string
  rc_Reason :: string
  rc_Message :: string

record route_ingress =
  ri_Host :: string
  ri_RouterName :: string
  ri_Conditions :: "route_condition list"

record route_view =
  rv_Name :: string
  rv_Controller :: "controller_ref option"
  rv_Labels :: "(string, string) gomap"
  rv_Host :: string
  rv_ToName :: string
  rv_TargetPort :: "int_or_string option"
  rv_Ingress :: "route_ingress list"

record deployment_view =
  dv_Generation :: int
  dv_ObservedGeneration :: int
  dv_Replicas :: "int option"
  dv_AvailableReplicas :: int

record ingress_reads =
  rd_Gateway :: "nat \<Rightarrow> string \<Rightarrow> api_failure + gateway_view"
  rd_Route :: "nat \<Rightarrow> string \<Rightarrow> api_failure + route_view"
  rd_Deployment :: "nat \<Rightarrow> string \<Rightarrow> api_failure + deployment_view"

definition checkKubeAuthProxyDeployment :: "bool \<Rightarrow> string \<Rightarrow> api_failure + deployment_view \<Rightarrow> go_error + string" where
  "checkKubeAuthProxyDeployment k8s name answer =
     (let key = GetGatewayNamespace k8s @ ''/'' @ name in
      case answer of
        Inl err \<Rightarrow>
          if err_is NotFound (api_error err) then Inr (''waiting for kube-auth-proxy Deployment '' @ key)
          else Inl (wrap (''failed to get kube-auth-proxy Deployment '' @ key) (api_error err))
      | Inr d \<Rightarrow>
          let replicas = (case dv_Replicas d of Some n \<Rightarrow> n | None \<Rightarrow> 1) in
          if dv_ObservedGeneration d < dv_Generation d \<or> dv_AvailableReplicas d < replicas
          then Inr (''waiting for kube-auth-proxy Deployment '' @ key @ '' to become available'')
          else Inr '''')"

section \<open>Conditions of one ingress\<close>

definition firstNonEmpty :: "string list \<Rightarrow> string" where
  "firstNonEmpty values = (case find (\<lambda>v. v \<noteq> '''') values of Some v \<Rightarrow> v | None \<Rightarrow> '''')"

definition conditionDetails :: "string \<Rightarrow> string \<Rightarrow> string" where
  "conditionDetails reason message =
     (if reason = '''' then message else if message = '''' then reason else reason @ '': '' @ message)"

definition set_status_condition :: "condition_list_ops \<Rightarrow> gen_condition \<Rightarrow> AdditionalIngressStatus \<Rightarrow> AdditionalIngressStatus" where
  "set_status_condition ops c status = status\<lparr>as_Conditions := cl_Set ops c (as_Conditions status)\<rparr>"

definition setAdditionalIngressCondition ::
  "condition_list_ops \<Rightarrow> int \<Rightarrow> string \<Rightarrow> string \<Rightarrow> string \<Rightarrow> string \<Rightarrow> AdditionalIngressStatus \<Rightarrow> AdditionalIngressStatus" where
  "setAdditionalIngressCondition ops generation conditionType conditionStatus reason message =
     set_status_condition ops (gen_cond conditionType conditionStatus generation reason message)"

definition status_of :: "string \<Rightarrow> AdditionalIngressStatus list \<Rightarrow> AdditionalIngressStatus option" where
  "status_of name statuses = find (\<lambda>s. as_Name s = name) statuses"

definition additionalIngressStatusByName :: "GatewayConfig \<Rightarrow> string \<Rightarrow> AdditionalIngressStatus option" where
  "additionalIngressStatusByName config name = status_of name (gw_AdditionalIngresses config)"

text \<open>A write through the pointer that the lookup returns.\<close>

fun update_first :: "('a \<Rightarrow> bool) \<Rightarrow> ('a \<Rightarrow> 'a) \<Rightarrow> 'a list \<Rightarrow> 'a list" where
  "update_first P f [] = []"
| "update_first P f (x # xs) = (if P x then f x # xs else x # update_first P f xs)"

definition on_status :: "string \<Rightarrow> (AdditionalIngressStatus \<Rightarrow> AdditionalIngressStatus) \<Rightarrow> GatewayConfig \<Rightarrow> GatewayConfig" where
  "on_status name f config =
     config\<lparr>gw_AdditionalIngresses := update_first (\<lambda>s. as_Name s = name) f (gw_AdditionalIngresses config)\<rparr>"

definition additionalIngressHasGatewayConflict :: "condition_list_ops \<Rightarrow> GatewayConfig \<Rightarrow> string \<Rightarrow> bool" where
  "additionalIngressHasGatewayConflict ops config name =
     (case additionalIngressStatusByName config name of
        None \<Rightarrow> False
      | Some status \<Rightarrow>
          (case cl_Find ops (as_Conditions status) GatewayReady of
             None \<Rightarrow> False
           | Some c \<Rightarrow> cObservedGeneration c = gw_Generation config \<and> cStatus c = ConditionFalse \<and>
               (cReason c = ''OwnershipConflict'' \<or> cReason c = ''HostnameConflict'')))"

text \<open>The aggregate: the first false condition decides, then the first one that is missing, outdated or not true.\<close>

fun ready_scan ::
  "condition_list_ops \<Rightarrow> gen_condition list \<Rightarrow> int \<Rightarrow> string list \<Rightarrow> gen_condition option \<Rightarrow> gen_condition option \<Rightarrow>
     gen_condition option \<times> gen_condition option" where
  "ready_scan ops conds generation [] failed pending = (failed, pending)"
| "ready_scan ops conds generation (ty # tys) failed pending =
     (case cl_Find ops conds ty of
        Some c \<Rightarrow>
          if cObservedGeneration c \<noteq> generation then
            ready_scan ops conds generation tys failed
              (case pending of Some p \<Rightarrow> Some p | None \<Rightarrow>
                 Some (gen_cond ty ConditionUnknown 0 ReconciliationPending ''Condition has not observed the current GatewayConfig generation''))
          else
            ready_scan ops conds generation tys
              (if cStatus c = ConditionFalse \<and> failed = None then Some c else failed)
              (if cStatus c \<noteq> ConditionTrue \<and> pending = None then Some c else pending)
      | None \<Rightarrow>
          ready_scan ops conds generation tys failed
            (case pending of Some p \<Rightarrow> Some p | None \<Rightarrow>
               Some (gen_cond ty ConditionUnknown 0 ReconciliationPending ''Condition has not observed the current GatewayConfig generation'')))"

definition updateAdditionalIngressReadyCondition ::
  "condition_list_ops \<Rightarrow> int \<Rightarrow> AdditionalIngressStatus \<Rightarrow> AdditionalIngressStatus" where
  "updateAdditionalIngressReadyCondition ops generation status =
     (case ready_scan ops (as_Conditions status) generation [GatewayReady, RouteAdmitted, AuthenticationReady] None None of
        (Some failed, _) \<Rightarrow>
          setAdditionalIngressCondition ops generation IngressReady ConditionFalse
            (firstNonEmpty [cReason failed, ''NotReady''])
            (cType failed @ '': '' @ (if cMessage failed = '''' then cReason failed else cMessage failed)) status
      | (None, Some pending) \<Rightarrow>
          setAdditionalIngressCondition ops generation IngressReady ConditionUnknown
            (firstNonEmpty [cReason pending, ReconciliationPending]) (cType pending @ '': '' @ cMessage pending) status
      | (None, None) \<Rightarrow>
          setAdditionalIngressCondition ops generation IngressReady ConditionTrue ''Ready''
            ''Gateway, Route, and authentication are ready'' status)"

section \<open>The statuses of a new pass\<close>

text \<open>\<open>m[key(x)] = x\<close> for each element in turn: a later one replaces an earlier one.\<close>

definition index_by :: "('a \<Rightarrow> 'k) \<Rightarrow> 'a list \<Rightarrow> 'k \<Rightarrow> 'a option" where
  "index_by key xs = map_of (rev (map (\<lambda>x. (key x, x)) xs))"

definition additionalIngressConditionTypes :: "string list" where
  "additionalIngressConditionTypes = [GatewayReady, RouteAdmitted, AuthenticationReady, IngressReady]"

definition currentAdditionalIngressConditions :: "int \<Rightarrow> gen_condition list \<Rightarrow> int \<Rightarrow> gen_condition list" where
  "currentAdditionalIngressConditions now conditions generation =
     map (\<lambda>ty.
        let fresh = (gen_cond ty ConditionUnknown generation ReconciliationPending ''Ingress readiness has not been observed yet'')
              \<lparr>cLastTransitionTime := Some now\<rparr> in
        case index_by cType conditions ty of
          None \<Rightarrow> fresh
        | Some c \<Rightarrow>
            if cObservedGeneration c = generation then c
            else if cStatus c = ConditionUnknown \<and> cLastTransitionTime c \<noteq> None
            then fresh\<lparr>cLastTransitionTime := cLastTransitionTime c\<rparr> else fresh)
       additionalIngressConditionTypes"

definition zero_ingress_status :: AdditionalIngressStatus where
  "zero_ingress_status =
     \<lparr>as_Name = '''', as_Hostname = '''', as_GatewayRef = \<lparr>gref_Name = '''', gref_Namespace = ''''\<rparr>, as_Conditions = []\<rparr>"

definition buildAdditionalIngressStatuses ::
  "bool \<Rightarrow> int \<Rightarrow> AdditionalIngress list \<Rightarrow> AdditionalIngressStatus list \<Rightarrow> int \<Rightarrow> AdditionalIngressStatus list" where
  "buildAdditionalIngressStatuses k8s now specs previous generation =
     map (\<lambda>spec.
        let ref = \<lparr>gref_Name = ai_Name spec, gref_Namespace = GetGatewayNamespace k8s\<rparr>;
            previousStatus = (case index_by as_Name previous (ai_Name spec) of Some s \<Rightarrow> s | None \<Rightarrow> zero_ingress_status);
            conditions = (if as_GatewayRef previousStatus \<noteq> ref then [] else as_Conditions previousStatus)
        in \<lparr>as_Name = ai_Name spec, as_Hostname = ai_Hostname spec, as_GatewayRef = ref,
            as_Conditions = currentAdditionalIngressConditions now conditions generation\<rparr>) specs"

section \<open>Aggregation\<close>

text \<open>A Go \<open>range\<close> over the results: in the order of the list.\<close>

definition publishAdditionalIngressAuthConditions ::
  "condition_list_ops \<Rightarrow> auth_state \<Rightarrow> GatewayConfig \<Rightarrow> GatewayConfig" where
  "publishAdditionalIngressAuthConditions ops state config =
     fold (\<lambda>(_, r). on_status (pt_IngressName (ar_Target r)) (set_status_condition ops (ar_Condition r))) state config"

fun aggregate_ingresses ::
  "condition_list_ops \<Rightarrow> AdditionalIngress list \<Rightarrow> string list \<Rightarrow> string list \<Rightarrow> GatewayConfig \<Rightarrow>
     string list \<times> string list \<times> GatewayConfig" where
  "aggregate_ingresses ops [] failed pending config = (failed, pending, config)"
| "aggregate_ingresses ops (ing # rest) failed pending config =
     (let generation = gw_Generation config;
          config = on_status (ai_Name ing) (updateAdditionalIngressReadyCondition ops generation) config;
          condition = (case additionalIngressStatusByName config (ai_Name ing) of
                         None \<Rightarrow> None | Some status \<Rightarrow> cl_Find ops (as_Conditions status) IngressReady)
      in case condition of
           None \<Rightarrow> aggregate_ingresses ops rest failed (pending @ [ai_Name ing]) config
         | Some c \<Rightarrow>
             if cObservedGeneration c \<noteq> generation then aggregate_ingresses ops rest failed (pending @ [ai_Name ing]) config
             else if cStatus c = ConditionFalse then aggregate_ingresses ops rest (failed @ [ai_Name ing]) pending config
             else if cStatus c \<noteq> ConditionTrue then aggregate_ingresses ops rest failed (pending @ [ai_Name ing]) config
             else aggregate_ingresses ops rest failed pending config)"

definition gateways_ready_condition :: "AdditionalIngress list \<Rightarrow> int \<Rightarrow> string list \<Rightarrow> string list \<Rightarrow> gen_condition" where
  "gateways_ready_condition ingresses generation failed pending =
     (let (st, reason, message) =
        (if failed \<noteq> [] then
           (ConditionFalse, ''NotReady'', ''Additional Gateways are not ready: '' @ strings_Join failed '', '')
         else if pending \<noteq> [] then
           (ConditionUnknown, ReconciliationPending, ''Additional Gateway readiness is pending: '' @ strings_Join pending '', '')
         else if ingresses = [] then
           (ConditionTrue, ''NoAdditionalGateways'', ''No additional Gateways are configured'')
         else (ConditionTrue, ''Ready'', ''All additional Gateways are ready''))
      in (gen_cond AdditionalGatewaysReady st generation reason message)\<lparr>cSeverity := ConditionSeverityError\<rparr>)"

definition updateAdditionalGatewaysReadyCondition ::
  "condition_list_ops \<Rightarrow> 'm gateway_marks \<Rightarrow> GatewayConfig \<Rightarrow> ('m, 'z) gateway_request_scheme \<Rightarrow> ('m, 'z) gateway_request_scheme" where
  "updateAdditionalGatewaysReadyCondition ops marks config rr =
     (let config = publishAdditionalIngressAuthConditions ops (gq_AuthState rr) config;
          ingresses = gs_AdditionalIngresses (gw_Spec config);
          (failed, pending, config) = aggregate_ingresses ops ingresses [] [] config
      in rr\<lparr>gq_Instance := Some config,
            gq_Conditions := gm_Mark marks (gateways_ready_condition ingresses (gw_Generation config) failed pending) (gq_Conditions rr)\<rparr>)"

definition syncAdditionalIngressStatus ::
  "condition_list_ops \<Rightarrow> 'm gateway_marks \<Rightarrow> bool \<Rightarrow> int \<Rightarrow> ('m, 'z) gateway_request_scheme \<Rightarrow>
     go_error option \<times> ('m, 'z) gateway_request_scheme" where
  "syncAdditionalIngressStatus ops marks k8s now rr =
     (case validateGatewayConfig rr of
        Inl err \<Rightarrow> (Some err, rr)
      | Inr config \<Rightarrow>
          (None, updateAdditionalGatewaysReadyCondition ops marks
             (config\<lparr>gw_AdditionalIngresses :=
                buildAdditionalIngressStatuses k8s now (gs_AdditionalIngresses (gw_Spec config)) (gw_AdditionalIngresses config)
                  (gw_Generation config)\<rparr>) rr))"

definition syncAdditionalIngressReadyStatuses ::
  "condition_list_ops \<Rightarrow> ('m, 'z) gateway_request_scheme \<Rightarrow> go_error option \<times> ('m, 'z) gateway_request_scheme" where
  "syncAdditionalIngressReadyStatuses ops rr =
     (case validateGatewayConfig rr of
        Inl err \<Rightarrow> (Some err, rr)
      | Inr config \<Rightarrow>
          let config = publishAdditionalIngressAuthConditions ops (gq_AuthState rr) config
          in (None, rr\<lparr>gq_Instance := Some (config\<lparr>gw_AdditionalIngresses :=
               map (updateAdditionalIngressReadyCondition ops (gw_Generation config)) (gw_AdditionalIngresses config)\<rparr>)\<rparr>))"

definition recordAdditionalIngressRouteCondition ::
  "condition_list_ops \<Rightarrow> string \<Rightarrow> string \<Rightarrow> string \<Rightarrow> string \<Rightarrow> ('m, 'z) gateway_request_scheme \<Rightarrow> ('m, 'z) gateway_request_scheme" where
  "recordAdditionalIngressRouteCondition ops ingressName conditionStatus reason message rr =
     (case gq_Instance rr of
        None \<Rightarrow> rr
      | Some config \<Rightarrow>
          rr\<lparr>gq_Instance := Some (on_status ingressName
             (setAdditionalIngressCondition ops (gw_Generation config) RouteAdmitted conditionStatus reason message) config)\<rparr>)"

definition recordAllAdditionalIngressRouteConditions ::
  "condition_list_ops \<Rightarrow> AdditionalIngress list \<Rightarrow> string \<Rightarrow> string \<Rightarrow> ('m, 'z) gateway_request_scheme \<Rightarrow> ('m, 'z) gateway_request_scheme" where
  "recordAllAdditionalIngressRouteConditions ops ingresses reason message rr =
     fold (\<lambda>ing. recordAdditionalIngressRouteCondition ops (ai_Name ing) ConditionUnknown reason message) ingresses rr"

section \<open>Readiness of the Route\<close>

definition routeHasLabels :: "(string, string) gomap \<Rightarrow> (string, string) gomap \<Rightarrow> bool" where
  "routeHasLabels actual required \<longleftrightarrow> list_all (\<lambda>(key, value). map_of actual key = Some value) required"

definition gatewayRouteLabels :: "(string, string) gomap \<Rightarrow> (string, string) gomap" where
  "gatewayRouteLabels additional =
     AList.update ''app.kubernetes.io/part-of'' ''gatewayconfig'' (maps_Copy [] additional)"

definition admission_step ::
  "string \<Rightarrow> string \<Rightarrow> route_condition \<Rightarrow> route_condition option \<times> string list \<Rightarrow> route_condition option \<times> string list" where
  "admission_step controller router c acc =
     (case acc of (target, admitted) \<Rightarrow>
        if rc_Type c \<noteq> ''Admitted'' then (target, admitted)
        else
          let admitted = (if rc_Status c = ConditionTrue \<and> router \<noteq> '''' then List.insert router admitted else admitted)
          in if router \<noteq> controller then (target, admitted)
             else (if target = None \<or> rc_Status c = ConditionTrue then Some c else target, admitted))"

definition scan_admissions :: "AdditionalIngress \<Rightarrow> route_ingress list \<Rightarrow> route_condition option \<times> string list" where
  "scan_admissions ing entries =
     fold (\<lambda>e acc. if ri_Host e \<noteq> ai_Hostname ing then acc
                   else fold (admission_step (ai_IngressControllerName ing) (ri_RouterName e)) (ri_Conditions e) acc)
       entries (None, [])"

definition additionalIngressRouteCondition :: "route_view \<Rightarrow> AdditionalIngress \<Rightarrow> int \<Rightarrow> gen_condition" where
  "additionalIngressRouteCondition route ing generation =
     (let (target, admittedRouters) = scan_admissions ing (rv_Ingress route);
          controller = quoted (ai_IngressControllerName ing);
          details = (\<lambda>c. let d = conditionDetails (rc_Reason c) (rc_Message c) in if d = '''' then '''' else '': '' @ d);
          (st, reason, message) =
            (case target of
               None \<Rightarrow> (ConditionFalse, ''NotReady'', ''IngressController '' @ controller @ '' has not admitted the bridge Route'')
             | Some c \<Rightarrow>
                 if rc_Status c = ConditionTrue then
                   (ConditionTrue, ''Ready'', ''IngressController '' @ controller @ '' admitted the bridge Route'')
                 else if rc_Status c = ConditionFalse then
                   (ConditionFalse, ''NotReady'', ''IngressController '' @ controller @ '' has not admitted the bridge Route'' @ details c)
                 else
                   (ConditionUnknown, ReconciliationPending,
                    ''Waiting for IngressController '' @ controller @ '' to report Route admission'' @ details c));
          several = length admittedRouters > 1;
          message = (if several then message @ ''; bridge Route is admitted by multiple IngressControllers: '' @
                       strings_Join (sort admittedRouters) '', '' else message)
      in (gen_cond RouteAdmitted st generation
            (if several \<and> st = ConditionTrue then ''MultipleIngressControllers'' else reason) message)
         \<lparr>cSeverity := if several \<and> st = ConditionTrue then ConditionSeverityInfo else ConditionSeverityError\<rparr>)"

definition route_matches :: "route_view \<Rightarrow> AdditionalIngress \<Rightarrow> bool" where
  "route_matches route ing \<longleftrightarrow>
     rv_Host route = ai_Hostname ing \<and> rv_ToName route = GetGatewayServiceFullName (ai_Name ing) \<and>
     rv_TargetPort route = Some (IntPort 443)"

definition syncAdditionalIngressRouteReadiness ::
  "condition_list_ops \<Rightarrow> api_failure + route_view \<Rightarrow> GatewayConfig \<Rightarrow> AdditionalIngress \<Rightarrow> AdditionalIngressStatus \<Rightarrow>
     go_error option \<times> AdditionalIngressStatus" where
  "syncAdditionalIngressRouteReadiness ops answer config ing status =
     (let generation = gw_Generation config; set = setAdditionalIngressCondition ops generation RouteAdmitted in
      case answer of
        Inl err \<Rightarrow>
          if err_is NotFound (api_error err) \<or> err_is NoMatch (api_error err) then
            (None, set ConditionUnknown ReconciliationPending ''The bridge Route has not been observed yet'' status)
          else
            (Some (wrap (''failed to get additional ingress Route '' @ quoted (ai_Name ing)) (api_error err)),
             set ConditionUnknown ''StatusReadFailed'' ''The bridge Route status could not be read'' status)
      | Inr route \<Rightarrow>
          if \<not> isOwnedByGatewayConfig (rv_Controller route) config then
            (None, set ConditionFalse ''OwnershipConflict''
               (''Route '' @ quoted (rv_Name route) @ '' is not controlled by this GatewayConfig'') status)
          else if \<not> route_matches route ing then
            (None, set ConditionFalse ''NotReady''
               (''Route '' @ quoted (rv_Name route) @ '' does not match the configured hostname, Service, or HTTPS port'') status)
          else
            let c = additionalIngressRouteCondition route ing generation;
                c = (if cStatus c = ConditionTrue \<and> \<not> routeHasLabels (rv_Labels route) (gatewayRouteLabels (ai_RouteLabels ing))
                     then c\<lparr>cReason := ''PlacementMismatch'', cSeverity := ConditionSeverityInfo,
                            cMessage := cMessage c @ ''; bridge Route labels differ from configured placement labels''\<rparr>
                     else c)
            in (None, set_status_condition ops c status))"

section \<open>Readiness of the whole\<close>

definition syncAdditionalIngressAuthReadiness ::
  "bool \<Rightarrow> api_failure + deployment_view \<Rightarrow> GatewayConfig \<Rightarrow> AdditionalIngress \<Rightarrow> auth_state \<Rightarrow> bool \<times> auth_state" where
  "syncAdditionalIngressAuthReadiness k8s answer config ing state =
     (let known = map_of state (ai_Name ing);
          reason = (case known of None \<Rightarrow> '''' | Some r \<Rightarrow> cReason (ar_Condition r)) in
      if reason \<in> {''AuthenticationDisabled'', ''AuthenticationBlocked'', ''InvalidAuthenticationConfig''} then (False, state)
      else if (case known of None \<Rightarrow> False | Some r \<Rightarrow> failedPreparation r) then (True, state)
      else
        let target = additionalAuthProxyTarget ing config;
            (st, reason, message) =
              (case checkKubeAuthProxyDeployment k8s (pt_ProxyName target) answer of
                 Inl err \<Rightarrow> (ConditionUnknown, ''StatusReadFailed'', ''Authentication readiness could not be read'')
               | Inr pending \<Rightarrow>
                   if pending \<noteq> '''' then (ConditionFalse, ''NotReady'', pending)
                   else (ConditionTrue, ''Ready'', ''Authentication resources are ready for '' @ ai_Name ing))
        in (st \<noteq> ConditionTrue, recordAuthResult (gw_Generation config) target st reason message state))"

definition gateway_condition :: "int \<Rightarrow> AdditionalIngress \<Rightarrow> api_failure + gateway_view \<Rightarrow> gen_condition \<times> bool" where
  "gateway_condition generation ing answer =
     (let name = quoted (ai_Name ing) in
      case answer of
        Inl err \<Rightarrow>
          if err_is NotFound (api_error err) then
            (gen_cond GatewayReady ConditionUnknown generation ReconciliationPending (''Gateway '' @ name @ '' has not been observed yet''), False)
          else
            (gen_cond GatewayReady ConditionUnknown generation ''StatusReadFailed'' ''The additional Gateway status could not be read'', True)
      | Inr gateway \<Rightarrow>
          if isGatewayReady gateway
          then (gen_cond GatewayReady ConditionTrue generation ''Ready'' (''Gateway '' @ name @ '' is accepted''), False)
          else (gen_cond GatewayReady ConditionFalse generation ''NotReady'' (''Gateway '' @ name @ '' is not accepted''), False))"

definition sync_ingress ::
  "condition_list_ops \<Rightarrow> bool \<Rightarrow> ingress_reads \<Rightarrow> nat \<Rightarrow> AdditionalIngress \<Rightarrow> bool \<times> GatewayConfig \<times> auth_state \<Rightarrow>
     bool \<times> GatewayConfig \<times> auth_state" where
  "sync_ingress ops k8s reads i ing acc =
     (case acc of (retry, config, state) \<Rightarrow>
        case additionalIngressStatusByName config (ai_Name ing) of
          None \<Rightarrow> acc
        | Some status \<Rightarrow>
            if additionalIngressHasGatewayConflict ops config (ai_Name ing) then acc
            else
              let (c, failed) = gateway_condition (gw_Generation config) ing (rd_Gateway reads i (ai_Name ing));
                  (err, status) = syncAdditionalIngressRouteReadiness ops (rd_Route reads i (ai_Name ing)) config ing
                     (set_status_condition ops c status);
                  config = on_status (ai_Name ing) (\<lambda>_. status) config;
                  (again, state) = syncAdditionalIngressAuthReadiness k8s
                     (rd_Deployment reads i (pt_ProxyName (additionalAuthProxyTarget ing config))) config ing state
              in (retry \<or> failed \<or> err \<noteq> None \<or> again, config, state))"

fun sync_ingresses ::
  "condition_list_ops \<Rightarrow> bool \<Rightarrow> ingress_reads \<Rightarrow> nat \<Rightarrow> AdditionalIngress list \<Rightarrow> bool \<times> GatewayConfig \<times> auth_state \<Rightarrow>
     bool \<times> GatewayConfig \<times> auth_state" where
  "sync_ingresses ops k8s reads i [] acc = acc"
| "sync_ingresses ops k8s reads i (ing # rest) acc =
     sync_ingresses ops k8s reads (Suc i) rest (sync_ingress ops k8s reads i ing acc)"

definition syncAdditionalIngressReadiness ::
  "condition_list_ops \<Rightarrow> 'm gateway_marks \<Rightarrow> bool \<Rightarrow> ingress_reads \<Rightarrow> ('m, 'z) gateway_request_scheme \<Rightarrow>
     go_error option \<times> ('m, 'z) gateway_request_scheme" where
  "syncAdditionalIngressReadiness ops marks k8s reads rr =
     (case validateGatewayConfig rr of
        Inl err \<Rightarrow> (Some err, rr)
      | Inr config \<Rightarrow>
          let (retry, config, state) =
                sync_ingresses ops k8s reads 0 (gs_AdditionalIngresses (gw_Spec config)) (False, config, gq_AuthState rr)
          in (if retry then Some (GoError '''' [RequeueAfter (30 * second)]) else None,
              updateAdditionalGatewaysReadyCondition ops marks config (rr\<lparr>gq_AuthState := state\<rparr>)))"

section \<open>Lemmas: conditions\<close>

text \<open>
  What the framework promises: a condition that was set is found, with what was set; other types keep theirs. Nothing is
  said about times and severities.
\<close>

definition condition_list_laws :: "condition_list_ops \<Rightarrow> bool" where
  "condition_list_laws ops \<longleftrightarrow>
     (\<forall>c cs. \<exists>c'. cl_Find ops (cl_Set ops c cs) (cType c) = Some c' \<and> cType c' = cType c \<and> cStatus c' = cStatus c \<and>
        cReason c' = cReason c \<and> cMessage c' = cMessage c \<and> cObservedGeneration c' = cObservedGeneration c) \<and>
     (\<forall>c cs ty. ty \<noteq> cType c \<longrightarrow> cl_Find ops (cl_Set ops c cs) ty = cl_Find ops cs ty)"

text \<open>A condition that is true for the current generation.\<close>

definition part_true :: "condition_list_ops \<Rightarrow> int \<Rightarrow> AdditionalIngressStatus \<Rightarrow> string \<Rightarrow> bool" where
  "part_true ops generation status ty \<longleftrightarrow>
     (\<exists>c. cl_Find ops (as_Conditions status) ty = Some c \<and> cObservedGeneration c = generation \<and> cStatus c = ConditionTrue)"

lemma gen_cond_sel [simp]:
  "cType (gen_cond ty st gen rs msg) = ty" "cStatus (gen_cond ty st gen rs msg) = st"
  "cReason (gen_cond ty st gen rs msg) = rs" "cMessage (gen_cond ty st gen rs msg) = msg"
  "cObservedGeneration (gen_cond ty st gen rs msg) = gen"
  by (simp_all add: gen_cond_def)

lemma set_status_condition_name [simp]: "as_Name (set_status_condition ops c status) = as_Name status"
  by (simp add: set_status_condition_def)

lemma find_set_other:
  "condition_list_laws ops \<Longrightarrow> ty \<noteq> cType c \<Longrightarrow>
     cl_Find ops (as_Conditions (set_status_condition ops c status)) ty = cl_Find ops (as_Conditions status) ty"
  by (simp add: condition_list_laws_def set_status_condition_def)

lemma find_set_same:
  assumes "condition_list_laws ops"
  obtains c' where "cl_Find ops (as_Conditions (set_status_condition ops c status)) (cType c) = Some c'" "cStatus c' = cStatus c"
    "cObservedGeneration c' = cObservedGeneration c"
proof -
  obtain c' where c': "cl_Find ops (cl_Set ops c (as_Conditions status)) (cType c) = Some c'" "cStatus c' = cStatus c"
    "cObservedGeneration c' = cObservedGeneration c"
    using assms unfolding condition_list_laws_def by meson
  have "cl_Find ops (as_Conditions (set_status_condition ops c status)) (cType c) = Some c'"
    using c'(1) by (simp add: set_status_condition_def)
  then show thesis
    using c'(2,3) by (rule that)
qed

lemma part_true_set:
  assumes "condition_list_laws ops"
  shows "part_true ops generation (set_status_condition ops c status) ty \<longleftrightarrow>
    (if ty = cType c then cObservedGeneration c = generation \<and> cStatus c = ConditionTrue else part_true ops generation status ty)"
proof (cases "ty = cType c")
  case True
  obtain c' where "cl_Find ops (as_Conditions (set_status_condition ops c status)) (cType c) = Some c'" "cStatus c' = cStatus c"
    "cObservedGeneration c' = cObservedGeneration c"
    using assms by (rule find_set_same)
  with True show ?thesis
    by (auto simp: part_true_def)
next
  case False
  then show ?thesis
    using assms by (simp add: part_true_def find_set_other)
qed

abbreviation parts :: "string list" where
  "parts \<equiv> [GatewayReady, RouteAdmitted, AuthenticationReady]"

lemma ready_scan_none:
  "ready_scan ops (as_Conditions status) generation tys failed pending = (None, None) \<longleftrightarrow>
     failed = None \<and> pending = None \<and> list_all (part_true ops generation status) tys"
  by (induction tys arbitrary: failed pending) (auto simp: part_true_def split: option.splits)

lemma updateAdditionalIngressReadyCondition_sets:
  obtains st rs msg where "updateAdditionalIngressReadyCondition ops generation status =
      set_status_condition ops (gen_cond IngressReady st generation rs msg) status"
    "st = ConditionTrue \<longleftrightarrow> list_all (part_true ops generation status) parts"
proof -
  obtain failed pending where scan: "ready_scan ops (as_Conditions status) generation parts None None = (failed, pending)"
    by fastforce
  have "failed = None \<and> pending = None \<longleftrightarrow> list_all (part_true ops generation status) parts"
    using scan ready_scan_none [of ops status generation parts None None] by simp
  then show thesis
    using scan
    by (cases failed; cases pending)
      (auto intro!: that simp: updateAdditionalIngressReadyCondition_def setAdditionalIngressCondition_def)
qed

text \<open>The aggregate is true exactly when the three parts are, and setting it does not change them.\<close>

lemma updateAdditionalIngressReadyCondition_ready:
  assumes "condition_list_laws ops"
  shows "part_true ops generation (updateAdditionalIngressReadyCondition ops generation status) IngressReady \<longleftrightarrow>
    list_all (part_true ops generation status) parts"
  by (rule updateAdditionalIngressReadyCondition_sets [of ops generation status]) (simp add: part_true_set [OF assms])

lemma updateAdditionalIngressReadyCondition_parts:
  assumes "condition_list_laws ops" "ty \<noteq> IngressReady"
  shows "part_true ops generation' (updateAdditionalIngressReadyCondition ops generation status) ty \<longleftrightarrow> part_true ops generation' status ty"
  by (rule updateAdditionalIngressReadyCondition_sets [of ops generation status]) (use assms in \<open>simp add: part_true_set\<close>)

lemma updateAdditionalIngressReadyCondition_found:
  assumes "condition_list_laws ops"
  obtains c where "cl_Find ops (as_Conditions (updateAdditionalIngressReadyCondition ops generation status)) IngressReady = Some c"
    "cObservedGeneration c = generation"
proof (rule updateAdditionalIngressReadyCondition_sets [of ops generation status])
  fix st rs msg
  assume set: "updateAdditionalIngressReadyCondition ops generation status =
      set_status_condition ops (gen_cond IngressReady st generation rs msg) status"
  show thesis
    by (rule find_set_same [OF assms, of "gen_cond IngressReady st generation rs msg" status])
      (rule that, simp_all add: set)
qed

lemma updateAdditionalIngressReadyCondition_name [simp]:
  "as_Name (updateAdditionalIngressReadyCondition ops generation status) = as_Name status"
  by (rule updateAdditionalIngressReadyCondition_sets [of ops generation status]) simp

section \<open>Lemmas: statuses by name\<close>

lemma find_update_first_same: "(\<And>x. P x \<Longrightarrow> P (f x)) \<Longrightarrow> find P (update_first P f xs) = map_option f (find P xs)"
  by (induction xs) auto

lemma find_update_first_other: "(\<And>x. P x \<Longrightarrow> \<not> Q x \<and> \<not> Q (f x)) \<Longrightarrow> find Q (update_first P f xs) = find Q xs"
  by (induction xs) auto

lemma status_on_status:
  assumes "\<And>s. as_Name s = n \<Longrightarrow> as_Name (f s) = n"
  shows "additionalIngressStatusByName (on_status n f config) m =
    (if m = n then map_option f (additionalIngressStatusByName config n) else additionalIngressStatusByName config m)"
proof (cases "m = n")
  case True
  then show ?thesis
    using assms by (simp add: additionalIngressStatusByName_def status_of_def on_status_def find_update_first_same)
next
  case False
  have "find (\<lambda>s. as_Name s = m) (update_first (\<lambda>s. as_Name s = n) f (gw_AdditionalIngresses config)) =
      find (\<lambda>s. as_Name s = m) (gw_AdditionalIngresses config)"
    using assms False by (intro find_update_first_other) auto
  with False show ?thesis
    by (simp add: additionalIngressStatusByName_def status_of_def on_status_def)
qed

lemma on_status_fields [simp]:
  "gw_Name (on_status n f config) = gw_Name config" "gw_UID (on_status n f config) = gw_UID config"
  "gw_Generation (on_status n f config) = gw_Generation config" "gw_Spec (on_status n f config) = gw_Spec config"
  by (simp_all add: on_status_def)

lemma status_has_name: "additionalIngressStatusByName config n = Some s \<Longrightarrow> as_Name s = n"
  by (auto simp: additionalIngressStatusByName_def status_of_def find_Some_iff)

definition ingress_ready :: "condition_list_ops \<Rightarrow> GatewayConfig \<Rightarrow> string \<Rightarrow> bool" where
  "ingress_ready ops config n \<longleftrightarrow>
     (\<exists>s. additionalIngressStatusByName config n = Some s \<and> list_all (part_true ops (gw_Generation config) s) parts)"

section \<open>Lemmas: aggregation\<close>

lemma ingress_ready_update:
  assumes "condition_list_laws ops"
  shows "ingress_ready ops (on_status m (updateAdditionalIngressReadyCondition ops generation) config) n \<longleftrightarrow> ingress_ready ops config n"
  using updateAdditionalIngressReadyCondition_parts [OF assms]
  by (auto simp: ingress_ready_def status_on_status)

lemma aggregate_ingresses_ready:
  assumes "condition_list_laws ops"
  shows "aggregate_ingresses ops ings failed pending config = (failed', pending', config') \<Longrightarrow>
    failed' = [] \<and> pending' = [] \<longleftrightarrow> failed = [] \<and> pending = [] \<and> list_all (\<lambda>ing. ingress_ready ops config (ai_Name ing)) ings"
proof (induction ings arbitrary: failed pending config)
  case Nil
  then show ?case by auto
next
  case (Cons ing ings)
  let ?n = "ai_Name ing"
  let ?gen = "gw_Generation config"
  let ?config = "on_status ?n (updateAdditionalIngressReadyCondition ops ?gen) config"
  have status: "additionalIngressStatusByName ?config ?n =
      map_option (updateAdditionalIngressReadyCondition ops ?gen) (additionalIngressStatusByName config ?n)"
    by (simp add: status_on_status)
  have unchanged: "ingress_ready ops ?config m = ingress_ready ops config m" for m
    by (rule ingress_ready_update [OF assms])
  show ?case
  proof (cases "additionalIngressStatusByName config ?n")
    case None
    then show ?thesis
      using Cons.prems Cons.IH [of failed "pending @ [?n]" ?config] status
      by (auto simp: Let_def ingress_ready_def)
  next
    case (Some s)
    obtain c where c: "cl_Find ops (as_Conditions (updateAdditionalIngressReadyCondition ops ?gen s)) IngressReady = Some c"
      "cObservedGeneration c = ?gen"
      using updateAdditionalIngressReadyCondition_found [OF assms] by blast
    have ready: "cStatus c = ConditionTrue \<longleftrightarrow> ingress_ready ops config ?n"
      using updateAdditionalIngressReadyCondition_ready [OF assms, of ?gen s] c Some
      by (simp add: part_true_def [of ops ?gen "updateAdditionalIngressReadyCondition ops ?gen s"] ingress_ready_def)
    consider "cStatus c = ConditionFalse" | "cStatus c = ConditionTrue" | "cStatus c \<noteq> ConditionFalse" "cStatus c \<noteq> ConditionTrue"
      by auto
    then show ?thesis
    proof cases
      case 1
      then show ?thesis
        using Cons.prems Cons.IH [of "failed @ [?n]" pending ?config] status Some c ready by (simp add: Let_def)
    next
      case 2
      then show ?thesis
        using Cons.prems Cons.IH [of failed pending ?config] status Some c ready by (simp add: Let_def unchanged)
    next
      case 3
      then show ?thesis
        using Cons.prems Cons.IH [of failed "pending @ [?n]" ?config] status Some c ready by (simp add: Let_def)
    qed
  qed
qed

section \<open>Lemmas: published results\<close>

text \<open>
  Results are kept by Gateway name, and the result under the name of an ingress is that ingress's own, of the right type and
  generation. A result that forbids a look at the Deployment is never positive.
\<close>

abbreviation ingress_names :: "GatewayConfig \<Rightarrow> string set" where
  "ingress_names config \<equiv> ai_Name ` set (gs_AdditionalIngresses (gw_Spec config))"

definition final_reasons :: "string set" where
  "final_reasons = {''AuthenticationDisabled'', ''AuthenticationBlocked'', ''InvalidAuthenticationConfig''}"

definition auth_result_ok :: "string set \<Rightarrow> int \<Rightarrow> string \<Rightarrow> authProxyResult \<Rightarrow> bool" where
  "auth_result_ok names generation key r \<longleftrightarrow>
     (\<forall>n\<in>names. n = key \<longleftrightarrow> n = pt_IngressName (ar_Target r)) \<and> cType (ar_Condition r) = AuthenticationReady \<and>
     cObservedGeneration (ar_Condition r) = generation \<and>
     (cReason (ar_Condition r) \<in> final_reasons \<longrightarrow> cStatus (ar_Condition r) \<noteq> ConditionTrue)"

definition auth_state_ok :: "GatewayConfig \<Rightarrow> auth_state \<Rightarrow> bool" where
  "auth_state_ok config state \<longleftrightarrow>
     gomap_wf state \<and> list_all (\<lambda>(key, r). auth_result_ok (ingress_names config) (gw_Generation config) key r) state"

lemma auth_state_ok_Nil [simp]: "auth_state_ok config []"
  by (simp add: auth_state_ok_def)

lemma auth_state_ok_at:
  "auth_state_ok config state \<Longrightarrow> map_of state key = Some r \<Longrightarrow> auth_result_ok (ingress_names config) (gw_Generation config) key r"
  by (auto simp: auth_state_ok_def list_all_iff dest: map_of_SomeD)

lemma auth_state_ok_record:
  assumes "auth_state_ok config state" "pt_IngressName target = pt_GatewayName target \<or>
      pt_IngressName target \<notin> ingress_names config \<and> pt_GatewayName target \<notin> ingress_names config"
    and "reason \<in> final_reasons \<longrightarrow> st \<noteq> ConditionTrue"
  shows "auth_state_ok config (recordAuthResult (gw_Generation config) target st reason message state)"
proof -
  have own: "\<forall>n\<in>ingress_names config. n = pt_GatewayName target \<longleftrightarrow> n = pt_IngressName target"
    using assms(2) by metis
  have "auth_result_ok (ingress_names config) (gw_Generation config) (pt_GatewayName target)
      (auth_result (gw_Generation config) target st reason message)"
    using assms(3) own by (simp add: auth_result_ok_def auth_result_def)
  then show ?thesis
    using assms(1) set_update_subset [of "pt_GatewayName target" "auth_result (gw_Generation config) target st reason message" state]
    by (fastforce simp: auth_state_ok_def recordAuthResult_def list_all_iff)
qed

lemma publish_fields [simp]:
  "gw_Generation (publishAdditionalIngressAuthConditions ops state config) = gw_Generation config"
  "gw_Spec (publishAdditionalIngressAuthConditions ops state config) = gw_Spec config"
  unfolding publishAdditionalIngressAuthConditions_def
  by (induction state arbitrary: config) (auto split: prod.splits)

lemma publish_none:
  assumes "list_all (\<lambda>(key, r). n \<noteq> pt_IngressName (ar_Target r)) state"
  shows "additionalIngressStatusByName (publishAdditionalIngressAuthConditions ops state config) n = additionalIngressStatusByName config n"
  using assms unfolding publishAdditionalIngressAuthConditions_def
  by (induction state arbitrary: config) (auto simp: status_on_status split: prod.splits)

lemma publish_status:
  assumes "gomap_wf state" "list_all (\<lambda>(key, r). n = key \<longleftrightarrow> n = pt_IngressName (ar_Target r)) state"
  shows "additionalIngressStatusByName (publishAdditionalIngressAuthConditions ops state config) n =
    (case map_of state n of
       None \<Rightarrow> additionalIngressStatusByName config n
     | Some r \<Rightarrow> map_option (set_status_condition ops (ar_Condition r)) (additionalIngressStatusByName config n))"
  using assms
proof (induction state arbitrary: config)
  case Nil
  then show ?case by (simp add: publishAdditionalIngressAuthConditions_def)
next
  case (Cons entry state)
  obtain key r where entry: "entry = (key, r)"
    by fastforce
  let ?config = "on_status (pt_IngressName (ar_Target r)) (set_status_condition ops (ar_Condition r)) config"
  have step: "publishAdditionalIngressAuthConditions ops (entry # state) config = publishAdditionalIngressAuthConditions ops state ?config"
    by (simp add: publishAdditionalIngressAuthConditions_def entry)
  have here: "key = n \<longleftrightarrow> pt_IngressName (ar_Target r) = n"
    using Cons.prems(2) by (auto simp: entry)
  show ?case
  proof (cases "key = n")
    case True
    then have rest: "list_all (\<lambda>(key, r). n \<noteq> pt_IngressName (ar_Target r)) state"
      using Cons.prems by (force simp: entry gomap_wf_def list_all_iff)
    show ?thesis
      unfolding step publish_none [OF rest] using True here by (simp add: entry status_on_status)
  next
    case False
    then have "additionalIngressStatusByName ?config n = additionalIngressStatusByName config n"
      using here by (simp add: status_on_status)
    moreover have "gomap_wf state" "list_all (\<lambda>(key, r). n = key \<longleftrightarrow> n = pt_IngressName (ar_Target r)) state"
      using Cons.prems by (simp_all add: entry gomap_wf_def)
    ultimately show ?thesis
      unfolding step using Cons.IH [of ?config] False by (simp add: entry split: option.splits)
  qed
qed

lemma publish_status_ok:
  assumes "auth_state_ok config state" "n \<in> ingress_names config"
  shows "additionalIngressStatusByName (publishAdditionalIngressAuthConditions ops state config') n =
    (case map_of state n of
       None \<Rightarrow> additionalIngressStatusByName config' n
     | Some r \<Rightarrow> map_option (set_status_condition ops (ar_Condition r)) (additionalIngressStatusByName config' n))"
  using assms by (intro publish_status) (auto simp: auth_state_ok_def auth_result_ok_def list_all_iff)

section \<open>Lemmas: the Route\<close>

definition route_admitted :: "route_view \<Rightarrow> AdditionalIngress \<Rightarrow> bool" where
  "route_admitted route ing \<longleftrightarrow>
     list_ex (\<lambda>e. ri_Host e = ai_Hostname ing \<and> ri_RouterName e = ai_IngressControllerName ing \<and>
       list_ex (\<lambda>c. rc_Type c = ''Admitted'' \<and> rc_Status c = ConditionTrue) (ri_Conditions e)) (rv_Ingress route)"

definition target_true :: "route_condition option \<Rightarrow> bool" where
  "target_true target \<longleftrightarrow> (case target of None \<Rightarrow> False | Some c \<Rightarrow> rc_Status c = ConditionTrue)"

lemma target_true_None [simp]: "\<not> target_true None"
  by (simp add: target_true_def)

lemma admission_step_true:
  "target_true (fst (admission_step controller router c acc)) \<longleftrightarrow>
     target_true (fst acc) \<or> (router = controller \<and> rc_Type c = ''Admitted'' \<and> rc_Status c = ConditionTrue)"
  by (cases acc) (auto simp: admission_step_def target_true_def Let_def split: option.splits)

lemma admission_fold_true:
  "target_true (fst (fold (admission_step controller router) cs acc)) \<longleftrightarrow>
     target_true (fst acc) \<or> (router = controller \<and> list_ex (\<lambda>c. rc_Type c = ''Admitted'' \<and> rc_Status c = ConditionTrue) cs)"
  by (induction cs arbitrary: acc) (auto simp: admission_step_true)

lemma scan_admissions_true:
  "target_true (fst (scan_admissions ing (rv_Ingress route))) \<longleftrightarrow> route_admitted route ing"
proof -
  have all: "target_true (fst (fold (\<lambda>e acc. if ri_Host e \<noteq> ai_Hostname ing then acc
        else fold (admission_step (ai_IngressControllerName ing) (ri_RouterName e)) (ri_Conditions e) acc) es acc)) \<longleftrightarrow>
      target_true (fst acc) \<or>
      list_ex (\<lambda>e. ri_Host e = ai_Hostname ing \<and> ri_RouterName e = ai_IngressControllerName ing \<and>
        list_ex (\<lambda>c. rc_Type c = ''Admitted'' \<and> rc_Status c = ConditionTrue) (ri_Conditions e)) es" for es acc
    by (induction es arbitrary: acc) (auto simp: admission_fold_true)
  show ?thesis
    using all [of "rv_Ingress route" "(None, [])"] by (simp add: scan_admissions_def route_admitted_def)
qed

lemma additionalIngressRouteCondition_status:
  "cType (additionalIngressRouteCondition route ing generation) = RouteAdmitted"
  "cObservedGeneration (additionalIngressRouteCondition route ing generation) = generation"
  "cStatus (additionalIngressRouteCondition route ing generation) = ConditionTrue \<longleftrightarrow> route_admitted route ing"
  unfolding scan_admissions_true [symmetric]
  by (auto simp: additionalIngressRouteCondition_def Let_def target_true_def split: prod.splits option.splits if_splits)

definition route_serves :: "GatewayConfig \<Rightarrow> AdditionalIngress \<Rightarrow> api_failure + route_view \<Rightarrow> bool" where
  "route_serves config ing answer =
     (case answer of
        Inl _ \<Rightarrow> False
      | Inr route \<Rightarrow> isOwnedByGatewayConfig (rv_Controller route) config \<and> route_matches route ing \<and> route_admitted route ing)"

lemma syncAdditionalIngressRouteReadiness_sets:
  obtains c where "snd (syncAdditionalIngressRouteReadiness ops answer config ing status) = set_status_condition ops c status"
    "cType c = RouteAdmitted" "cObservedGeneration c = gw_Generation config"
    "cStatus c = ConditionTrue \<longleftrightarrow> route_serves config ing answer"
proof -
  let ?unread = "\<lambda>rs msg. gen_cond RouteAdmitted ConditionUnknown (gw_Generation config) rs msg"
  let ?bad = "\<lambda>rs msg. gen_cond RouteAdmitted ConditionFalse (gw_Generation config) rs msg"
  note defs = syncAdditionalIngressRouteReadiness_def setAdditionalIngressCondition_def Let_def route_serves_def
  show thesis
  proof (cases answer)
    case (Inl err)
    show thesis
    proof (cases "err_is NotFound (api_error err) \<or> err_is NoMatch (api_error err)")
      case True
      then show thesis
        by (intro that [of "?unread ReconciliationPending ''The bridge Route has not been observed yet''"]) (simp_all add: Inl defs)
    next
      case False
      then show thesis
        by (intro that [of "?unread ''StatusReadFailed'' ''The bridge Route status could not be read''"]) (simp_all add: Inl defs)
    qed
  next
    case (Inr route)
    let ?c = "additionalIngressRouteCondition route ing (gw_Generation config)"
    let ?name = "''Route '' @ quoted (rv_Name route)"
    consider (foreign) "\<not> isOwnedByGatewayConfig (rv_Controller route) config"
      | (other) "isOwnedByGatewayConfig (rv_Controller route) config" "\<not> route_matches route ing"
      | (ours) "isOwnedByGatewayConfig (rv_Controller route) config" "route_matches route ing"
      by blast
    then show thesis
    proof cases
      case foreign
      then show thesis
        by (intro that [of "?bad ''OwnershipConflict'' (?name @ '' is not controlled by this GatewayConfig'')"]) (simp_all add: Inr defs)
    next
      case other
      then show thesis
        by (intro that [of "?bad ''NotReady'' (?name @ '' does not match the configured hostname, Service, or HTTPS port'')"])
          (simp_all add: Inr defs)
    next
      case ours
      then show thesis
        by (intro that [of "if cStatus ?c = ConditionTrue \<and> \<not> routeHasLabels (rv_Labels route) (gatewayRouteLabels (ai_RouteLabels ing))
            then ?c\<lparr>cReason := ''PlacementMismatch'', cSeverity := ConditionSeverityInfo,
              cMessage := cMessage ?c @ ''; bridge Route labels differ from configured placement labels''\<rparr> else ?c"])
          (simp_all add: Inr defs additionalIngressRouteCondition_status)
    qed
  qed
qed

section \<open>Lemmas: one ingress\<close>

text \<open>What makes the authentication of an ingress ready: nothing known speaks against it, and its Deployment is available.\<close>

definition deployment_available :: "deployment_view \<Rightarrow> bool" where
  "deployment_available d \<longleftrightarrow>
     dv_Generation d \<le> dv_ObservedGeneration d \<and> (case dv_Replicas d of Some n \<Rightarrow> n | None \<Rightarrow> 1) \<le> dv_AvailableReplicas d"

definition auth_serves :: "auth_state \<Rightarrow> AdditionalIngress \<Rightarrow> api_failure + deployment_view \<Rightarrow> bool" where
  "auth_serves state ing answer \<longleftrightarrow>
     (case map_of state (ai_Name ing) of
        None \<Rightarrow> True | Some r \<Rightarrow> cReason (ar_Condition r) \<notin> final_reasons \<and> \<not> failedPreparation r) \<and>
     (case answer of Inl _ \<Rightarrow> False | Inr d \<Rightarrow> deployment_available d)"

definition gateway_serves :: "api_failure + gateway_view \<Rightarrow> bool" where
  "gateway_serves answer = (case answer of Inl _ \<Rightarrow> False | Inr g \<Rightarrow> isGatewayReady g)"

lemma gateway_condition_status:
  "cType (fst (gateway_condition generation ing answer)) = GatewayReady"
  "cObservedGeneration (fst (gateway_condition generation ing answer)) = generation"
  "cStatus (fst (gateway_condition generation ing answer)) = ConditionTrue \<longleftrightarrow> gateway_serves answer"
  by (auto simp: gateway_condition_def gateway_serves_def Let_def split: sum.splits)

lemma checkKubeAuthProxyDeployment_ready:
  "checkKubeAuthProxyDeployment k8s name answer = Inr '''' \<longleftrightarrow>
     (case answer of Inl _ \<Rightarrow> False | Inr d \<Rightarrow> deployment_available d)"
  by (auto simp: checkKubeAuthProxyDeployment_def deployment_available_def Let_def not_less split: sum.splits)

lemma additional_target_names [simp]:
  "pt_GatewayName (additionalAuthProxyTarget ing config) = ai_Name ing"
  "pt_IngressName (additionalAuthProxyTarget ing config) = ai_Name ing"
  by (simp_all add: additionalAuthProxyTarget_def)

text \<open>
  After a look at the authentication of an ingress, its result is that of \<^const>\<open>auth_serves\<close>; nobody else's changes.
\<close>

lemma syncAdditionalIngressAuthReadiness_spec:
  assumes "auth_state_ok config state" "ai_Name ing \<in> ingress_names config"
    and "syncAdditionalIngressAuthReadiness k8s answer config ing state = (again, state')"
  shows "auth_state_ok config state'"
    and "\<exists>r. map_of state' (ai_Name ing) = Some r \<and> cType (ar_Condition r) = AuthenticationReady \<and>
      cObservedGeneration (ar_Condition r) = gw_Generation config \<and>
      (cStatus (ar_Condition r) = ConditionTrue \<longleftrightarrow> auth_serves state ing answer)"
    and "n \<noteq> ai_Name ing \<Longrightarrow> map_of state' n = map_of state n"
proof -
  let ?known = "map_of state (ai_Name ing)"
  let ?blocked = "\<exists>r. ?known = Some r \<and> (cReason (ar_Condition r) \<in> final_reasons \<or> failedPreparation r)"
  have "auth_state_ok config state' \<and>
    (\<exists>r. map_of state' (ai_Name ing) = Some r \<and> cType (ar_Condition r) = AuthenticationReady \<and>
      cObservedGeneration (ar_Condition r) = gw_Generation config \<and>
      (cStatus (ar_Condition r) = ConditionTrue \<longleftrightarrow> auth_serves state ing answer)) \<and>
    (n \<noteq> ai_Name ing \<longrightarrow> map_of state' n = map_of state n)"
  proof (cases ?blocked)
    case True
    then obtain r where r: "?known = Some r" "cReason (ar_Condition r) \<in> final_reasons \<or> failedPreparation r"
      by blast
    have same: "state' = state"
      using assms(3) r by (auto simp: syncAdditionalIngressAuthReadiness_def final_reasons_def Let_def split: if_splits)
    have "cStatus (ar_Condition r) \<noteq> ConditionTrue"
      using auth_state_ok_at [OF assms(1) r(1)] r(2) by (auto simp: auth_result_ok_def failedPreparation_def)
    moreover have "\<not> auth_serves state ing answer"
      using r by (auto simp: auth_serves_def)
    ultimately show ?thesis
      using same assms(1) auth_state_ok_at [OF assms(1) r(1)] r(1) by (auto simp: auth_result_ok_def)
  next
    case False
    obtain st reason message where
      st: "state' = recordAuthResult (gw_Generation config) (additionalAuthProxyTarget ing config) st reason message state"
        "st = ConditionTrue \<longleftrightarrow> checkKubeAuthProxyDeployment k8s (pt_ProxyName (additionalAuthProxyTarget ing config)) answer = Inr ''''"
        "reason \<notin> final_reasons"
      using assms(3) False
      by (cases "checkKubeAuthProxyDeployment k8s (pt_ProxyName (additionalAuthProxyTarget ing config)) answer")
        (fastforce simp: syncAdditionalIngressAuthReadiness_def final_reasons_def Let_def split: if_splits option.splits)+
    have "auth_serves state ing answer \<longleftrightarrow> st = ConditionTrue"
      using False by (auto simp: auth_serves_def st(2) checkKubeAuthProxyDeployment_ready split: option.splits)
    moreover have "auth_state_ok config state'"
      unfolding st(1) by (rule auth_state_ok_record) (use assms(1) st(3) in simp_all)
    ultimately show ?thesis
      by (auto simp: st(1) recordAuthResult_def auth_result_def update_conv')
  qed
  then show "auth_state_ok config state'"
    and "\<exists>r. map_of state' (ai_Name ing) = Some r \<and> cType (ar_Condition r) = AuthenticationReady \<and>
      cObservedGeneration (ar_Condition r) = gw_Generation config \<and>
      (cStatus (ar_Condition r) = ConditionTrue \<longleftrightarrow> auth_serves state ing answer)"
    and "n \<noteq> ai_Name ing \<Longrightarrow> map_of state' n = map_of state n"
    by blast+
qed

section \<open>Lemmas: all ingresses\<close>

definition same_object :: "GatewayConfig \<Rightarrow> GatewayConfig \<Rightarrow> bool" where
  "same_object c c' \<longleftrightarrow> gw_Name c' = gw_Name c \<and> gw_UID c' = gw_UID c \<and> gw_Generation c' = gw_Generation c \<and> gw_Spec c' = gw_Spec c"

lemma same_object_refl [simp]: "same_object c c"
  by (simp add: same_object_def)

lemma same_object_trans: "same_object a b \<Longrightarrow> same_object b c \<Longrightarrow> same_object a c"
  by (simp add: same_object_def)

lemma auth_state_ok_same_object: "same_object c c' \<Longrightarrow> auth_state_ok c' state \<longleftrightarrow> auth_state_ok c state"
  by (simp add: same_object_def auth_state_ok_def)

text \<open>The evidence for one ingress, in terms of what is known before the pass and what the pass reads.\<close>

definition ingress_serving ::
  "condition_list_ops \<Rightarrow> ingress_reads \<Rightarrow> nat \<Rightarrow> AdditionalIngress \<Rightarrow> GatewayConfig \<Rightarrow> auth_state \<Rightarrow> bool" where
  "ingress_serving ops reads i ing config state \<longleftrightarrow>
     additionalIngressStatusByName config (ai_Name ing) \<noteq> None \<and> \<not> additionalIngressHasGatewayConflict ops config (ai_Name ing) \<and>
     gateway_serves (rd_Gateway reads i (ai_Name ing)) \<and> route_serves config ing (rd_Route reads i (ai_Name ing)) \<and>
     auth_serves state ing (rd_Deployment reads i (KubeAuthProxyName @ ''-'' @ ai_Name ing))"

lemma ingress_serving_cong:
  assumes "same_object c c'" "additionalIngressStatusByName c' (ai_Name ing) = additionalIngressStatusByName c (ai_Name ing)"
    and "map_of state' (ai_Name ing) = map_of state (ai_Name ing)"
  shows "ingress_serving ops reads i ing c' state' \<longleftrightarrow> ingress_serving ops reads i ing c state"
  using assms
  by (simp add: ingress_serving_def additionalIngressHasGatewayConflict_def route_serves_def auth_serves_def same_object_def
      isOwnedByGatewayConfig_def cong: option.case_cong sum.case_cong)

definition ready_with :: "condition_list_ops \<Rightarrow> int \<Rightarrow> AdditionalIngressStatus option \<Rightarrow> authProxyResult option \<Rightarrow> bool" where
  "ready_with ops generation status result \<longleftrightarrow>
     (\<exists>s. status = Some s \<and>
        list_all (part_true ops generation (case result of None \<Rightarrow> s | Some r \<Rightarrow> set_status_condition ops (ar_Condition r) s)) parts)"

lemma ingress_ready_published:
  assumes "auth_state_ok config state" "n \<in> ingress_names config"
  shows "ingress_ready ops (publishAdditionalIngressAuthConditions ops state config) n \<longleftrightarrow>
    ready_with ops (gw_Generation config) (additionalIngressStatusByName config n) (map_of state n)"
  using publish_status_ok [OF assms, of ops config]
  by (auto simp: ingress_ready_def ready_with_def split: option.splits)

lemma conflict_not_ready:
  assumes "condition_list_laws ops" "auth_state_ok config state" "n \<in> ingress_names config"
    and "additionalIngressHasGatewayConflict ops config n"
  shows "\<not> ready_with ops (gw_Generation config) (additionalIngressStatusByName config n) (map_of state n)"
proof -
  obtain s where s: "additionalIngressStatusByName config n = Some s" "\<not> part_true ops (gw_Generation config) s GatewayReady"
    using assms(4) by (auto simp: additionalIngressHasGatewayConflict_def part_true_def split: option.splits)
  have "cType (ar_Condition r) = AuthenticationReady" if "map_of state n = Some r" for r
    using auth_state_ok_at [OF assms(2) that] by (simp add: auth_result_ok_def)
  with s show ?thesis
    by (auto simp: ready_with_def part_true_set [OF assms(1)] split: option.splits)
qed

lemma sync_ingress_spec:
  assumes laws: "condition_list_laws ops" and ok: "auth_state_ok config state" and name: "ai_Name ing \<in> ingress_names config"
    and step: "sync_ingress ops k8s reads i ing (retry, config, state) = (retry', config', state')"
  shows "same_object config config'" and "auth_state_ok config state'"
    and "n \<noteq> ai_Name ing \<Longrightarrow> additionalIngressStatusByName config' n = additionalIngressStatusByName config n \<and> map_of state' n = map_of state n"
    and "ready_with ops (gw_Generation config) (additionalIngressStatusByName config' (ai_Name ing)) (map_of state' (ai_Name ing)) \<longleftrightarrow>
      ingress_serving ops reads i ing config state"
proof -
  let ?n = "ai_Name ing"
  have "same_object config config' \<and> auth_state_ok config state' \<and>
    (n \<noteq> ?n \<longrightarrow> additionalIngressStatusByName config' n = additionalIngressStatusByName config n \<and> map_of state' n = map_of state n) \<and>
    (ready_with ops (gw_Generation config) (additionalIngressStatusByName config' ?n) (map_of state' ?n) \<longleftrightarrow>
      ingress_serving ops reads i ing config state)"
  proof (cases "additionalIngressStatusByName config ?n = None \<or> additionalIngressHasGatewayConflict ops config ?n")
    case True
    then have "config' = config" "state' = state"
      using step by (auto simp: sync_ingress_def split: option.splits)
    moreover have "\<not> ingress_serving ops reads i ing config state"
      using True by (auto simp: ingress_serving_def)
    moreover have "\<not> ready_with ops (gw_Generation config) (additionalIngressStatusByName config ?n) (map_of state ?n)"
      using True conflict_not_ready [OF laws ok name] by (auto simp: ready_with_def)
    ultimately show ?thesis
      using ok by simp
  next
    case False
    then obtain s where s: "additionalIngressStatusByName config ?n = Some s" "\<not> additionalIngressHasGatewayConflict ops config ?n"
      by auto
    let ?g = "fst (gateway_condition (gw_Generation config) ing (rd_Gateway reads i ?n))"
    obtain c where c: "snd (syncAdditionalIngressRouteReadiness ops (rd_Route reads i ?n) config ing (set_status_condition ops ?g s)) =
        set_status_condition ops c (set_status_condition ops ?g s)"
      "cType c = RouteAdmitted" "cObservedGeneration c = gw_Generation config"
      "cStatus c = ConditionTrue \<longleftrightarrow> route_serves config ing (rd_Route reads i ?n)"
      by (rule syncAdditionalIngressRouteReadiness_sets)
    let ?s = "set_status_condition ops c (set_status_condition ops ?g s)"
    let ?dep = "rd_Deployment reads i (KubeAuthProxyName @ ''-'' @ ?n)"
    have config': "config' = on_status ?n (\<lambda>_. ?s) config"
      and auth: "\<exists>again. syncAdditionalIngressAuthReadiness k8s ?dep config' ing state = (again, state')"
      using step s c(1)
      by (auto simp: sync_ingress_def Let_def additionalAuthProxyTarget_def split: prod.splits)
    have same: "same_object config config'"
      by (simp add: config' same_object_def)
    have ok': "auth_state_ok config' state" "?n \<in> ingress_names config'"
      using ok name auth_state_ok_same_object [OF same, of state] by (simp_all add: config')
    from auth obtain again where auth: "syncAdditionalIngressAuthReadiness k8s ?dep config' ing state = (again, state')"
      by blast
    note spec = syncAdditionalIngressAuthReadiness_spec [OF ok' auth]
    from spec(2) obtain r where r: "map_of state' ?n = Some r" "cType (ar_Condition r) = AuthenticationReady"
      "cObservedGeneration (ar_Condition r) = gw_Generation config" "cStatus (ar_Condition r) = ConditionTrue \<longleftrightarrow> auth_serves state ing ?dep"
      using same by (auto simp: same_object_def)
    have by_name: "additionalIngressStatusByName config' m = (if m = ?n then Some ?s else additionalIngressStatusByName config m)" for m
      unfolding config' using s(1) status_has_name [OF s(1)] by (subst status_on_status) simp_all
    have "ready_with ops (gw_Generation config) (additionalIngressStatusByName config' ?n) (map_of state' ?n) \<longleftrightarrow>
        gateway_serves (rd_Gateway reads i ?n) \<and> route_serves config ing (rd_Route reads i ?n) \<and> auth_serves state ing ?dep"
      by (simp add: by_name r ready_with_def part_true_set [OF laws] c gateway_condition_status)
    moreover have "\<dots> \<longleftrightarrow> ingress_serving ops reads i ing config state"
      using s by (simp add: ingress_serving_def)
    ultimately have "ready_with ops (gw_Generation config) (additionalIngressStatusByName config' ?n) (map_of state' ?n) \<longleftrightarrow>
        ingress_serving ops reads i ing config state"
      by (rule trans)
    moreover have "auth_state_ok config state'"
      using spec(1) auth_state_ok_same_object [OF same] by blast
    ultimately show ?thesis
      using same spec(3) [of n] by_name [of n] by (intro conjI impI) simp_all
  qed
  then show "same_object config config'" and "auth_state_ok config state'"
    and "n \<noteq> ai_Name ing \<Longrightarrow> additionalIngressStatusByName config' n = additionalIngressStatusByName config n \<and> map_of state' n = map_of state n"
    and "ready_with ops (gw_Generation config) (additionalIngressStatusByName config' (ai_Name ing)) (map_of state' (ai_Name ing)) \<longleftrightarrow>
      ingress_serving ops reads i ing config state"
    by blast+
qed

lemma sync_ingresses_spec:
  assumes laws: "condition_list_laws ops"
  shows "auth_state_ok config state \<Longrightarrow> ai_Name ` set ings \<subseteq> ingress_names config \<Longrightarrow> distinct (map ai_Name ings) \<Longrightarrow>
    sync_ingresses ops k8s reads i ings (retry, config, state) = (retry', config', state') \<Longrightarrow>
    same_object config config' \<and> auth_state_ok config state' \<and>
    (\<forall>n. n \<notin> ai_Name ` set ings \<longrightarrow>
       additionalIngressStatusByName config' n = additionalIngressStatusByName config n \<and> map_of state' n = map_of state n) \<and>
    (\<forall>j<length ings. ready_with ops (gw_Generation config) (additionalIngressStatusByName config' (ai_Name (ings ! j)))
       (map_of state' (ai_Name (ings ! j))) \<longleftrightarrow> ingress_serving ops reads (i + j) (ings ! j) config state)"
proof (induction ings arbitrary: i retry config state)
  case Nil
  then show ?case by simp
next
  case (Cons ing ings)
  obtain retry1 config1 state1 where step: "sync_ingress ops k8s reads i ing (retry, config, state) = (retry1, config1, state1)"
    using prod_cases3 by blast
  have name: "ai_Name ing \<in> ingress_names config"
    using Cons.prems(2) by simp
  note head = sync_ingress_spec [OF laws Cons.prems(1) name step]
  have ok1: "auth_state_ok config1 state1"
    using head(2) auth_state_ok_same_object [OF head(1)] by blast
  have names1: "ai_Name ` set ings \<subseteq> ingress_names config1" "distinct (map ai_Name ings)"
    using Cons.prems(2,3) head(1) by (simp_all add: same_object_def)
  have rest: "sync_ingresses ops k8s reads (Suc i) ings (retry1, config1, state1) = (retry', config', state')"
    using Cons.prems(4) step by simp
  note tail = Cons.IH [OF ok1 names1 rest]
  have fresh: "ai_Name ing \<notin> ai_Name ` set ings"
    using Cons.prems(3) by simp
  have same: "same_object config config'"
    using tail head(1) same_object_trans by blast
  have gen: "gw_Generation config1 = gw_Generation config"
    using head(1) by (simp add: same_object_def)
  have serving: "ready_with ops (gw_Generation config) (additionalIngressStatusByName config' (ai_Name ((ing # ings) ! j)))
      (map_of state' (ai_Name ((ing # ings) ! j))) \<longleftrightarrow> ingress_serving ops reads (i + j) ((ing # ings) ! j) config state"
    if "j < length (ing # ings)" for j
  proof (cases j)
    case 0
    have "additionalIngressStatusByName config' (ai_Name ing) = additionalIngressStatusByName config1 (ai_Name ing)"
      "map_of state' (ai_Name ing) = map_of state1 (ai_Name ing)"
      using tail fresh by blast+
    then show ?thesis
      using head(4) 0 by simp
  next
    case (Suc k)
    then have k: "k < length ings"
      using that by simp
    then have other: "ai_Name (ings ! k) \<noteq> ai_Name ing"
      using fresh by (metis imageI nth_mem)
    have "ingress_serving ops reads (Suc i + k) (ings ! k) config1 state1 \<longleftrightarrow> ingress_serving ops reads (Suc i + k) (ings ! k) config state"
      using head(3) [OF other] by (intro ingress_serving_cong [OF head(1)]) auto
    then show ?thesis
      using tail k Suc gen by simp
  qed
  have "auth_state_ok config state'"
    using tail auth_state_ok_same_object [OF head(1)] by blast
  moreover have "additionalIngressStatusByName config' n = additionalIngressStatusByName config n \<and> map_of state' n = map_of state n"
    if "n \<notin> ai_Name ` set (ing # ings)" for n
    using that tail head(3) [of n] by simp
  ultimately show ?case
    using same serving by blast
qed

section \<open>Properties\<close>

text \<open>What the condition manager promises: a condition that was marked is there, with its status.\<close>

definition gateway_mark_laws :: "'m gateway_marks \<Rightarrow> bool" where
  "gateway_mark_laws marks \<longleftrightarrow>
     (\<forall>c m. \<exists>c'. gm_GetCondition marks (cType c) (gm_Mark marks c m) = Some c' \<and> cStatus c' = cStatus c) \<and>
     (\<forall>c m ty. ty \<noteq> cType c \<longrightarrow> gm_GetCondition marks ty (gm_Mark marks c m) = gm_GetCondition marks ty m)"

lemma marked_status:
  "gateway_mark_laws marks \<Longrightarrow> ty = cType c \<Longrightarrow> map_option cStatus (gm_GetCondition marks ty (gm_Mark marks c m)) = Some (cStatus c)"
  by (metis gateway_mark_laws_def option.map(2))

lemma gateways_ready_condition_status:
  "cType (gateways_ready_condition ings generation failed pending) = AdditionalGatewaysReady"
  "cStatus (gateways_ready_condition ings generation failed pending) = ConditionTrue \<longleftrightarrow> failed = [] \<and> pending = []"
  by (simp_all add: gateways_ready_condition_def Let_def)

lemma updateAdditionalGatewaysReadyCondition_ready:
  assumes "condition_list_laws ops" "gateway_mark_laws marks" "auth_state_ok config (gq_AuthState rr)"
  shows "map_option cStatus (gm_GetCondition marks AdditionalGatewaysReady
      (gq_Conditions (updateAdditionalGatewaysReadyCondition ops marks config rr))) = Some ConditionTrue \<longleftrightarrow>
    list_all (\<lambda>ing. ready_with ops (gw_Generation config) (additionalIngressStatusByName config (ai_Name ing))
      (map_of (gq_AuthState rr) (ai_Name ing))) (gs_AdditionalIngresses (gw_Spec config))"
proof -
  let ?ings = "gs_AdditionalIngresses (gw_Spec config)"
  let ?config = "publishAdditionalIngressAuthConditions ops (gq_AuthState rr) config"
  obtain failed pending config' where agg: "aggregate_ingresses ops ?ings [] [] ?config = (failed, pending, config')"
    using prod_cases3 by blast
  have "map_option cStatus (gm_GetCondition marks AdditionalGatewaysReady
      (gq_Conditions (updateAdditionalGatewaysReadyCondition ops marks config rr))) = Some ConditionTrue \<longleftrightarrow> failed = [] \<and> pending = []"
    by (simp add: updateAdditionalGatewaysReadyCondition_def agg marked_status [OF assms(2)] gateways_ready_condition_status)
  also have "\<dots> \<longleftrightarrow> list_all (\<lambda>ing. ingress_ready ops ?config (ai_Name ing)) ?ings"
    using aggregate_ingresses_ready [OF assms(1) agg] by simp
  also have "\<dots> \<longleftrightarrow> list_all (\<lambda>ing. ready_with ops (gw_Generation config) (additionalIngressStatusByName config (ai_Name ing))
      (map_of (gq_AuthState rr) (ai_Name ing))) ?ings"
    using ingress_ready_published [OF assms(3), of _ ops] by (simp add: list_all_iff)
  finally show ?thesis .
qed

text \<open>
  C15. The GatewayConfig reports its additional Gateways ready exactly on evidence. After a readiness pass the
  condition \<open>AdditionalGatewaysReady\<close> is true if and only if for every configured ingress this pass read an accepted Gateway; a Route that the
  GatewayConfig controls, with the configured host, Service and port, admitted by the configured IngressController; and an
  available auth proxy Deployment of the current generation, while no conflict on the Gateway is recorded and the preparation
  of authentication neither failed nor blocked the ingress. Conditions left over from earlier passes never make an ingress ready.
\<close>

theorem additional_gateways_ready_exactly_on_evidence:
  assumes "condition_list_laws ops" "gateway_mark_laws marks"
    and "gq_Instance rr = Some config" "auth_state_ok config (gq_AuthState rr)"
    and "distinct (map ai_Name (gs_AdditionalIngresses (gw_Spec config)))"
    and "syncAdditionalIngressReadiness ops marks k8s reads rr = (err, rr')"
  shows "map_option cStatus (gm_GetCondition marks AdditionalGatewaysReady (gq_Conditions rr')) = Some ConditionTrue \<longleftrightarrow>
    (\<forall>i<length (gs_AdditionalIngresses (gw_Spec config)).
       ingress_serving ops reads i (gs_AdditionalIngresses (gw_Spec config) ! i) config (gq_AuthState rr))"
proof -
  let ?ings = "gs_AdditionalIngresses (gw_Spec config)"
  obtain retry config1 state1 where loop: "sync_ingresses ops k8s reads 0 ?ings (False, config, gq_AuthState rr) = (retry, config1, state1)"
    using prod_cases3 by blast
  note spec = sync_ingresses_spec [OF assms(1,4) order_refl assms(5) loop]
  have rr': "rr' = updateAdditionalGatewaysReadyCondition ops marks config1 (rr\<lparr>gq_AuthState := state1\<rparr>)"
    using assms(3,6) by (simp add: syncAdditionalIngressReadiness_def validateGatewayConfig_def loop)
  have same: "same_object config config1"
    using spec by blast
  have ok: "auth_state_ok config1 (gq_AuthState (rr\<lparr>gq_AuthState := state1\<rparr>))"
    using spec auth_state_ok_same_object [OF same] by simp
  have fields: "gw_Spec config1 = gw_Spec config" "gw_Generation config1 = gw_Generation config"
    using same by (simp_all add: same_object_def)
  show ?thesis
    unfolding rr' updateAdditionalGatewaysReadyCondition_ready [OF assms(1,2) ok]
    using spec by (simp add: fields list_all_length)
qed

section \<open>Witness\<close>

text \<open>Lists of conditions with one entry per type, and a manager that keeps such a list.\<close>

definition plain_conditions :: condition_list_ops where
  "plain_conditions =
     \<lparr>cl_Set = (\<lambda>c cs. filter (\<lambda>d. cType d \<noteq> cType c) cs @ [c]), cl_Find = (\<lambda>cs ty. find (\<lambda>c. cType c = ty) cs)\<rparr>"

definition plain_marks :: "gen_condition list gateway_marks" where
  "plain_marks = \<lparr>gm_Mark = (\<lambda>c m. c # m), gm_GetCondition = (\<lambda>ty m. find (\<lambda>c. cType c = ty) m)\<rparr>"

lemma find_append_last: "(\<forall>x\<in>set xs. \<not> P x) \<Longrightarrow> find P (xs @ [y]) = (if P y then Some y else None)"
  by (induction xs) auto

lemma find_skip: "\<not> P y \<Longrightarrow> find P (filter Q xs @ [y]) = find P (filter Q xs)"
  by (induction xs) auto

lemma find_filter_imp: "(\<And>x. P x \<Longrightarrow> Q x) \<Longrightarrow> find P (filter Q xs) = find P xs"
  by (induction xs) auto

lemma plain_conditions_laws: "condition_list_laws plain_conditions"
proof -
  have other: "find (\<lambda>d. cType d = ty) (filter (\<lambda>d. cType d \<noteq> cType c) cs @ [c]) = find (\<lambda>d. cType d = ty) cs"
    if "ty \<noteq> cType c" for c :: gen_condition and cs ty
    using that by (simp add: find_skip find_filter_imp)
  show ?thesis
    using other by (simp add: condition_list_laws_def plain_conditions_def find_append_last)
qed

lemma plain_marks_laws: "gateway_mark_laws plain_marks"
  by (simp add: gateway_mark_laws_def plain_marks_def)

definition demo_gateway_config :: GatewayConfig where
  "demo_gateway_config =
     \<lparr>gw_Name = ''default-gateway'', gw_UID = ''u1'', gw_Generation = 3, gw_Annotations = [], gw_Spec = example_gateway,
      gw_Domain = '''', gw_AdditionalIngresses =
        buildAdditionalIngressStatuses False 0 (gs_AdditionalIngresses example_gateway) [] 3\<rparr>"

definition demo_route :: "string \<Rightarrow> route_view" where
  "demo_route n =
     \<lparr>rv_Name = n, rv_Controller = Some \<lparr>cr_UID = ''u1'', cr_Name = ''default-gateway'', cr_Kind = ''GatewayConfig''\<rparr>,
      rv_Labels = [(''shard'', n)], rv_Host = n @ ''.example'', rv_ToName = n @ ''-data-science-gateway-class'',
      rv_TargetPort = Some (IntPort 443),
      rv_Ingress = [\<lparr>ri_Host = n @ ''.example'', ri_RouterName = ''shard'',
        ri_Conditions = [\<lparr>rc_Type = ''Admitted'', rc_Status = ''True'', rc_Reason = '''', rc_Message = ''''\<rparr>]\<rparr>]\<rparr>"

definition ingress_demo_reads :: ingress_reads where
  "ingress_demo_reads =
     \<lparr>rd_Gateway = (\<lambda>i n. Inr \<lparr>gv_Controller = None, gv_Conditions = [(''Accepted'', ''True'')], gv_Listeners = [], gv_ParametersRef = True\<rparr>),
      rd_Route = (\<lambda>i n. Inr (demo_route n)),
      rd_Deployment = (\<lambda>i n. Inr \<lparr>dv_Generation = 1, dv_ObservedGeneration = 1, dv_Replicas = Some 2, dv_AvailableReplicas = 2\<rparr>)\<rparr>"

definition demo_gateway_request :: "gen_condition list gateway_request" where
  "demo_gateway_request = \<lparr>gq_Instance = Some demo_gateway_config, gq_AuthState = [], gq_Conditions = []\<rparr>"

lemma demo_serving:
  "ingress_serving plain_conditions ingress_demo_reads 0 (gs_AdditionalIngresses (gw_Spec demo_gateway_config) ! 0) demo_gateway_config []"
  "ingress_serving plain_conditions ingress_demo_reads 1 (gs_AdditionalIngresses (gw_Spec demo_gateway_config) ! 1) demo_gateway_config []"
  by code_simp+

theorem additional_gateways_ready_exactly_on_evidence_witness:
  "map_option cStatus (gm_GetCondition plain_marks ''AdditionalGatewaysReady''
     (gq_Conditions (snd (syncAdditionalIngressReadiness plain_conditions plain_marks False ingress_demo_reads demo_gateway_request)))) = Some ''True''"
proof -
  have fields: "gq_Instance demo_gateway_request = Some demo_gateway_config" "gq_AuthState demo_gateway_request = []"
    by (simp_all add: demo_gateway_request_def)
  have names: "distinct (map ai_Name (gs_AdditionalIngresses (gw_Spec demo_gateway_config)))"
    and two: "length (gs_AdditionalIngresses (gw_Spec demo_gateway_config)) = 2"
    by code_simp+
  have "\<forall>i<length (gs_AdditionalIngresses (gw_Spec demo_gateway_config)).
      ingress_serving plain_conditions ingress_demo_reads i (gs_AdditionalIngresses (gw_Spec demo_gateway_config) ! i) demo_gateway_config []"
    using demo_serving by (auto simp: two less_2_cases_iff)
  then show ?thesis
    using additional_gateways_ready_exactly_on_evidence [OF plain_conditions_laws plain_marks_laws fields(1) _ names surjective_pairing]
    by (simp add: fields)
qed

end
