(* ===== verification/Gateway_Infra.thy ===== *)
theory Gateway_Infra
  imports Gateway_Status
begin

text \<open>
  The Gateways, Routes and redirects that the gateway controller asks for, and the objects it deletes
  (\<open>internal/controller/services/gateway\<close>: \<open>gateway_controller_actions.go\<close>, \<open>gateway_support.go\<close>, \<open>ocp_routes.go\<close>,
  \<open>dashboard_redirects.go\<close>, \<open>gateway_certmanager.go\<close>; the certificate helpers of \<open>pkg/cluster/cert.go\<close>).

  The API client is a record of functions on a world \<open>'w\<close>, as in \<open>Kube_Client\<close>: a call sees the world and leaves another. Each action
  takes a request and returns an error, if any, and the request. The request carries the world, the resources and templates
  collected so far, the list of writes (\<open>gq_Writes\<close>), and the template data once it was computed. Log output is left out. Objects that the
  framework renders from templates appear as the paths of their templates.
\<close>

section \<open>Resources\<close>

record gw_listener =
  li_Name :: string
  li_Port :: int
  li_Hostname :: "string option"
  li_SecretName :: string
  li_Namespaces :: "string list"

record managed_gateway =
  mg_Name :: string
  mg_Namespace :: string
  mg_Labels :: "(string, string) gomap"
  mg_ClassName :: string
  mg_Listeners :: "gw_listener list"
  mg_ParametersRef :: "string option"
  mg_Annotations :: "(string, string) gomap"

record bridge_route =
  br_Name :: string
  br_Namespace :: string
  br_Labels :: "(string, string) gomap"
  br_Host :: string
  br_ToName :: string
  br_TargetPort :: int

record secret_view =
  sv_Data :: "(string, string) gomap"
  sv_Type :: string
  sv_Labels :: "(string, string) gomap"
  sv_Controller :: "controller_ref option"

record certificate_cr =
  xc_Name :: string
  xc_Namespace :: string
  xc_SecretName :: string
  xc_DNSNames :: "string list"
  xc_IssuerName :: string
  xc_IssuerKind :: string

datatype gw_resource =
    GatewayClass_res string string
  | Gateway_res managed_gateway
  | ConfigMap_res string string "(string, string) gomap" "(string, string) gomap"
  | Route_res bridge_route
  | Certificate_res certificate_cr
  | Secret_res string string secret_view
  | OAuthClient_res string string "string list" string
  | Rendered_res string string

datatype gw_write =
    Deleted GVK string string "api_failure option"
  | UpdatedConfig GatewayConfig "api_failure option"
  | AppliedSecret string string secret_view "api_failure option"
  | WrittenSecret string string secret_view

section \<open>Environment and client\<close>

record ingress_config =
  ig_AppsDomain :: "go_error + string option"
  ig_Domain :: "go_error + string option"

record ingress_controller =
  ic_Name :: string
  ic_ServerTimeout :: "int option"
  ic_DefaultCertificate :: "string option"

record 'w gateway_client =
  gk_Gateway :: "string \<Rightarrow> 'w \<Rightarrow> (api_failure + gateway_view) \<times> 'w"
  gk_ConfigMap :: "string \<Rightarrow> 'w \<Rightarrow> (api_failure + controller_ref option) \<times> 'w"
  gk_Route :: "string \<Rightarrow> 'w \<Rightarrow> (api_failure + route_view) \<times> 'w"
  gk_ServiceType :: "string \<Rightarrow> 'w \<Rightarrow> (api_failure + string) \<times> 'w"
  gk_GatewayConfig :: "'w \<Rightarrow> (api_failure + GatewayConfig) \<times> 'w"
  gk_ClusterIngress :: "'w \<Rightarrow> (api_failure + ingress_config) \<times> 'w"
  gk_IngressController :: "'w \<Rightarrow> (api_failure + ingress_controller) \<times> 'w"
  gk_AuthenticationType :: "'w \<Rightarrow> (api_failure + string) \<times> 'w"
  gk_Secret :: "string \<Rightarrow> string \<Rightarrow> 'w \<Rightarrow> (api_failure + secret_view) \<times> 'w"
  gk_Object :: "GVK \<Rightarrow> string \<Rightarrow> string \<Rightarrow> 'w \<Rightarrow> (api_failure + k8s_object) \<times> 'w"
  gk_Delete :: "GVK \<Rightarrow> string \<Rightarrow> string \<Rightarrow> 'w \<Rightarrow> api_failure option \<times> 'w"
  gk_UpdateConfig :: "GatewayConfig \<Rightarrow> 'w \<Rightarrow> api_failure option \<times> 'w"
  gk_ApplySecret :: "string \<Rightarrow> string \<Rightarrow> secret_view \<Rightarrow> 'w \<Rightarrow> api_failure option \<times> 'w"

text \<open>
  The process: whether the cluster is Kubernetes, the application namespace, the release, the environment variables, the name checks of the
  API machinery, whether the framework accepts a resource, whether the Route template renders, and the generator of
  self-signed certificates.
\<close>

record ('m, 'w) gateway_env =
  ge_Client :: "'w gateway_client"
  ge_Ops :: condition_list_ops
  ge_Marks :: "'m gateway_marks"
  ge_K8s :: bool
  ge_AppNamespace :: string
  ge_Release :: string
  ge_Getenv :: "string \<Rightarrow> string"
  ge_Checks :: name_checks
  ge_AddResources :: "gw_resource \<Rightarrow> go_error option"
  ge_RenderRoute :: "AdditionalIngress \<Rightarrow> go_error option"
  ge_GenerateCertificate :: "string \<Rightarrow> go_error + string \<times> string"

text \<open>The data a template gets, a map of values of several types; it is kept in the extensions of the request.\<close>

datatype template_value =
    TStr string
  | TInt int
  | TBool bool
  | TLabels "(string, string) gomap"
  | TFilters "(string \<times> string) list"
  | TNil

type_synonym template_data = "(string, template_value) gomap"

record ('m, 'w) gateway_run = "'m gateway_request" +
  gq_World :: 'w
  gq_Writes :: "gw_write list"
  gq_Resources :: "gw_resource list"
  gq_Templates :: "string list"
  gq_TemplateData :: "template_data option"

type_synonym ('m, 'w) gw_action = "('m, 'w) gateway_run \<Rightarrow> go_error option \<times> ('m, 'w) gateway_run"

definition ask :: "('w \<Rightarrow> 'a \<times> 'w) \<Rightarrow> ('m, 'w) gateway_run \<Rightarrow> 'a \<times> ('m, 'w) gateway_run" where
  "ask call rr = (case call (gq_World rr) of (answer, w) \<Rightarrow> (answer, rr\<lparr>gq_World := w\<rparr>))"

definition mark :: "('m, 'w) gateway_env \<Rightarrow> gen_condition \<Rightarrow> ('m, 'w) gateway_run \<Rightarrow> ('m, 'w) gateway_run" where
  "mark env c rr = rr\<lparr>gq_Conditions := gm_Mark (ge_Marks env) c (gq_Conditions rr)\<rparr>"

definition AddResources :: "('m, 'w) gateway_env \<Rightarrow> gw_resource \<Rightarrow> ('m, 'w) gw_action" where
  "AddResources env r rr =
     (case ge_AddResources env r of
        Some err \<Rightarrow> (Some err, rr) | None \<Rightarrow> (None, rr\<lparr>gq_Resources := gq_Resources rr @ [r]\<rparr>))"

definition delete_object :: "('m, 'w) gateway_env \<Rightarrow> GVK \<Rightarrow> string \<Rightarrow> string \<Rightarrow> ('m, 'w) gateway_run \<Rightarrow> api_failure option \<times> ('m, 'w) gateway_run" where
  "delete_object env gvk ns n rr =
     (case ask (gk_Delete (ge_Client env) gvk ns n) rr of
        (answer, rr) \<Rightarrow> (answer, rr\<lparr>gq_Writes := gq_Writes rr @ [Deleted gvk ns n answer]\<rparr>))"

abbreviation (input) GatewayConfigReady :: string where "GatewayConfigReady \<equiv> ''GatewayConfigReady''"

definition gateway_ns :: "('m, 'w) gateway_env \<Rightarrow> string" where
  "gateway_ns env = GetGatewayNamespace (ge_K8s env)"

abbreviation is_not_found :: "api_failure \<Rightarrow> bool" where
  "is_not_found err \<equiv> err_is NotFound (api_error err)"

abbreviation is_no_match :: "api_failure \<Rightarrow> bool" where
  "is_no_match err \<equiv> err_is NoMatch (api_error err)"

section \<open>Rejected configurations\<close>

definition rejectUnsupportedKubernetesGatewaySpec ::
  "('m, 'w) gateway_env \<Rightarrow> GatewayConfig \<Rightarrow> ('m, 'w) gateway_run \<Rightarrow> bool \<times> ('m, 'w) gateway_run" where
  "rejectUnsupportedKubernetesGatewaySpec env config rr =
     (if \<not> ge_K8s env then (False, rr)
      else
        let msgs = KubernetesValidationErrors (gw_Spec config) in
        if msgs = [] then (False, rr)
        else (True, mark env (gen_cond GatewayConfigReady ConditionFalse 0 ''NotReady'' (strings_Join msgs ''; '')) rr))"

definition reportDeprecatedNetworkPolicyConfig :: "('m, 'w) gateway_env \<Rightarrow> ('m, 'w) gw_action" where
  "reportDeprecatedNetworkPolicyConfig env rr =
     (case validateGatewayConfig rr of
        Inl err \<Rightarrow> (Some err, rr)
      | Inr config \<Rightarrow>
          if \<not> gs_NetworkPolicy (gw_Spec config) then (None, rr)
          else
            (None, mark env
               ((gen_cond ''GatewayConfigNetworkPolicyDeprecated'' ConditionTrue (gw_Generation config) ''DeprecatedConfigurationIgnored''
                  ''spec.networkPolicy is deprecated and ignored; the operator always manages the kube-auth-proxy NetworkPolicy'')
                \<lparr>cSeverity := ConditionSeverityInfo\<rparr>) rr))"

section \<open>Host names\<close>

definition getCurrentSubdomain :: "GatewayConfig option \<Rightarrow> string" where
  "getCurrentSubdomain config =
     (case config of
        None \<Rightarrow> ''rh-ai''
      | Some gc \<Rightarrow>
          let subdomain = TrimSpace (gs_Subdomain (gw_Spec gc)) in if subdomain \<noteq> '''' then subdomain else ''rh-ai'')"

text \<open>\<open>strings.Replace(s, old, new, 1)\<close> for a non-empty \<open>old\<close>.\<close>

fun replace_first :: "string \<Rightarrow> string \<Rightarrow> string \<Rightarrow> string" where
  "replace_first old new [] = []"
| "replace_first old new (c # s) =
     (if HasPrefix (c # s) old then new @ drop (length old) (c # s) else c # replace_first old new s)"

record LegacyRedirectInfo =
  lr_Subdomain :: string
  lr_Hostname :: string

definition computeLegacyRedirectInfo :: "GatewayConfig \<Rightarrow> string \<Rightarrow> LegacyRedirectInfo" where
  "computeLegacyRedirectInfo config hostname =
     (let current = getCurrentSubdomain (Some config) in
      if current \<noteq> ''data-science-gateway'' then
        \<lparr>lr_Subdomain = ''data-science-gateway'', lr_Hostname = replace_first (current @ ''.'') ''data-science-gateway.'' hostname\<rparr>
      else \<lparr>lr_Subdomain = '''', lr_Hostname = ''''\<rparr>)"

definition GetDomain :: "('m, 'w) gateway_env \<Rightarrow> ('m, 'w) gateway_run \<Rightarrow> (go_error + string) \<times> ('m, 'w) gateway_run" where
  "GetDomain env rr =
     (case ask (gk_ClusterIngress (ge_Client env)) rr of
        (Inl err, rr) \<Rightarrow> (Inl (wrap ''failed fetching cluster's ingress details'' (api_error err)), rr)
      | (Inr ingress, rr) \<Rightarrow>
          (case ig_AppsDomain ingress of
             Inl err \<Rightarrow> Inl (wrap ''failed to read spec.appsDomain'' err)
           | Inr apps \<Rightarrow>
               (case apps of
                  Some (c # d) \<Rightarrow> Inr (c # d)
                | _ \<Rightarrow>
                    (case ig_Domain ingress of
                       Inl err \<Rightarrow> Inl (wrap ''failed to read spec.domain'' err)
                     | Inr (Some (c # d)) \<Rightarrow> Inr (c # d)
                     | Inr _ \<Rightarrow> Inl (new_error ''spec.domain not found or empty''))), rr))"

text \<open>\<open>ErrDomainRequired\<close> is a value of its own, apart from other errors.\<close>

datatype domain_error = DomainRequired | DomainFailed go_error

definition GetFQDN ::
  "('m, 'w) gateway_env \<Rightarrow> GatewayConfig option \<Rightarrow> ('m, 'w) gateway_run \<Rightarrow> (domain_error + string) \<times> ('m, 'w) gateway_run" where
  "GetFQDN env config rr =
     (let subdomain = getCurrentSubdomain config;
          base = (case config of None \<Rightarrow> '''' | Some gc \<Rightarrow> TrimSpace (gs_Domain (gw_Spec gc))) in
      if base \<noteq> '''' then (Inr (subdomain @ ''.'' @ base), rr)
      else if ge_K8s env then (Inl DomainRequired, rr)
      else
        case GetDomain env rr of
          (Inl err, rr) \<Rightarrow> (Inl (DomainFailed (wrap ''failed to get cluster domain'' err)), rr)
        | (Inr domain, rr) \<Rightarrow> (Inr (subdomain @ ''.'' @ domain), rr))"

definition resolveGatewayHostname ::
  "('m, 'w) gateway_env \<Rightarrow> GatewayConfig \<Rightarrow> ('m, 'w) gateway_run \<Rightarrow> (domain_error + string) \<times> ('m, 'w) gateway_run" where
  "resolveGatewayHostname env config rr =
     (case GetFQDN env (Some config) rr of
        (Inr hostname, rr) \<Rightarrow> (Inr hostname, rr)
      | (Inl DomainRequired, rr) \<Rightarrow>
          (Inl DomainRequired,
           mark env (gen_cond GatewayConfigReady ConditionFalse 0 ''NotReady'' ''spec.domain is required on non-OpenShift clusters'') rr)
      | (Inl (DomainFailed err), rr) \<Rightarrow> (Inl (DomainFailed (wrap ''failed to resolve domain'' err)), rr))"

definition isGatewayDomainUnresolved ::
  "('m, 'w) gateway_env \<Rightarrow> GatewayConfig \<Rightarrow> ('m, 'w) gateway_run \<Rightarrow> (go_error + bool) \<times> ('m, 'w) gateway_run" where
  "isGatewayDomainUnresolved env config rr =
     (case resolveGatewayHostname env config rr of
        (Inl DomainRequired, rr) \<Rightarrow> (Inr True, rr)
      | (Inl (DomainFailed err), rr) \<Rightarrow> (Inl err, rr)
      | (Inr _, rr) \<Rightarrow> (Inr False, rr))"

definition GetGatewayDomain :: "('m, 'w) gateway_env \<Rightarrow> ('m, 'w) gateway_run \<Rightarrow> (domain_error + string) \<times> ('m, 'w) gateway_run" where
  "GetGatewayDomain env rr =
     (case ask (gk_Gateway (ge_Client env) (GetDefaultGatewayName (ge_K8s env))) rr of
        (answer, rr) \<Rightarrow>
          (case (case answer of Inl _ \<Rightarrow> None | Inr g \<Rightarrow> (case gv_Listeners g of [] \<Rightarrow> None | (_, hostname) # _ \<Rightarrow> hostname)) of
             Some hostname \<Rightarrow> (Inr hostname, rr)
           | None \<Rightarrow>
               (case ask (gk_GatewayConfig (ge_Client env)) rr of
                  (Inl _, rr) \<Rightarrow> GetFQDN env None rr
                | (Inr config, rr) \<Rightarrow> GetFQDN env (Some config) rr)))"

section \<open>The ingress mode\<close>

definition set_mode :: "string \<Rightarrow> GatewayConfig \<Rightarrow> GatewayConfig" where
  "set_mode mode config = config\<lparr>gw_Spec := (gw_Spec config)\<lparr>gs_IngressMode := mode\<rparr>\<rparr>"

definition detectAndSetIngressMode :: "('m, 'w) gateway_env \<Rightarrow> GatewayConfig \<Rightarrow> ('m, 'w) gw_action" where
  "detectAndSetIngressMode env config rr =
     (case ask (gk_ServiceType (ge_Client env) (GetGatewayServiceFullName (GetDefaultGatewayName (ge_K8s env)))) rr of
        (Inl err, rr) \<Rightarrow>
          if is_not_found err then
            (None, rr\<lparr>gq_Instance := Some (set_mode (if ge_K8s env then ''LoadBalancer'' else ''OcpRoute'') config)\<rparr>)
          else (Some (wrap ''failed to get Gateway Service'' (api_error err)), rr)
      | (Inr ty, rr) \<Rightarrow>
          let config = set_mode (if ty = ''LoadBalancer'' then ''LoadBalancer'' else ''OcpRoute'') config in
          case ask (gk_UpdateConfig (ge_Client env) config) rr of
            (answer, rr) \<Rightarrow>
              (case answer of None \<Rightarrow> None | Some err \<Rightarrow> Some (wrap ''failed to update GatewayConfig with detected mode'' (api_error err)),
               rr\<lparr>gq_Instance := Some config, gq_Writes := gq_Writes rr @ [UpdatedConfig config answer]\<rparr>))"

definition KubernetesGateway_gvk :: GVK where
  "KubernetesGateway_gvk = \<lparr>gvk_Group = ''gateway.networking.k8s.io'', gvk_Version = ''v1'', gvk_Kind = ''Gateway''\<rparr>"

definition mode_mismatch :: "string \<Rightarrow> gateway_view \<Rightarrow> bool" where
  "mode_mismatch desiredMode gateway \<longleftrightarrow>
     (let hasHostname = list_ex (\<lambda>(n, hostname). n = ''https'' \<and> hostname \<noteq> None) (gv_Listeners gateway);
          hasClusterIPConfig = gv_ParametersRef gateway;
          wantsHostname = (desiredMode = ''LoadBalancer'');
          wantsClusterIPConfig = (desiredMode = ''OcpRoute'')
      in \<not> (hasHostname = wantsHostname \<and> hasClusterIPConfig = wantsClusterIPConfig))"

definition reconcileGatewayForModeChange :: "('m, 'w) gateway_env \<Rightarrow> string \<Rightarrow> ('m, 'w) gw_action" where
  "reconcileGatewayForModeChange env desiredMode rr =
     (case ask (gk_Gateway (ge_Client env) (GetDefaultGatewayName (ge_K8s env))) rr of
        (Inl err, rr) \<Rightarrow>
          (if is_not_found err then None else Some (wrap ''failed to get Gateway'' (api_error err)), rr)
      | (Inr gateway, rr) \<Rightarrow>
          if \<not> mode_mismatch desiredMode gateway then (None, rr)
          else
            case delete_object env KubernetesGateway_gvk (gateway_ns env) (GetDefaultGatewayName (ge_K8s env)) rr of
              (Some err, rr) \<Rightarrow> (Some (wrap ''failed to delete Gateway'' (api_error err)), rr)
            | (None, rr) \<Rightarrow> (Some (new_error ''gateway deleted for mode change, requeuing to recreate''), rr))"

section \<open>Certificates\<close>

definition resolveIssuerRef :: "(string \<Rightarrow> string) \<Rightarrow> CertificateSpec option \<Rightarrow> string \<times> string" where
  "resolveIssuerRef getenv cert =
     (let name = env_GetOrDefault getenv ''RHAI_ISSUER_REF_NAME'' ''opendatahub-ca-issuer'';
          kind = env_GetOrDefault getenv ''RHAI_ISSUER_REF_KIND'' ''ClusterIssuer'' in
      case Option.bind cert ct_IssuerRef of
        None \<Rightarrow> (name, kind)
      | Some ref \<Rightarrow> (if is_Name ref \<noteq> '''' then is_Name ref else name, if is_Kind ref \<noteq> '''' then is_Kind ref else kind))"

definition buildCertManagerCertificate :: "string \<Rightarrow> string \<Rightarrow> string \<Rightarrow> string list \<Rightarrow> string \<times> string \<Rightarrow> certificate_cr" where
  "buildCertManagerCertificate name namespace secretName dnsNames issuer =
     \<lparr>xc_Name = name, xc_Namespace = namespace, xc_SecretName = secretName, xc_DNSNames = dnsNames,
      xc_IssuerName = fst issuer, xc_IssuerKind = snd issuer\<rparr>"

definition effectiveCertificateType :: "GatewayConfig \<Rightarrow> bool \<Rightarrow> string" where
  "effectiveCertificateType config k8s =
     (let default = (if k8s then ''SelfSigned'' else ''OpenshiftDefaultIngress'') in
      case gs_Certificate (gw_Spec config) of
        Some cert \<Rightarrow> if ct_Type cert \<noteq> '''' then ct_Type cert else default
      | None \<Rightarrow> default)"

definition gatewayCertificateSecretName :: "GatewayConfig \<Rightarrow> string" where
  "gatewayCertificateSecretName config =
     (case gs_Certificate (gw_Spec config) of
        Some cert \<Rightarrow> if ct_SecretName cert \<noteq> '''' then ct_SecretName cert else gw_Name config @ ''-tls''
      | None \<Rightarrow> gw_Name config @ ''-tls'')"

text \<open>
  A Secret of the operator's own, applied with the label and the owner reference that mark it.
\<close>

definition owned_secret :: "GatewayConfig \<Rightarrow> (string, string) gomap \<Rightarrow> string \<Rightarrow> secret_view" where
  "owned_secret config secret_data ty =
     \<lparr>sv_Data = secret_data, sv_Type = ty, sv_Labels = [(''platform.opendatahub.io/part-of'', ''gateway'')],
      sv_Controller = Some \<lparr>cr_UID = gw_UID config, cr_Name = gw_Name config, cr_Kind = ''GatewayConfig''\<rparr>\<rparr>"

definition apply_secret :: "('m, 'w) gateway_env \<Rightarrow> string \<Rightarrow> string \<Rightarrow> secret_view \<Rightarrow> ('m, 'w) gw_action" where
  "apply_secret env ns n secret rr =
     (case ask (gk_ApplySecret (ge_Client env) ns n secret) rr of
        (answer, rr) \<Rightarrow>
          (case answer of
             None \<Rightarrow> None | Some err \<Rightarrow> if err_is AlreadyExists (api_error err) then None else Some (api_error err),
           rr\<lparr>gq_Writes := gq_Writes rr @ [AppliedSecret ns n secret answer]\<rparr>))"

definition GetDefaultIngressCertSecretName :: "ingress_controller \<Rightarrow> string" where
  "GetDefaultIngressCertSecretName ctrl =
     (case ic_DefaultCertificate ctrl of Some n \<Rightarrow> n | None \<Rightarrow> ''router-certs-'' @ ic_Name ctrl)"

definition PropagateDefaultIngressCertificate ::
  "('m, 'w) gateway_env \<Rightarrow> string \<Rightarrow> string \<Rightarrow> GatewayConfig \<Rightarrow> ('m, 'w) gw_action" where
  "PropagateDefaultIngressCertificate env secretName namespace config rr =
     (case ask (gk_IngressController (ge_Client env)) rr of
        (Inl err, rr) \<Rightarrow>
          (Some (wrap ''failed to get ingress controller''
             (GoError (''error getting ingresscontroller resource :'' @ af_text err) (err_kinds (api_error err)))), rr)
      | (Inr ctrl, rr) \<Rightarrow>
          (case ask (gk_Secret (ge_Client env) ''openshift-ingress'' (GetDefaultIngressCertSecretName ctrl)) rr of
             (Inl err, rr) \<Rightarrow> (Some (api_error err), rr)
           | (Inr secret, rr) \<Rightarrow> apply_secret env namespace secretName (owned_secret config (sv_Data secret) (sv_Type secret)) rr))"

definition CreateSelfSignedCertificate ::
  "('m, 'w) gateway_env \<Rightarrow> string \<Rightarrow> string \<Rightarrow> string \<Rightarrow> GatewayConfig \<Rightarrow> ('m, 'w) gw_action" where
  "CreateSelfSignedCertificate env secretName domain namespace config rr =
     (case ge_GenerateCertificate env domain of
        Inl err \<Rightarrow> (Some (wrap ''failed generating self-signed certificate'' (wrap ''error generating certificate'' err)), rr)
      | Inr (cert, key) \<Rightarrow>
          apply_secret env namespace secretName
            (owned_secret config [(''tls.crt'', cert), (''tls.key'', key)] ''kubernetes.io/tls'') rr)"

definition handleCertificates ::
  "('m, 'w) gateway_env \<Rightarrow> GatewayConfig \<Rightarrow> string \<Rightarrow> ('m, 'w) gateway_run \<Rightarrow> (go_error + string) \<times> ('m, 'w) gateway_run" where
  "handleCertificates env config domain rr =
     (let ty = effectiveCertificateType config (ge_K8s env);
          secretName = gatewayCertificateSecretName config;
          finish = (\<lambda>msg (err, rr). (case err of None \<Rightarrow> Inr secretName | Some e \<Rightarrow> Inl (wrap msg e), rr)) in
      if ty = ''OpenshiftDefaultIngress'' then
        finish ''failed to propagate default ingress certificate''
          (PropagateDefaultIngressCertificate env secretName (gateway_ns env) config rr)
      else if ty = ''SelfSigned'' then
        if ge_K8s env then
          finish ''failed to add gateway Certificate''
            (AddResources env (Certificate_res (buildCertManagerCertificate secretName (gateway_ns env) secretName [domain]
               (resolveIssuerRef (ge_Getenv env) (gs_Certificate (gw_Spec config))))) rr)
        else
          finish ''failed to create self-signed certificate''
            (CreateSelfSignedCertificate env secretName domain (gateway_ns env) config rr)
      else if ty = ''Provided'' then (Inr secretName, rr)
      else (Inl (new_error (''unsupported certificate type: '' @ ty)), rr))"

section \<open>Gateways\<close>

definition GetGatewayControllerName :: "bool \<Rightarrow> string" where
  "GetGatewayControllerName k8s = (if k8s then ''istio.io/gateway-controller'' else ''openshift.io/gateway-controller/v1'')"

definition GetIstioRevisionValue :: "bool \<Rightarrow> string" where
  "GetIstioRevisionValue k8s = (if k8s then ''default'' else ''openshift-gateway'')"

definition createGatewayClass :: "('m, 'w) gateway_env \<Rightarrow> ('m, 'w) gw_action" where
  "createGatewayClass env = AddResources env (GatewayClass_res GatewayClassName (GetGatewayControllerName (ge_K8s env)))"

definition gatewayHTTPSListener :: "string \<Rightarrow> string \<Rightarrow> string list \<Rightarrow> gw_listener" where
  "gatewayHTTPSListener name secretName allowed =
     \<lparr>li_Name = name, li_Port = 443, li_Hostname = None, li_SecretName = secretName, li_Namespaces = allowed\<rparr>"

definition managedGateway :: "bool \<Rightarrow> string \<Rightarrow> gw_listener list \<Rightarrow> managed_gateway" where
  "managedGateway k8s name listeners =
     \<lparr>mg_Name = name, mg_Namespace = GetGatewayNamespace k8s, mg_Labels = [(''istio.io/rev'', GetIstioRevisionValue k8s)],
      mg_ClassName = GatewayClassName, mg_Listeners = listeners, mg_ParametersRef = None, mg_Annotations = []\<rparr>"

definition service_config :: "string \<Rightarrow> string" where
  "service_config secretName =
     ''metadata:'' @ [CHR 0x0A] @ ''  annotations:'' @ [CHR 0x0A] @
     ''    service.beta.openshift.io/serving-cert-secret-name: '' @ [CHR 0x22] @ secretName @ [CHR 0x22, CHR 0x0A] @
     ''spec:'' @ [CHR 0x0A] @ ''  type: ClusterIP'' @ [CHR 0x0A]"

definition configureClusterIPInfrastructure ::
  "('m, 'w) gateway_env \<Rightarrow> managed_gateway \<Rightarrow> string \<Rightarrow> string \<Rightarrow> ('m, 'w) gateway_run \<Rightarrow>
     (go_error + managed_gateway) \<times> ('m, 'w) gateway_run" where
  "configureClusterIPInfrastructure env gateway configMapName serviceTLSSecretName rr =
     (case AddResources env (ConfigMap_res configMapName (gateway_ns env) [(''platform.opendatahub.io/part-of'', ''gatewayconfig'')]
             [(''service'', service_config serviceTLSSecretName)]) rr of
        (Some err, rr) \<Rightarrow> (Inl err, rr)
      | (None, rr) \<Rightarrow> (Inr (gateway\<lparr>mg_ParametersRef := Some configMapName, mg_Annotations := []\<rparr>), rr))"

fun createAdditionalGateways :: "('m, 'w) gateway_env \<Rightarrow> GatewayConfig \<Rightarrow> string list \<Rightarrow> AdditionalIngress list \<Rightarrow> ('m, 'w) gw_action" where
  "createAdditionalGateways env config allowed [] rr = (None, rr)"
| "createAdditionalGateways env config allowed (ing # rest) rr =
     (if additionalIngressHasGatewayConflict (ge_Ops env) config (ai_Name ing) then createAdditionalGateways env config allowed rest rr
      else
        let secretName = additionalGatewayServiceTLSSecretName (ai_Name ing);
            gateway = managedGateway (ge_K8s env) (ai_Name ing) [gatewayHTTPSListener ''https'' secretName allowed] in
        case configureClusterIPInfrastructure env gateway (additionalGatewayInfrastructureConfigMapName (ai_Name ing)) secretName rr of
          (Inl err, rr) \<Rightarrow> (Some err, rr)
        | (Inr gateway, rr) \<Rightarrow>
            (case AddResources env (Gateway_res gateway) rr of
               (Some err, rr) \<Rightarrow> (Some (wrap (''failed to add Gateway for additional ingress '' @ quoted (ai_Name ing)) err), rr)
             | (None, rr) \<Rightarrow> createAdditionalGateways env config allowed rest rr))"

definition default_listeners :: "string \<Rightarrow> string \<Rightarrow> string \<Rightarrow> string \<Rightarrow> string list \<Rightarrow> gw_listener list" where
  "default_listeners mode certSecretName domain legacyDomain allowed =
     (if certSecretName = '''' then []
      else
        let https = gatewayHTTPSListener ''https'' certSecretName allowed in
        (if mode \<noteq> ''OcpRoute'' then [https\<lparr>li_Hostname := Some domain\<rparr>] else [https]) @
        (if mode \<noteq> ''OcpRoute'' \<and> legacyDomain \<noteq> ''''
         then [(gatewayHTTPSListener ''https-legacy'' certSecretName allowed)\<lparr>li_Hostname := Some legacyDomain\<rparr>] else []))"

definition createGateway ::
  "('m, 'w) gateway_env \<Rightarrow> string \<Rightarrow> string \<Rightarrow> string \<Rightarrow> GatewayConfig \<Rightarrow> ('m, 'w) gw_action" where
  "createGateway env certSecretName domain legacyDomain config rr =
     (let mode = gs_IngressMode (gw_Spec config);
          allowed = [gateway_ns env, ge_AppNamespace env];
          gateway = managedGateway (ge_K8s env) (GetDefaultGatewayName (ge_K8s env))
            (default_listeners mode certSecretName domain legacyDomain allowed);
          (configured, rr) =
            (if mode = ''OcpRoute'' then
               configureClusterIPInfrastructure env gateway ''data-science-gateway-config'' ''data-science-gateway-service-tls'' rr
             else if ge_K8s env then
               (Inr (gateway\<lparr>mg_Annotations := [(''service.beta.kubernetes.io/port_443_health-probe_protocol'', ''Tcp'')]\<rparr>), rr)
             else (Inr gateway, rr))
      in case configured of
           Inl err \<Rightarrow> (Some err, rr)
         | Inr gateway \<Rightarrow>
             (case AddResources env (Gateway_res gateway) rr of
                (Some err, rr) \<Rightarrow> (Some err, rr)
              | (None, rr) \<Rightarrow> createAdditionalGateways env config allowed (gs_AdditionalIngresses (gw_Spec config)) rr))"

section \<open>Conflicts and the infrastructure action\<close>

text \<open>\<open>strings.EqualFold\<close> on host names, which are ASCII.\<close>

definition EqualFold :: "string \<Rightarrow> string \<Rightarrow> bool" where
  "EqualFold s t \<longleftrightarrow> ToLower s = ToLower t"

definition can_manage :: "string \<Rightarrow> GatewayConfig \<Rightarrow> api_failure + controller_ref option \<Rightarrow> go_error + bool" where
  "can_manage key config answer =
     (case answer of
        Inl err \<Rightarrow> if is_not_found err then Inr True else Inl (wrap (''failed to get existing resource '' @ key) (api_error err))
      | Inr controller \<Rightarrow> Inr (isOwnedByGatewayConfig controller config))"

text \<open>The reason and message of a conflict, if there is one.\<close>

definition ingress_conflict ::
  "('m, 'w) gateway_env \<Rightarrow> string \<Rightarrow> string \<Rightarrow> GatewayConfig \<Rightarrow> AdditionalIngress \<Rightarrow> ('m, 'w) gateway_run \<Rightarrow>
     (go_error + (string \<times> string) option) \<times> ('m, 'w) gateway_run" where
  "ingress_conflict env hostname legacyHostname config ing rr =
     (let name = ai_Name ing; configMap = additionalGatewayInfrastructureConfigMapName name in
      if EqualFold (ai_Hostname ing) hostname \<or> EqualFold (ai_Hostname ing) legacyHostname then
        (Inr (Some (''HostnameConflict'',
           ''additional ingress '' @ quoted name @ '' hostname '' @ quoted (ai_Hostname ing) @ '' conflicts with a managed Gateway hostname'')), rr)
      else
        case ask (gk_Gateway (ge_Client env) name) rr of
          (answer, rr) \<Rightarrow>
            (case can_manage (gateway_ns env @ ''/'' @ name) config (map_sum id gv_Controller answer) of
               Inl err \<Rightarrow> (Inl (wrap (''failed to validate additional Gateway '' @ quoted name @ '' ownership'') err), rr)
             | Inr False \<Rightarrow>
                 (Inr (Some (''OwnershipConflict'',
                    ''additional Gateway '' @ quoted name @ '' already exists and is not owned by GatewayConfig '' @ quoted (gw_Name config))), rr)
             | Inr True \<Rightarrow>
                 (case ask (gk_ConfigMap (ge_Client env) configMap) rr of
                    (answer, rr) \<Rightarrow>
                      (case can_manage (gateway_ns env @ ''/'' @ configMap) config answer of
                         Inl err \<Rightarrow>
                           (Inl (wrap (''failed to validate additional Gateway infrastructure ConfigMap '' @ quoted configMap @ '' ownership'') err), rr)
                       | Inr False \<Rightarrow>
                           (Inr (Some (''OwnershipConflict'',
                              ''additional Gateway infrastructure ConfigMap '' @ quoted configMap @ '' already exists and is not owned by GatewayConfig '' @
                              quoted (gw_Name config))), rr)
                       | Inr True \<Rightarrow> (Inr None, rr)))))"

fun check_conflicts ::
  "('m, 'w) gateway_env \<Rightarrow> string \<Rightarrow> string \<Rightarrow> AdditionalIngress list \<Rightarrow> ('m, 'w) gw_action" where
  "check_conflicts env hostname legacyHostname [] rr = (None, rr)"
| "check_conflicts env hostname legacyHostname (ing # rest) rr =
     (let config = the (gq_Instance rr); generation = gw_Generation config in
      case ingress_conflict env hostname legacyHostname config ing rr of
        (Inl err, rr) \<Rightarrow> (Some err, rr)
      | (Inr (Some (reason, message)), rr) \<Rightarrow>
          check_conflicts env hostname legacyHostname rest
            (updateAdditionalGatewaysReadyCondition (ge_Ops env) (ge_Marks env)
               (on_status (ai_Name ing) (setAdditionalIngressCondition (ge_Ops env) generation GatewayReady ConditionFalse reason message) config) rr)
      | (Inr None, rr) \<Rightarrow>
          check_conflicts env hostname legacyHostname rest
            (if additionalIngressHasGatewayConflict (ge_Ops env) config (ai_Name ing) then
               rr\<lparr>gq_Instance := Some (on_status (ai_Name ing)
                 (setAdditionalIngressCondition (ge_Ops env) generation GatewayReady ConditionUnknown ReconciliationPending
                    ''Gateway conflict has been resolved'') config)\<rparr>
             else rr))"

text \<open>What follows once the host name is known and conflicts are recorded.\<close>

definition create_infrastructure :: "('m, 'w) gateway_env \<Rightarrow> string \<Rightarrow> string \<Rightarrow> ('m, 'w) gw_action" where
  "create_infrastructure env hostname legacyHostname rr =
     (let config = the (gq_Instance rr); mode = gs_IngressMode (gw_Spec config) in
      case reconcileGatewayForModeChange env mode rr of
        (Some err, rr) \<Rightarrow> (Some (wrap ''failed to reconcile Gateway for mode change'' err), rr)
      | (None, rr) \<Rightarrow>
          (case createGatewayClass env rr of
             (Some err, rr) \<Rightarrow> (Some (wrap ''failed to create GatewayClass'' err), rr)
           | (None, rr) \<Rightarrow>
               (case (if mode = ''OcpRoute'' then (Inr ''data-science-gateway-service-tls'', rr)
                      else case handleCertificates env config hostname rr of
                             (Inl err, rr) \<Rightarrow> (Inl (wrap ''failed to handle certificates'' err), rr)
                           | (Inr n, rr) \<Rightarrow> (Inr n, rr)) of
                  (Inl err, rr) \<Rightarrow> (Some err, rr)
                | (Inr certSecretName, rr) \<Rightarrow>
                    (case createGateway env certSecretName hostname legacyHostname config rr of
                       (Some err, rr) \<Rightarrow> (Some (wrap ''failed to create Gateway'' err), rr)
                     | (None, rr) \<Rightarrow> (None, rr)))))"

definition createGatewayInfrastructure :: "('m, 'w) gateway_env \<Rightarrow> ('m, 'w) gw_action" where
  "createGatewayInfrastructure env rr =
     (case validateGatewayConfig rr of
        Inl err \<Rightarrow> (Some err, rr)
      | Inr config \<Rightarrow>
          case rejectUnsupportedKubernetesGatewaySpec env config rr of
            (True, rr) \<Rightarrow> (None, rr)
          | (False, rr) \<Rightarrow>
              (case (if gs_IngressMode (gw_Spec config) = '''' then detectAndSetIngressMode env config rr else (None, rr)) of
                 (Some err, rr) \<Rightarrow> (Some (wrap ''failed to detect ingress mode'' err), rr)
               | (None, rr) \<Rightarrow>
                   let config = the (gq_Instance rr) in
                   (case ValidateAdditionalIngresses (ge_Checks env) (gw_Spec config) of
                      Some err \<Rightarrow> (Some (wrap ''invalid additional ingresses'' err), rr)
                    | None \<Rightarrow>
                        (case resolveGatewayHostname env config rr of
                           (Inl DomainRequired, rr) \<Rightarrow> (None, rr)
                         | (Inl (DomainFailed err), rr) \<Rightarrow> (Some err, rr)
                         | (Inr hostname, rr) \<Rightarrow>
                             let legacy = lr_Hostname (computeLegacyRedirectInfo config hostname) in
                             (case check_conflicts env hostname legacy (gs_AdditionalIngresses (gw_Spec config)) rr of
                                (Some err, rr) \<Rightarrow> (Some err, rr)
                              | (None, rr) \<Rightarrow> create_infrastructure env hostname legacy rr)))))"

section \<open>Routes\<close>

definition buildAdditionalIngressRoute :: "('m, 'w) gateway_env \<Rightarrow> AdditionalIngress \<Rightarrow> go_error + bridge_route" where
  "buildAdditionalIngressRoute env ing =
     (case ge_RenderRoute env ing of
        Some err \<Rightarrow> Inl err
      | None \<Rightarrow>
          Inr \<lparr>br_Name = ai_Name ing, br_Namespace = gateway_ns env, br_Labels = gatewayRouteLabels (ai_RouteLabels ing),
               br_Host = ai_Hostname ing, br_ToName = GetGatewayServiceFullName (ai_Name ing), br_TargetPort = 443\<rparr>)"

fun createAdditionalIngressRoutes :: "('m, 'w) gateway_env \<Rightarrow> AdditionalIngress list \<Rightarrow> ('m, 'w) gw_action" where
  "createAdditionalIngressRoutes env [] rr = (None, rr)"
| "createAdditionalIngressRoutes env (ing # rest) rr =
     (let config = the (gq_Instance rr); name = ai_Name ing; report = recordAdditionalIngressRouteCondition (ge_Ops env) name in
      if additionalIngressHasGatewayConflict (ge_Ops env) config name then createAdditionalIngressRoutes env rest rr
      else
        case buildAdditionalIngressRoute env ing of
          Inl err \<Rightarrow>
            (Some (wrap (''failed to render additional ingress Route for '' @ quoted name) err),
             report ConditionUnknown ''NotReady'' ''The bridge Route could not be rendered'' rr)
        | Inr route \<Rightarrow>
            (case ask (gk_Route (ge_Client env) name) rr of
               (answer, rr) \<Rightarrow>
                 (case can_manage (gateway_ns env @ ''/'' @ name) config (map_sum id rv_Controller answer) of
                    Inl err \<Rightarrow> (Some (wrap (''failed to verify additional ingress Route '' @ quoted name @ '' ownership'') err), rr)
                  | Inr False \<Rightarrow>
                      createAdditionalIngressRoutes env rest
                        (report ConditionFalse ''OwnershipConflict'' (''Route '' @ quoted name @ '' is not controlled by this GatewayConfig'') rr)
                  | Inr True \<Rightarrow>
                      (case AddResources env (Route_res route) rr of
                         (Some err, rr) \<Rightarrow>
                           (Some (wrap (''failed to add additional ingress Route for '' @ quoted name) err),
                            report ConditionUnknown ''NotReady'' ''The bridge Route could not be added to the desired resources'' rr)
                       | (None, rr) \<Rightarrow> createAdditionalIngressRoutes env rest rr))))"

definition createOCPRoutes :: "('m, 'w) gateway_env \<Rightarrow> ('m, 'w) gw_action" where
  "createOCPRoutes env rr =
     (case validateGatewayConfig rr of
        Inl err \<Rightarrow> (Some err, rr)
      | Inr config \<Rightarrow>
          case rejectUnsupportedKubernetesGatewaySpec env config rr of
            (True, rr) \<Rightarrow> (None, rr)
          | (False, rr) \<Rightarrow>
              if gs_IngressMode (gw_Spec config) \<noteq> ''OcpRoute'' then (None, rr)
              else
                (case isGatewayDomainUnresolved env config rr of
                   (Inl err, rr) \<Rightarrow> (Some err, rr)
                 | (Inr True, rr) \<Rightarrow>
                     (None, recordAllAdditionalIngressRouteConditions (ge_Ops env) (gs_AdditionalIngresses (gw_Spec config))
                        ''DependencyUnavailable'' ''Gateway domain is not available yet'' rr)
                 | (Inr False, rr) \<Rightarrow>
                     createAdditionalIngressRoutes env (gs_AdditionalIngresses (gw_Spec config))
                       (rr\<lparr>gq_Templates := gq_Templates rr @ [''resources/gateway-ocp-route.tmpl.yaml'']\<rparr>)))"

definition resolveOCPRouteServerTimeout ::
  "('m, 'w) gateway_env \<Rightarrow> GatewayConfig \<Rightarrow> ('m, 'w) gateway_run \<Rightarrow> (go_error + string) \<times> ('m, 'w) gateway_run" where
  "resolveOCPRouteServerTimeout env config rr =
     (let explicit = (case gs_OCPRoute (gw_Spec config) of None \<Rightarrow> '''' | Some t \<Rightarrow> t) in
      if gs_IngressMode (gw_Spec config) \<noteq> ''OcpRoute'' then (Inr '''', rr)
      else if explicit \<noteq> '''' then (Inr explicit, rr)
      else
        case ask (gk_IngressController (ge_Client env)) rr of
          (Inl err, rr) \<Rightarrow>
            (if is_not_found err \<or> is_no_match err then Inr ''''
             else Inl (wrap ''failed to read default IngressController server timeout'' (api_error err)), rr)
        | (Inr ctrl, rr) \<Rightarrow>
            let serverTimeout = (case ic_ServerTimeout ctrl of Some t \<Rightarrow> if t > 0 then t else 30 * second | None \<Rightarrow> 30 * second)
            in (Inr (if serverTimeout < minute then ''60s'' else ''''), rr))"

section \<open>Authentication mode and cleanup of the proxy\<close>

datatype AuthenticationMode = AuthModeIntegratedOAuth | AuthModeOIDC | AuthModeNone

definition GetClusterAuthenticationMode ::
  "('m, 'w) gateway_env \<Rightarrow> ('m, 'w) gateway_run \<Rightarrow> (go_error + AuthenticationMode) \<times> ('m, 'w) gateway_run" where
  "GetClusterAuthenticationMode env rr =
     (case ask (gk_AuthenticationType (ge_Client env)) rr of
        (Inl err, rr) \<Rightarrow>
          (if is_no_match err then Inl (GoError (''.services.platform.opendatahub.io '' @ quoted ''cluster'' @ '' not found'') [NotFound])
           else Inl (wrap ''failed to get cluster authentication config'' (api_error err)), rr)
      | (Inr ty, rr) \<Rightarrow>
          (Inr (if ty = ''OIDC'' then AuthModeOIDC else if ty = ''None'' then AuthModeNone
                else if ty = '''' \<or> ty = ''IntegratedOAuth'' then AuthModeIntegratedOAuth else AuthModeNone), rr))"

definition getGatewayAuthenticationMode ::
  "('m, 'w) gateway_env \<Rightarrow> GatewayConfig \<Rightarrow> ('m, 'w) gateway_run \<Rightarrow> (go_error + AuthenticationMode) \<times> ('m, 'w) gateway_run" where
  "getGatewayAuthenticationMode env config rr =
     (if ge_K8s env then (Inr (if gs_OIDC (gw_Spec config) \<noteq> None then AuthModeOIDC else AuthModeNone), rr)
      else
        case GetClusterAuthenticationMode env rr of
          (Inl err, rr) \<Rightarrow> (Inl (wrap ''failed to detect cluster authentication mode'' err), rr)
        | (Inr mode, rr) \<Rightarrow> (Inr mode, rr))"

text \<open>The proxy is wanted unless authentication is external, or OIDC without a configuration.\<close>

definition proxy_desired :: "AuthenticationMode \<Rightarrow> GatewayConfig \<Rightarrow> bool" where
  "proxy_desired mode config \<longleftrightarrow> mode \<noteq> AuthModeNone \<and> (mode \<noteq> AuthModeOIDC \<or> gs_OIDC (gw_Spec config) \<noteq> None)"

definition apps_Deployment_gvk :: GVK where
  "apps_Deployment_gvk = \<lparr>gvk_Group = ''apps'', gvk_Version = ''v1'', gvk_Kind = ''Deployment''\<rparr>"

definition NetworkPolicy_gvk :: GVK where
  "NetworkPolicy_gvk = \<lparr>gvk_Group = ''networking.k8s.io'', gvk_Version = ''v1'', gvk_Kind = ''NetworkPolicy''\<rparr>"

abbreviation (input) PlatformPartOf_label :: string where
  "PlatformPartOf_label \<equiv> ''platform.opendatahub.io/part-of''"

definition marked_unmanaged :: "k8s_object \<Rightarrow> bool" where
  "marked_unmanaged u \<longleftrightarrow> at_or (ko_Annotations u) '''' ''opendatahub.io/managed'' = ''false''"

definition gateway_part :: "k8s_object \<Rightarrow> bool" where
  "gateway_part u \<longleftrightarrow> at_or (ko_Labels u) '''' PlatformPartOf_label = NormalizePartOfValue ''GatewayConfig''"

definition deleteLegacyNetworkPolicy :: "('m, 'w) gateway_env \<Rightarrow> ('m, 'w) gw_action" where
  "deleteLegacyNetworkPolicy env rr =
     (case ask (gk_Object (ge_Client env) NetworkPolicy_gvk (gateway_ns env) KubeAuthProxyName) rr of
        (Inl err, rr) \<Rightarrow>
          (if is_not_found err then None else Some (wrap ''failed to get legacy auth proxy NetworkPolicy'' (api_error err)), rr)
      | (Inr policy, rr) \<Rightarrow>
          if ko_Owners policy \<noteq> [] \<or> \<not> gateway_part policy \<or>
             at_or (ko_Labels policy) '''' ''app.kubernetes.io/component'' \<noteq> ''authentication'' \<or> marked_unmanaged policy
          then (None, rr)
          else
            case delete_object env NetworkPolicy_gvk (gateway_ns env) KubeAuthProxyName rr of
              (None, rr) \<Rightarrow> (None, rr)
            | (Some err, rr) \<Rightarrow>
                (if is_not_found err then None else Some (wrap ''failed to delete legacy auth proxy NetworkPolicy'' (api_error err)), rr))"

definition removable_proxy_object :: "GatewayConfig \<Rightarrow> k8s_object \<Rightarrow> bool" where
  "removable_proxy_object config u \<longleftrightarrow>
     (ko_Owners u = [] \<or> owned_by_uid (gw_UID config) u) \<and> gateway_part u \<and> \<not> marked_unmanaged u"

definition deleteKubeAuthProxyResource :: "('m, 'w) gateway_env \<Rightarrow> GVK \<times> string \<Rightarrow> GatewayConfig \<Rightarrow> ('m, 'w) gw_action" where
  "deleteKubeAuthProxyResource env obj config rr =
     (case ask (gk_Object (ge_Client env) (fst obj) (gateway_ns env) (snd obj)) rr of
        (Inl err, rr) \<Rightarrow>
          (if is_not_found err then None else Some (wrap ''failed to get kube-auth-proxy resource'' (api_error err)), rr)
      | (Inr u, rr) \<Rightarrow>
          if \<not> removable_proxy_object config u then (None, rr)
          else
            case delete_object env (fst obj) (gateway_ns env) (snd obj) rr of
              (None, rr) \<Rightarrow> (None, rr)
            | (Some err, rr) \<Rightarrow>
                (if is_not_found err then None else Some (wrap ''failed to delete kube-auth-proxy resource'' (api_error err)), rr))"

fun delete_proxy_objects :: "('m, 'w) gateway_env \<Rightarrow> (GVK \<times> string) list \<Rightarrow> GatewayConfig \<Rightarrow> ('m, 'w) gw_action" where
  "delete_proxy_objects env [] config rr = (None, rr)"
| "delete_proxy_objects env (obj # objs) config rr =
     (case deleteKubeAuthProxyResource env obj config rr of
        (Some err, rr) \<Rightarrow> (Some err, rr)
      | (None, rr) \<Rightarrow> delete_proxy_objects env objs config rr)"

definition proxy_objects :: "GatewayConfig \<Rightarrow> (GVK \<times> string) list" where
  "proxy_objects config =
     concat (map (\<lambda>name. [(apps_Deployment_gvk, name), (NetworkPolicy_gvk, name)])
       (KubeAuthProxyName # map (\<lambda>ing. pt_ProxyName (additionalAuthProxyTarget ing config)) (gs_AdditionalIngresses (gw_Spec config))))"

definition cleanupKubeAuthProxyResources :: "('m, 'w) gateway_env \<Rightarrow> ('m, 'w) gw_action" where
  "cleanupKubeAuthProxyResources env rr =
     (case validateGatewayConfig rr of
        Inl err \<Rightarrow> (Some err, rr)
      | Inr config \<Rightarrow>
          (case getGatewayAuthenticationMode env config rr of
             (Inl err, rr) \<Rightarrow> (Some err, rr)
           | (Inr mode, rr) \<Rightarrow>
               if proxy_desired mode config then (None, rr)
               else delete_proxy_objects env (proxy_objects config) config rr))"

section \<open>Dashboard redirects\<close>

definition GetDashboardRouteName :: "string \<Rightarrow> string" where
  "GetDashboardRouteName release =
     (if release = ''OpenShift AI Self-Managed'' \<or> release = ''OpenShift AI Cloud Service'' then ''rhods-dashboard'' else ''odh-dashboard'')"

definition redirect_objects :: "string \<Rightarrow> (GVK \<times> string) list" where
  "redirect_objects release =
     [(apps_Deployment_gvk, ''dashboard-redirect''),
      (\<lparr>gvk_Group = '''', gvk_Version = ''v1'', gvk_Kind = ''Service''\<rparr>, ''dashboard-redirect''),
      (\<lparr>gvk_Group = '''', gvk_Version = ''v1'', gvk_Kind = ''ConfigMap''\<rparr>, ''dashboard-redirect-config''),
      (NetworkPolicy_gvk, ''dashboard-redirect''),
      (\<lparr>gvk_Group = ''route.openshift.io'', gvk_Version = ''v1'', gvk_Kind = ''Route''\<rparr>, GetDashboardRouteName release),
      (\<lparr>gvk_Group = ''route.openshift.io'', gvk_Version = ''v1'', gvk_Kind = ''Route''\<rparr>, ''data-science-gateway'')]"

fun delete_redirects :: "('m, 'w) gateway_env \<Rightarrow> (GVK \<times> string) list \<Rightarrow> ('m, 'w) gw_action" where
  "delete_redirects env [] rr = (None, rr)"
| "delete_redirects env ((gvk, n) # rest) rr =
     (case ask (gk_Object (ge_Client env) gvk (ge_AppNamespace env) n) rr of
        (Inl err, rr) \<Rightarrow>
          if is_not_found err \<or> is_no_match err then delete_redirects env rest rr
          else (Some (wrap (''failed to get dashboard redirect resource '' @ gvk_Kind gvk @ ''/'' @ n) (api_error err)), rr)
      | (Inr _, rr) \<Rightarrow>
          (case delete_object env gvk (ge_AppNamespace env) n rr of
             (None, rr) \<Rightarrow> delete_redirects env rest rr
           | (Some err, rr) \<Rightarrow>
               if is_not_found err then delete_redirects env rest rr
               else (Some (wrap (''failed to delete dashboard redirect resource '' @ gvk_Kind gvk @ ''/'' @ n) (api_error err)), rr)))"

definition deleteDashboardRedirectResources :: "('m, 'w) gateway_env \<Rightarrow> ('m, 'w) gw_action" where
  "deleteDashboardRedirectResources env = delete_redirects env (redirect_objects (ge_Release env))"

definition redirect_templates :: "string list" where
  "redirect_templates =
     [''resources/dashboard-redirect-configmap.tmpl.yaml'', ''resources/dashboard-redirect-networkpolicy.tmpl.yaml'',
      ''resources/dashboard-redirect-deployment.tmpl.yaml'', ''resources/dashboard-redirect-service.tmpl.yaml'',
      ''resources/dashboard-redirect-dashboard-route.tmpl.yaml'', ''resources/dashboard-redirect-legacy-gateway-route.tmpl.yaml'']"

definition Dashboard_gvk :: GVK where
  "Dashboard_gvk = \<lparr>gvk_Group = ''components.platform.opendatahub.io'', gvk_Version = ''v1alpha1'', gvk_Kind = ''Dashboard''\<rparr>"

definition createDashboardRedirects ::
  "('m, 'w) gateway_env \<Rightarrow> GatewayConfig \<Rightarrow> ('m, 'w) gateway_run \<Rightarrow> (go_error + string list) \<times> ('m, 'w) gateway_run" where
  "createDashboardRedirects env config rr =
     (let remove = (\<lambda>rr. case deleteDashboardRedirectResources env rr of (Some err, rr) \<Rightarrow> (Inl err, rr) | (None, rr) \<Rightarrow> (Inr [], rr)) in
      if ge_K8s env then (Inr [], rr)
      else if at_or (gw_Annotations config) '''' ''platform.opendatahub.io/dashboard-redirects'' = ''disabled'' then remove rr
      else if ge_Getenv env ''DISABLE_DASHBOARD_REDIRECTS'' = ''true'' then remove rr
      else
        case ask (gk_Object (ge_Client env) Dashboard_gvk '''' ''default-dashboard'') rr of
          (Inl err, rr) \<Rightarrow>
            if is_not_found err \<or> is_no_match err then remove rr
            else (Inl (wrap ''failed to check Dashboard CR'' (api_error err)), rr)
        | (Inr _, rr) \<Rightarrow> (Inr redirect_templates, rr))"

definition createDashboardRedirectsAction :: "('m, 'w) gateway_env \<Rightarrow> ('m, 'w) gw_action" where
  "createDashboardRedirectsAction env rr =
     (case validateGatewayConfig rr of
        Inl err \<Rightarrow> (Some err, rr)
      | Inr config \<Rightarrow>
          (case createDashboardRedirects env config rr of
             (Inl err, rr) \<Rightarrow> (Some err, rr)
           | (Inr templates, rr) \<Rightarrow> (None, rr\<lparr>gq_Templates := gq_Templates rr @ templates\<rparr>)))"

section \<open>Lemmas: recorded conflicts\<close>

lemma find_set_reason:
  assumes "condition_list_laws ops"
  obtains c' where "cl_Find ops (as_Conditions (set_status_condition ops c status)) (cType c) = Some c'" "cStatus c' = cStatus c"
    "cReason c' = cReason c" "cObservedGeneration c' = cObservedGeneration c"
proof -
  obtain c' where c': "cl_Find ops (cl_Set ops c (as_Conditions status)) (cType c) = Some c'" "cStatus c' = cStatus c"
    "cReason c' = cReason c" "cObservedGeneration c' = cObservedGeneration c"
    using assms unfolding condition_list_laws_def by meson
  have "cl_Find ops (as_Conditions (set_status_condition ops c status)) (cType c) = Some c'"
    using c'(1) by (simp add: set_status_condition_def)
  then show thesis
    using c'(2-4) by (rule that)
qed

text \<open>The condition on its Gateway that an ingress has.\<close>

definition gateway_part_of :: "condition_list_ops \<Rightarrow> GatewayConfig \<Rightarrow> string \<Rightarrow> gen_condition option" where
  "gateway_part_of ops config n =
     Option.bind (additionalIngressStatusByName config n) (\<lambda>s. cl_Find ops (as_Conditions s) GatewayReady)"

lemma conflict_from_part:
  "additionalIngressHasGatewayConflict ops config n \<longleftrightarrow>
     (case gateway_part_of ops config n of
        None \<Rightarrow> False
      | Some c \<Rightarrow> cObservedGeneration c = gw_Generation config \<and> cStatus c = ConditionFalse \<and>
          (cReason c = ''OwnershipConflict'' \<or> cReason c = ''HostnameConflict''))"
  by (simp add: additionalIngressHasGatewayConflict_def gateway_part_of_def split: option.split bind_splits)

lemma gateway_part_of_other_type:
  assumes "condition_list_laws ops" "cType c \<noteq> GatewayReady"
  shows "gateway_part_of ops (on_status m (set_status_condition ops c) config) n = gateway_part_of ops config n"
  using assms by (cases "additionalIngressStatusByName config n")
    (auto simp: gateway_part_of_def status_on_status find_set_other)

lemma gateway_part_of_ready:
  assumes "condition_list_laws ops"
  shows "gateway_part_of ops (on_status m (updateAdditionalIngressReadyCondition ops generation) config) n = gateway_part_of ops config n"
proof -
  have "cl_Find ops (as_Conditions (updateAdditionalIngressReadyCondition ops generation s)) GatewayReady =
      cl_Find ops (as_Conditions s) GatewayReady" for s
    by (rule updateAdditionalIngressReadyCondition_sets [of ops generation s]) (simp add: find_set_other [OF assms])
  then show ?thesis
    by (cases "additionalIngressStatusByName config n") (auto simp: gateway_part_of_def status_on_status)
qed

lemma gateway_part_of_other_name:
  "(\<And>s. as_Name s = m \<Longrightarrow> as_Name (f s) = m) \<Longrightarrow> n \<noteq> m \<Longrightarrow> gateway_part_of ops (on_status m f config) n = gateway_part_of ops config n"
  by (simp add: gateway_part_of_def status_on_status)

lemma gateway_part_of_publish:
  assumes "condition_list_laws ops" "list_all (\<lambda>(k, r). cType (ar_Condition r) = AuthenticationReady) state"
  shows "gateway_part_of ops (publishAdditionalIngressAuthConditions ops state config) n = gateway_part_of ops config n"
  using assms(2) unfolding publishAdditionalIngressAuthConditions_def
  by (induction state arbitrary: config) (auto simp: gateway_part_of_other_type [OF assms(1)] split: prod.splits)

lemma aggregate_step:
  assumes "aggregate_ingresses ops (ing # ings) failed pending config = (failed', pending', config')"
  obtains f p where "aggregate_ingresses ops ings f p
      (on_status (ai_Name ing) (updateAdditionalIngressReadyCondition ops (gw_Generation config)) config) = (failed', pending', config')"
  using assms by (auto simp: Let_def split: option.splits if_splits)

lemma gateway_part_of_aggregate:
  assumes "condition_list_laws ops"
  shows "aggregate_ingresses ops ings failed pending config = (failed', pending', config') \<Longrightarrow>
    gateway_part_of ops config' n = gateway_part_of ops config n \<and> same_object config config'"
proof (induction ings arbitrary: failed pending config)
  case Nil
  then show ?case by simp
next
  case (Cons ing ings)
  let ?config = "on_status (ai_Name ing) (updateAdditionalIngressReadyCondition ops (gw_Generation config)) config"
  obtain f p where "aggregate_ingresses ops ings f p ?config = (failed', pending', config')"
    using Cons.prems by (rule aggregate_step)
  then have "gateway_part_of ops config' n = gateway_part_of ops ?config n \<and> same_object ?config config'"
    by (rule Cons.IH)
  then show ?case
    by (simp add: gateway_part_of_ready [OF assms] same_object_def)
qed

lemma publish_same_object: "same_object config (publishAdditionalIngressAuthConditions ops state config)"
  unfolding publishAdditionalIngressAuthConditions_def
  by (induction state arbitrary: config) (auto simp: same_object_def)

definition has_status :: "GatewayConfig \<Rightarrow> string \<Rightarrow> bool" where
  "has_status config n \<longleftrightarrow> additionalIngressStatusByName config n \<noteq> None"

lemma has_status_on_status:
  "(\<And>s. as_Name s = m \<Longrightarrow> as_Name (f s) = m) \<Longrightarrow> has_status (on_status m f config) n = has_status config n"
  by (simp add: has_status_def status_on_status)

lemma has_status_publish: "has_status (publishAdditionalIngressAuthConditions ops state config) n = has_status config n"
  unfolding publishAdditionalIngressAuthConditions_def
  by (induction state arbitrary: config) (simp_all add: has_status_on_status case_prod_beta)

lemma has_status_aggregate:
  "aggregate_ingresses ops ings failed pending config = (failed', pending', config') \<Longrightarrow> has_status config' n = has_status config n"
proof (induction ings arbitrary: failed pending config)
  case (Cons ing ings)
  obtain f p where "aggregate_ingresses ops ings f p
      (on_status (ai_Name ing) (updateAdditionalIngressReadyCondition ops (gw_Generation config)) config) = (failed', pending', config')"
    using Cons.prems by (rule aggregate_step)
  from Cons.IH [OF this] show ?case
    by (simp add: has_status_on_status)
qed simp

lemma update_gateways_ready_keeps:
  assumes "condition_list_laws ops" "list_all (\<lambda>(k, r). cType (ar_Condition r) = AuthenticationReady) (gq_AuthState rr)"
  obtains config' where "gq_Instance (updateAdditionalGatewaysReadyCondition ops marks config rr) = Some config'"
    "gateway_part_of ops config' = gateway_part_of ops config" "same_object config config'" "has_status config' = has_status config"
proof -
  let ?config = "publishAdditionalIngressAuthConditions ops (gq_AuthState rr) config"
  obtain failed pending config' where agg: "aggregate_ingresses ops (gs_AdditionalIngresses (gw_Spec ?config)) [] [] ?config = (failed, pending, config')"
    using prod_cases3 by blast
  have "gateway_part_of ops config' = gateway_part_of ops config"
    using gateway_part_of_aggregate [OF assms(1) agg] gateway_part_of_publish [OF assms] by (simp add: fun_eq_iff)
  moreover have "same_object config config'"
    using gateway_part_of_aggregate [OF assms(1) agg] publish_same_object same_object_trans by blast
  moreover have "has_status config' = has_status config"
    using has_status_aggregate [OF agg] by (simp add: fun_eq_iff has_status_publish)
  moreover have "gq_Instance (updateAdditionalGatewaysReadyCondition ops marks config rr) = Some config'"
    using agg by (simp add: updateAdditionalGatewaysReadyCondition_def)
  ultimately show thesis
    using that by blast
qed

lemma update_gateways_ready_frame [simp]:
  fixes rr :: "('m, 'w) gateway_run"
  shows "gq_Resources (updateAdditionalGatewaysReadyCondition ops marks config rr) = gq_Resources rr"
    "gq_Writes (updateAdditionalGatewaysReadyCondition ops marks config rr) = gq_Writes rr"
    "gq_AuthState (updateAdditionalGatewaysReadyCondition ops marks config rr) = gq_AuthState rr"
    "gq_World (updateAdditionalGatewaysReadyCondition ops marks config rr) = gq_World rr"
  by (simp_all add: updateAdditionalGatewaysReadyCondition_def Let_def split: prod.splits)

lemma ask_frame:
  "ask call rr = (answer, rr') \<Longrightarrow> gq_Resources rr' = gq_Resources rr \<and> gq_Writes rr' = gq_Writes rr \<and> gq_AuthState rr' = gq_AuthState rr \<and>
     gq_Instance rr' = gq_Instance rr \<and> gq_Templates rr' = gq_Templates rr \<and> answer = fst (call (gq_World rr))"
  by (auto simp: ask_def split: prod.splits)

text \<open>An ingress whose Gateway or ConfigMap belongs to somebody else, whenever it is looked at.\<close>

definition foreign_gateway :: "('m, 'w) gateway_env \<Rightarrow> GatewayConfig \<Rightarrow> string \<Rightarrow> bool" where
  "foreign_gateway env config n \<longleftrightarrow>
     (\<forall>w. \<exists>g. fst (gk_Gateway (ge_Client env) n w) = Inr g \<and> \<not> isOwnedByGatewayConfig (gv_Controller g) config) \<or>
     (\<forall>w. \<exists>c. fst (gk_ConfigMap (ge_Client env) (additionalGatewayInfrastructureConfigMapName n) w) = Inr c \<and> \<not> isOwnedByGatewayConfig c config)"

lemma isOwned_same_object: "same_object c c' \<Longrightarrow> isOwnedByGatewayConfig ctrl c' = isOwnedByGatewayConfig ctrl c"
  by (simp add: isOwnedByGatewayConfig_def same_object_def cong: option.case_cong)

lemma foreign_same_object: "same_object c c' \<Longrightarrow> foreign_gateway env c' n = foreign_gateway env c n"
  unfolding foreign_gateway_def using isOwned_same_object [of c c'] by simp

lemma ingress_conflict_foreign:
  assumes "foreign_gateway env config (ai_Name ing)" "ingress_conflict env hostname legacy config ing rr = (Inr conflict, rr')"
  obtains reason message where "conflict = Some (reason, message)" "reason = ''OwnershipConflict'' \<or> reason = ''HostnameConflict''"
proof -
  let ?n = "ai_Name ing"
  have "\<exists>reason message. conflict = Some (reason, message) \<and> (reason = ''OwnershipConflict'' \<or> reason = ''HostnameConflict'')"
  proof (cases "EqualFold (ai_Hostname ing) hostname \<or> EqualFold (ai_Hostname ing) legacy")
    case True
    then show ?thesis
      using assms(2) by (auto simp: ingress_conflict_def Let_def)
  next
    case False
    obtain ga rr1 where gw: "ask (gk_Gateway (ge_Client env) ?n) rr = (ga, rr1)"
      by fastforce
    obtain ca rr2 where cm: "ask (gk_ConfigMap (ge_Client env) (additionalGatewayInfrastructureConfigMapName ?n)) rr1 = (ca, rr2)"
      by fastforce
    have answers: "ga = fst (gk_Gateway (ge_Client env) ?n (gq_World rr))"
      "ca = fst (gk_ConfigMap (ge_Client env) (additionalGatewayInfrastructureConfigMapName ?n) (gq_World rr1))"
      using ask_frame [OF gw] ask_frame [OF cm] by blast+
    have foreign: "(\<exists>g. ga = Inr g \<and> \<not> isOwnedByGatewayConfig (gv_Controller g) config) \<or> (\<exists>c. ca = Inr c \<and> \<not> isOwnedByGatewayConfig c config)"
      using assms(1) unfolding foreign_gateway_def answers by blast
    show ?thesis
      using False assms(2) foreign
      by (auto simp: ingress_conflict_def Let_def gw cm can_manage_def split: sum.splits bool.splits if_splits)
  qed
  then show thesis
    using that by blast
qed

lemma ingress_conflict_frame:
  "ingress_conflict env hostname legacy config ing rr = (res, rr') \<Longrightarrow>
     gq_Resources rr' = gq_Resources rr \<and> gq_Writes rr' = gq_Writes rr \<and> gq_AuthState rr' = gq_AuthState rr \<and> gq_Instance rr' = gq_Instance rr"
  by (auto simp: ingress_conflict_def Let_def split: if_splits prod.splits sum.splits bool.splits dest!: ask_frame)

lemma conflict_recorded:
  assumes "condition_list_laws ops" "has_status config n" "reason = ''OwnershipConflict'' \<or> reason = ''HostnameConflict''"
  shows "additionalIngressHasGatewayConflict ops
    (on_status n (setAdditionalIngressCondition ops (gw_Generation config) GatewayReady ConditionFalse reason message) config) n"
proof -
  let ?c = "gen_cond GatewayReady ConditionFalse (gw_Generation config) reason message"
  obtain s where s: "additionalIngressStatusByName config n = Some s"
    using assms(2) by (auto simp: has_status_def)
  obtain c' where "cl_Find ops (as_Conditions (set_status_condition ops ?c s)) (cType ?c) = Some c'" "cStatus c' = cStatus ?c"
    "cReason c' = cReason ?c" "cObservedGeneration c' = cObservedGeneration ?c"
    using assms(1) by (rule find_set_reason)
  with s assms(3) show ?thesis
    by (simp add: additionalIngressHasGatewayConflict_def setAdditionalIngressCondition_def status_on_status)
qed

lemma set_condition_name: "as_Name (setAdditionalIngressCondition ops generation ty st reason message s) = as_Name s"
  by (simp add: setAdditionalIngressCondition_def)

lemma conflict_cong:
  "gateway_part_of ops c' n = gateway_part_of ops c n \<Longrightarrow> same_object c c' \<Longrightarrow>
     additionalIngressHasGatewayConflict ops c' n = additionalIngressHasGatewayConflict ops c n"
  by (simp add: conflict_from_part same_object_def split: option.split)

definition auth_types_ok :: "auth_state \<Rightarrow> bool" where
  "auth_types_ok state \<longleftrightarrow> list_all (\<lambda>(k, r). cType (ar_Condition r) = AuthenticationReady) state"

text \<open>One round: nothing is collected or written, and the object stays the same; a foreign ingress keeps or gets its conflict.\<close>

lemma check_conflicts_spec:
  fixes rr :: "('m, 'w) gateway_run"
  assumes laws: "condition_list_laws (ge_Ops env)"
  shows "check_conflicts env hostname legacy ings rr = (None, rr') \<Longrightarrow> gq_Instance rr = Some config \<Longrightarrow> auth_types_ok (gq_AuthState rr) \<Longrightarrow>
    foreign_gateway env config n \<Longrightarrow> has_status config n \<Longrightarrow>
    gq_Resources rr' = gq_Resources rr \<and>
    (\<exists>config'. gq_Instance rr' = Some config' \<and> same_object config config' \<and>
       (additionalIngressHasGatewayConflict (ge_Ops env) config n \<or> n \<in> ai_Name ` set ings \<longrightarrow>
        additionalIngressHasGatewayConflict (ge_Ops env) config' n))"
proof (induction ings arbitrary: rr config)
  case Nil
  then show ?case by auto
next
  case (Cons ing ings)
  let ?ops = "ge_Ops env"
  obtain res rr1 where res: "ingress_conflict env hostname legacy config ing rr = (res, rr1)"
    by fastforce
  note frame = ingress_conflict_frame [OF res]
  obtain rr2 config2 where step: "check_conflicts env hostname legacy ings rr2 = (None, rr')" "gq_Instance rr2 = Some config2"
    "gq_AuthState rr2 = gq_AuthState rr" "gq_Resources rr2 = gq_Resources rr" "same_object config config2" "has_status config2 n"
    "additionalIngressHasGatewayConflict ?ops config n \<or> n = ai_Name ing \<longrightarrow> additionalIngressHasGatewayConflict ?ops config2 n"
  proof (cases res)
    case (Inl err)
    then show thesis
      using Cons.prems(1,2) res by (simp add: Let_def)
  next
    case (Inr conflict)
    show thesis
    proof (cases conflict)
      case None
      then have other: "ai_Name ing \<noteq> n"
        using ingress_conflict_foreign [of env config ing hostname legacy rr conflict rr1] Cons.prems(4) res Inr by fastforce
      let ?set = "setAdditionalIngressCondition ?ops (gw_Generation config) GatewayReady ConditionUnknown ReconciliationPending
        ''Gateway conflict has been resolved''"
      let ?config = "on_status (ai_Name ing) ?set config"
      have part: "gateway_part_of ?ops ?config n = gateway_part_of ?ops config n" "same_object config ?config" "has_status ?config n"
        using other Cons.prems(5)
        by (simp_all add: gateway_part_of_other_name set_condition_name same_object_def has_status_on_status)
      show thesis
      proof (cases "additionalIngressHasGatewayConflict ?ops config (ai_Name ing)")
        case True
        then show thesis
          using that [of "rr1\<lparr>gq_Instance := Some ?config\<rparr>" ?config] Cons.prems(1,2) res Inr None other frame part conflict_cong [OF part(1,2)]
          by (simp add: Let_def)
      next
        case False
        then show thesis
          using that [of rr1 config] Cons.prems(1,2,5) res Inr None other frame by (simp add: Let_def)
      qed
    next
      case (Some entry)
      obtain reason message where entry: "entry = (reason, message)"
        by fastforce
      let ?config = "on_status (ai_Name ing) (setAdditionalIngressCondition ?ops (gw_Generation config) GatewayReady ConditionFalse reason message) config"
      have types: "list_all (\<lambda>(k, r). cType (ar_Condition r) = AuthenticationReady) (gq_AuthState rr1)"
        using Cons.prems(3) frame by (simp add: auth_types_ok_def)
      obtain config2 where config2: "gq_Instance (updateAdditionalGatewaysReadyCondition ?ops (ge_Marks env) ?config rr1) = Some config2"
        "gateway_part_of ?ops config2 = gateway_part_of ?ops ?config" "same_object ?config config2" "has_status config2 = has_status ?config"
        by (rule update_gateways_ready_keeps [OF laws types])
      have same: "same_object config ?config"
        by (simp add: same_object_def)
      have "additionalIngressHasGatewayConflict ?ops ?config n"
        if "additionalIngressHasGatewayConflict ?ops config n \<or> n = ai_Name ing"
      proof (cases "n = ai_Name ing")
        case True
        then have "reason = ''OwnershipConflict'' \<or> reason = ''HostnameConflict''"
          using ingress_conflict_foreign [of env config ing hostname legacy rr conflict rr1] Cons.prems(4) res Inr Some entry by fastforce
        then show ?thesis
          using conflict_recorded [OF laws Cons.prems(5)] True by simp
      next
        case False
        then show ?thesis
          using that conflict_cong [OF _ same, of ?ops n] by (simp add: gateway_part_of_other_name set_condition_name)
      qed
      then have "additionalIngressHasGatewayConflict ?ops config2 n"
        if "additionalIngressHasGatewayConflict ?ops config n \<or> n = ai_Name ing"
        using that conflict_cong [OF _ config2(3), of ?ops n] config2(2) by simp
      moreover have "has_status config2 n"
        using config2(4) Cons.prems(5) by (simp add: has_status_on_status set_condition_name)
      moreover have "same_object config config2"
        using same config2(3) by (rule same_object_trans)
      ultimately show thesis
        using that [of "updateAdditionalGatewaysReadyCondition ?ops (ge_Marks env) ?config rr1" config2] Cons.prems(1,2) res Inr Some entry frame config2(1)
        by (simp add: Let_def)
    qed
  qed
  have "foreign_gateway env config2 n"
    using Cons.prems(4) foreign_same_object [OF step(5)] by blast
  then obtain config' where "gq_Resources rr' = gq_Resources rr2" "gq_Instance rr' = Some config'" "same_object config2 config'"
    "additionalIngressHasGatewayConflict ?ops config2 n \<or> n \<in> ai_Name ` set ings \<longrightarrow> additionalIngressHasGatewayConflict ?ops config' n"
    using Cons.IH [OF step(1,2)] Cons.prems(3) step(3,6) by auto
  then show ?case
    using step(4,5,7) same_object_trans [OF step(5)] by auto
qed

section \<open>Lemmas: collected resources\<close>

definition collects :: "(gw_resource \<Rightarrow> bool) \<Rightarrow> ('m, 'w) gateway_run \<Rightarrow> ('m, 'w) gateway_run \<Rightarrow> bool" where
  "collects P rr rr' \<longleftrightarrow> (\<exists>rs. gq_Resources rr' = gq_Resources rr @ rs \<and> list_all P rs)"

lemma collects_same: "gq_Resources rr' = gq_Resources rr \<Longrightarrow> collects P rr rr'"
  by (simp add: collects_def)

lemma collects_trans: "collects P rr rr1 \<Longrightarrow> collects P rr1 rr2 \<Longrightarrow> collects P rr rr2"
  by (auto simp: collects_def)

lemma AddResources_collects: "AddResources env r rr = (err, rr') \<Longrightarrow> P r \<Longrightarrow> collects P rr rr'"
  by (auto simp: AddResources_def collects_def split: option.splits)

lemma check_conflicts_resources: "check_conflicts env hostname legacy ings rr = (err, rr') \<Longrightarrow> gq_Resources rr' = gq_Resources rr"
proof (induction ings arbitrary: rr)
  case (Cons ing ings)
  obtain res rr1 where res: "ingress_conflict env hostname legacy (the (gq_Instance rr)) ing rr = (res, rr1)"
    by fastforce
  note frame = ingress_conflict_frame [OF res]
  show ?case
  proof (cases res)
    case (Inl e)
    then show ?thesis
      using Cons.prems res frame by (auto simp: Let_def)
  next
    case (Inr conflict)
    then obtain rr2 where "check_conflicts env hostname legacy ings rr2 = (err, rr')" "gq_Resources rr2 = gq_Resources rr1"
      using Cons.prems res by (cases conflict) (auto simp: Let_def split: prod.splits if_splits)
    then show ?thesis
      using Cons.IH frame by simp
  qed
qed simp

lemma reconcileGatewayForModeChange_resources:
  "reconcileGatewayForModeChange env mode rr = (err, rr') \<Longrightarrow> gq_Resources rr' = gq_Resources rr \<and> gq_Instance rr' = gq_Instance rr"
  by (auto simp: reconcileGatewayForModeChange_def delete_object_def split: prod.splits sum.splits if_splits option.splits dest!: ask_frame)

lemma apply_secret_frame: "apply_secret env ns n secret rr = (err, rr') \<Longrightarrow> gq_Resources rr' = gq_Resources rr"
  by (auto simp: apply_secret_def split: prod.splits dest!: ask_frame)

lemma handleCertificates_collects:
  assumes "handleCertificates env config domain rr = (res, rr')" "\<And>c. P (Certificate_res c)"
  shows "collects P rr rr'"
proof -
  have propagate: "gq_Resources rr1 = gq_Resources rr" if "PropagateDefaultIngressCertificate env secretName ns config rr = (err, rr1)" for err rr1 secretName ns
    using that by (auto simp: PropagateDefaultIngressCertificate_def split: prod.splits sum.splits dest!: ask_frame apply_secret_frame)
  have selfsigned: "gq_Resources rr1 = gq_Resources rr" if "CreateSelfSignedCertificate env secretName domain ns config rr = (err, rr1)" for err rr1 secretName ns
    using that by (auto simp: CreateSelfSignedCertificate_def split: prod.splits sum.splits dest!: apply_secret_frame)
  show ?thesis
    using assms
    by (auto simp: handleCertificates_def Let_def split: prod.splits if_splits
        dest!: propagate selfsigned intro: collects_same AddResources_collects)
qed

text \<open>What is handed over for one additional ingress: its Gateway and the ConfigMap of its infrastructure.\<close>

fun targets_ingress :: "string \<Rightarrow> gw_resource \<Rightarrow> bool" where
  "targets_ingress n (Gateway_res g) \<longleftrightarrow> mg_Name g = n"
| "targets_ingress n (ConfigMap_res m ns ls d) \<longleftrightarrow> m = additionalGatewayInfrastructureConfigMapName n"
| "targets_ingress n _ \<longleftrightarrow> False"

lemma configureClusterIPInfrastructure_collects:
  assumes "configureClusterIPInfrastructure env gateway m secret rr = (res, rr')" "m \<noteq> additionalGatewayInfrastructureConfigMapName n"
  shows "collects (\<lambda>r. \<not> targets_ingress n r) rr rr' \<and> (\<forall>g. res = Inr g \<longrightarrow> mg_Name g = mg_Name gateway)"
  using assms
  by (auto simp: configureClusterIPInfrastructure_def split: prod.splits option.splits intro: AddResources_collects)

lemma config_map_name_inject:
  "additionalGatewayInfrastructureConfigMapName a = additionalGatewayInfrastructureConfigMapName b \<longleftrightarrow> a = b"
  by (simp add: additionalGatewayInfrastructureConfigMapName_def)

lemma createAdditionalGateways_collects:
  assumes "additionalIngressHasGatewayConflict (ge_Ops env) config n"
  shows "createAdditionalGateways env config allowed ings rr = (err, rr') \<Longrightarrow> collects (\<lambda>r. \<not> targets_ingress n r) rr rr'"
proof (induction ings arbitrary: rr)
  case Nil
  then show ?case by (simp add: collects_same)
next
  case (Cons ing ings)
  show ?case
  proof (cases "additionalIngressHasGatewayConflict (ge_Ops env) config (ai_Name ing)")
    case True
    then show ?thesis
      using Cons by simp
  next
    case False
    then have other: "ai_Name ing \<noteq> n"
      using assms by auto
    let ?secret = "additionalGatewayServiceTLSSecretName (ai_Name ing)"
    let ?gateway = "managedGateway (ge_K8s env) (ai_Name ing) [gatewayHTTPSListener ''https'' ?secret allowed]"
    obtain res rr1 where conf: "configureClusterIPInfrastructure env ?gateway (additionalGatewayInfrastructureConfigMapName (ai_Name ing)) ?secret rr = (res, rr1)"
      by fastforce
    have first: "collects (\<lambda>r. \<not> targets_ingress n r) rr rr1" "\<And>g. res = Inr g \<Longrightarrow> mg_Name g = ai_Name ing"
      using configureClusterIPInfrastructure_collects [OF conf, of n] other by (auto simp: config_map_name_inject managedGateway_def)
    show ?thesis
    proof (cases res)
      case (Inl e)
      then show ?thesis
        using Cons.prems False conf first(1) by (auto simp: Let_def)
    next
      case (Inr g)
      obtain e rr2 where add: "AddResources env (Gateway_res g) rr1 = (e, rr2)"
        by fastforce
      have second: "collects (\<lambda>r. \<not> targets_ingress n r) rr1 rr2"
        using add first(2) [OF Inr] other by (intro AddResources_collects) auto
      have "collects (\<lambda>r. \<not> targets_ingress n r) rr2 rr'"
        using Cons False conf Inr add by (cases e) (auto simp: Let_def intro: collects_same)
      then show ?thesis
        using first(1) second collects_trans by blast
    qed
  qed
qed

lemma createGateway_collects:
  assumes conflict: "additionalIngressHasGatewayConflict (ge_Ops env) config n"
    and name: "n \<noteq> ''data-science-gateway''" "n \<noteq> ''rh-ai-gateway''"
    and "createGateway env cert domain legacy config rr = (err, rr')"
  shows "collects (\<lambda>r. \<not> targets_ingress n r) rr rr'"
proof -
  let ?mode = "gs_IngressMode (gw_Spec config)"
  let ?allowed = "[gateway_ns env, ge_AppNamespace env]"
  let ?gateway = "managedGateway (ge_K8s env) (GetDefaultGatewayName (ge_K8s env)) (default_listeners ?mode cert domain legacy ?allowed)"
  obtain configured rr1 where c: "(if ?mode = ''OcpRoute'' then
        configureClusterIPInfrastructure env ?gateway ''data-science-gateway-config'' ''data-science-gateway-service-tls'' rr
      else if ge_K8s env then
        (Inr (?gateway\<lparr>mg_Annotations := [(''service.beta.kubernetes.io/port_443_health-probe_protocol'', ''Tcp'')]\<rparr>), rr)
      else (Inr ?gateway, rr)) = (configured, rr1)"
    by fastforce
  have default: "mg_Name ?gateway \<noteq> n"
    using name by (simp add: managedGateway_def GetDefaultGatewayName_def)
  have cm: "''data-science-gateway-config'' \<noteq> additionalGatewayInfrastructureConfigMapName n"
    using name config_map_name_inject [of "''data-science-gateway''" n] by (simp add: additionalGatewayInfrastructureConfigMapName_def)
  have first: "collects (\<lambda>r. \<not> targets_ingress n r) rr rr1 \<and> (\<forall>g. configured = Inr g \<longrightarrow> mg_Name g \<noteq> n)"
  proof (cases "?mode = ''OcpRoute''")
    case True
    then have "configureClusterIPInfrastructure env ?gateway ''data-science-gateway-config'' ''data-science-gateway-service-tls'' rr = (configured, rr1)"
      using c by simp
    note infra = configureClusterIPInfrastructure_collects [OF this cm]
    show ?thesis
    proof (intro conjI allI impI)
      show "collects (\<lambda>r. \<not> targets_ingress n r) rr rr1"
        using infra by (rule conjunct1)
      show "mg_Name g \<noteq> n" if "configured = Inr g" for g
        using conjunct2 [OF infra, rule_format, OF that] default by (rule ssubst)
    qed
  next
    case False
    then show ?thesis
      using c default by (auto intro: collects_same split: if_splits)
  qed
  show ?thesis
  proof (cases configured)
    case (Inl e)
    then show ?thesis
      using assms(4) c first by (auto simp: createGateway_def Let_def)
  next
    case (Inr g)
    obtain e rr2 where add: "AddResources env (Gateway_res g) rr1 = (e, rr2)"
      by fastforce
    have second: "collects (\<lambda>r. \<not> targets_ingress n r) rr1 rr2"
      using add first Inr by (intro AddResources_collects) auto
    have "collects (\<lambda>r. \<not> targets_ingress n r) rr2 rr'"
    proof (cases e)
      case None
      then have "createAdditionalGateways env config ?allowed (gs_AdditionalIngresses (gw_Spec config)) rr2 = (err, rr')"
        using assms(4) c Inr add by (simp add: createGateway_def Let_def)
      then show ?thesis
        by (rule createAdditionalGateways_collects [OF conflict])
    next
      case (Some x)
      then show ?thesis
        using assms(4) c Inr add by (simp add: createGateway_def Let_def collects_same)
    qed
    then show ?thesis
      using first second collects_trans by blast
  qed
qed

lemma create_infrastructure_collects:
  assumes "gq_Instance rr = Some config" "additionalIngressHasGatewayConflict (ge_Ops env) config n"
    and name: "n \<noteq> ''data-science-gateway''" "n \<noteq> ''rh-ai-gateway''"
    and run: "create_infrastructure env hostname legacy rr = (err, rr')"
  shows "collects (\<lambda>r. \<not> targets_ingress n r) rr rr'"
proof -
  let ?mode = "gs_IngressMode (gw_Spec config)"
  let ?P = "\<lambda>r. \<not> targets_ingress n r"
  obtain e1 rr1 where mode: "reconcileGatewayForModeChange env ?mode rr = (e1, rr1)"
    by fastforce
  have s1: "collects ?P rr rr1"
    using reconcileGatewayForModeChange_resources [OF mode] by (simp add: collects_same)
  show ?thesis
  proof (cases e1)
    case (Some e)
    then show ?thesis
      using run mode s1 assms(1) by (simp add: create_infrastructure_def Let_def)
  next
    case None
    obtain e2 rr2 where cls: "createGatewayClass env rr1 = (e2, rr2)"
      by fastforce
    have s2: "collects ?P rr1 rr2"
      using cls by (auto simp: createGatewayClass_def intro: AddResources_collects)
    show ?thesis
    proof (cases e2)
      case (Some e)
      then show ?thesis
        using run mode cls None s1 s2 collects_trans assms(1) by (auto simp: create_infrastructure_def Let_def)
    next
      case None2: None
      obtain cert rr3 where cert: "(if ?mode = ''OcpRoute'' then (Inr ''data-science-gateway-service-tls'', rr2)
          else case handleCertificates env config hostname rr2 of
                 (Inl err, rr) \<Rightarrow> (Inl (wrap ''failed to handle certificates'' err), rr)
               | (Inr n, rr) \<Rightarrow> (Inr n, rr)) = (cert, rr3)"
        by fastforce
      have s3: "collects ?P rr2 rr3"
        using cert handleCertificates_collects [of env config hostname rr2 _ _ ?P]
        by (auto intro: collects_same split: if_splits prod.splits sum.splits)
      have s4: "collects ?P rr3 rr'"
      proof (cases cert)
        case (Inl e)
        then show ?thesis
          using run mode cls None None2 cert assms(1) by (simp add: create_infrastructure_def Let_def collects_same)
      next
        case (Inr secret)
        obtain e4 rr4 where gw: "createGateway env secret hostname legacy config rr3 = (e4, rr4)"
          by fastforce
        have "rr' = rr4"
          using run mode cls None None2 cert Inr gw assms(1) by (cases e4) (simp_all add: create_infrastructure_def Let_def)
        then show ?thesis
          using createGateway_collects [OF assms(2) name gw] by simp
      qed
      show ?thesis
        using s1 s2 s3 s4 collects_trans by blast
    qed
  qed
qed

lemma GetDomain_frame:
  assumes "GetDomain env rr = (res, rr')"
  shows "gq_Resources rr' = gq_Resources rr \<and> gq_Instance rr' = gq_Instance rr \<and> gq_AuthState rr' = gq_AuthState rr \<and> gq_Writes rr' = gq_Writes rr"
proof -
  obtain answer rr1 where a: "ask (gk_ClusterIngress (ge_Client env)) rr = (answer, rr1)"
    by fastforce
  then have "rr' = rr1"
    using assms by (cases answer) (simp_all add: GetDomain_def)
  then show ?thesis
    using ask_frame [OF a] by simp
qed

lemma GetFQDN_frame:
  assumes "GetFQDN env config rr = (res, rr')"
  shows "gq_Resources rr' = gq_Resources rr \<and> gq_Instance rr' = gq_Instance rr \<and> gq_AuthState rr' = gq_AuthState rr \<and> gq_Writes rr' = gq_Writes rr"
proof -
  obtain d rr1 where d: "GetDomain env rr = (d, rr1)"
    by fastforce
  have "rr' = rr \<or> rr' = rr1"
    using assms d by (cases d) (auto simp: GetFQDN_def Let_def split: if_splits)
  then show ?thesis
    using GetDomain_frame [OF d] by auto
qed

lemma resolveGatewayHostname_frame:
  assumes "resolveGatewayHostname env config rr = (res, rr')"
  shows "gq_Resources rr' = gq_Resources rr \<and> gq_Instance rr' = gq_Instance rr \<and> gq_AuthState rr' = gq_AuthState rr \<and> gq_Writes rr' = gq_Writes rr"
proof -
  obtain f rr1 where f: "GetFQDN env (Some config) rr = (f, rr1)"
    by fastforce
  have "\<exists>c. rr' = rr1 \<or> rr' = mark env c rr1"
    using assms f by (auto simp: resolveGatewayHostname_def split: sum.splits domain_error.splits)
  then show ?thesis
    using GetFQDN_frame [OF f] by (auto simp: mark_def)
qed

lemma detectAndSetIngressMode_frame:
  assumes "detectAndSetIngressMode env config rr = (err, rr')"
  shows "gq_Resources rr' = gq_Resources rr" "gq_AuthState rr' = gq_AuthState rr"
    "err = None \<Longrightarrow> \<exists>mode. gq_Instance rr' = Some (set_mode mode config)"
  using assms
  by (auto simp: detectAndSetIngressMode_def Let_def split: prod.splits sum.splits if_splits option.splits dest!: ask_frame)

lemma set_mode_keeps:
  "foreign_gateway env (set_mode mode config) n = foreign_gateway env config n" "has_status (set_mode mode config) n = has_status config n"
  "gs_AdditionalIngresses (gw_Spec (set_mode mode config)) = gs_AdditionalIngresses (gw_Spec config)"
  by (simp_all add: set_mode_def foreign_gateway_def isOwnedByGatewayConfig_def has_status_def additionalIngressStatusByName_def
      cong: option.case_cong)

lemma reject_frame:
  "rejectUnsupportedKubernetesGatewaySpec env config rr = (rejected, rr') \<Longrightarrow>
     gq_Resources rr' = gq_Resources rr \<and> gq_Instance rr' = gq_Instance rr \<and> gq_AuthState rr' = gq_AuthState rr \<and> gq_Writes rr' = gq_Writes rr"
  by (auto simp: rejectUnsupportedKubernetesGatewaySpec_def mark_def Let_def split: if_splits)

text \<open>The part of the action before conflicts are looked at: the object with its mode, and the host name.\<close>

lemma createGatewayInfrastructure_cases:
  fixes rr :: "('m, 'w) gateway_run"
  assumes config: "gq_Instance rr = Some config" and run: "createGatewayInfrastructure env rr = (err, rr')"
  obtains (early) "gq_Resources rr' = gq_Resources rr"
  | (resolved) rr1 mode hostname legacy where
      "gq_Resources rr1 = gq_Resources rr" "gq_AuthState rr1 = gq_AuthState rr" "gq_Instance rr1 = Some (set_mode mode config)"
      "(case check_conflicts env hostname legacy (gs_AdditionalIngresses (gw_Spec config)) rr1 of
          (Some err, rr) \<Rightarrow> (Some err, rr) | (None, rr) \<Rightarrow> create_infrastructure env hostname legacy rr) = (err, rr')"
proof -
  obtain rejected rr1 where rej: "rejectUnsupportedKubernetesGatewaySpec env config rr = (rejected, rr1)"
    by fastforce
  note f1 = reject_frame [OF rej]
  obtain e2 rr2 where det: "(if gs_IngressMode (gw_Spec config) = '''' then detectAndSetIngressMode env config rr1 else (None, rr1)) = (e2, rr2)"
    by fastforce
  have keep: "set_mode (gs_IngressMode (gw_Spec config)) config = config"
    by (simp add: set_mode_def)
  have f2: "gq_Resources rr2 = gq_Resources rr" "gq_AuthState rr2 = gq_AuthState rr"
    using det f1 detectAndSetIngressMode_frame(1,2) [of env config rr1 e2 rr2] by (auto split: if_splits)
  have f2': "\<exists>mode. gq_Instance rr2 = Some (set_mode mode config)" if "e2 = None"
    using det f1 config that keep detectAndSetIngressMode_frame(3) [of env config rr1 e2 rr2] by (auto split: if_splits) metis
  show thesis
  proof (cases "rejected \<or> e2 \<noteq> None")
    case True
    then have "rr' = rr1 \<or> rr' = rr2"
      using run rej det config
      by (cases rejected; cases e2) (auto simp: createGatewayInfrastructure_def validateGatewayConfig_def)
    then show thesis
      using f1 f2 early by auto
  next
    case False
    then obtain mode where mode: "gq_Instance rr2 = Some (set_mode mode config)"
      using f2' by blast
    let ?config = "set_mode mode config"
    obtain h rr3 where h: "resolveGatewayHostname env ?config rr2 = (h, rr3)"
      by fastforce
    note f3 = resolveGatewayHostname_frame [OF h]
    have rest: "(case ValidateAdditionalIngresses (ge_Checks env) (gw_Spec ?config) of
        Some err \<Rightarrow> (Some (wrap ''invalid additional ingresses'' err), rr2)
      | None \<Rightarrow>
          (case h of
             Inl DomainRequired \<Rightarrow> (None, rr3)
           | Inl (DomainFailed err) \<Rightarrow> (Some err, rr3)
           | Inr hostname \<Rightarrow>
               let legacy = lr_Hostname (computeLegacyRedirectInfo ?config hostname) in
               (case check_conflicts env hostname legacy (gs_AdditionalIngresses (gw_Spec ?config)) rr3 of
                  (Some err, rr) \<Rightarrow> (Some err, rr)
                | (None, rr) \<Rightarrow> create_infrastructure env hostname legacy rr))) = (err, rr')"
      using run rej det False config mode h
      by (simp add: createGatewayInfrastructure_def validateGatewayConfig_def Let_def split: option.splits sum.splits domain_error.splits)
    show thesis
    proof (cases "ValidateAdditionalIngresses (ge_Checks env) (gw_Spec ?config)")
      case (Some e)
      then show thesis
        using rest f2 early by simp
    next
      case None
      show thesis
      proof (cases h)
        case (Inl d)
        then have "rr' = rr3"
          using rest None by (cases d) simp_all
        then show thesis
          using f2 f3 early by simp
      next
        case (Inr hostname)
        then show thesis
          using rest None f2 f3 mode set_mode_keeps(3) [of mode config]
          by (intro resolved [of rr3 mode hostname "lr_Hostname (computeLegacyRedirectInfo ?config hostname)"]) (simp_all add: Let_def)
      qed
    qed
  qed
qed

section \<open>Lemmas: Routes\<close>

definition foreign_route :: "('m, 'w) gateway_env \<Rightarrow> GatewayConfig \<Rightarrow> string \<Rightarrow> bool" where
  "foreign_route env config n \<longleftrightarrow>
     (\<forall>w. \<exists>r. fst (gk_Route (ge_Client env) n w) = Inr r \<and> \<not> isOwnedByGatewayConfig (rv_Controller r) config)"

text \<open>A Route as the API server shows it after it was deployed: its spec and labels, with any controller and status.\<close>

definition deployed_route :: "controller_ref option \<Rightarrow> route_ingress list \<Rightarrow> bridge_route \<Rightarrow> route_view" where
  "deployed_route controller entries b =
     \<lparr>rv_Name = br_Name b, rv_Controller = controller, rv_Labels = br_Labels b, rv_Host = br_Host b, rv_ToName = br_ToName b,
      rv_TargetPort = Some (IntPort (br_TargetPort b)), rv_Ingress = entries\<rparr>"

fun bridge_route_ok :: "('m, 'w) gateway_env \<Rightarrow> GatewayConfig \<Rightarrow> gw_resource \<Rightarrow> bool" where
  "bridge_route_ok env config (Route_res b) \<longleftrightarrow>
     list_ex (\<lambda>ing. br_Name b = ai_Name ing \<and> \<not> foreign_route env config (ai_Name ing) \<and>
       (let r = deployed_route None [] b in
        route_matches r ing \<and> routeHasLabels (rv_Labels r) (gatewayRouteLabels (ai_RouteLabels ing)))) (gs_AdditionalIngresses (gw_Spec config))"
| "bridge_route_ok env config _ \<longleftrightarrow> False"

lemma routeHasLabels_self: "gomap_wf m \<Longrightarrow> routeHasLabels m m"
  by (auto simp: routeHasLabels_def list_all_iff gomap_wf_def map_of_is_SomeI)

lemma built_route_ok:
  assumes "buildAdditionalIngressRoute env ing = Inr b"
  shows "br_Name b = ai_Name ing" "route_matches (deployed_route c es b) ing"
    "routeHasLabels (rv_Labels (deployed_route c es b)) (gatewayRouteLabels (ai_RouteLabels ing))"
proof -
  have "gomap_wf (gatewayRouteLabels (ai_RouteLabels ing))"
    by (simp add: gatewayRouteLabels_def)
  then show "br_Name b = ai_Name ing" "route_matches (deployed_route c es b) ing"
    "routeHasLabels (rv_Labels (deployed_route c es b)) (gatewayRouteLabels (ai_RouteLabels ing))"
    using assms
    by (auto simp: buildAdditionalIngressRoute_def deployed_route_def route_matches_def routeHasLabels_self split: option.splits)
qed

lemma report_route_frame:
  fixes rr :: "('m, 'w) gateway_run"
  assumes "gq_Instance rr = Some config"
  shows "gq_Resources (recordAdditionalIngressRouteCondition ops n st reason message rr) = gq_Resources rr"
    "\<exists>config'. gq_Instance (recordAdditionalIngressRouteCondition ops n st reason message rr) = Some config' \<and> same_object config config'"
  using assms by (auto simp: recordAdditionalIngressRouteCondition_def same_object_def)

lemma foreign_route_same_object: "same_object c c' \<Longrightarrow> foreign_route env c' n = foreign_route env c n"
  unfolding foreign_route_def using isOwned_same_object [of c c'] by simp

lemma createAdditionalIngressRoutes_collects:
  fixes rr :: "('m, 'w) gateway_run"
  shows "createAdditionalIngressRoutes env ings rr = (err, rr') \<Longrightarrow> gq_Instance rr = Some c \<Longrightarrow> same_object config c \<Longrightarrow>
    set ings \<subseteq> set (gs_AdditionalIngresses (gw_Spec config)) \<Longrightarrow> collects (bridge_route_ok env config) rr rr'"
proof (induction ings arbitrary: rr c)
  case Nil
  then show ?case by (simp add: collects_same)
next
  case (Cons ing ings)
  let ?n = "ai_Name ing"
  have sub: "set ings \<subseteq> set (gs_AdditionalIngresses (gw_Spec config))" "ing \<in> set (gs_AdditionalIngresses (gw_Spec config))"
    using Cons.prems(4) by auto
  show ?case
  proof (cases "additionalIngressHasGatewayConflict (ge_Ops env) c ?n")
    case True
    then show ?thesis
      using Cons sub by (simp add: Let_def)
  next
    case False
    show ?thesis
    proof (cases "buildAdditionalIngressRoute env ing")
      case (Inl e)
      then show ?thesis
        using Cons.prems(1,2) False report_route_frame(1) [OF Cons.prems(2)] by (auto simp: Let_def intro: collects_same)
    next
      case (Inr b)
      obtain answer rr1 where ask: "ask (gk_Route (ge_Client env) ?n) rr = (answer, rr1)"
        by fastforce
      note frame = ask_frame [OF ask]
      have inst: "gq_Instance rr1 = Some c"
        using frame Cons.prems(2) by simp
      show ?thesis
      proof (cases "can_manage (gateway_ns env @ ''/'' @ ?n) c (map_sum id rv_Controller answer)")
        case (Inl e)
        then show ?thesis
          using Cons.prems(1,2) False Inr ask frame by (auto simp: Let_def intro: collects_same)
      next
        case manage: (Inr ours)
        show ?thesis
        proof (cases ours)
          case False2: False
          let ?rr2 = "recordAdditionalIngressRouteCondition (ge_Ops env) ?n ConditionFalse ''OwnershipConflict''
            (''Route '' @ quoted ?n @ '' is not controlled by this GatewayConfig'') rr1"
          obtain c2 where c2: "gq_Instance ?rr2 = Some c2" "same_object c c2"
            using report_route_frame(2) [OF inst] by blast
          have "createAdditionalIngressRoutes env ings ?rr2 = (err, rr')"
            using Cons.prems(1,2) False Inr ask manage False2 by (simp add: Let_def)
          then have "collects (bridge_route_ok env config) ?rr2 rr'"
            using Cons.IH c2 same_object_trans [OF Cons.prems(3) c2(2)] sub(1) by blast
          then show ?thesis
            using report_route_frame(1) [OF inst] frame by (simp add: collects_def)
        next
          case True
          obtain e rr2 where add: "AddResources env (Route_res b) rr1 = (e, rr2)"
            by fastforce
          have "\<not> foreign_route env c ?n"
          proof
            assume "foreign_route env c ?n"
            then obtain r where "answer = Inr r" "\<not> isOwnedByGatewayConfig (rv_Controller r) c"
              using frame unfolding foreign_route_def by blast
            then show False
              using manage True by (simp add: can_manage_def)
          qed
          then have "bridge_route_ok env config (Route_res b)"
            unfolding bridge_route_ok.simps list_ex_iff Let_def
            using built_route_ok [OF Inr] sub(2) foreign_route_same_object [OF Cons.prems(3), of env ?n]
            by (intro bexI [of _ ing] conjI) simp_all
          then have first: "collects (bridge_route_ok env config) rr rr2"
            using AddResources_collects [OF add] frame by (auto simp: collects_def)
          have inst2: "gq_Instance rr2 = Some c"
            using add inst by (auto simp: AddResources_def split: option.splits)
          have "collects (bridge_route_ok env config) rr2 rr'"
          proof (cases e)
            case None
            then have "createAdditionalIngressRoutes env ings rr2 = (err, rr')"
              using Cons.prems(1,2) False Inr ask manage True add by (simp add: Let_def)
            then show ?thesis
              using Cons.IH inst2 Cons.prems(3) sub(1) by blast
          next
            case (Some x)
            then have "gq_Resources rr' = gq_Resources rr2"
              using Cons.prems(1,2) False Inr ask manage True add report_route_frame(1) [OF inst2] by (auto simp: Let_def)
            then show ?thesis
              by (rule collects_same)
          qed
          then show ?thesis
            using first collects_trans by blast
        qed
      qed
    qed
  qed
qed

section \<open>Lemmas: certificates and deletions\<close>

lemma handleCertificates_name:
  assumes "handleCertificates env config domain rr = (Inr n, rr')"
  shows "n \<noteq> ''''"
proof -
  have "n = gatewayCertificateSecretName config"
    using assms by (auto simp: handleCertificates_def Let_def split: if_splits prod.splits option.splits)
  then show ?thesis
    by (auto simp: gatewayCertificateSecretName_def split: option.splits)
qed

lemma create_infrastructure_creates:
  assumes "gq_Instance rr = Some config" "create_infrastructure env hostname legacy rr = (None, rr')"
  shows "\<exists>cert rr3. cert \<noteq> '''' \<and> createGateway env cert hostname legacy config rr3 = (None, rr')"
  using assms
  by (auto simp: create_infrastructure_def Let_def split: prod.splits option.splits sum.splits if_splits dest: handleCertificates_name)

lemma getGatewayAuthenticationMode_frame:
  "getGatewayAuthenticationMode env config rr = (mode, rr') \<Longrightarrow>
     gq_Resources rr' = gq_Resources rr \<and> gq_Writes rr' = gq_Writes rr \<and> gq_AuthState rr' = gq_AuthState rr \<and>
     gq_Instance rr' = gq_Instance rr \<and> gq_Templates rr' = gq_Templates rr"
  by (auto simp: getGatewayAuthenticationMode_def GetClusterAuthenticationMode_def split: if_splits prod.splits sum.splits dest!: ask_frame)

text \<open>
  A deletion of one of the given objects for which a read can return something removable: an object that is never removable when
  read is not among them.
\<close>

definition deletions_ok :: "('m, 'w) gateway_env \<Rightarrow> GatewayConfig \<Rightarrow> (GVK \<times> string) set \<Rightarrow> gw_write \<Rightarrow> bool" where
  "deletions_ok env config objs d \<longleftrightarrow>
     (\<exists>obj answer. d = Deleted (fst obj) (gateway_ns env) (snd obj) answer \<and> obj \<in> objs \<and>
       (\<exists>w u. fst (gk_Object (ge_Client env) (fst obj) (gateway_ns env) (snd obj) w) = Inr u \<and> removable_proxy_object config u))"

lemma deleteKubeAuthProxyResource_writes:
  assumes "deleteKubeAuthProxyResource env obj config rr = (err, rr')"
  shows "\<exists>ds. gq_Writes rr' = gq_Writes rr @ ds \<and> list_all (deletions_ok env config {obj}) ds"
proof -
  obtain answer rr1 where ask: "ask (gk_Object (ge_Client env) (fst obj) (gateway_ns env) (snd obj)) rr = (answer, rr1)"
    by fastforce
  note frame = ask_frame [OF ask]
  show ?thesis
  proof (cases "\<exists>u. answer = Inr u \<and> removable_proxy_object config u")
    case True
    then obtain u where u: "answer = Inr u" "removable_proxy_object config u"
      by blast
    obtain e rr2 where del: "delete_object env (fst obj) (gateway_ns env) (snd obj) rr1 = (e, rr2)"
      by fastforce
    have "gq_Writes rr2 = gq_Writes rr @ [Deleted (fst obj) (gateway_ns env) (snd obj) e]"
      using del frame by (auto simp: delete_object_def split: prod.splits dest!: ask_frame)
    moreover have "rr' = rr2"
      using assms ask u del by (cases e) (simp_all add: deleteKubeAuthProxyResource_def)
    moreover have "fst (gk_Object (ge_Client env) (fst obj) (gateway_ns env) (snd obj) (gq_World rr)) = Inr u"
      using frame u(1) by simp
    then have "deletions_ok env config {obj} (Deleted (fst obj) (gateway_ns env) (snd obj) e)"
      using u(2) unfolding deletions_ok_def by blast
    ultimately show ?thesis
      by simp
  next
    case False
    then have "rr' = rr1"
      using assms ask by (cases answer) (auto simp: deleteKubeAuthProxyResource_def)
    with frame show ?thesis
      by simp
  qed
qed

lemma deletions_ok_mono: "deletions_ok env config A d \<Longrightarrow> A \<subseteq> B \<Longrightarrow> deletions_ok env config B d"
  unfolding deletions_ok_def by blast

lemma delete_proxy_objects_writes:
  "delete_proxy_objects env objs config rr = (err, rr') \<Longrightarrow>
     \<exists>ds. gq_Writes rr' = gq_Writes rr @ ds \<and> list_all (deletions_ok env config (set objs)) ds"
proof (induction objs arbitrary: rr)
  case (Cons obj objs)
  obtain e rr1 where step: "deleteKubeAuthProxyResource env obj config rr = (e, rr1)"
    by fastforce
  obtain ds where ds: "gq_Writes rr1 = gq_Writes rr @ ds" "list_all (deletions_ok env config {obj}) ds"
    using deleteKubeAuthProxyResource_writes [OF step] by blast
  have first: "list_all (deletions_ok env config (set (obj # objs))) ds"
    using ds(2) by (auto elim!: list.pred_mono_strong intro: deletions_ok_mono)
  show ?case
  proof (cases e)
    case None
    then obtain es where "gq_Writes rr' = gq_Writes rr1 @ es" "list_all (deletions_ok env config (set objs)) es"
      using Cons.IH [of rr1] Cons.prems step by auto
    moreover from this(2) have "list_all (deletions_ok env config (set (obj # objs))) es"
      by (auto elim!: list.pred_mono_strong intro: deletions_ok_mono)
    ultimately show ?thesis
      using ds(1) first by auto
  next
    case (Some x)
    then show ?thesis
      using Cons.prems step ds(1) first by auto
  qed
qed simp

section \<open>Properties\<close>

text \<open>
  C16. A Gateway that somebody else created is never taken over. If the Gateway with the name of an additional ingress, or the ConfigMap of its
  infrastructure, exists and is controlled by another owner whenever the operator looks, then the infrastructure action hands over
  neither a Gateway nor a ConfigMap under these names, whatever its mode, host names, other ingresses and failing calls. The ingress
  has a status, as the preceding action ensures, and a name that is not that of a default Gateway.
\<close>

theorem foreign_gateways_untouched:
  fixes rr :: "('m, 'w) gateway_run"
  assumes "condition_list_laws (ge_Ops env)" "auth_types_ok (gq_AuthState rr)"
    and "gq_Instance rr = Some config" "n \<in> ingress_names config" "has_status config n" "foreign_gateway env config n"
    and "n \<notin> {''data-science-gateway'', ''rh-ai-gateway''}"
    and "createGatewayInfrastructure env rr = (err, rr')"
  shows "\<exists>added. gq_Resources rr' = gq_Resources rr @ added \<and> list_all (\<lambda>r. \<not> targets_ingress n r) added"
proof -
  let ?P = "\<lambda>r. \<not> targets_ingress n r"
  have "collects ?P rr rr'"
    using assms(3,8)
  proof (cases rule: createGatewayInfrastructure_cases)
    case early
    then show ?thesis
      by (rule collects_same)
  next
    case (resolved rr1 mode hostname legacy)
    let ?ings = "gs_AdditionalIngresses (gw_Spec config)"
    obtain e rr2 where conflicts: "check_conflicts env hostname legacy ?ings rr1 = (e, rr2)"
      by fastforce
    have same: "gq_Resources rr2 = gq_Resources rr"
      using check_conflicts_resources [OF conflicts] resolved(1) by simp
    show ?thesis
    proof (cases e)
      case (Some x)
      then show ?thesis
        using resolved(4) conflicts same by (simp add: collects_same)
    next
      case None
      have foreign: "foreign_gateway env (set_mode mode config) n" "has_status (set_mode mode config) n" "auth_types_ok (gq_AuthState rr1)"
        using assms(2,5,6) resolved(2) by (simp_all add: set_mode_keeps)
      obtain config2 where config2: "gq_Instance rr2 = Some config2"
        "n \<in> ai_Name ` set ?ings \<longrightarrow> additionalIngressHasGatewayConflict (ge_Ops env) config2 n"
        using check_conflicts_spec [OF assms(1) conflicts [unfolded None] resolved(3) foreign(3,1,2)] by blast
      have run: "create_infrastructure env hostname legacy rr2 = (err, rr')"
        using resolved(4) conflicts None by simp
      have "collects ?P rr2 rr'"
        using config2 assms(4,7) by (intro create_infrastructure_collects [OF config2(1) _ _ _ run]) simp_all
      then show ?thesis
        using same by (simp add: collects_def)
    qed
  qed
  then show ?thesis
    by (simp add: collects_def)
qed

text \<open>
  Every Route that the operator hands over for an additional ingress belongs to a configured ingress, is not an object somebody else
  controls, and passes the operator's own readiness check once it is deployed: host, Service, port and placement labels are
  those the check asks for.
\<close>

theorem bridge_routes_pass_own_check:
  fixes rr :: "('m, 'w) gateway_run"
  assumes "gq_Instance rr = Some config" "createOCPRoutes env rr = (err, rr')"
  shows "\<exists>added. gq_Resources rr' = gq_Resources rr @ added \<and> list_all (bridge_route_ok env config) added"
proof -
  obtain rejected rr1 where rej: "rejectUnsupportedKubernetesGatewaySpec env config rr = (rejected, rr1)"
    by fastforce
  note f1 = reject_frame [OF rej]
  obtain h rr2 where h: "resolveGatewayHostname env config rr1 = (h, rr2)"
    by fastforce
  note f2 = resolveGatewayHostname_frame [OF h]
  let ?ings = "gs_AdditionalIngresses (gw_Spec config)"
  have all: "gq_Resources (recordAllAdditionalIngressRouteConditions ops ings reason message q) = gq_Resources q"
    for ops ings reason message and q :: "('m, 'w) gateway_run"
    unfolding recordAllAdditionalIngressRouteConditions_def
    by (induction ings arbitrary: q) (auto simp: recordAdditionalIngressRouteCondition_def split: option.split)
  let ?rr3 = "rr2\<lparr>gq_Templates := gq_Templates rr2 @ [''resources/gateway-ocp-route.tmpl.yaml'']\<rparr>"
  have "gq_Resources rr' = gq_Resources rr \<or> createAdditionalIngressRoutes env ?ings ?rr3 = (err, rr')"
    using assms rej h f1 f2 all
    by (auto simp: createOCPRoutes_def validateGatewayConfig_def isGatewayDomainUnresolved_def
        split: bool.splits if_splits sum.splits domain_error.splits prod.splits)
  then have "collects (bridge_route_ok env config) rr rr'"
  proof
    assume "gq_Resources rr' = gq_Resources rr"
    then show ?thesis
      by (rule collects_same)
  next
    assume run: "createAdditionalIngressRoutes env ?ings ?rr3 = (err, rr')"
    have "collects (bridge_route_ok env config) ?rr3 rr'"
      using f1 f2 assms(1) by (intro createAdditionalIngressRoutes_collects [OF run, of config config]) simp_all
    then show ?thesis
      using f1 f2 by (simp add: collects_def)
  qed
  then show ?thesis
    by (simp add: collects_def)
qed

text \<open>The default Gateway as the API server shows it after it was deployed.\<close>

definition deployed_gateway :: "controller_ref option \<Rightarrow> (string \<times> string) list \<Rightarrow> managed_gateway \<Rightarrow> gateway_view" where
  "deployed_gateway controller conditions g =
     \<lparr>gv_Controller = controller, gv_Conditions = conditions, gv_Listeners = map (\<lambda>l. (li_Name l, li_Hostname l)) (mg_Listeners g),
      gv_ParametersRef = (mg_ParametersRef g \<noteq> None)\<rparr>"

lemma createAdditionalGateways_extends:
  "createAdditionalGateways env config allowed ings rr = (err, rr') \<Longrightarrow> set (gq_Resources rr) \<subseteq> set (gq_Resources rr')"
proof (induction ings arbitrary: rr)
  case (Cons ing ings)
  have add: "set (gq_Resources q) \<subseteq> set (gq_Resources q')" if "AddResources env r q = (e, q')" for r q e q'
    using that by (auto simp: AddResources_def split: option.splits)
  have conf: "set (gq_Resources q) \<subseteq> set (gq_Resources q')" if "configureClusterIPInfrastructure env g m sec q = (e, q')" for g m sec q e q'
    using that add by (auto simp: configureClusterIPInfrastructure_def split: prod.splits option.splits)
  show ?case
    using Cons.prems
    by (auto simp: Let_def split: if_splits prod.splits sum.splits option.splits dest!: Cons.IH add conf)
qed simp

lemma default_gateway_matches:
  assumes "cert \<noteq> ''''" "gs_IngressMode (gw_Spec config) \<in> {''OcpRoute'', ''LoadBalancer''}"
    and run: "createGateway env cert domain legacy config rr = (None, rr')"
  obtains g where "Gateway_res g \<in> set (gq_Resources rr')"
    "\<And>ctrl conds. \<not> mode_mismatch (gs_IngressMode (gw_Spec config)) (deployed_gateway ctrl conds g)"
    "mg_Name g = GetDefaultGatewayName (ge_K8s env)"
proof -
  let ?mode = "gs_IngressMode (gw_Spec config)"
  let ?allowed = "[gateway_ns env, ge_AppNamespace env]"
  let ?gateway = "managedGateway (ge_K8s env) (GetDefaultGatewayName (ge_K8s env)) (default_listeners ?mode cert domain legacy ?allowed)"
  let ?infra = "configureClusterIPInfrastructure env ?gateway ''data-science-gateway-config'' ''data-science-gateway-service-tls'' rr"
  define g where "g = (if ?mode = ''OcpRoute'' then ?gateway\<lparr>mg_ParametersRef := Some ''data-science-gateway-config'', mg_Annotations := []\<rparr>
    else if ge_K8s env then ?gateway\<lparr>mg_Annotations := [(''service.beta.kubernetes.io/port_443_health-probe_protocol'', ''Tcp'')]\<rparr> else ?gateway)"
  have infra: "fst ?infra = Inr x \<Longrightarrow> x = ?gateway\<lparr>mg_ParametersRef := Some ''data-science-gateway-config'', mg_Annotations := []\<rparr>" for x
    by (auto simp: configureClusterIPInfrastructure_def split: prod.splits option.splits)
  obtain rr1 rr2 where add: "AddResources env (Gateway_res g) rr1 = (None, rr2)"
    and more: "createAdditionalGateways env config ?allowed (gs_AdditionalIngresses (gw_Spec config)) rr2 = (None, rr')"
  proof (cases "?mode = ''OcpRoute''")
    case True
    obtain res q where res: "?infra = (res, q)"
      by fastforce
    then obtain x where x: "res = Inr x"
      using run True by (cases res) (simp_all add: createGateway_def Let_def)
    with infra res have "x = g"
      using True by (simp add: g_def)
    obtain e q2 where "AddResources env (Gateway_res g) q = (e, q2)"
      by fastforce
    then show thesis
      using run True res x \<open>x = g\<close> that [of q q2] by (cases e) (simp_all add: createGateway_def Let_def)
  next
    case False
    obtain e q2 where "AddResources env (Gateway_res g) rr = (e, q2)"
      by fastforce
    then show thesis
      using run False that [of rr q2] by (cases e; cases "ge_K8s env") (simp_all add: createGateway_def Let_def g_def)
  qed
  have "Gateway_res g \<in> set (gq_Resources rr2)"
    using add by (auto simp: AddResources_def split: option.splits)
  then have "Gateway_res g \<in> set (gq_Resources rr')"
    using createAdditionalGateways_extends [OF more] by blast
  moreover have "\<not> mode_mismatch ?mode (deployed_gateway ctrl conds g)" for ctrl conds
    using assms(1,2)
    by (auto simp: g_def mode_mismatch_def deployed_gateway_def managedGateway_def default_listeners_def gatewayHTTPSListener_def Let_def)
  moreover have "mg_Name g = GetDefaultGatewayName (ge_K8s env)"
    by (simp add: g_def managedGateway_def)
  ultimately show thesis
    using that by blast
qed

text \<open>
  C23. A change of the ingress mode settles: the infrastructure action hands over a default Gateway which, once deployed, the check for
  mode changes accepts. The check then reports no error and writes nothing, so the Gateway is not deleted and recreated again and
  again. This holds for both modes, on OpenShift and Kubernetes, for every kind of certificate.
\<close>

theorem mode_change_settles:
  fixes rr :: "('m, 'w) gateway_run"
  assumes "gq_Instance rr = Some config" "gs_IngressMode (gw_Spec config) \<in> {''OcpRoute'', ''LoadBalancer''}"
    and "create_infrastructure env hostname legacy rr = (None, rr')"
  shows "\<exists>g. Gateway_res g \<in> set (gq_Resources rr') \<and> mg_Name g = GetDefaultGatewayName (ge_K8s env) \<and>
    (\<forall>ctrl conds (later :: ('m, 'w) gateway_run).
       fst (gk_Gateway (ge_Client env) (GetDefaultGatewayName (ge_K8s env)) (gq_World later)) = Inr (deployed_gateway ctrl conds g) \<longrightarrow>
       fst (reconcileGatewayForModeChange env (gs_IngressMode (gw_Spec config)) later) = None \<and>
       gq_Writes (snd (reconcileGatewayForModeChange env (gs_IngressMode (gw_Spec config)) later)) = gq_Writes later)"
proof -
  let ?mode = "gs_IngressMode (gw_Spec config)"
  let ?D = "GetDefaultGatewayName (ge_K8s env)"
  obtain cert rr3 where cert: "cert \<noteq> ''''" "createGateway env cert hostname legacy config rr3 = (None, rr')"
    using create_infrastructure_creates [OF assms(1,3)] by blast
  obtain g where g: "Gateway_res g \<in> set (gq_Resources rr')" "\<And>ctrl conds. \<not> mode_mismatch ?mode (deployed_gateway ctrl conds g)" "mg_Name g = ?D"
    using default_gateway_matches [OF cert(1) assms(2) cert(2)] by blast
  have "fst (reconcileGatewayForModeChange env ?mode later) = None \<and> gq_Writes (snd (reconcileGatewayForModeChange env ?mode later)) = gq_Writes later"
    if "fst (gk_Gateway (ge_Client env) ?D (gq_World later)) = Inr (deployed_gateway ctrl conds g)"
    for ctrl conds and later :: "('m, 'w) gateway_run"
  proof -
    obtain answer q where ask: "ask (gk_Gateway (ge_Client env) ?D) later = (answer, q)"
      by fastforce
    then show ?thesis
      using that ask_frame [OF ask] g(2) by (simp add: reconcileGatewayForModeChange_def)
  qed
  then show ?thesis
    using g(1,3) by blast
qed

text \<open>
  C24. The cleanup of an unwanted auth proxy spares what is not the operator's. It deletes only Deployments and NetworkPolicies with
  the names of its own proxies in the gateway namespace; an object that has a foreign owner, lacks the part-of label or is marked unmanaged
  whenever it is read is never deleted; and nothing is deleted while the authentication mode asks for a proxy.
\<close>

theorem proxy_cleanup_spares_foreign_objects:
  fixes rr :: "('m, 'w) gateway_run"
  assumes "gq_Instance rr = Some config" "cleanupKubeAuthProxyResources env rr = (err, rr')"
  shows "\<exists>deleted. gq_Writes rr' = gq_Writes rr @ deleted \<and>
    list_all (deletions_ok env config (set (proxy_objects config))) deleted \<and>
    (\<forall>mode. fst (getGatewayAuthenticationMode env config rr) = Inr mode \<and> proxy_desired mode config \<longrightarrow> deleted = [])"
proof -
  obtain mode rr1 where mode: "getGatewayAuthenticationMode env config rr = (mode, rr1)"
    by fastforce
  have same: "gq_Writes rr1 = gq_Writes rr"
    using getGatewayAuthenticationMode_frame [OF mode] by simp
  show ?thesis
  proof (cases "\<exists>m. mode = Inr m \<and> \<not> proxy_desired m config")
    case True
    then obtain m where m: "mode = Inr m" "\<not> proxy_desired m config"
      by blast
    then have "delete_proxy_objects env (proxy_objects config) config rr1 = (err, rr')"
      using assms mode by (simp add: cleanupKubeAuthProxyResources_def validateGatewayConfig_def)
    from delete_proxy_objects_writes [OF this] m mode same show ?thesis
      by auto
  next
    case False
    then have "rr' = rr1"
      using assms mode by (cases mode) (auto simp: cleanupKubeAuthProxyResources_def validateGatewayConfig_def)
    with same show ?thesis
      by simp
  qed
qed

section \<open>Witnesses\<close>

text \<open>
  A cluster as a list of objects and a list of Gateways; nothing else exists. Deleting an object removes it.
\<close>

record demo_world =
  dw_Objects :: "k8s_object list"
  dw_Gateways :: "(string \<times> gateway_view) list"

definition no_such :: "'w \<Rightarrow> (api_failure + 'a) \<times> 'w" where
  "no_such w = (Inl (ApiFailure ''not found'' ApiNotFound), w)"

definition demo_gateway_client :: "demo_world gateway_client" where
  "demo_gateway_client =
     \<lparr>gk_Gateway = (\<lambda>n w. (case map_of (dw_Gateways w) n of Some g \<Rightarrow> (Inr g, w) | None \<Rightarrow> no_such w)),
      gk_ConfigMap = (\<lambda>n. no_such), gk_Route = (\<lambda>n. no_such), gk_ServiceType = (\<lambda>n. no_such), gk_GatewayConfig = no_such,
      gk_ClusterIngress = (\<lambda>w. (Inr \<lparr>ig_AppsDomain = Inr None, ig_Domain = Inr (Some ''apps.example'')\<rparr>, w)),
      gk_IngressController = no_such, gk_AuthenticationType = (\<lambda>w. (Inr ''None'', w)), gk_Secret = (\<lambda>ns n. no_such),
      gk_Object = (\<lambda>g ns n w.
        (case find (\<lambda>u. ko_GVK u = g \<and> ko_Namespace u = ns \<and> ko_Name u = n) (dw_Objects w) of Some u \<Rightarrow> (Inr u, w) | None \<Rightarrow> no_such w)),
      gk_Delete = (\<lambda>g ns n w. (None, w\<lparr>dw_Objects := filter (\<lambda>u. \<not> (ko_GVK u = g \<and> ko_Namespace u = ns \<and> ko_Name u = n)) (dw_Objects w)\<rparr>)),
      gk_UpdateConfig = (\<lambda>c w. (None, w)), gk_ApplySecret = (\<lambda>ns n s w. (None, w))\<rparr>"

definition demo_gateway_env :: "(gen_condition list, demo_world) gateway_env" where
  "demo_gateway_env =
     \<lparr>ge_Client = demo_gateway_client, ge_Ops = plain_conditions, ge_Marks = plain_marks, ge_K8s = False, ge_AppNamespace = ''apps'',
      ge_Release = ''Open Data Hub'', ge_Getenv = (\<lambda>_. ''''), ge_Checks = example_checks, ge_AddResources = (\<lambda>_. None),
      ge_RenderRoute = (\<lambda>_. None), ge_GenerateCertificate = (\<lambda>_. Inr (''crt'', ''key''))\<rparr>"

definition demo_run :: "demo_world \<Rightarrow> (gen_condition list, demo_world) gateway_run" where
  "demo_run w =
     \<lparr>gq_Instance = Some demo_gateway_config, gq_AuthState = [], gq_Conditions = [], gq_World = w, gq_Writes = [], gq_Resources = [],
      gq_Templates = [], gq_TemplateData = None\<rparr>"

text \<open>The Gateway of the first ingress belongs to another GatewayConfig; that of the second does not exist.\<close>

definition foreign_view :: gateway_view where
  "foreign_view =
     \<lparr>gv_Controller = Some \<lparr>cr_UID = ''u2'', cr_Name = ''other'', cr_Kind = ''GatewayConfig''\<rparr>, gv_Conditions = [], gv_Listeners = [],
      gv_ParametersRef = False\<rparr>"

definition pinned_env :: "(gen_condition list, demo_world) gateway_env" where
  "pinned_env = demo_gateway_env\<lparr>ge_Client := demo_gateway_client\<lparr>gk_Gateway :=
     (\<lambda>n w. if n = ''a'' then (Inr foreign_view, w) else no_such w)\<rparr>\<rparr>"

definition demo_foreign_run :: "go_error option \<times> (gen_condition list, demo_world) gateway_run" where
  "demo_foreign_run = createGatewayInfrastructure pinned_env (demo_run \<lparr>dw_Objects = [], dw_Gateways = []\<rparr>)"

lemma demo_run_fields [simp]:
  "gq_Instance (demo_run w) = Some demo_gateway_config" "gq_AuthState (demo_run w) = []" "gq_Resources (demo_run w) = []"
  "gq_Writes (demo_run w) = []" "gq_World (demo_run w) = w"
  by (simp_all add: demo_run_def)

lemma pinned_foreign: "foreign_gateway pinned_env demo_gateway_config ''a''"
  by (simp add: foreign_gateway_def pinned_env_def foreign_view_def isOwnedByGatewayConfig_def demo_gateway_config_def)

lemma demo_foreign_resources:
  "map (\<lambda>r. case r of Gateway_res g \<Rightarrow> mg_Name g | _ \<Rightarrow> '''') (gq_Resources (snd demo_foreign_run)) = ['''', '''', ''data-science-gateway'', '''', ''b'']"
  "fst demo_foreign_run = None"
  by code_simp+

theorem foreign_gateways_untouched_witness:
  "foreign_gateway pinned_env demo_gateway_config ''a'' \<and>
   (\<exists>added. gq_Resources (snd demo_foreign_run) = added \<and> list_all (\<lambda>r. \<not> targets_ingress ''a'' r) added)"
proof -
  have known: "''a'' \<in> ingress_names demo_gateway_config" "has_status demo_gateway_config ''a''"
    by code_simp+
  have laws: "condition_list_laws (ge_Ops pinned_env)"
    using plain_conditions_laws by (simp add: pinned_env_def demo_gateway_env_def)
  have run: "createGatewayInfrastructure pinned_env (demo_run \<lparr>dw_Objects = [], dw_Gateways = []\<rparr>) = (fst demo_foreign_run, snd demo_foreign_run)"
    by (simp add: demo_foreign_run_def)
  show ?thesis
    using foreign_gateways_untouched [OF laws _ demo_run_fields(1) known pinned_foreign _ run] pinned_foreign
    by (simp add: auth_types_ok_def)
qed

definition demo_routes_run :: "go_error option \<times> (gen_condition list, demo_world) gateway_run" where
  "demo_routes_run = createOCPRoutes demo_gateway_env (demo_run \<lparr>dw_Objects = [], dw_Gateways = []\<rparr>)"

lemma demo_routes_two: "length (gq_Resources (snd demo_routes_run)) = 2"
  by code_simp

theorem bridge_routes_pass_own_check_witness:
  "length (gq_Resources (snd demo_routes_run)) = 2 \<and> list_all (bridge_route_ok demo_gateway_env demo_gateway_config) (gq_Resources (snd demo_routes_run))"
proof -
  have run: "createOCPRoutes demo_gateway_env (demo_run \<lparr>dw_Objects = [], dw_Gateways = []\<rparr>) = (fst demo_routes_run, snd demo_routes_run)"
    by (simp add: demo_routes_run_def)
  show ?thesis
    using bridge_routes_pass_own_check [OF demo_run_fields(1) run] demo_routes_two by simp
qed

definition demo_infra_run :: "go_error option \<times> (gen_condition list, demo_world) gateway_run" where
  "demo_infra_run = create_infrastructure demo_gateway_env ''rh-ai.apps.example'' ''data-science-gateway.apps.example'' (demo_run \<lparr>dw_Objects = [], dw_Gateways = []\<rparr>)"

lemma demo_infra_ok: "fst demo_infra_run = None"
  by code_simp

theorem mode_change_settles_witness:
  "\<exists>g later. Gateway_res g \<in> set (gq_Resources (snd demo_infra_run)) \<and> mg_Name g = ''data-science-gateway'' \<and>
     later = demo_run \<lparr>dw_Objects = [], dw_Gateways = [(''data-science-gateway'', deployed_gateway None [] g)]\<rparr> \<and>
     fst (reconcileGatewayForModeChange demo_gateway_env ''OcpRoute'' later) = None \<and>
     gq_Writes (snd (reconcileGatewayForModeChange demo_gateway_env ''OcpRoute'' later)) = []"
proof -
  have mode: "gs_IngressMode (gw_Spec demo_gateway_config) = ''OcpRoute''"
    by code_simp
  have name: "GetDefaultGatewayName (ge_K8s demo_gateway_env) = ''data-science-gateway''"
    by code_simp
  have run: "create_infrastructure demo_gateway_env ''rh-ai.apps.example'' ''data-science-gateway.apps.example''
      (demo_run \<lparr>dw_Objects = [], dw_Gateways = []\<rparr>) = (None, snd demo_infra_run)"
    using demo_infra_ok by (simp add: demo_infra_run_def prod_eq_iff)
  obtain g where g: "Gateway_res g \<in> set (gq_Resources (snd demo_infra_run))" "mg_Name g = ''data-science-gateway''"
    "\<And>ctrl conds later. fst (gk_Gateway (ge_Client demo_gateway_env) ''data-science-gateway'' (gq_World later)) = Inr (deployed_gateway ctrl conds g) \<Longrightarrow>
       fst (reconcileGatewayForModeChange demo_gateway_env ''OcpRoute'' later) = None \<and>
       gq_Writes (snd (reconcileGatewayForModeChange demo_gateway_env ''OcpRoute'' later)) = gq_Writes later"
    using mode_change_settles [OF demo_run_fields(1) _ run] unfolding mode name by blast
  let ?later = "demo_run \<lparr>dw_Objects = [], dw_Gateways = [(''data-science-gateway'', deployed_gateway None [] g)]\<rparr>"
  have "fst (gk_Gateway (ge_Client demo_gateway_env) ''data-science-gateway'' (gq_World ?later)) = Inr (deployed_gateway None [] g)"
    by (simp add: demo_gateway_env_def demo_gateway_client_def)
  from g(3) [OF this] g(1,2) show ?thesis
    by auto
qed

text \<open>The proxy Deployment carries the label and is deleted; the NetworkPolicy of the same name belongs to somebody else.\<close>

definition demo_proxy_objects :: "k8s_object list" where
  "demo_proxy_objects =
     [\<lparr>ko_GVK = apps_Deployment_gvk, ko_Namespace = ''openshift-ingress'', ko_Name = ''kube-auth-proxy'', ko_Annotations = [],
       ko_Labels = [(''platform.opendatahub.io/part-of'', ''gatewayconfig'')], ko_Owners = [], ko_Deleting = False\<rparr>,
      \<lparr>ko_GVK = NetworkPolicy_gvk, ko_Namespace = ''openshift-ingress'', ko_Name = ''kube-auth-proxy'', ko_Annotations = [],
       ko_Labels = [(''platform.opendatahub.io/part-of'', ''gatewayconfig'')],
       ko_Owners = [\<lparr>ow_UID = ''u9'', ow_APIVersion = ''v1'', ow_Kind = ''Other''\<rparr>], ko_Deleting = False\<rparr>]"

definition demo_cleanup_run :: "go_error option \<times> (gen_condition list, demo_world) gateway_run" where
  "demo_cleanup_run = cleanupKubeAuthProxyResources demo_gateway_env (demo_run \<lparr>dw_Objects = demo_proxy_objects, dw_Gateways = []\<rparr>)"

lemma demo_cleanup_writes:
  "gq_Writes (snd demo_cleanup_run) = [Deleted apps_Deployment_gvk ''openshift-ingress'' ''kube-auth-proxy'' None]"
  by code_simp

theorem proxy_cleanup_spares_foreign_objects_witness:
  "gq_Writes (snd demo_cleanup_run) = [Deleted apps_Deployment_gvk ''openshift-ingress'' ''kube-auth-proxy'' None] \<and>
   deletions_ok demo_gateway_env demo_gateway_config (set (proxy_objects demo_gateway_config))
     (Deleted apps_Deployment_gvk ''openshift-ingress'' ''kube-auth-proxy'' None)"
proof -
  have run: "cleanupKubeAuthProxyResources demo_gateway_env (demo_run \<lparr>dw_Objects = demo_proxy_objects, dw_Gateways = []\<rparr>) =
      (fst demo_cleanup_run, snd demo_cleanup_run)"
    by (simp add: demo_cleanup_run_def)
  show ?thesis
    using proxy_cleanup_spares_foreign_objects [OF demo_run_fields(1) run] demo_cleanup_writes by auto
qed

end
