(* ===== verification/Gateway_Auth.thy ===== *)
theory Gateway_Auth
  imports Gateway_Infra
begin

text \<open>
  Authentication in front of the Gateways (\<open>internal/controller/services/gateway\<close>: \<open>gateway_auth_targets.go\<close>, the auth proxy actions
  of \<open>gateway_controller_actions.go\<close>, the credentials of \<open>gateway_support.go\<close>). For the default Gateway and each additional ingress there is
  a target: a proxy with its own credentials. Preparing a target reads or creates its credentials and collects its resources; a
  target that cannot be prepared keeps its present resources, gets its policies only, and is reported.

  Parameters, beside those of \<open>Gateway_Infra\<close>: the create-or-update and owner reference functions of the controller library,
  the random generator, the hash, the template engine, the TLS profile of the API server (a function of the
  framework) and the default predicate of garbage collection.
\<close>

text \<open>
  A certificate of cert-manager: an entry of its conditions that is no map is \<open>None\<close>, and so is a field that is missing or of
  another type.
\<close>

record certificate_condition =
  xk_type :: "string option"
  xk_status :: "string option"
  xk_observedGeneration :: "int option"
  xk_message :: "string option"
  xk_reason :: "string option"

record certificate_view =
  xv_Generation :: int
  xv_Conditions :: "go_error + certificate_condition option list option"

record ('m, 'w) auth_env =
  ae_Gateway :: "('m, 'w) gateway_env"
  ae_CreateOrUpdate :: "string \<Rightarrow> string \<Rightarrow> secret_view \<Rightarrow> (secret_view \<Rightarrow> go_error + secret_view) \<Rightarrow> 'w \<Rightarrow> (go_error + secret_view) \<times> 'w"
  ae_SetControllerReference :: "GatewayConfig \<Rightarrow> secret_view \<Rightarrow> go_error + secret_view"
  ae_NewSecret :: "nat \<Rightarrow> 'w \<Rightarrow> (go_error + string) \<times> 'w"
  ae_Hash :: "string \<Rightarrow> string"
  ae_Render :: "string list \<Rightarrow> template_data \<Rightarrow> gw_resource list \<Rightarrow> go_error + gw_resource list"
  ae_TLSProfile :: "'w \<Rightarrow> (go_error + string \<times> string \<times> string) \<times> 'w"
  ae_RedirectConfig :: "go_error + string"
  ae_Certificate :: "string \<Rightarrow> 'w \<Rightarrow> (api_failure + certificate_view) \<times> 'w"
  ae_Deployment :: "string \<Rightarrow> 'w \<Rightarrow> (api_failure + deployment_view) \<times> 'w"
  ae_DefaultPredicate :: "('m, 'w) gateway_run \<Rightarrow> k8s_object \<Rightarrow> go_error + bool"

section \<open>Objects of a target and garbage collection\<close>

definition core_gvk :: "string \<Rightarrow> GVK" where
  "core_gvk kind = \<lparr>gvk_Group = '''', gvk_Version = ''v1'', gvk_Kind = kind\<rparr>"

definition gcResourceNames :: "authProxyTarget \<Rightarrow> (GVK, string) gomap" where
  "gcResourceNames t =
     [(apps_Deployment_gvk, pt_ProxyName t),
      (core_gvk ''Service'', pt_ProxyName t),
      (core_gvk ''ServiceAccount'', pt_ProxyName t),
      (NetworkPolicy_gvk, pt_ProxyName t),
      (\<lparr>gvk_Group = ''autoscaling'', gvk_Version = ''v2'', gvk_Kind = ''HorizontalPodAutoscaler''\<rparr>, pt_ProxyName t),
      (core_gvk ''Secret'', pt_SecretName t),
      (\<lparr>gvk_Group = ''oauth.openshift.io'', gvk_Version = ''v1'', gvk_Kind = ''OAuthClient''\<rparr>, pt_ClientID t),
      (\<lparr>gvk_Group = ''gateway.networking.k8s.io'', gvk_Version = ''v1'', gvk_Kind = ''HTTPRoute''\<rparr>, pt_CallbackName t),
      (\<lparr>gvk_Group = ''networking.istio.io'', gvk_Version = ''v1alpha3'', gvk_Kind = ''EnvoyFilter''\<rparr>, pt_FilterName t),
      (\<lparr>gvk_Group = ''networking.istio.io'', gvk_Version = ''v1'', gvk_Kind = ''DestinationRule''\<rparr>, pt_DestinationRuleName t),
      (\<lparr>gvk_Group = ''rbac.authorization.k8s.io'', gvk_Version = ''v1'', gvk_Kind = ''ClusterRoleBinding''\<rparr>, pt_ProxyName t @ ''-tokenreview''),
      (\<lparr>gvk_Group = ''cert-manager.io'', gvk_Version = ''v1'', gvk_Kind = ''Certificate''\<rparr>, pt_TLSName t)]"

definition gatewayAuthResourceCollectable :: "('m, 'w) auth_env \<Rightarrow> ('m, 'w) gateway_run \<Rightarrow> k8s_object \<Rightarrow> go_error + bool" where
  "gatewayAuthResourceCollectable env rr u =
     (if list_ex (\<lambda>(_, r). failedPreparation r \<and> map_of (gcResourceNames (ar_Target r)) (ko_GVK u) = Some (ko_Name u)) (gq_AuthState rr)
      then Inr False else ae_DefaultPredicate env rr u)"

section \<open>Credentials\<close>

definition mode_name :: "AuthenticationMode \<Rightarrow> string" where
  "mode_name mode = (case mode of AuthModeIntegratedOAuth \<Rightarrow> ''IntegratedOAuth'' | AuthModeOIDC \<Rightarrow> ''OIDC'' | AuthModeNone \<Rightarrow> ''None'')"

abbreviation (input) EnvClientID :: string where "EnvClientID \<equiv> ''OAUTH2_PROXY_CLIENT_ID''"
abbreviation (input) EnvClientSecret :: string where "EnvClientSecret \<equiv> ''OAUTH2_PROXY_CLIENT_SECRET''"
abbreviation (input) EnvCookieSecret :: string where "EnvCookieSecret \<equiv> ''OAUTH2_PROXY_COOKIE_SECRET''"

definition invalid_auth :: "string \<Rightarrow> go_error" where
  "invalid_auth msg = GoError (''invalid authentication configuration: '' @ msg) [InvalidAuthenticationConfig]"

text \<open>The client secret that the administrator supplies, read on every pass.\<close>

definition external_client_secret ::
  "('m, 'w) auth_env \<Rightarrow> OIDCConfig \<Rightarrow> ('m, 'w) gateway_run \<Rightarrow> (go_error + string) \<times> ('m, 'w) gateway_run" where
  "external_client_secret env oidc rr =
     (let ns = (if oi_SecretNamespace oidc = '''' then gateway_ns (ae_Gateway env) else oi_SecretNamespace oidc);
          key = (if oi_SecretKey oidc = '''' then ''clientSecret'' else oi_SecretKey oidc);
          at = ns @ ''/'' @ oi_SecretName oidc in
      case ask (gk_Secret (ge_Client (ae_Gateway env)) ns (oi_SecretName oidc)) rr of
        (Inl err, rr) \<Rightarrow>
          (Inl (wrap (''failed to get OIDC client secret '' @ at)
             (if is_not_found err then GoError (''invalid authentication configuration: '' @ af_text err) [InvalidAuthenticationConfig, NotFound]
              else api_error err)), rr)
      | (Inr s, rr) \<Rightarrow>
          (case map_of (sv_Data s) key of
             Some (c # v) \<Rightarrow> Inr (c # v)
           | _ \<Rightarrow> Inl (invalid_auth (''key '' @ [CHR 0x27] @ key @ [CHR 0x27] @ '' is missing or empty in OIDC secret '' @ at)), rr))"

definition new_credentials ::
  "('m, 'w) auth_env \<Rightarrow> AuthenticationMode \<Rightarrow> OIDCConfig option \<Rightarrow> authProxyTarget \<Rightarrow> ('m, 'w) gateway_run \<Rightarrow>
     (go_error + string \<times> string) \<times> ('m, 'w) gateway_run" where
  "new_credentials env mode oidc target rr =
     (case mode of
        AuthModeOIDC \<Rightarrow>
          (case oidc of
             None \<Rightarrow> (Inl (invalid_auth (''OIDC configuration is required for gateway '' @ quoted (pt_GatewayName target))), rr)
           | Some o' \<Rightarrow>
               (case external_client_secret env o' rr of
                  (Inl err, rr) \<Rightarrow> (Inl err, rr)
                | (Inr v, rr) \<Rightarrow> (Inr (oi_ClientID o', v), rr)))
      | AuthModeIntegratedOAuth \<Rightarrow>
          (case ask (ae_NewSecret env 24) rr of
             (Inl err, rr) \<Rightarrow> (Inl (wrap ''failed to generate client secret'' err), rr)
           | (Inr v, rr) \<Rightarrow> (Inr (pt_ClientID target, v), rr))
      | AuthModeNone \<Rightarrow> (Inl (new_error (''auth mode: '' @ mode_name mode @ '' is not supported'')), rr))"

definition getAuthProxySecretValues ::
  "('m, 'w) auth_env \<Rightarrow> AuthenticationMode \<Rightarrow> OIDCConfig option \<Rightarrow> authProxyTarget \<Rightarrow> ('m, 'w) gateway_run \<Rightarrow>
     (go_error + string \<times> string \<times> string) \<times> ('m, 'w) gateway_run" where
  "getAuthProxySecretValues env mode oidc target rr =
     (let ns = gateway_ns (ae_Gateway env) in
      case ask (gk_Secret (ge_Client (ae_Gateway env)) ns (pt_SecretName target)) rr of
        (answer, rr) \<Rightarrow>
          if (case answer of Inl err \<Rightarrow> \<not> is_not_found err | Inr _ \<Rightarrow> False) then
            (Inl (wrap (''failed to check existing secret '' @ ns @ ''/'' @ pt_SecretName target) (api_error (projl answer))), rr)
          else
            let existing = (case answer of Inl _ \<Rightarrow> [] | Inr s \<Rightarrow> sv_Data s);
                stored = (case (map_of existing EnvClientSecret, map_of existing EnvCookieSecret) of
                            (Some client, Some cookie) \<Rightarrow> Some (client, cookie) | _ \<Rightarrow> None) in
            (case (mode, stored) of
               (AuthModeIntegratedOAuth, Some (client, cookie)) \<Rightarrow> (Inr (pt_ClientID target, client, cookie), rr)
             | (AuthModeNone, Some _) \<Rightarrow> (Inl (new_error (''auth mode: '' @ mode_name mode @ '' is not supported'')), rr)
             | _ \<Rightarrow>
                 (case new_credentials env mode oidc target rr of
                    (Inl err, rr) \<Rightarrow> (Inl err, rr)
                  | (Inr (clientID, client), rr) \<Rightarrow>
                      if at_or existing '''' EnvCookieSecret \<noteq> '''' then (Inr (clientID, client, at_or existing '''' EnvCookieSecret), rr)
                      else
                        (case ask (ae_NewSecret env 32) rr of
                           (Inl err, rr) \<Rightarrow> (Inl (wrap ''failed to generate cookie secret'' err), rr)
                         | (Inr cookie, rr) \<Rightarrow> (Inr (clientID, client, cookie), rr)))))"

definition secret_mutation :: "('m, 'w) auth_env \<Rightarrow> GatewayConfig \<Rightarrow> string \<times> string \<times> string \<Rightarrow> secret_view \<Rightarrow> go_error + secret_view" where
  "secret_mutation env config values s =
     (case values of (clientID, client, cookie) \<Rightarrow>
        ae_SetControllerReference env config
          (s\<lparr>sv_Data := [(EnvClientID, clientID), (EnvClientSecret, client), (EnvCookieSecret, cookie)],
             sv_Labels := AList.update PlatformPartOf_label ''gatewayconfig'' (sv_Labels s)\<rparr>))"

definition opaque_secret :: secret_view where
  "opaque_secret = \<lparr>sv_Data = [], sv_Type = ''Opaque'', sv_Labels = [], sv_Controller = None\<rparr>"

definition createSecret ::
  "('m, 'w) auth_env \<Rightarrow> string \<times> string \<times> string \<Rightarrow> authProxyTarget \<Rightarrow> ('m, 'w) gateway_run \<Rightarrow> (go_error + secret_view) \<times> ('m, 'w) gateway_run" where
  "createSecret env values target rr =
     (case validateGatewayConfig rr of
        Inl err \<Rightarrow> (Inl err, rr)
      | Inr config \<Rightarrow>
          (case ask (ae_CreateOrUpdate env (gateway_ns (ae_Gateway env)) (pt_SecretName target) opaque_secret (secret_mutation env config values)) rr of
             (Inl err, rr) \<Rightarrow> (Inl err, rr)
           | (Inr s, rr) \<Rightarrow>
               (Inr s, rr\<lparr>gq_Writes := gq_Writes rr @ [WrittenSecret (gateway_ns (ae_Gateway env)) (pt_SecretName target) s]\<rparr>)))"

definition createOAuthClient :: "('m, 'w) auth_env \<Rightarrow> authProxyTarget \<Rightarrow> secret_view \<Rightarrow> ('m, 'w) gw_action" where
  "createOAuthClient env target secret rr =
     (case map_of (sv_Data secret) EnvClientSecret of
        None \<Rightarrow> (Some (new_error (''OAUTH2_PROXY_CLIENT_SECRET not found in secret '' @ gateway_ns (ae_Gateway env) @ ''/'' @ pt_SecretName target)), rr)
      | Some client \<Rightarrow>
          AddResources (ae_Gateway env)
            (OAuthClient_res (pt_ClientID target) (if isDefault target then ''auto'' else ''prompt'')
               [''https://'' @ pt_Hostname target @ ''/oauth2/callback''] client) rr)"

definition calculateAuthConfigHash :: "('m, 'w) auth_env \<Rightarrow> secret_view \<Rightarrow> string" where
  "calculateAuthConfigHash env secret =
     ae_Hash env (at_or (sv_Data secret) '''' EnvClientID @ [CHR 0x00] @ at_or (sv_Data secret) '''' EnvClientSecret @ [CHR 0x00] @
       at_or (sv_Data secret) '''' EnvCookieSecret)"

definition extendAuthConfigHash :: "('m, 'w) auth_env \<Rightarrow> string \<Rightarrow> string \<Rightarrow> string" where
  "extendAuthConfigHash env h providerCA = ae_Hash env (h @ [CHR 0x00] @ providerCA)"

section \<open>Preparing one target\<close>

definition common_proxy_templates :: "string list" where
  "common_proxy_templates =
     [''resources/kube-auth-proxy-svc.tmpl.yaml'', ''resources/kube-auth-proxy-httproute.tmpl.yaml'', ''resources/kube-auth-proxy-hpa.tmpl.yaml'',
      ''resources/kube-auth-proxy-serviceaccount.tmpl.yaml'', ''resources/kube-auth-proxy-clusterrolebinding.tmpl.yaml'',
      ''resources/kube-auth-proxy-destinationrule-tls.tmpl.yaml'']"

definition not_ready :: "string \<Rightarrow> gen_condition" where
  "not_ready message = gen_cond GatewayConfigReady ConditionFalse 0 ''NotReady'' message"

definition markGatewayNotReady :: "('m, 'w) gateway_env \<Rightarrow> string \<Rightarrow> ('m, 'w) gateway_run \<Rightarrow> ('m, 'w) gateway_run" where
  "markGatewayNotReady env message = mark env (not_ready message)"

definition mark_default :: "('m, 'w) auth_env \<Rightarrow> authProxyTarget \<Rightarrow> string \<Rightarrow> ('m, 'w) gateway_run \<Rightarrow> ('m, 'w) gateway_run" where
  "mark_default env target message rr = (if isDefault target then mark (ae_Gateway env) (not_ready message) rr else rr)"

text \<open>The certificate of the proxy, on Kubernetes only.\<close>

definition proxy_certificate :: "('m, 'w) auth_env \<Rightarrow> GatewayConfig \<Rightarrow> authProxyTarget \<Rightarrow> ('m, 'w) gw_action" where
  "proxy_certificate env config target rr =
     (let ns = gateway_ns (ae_Gateway env) in
      if \<not> ge_K8s (ae_Gateway env) then (None, rr)
      else
        case AddResources (ae_Gateway env) (Certificate_res (buildCertManagerCertificate (pt_TLSName target) ns (pt_TLSName target)
               [pt_ProxyName target @ ''.'' @ ns @ ''.svc.cluster.local'']
               (resolveIssuerRef (ge_Getenv (ae_Gateway env)) (gs_Certificate (gw_Spec config))))) rr of
          (Some err, rr) \<Rightarrow> (Some (wrap ''failed to add kube-auth-proxy Certificate'' err), rr)
        | (None, rr) \<Rightarrow> (None, rr))"

definition prepareAuthProxy ::
  "('m, 'w) auth_env \<Rightarrow> GatewayConfig \<Rightarrow> authProxyTarget \<Rightarrow> AuthenticationMode \<Rightarrow> string \<Rightarrow> ('m, 'w) gateway_run \<Rightarrow>
     (go_error + string) \<times> ('m, 'w) gateway_run" where
  "prepareAuthProxy env config target mode deploymentTemplate rr =
     (case getAuthProxySecretValues env mode (pt_OIDC target) target rr of
        (Inl err, rr) \<Rightarrow> (Inl (wrap ''failed to get secret values'' err), rr)
      | (Inr values, rr) \<Rightarrow>
          (case createSecret env values target rr of
             (Inl err, rr) \<Rightarrow>
               (Inl (wrap ''failed to create auth proxy secret'' err), mark_default env target (''Failed to generate client secret: '' @ err_msg err) rr)
           | (Inr secret, rr) \<Rightarrow>
               (case AddResources (ae_Gateway env) (Secret_res (pt_SecretName target) (gateway_ns (ae_Gateway env)) secret) rr of
                  (Some err, rr) \<Rightarrow> (Inl (wrap ''failed to add auth proxy secret'' err), rr)
                | (None, rr) \<Rightarrow>
                    (case (if mode = AuthModeIntegratedOAuth then createOAuthClient env target secret rr else (None, rr)) of
                       (Some err, rr) \<Rightarrow>
                         (Inl (wrap ''failed to create OAuth client'' err), mark_default env target (''Failed to create OAuth client: '' @ err_msg err) rr)
                     | (None, rr) \<Rightarrow>
                         (case proxy_certificate env config target rr of
                            (Some err, rr) \<Rightarrow> (Inl err, rr)
                          | (None, rr) \<Rightarrow>
                              let rr = rr\<lparr>gq_Templates := gq_Templates rr @ [deploymentTemplate] @ common_proxy_templates\<rparr>
                              in (Inr (calculateAuthConfigHash env secret),
                                  if isDefault target
                                  then mark (ae_Gateway env) (gen_cond GatewayConfigReady ConditionUnknown 0 ''NotReady'' ''Auth proxy resources are being deployed'') rr
                                  else rr))))))"

definition createEnvoyFilter :: "('m, 'w) gateway_env \<Rightarrow> ('m, 'w) gw_action" where
  "createEnvoyFilter env rr =
     (case validateGatewayConfig rr of
        Inl err \<Rightarrow> (Some err, rr)
      | Inr config \<Rightarrow>
          case rejectUnsupportedKubernetesGatewaySpec env config rr of
            (True, rr) \<Rightarrow> (None, rr)
          | (False, rr) \<Rightarrow>
              (case isGatewayDomainUnresolved env config rr of
                 (Inl err, rr) \<Rightarrow> (Some err, rr)
               | (Inr True, rr) \<Rightarrow> (None, rr)
               | (Inr False, rr) \<Rightarrow> (None, rr\<lparr>gq_Templates := gq_Templates rr @ [''resources/envoyfilter-authn.tmpl.yaml'']\<rparr>)))"

definition createNetworkPolicy :: "('m, 'w) gateway_env \<Rightarrow> ('m, 'w) gw_action" where
  "createNetworkPolicy env rr =
     (case validateGatewayConfig rr of
        Inl err \<Rightarrow> (Some err, rr)
      | Inr config \<Rightarrow>
          case rejectUnsupportedKubernetesGatewaySpec env config rr of
            (True, rr) \<Rightarrow> (None, rr)
          | (False, rr) \<Rightarrow>
              (case getGatewayAuthenticationMode env config rr of
                 (Inl err, rr) \<Rightarrow> (Some err, rr)
               | (Inr mode, rr) \<Rightarrow>
                   if \<not> proxy_desired mode config then (None, rr)
                   else
                     (case isGatewayDomainUnresolved env config rr of
                        (Inl err, rr) \<Rightarrow> (Some err, rr)
                      | (Inr True, rr) \<Rightarrow> deleteLegacyNetworkPolicy env rr
                      | (Inr False, rr) \<Rightarrow> (None, rr\<lparr>gq_Templates := gq_Templates rr @ [''resources/kube-auth-proxy-networkpolicy.yaml'']\<rparr>))))"

section \<open>Template data\<close>

text \<open>
  \<open>time.Duration.String\<close>: a fraction of a second in its largest unit, otherwise hours, minutes and seconds. The
  micro sign takes two bytes.
\<close>

fun strip_zeros :: "string \<Rightarrow> string" where
  "strip_zeros s = rev (dropWhile (\<lambda>c. c = CHR ''0'') (rev s))"

definition fraction :: "nat \<Rightarrow> nat \<Rightarrow> string" where
  "fraction digits v =
     (let ds = strip_zeros (replicate (digits - length (fmt_nat v)) (CHR ''0'') @ fmt_nat v) in if ds = '''' then '''' else CHR ''.'' # ds)"

definition Duration_String :: "int \<Rightarrow> string" where
  "Duration_String d =
     (let u = nat \<bar>d\<bar>;
          body =
            (if u = 0 then ''0s''
             else if u < 1000 then fmt_nat u @ ''ns''
             else if u < 1000000 then fmt_nat (u div 1000) @ fraction 3 (u mod 1000) @ [CHR 0xC2, CHR 0xB5] @ ''s''
             else if u < 1000000000 then fmt_nat (u div 1000000) @ fraction 6 (u mod 1000000) @ ''ms''
             else
               let secs = u div 1000000000; m = secs div 60; h = m div 60 in
               (if m = 0 then '''' else if h = 0 then fmt_nat m @ ''m'' else fmt_nat h @ ''h'' @ fmt_nat (m mod 60) @ ''m'') @
               fmt_nat (secs mod 60) @ fraction 9 (u mod 1000000000) @ ''s'')
      in if d < 0 then CHR ''-'' # body else body)"

definition getGatewayAuthProxyTimeout :: "GatewayConfig \<Rightarrow> string" where
  "getGatewayAuthProxyTimeout config =
     (if gs_AuthTimeout (gw_Spec config) \<noteq> '''' then gs_AuthTimeout (gw_Spec config)
      else if gs_AuthProxyTimeout (gw_Spec config) \<noteq> 0 then Duration_String (gs_AuthProxyTimeout (gw_Spec config)) else ''5s'')"

definition getCookieSettings :: "GatewayConfig \<Rightarrow> string \<times> string" where
  "getCookieSettings config =
     (let s = gw_Spec config in
      (if gs_CookieExpire s \<noteq> 0 then Duration_String (gs_CookieExpire s) else ''24h0m0s'',
       if gs_CookieRefresh s \<noteq> 0 then Duration_String (gs_CookieRefresh s) else ''1h0m0s''))"

definition getKubeAuthProxyImage :: "(string \<Rightarrow> string) \<Rightarrow> string" where
  "getKubeAuthProxyImage getenv = env_GetOrDefault getenv ''RELATED_IMAGE_ODH_KUBE_AUTH_PROXY_IMAGE''
     ''quay.io/opendatahub/odh-kube-auth-proxy@sha256:43bf458ca3c01d51a61f1a61459aa30e8f23a3cedaa3a9037ab5e0e3d4f5a6af''"

definition getDashboardRedirectImage :: "(string \<Rightarrow> string) \<Rightarrow> string" where
  "getDashboardRedirectImage getenv = env_GetOrDefault getenv ''RELATED_IMAGE_NGINX_126_IMAGE''
     ''registry.access.redhat.com/ubi9/nginx-126@sha256:f0a79ccf21b8780a7534d78ee0e49d1852654f5f0f52e17ebdbe185a71d93253''"

text \<open>\<open>html.EscapeString\<close>.\<close>

definition html_escape :: "string \<Rightarrow> string" where
  "html_escape s =
     concat (map (\<lambda>c. if c = CHR ''<'' then ''&lt;'' else if c = CHR ''>'' then ''&gt;'' else if c = CHR ''&'' then ''&amp;''
       else if c = CHR 0x27 then ''&#39;'' else if c = CHR 0x22 then ''&#34;'' else [c]) s)"

definition CalculateRedirectConfigHash :: "('m, 'w) auth_env \<Rightarrow> string \<Rightarrow> go_error + string" where
  "CalculateRedirectConfigHash env hostname =
     (case ae_RedirectConfig env of
        Inl err \<Rightarrow> Inl (wrap ''read dashboard redirect configuration for rollout hash'' err)
      | Inr config \<Rightarrow> Inr (ae_Hash env (hostname @ [CHR 0x00] @ config)))"

text \<open>The bundle of the provider's CA: none configured is the empty one.\<close>

definition provider_ca ::
  "('m, 'w) auth_env \<Rightarrow> GatewayConfig \<Rightarrow> ('m, 'w) gateway_run \<Rightarrow> (go_error + string) \<times> ('m, 'w) gateway_run" where
  "provider_ca env config rr =
     (let n = gs_ProviderCASecretName (gw_Spec config); ns = gateway_ns (ae_Gateway env) in
      if n = '''' then (Inr '''', rr)
      else
        case ask (gk_Secret (ge_Client (ae_Gateway env)) ns n) rr of
          (Inl err, rr) \<Rightarrow>
            (Inl (if is_not_found err then wrap (''provider CA secret '' @ n @ '' not found in namespace '' @ ns) (api_error err)
                  else wrap ''failed to get provider CA secret for hash calculation'' (api_error err)), rr)
        | (Inr s, rr) \<Rightarrow>
            (if at_or (sv_Data s) '''' ''ca.crt'' = '''' then Inl (new_error (''provider CA secret '' @ n @ '' has no ca.crt data''))
             else Inr (at_or (sv_Data s) '''' ''ca.crt''), rr))"

definition oidc_data :: "OIDCConfig option \<Rightarrow> template_data" where
  "oidc_data oidc =
     (case oidc of
        None \<Rightarrow> [(''OIDCScope'', TStr ''''), (''OIDCPassAccessToken'', TBool False), (''SkipClaimsFromProfileURL'', TBool False)]
      | Some o' \<Rightarrow> [(''OIDCIssuerURL'', TStr (oc_IssuerURL o')), (''OIDCScope'', TStr (oc_Scope o')),
           (''OIDCPassAccessToken'', TBool (oc_PassAccessToken o')), (''SkipClaimsFromProfileURL'', TBool (oc_SkipClaimsFromProfileURL o'))])"

definition optional_int :: "int option \<Rightarrow> template_value" where
  "optional_int v = (case v of None \<Rightarrow> TNil | Some n \<Rightarrow> TInt n)"

definition token_review_data :: "TokenReviewConfig option \<Rightarrow> template_data" where
  "token_review_data tr =
     [(''TokenReviewQPS'', optional_int (Option.bind tr tr_QPS)), (''TokenReviewBurst'', optional_int (Option.bind tr tr_Burst)),
      (''TokenReviewCacheTTL'', case Option.bind tr tr_CacheTTL of None \<Rightarrow> TNil | Some d \<Rightarrow> TStr (Duration_String d))]"

definition default_true :: "bool option \<Rightarrow> bool" where
  "default_true b = (case b of None \<Rightarrow> True | Some v \<Rightarrow> v)"

definition base_template_data ::
  "('m, 'w) auth_env \<Rightarrow> GatewayConfig \<Rightarrow> string \<Rightarrow> string \<Rightarrow> string \<Rightarrow> string \<Rightarrow> string \<times> string \<times> string \<Rightarrow> template_data" where
  "base_template_data env config hostname providerCA redirectHash serverTimeout tls =
     (let g = ae_Gateway env; s = gw_Spec config; (expire, refresh) = getCookieSettings config;
          legacy = computeLegacyRedirectInfo config hostname; (tlsMin, ciphers, curves) = tls in
      [(''GatewayName'', TStr (GetDefaultGatewayName (ge_K8s g))), (''GatewayHostname'', TStr hostname), (''IsOpenShift'', TBool (\<not> ge_K8s g)),
       (''GatewayNamespace'', TStr (gateway_ns g)), (''GatewayServiceName'', TStr (GetGatewayServiceFullName (GetDefaultGatewayName (ge_K8s g)))),
       (''KubeAuthProxyImage'', TStr (getKubeAuthProxyImage (ge_Getenv g))), (''AuthProxyHTTPPort'', TInt 4180), (''AuthProxyMetricsPort'', TInt 9000),
       (''StandardHTTPSPort'', TInt 443), (''GatewayHTTPSPort'', TInt 8443), (''AuthProxyOAuth2Path'', TStr ''/oauth2''),
       (''TLSCertsVolumeName'', TStr ''tls-certs''), (''TLSCertsMountPath'', TStr ''/etc/tls/private''), (''CookieExpire'', TStr expire),
       (''CookieRefresh'', TStr refresh), (''AuthProxyTimeout'', TStr (getGatewayAuthProxyTimeout config)),
       (''ComponentLabelKey'', TStr ''app.kubernetes.io/component''), (''ComponentLabelValue'', TStr ''authentication''),
       (''PartOfLabelKey'', TStr ''app.kubernetes.io/part-of''), (''PartOfLabelValue'', TStr ''data-science-gateway''),
       (''IstioRevisionLabel'', TStr ''istio.io/rev''), (''IstioRevisionValue'', TStr (GetIstioRevisionValue (ge_K8s g))),
       (''PartOfGatewayConfig'', TStr ''gatewayconfig''), (''GatewayNameLabelKey'', TStr ''gateway.networking.k8s.io/gateway-name''),
       (''LegacySubdomain'', TStr (lr_Subdomain legacy)), (''LegacyHostname'', TStr (lr_Hostname legacy)),
       (''RouteLabels'', TLabels (gatewayRouteLabels [])), (''RouteServerTimeout'', TStr serverTimeout), (''ProviderCA'', TStr providerCA),
       (''DashboardRedirectNamespace'', TStr (ge_AppNamespace g)), (''DashboardRedirectName'', TStr ''dashboard-redirect''),
       (''DashboardRedirectConfigName'', TStr ''dashboard-redirect-config''), (''DashboardRouteName'', TStr (GetDashboardRouteName (ge_Release g))),
       (''DashboardRedirectImage'', TStr (getDashboardRedirectImage (ge_Getenv g))),
       (''DashboardRedirectHostnameHTML'', TStr (html_escape hostname)),
       (''DashboardRedirectProductName'', TStr (if ge_Release g = ''OpenShift AI Cloud Service'' \<or> ge_Release g = ''OpenShift AI Self-Managed''
          then ''OpenShift AI'' else ''Open Data Hub'')),
       (''RedirectConfigHash'', TStr redirectHash)] @ oidc_data (gs_OIDC s) @
      [(''ProviderCASecret'', TBool (gs_ProviderCASecretName s \<noteq> ''''))] @
      (if gs_ProviderCASecretName s \<noteq> '''' then [(''ProviderCASecretName'', TStr (gs_ProviderCASecretName s))] else []) @
      [(''InsecureSkipVerify'', TBool (\<not> default_true (gs_VerifyProviderCertificate s))),
       (''EnableK8sTokenValidation'', TBool (default_true (gs_EnableK8sTokenValidation s)))] @ token_review_data (gs_TokenReview s) @
      [(''TLSMinVersion'', TStr tlsMin), (''TLSCipherSuite'', TStr ciphers), (''TLSCurvePreferences'', TStr curves)])"

definition getTemplateData :: "('m, 'w) auth_env \<Rightarrow> ('m, 'w) gateway_run \<Rightarrow> (go_error + template_data) \<times> ('m, 'w) gateway_run" where
  "getTemplateData env rr =
     (case validateGatewayConfig rr of
        Inl err \<Rightarrow> (Inl err, rr)
      | Inr config \<Rightarrow>
          case rejectUnsupportedKubernetesGatewaySpec (ae_Gateway env) config rr of
            (True, rr) \<Rightarrow> (Inr [], rr)
          | (False, rr) \<Rightarrow>
              (case resolveGatewayHostname (ae_Gateway env) config rr of
                 (Inl DomainRequired, rr) \<Rightarrow> (Inr [], rr)
               | (Inl (DomainFailed err), rr) \<Rightarrow> (Inl err, rr)
               | (Inr hostname, rr) \<Rightarrow>
                   (case gq_TemplateData rr of
                      Some known \<Rightarrow> (Inr known, rr)
                    | None \<Rightarrow>
                        (case provider_ca env config rr of
                           (Inl err, rr) \<Rightarrow> (Inl err, rr)
                         | (Inr providerCA, rr) \<Rightarrow>
                             (case CalculateRedirectConfigHash env hostname of
                                Inl err \<Rightarrow> (Inl err, rr)
                              | Inr redirectHash \<Rightarrow>
                                  (case resolveOCPRouteServerTimeout (ae_Gateway env) config rr of
                                     (Inl err, rr) \<Rightarrow> (Inl err, rr)
                                   | (Inr serverTimeout, rr) \<Rightarrow>
                                       (case ask (ae_TLSProfile env) rr of
                                          (Inl err, rr) \<Rightarrow> (Inl (wrap ''failed to resolve APIServer TLS profile'' err), rr)
                                        | (Inr tls, rr) \<Rightarrow>
                                            let td = base_template_data env config hostname providerCA redirectHash serverTimeout tls
                                            in (Inr td, rr\<lparr>gq_TemplateData := Some td\<rparr>))))))))"

definition authTargetTemplateData :: "('m, 'w) auth_env \<Rightarrow> template_data \<Rightarrow> authProxyTarget \<Rightarrow> string \<Rightarrow> template_data" where
  "authTargetTemplateData env base target authConfigHash =
     (let providerCA = (case map_of base ''ProviderCA'' of Some (TStr ca) \<Rightarrow> ca | _ \<Rightarrow> '''') in
      maps_Copy base
        [(''DestinationRuleHost'', TStr (if isDefault target then ''*'' else pt_ProxyName target @ ''.'' @ gateway_ns (ae_Gateway env) @ ''.svc.cluster.local'')),
         (''GatewayName'', TStr (pt_GatewayName target)), (''GatewayHostname'', TStr (pt_Hostname target)),
         (''KubeAuthProxyServiceName'', TStr (pt_ProxyName target)), (''KubeAuthProxySecretsName'', TStr (pt_SecretName target)),
         (''KubeAuthProxyTLSName'', TStr (pt_TLSName target)), (''OAuthCallbackRouteName'', TStr (pt_CallbackName target)),
         (''DestinationRuleName'', TStr (pt_DestinationRuleName target)), (''AuthProxyCookieName'', TStr (pt_CookieName target)),
         (''AuthProxyMaxReplicas'', TInt (pt_MaxReplicas target)), (''RedirectURL'', TStr (''https://'' @ pt_Hostname target @ ''/oauth2/callback'')),
         (''GatewayFilters'', TFilters [(pt_FilterName target, pt_GatewayName target)]),
         (''AuthConfigHash'', TStr (if providerCA = '''' then authConfigHash else extendAuthConfigHash env authConfigHash providerCA))])"

section \<open>Preparing all targets\<close>

definition generation_of :: "('m, 'w) gateway_run \<Rightarrow> int" where
  "generation_of rr = (case gq_Instance rr of None \<Rightarrow> 0 | Some config \<Rightarrow> gw_Generation config)"

definition report_auth :: "authProxyTarget \<Rightarrow> string \<Rightarrow> string \<Rightarrow> string \<Rightarrow> ('m, 'w) gateway_run \<Rightarrow> ('m, 'w) gateway_run" where
  "report_auth target st reason message rr =
     rr\<lparr>gq_AuthState := recordAuthResult (generation_of rr) target st reason message (gq_AuthState rr)\<rparr>"

text \<open>
  The copy of the request that a target works on has its own resources and templates; everything else is shared.
\<close>

definition own_copy :: "('m, 'w) gateway_run \<Rightarrow> ('m, 'w) gateway_run" where
  "own_copy rr = rr\<lparr>gq_Resources := [], gq_Templates := []\<rparr>"

definition merge_back :: "('m, 'w) gateway_run \<Rightarrow> ('m, 'w) gateway_run \<Rightarrow> ('m, 'w) gateway_run" where
  "merge_back rr sub = sub\<lparr>gq_Resources := gq_Resources rr, gq_Templates := gq_Templates rr\<rparr>"

text \<open>
  The first half: credentials. It ends with an error that stops the reconciliation, or with the hash of the credentials and the
  reason and message of a failed preparation (empty when it did not fail).
\<close>

definition prepare_credentials ::
  "('m, 'w) auth_env \<Rightarrow> GatewayConfig \<Rightarrow> AuthenticationMode \<Rightarrow> string \<Rightarrow> bool \<Rightarrow> authProxyTarget \<Rightarrow> ('m, 'w) gateway_run \<Rightarrow>
     (go_error + string \<times> string \<times> string) \<times> ('m, 'w) gateway_run" where
  "prepare_credentials env config mode deploymentTemplate single target sub =
     (if mode = AuthModeNone then (Inr ('''', '''', ''''), sub)
      else
        case prepareAuthProxy env config target mode deploymentTemplate sub of
          (Inr h, sub) \<Rightarrow>
            (Inr (h, '''', ''''),
             if isDefault target then sub
             else report_auth target ConditionUnknown ReconciliationPending ''Authentication resources are being deployed'' sub)
        | (Inl err, sub) \<Rightarrow>
            if \<not> err_is InvalidAuthenticationConfig err \<and> \<not> err_is AlreadyOwned err then
              (Inl err, report_auth target ConditionUnknown ''StatusReadFailed'' (err_msg err) sub)
            else
              let sub = own_copy sub;
                  message = ''Authentication credentials could not be reconciled for '' @ pt_SecretName target @ '': '' @ err_msg err;
                  reason = (if mode = AuthModeOIDC \<and> pt_OIDC target = None then ''InvalidAuthenticationConfig'' else ''AuthenticationUnavailable'');
                  ready = gm_GetCondition (ge_Marks (ae_Gateway env)) GatewayConfigReady (gq_Conditions sub);
                  sub = (if isDefault target \<and> (case ready of None \<Rightarrow> True | Some c \<Rightarrow> cStatus c \<noteq> ConditionFalse)
                         then markGatewayNotReady (ae_Gateway env) message sub else sub)
              in (if isDefault target \<and> single then Inl err else Inr ('''', reason, message), sub))"

text \<open>The second half: policies and rendering.\<close>

definition render_target ::
  "('m, 'w) auth_env \<Rightarrow> template_data \<Rightarrow> authProxyTarget \<Rightarrow> string \<times> string \<times> string \<Rightarrow> ('m, 'w) gw_action" where
  "render_target env base target prepared sub =
     (case prepared of (authConfigHash, reason, message) \<Rightarrow>
        case createEnvoyFilter (ae_Gateway env) sub of
          (Some err, sub) \<Rightarrow> (Some err, sub)
        | (None, sub) \<Rightarrow>
            (case (if message = '''' \<or> isDefault target then createNetworkPolicy (ae_Gateway env) sub else (None, sub)) of
               (Some err, sub) \<Rightarrow> (Some err, sub)
             | (None, sub) \<Rightarrow>
                 (case ae_Render env (gq_Templates sub) (authTargetTemplateData env base target authConfigHash) (gq_Resources sub) of
                    Inl err \<Rightarrow> (Some (wrap (''failed to render authentication resources for '' @ pt_GatewayName target) err), sub)
                  | Inr resources \<Rightarrow> (None, sub\<lparr>gq_Resources := resources\<rparr>))))"

definition prepare_target ::
  "('m, 'w) auth_env \<Rightarrow> GatewayConfig \<Rightarrow> AuthenticationMode \<Rightarrow> string \<Rightarrow> template_data \<Rightarrow> bool \<Rightarrow> authProxyTarget \<Rightarrow> ('m, 'w) gw_action" where
  "prepare_target env config mode deploymentTemplate base single target rr =
     (let rr =
        (if \<not> isDefault target then
           if mode = AuthModeNone then
             report_auth target ConditionFalse ''AuthenticationBlocked''
               ''Authentication is unavailable; traffic is rejected until an authentication provider is configured'' rr
           else rr
         else if mode \<noteq> AuthModeNone \<and> (mode \<noteq> AuthModeOIDC \<or> pt_OIDC target \<noteq> None) then
           mark (ae_Gateway env) (gen_cond GatewayConfigReady ConditionUnknown 0 '''' '''') rr
         else rr)
      in if \<not> isDefault target \<and> additionalIngressHasGatewayConflict (ge_Ops (ae_Gateway env)) (the (gq_Instance rr)) (pt_IngressName target) then (None, rr)
         else
           case prepare_credentials env config mode deploymentTemplate single target (own_copy rr) of
             (Inl err, sub) \<Rightarrow> (Some err, merge_back rr sub)
           | (Inr (authConfigHash, reason, message), sub) \<Rightarrow>
               (case render_target env base target (authConfigHash, reason, message) sub of
                  (Some err, sub) \<Rightarrow> (Some err, merge_back rr sub)
                | (None, sub) \<Rightarrow>
                    let rr = (merge_back rr sub)\<lparr>gq_Resources := gq_Resources rr @ gq_Resources sub\<rparr>
                    in (None, if message \<noteq> '''' then report_auth target ConditionFalse reason message rr else rr)))"

fun prepare_targets ::
  "('m, 'w) auth_env \<Rightarrow> GatewayConfig \<Rightarrow> AuthenticationMode \<Rightarrow> string \<Rightarrow> template_data \<Rightarrow> bool \<Rightarrow> authProxyTarget list \<Rightarrow> ('m, 'w) gw_action" where
  "prepare_targets env config mode deploymentTemplate base single [] rr = (None, rr)"
| "prepare_targets env config mode deploymentTemplate base single (t # ts) rr =
     (case prepare_target env config mode deploymentTemplate base single t rr of
        (Some err, rr) \<Rightarrow> (Some err, rr)
      | (None, rr) \<Rightarrow> prepare_targets env config mode deploymentTemplate base single ts rr)"

definition prepareAuthProxies ::
  "('m, 'w) auth_env \<Rightarrow> GatewayConfig \<Rightarrow> AuthenticationMode \<Rightarrow> string \<Rightarrow> authProxyTarget list \<Rightarrow> ('m, 'w) gw_action" where
  "prepareAuthProxies env config mode deploymentTemplate targets rr =
     (case getTemplateData env rr of
        (Inl err, rr) \<Rightarrow> (Some err, rr)
      | (Inr base, rr) \<Rightarrow>
          (case prepare_targets env config mode deploymentTemplate base (length targets = 1) targets rr of
             (Some err, rr) \<Rightarrow> (Some err, rr)
           | (None, rr) \<Rightarrow>
               (if list_ex (\<lambda>(_, r). failedPreparation r) (gq_AuthState rr) then Some (GoError '''' [RequeueAfter (30 * second)]) else None, rr)))"

definition createKubeAuthProxyInfrastructure :: "('m, 'w) auth_env \<Rightarrow> ('m, 'w) gw_action" where
  "createKubeAuthProxyInfrastructure env rr =
     (case validateGatewayConfig rr of
        Inl err \<Rightarrow> (Some err, rr)
      | Inr config \<Rightarrow>
          case rejectUnsupportedKubernetesGatewaySpec (ae_Gateway env) config rr of
            (True, rr) \<Rightarrow> (None, rr)
          | (False, rr) \<Rightarrow>
              (case resolveGatewayHostname (ae_Gateway env) config rr of
                 (Inl DomainRequired, rr) \<Rightarrow> deleteLegacyNetworkPolicy (ae_Gateway env) rr
               | (Inl (DomainFailed err), rr) \<Rightarrow> (Some err, rr)
               | (Inr hostname, rr) \<Rightarrow>
                   (case getGatewayAuthenticationMode (ae_Gateway env) config rr of
                      (Inl err, rr) \<Rightarrow> (Some err, rr)
                    | (Inr mode, rr) \<Rightarrow>
                        let default = defaultAuthProxyTarget (ge_K8s (ae_Gateway env)) hostname config;
                            ingresses = gs_AdditionalIngresses (gw_Spec config);
                            targets = default # map (\<lambda>ing. additionalAuthProxyTarget ing config) ingresses;
                            oauth = ''resources/kube-auth-proxy-oauth-deployment.tmpl.yaml'';
                            oidc = ''resources/kube-auth-proxy-oidc-deployment.tmpl.yaml'' in
                        (case mode of
                           AuthModeOIDC \<Rightarrow>
                             if gs_OIDC (gw_Spec config) = None then
                               let rr = mark (ae_Gateway env) (not_ready ''Cluster is in OIDC mode but GatewayConfig has no OIDC configuration'') rr
                               in if ingresses = [] then prepareAuthProxies env config AuthModeNone oauth [default] rr
                                  else prepareAuthProxies env config mode oidc targets rr
                             else prepareAuthProxies env config mode oidc targets rr
                         | AuthModeIntegratedOAuth \<Rightarrow> prepareAuthProxies env config mode oauth targets rr
                         | AuthModeNone \<Rightarrow>
                             prepareAuthProxies env config mode oauth targets
                               (mark (ae_Gateway env) (gen_cond GatewayConfigReady ConditionTrue 0 ''Ready''
                                  ''Cluster uses external authentication, no gateway auth proxy deployed'') rr)))))"

section \<open>Status of the default Gateway\<close>

definition ready_entry :: "certificate_condition option \<Rightarrow> bool" where
  "ready_entry e = (case e of None \<Rightarrow> False | Some c \<Rightarrow> xk_type c = Some ''Ready'')"

definition certificate_message :: "int \<Rightarrow> certificate_condition option list option \<Rightarrow> string option" where
  "certificate_message generation conditions =
     (case Option.bind conditions (find ready_entry) of
        Some (Some c) \<Rightarrow>
          if xk_status c = Some ''True'' \<and> xk_observedGeneration c = Some generation then None
          else Some (if xk_status c = Some ''True'' then ''waiting for cert-manager to observe the current generation''
                     else if xk_message c \<noteq> None \<and> xk_message c \<noteq> Some '''' then the (xk_message c)
                     else if xk_reason c \<noteq> None \<and> xk_reason c \<noteq> Some '''' then the (xk_reason c)
                     else ''issuance is pending'')
      | _ \<Rightarrow> Some ''issuance is pending'')"

definition checkCertManagerCertificate ::
  "('m, 'w) auth_env \<Rightarrow> string \<Rightarrow> ('m, 'w) gateway_run \<Rightarrow> (go_error + string) \<times> ('m, 'w) gateway_run" where
  "checkCertManagerCertificate env name rr =
     (let ns = gateway_ns (ae_Gateway env); key = ns @ ''/'' @ name in
      case ask (ae_Certificate env name) rr of
        (Inl err, rr) \<Rightarrow>
          (if is_not_found err then Inr (''waiting for Certificate '' @ key)
           else Inl (wrap (''failed to get Certificate '' @ key) (api_error err)), rr)
      | (Inr cert, rr) \<Rightarrow>
          (case xv_Conditions cert of
             Inl err \<Rightarrow> (Inl (wrap (''failed to read Certificate '' @ key @ '' conditions'') err), rr)
           | Inr conditions \<Rightarrow>
               (case certificate_message (xv_Generation cert) conditions of
                  Some message \<Rightarrow> (Inr (''Certificate '' @ key @ '' is not ready: '' @ message), rr)
                | None \<Rightarrow>
                    (case ask (gk_Secret (ge_Client (ae_Gateway env)) ns name) rr of
                       (Inl err, rr) \<Rightarrow>
                         (if is_not_found err then Inr (''waiting for TLS Secret '' @ key)
                          else Inl (wrap (''failed to get TLS Secret '' @ key) (api_error err)), rr)
                     | (Inr s, rr) \<Rightarrow>
                         (Inr (if at_or (sv_Data s) '''' ''tls.crt'' = '''' \<or> at_or (sv_Data s) '''' ''tls.key'' = ''''
                               then ''TLS Secret '' @ key @ '' is missing tls.crt or tls.key'' else ''''), rr)))))"

definition checkGatewayAuthentication ::
  "('m, 'w) auth_env \<Rightarrow> authProxyTarget \<Rightarrow> ('m, 'w) gateway_run \<Rightarrow> (go_error + string) \<times> ('m, 'w) gateway_run" where
  "checkGatewayAuthentication env target rr =
     (if \<not> ge_K8s (ae_Gateway env) \<or> pt_OIDC target = None then (Inr '''', rr)
      else
        case checkCertManagerCertificate env (pt_TLSName target) rr of
          (Inl err, rr) \<Rightarrow> (Inl err, rr)
        | (Inr (c # message), rr) \<Rightarrow> (Inr (c # message), rr)
        | (Inr [], rr) \<Rightarrow>
            (case ask (ae_Deployment env (pt_ProxyName target)) rr of
               (answer, rr) \<Rightarrow> (checkKubeAuthProxyDeployment True (pt_ProxyName target) answer, rr)))"

definition gateway_certificate_check ::
  "('m, 'w) auth_env \<Rightarrow> GatewayConfig \<Rightarrow> ('m, 'w) gateway_run \<Rightarrow> (go_error + string) \<times> ('m, 'w) gateway_run" where
  "gateway_certificate_check env config rr =
     (if ge_K8s (ae_Gateway env) \<and>
         (case gs_Certificate (gw_Spec config) of None \<Rightarrow> True | Some c \<Rightarrow> ct_Type c = '''' \<or> ct_Type c = ''SelfSigned'')
      then checkCertManagerCertificate env (gatewayCertificateSecretName config) rr else (Inr '''', rr))"

definition syncGatewayConfigStatus :: "('m, 'w) auth_env \<Rightarrow> ('m, 'w) gw_action" where
  "syncGatewayConfigStatus env rr =
     (let g = ae_Gateway env in
      case validateGatewayConfig rr of
        Inl err \<Rightarrow> (Some err, rr)
      | Inr config \<Rightarrow>
          case rejectUnsupportedKubernetesGatewaySpec g config rr of
            (True, rr) \<Rightarrow> (None, rr)
          | (False, rr) \<Rightarrow>
              (case GetGatewayDomain g rr of
                 (Inl DomainRequired, rr) \<Rightarrow> (None, rr\<lparr>gq_Instance := Some (config\<lparr>gw_Domain := ''''\<rparr>)\<rparr>)
               | (Inl (DomainFailed err), rr) \<Rightarrow> (Some (wrap ''failed to calculate gateway domain'' err), rr)
               | (Inr domain, rr) \<Rightarrow>
                   let rr = rr\<lparr>gq_Instance := Some (config\<lparr>gw_Domain := domain\<rparr>)\<rparr> in
                   (case ask (gk_Gateway (ge_Client g) (GetDefaultGatewayName (ge_K8s g))) rr of
                      (Inl err, rr) \<Rightarrow>
                        if is_not_found err then (None, mark g (not_ready ''Gateway resource not found'') rr)
                        else (Some (wrap ''failed to get Gateway'' (api_error err)), rr)
                    | (Inr gateway, rr) \<Rightarrow>
                        (case gateway_certificate_check env config rr of
                           (Inl err, rr) \<Rightarrow> (Some err, rr)
                         | (Inr (c # message), rr) \<Rightarrow> (None, markGatewayNotReady g (c # message) rr)
                         | (Inr [], rr) \<Rightarrow>
                             (case checkGatewayAuthentication env (defaultAuthProxyTarget (ge_K8s g) '''' config) rr of
                                (Inl err, rr) \<Rightarrow> (Some err, rr)
                              | (Inr (c # message), rr) \<Rightarrow> (None, markGatewayNotReady g (c # message) rr)
                              | (Inr [], rr) \<Rightarrow>
                                  if \<not> isGatewayReady gateway then (None, mark g (not_ready ''Gateway is not ready'') rr)
                                  else
                                    (None,
                                     (case gm_GetCondition (ge_Marks g) GatewayConfigReady (gq_Conditions rr) of
                                        Some c \<Rightarrow> if cStatus c = ConditionFalse then rr
                                                  else mark g (gen_cond GatewayConfigReady ConditionTrue 0 ''Ready'' ''Gateway is ready'') rr
                                      | None \<Rightarrow> mark g (gen_cond GatewayConfigReady ConditionTrue 0 ''Ready'' ''Gateway is ready'') rr)))))))"

section \<open>Secrets that are watched\<close>

text \<open>The GatewayConfig as it is read when a Secret changes; a read that fails counts as no.\<close>

definition authSecretNamespace :: "bool \<Rightarrow> string \<Rightarrow> string" where
  "authSecretNamespace k8s ns = (if ns = '''' then GetGatewayNamespace k8s else ns)"

definition IsGatewayReferencedSecret :: "bool \<Rightarrow> api_failure + GatewayConfig \<Rightarrow> string \<Rightarrow> string \<Rightarrow> string \<Rightarrow> bool" where
  "IsGatewayReferencedSecret k8s answer secretName secretNamespace gatewayNamespace =
     (case answer of
        Inl _ \<Rightarrow> False
      | Inr config \<Rightarrow>
          list_ex (\<lambda>ing. case ai_OIDC ing of None \<Rightarrow> False
              | Some oidc \<Rightarrow> secretName = oi_SecretName oidc \<and> secretNamespace = authSecretNamespace k8s (oi_SecretNamespace oidc))
            (gs_AdditionalIngresses (gw_Spec config)) \<or>
          (case gs_OIDC (gw_Spec config) of None \<Rightarrow> False
           | Some oidc \<Rightarrow> secretName = oi_SecretName oidc \<and>
               secretNamespace = (if oi_SecretNamespace oidc = '''' then gatewayNamespace else oi_SecretNamespace oidc)) \<or>
          gs_ProviderCASecretName (gw_Spec config) \<noteq> '''' \<and> secretName = gs_ProviderCASecretName (gw_Spec config) \<and>
          secretNamespace = gatewayNamespace)"

definition IsXKSCertManagerSecret :: "bool \<Rightarrow> api_failure + GatewayConfig \<Rightarrow> string \<Rightarrow> string \<Rightarrow> string \<Rightarrow> bool" where
  "IsXKSCertManagerSecret k8s answer secretName secretNamespace gatewayNamespace \<longleftrightarrow>
     k8s \<and> secretNamespace = gatewayNamespace \<and>
     (case answer of
        Inl _ \<Rightarrow> False
      | Inr config \<Rightarrow>
          gs_OIDC (gw_Spec config) \<noteq> None \<and> secretName = ''kube-auth-proxy-tls'' \<or>
          (case gs_Certificate (gw_Spec config) of None \<Rightarrow> True | Some c \<Rightarrow> ct_Type c = '''' \<or> ct_Type c = ''SelfSigned'') \<and>
          secretName = gatewayCertificateSecretName config)"

section \<open>Lemmas: what an operation leaves alone\<close>

text \<open>
  Preparing a target leaves the object and the recorded results alone; reads and marks leave the collected resources and
  templates alone, too.
\<close>

definition keeps :: "('m, 'w) gateway_run \<Rightarrow> ('m, 'w) gateway_run \<Rightarrow> bool" where
  "keeps rr rr' \<longleftrightarrow> gq_Instance rr' = gq_Instance rr \<and> gq_AuthState rr' = gq_AuthState rr"

definition reads_only :: "('m, 'w) gateway_run \<Rightarrow> ('m, 'w) gateway_run \<Rightarrow> bool" where
  "reads_only rr rr' \<longleftrightarrow> keeps rr rr' \<and> gq_Resources rr' = gq_Resources rr \<and> gq_Templates rr' = gq_Templates rr"

lemma keeps_trans: "keeps a b \<Longrightarrow> keeps b c \<Longrightarrow> keeps a c"
  by (simp add: keeps_def)

lemma quiet_trans: "reads_only a b \<Longrightarrow> reads_only b c \<Longrightarrow> reads_only a c"
  by (simp add: reads_only_def keeps_def)

lemma quiet_keeps: "reads_only a b \<Longrightarrow> keeps a b"
  by (simp add: reads_only_def)

lemma quiet_mark [simp]: "reads_only a (mark env c b) = reads_only a b"
  by (simp add: reads_only_def keeps_def mark_def)

lemma keeps_mark [simp]: "keeps a (mark env c b) = keeps a b"
  by (simp add: keeps_def mark_def)

lemma quiet_refl [simp]: "reads_only a a"
  by (simp add: reads_only_def keeps_def)

lemma ask_quiet: "ask call rr = (answer, rr') \<Longrightarrow> reads_only rr rr'"
  by (auto simp: reads_only_def keeps_def dest: ask_frame)

lemma reject_quiet: "rejectUnsupportedKubernetesGatewaySpec env config rr = (rejected, rr') \<Longrightarrow> reads_only rr rr'"
  by (auto simp: rejectUnsupportedKubernetesGatewaySpec_def Let_def split: if_splits)

lemma GetFQDN_quiet: "GetFQDN env config rr = (res, rr') \<Longrightarrow> reads_only rr rr'"
  by (auto simp: GetFQDN_def GetDomain_def Let_def split: if_splits prod.splits sum.splits dest: ask_quiet)

lemma resolve_quiet: "resolveGatewayHostname env config rr = (res, rr') \<Longrightarrow> reads_only rr rr'"
  by (auto simp: resolveGatewayHostname_def split: prod.splits sum.splits domain_error.splits dest: GetFQDN_quiet)

lemma unresolved_quiet: "isGatewayDomainUnresolved env config rr = (res, rr') \<Longrightarrow> reads_only rr rr'"
  by (auto simp: isGatewayDomainUnresolved_def split: prod.splits sum.splits domain_error.splits dest: resolve_quiet)

lemma mode_quiet: "getGatewayAuthenticationMode env config rr = (mode, rr') \<Longrightarrow> reads_only rr rr'"
  by (auto simp: reads_only_def keeps_def dest: getGatewayAuthenticationMode_frame)

lemma legacy_policy_quiet: "deleteLegacyNetworkPolicy env rr = (err, rr') \<Longrightarrow> reads_only rr rr'"
  by (auto simp: deleteLegacyNetworkPolicy_def delete_object_def reads_only_def keeps_def split: if_splits prod.splits sum.splits option.splits dest!: ask_quiet)

lemma timeout_quiet: "resolveOCPRouteServerTimeout env config rr = (res, rr') \<Longrightarrow> reads_only rr rr'"
  by (auto simp: resolveOCPRouteServerTimeout_def Let_def split: if_splits prod.splits sum.splits option.splits dest: ask_quiet)

lemma provider_ca_quiet: "provider_ca env config rr = (res, rr') \<Longrightarrow> reads_only rr rr'"
  by (auto simp: provider_ca_def Let_def split: if_splits prod.splits sum.splits dest: ask_quiet)

lemma quiet_fields [simp]:
  "reads_only a (b\<lparr>gq_TemplateData := v\<rparr>) = reads_only a b" "reads_only a (b\<lparr>gq_Writes := ws\<rparr>) = reads_only a b"
  "keeps a (b\<lparr>gq_Templates := ts\<rparr>) = keeps a b" "keeps a (b\<lparr>gq_Resources := rs\<rparr>) = keeps a b"
  by (simp_all add: reads_only_def keeps_def)

lemma getTemplateData_quiet: "getTemplateData env rr = (res, rr') \<Longrightarrow> reads_only rr rr'"
  by (auto simp: getTemplateData_def Let_def split: prod.splits sum.splits bool.splits domain_error.splits option.splits
      dest!: reject_quiet resolve_quiet provider_ca_quiet timeout_quiet ask_quiet) (simp_all add: reads_only_def keeps_def)

lemma AddResources_keeps: "AddResources env r rr = (err, rr') \<Longrightarrow> keeps rr rr'"
  by (auto simp: AddResources_def keeps_def split: option.splits)

lemma external_secret_quiet: "external_client_secret env oidc rr = (res, rr') \<Longrightarrow> reads_only rr rr'"
  by (auto simp: external_client_secret_def Let_def split: prod.splits sum.splits dest: ask_quiet)

lemma new_credentials_quiet: "new_credentials env mode oidc target rr = (res, rr') \<Longrightarrow> reads_only rr rr'"
  by (auto simp: new_credentials_def split: prod.splits sum.splits option.splits AuthenticationMode.splits
      dest: ask_quiet external_secret_quiet)

lemma secret_values_quiet: "getAuthProxySecretValues env mode oidc target rr = (res, rr') \<Longrightarrow> reads_only rr rr'"
  by (auto simp: getAuthProxySecretValues_def Let_def split: prod.splits sum.splits option.splits AuthenticationMode.splits if_splits
      dest!: ask_quiet new_credentials_quiet) (simp_all add: reads_only_def keeps_def)

lemma createSecret_quiet: "createSecret env values target rr = (res, rr') \<Longrightarrow> reads_only rr rr'"
  by (auto simp: createSecret_def split: prod.splits sum.splits dest: ask_quiet)

lemma createOAuthClient_keeps: "createOAuthClient env target secret rr = (err, rr') \<Longrightarrow> keeps rr rr'"
  by (auto simp: createOAuthClient_def keeps_def split: option.splits dest: AddResources_keeps)

lemma proxy_certificate_keeps: "proxy_certificate env config target rr = (err, rr') \<Longrightarrow> keeps rr rr'"
  by (auto simp: proxy_certificate_def Let_def keeps_def split: if_splits prod.splits option.splits dest!: AddResources_keeps)

lemma mark_default_keeps [simp]: "keeps a (mark_default env target message b) = keeps a b"
  by (simp add: mark_default_def)

lemma prepareAuthProxy_keeps:
  assumes "prepareAuthProxy env config target mode tmpl rr = (res, rr')"
  shows "keeps rr rr'"
proof -
  obtain v rr1 where v: "getAuthProxySecretValues env mode (pt_OIDC target) target rr = (v, rr1)"
    by fastforce
  have k1: "keeps rr rr1"
    using secret_values_quiet [OF v] by (rule quiet_keeps)
  have "keeps rr1 rr'" if "v = Inr values" for "values"
    using assms v that
    by (auto simp: prepareAuthProxy_def Let_def split: prod.splits sum.splits option.splits if_splits
        dest!: createSecret_quiet AddResources_keeps createOAuthClient_keeps proxy_certificate_keeps) (simp_all add: reads_only_def keeps_def)
  then show ?thesis
    using assms v k1 by (cases v) (auto simp: prepareAuthProxy_def intro: keeps_trans)
qed

text \<open>The policies of a target, and that they are all that the two actions add.\<close>

definition policy_templates :: "string set" where
  "policy_templates = {''resources/envoyfilter-authn.tmpl.yaml'', ''resources/kube-auth-proxy-networkpolicy.yaml''}"

definition adds_policies :: "('m, 'w) gateway_run \<Rightarrow> ('m, 'w) gateway_run \<Rightarrow> bool" where
  "adds_policies rr rr' \<longleftrightarrow>
     keeps rr rr' \<and> gq_Resources rr' = gq_Resources rr \<and> (\<exists>ts. gq_Templates rr' = gq_Templates rr @ ts \<and> set ts \<subseteq> policy_templates)"

lemma adds_policies_trans: "adds_policies a b \<Longrightarrow> adds_policies b c \<Longrightarrow> adds_policies a c"
  by (fastforce simp: adds_policies_def keeps_def)

lemma createEnvoyFilter_adds:
  assumes "createEnvoyFilter env rr = (err, rr')"
  shows "adds_policies rr rr'"
  using assms
  by (auto simp: createEnvoyFilter_def split: prod.splits sum.splits bool.splits
      dest!: reject_quiet unresolved_quiet)
    (simp_all add: reads_only_def keeps_def adds_policies_def policy_templates_def)

lemma createNetworkPolicy_adds:
  assumes "createNetworkPolicy env rr = (err, rr')"
  shows "adds_policies rr rr'"
  using assms
  by (auto simp: createNetworkPolicy_def split: prod.splits sum.splits bool.splits if_splits
      dest!: reject_quiet mode_quiet unresolved_quiet legacy_policy_quiet)
    (simp_all add: reads_only_def keeps_def adds_policies_def policy_templates_def)

section \<open>Lemmas: one target\<close>

definition recorded :: "authProxyTarget \<Rightarrow> string \<Rightarrow> string \<Rightarrow> int \<Rightarrow> auth_state \<Rightarrow> auth_state \<Rightarrow> bool" where
  "recorded target st reason generation state state' \<longleftrightarrow> (\<exists>message. state' = recordAuthResult generation target st reason message state)"

text \<open>How the first half ends, and what it leaves.\<close>

fun credentials_outcome ::
  "AuthenticationMode \<Rightarrow> authProxyTarget \<Rightarrow> ('m, 'w) gateway_run \<Rightarrow> go_error + string \<times> string \<times> string \<Rightarrow> ('m, 'w) gateway_run \<Rightarrow> bool" where
  "credentials_outcome mode target sub (Inl err) sub' \<longleftrightarrow>
     gq_AuthState sub' = gq_AuthState sub \<or>
     recorded target ConditionUnknown ''StatusReadFailed'' (generation_of sub) (gq_AuthState sub) (gq_AuthState sub')"
| "credentials_outcome mode target sub (Inr (h, reason, message)) sub' \<longleftrightarrow>
     (if message = '''' then
        if mode = AuthModeNone \<or> isDefault target then gq_AuthState sub' = gq_AuthState sub
        else recorded target ConditionUnknown ''ReconciliationPending'' (generation_of sub) (gq_AuthState sub) (gq_AuthState sub')
      else
        reason \<in> {''InvalidAuthenticationConfig'', ''AuthenticationUnavailable''} \<and> h = '''' \<and> gq_AuthState sub' = gq_AuthState sub \<and>
        gq_Resources sub' = [] \<and> gq_Templates sub' = [])"

lemma prepare_credentials_spec:
  assumes "prepare_credentials env config mode tmpl single target sub = (res, sub')"
  shows "gq_Instance sub' = gq_Instance sub" and "credentials_outcome mode target sub res sub'"
proof -
  obtain p sub1 where p: "prepareAuthProxy env config target mode tmpl sub = (p, sub1)"
    by fastforce
  have k: "gq_Instance sub1 = gq_Instance sub" "gq_AuthState sub1 = gq_AuthState sub"
    using prepareAuthProxy_keeps [OF p] by (simp_all add: keeps_def)
  show "gq_Instance sub' = gq_Instance sub"
    using assms p k
    by (auto simp: prepare_credentials_def Let_def report_auth_def own_copy_def markGatewayNotReady_def mark_def split: if_splits sum.splits)
  show "credentials_outcome mode target sub res sub'"
    using assms p k
    by (auto simp: prepare_credentials_def Let_def report_auth_def own_copy_def markGatewayNotReady_def mark_def recorded_def generation_of_def
        split: if_splits sum.splits)
qed


text \<open>Results recorded one after another for one target, none of them positive.\<close>

inductive reports :: "authProxyTarget \<Rightarrow> int \<Rightarrow> auth_state \<Rightarrow> auth_state \<Rightarrow> bool" for target :: authProxyTarget and generation :: int where
  none [intro!, simp]: "reports target generation state state"
| more [intro]: "reports target generation state state' \<Longrightarrow> st \<noteq> ConditionTrue \<Longrightarrow>
    reports target generation state (recordAuthResult generation target st reason message state')"

lemma recorded_reports: "reports target g s s' \<Longrightarrow> recorded target st reason g s' s'' \<Longrightarrow> st \<noteq> ConditionTrue \<Longrightarrow> reports target g s s''"
  by (auto simp: recorded_def)

lemma reports_other: "reports target g s s' \<Longrightarrow> k \<noteq> pt_GatewayName target \<Longrightarrow> map_of s' k = map_of s k"
  by (induction rule: reports.induct) (simp_all add: recordAuthResult_def update_conv')

lemma reports_stays: "reports target g s s' \<Longrightarrow> map_of s k \<noteq> None \<Longrightarrow> map_of s' k \<noteq> None"
  by (induction rule: reports.induct) (simp_all add: recordAuthResult_def update_conv')

definition never_positive :: "auth_state \<Rightarrow> bool" where
  "never_positive state \<longleftrightarrow> list_all (\<lambda>(_, r). cStatus (ar_Condition r) \<noteq> ConditionTrue) state"

lemma never_positive_record:
  assumes "never_positive state" "st \<noteq> ConditionTrue"
  shows "never_positive (recordAuthResult g target st reason message state)"
  using assms set_update_subset [of "pt_GatewayName target" "auth_result g target st reason message" state]
  by (fastforce simp: never_positive_def recordAuthResult_def auth_result_def gen_cond_def list_all_iff)

lemma reports_never_positive: "reports target g s s' \<Longrightarrow> never_positive s \<Longrightarrow> never_positive s'"
  by (induction rule: reports.induct) (simp_all add: never_positive_record)

lemma reports_ok:
  assumes "reports target (gw_Generation config) s s'" "auth_state_ok config s"
    and "pt_IngressName target = pt_GatewayName target \<or>
      pt_IngressName target \<notin> ingress_names config \<and> pt_GatewayName target \<notin> ingress_names config"
  shows "auth_state_ok config s'"
  using assms(1,2)
proof (induction rule: reports.induct)
  case (more state state' st reason message)
  then show ?case
    by (intro auth_state_ok_record [OF _ assms(3)]) simp_all
qed simp


lemma render_target_spec:
  assumes "render_target env base target (h, reason, message) sub = (err, sub')"
  shows "keeps sub sub'"
    and "err = None \<Longrightarrow> \<exists>ts. set ts \<subseteq> policy_templates \<and>
      ae_Render env (gq_Templates sub @ ts) (authTargetTemplateData env base target h) (gq_Resources sub) = Inr (gq_Resources sub')"
proof -
  obtain e1 sub1 where e1: "createEnvoyFilter (ae_Gateway env) sub = (e1, sub1)"
    by fastforce
  obtain e2 sub2 where e2: "(if message = '''' \<or> isDefault target then createNetworkPolicy (ae_Gateway env) sub1 else (None, sub1)) = (e2, sub2)"
    by fastforce
  have a1: "adds_policies sub sub1"
    using createEnvoyFilter_adds [OF e1] .
  have "adds_policies sub1 sub1"
    by (simp add: adds_policies_def keeps_def)
  then have "adds_policies sub1 sub2"
    using e2 createNetworkPolicy_adds [of "ae_Gateway env" sub1 e2 sub2] by (simp split: if_splits)
  then have a2: "adds_policies sub sub2"
    using a1 adds_policies_trans by blast
  have "render_target env base target (h, reason, message) sub =
     (case e1 of Some err \<Rightarrow> (Some err, sub1) | None \<Rightarrow> (case e2 of Some err \<Rightarrow> (Some err, sub2) | None \<Rightarrow>
      (case ae_Render env (gq_Templates sub2) (authTargetTemplateData env base target h) (gq_Resources sub2) of
         Inl err \<Rightarrow> (Some (wrap (''failed to render authentication resources for '' @ pt_GatewayName target) err), sub2)
       | Inr resources \<Rightarrow> (None, sub2\<lparr>gq_Resources := resources\<rparr>))))"
    unfolding render_target_def e1 prod.case using e2 by (simp cong: option.case_cong)
  note run = this [unfolded assms, symmetric]
  show "keeps sub sub'"
    using run a1 a2 by (auto simp: adds_policies_def keeps_def split: option.splits sum.splits)
  show "\<exists>ts. set ts \<subseteq> policy_templates \<and>
      ae_Render env (gq_Templates sub @ ts) (authTargetTemplateData env base target h) (gq_Resources sub) = Inr (gq_Resources sub')" if "err = None"
    using run a2 that by (auto simp: adds_policies_def split: option.splits sum.splits)
qed

text \<open>What is rendered for a target that could not be prepared.\<close>

definition policies_only :: "('m, 'w) auth_env \<Rightarrow> template_data \<Rightarrow> authProxyTarget \<Rightarrow> gw_resource list \<Rightarrow> bool" where
  "policies_only env base target rs \<longleftrightarrow>
     (\<exists>ts. set ts \<subseteq> policy_templates \<and> ae_Render env ts (authTargetTemplateData env base target '''') [] = Inr rs)"

text \<open>The run before the copy is made.\<close>

definition announced :: "('m, 'w) auth_env \<Rightarrow> AuthenticationMode \<Rightarrow> authProxyTarget \<Rightarrow> ('m, 'w) gateway_run \<Rightarrow> ('m, 'w) gateway_run" where
  "announced env mode target rr =
     (if \<not> isDefault target then
        if mode = AuthModeNone then
          report_auth target ConditionFalse ''AuthenticationBlocked''
            ''Authentication is unavailable; traffic is rejected until an authentication provider is configured'' rr
        else rr
      else if mode \<noteq> AuthModeNone \<and> (mode \<noteq> AuthModeOIDC \<or> pt_OIDC target \<noteq> None) then
        mark (ae_Gateway env) (gen_cond GatewayConfigReady ConditionUnknown 0 '''' '''') rr
      else rr)"

lemma announced_fields:
  "gq_Instance (announced env mode target rr) = gq_Instance rr" "gq_Resources (announced env mode target rr) = gq_Resources rr"
  "gq_AuthState (announced env mode target rr) =
     (if \<not> isDefault target \<and> mode = AuthModeNone then
        recordAuthResult (generation_of rr) target ConditionFalse ''AuthenticationBlocked''
          ''Authentication is unavailable; traffic is rejected until an authentication provider is configured'' (gq_AuthState rr)
      else gq_AuthState rr)"
  by (simp_all add: announced_def report_auth_def mark_def)

lemma prepare_target_cases:
  assumes "prepare_target env config mode tmpl base single target rr = (err, rr')"
  obtains
    (conflict) "\<not> isDefault target" "additionalIngressHasGatewayConflict (ge_Ops (ae_Gateway env)) (the (gq_Instance rr)) (pt_IngressName target)"
      "err = None" "rr' = announced env mode target rr"
  | (stopped) e sub where "prepare_credentials env config mode tmpl single target (own_copy (announced env mode target rr)) = (Inl e, sub)"
      "err = Some e" "rr' = merge_back (announced env mode target rr) sub"
  | (unrendered) h reason message e sub sub' where
      "prepare_credentials env config mode tmpl single target (own_copy (announced env mode target rr)) = (Inr (h, reason, message), sub)"
      "render_target env base target (h, reason, message) sub = (Some e, sub')"
      "err = Some e" "rr' = merge_back (announced env mode target rr) sub'"
  | (rendered) h reason message sub sub' where
      "prepare_credentials env config mode tmpl single target (own_copy (announced env mode target rr)) = (Inr (h, reason, message), sub)"
      "render_target env base target (h, reason, message) sub = (None, sub')" "err = None"
      "let rr2 = (merge_back (announced env mode target rr) sub')\<lparr>gq_Resources := gq_Resources rr @ gq_Resources sub'\<rparr>
       in rr' = (if message \<noteq> '''' then report_auth target ConditionFalse reason message rr2 else rr2)"
proof -
  note def = assms [unfolded prepare_target_def, folded announced_def, unfolded Let_def announced_fields]
  show thesis
  proof (cases "\<not> isDefault target \<and> additionalIngressHasGatewayConflict (ge_Ops (ae_Gateway env)) (the (gq_Instance rr)) (pt_IngressName target)")
    case True
    then show thesis
      using def conflict by simp
  next
    case no_conflict: False
    obtain c sub where c: "prepare_credentials env config mode tmpl single target (own_copy (announced env mode target rr)) = (c, sub)"
      by fastforce
    show thesis
    proof (cases c)
      case (Inl e)
      then show thesis
        using def no_conflict c stopped [of e sub] by simp
    next
      case (Inr p)
      obtain h reason message where p: "p = (h, reason, message)"
        by (cases p)
      obtain e sub' where e: "render_target env base target (h, reason, message) sub = (e, sub')"
        by fastforce
      show thesis
      proof (cases e)
        case None
        then show thesis
          using def no_conflict c Inr p e rendered [of h reason message sub sub'] by (simp add: announced_fields)
      next
        case (Some x)
        note c' = c [unfolded Inr p] and e' = e [unfolded Some]
        have "(Some x, merge_back (announced env mode target rr) sub') = (err, rr')"
          using def no_conflict by (simp add: c' e')
        then show thesis
          by (intro unrendered [OF c' e']) simp_all
      qed
    qed
  qed
qed


lemma merge_back_fields:
  "gq_Instance (merge_back a b) = gq_Instance b" "gq_AuthState (merge_back a b) = gq_AuthState b" "gq_Resources (merge_back a b) = gq_Resources a"
  by (simp_all add: merge_back_def)

lemma own_copy_fields:
  "gq_Instance (own_copy a) = gq_Instance a" "gq_AuthState (own_copy a) = gq_AuthState a" "generation_of (own_copy a) = generation_of a"
  by (simp_all add: own_copy_def generation_of_def)

lemma generation_announced: "generation_of (announced env mode target rr) = generation_of rr"
  by (simp add: generation_of_def announced_fields)

lemma report_auth_fields:
  "gq_Instance (report_auth target st reason message rr) = gq_Instance rr" "gq_Resources (report_auth target st reason message rr) = gq_Resources rr"
  "gq_AuthState (report_auth target st reason message rr) = recordAuthResult (generation_of rr) target st reason message (gq_AuthState rr)"
  by (simp_all add: report_auth_def)

lemmas target_fields = merge_back_fields own_copy_fields announced_fields(1,2) generation_announced report_auth_fields

lemma announced_reports:
  "gq_Instance rr = Some config \<Longrightarrow> reports target (gw_Generation config) (gq_AuthState rr) (gq_AuthState (announced env mode target rr))"
  by (auto simp: announced_fields generation_of_def)

lemma credentials_reports:
  assumes "prepare_credentials env config mode tmpl single target (own_copy (announced env mode target rr)) = (res, sub)"
    and "gq_Instance rr = Some config"
  shows "gq_Instance sub = Some config" "reports target (gw_Generation config) (gq_AuthState rr) (gq_AuthState sub)"
proof -
  note spec = prepare_credentials_spec [OF assms(1)]
  show "gq_Instance sub = Some config"
    using spec(1) assms(2) by (simp add: target_fields)
  have "generation_of rr = gw_Generation config"
    using assms(2) by (simp add: generation_of_def)
  then show "reports target (gw_Generation config) (gq_AuthState rr) (gq_AuthState sub)"
    using announced_reports [OF assms(2), of target env mode] spec(2) recorded_reports
    by (cases res) (auto simp: target_fields split: if_splits)
qed

lemma prepare_target_reports:
  assumes run: "prepare_target env config mode tmpl base single target rr = (err, rr')" and config: "gq_Instance rr = Some config"
  shows "gq_Instance rr' = Some config" and "reports target (gw_Generation config) (gq_AuthState rr) (gq_AuthState rr')"
proof -
  have "gq_Instance rr' = Some config \<and> reports target (gw_Generation config) (gq_AuthState rr) (gq_AuthState rr')"
    using run
  proof (cases rule: prepare_target_cases)
    case conflict
    then show ?thesis
      using config announced_reports [OF config] by (simp add: target_fields)
  next
    case stopped
    then show ?thesis
      using credentials_reports [OF stopped(1) config] by (simp add: target_fields)
  next
    case unrendered
    then show ?thesis
      using credentials_reports [OF unrendered(1) config] render_target_spec(1) [OF unrendered(2)] by (simp add: target_fields keeps_def)
  next
    case (rendered h reason message sub sub')
    then show ?thesis
      using credentials_reports [OF rendered(1) config] render_target_spec(1) [OF rendered(2)]
      by (auto simp: target_fields keeps_def generation_of_def Let_def)
  qed
  then show "gq_Instance rr' = Some config" and "reports target (gw_Generation config) (gq_AuthState rr) (gq_AuthState rr')"
    by simp_all
qed


lemma map_of_record: "map_of (recordAuthResult g target st reason message state) (pt_GatewayName target) = Some (auth_result g target st reason message)"
  by (simp add: recordAuthResult_def update_conv')

lemma recorded_some: "recorded target st reason g s s' \<Longrightarrow> \<exists>message. map_of s' (pt_GatewayName target) = Some (auth_result g target st reason message)"
  by (auto simp: recorded_def map_of_record)

text \<open>A target that was gone through has a result.\<close>

lemma prepare_target_recorded:
  assumes run: "prepare_target env config mode tmpl base single target rr = (None, rr')" and config: "gq_Instance rr = Some config"
    and own: "\<not> isDefault target"
      "mode = AuthModeNone \<or> \<not> additionalIngressHasGatewayConflict (ge_Ops (ae_Gateway env)) config (pt_IngressName target)"
  shows "map_of (gq_AuthState rr') (pt_GatewayName target) \<noteq> None"
  using run
proof (cases rule: prepare_target_cases)
  case conflict
  then show ?thesis
    using own config by (simp add: announced_fields map_of_record)
next
  case (rendered h reason message sub sub')
  have same: "gq_AuthState sub' = gq_AuthState sub"
    using render_target_spec(1) [OF rendered(2)] by (simp add: keeps_def)
  note outcome = prepare_credentials_spec(2) [OF rendered(1), simplified]
  show ?thesis
  proof (cases "message = ''''")
    case False
    then show ?thesis
      using rendered(4) by (simp add: target_fields Let_def map_of_record)
  next
    case True
    then have "map_of (gq_AuthState sub) (pt_GatewayName target) \<noteq> None"
      using outcome own by (auto simp: target_fields announced_fields map_of_record dest: recorded_some split: if_splits)
    then show ?thesis
      using True rendered(4) same by (simp add: target_fields Let_def)
  qed
qed simp_all

text \<open>
  The attempt to prepare the credentials of a target, from the run before it. When it fails and the pass goes on all the same, the failure is
  recorded for the target, and its policies are rendered and nothing else.
\<close>

definition attempt ::
  "('m, 'w) auth_env \<Rightarrow> GatewayConfig \<Rightarrow> AuthenticationMode \<Rightarrow> string \<Rightarrow> authProxyTarget \<Rightarrow> ('m, 'w) gateway_run \<Rightarrow> go_error + string" where
  "attempt env config mode tmpl target rr = fst (prepareAuthProxy env config target mode tmpl (own_copy (announced env mode target rr)))"

definition failure_result :: "GatewayConfig \<Rightarrow> AuthenticationMode \<Rightarrow> authProxyTarget \<Rightarrow> go_error \<Rightarrow> authProxyResult" where
  "failure_result config mode target e =
     auth_result (gw_Generation config) target ConditionFalse
       (if mode = AuthModeOIDC \<and> pt_OIDC target = None then ''InvalidAuthenticationConfig'' else ''AuthenticationUnavailable'')
       (''Authentication credentials could not be reconciled for '' @ pt_SecretName target @ '': '' @ err_msg e)"

lemma failure_result_failed: "failedPreparation (failure_result config mode target e) \<longleftrightarrow> \<not> (mode = AuthModeOIDC \<and> pt_OIDC target = None)"
  by (simp add: failure_result_def failedPreparation_def auth_result_def gen_cond_def)

lemma failed_credentials:
  assumes "prepare_credentials env config mode tmpl single target (own_copy (announced env mode target rr)) = (Inr (h, reason, message), sub)"
    and "mode \<noteq> AuthModeNone" "attempt env config mode tmpl target rr = Inl e"
  shows "reason = (if mode = AuthModeOIDC \<and> pt_OIDC target = None then ''InvalidAuthenticationConfig'' else ''AuthenticationUnavailable'')"
    and "message = ''Authentication credentials could not be reconciled for '' @ pt_SecretName target @ '': '' @ err_msg e"
    and "h = '''' \<and> gq_Templates sub = [] \<and> gq_Resources sub = []"
proof -
  obtain sub0 where p: "prepareAuthProxy env config target mode tmpl (own_copy (announced env mode target rr)) = (Inl e, sub0)"
    using assms(3) by (metis attempt_def surjective_pairing)
  note def = assms(1) [unfolded prepare_credentials_def p if_not_P [OF assms(2)] prod.case sum.case Let_def]
  note outcome = arg_cong [OF def, of fst, unfolded if_distrib [of fst] fst_conv]
  show "reason = (if mode = AuthModeOIDC \<and> pt_OIDC target = None then ''InvalidAuthenticationConfig'' else ''AuthenticationUnavailable'')"
    and message: "message = ''Authentication credentials could not be reconciled for '' @ pt_SecretName target @ '': '' @ err_msg e"
    using outcome by (auto split: if_splits)
  then show "h = '''' \<and> gq_Templates sub = [] \<and> gq_Resources sub = []"
    using prepare_credentials_spec(2) [OF assms(1)] by simp
qed

lemma failed_target:
  assumes run: "prepare_target env config mode tmpl base single target rr = (None, rr')" and config: "gq_Instance rr = Some config"
    and mine: "isDefault target \<or> \<not> additionalIngressHasGatewayConflict (ge_Ops (ae_Gateway env)) config (pt_IngressName target)"
    and failed: "mode \<noteq> AuthModeNone" "attempt env config mode tmpl target rr = Inl e"
  shows "map_of (gq_AuthState rr') (pt_GatewayName target) = Some (failure_result config mode target e) \<and>
    (\<exists>rs. gq_Resources rr' = gq_Resources rr @ rs \<and> policies_only env base target rs)"
  using run
proof (cases rule: prepare_target_cases)
  case conflict
  then show ?thesis
    using mine config by simp
next
  case (rendered h reason message sub sub')
  note f = failed_credentials [OF rendered(1) failed]
  have inst: "gq_Instance sub' = Some config"
    using credentials_reports(1) [OF rendered(1) config] render_target_spec(1) [OF rendered(2)] by (simp add: keeps_def)
  have "policies_only env base target (gq_Resources sub')"
    using render_target_spec(2) [OF rendered(2)] f(3) by (simp add: policies_only_def)
  then show ?thesis
    using rendered(4) inst by (auto simp: f(1,2) Let_def target_fields map_of_record failure_result_def generation_of_def)
qed simp_all

lemma prepare_target_extends:
  assumes "prepare_target env config mode tmpl base single target rr = (None, rr')"
  obtains rs where "gq_Resources rr' = gq_Resources rr @ rs"
  using assms
proof (cases rule: prepare_target_cases)
  case conflict
  then show thesis
    using that [of "[]"] by (simp add: announced_fields)
next
  case (rendered h reason message sub sub')
  then show thesis
    using that [of "gq_Resources sub'"] by (simp add: Let_def target_fields split: if_splits)
qed simp_all


section \<open>Lemmas: all targets\<close>

definition well_named :: "GatewayConfig \<Rightarrow> authProxyTarget \<Rightarrow> bool" where
  "well_named config target \<longleftrightarrow> pt_IngressName target = pt_GatewayName target \<or>
      pt_IngressName target \<notin> ingress_names config \<and> pt_GatewayName target \<notin> ingress_names config"

lemma prepare_targets_state:
  "prepare_targets env config mode tmpl base single targets rr = (err, rr') \<Longrightarrow> gq_Instance rr = Some config \<Longrightarrow>
     list_all (well_named config) targets \<Longrightarrow> auth_state_ok config (gq_AuthState rr) \<Longrightarrow> never_positive (gq_AuthState rr) \<Longrightarrow>
     gq_Instance rr' = Some config \<and> auth_state_ok config (gq_AuthState rr') \<and> never_positive (gq_AuthState rr')"
proof (induction targets arbitrary: rr)
  case (Cons t ts)
  obtain e rr1 where e: "prepare_target env config mode tmpl base single t rr = (e, rr1)"
    by fastforce
  note r = prepare_target_reports [OF e Cons.prems(2)]
  have s1: "auth_state_ok config (gq_AuthState rr1)" "never_positive (gq_AuthState rr1)"
    using reports_ok [OF r(2) Cons.prems(4)] reports_never_positive [OF r(2) Cons.prems(5)] Cons.prems(3) by (simp_all add: well_named_def)
  show ?case
  proof (cases e)
    case None
    then show ?thesis
      using Cons.prems e Cons.IH [of rr1] r(1) s1 by simp
  next
    case (Some x)
    then have "rr' = rr1"
      using Cons.prems(1) e by simp
    then show ?thesis
      using r(1) s1 by simp
  qed
qed simp

lemma prepare_targets_stays:
  "prepare_targets env config mode tmpl base single targets rr = (err, rr') \<Longrightarrow> gq_Instance rr = Some config \<Longrightarrow>
     (k \<notin> pt_GatewayName ` set targets \<longrightarrow> map_of (gq_AuthState rr') k = map_of (gq_AuthState rr) k) \<and>
     (map_of (gq_AuthState rr) k \<noteq> None \<longrightarrow> map_of (gq_AuthState rr') k \<noteq> None)"
proof (induction targets arbitrary: rr)
  case (Cons t ts)
  obtain e rr1 where e: "prepare_target env config mode tmpl base single t rr = (e, rr1)"
    by fastforce
  note r = prepare_target_reports [OF e Cons.prems(2)]
  have s1: "k \<noteq> pt_GatewayName t \<Longrightarrow> map_of (gq_AuthState rr1) k = map_of (gq_AuthState rr) k"
    "map_of (gq_AuthState rr) k \<noteq> None \<Longrightarrow> map_of (gq_AuthState rr1) k \<noteq> None"
    using reports_other [OF r(2)] reports_stays [OF r(2)] by blast+
  show ?case
  proof (cases e)
    case None
    then have "prepare_targets env config mode tmpl base single ts rr1 = (err, rr')"
      using Cons.prems(1) e by simp
    then show ?thesis
      using Cons.IH [of rr1] r(1) s1 by auto
  next
    case (Some x)
    then have "rr' = rr1"
      using Cons.prems(1) e by simp
    then show ?thesis
      using s1 by simp
  qed
qed simp

lemma prepare_targets_recorded:
  "prepare_targets env config mode tmpl base single targets rr = (None, rr') \<Longrightarrow> gq_Instance rr = Some config \<Longrightarrow> t \<in> set targets \<Longrightarrow>
     \<not> isDefault t \<Longrightarrow>
     mode = AuthModeNone \<or> \<not> additionalIngressHasGatewayConflict (ge_Ops (ae_Gateway env)) config (pt_IngressName t) \<Longrightarrow>
     map_of (gq_AuthState rr') (pt_GatewayName t) \<noteq> None"
proof (induction targets arbitrary: rr)
  case (Cons u ts)
  obtain rr1 where e: "prepare_target env config mode tmpl base single u rr = (None, rr1)"
    and ts: "prepare_targets env config mode tmpl base single ts rr1 = (None, rr')"
    using Cons.prems(1) by (auto split: prod.splits option.splits)
  note inst = prepare_target_reports(1) [OF e Cons.prems(2)]
  show ?case
  proof (cases "t = u")
    case True
    then show ?thesis
      using prepare_target_recorded [OF e Cons.prems(2)] Cons.prems(4,5) prepare_targets_stays [OF ts inst] by blast
  next
    case False
    then show ?thesis
      using Cons.IH [OF ts inst] Cons.prems by simp
  qed
qed simp

lemma prepare_targets_instance:
  "prepare_targets env config mode tmpl base single targets rr = (err, rr') \<Longrightarrow> gq_Instance rr = Some config \<Longrightarrow> gq_Instance rr' = Some config"
proof (induction targets arbitrary: rr)
  case (Cons t ts)
  obtain e rr1 where e: "prepare_target env config mode tmpl base single t rr = (e, rr1)"
    by fastforce
  show ?case
    using Cons.prems(1) e Cons.IH [of rr1] prepare_target_reports(1) [OF e Cons.prems(2)] by (cases e) auto
qed simp

lemma prepare_targets_append:
  "prepare_targets env config mode tmpl base single (xs @ ys) rr =
     (case prepare_targets env config mode tmpl base single xs rr of
        (Some err, rr1) \<Rightarrow> (Some err, rr1)
      | (None, rr1) \<Rightarrow> prepare_targets env config mode tmpl base single ys rr1)"
  by (induction xs arbitrary: rr) (simp_all split: prod.splits option.splits)

lemma prepare_targets_extend:
  "prepare_targets env config mode tmpl base single targets rr = (None, rr') \<Longrightarrow> \<exists>rs. gq_Resources rr' = gq_Resources rr @ rs"
proof (induction targets arbitrary: rr)
  case (Cons t ts)
  obtain rr1 where e: "prepare_target env config mode tmpl base single t rr = (None, rr1)"
    and ts: "prepare_targets env config mode tmpl base single ts rr1 = (None, rr')"
    using Cons.prems by (auto split: prod.splits option.splits)
  obtain rs where "gq_Resources rr1 = gq_Resources rr @ rs"
    by (rule prepare_target_extends [OF e])
  with Cons.IH [OF ts] show ?case
    by auto
qed simp

text \<open>The run in front of the \<open>i\<close>-th target of a pass.\<close>

definition reached ::
  "('m, 'w) auth_env \<Rightarrow> GatewayConfig \<Rightarrow> AuthenticationMode \<Rightarrow> string \<Rightarrow> template_data \<Rightarrow> authProxyTarget list \<Rightarrow> ('m, 'w) gateway_run \<Rightarrow> nat \<Rightarrow>
     ('m, 'w) gateway_run" where
  "reached env config mode tmpl base targets rr i = snd (prepare_targets env config mode tmpl base (length targets = 1) (take i targets) rr)"

lemma reached_targets:
  assumes "prepare_targets env config mode tmpl base (length targets = 1) targets rr = (None, rr')" "i \<le> length targets"
  shows "prepare_targets env config mode tmpl base (length targets = 1) (take i targets) rr = (None, reached env config mode tmpl base targets rr i)"
    and "prepare_targets env config mode tmpl base (length targets = 1) (drop i targets) (reached env config mode tmpl base targets rr i) = (None, rr')"
proof -
  obtain e a where a: "prepare_targets env config mode tmpl base (length targets = 1) (take i targets) rr = (e, a)"
    by fastforce
  note whole = assms(1) [unfolded prepare_targets_append [where xs = "take i targets" and ys = "drop i targets", unfolded append_take_drop_id] a prod.case]
  have "e = None"
    using whole by (cases e) simp_all
  then show "prepare_targets env config mode tmpl base (length targets = 1) (take i targets) rr = (None, reached env config mode tmpl base targets rr i)"
    and "prepare_targets env config mode tmpl base (length targets = 1) (drop i targets) (reached env config mode tmpl base targets rr i) = (None, rr')"
    using a whole by (simp_all add: reached_def)
qed

lemma failed_targets:
  assumes run: "prepare_targets env config mode tmpl base (length targets = 1) targets rr = (None, rr')" and config: "gq_Instance rr = Some config"
    and names: "distinct (map pt_GatewayName targets)" and i: "i < length targets"
    and mine: "isDefault (targets ! i) \<or> \<not> additionalIngressHasGatewayConflict (ge_Ops (ae_Gateway env)) config (pt_IngressName (targets ! i))"
    and failed: "mode \<noteq> AuthModeNone" "attempt env config mode tmpl (targets ! i) (reached env config mode tmpl base targets rr i) = Inl e"
  shows "map_of (gq_AuthState rr') (pt_GatewayName (targets ! i)) = Some (failure_result config mode (targets ! i) e) \<and>
    (\<exists>rs later. gq_Resources (reached env config mode tmpl base targets rr (Suc i)) = gq_Resources (reached env config mode tmpl base targets rr i) @ rs \<and>
       gq_Resources rr' = gq_Resources (reached env config mode tmpl base targets rr (Suc i)) @ later \<and> policies_only env base (targets ! i) rs)"
proof -
  let ?t = "targets ! i" and ?a = "reached env config mode tmpl base targets rr i" and ?b = "reached env config mode tmpl base targets rr (Suc i)"
  note here = reached_targets [OF run, of i] and there = reached_targets [OF run, of "Suc i"]
  have step: "prepare_target env config mode tmpl base (length targets = 1) ?t ?a = (None, ?b)"
    using here(1) there(1) i by (simp add: take_Suc_conv_app_nth prepare_targets_append split: prod.splits option.splits)
  have inst: "gq_Instance ?a = Some config"
    using here(1) i config prepare_targets_instance by fastforce
  note f = failed_target [OF step inst mine failed]
  have "pt_GatewayName ?t \<notin> pt_GatewayName ` set (drop (Suc i) targets)"
    using names i by (metis (no_types, lifting) Cons_nth_drop_Suc distinct.simps(2) distinct_drop drop_map list.set_map list.simps(9))
  moreover have "gq_Instance ?b = Some config"
    by (rule prepare_target_reports(1) [OF step inst])
  ultimately have "map_of (gq_AuthState rr') (pt_GatewayName ?t) = map_of (gq_AuthState ?b) (pt_GatewayName ?t)"
    using prepare_targets_stays [OF there(2)] i by auto
  with f prepare_targets_extend [OF there(2)] i show ?thesis
    by auto
qed


text \<open>
  A pass is repeated when one of the Secrets it depends on changes: the client Secret of a target, and on Kubernetes the TLS Secrets that the
  status action reads.
\<close>

lemma client_secret_watched:
  assumes "target \<in> set (defaultAuthProxyTarget k8s hostname config #
      map (\<lambda>ing. additionalAuthProxyTarget ing config) (gs_AdditionalIngresses (gw_Spec config)))"
    and "pt_OIDC target = Some oidc"
  shows "IsGatewayReferencedSecret k8s (Inr config) (oi_SecretName oidc)
    (if oi_SecretNamespace oidc = '''' then GetGatewayNamespace k8s else oi_SecretNamespace oidc) (GetGatewayNamespace k8s)"
proof (cases "target = defaultAuthProxyTarget k8s hostname config")
  case True
  then show ?thesis
    using assms(2) by (simp add: IsGatewayReferencedSecret_def defaultAuthProxyTarget_def)
next
  case False
  then obtain ing where ing: "ing \<in> set (gs_AdditionalIngresses (gw_Spec config))" "target = additionalAuthProxyTarget ing config"
    using assms(1) by auto
  obtain own where "ai_OIDC ing = Some own" "oi_SecretName own = oi_SecretName oidc" "oi_SecretNamespace own = oi_SecretNamespace oidc"
    using assms(2) by (auto simp: ing(2) additionalAuthProxyTarget_def split: option.splits)
  then have "list_ex (\<lambda>ing. case ai_OIDC ing of None \<Rightarrow> False
      | Some own \<Rightarrow> oi_SecretName oidc = oi_SecretName own \<and>
          (if oi_SecretNamespace oidc = '''' then GetGatewayNamespace k8s else oi_SecretNamespace oidc) = authSecretNamespace k8s (oi_SecretNamespace own))
      (gs_AdditionalIngresses (gw_Spec config))"
    using ing(1) unfolding list_ex_iff by (intro bexI [of _ ing]) (simp_all add: authSecretNamespace_def)
  then show ?thesis
    unfolding IsGatewayReferencedSecret_def sum.case by blast
qed

lemma tls_secrets_watched:
  assumes "ge_K8s (ae_Gateway env)" "gs_OIDC (gw_Spec config) \<noteq> None \<and> n = pt_TLSName (defaultAuthProxyTarget True hostname config) \<or>
      gateway_certificate_check env config \<noteq> (\<lambda>rr. (Inr '''', rr)) \<and> n = gatewayCertificateSecretName config"
  shows "IsXKSCertManagerSecret True (Inr config) n (GetGatewayNamespace True) (GetGatewayNamespace True)"
  using assms by (auto simp: IsXKSCertManagerSecret_def defaultAuthProxyTarget_def gateway_certificate_check_def fun_eq_iff split: if_splits)

lemma gc_exempt:
  assumes "(key, r) \<in> set (gq_AuthState rr)" "failedPreparation r" "map_of (gcResourceNames (ar_Target r)) (ko_GVK u) = Some (ko_Name u)"
  shows "gatewayAuthResourceCollectable env rr u = Inr False"
  using assms by (auto simp: gatewayAuthResourceCollectable_def list_ex_iff)

lemma targets_well_named:
  assumes "'''' \<notin> ingress_names config" "GetDefaultGatewayName k8s \<notin> ingress_names config"
  shows "list_all (well_named config)
    (defaultAuthProxyTarget k8s hostname config # map (\<lambda>ing. additionalAuthProxyTarget ing config) (gs_AdditionalIngresses (gw_Spec config)))"
  using assms by (simp add: well_named_def defaultAuthProxyTarget_def additionalAuthProxyTarget_def list_all_iff)

lemma prepareAuthProxies_cases:
  assumes "prepareAuthProxies env config mode tmpl targets rr = (err, rr')"
  obtains (unread) e where "getTemplateData env rr = (Inl e, rr')" "err = Some e"
  | (stopped) base rr1 e where "getTemplateData env rr = (Inr base, rr1)"
      "prepare_targets env config mode tmpl base (length targets = 1) targets rr1 = (Some e, rr')" "err = Some e"
  | (through) base rr1 where "getTemplateData env rr = (Inr base, rr1)"
      "prepare_targets env config mode tmpl base (length targets = 1) targets rr1 = (None, rr')"
      "err = (if list_ex (\<lambda>(_, r). failedPreparation r) (gq_AuthState rr') then Some (GoError '''' [RequeueAfter (30 * second)]) else None)"
  using assms unfolding prepareAuthProxies_def by (auto split: prod.splits sum.splits option.splits if_splits)

lemma prepareAuthProxies_spec:
  fixes env :: "('m, 'w) auth_env"
  assumes config: "gq_Instance rr = Some config" and start: "gq_AuthState rr = []"
    and names: "distinct (map ai_Name (gs_AdditionalIngresses (gw_Spec config)))" "'''' \<notin> ingress_names config"
      "GetDefaultGatewayName k8s \<notin> ingress_names config"
    and targets: "targets = defaultAuthProxyTarget k8s hostname config #
      map (\<lambda>ing. additionalAuthProxyTarget ing config) (gs_AdditionalIngresses (gw_Spec config))"
    and run: "prepareAuthProxies env config mode tmpl targets rr = (err, rr')"
  shows "auth_state_ok config (gq_AuthState rr') \<and> never_positive (gq_AuthState rr')"
    and "err = None \<Longrightarrow> ing \<in> set (gs_AdditionalIngresses (gw_Spec config)) \<Longrightarrow>
      mode = AuthModeNone \<or> \<not> additionalIngressHasGatewayConflict (ge_Ops (ae_Gateway env)) config (ai_Name ing) \<Longrightarrow>
      map_of (gq_AuthState rr') (ai_Name ing) \<noteq> None"
    and "distinct (map pt_GatewayName targets)"
proof -
  have inst: "gq_Instance a = Some config" "gq_AuthState a = []" "gq_Resources a = gq_Resources rr" if "getTemplateData env rr = (res, a)" for res a
    using getTemplateData_quiet [OF that] config start by (simp_all add: reads_only_def keeps_def)
  have wn: "list_all (well_named config) targets"
    unfolding targets by (rule targets_well_named [OF names(2,3)])
  show "auth_state_ok config (gq_AuthState rr') \<and> never_positive (gq_AuthState rr')"
    using run
  proof (cases rule: prepareAuthProxies_cases)
    case unread
    then show ?thesis
      using inst by (simp add: never_positive_def)
  next
    case stopped
    then show ?thesis
      using prepare_targets_state [OF stopped(2) inst(1) [OF stopped(1)] wn] inst(2) [OF stopped(1)] by (simp add: never_positive_def)
  next
    case through
    then show ?thesis
      using prepare_targets_state [OF through(2) inst(1) [OF through(1)] wn] inst(2) [OF through(1)] by (simp add: never_positive_def)
  qed
  show "map_of (gq_AuthState rr') (ai_Name ing) \<noteq> None"
    if e: "err = None" and ing: "ing \<in> set (gs_AdditionalIngresses (gw_Spec config))"
      "mode = AuthModeNone \<or> \<not> additionalIngressHasGatewayConflict (ge_Ops (ae_Gateway env)) config (ai_Name ing)"
    using run
  proof (cases rule: prepareAuthProxies_cases)
    case through
    have "ai_Name ing \<noteq> ''''"
      using names(2) ing(1) by (metis imageI)
    then show ?thesis
      using prepare_targets_recorded [OF through(2) inst(1) [OF through(1)], of "additionalAuthProxyTarget ing config"] ing targets
      by (simp add: isDefault_def additionalAuthProxyTarget_def)
  qed (simp_all add: e)
  have "map pt_GatewayName targets = GetDefaultGatewayName k8s # map ai_Name (gs_AdditionalIngresses (gw_Spec config))"
    by (simp add: targets defaultAuthProxyTarget_def additionalAuthProxyTarget_def)
  then show "distinct (map pt_GatewayName targets)"
    using names by simp
qed

lemma kept_on_failure:
  assumes "map_of (gq_AuthState rr) k = Some (failure_result config mode target e)" "\<not> (mode = AuthModeOIDC \<and> pt_OIDC target = None)"
  shows "list_ex (\<lambda>(_, r). failedPreparation r) (gq_AuthState rr)"
    and "map_of (gcResourceNames target) (ko_GVK u) = Some (ko_Name u) \<Longrightarrow> gatewayAuthResourceCollectable env rr u = Inr False"
proof -
  note mem = map_of_SomeD [OF assms(1)] and failed = failure_result_failed [THEN iffD2, OF assms(2), of config e]
  show "list_ex (\<lambda>(_, r). failedPreparation r) (gq_AuthState rr)"
    using mem failed by (auto simp: list_ex_iff)
  show "gatewayAuthResourceCollectable env rr u = Inr False" if "map_of (gcResourceNames target) (ko_GVK u) = Some (ko_Name u)"
    by (rule gc_exempt [OF mem failed]) (use that in \<open>simp add: failure_result_def auth_result_def\<close>)
qed


section \<open>Properties\<close>

text \<open>
  C13. A pass over the authentication targets of a GatewayConfig never reports authentication as ready, and what it records is in
  order for the status code that reads it. When the pass ends without an error, every additional ingress has a result, unless its Gateway
  belongs to somebody else. When the pass gets through all targets, although the credentials of one of them (whose Gateway is the operator's) could not be
  prepared, then the failure is recorded for that target and the only resources collected for it are its policies. Unless
  the target has no OIDC configuration in OIDC mode, which is recorded as an invalid configuration, the pass ends with a requeue
  after 30 seconds, and none of the target's present objects is left to garbage collection: the running ingress stays as it is.
\<close>

theorem failed_authentication_keeps_stack:
  fixes env :: "('m, 'w) auth_env"
  assumes config: "gq_Instance rr = Some config" "gq_AuthState rr = []"
    and names: "distinct (map ai_Name (gs_AdditionalIngresses (gw_Spec config)))" "'''' \<notin> ingress_names config"
      "GetDefaultGatewayName k8s \<notin> ingress_names config"
    and targets: "targets = defaultAuthProxyTarget k8s hostname config #
      map (\<lambda>ing. additionalAuthProxyTarget ing config) (gs_AdditionalIngresses (gw_Spec config))"
    and run: "prepareAuthProxies env config mode tmpl targets rr = (err, rr')"
  shows "auth_state_ok config (gq_AuthState rr') \<and> never_positive (gq_AuthState rr') \<and>
    (err = None \<longrightarrow> (\<forall>ing\<in>set (gs_AdditionalIngresses (gw_Spec config)).
       mode = AuthModeNone \<or> \<not> additionalIngressHasGatewayConflict (ge_Ops (ae_Gateway env)) config (ai_Name ing) \<longrightarrow>
       map_of (gq_AuthState rr') (ai_Name ing) \<noteq> None)) \<and>
    (\<forall>base rr1 i e. getTemplateData env rr = (Inr base, rr1) \<and>
       prepare_targets env config mode tmpl base (length targets = 1) targets rr1 = (None, rr') \<and> i < length targets \<and>
       (isDefault (targets ! i) \<or> \<not> additionalIngressHasGatewayConflict (ge_Ops (ae_Gateway env)) config (pt_IngressName (targets ! i))) \<and>
       mode \<noteq> AuthModeNone \<and> attempt env config mode tmpl (targets ! i) (reached env config mode tmpl base targets rr1 i) = Inl e \<longrightarrow>
       map_of (gq_AuthState rr') (pt_GatewayName (targets ! i)) = Some (failure_result config mode (targets ! i) e) \<and>
       (\<exists>rs later. gq_Resources (reached env config mode tmpl base targets rr1 (Suc i)) = gq_Resources (reached env config mode tmpl base targets rr1 i) @ rs \<and>
          gq_Resources rr' = gq_Resources (reached env config mode tmpl base targets rr1 (Suc i)) @ later \<and> policies_only env base (targets ! i) rs) \<and>
       (\<not> (mode = AuthModeOIDC \<and> pt_OIDC (targets ! i) = None) \<longrightarrow>
          err = Some (GoError '''' [RequeueAfter (30 * second)]) \<and>
          (\<forall>u. map_of (gcResourceNames (targets ! i)) (ko_GVK u) = Some (ko_Name u) \<longrightarrow> gatewayAuthResourceCollectable env rr' u = Inr False)))"
proof -
  note spec = prepareAuthProxies_spec [OF assms]
  have after: "map_of (gq_AuthState rr') (pt_GatewayName (targets ! i)) = Some (failure_result config mode (targets ! i) e) \<and>
      (\<exists>rs later. gq_Resources (reached env config mode tmpl base targets rr1 (Suc i)) = gq_Resources (reached env config mode tmpl base targets rr1 i) @ rs \<and>
         gq_Resources rr' = gq_Resources (reached env config mode tmpl base targets rr1 (Suc i)) @ later \<and> policies_only env base (targets ! i) rs) \<and>
      (\<not> (mode = AuthModeOIDC \<and> pt_OIDC (targets ! i) = None) \<longrightarrow>
         err = Some (GoError '''' [RequeueAfter (30 * second)]) \<and>
         (\<forall>u. map_of (gcResourceNames (targets ! i)) (ko_GVK u) = Some (ko_Name u) \<longrightarrow> gatewayAuthResourceCollectable env rr' u = Inr False))"
    if t: "getTemplateData env rr = (Inr base, rr1)" "prepare_targets env config mode tmpl base (length targets = 1) targets rr1 = (None, rr')"
      and i: "i < length targets" "isDefault (targets ! i) \<or> \<not> additionalIngressHasGatewayConflict (ge_Ops (ae_Gateway env)) config (pt_IngressName (targets ! i))"
        "mode \<noteq> AuthModeNone" "attempt env config mode tmpl (targets ! i) (reached env config mode tmpl base targets rr1 i) = Inl e" for base rr1 i e
  proof -
    have inst: "gq_Instance rr1 = Some config"
      using getTemplateData_quiet [OF t(1)] config by (simp add: reads_only_def keeps_def)
    note f = failed_targets [OF t(2) inst spec(3) i]
    have "err = (if list_ex (\<lambda>(_, r). failedPreparation r) (gq_AuthState rr') then Some (GoError '''' [RequeueAfter (30 * second)]) else None)"
      using run t by (simp add: prepareAuthProxies_def split: if_splits)
    then show ?thesis
      using f kept_on_failure [OF conjunct1 [OF f]] by auto
  qed
  show ?thesis
    using spec(1,2) after by blast
qed

text \<open>
  C14. Credentials of a proxy: when the Secret of the target already holds a session key, the key that comes out is that one, in every mode that
  has credentials, so a rotated client secret does not end sessions. In OIDC mode the client secret is the one that the
  administrator's Secret holds at this moment, and never empty; in integrated mode the client is the target's own and a stored client secret
  is used again.
\<close>

theorem session_key_survives_rotation:
  fixes env :: "('m, 'w) auth_env"
  assumes run: "getAuthProxySecretValues env mode oidc target rr = (Inr (clientID, client, cookie), rr')"
    and stored: "gk_Secret (ge_Client (ae_Gateway env)) (gateway_ns (ae_Gateway env)) (pt_SecretName target) (gq_World rr) = (Inr s, w)"
    and key: "map_of (sv_Data s) ''OAUTH2_PROXY_COOKIE_SECRET'' = Some key" "key \<noteq> ''''"
  shows "cookie = key \<and> mode \<noteq> AuthModeNone \<and>
    (mode = AuthModeIntegratedOAuth \<longrightarrow>
       clientID = pt_ClientID target \<and> (\<forall>v. map_of (sv_Data s) ''OAUTH2_PROXY_CLIENT_SECRET'' = Some v \<longrightarrow> client = v)) \<and>
    (mode = AuthModeOIDC \<longrightarrow>
       (\<exists>identity supplied w'. oidc = Some identity \<and> clientID = oi_ClientID identity \<and>
          gk_Secret (ge_Client (ae_Gateway env))
            (if oi_SecretNamespace identity = '''' then gateway_ns (ae_Gateway env) else oi_SecretNamespace identity) (oi_SecretName identity) w = (Inr supplied, w') \<and>
          map_of (sv_Data supplied) (if oi_SecretKey identity = '''' then ''clientSecret'' else oi_SecretKey identity) = Some client \<and> client \<noteq> ''''))"
proof -
  let ?rr1 = "rr\<lparr>gq_World := w\<rparr>"
  have first: "ask (gk_Secret (ge_Client (ae_Gateway env)) (gateway_ns (ae_Gateway env)) (pt_SecretName target)) rr = (Inr s, ?rr1)"
    using stored by (simp add: ask_def)
  have cookie: "at_or (sv_Data s) '''' EnvCookieSecret = key"
    using key by (simp add: at_or_def)
  note def = run [unfolded getAuthProxySecretValues_def Let_def first prod.case sum.case if_False cookie]
  show ?thesis
  proof (cases mode)
    case AuthModeNone
    then show ?thesis
      using def key by (auto simp: new_credentials_def split: option.splits)
  next
    case AuthModeIntegratedOAuth
    then show ?thesis
      using def key by (auto simp: new_credentials_def split: option.splits prod.splits sum.splits)
  next
    case AuthModeOIDC
    then obtain rr2 where c: "new_credentials env AuthModeOIDC oidc target ?rr1 = (Inr (clientID, client), rr2)" "cookie = key"
      using def key by (auto split: option.splits prod.splits sum.splits)
    obtain identity where i: "oidc = Some identity" "external_client_secret env identity ?rr1 = (Inr client, rr2)" "clientID = oi_ClientID identity"
      using c(1) by (auto simp: new_credentials_def split: option.splits prod.splits sum.splits)
    obtain supplied w' where "gk_Secret (ge_Client (ae_Gateway env))
            (if oi_SecretNamespace identity = '''' then gateway_ns (ae_Gateway env) else oi_SecretNamespace identity) (oi_SecretName identity) w = (Inr supplied, w')"
      "map_of (sv_Data supplied) (if oi_SecretKey identity = '''' then ''clientSecret'' else oi_SecretKey identity) = Some client" "client \<noteq> ''''"
      using i(2) by (auto simp: external_client_secret_def Let_def ask_def split: prod.splits sum.splits option.splits list.splits)
    then show ?thesis
      using AuthModeOIDC i c(2) by auto
  qed
qed


lemma ask_conditions: "ask call rr = (answer, rr') \<Longrightarrow> gq_Conditions rr' = gq_Conditions rr"
  by (auto simp: ask_def split: prod.splits)

lemma GetFQDN_conditions: "GetFQDN env config rr = (res, rr') \<Longrightarrow> gq_Conditions rr' = gq_Conditions rr"
  by (auto simp: GetFQDN_def GetDomain_def Let_def split: if_splits prod.splits sum.splits dest: ask_conditions)

lemma GetGatewayDomain_conditions: "GetGatewayDomain env rr = (res, rr') \<Longrightarrow> gq_Conditions rr' = gq_Conditions rr"
  by (auto simp: GetGatewayDomain_def split: prod.splits sum.splits option.splits dest!: ask_conditions GetFQDN_conditions)

lemma certificate_conditions: "checkCertManagerCertificate env name rr = (res, rr') \<Longrightarrow> gq_Conditions rr' = gq_Conditions rr"
  by (auto simp: checkCertManagerCertificate_def Let_def split: prod.splits sum.splits option.splits if_splits dest!: ask_conditions)

lemma authentication_conditions: "checkGatewayAuthentication env target rr = (res, rr') \<Longrightarrow> gq_Conditions rr' = gq_Conditions rr"
  by (auto simp: checkGatewayAuthentication_def split: prod.splits sum.splits list.splits if_splits dest!: ask_conditions certificate_conditions)

lemma gateway_certificate_conditions: "gateway_certificate_check env config rr = (res, rr') \<Longrightarrow> gq_Conditions rr' = gq_Conditions rr"
  by (auto simp: gateway_certificate_check_def split: if_splits dest: certificate_conditions)

definition ready_status :: "('m, 'w) gateway_env \<Rightarrow> ('m, 'w) gateway_run \<Rightarrow> string option" where
  "ready_status env rr = map_option cStatus (gm_GetCondition (ge_Marks env) GatewayConfigReady (gq_Conditions rr))"

lemma ready_status_mark:
  "gateway_mark_laws (ge_Marks env) \<Longrightarrow> cType c = GatewayConfigReady \<Longrightarrow> ready_status env (mark env c rr) = Some (cStatus c)"
  by (simp add: ready_status_def mark_def marked_status)

lemma ready_status_not_ready: "gateway_mark_laws (ge_Marks env) \<Longrightarrow> ready_status env (mark env (not_ready message) rr) = Some ConditionFalse"
  by (simp add: ready_status_mark not_ready_def gen_cond_def)

lemma ready_status_cong: "gq_Conditions rr' = gq_Conditions rr \<Longrightarrow> ready_status env rr' = ready_status env rr"
  by (simp add: ready_status_def)

text \<open>
  Evidence, each item read from the world the previous one left. A usable certificate: the first entry of type Ready says True for the present generation of the
  Certificate, and the Secret of that name, read next, holds both halves of the key pair. An available proxy: its Deployment is observed at its
  present generation and has all its replicas, one if it does not say.
\<close>

definition usable_certificate :: "('m, 'w) auth_env \<Rightarrow> string \<Rightarrow> 'w \<Rightarrow> 'w \<Rightarrow> bool" where
  "usable_certificate env name w w' \<longleftrightarrow>
     (\<exists>cert earlier c later v s. ae_Certificate env name w = (Inr cert, v) \<and> xv_Conditions cert = Inr (Some (earlier @ Some c # later)) \<and>
        (\<forall>d. Some d \<in> set earlier \<longrightarrow> xk_type d \<noteq> Some ''Ready'') \<and> xk_type c = Some ''Ready'' \<and> xk_status c = Some ''True'' \<and>
        xk_observedGeneration c = Some (xv_Generation cert) \<and>
        gk_Secret (ge_Client (ae_Gateway env)) (gateway_ns (ae_Gateway env)) name v = (Inr s, w') \<and>
        at_or (sv_Data s) '''' ''tls.crt'' \<noteq> '''' \<and> at_or (sv_Data s) '''' ''tls.key'' \<noteq> '''')"

definition available_proxy :: "('m, 'w) auth_env \<Rightarrow> string \<Rightarrow> 'w \<Rightarrow> 'w \<Rightarrow> bool" where
  "available_proxy env name w w' \<longleftrightarrow>
     (\<exists>d. ae_Deployment env name w = (Inr d, w') \<and> dv_Generation d \<le> dv_ObservedGeneration d \<and>
        (case dv_Replicas d of None \<Rightarrow> 1 | Some n \<Rightarrow> n) \<le> dv_AvailableReplicas d)"

lemma find_split: "find P xs = Some x \<Longrightarrow> \<exists>earlier later. xs = earlier @ x # later \<and> (\<forall>y \<in> set earlier. \<not> P y) \<and> P x"
proof (induction xs)
  case (Cons y ys)
  show ?case
  proof (cases "P y")
    case True
    with Cons.prems show ?thesis by (intro exI [of _ "[]"] exI [of _ ys]) simp
  next
    case False
    with Cons obtain earlier later where "ys = earlier @ x # later" "\<forall>y \<in> set earlier. \<not> P y" "P x" by auto
    with False show ?thesis by (intro exI [of _ "y # earlier"] exI [of _ later]) simp
  qed
qed simp

lemma certificate_message_None:
  assumes "certificate_message generation conditions = None"
  obtains earlier c later where "conditions = Some (earlier @ Some c # later)" "\<forall>d. Some d \<in> set earlier \<longrightarrow> xk_type d \<noteq> Some ''Ready''"
    "xk_type c = Some ''Ready''" "xk_status c = Some ''True''" "xk_observedGeneration c = Some generation"
proof -
  obtain c where c: "Option.bind conditions (find ready_entry) = Some (Some c)" "xk_status c = Some ''True''" "xk_observedGeneration c = Some generation"
    using assms by (auto simp: certificate_message_def split: option.splits if_splits)
  then obtain es where es: "conditions = Some es" "find ready_entry es = Some (Some c)"
    by (cases conditions) auto
  from find_split [OF es(2)] obtain earlier later where
    "es = earlier @ Some c # later" "\<forall>y \<in> set earlier. \<not> ready_entry y" "ready_entry (Some c)" by blast
  then show thesis
    using that [of earlier c later] es(1) c(2,3) by (force simp: ready_entry_def)
qed

lemma checkCertManagerCertificate_usable:
  assumes "checkCertManagerCertificate env name rr = (Inr '''', rr')"
  shows "usable_certificate env name (gq_World rr) (gq_World rr')"
proof -
  obtain answer v where cert: "ae_Certificate env name (gq_World rr) = (answer, v)"
    by fastforce
  obtain cert conditions where c: "answer = Inr cert" "xv_Conditions cert = Inr conditions" "certificate_message (xv_Generation cert) conditions = None"
    using assms cert by (auto simp: checkCertManagerCertificate_def ask_def Let_def split: sum.splits option.splits if_splits)
  obtain answer' w' where secret: "gk_Secret (ge_Client (ae_Gateway env)) (gateway_ns (ae_Gateway env)) name v = (answer', w')"
    by fastforce
  have "\<exists>s. answer' = Inr s \<and> gq_World rr' = w' \<and> at_or (sv_Data s) '''' ''tls.crt'' \<noteq> '''' \<and> at_or (sv_Data s) '''' ''tls.key'' \<noteq> ''''"
    using assms cert c secret by (auto simp: checkCertManagerCertificate_def ask_def Let_def split: sum.splits if_splits)
  moreover obtain earlier e later where "conditions = Some (earlier @ Some e # later)" "\<forall>d. Some d \<in> set earlier \<longrightarrow> xk_type d \<noteq> Some ''Ready''"
    "xk_type e = Some ''Ready''" "xk_status e = Some ''True''" "xk_observedGeneration e = Some (xv_Generation cert)"
    by (rule certificate_message_None [OF c(3)])
  ultimately show ?thesis
    using cert c secret unfolding usable_certificate_def by blast
qed

lemma gateway_certificate_usable:
  assumes "gateway_certificate_check env config rr = (Inr '''', rr')"
  shows "if ge_K8s (ae_Gateway env) \<and> (\<forall>c. gs_Certificate (gw_Spec config) = Some c \<longrightarrow> ct_Type c \<in> {'''', ''SelfSigned''})
    then usable_certificate env (gatewayCertificateSecretName config) (gq_World rr) (gq_World rr') else gq_World rr' = gq_World rr"
  using assms by (auto simp: gateway_certificate_check_def checkCertManagerCertificate_usable split: if_splits option.splits)

lemma authentication_available:
  assumes "checkGatewayAuthentication env target rr = (Inr '''', rr')"
  shows "if ge_K8s (ae_Gateway env) \<and> pt_OIDC target \<noteq> None
    then \<exists>v. usable_certificate env (pt_TLSName target) (gq_World rr) v \<and> available_proxy env (pt_ProxyName target) v (gq_World rr')
    else gq_World rr' = gq_World rr"
proof (cases "ge_K8s (ae_Gateway env) \<and> pt_OIDC target \<noteq> None")
  case True
  then obtain rr1 where cert: "checkCertManagerCertificate env (pt_TLSName target) rr = (Inr '''', rr1)"
    using assms by (auto simp: checkGatewayAuthentication_def split: prod.splits sum.splits list.splits)
  obtain answer w where dep: "ae_Deployment env (pt_ProxyName target) (gq_World rr1) = (answer, w)"
    by fastforce
  have "checkKubeAuthProxyDeployment True (pt_ProxyName target) answer = Inr ''''" "gq_World rr' = w"
    using assms True cert dep by (auto simp: checkGatewayAuthentication_def ask_def)
  then have "available_proxy env (pt_ProxyName target) (gq_World rr1) (gq_World rr')"
    using dep by (auto simp: checkKubeAuthProxyDeployment_ready deployment_available_def available_proxy_def split: sum.splits option.splits)
  with True checkCertManagerCertificate_usable [OF cert] show ?thesis
    by auto
next
  case False
  then show ?thesis
    using assms by (auto simp: checkGatewayAuthentication_def)
qed

text \<open>The end of the action, for a Gateway that was read.\<close>

definition settle :: "('m, 'w) auth_env \<Rightarrow> GatewayConfig \<Rightarrow> gateway_view \<Rightarrow> ('m, 'w) gw_action" where
  "settle env config gateway rr =
     (let g = ae_Gateway env; ready = mark g (gen_cond GatewayConfigReady ConditionTrue 0 ''Ready'' ''Gateway is ready'') in
      case gateway_certificate_check env config rr of
        (Inl err, rr) \<Rightarrow> (Some err, rr)
      | (Inr (c # message), rr) \<Rightarrow> (None, markGatewayNotReady g (c # message) rr)
      | (Inr [], rr) \<Rightarrow>
          (case checkGatewayAuthentication env (defaultAuthProxyTarget (ge_K8s g) '''' config) rr of
             (Inl err, rr) \<Rightarrow> (Some err, rr)
           | (Inr (c # message), rr) \<Rightarrow> (None, markGatewayNotReady g (c # message) rr)
           | (Inr [], rr) \<Rightarrow>
               if \<not> isGatewayReady gateway then (None, mark g (not_ready ''Gateway is not ready'') rr)
               else (None, if ready_status g rr = Some ConditionFalse then rr else ready rr)))"

lemma settle_ready:
  fixes env :: "('m, 'w) auth_env"
  assumes laws: "gateway_mark_laws (ge_Marks (ae_Gateway env))" and before: "ready_status (ae_Gateway env) rr \<noteq> Some ConditionTrue"
    and run: "settle env config gateway rr = (err, rr')" and ready: "ready_status (ae_Gateway env) rr' = Some ConditionTrue"
  obtains c d where "ready_status (ae_Gateway env) rr \<noteq> Some ConditionFalse" "isGatewayReady gateway"
    "gateway_certificate_check env config rr = (Inr '''', c)"
    "checkGatewayAuthentication env (defaultAuthProxyTarget (ge_K8s (ae_Gateway env)) '''' config) c = (Inr '''', d)" "gq_World rr' = gq_World d"
proof -
  let ?g = "ae_Gateway env"
  note fail = ready_status_not_ready [OF laws] and same = ready_status_cong [of _ _ ?g]
  obtain x c where x: "gateway_certificate_check env config rr = (x, c)"
    by fastforce
  have s1: "ready_status ?g c = ready_status ?g rr"
    by (rule same [OF gateway_certificate_conditions [OF x]])
  note step1 = run [unfolded settle_def Let_def x prod.case]
  have x': "x = Inr ''''"
    using step1 s1 before ready fail by (auto simp: markGatewayNotReady_def split: sum.splits list.splits)
  obtain y d where y: "checkGatewayAuthentication env (defaultAuthProxyTarget (ge_K8s ?g) '''' config) c = (y, d)"
    by fastforce
  have s2: "ready_status ?g d = ready_status ?g rr"
    using same [OF authentication_conditions [OF y]] s1 by simp
  note step2 = step1 [unfolded x' sum.case list.case y prod.case]
  have y': "y = Inr ''''"
    using step2 s2 before ready fail by (auto simp: markGatewayNotReady_def split: sum.splits list.splits)
  note step3 = step2 [unfolded y' sum.case list.case]
  have up: "isGatewayReady gateway"
    using step3 ready fail by (auto split: if_splits)
  moreover have "ready_status ?g rr \<noteq> Some ConditionFalse" "gq_World rr' = gq_World d"
    using step3 up ready s2 by (auto simp: mark_def split: if_splits)
  ultimately show thesis
    using that x y x' y' by blast
qed

lemma syncGatewayConfigStatus_settles:
  fixes env :: "('m, 'w) auth_env"
  assumes laws: "gateway_mark_laws (ge_Marks (ae_Gateway env))" and config: "gq_Instance rr = Some config"
    and before: "ready_status (ae_Gateway env) rr \<noteq> Some ConditionTrue"
    and run: "syncGatewayConfigStatus env rr = (err, rr')" and ready: "ready_status (ae_Gateway env) rr' = Some ConditionTrue"
  obtains gateway rr1 where
    "gk_Gateway (ge_Client (ae_Gateway env)) (GetDefaultGatewayName (ge_K8s (ae_Gateway env))) (gq_World (snd (GetGatewayDomain (ae_Gateway env) rr))) =
       (Inr gateway, gq_World rr1)"
    "ready_status (ae_Gateway env) rr1 = ready_status (ae_Gateway env) rr" "settle env config gateway rr1 = (err, rr')"
proof -
  let ?g = "ae_Gateway env"
  note fail = ready_status_not_ready [OF laws] and same = ready_status_cong [of _ _ ?g]
  have accepted: "rejectUnsupportedKubernetesGatewaySpec ?g config rr = (False, rr)"
  proof (rule ccontr)
    assume "\<not> ?thesis"
    then have "rr' = mark ?g (not_ready (strings_Join (KubernetesValidationErrors (gw_Spec config)) ''; '')) rr"
      using run config by (auto simp: syncGatewayConfigStatus_def validateGatewayConfig_def rejectUnsupportedKubernetesGatewaySpec_def not_ready_def Let_def split: if_splits)
    then show False
      using ready fail by simp
  qed
  obtain dom rr1 where dom: "GetGatewayDomain ?g rr = (dom, rr1)"
    by fastforce
  have s1: "ready_status ?g (rr1\<lparr>gq_Instance := i\<rparr>) = ready_status ?g rr" "ready_status ?g rr1 = ready_status ?g rr" for i
    using GetGatewayDomain_conditions [OF dom] by (auto intro!: same)
  note step1 = run [unfolded syncGatewayConfigStatus_def validateGatewayConfig_def config option.case sum.case Let_def accepted prod.case bool.case dom]
  obtain domain where domain: "dom = Inr domain"
    using step1 s1 before ready by (cases dom) (auto split: domain_error.splits)
  let ?rr2 = "rr1\<lparr>gq_Instance := Some (config\<lparr>gw_Domain := domain\<rparr>)\<rparr>"
  obtain ans rr3 where ans: "ask (gk_Gateway (ge_Client ?g) (GetDefaultGatewayName (ge_K8s ?g))) ?rr2 = (ans, rr3)"
    by fastforce
  have s3: "ready_status ?g rr3 = ready_status ?g rr"
    using same [OF ask_conditions [OF ans]] s1 by simp
  note step2 = step1 [unfolded domain sum.case prod.case ans]
  obtain gateway where gateway: "ans = Inr gateway"
    using step2 s3 before ready fail by (cases ans) (auto split: if_splits)
  have tail: "(case gm_GetCondition (ge_Marks ?g) GatewayConfigReady (gq_Conditions b) of
      Some c \<Rightarrow> if cStatus c = ConditionFalse then b else r | None \<Rightarrow> r) = (if ready_status ?g b = Some ConditionFalse then b else r)" for b r
    by (simp add: ready_status_def split: option.split)
  show thesis
  proof (rule that [OF _ s3])
    show "gk_Gateway (ge_Client ?g) (GetDefaultGatewayName (ge_K8s ?g)) (gq_World (snd (GetGatewayDomain ?g rr))) = (Inr gateway, gq_World rr3)"
      using ans dom gateway by (auto simp: ask_def split: prod.splits)
    show "settle env config gateway rr3 = (err, rr')"
      using step2 unfolding gateway sum.case settle_def Let_def tail .
  qed
qed

text \<open>
  C17. The status action turns the Ready condition of a GatewayConfig to True only on evidence read in this pass, after the domain was found: the default Gateway
  is accepted; on Kubernetes, where its certificate is made by the operator, that certificate is issued for its present generation and its Secret holds both
  halves of the key pair; and on Kubernetes with OIDC, the same holds for the certificate of the proxy, and the Deployment of the proxy is available at its present
  generation. These are the last reads of the action. A Ready condition that is False before the action is not overruled.
\<close>

theorem gateway_ready_needs_evidence:
  fixes env :: "('m, 'w) auth_env"
  assumes "gateway_mark_laws (ge_Marks (ae_Gateway env))" "gq_Instance rr = Some config"
    and "ready_status (ae_Gateway env) rr \<noteq> Some ConditionTrue"
    and "syncGatewayConfigStatus env rr = (err, rr')" "ready_status (ae_Gateway env) rr' = Some ConditionTrue"
  shows "ready_status (ae_Gateway env) rr \<noteq> Some ConditionFalse \<and>
    (\<exists>gateway w1 w2.
       gk_Gateway (ge_Client (ae_Gateway env)) (GetDefaultGatewayName (ge_K8s (ae_Gateway env))) (gq_World (snd (GetGatewayDomain (ae_Gateway env) rr))) = (Inr gateway, w1) \<and>
       (''Accepted'', ''True'') \<in> set (gv_Conditions gateway) \<and>
       (if ge_K8s (ae_Gateway env) \<and> (\<forall>c. gs_Certificate (gw_Spec config) = Some c \<longrightarrow> ct_Type c \<in> {'''', ''SelfSigned''})
        then usable_certificate env (gatewayCertificateSecretName config) w1 w2 else w2 = w1) \<and>
       (if ge_K8s (ae_Gateway env) \<and> gs_OIDC (gw_Spec config) \<noteq> None
        then \<exists>v. usable_certificate env ''kube-auth-proxy-tls'' w2 v \<and> available_proxy env ''kube-auth-proxy'' v (gq_World rr')
        else gq_World rr' = w2))"
proof -
  let ?g = "ae_Gateway env" and ?target = "defaultAuthProxyTarget (ge_K8s (ae_Gateway env)) '''' config"
  obtain gateway rr1 where g: "gk_Gateway (ge_Client ?g) (GetDefaultGatewayName (ge_K8s ?g)) (gq_World (snd (GetGatewayDomain ?g rr))) = (Inr gateway, gq_World rr1)"
    and same: "ready_status ?g rr1 = ready_status ?g rr" and tail: "settle env config gateway rr1 = (err, rr')"
    by (rule syncGatewayConfigStatus_settles [OF assms])
  obtain c d where checks: "ready_status ?g rr1 \<noteq> Some ConditionFalse" "isGatewayReady gateway" "gateway_certificate_check env config rr1 = (Inr '''', c)"
    "checkGatewayAuthentication env ?target c = (Inr '''', d)" "gq_World rr' = gq_World d"
    using settle_ready [OF assms(1) _ tail assms(5)] assms(3) unfolding same by blast
  have "(''Accepted'', ''True'') \<in> set (gv_Conditions gateway)"
    using checks(2) by (auto simp: isGatewayReady_def list_ex_iff)
  moreover have "pt_OIDC ?target = gs_OIDC (gw_Spec config)" "pt_TLSName ?target = ''kube-auth-proxy-tls''" "pt_ProxyName ?target = ''kube-auth-proxy''"
    by (simp_all add: defaultAuthProxyTarget_def)
  note proxy = authentication_available [OF checks(4), unfolded this, folded checks(5)]
  ultimately show ?thesis
    using checks(1) same g gateway_certificate_usable [OF checks(3)] proxy by metis
qed


section \<open>Witnesses\<close>

text \<open>
  Integrated authentication on OpenShift. The Secret of ingress \<open>a\<close> belongs to somebody else; those of the default Gateway and of ingress
  \<open>b\<close> are written. The renderer turns each template into one resource.
\<close>

definition demo_auth_client :: "demo_world gateway_client" where
  "demo_auth_client = demo_gateway_client\<lparr>gk_AuthenticationType := (\<lambda>w. (Inr ''IntegratedOAuth'', w))\<rparr>"

definition demo_auth_env :: "(gen_condition list, demo_world) auth_env" where
  "demo_auth_env =
     \<lparr>ae_Gateway = demo_gateway_env\<lparr>ge_Client := demo_auth_client\<rparr>,
      ae_CreateOrUpdate = (\<lambda>ns n new f w. (f new, w)),
      ae_SetControllerReference = (\<lambda>c s. if map_of (sv_Data s) EnvClientID = Some (AuthClientID @ ''-a'') then Inl (GoError ''already owned'' [AlreadyOwned]) else Inr s),
      ae_NewSecret = (\<lambda>n w. (Inr (replicate n (CHR ''x'')), w)), ae_Hash = (\<lambda>s. s),
      ae_Render = (\<lambda>ts data rs. Inr (rs @ map (\<lambda>t. Rendered_res t '''') ts)),
      ae_TLSProfile = (\<lambda>w. (Inr (''TLS1.2'', '''', ''''), w)), ae_RedirectConfig = Inr '''',
      ae_Certificate = (\<lambda>n. no_such), ae_Deployment = (\<lambda>n. no_such), ae_DefaultPredicate = (\<lambda>rr u. Inr True)\<rparr>"

definition demo_targets :: "authProxyTarget list" where
  "demo_targets = defaultAuthProxyTarget False ''gw.example'' demo_gateway_config #
     map (\<lambda>ing. additionalAuthProxyTarget ing demo_gateway_config) (gs_AdditionalIngresses (gw_Spec demo_gateway_config))"

definition demo_auth_start :: "(gen_condition list, demo_world) gateway_run" where
  "demo_auth_start = (demo_run \<lparr>dw_Objects = [], dw_Gateways = []\<rparr>)\<lparr>gq_TemplateData := Some []\<rparr>"

definition demo_auth_run :: "go_error option \<times> (gen_condition list, demo_world) gateway_run" where
  "demo_auth_run = prepareAuthProxies demo_auth_env demo_gateway_config AuthModeIntegratedOAuth ''deployment.yaml'' demo_targets demo_auth_start"

definition proxy_deployment :: "string \<Rightarrow> k8s_object" where
  "proxy_deployment n =
     \<lparr>ko_GVK = apps_Deployment_gvk, ko_Namespace = ''openshift-ingress'', ko_Name = n, ko_Annotations = [], ko_Labels = [], ko_Owners = [],
      ko_Deleting = False\<rparr>"

lemma demo_auth_start_fields: "gq_Instance demo_auth_start = Some demo_gateway_config" "gq_AuthState demo_auth_start = []"
  by (simp_all add: demo_auth_start_def)

definition demo_reached :: "nat \<Rightarrow> (gen_condition list, demo_world) gateway_run" where
  "demo_reached i = (case getTemplateData demo_auth_env demo_auth_start of
     (Inr base, rr1) \<Rightarrow> reached demo_auth_env demo_gateway_config AuthModeIntegratedOAuth ''deployment.yaml'' base demo_targets rr1 i
   | (Inl _, rr1) \<Rightarrow> rr1)"

lemma demo_auth_failure:
  "case getTemplateData demo_auth_env demo_auth_start of
     (Inr base, rr1) \<Rightarrow> fst (prepare_targets demo_auth_env demo_gateway_config AuthModeIntegratedOAuth ''deployment.yaml'' base (length demo_targets = 1) demo_targets rr1) = None
   | (Inl _, rr1) \<Rightarrow> False"
  "isl (attempt demo_auth_env demo_gateway_config AuthModeIntegratedOAuth ''deployment.yaml'' (demo_targets ! 1) (demo_reached 1))"
  "1 < length demo_targets" "pt_GatewayName (demo_targets ! 1) = ''a''"
  "\<not> additionalIngressHasGatewayConflict (ge_Ops (ae_Gateway demo_auth_env)) demo_gateway_config (pt_IngressName (demo_targets ! 1))"
  "map_of (gcResourceNames (demo_targets ! 1)) (ko_GVK (proxy_deployment ''kube-auth-proxy-a'')) = Some (ko_Name (proxy_deployment ''kube-auth-proxy-a''))"
  "gatewayAuthResourceCollectable demo_auth_env (snd demo_auth_run) (proxy_deployment ''kube-auth-proxy-b'') = Inr True"
  by code_simp+

theorem failed_authentication_keeps_stack_witness:
  "fst demo_auth_run = Some (GoError '''' [RequeueAfter (30 * second)]) \<and> never_positive (gq_AuthState (snd demo_auth_run)) \<and>
   (\<exists>e. map_of (gq_AuthState (snd demo_auth_run)) ''a'' = Some (failure_result demo_gateway_config AuthModeIntegratedOAuth (demo_targets ! 1) e)) \<and>
   gatewayAuthResourceCollectable demo_auth_env (snd demo_auth_run) (proxy_deployment ''kube-auth-proxy-a'') = Inr False \<and>
   gatewayAuthResourceCollectable demo_auth_env (snd demo_auth_run) (proxy_deployment ''kube-auth-proxy-b'') = Inr True"
proof -
  let ?env = demo_auth_env and ?config = demo_gateway_config and ?tmpl = "''deployment.yaml''"
  have run: "prepareAuthProxies ?env ?config AuthModeIntegratedOAuth ?tmpl demo_targets demo_auth_start = (fst demo_auth_run, snd demo_auth_run)"
    by (simp add: demo_auth_run_def)
  have names: "distinct (map ai_Name (gs_AdditionalIngresses (gw_Spec ?config)))" "'''' \<notin> ingress_names ?config"
    "GetDefaultGatewayName False \<notin> ingress_names ?config"
    by (simp_all add: demo_gateway_config_def example_gateway_def GetDefaultGatewayName_def)
  obtain base rr1 where t: "getTemplateData ?env demo_auth_start = (Inr base, rr1)"
    "fst (prepare_targets ?env ?config AuthModeIntegratedOAuth ?tmpl base (length demo_targets = 1) demo_targets rr1) = None"
    using demo_auth_failure(1) by (auto split: prod.splits sum.splits)
  then have through: "prepare_targets ?env ?config AuthModeIntegratedOAuth ?tmpl base (length demo_targets = 1) demo_targets rr1 = (None, snd demo_auth_run)"
    by (cases "prepare_targets ?env ?config AuthModeIntegratedOAuth ?tmpl base (length demo_targets = 1) demo_targets rr1")
      (simp add: demo_auth_run_def prepareAuthProxies_def)
  have "demo_reached 1 = reached ?env ?config AuthModeIntegratedOAuth ?tmpl base demo_targets rr1 1"
    by (simp add: demo_reached_def t(1))
  then obtain e where "attempt ?env ?config AuthModeIntegratedOAuth ?tmpl (demo_targets ! 1) (reached ?env ?config AuthModeIntegratedOAuth ?tmpl base demo_targets rr1 1) = Inl e"
    using demo_auth_failure(2) by (auto simp: isl_def)
  note failed = conjI [OF t(1) conjI [OF through conjI [OF demo_auth_failure(3) conjI [OF disjI2 [OF demo_auth_failure(5)] conjI [OF AuthenticationMode.distinct(3) this]]]]]
  note spec = failed_authentication_keeps_stack [OF demo_auth_start_fields names demo_targets_def run]
  note here = spec [THEN conjunct2, THEN conjunct2, THEN conjunct2, rule_format, OF failed]
  show ?thesis
    using here spec demo_auth_failure(4,6,7) by auto
qed

text \<open>The Secret holds a session key and an old client secret; the administrator has put a new client secret into \<open>oidc\<close>.\<close>

definition rotated_env :: "(gen_condition list, demo_world) auth_env" where
  "rotated_env = demo_auth_env\<lparr>ae_Gateway := demo_gateway_env\<lparr>ge_Client := demo_auth_client\<lparr>gk_Secret := (\<lambda>ns n w.
     if n = ''kube-auth-proxy-creds'' then
       (Inr \<lparr>sv_Data = [(EnvClientSecret, ''old''), (EnvCookieSecret, ''session'')], sv_Type = '''', sv_Labels = [], sv_Controller = None\<rparr>, w)
     else if n = ''oidc'' then (Inr \<lparr>sv_Data = [(''clientSecret'', ''new'')], sv_Type = '''', sv_Labels = [], sv_Controller = None\<rparr>, w)
     else no_such w)\<rparr>\<rparr>\<rparr>"

definition demo_oidc :: OIDCConfig where
  "demo_oidc = \<lparr>oi_ClientID = ''client'', oi_SecretName = ''oidc'', oi_SecretKey = '''', oi_SecretNamespace = '''', oc_IssuerURL = ''https://issuer'',
     oc_Scope = '''', oc_PassAccessToken = False, oc_SkipClaimsFromProfileURL = False\<rparr>"


definition demo_rotation :: "(go_error + string \<times> string \<times> string) \<times> (gen_condition list, demo_world) gateway_run" where
  "demo_rotation = getAuthProxySecretValues rotated_env AuthModeOIDC (Some demo_oidc) (defaultAuthProxyTarget False ''gw.example'' demo_gateway_config) demo_auth_start"

lemma demo_rotation_value: "fst demo_rotation = Inr (''client'', ''new'', ''session'')"
  by code_simp

theorem session_key_survives_rotation_witness:
  "\<exists>clientID client. fst demo_rotation = Inr (clientID, client, ''session'') \<and> clientID = ''client'' \<and> client = ''new''"
proof -
  have run: "getAuthProxySecretValues rotated_env AuthModeOIDC (Some demo_oidc) (defaultAuthProxyTarget False ''gw.example'' demo_gateway_config) demo_auth_start =
      (Inr (''client'', ''new'', ''session''), snd demo_rotation)"
    using demo_rotation_value by (simp add: demo_rotation_def prod_eq_iff)
  have stored: "gk_Secret (ge_Client (ae_Gateway rotated_env)) (gateway_ns (ae_Gateway rotated_env))
      (pt_SecretName (defaultAuthProxyTarget False ''gw.example'' demo_gateway_config)) (gq_World demo_auth_start) =
      (Inr \<lparr>sv_Data = [(EnvClientSecret, ''old''), (EnvCookieSecret, ''session'')], sv_Type = '''', sv_Labels = [], sv_Controller = None\<rparr>, gq_World demo_auth_start)"
    by (simp add: rotated_env_def defaultAuthProxyTarget_def)
  show ?thesis
    using session_key_survives_rotation [OF run stored] demo_rotation_value by simp
qed

text \<open>
  Kubernetes with OIDC and the operator's own certificates: the default Gateway is up, both certificates are issued for generation 2, their Secrets are there, and the
  Deployment of the proxy is available; nothing was marked before.
\<close>

definition kubernetes_env :: "(gen_condition list, demo_world) auth_env" where
  "kubernetes_env = demo_auth_env\<lparr>
     ae_Gateway := demo_gateway_env\<lparr>ge_K8s := True, ge_Client := demo_auth_client\<lparr>gk_Secret := (\<lambda>ns n w.
       (Inr \<lparr>sv_Data = [(''tls.crt'', ''crt''), (''tls.key'', ''key'')], sv_Type = '''', sv_Labels = [], sv_Controller = None\<rparr>, w))\<rparr>\<rparr>,
     ae_Certificate := (\<lambda>n w. (Inr \<lparr>xv_Generation = 2, xv_Conditions = Inr (Some [None,
       Some \<lparr>xk_type = Some ''Ready'', xk_status = Some ''True'', xk_observedGeneration = Some 2, xk_message = None, xk_reason = None\<rparr>])\<rparr>, w)),
     ae_Deployment := (\<lambda>n w. (Inr \<lparr>dv_Generation = 1, dv_ObservedGeneration = 1, dv_Replicas = None, dv_AvailableReplicas = 1\<rparr>, w))\<rparr>"

definition kubernetes_config :: GatewayConfig where
  "kubernetes_config = demo_gateway_config\<lparr>gw_Spec := example_gateway\<lparr>gs_IngressMode := ''LoadBalancer'', gs_OIDC := Some demo_oidc\<rparr>\<rparr>"

definition ready_start :: "(gen_condition list, demo_world) gateway_run" where
  "ready_start = (demo_run \<lparr>dw_Objects = [], dw_Gateways = [(GetDefaultGatewayName True,
     \<lparr>gv_Controller = None, gv_Conditions = [(''Accepted'', ''True'')], gv_Listeners = [(''https'', Some ''gw.example'')], gv_ParametersRef = True\<rparr>)]\<rparr>)
     \<lparr>gq_Instance := Some kubernetes_config\<rparr>"

definition demo_status_run :: "go_error option \<times> (gen_condition list, demo_world) gateway_run" where
  "demo_status_run = syncGatewayConfigStatus kubernetes_env ready_start"

lemma demo_status_ready: "ready_status (ae_Gateway kubernetes_env) (snd demo_status_run) = Some ''True''"
  by code_simp

theorem gateway_ready_needs_evidence_witness:
  "ready_status (ae_Gateway kubernetes_env) (snd demo_status_run) = Some ''True'' \<and>
   (\<exists>w1 w2 v. usable_certificate kubernetes_env ''default-gateway-tls'' w1 w2 \<and> usable_certificate kubernetes_env ''kube-auth-proxy-tls'' w2 v \<and>
      available_proxy kubernetes_env ''kube-auth-proxy'' v (gq_World (snd demo_status_run)))"
proof -
  have run: "syncGatewayConfigStatus kubernetes_env ready_start = (fst demo_status_run, snd demo_status_run)"
    by (simp add: demo_status_run_def)
  have laws: "gateway_mark_laws (ge_Marks (ae_Gateway kubernetes_env))"
    using plain_marks_laws by (simp add: kubernetes_env_def demo_gateway_env_def)
  have start: "gq_Instance ready_start = Some kubernetes_config" "ready_status (ae_Gateway kubernetes_env) ready_start \<noteq> Some ''True''"
    by (simp_all add: ready_start_def) (simp add: demo_run_def ready_status_def kubernetes_env_def demo_gateway_env_def plain_marks_def)
  have "ge_K8s (ae_Gateway kubernetes_env)" "gs_Certificate (gw_Spec kubernetes_config) = None" "gs_OIDC (gw_Spec kubernetes_config) \<noteq> None"
    "gatewayCertificateSecretName kubernetes_config = ''default-gateway-tls''"
    by (simp_all add: kubernetes_env_def kubernetes_config_def example_gateway_def demo_gateway_config_def gatewayCertificateSecretName_def)
  then show ?thesis
    using gateway_ready_needs_evidence [OF laws start run demo_status_ready] demo_status_ready by auto
qed

end
