(* ===== verification/Spec2Isabelle.thy ===== *)
theory Spec2Isabelle
  imports Gating Gates Precondition Startup Module_Base Platform Module_Lifecycle Module_Status Gateway_Validation Failure_Classifier Module_Resources Hardware_Profile
    Serving_Connection Storage_Migration DSC_Controller Cloud_Manager Gateway_Auth
begin

text \<open>
  A verification library for the Open Data Hub operator (rhods-operator). The operator is a set of
  Kubernetes controllers and admission webhooks: a DataScienceCluster (DSC) and a DSCInitialization say which
  components and modules should run; controllers bring them up along runlevels, gate upgrades, and write back
  status; webhooks validate, default, convert and mutate the objects users submit. The library models the parts
  that decide something, function by function, and leaves out the parts that only pass data on.

  \<^bold>\<open>The parts and how they interact.\<close> At startup \<open>cmd/main.go\<close> fills three registries: components, modules, and a
  unified registry of nodes with runlevels. On every reconcile a controller resolves the unified registry into
  batches (one per runlevel, ascending), walks them, and hands a batch over only when the batches before it are ready
  or overdue; the readiness comes from the component and module registries, the outcome goes into a runlevel tracker, which
  preconditions of other controllers read. Upgrade gates stop the walk until an administrator acknowledges them. The DSC and
  DSCI controllers project the enabled modules into one shared Platform CR; the platform controller reads it, renders module
  operators, injects their environment and ConfigMaps, cleans up modules that were turned off, and reports module status.
  A gateway service puts a Gateway with an authentication proxy in front of the platform, for the default host name and for additional
  ingresses; on cloud clusters without OpenShift a cloud manager installs the dependencies as charts and takes them away again.
  In front of all this stand the webhooks: the conversion between the served versions of the DSC, its validation and
  defaulting, and the checks and mutations of gateway configurations and serving workloads.

  \<^bold>\<open>Theories and sources\<close> (paths under \<open>src/\<close>).
  \<^item> \<open>Prelude\<close>: errors, conditions, strings, Go maps; the conventions all theories share. \<open>Registry_Common\<close>: what the two
    handler registries share. \<open>Unstructured\<close>: object trees and the field helpers (\<open>pkg/webhook/utils.go\<close>). \<open>Webhook_Common\<close>:
    requests and responses of mutating webhooks, and the interface \<open>workload_api\<close>.
  \<^item> \<open>Dag\<close> (\<open>pkg/controller/dag\<close>), \<open>Provision\<close> (\<open>provision/unified.go\<close>, \<open>runlevel_tracker.go\<close>), \<open>Gating\<close>
    (\<open>provision/gating.go\<close>): graphs, batches, the registry with its cache, and the walk.
  \<^item> \<open>Gates\<close> (\<open>pkg/controller/gates\<close>, \<open>provision/gates_action.go\<close>), \<open>Monitor\<close> (\<open>pkg/controller/monitor\<close>), \<open>Precondition\<close>
    (\<open>pkg/controller/precondition\<close>): upgrade gates, health checks, preconditions.
  \<^item> \<open>Component_Registry\<close> (\<open>internal/controller/components/registry\<close>), \<open>Module_Types\<close>, \<open>Module_Registry\<close>
    (\<open>internal/controller/modules\<close>), \<open>Startup\<close> (registration in \<open>cmd/main.go\<close>).
  \<^item> \<open>Module_Base\<close> (\<open>modules/base.go\<close>), \<open>Platform\<close>, \<open>Module_Lifecycle\<close>, \<open>Module_Status\<close>
    (\<open>modules/modules_controller_actions.go\<close>, \<open>otel_namespace.go\<close>), \<open>Module_Resources\<close> (\<open>..._inject_env.go\<close>, \<open>..._platform_config.go\<close>).
  \<^item> \<open>DSC_Conditions\<close>, \<open>DSC_Conversion\<close> (\<open>api/datasciencecluster\<close>), \<open>Admission\<close> (the DSC, DSCI and deprecation webhooks),
    \<open>Gateway_Validation\<close> (\<open>internal/webhook/gateway\<close>, \<open>pkg/gatewayconfig\<close>), \<open>Hardware_Profile\<close>
    (\<open>internal/webhook/hardwareprofile\<close>), \<open>Serving_Connection\<close> (\<open>internal/webhook/serving\<close>, \<open>pkg/webhook/utils.go\<close>).
  \<^item> \<open>DSC_Controller\<close> (\<open>internal/controller/datasciencecluster\<close>): the actions of the controller of the DSC, on top of the
    registries, the walk and the Platform CR. \<open>Storage_Migration\<close> (\<open>pkg/storagemigration\<close>): the migration of stored objects
    that precedes a release which drops an old storage version.
  \<^item> \<open>Kube_Client\<close>: objects, and an API client over a changing world with a trace of its calls. \<open>Cloud_Charts\<close>
    (\<open>internal/controller/cloudmanager/common\<close>, \<open>api/cloudmanager/common\<close>), \<open>Cloud_Manager\<close> (\<open>pkg/controller/cloudmanager\<close>,
    \<open>pkg/controller/actions/cleanup\<close>): which charts are installed, and the two-pass cleanup, garbage collection and monitoring of them.
  \<^item> \<open>Gateway_Status\<close>, \<open>Gateway_Infra\<close>, \<open>Gateway_Auth\<close> (\<open>internal/controller/services/gateway\<close>, with the functions they call in
    \<open>pkg/cluster\<close>): the status of additional ingresses; host names, Gateways, Routes, certificates and redirects; the authentication
    proxies with their credentials, template data and readiness.
  \<^item> \<open>Failure_Classifier\<close> (\<open>pkg/failureclassifier\<close> on the report types of \<open>pkg/clusterhealth\<close>).

  \<^bold>\<open>How code becomes definitions.\<close> A struct is a \<open>record\<close>, a function a \<open>definition\<close> or \<open>fun\<close> of the same name; a loop body or
  closure that needs a name of its own gets one, and the map of the manifest gives its lines. A method that changes its
  receiver returns the new value; a function that can fail returns a sum with the error on the left; a handler that collects errors
  returns their list. Calls to the cluster are observations: functions given as parameters, indexed by the number of the call where
  the code may see different answers, and writes are returned as lists. In the cloud manager and the gateway service the cluster is a
  world that every call may change (\<open>kube\<close> with its trace, \<open>gateway_run\<close> with the list of its writes); the request of the framework
  is a record that each action takes and returns. The copy of the request that the code makes for one authentication target is
  \<open>own_copy\<close>, and \<open>merge_back\<close> says which of its fields are shared. Go maps are association lists whose order stands for
  the unspecified iteration order of that run. Log calls and metrics are dropped. Code in builds with the tag \<open>nowebhook\<close> is the
  absence of the webhooks. The zero value of a severity is kept apart from the named severities; the classifier reads the clock once.
  Concurrency is modelled where the code handles it: the registry's cached resolution is a step relation over interleaved
  readers and writers (\<open>reg_step\<close>).

  \<^bold>\<open>Parameters and hypotheses.\<close> Code that is not part of the repository is a parameter with documented behaviour as
  hypothesis: the API client, the JSON codec (\<open>marshal\<close>/\<open>unmarshal\<close> inverses in the conversion), PEM and X.509 parsing (a decoded
  block consumes input), \<open>strings.ToLower\<close>, the DNS name checks, the quantity library, the conversion of a typed value to a tree, and the
  helpers on nested fields (\<open>slice_laws\<close>, \<open>string_map_laws\<close>, \<open>api_laws\<close>; \<open>tree_api\<close> shows that the last can hold). The storage migration
  takes the hash that names a request and the polling helper of the API machinery (\<open>poll_laws\<close>: a poll returns what the first
  decisive attempt returned, or the error of its context; \<open>poll_upto\<close>, a bounded poll, satisfies them). The cloud manager relies on a
  client that answers with the kind it was asked for (\<open>get_keeps_kind\<close>) and on the condition manager (\<open>condition_laws\<close>); that cleanup
  completes is stated for a cluster that carries out deletions and answers reads (\<open>cooperative\<close>). The gateway service takes the
  condition helpers (\<open>condition_list_laws\<close>, \<open>gateway_mark_laws\<close>: setting a condition changes that one and no other), the template engine,
  the create-or-update helper, the random generator, the hash and the TLS profile of the API server, the last five without a hypothesis. Each
  property with such a hypothesis has a witness on a concrete instance.

  \<^bold>\<open>Interfaces.\<close> \<open>readiness\<close> and \<open>readiness_pair\<close> (\<open>Dag\<close>) state what the walk needs from a readiness checker, interpreted for the
  component, module and composite checkers; \<open>batch_registry\<close> and \<open>invalidatable_registry\<close> (\<open>Provision\<close>) what a caching registry
  promises, interpreted for the three registries; \<open>workload_api\<close> (\<open>Webhook_Common\<close>) what the webhooks rely on in the field helpers.

  \<^bold>\<open>What the lemmas show.\<close>
  \<^item> Walk, with gating on: a batch is handed over only if all earlier ones were observed ready, or the clock and the stuck tracker showed that
    the wait had lasted the runlevel's timeout (\<open>given_up\<close>); what is processed is a prefix in order;
    the progress condition, the requeue delay and the cleared runlevels agree with that; overdue runlevels advance.
  \<^item> Registries: batches are sorted by runlevel and hold exactly the enabled nodes; every read equals a fresh resolution, in every
    interleaving; teardown order mirrors provisioning; the three registries agree after startup.
  \<^item> Gates, checks, preconditions: acknowledgements survive, missing information blocks, a positive verdict needs evidence (gates
    described as \<open>true\<close> excepted, which pass).
  \<^item> Modules: cleanup removes an operator only after its CR is gone, the finalizer waits for all CRs, provisioning and cleanup never meet,
    status and ConfigMaps reflect the handlers; deletion stays within what the handler renders.
  \<^item> DSC controller: what is deleted are exactly the CRs of disabled components and modules that the DSC owns, what is
    created belongs to enabled ones, and the readiness it reports is that of its enabled components.
  \<^item> Storage migration: the stored versions of a CRD are pruned only after every object was migrated, requests are deleted only after
    that, a run completes on a cluster that serves one of the migration APIs, creates or holds the request and reports its success, and every
    failure is reported once.
  \<^item> DSC: conversion to the stored version is well formed, fails exactly on malformed markers, and a rewrite through the older version
    keeps the newer fields; defaulting commutes with conversion; validators admit what the comments promise.
  \<^item> Webhooks on workloads: a hardware profile is applied as an abstract operation on the scheduling settings (a refinement), can be
    taken out again where it shares nothing with the workload's own settings, and never blocks admission because of container names;
    serving connections follow the change of the annotation and leave a service account of the user's own in place.
  \<^item> Cloud manager: access control objects outlive the workloads that need them, also when a pass over charts that hold them is put off, cleanup completes on a
    cooperative cluster, charts follow the policy, and readiness of the dependencies needs evidence.
  \<^item> Gateway service: an object of another owner is neither taken over nor deleted; a change of the ingress mode settles; the Routes handed over
    pass the check made of them later; readiness, of the default Gateway and of additional ones, needs evidence of this pass, down to
    the generations of certificates and Deployments; a target whose credentials fail keeps its running objects and is retried, unless its
    configuration is invalid; session keys survive the rotation of client
    secrets; the Secrets that are read are watched.
  \<^item> Classifier and gateway validation: the infrastructure is blamed exactly on the listed kinds of trouble (operator containers that ended with
    \<open>Completed\<close>, on which the code departs from its comments, are excluded); admission accepts exactly the valid ingresses.

  \<^bold>\<open>Bounds and fuel.\<close> Everything is total. Loops are structural or have a measure; the one \<open>partial_function\<close>
  (\<open>bundle_loop\<close>, the CA bundle loop) is proved to return for every decoder that consumes input. \<open>RetryOnConflict\<close> has the five
  steps of the client library. Integers that the code bounds by configuration only (durations, runlevels) are mathematical integers: the
  code adds no overflow handling and its inputs are hours and small constants.

  \<^bold>\<open>Not modelled.\<close> The generic reconciler, the condition manager and the deploy, garbage collection and render
  actions are thin aliases of a library outside the repository. The controllers of single components and of the services besides the gateway
  (dashboard, kserve, auth, monitoring, certificates, setup) are wiring of such actions with template data, and so is the construction of
  the reconcilers, of the gateway service and of the cloud manager, with their watches. The collection of cluster health reports, the rest of \<open>pkg/cluster\<close>,
  the DSCInitialization controller and the upgrade jobs are sequences of API calls; the construction of the queues of Kueue, the certificate
  bootstrap, the event predicates and the scope rules are left out. The command line tools (\<open>cmd/manifest-tools\<close>, \<open>cmd/test-retry\<close>) are
  not part of the operator; deep copies are generated.
\<close>

end
